(* ===== verification/Rust_Prelude.thy ===== *)
theory Rust_Prelude
  imports Main "HOL-Library.Word" "HOL-Library.AList"
begin

text \<open>
  Shared vocabulary of the development: the machine integers of the Rust sources, the two
  ways a Rust call can fail (a panic, and an error value returned as \<open>Err\<close>), the composition
  of such calls, big-endian byte strings, and the insertion-ordered map that models
  \<^verbatim>\<open>common::IndexMap\<close>.  The lemma collections \<open>rust_simps\<close> and \<open>rust_defs\<close> carry the
  proofs of the component theories.
\<close>

unbundle bit_operations_syntax

named_theorems rust_simps \<open>unfolding of the failure-handling combinators\<close>
named_theorems rust_defs \<open>definitions of small helper operations\<close>

section \<open>Machine integers\<close>

type_synonym u8 = "8 word"
type_synonym u16 = "16 word"
type_synonym u32 = "32 word"
type_synonym u64 = "64 word"

text \<open>A Rust \<open>str\<close> is its UTF-8 byte string; a \<open>Vec<u8>\<close> or slice is a byte list.\<close>

type_synonym bytes = "u8 list"
type_synonym str = "u8 list"

section \<open>Panics and error values\<close>

text \<open>
  A Rust computation either panics or returns.  Overflow of \<open>+\<close> and \<open>-\<close> is a panic, as
  in a build with overflow checks; a theorem that excludes the panic therefore also covers
  a release build, where the same operation would wrap around.
\<close>

datatype panic =
    Assert_Failed
  | Unwrap_Failed
  | Arith_Overflow
  | Unreachable_Code
  | Index_Out_Of_Range
  | Explicit_Panic

datatype 'a rust = Panic panic | Ret 'a

datatype ('a, 'e) result = Ok 'a | Err 'e

primrec rbind :: "'a rust \<Rightarrow> ('a \<Rightarrow> 'b rust) \<Rightarrow> 'b rust" where
  "rbind (Panic p) f = Panic p"
| "rbind (Ret x) f = f x"

text \<open>The \<open>?\<close> operator: an \<open>Err\<close> is returned to the caller.\<close>

definition tbind ::
  "('a, 'e) result rust \<Rightarrow> ('a \<Rightarrow> ('b, 'e) result rust) \<Rightarrow> ('b, 'e) result rust" where
  "tbind m f = rbind m (\<lambda>r. case r of Ok x \<Rightarrow> f x | Err e \<Rightarrow> Ret (Err e))"

text \<open>The same operator in a function that cannot panic.\<close>

primrec res_bind :: "('a, 'e) result \<Rightarrow> ('a \<Rightarrow> ('b, 'e) result) \<Rightarrow> ('b, 'e) result" where
  "res_bind (Ok x) f = f x"
| "res_bind (Err e) f = Err e"

definition ok_or :: "'a option \<Rightarrow> 'e \<Rightarrow> ('a, 'e) result" where
  "ok_or x e = (case x of Some y \<Rightarrow> Ok y | None \<Rightarrow> Err e)"

text \<open>\<open>map_err\<close>, \<open>unwrap\<close> on an option and \<open>unwrap\<close> on a result.\<close>

definition map_err :: "('e \<Rightarrow> 'f) \<Rightarrow> ('a, 'e) result rust \<Rightarrow> ('a, 'f) result rust" where
  "map_err g m = rbind m (\<lambda>r. Ret (case r of Ok x \<Rightarrow> Ok x | Err e \<Rightarrow> Err (g e)))"

primrec unwrap :: "'a option \<Rightarrow> 'a rust" where
  "unwrap None = Panic Unwrap_Failed"
| "unwrap (Some x) = Ret x"

primrec unwrap_res :: "('a, 'e) result \<Rightarrow> 'a rust" where
  "unwrap_res (Ok x) = Ret x"
| "unwrap_res (Err e) = Panic Unwrap_Failed"

definition rassert :: "bool \<Rightarrow> unit rust" where
  "rassert b = (if b then Ret () else Panic Assert_Failed)"

definition uadd :: "'a::len word \<Rightarrow> 'a word \<Rightarrow> 'a word rust" where
  "uadd a b = (if unat a + unat b < 2 ^ LENGTH('a) then Ret (a + b) else Panic Arith_Overflow)"

definition usub :: "'a::len word \<Rightarrow> 'a word \<Rightarrow> 'a word rust" where
  "usub a b = (if b \<le> a then Ret (a - b) else Panic Arith_Overflow)"

definition usaturating_sub :: "'a::len word \<Rightarrow> 'a word \<Rightarrow> 'a word" where
  "usaturating_sub a b = (if b \<le> a then a - b else 0)"

text \<open>
  \<open>xs[i]\<close>, \<open>&xs[a..]\<close>, \<open>&xs[a..b]\<close> and the subtraction of two \<open>usize\<close>: an index out of range and a
  negative difference are panics.
\<close>

definition idx :: "'a list \<Rightarrow> nat \<Rightarrow> 'a rust" where
  "idx xs i = (if i < length xs then Ret (xs ! i) else Panic Index_Out_Of_Range)"

definition slice_from :: "'a list \<Rightarrow> nat \<Rightarrow> 'a list rust" where
  "slice_from xs a = (if a \<le> length xs then Ret (drop a xs) else Panic Index_Out_Of_Range)"

definition subslice :: "'a list \<Rightarrow> nat \<Rightarrow> nat \<Rightarrow> 'a list rust" where
  "subslice xs a b = (if a \<le> b \<and> b \<le> length xs then Ret (take (b - a) (drop a xs)) else Panic Index_Out_Of_Range)"

definition usize_sub :: "nat \<Rightarrow> nat \<Rightarrow> nat rust" where
  "usize_sub a b = (if b \<le> a then Ret (a - b) else Panic Arith_Overflow)"

lemma idx_Ret [simp]: "i < length xs \<Longrightarrow> idx xs i = Ret (xs ! i)"
  by (simp add: idx_def)

lemma idx_0_Ret [simp]: "Suc 0 \<le> length xs \<Longrightarrow> idx xs 0 = Ret (xs ! 0)"
  by (cases xs) simp_all

lemma slice_from_Ret [simp]: "a \<le> length xs \<Longrightarrow> slice_from xs a = Ret (drop a xs)"
  by (simp add: slice_from_def)

lemma subslice_Ret [simp]: "a \<le> b \<Longrightarrow> b \<le> length xs \<Longrightarrow> subslice xs a b = Ret (take (b - a) (drop a xs))"
  by (simp add: subslice_def)

lemma usize_sub_Ret [simp]: "b \<le> a \<Longrightarrow> usize_sub a b = Ret (a - b)"
  by (simp add: usize_sub_def)

text \<open>An array literal \<open>[xs[i], xs[j], ...]\<close>.\<close>

primrec idx_all :: "'a list \<Rightarrow> nat list \<Rightarrow> 'a list rust" where
  "idx_all xs [] = Ret []"
| "idx_all xs (i # is) = rbind (idx xs i) (\<lambda>x. rbind (idx_all xs is) (\<lambda>ys. Ret (x # ys)))"

lemma idx_all_Ret: "\<forall>i \<in> set is. i < length xs \<Longrightarrow> idx_all xs is = Ret (map ((!) xs) is)"
  by (induction "is") simp_all

lemma idx_all_upt: "a + n \<le> length xs \<Longrightarrow> idx_all xs [a..<a + n] = Ret (take n (drop a xs))"
  by (simp add: idx_all_Ret, rule nth_equalityI) simp_all

lemma slice_from_eq_Ret: "slice_from xs a = Ret ys \<longleftrightarrow> a \<le> length xs \<and> ys = drop a xs"
  by (auto simp: slice_from_def)

lemma tbind_simps [simp, rust_simps]:
  "tbind (Panic p) f = Panic p"
  "tbind (Ret (Ok x)) f = f x"
  "tbind (Ret (Err e)) f = Ret (Err e)"
  by (simp_all add: tbind_def)

lemma map_err_simps [simp, rust_simps]:
  "map_err g (Panic p) = Panic p"
  "map_err g (Ret (Ok x)) = Ret (Ok x)"
  "map_err g (Ret (Err e)) = Ret (Err (g e))"
  by (simp_all add: map_err_def)

lemma rassert_simps [simp, rust_simps]:
  "rassert True = Ret ()"
  "rassert False = Panic Assert_Failed"
  by (simp_all add: rassert_def)

lemma res_bind_eq_Ok: "res_bind m f = Ok y \<longleftrightarrow> (\<exists>x. m = Ok x \<and> f x = Ok y)"
  by (cases m) auto

lemma ok_or_simps [simp, rust_simps]: "ok_or (Some x) e = Ok x" "ok_or None e = Err e"
  by (simp_all add: ok_or_def)

lemma ok_or_eq_Ok: "ok_or x e = Ok y \<longleftrightarrow> x = Some y"
  by (cases x) auto

lemma rbind_eq_Ret: "rbind m f = Ret y \<longleftrightarrow> (\<exists>x. m = Ret x \<and> f x = Ret y)"
  by (cases m) auto

lemma tbind_eq_Ok:
  "tbind m f = Ret (Ok y) \<longleftrightarrow> (\<exists>x. m = Ret (Ok x) \<and> f x = Ret (Ok y))"
  by (cases m) (auto simp: tbind_def split: result.splits)

lemma tbind_eq_Err:
  "tbind m f = Ret (Err e) \<longleftrightarrow> m = Ret (Err e) \<or> (\<exists>x. m = Ret (Ok x) \<and> f x = Ret (Err e))"
  by (cases m) (auto simp: tbind_def split: result.splits)

lemma rbind_eq_Panic: "rbind m f = Panic p \<longleftrightarrow> m = Panic p \<or> (\<exists>x. m = Ret x \<and> f x = Panic p)"
  by (cases m) auto

lemma tbind_eq_Panic: "tbind m f = Panic p \<longleftrightarrow> m = Panic p \<or> (\<exists>x. m = Ret (Ok x) \<and> f x = Panic p)"
  by (cases m) (auto simp: tbind_def split: result.splits)

lemma rbind_not_Panic:
  "(\<exists>x. m = Ret x) \<Longrightarrow> (\<And>x. m = Ret x \<Longrightarrow> \<exists>y. f x = Ret y) \<Longrightarrow> \<exists>y. rbind m f = Ret y"
  by (cases m) auto

lemma tbind_not_Panic:
  assumes "\<exists>r. m = Ret r" and "\<And>x. m = Ret (Ok x) \<Longrightarrow> \<exists>y. f x = Ret y"
  shows "\<exists>y. tbind m f = Ret y"
  using assms by (cases m) (auto simp: tbind_def split: result.splits)

lemma unwrap_eq_Ret [simp]: "unwrap x = Ret y \<longleftrightarrow> x = Some y"
  by (cases x) auto

lemma rbind_cong [fundef_cong]:
  "m = m' \<Longrightarrow> (\<And>x. m' = Ret x \<Longrightarrow> f x = g x) \<Longrightarrow> rbind m f = rbind m' g"
  by (cases m') auto

lemma tbind_cong [fundef_cong]:
  "m = m' \<Longrightarrow> (\<And>x. m' = Ret (Ok x) \<Longrightarrow> f x = g x) \<Longrightarrow> tbind m f = tbind m' g"
  by (cases m') (auto simp: tbind_def split: result.splits)

lemma res_bind_cong [fundef_cong]:
  "m = m' \<Longrightarrow> (\<And>x. m' = Ok x \<Longrightarrow> f x = g x) \<Longrightarrow> res_bind m f = res_bind m' g"
  by (cases m') auto

lemma uadd_Ret: "unat a + unat b < 2 ^ LENGTH('a) \<Longrightarrow> uadd a (b::'a::len word) = Ret (a + b)"
  by (simp add: uadd_def)

lemma usub_Ret: "b \<le> a \<Longrightarrow> usub a (b::'a::len word) = Ret (a - b)"
  by (simp add: usub_def)

section \<open>Big-endian byte strings\<close>

text \<open>
  \<open>nat_be n v\<close> is the \<open>n\<close>-byte big-endian representation of \<open>v\<close> and \<open>be_nat\<close> reads one
  back: \<open>u16::to_be_bytes\<close>, \<open>u32::to_be_bytes\<close> and their inverses.
\<close>

primrec nat_be :: "nat \<Rightarrow> nat \<Rightarrow> bytes" where
  "nat_be 0 v = []"
| "nat_be (Suc n) v = nat_be n (v div 256) @ [of_nat v]"

definition be_nat :: "bytes \<Rightarrow> nat" where
  "be_nat bs = foldl (\<lambda>a b. 256 * a + unat b) 0 bs"

definition to_be_bytes :: "'a::len word \<Rightarrow> bytes" where
  "to_be_bytes w = nat_be (LENGTH('a) div 8) (unat w)"

definition from_be_bytes :: "bytes \<Rightarrow> 'a::len word" where
  "from_be_bytes bs = of_nat (be_nat bs)"

lemma be_nat_Nil [simp]: "be_nat [] = 0"
  by (simp add: be_nat_def)

lemma be_nat_snoc [simp]: "be_nat (bs @ [b]) = 256 * be_nat bs + unat b"
  by (simp add: be_nat_def)

lemma length_nat_be [simp]: "length (nat_be n v) = n"
  by (induction n arbitrary: v) auto

lemma unat_lt: "unat (w::'a::len word) < 2 ^ LENGTH('a)"
  by simp

lemma unat_u8_lt: "unat (b::u8) < 256"
  using unat_lt [of b] by simp

lemma unat_of_nat_u8: "unat (of_nat v :: u8) = v mod 256"
  by (simp add: unat_of_nat)

lemma be_nat_nat_be: "be_nat (nat_be n v) = v mod 256 ^ n"
proof (induction n arbitrary: v)
  case 0
  then show ?case by simp
next
  case (Suc n)
  have "be_nat (nat_be (Suc n) v) = 256 * ((v div 256) mod 256 ^ n) + v mod 256"
    by (simp add: Suc.IH unat_of_nat_u8)
  also have "\<dots> = v mod (256 * 256 ^ n)"
    by (simp add: mod_mult2_eq)
  finally show ?case by simp
qed

lemma be_nat_bound: "be_nat bs < 256 ^ length bs"
proof (induction bs rule: rev_induct)
  case Nil
  then show ?case by simp
next
  case (snoc b bs)
  have "unat b < 256"
    using unat_u8_lt by simp
  with snoc.IH show ?case by simp
qed

lemma nat_be_be_nat: "nat_be (length bs) (be_nat bs) = bs"
proof (induction bs rule: rev_induct)
  case Nil
  then show ?case by simp
next
  case (snoc b bs)
  have b: "unat b < 256"
    using unat_u8_lt by simp
  have "(256 * be_nat bs + unat b) div 256 = be_nat bs"
    using b by simp
  moreover have "(of_nat (256 * be_nat bs + unat b) :: u8) = b"
  proof (rule word_unat_eq_iff [THEN iffD2])
    show "unat (of_nat (256 * be_nat bs + unat b) :: u8) = unat b"
      using b by (simp only: unat_of_nat_u8) simp
  qed
  ultimately show ?case
    using snoc.IH by simp
qed

lemma length_to_be_bytes [simp]: "length (to_be_bytes (w::'a::len word)) = LENGTH('a) div 8"
  by (simp add: to_be_bytes_def)

lemma from_to_be_bytes:
  fixes w :: "'a::len word"
  assumes "8 dvd LENGTH('a)"
  shows "from_be_bytes (to_be_bytes w) = w"
proof -
  from assms obtain k where k: "LENGTH('a) = 8 * k" by (auto simp: dvd_def)
  have "(256::nat) ^ k = 2 ^ LENGTH('a)"
    by (simp add: k power_mult)
  then have "unat w mod 256 ^ k = unat w"
    using unat_lt [of w] by simp
  then show ?thesis
    by (simp add: from_be_bytes_def to_be_bytes_def be_nat_nat_be k)
qed

lemma to_from_be_bytes:
  assumes "8 dvd LENGTH('a::len)" and "length bs = LENGTH('a) div 8"
  shows "to_be_bytes (from_be_bytes bs :: 'a word) = bs"
proof -
  from assms(1) obtain k where k: "LENGTH('a) = 8 * k" by (auto simp: dvd_def)
  have "(256::nat) ^ k = 2 ^ LENGTH('a)"
    by (simp add: k power_mult)
  then have "be_nat bs < 2 ^ LENGTH('a)"
    using be_nat_bound [of bs] assms(2) k by simp
  then have "unat (of_nat (be_nat bs) :: 'a word) = be_nat bs"
    by (simp add: unat_of_nat)
  then show ?thesis
    using nat_be_be_nat [of bs] assms(2)
    by (simp add: from_be_bytes_def to_be_bytes_def)
qed

lemma from_be_bytes_eq_0_iff:
  assumes "8 dvd LENGTH('a::len)" and "length bs = LENGTH('a) div 8"
  shows "(from_be_bytes bs :: 'a word) = 0 \<longleftrightarrow> list_all (\<lambda>b. b = 0) bs"
proof
  assume "(from_be_bytes bs :: 'a word) = 0"
  then have "bs = to_be_bytes (0 :: 'a word)"
    using to_from_be_bytes [OF assms] by simp
  moreover have "list_all (\<lambda>b. b = 0) (nat_be n 0)" for n
    by (induction n) auto
  ultimately show "list_all (\<lambda>b. b = 0) bs"
    by (simp add: to_be_bytes_def)
next
  assume "list_all (\<lambda>b. b = 0) bs"
  then have "be_nat bs = 0"
    by (induction bs rule: rev_induct) auto
  then show "(from_be_bytes bs :: 'a word) = 0"
    by (simp add: from_be_bytes_def)
qed

section \<open>Insertion-ordered maps\<close>

text \<open>
  \<open>IndexMap\<close> is an association list with distinct keys: \<open>insert\<close> is \<open>AList.update\<close> (in place
  when the key is there, at the end otherwise), \<open>shift_remove\<close> is \<open>AList.delete\<close>, \<open>get\<close> is
  \<open>map_of\<close>.
\<close>

lemma alist_update_new: "k \<notin> fst ` set al \<Longrightarrow> AList.update k v al = al @ [(k, v)]"
  by (induction al) auto

lemma alist_delete_dom: "fst ` set (AList.delete k al) = fst ` set al - {k}"
  using arg_cong [OF delete_keys [of k al], of set] by simp

lemma alist_delete_distinct: "distinct (map fst al) \<Longrightarrow> distinct (map fst (AList.delete k al))"
  by (rule distinct_delete)

text \<open>Removing a key and appending it again.\<close>

lemma alist_to_end:
  assumes "distinct (map fst al)"
  shows "distinct (map fst (AList.delete k al @ [(k, v)]))"
    and "fst ` set (AList.delete k al @ [(k, v)]) = insert k (fst ` set al)"
  using alist_delete_distinct [OF assms, of k] alist_delete_dom [of k al] by auto

end
