(* ===== verification/Variable_Byte_Integer.thy ===== *)
theory Variable_Byte_Integer
  imports Rust_Prelude
begin

text \<open>
  \<^verbatim>\<open>src/mqtt/packet/variable_byte_integer.rs\<close>: the variable byte integer of MQTT, one to
  four bytes of seven bits each, least significant group first, the top bit of a byte
  telling that another one follows.  The word-level loops of the source are related to a
  reference encoding on natural numbers (\<open>vbi_enc\<close>, \<open>vbi_val\<close>), from which the round trip,
  the length bounds and the behaviour of the streaming decoder on every input follow.
\<close>

section \<open>The operations of the source\<close>

record variable_byte_integer =
  encoded :: bytes

definition VBI_MAX :: u32 where
  "VBI_MAX = 0x0FFFFFFF"

text \<open>
  The loop of \<open>from_u32\<close>.  \<open>buf\<close> is an \<open>ArrayVec\<close> of capacity four, whose \<open>push\<close> panics when
  it is full; \<open>length_vbi_enc\<close> below shows that this is never reached.
\<close>

lemma div_128_less: "0 < v div 128 \<Longrightarrow> unat (v div 128) < unat (v :: u32)"
proof -
  assume "0 < v div 128"
  then have "unat (v div 128) \<noteq> 0" by (simp add: unat_gt_0)
  moreover have "unat (v div 128) = unat v div 128"
    by (simp add: unat_div)
  ultimately show ?thesis by simp
qed

function from_u32_loop :: "u32 \<Rightarrow> bytes \<Rightarrow> bytes" where
  "from_u32_loop value buf =
     (let byte = ucast (value mod 128) :: u8;
          value' = value div 128;
          byte' = (if value' > 0 then byte OR 0x80 else byte);
          buf' = buf @ [byte']
      in if value' = 0 then buf' else from_u32_loop value' buf')"
  by pat_completeness auto
termination
  by (relation "measure (\<lambda>(v, _). unat v)") (auto simp: div_128_less word_gt_0)

declare from_u32_loop.simps [simp del]

definition from_u32 :: "u32 \<Rightarrow> variable_byte_integer option" where
  "from_u32 value =
     (if value > VBI_MAX then None else Some \<lparr>encoded = from_u32_loop value []\<rparr>)"

definition saturating_mul_128 :: "u32 \<Rightarrow> u32" where
  "saturating_mul_128 m = (if unat m * 128 < 2 ^ 32 then m * 128 else - 1)"

definition to_u32 :: "variable_byte_integer \<Rightarrow> u32" where
  "to_u32 vbi = fst (foldl (\<lambda>(result, multiplier) b.
       (result + ucast (b AND 0x7F) * multiplier, saturating_mul_128 multiplier)) (0, 1) (encoded vbi))"

definition vbi_size :: "variable_byte_integer \<Rightarrow> nat" where
  "vbi_size vbi = length (encoded vbi)"

definition vbi_to_continuous_buffer :: "variable_byte_integer \<Rightarrow> bytes" where
  "vbi_to_continuous_buffer vbi = encoded vbi"

datatype 'a decode_result = DecodeOk 'a nat | DecodeIncomplete | DecodeErr string

definition saturating_add_u32 :: "u32 \<Rightarrow> u32 \<Rightarrow> u32" where
  "saturating_add_u32 a b = (if unat a + unat b < 2 ^ 32 then a + b else - 1)"

definition checked_mul_128_or_0 :: "u32 \<Rightarrow> u32" where
  "checked_mul_128_or_0 m = (if unat m * 128 < 2 ^ 32 then m * 128 else 0)"

text \<open>The loop over the first four bytes; \<open>None\<close> when it runs to its end.\<close>

fun decode_stream_loop :: "bytes \<Rightarrow> nat \<Rightarrow> u32 \<Rightarrow> u32 \<Rightarrow> variable_byte_integer decode_result option" where
  "decode_stream_loop [] i value multiplier = None"
| "decode_stream_loop (b # bs) i value multiplier =
     (let value' = saturating_add_u32 value (ucast (b AND 0x7F) * multiplier) in
      if value' > VBI_MAX then Some (DecodeErr ''VariableByteInteger too large'')
      else if b AND 0x80 = 0 then
        Some (case from_u32 value' of Some vbi \<Rightarrow> DecodeOk vbi (i + 1) | None \<Rightarrow> DecodeErr ''Encoding failure'')
      else decode_stream_loop bs (i + 1) value' (checked_mul_128_or_0 multiplier))"

definition decode_stream :: "bytes \<Rightarrow> variable_byte_integer decode_result" where
  "decode_stream buf =
     (case decode_stream_loop (take 4 buf) 0 0 1 of
        Some r \<Rightarrow> r
      | None \<Rightarrow> if length buf < 4 then DecodeIncomplete
                else DecodeErr ''Malformed VariableByteInteger: too many bytes'')"

section \<open>Reference encoding on natural numbers\<close>

fun vbi_enc :: "nat \<Rightarrow> bytes" where
  "vbi_enc n = (if n < 128 then [of_nat n] else of_nat (n mod 128 + 128) # vbi_enc (n div 128))"

declare vbi_enc.simps [simp del]

primrec vbi_val :: "bytes \<Rightarrow> nat" where
  "vbi_val [] = 0"
| "vbi_val (b # bs) = unat b mod 128 + 128 * vbi_val bs"

text \<open>Bit operations of the loops as arithmetic on bytes.\<close>

lemma unat_and_7F [simp]: "unat (b AND 0x7F :: u8) = unat b mod 128"
proof -
  have "b AND 0x7F = take_bit 7 b"
    by (simp add: take_bit_eq_mask mask_eq_exp_minus_1)
  then show ?thesis by (simp add: take_bit_eq_mod unat_mod)
qed

lemma unat_of_nat_small: "n < 256 \<Longrightarrow> unat (of_nat n :: u8) = n"
  by (simp add: unat_of_nat)

lemma and_80_eq_0_iff [simp]: "(b :: u8) AND 0x80 = 0 \<longleftrightarrow> unat b < 128"
proof -
  have "b AND 0x80 = 0 \<longleftrightarrow> \<not> bit b 7"
    using and_exp_eq_0_iff_not_bit [of b 7] by simp
  also have "bit b 7 \<longleftrightarrow> odd (unat b div 128)"
    using bit_unsigned_iff [where 'a = nat, of b 7] by (simp add: bit_iff_odd)
  also have "odd (unat b div 128) \<longleftrightarrow> 128 \<le> unat b"
  proof -
    have "unat b div 128 < 2" using unat_u8_lt [of b] by (simp add: less_mult_imp_div_less)
    then have "odd (unat b div 128) \<longleftrightarrow> unat b div 128 = 1"
      by (cases "unat b div 128") auto
    also have "\<dots> \<longleftrightarrow> 128 \<le> unat b" using unat_u8_lt [of b] by auto
    finally show ?thesis .
  qed
  finally show ?thesis by auto
qed

lemma or_80: "unat b < 128 \<Longrightarrow> (b :: u8) OR 0x80 = b + 128"
proof -
  assume "unat b < 128"
  then have "b AND 0x80 = 0" by simp
  then show ?thesis by (simp add: disjunctive_add_eq_or)
qed

lemma from_u32_loop_enc: "from_u32_loop v buf = buf @ vbi_enc (unat v)"
proof (induction v buf rule: from_u32_loop.induct)
  case (1 v buf)
  have d: "unat (v div 128) = unat v div 128" and m: "unat (v mod 128) = unat v mod 128"
    by (simp_all add: unat_div unat_mod)
  have byte: "(ucast (v mod 128) :: u8) = of_nat (unat v mod 128)"
    unfolding m [symmetric] by simp
  have zero: "v div 128 = 0 \<longleftrightarrow> unat v < 128"
    using d by (metis div_eq_0_iff unat_0_iff zero_neq_numeral)
  have hi: "(of_nat (unat v mod 128) :: u8) OR 0x80 = of_nat (unat v mod 128 + 128)"
    by (subst or_80) (simp_all add: unat_of_nat)
  show ?case
  proof (cases "v div 128 = 0")
    case True
    then show ?thesis using zero byte by (simp add: from_u32_loop.simps vbi_enc.simps Let_def)
  next
    case False
    then show ?thesis
      using "1.IH" [OF refl refl refl refl False] zero byte hi d
      by (subst from_u32_loop.simps, subst vbi_enc.simps) (simp add: Let_def word_gt_0)
  qed
qed

lemma vbi_enc_small: "n < 128 \<Longrightarrow> vbi_enc n = [of_nat n]"
  by (simp add: vbi_enc.simps)

lemma vbi_enc_step: "128 \<le> n \<Longrightarrow> vbi_enc n = of_nat (n mod 128 + 128) # vbi_enc (n div 128)"
  by (subst vbi_enc.simps) simp

lemma unat_cont_byte: "unat (of_nat (n mod 128 + 128) :: u8) = n mod 128 + 128"
  by (rule unat_of_nat_small) simp

lemma vbi_val_enc: "vbi_val (vbi_enc n) = n"
proof (induction n rule: less_induct)
  case (less n)
  then show ?case
    by (cases "n < 128")
       (simp_all add: vbi_enc_small vbi_enc_step unat_cont_byte unat_of_nat_small not_less del: of_nat_add)
qed

lemma length_vbi_enc:
  "length (vbi_enc n) = (if n < 128 then 1 else 1 + length (vbi_enc (n div 128)))"
  by (subst vbi_enc.simps) simp

lemma length_vbi_enc_bounds:
  "vbi_enc n \<noteq> []"
  "n < 128 \<Longrightarrow> length (vbi_enc n) = 1"
  "128 \<le> n \<Longrightarrow> n < 16384 \<Longrightarrow> length (vbi_enc n) = 2"
  "16384 \<le> n \<Longrightarrow> n < 2097152 \<Longrightarrow> length (vbi_enc n) = 3"
  "2097152 \<le> n \<Longrightarrow> n < 268435456 \<Longrightarrow> length (vbi_enc n) = 4"
  by (subst vbi_enc.simps; simp)
     (simp_all add: length_vbi_enc div_less_iff_less_mult not_less)

lemma vbi_enc_le_4: "n < 268435456 \<Longrightarrow> length (vbi_enc n) \<le> 4"
  using length_vbi_enc_bounds [of n] by linarith

lemma vbi_enc_pos: "0 < length (vbi_enc n)"
  using length_vbi_enc_bounds(1) [of n] by simp

text \<open>The decoder on the reference value: it stops at the first byte without continuation bit.\<close>

lemma VBI_MAX_unat: "VBI_MAX < v \<longleftrightarrow> 268435456 \<le> unat v"
  by (simp add: VBI_MAX_def word_less_nat_alt Suc_le_eq[symmetric])

lemma from_u32_eq:
  "from_u32 v = (if unat v < 268435456 then Some \<lparr>encoded = vbi_enc (unat v)\<rparr> else None)"
  by (simp add: from_u32_def VBI_MAX_unat from_u32_loop_enc)

lemma from_u32_of_nat:
  "n < 268435456 \<Longrightarrow> from_u32 (of_nat n) = Some \<lparr>encoded = vbi_enc n\<rparr>"
  by (simp add: from_u32_eq unat_of_nat)

fun vbi_scan :: "bytes \<Rightarrow> nat option" where
  "vbi_scan [] = None"
| "vbi_scan (b # bs) = (if unat b < 128 then Some 1 else map_option Suc (vbi_scan bs))"

lemma vbi_scan_le: "vbi_scan bs = Some k \<Longrightarrow> 0 < k \<and> k \<le> length bs"
  by (induction bs arbitrary: k) (auto split: if_splits)

lemma vbi_val_bound: "vbi_val bs < 128 ^ length bs"
proof (induction bs)
  case (Cons b bs)
  have "unat b mod 128 < 128" by simp
  with Cons show ?case by (simp del: mod_less_divisor) 
qed simp

text \<open>One round of the loop, with \<open>128 ^ i\<close> the weight of the current group.\<close>

lemma decode_step:
  fixes b :: u8
  assumes "i \<le> 3" and "unat v < 128 ^ i" and "unat m = 128 ^ i"
  shows "unat (saturating_add_u32 v (ucast (b AND 0x7F) * m)) = unat v + unat b mod 128 * 128 ^ i"
    and "unat v + unat b mod 128 * 128 ^ i < 128 ^ Suc i"
    and "unat (checked_mul_128_or_0 m) = 128 ^ Suc i"
    and "v + ucast (b AND 0x7F) * m = saturating_add_u32 v (ucast (b AND 0x7F) * m)"
    and "saturating_mul_128 m = checked_mul_128_or_0 m"
proof -
  have p: "(128::nat) ^ i \<le> 2097152"
    using power_increasing [OF assms(1), of "128::nat"] by simp
  have g: "unat b mod 128 * 128 ^ i \<le> 127 * (128::nat) ^ i"
    by (rule mult_le_mono1) simp
  then show lt: "unat v + unat b mod 128 * 128 ^ i < 128 ^ Suc i"
    using assms(2) unfolding power_Suc by linarith
  have "unat (ucast (b AND 0x7F) :: u32) = unat b mod 128"
    by (simp add: unsigned_ucast_eq take_bit_eq_mod)
  then have prod: "unat (ucast (b AND 0x7F) * m) = unat b mod 128 * 128 ^ i"
    using assms(3) order_le_less_trans [OF g, of "2 ^ 32"] p by (simp add: unat_word_ariths)
  then show "unat (saturating_add_u32 v (ucast (b AND 0x7F) * m)) = unat v + unat b mod 128 * 128 ^ i"
    using lt p by (simp add: saturating_add_u32_def unat_word_ariths)
  show "unat (checked_mul_128_or_0 m) = 128 ^ Suc i"
    using assms(3) p by (simp add: checked_mul_128_or_0_def unat_word_ariths)
  show "v + ucast (b AND 0x7F) * m = saturating_add_u32 v (ucast (b AND 0x7F) * m)"
    using lt p prod by (simp add: saturating_add_u32_def)
  show "saturating_mul_128 m = checked_mul_128_or_0 m"
    using assms(3) p by (simp add: checked_mul_128_or_0_def saturating_mul_128_def)
qed

lemma to_u32_foldl:
  assumes "i + length bs \<le> 4" and "unat v < 128 ^ i" and "unat m = 128 ^ i"
  shows "unat (fst (foldl (\<lambda>(result, multiplier) b.
       (result + ucast (b AND 0x7F) * multiplier, saturating_mul_128 multiplier)) (v, m) bs))
    = unat v + 128 ^ i * vbi_val (bs :: bytes)"
  using assms
proof (induction bs arbitrary: i v m)
  case (Cons b bs)
  then have i: "i \<le> 3" by simp
  note st = decode_step(1,2,4) [OF i Cons.prems(2,3), of b] decode_step(3,5) [OF i Cons.prems(2,3)]
  show ?case
    using Cons.prems(1) st Cons.IH [of "Suc i" "v + ucast (b AND 0x7F) * m" "saturating_mul_128 m"]
    by (simp, simp add: algebra_simps)
qed simp

lemma to_u32_val: "length bs \<le> 4 \<Longrightarrow> unat (to_u32 \<lparr>encoded = bs\<rparr>) = vbi_val bs"
  using to_u32_foldl [of 0 bs 0 1] by (simp add: to_u32_def)

lemma decode_stream_loop_eq:
  assumes "i + length bs \<le> 4" and "unat v < 128 ^ i" and "unat m = 128 ^ i"
  shows "decode_stream_loop bs i v m =
    map_option (\<lambda>k. DecodeOk \<lparr>encoded = vbi_enc (unat v + 128 ^ i * vbi_val (take k bs))\<rparr> (i + k))
      (vbi_scan bs)"
  using assms
proof (induction bs arbitrary: i v m)
  case (Cons b bs)
  then have i: "i \<le> 3" by simp
  note st = decode_step(1,2) [OF i Cons.prems(2,3), of b] decode_step(3) [OF i Cons.prems(2,3)]
  define v' where "v' = saturating_add_u32 v (ucast (b AND 0x7F) * m)"
  have v': "unat v' = unat v + unat b mod 128 * 128 ^ i" using st(1) by (simp add: v'_def)
  have "(128::nat) ^ Suc i \<le> 268435456"
    using power_increasing [of "Suc i" 4 "128::nat"] i by simp
  then have small: "unat v' < 268435456" using v' st(2) by linarith
  show ?case
  proof (cases "unat b < 128")
    case True
    then show ?thesis
      using small by (simp add: Let_def v'_def [symmetric] VBI_MAX_unat from_u32_eq) (simp add: v' algebra_simps)
  next
    case False
    have "decode_stream_loop bs (Suc i) v' (checked_mul_128_or_0 m) =
      map_option (\<lambda>k. DecodeOk \<lparr>encoded = vbi_enc (unat v' + 128 ^ Suc i * vbi_val (take k bs))\<rparr> (Suc i + k))
      (vbi_scan bs)"
      using Cons.prems(1) v' st(2,3) by (intro Cons.IH) simp_all
    then show ?thesis
      using False small
      by (simp add: Let_def v'_def [symmetric] VBI_MAX_unat option.map_comp comp_def)
         (simp add: v' algebra_simps)
  qed
qed simp

lemma decode_stream_eq:
  "decode_stream buf = (case vbi_scan (take 4 buf) of
     Some k \<Rightarrow> DecodeOk \<lparr>encoded = vbi_enc (vbi_val (take k buf))\<rparr> k
   | None \<Rightarrow> if length buf < 4 then DecodeIncomplete
             else DecodeErr ''Malformed VariableByteInteger: too many bytes'')"
proof -
  have "decode_stream_loop (take 4 buf) 0 0 1 =
    map_option (\<lambda>k. DecodeOk \<lparr>encoded = vbi_enc (vbi_val (take k (take 4 buf)))\<rparr> k) (vbi_scan (take 4 buf))"
    by (subst decode_stream_loop_eq) simp_all
  then show ?thesis
    using vbi_scan_le [of "take 4 buf"]
    by (cases "vbi_scan (take 4 buf)") (auto simp: decode_stream_def min_def split: if_splits)
qed

lemma vbi_scan_enc: "vbi_scan (vbi_enc n @ rest) = Some (length (vbi_enc n))"
proof (induction n rule: less_induct)
  case (less n)
  then show ?case
    by (cases "n < 128")
       (simp_all add: vbi_enc_small vbi_enc_step unat_cont_byte unat_of_nat_small not_less del: of_nat_add)
qed

lemma decode_stream_enc:
  assumes "n < 268435456"
  shows "decode_stream (vbi_enc n @ rest) = DecodeOk \<lparr>encoded = vbi_enc n\<rparr> (length (vbi_enc n))"
proof -
  have "take 4 (vbi_enc n @ rest) = vbi_enc n @ take (4 - length (vbi_enc n)) rest"
    using vbi_enc_le_4 [OF assms] by simp
  then show ?thesis
    by (simp add: decode_stream_eq vbi_scan_enc vbi_val_enc)
qed

lemma decode_stream_OkD:
  assumes "decode_stream buf = DecodeOk vbi k"
  shows "0 < k" "k \<le> 4" "k \<le> length buf" "vbi = \<lparr>encoded = vbi_enc (vbi_val (take k buf))\<rparr>"
    "vbi_val (take k buf) < 268435456"
proof -
  have s: "vbi_scan (take 4 buf) = Some k" and v: "vbi = \<lparr>encoded = vbi_enc (vbi_val (take k buf))\<rparr>"
    using assms by (auto simp: decode_stream_eq split: option.splits if_splits)
  show "0 < k" and k: "k \<le> 4" "k \<le> length buf" using vbi_scan_le [OF s] by simp_all
  show "vbi = \<lparr>encoded = vbi_enc (vbi_val (take k buf))\<rparr>" by (rule v)
  have "(128::nat) ^ length (take k buf) \<le> 128 ^ 4"
    using k by (intro power_increasing) simp_all
  then show "vbi_val (take k buf) < 268435456"
    using vbi_val_bound [of "take k buf"] by simp
qed

lemma to_u32_enc: "n < 268435456 \<Longrightarrow> unat (to_u32 \<lparr>encoded = vbi_enc n\<rparr>) = n"
  by (simp add: to_u32_val vbi_enc_le_4 vbi_val_enc)

section \<open>Properties\<close>

text \<open>
  C33: every value up to \<open>MAX\<close> is encoded into one to four bytes, reads back unchanged by
  \<open>to_u32\<close>, and the streaming decoder finds exactly this encoding in front of any further
  bytes; a value above \<open>MAX\<close> is refused.
\<close>

theorem vbi_roundtrip:
  "if v > VBI_MAX then from_u32 v = None
   else \<exists>vbi. from_u32 v = Some vbi \<and> vbi_size vbi \<in> {1 .. 4} \<and> to_u32 vbi = v
          \<and> decode_stream (encoded vbi @ rest) = DecodeOk vbi (vbi_size vbi)"
proof (cases "v > VBI_MAX")
  case False
  then have "unat v < 268435456" by (simp add: VBI_MAX_unat)
  then show ?thesis
    using False vbi_enc_pos [of "unat v"] vbi_enc_le_4 [of "unat v"] to_u32_enc [of "unat v"]
    by (simp add: from_u32_eq vbi_size_def decode_stream_enc word_unat_eq_iff Suc_le_eq)
qed (simp add: from_u32_def)

text \<open>
  The streaming decoder on every input: it asks for more bytes exactly when fewer than four
  bytes are there and all carry the continuation bit; it fails exactly when four bytes all
  carry it; otherwise it consumes the bytes up to the first one without that bit and returns
  the canonical (shortest) encoding of their value.
\<close>

theorem decode_stream_total:
  "decode_stream buf =
    (if list_all (\<lambda>b. 128 \<le> unat b) (take 4 buf)
     then if length buf < 4 then DecodeIncomplete
          else DecodeErr ''Malformed VariableByteInteger: too many bytes''
     else let k = length (takeWhile (\<lambda>b. 128 \<le> unat b) buf) + 1
          in DecodeOk \<lparr>encoded = vbi_enc (vbi_val (take k buf))\<rparr> k)"
proof -
  have scan: "vbi_scan bs = (if list_all (\<lambda>b. 128 \<le> unat b) bs then None
       else Some (length (takeWhile (\<lambda>b. 128 \<le> unat b) bs) + 1))" for bs
    by (induction bs) auto
  have "takeWhile P (take n xs) = takeWhile P xs" if "\<not> list_all P (take n xs)" for P n and xs :: bytes
    using that by (induction xs arbitrary: n) (auto simp: take_Cons split: nat.splits)
  then show ?thesis by (simp add: decode_stream_eq scan Let_def)
qed

end
