(* ===== verification/Result_Code.thy ===== *)
theory Result_Code
  imports Rust_Prelude
begin

text \<open>
  \<^verbatim>\<open>src/mqtt/result_code.rs\<close>: the error type of the library and the reason codes of the
  packets.  Each reason code is a \<open>repr(u8)\<close> enumeration whose conversion from a byte is
  derived by \<open>TryFromPrimitive\<close>; \<open>enum_try_from\<close> is that derivation and the locale
  \<open>wire_enum\<close> its contract (a byte is accepted exactly when it is the code of a variant).
\<close>

section \<open>Derived conversions from a byte\<close>

definition enum_try_from :: "'e list \<Rightarrow> ('e \<Rightarrow> u8) \<Rightarrow> u8 \<Rightarrow> 'e option" where
  "enum_try_from variants code b = find (\<lambda>e. code e = b) variants"

locale wire_enum =
  fixes variants :: "'e list" and code :: "'e \<Rightarrow> u8"
  assumes variants_all: "e \<in> set variants"
    and codes_distinct: "distinct (map code variants)"
begin

lemma code_inj: "code e = code e' \<Longrightarrow> e = e'"
  using codes_distinct variants_all by (auto simp: distinct_map dest: inj_onD)

lemma try_from_iff: "enum_try_from variants code b = Some e \<longleftrightarrow> code e = b"
proof
  assume "enum_try_from variants code b = Some e"
  then show "code e = b" by (auto simp: enum_try_from_def find_Some_iff)
next
  assume b: "code e = b"
  then obtain e' where e': "enum_try_from variants code b = Some e'"
    using variants_all [of e]
    by (cases "enum_try_from variants code b") (auto simp: enum_try_from_def find_None_iff)
  then have "code e' = b" by (auto simp: enum_try_from_def find_Some_iff)
  with b e' show "enum_try_from variants code b = Some e" using code_inj by simp
qed

lemma try_from_code [simp]: "enum_try_from variants code (code e) = Some e"
  by (simp add: try_from_iff)

lemma try_from_None: "enum_try_from variants code b = None \<longleftrightarrow> (\<forall>e. code e \<noteq> b)"
  using try_from_iff [of b] by (cases "enum_try_from variants code b") auto

end

section \<open>The enumerations\<close>

datatype mqtt_error =
    UnspecifiedError
  | MalformedPacket
  | ProtocolError
  | ImplementationSpecificError
  | UnsupportedProtocolVersion
  | ClientIdentifierNotValid
  | BadUserNameOrPassword
  | NotAuthorized
  | ServerUnavailable
  | ServerBusy
  | Banned
  | ServerShuttingDown
  | BadAuthenticationMethod
  | KeepAliveTimeout
  | SessionTakenOver
  | TopicFilterInvalid
  | TopicNameInvalid
  | ReceiveMaximumExceeded
  | TopicAliasInvalid
  | PacketTooLarge
  | MessageRateTooHigh
  | QuotaExceeded
  | AdministrativeAction
  | PayloadFormatInvalid
  | RetainNotSupported
  | QosNotSupported
  | UseAnotherServer
  | ServerMoved
  | SharedSubscriptionsNotSupported
  | ConnectionRateExceeded
  | MaximumConnectTime
  | SubscriptionIdentifiersNotSupported
  | WildcardSubscriptionsNotSupported
  | PartialErrorDetected
  | PacketEnqueued
  | AllErrorDetected
  | PacketIdentifierFullyUsed
  | PacketIdentifierConflict
  | PacketIdentifierInvalid
  | PacketNotAllowedToSend
  | PacketNotAllowedToStore
  | PacketNotRegulated
  | InsufficientBytes
  | InvalidPacketForRole
  | VersionMismatch
  | PacketConversionFailed
  | PacketProcessFailed
  | ValueOutOfRange
  | InvalidQos

primrec mqtt_error_code :: "mqtt_error \<Rightarrow> u16" where
  "mqtt_error_code UnspecifiedError = 0x0080"
| "mqtt_error_code MalformedPacket = 0x0081"
| "mqtt_error_code ProtocolError = 0x0082"
| "mqtt_error_code ImplementationSpecificError = 0x0083"
| "mqtt_error_code UnsupportedProtocolVersion = 0x0084"
| "mqtt_error_code ClientIdentifierNotValid = 0x0085"
| "mqtt_error_code BadUserNameOrPassword = 0x0086"
| "mqtt_error_code NotAuthorized = 0x0087"
| "mqtt_error_code ServerUnavailable = 0x0088"
| "mqtt_error_code ServerBusy = 0x0089"
| "mqtt_error_code Banned = 0x008A"
| "mqtt_error_code ServerShuttingDown = 0x008B"
| "mqtt_error_code BadAuthenticationMethod = 0x008C"
| "mqtt_error_code KeepAliveTimeout = 0x008D"
| "mqtt_error_code SessionTakenOver = 0x008E"
| "mqtt_error_code TopicFilterInvalid = 0x008F"
| "mqtt_error_code TopicNameInvalid = 0x0090"
| "mqtt_error_code ReceiveMaximumExceeded = 0x0093"
| "mqtt_error_code TopicAliasInvalid = 0x0094"
| "mqtt_error_code PacketTooLarge = 0x0095"
| "mqtt_error_code MessageRateTooHigh = 0x0096"
| "mqtt_error_code QuotaExceeded = 0x0097"
| "mqtt_error_code AdministrativeAction = 0x0098"
| "mqtt_error_code PayloadFormatInvalid = 0x0099"
| "mqtt_error_code RetainNotSupported = 0x009A"
| "mqtt_error_code QosNotSupported = 0x009B"
| "mqtt_error_code UseAnotherServer = 0x009C"
| "mqtt_error_code ServerMoved = 0x009D"
| "mqtt_error_code SharedSubscriptionsNotSupported = 0x009E"
| "mqtt_error_code ConnectionRateExceeded = 0x009F"
| "mqtt_error_code MaximumConnectTime = 0x00A0"
| "mqtt_error_code SubscriptionIdentifiersNotSupported = 0x00A1"
| "mqtt_error_code WildcardSubscriptionsNotSupported = 0x00A2"
| "mqtt_error_code PartialErrorDetected = 0x0101"
| "mqtt_error_code PacketEnqueued = 0x0102"
| "mqtt_error_code AllErrorDetected = 0x0180"
| "mqtt_error_code PacketIdentifierFullyUsed = 0x0181"
| "mqtt_error_code PacketIdentifierConflict = 0x0182"
| "mqtt_error_code PacketIdentifierInvalid = 0x0183"
| "mqtt_error_code PacketNotAllowedToSend = 0x0184"
| "mqtt_error_code PacketNotAllowedToStore = 0x0185"
| "mqtt_error_code PacketNotRegulated = 0x0186"
| "mqtt_error_code InsufficientBytes = 0x0187"
| "mqtt_error_code InvalidPacketForRole = 0x0188"
| "mqtt_error_code VersionMismatch = 0x0189"
| "mqtt_error_code PacketConversionFailed = 0x018A"
| "mqtt_error_code PacketProcessFailed = 0x018B"
| "mqtt_error_code ValueOutOfRange = 0x018C"
| "mqtt_error_code InvalidQos = 0x018D"

definition mqtt_error_all :: "mqtt_error list" where
  "mqtt_error_all = [UnspecifiedError, MalformedPacket, ProtocolError, ImplementationSpecificError, UnsupportedProtocolVersion, ClientIdentifierNotValid, BadUserNameOrPassword, NotAuthorized, ServerUnavailable, ServerBusy, Banned, ServerShuttingDown, BadAuthenticationMethod, KeepAliveTimeout, SessionTakenOver, TopicFilterInvalid, TopicNameInvalid, ReceiveMaximumExceeded, TopicAliasInvalid, PacketTooLarge, MessageRateTooHigh, QuotaExceeded, AdministrativeAction, PayloadFormatInvalid, RetainNotSupported, QosNotSupported, UseAnotherServer, ServerMoved, SharedSubscriptionsNotSupported, ConnectionRateExceeded, MaximumConnectTime, SubscriptionIdentifiersNotSupported, WildcardSubscriptionsNotSupported, PartialErrorDetected, PacketEnqueued, AllErrorDetected, PacketIdentifierFullyUsed, PacketIdentifierConflict, PacketIdentifierInvalid, PacketNotAllowedToSend, PacketNotAllowedToStore, PacketNotRegulated, InsufficientBytes, InvalidPacketForRole, VersionMismatch, PacketConversionFailed, PacketProcessFailed, ValueOutOfRange, InvalidQos]"

text \<open>\<open>TryFrom<u8> for MqttError\<close>: the match on the reason byte.\<close>

definition mqtt_error_try_from :: "u8 \<Rightarrow> mqtt_error option" where
  "mqtt_error_try_from = map_of
     [(0x80, UnspecifiedError),
      (0x81, MalformedPacket),
      (0x82, ProtocolError),
      (0x83, ImplementationSpecificError),
      (0x84, UnsupportedProtocolVersion),
      (0x85, ClientIdentifierNotValid),
      (0x86, BadUserNameOrPassword),
      (0x87, NotAuthorized),
      (0x88, ServerUnavailable),
      (0x89, ServerBusy),
      (0x8A, Banned),
      (0x8B, ServerShuttingDown),
      (0x8C, BadAuthenticationMethod),
      (0x8D, KeepAliveTimeout),
      (0x8E, SessionTakenOver),
      (0x8F, TopicFilterInvalid),
      (0x90, TopicNameInvalid),
      (0x93, ReceiveMaximumExceeded),
      (0x94, TopicAliasInvalid),
      (0x95, PacketTooLarge),
      (0x96, MessageRateTooHigh),
      (0x97, QuotaExceeded),
      (0x98, AdministrativeAction),
      (0x99, PayloadFormatInvalid),
      (0x9A, RetainNotSupported),
      (0x9B, QosNotSupported),
      (0x9C, UseAnotherServer),
      (0x9D, ServerMoved),
      (0x9E, SharedSubscriptionsNotSupported),
      (0x9F, ConnectionRateExceeded),
      (0xA0, MaximumConnectTime),
      (0xA1, SubscriptionIdentifiersNotSupported),
      (0xA2, WildcardSubscriptionsNotSupported)]"

text \<open>\<open>From<XReasonCode> for MqttError\<close>: through the reason byte, falling back to \<open>ProtocolError\<close>.\<close>

definition mqtt_error_of_u8 :: "u8 \<Rightarrow> mqtt_error" where
  "mqtt_error_of_u8 c = (case mqtt_error_try_from c of Some e \<Rightarrow> e | None \<Rightarrow> ProtocolError)"

datatype connect_return_code =
    ConnRet_Accepted
  | ConnRet_UnacceptableProtocolVersion
  | ConnRet_IdentifierRejected
  | ConnRet_ServerUnavailable
  | ConnRet_BadUserNameOrPassword
  | ConnRet_NotAuthorized

primrec connect_return_code_u8 :: "connect_return_code \<Rightarrow> u8" where
  "connect_return_code_u8 ConnRet_Accepted = 0x00"
| "connect_return_code_u8 ConnRet_UnacceptableProtocolVersion = 0x01"
| "connect_return_code_u8 ConnRet_IdentifierRejected = 0x02"
| "connect_return_code_u8 ConnRet_ServerUnavailable = 0x03"
| "connect_return_code_u8 ConnRet_BadUserNameOrPassword = 0x04"
| "connect_return_code_u8 ConnRet_NotAuthorized = 0x05"

definition connect_return_code_all :: "connect_return_code list" where
  "connect_return_code_all = [ConnRet_Accepted, ConnRet_UnacceptableProtocolVersion, ConnRet_IdentifierRejected, ConnRet_ServerUnavailable, ConnRet_BadUserNameOrPassword, ConnRet_NotAuthorized]"

definition connect_return_code_try_from :: "u8 \<Rightarrow> connect_return_code option" where
  "connect_return_code_try_from = enum_try_from connect_return_code_all connect_return_code_u8"

datatype suback_return_code =
    SubRet_SuccessMaximumQos0
  | SubRet_SuccessMaximumQos1
  | SubRet_SuccessMaximumQos2
  | SubRet_Failure

primrec suback_return_code_u8 :: "suback_return_code \<Rightarrow> u8" where
  "suback_return_code_u8 SubRet_SuccessMaximumQos0 = 0x00"
| "suback_return_code_u8 SubRet_SuccessMaximumQos1 = 0x01"
| "suback_return_code_u8 SubRet_SuccessMaximumQos2 = 0x02"
| "suback_return_code_u8 SubRet_Failure = 0x80"

definition suback_return_code_all :: "suback_return_code list" where
  "suback_return_code_all = [SubRet_SuccessMaximumQos0, SubRet_SuccessMaximumQos1, SubRet_SuccessMaximumQos2, SubRet_Failure]"

definition suback_return_code_try_from :: "u8 \<Rightarrow> suback_return_code option" where
  "suback_return_code_try_from = enum_try_from suback_return_code_all suback_return_code_u8"

datatype connect_reason_code =
    Connect_Success
  | Connect_UnspecifiedError
  | Connect_MalformedPacket
  | Connect_ProtocolError
  | Connect_ImplementationSpecificError
  | Connect_UnsupportedProtocolVersion
  | Connect_ClientIdentifierNotValid
  | Connect_BadUserNameOrPassword
  | Connect_NotAuthorized
  | Connect_ServerUnavailable
  | Connect_ServerBusy
  | Connect_Banned
  | Connect_BadAuthenticationMethod
  | Connect_TopicNameInvalid
  | Connect_PacketTooLarge
  | Connect_QuotaExceeded
  | Connect_PayloadFormatInvalid
  | Connect_RetainNotSupported
  | Connect_QosNotSupported
  | Connect_UseAnotherServer
  | Connect_ServerMoved
  | Connect_ConnectionRateExceeded

primrec connect_reason_code_u8 :: "connect_reason_code \<Rightarrow> u8" where
  "connect_reason_code_u8 Connect_Success = 0x00"
| "connect_reason_code_u8 Connect_UnspecifiedError = 0x80"
| "connect_reason_code_u8 Connect_MalformedPacket = 0x81"
| "connect_reason_code_u8 Connect_ProtocolError = 0x82"
| "connect_reason_code_u8 Connect_ImplementationSpecificError = 0x83"
| "connect_reason_code_u8 Connect_UnsupportedProtocolVersion = 0x84"
| "connect_reason_code_u8 Connect_ClientIdentifierNotValid = 0x85"
| "connect_reason_code_u8 Connect_BadUserNameOrPassword = 0x86"
| "connect_reason_code_u8 Connect_NotAuthorized = 0x87"
| "connect_reason_code_u8 Connect_ServerUnavailable = 0x88"
| "connect_reason_code_u8 Connect_ServerBusy = 0x89"
| "connect_reason_code_u8 Connect_Banned = 0x8A"
| "connect_reason_code_u8 Connect_BadAuthenticationMethod = 0x8C"
| "connect_reason_code_u8 Connect_TopicNameInvalid = 0x90"
| "connect_reason_code_u8 Connect_PacketTooLarge = 0x95"
| "connect_reason_code_u8 Connect_QuotaExceeded = 0x97"
| "connect_reason_code_u8 Connect_PayloadFormatInvalid = 0x99"
| "connect_reason_code_u8 Connect_RetainNotSupported = 0x9A"
| "connect_reason_code_u8 Connect_QosNotSupported = 0x9B"
| "connect_reason_code_u8 Connect_UseAnotherServer = 0x9C"
| "connect_reason_code_u8 Connect_ServerMoved = 0x9D"
| "connect_reason_code_u8 Connect_ConnectionRateExceeded = 0x9F"

definition connect_reason_code_all :: "connect_reason_code list" where
  "connect_reason_code_all = [Connect_Success, Connect_UnspecifiedError, Connect_MalformedPacket, Connect_ProtocolError, Connect_ImplementationSpecificError, Connect_UnsupportedProtocolVersion, Connect_ClientIdentifierNotValid, Connect_BadUserNameOrPassword, Connect_NotAuthorized, Connect_ServerUnavailable, Connect_ServerBusy, Connect_Banned, Connect_BadAuthenticationMethod, Connect_TopicNameInvalid, Connect_PacketTooLarge, Connect_QuotaExceeded, Connect_PayloadFormatInvalid, Connect_RetainNotSupported, Connect_QosNotSupported, Connect_UseAnotherServer, Connect_ServerMoved, Connect_ConnectionRateExceeded]"

definition connect_reason_code_try_from :: "u8 \<Rightarrow> connect_reason_code option" where
  "connect_reason_code_try_from = enum_try_from connect_reason_code_all connect_reason_code_u8"

datatype disconnect_reason_code =
    Disconnect_NormalDisconnection
  | Disconnect_DisconnectWithWillMessage
  | Disconnect_UnspecifiedError
  | Disconnect_MalformedPacket
  | Disconnect_ProtocolError
  | Disconnect_ImplementationSpecificError
  | Disconnect_NotAuthorized
  | Disconnect_ServerBusy
  | Disconnect_ServerShuttingDown
  | Disconnect_KeepAliveTimeout
  | Disconnect_SessionTakenOver
  | Disconnect_TopicFilterInvalid
  | Disconnect_TopicNameInvalid
  | Disconnect_ReceiveMaximumExceeded
  | Disconnect_TopicAliasInvalid
  | Disconnect_PacketTooLarge
  | Disconnect_MessageRateTooHigh
  | Disconnect_QuotaExceeded
  | Disconnect_AdministrativeAction
  | Disconnect_PayloadFormatInvalid
  | Disconnect_RetainNotSupported
  | Disconnect_QosNotSupported
  | Disconnect_UseAnotherServer
  | Disconnect_ServerMoved
  | Disconnect_SharedSubscriptionsNotSupported
  | Disconnect_ConnectionRateExceeded
  | Disconnect_MaximumConnectTime
  | Disconnect_SubscriptionIdentifiersNotSupported
  | Disconnect_WildcardSubscriptionsNotSupported

primrec disconnect_reason_code_u8 :: "disconnect_reason_code \<Rightarrow> u8" where
  "disconnect_reason_code_u8 Disconnect_NormalDisconnection = 0x00"
| "disconnect_reason_code_u8 Disconnect_DisconnectWithWillMessage = 0x04"
| "disconnect_reason_code_u8 Disconnect_UnspecifiedError = 0x80"
| "disconnect_reason_code_u8 Disconnect_MalformedPacket = 0x81"
| "disconnect_reason_code_u8 Disconnect_ProtocolError = 0x82"
| "disconnect_reason_code_u8 Disconnect_ImplementationSpecificError = 0x83"
| "disconnect_reason_code_u8 Disconnect_NotAuthorized = 0x87"
| "disconnect_reason_code_u8 Disconnect_ServerBusy = 0x89"
| "disconnect_reason_code_u8 Disconnect_ServerShuttingDown = 0x8B"
| "disconnect_reason_code_u8 Disconnect_KeepAliveTimeout = 0x8D"
| "disconnect_reason_code_u8 Disconnect_SessionTakenOver = 0x8E"
| "disconnect_reason_code_u8 Disconnect_TopicFilterInvalid = 0x8F"
| "disconnect_reason_code_u8 Disconnect_TopicNameInvalid = 0x90"
| "disconnect_reason_code_u8 Disconnect_ReceiveMaximumExceeded = 0x93"
| "disconnect_reason_code_u8 Disconnect_TopicAliasInvalid = 0x94"
| "disconnect_reason_code_u8 Disconnect_PacketTooLarge = 0x95"
| "disconnect_reason_code_u8 Disconnect_MessageRateTooHigh = 0x96"
| "disconnect_reason_code_u8 Disconnect_QuotaExceeded = 0x97"
| "disconnect_reason_code_u8 Disconnect_AdministrativeAction = 0x98"
| "disconnect_reason_code_u8 Disconnect_PayloadFormatInvalid = 0x99"
| "disconnect_reason_code_u8 Disconnect_RetainNotSupported = 0x9A"
| "disconnect_reason_code_u8 Disconnect_QosNotSupported = 0x9B"
| "disconnect_reason_code_u8 Disconnect_UseAnotherServer = 0x9C"
| "disconnect_reason_code_u8 Disconnect_ServerMoved = 0x9D"
| "disconnect_reason_code_u8 Disconnect_SharedSubscriptionsNotSupported = 0x9E"
| "disconnect_reason_code_u8 Disconnect_ConnectionRateExceeded = 0x9F"
| "disconnect_reason_code_u8 Disconnect_MaximumConnectTime = 0xA0"
| "disconnect_reason_code_u8 Disconnect_SubscriptionIdentifiersNotSupported = 0xA1"
| "disconnect_reason_code_u8 Disconnect_WildcardSubscriptionsNotSupported = 0xA2"

definition disconnect_reason_code_all :: "disconnect_reason_code list" where
  "disconnect_reason_code_all = [Disconnect_NormalDisconnection, Disconnect_DisconnectWithWillMessage, Disconnect_UnspecifiedError, Disconnect_MalformedPacket, Disconnect_ProtocolError, Disconnect_ImplementationSpecificError, Disconnect_NotAuthorized, Disconnect_ServerBusy, Disconnect_ServerShuttingDown, Disconnect_KeepAliveTimeout, Disconnect_SessionTakenOver, Disconnect_TopicFilterInvalid, Disconnect_TopicNameInvalid, Disconnect_ReceiveMaximumExceeded, Disconnect_TopicAliasInvalid, Disconnect_PacketTooLarge, Disconnect_MessageRateTooHigh, Disconnect_QuotaExceeded, Disconnect_AdministrativeAction, Disconnect_PayloadFormatInvalid, Disconnect_RetainNotSupported, Disconnect_QosNotSupported, Disconnect_UseAnotherServer, Disconnect_ServerMoved, Disconnect_SharedSubscriptionsNotSupported, Disconnect_ConnectionRateExceeded, Disconnect_MaximumConnectTime, Disconnect_SubscriptionIdentifiersNotSupported, Disconnect_WildcardSubscriptionsNotSupported]"

definition disconnect_reason_code_try_from :: "u8 \<Rightarrow> disconnect_reason_code option" where
  "disconnect_reason_code_try_from = enum_try_from disconnect_reason_code_all disconnect_reason_code_u8"

datatype suback_reason_code =
    Suback_GrantedQos0
  | Suback_GrantedQos1
  | Suback_GrantedQos2
  | Suback_UnspecifiedError
  | Suback_ImplementationSpecificError
  | Suback_NotAuthorized
  | Suback_TopicFilterInvalid
  | Suback_PacketIdentifierInUse
  | Suback_QuotaExceeded
  | Suback_SharedSubscriptionsNotSupported
  | Suback_SubscriptionIdentifiersNotSupported
  | Suback_WildcardSubscriptionsNotSupported

primrec suback_reason_code_u8 :: "suback_reason_code \<Rightarrow> u8" where
  "suback_reason_code_u8 Suback_GrantedQos0 = 0x00"
| "suback_reason_code_u8 Suback_GrantedQos1 = 0x01"
| "suback_reason_code_u8 Suback_GrantedQos2 = 0x02"
| "suback_reason_code_u8 Suback_UnspecifiedError = 0x80"
| "suback_reason_code_u8 Suback_ImplementationSpecificError = 0x83"
| "suback_reason_code_u8 Suback_NotAuthorized = 0x87"
| "suback_reason_code_u8 Suback_TopicFilterInvalid = 0x8F"
| "suback_reason_code_u8 Suback_PacketIdentifierInUse = 0x91"
| "suback_reason_code_u8 Suback_QuotaExceeded = 0x97"
| "suback_reason_code_u8 Suback_SharedSubscriptionsNotSupported = 0x9E"
| "suback_reason_code_u8 Suback_SubscriptionIdentifiersNotSupported = 0xA1"
| "suback_reason_code_u8 Suback_WildcardSubscriptionsNotSupported = 0xA2"

definition suback_reason_code_all :: "suback_reason_code list" where
  "suback_reason_code_all = [Suback_GrantedQos0, Suback_GrantedQos1, Suback_GrantedQos2, Suback_UnspecifiedError, Suback_ImplementationSpecificError, Suback_NotAuthorized, Suback_TopicFilterInvalid, Suback_PacketIdentifierInUse, Suback_QuotaExceeded, Suback_SharedSubscriptionsNotSupported, Suback_SubscriptionIdentifiersNotSupported, Suback_WildcardSubscriptionsNotSupported]"

definition suback_reason_code_try_from :: "u8 \<Rightarrow> suback_reason_code option" where
  "suback_reason_code_try_from = enum_try_from suback_reason_code_all suback_reason_code_u8"

datatype unsuback_reason_code =
    Unsuback_Success
  | Unsuback_NoSubscriptionExisted
  | Unsuback_UnspecifiedError
  | Unsuback_ImplementationSpecificError
  | Unsuback_NotAuthorized
  | Unsuback_TopicFilterInvalid
  | Unsuback_PacketIdentifierInUse

primrec unsuback_reason_code_u8 :: "unsuback_reason_code \<Rightarrow> u8" where
  "unsuback_reason_code_u8 Unsuback_Success = 0x00"
| "unsuback_reason_code_u8 Unsuback_NoSubscriptionExisted = 0x11"
| "unsuback_reason_code_u8 Unsuback_UnspecifiedError = 0x80"
| "unsuback_reason_code_u8 Unsuback_ImplementationSpecificError = 0x83"
| "unsuback_reason_code_u8 Unsuback_NotAuthorized = 0x87"
| "unsuback_reason_code_u8 Unsuback_TopicFilterInvalid = 0x8F"
| "unsuback_reason_code_u8 Unsuback_PacketIdentifierInUse = 0x91"

definition unsuback_reason_code_all :: "unsuback_reason_code list" where
  "unsuback_reason_code_all = [Unsuback_Success, Unsuback_NoSubscriptionExisted, Unsuback_UnspecifiedError, Unsuback_ImplementationSpecificError, Unsuback_NotAuthorized, Unsuback_TopicFilterInvalid, Unsuback_PacketIdentifierInUse]"

definition unsuback_reason_code_try_from :: "u8 \<Rightarrow> unsuback_reason_code option" where
  "unsuback_reason_code_try_from = enum_try_from unsuback_reason_code_all unsuback_reason_code_u8"

datatype puback_reason_code =
    Puback_Success
  | Puback_NoMatchingSubscribers
  | Puback_UnspecifiedError
  | Puback_ImplementationSpecificError
  | Puback_NotAuthorized
  | Puback_TopicNameInvalid
  | Puback_PacketIdentifierInUse
  | Puback_QuotaExceeded
  | Puback_PayloadFormatInvalid

primrec puback_reason_code_u8 :: "puback_reason_code \<Rightarrow> u8" where
  "puback_reason_code_u8 Puback_Success = 0x00"
| "puback_reason_code_u8 Puback_NoMatchingSubscribers = 0x10"
| "puback_reason_code_u8 Puback_UnspecifiedError = 0x80"
| "puback_reason_code_u8 Puback_ImplementationSpecificError = 0x83"
| "puback_reason_code_u8 Puback_NotAuthorized = 0x87"
| "puback_reason_code_u8 Puback_TopicNameInvalid = 0x90"
| "puback_reason_code_u8 Puback_PacketIdentifierInUse = 0x91"
| "puback_reason_code_u8 Puback_QuotaExceeded = 0x97"
| "puback_reason_code_u8 Puback_PayloadFormatInvalid = 0x99"

definition puback_reason_code_all :: "puback_reason_code list" where
  "puback_reason_code_all = [Puback_Success, Puback_NoMatchingSubscribers, Puback_UnspecifiedError, Puback_ImplementationSpecificError, Puback_NotAuthorized, Puback_TopicNameInvalid, Puback_PacketIdentifierInUse, Puback_QuotaExceeded, Puback_PayloadFormatInvalid]"

definition puback_reason_code_try_from :: "u8 \<Rightarrow> puback_reason_code option" where
  "puback_reason_code_try_from = enum_try_from puback_reason_code_all puback_reason_code_u8"

datatype pubrec_reason_code =
    Pubrec_Success
  | Pubrec_NoMatchingSubscribers
  | Pubrec_UnspecifiedError
  | Pubrec_ImplementationSpecificError
  | Pubrec_NotAuthorized
  | Pubrec_TopicNameInvalid
  | Pubrec_PacketIdentifierInUse
  | Pubrec_QuotaExceeded
  | Pubrec_PayloadFormatInvalid

primrec pubrec_reason_code_u8 :: "pubrec_reason_code \<Rightarrow> u8" where
  "pubrec_reason_code_u8 Pubrec_Success = 0x00"
| "pubrec_reason_code_u8 Pubrec_NoMatchingSubscribers = 0x10"
| "pubrec_reason_code_u8 Pubrec_UnspecifiedError = 0x80"
| "pubrec_reason_code_u8 Pubrec_ImplementationSpecificError = 0x83"
| "pubrec_reason_code_u8 Pubrec_NotAuthorized = 0x87"
| "pubrec_reason_code_u8 Pubrec_TopicNameInvalid = 0x90"
| "pubrec_reason_code_u8 Pubrec_PacketIdentifierInUse = 0x91"
| "pubrec_reason_code_u8 Pubrec_QuotaExceeded = 0x97"
| "pubrec_reason_code_u8 Pubrec_PayloadFormatInvalid = 0x99"

definition pubrec_reason_code_all :: "pubrec_reason_code list" where
  "pubrec_reason_code_all = [Pubrec_Success, Pubrec_NoMatchingSubscribers, Pubrec_UnspecifiedError, Pubrec_ImplementationSpecificError, Pubrec_NotAuthorized, Pubrec_TopicNameInvalid, Pubrec_PacketIdentifierInUse, Pubrec_QuotaExceeded, Pubrec_PayloadFormatInvalid]"

definition pubrec_reason_code_try_from :: "u8 \<Rightarrow> pubrec_reason_code option" where
  "pubrec_reason_code_try_from = enum_try_from pubrec_reason_code_all pubrec_reason_code_u8"

datatype pubrel_reason_code =
    Pubrel_Success
  | Pubrel_PacketIdentifierNotFound

primrec pubrel_reason_code_u8 :: "pubrel_reason_code \<Rightarrow> u8" where
  "pubrel_reason_code_u8 Pubrel_Success = 0x00"
| "pubrel_reason_code_u8 Pubrel_PacketIdentifierNotFound = 0x92"

definition pubrel_reason_code_all :: "pubrel_reason_code list" where
  "pubrel_reason_code_all = [Pubrel_Success, Pubrel_PacketIdentifierNotFound]"

definition pubrel_reason_code_try_from :: "u8 \<Rightarrow> pubrel_reason_code option" where
  "pubrel_reason_code_try_from = enum_try_from pubrel_reason_code_all pubrel_reason_code_u8"

datatype pubcomp_reason_code =
    Pubcomp_Success
  | Pubcomp_PacketIdentifierNotFound

primrec pubcomp_reason_code_u8 :: "pubcomp_reason_code \<Rightarrow> u8" where
  "pubcomp_reason_code_u8 Pubcomp_Success = 0x00"
| "pubcomp_reason_code_u8 Pubcomp_PacketIdentifierNotFound = 0x92"

definition pubcomp_reason_code_all :: "pubcomp_reason_code list" where
  "pubcomp_reason_code_all = [Pubcomp_Success, Pubcomp_PacketIdentifierNotFound]"

definition pubcomp_reason_code_try_from :: "u8 \<Rightarrow> pubcomp_reason_code option" where
  "pubcomp_reason_code_try_from = enum_try_from pubcomp_reason_code_all pubcomp_reason_code_u8"

datatype auth_reason_code =
    Auth_Success
  | Auth_ContinueAuthentication
  | Auth_ReAuthenticate

primrec auth_reason_code_u8 :: "auth_reason_code \<Rightarrow> u8" where
  "auth_reason_code_u8 Auth_Success = 0x00"
| "auth_reason_code_u8 Auth_ContinueAuthentication = 0x18"
| "auth_reason_code_u8 Auth_ReAuthenticate = 0x19"

definition auth_reason_code_all :: "auth_reason_code list" where
  "auth_reason_code_all = [Auth_Success, Auth_ContinueAuthentication, Auth_ReAuthenticate]"

definition auth_reason_code_try_from :: "u8 \<Rightarrow> auth_reason_code option" where
  "auth_reason_code_try_from = enum_try_from auth_reason_code_all auth_reason_code_u8"

section \<open>Success predicates and conversions\<close>

definition connect_return_code_is_success :: "connect_return_code \<Rightarrow> bool" where
  "connect_return_code_is_success c \<longleftrightarrow> c = ConnRet_Accepted"

definition suback_return_code_is_success :: "suback_return_code \<Rightarrow> bool" where
  "suback_return_code_is_success c \<longleftrightarrow> c = SubRet_SuccessMaximumQos0 \<or> c = SubRet_SuccessMaximumQos1 \<or> c = SubRet_SuccessMaximumQos2"

definition suback_reason_code_is_success :: "suback_reason_code \<Rightarrow> bool" where
  "suback_reason_code_is_success c \<longleftrightarrow> c = Suback_GrantedQos0 \<or> c = Suback_GrantedQos1 \<or> c = Suback_GrantedQos2"

definition unsuback_reason_code_is_success :: "unsuback_reason_code \<Rightarrow> bool" where
  "unsuback_reason_code_is_success c \<longleftrightarrow> c = Unsuback_Success \<or> c = Unsuback_NoSubscriptionExisted"

definition puback_reason_code_is_success :: "puback_reason_code \<Rightarrow> bool" where
  "puback_reason_code_is_success c \<longleftrightarrow> c = Puback_Success \<or> c = Puback_NoMatchingSubscribers"

definition pubrec_reason_code_is_success :: "pubrec_reason_code \<Rightarrow> bool" where
  "pubrec_reason_code_is_success c \<longleftrightarrow> c = Pubrec_Success \<or> c = Pubrec_NoMatchingSubscribers"

definition pubrel_reason_code_is_success :: "pubrel_reason_code \<Rightarrow> bool" where
  "pubrel_reason_code_is_success c \<longleftrightarrow> c = Pubrel_Success"

definition pubcomp_reason_code_is_success :: "pubcomp_reason_code \<Rightarrow> bool" where
  "pubcomp_reason_code_is_success c \<longleftrightarrow> c = Pubcomp_Success"

definition auth_reason_code_is_success :: "auth_reason_code \<Rightarrow> bool" where
  "auth_reason_code_is_success c \<longleftrightarrow> c = Auth_Success \<or> c = Auth_ContinueAuthentication \<or> c = Auth_ReAuthenticate"

text \<open>\<open>From<MqttError> for DisconnectReasonCode\<close>: the reason sent when a connection is closed on an error.\<close>

definition disconnect_of_mqtt_error :: "mqtt_error \<Rightarrow> disconnect_reason_code" where
  "disconnect_of_mqtt_error e = (case e of
     UnspecifiedError \<Rightarrow> Disconnect_UnspecifiedError
   | MalformedPacket \<Rightarrow> Disconnect_MalformedPacket
   | ProtocolError \<Rightarrow> Disconnect_ProtocolError
   | ImplementationSpecificError \<Rightarrow> Disconnect_ImplementationSpecificError
   | NotAuthorized \<Rightarrow> Disconnect_NotAuthorized
   | ServerBusy \<Rightarrow> Disconnect_ServerBusy
   | ServerShuttingDown \<Rightarrow> Disconnect_ServerShuttingDown
   | KeepAliveTimeout \<Rightarrow> Disconnect_KeepAliveTimeout
   | SessionTakenOver \<Rightarrow> Disconnect_SessionTakenOver
   | TopicFilterInvalid \<Rightarrow> Disconnect_TopicFilterInvalid
   | TopicNameInvalid \<Rightarrow> Disconnect_TopicNameInvalid
   | ReceiveMaximumExceeded \<Rightarrow> Disconnect_ReceiveMaximumExceeded
   | TopicAliasInvalid \<Rightarrow> Disconnect_TopicAliasInvalid
   | PacketTooLarge \<Rightarrow> Disconnect_PacketTooLarge
   | MessageRateTooHigh \<Rightarrow> Disconnect_MessageRateTooHigh
   | QuotaExceeded \<Rightarrow> Disconnect_QuotaExceeded
   | AdministrativeAction \<Rightarrow> Disconnect_AdministrativeAction
   | PayloadFormatInvalid \<Rightarrow> Disconnect_PayloadFormatInvalid
   | RetainNotSupported \<Rightarrow> Disconnect_RetainNotSupported
   | QosNotSupported \<Rightarrow> Disconnect_QosNotSupported
   | UseAnotherServer \<Rightarrow> Disconnect_UseAnotherServer
   | ServerMoved \<Rightarrow> Disconnect_ServerMoved
   | SharedSubscriptionsNotSupported \<Rightarrow> Disconnect_SharedSubscriptionsNotSupported
   | ConnectionRateExceeded \<Rightarrow> Disconnect_ConnectionRateExceeded
   | MaximumConnectTime \<Rightarrow> Disconnect_MaximumConnectTime
   | SubscriptionIdentifiersNotSupported \<Rightarrow> Disconnect_SubscriptionIdentifiersNotSupported
   | WildcardSubscriptionsNotSupported \<Rightarrow> Disconnect_WildcardSubscriptionsNotSupported
   | _ \<Rightarrow> Disconnect_UnspecifiedError)"

section \<open>The derived conversions meet their contract\<close>

interpretation connect_return_code: wire_enum connect_return_code_all connect_return_code_u8
proof
  show "e \<in> set connect_return_code_all" for e by (cases e) (simp_all add: connect_return_code_all_def)
qed (simp add: connect_return_code_all_def)

interpretation suback_return_code: wire_enum suback_return_code_all suback_return_code_u8
proof
  show "e \<in> set suback_return_code_all" for e by (cases e) (simp_all add: suback_return_code_all_def)
qed (simp add: suback_return_code_all_def)

interpretation connect_reason_code: wire_enum connect_reason_code_all connect_reason_code_u8
proof
  show "e \<in> set connect_reason_code_all" for e by (cases e) (simp_all add: connect_reason_code_all_def)
qed (simp add: connect_reason_code_all_def)

interpretation disconnect_reason_code: wire_enum disconnect_reason_code_all disconnect_reason_code_u8
proof
  show "e \<in> set disconnect_reason_code_all" for e by (cases e) (simp_all add: disconnect_reason_code_all_def)
qed (simp add: disconnect_reason_code_all_def)

interpretation suback_reason_code: wire_enum suback_reason_code_all suback_reason_code_u8
proof
  show "e \<in> set suback_reason_code_all" for e by (cases e) (simp_all add: suback_reason_code_all_def)
qed (simp add: suback_reason_code_all_def)

interpretation unsuback_reason_code: wire_enum unsuback_reason_code_all unsuback_reason_code_u8
proof
  show "e \<in> set unsuback_reason_code_all" for e by (cases e) (simp_all add: unsuback_reason_code_all_def)
qed (simp add: unsuback_reason_code_all_def)

interpretation puback_reason_code: wire_enum puback_reason_code_all puback_reason_code_u8
proof
  show "e \<in> set puback_reason_code_all" for e by (cases e) (simp_all add: puback_reason_code_all_def)
qed (simp add: puback_reason_code_all_def)

interpretation pubrec_reason_code: wire_enum pubrec_reason_code_all pubrec_reason_code_u8
proof
  show "e \<in> set pubrec_reason_code_all" for e by (cases e) (simp_all add: pubrec_reason_code_all_def)
qed (simp add: pubrec_reason_code_all_def)

interpretation pubrel_reason_code: wire_enum pubrel_reason_code_all pubrel_reason_code_u8
proof
  show "e \<in> set pubrel_reason_code_all" for e by (cases e) (simp_all add: pubrel_reason_code_all_def)
qed (simp add: pubrel_reason_code_all_def)

interpretation pubcomp_reason_code: wire_enum pubcomp_reason_code_all pubcomp_reason_code_u8
proof
  show "e \<in> set pubcomp_reason_code_all" for e by (cases e) (simp_all add: pubcomp_reason_code_all_def)
qed (simp add: pubcomp_reason_code_all_def)

interpretation auth_reason_code: wire_enum auth_reason_code_all auth_reason_code_u8
proof
  show "e \<in> set auth_reason_code_all" for e by (cases e) (simp_all add: auth_reason_code_all_def)
qed (simp add: auth_reason_code_all_def)

lemmas reason_try_from_defs [rust_defs] =
  connect_return_code_try_from_def suback_return_code_try_from_def connect_reason_code_try_from_def
  disconnect_reason_code_try_from_def suback_reason_code_try_from_def unsuback_reason_code_try_from_def
  puback_reason_code_try_from_def pubrec_reason_code_try_from_def pubrel_reason_code_try_from_def
  pubcomp_reason_code_try_from_def auth_reason_code_try_from_def

text \<open>
  An error that closes a connection is reported with its own reason byte whenever the
  DISCONNECT packet has one, and as an unspecified error otherwise.
\<close>

lemma disconnect_code_of_error:
  "disconnect_reason_code_u8 (disconnect_of_mqtt_error e) =
     (if mqtt_error_try_from (ucast (mqtt_error_code e)) = Some e
         \<and> disconnect_reason_code_try_from (ucast (mqtt_error_code e)) \<noteq> None
      then ucast (mqtt_error_code e) else 0x80)"
  by (cases e) (simp_all add: disconnect_of_mqtt_error_def mqtt_error_try_from_def
      disconnect_reason_code_try_from_def enum_try_from_def disconnect_reason_code_all_def)

end
