(* ===== verification/Packet_Builder.thy ===== *)
theory Packet_Builder
  imports Variable_Byte_Integer Result_Code
begin

text \<open>
  \<^verbatim>\<open>src/mqtt/connection/packet_builder.rs\<close> and the reading operations of
  \<^verbatim>\<open>src/mqtt/common/cursor.rs\<close>: the assembly of packets from a byte stream that arrives in
  arbitrary pieces.  The builder is a three-state machine (fixed header, remaining length,
  payload) that is advanced by every \<open>feed\<close>.  \<open>frame\<close> says what the first packet of a byte
  stream is; the refinement theorem shows that the builder computes it however the stream
  is cut into pieces, that it never panics and consumes exactly the bytes of the packet.
\<close>

section \<open>The cursor\<close>

record cursor =
  inner :: bytes
  pos :: nat

definition cursor_new :: "bytes \<Rightarrow> cursor" where
  "cursor_new bs = \<lparr>inner = bs, pos = 0\<rparr>"

definition remaining_slice :: "cursor \<Rightarrow> bytes" where
  "remaining_slice c = (if pos c \<le> length (inner c) then drop (pos c) (inner c) else [])"

text \<open>\<open>read\<close> into a slice of \<open>n\<close> bytes: the bytes copied and the cursor behind them.\<close>

definition cursor_read :: "cursor \<Rightarrow> nat \<Rightarrow> bytes \<times> cursor" where
  "cursor_read c n =
     (let available = length (inner c) - pos c; to_read = min n available in
      if to_read > 0 then (take to_read (drop (pos c) (inner c)), c\<lparr>pos := pos c + to_read\<rparr>)
      else ([], c))"

text \<open>\<open>read_exact\<close>: \<open>None\<close> is \<open>CursorError::UnexpectedEof\<close>.\<close>

definition cursor_read_exact :: "cursor \<Rightarrow> nat \<Rightarrow> (bytes \<times> cursor) option" where
  "cursor_read_exact c n =
     (let available = length (inner c) - pos c in
      if available < n then None
      else Some (take n (drop (pos c) (inner c)), c\<lparr>pos := pos c + n\<rparr>))"

section \<open>Raw packets and the builder\<close>

datatype packet_data = Normal bytes | Publish_Arc bytes

record raw_packet =
  rp_fixed_header :: u8
  rp_data :: packet_data

primrec data_as_slice :: "packet_data \<Rightarrow> bytes" where
  "data_as_slice (Normal v) = v"
| "data_as_slice (Publish_Arc a) = a"

definition rp_packet_type :: "raw_packet \<Rightarrow> u8" where
  "rp_packet_type p = drop_bit 4 (rp_fixed_header p)"

definition rp_flags :: "raw_packet \<Rightarrow> u8" where
  "rp_flags p = rp_fixed_header p AND 0x0F"

text \<open>\<open>data.len().try_into().unwrap()\<close> from \<open>usize\<close> to \<open>u32\<close>.\<close>

definition rp_remaining_length :: "raw_packet \<Rightarrow> u32 rust" where
  "rp_remaining_length p =
     (let n = length (data_as_slice (rp_data p)) in
      if n < 2 ^ 32 then Ret (of_nat n) else Panic Unwrap_Failed)"

datatype packet_build_result =
    Complete raw_packet
  | Incomplete
  | Build_Error mqtt_error

datatype read_state = Read_FixedHeader | Read_RemainingLength | Read_Payload

record packet_builder =
  pb_state :: read_state
  header_buf :: bytes
  pb_remaining_length :: nat
  multiplier :: u32
  raw_buf :: "bytes option"
  raw_buf_offset :: nat

definition pb_new :: packet_builder where
  "pb_new = \<lparr>pb_state = Read_FixedHeader, header_buf = [], pb_remaining_length = 0,
             multiplier = 1, raw_buf = None, raw_buf_offset = 0\<rparr>"

definition pb_reset :: "packet_builder \<Rightarrow> packet_builder" where
  "pb_reset pb = pb\<lparr>pb_state := Read_FixedHeader, header_buf := [], pb_remaining_length := 0,
                    multiplier := 1, raw_buf := None, raw_buf_offset := 0\<rparr>"

definition get_packet_type :: "packet_builder \<Rightarrow> u8" where
  "get_packet_type pb = (if header_buf pb \<noteq> [] then header_buf pb ! 0 else 0)"

definition is_publish_packet :: "packet_builder \<Rightarrow> bool" where
  "is_publish_packet pb \<longleftrightarrow> get_packet_type pb AND 0xF0 = 0x30"

text \<open>\<open>Vec::resize(n, 0)\<close>, and writing into the slice that starts at \<open>off\<close>.\<close>

definition vec_resize :: "bytes \<Rightarrow> nat \<Rightarrow> bytes" where
  "vec_resize v n = take n v @ replicate (n - length v) 0"

definition slice_write :: "bytes \<Rightarrow> nat \<Rightarrow> bytes \<Rightarrow> bytes" where
  "slice_write v off bs = take off v @ bs @ drop (off + length bs) v"

definition umul_128 :: "u32 \<Rightarrow> u32 rust" where
  "umul_128 m = (if unat m * 128 < 2 ^ 32 then Ret (m * 128) else Panic Arith_Overflow)"

text \<open>The bodies of the three arms of \<open>feed\<close>'s loop; \<open>None\<close> as result: the loop goes on.\<close>

type_synonym feed_step = "(packet_build_result option \<times> packet_builder \<times> cursor) rust"

definition feed_fixed_header :: "packet_builder \<Rightarrow> cursor \<Rightarrow> feed_step" where
  "feed_fixed_header pb c =
     (case cursor_read_exact c 1 of
        None \<Rightarrow> Ret (Some Incomplete, pb, c)
      | Some (byte, c') \<Rightarrow>
          Ret (None, pb\<lparr>header_buf := header_buf pb @ [byte ! 0], pb_state := Read_RemainingLength\<rparr>, c'))"

definition feed_remaining_length :: "packet_builder \<Rightarrow> cursor \<Rightarrow> feed_step" where
  "feed_remaining_length pb c =
     (case cursor_read_exact c 1 of
        None \<Rightarrow> Ret (Some Incomplete, pb, c)
      | Some (byte, c') \<Rightarrow>
          let encoded_byte = byte ! 0;
              pb1 = pb\<lparr>header_buf := header_buf pb @ [encoded_byte],
                       pb_remaining_length := pb_remaining_length pb
                         + unat (encoded_byte AND 0x7F) * unat (multiplier pb)\<rparr> in
          rbind (umul_128 (multiplier pb)) (\<lambda>m.
          let pb2 = pb1\<lparr>multiplier := m\<rparr> in
          if m > 128 * 128 * 128 then Ret (Some (Build_Error MalformedPacket), pb_reset pb2, c')
          else if encoded_byte AND 0x80 = 0 then
            if pb_remaining_length pb2 = 0 then
              let packet_data = (if is_publish_packet pb2 then Publish_Arc [] else Normal []);
                  packet = \<lparr>rp_fixed_header = header_buf pb2 ! 0, rp_data = packet_data\<rparr>
              in Ret (Some (Complete packet), pb_reset pb2, c')
            else Ret (None, pb2\<lparr>raw_buf := Some [], raw_buf_offset := 0, pb_state := Read_Payload\<rparr>, c')
          else Ret (None, pb2, c')))"

definition feed_payload :: "packet_builder \<Rightarrow> cursor \<Rightarrow> feed_step" where
  "feed_payload pb c =
     rbind (unwrap (raw_buf pb)) (\<lambda>raw.
       let bytes_remaining = pb_remaining_length pb;
           available = length (inner c) - pos c;
           bytes_to_read = min bytes_remaining available in
       if bytes_to_read = 0 then Ret (Some Incomplete, pb, c)
       else
         let raw1 = vec_resize raw (raw_buf_offset pb + bytes_to_read);
             (bs, c') = cursor_read c bytes_to_read;
             raw2 = slice_write raw1 (raw_buf_offset pb) bs;
             bytes_read = length bs;
             pb1 = pb\<lparr>raw_buf := Some raw2, raw_buf_offset := raw_buf_offset pb + bytes_read,
                      pb_remaining_length := pb_remaining_length pb - bytes_read\<rparr> in
         if pb_remaining_length pb1 = 0 then
           let packet_data = (if is_publish_packet pb1 then Publish_Arc raw2 else Normal raw2);
               packet = \<lparr>rp_fixed_header = header_buf pb1 ! 0, rp_data = packet_data\<rparr>
           in Ret (Some (Complete packet), pb_reset pb1, c')
         else Ret (Some Incomplete, pb1, c'))"

definition feed_arm :: "packet_builder \<Rightarrow> cursor \<Rightarrow> feed_step" where
  "feed_arm pb c = (case pb_state pb of
     Read_FixedHeader \<Rightarrow> feed_fixed_header pb c
   | Read_RemainingLength \<Rightarrow> feed_remaining_length pb c
   | Read_Payload \<Rightarrow> feed_payload pb c)"

lemma feed_arm_progress:
  "feed_arm pb c = Ret (None, pb', c') \<Longrightarrow> length (inner c') - pos c' < length (inner c) - pos c"
  by (auto simp: feed_arm_def feed_fixed_header_def feed_remaining_length_def feed_payload_def
      cursor_read_exact_def Let_def rbind_eq_Ret split: read_state.splits option.splits if_splits prod.splits)

function feed_loop :: "packet_builder \<Rightarrow> cursor \<Rightarrow> (packet_build_result \<times> packet_builder \<times> cursor) rust" where
  "feed_loop pb c =
     rbind (feed_arm pb c) (\<lambda>(r, pb', c').
       case r of Some res \<Rightarrow> Ret (res, pb', c') | None \<Rightarrow> feed_loop pb' c')"
  by pat_completeness auto
termination
  by (relation "measure (\<lambda>(_, c). length (inner c) - pos c)") (auto simp: feed_arm_progress)

declare feed_loop.simps [simp del]

text \<open>\<open>data.get_ref().len() as u64 - data.position()\<close> underflows when the position is behind the end.\<close>

definition feed :: "packet_builder \<Rightarrow> cursor \<Rightarrow> (packet_build_result \<times> packet_builder \<times> cursor) rust" where
  "feed pb c =
     (if pos c > length (inner c) then Panic Arith_Overflow
      else if length (inner c) - pos c = 0 then Ret (Incomplete, pb, c)
      else feed_loop pb c)"

section \<open>The first packet of a byte stream\<close>

datatype frame_result = Frame raw_packet nat | Frame_Pending | Frame_Malformed nat

definition mk_raw :: "u8 \<Rightarrow> bytes \<Rightarrow> raw_packet" where
  "mk_raw h body = \<lparr>rp_fixed_header = h,
     rp_data = (if h AND 0xF0 = 0x30 then Publish_Arc body else Normal body)\<rparr>"

definition frame :: "bytes \<Rightarrow> frame_result" where
  "frame bs = (case bs of
     [] \<Rightarrow> Frame_Pending
   | h # t \<Rightarrow>
       (case vbi_scan (take 3 t) of
          None \<Rightarrow> if length t < 4 then Frame_Pending else Frame_Malformed 5
        | Some k \<Rightarrow>
            let n = vbi_val (take k t) in
            if length t < k + n then Frame_Pending
            else Frame (mk_raw h (take n (drop k t))) (1 + k + n)))"

text \<open>The state of the builder after the bytes of an unfinished packet.\<close>

definition pb_after :: "bytes \<Rightarrow> packet_builder" where
  "pb_after p = (case p of
     [] \<Rightarrow> pb_new
   | h # t \<Rightarrow>
       (case vbi_scan (take 3 t) of
          None \<Rightarrow> \<lparr>pb_state = Read_RemainingLength, header_buf = p, pb_remaining_length = vbi_val t,
                   multiplier = of_nat (128 ^ length t), raw_buf = None, raw_buf_offset = 0\<rparr>
        | Some k \<Rightarrow> \<lparr>pb_state = Read_Payload, header_buf = h # take k t,
                     pb_remaining_length = vbi_val (take k t) - (length t - k),
                     multiplier = of_nat (128 ^ k), raw_buf = Some (drop k t),
                     raw_buf_offset = length t - k\<rparr>))"

abbreviation advance :: "cursor \<Rightarrow> nat \<Rightarrow> cursor" where
  "advance c n \<equiv> c\<lparr>pos := pos c + n\<rparr>"

abbreviation unread :: "cursor \<Rightarrow> bytes" where
  "unread c \<equiv> drop (pos c) (inner c)"

lemma pb_reset_new [simp]: "pb_reset pb = pb_new"
  by (cases pb) (simp add: pb_reset_def pb_new_def)

lemma vbi_scan_append:
  "vbi_scan (xs @ ys) = (case vbi_scan xs of Some k \<Rightarrow> Some k
     | None \<Rightarrow> map_option ((+) (length xs)) (vbi_scan ys))"
  by (induction xs; cases "vbi_scan ys") (auto split: option.splits)

lemma vbi_val_append: "vbi_val (xs @ ys) = vbi_val xs + 128 ^ length xs * vbi_val ys"
  by (induction xs) (simp_all add: algebra_simps)

lemma read_exact_1:
  "cursor_read_exact c (Suc 0) = (case unread c of [] \<Rightarrow> None | b # _ \<Rightarrow> Some ([b], advance c 1))"
  by (cases "unread c") (auto simp: cursor_read_exact_def drop_eq_Nil dest: arg_cong [where f = length])

lemma scan_take_stable:
  "vbi_scan (take 3 t) = Some k \<Longrightarrow> vbi_scan (take 3 (t @ r)) = Some k \<and> k \<le> length t \<and> take k (t @ r) = take k t"
  using vbi_scan_le [of "take 3 t" k] by (auto simp: vbi_scan_append)

text \<open>A finished packet is not changed by the bytes that follow it.\<close>

lemma frame_append:
  assumes "frame q \<noteq> Frame_Pending"
  shows "frame (q @ r) = frame q"
proof (cases q)
  case (Cons h t)
  show ?thesis
  proof (cases "vbi_scan (take 3 t)")
    case None
    then have "\<not> length t < 4" using assms Cons by (simp add: frame_def split: if_splits)
    then show ?thesis using None Cons by (simp add: frame_def)
  next
    case (Some k)
    then show ?thesis
      using assms Cons scan_take_stable [OF Some, of r]
      by (simp add: frame_def Let_def split: if_splits)
  qed
qed (use assms in \<open>simp add: frame_def\<close>)

text \<open>Outside the payload every byte is one round of the loop.\<close>

lemma pow_128_u32:
  assumes "k \<le> 3"
  shows "unat (of_nat (128 ^ k) :: u32) = 128 ^ k" and "umul_128 (of_nat (128 ^ k)) = Ret (of_nat (128 ^ Suc k))"
    and "of_nat (128 ^ Suc k) > (128 * 128 * 128 :: u32) \<longleftrightarrow> k = 3"
proof -
  have "k = 0 \<or> k = 1 \<or> k = 2 \<or> k = 3" using assms by linarith
  then show "unat (of_nat (128 ^ k) :: u32) = 128 ^ k"
    "umul_128 (of_nat (128 ^ k)) = Ret (of_nat (128 ^ Suc k))"
    "of_nat (128 ^ Suc k) > (128 * 128 * 128 :: u32) \<longleftrightarrow> k = 3"
    by (elim disjE; simp add: umul_128_def)+
qed

lemma feed_header_byte:
  assumes "unread c = b # d"
  shows "feed_arm (pb_after []) c = Ret (None, pb_after [b], advance c 1)"
  using assms
  by (simp add: feed_arm_def pb_after_def pb_new_def feed_fixed_header_def read_exact_1)

lemma feed_length_byte:
  assumes "unread c = b # d" and scan: "vbi_scan (take 3 t) = None" and len: "length t < 4"
  shows "feed_arm (pb_after (h # t)) c =
    Ret (case frame (h # t @ [b]) of
           Frame_Pending \<Rightarrow> (None, pb_after (h # t @ [b]), advance c 1)
         | Frame pkt n \<Rightarrow> (Some (Complete pkt), pb_new, advance c 1)
         | Frame_Malformed n \<Rightarrow> (Some (Build_Error MalformedPacket), pb_new, advance c 1))"
proof -
  note pow = pow_128_u32 [of "length t"]
  show ?thesis
  proof (cases "length t = 3")
    case True
    then show ?thesis
      using pow scan assms(1)
      by (simp add: feed_arm_def feed_remaining_length_def read_exact_1 pb_after_def frame_def Let_def)
  next
    case False
    then have l3: "length t < 3" using len by simp
    then have take3: "take 3 (t @ [b]) = t @ [b]" "take 3 t = t" by simp_all
    have scan': "vbi_scan (t @ [b]) = (if unat b < 128 then Some (Suc (length t)) else None)"
      using scan take3 by (simp add: vbi_scan_append)
    have val: "vbi_val (t @ [b]) = vbi_val t + unat b mod 128 * 128 ^ length t"
      by (simp add: vbi_val_append)
    show ?thesis
      using pow l3 scan take3 scan' assms(1)
      by (simp add: feed_arm_def feed_remaining_length_def read_exact_1 pb_after_def frame_def Let_def val
          mk_raw_def is_publish_packet_def get_packet_type_def nth_append)
  qed
qed

lemma frame_Some:
  "vbi_scan (take 3 t) = Some k \<Longrightarrow> frame (h # t) =
     (if length t < k + vbi_val (take k t) then Frame_Pending
      else Frame (mk_raw h (take (vbi_val (take k t)) (drop k t))) (1 + k + vbi_val (take k t)))"
  by (simp add: frame_def Let_def)

lemma pb_after_Some:
  "vbi_scan (take 3 t) = Some k \<Longrightarrow> pb_after (h # t) =
     \<lparr>pb_state = Read_Payload, header_buf = h # take k t,
      pb_remaining_length = vbi_val (take k t) - (length t - k), multiplier = of_nat (128 ^ k),
      raw_buf = Some (drop k t), raw_buf_offset = length t - k\<rparr>"
  by (simp add: pb_after_def)

text \<open>The payload arm appends what is there of the missing bytes.\<close>

lemma feed_payload_eq:
  assumes raw: "raw_buf pb = Some raw" "raw_buf_offset pb = length raw"
    and h: "header_buf pb = h # hs" and rem: "0 < pb_remaining_length pb"
    and m: "m = min (pb_remaining_length pb) (length (unread c))"
  shows "feed_payload pb c = Ret
    (if m = pb_remaining_length pb then (Some (Complete (mk_raw h (raw @ take m (unread c)))), pb_new, advance c m)
     else (Some Incomplete, pb\<lparr>raw_buf := Some (raw @ take m (unread c)),
             raw_buf_offset := length raw + m, pb_remaining_length := pb_remaining_length pb - m\<rparr>, advance c m))"
proof (cases "m = 0")
  case True
  then have "unread c = []" using rem m by auto
  then show ?thesis using raw rem True m by (simp add: feed_payload_def)
next
  case False
  define bs where "bs = take m (unread c)"
  have read: "cursor_read c m = (bs, advance c m)"
    using False m by (simp add: cursor_read_def Let_def bs_def)
  have len: "length bs = m" using m by (simp add: bs_def)
  have wr: "slice_write (vec_resize raw (length raw + m)) (length raw) bs = raw @ bs"
    using len by (simp add: slice_write_def vec_resize_def)
  have mm: "min (pb_remaining_length pb) (length (inner c) - pos c) = m" "m \<le> pb_remaining_length pb"
    using m by simp_all
  then show ?thesis
    unfolding bs_def [symmetric]
    using raw False rem len
    by (simp add: feed_payload_def read wr Let_def mk_raw_def is_publish_packet_def
        get_packet_type_def h)
qed

definition feed_outcome :: "bytes \<Rightarrow> bytes \<Rightarrow> cursor \<Rightarrow> packet_build_result \<times> packet_builder \<times> cursor" where
  "feed_outcome p d c = (case frame (p @ d) of
     Frame_Pending \<Rightarrow> (Incomplete, pb_after (p @ d), advance c (length d))
   | Frame pkt n \<Rightarrow> (Complete pkt, pb_new, advance c (n - length p))
   | Frame_Malformed n \<Rightarrow> (Build_Error MalformedPacket, pb_new, advance c (n - length p)))"

lemma feed_payload_bytes:
  assumes scan: "vbi_scan (take 3 t) = Some k" and pend: "frame (h # t) = Frame_Pending"
  shows "feed_loop (pb_after (h # t)) c = Ret (feed_outcome (h # t) (unread c) c)"
proof -
  define d where "d = unread c"
  define n where "n = vbi_val (take k t)"
  have st: "k \<le> length t" "vbi_scan (take 3 (t @ d)) = Some k" "take k (t @ d) = take k t"
    using scan_take_stable [OF scan, of d] by simp_all
  have short: "length t < k + n"
    using pend frame_Some [OF scan, of h] by (simp add: n_def split: if_splits)
  define m where "m = min (n - (length t - k)) (length d)"
  let ?pb = "pb_after (h # t)"
  note pb = pb_after_Some [OF scan, of h, folded n_def]
  have loop: "feed_loop ?pb c = rbind (feed_payload ?pb c) (\<lambda>(r, pb', c').
       case r of Some res \<Rightarrow> Ret (res, pb', c') | None \<Rightarrow> feed_loop pb' c')"
    by (subst feed_loop.simps) (simp add: feed_arm_def pb)
  have pay: "feed_payload ?pb c = Ret
    (if m = n - (length t - k) then (Some (Complete (mk_raw h (drop k t @ take m d))), pb_new, advance c m)
     else (Some Incomplete, ?pb\<lparr>raw_buf := Some (drop k t @ take m d),
             raw_buf_offset := length (drop k t) + m, pb_remaining_length := n - (length t - k) - m\<rparr>, advance c m))"
    using short st(1) feed_payload_eq [of ?pb "drop k t" h "take k t" m c]
    by (simp add: pb m_def d_def)
  show ?thesis
  proof (cases "length t + length d < k + n")
    case True
    then have "m = length d" "m \<noteq> n - (length t - k)" using st(1) short by (auto simp: m_def)
    then show ?thesis
      using True st frame_Some [OF st(2), of h] pb_after_Some [OF st(2), of h]
      unfolding loop pay by (simp add: feed_outcome_def d_def [symmetric] n_def [symmetric] pb)
  next
    case False
    then have "m = n - (length t - k)" "take n (drop k (t @ d)) = drop k t @ take m d"
      using st(1) short by (auto simp: m_def)
    then show ?thesis
      using False st frame_Some [OF st(2), of h]
      by (simp add: loop pay feed_outcome_def d_def [symmetric] n_def [symmetric])
  qed
qed

text \<open>The bytes of a packet are exactly those it is found in.\<close>

fun frame_used :: "frame_result \<Rightarrow> nat" where
  "frame_used (Frame pkt n) = n"
| "frame_used (Frame_Malformed n) = n"
| "frame_used Frame_Pending = 0"

lemma frame_used_take:
  assumes "frame q \<noteq> Frame_Pending"
  shows "frame_used (frame q) \<le> length q \<and> frame (take (frame_used (frame q)) q) = frame q"
proof (cases q)
  case (Cons h t)
  show ?thesis
  proof (cases "vbi_scan (take 3 t)")
    case None
    then have "\<not> length t < 4" using assms Cons by (simp add: frame_def split: if_splits)
    then show ?thesis using None Cons by (simp add: frame_def min_def)
  next
    case (Some k)
    let ?n = "vbi_val (take k t)"
    have len: "k + ?n \<le> length t" and f: "frame q = Frame (mk_raw h (take ?n (drop k t))) (1 + k + ?n)"
      using assms Cons frame_Some [OF Some, of h] by (auto split: if_splits)
    have "vbi_scan (take 3 (take (k + ?n) t)) = Some k"
    proof -
      have k3: "k \<le> 3" using vbi_scan_le [OF Some] by simp
      have "take 3 t = take k t @ drop k (take 3 t)"
        using k3 by (metis append_take_drop_id min.absorb1 take_take)
      moreover have "vbi_scan (take k t) = Some k"
      proof -
        have scan_take: "vbi_scan xs = Some j \<Longrightarrow> vbi_scan (take j xs) = Some j" for xs j
          by (induction xs arbitrary: j) (auto split: if_splits)
        show ?thesis using scan_take [OF Some] k3 by (simp add: min_def)
      qed
      moreover have "take 3 (take (k + ?n) t) = take k t @ drop k (take 3 (take (k + ?n) t))"
        using k3 by (metis append_take_drop_id le_add1 min.absorb1 min.absorb_iff1 take_take)
      ultimately show ?thesis by (metis option.simps(5) vbi_scan_append)
    qed
    then show ?thesis
      using len f Cons frame_Some [of "take (k + ?n) t" k h] by (simp add: min_def take_drop add.commute)
  qed
qed (use assms in \<open>simp add: frame_def\<close>)

lemma frame_used_gt:
  assumes "frame p = Frame_Pending" and "frame (p @ r) \<noteq> Frame_Pending"
  shows "length p < frame_used (frame (p @ r))" and "frame_used (frame (p @ r)) \<le> length p + length r"
proof -
  show "length p < frame_used (frame (p @ r))"
  proof (rule ccontr)
    assume "\<not> ?thesis"
    then have "frame (take (frame_used (frame (p @ r))) p) = frame (p @ r)"
      using frame_used_take [OF assms(2)] by simp
    then have "frame p \<noteq> Frame_Pending"
      using assms(2) frame_append [of "take (frame_used (frame (p @ r))) p" "drop (frame_used (frame (p @ r))) p"]
      by simp
    then show False using assms(1) by simp
  qed
qed (use frame_used_take [OF assms(2)] in simp)

text \<open>The whole loop, byte by byte up to the payload.\<close>

lemma feed_outcome_step:
  assumes "frame (p @ [b]) = Frame_Pending"
  shows "feed_outcome (p @ [b]) d (advance c 1) = feed_outcome p (b # d) c"
  using assms frame_used_gt(1) [of "p @ [b]" d]
  by (auto simp: feed_outcome_def split: frame_result.splits)

lemma feed_byte:
  assumes pend: "frame p = Frame_Pending" and "vbi_scan (take 3 (tl p)) = None" and u: "unread c = b # d"
  shows "feed_arm (pb_after p) c =
    Ret (if frame (p @ [b]) = Frame_Pending then (None, pb_after (p @ [b]), advance c 1)
         else map_prod Some id (feed_outcome p [b] c))"
proof (cases p)
  case Nil
  then show ?thesis using feed_header_byte [OF u] by (simp add: frame_def)
next
  case (Cons h t)
  then have "length t < 4" using assms by (simp add: frame_def split: if_splits)
  moreover have "frame_used (frame (h # t @ [b])) = length p + 1" if "frame (h # t @ [b]) \<noteq> Frame_Pending"
    using frame_used_gt [OF pend, of "[b]"] that Cons by simp
  ultimately show ?thesis
    using feed_length_byte [OF u, of t h] assms Cons
    by (auto simp: feed_outcome_def split: frame_result.splits)
qed

lemma feed_loop_outcome:
  assumes "frame p = Frame_Pending"
  shows "feed_loop (pb_after p) c = Ret (feed_outcome p (unread c) c)"
  using assms
proof (induction "length (unread c)" arbitrary: p c rule: less_induct)
  case less
  show ?case
  proof (cases "vbi_scan (take 3 (tl p))")
    case (Some k)
    then obtain h t where "p = h # t" by (cases p) auto
    then show ?thesis using feed_payload_bytes [of t k h c] Some less.prems by simp
  next
    case None
    show ?thesis
    proof (cases "unread c")
      case Nil
      then show ?thesis
        using None less.prems
        by (cases p) (auto simp: feed_loop.simps feed_arm_def pb_after_def pb_new_def feed_fixed_header_def
            feed_remaining_length_def read_exact_1 feed_outcome_def)
    next
      case (Cons b d)
      have d: "unread (advance c 1) = d" using Cons by (simp add: drop_Suc drop_tl)
      show ?thesis
      proof (cases "frame (p @ [b]) = Frame_Pending")
        case True
        have "length (unread (advance c 1)) < length (unread c)"
          by (simp only: d Cons) simp
        from less.hyps [OF this True] True show ?thesis
          using d Cons feed_byte [OF less.prems None Cons]
            feed_outcome_step [OF True, of d c]
          by (subst feed_loop.simps) simp
      next
        case False
        then have "feed_outcome p [b] c = feed_outcome p (b # d) c"
          using frame_append [OF False, of d] by (simp add: feed_outcome_def split: frame_result.splits)
        then show ?thesis
          using False feed_byte [OF less.prems None Cons] Cons
          by (subst feed_loop.simps) (simp add: case_prod_beta)
      qed
    qed
  qed
qed

lemma feed_outcome_correct:
  assumes "frame p = Frame_Pending" and "pos c \<le> length (inner c)"
  shows "feed (pb_after p) c = Ret (feed_outcome p (unread c) c)"
  using assms feed_loop_outcome [OF assms(1), of c]
  by (auto simp: feed_def feed_outcome_def)

lemma pb_after_Nil [simp]: "pb_after [] = pb_new"
  by (simp add: pb_after_def)

lemma frame_Nil [simp]: "frame [] = Frame_Pending"
  by (simp add: frame_def)

lemma frame_enc:
  assumes "n < 2097152" and "length body = n"
  shows "frame (h # vbi_enc n @ body @ rest) = Frame (mk_raw h body) (1 + length (vbi_enc n) + n)"
proof -
  have le: "length (vbi_enc n) \<le> 3"
    using assms(1) length_vbi_enc_bounds [of n] by linarith
  have "take 3 (vbi_enc n @ body @ rest) = vbi_enc n @ take (3 - length (vbi_enc n)) (body @ rest)"
    using le by simp
  then have "vbi_scan (take 3 (vbi_enc n @ body @ rest)) = Some (length (vbi_enc n))"
    using vbi_scan_enc [of n "take (3 - length (vbi_enc n)) (body @ rest)"] by simp
  from frame_Some [OF this, of h] show ?thesis using assms(2) by (simp add: vbi_val_enc)
qed

lemma vbi_scan_enc_short: "j < length (vbi_enc n) \<Longrightarrow> vbi_scan (take j (vbi_enc n)) = None"
proof (induction n arbitrary: j rule: less_induct)
  case (less n)
  then show ?case
    by (cases "n < 128"; cases j)
       (simp_all add: vbi_enc_small vbi_enc_step unat_cont_byte not_less del: of_nat_add)
qed

lemma frame_enc_long:
  assumes "2097152 \<le> n" and "n < 268435456"
  shows "frame (h # vbi_enc n @ rest) = Frame_Malformed 5"
proof -
  have "length (vbi_enc n) = 4" using assms length_vbi_enc_bounds(5) by simp
  then show ?thesis using vbi_scan_enc_short [of 3 n] by (simp add: frame_def)
qed

section \<open>Properties\<close>

text \<open>
  C8: the builder refines \<open>frame\<close> whatever pieces the stream arrives in.  After the bytes \<open>p\<close>
  of an unfinished packet the state of the builder depends on \<open>p\<close> only; feeding it the next
  piece never panics, and yields the packet that \<open>frame\<close> finds in \<open>p\<close> followed by the piece,
  with the cursor exactly behind that packet and the builder fresh again, or an error in the
  same manner, or asks for more after reading the whole piece.
\<close>

theorem feed_refines_frame:
  assumes "frame p = Frame_Pending" and "pos c \<le> length (inner c)"
  shows "feed (pb_after p) c = Ret (case frame (p @ unread c) of
     Frame_Pending \<Rightarrow> (Incomplete, pb_after (p @ unread c), advance c (length (unread c)))
   | Frame pkt n \<Rightarrow> (Complete pkt, pb_new, advance c (n - length p))
   | Frame_Malformed n \<Rightarrow> (Build_Error MalformedPacket, pb_new, advance c (n - length p)))"
  using feed_outcome_correct [OF assms] by (simp add: feed_outcome_def)

theorem feed_refines_frame_witness:
  "feed (pb_after [0x40, 2, 0]) (cursor_new [7, 0xD0, 0]) =
     Ret (Complete \<lparr>rp_fixed_header = 0x40, rp_data = Normal [0, 7]\<rparr>, pb_new, \<lparr>inner = [7, 0xD0, 0], pos = 1\<rparr>)"
proof -
  have "frame [0x40, 2, 0] = Frame_Pending" by (simp add: frame_def)
  moreover have "frame [0x40, 2, 0, 7, 0xD0, 0] = Frame \<lparr>rp_fixed_header = 0x40, rp_data = Normal [0, 7]\<rparr> 4"
    by (simp add: frame_def mk_raw_def)
  ultimately show ?thesis
    using feed_refines_frame [of "[0x40, 2, 0]" "cursor_new [7, 0xD0, 0]"] by (simp add: cursor_new_def)
qed

text \<open>
  What a peer frames, the builder returns: a fixed header byte, the remaining length of the
  body as a variable byte integer of up to three bytes, and the body, followed by anything,
  gives exactly that packet.
\<close>

theorem feed_framed_packet:
  assumes "length body < 2097152" and "from_u32 (of_nat (length body)) = Some vbi"
  shows "feed pb_new (cursor_new (h # encoded vbi @ body @ rest)) =
    Ret (Complete (mk_raw h body), pb_new,
         \<lparr>inner = h # encoded vbi @ body @ rest, pos = 1 + vbi_size vbi + length body\<rparr>)"
proof -
  have "encoded vbi = vbi_enc (length body)" using assms from_u32_of_nat [of "length body"] by auto
  then show ?thesis
    using feed_outcome_correct [of "[]" "cursor_new (h # encoded vbi @ body @ rest)"]
      frame_enc [OF assms(1) refl, of h rest]
    by (simp add: cursor_new_def feed_outcome_def vbi_size_def)
qed

theorem feed_framed_packet_witness:
  "feed pb_new (cursor_new (0x40 # encoded \<lparr>encoded = vbi_enc 2\<rparr> @ [0, 7] @ [0xD0])) =
    Ret (Complete (mk_raw 0x40 [0, 7]), pb_new, \<lparr>inner = 0x40 # vbi_enc 2 @ [0, 7, 0xD0], pos = 4\<rparr>)"
  using feed_framed_packet [of "[0, 7]" "\<lparr>encoded = vbi_enc 2\<rparr>" "0x40" "[0xD0]"] from_u32_of_nat [of 2]
  by (simp add: vbi_size_def length_vbi_enc)

text \<open>
  C32: the builder refuses every packet whose remaining length needs four bytes, although such
  lengths (2097152 to 268435455) are legal and \<open>VariableByteInteger\<close> encodes them: the fourth
  length byte is answered with \<open>MalformedPacket\<close>, whatever it is.
\<close>

theorem feed_rejects_four_byte_length:
  assumes "2097152 \<le> unat v" and "from_u32 v = Some vbi"
  shows "feed pb_new (cursor_new (h # encoded vbi @ rest)) =
    Ret (Build_Error MalformedPacket, pb_new, \<lparr>inner = h # encoded vbi @ rest, pos = 5\<rparr>)"
proof -
  have "encoded vbi = vbi_enc (unat v)" "unat v < 268435456"
    using assms by (auto simp: from_u32_eq split: if_splits)
  then show ?thesis
    using feed_outcome_correct [of "[]" "cursor_new (h # encoded vbi @ rest)"]
      frame_enc_long [OF assms(1), of h rest]
    by (simp add: cursor_new_def feed_outcome_def)
qed

theorem feed_rejects_four_byte_length_witness:
  "feed pb_new (cursor_new (0x30 # vbi_enc 2097152 @ [])) =
    Ret (Build_Error MalformedPacket, pb_new, \<lparr>inner = 0x30 # vbi_enc 2097152 @ [], pos = 5\<rparr>)"
  using feed_rejects_four_byte_length [of 2097152 "\<lparr>encoded = vbi_enc 2097152\<rparr>" "0x30" "[]"]
  by (simp add: from_u32_eq)

end
