(* ===== verification/Value_Allocator.thy ===== *)
theory Value_Allocator
  imports Rust_Prelude
begin

text \<open>
  \<^verbatim>\<open>src/mqtt/common/value_allocator.rs\<close>: the allocator of packet identifiers and topic
  aliases.  It keeps the vacant values as a \<open>BTreeSet\<close> of disjoint closed intervals whose
  order makes overlapping intervals compare equal.  The set is modelled by the list of its
  elements in ascending order.  The theory shows that the interval pool implements a plain
  finite set of vacant values (\<open>vacant\<close>), that the pool never fragments (adjacent
  intervals are merged, so the pool is determined by the vacant set), and that no call
  panics while its precondition holds.  The locale \<open>id_pool\<close> is the contract the packet
  identifier manager and the topic alias table rely on.
\<close>

section \<open>Intervals and their order\<close>

record 't value_interval =
  low :: 't
  high :: 't

datatype ordering = Less | Equal | Greater

definition new_single :: "'a::len word \<Rightarrow> 'a word value_interval" where
  "new_single v = \<lparr>low = v, high = v\<rparr>"

definition new_range :: "'a::len word \<Rightarrow> 'a word \<Rightarrow> 'a word value_interval" where
  "new_range l h = \<lparr>low = l, high = h\<rparr>"

definition iv_contains :: "'a::len word value_interval \<Rightarrow> 'a word \<Rightarrow> bool" where
  "iv_contains iv v \<longleftrightarrow> low iv \<le> v \<and> v \<le> high iv"

definition iv_cmp :: "'a::len word value_interval \<Rightarrow> 'a word value_interval \<Rightarrow> ordering" where
  "iv_cmp a b = (if high a < low b then Less else if high b < low a then Greater else Equal)"

text \<open>
  \<open>BTreeSet::insert\<close> keeps an element that compares equal; \<open>BTreeSet::remove\<close> takes out
  the element that compares equal.
\<close>

fun bt_insert :: "'a::len word value_interval \<Rightarrow> 'a word value_interval list \<Rightarrow> 'a word value_interval list" where
  "bt_insert x [] = [x]"
| "bt_insert x (y # ys) =
     (case iv_cmp x y of Less \<Rightarrow> x # y # ys | Equal \<Rightarrow> y # ys | Greater \<Rightarrow> y # bt_insert x ys)"

fun bt_remove :: "'a::len word value_interval \<Rightarrow> 'a word value_interval list \<Rightarrow> 'a word value_interval list" where
  "bt_remove x [] = []"
| "bt_remove x (y # ys) =
     (case iv_cmp x y of Less \<Rightarrow> y # ys | Equal \<Rightarrow> ys | Greater \<Rightarrow> y # bt_remove x ys)"

text \<open>\<open>range(b..).next()\<close> and \<open>range(..b).next_back()\<close>.\<close>

definition bt_first_ge :: "'a::len word value_interval \<Rightarrow> 'a word value_interval list \<Rightarrow> 'a word value_interval option" where
  "bt_first_ge b ivs = find (\<lambda>iv. iv_cmp iv b \<noteq> Less) ivs"

definition bt_last_lt :: "'a::len word value_interval \<Rightarrow> 'a word value_interval list \<Rightarrow> 'a word value_interval option" where
  "bt_last_lt b ivs = find (\<lambda>iv. iv_cmp iv b = Less) (rev ivs)"

section \<open>The allocator\<close>

record 't value_allocator =
  pool :: "'t value_interval list"
  lowest :: 't
  highest :: 't

definition va_new :: "'a::len word \<Rightarrow> 'a word \<Rightarrow> 'a word value_allocator rust" where
  "va_new lo hi =
     rbind (rassert (lo \<le> hi)) (\<lambda>_.
       Ret \<lparr>pool = bt_insert (new_range lo hi) [], lowest = lo, highest = hi\<rparr>)"

definition allocate :: "'a::len word value_allocator \<Rightarrow> ('a word option \<times> 'a word value_allocator) rust" where
  "allocate va =
     (case pool va of
        [] \<Rightarrow> Ret (None, va)
      | iv # _ \<Rightarrow>
          let v = low iv; p = bt_remove iv (pool va) in
          if v < high iv
          then rbind (uadd v 1) (\<lambda>v1.
                 Ret (Some v, va\<lparr>pool := bt_insert (new_range v1 (high iv)) p\<rparr>))
          else Ret (Some v, va\<lparr>pool := p\<rparr>))"

definition first_vacant :: "'a::len word value_allocator \<Rightarrow> 'a word option" where
  "first_vacant va = (case pool va of [] \<Rightarrow> None | iv # _ \<Rightarrow> Some (low iv))"

definition deallocate :: "'a::len word value_allocator \<Rightarrow> 'a word \<Rightarrow> 'a word value_allocator rust" where
  "deallocate va v =
     rbind (rassert (lowest va \<le> v \<and> v \<le> highest va)) (\<lambda>_.
       let right = bt_first_ge (new_single v) (pool va);
           left = bt_last_lt (new_single v) (pool va);
           both = (\<lambda>l r. Ret (va\<lparr>pool := bt_insert (new_range (low l) (high r))
                                           (bt_remove r (bt_remove l (pool va)))\<rparr>));
           to_left = (\<lambda>l. Ret (va\<lparr>pool := bt_insert (new_range (low l) v) (bt_remove l (pool va))\<rparr>));
           to_right = (\<lambda>r. Ret (va\<lparr>pool := bt_insert (new_range v (high r)) (bt_remove r (pool va))\<rparr>));
           alone = Ret (va\<lparr>pool := bt_insert (new_single v) (pool va)\<rparr>)
       in case (left, right) of
            (Some l, Some r) \<Rightarrow>
              rbind (uadd (high l) 1) (\<lambda>lh.
                if lh = v
                then rbind (uadd v 1) (\<lambda>v1. if v1 = low r then both l r else to_left l)
                else rbind (uadd v 1) (\<lambda>v1. if v1 = low r then to_right r else alone))
          | (Some l, None) \<Rightarrow>
              rbind (uadd (high l) 1) (\<lambda>lh. if lh = v then to_left l else alone)
          | (None, Some r) \<Rightarrow>
              rbind (uadd v 1) (\<lambda>v1. if v1 = low r then to_right r else alone)
          | (None, None) \<Rightarrow> alone)"

definition use_value :: "'a::len word value_allocator \<Rightarrow> 'a word \<Rightarrow> (bool \<times> 'a word value_allocator) rust" where
  "use_value va v =
     (case find (\<lambda>iv. iv_contains iv v) (pool va) of
        Some iv \<Rightarrow>
          let p = bt_remove iv (pool va) in
          rbind (if low iv < v
                 then rbind (usub v 1) (\<lambda>v0. Ret (bt_insert (new_range (low iv) v0) p))
                 else Ret p) (\<lambda>p1.
          rbind (if v < high iv
                 then rbind (uadd v 1) (\<lambda>v1. Ret (bt_insert (new_range v1 (high iv)) p1))
                 else Ret p1) (\<lambda>p2.
          Ret (True, va\<lparr>pool := p2\<rparr>)))
      | None \<Rightarrow> Ret (False, va))"

definition is_used :: "'a::len word value_allocator \<Rightarrow> 'a word \<Rightarrow> bool" where
  "is_used va v \<longleftrightarrow> \<not> list_ex (\<lambda>iv. iv_contains iv v) (pool va)"

definition va_clear :: "'a::len word value_allocator \<Rightarrow> 'a word value_allocator" where
  "va_clear va = va\<lparr>pool := bt_insert (new_range (lowest va) (highest va)) []\<rparr>"

definition interval_count :: "'a::len word value_allocator \<Rightarrow> nat" where
  "interval_count va = length (pool va)"

section \<open>Abstraction and invariant\<close>

text \<open>
  \<open>iv_sorted n ivs\<close>: the intervals are nonempty, ascending, start at \<open>n\<close> or later, and
  between two of them lies at least one value that is in use.
\<close>

fun iv_sorted :: "nat \<Rightarrow> 'a::len word value_interval list \<Rightarrow> bool" where
  "iv_sorted n [] = True"
| "iv_sorted n (iv # ivs) =
     (n \<le> unat (low iv) \<and> low iv \<le> high iv \<and> iv_sorted (unat (high iv) + 2) ivs)"

definition iv_set :: "'a::len word value_interval \<Rightarrow> 'a word set" where
  "iv_set iv = {v. iv_contains iv v}"

definition ivs_set :: "'a::len word value_interval list \<Rightarrow> 'a word set" where
  "ivs_set ivs = (\<Union>iv\<in>set ivs. iv_set iv)"

definition vacant :: "'a::len word value_allocator \<Rightarrow> 'a word set" where
  "vacant va = ivs_set (pool va)"

definition va_inv :: "'a::len word value_allocator \<Rightarrow> bool" where
  "va_inv va \<longleftrightarrow> iv_sorted 0 (pool va) \<and> vacant va \<subseteq> {lowest va .. highest va} \<and> lowest va \<le> highest va"

definition iv_end :: "nat \<Rightarrow> 'a::len word value_interval list \<Rightarrow> nat" where
  "iv_end n ivs = (if ivs = [] then n else unat (high (last ivs)) + 2)"

lemma iv_simps [simp]:
  "low (new_single v) = v" "high (new_single v) = v"
  "low (new_range l h) = l" "high (new_range l h) = h"
  by (simp_all add: new_single_def new_range_def)

lemma ivs_set_simps [simp]:
  "ivs_set [] = {}"
  "ivs_set (iv # ivs) = iv_set iv \<union> ivs_set ivs"
  "ivs_set (xs @ ys) = ivs_set xs \<union> ivs_set ys"
  by (auto simp: ivs_set_def)

lemma in_iv_set [simp]: "v \<in> iv_set iv \<longleftrightarrow> low iv \<le> v \<and> v \<le> high iv"
  by (simp add: iv_set_def iv_contains_def)

lemma iv_sorted_mono: "iv_sorted n ivs \<Longrightarrow> m \<le> n \<Longrightarrow> iv_sorted m ivs"
  by (cases ivs) auto

lemma iv_end_Cons [simp]: "iv_end n (iv # ivs) = iv_end (unat (high iv) + 2) ivs"
  by (simp add: iv_end_def)

lemma iv_end_Nil [simp]: "iv_end n [] = n"
  by (simp add: iv_end_def)

lemma iv_sorted_append:
  "iv_sorted n (xs @ ys) \<longleftrightarrow> iv_sorted n xs \<and> iv_sorted (iv_end n xs) ys"
  by (induction xs arbitrary: n) auto

lemma iv_sorted_ge: "iv_sorted n ivs \<Longrightarrow> iv \<in> set ivs \<Longrightarrow> n \<le> unat (low iv) \<and> low iv \<le> high iv"
proof (induction ivs arbitrary: n)
  case (Cons x ivs)
  then show ?case
    by (fastforce simp: word_le_nat_alt)
qed simp

lemma iv_sorted_below:
  "iv_sorted n xs \<Longrightarrow> iv \<in> set xs \<Longrightarrow> unat (high iv) + 2 \<le> iv_end n xs"
proof (induction xs arbitrary: n)
  case (Cons x xs)
  have end_mono: "m \<le> iv_end m xs" if "iv_sorted m xs" for m
    using that iv_sorted_ge [of m xs "last xs"] by (auto simp: iv_end_def word_le_nat_alt)
  show ?case
    using Cons end_mono by (cases "iv = x") auto
qed simp

text \<open>Insertion and removal at a known position.\<close>

lemma bt_insert_at:
  assumes "\<And>y. y \<in> set L \<Longrightarrow> iv_cmp x y = Greater"
    and "R \<noteq> [] \<Longrightarrow> iv_cmp x (hd R) = Less"
  shows "bt_insert x (L @ R) = L @ x # R"
  using assms by (induction L) (auto split: list.splits, cases R, auto)

lemma bt_remove_at:
  assumes "\<And>z. z \<in> set L \<Longrightarrow> iv_cmp x z = Greater" and "iv_cmp x y = Equal"
  shows "bt_remove x (L @ y # R) = L @ R"
  using assms by (induction L) auto

lemma iv_cmp_intros:
  "high a < low b \<Longrightarrow> iv_cmp a b = Less"
  "low a \<le> high a \<Longrightarrow> low b \<le> high b \<Longrightarrow> high b < low a \<Longrightarrow> iv_cmp a b = Greater"
  "low a \<le> high a \<Longrightarrow> iv_cmp a a = Equal"
  by (auto simp: iv_cmp_def)

lemma iv_cmp_single_Less [simp]: "iv_cmp iv (new_single v) = Less \<longleftrightarrow> high iv < v"
  by (simp add: iv_cmp_def)

text \<open>Two parts of a sorted pool: everything left of the seam is below everything right of it.\<close>

lemma iv_sorted_seam:
  assumes "iv_sorted n (L @ R)" and "l \<in> set L" and "r \<in> set R"
  shows "unat (high l) + 2 \<le> unat (low r)"
proof -
  from assms(1) have L: "iv_sorted n L" and R: "iv_sorted (iv_end n L) R"
    by (simp_all add: iv_sorted_append)
  show ?thesis
    using iv_sorted_below [OF L assms(2)] iv_sorted_ge [OF R assms(3)] by simp
qed

lemma iv_sorted_seam_less:
  assumes "iv_sorted n (L @ R)" and "l \<in> set L" and "r \<in> set R"
  shows "high l < low r"
  using iv_sorted_seam [OF assms] by (simp add: word_less_nat_alt)

lemma find_Less_rev:
  assumes "\<And>iv. iv \<in> set L \<Longrightarrow> P iv" and "\<And>iv. iv \<in> set R \<Longrightarrow> \<not> P iv"
  shows "find P (rev (L @ R)) = (if L = [] then None else Some (last L))"
proof -
  have "find P (rev R @ ys) = find P ys" for ys
    using assms(2) by (induction R arbitrary: ys) auto
  then have "find P (rev (L @ R)) = find P (rev L)" by simp
  also have "\<dots> = (if L = [] then None else Some (last L))"
    using assms(1) by (cases L rule: rev_cases) auto
  finally show ?thesis .
qed

lemma pool_split:
  assumes srt: "iv_sorted n p"
  obtains L R where "p = L @ R"
    and "\<And>iv. iv \<in> set L \<Longrightarrow> high iv < v" and "\<And>iv. iv \<in> set R \<Longrightarrow> v \<le> high iv"
    and "bt_first_ge (new_single v) p = (if R = [] then None else Some (hd R))"
    and "bt_last_lt (new_single v) p = (if L = [] then None else Some (last L))"
proof -
  define L where "L = takeWhile (\<lambda>iv. high iv < v) p"
  define R where "R = dropWhile (\<lambda>iv. high iv < v) p"
  have p: "p = L @ R" by (simp add: L_def R_def)
  have L: "high iv < v" if "iv \<in> set L" for iv
    using that set_takeWhileD [of iv] by (auto simp: L_def)
  have R: "v \<le> high iv" if "iv \<in> set R" for iv
  proof (cases R)
    case (Cons r R')
    then have r: "v \<le> high r"
      using hd_dropWhile [of "\<lambda>iv. high iv < v" p] by (auto simp: R_def not_less)
    have "iv_sorted (iv_end n L) (r # R')"
      using srt p Cons by (simp add: iv_sorted_append)
    then have "iv = r \<or> high r < low iv \<and> low iv \<le> high iv"
      using that Cons iv_sorted_ge [of "unat (high r) + 2" R' iv]
      by (auto simp: word_less_nat_alt)
    then show ?thesis using r by auto
  qed (use that in simp)
  have "bt_first_ge (new_single v) p = (if R = [] then None else Some (hd R))"
    by (cases R) (simp_all add: bt_first_ge_def find_dropWhile comp_def R_def [symmetric])
  moreover have "bt_last_lt (new_single v) p = (if L = [] then None else Some (last L))"
    unfolding bt_last_lt_def p
    by (rule find_Less_rev) (use L R in \<open>auto simp: not_less\<close>)
  ultimately show ?thesis using that p L R by blast
qed

lemma iv_sorted_mid:
  "iv_sorted n (L @ x # R) \<longleftrightarrow>
     iv_sorted n L \<and> iv_end n L \<le> unat (low x) \<and> low x \<le> high x \<and> iv_sorted (unat (high x) + 2) R"
  by (simp add: iv_sorted_append)

lemma bt_remove_mid:
  assumes "iv_sorted n (L @ x # R)"
  shows "bt_remove x (L @ x # R) = L @ R"
proof (rule bt_remove_at)
  fix z assume z: "z \<in> set L"
  have "high z < low x"
    using iv_sorted_seam_less [OF assms z, of x] by simp
  moreover have "low z \<le> high z" "low x \<le> high x"
    using assms z iv_sorted_ge [of n L z] by (auto simp: iv_sorted_mid)
  ultimately show "iv_cmp x z = Greater"
    by (simp add: iv_cmp_intros)
qed (use assms in \<open>auto simp: iv_sorted_mid iv_cmp_intros\<close>)

lemma bt_insert_mid:
  assumes "iv_sorted n L" and "low x \<le> high x"
    and "\<And>y. y \<in> set L \<Longrightarrow> high y < low x" and "R \<noteq> [] \<Longrightarrow> high x < low (hd R)"
  shows "bt_insert x (L @ R) = L @ x # R"
proof (rule bt_insert_at)
  fix y assume "y \<in> set L"
  then show "iv_cmp x y = Greater"
    using assms iv_sorted_ge [of n L y] by (auto intro: iv_cmp_intros)
qed (use assms in \<open>auto simp: iv_cmp_intros\<close>)

lemma bt_insert_sorted_mid:
  assumes "iv_sorted n (L @ x # R)"
  shows "bt_insert x (L @ R) = L @ x # R"
proof (rule bt_insert_mid)
  show "high y < low x" if "y \<in> set L" for y
    using iv_sorted_seam_less [OF assms that, of x] by simp
  show "R \<noteq> [] \<Longrightarrow> high x < low (hd R)"
    using assms iv_sorted_seam_less [of n "L @ [x]" R x "hd R"] by simp
qed (use assms in \<open>auto simp: iv_sorted_mid\<close>)

section \<open>The operations on the vacant set\<close>

lemma is_used_iff: "is_used va v \<longleftrightarrow> v \<notin> vacant va"
  by (auto simp: is_used_def vacant_def ivs_set_def iv_set_def list_ex_iff)

lemma va_new_ok:
  "lo \<le> hi \<Longrightarrow> \<exists>va. va_new lo hi = Ret va \<and> va_inv va \<and> vacant va = {lo .. hi}
      \<and> lowest va = lo \<and> highest va = hi"
  by (auto simp: va_new_def va_inv_def vacant_def)

lemma va_new_panics: "\<not> lo \<le> hi \<Longrightarrow> va_new lo hi = Panic Assert_Failed"
  by (simp add: va_new_def)

lemma va_clear_ok: "va_inv va \<Longrightarrow> va_inv (va_clear va) \<and> vacant (va_clear va) = {lowest va .. highest va}"
  by (auto simp: va_clear_def va_inv_def vacant_def)

lemma va_clear_bounds [simp]:
  "lowest (va_clear va) = lowest va" "highest (va_clear va) = highest va"
  by (simp_all add: va_clear_def)

lemma uadd_1_Ret:
  assumes "v < w"
  shows "uadd v 1 = Ret (v + 1)" and "unat (v + 1) = unat v + 1"
proof -
  have "unat v + 1 < 2 ^ LENGTH('a)"
    using assms unat_lt [of w] unfolding word_less_nat_alt by linarith
  then show "uadd v (1::'a::len word) = Ret (v + 1)" "unat (v + 1) = unat v + 1"
    by (simp_all add: uadd_def unat_plus_if')
qed

lemma usub_1_Ret:
  assumes "w < v"
  shows "usub v 1 = Ret (v - 1)" and "unat (v - 1) + 1 = unat v"
proof -
  have "v \<noteq> 0" using assms by auto
  then show "usub v (1::'a::len word) = Ret (v - 1)" "unat (v - 1) + 1 = unat v"
    by (simp_all add: usub_def unat_minus_one unat_gt_0 word_le_nat_alt Suc_le_eq)
qed

text \<open>
  \<open>allocate\<close> returns the least vacant value, and \<open>None\<close> only when none is vacant.
\<close>

lemma allocate_ok:
  assumes inv: "va_inv va"
  shows "\<exists>r va'. allocate va = Ret (r, va') \<and> va_inv va'
      \<and> lowest va' = lowest va \<and> highest va' = highest va
      \<and> (case r of None \<Rightarrow> vacant va = {} \<and> va' = va
         | Some v \<Rightarrow> v \<in> vacant va \<and> (\<forall>w\<in>vacant va. v \<le> w) \<and> vacant va' = vacant va - {v})"
proof (cases "pool va")
  case Nil
  then show ?thesis using inv by (simp add: allocate_def vacant_def)
next
  case (Cons iv ivs)
  have srt: "iv_sorted 0 (iv # ivs)" using inv Cons by (simp add: va_inv_def)
  then have le: "low iv \<le> high iv" by simp
  have rem: "bt_remove iv (iv # ivs) = ivs"
    using bt_remove_mid [of 0 "[]" iv ivs] srt by simp
  have above: "high iv < w" if "w \<in> ivs_set ivs" for w
    using that iv_sorted_seam_less [of 0 "[iv]" ivs iv] srt
    by (force simp: ivs_set_def)
  have least: "\<forall>w\<in>vacant va. low iv \<le> w"
    using above le Cons by (fastforce simp: vacant_def)
  have mem: "low iv \<in> vacant va" using le Cons by (simp add: vacant_def)
  show ?thesis
  proof (cases "low iv < high iv")
    case True
    note one = uadd_1_Ret [OF True]
    let ?x = "new_range (low iv + 1) (high iv)"
    have xs: "iv_sorted 0 ([] @ ?x # ivs)"
      using srt True one(2) by (simp add: word_le_nat_alt word_less_nat_alt)
    have ins: "bt_insert ?x ivs = ?x # ivs"
      using bt_insert_sorted_mid [OF xs] by simp
    have "vacant (va\<lparr>pool := ?x # ivs\<rparr>) = vacant va - {low iv}"
      using Cons above le one(2)
      by (auto simp: vacant_def word_le_nat_alt word_less_nat_alt word_unat_eq_iff dest: above)
    moreover have "va_inv (va\<lparr>pool := ?x # ivs\<rparr>)"
      using xs inv calculation by (auto simp: va_inv_def)
    ultimately show ?thesis
      using Cons True one rem ins mem least by (simp add: allocate_def Let_def)
  next
    case False
    then have eq: "low iv = high iv" using le by simp
    have "vacant (va\<lparr>pool := ivs\<rparr>) = vacant va - {low iv}"
      using Cons above eq by (auto simp: vacant_def dest: above)
    moreover have "va_inv (va\<lparr>pool := ivs\<rparr>)"
      using srt inv calculation iv_sorted_mono [of _ ivs 0] by (auto simp: va_inv_def)
    ultimately show ?thesis
      using Cons False rem mem least by (simp add: allocate_def Let_def)
  qed
qed

text \<open>
  \<open>deallocate\<close> of a value in use adds it to the vacant set and merges it with the
  neighbouring intervals.
\<close>

lemma vacant_pool_eq:
  "ivs_set p = insert v (vacant va) \<Longrightarrow> iv_sorted 0 p \<Longrightarrow> va_inv va \<Longrightarrow>
   lowest va \<le> v \<Longrightarrow> v \<le> highest va \<Longrightarrow>
   va_inv (va\<lparr>pool := p\<rparr>) \<and> vacant (va\<lparr>pool := p\<rparr>) = insert v (vacant va)"
  by (auto simp: va_inv_def vacant_def)

text \<open>
  \<open>pool_gap L v R\<close>: the pool is \<open>L @ R\<close> and the value \<open>v\<close> in use lies between the two
  parts.  \<open>joins_left\<close> and \<open>joins_right\<close> say whether \<open>v\<close> touches its neighbours.
\<close>

definition pool_gap :: "'a::len word value_interval list \<Rightarrow> 'a word \<Rightarrow> 'a word value_interval list \<Rightarrow> bool" where
  "pool_gap L v R \<longleftrightarrow> iv_sorted 0 (L @ R) \<and> (\<forall>iv\<in>set L. high iv < v) \<and> (\<forall>iv\<in>set R. v < low iv)"

definition joins_left :: "'a::len word value_interval list \<Rightarrow> 'a word \<Rightarrow> bool" where
  "joins_left L v \<longleftrightarrow> L \<noteq> [] \<and> unat (high (last L)) + 1 = unat v"

definition joins_right :: "'a::len word \<Rightarrow> 'a word value_interval list \<Rightarrow> bool" where
  "joins_right v R \<longleftrightarrow> R \<noteq> [] \<and> unat v + 1 = unat (low (hd R))"

definition joined :: "'a::len word value_interval list \<Rightarrow> 'a word \<Rightarrow> 'a word value_interval list \<Rightarrow> 'a word value_interval" where
  "joined L v R = new_range (if joins_left L v then low (last L) else v)
                            (if joins_right v R then high (hd R) else v)"

definition rest_left :: "'a::len word value_interval list \<Rightarrow> 'a word \<Rightarrow> 'a word value_interval list" where
  "rest_left L v = (if joins_left L v then butlast L else L)"

definition rest_right :: "'a::len word \<Rightarrow> 'a word value_interval list \<Rightarrow> 'a word value_interval list" where
  "rest_right v R = (if joins_right v R then tl R else R)"

lemma pool_gapD:
  assumes "pool_gap L v R"
  shows "iv_sorted 0 L" "iv_sorted (iv_end 0 L) R"
    "iv \<in> set L \<Longrightarrow> high iv < v \<and> low iv \<le> high iv"
    "iv \<in> set R \<Longrightarrow> v < low iv \<and> low iv \<le> high iv"
  using assms iv_sorted_ge [of 0 L] iv_sorted_ge [of "iv_end 0 L" R]
  by (auto simp: pool_gap_def iv_sorted_append)

lemma rest_left_sorted:
  assumes "pool_gap L v R"
  shows "iv_sorted 0 (rest_left L v) \<and> iv_end 0 (rest_left L v) \<le> unat (low (joined L v R))"
proof (cases L rule: rev_cases)
  case Nil
  then show ?thesis by (simp add: rest_left_def)
next
  case (snoc L' l)
  then show ?thesis
    using pool_gapD(1,2) [OF assms] pool_gapD(3) [OF assms, of l]
    by (auto simp: rest_left_def joined_def joins_left_def iv_sorted_mid iv_end_def word_less_nat_alt)
qed

lemma rest_right_sorted:
  assumes "pool_gap L v R"
  shows "iv_sorted (unat (high (joined L v R)) + 2) (rest_right v R)"
  using pool_gapD(2) [OF assms] pool_gapD(4) [OF assms, of "hd R"]
  by (cases R) (auto simp: rest_right_def joined_def joins_right_def word_less_nat_alt)

lemma joined_bounds:
  assumes "pool_gap L v R"
  shows "low (joined L v R) \<le> v" and "v \<le> high (joined L v R)"
  using pool_gapD(3) [OF assms, of "last L"] pool_gapD(4) [OF assms, of "hd R"]
  by (auto simp: joined_def joins_left_def joins_right_def)

lemma joined_sorted:
  assumes "pool_gap L v R"
  shows "iv_sorted 0 (rest_left L v @ joined L v R # rest_right v R)"
  using rest_left_sorted [OF assms] rest_right_sorted [OF assms] joined_bounds [OF assms]
  by (auto simp: iv_sorted_mid)

lemma joined_set:
  assumes "pool_gap L v R"
  shows "iv_set (joined L v R) = insert v
    ((if joins_left L v then iv_set (last L) else {}) \<union> (if joins_right v R then iv_set (hd R) else {}))"
proof (rule set_eqI)
  fix w
  have l: "joins_left L v \<Longrightarrow> low (last L) \<le> high (last L)"
    and r: "joins_right v R \<Longrightarrow> low (hd R) \<le> high (hd R)"
    using pool_gapD(3) [OF assms, of "last L"] pool_gapD(4) [OF assms, of "hd R"]
    by (simp_all add: joins_left_def joins_right_def)
  show "w \<in> iv_set (joined L v R) \<longleftrightarrow> w \<in> insert v
    ((if joins_left L v then iv_set (last L) else {}) \<union> (if joins_right v R then iv_set (hd R) else {}))"
    using l r
    by (cases "joins_left L v"; cases "joins_right v R";
        simp add: joined_def word_le_nat_alt word_unat_eq_iff;
        simp add: joins_left_def joins_right_def; arith)
qed

lemma joined_ivs_set:
  assumes "pool_gap L v R"
  shows "ivs_set (rest_left L v @ joined L v R # rest_right v R) = insert v (ivs_set (L @ R))"
proof -
  have "ivs_set L = ivs_set (rest_left L v) \<union> (if joins_left L v then iv_set (last L) else {})"
    by (cases L rule: rev_cases) (auto simp: rest_left_def joins_left_def)
  moreover have "ivs_set R = ivs_set (rest_right v R) \<union> (if joins_right v R then iv_set (hd R) else {})"
    by (cases R) (auto simp: rest_right_def joins_right_def)
  ultimately show ?thesis by (auto simp: joined_set [OF assms] simp del: in_iv_set)
qed

lemma remove_last:
  assumes "iv_sorted n (L @ R)" and "L \<noteq> []"
  shows "bt_remove (last L) (L @ R) = butlast L @ R"
  using assms bt_remove_mid [of n "butlast L" "last L" R]
  by (cases L rule: rev_cases) auto

lemma remove_hd:
  assumes "iv_sorted n (L @ R)" and "R \<noteq> []"
  shows "bt_remove (hd R) (L @ R) = L @ tl R"
  using assms bt_remove_mid [of n L "hd R" "tl R"] by (cases R) auto

lemma butlast_gap: "iv_sorted 0 (L @ R) \<Longrightarrow> iv_sorted 0 (butlast L @ R)"
proof (cases L rule: rev_cases)
  case (snoc L' l)
  moreover assume "iv_sorted 0 (L @ R)"
  ultimately show ?thesis
    using iv_sorted_mono [of "unat (high l) + 2" R "iv_end 0 L'"]
    by (auto simp: iv_sorted_append iv_end_def word_le_nat_alt)
qed simp

lemma deallocate_gap:
  assumes gap: "pool_gap L v R" and p: "pool va = L @ R"
    and lo: "lowest va \<le> v" and hi: "v \<le> highest va"
    and fst: "bt_first_ge (new_single v) (L @ R) = (if R = [] then None else Some (hd R))"
    and lst: "bt_last_lt (new_single v) (L @ R) = (if L = [] then None else Some (last L))"
  shows "deallocate va v = Ret (va\<lparr>pool := rest_left L v @ joined L v R # rest_right v R\<rparr>)"
proof -
  have srt: "iv_sorted 0 (L @ R)" using gap by (simp add: pool_gap_def)
  have l: "uadd (high (last L)) 1 = Ret (high (last L) + 1)"
          "(high (last L) + 1 = v) = joins_left L v" if "L \<noteq> []"
    using uadd_1_Ret [of "high (last L)" v] pool_gapD(3) [OF gap, of "last L"] that
    by (auto simp: joins_left_def word_unat_eq_iff)
  have r: "uadd v 1 = Ret (v + 1)" "(v + 1 = low (hd R)) = joins_right v R" if "R \<noteq> []"
    using uadd_1_Ret [of v "low (hd R)"] pool_gapD(4) [OF gap, of "hd R"] that
    by (auto simp: joins_right_def word_unat_eq_iff)
  have "deallocate va v = Ret (va\<lparr>pool := bt_insert (joined L v R) (rest_left L v @ rest_right v R)\<rparr>)"
  proof -
    have L: "\<not> joins_left [] v" and R: "\<not> joins_right v []"
      and single: "new_range v v = new_single v"
      by (simp_all add: joins_left_def joins_right_def new_single_def new_range_def)
    show ?thesis
      using lo hi l r L R fst lst remove_last [OF srt] remove_hd [OF srt]
        remove_hd [OF butlast_gap [OF srt]]
      by (cases "L = []"; cases "R = []"; cases "joins_left L v"; cases "joins_right v R")
         (simp_all add: deallocate_def p Let_def joined_def rest_left_def rest_right_def single)
  qed
  then show ?thesis by (simp add: bt_insert_sorted_mid [OF joined_sorted [OF gap]])
qed

lemma deallocate_ok:
  assumes inv: "va_inv va" and used: "v \<notin> vacant va"
    and lo: "lowest va \<le> v" and hi: "v \<le> highest va"
  shows "\<exists>va'. deallocate va v = Ret va' \<and> va_inv va' \<and> vacant va' = insert v (vacant va)
      \<and> lowest va' = lowest va \<and> highest va' = highest va"
proof -
  have srt: "iv_sorted 0 (pool va)" using inv by (simp add: va_inv_def)
  obtain L R where p: "pool va = L @ R"
    and L: "\<And>iv. iv \<in> set L \<Longrightarrow> high iv < v" and R: "\<And>iv. iv \<in> set R \<Longrightarrow> v \<le> high iv"
    and fst: "bt_first_ge (new_single v) (pool va) = (if R = [] then None else Some (hd R))"
    and lst: "bt_last_lt (new_single v) (pool va) = (if L = [] then None else Some (last L))"
    by (rule pool_split [OF srt, of v]) (rule that)
  have "v < low iv" if "iv \<in> set R" for iv
    using that R [OF that] used p by (force simp: vacant_def ivs_set_def)
  then have gap: "pool_gap L v R" using srt p L by (auto simp: pool_gap_def)
  have "ivs_set (rest_left L v @ joined L v R # rest_right v R) = insert v (vacant va)"
    using joined_ivs_set [OF gap] p by (simp add: vacant_def)
  from vacant_pool_eq [OF this joined_sorted [OF gap] inv lo hi]
  show ?thesis
    using deallocate_gap [OF gap p lo hi fst [unfolded p] lst [unfolded p]] by simp
qed

text \<open>A vacant value lies in exactly one interval of the pool.\<close>

lemma vacant_split:
  assumes srt: "iv_sorted n p" and v: "v \<in> ivs_set p"
  obtains L iv R where "p = L @ iv # R" and "low iv \<le> v" and "v \<le> high iv"
    and "\<And>x. x \<in> set L \<Longrightarrow> high x < low iv \<and> low x \<le> high x"
    and "\<And>x. x \<in> set R \<Longrightarrow> high iv < low x \<and> low x \<le> high x"
proof -
  from v obtain iv where iv: "iv \<in> set p" "low iv \<le> v" "v \<le> high iv"
    by (auto simp: ivs_set_def)
  then obtain L R where p: "p = L @ iv # R" by (auto simp: in_set_conv_decomp)
  have "high x < low iv \<and> low x \<le> high x" if "x \<in> set L" for x
    using srt that p iv_sorted_seam_less [of n L "iv # R" x iv] iv_sorted_ge [of n p x] by auto
  moreover have "high iv < low x \<and> low x \<le> high x" if "x \<in> set R" for x
    using srt that p iv_sorted_seam_less [of n "L @ [iv]" R iv x] iv_sorted_ge [of n p x] by auto
  ultimately show ?thesis using that p iv by blast
qed

lemma find_append_None: "(\<And>x. x \<in> set L \<Longrightarrow> \<not> P x) \<Longrightarrow> find P (L @ R) = find P R"
  by (induction L) auto

text \<open>
  \<open>deallocate\<close> of a value that is vacant already changes nothing, except that at the
  largest value of the type its neighbour test \<open>value + 1\<close> overflows.
\<close>

lemma bt_insert_Equal:
  assumes "\<And>y. y \<in> set L \<Longrightarrow> iv_cmp x y = Greater" and "iv_cmp x r = Equal"
  shows "bt_insert x (L @ r # R) = L @ r # R"
  using assms by (induction L) auto

lemma deallocate_vacant:
  fixes v :: "'a::len word"
  assumes inv: "va_inv va" and vac: "v \<in> vacant va"
  shows "deallocate va v = (if unat v + 1 < 2 ^ LENGTH('a) then Ret va else Panic Arith_Overflow)"
proof -
  have srt: "iv_sorted 0 (pool va)" and v: "lowest va \<le> v" "v \<le> highest va"
    using inv vac by (auto simp: va_inv_def)
  obtain L r R where p: "pool va = L @ r # R" and r: "low r \<le> v" "v \<le> high r"
    and L: "\<And>x. x \<in> set L \<Longrightarrow> high x < low r \<and> low x \<le> high x"
    and R: "\<And>x. x \<in> set R \<Longrightarrow> high r < low x \<and> low x \<le> high x"
    by (rule vacant_split [OF srt vac [unfolded vacant_def]]) (rule that)
  have Lv: "high x < v" if "x \<in> set L" for x using L [OF that] r by auto
  have fst: "bt_first_ge (new_single v) (pool va) = Some r"
    unfolding bt_first_ge_def p
    using r Lv by (subst find_append_None) auto
  have lst: "bt_last_lt (new_single v) (pool va) = (if L = [] then None else Some (last L))"
    unfolding bt_last_lt_def p
    by (rule find_Less_rev) (use Lv r R in \<open>force simp: not_less\<close>)+
  have ins: "bt_insert (new_single v) (pool va) = pool va"
    unfolding p using Lv r L by (intro bt_insert_Equal) (fastforce simp: iv_cmp_def)+
  have l: "uadd (high (last L)) 1 = Ret (high (last L) + 1) \<and> high (last L) + 1 \<noteq> v" if "L \<noteq> []"
  proof -
    have "unat (high (last L)) + 2 \<le> unat (low r)"
      using iv_sorted_seam [OF srt [unfolded p], of "last L" r] that by simp
    then show ?thesis
      using uadd_1_Ret [OF Lv, of "last L"] that r(1)
      by (auto simp: word_le_nat_alt)
  qed
  have r1: "v + 1 \<noteq> low r" if "unat v + 1 < 2 ^ LENGTH('a)"
  proof
    assume "v + 1 = low r"
    then have "unat v + 1 = unat (low r)" using that by (metis unat_plus_if' unsigned_1)
    then show False using r(1) by (simp add: word_le_nat_alt)
  qed
  show ?thesis
    using v l r1 by (cases "L = []") (simp_all add: deallocate_def fst lst Let_def ins uadd_def [of v])
qed

lemma deallocate_out_of_range:
  "\<not> (lowest va \<le> v \<and> v \<le> highest va) \<Longrightarrow> deallocate va v = Panic Assert_Failed"
  by (auto simp: deallocate_def)

text \<open>\<open>use_value\<close> takes a vacant value out of the pool, splitting its interval.\<close>

definition below_piece :: "'a::len word value_interval \<Rightarrow> 'a word \<Rightarrow> 'a word value_interval list" where
  "below_piece iv v = (if low iv < v then [new_range (low iv) (v - 1)] else [])"

definition above_piece :: "'a::len word value_interval \<Rightarrow> 'a word \<Rightarrow> 'a word value_interval list" where
  "above_piece iv v = (if v < high iv then [new_range (v + 1) (high iv)] else [])"

lemma pieces_sorted:
  assumes srt: "iv_sorted n (L @ iv # R)" and v: "low iv \<le> v" "v \<le> high iv"
  shows "iv_sorted n (L @ below_piece iv v @ R)"
    and "iv_sorted n (L @ below_piece iv v @ above_piece iv v @ R)"
  using assms uadd_1_Ret(2) [of v "high iv"] usub_1_Ret(2) [of "low iv" v]
    iv_sorted_mono [of "unat (high iv) + 2" R]
  by (auto simp: iv_sorted_append below_piece_def above_piece_def word_le_nat_alt word_less_nat_alt)

lemma pieces_set:
  assumes v: "low iv \<le> v" "v \<le> high iv"
  shows "ivs_set (below_piece iv v) \<union> ivs_set (above_piece iv v) = iv_set iv - {v}"
  using assms uadd_1_Ret(2) [of v "high iv"] usub_1_Ret(2) [of "low iv" v]
  by (auto simp: below_piece_def above_piece_def word_le_nat_alt word_less_nat_alt word_unat_eq_iff)

lemma use_value_vacant:
  assumes srt: "iv_sorted 0 (pool va)" and p: "pool va = L @ iv # R"
    and v: "low iv \<le> v" "v \<le> high iv" and L: "\<And>x. x \<in> set L \<Longrightarrow> high x < low iv"
  shows "use_value va v = Ret (True, va\<lparr>pool := L @ below_piece iv v @ above_piece iv v @ R\<rparr>)"
proof -
  have "\<not> iv_contains x v" if "x \<in> set L" for x
    using L [OF that] v by (auto simp: iv_contains_def)
  then have "find (\<lambda>iv. iv_contains iv v) (pool va) = Some iv"
    using v by (simp add: p find_append_None iv_contains_def)
  moreover have "bt_remove iv (pool va) = L @ R"
    using srt by (simp add: p bt_remove_mid)
  moreover have "low iv < v \<Longrightarrow>
      bt_insert (new_range (low iv) (v - 1)) (L @ R) = L @ below_piece iv v @ R"
    using pieces_sorted(1) [OF srt [unfolded p] v]
    by (auto simp: below_piece_def intro: bt_insert_sorted_mid)
  moreover have "v < high iv \<Longrightarrow>
      bt_insert (new_range (v + 1) (high iv)) (L @ below_piece iv v @ R)
        = L @ below_piece iv v @ above_piece iv v @ R"
    using pieces_sorted(2) [OF srt [unfolded p] v]
      bt_insert_sorted_mid [of 0 "L @ below_piece iv v" "new_range (v + 1) (high iv)" R]
    by (simp add: above_piece_def)
  ultimately show ?thesis
    using v uadd_1_Ret(1) [of v "high iv"] usub_1_Ret(1) [of "low iv" v]
    by (cases "low iv < v"; cases "v < high iv")
       (simp_all add: use_value_def Let_def below_piece_def above_piece_def)
qed

lemma use_value_ok:
  assumes inv: "va_inv va"
  shows "\<exists>va'. use_value va v = Ret (v \<in> vacant va, va') \<and> va_inv va'
      \<and> vacant va' = vacant va - {v} \<and> lowest va' = lowest va \<and> highest va' = highest va"
proof (cases "v \<in> vacant va")
  case False
  then have "find (\<lambda>iv. iv_contains iv v) (pool va) = None"
    by (auto simp: find_None_iff vacant_def ivs_set_def iv_set_def)
  then show ?thesis using False inv by (auto simp: use_value_def)
next
  case True
  have srt: "iv_sorted 0 (pool va)" using inv by (simp add: va_inv_def)
  obtain L iv R where p: "pool va = L @ iv # R" and v: "low iv \<le> v" "v \<le> high iv"
    and L: "\<And>x. x \<in> set L \<Longrightarrow> high x < low iv \<and> low x \<le> high x"
    and R: "\<And>x. x \<in> set R \<Longrightarrow> high iv < low x \<and> low x \<le> high x"
    by (rule vacant_split [OF srt True [unfolded vacant_def]]) (rule that)
  let ?p = "L @ below_piece iv v @ above_piece iv v @ R"
  have "v \<notin> ivs_set L" "v \<notin> ivs_set R" using L R v by (force simp: ivs_set_def)+
  then have vac: "ivs_set ?p = vacant va - {v}"
    using pieces_set [OF v] p by (auto simp: vacant_def simp del: in_iv_set)
  then have "va_inv (va\<lparr>pool := ?p\<rparr>)"
    using inv pieces_sorted(2) [OF srt [unfolded p] v] by (auto simp: va_inv_def vacant_def)
  then show ?thesis
    using True vac use_value_vacant [OF srt p v] L by (auto simp: vacant_def)
qed

lemma first_vacant_ok:
  assumes "va_inv va"
  shows "case first_vacant va of None \<Rightarrow> vacant va = {}
         | Some v \<Rightarrow> v \<in> vacant va \<and> (\<forall>w\<in>vacant va. v \<le> w)"
proof -
  have "allocate va = Ret (r, va') \<Longrightarrow> r = first_vacant va" for r va'
    by (auto simp: first_vacant_def allocate_def Let_def rbind_eq_Ret split: list.splits if_splits)
  then show ?thesis using allocate_ok [OF assms] by (auto split: option.splits)
qed

text \<open>The pool is determined by its vacant set: no sequence of calls fragments it.\<close>

lemma iv_sorted_low_least:
  assumes "iv_sorted n (x # p)" and "w \<in> ivs_set (x # p)"
  shows "low x \<le> w"
  using assms iv_sorted_seam_less [of n "[x]" p x]
  by (fastforce simp: ivs_set_def)

lemma iv_sorted_high_gap:
  assumes "iv_sorted n (x # p)" and "high x < w" and "w \<in> ivs_set (x # p)"
  shows "unat (high x) + 2 \<le> unat w"
proof -
  obtain iv where "iv \<in> set p" "low iv \<le> w"
    using assms(2,3) by (auto simp: ivs_set_def)
  then show ?thesis
    using iv_sorted_seam [of n "[x]" p x iv] assms(1) by (simp add: word_le_nat_alt)
qed

lemma iv_sorted_head_high:
  assumes "iv_sorted n (x # p)" and "iv_sorted m (y # q)"
    and "ivs_set (y # q) \<subseteq> ivs_set (x # p)" and "low x = low y"
  shows "high y \<le> high x"
proof (rule ccontr)
  assume "\<not> high y \<le> high x"
  then have less: "high x < high y" by simp
  note one = uadd_1_Ret(2) [OF less]
  have "low y \<le> high x + 1" and "high x + 1 \<le> high y" and gt: "high x < high x + 1"
    using less one assms(1,4) by (auto simp: word_le_nat_alt word_less_nat_alt)
  then have "high x + 1 \<in> ivs_set (x # p)" using assms(3) by auto
  from iv_sorted_high_gap [OF assms(1) gt this] show False using one by simp
qed

lemma iv_sorted_unique:
  "iv_sorted n p \<Longrightarrow> iv_sorted n q \<Longrightarrow> ivs_set p = ivs_set q \<Longrightarrow> p = q"
proof (induction p arbitrary: n q)
  case Nil
  then show ?case by (cases q) auto
next
  case (Cons x p)
  then obtain y q' where q: "q = y # q'" by (cases q) auto
  have x: "low x \<in> ivs_set (x # p)" and y: "low y \<in> ivs_set (y # q')"
    using Cons.prems q by auto
  have lo: "low x = low y"
    using iv_sorted_low_least [OF Cons.prems(1), of "low y"] x y q Cons.prems
      iv_sorted_low_least [of n y q' "low x"] by (simp del: ivs_set_simps) 
  have hi: "high x = high y"
    using iv_sorted_head_high [OF Cons.prems(1), of n y q'] lo Cons.prems(2,3) q
      iv_sorted_head_high [of n y q' n x p] Cons.prems(1)
    by (simp add: order_antisym del: ivs_set_simps iv_sorted.simps)
  have eq: "x = y" using lo hi by (cases x, cases y) simp
  have tail: "ivs_set r = ivs_set (x # r) - iv_set x" if "iv_sorted n (x # r)" for r
    using that iv_sorted_seam_less [of n "[x]" r x] by (force simp: ivs_set_def)
  have "ivs_set p = ivs_set q'"
    using tail [of p] tail [of q'] Cons.prems q eq by simp
  then show ?case using Cons.IH [of "unat (high x) + 2" q'] Cons.prems q eq by simp
qed

lemma va_unique:
  assumes "va_inv va" and "va_inv vb" and "vacant va = vacant vb"
    and "lowest va = lowest vb" and "highest va = highest vb"
  shows "va = (vb :: 'a::len word value_allocator)"
  using assms iv_sorted_unique [of 0 "pool va" "pool vb"]
  by (cases va, cases vb) (auto simp: va_inv_def vacant_def)

section \<open>The contract of an identifier pool\<close>

text \<open>
  What the packet identifier manager and the topic alias table rely on: \<open>free\<close> is the set of
  values that may be handed out, \<open>bounds\<close> the values the pool manages.  Releasing a value that is not
  handed out is outside the contract.
\<close>

locale id_pool =
  fixes inv :: "'s \<Rightarrow> bool"
    and free :: "'s \<Rightarrow> 'v set"
    and bounds :: "'s \<Rightarrow> 'v set"
    and alloc :: "'s \<Rightarrow> ('v option \<times> 's) rust"
    and claim :: "'s \<Rightarrow> 'v \<Rightarrow> (bool \<times> 's) rust"
    and release :: "'s \<Rightarrow> 'v \<Rightarrow> 's rust"
    and used :: "'s \<Rightarrow> 'v \<Rightarrow> bool"
    and reset :: "'s \<Rightarrow> 's"
  assumes free_bounds: "inv s \<Longrightarrow> free s \<subseteq> bounds s"
    and used_iff: "inv s \<Longrightarrow> used s v \<longleftrightarrow> v \<notin> free s"
    and alloc_spec: "inv s \<Longrightarrow> \<exists>r s'. alloc s = Ret (r, s') \<and> inv s' \<and> bounds s' = bounds s
          \<and> (case r of None \<Rightarrow> free s = {} \<and> s' = s
             | Some v \<Rightarrow> v \<in> free s \<and> free s' = free s - {v})"
    and claim_spec: "inv s \<Longrightarrow> \<exists>s'. claim s v = Ret (v \<in> free s, s') \<and> inv s' \<and> bounds s' = bounds s
          \<and> free s' = free s - {v}"
    and release_spec: "inv s \<Longrightarrow> v \<in> bounds s \<Longrightarrow> v \<notin> free s \<Longrightarrow>
          \<exists>s'. release s v = Ret s' \<and> inv s' \<and> bounds s' = bounds s \<and> free s' = insert v (free s)"
    and reset_spec: "inv s \<Longrightarrow> inv (reset s) \<and> bounds (reset s) = bounds s \<and> free (reset s) = bounds s"
begin

text \<open>A pool is exhausted exactly when every managed value is in use.\<close>

lemma alloc_None_iff:
  assumes "inv s"
  shows "(\<exists>s'. alloc s = Ret (None, s')) \<longleftrightarrow> (\<forall>v\<in>bounds s. used s v)"
  using alloc_spec [OF assms] free_bounds [OF assms] used_iff [OF assms]
  by (auto split: option.splits)

lemma alloc_used:
  assumes "inv s" and "alloc s = Ret (Some v, s')"
  shows "inv s' \<and> bounds s' = bounds s \<and> v \<in> bounds s \<and> \<not> used s v \<and> used s' v
    \<and> (\<forall>w. w \<noteq> v \<longrightarrow> used s' w = used s w)"
  using alloc_spec [OF assms(1)] assms free_bounds [OF assms(1)] by (auto simp: used_iff)

lemma claim_used:
  assumes "inv s" and "claim s v = Ret (b, s')"
  shows "inv s' \<and> bounds s' = bounds s \<and> (b \<longleftrightarrow> \<not> used s v) \<and> used s' v
    \<and> (\<forall>w. w \<noteq> v \<longrightarrow> used s' w = used s w)"
  using claim_spec [OF assms(1), of v] assms by (auto simp: used_iff)

lemma release_used:
  assumes "inv s" and "v \<in> bounds s" and "used s v"
  shows "\<exists>s'. release s v = Ret s' \<and> inv s' \<and> bounds s' = bounds s \<and> \<not> used s' v
    \<and> (\<forall>w. w \<noteq> v \<longrightarrow> used s' w = used s w)"
  using release_spec [OF assms(1,2)] assms(3) by (auto simp: used_iff assms(1))

lemma claim_twice:
  assumes "inv s" and "claim s v = Ret (b, s')"
  shows "\<exists>s''. claim s' v = Ret (False, s'') \<and> free s'' = free s'"
proof -
  have "inv s'" "v \<notin> free s'"
    using claim_used [OF assms] used_iff by auto
  then show ?thesis using claim_spec [of s' v] by auto
qed

lemma alloc_release_roundtrip:
  assumes "inv s" and "alloc s = Ret (Some v, s')"
  shows "\<exists>s''. release s' v = Ret s'' \<and> inv s'' \<and> bounds s'' = bounds s \<and> free s'' = free s"
proof -
  have s': "inv s'" "bounds s' = bounds s" "v \<in> bounds s'" "v \<notin> free s'"
    and "free s' = free s - {v}" "v \<in> free s"
    using alloc_spec [OF assms(1)] assms free_bounds [OF assms(1)] by auto
  then show ?thesis using release_spec [OF s'(1,3,4)] by auto
qed

text \<open>Allocating repeatedly hands out distinct values until the pool is exhausted.\<close>

fun alloc_n :: "nat \<Rightarrow> 's \<Rightarrow> ('v list \<times> 's) rust" where
  "alloc_n 0 s = Ret ([], s)"
| "alloc_n (Suc n) s =
     rbind (alloc s) (\<lambda>(r, s1). case r of None \<Rightarrow> Ret ([], s1)
       | Some v \<Rightarrow> rbind (alloc_n n s1) (\<lambda>(vs, s2). Ret (v # vs, s2)))"

lemma alloc_n_distinct:
  assumes "inv s" and "finite (free s)"
  shows "\<exists>vs s'. alloc_n n s = Ret (vs, s') \<and> inv s' \<and> distinct vs \<and> set vs \<subseteq> free s
    \<and> length vs = min n (card (free s)) \<and> free s' = free s - set vs"
  using assms
proof (induction n arbitrary: s)
  case (Suc n)
  from alloc_spec [OF Suc.prems(1)] obtain r s1 where
    a: "alloc s = Ret (r, s1)" "inv s1"
    "case r of None \<Rightarrow> free s = {} \<and> s1 = s | Some v \<Rightarrow> v \<in> free s \<and> free s1 = free s - {v}"
    by blast
  show ?case
  proof (cases r)
    case None
    then show ?thesis using a by simp
  next
    case (Some v)
    with a have v: "v \<in> free s" "free s1 = free s - {v}" by auto
    have fin: "finite (free s1)" using v(2) Suc.prems(2) by simp
    from Suc.IH [OF a(2) fin] obtain vs s' where n: "alloc_n n s1 = Ret (vs, s')"
      and vs: "inv s'" "distinct vs" "set vs \<subseteq> free s1"
        "length vs = min n (card (free s1))" "free s' = free s1 - set vs"
      by blast
    have "card (free s) = Suc (card (free s1))"
      unfolding v(2) by (rule card.remove [OF Suc.prems(2) v(1)])
    moreover have "alloc_n (Suc n) s = Ret (v # vs, s')"
      using a(1) Some n by simp
    ultimately show ?thesis using vs v by (intro exI [of _ "v # vs"] exI [of _ s']) auto
  qed
qed simp

end

definition va_bounds :: "'a::len word value_allocator \<Rightarrow> 'a word set" where
  "va_bounds va = {lowest va .. highest va}"

interpretation va_pool: id_pool va_inv vacant va_bounds allocate use_value deallocate is_used va_clear
proof (unfold_locales, goal_cases)
  case (1 s)
  then show ?case by (simp add: va_inv_def va_bounds_def)
next
  case (2 s v)
  show ?case by (rule is_used_iff)
next
  case (3 s)
  from allocate_ok [OF 3] show ?case
    by (elim exE conjE, intro exI conjI) (auto simp: va_bounds_def split: option.splits)
next
  case (4 s v)
  from use_value_ok [OF 4, of v] show ?case
    by (elim exE conjE, intro exI conjI) (auto simp: va_bounds_def)
next
  case (5 s v)
  from 5 deallocate_ok [of s v] show ?case by (auto simp: va_bounds_def)
next
  case (6 s)
  then show ?case by (simp add: va_clear_ok va_bounds_def)
qed

section \<open>Properties\<close>

text \<open>The values 1 to 9 with 1, 2 and 3 in use, a concrete allocator for the witnesses.\<close>

definition sample_allocator :: "16 word value_allocator" where
  "sample_allocator = \<lparr>pool = [new_range 4 9], lowest = 1, highest = 9\<rparr>"

lemma sample_allocator: "va_inv sample_allocator" "vacant sample_allocator = {4 .. 9}"
  by (auto simp: va_inv_def vacant_def sample_allocator_def word_le_nat_alt)

text \<open>
  On a well-formed allocator \<open>allocate\<close> never panics; it returns the least vacant value
  and removes exactly that value from the vacant set, or returns \<open>None\<close> and changes nothing,
  precisely when no value is vacant.  The pool stays well-formed.
\<close>

theorem allocate_least_vacant:
  assumes "va_inv va"
  shows "\<exists>r va'. allocate va = Ret (r, va') \<and> va_inv va'
      \<and> (case r of None \<Rightarrow> vacant va = {} \<and> va' = va
         | Some v \<Rightarrow> v \<in> vacant va \<and> (\<forall>w\<in>vacant va. v \<le> w) \<and> vacant va' = vacant va - {v})"
  using allocate_ok [OF assms] by blast

theorem allocate_least_vacant_witness:
  "\<exists>r va'. allocate sample_allocator = Ret (r, va') \<and> va_inv va'"
  using allocate_least_vacant [OF sample_allocator(1)] by blast

text \<open>
  Claiming any vacant value and giving it back restores the allocator exactly, interval
  for interval: splitting an interval and merging the pieces again are inverse, so the pool
  never fragments.
\<close>

theorem use_deallocate_restores:
  assumes "va_inv va" and "v \<in> vacant va"
  shows "\<exists>va1. use_value va v = Ret (True, va1) \<and> is_used va1 v \<and> deallocate va1 v = Ret va"
proof -
  obtain va1 where u: "use_value va v = Ret (True, va1)" "va_inv va1"
    "vacant va1 = vacant va - {v}" "lowest va1 = lowest va" "highest va1 = highest va"
    using use_value_ok [OF assms(1), of v] assms(2) by auto
  moreover have "lowest va \<le> v \<and> v \<le> highest va" using assms by (auto simp: va_inv_def)
  ultimately obtain va2 where d: "deallocate va1 v = Ret va2" "va_inv va2"
    "vacant va2 = insert v (vacant va1)" "lowest va2 = lowest va" "highest va2 = highest va"
    using deallocate_ok [OF u(2), of v] by auto
  have "va2 = va" using d u assms by (intro va_unique) auto
  then show ?thesis using u d by (simp add: is_used_iff)
qed

theorem use_deallocate_restores_witness:
  "\<exists>va1. use_value sample_allocator 6 = Ret (True, va1) \<and> deallocate va1 6 = Ret sample_allocator"
proof -
  have "6 \<in> vacant sample_allocator" by (simp add: sample_allocator)
  from use_deallocate_restores [OF sample_allocator(1) this] show ?thesis by blast
qed

end
