(* ===== verification/Packet_Id.thy ===== *)
theory Packet_Id
  imports Value_Allocator Result_Code
begin

text \<open>
  \<^verbatim>\<open>src/mqtt/packet/packet_id.rs\<close> and \<^verbatim>\<open>src/mqtt/connection/packet_id_manager.rs\<close>: packet
  identifiers and the manager that hands them out.  The sources are generic in the
  identifier type, which is \<open>u16\<close> or \<open>u32\<close>; here it is \<open>'p word\<close>, with
  \<open>packet_id_width TYPE('p)\<close> stating the two instances.  The manager is a client of the
  pool contract \<open>id_pool\<close>.
\<close>

section \<open>Identifier buffers\<close>

definition packet_id_width :: "'p::len itself \<Rightarrow> bool" where
  "packet_id_width _ \<longleftrightarrow> LENGTH('p) = 16 \<or> LENGTH('p) = 32"

definition pid_size :: "'p::len itself \<Rightarrow> nat" where
  "pid_size _ = LENGTH('p) div 8"

definition to_buffer :: "'p::len word \<Rightarrow> bytes" where
  "to_buffer pid = to_be_bytes pid"

definition from_buffer :: "bytes \<Rightarrow> 'p::len word" where
  "from_buffer buf =
     (if length buf \<ge> pid_size TYPE('p) then from_be_bytes (take (pid_size TYPE('p)) buf) else 0)"

lemma packet_id_width_dvd: "packet_id_width TYPE('p::len) \<Longrightarrow> 8 dvd LENGTH('p)"
  by (auto simp: packet_id_width_def)

lemma pid_size_pos: "packet_id_width TYPE('p::len) \<Longrightarrow> 0 < pid_size TYPE('p)"
  by (auto simp: packet_id_width_def pid_size_def)

lemma length_to_buffer [simp]: "length (to_buffer (pid :: 'p::len word)) = pid_size TYPE('p)"
  by (simp add: to_buffer_def pid_size_def)

lemma from_to_buffer:
  "packet_id_width TYPE('p::len) \<Longrightarrow> from_buffer (to_buffer (pid :: 'p word) @ rest) = pid"
  by (simp add: from_buffer_def to_buffer_def pid_size_def from_to_be_bytes packet_id_width_dvd)

lemma to_from_buffer:
  "packet_id_width TYPE('p::len) \<Longrightarrow> length buf = pid_size TYPE('p) \<Longrightarrow>
   to_buffer (from_buffer buf :: 'p word) = buf"
  by (simp add: from_buffer_def to_buffer_def pid_size_def to_from_be_bytes packet_id_width_dvd)

section \<open>The packet identifier manager\<close>

record 't packet_id_manager =
  pim_allocator :: "'t value_allocator"

text \<open>\<open>ValueAllocator::new(T::one(), T::max_value())\<close>.\<close>

definition pim_new :: "'p::len word packet_id_manager rust" where
  "pim_new = rbind (va_new 1 (- 1)) (\<lambda>va. Ret \<lparr>pim_allocator = va\<rparr>)"

definition acquire_unique_id ::
  "'p::len word packet_id_manager \<Rightarrow> (('p word, mqtt_error) result \<times> 'p word packet_id_manager) rust" where
  "acquire_unique_id m =
     rbind (allocate (pim_allocator m)) (\<lambda>(r, va).
       Ret (case r of Some v \<Rightarrow> Ok v | None \<Rightarrow> Err PacketIdentifierFullyUsed, m\<lparr>pim_allocator := va\<rparr>))"

definition register_id ::
  "'p::len word packet_id_manager \<Rightarrow> 'p word \<Rightarrow> ((unit, mqtt_error) result \<times> 'p word packet_id_manager) rust" where
  "register_id m pid =
     rbind (use_value (pim_allocator m) pid) (\<lambda>(b, va).
       Ret (if b then Ok () else Err PacketIdentifierConflict, m\<lparr>pim_allocator := va\<rparr>))"

definition is_used_id :: "'p::len word packet_id_manager \<Rightarrow> 'p word \<Rightarrow> bool" where
  "is_used_id m pid = is_used (pim_allocator m) pid"

definition release_id :: "'p::len word packet_id_manager \<Rightarrow> 'p word \<Rightarrow> 'p word packet_id_manager rust" where
  "release_id m pid =
     rbind (deallocate (pim_allocator m) pid) (\<lambda>va. Ret (m\<lparr>pim_allocator := va\<rparr>))"

definition pim_clear :: "'p::len word packet_id_manager \<Rightarrow> 'p word packet_id_manager" where
  "pim_clear m = m\<lparr>pim_allocator := va_clear (pim_allocator m)\<rparr>"

text \<open>The identifiers in use, and the invariant: the pool manages 1 to the largest value.\<close>

definition used_ids :: "'p::len word packet_id_manager \<Rightarrow> 'p word set" where
  "used_ids m = {v. v \<noteq> 0 \<and> v \<notin> vacant (pim_allocator m)}"

definition pim_inv :: "'p::len word packet_id_manager \<Rightarrow> bool" where
  "pim_inv m \<longleftrightarrow> va_inv (pim_allocator m) \<and> lowest (pim_allocator m) = 1 \<and> highest (pim_allocator m) = - 1"

lemma one_le_word: "1 \<le> (v :: 'p::len word) \<longleftrightarrow> v \<noteq> 0"
  by (simp add: word_le_nat_alt unat_gt_0 Suc_le_eq)

lemma pim_bounds: "pim_inv m \<Longrightarrow> va_bounds (pim_allocator m) = {v. v \<noteq> 0}"
  by (auto simp: pim_inv_def va_bounds_def one_le_word)

lemma pim_inv_va: "pim_inv m \<Longrightarrow> va_inv (pim_allocator m)"
  by (simp add: pim_inv_def)

lemma zero_not_vacant: "pim_inv m \<Longrightarrow> 0 \<notin> vacant (pim_allocator m)"
  by (auto simp: pim_inv_def va_inv_def)

lemma pim_new_ok: "\<exists>m :: 'p::len word packet_id_manager. pim_new = Ret m \<and> pim_inv m \<and> used_ids m = {}"
proof -
  have "(1 :: 'p word) \<le> - 1" by simp
  from va_new_ok [OF this] obtain va where va: "va_new (1 :: 'p word) (- 1) = Ret va" "va_inv va"
    "vacant va = {1 .. - 1}" "lowest va = 1" "highest va = - 1"
    by blast
  then show ?thesis
    by (intro exI [of _ "\<lparr>pim_allocator = va\<rparr>"])
       (auto simp: pim_new_def pim_inv_def used_ids_def one_le_word)
qed

lemma is_used_id_iff: "pim_inv m \<Longrightarrow> is_used_id m pid \<longleftrightarrow> pid = 0 \<or> pid \<in> used_ids m"
  using zero_not_vacant [of m] by (auto simp: is_used_id_def used_ids_def is_used_iff)

lemma acquire_ok:
  assumes "pim_inv m"
  shows "\<exists>r m'. acquire_unique_id m = Ret (r, m') \<and> pim_inv m' \<and>
    (case r of Err e \<Rightarrow> e = PacketIdentifierFullyUsed \<and> m' = m \<and> used_ids m = {v. v \<noteq> 0}
     | Ok v \<Rightarrow> v \<noteq> 0 \<and> v \<notin> used_ids m \<and> used_ids m' = insert v (used_ids m))"
proof -
  obtain r va where a: "allocate (pim_allocator m) = Ret (r, va)" "va_inv va"
    "lowest va = lowest (pim_allocator m)" "highest va = highest (pim_allocator m)"
    "case r of None \<Rightarrow> vacant (pim_allocator m) = {} \<and> va = pim_allocator m
     | Some v \<Rightarrow> v \<in> vacant (pim_allocator m) \<and> vacant va = vacant (pim_allocator m) - {v}"
    using allocate_ok [OF pim_inv_va [OF assms]] by (fastforce split: option.splits)
  have inv: "pim_inv (m\<lparr>pim_allocator := va\<rparr>)" using a assms by (simp add: pim_inv_def)
  show ?thesis
    using a inv assms zero_not_vacant [OF assms]
    by (cases r) (auto simp: acquire_unique_id_def used_ids_def)
qed

lemma register_ok:
  assumes "pim_inv m"
  shows "\<exists>m'. register_id m pid = Ret (if is_used_id m pid then Err PacketIdentifierConflict else Ok (), m')
    \<and> pim_inv m' \<and> used_ids m' = (if pid = 0 then used_ids m else insert pid (used_ids m))"
proof -
  obtain va where u: "use_value (pim_allocator m) pid = Ret (pid \<in> vacant (pim_allocator m), va)" "va_inv va"
    "vacant va = vacant (pim_allocator m) - {pid}"
    "lowest va = lowest (pim_allocator m)" "highest va = highest (pim_allocator m)"
    using use_value_ok [OF pim_inv_va [OF assms], of pid] by blast
  have "pim_inv (m\<lparr>pim_allocator := va\<rparr>)" using u assms by (simp add: pim_inv_def)
  then show ?thesis
    using u(1,3) by (auto simp: register_id_def used_ids_def is_used_id_def is_used_iff)
qed

lemma release_ok:
  assumes "pim_inv m" and "pid \<in> used_ids m"
  shows "\<exists>m'. release_id m pid = Ret m' \<and> pim_inv m' \<and> used_ids m' = used_ids m - {pid}"
proof -
  have b: "lowest (pim_allocator m) \<le> pid" "pid \<le> highest (pim_allocator m)" "pid \<notin> vacant (pim_allocator m)"
    using assms by (auto simp: pim_inv_def used_ids_def one_le_word)
  obtain va where d: "deallocate (pim_allocator m) pid = Ret va" "va_inv va"
    "vacant va = insert pid (vacant (pim_allocator m))"
    "lowest va = lowest (pim_allocator m)" "highest va = highest (pim_allocator m)"
    using deallocate_ok [OF pim_inv_va [OF assms(1)] b(3,1,2)] by blast
  have "pim_inv (m\<lparr>pim_allocator := va\<rparr>)" using d assms by (simp add: pim_inv_def)
  then show ?thesis using d(1,3) by (auto simp: release_id_def used_ids_def)
qed

lemma release_zero_panics: "pim_inv m \<Longrightarrow> release_id m 0 = Panic Assert_Failed"
  using deallocate_out_of_range [of "pim_allocator m" 0]
  by (simp add: release_id_def pim_inv_def)

lemma release_free_id:
  fixes pid :: "'p::len word"
  assumes "pim_inv m" and "pid \<notin> used_ids m" and "pid \<noteq> 0"
  shows "release_id m pid = (if pid = - 1 then Panic Arith_Overflow else Ret m)"
proof -
  have "pid \<in> vacant (pim_allocator m)" using assms by (simp add: used_ids_def)
  moreover have "unat pid + 1 < 2 ^ LENGTH('p) \<longleftrightarrow> pid \<noteq> - 1"
    using unat_lt [of pid]
    by (auto simp: word_unat_eq_iff unsigned_minus_1_eq_mask mask_eq_exp_minus_1 simp del: unsigned_less)
  ultimately show ?thesis
    using deallocate_vacant [OF pim_inv_va [OF assms(1)]] by (simp add: release_id_def)
qed

lemma pim_clear_ok:
  assumes "pim_inv m"
  shows "pim_inv (pim_clear m) \<and> used_ids (pim_clear m) = {}"
  using va_clear_ok [OF pim_inv_va [OF assms]] assms
  by (auto simp: pim_clear_def pim_inv_def used_ids_def one_le_word)

section \<open>Properties\<close>

text \<open>
  C34: acquiring a packet identifier never panics and hands out a nonzero identifier that was
  not in use, marking it used; it fails with \<open>PacketIdentifierFullyUsed\<close> only when every
  nonzero identifier is in use.
\<close>

theorem acquire_unique_id_fresh:
  assumes "pim_inv (m :: 'p::len word packet_id_manager)"
  shows "\<exists>r m'. acquire_unique_id m = Ret (r, m') \<and> pim_inv m' \<and>
    (case r of Err e \<Rightarrow> e = PacketIdentifierFullyUsed \<and> m' = m \<and> (\<forall>v. v \<noteq> 0 \<longrightarrow> is_used_id m v)
     | Ok v \<Rightarrow> v \<noteq> 0 \<and> \<not> is_used_id m v \<and> used_ids m' = insert v (used_ids m))"
  using acquire_ok [OF assms] is_used_id_iff [OF assms]
  by (fastforce split: result.splits)

theorem acquire_unique_id_fresh_witness:
  "\<exists>m r m'. pim_new = Ret (m :: 16 word packet_id_manager) \<and> acquire_unique_id m = Ret (r, m') \<and> pim_inv m'"
proof -
  obtain m :: "16 word packet_id_manager" where "pim_new = Ret m" "pim_inv m" using pim_new_ok by blast
  then show ?thesis using acquire_unique_id_fresh [of m] by blast
qed

text \<open>
  Releasing an identifier.  An identifier in use becomes free and nothing else changes; a
  free one is left alone; the identifier 0, which \<open>is_used_id\<close> reports as used because it is
  never vacant, and the largest identifier when it is free make the release panic.
\<close>

theorem release_id_total:
  assumes "pim_inv (m :: 'p::len word packet_id_manager)"
  shows "if pid \<in> used_ids m then
      (\<exists>m'. release_id m pid = Ret m' \<and> pim_inv m' \<and> used_ids m' = used_ids m - {pid} \<and> \<not> is_used_id m' pid)
    else if pid = 0 then is_used_id m pid \<and> release_id m pid = Panic Assert_Failed
    else if pid = - 1 then release_id m pid = Panic Arith_Overflow
    else release_id m pid = Ret m"
  using release_ok [OF assms, of pid] release_zero_panics [OF assms] release_free_id [OF assms, of pid]
    is_used_id_iff [OF assms, of pid] is_used_id_iff
  by (auto simp: used_ids_def)

theorem release_id_total_witness:
  "\<exists>m. pim_new = Ret (m :: 16 word packet_id_manager) \<and> is_used_id m 0 \<and> release_id m 0 = Panic Assert_Failed"
proof -
  obtain m :: "16 word packet_id_manager" where "pim_new = Ret m" "pim_inv m" "used_ids m = {}"
    using pim_new_ok by blast
  then show ?thesis using release_id_total [of m 0] by auto
qed

end
