(* ===== verification/Mqtt_String.thy ===== *)
theory Mqtt_String
  imports Result_Code
begin

text \<open>
  \<^verbatim>\<open>src/mqtt/packet/mqtt_string.rs\<close> and \<^verbatim>\<open>mqtt_binary.rs\<close>: length-prefixed UTF-8 strings and
  binary data, kept in their encoded form.  Without the optional small-string features a
  value has the single variant \<open>Large\<close>; the fixed-size buffer of the features is modelled
  beside it and shown to give the same bytes.  The locale \<open>codec\<close> is the contract between
  an encoder and a decoder that the packets are built from.
\<close>

section \<open>The codec contract\<close>

type_synonym 'a decoder = "bytes \<Rightarrow> ('a \<times> nat, mqtt_error) result"

text \<open>\<open>if flag { let (x, consumed) = decode(&data[cursor..])?; cursor += consumed }\<close> with a default value.\<close>

definition field_if :: "bool \<Rightarrow> 'a decoder \<Rightarrow> 'a \<Rightarrow> bytes \<Rightarrow> nat \<Rightarrow> ('a \<times> nat, mqtt_error) result" where
  "field_if flag decode dflt data cursor =
     (if flag then res_bind (decode (drop cursor data)) (\<lambda>(x, consumed). Ok (x, cursor + consumed))
      else Ok (dflt, cursor))"

text \<open>
  A decoder of the source may panic, as any code that indexes a slice may.  Its run is the function named
  \<open>rs_...\<close>; that it always returns the value of the decoder is shown for each of them.
\<close>

type_synonym 'a decoder_run = "bytes \<Rightarrow> ('a \<times> nat, mqtt_error) result rust"

definition rs_field_if :: "bool \<Rightarrow> 'a decoder_run \<Rightarrow> 'a \<Rightarrow> bytes \<Rightarrow> nat \<Rightarrow> ('a \<times> nat, mqtt_error) result rust" where
  "rs_field_if flag decode dflt data cursor =
     (if flag then rbind (slice_from data cursor) (\<lambda>rest.
        tbind (decode rest) (\<lambda>(x, consumed). Ret (Ok (x, cursor + consumed))))
      else Ret (Ok (dflt, cursor)))"

lemma tbind_Ret: "tbind (Ret r) (\<lambda>(x, n). Ret (Ok (f x n))) = Ret (res_bind r (\<lambda>(x, n). Ok (f x n)))"
  by (cases r) (auto split: prod.splits)

lemma tbind_Ret_res: "tbind (Ret r) (\<lambda>x. Ret (f x)) = Ret (res_bind r f)"
  by (cases r) simp_all

lemma rs_field_if:
  "cursor \<le> length data \<Longrightarrow> rs_field_if flag (\<lambda>bs. Ret (decode bs)) dflt data cursor = Ret (field_if flag decode dflt data cursor)"
  by (simp add: rs_field_if_def field_if_def tbind_Ret)

locale codec =
  fixes inv :: "'a \<Rightarrow> bool" and enc :: "'a \<Rightarrow> bytes" and dec :: "'a decoder"
  assumes dec_enc: "inv x \<Longrightarrow> dec (enc x @ rest) = Ok (x, length (enc x))"
    and dec_bounds: "dec bs = Ok (x, n) \<Longrightarrow> inv x \<and> 0 < n \<and> n \<le> length bs"
begin

lemma dec_enc_Nil: "inv x \<Longrightarrow> dec (enc x) = Ok (x, length (enc x))"
  using dec_enc [of x "[]"] by simp

lemma enc_nonempty: "inv x \<Longrightarrow> enc x \<noteq> []"
  using dec_bounds [OF dec_enc_Nil] by auto

text \<open>Encodings are prefix-free, so a concatenation splits in one way only.\<close>

lemma enc_prefix_free:
  assumes "inv x" and "inv y" and "enc x @ r = enc y @ r'"
  shows "x = y \<and> r = r'"
  using dec_enc [OF assms(1), of r] dec_enc [OF assms(2), of r'] assms(3) by simp

lemma concat_enc_inj:
  "list_all inv xs \<Longrightarrow> list_all inv ys \<Longrightarrow> concat (map enc xs) = concat (map enc ys) \<Longrightarrow> xs = ys"
proof (induction xs arbitrary: ys)
  case Nil
  then show ?case using enc_nonempty by (cases ys) auto
next
  case (Cons x xs)
  then obtain y ys' where ys: "ys = y # ys'" using enc_nonempty by (cases ys) auto
  have "x = y \<and> concat (map enc xs) = concat (map enc ys')"
    by (rule enc_prefix_free) (use Cons.prems ys in auto)
  then show ?case using Cons ys by auto
qed

text \<open>A field that is present when its flag is set.\<close>

lemma field_enc:
  assumes "f \<Longrightarrow> inv x" and "\<not> f \<Longrightarrow> x = d" and "drop c data = (if f then enc x else []) @ rest"
  shows "field_if f dec d data c = Ok (x, c + length (if f then enc x else []))"
    and "drop (c + length (if f then enc x else [])) data = rest"
proof -
  show "field_if f dec d data c = Ok (x, c + length (if f then enc x else []))"
    using assms by (auto simp: field_if_def dec_enc)
  have "drop (c + m) data = drop m (drop c data)" for m by (simp add: add.commute)
  then show "drop (c + length (if f then enc x else [])) data = rest" by (simp only: assms(3)) simp
qed

lemma field_le:
  assumes "field_if f dec d data c = Ok (x, c')" and "c \<le> length data"
  shows "(f \<longrightarrow> inv x) \<and> (\<not> f \<longrightarrow> x = d) \<and> c \<le> c' \<and> c' \<le> length data"
proof (cases f)
  case True
  then obtain n where d: "dec (drop c data) = Ok (x, n)" "c' = c + n"
    using assms(1) by (auto simp: field_if_def res_bind_eq_Ok)
  have "c + n \<le> length data" using dec_bounds [OF d(1)] assms(2) by auto
  then show ?thesis using dec_bounds [OF d(1)] d(2) True by simp
next
  case False
  then show ?thesis using assms by (simp add: field_if_def)
qed

text \<open>A step of a parser that reads a field: the cursor stays within the data.\<close>

lemma field_step:
  assumes "c \<le> length data" and "\<And>x c'. c' \<le> length data \<Longrightarrow> g (x, c') = h (x, c')"
  shows "tbind (rs_field_if f (\<lambda>bs. Ret (dec bs)) d data c) g = tbind (Ret (field_if f dec d data c)) h"
proof (cases "field_if f dec d data c")
  case (Ok p)
  then show ?thesis using assms(2) [of "snd p" "fst p"] field_le [of f d data c "fst p" "snd p"] assms(1)
    by (simp add: rs_field_if)
qed (simp add: rs_field_if assms(1))

end

text \<open>
  A loop that decodes items until the data is used up: \<open>while cursor < data.len()\<close>.
\<close>

locale codec_loop = codec +
  fixes loop :: "bytes \<Rightarrow> nat \<Rightarrow> 'a list \<Rightarrow> ('a list \<times> nat, mqtt_error) result"
  assumes loop_eq: "loop data cursor xs =
      (if cursor < length data
       then res_bind (dec (drop cursor data)) (\<lambda>(x, n). loop data (cursor + n) (xs @ [x]))
       else Ok (xs, cursor))"
begin

lemma loop_enc:
  "list_all inv ys \<Longrightarrow> cursor \<le> length data \<Longrightarrow> drop cursor data = concat (map enc ys) \<Longrightarrow>
   loop data cursor xs = Ok (xs @ ys, length data)"
proof (induction ys arbitrary: cursor xs)
  case Nil
  then show ?case by (subst loop_eq) simp
next
  case (Cons y ys)
  have inv: "inv y" using Cons.prems by simp
  have d: "drop cursor data = enc y @ concat (map enc ys)" using Cons.prems by simp
  then have lt: "cursor < length data" using enc_nonempty [OF inv] by (cases "cursor < length data") auto
  have "cursor + length (enc y) \<le> length data" using arg_cong [OF d, of length] lt by simp
  moreover have "drop (cursor + length (enc y)) data = concat (map enc ys)"
    using arg_cong [OF d, of "drop (length (enc y))"] by (simp add: add.commute)
  ultimately have "loop data (cursor + length (enc y)) (xs @ [y]) = Ok ((xs @ [y]) @ ys, length data)"
    using Cons.prems by (intro Cons.IH) simp_all
  then show ?case using lt dec_enc [OF inv, of "concat (map enc ys)"] d by (subst loop_eq) simp
qed

lemma loop_sound:
  "loop data cursor xs = Ok (ys, n) \<Longrightarrow> cursor \<le> length data \<Longrightarrow> list_all inv xs \<Longrightarrow> list_all inv ys \<and> n = length data"
proof (induction "length data - cursor" arbitrary: cursor xs rule: less_induct)
  case less
  show ?case
  proof (cases "cursor < length data")
    case False
    then show ?thesis using less.prems by (subst (asm) loop_eq) simp
  next
    case True
    then obtain x m where d: "dec (drop cursor data) = Ok (x, m)" and l: "loop data (cursor + m) (xs @ [x]) = Ok (ys, n)"
      using less.prems(1) by (subst (asm) loop_eq) (auto simp: res_bind_eq_Ok)
    note b = dec_bounds [OF d]
    show ?thesis by (rule less.hyps [OF _ l]) (use b True less.prems in auto)
  qed
qed

end

text \<open>
  A decoder that accepts one encoding per value only: what it consumed is the encoding.
\<close>

locale strict_codec = codec +
  assumes dec_len: "dec bs = Ok (x, n) \<Longrightarrow> n = length (enc x)"
begin

lemma field_OkD:
  assumes "field_if f dec d data c = Ok (x, c')" and "c \<le> length data"
  shows "(f \<longrightarrow> inv x) \<and> (\<not> f \<longrightarrow> x = d) \<and> c' = c + length (if f then enc x else []) \<and> c' \<le> length data"
  using field_le [OF assms] assms(1) by (auto simp: field_if_def res_bind_eq_Ok dest: dec_len split: if_splits)

end

locale strict_codec_loop = codec_loop + strict_codec
begin

lemma loop_len_gen:
  "loop data cursor xs = Ok (ys, n) \<Longrightarrow> cursor \<le> length data \<Longrightarrow>
   \<exists>zs. ys = xs @ zs \<and> length (concat (map enc zs)) = length data - cursor"
proof (induction "length data - cursor" arbitrary: cursor xs rule: less_induct)
  case less
  show ?case
  proof (cases "cursor < length data")
    case False
    then show ?thesis using less.prems by (subst (asm) loop_eq) simp
  next
    case True
    then obtain x m where d: "dec (drop cursor data) = Ok (x, m)" and l: "loop data (cursor + m) (xs @ [x]) = Ok (ys, n)"
      using less.prems(1) by (subst (asm) loop_eq) (auto simp: res_bind_eq_Ok)
    have b: "0 < m" "cursor + m \<le> length data" using dec_bounds [OF d] True by auto
    have "\<exists>zs. ys = (xs @ [x]) @ zs \<and> length (concat (map enc zs)) = length data - (cursor + m)"
      by (rule less.hyps [OF _ l]) (use b True less.prems in auto)
    then obtain zs where "ys = xs @ x # zs" "length (concat (map enc zs)) = length data - (cursor + m)" by auto
    then show ?thesis using b dec_len [OF d] by (intro exI [of _ "x # zs"]) auto
  qed
qed

lemma loop_len:
  "loop data cursor [] = Ok (ys, n) \<Longrightarrow> cursor \<le> length data \<Longrightarrow> length (concat (map enc ys)) = length data - cursor"
  using loop_len_gen [of data cursor "[]"] by auto

end

section \<open>UTF-8\<close>

text \<open>\<open>core::str::from_utf8\<close> succeeds exactly on well-formed UTF-8 (Unicode, table 3-7).\<close>

definition cont_byte :: "u8 \<Rightarrow> bool" where
  "cont_byte b \<longleftrightarrow> 0x80 \<le> b \<and> b \<le> 0xBF"

fun utf8_valid :: "bytes \<Rightarrow> bool" where
  "utf8_valid [] = True"
| "utf8_valid (b # bs) =
    (if b < 0x80 then utf8_valid bs
     else if 0xC2 \<le> b \<and> b \<le> 0xDF then
       (case bs of c # r \<Rightarrow> cont_byte c \<and> utf8_valid r | _ \<Rightarrow> False)
     else if 0xE0 \<le> b \<and> b \<le> 0xEF then
       (case bs of c # d # r \<Rightarrow>
          (if b = 0xE0 then 0xA0 \<le> c \<and> c \<le> 0xBF
           else if b = 0xED then 0x80 \<le> c \<and> c \<le> 0x9F else cont_byte c)
          \<and> cont_byte d \<and> utf8_valid r
        | _ \<Rightarrow> False)
     else if 0xF0 \<le> b \<and> b \<le> 0xF4 then
       (case bs of c # d # e # r \<Rightarrow>
          (if b = 0xF0 then 0x90 \<le> c \<and> c \<le> 0xBF
           else if b = 0xF4 then 0x80 \<le> c \<and> c \<le> 0x8F else cont_byte c)
          \<and> cont_byte d \<and> cont_byte e \<and> utf8_valid r
        | _ \<Rightarrow> False)
     else False)"

declare utf8_valid.simps(2) [simp del]

text \<open>ASCII text is well-formed.\<close>

lemma utf8_valid_ascii: "list_all (\<lambda>b. b < 0x80) s \<Longrightarrow> utf8_valid s"
  by (induction s) (auto simp: utf8_valid.simps(2))

section \<open>Length prefixes\<close>

text \<open>\<open>(len >> 8) as u8\<close> and \<open>len as u8\<close>, and reading them back.\<close>

definition len_prefix :: "nat \<Rightarrow> bytes" where
  "len_prefix n = [of_nat (n div 256), of_nat n]"

definition read_len :: "bytes \<Rightarrow> nat" where
  "read_len bs = unat (bs ! 0) * 256 + unat (bs ! 1)"

lemma length_len_prefix [simp]: "length (len_prefix n) = 2"
  by (simp add: len_prefix_def)

lemma read_len_prefix: "n \<le> 65535 \<Longrightarrow> read_len (len_prefix n @ bs) = n"
  by (simp add: read_len_def len_prefix_def unat_of_nat)

lemma read_len_bound: "read_len bs \<le> 65535"
  using unat_u8_lt [of "bs ! 0"] unat_u8_lt [of "bs ! 1"] by (simp add: read_len_def)

lemma len_prefix_read:
  assumes "2 \<le> length bs"
  shows "len_prefix (read_len bs) = take 2 bs"
proof -
  obtain a b r where bs: "bs = a # b # r"
    using assms by (cases bs; cases "tl bs") auto
  have "(unat a * 256 + unat b) div 256 = unat a"
    using unat_u8_lt [of b] by simp
  moreover have "(of_nat (unat a * 256 + unat b) :: u8) = b"
  proof (rule word_unat_eq_iff [THEN iffD2])
    show "unat (of_nat (unat a * 256 + unat b) :: u8) = unat b"
      using unat_u8_lt [of b] by (simp only: unat_of_nat_u8) simp
  qed
  ultimately show ?thesis
    by (simp add: bs read_len_def len_prefix_def del: of_nat_add of_nat_mult)
qed

text \<open>A zeroed array of \<open>n\<close> bytes with \<open>bs\<close> copied to its front.\<close>

definition slice_fill :: "nat \<Rightarrow> bytes \<Rightarrow> bytes" where
  "slice_fill n bs = bs @ replicate (n - length bs) 0"

section \<open>MqttString\<close>

record mqtt_string =
  ms_encoded :: bytes

definition ms_new :: "str \<Rightarrow> (mqtt_string, mqtt_error) result" where
  "ms_new s = (let len = length s in
     if len > 65535 then Err MalformedPacket else Ok \<lparr>ms_encoded = len_prefix len @ s\<rparr>)"

definition ms_as_bytes :: "mqtt_string \<Rightarrow> bytes" where
  "ms_as_bytes ms = ms_encoded ms"

definition ms_as_str :: "mqtt_string \<Rightarrow> str" where
  "ms_as_str ms = drop 2 (ms_encoded ms)"

definition ms_len :: "mqtt_string \<Rightarrow> nat" where
  "ms_len ms = length (ms_encoded ms) - 2"

definition ms_is_empty :: "mqtt_string \<Rightarrow> bool" where
  "ms_is_empty ms \<longleftrightarrow> ms_len ms = 0"

definition ms_size :: "mqtt_string \<Rightarrow> nat" where
  "ms_size ms = length (ms_encoded ms)"

definition ms_to_continuous_buffer :: "mqtt_string \<Rightarrow> bytes" where
  "ms_to_continuous_buffer ms = ms_as_bytes ms"

definition ms_decode :: "mqtt_string decoder" where
  "ms_decode data =
     (if length data < 2 then Err MalformedPacket
      else let string_len = read_len data in
        if length data < 2 + string_len then Err MalformedPacket
        else if \<not> utf8_valid (take string_len (drop 2 data)) then Err MalformedPacket
        else let total_encoded_len = 2 + string_len in
          Ok (\<lparr>ms_encoded = take total_encoded_len data\<rparr>, total_encoded_len))"

definition rs_read_len :: "bytes \<Rightarrow> nat rust" where
  "rs_read_len data = rbind (idx data 0) (\<lambda>b0. rbind (idx data 1) (\<lambda>b1. Ret (unat b0 * 256 + unat b1)))"

definition rs_ms_decode :: "mqtt_string decoder_run" where
  "rs_ms_decode data =
     (if length data < 2 then Ret (Err MalformedPacket)
      else rbind (rs_read_len data) (\<lambda>string_len.
        if length data < 2 + string_len then Ret (Err MalformedPacket)
        else rbind (subslice data 2 (2 + string_len)) (\<lambda>s.
        if \<not> utf8_valid s then Ret (Err MalformedPacket)
        else let total_encoded_len = 2 + string_len in
          rbind (subslice data 0 total_encoded_len) (\<lambda>encoded.
          Ret (Ok (\<lparr>ms_encoded = encoded\<rparr>, total_encoded_len))))))"

lemma rs_read_len: "2 \<le> length data \<Longrightarrow> rs_read_len data = Ret (read_len data)"
  by (simp add: rs_read_len_def read_len_def)

lemma rs_ms_decode: "rs_ms_decode = (\<lambda>data. Ret (ms_decode data))"
  by (rule ext) (simp add: rs_ms_decode_def ms_decode_def rs_read_len Let_def)

definition ms_inv :: "mqtt_string \<Rightarrow> bool" where
  "ms_inv ms \<longleftrightarrow> (let s = drop 2 (ms_encoded ms) in
     length s \<le> 65535 \<and> utf8_valid s \<and> ms_encoded ms = len_prefix (length s) @ s)"

section \<open>MqttBinary\<close>

record mqtt_binary =
  mb_encoded :: bytes

definition mb_new :: "bytes \<Rightarrow> (mqtt_binary, mqtt_error) result" where
  "mb_new data = (if length data > 65535 then Err MalformedPacket
     else Ok \<lparr>mb_encoded = len_prefix (length data) @ data\<rparr>)"

definition mb_as_slice :: "mqtt_binary \<Rightarrow> bytes" where
  "mb_as_slice mb = drop 2 (mb_encoded mb)"

definition mb_as_bytes :: "mqtt_binary \<Rightarrow> bytes" where
  "mb_as_bytes mb = mb_encoded mb"

definition mb_len :: "mqtt_binary \<Rightarrow> nat" where
  "mb_len mb = length (mb_encoded mb) - 2"

definition mb_size :: "mqtt_binary \<Rightarrow> nat" where
  "mb_size mb = length (mb_encoded mb)"

definition mb_to_continuous_buffer :: "mqtt_binary \<Rightarrow> bytes" where
  "mb_to_continuous_buffer mb = mb_as_bytes mb"

definition mb_decode :: "mqtt_binary decoder" where
  "mb_decode data =
     (if length data < 2 then Err MalformedPacket
      else let data_len = read_len data in
        if length data < 2 + data_len then Err MalformedPacket
        else Ok (\<lparr>mb_encoded = take (2 + data_len) data\<rparr>, 2 + data_len))"

definition rs_mb_decode :: "mqtt_binary decoder_run" where
  "rs_mb_decode data =
     (if length data < 2 then Ret (Err MalformedPacket)
      else rbind (rs_read_len data) (\<lambda>data_len.
        if length data < 2 + data_len then Ret (Err MalformedPacket)
        else rbind (subslice data 0 (2 + data_len)) (\<lambda>encoded.
          Ret (Ok (\<lparr>mb_encoded = encoded\<rparr>, 2 + data_len)))))"

lemma rs_mb_decode: "rs_mb_decode = (\<lambda>data. Ret (mb_decode data))"
  by (rule ext) (simp add: rs_mb_decode_def mb_decode_def rs_read_len Let_def)

definition mb_inv :: "mqtt_binary \<Rightarrow> bool" where
  "mb_inv mb \<longleftrightarrow> (let s = drop 2 (mb_encoded mb) in
     length s \<le> 65535 \<and> mb_encoded mb = len_prefix (length s) @ s)"

lemma ms_size_bound: "ms_inv s \<Longrightarrow> ms_size s \<le> 65537"
  by (auto simp: ms_inv_def ms_size_def Let_def)

lemma mb_size_bound: "mb_inv s \<Longrightarrow> mb_size s \<le> 65537"
  by (auto simp: mb_inv_def mb_size_def Let_def)

section \<open>The codecs\<close>

lemma take_prefix_split:
  assumes "2 + read_len data \<le> length data"
  shows "take (2 + read_len data) data = len_prefix (read_len data) @ take (read_len data) (drop 2 data)"
    and "drop 2 (take (2 + read_len data) data) = take (read_len data) (drop 2 data)"
proof -
  show "take (2 + read_len data) data = len_prefix (read_len data) @ take (read_len data) (drop 2 data)"
    using assms by (subst take_add) (simp add: len_prefix_read)
  show "drop 2 (take (2 + read_len data) data) = take (read_len data) (drop 2 data)"
    by (simp add: drop_take)
qed

lemma ms_invE:
  assumes "ms_inv ms"
  obtains s where "ms = \<lparr>ms_encoded = len_prefix (length s) @ s\<rparr>" "length s \<le> 65535" "utf8_valid s"
  using assms that [of "drop 2 (ms_encoded ms)"] by (cases ms) (simp add: ms_inv_def Let_def)

lemma mb_invE:
  assumes "mb_inv mb"
  obtains s where "mb = \<lparr>mb_encoded = len_prefix (length s) @ s\<rparr>" "length s \<le> 65535"
  using assms that [of "drop 2 (mb_encoded mb)"] by (cases mb) (simp add: mb_inv_def Let_def)

lemma ms_new_ok: "length s \<le> 65535 \<Longrightarrow> utf8_valid s \<Longrightarrow>
    \<exists>ms. ms_new s = Ok ms \<and> ms_inv ms \<and> ms_as_str ms = s"
  by (simp add: ms_new_def ms_inv_def ms_as_str_def Let_def)

lemma mb_new_ok: "length s \<le> 65535 \<Longrightarrow> \<exists>mb. mb_new s = Ok mb \<and> mb_inv mb \<and> mb_as_slice mb = s"
  by (simp add: mb_new_def mb_inv_def mb_as_slice_def Let_def)

interpretation ms_codec: codec ms_inv ms_to_continuous_buffer ms_decode
proof (unfold_locales, goal_cases)
  case (1 ms rest)
  then obtain s where s: "ms = \<lparr>ms_encoded = len_prefix (length s) @ s\<rparr>" "length s \<le> 65535" "utf8_valid s"
    by (rule ms_invE)
  then show ?case
    by (simp add: ms_to_continuous_buffer_def ms_as_bytes_def ms_decode_def read_len_prefix Let_def)
next
  case (2 bs ms n)
  then have n: "n = 2 + read_len bs" "n \<le> length bs" "utf8_valid (take (read_len bs) (drop 2 bs))"
    and ms: "ms = \<lparr>ms_encoded = take n bs\<rparr>"
    by (auto simp: ms_decode_def Let_def split: if_splits)
  then show ?case
    using take_prefix_split [of bs] read_len_bound [of bs]
    by (simp add: ms_inv_def Let_def)
qed

interpretation mb_codec: codec mb_inv mb_to_continuous_buffer mb_decode
proof (unfold_locales, goal_cases)
  case (1 mb rest)
  then obtain s where "mb = \<lparr>mb_encoded = len_prefix (length s) @ s\<rparr>" "length s \<le> 65535"
    by (rule mb_invE)
  then show ?case
    by (simp add: mb_to_continuous_buffer_def mb_as_bytes_def mb_decode_def read_len_prefix Let_def)
next
  case (2 bs mb n)
  then have n: "n = 2 + read_len bs" "n \<le> length bs" and mb: "mb = \<lparr>mb_encoded = take n bs\<rparr>"
    by (auto simp: mb_decode_def Let_def split: if_splits)
  then show ?case
    using take_prefix_split [of bs] read_len_bound [of bs]
    by (simp add: mb_inv_def Let_def)
qed

interpretation ms_strict: strict_codec ms_inv ms_to_continuous_buffer ms_decode
  by unfold_locales (auto simp: ms_decode_def ms_to_continuous_buffer_def ms_as_bytes_def Let_def split: if_splits)

interpretation mb_strict: strict_codec mb_inv mb_to_continuous_buffer mb_decode
  by unfold_locales (auto simp: mb_decode_def mb_to_continuous_buffer_def mb_as_bytes_def Let_def split: if_splits)

lemma ms_decode_OkD: "ms_decode bs = Ok (s, n) \<Longrightarrow> ms_inv s \<and> n = ms_size s \<and> 0 < n \<and> n \<le> length bs"
  using ms_codec.dec_bounds [of bs s n] by (auto simp: ms_decode_def ms_size_def Let_def split: if_splits)

lemma mb_decode_OkD: "mb_decode bs = Ok (s, n) \<Longrightarrow> mb_inv s \<and> n = mb_size s \<and> 0 < n \<and> n \<le> length bs"
  using mb_codec.dec_bounds [of bs s n] by (auto simp: mb_decode_def mb_size_def Let_def split: if_splits)

section \<open>The small-string buffer\<close>

text \<open>
  With a small-string feature of buffer size \<open>sso\<close> (12, 24 or 48) a short string lives in a
  zero-padded array of that size.
\<close>

datatype mqtt_string_sso = Small bytes | Large bytes

definition sso_new :: "nat \<Rightarrow> str \<Rightarrow> (mqtt_string_sso, mqtt_error) result" where
  "sso_new sso s = (let len = length s in
     if len > 65535 then Err MalformedPacket
     else if len \<le> sso - 2 then Ok (Small (slice_fill sso (len_prefix len @ s)))
     else Ok (Large (len_prefix len @ s)))"

primrec sso_as_bytes :: "mqtt_string_sso \<Rightarrow> bytes" where
  "sso_as_bytes (Small buffer) = take (2 + read_len buffer) buffer"
| "sso_as_bytes (Large encoded) = encoded"

primrec sso_as_str :: "mqtt_string_sso \<Rightarrow> str" where
  "sso_as_str (Small buffer) = take (read_len buffer) (drop 2 buffer)"
| "sso_as_str (Large encoded) = drop 2 encoded"

primrec sso_len :: "mqtt_string_sso \<Rightarrow> nat" where
  "sso_len (Small buffer) = read_len buffer"
| "sso_len (Large encoded) = length encoded - 2"

definition sso_decode :: "nat \<Rightarrow> mqtt_string_sso decoder" where
  "sso_decode sso data =
     (if length data < 2 then Err MalformedPacket
      else let string_len = read_len data in
        if length data < 2 + string_len then Err MalformedPacket
        else if \<not> utf8_valid (take string_len (drop 2 data)) then Err MalformedPacket
        else let total_encoded_len = 2 + string_len in
          if string_len \<le> sso - 2
          then Ok (Small (slice_fill sso (take total_encoded_len data)), total_encoded_len)
          else Ok (Large (take total_encoded_len data), total_encoded_len))"

lemma sso_small:
  assumes "length s \<le> 65535"
  shows "sso_as_bytes (Small (slice_fill sso (len_prefix (length s) @ s))) = len_prefix (length s) @ s"
    and "sso_as_str (Small (slice_fill sso (len_prefix (length s) @ s))) = s"
    and "sso_len (Small (slice_fill sso (len_prefix (length s) @ s))) = length s"
  using assms by (simp_all add: slice_fill_def read_len_prefix)

section \<open>Properties\<close>

text \<open>
  Strings survive the wire.  Every well-formed UTF-8 text of at most 65535 bytes makes an
  \<open>MqttString\<close> that reads back as that text; decoding its bytes, followed by anything, gives
  the same value and consumes exactly its encoded size.  Longer text is refused.
\<close>

theorem mqtt_string_roundtrip:
  assumes "utf8_valid s"
  shows "if length s > 65535 then ms_new s = Err MalformedPacket
    else \<exists>ms. ms_new s = Ok ms \<and> ms_as_str ms = s \<and> ms_len ms = length s
      \<and> ms_decode (ms_to_continuous_buffer ms @ rest) = Ok (ms, ms_size ms)"
proof (cases "length s > 65535")
  case False
  then obtain ms where ms: "ms_new s = Ok ms" "ms_inv ms" "ms_as_str ms = s"
    using ms_new_ok [of s] assms by auto
  moreover have "ms_len ms = length s" using ms(3) by (auto simp: ms_as_str_def ms_len_def)
  ultimately show ?thesis
    using False ms_codec.dec_enc [OF ms(2), of rest]
    by (simp add: ms_size_def ms_to_continuous_buffer_def ms_as_bytes_def)
qed (simp add: ms_new_def)

theorem mqtt_string_roundtrip_witness:
  "\<exists>ms. ms_new [0x61, 0xC3, 0xA9] = Ok ms \<and> ms_decode (ms_to_continuous_buffer ms @ [1]) = Ok (ms, ms_size ms)"
proof -
  have "utf8_valid [0x61, 0xC3, 0xA9]" by (simp add: utf8_valid.simps cont_byte_def)
  from mqtt_string_roundtrip [OF this, of "[1]"] show ?thesis by auto
qed

text \<open>
  A decoded string is genuine.  Whatever bytes arrive, a successful decode consumed at
  least two and at most all of them, its text is well-formed UTF-8 (so the unchecked
  conversion in \<open>as_str\<close> is sound), and encoding it again gives exactly the consumed bytes.
\<close>

theorem mqtt_string_decode_sound:
  assumes "ms_decode data = Ok (ms, n)"
  shows "2 \<le> n \<and> n \<le> length data \<and> utf8_valid (ms_as_str ms) \<and> length (ms_as_str ms) \<le> 65535
    \<and> ms_to_continuous_buffer ms = take n data"
  using ms_codec.dec_bounds [OF assms] assms
  by (auto simp: ms_decode_def ms_inv_def ms_as_str_def ms_to_continuous_buffer_def ms_as_bytes_def Let_def
      split: if_splits)

theorem mqtt_string_decode_sound_witness:
  "utf8_valid (ms_as_str \<lparr>ms_encoded = [0, 1, 0x61]\<rparr>) \<and> ms_decode [0, 1, 0x61, 9] = Ok (\<lparr>ms_encoded = [0, 1, 0x61]\<rparr>, 3)"
proof -
  have d: "ms_decode [0, 1, 0x61, 9] = Ok (\<lparr>ms_encoded = [0, 1, 0x61]\<rparr>, 3)"
    by (simp add: ms_decode_def read_len_def utf8_valid.simps)
  from mqtt_string_decode_sound [OF d] d show ?thesis by simp
qed

text \<open>
  C35: the small-string optimisation is invisible.  For every buffer size, creating or decoding
  a string yields the same bytes, the same text, the same length and the same errors as the
  plain representation.
\<close>

theorem sso_equivalent:
  "(case (sso_new sso s, ms_new s) of
      (Ok x, Ok ms) \<Rightarrow> sso_as_bytes x = ms_as_bytes ms \<and> sso_as_str x = ms_as_str ms \<and> sso_len x = ms_len ms
    | (Err e, Err e') \<Rightarrow> e = e'
    | _ \<Rightarrow> False)
   \<and> (case (sso_decode sso data, ms_decode data) of
      (Ok (x, n), Ok (ms, n')) \<Rightarrow> n = n' \<and> sso_as_bytes x = ms_as_bytes ms \<and> sso_as_str x = ms_as_str ms
    | (Err e, Err e') \<Rightarrow> e = e'
    | _ \<Rightarrow> False)"
proof
  show "case (sso_new sso s, ms_new s) of
      (Ok x, Ok ms) \<Rightarrow> sso_as_bytes x = ms_as_bytes ms \<and> sso_as_str x = ms_as_str ms \<and> sso_len x = ms_len ms
    | (Err e, Err e') \<Rightarrow> e = e' | _ \<Rightarrow> False"
    using sso_small [of s sso]
    by (simp add: sso_new_def ms_new_def Let_def ms_as_bytes_def ms_as_str_def ms_len_def
        del: sso_as_bytes.simps(1) sso_as_str.simps(1) sso_len.simps(1))
next
  show "case (sso_decode sso data, ms_decode data) of
      (Ok (x, n), Ok (ms, n')) \<Rightarrow> n = n' \<and> sso_as_bytes x = ms_as_bytes ms \<and> sso_as_str x = ms_as_str ms
    | (Err e, Err e') \<Rightarrow> e = e' | _ \<Rightarrow> False"
  proof (cases "2 + read_len data \<le> length data")
    case True
    have len: "length (take (read_len data) (drop 2 data)) = read_len data" using True by simp
    note sp = take_prefix_split [OF True]
    show ?thesis
      using sso_small [of "take (read_len data) (drop 2 data)" sso] len read_len_bound [of data]
      by (simp add: sso_decode_def ms_decode_def Let_def ms_as_bytes_def ms_as_str_def sp
          del: sso_as_bytes.simps(1) sso_as_str.simps(1) sso_len.simps(1) take_Suc length_take take_append add_2_eq_Suc)
  qed (simp add: sso_decode_def ms_decode_def Let_def)
qed

end
