(* ===== verification/Protocol_Types.thy ===== *)
theory Protocol_Types
  imports Result_Code
begin

text \<open>
  \<^verbatim>\<open>src/mqtt/packet/qos.rs\<close>, \<^verbatim>\<open>retain_handling.rs\<close>, \<^verbatim>\<open>packet_type.rs\<close>,
  \<^verbatim>\<open>src/mqtt/connection/version.rs\<close> and \<^verbatim>\<open>role.rs\<close>: the small enumerations of the protocol.
\<close>

datatype qos = AtMostOnce | AtLeastOnce | ExactlyOnce

primrec qos_u8 :: "qos \<Rightarrow> u8" where
  "qos_u8 AtMostOnce = 0"
| "qos_u8 AtLeastOnce = 1"
| "qos_u8 ExactlyOnce = 2"

definition qos_all :: "qos list" where
  "qos_all = [AtMostOnce, AtLeastOnce, ExactlyOnce]"

definition qos_try_from :: "u8 \<Rightarrow> qos option" where
  "qos_try_from = enum_try_from qos_all qos_u8"

datatype retain_handling = SendRetained | SendRetainedIfNotExists | DoNotSendRetained

primrec retain_handling_u8 :: "retain_handling \<Rightarrow> u8" where
  "retain_handling_u8 SendRetained = 0"
| "retain_handling_u8 SendRetainedIfNotExists = 1"
| "retain_handling_u8 DoNotSendRetained = 2"

definition retain_handling_all :: "retain_handling list" where
  "retain_handling_all = [SendRetained, SendRetainedIfNotExists, DoNotSendRetained]"

definition retain_handling_try_from :: "u8 \<Rightarrow> retain_handling option" where
  "retain_handling_try_from = enum_try_from retain_handling_all retain_handling_u8"

datatype packet_type =
    PT_Connect | PT_Connack | PT_Publish | PT_Puback | PT_Pubrec | PT_Pubrel | PT_Pubcomp
  | PT_Subscribe | PT_Suback | PT_Unsubscribe | PT_Unsuback | PT_Pingreq | PT_Pingresp
  | PT_Disconnect | PT_Auth

primrec packet_type_u8 :: "packet_type \<Rightarrow> u8" where
  "packet_type_u8 PT_Connect = 1"
| "packet_type_u8 PT_Connack = 2"
| "packet_type_u8 PT_Publish = 3"
| "packet_type_u8 PT_Puback = 4"
| "packet_type_u8 PT_Pubrec = 5"
| "packet_type_u8 PT_Pubrel = 6"
| "packet_type_u8 PT_Pubcomp = 7"
| "packet_type_u8 PT_Subscribe = 8"
| "packet_type_u8 PT_Suback = 9"
| "packet_type_u8 PT_Unsubscribe = 10"
| "packet_type_u8 PT_Unsuback = 11"
| "packet_type_u8 PT_Pingreq = 12"
| "packet_type_u8 PT_Pingresp = 13"
| "packet_type_u8 PT_Disconnect = 14"
| "packet_type_u8 PT_Auth = 15"

definition packet_type_all :: "packet_type list" where
  "packet_type_all = [PT_Connect, PT_Connack, PT_Publish, PT_Puback, PT_Pubrec, PT_Pubrel, PT_Pubcomp,
     PT_Subscribe, PT_Suback, PT_Unsubscribe, PT_Unsuback, PT_Pingreq, PT_Pingresp, PT_Disconnect, PT_Auth]"

definition packet_type_try_from :: "u8 \<Rightarrow> packet_type option" where
  "packet_type_try_from = enum_try_from packet_type_all packet_type_u8"

datatype fixed_header =
    FH_Connect | FH_Connack | FH_Publish | FH_Puback | FH_Pubrec | FH_Pubrel | FH_Pubcomp
  | FH_Subscribe | FH_Suback | FH_Unsubscribe | FH_Unsuback | FH_Pingreq | FH_Pingresp
  | FH_Disconnect | FH_Auth

primrec fixed_header_as_u8 :: "fixed_header \<Rightarrow> u8" where
  "fixed_header_as_u8 FH_Connect = 0x10"
| "fixed_header_as_u8 FH_Connack = 0x20"
| "fixed_header_as_u8 FH_Publish = 0x30"
| "fixed_header_as_u8 FH_Puback = 0x40"
| "fixed_header_as_u8 FH_Pubrec = 0x50"
| "fixed_header_as_u8 FH_Pubrel = 0x62"
| "fixed_header_as_u8 FH_Pubcomp = 0x70"
| "fixed_header_as_u8 FH_Subscribe = 0x82"
| "fixed_header_as_u8 FH_Suback = 0x90"
| "fixed_header_as_u8 FH_Unsubscribe = 0xa2"
| "fixed_header_as_u8 FH_Unsuback = 0xb0"
| "fixed_header_as_u8 FH_Pingreq = 0xc0"
| "fixed_header_as_u8 FH_Pingresp = 0xd0"
| "fixed_header_as_u8 FH_Disconnect = 0xe0"
| "fixed_header_as_u8 FH_Auth = 0xf0"

primrec to_fixed_header :: "packet_type \<Rightarrow> fixed_header" where
  "to_fixed_header PT_Connect = FH_Connect"
| "to_fixed_header PT_Connack = FH_Connack"
| "to_fixed_header PT_Publish = FH_Publish"
| "to_fixed_header PT_Puback = FH_Puback"
| "to_fixed_header PT_Pubrec = FH_Pubrec"
| "to_fixed_header PT_Pubrel = FH_Pubrel"
| "to_fixed_header PT_Pubcomp = FH_Pubcomp"
| "to_fixed_header PT_Subscribe = FH_Subscribe"
| "to_fixed_header PT_Suback = FH_Suback"
| "to_fixed_header PT_Unsubscribe = FH_Unsubscribe"
| "to_fixed_header PT_Unsuback = FH_Unsuback"
| "to_fixed_header PT_Pingreq = FH_Pingreq"
| "to_fixed_header PT_Pingresp = FH_Pingresp"
| "to_fixed_header PT_Disconnect = FH_Disconnect"
| "to_fixed_header PT_Auth = FH_Auth"

text \<open>\<open>FixedHeader::packet_type\<close>: the high nibble, with \<open>Connect\<close> as fallback.\<close>

definition fixed_header_packet_type :: "fixed_header \<Rightarrow> packet_type" where
  "fixed_header_packet_type fh =
     (case packet_type_try_from (drop_bit 4 (fixed_header_as_u8 fh)) of Some t \<Rightarrow> t | None \<Rightarrow> PT_Connect)"

datatype version = Undetermined | V3_1_1 | V5_0

text \<open>The role type parameter of a connection: \<open>IS_CLIENT\<close>, \<open>IS_SERVER\<close>, \<open>IS_ANY\<close>.\<close>

datatype role = Client | Server | Any

interpretation qos: wire_enum qos_all qos_u8
proof
  show "e \<in> set qos_all" for e by (cases e) (simp_all add: qos_all_def)
qed (simp add: qos_all_def)

interpretation retain_handling: wire_enum retain_handling_all retain_handling_u8
proof
  show "e \<in> set retain_handling_all" for e by (cases e) (simp_all add: retain_handling_all_def)
qed (simp add: retain_handling_all_def)

interpretation packet_type: wire_enum packet_type_all packet_type_u8
proof
  show "e \<in> set packet_type_all" for e by (cases e) (simp_all add: packet_type_all_def)
qed (simp add: packet_type_all_def)

lemma fixed_header_roundtrip: "fixed_header_packet_type (to_fixed_header t) = t"
  by (cases t) (simp_all add: fixed_header_packet_type_def packet_type_try_from_def enum_try_from_def
      packet_type_all_def drop_bit_eq_div)

end
