(* ===== verification/Packets_V311.thy ===== *)
theory Packets_V311
  imports Packet_Builder Packet_Id Mqtt_String Protocol_Types
begin

text \<open>
  \<^verbatim>\<open>src/mqtt/packet/v3_1_1/*.rs\<close> and \<^verbatim>\<open>src/mqtt/packet/sub_entry.rs\<close>: the packets of MQTT
  v3.1.1, their parsers and their encodings.  An identifier buffer of the source is kept as
  the identifier it holds.  The locale \<open>packet_codec\<close> is the contract of a packet type; its
  client lemma runs the encoding through the packet builder and back through the parser.
\<close>

section \<open>The contract of a packet type\<close>

type_synonym 'k parser = "u8 \<Rightarrow> bytes \<Rightarrow> ('k \<times> nat, mqtt_error) result rust"

text \<open>\<open>VariableByteInteger::from_u32(n as u32).unwrap()\<close>.\<close>

definition vbi_of :: "nat \<Rightarrow> variable_byte_integer rust" where
  "vbi_of n = unwrap (from_u32 (of_nat n))"

lemma vbi_of_Ret: "n < 268435456 \<Longrightarrow> vbi_of n = Ret \<lparr>encoded = vbi_enc n\<rparr>"
  by (simp add: vbi_of_def from_u32_of_nat)

text \<open>\<open>1 + remaining_length.size() + remaining_length.to_u32() as usize\<close>.\<close>

definition packet_size_of :: "variable_byte_integer \<Rightarrow> nat" where
  "packet_size_of rl = 1 + vbi_size rl + unat (to_u32 rl)"

lemma mk_raw_simps [simp]:
  "rp_fixed_header (mk_raw h b) = h" "data_as_slice (rp_data (mk_raw h b)) = b" "rp_flags (mk_raw h b) = h AND 0x0F"
  "rp_packet_type (mk_raw h b) = drop_bit 4 h"
  by (simp_all add: mk_raw_def rp_flags_def rp_packet_type_def)

locale packet_wire =
  fixes inv :: "'k \<Rightarrow> bool" and hdr :: "'k \<Rightarrow> u8" and body :: "'k \<Rightarrow> bytes"
    and buf :: "'k \<Rightarrow> bytes" and size :: "'k \<Rightarrow> nat" and parse :: "'k parser"
  assumes buf_eq: "inv k \<Longrightarrow> buf k = hdr k # vbi_enc (length (body k)) @ body k"
    and body_len: "inv k \<Longrightarrow> length (body k) < 268435456"
    and size_eq: "inv k \<Longrightarrow> size k = length (buf k)"
    and parse_body: "inv k \<Longrightarrow> parse (hdr k AND 0x0F) (body k) = Ret (Ok (k, length (body k)))"
    and parse_returns: "length bs < 268435456 \<Longrightarrow> \<exists>r. parse flags bs = Ret r"
begin

text \<open>What is sent is received: through the builder and the parser, ahead of any other bytes.\<close>

lemma wire_framed:
  assumes "inv k" and "length (body k) < 2097152"
  shows "feed pb_new (cursor_new (buf k @ rest)) =
      Ret (Complete (mk_raw (hdr k) (body k)), pb_new, \<lparr>inner = buf k @ rest, pos = length (buf k)\<rparr>)"
    and "parse (rp_flags (mk_raw (hdr k) (body k))) (body k) = Ret (Ok (k, length (body k)))"
  using feed_outcome_correct [of "[]" "cursor_new (buf k @ rest)"] frame_enc [OF assms(2) refl, of "hdr k" rest]
    parse_body [OF assms(1)]
  by (simp_all add: cursor_new_def feed_outcome_def buf_eq [OF assms(1)])

lemma wire_roundtrip:
  assumes "inv k" and "length (body k) < 2097152"
  shows "\<exists>raw. feed pb_new (cursor_new (buf k @ rest)) =
      Ret (Complete raw, pb_new, \<lparr>inner = buf k @ rest, pos = length (buf k)\<rparr>)
    \<and> rp_fixed_header raw = hdr k \<and> data_as_slice (rp_data raw) = body k
    \<and> parse (rp_flags raw) (data_as_slice (rp_data raw)) = Ret (Ok (k, length (body k)))"
  using wire_framed [OF assms] by (intro exI [of _ "mk_raw (hdr k) (body k)"]) simp

text \<open>Distinct packets have distinct encodings.\<close>

lemma buf_inj:
  assumes "inv k" and "inv k'" and "buf k = buf k'"
  shows "k = k'"
proof -
  have eq: "hdr k # vbi_enc (length (body k)) @ body k = hdr k' # vbi_enc (length (body k')) @ body k'"
    unfolding buf_eq [OF assms(1), symmetric] buf_eq [OF assms(2), symmetric] by (rule assms(3))
  then have h: "hdr k = hdr k'" and v: "vbi_enc (length (body k)) @ body k = vbi_enc (length (body k')) @ body k'"
    by (simp_all only: list.inject)
  note d = decode_stream_enc [OF body_len [OF assms(1)], of "body k"]
    decode_stream_enc [OF body_len [OF assms(2)], of "body k'"]
  have "vbi_enc (length (body k)) = vbi_enc (length (body k'))"
    using trans [OF d(1) [unfolded v, symmetric] d(2)] by (simp only: decode_result.inject variable_byte_integer.ext_inject)
  then have b: "body k = body k'" using v by (simp only: same_append_eq)
  show ?thesis
    using trans [OF parse_body [OF assms(1), unfolded h b, symmetric] parse_body [OF assms(2)]]
    by (simp only: rust.inject result.inject prod.inject)
qed

end

text \<open>
  A parser that does not panic on some input, gives packets with a property only, and does not count more bytes than there are.
\<close>

definition parses_safely :: "'k parser \<Rightarrow> ('k \<Rightarrow> bool) \<Rightarrow> u8 \<Rightarrow> bytes \<Rightarrow> bool" where
  "parses_safely parse ok flags bs \<longleftrightarrow>
     (\<exists>r. parse flags bs = Ret r \<and> (\<forall>k n. r = Ok (k, n) \<longrightarrow> ok k \<and> n \<le> length bs))"

text \<open>A packet type whose parser gives well-formed packets only.\<close>

locale packet_codec = packet_wire +
  assumes parse_inv: "length bs < 268435456 \<Longrightarrow> parse flags bs = Ret (Ok (k, n)) \<Longrightarrow> inv k \<and> n \<le> length bs"
begin

lemma parse_safe: "length bs < 268435456 \<Longrightarrow> parses_safely parse inv flags bs"
  using parse_returns parse_inv by (fastforce simp: parses_safely_def)

text \<open>Whatever is accepted can be sent again and is then read as the same packet.\<close>

lemma parse_resend:
  assumes "length bs < 268435456" and "parse flags bs = Ret (Ok (k, n))"
  shows "parse (hdr k AND 0x0F) (body k) = Ret (Ok (k, length (body k)))"
  using parse_body parse_inv [OF assms] by blast

end

section \<open>Packets without a body\<close>

record v3_empty =
  v3e_fixed_header :: u8
  v3e_remaining_length :: variable_byte_integer

definition v3_empty_new :: "fixed_header \<Rightarrow> v3_empty rust" where
  "v3_empty_new fh = rbind (vbi_of 0) (\<lambda>rl.
     Ret \<lparr>v3e_fixed_header = fixed_header_as_u8 fh, v3e_remaining_length = rl\<rparr>)"

definition v3_empty_parse :: "fixed_header \<Rightarrow> v3_empty parser" where
  "v3_empty_parse fh flags data = rbind (v3_empty_new fh) (\<lambda>k. Ret (Ok (k, 0)))"

definition v3_pingreq_new :: "v3_empty rust" where "v3_pingreq_new = v3_empty_new FH_Pingreq"
definition v3_pingresp_new :: "v3_empty rust" where "v3_pingresp_new = v3_empty_new FH_Pingresp"
definition v3_disconnect_new :: "v3_empty rust" where "v3_disconnect_new = v3_empty_new FH_Disconnect"
definition v3_pingreq_parse :: "v3_empty parser" where "v3_pingreq_parse = v3_empty_parse FH_Pingreq"
definition v3_pingresp_parse :: "v3_empty parser" where "v3_pingresp_parse = v3_empty_parse FH_Pingresp"
definition v3_disconnect_parse :: "v3_empty parser" where "v3_disconnect_parse = v3_empty_parse FH_Disconnect"

definition v3_empty_size :: "v3_empty \<Rightarrow> nat" where
  "v3_empty_size k = packet_size_of (v3e_remaining_length k)"

definition v3_empty_to_continuous_buffer :: "v3_empty \<Rightarrow> bytes" where
  "v3_empty_to_continuous_buffer k = v3e_fixed_header k # encoded (v3e_remaining_length k)"

definition v3_empty_inv :: "fixed_header \<Rightarrow> v3_empty \<Rightarrow> bool" where
  "v3_empty_inv fh k \<longleftrightarrow> v3e_fixed_header k = fixed_header_as_u8 fh \<and> v3e_remaining_length k = \<lparr>encoded = vbi_enc 0\<rparr>"

lemma packet_size_of_enc: "n < 268435456 \<Longrightarrow> packet_size_of \<lparr>encoded = vbi_enc n\<rparr> = 1 + length (vbi_enc n) + n"
  by (simp add: packet_size_of_def vbi_size_def to_u32_enc)

interpretation v3_pingreq: packet_codec "v3_empty_inv FH_Pingreq" v3e_fixed_header "\<lambda>_. []"
    v3_empty_to_continuous_buffer v3_empty_size v3_pingreq_parse
  by unfold_locales (auto simp: v3_empty_inv_def v3_empty_to_continuous_buffer_def v3_empty_size_def
      packet_size_of_enc v3_pingreq_parse_def v3_empty_parse_def v3_empty_new_def vbi_of_Ret)

interpretation v3_pingresp: packet_codec "v3_empty_inv FH_Pingresp" v3e_fixed_header "\<lambda>_. []"
    v3_empty_to_continuous_buffer v3_empty_size v3_pingresp_parse
  by unfold_locales (auto simp: v3_empty_inv_def v3_empty_to_continuous_buffer_def v3_empty_size_def
      packet_size_of_enc v3_pingresp_parse_def v3_empty_parse_def v3_empty_new_def vbi_of_Ret)

interpretation v3_disconnect: packet_codec "v3_empty_inv FH_Disconnect" v3e_fixed_header "\<lambda>_. []"
    v3_empty_to_continuous_buffer v3_empty_size v3_disconnect_parse
  by unfold_locales (auto simp: v3_empty_inv_def v3_empty_to_continuous_buffer_def v3_empty_size_def
      packet_size_of_enc v3_disconnect_parse_def v3_empty_parse_def v3_empty_new_def vbi_of_Ret)

section \<open>PUBACK, PUBREC, PUBREL, PUBCOMP\<close>

text \<open>
  The four acknowledgements have the same code up to the fixed header and the reason codes
  they accept; \<open>'t\<close> is the type of packet identifiers.
\<close>

record 't v3_ack =
  v3a_fixed_header :: u8
  v3a_remaining_length :: variable_byte_integer
  v3a_packet_id_buf :: 't
  v3a_reason_code_buf :: "u8 option"

definition v3_ack_parse :: "fixed_header \<Rightarrow> (u8 \<Rightarrow> bool) \<Rightarrow> 'p::len word v3_ack parser" where
  "v3_ack_parse fh reason_ok flags data =
     (let buffer_size = pid_size TYPE('p) in
      if length data < buffer_size then Ret (Err MalformedPacket)
      else rbind (subslice data 0 buffer_size) (\<lambda>id_bytes.
        if list_all (\<lambda>b. b = 0) id_bytes then Ret (Err MalformedPacket)
        else rbind (subslice data 0 buffer_size) (\<lambda>buf. let packet_id_buf = from_buffer buf; cursor = buffer_size in
        tbind (if cursor < length data then rbind (idx data cursor) (\<lambda>rc.
                 if reason_ok rc then Ret (Ok (Some rc, cursor + 1)) else Ret (Err MalformedPacket))
               else Ret (Ok (None, cursor))) (\<lambda>(reason_code_buf, cursor).
        let remaining_size = buffer_size + (case reason_code_buf of None \<Rightarrow> 0 | Some _ \<Rightarrow> 1) in
        rbind (vbi_of remaining_size) (\<lambda>rl.
          Ret (Ok (\<lparr>v3a_fixed_header = fixed_header_as_u8 fh, v3a_remaining_length = rl,
                    v3a_packet_id_buf = packet_id_buf, v3a_reason_code_buf = reason_code_buf\<rparr>, cursor)))))))"

lemma v3_ack_parse_eq:
  "(v3_ack_parse fh reason_ok flags data :: ('p::len word v3_ack \<times> nat, mqtt_error) result rust) =
     (let buffer_size = pid_size TYPE('p) in
      if length data < buffer_size then Ret (Err MalformedPacket)
      else if list_all (\<lambda>b. b = 0) (take buffer_size data) then Ret (Err MalformedPacket)
      else let packet_id_buf = from_buffer (take buffer_size data); cursor = buffer_size in
        tbind (if cursor < length data then
                 let rc = data ! cursor in
                 if reason_ok rc then Ret (Ok (Some rc, cursor + 1)) else Ret (Err MalformedPacket)
               else Ret (Ok (None, cursor))) (\<lambda>(reason_code_buf, cursor).
        let remaining_size = buffer_size + (case reason_code_buf of None \<Rightarrow> 0 | Some _ \<Rightarrow> 1) in
        rbind (vbi_of remaining_size) (\<lambda>rl.
          Ret (Ok (\<lparr>v3a_fixed_header = fixed_header_as_u8 fh, v3a_remaining_length = rl,
                    v3a_packet_id_buf = packet_id_buf, v3a_reason_code_buf = reason_code_buf\<rparr>, cursor)))))"
  by (simp add: v3_ack_parse_def Let_def cong: if_cong)

definition v3_puback_parse :: "'p::len word v3_ack parser" where
  "v3_puback_parse = v3_ack_parse FH_Puback (\<lambda>b. puback_reason_code_try_from b \<noteq> None)"

definition v3_pubrec_parse :: "'p::len word v3_ack parser" where
  "v3_pubrec_parse = v3_ack_parse FH_Pubrec (\<lambda>b. pubrec_reason_code_try_from b \<noteq> None)"

definition v3_pubrel_parse :: "'p::len word v3_ack parser" where
  "v3_pubrel_parse = v3_ack_parse FH_Pubrel (\<lambda>b. pubrel_reason_code_try_from b \<noteq> None)"

definition v3_pubcomp_parse :: "'p::len word v3_ack parser" where
  "v3_pubcomp_parse = v3_ack_parse FH_Pubcomp (\<lambda>b. pubcomp_reason_code_try_from b \<noteq> None)"

definition v3_ack_size :: "'p::len word v3_ack \<Rightarrow> nat" where
  "v3_ack_size k = packet_size_of (v3a_remaining_length k)"

definition v3_ack_to_continuous_buffer :: "'p::len word v3_ack \<Rightarrow> bytes" where
  "v3_ack_to_continuous_buffer k =
     v3a_fixed_header k # encoded (v3a_remaining_length k) @ to_buffer (v3a_packet_id_buf k)
       @ (case v3a_reason_code_buf k of None \<Rightarrow> [] | Some b \<Rightarrow> [b])"

text \<open>The builders: \<open>None\<close> is a field that was not set.\<close>

record 't v3_ack_builder =
  v3ab_packet_id_buf :: "'t option"
  v3ab_reason_code_buf :: "u8 option option"

definition v3_ack_validate :: "'p::len word v3_ack_builder \<Rightarrow> (unit, mqtt_error) result" where
  "v3_ack_validate b =
     (case v3ab_packet_id_buf b of
        None \<Rightarrow> Err MalformedPacket
      | Some pid \<Rightarrow> if list_all (\<lambda>x. x = 0) (to_buffer pid) then Err MalformedPacket else Ok ())"

definition v3_ack_build :: "fixed_header \<Rightarrow> 'p::len word v3_ack_builder \<Rightarrow> ('p word v3_ack, mqtt_error) result rust" where
  "v3_ack_build fh b =
     tbind (Ret (v3_ack_validate b)) (\<lambda>_.
     rbind (unwrap (v3ab_packet_id_buf b)) (\<lambda>pid.
     let reason_code_buf = (case v3ab_reason_code_buf b of None \<Rightarrow> None | Some x \<Rightarrow> x);
         remaining = pid_size TYPE('p) + (if reason_code_buf \<noteq> None then 1 else 0) in
     rbind (vbi_of remaining) (\<lambda>rl.
       Ret (Ok \<lparr>v3a_fixed_header = fixed_header_as_u8 fh, v3a_remaining_length = rl,
                v3a_packet_id_buf = pid, v3a_reason_code_buf = reason_code_buf\<rparr>))))"

definition v3_puback_build :: "'p::len word v3_ack_builder \<Rightarrow> ('p word v3_ack, mqtt_error) result rust" where
  "v3_puback_build = v3_ack_build FH_Puback"

definition v3_pubrec_build :: "'p::len word v3_ack_builder \<Rightarrow> ('p word v3_ack, mqtt_error) result rust" where
  "v3_pubrec_build = v3_ack_build FH_Pubrec"

definition v3_pubrel_build :: "'p::len word v3_ack_builder \<Rightarrow> ('p word v3_ack, mqtt_error) result rust" where
  "v3_pubrel_build = v3_ack_build FH_Pubrel"

definition v3_pubcomp_build :: "'p::len word v3_ack_builder \<Rightarrow> ('p word v3_ack, mqtt_error) result rust" where
  "v3_pubcomp_build = v3_ack_build FH_Pubcomp"

text \<open>\<open>builder().packet_id(id).build().unwrap()\<close>, as the connection uses it.\<close>

definition v3_ack_for :: "fixed_header \<Rightarrow> 'p::len word \<Rightarrow> 'p word v3_ack rust" where
  "v3_ack_for fh pid =
     rbind (v3_ack_build fh \<lparr>v3ab_packet_id_buf = Some pid, v3ab_reason_code_buf = None\<rparr>) unwrap_res"

definition v3_ack_body :: "'p::len word v3_ack \<Rightarrow> bytes" where
  "v3_ack_body k = to_buffer (v3a_packet_id_buf k) @ (case v3a_reason_code_buf k of None \<Rightarrow> [] | Some b \<Rightarrow> [b])"

definition v3_ack_inv :: "fixed_header \<Rightarrow> (u8 \<Rightarrow> bool) \<Rightarrow> 'p::len word v3_ack \<Rightarrow> bool" where
  "v3_ack_inv fh reason_ok k \<longleftrightarrow> v3a_fixed_header k = fixed_header_as_u8 fh \<and> v3a_packet_id_buf k \<noteq> 0
     \<and> (case v3a_reason_code_buf k of None \<Rightarrow> True | Some b \<Rightarrow> reason_ok b)
     \<and> v3a_remaining_length k = \<lparr>encoded = vbi_enc (length (v3_ack_body k))\<rparr>"

lemma to_buffer_zeros:
  "packet_id_width TYPE('p::len) \<Longrightarrow> list_all (\<lambda>b. b = 0) (to_buffer (pid :: 'p word)) \<longleftrightarrow> pid = 0"
  using from_be_bytes_eq_0_iff [where 'a = 'p, of "to_buffer pid"] from_to_buffer [of pid "[]"]
  by (simp add: packet_id_width_dvd pid_size_def from_buffer_def)

lemma from_buffer_zeros:
  "packet_id_width TYPE('p::len) \<Longrightarrow> length buf = pid_size TYPE('p) \<Longrightarrow>
   (from_buffer buf :: 'p word) = 0 \<longleftrightarrow> list_all (\<lambda>b. b = 0) buf"
  using to_buffer_zeros [of "from_buffer buf :: 'p word"] to_from_buffer [where 'p = 'p, of buf] by simp

lemma pid_size_le: "packet_id_width TYPE('p::len) \<Longrightarrow> pid_size TYPE('p) \<le> 4"
  by (auto simp: packet_id_width_def pid_size_def)

lemma v3_ack_codec:
  assumes w: "packet_id_width TYPE('p::len)"
  shows "packet_codec (v3_ack_inv fh ok) v3a_fixed_header v3_ack_body v3_ack_to_continuous_buffer v3_ack_size
    (v3_ack_parse fh ok :: 'p word v3_ack parser)"
proof (unfold_locales, goal_cases)
  case (1 k)
  then show ?case by (simp add: v3_ack_inv_def v3_ack_to_continuous_buffer_def v3_ack_body_def)
next
  case (2 k)
  show ?case using pid_size_le [OF w] by (simp add: v3_ack_body_def split: option.splits)
next
  case (3 k)
  have "length (v3_ack_body k) < 268435456" using pid_size_le [OF w] by (simp add: v3_ack_body_def split: option.splits)
  then show ?case
    using 3 by (simp add: v3_ack_inv_def v3_ack_to_continuous_buffer_def v3_ack_size_def packet_size_of_enc)
      (simp add: v3_ack_body_def)
next
  case (4 k)
  note sz = pid_size_le [OF w]
  have "\<not> list_all (\<lambda>b. b = 0) (to_buffer (v3a_packet_id_buf k))"
    using 4 to_buffer_zeros [OF w] by (simp add: v3_ack_inv_def)
  moreover have "from_buffer (to_buffer (v3a_packet_id_buf k)) = v3a_packet_id_buf k"
    using from_to_buffer [OF w, of _ "[]"] by simp
  ultimately show ?case
    using 4 sz by (cases k; cases "v3a_reason_code_buf k")
      (auto simp: v3_ack_parse_eq v3_ack_inv_def v3_ack_body_def vbi_of_Ret Let_def nth_append)
next
  case (6 bs flags k n)
  note sz = pid_size_le [OF w]
  have "length (take (pid_size TYPE('p)) bs) = pid_size TYPE('p)"
    using 6(2) by (auto simp: v3_ack_parse_eq Let_def split: if_splits)
  from from_buffer_zeros [OF w this] show ?case
    using 6 sz
    by (auto simp: v3_ack_parse_eq v3_ack_inv_def v3_ack_body_def vbi_of_Ret Let_def tbind_eq_Ok
        split: if_splits)
next
  case (5 bs flags)
  then show ?case using pid_size_le [OF w] by (auto simp: v3_ack_parse_eq vbi_of_Ret Let_def)
qed

lemma v3_ack_for_ok:
  assumes "packet_id_width TYPE('p::len)" and "(pid :: 'p word) \<noteq> 0"
  shows "v3_ack_for fh pid = Ret \<lparr>v3a_fixed_header = fixed_header_as_u8 fh,
     v3a_remaining_length = \<lparr>encoded = vbi_enc (pid_size TYPE('p))\<rparr>, v3a_packet_id_buf = pid, v3a_reason_code_buf = None\<rparr>"
  using to_buffer_zeros [OF assms(1), of pid] assms(2) pid_size_le [OF assms(1)]
  by (simp add: v3_ack_for_def v3_ack_build_def v3_ack_validate_def vbi_of_Ret)

lemma v3_ack_for_zero:
  "packet_id_width TYPE('p::len) \<Longrightarrow> v3_ack_for fh (0 :: 'p word) = Panic Unwrap_Failed"
  using to_buffer_zeros [of "0 :: 'p word"] by (simp add: v3_ack_for_def v3_ack_build_def v3_ack_validate_def)

section \<open>UNSUBACK\<close>

record 't v3_unsuback =
  v3ua_fixed_header :: u8
  v3ua_remaining_length :: variable_byte_integer
  v3ua_packet_id_buf :: 't

definition v3_unsuback_parse :: "'p::len word v3_unsuback parser" where
  "v3_unsuback_parse flags data =
     (let buffer_size = pid_size TYPE('p) in
      if length data < buffer_size then Ret (Err MalformedPacket)
      else rbind (subslice data 0 buffer_size) (\<lambda>buf.
        let packet_id = from_buffer buf; cursor = buffer_size; remaining_size = buffer_size in
        rbind (vbi_of remaining_size) (\<lambda>rl.
          Ret (Ok (\<lparr>v3ua_fixed_header = fixed_header_as_u8 FH_Unsuback, v3ua_remaining_length = rl,
                    v3ua_packet_id_buf = packet_id\<rparr>, cursor)))))"

lemma v3_unsuback_parse_eq:
  "(v3_unsuback_parse flags data :: ('p::len word v3_unsuback \<times> nat, mqtt_error) result rust) =
     (let buffer_size = pid_size TYPE('p) in
      if length data < buffer_size then Ret (Err MalformedPacket)
      else let packet_id = from_buffer (take buffer_size data); cursor = buffer_size; remaining_size = buffer_size in
        rbind (vbi_of remaining_size) (\<lambda>rl.
          Ret (Ok (\<lparr>v3ua_fixed_header = fixed_header_as_u8 FH_Unsuback, v3ua_remaining_length = rl,
                    v3ua_packet_id_buf = packet_id\<rparr>, cursor))))"
  by (simp add: v3_unsuback_parse_def Let_def)

definition v3_unsuback_size :: "'p::len word v3_unsuback \<Rightarrow> nat" where
  "v3_unsuback_size k = packet_size_of (v3ua_remaining_length k)"

definition v3_unsuback_to_continuous_buffer :: "'p::len word v3_unsuback \<Rightarrow> bytes" where
  "v3_unsuback_to_continuous_buffer k =
     v3ua_fixed_header k # encoded (v3ua_remaining_length k) @ to_buffer (v3ua_packet_id_buf k)"

definition v3_unsuback_validate :: "'p::len word option \<Rightarrow> (unit, mqtt_error) result" where
  "v3_unsuback_validate b =
     (case b of
        None \<Rightarrow> Err MalformedPacket
      | Some pid \<Rightarrow> if list_all (\<lambda>x. x = 0) (to_buffer pid) then Err MalformedPacket else Ok ())"

text \<open>The builder writes the remaining length 2 whatever the width of the identifier.\<close>

definition v3_unsuback_build :: "'p::len word option \<Rightarrow> ('p word v3_unsuback, mqtt_error) result rust" where
  "v3_unsuback_build packet_id_buf =
     tbind (Ret (v3_unsuback_validate packet_id_buf)) (\<lambda>_.
     rbind (unwrap packet_id_buf) (\<lambda>pid.
     rbind (vbi_of 2) (\<lambda>rl.
       Ret (Ok \<lparr>v3ua_fixed_header = fixed_header_as_u8 FH_Unsuback, v3ua_remaining_length = rl,
                v3ua_packet_id_buf = pid\<rparr>))))"

definition v3_unsuback_inv :: "'p::len word v3_unsuback \<Rightarrow> bool" where
  "v3_unsuback_inv k \<longleftrightarrow> v3ua_fixed_header k = fixed_header_as_u8 FH_Unsuback
     \<and> v3ua_remaining_length k = \<lparr>encoded = vbi_enc (pid_size TYPE('p))\<rparr>"

lemma v3_unsuback_codec:
  assumes w: "packet_id_width TYPE('p::len)"
  shows "packet_codec v3_unsuback_inv v3ua_fixed_header (\<lambda>k. to_buffer (v3ua_packet_id_buf k))
    v3_unsuback_to_continuous_buffer v3_unsuback_size (v3_unsuback_parse :: 'p word v3_unsuback parser)"
  using pid_size_le [OF w] from_to_buffer [OF w, of _ "[]"]
  by unfold_locales
    (auto simp: v3_unsuback_inv_def v3_unsuback_to_continuous_buffer_def v3_unsuback_size_def
      packet_size_of_enc v3_unsuback_parse_eq vbi_of_Ret Let_def split: if_splits)

section \<open>CONNACK\<close>

record v3_connack =
  v3ca_fixed_header :: u8
  v3ca_remaining_length :: variable_byte_integer
  v3ca_ack_flags :: u8
  v3ca_return_code_buf :: u8

record v3_connack_builder =
  v3cab_ack_flags :: "u8 option"
  v3cab_return_code_buf :: "u8 option"

definition v3_connack_build :: "v3_connack_builder \<Rightarrow> (v3_connack, mqtt_error) result rust" where
  "v3_connack_build b =
     (if v3cab_ack_flags b = None then Ret (Err MalformedPacket)
      else if v3cab_return_code_buf b = None then Ret (Err MalformedPacket)
      else
        let ack_flags = (case v3cab_ack_flags b of Some x \<Rightarrow> x | None \<Rightarrow> 0);
            return_code = (case v3cab_return_code_buf b of Some x \<Rightarrow> x | None \<Rightarrow> connect_return_code_u8 ConnRet_Accepted) in
        rbind (vbi_of 2) (\<lambda>rl.
          Ret (Ok \<lparr>v3ca_fixed_header = fixed_header_as_u8 FH_Connack, v3ca_remaining_length = rl,
                   v3ca_ack_flags = ack_flags, v3ca_return_code_buf = return_code\<rparr>)))"

definition v3_connack_parse :: "v3_connack parser" where
  "v3_connack_parse flags data =
     (if length data < 2 then Ret (Err MalformedPacket)
      else rbind (idx data 0) (\<lambda>ack.
        let session_present = (ack AND 0x01 \<noteq> 0) in
        rbind (idx data 1) (\<lambda>code.
        tbind (Ret (ok_or (connect_return_code_try_from code) MalformedPacket)) (\<lambda>return_code.
        tbind (v3_connack_build \<lparr>v3cab_ack_flags = Some (if session_present then 1 else 0),
                                v3cab_return_code_buf = Some (connect_return_code_u8 return_code)\<rparr>) (\<lambda>connack.
          Ret (Ok (connack, 2)))))))"

lemma v3_connack_parse_eq:
  "v3_connack_parse flags data =
     (if length data < 2 then Ret (Err MalformedPacket)
      else
        let session_present = (data ! 0 AND 0x01 \<noteq> 0) in
        tbind (Ret (ok_or (connect_return_code_try_from (data ! 1)) MalformedPacket)) (\<lambda>return_code.
        tbind (v3_connack_build \<lparr>v3cab_ack_flags = Some (if session_present then 1 else 0),
                                v3cab_return_code_buf = Some (connect_return_code_u8 return_code)\<rparr>) (\<lambda>connack.
          Ret (Ok (connack, 2)))))"
  by (simp add: v3_connack_parse_def Let_def)

text \<open>\<open>ConnectReturnCode::try_from(..).unwrap()\<close>.\<close>

definition v3_connack_return_code :: "v3_connack \<Rightarrow> connect_return_code rust" where
  "v3_connack_return_code k = unwrap (connect_return_code_try_from (v3ca_return_code_buf k))"

definition v3_connack_session_present :: "v3_connack \<Rightarrow> bool" where
  "v3_connack_session_present k \<longleftrightarrow> v3ca_ack_flags k AND 0x01 \<noteq> 0"

definition v3_connack_size :: "v3_connack \<Rightarrow> nat" where
  "v3_connack_size k = packet_size_of (v3ca_remaining_length k)"

definition v3_connack_to_continuous_buffer :: "v3_connack \<Rightarrow> bytes" where
  "v3_connack_to_continuous_buffer k =
     v3ca_fixed_header k # encoded (v3ca_remaining_length k) @ [v3ca_ack_flags k, v3ca_return_code_buf k]"

definition v3_connack_inv :: "v3_connack \<Rightarrow> bool" where
  "v3_connack_inv k \<longleftrightarrow> v3ca_fixed_header k = fixed_header_as_u8 FH_Connack
     \<and> v3ca_remaining_length k = \<lparr>encoded = vbi_enc 2\<rparr> \<and> v3ca_ack_flags k \<in> {0, 1}
     \<and> connect_return_code_try_from (v3ca_return_code_buf k) \<noteq> None"

interpretation v3_connack: packet_codec v3_connack_inv v3ca_fixed_header "\<lambda>k. [v3ca_ack_flags k, v3ca_return_code_buf k]"
    v3_connack_to_continuous_buffer v3_connack_size v3_connack_parse
proof (unfold_locales, goal_cases)
  case (4 k)
  then show ?case
    by (cases k) (auto simp: v3_connack_inv_def v3_connack_parse_eq v3_connack_build_def vbi_of_Ret
        connect_return_code_try_from_def connect_return_code.try_from_iff)
next
  case (6 bs flags k n)
  then show ?case
    by (auto simp: v3_connack_inv_def v3_connack_parse_eq v3_connack_build_def vbi_of_Ret tbind_eq_Ok
        ok_or_eq_Ok connect_return_code_try_from_def split: if_splits)
next
  case (5 bs flags)
  then show ?case
    by (auto simp: v3_connack_parse_eq v3_connack_build_def vbi_of_Ret
        intro!: tbind_not_Panic)
qed (auto simp: v3_connack_inv_def v3_connack_to_continuous_buffer_def v3_connack_size_def packet_size_of_enc numeral_2_eq_2)

section \<open>PUBLISH\<close>

record 't v3_publish =
  v3p_fixed_header :: u8
  v3p_remaining_length :: variable_byte_integer
  v3p_topic_name_buf :: mqtt_string
  v3p_packet_id_buf :: "'t option"
  v3p_payload_buf :: bytes

definition qos_bits :: "u8 \<Rightarrow> u8" where
  "qos_bits b = drop_bit 1 b AND 0x03"

definition qos_of_bits :: "u8 \<Rightarrow> qos rust" where
  "qos_of_bits v = (if v = 0 then Ret AtMostOnce else if v = 1 then Ret AtLeastOnce
     else if v = 2 then Ret ExactlyOnce else Panic Unreachable_Code)"

definition v3_publish_qos :: "'p::len word v3_publish \<Rightarrow> qos rust" where
  "v3_publish_qos k = qos_of_bits (qos_bits (v3p_fixed_header k))"

definition v3_publish_dup :: "'p::len word v3_publish \<Rightarrow> bool" where
  "v3_publish_dup k \<longleftrightarrow> v3p_fixed_header k AND 0x08 \<noteq> 0"

definition v3_publish_retain :: "'p::len word v3_publish \<Rightarrow> bool" where
  "v3_publish_retain k \<longleftrightarrow> v3p_fixed_header k AND 0x01 \<noteq> 0"

definition v3_publish_set_dup :: "'p::len word v3_publish \<Rightarrow> bool \<Rightarrow> 'p word v3_publish" where
  "v3_publish_set_dup k dup =
     (if dup then k\<lparr>v3p_fixed_header := v3p_fixed_header k OR 0x08\<rparr>
      else k\<lparr>v3p_fixed_header := v3p_fixed_header k AND NOT 0x08\<rparr>)"

definition v3_publish_topic_name :: "'p::len word v3_publish \<Rightarrow> str" where
  "v3_publish_topic_name k = ms_as_str (v3p_topic_name_buf k)"

definition v3_publish_size :: "'p::len word v3_publish \<Rightarrow> nat" where
  "v3_publish_size k = packet_size_of (v3p_remaining_length k)"

definition pid_bytes :: "'p::len word option \<Rightarrow> bytes" where
  "pid_bytes p = (case p of None \<Rightarrow> [] | Some pid \<Rightarrow> to_buffer pid)"

definition v3_publish_to_continuous_buffer :: "'p::len word v3_publish \<Rightarrow> bytes" where
  "v3_publish_to_continuous_buffer k =
     v3p_fixed_header k # encoded (v3p_remaining_length k) @ ms_to_continuous_buffer (v3p_topic_name_buf k)
       @ pid_bytes (v3p_packet_id_buf k) @ v3p_payload_buf k"

definition v3_publish_parse :: "'p::len word v3_publish parser" where
  "v3_publish_parse flags data =
     (let fixed_header_byte = fixed_header_as_u8 FH_Publish OR (flags AND 0x0F);
          qos_value = qos_bits flags in
      if qos_value = 3 then Ret (Err MalformedPacket)
      else rbind (slice_from data 0) (\<lambda>rest. tbind (rs_ms_decode rest) (\<lambda>(topic_name, cursor).
        rbind (qos_of_bits qos_value) (\<lambda>qos.
        let buffer_size = pid_size TYPE('p) in
        tbind (if qos \<noteq> AtMostOnce then
                 if length data < cursor + buffer_size then Ret (Err MalformedPacket)
                 else rbind (subslice data cursor (cursor + buffer_size)) (\<lambda>buf.
                   Ret (Ok (Some (from_buffer buf), cursor + buffer_size)))
               else Ret (Ok (None, cursor))) (\<lambda>(packet_id_buf, cursor).
        rbind (usize_sub (length data) cursor) (\<lambda>payload_len.
        rbind (if payload_len > 0 then subslice data cursor (cursor + payload_len) else Ret []) (\<lambda>payload.
        let remaining_size = ms_size topic_name + (case packet_id_buf of None \<Rightarrow> 0 | Some _ \<Rightarrow> buffer_size) + payload_len in
        rbind (vbi_of remaining_size) (\<lambda>rl.
          Ret (Ok (\<lparr>v3p_fixed_header = fixed_header_byte, v3p_remaining_length = rl,
                    v3p_topic_name_buf = topic_name, v3p_packet_id_buf = packet_id_buf,
                    v3p_payload_buf = payload\<rparr>, length data))))))))))"

lemma v3_publish_parse_eq:
  "(v3_publish_parse flags data :: ('p::len word v3_publish \<times> nat, mqtt_error) result rust) =
     (let fixed_header_byte = fixed_header_as_u8 FH_Publish OR (flags AND 0x0F);
          qos_value = qos_bits flags in
      if qos_value = 3 then Ret (Err MalformedPacket)
      else tbind (Ret (ms_decode data)) (\<lambda>(topic_name, cursor).
        rbind (qos_of_bits qos_value) (\<lambda>qos.
        let buffer_size = pid_size TYPE('p) in
        tbind (if qos \<noteq> AtMostOnce then
                 if length data < cursor + buffer_size then Ret (Err MalformedPacket)
                 else Ret (Ok (Some (from_buffer (take buffer_size (drop cursor data))), cursor + buffer_size))
               else Ret (Ok (None, cursor))) (\<lambda>(packet_id_buf, cursor).
        let payload_len = length data - cursor;
            payload = (if payload_len > 0 then drop cursor data else []);
            remaining_size = ms_size topic_name + (case packet_id_buf of None \<Rightarrow> 0 | Some _ \<Rightarrow> buffer_size) + payload_len in
        rbind (vbi_of remaining_size) (\<lambda>rl.
          Ret (Ok (\<lparr>v3p_fixed_header = fixed_header_byte, v3p_remaining_length = rl,
                    v3p_topic_name_buf = topic_name, v3p_packet_id_buf = packet_id_buf,
                    v3p_payload_buf = payload\<rparr>, length data)))))))"
proof (cases "ms_decode data")
  case (Ok p)
  obtain topic cursor where p: "p = (topic, cursor)" by force
  have c: "cursor \<le> length data" using ms_codec.dec_bounds [of data topic cursor] Ok p by simp
  note d = v3_publish_parse_def rs_ms_decode Ok p Let_def
  show ?thesis
  proof (cases "qos_of_bits (qos_bits flags)")
    case (Ret q)
    then show ?thesis using c by (cases "q = AtMostOnce"; cases "cursor + pid_size TYPE('p) \<le> length data") (simp_all add: d)
  qed (simp add: d)
qed (simp add: v3_publish_parse_def rs_ms_decode Let_def)

record 't v3_publish_builder =
  v3pb_fixed_header :: "u8 option"
  v3pb_topic_name_buf :: "mqtt_string option"
  v3pb_packet_id_buf :: "'t option option"
  v3pb_payload_buf :: "bytes option"

definition v3_publish_validate :: "'p::len word v3_publish_builder \<Rightarrow> (unit, mqtt_error) result" where
  "v3_publish_validate b =
     (if (case v3pb_topic_name_buf b of None \<Rightarrow> True | Some t \<Rightarrow> ms_as_str t = []) then Err MalformedPacket
      else
        let pid = (case v3pb_packet_id_buf b of None \<Rightarrow> None | Some x \<Rightarrow> x) in
        res_bind (case v3pb_fixed_header b of
            Some header \<Rightarrow>
              if qos_bits header = 0 then (if pid \<noteq> None then Err MalformedPacket else Ok ())
              else if qos_bits header \<in> {1, 2} then
                (case pid of None \<Rightarrow> Err MalformedPacket
                 | Some p \<Rightarrow> if p = 0 then Err MalformedPacket else Ok ())
              else Err MalformedPacket
          | None \<Rightarrow> if pid \<noteq> None then Err MalformedPacket else Ok ()) (\<lambda>_.
        case v3pb_payload_buf b of
          Some payload \<Rightarrow> if length payload > 268435455 then Err MalformedPacket else Ok ()
        | None \<Rightarrow> Ok ()))"

definition v3_publish_build :: "'p::len word v3_publish_builder \<Rightarrow> ('p word v3_publish, mqtt_error) result rust" where
  "v3_publish_build b =
     tbind (Ret (v3_publish_validate b)) (\<lambda>_.
     rbind (unwrap (v3pb_topic_name_buf b)) (\<lambda>topic_name_buf.
     let fixed_header = (case v3pb_fixed_header b of Some h \<Rightarrow> h | None \<Rightarrow> fixed_header_as_u8 FH_Publish);
         packet_id_buf = (case v3pb_packet_id_buf b of None \<Rightarrow> None | Some x \<Rightarrow> x);
         payload = (case v3pb_payload_buf b of None \<Rightarrow> [] | Some p \<Rightarrow> p);
         remaining = ms_size topic_name_buf
           + (if qos_bits fixed_header \<noteq> 0 \<and> packet_id_buf \<noteq> None then pid_size TYPE('p) else 0) + length payload in
     rbind (vbi_of remaining) (\<lambda>rl.
       Ret (Ok \<lparr>v3p_fixed_header = fixed_header, v3p_remaining_length = rl, v3p_topic_name_buf = topic_name_buf,
                v3p_packet_id_buf = packet_id_buf, v3p_payload_buf = payload\<rparr>))))"

definition v3_publish_body :: "'p::len word v3_publish \<Rightarrow> bytes" where
  "v3_publish_body k = ms_to_continuous_buffer (v3p_topic_name_buf k) @ pid_bytes (v3p_packet_id_buf k) @ v3p_payload_buf k"

definition v3_publish_inv :: "'p::len word v3_publish \<Rightarrow> bool" where
  "v3_publish_inv k \<longleftrightarrow> v3p_fixed_header k = 0x30 OR (v3p_fixed_header k AND 0x0F)
     \<and> qos_bits (v3p_fixed_header k) \<noteq> 3 \<and> (v3p_packet_id_buf k = None \<longleftrightarrow> qos_bits (v3p_fixed_header k) = 0)
     \<and> ms_inv (v3p_topic_name_buf k) \<and> length (v3_publish_body k) < 268435456
     \<and> v3p_remaining_length k = \<lparr>encoded = vbi_enc (length (v3_publish_body k))\<rparr>"

text \<open>Two bits have four values; the parsers never see the fourth.\<close>

lemma and_3_cases: "(b :: u8) AND 3 = 0 \<or> b AND 3 = 1 \<or> b AND 3 = 2 \<or> b AND 3 = 3"
proof -
  have "unat (b AND 3) < 4"
  proof -
    have "b AND 3 = take_bit 2 b" by (simp add: take_bit_eq_mask mask_eq_exp_minus_1)
    then show ?thesis by (simp add: take_bit_eq_mod unat_mod)
  qed
  then have "unat (b AND 3) = 0 \<or> unat (b AND 3) = 1 \<or> unat (b AND 3) = 2 \<or> unat (b AND 3) = 3" by linarith
  then show ?thesis by (simp add: word_unat_eq_iff)
qed

lemma qos_of_bits_Ret: "qos_bits b \<noteq> 3 \<Longrightarrow> \<exists>q. qos_of_bits (qos_bits b) = Ret q \<and> (q = AtMostOnce \<longleftrightarrow> qos_bits b = 0)"
  using and_3_cases [of "drop_bit 1 b"] by (auto simp: qos_bits_def qos_of_bits_def)

lemma qos_bits_low: "qos_bits (b AND 0x0F) = qos_bits b"
  by (simp add: qos_bits_def drop_bit_and and.assoc)

lemma publish_header_low:
  "(0x30 OR (f AND 0x0F)) AND 0x0F = f AND (0x0F :: u8)" "0x30 OR ((f AND 0x0F) AND 0x0F) = 0x30 OR (f AND (0x0F :: u8))"
  by (simp_all add: bit.conj_disj_distrib2 and.assoc)

lemma v3_publish_codec:
  assumes w: "packet_id_width TYPE('p::len)"
  shows "packet_codec v3_publish_inv v3p_fixed_header v3_publish_body v3_publish_to_continuous_buffer v3_publish_size
    (v3_publish_parse :: 'p word v3_publish parser)"
proof (unfold_locales, goal_cases)
  case (1 k)
  then show ?case by (simp add: v3_publish_inv_def v3_publish_to_continuous_buffer_def v3_publish_body_def)
next
  case (2 k)
  then show ?case by (simp add: v3_publish_inv_def)
next
  case (3 k)
  then show ?case
    by (simp add: v3_publish_inv_def v3_publish_to_continuous_buffer_def v3_publish_size_def packet_size_of_enc)
      (simp add: v3_publish_body_def)
next
  case (4 k)
  note inv = 4 [unfolded v3_publish_inv_def]
  obtain q where q: "qos_of_bits (qos_bits (v3p_fixed_header k)) = Ret q" "q = AtMostOnce \<longleftrightarrow> qos_bits (v3p_fixed_header k) = 0"
    using qos_of_bits_Ret inv by blast
  have dec: "ms_decode (v3_publish_body k) = Ok (v3p_topic_name_buf k, ms_size (v3p_topic_name_buf k))"
    using ms_codec.dec_enc inv by (simp add: v3_publish_body_def ms_size_def ms_to_continuous_buffer_def ms_as_bytes_def)
  have len: "length (v3_publish_body k) = ms_size (v3p_topic_name_buf k) + length (pid_bytes (v3p_packet_id_buf k)) + length (v3p_payload_buf k)"
    by (simp add: v3_publish_body_def ms_size_def ms_to_continuous_buffer_def ms_as_bytes_def)
  have drp: "drop (ms_size (v3p_topic_name_buf k)) (v3_publish_body k) = pid_bytes (v3p_packet_id_buf k) @ v3p_payload_buf k"
    by (simp add: v3_publish_body_def ms_size_def ms_to_continuous_buffer_def ms_as_bytes_def)
  show ?case
  proof (cases "v3p_packet_id_buf k")
    case None
    then show ?thesis
      using inv q dec len drp
      by (cases k) (simp add: v3_publish_parse_eq qos_bits_low publish_header_low Let_def pid_bytes_def vbi_of_Ret and.assoc)
  next
    case (Some pid)
    have "drop (ms_size (v3p_topic_name_buf k) + pid_size TYPE('p)) (v3_publish_body k) = v3p_payload_buf k"
      using drp Some by (simp add: pid_bytes_def drop_drop [symmetric] add.commute del: drop_drop)
    then show ?thesis
      using inv q dec len drp Some from_to_buffer [OF w, of pid "[]"]
      by (cases k) (simp add: v3_publish_parse_eq qos_bits_low publish_header_low Let_def pid_bytes_def vbi_of_Ret and.assoc)
  qed
next
  case (6 bs flags k n)
  then have q3: "qos_bits flags \<noteq> 3" by (auto simp: v3_publish_parse_eq Let_def)
  then obtain q where q: "qos_of_bits (qos_bits flags) = Ret q" "q = AtMostOnce \<longleftrightarrow> qos_bits flags = 0"
    using qos_of_bits_Ret by blast
  from 6(2) q3 obtain t c where t: "ms_decode bs = Ok (t, c)"
    by (cases "ms_decode bs") (auto simp: v3_publish_parse_eq Let_def)
  have c: "ms_inv t" "c = ms_size t" "c \<le> length bs" "length (ms_to_continuous_buffer t) = ms_size t"
    using ms_decode_OkD [OF t] by (simp_all add: ms_size_def ms_to_continuous_buffer_def ms_as_bytes_def)
  have hdr: "qos_bits (0x30 OR flags AND 0x0F) = qos_bits flags"
    using qos_bits_low [of "0x30 OR flags AND 0x0F"] qos_bits_low [of flags] publish_header_low(1) [of flags] by metis
  show ?case
    using 6 q3 q t c hdr publish_header_low(1) [of flags]
    by (auto simp: v3_publish_parse_eq v3_publish_inv_def v3_publish_body_def pid_bytes_def Let_def vbi_of_Ret
        tbind_eq_Ok split: if_splits)
next
  case (5 bs flags)
  show ?case
  proof (cases "qos_bits flags = 3 \<or> (\<exists>e. ms_decode bs = Err e)")
    case True
    then show ?thesis by (auto simp: v3_publish_parse_eq Let_def)
  next
    case False
    then obtain t c where t: "ms_decode bs = Ok (t, c)" by (cases "ms_decode bs") auto
    obtain q where "qos_of_bits (qos_bits flags) = Ret q" using False qos_of_bits_Ret by blast
    then show ?thesis
      using 5 False t ms_decode_OkD [OF t]
      by (auto simp: v3_publish_parse_eq Let_def vbi_of_Ret)
  qed
qed

section \<open>Subscription entries\<close>

record sub_entry =
  se_topic_filter :: mqtt_string
  se_sub_opts :: u8

definition sub_opts_from_u8 :: "u8 \<Rightarrow> (u8, mqtt_error) result" where
  "sub_opts_from_u8 v =
     (if v AND 0xC0 \<noteq> 0 then Err MalformedPacket
      else if v AND 0x03 > 2 then Err MalformedPacket
      else if drop_bit 4 (v AND 0x30) > 2 then Err MalformedPacket
      else Ok v)"

definition sub_opts_qos :: "u8 \<Rightarrow> qos rust" where
  "sub_opts_qos v = qos_of_bits (v AND 0x03)"

definition sub_opts_nl :: "u8 \<Rightarrow> bool" where
  "sub_opts_nl v \<longleftrightarrow> v AND 0x04 \<noteq> 0"

definition sub_opts_rap :: "u8 \<Rightarrow> bool" where
  "sub_opts_rap v \<longleftrightarrow> v AND 0x08 \<noteq> 0"

definition sub_opts_rh :: "u8 \<Rightarrow> retain_handling rust" where
  "sub_opts_rh v = (let r = drop_bit 4 (v AND 0x30) in
     if r = 0 then Ret SendRetained else if r = 1 then Ret SendRetainedIfNotExists
     else if r = 2 then Ret DoNotSendRetained else Panic Unreachable_Code)"

definition sub_entry_size :: "sub_entry \<Rightarrow> nat" where
  "sub_entry_size e = ms_size (se_topic_filter e) + 1"

definition sub_entry_to_continuous_buffer :: "sub_entry \<Rightarrow> bytes" where
  "sub_entry_to_continuous_buffer e = ms_to_continuous_buffer (se_topic_filter e) @ [se_sub_opts e]"

definition sub_entry_parse :: "sub_entry decoder" where
  "sub_entry_parse data =
     res_bind (ms_decode data) (\<lambda>(topic_filter, cursor).
       if cursor \<ge> length data then Err MalformedPacket
       else res_bind (sub_opts_from_u8 (data ! cursor)) (\<lambda>sub_opts.
         Ok (\<lparr>se_topic_filter = topic_filter, se_sub_opts = sub_opts\<rparr>, cursor + 1)))"

definition rs_sub_entry_parse :: "sub_entry decoder_run" where
  "rs_sub_entry_parse data =
     rbind (slice_from data 0) (\<lambda>rest. tbind (rs_ms_decode rest) (\<lambda>(topic_filter, cursor).
       if cursor \<ge> length data then Ret (Err MalformedPacket)
       else rbind (idx data cursor) (\<lambda>b. tbind (Ret (sub_opts_from_u8 b)) (\<lambda>sub_opts.
         Ret (Ok (\<lparr>se_topic_filter = topic_filter, se_sub_opts = sub_opts\<rparr>, cursor + 1))))))"

lemma rs_sub_entry_parse: "rs_sub_entry_parse = (\<lambda>data. Ret (sub_entry_parse data))"
proof
  fix data
  show "rs_sub_entry_parse data = Ret (sub_entry_parse data)"
    by (cases "ms_decode data")
      (auto simp: rs_sub_entry_parse_def sub_entry_parse_def rs_ms_decode tbind_Ret_res)
qed

definition sub_entry_inv :: "sub_entry \<Rightarrow> bool" where
  "sub_entry_inv e \<longleftrightarrow> ms_inv (se_topic_filter e) \<and> sub_opts_from_u8 (se_sub_opts e) = Ok (se_sub_opts e)"

lemma sub_opts_from_u8_Ok: "sub_opts_from_u8 v = Ok w \<Longrightarrow> w = v \<and> sub_opts_from_u8 v = Ok v"
  by (simp add: sub_opts_from_u8_def split: if_splits)

lemma ms_buffer_length [simp]: "length (ms_to_continuous_buffer s) = ms_size s"
  by (simp add: ms_to_continuous_buffer_def ms_as_bytes_def ms_size_def)

interpretation sub_entry: codec sub_entry_inv sub_entry_to_continuous_buffer sub_entry_parse
proof (unfold_locales, goal_cases)
  case (1 e rest)
  then show ?case
    using ms_codec.dec_enc [of "se_topic_filter e" "se_sub_opts e # rest"]
    by (simp add: sub_entry_inv_def sub_entry_parse_def sub_entry_to_continuous_buffer_def nth_append)
next
  case (2 bs e n)
  then obtain t c where t: "ms_decode bs = Ok (t, c)" and c: "c < length bs"
    and o: "res_bind (sub_opts_from_u8 (bs ! c)) (\<lambda>sub_opts. Ok (\<lparr>se_topic_filter = t, se_sub_opts = sub_opts\<rparr>, c + 1)) = Ok (e, n)"
    by (auto simp: sub_entry_parse_def res_bind_eq_Ok split: if_splits)
  from o have e: "e = \<lparr>se_topic_filter = t, se_sub_opts = bs ! c\<rparr>" "n = Suc c"
    and v: "sub_opts_from_u8 (bs ! c) = Ok (bs ! c)"
    by (auto simp: res_bind_eq_Ok dest: sub_opts_from_u8_Ok)
  show ?case using ms_decode_OkD [OF t] c v by (simp add: sub_entry_inv_def e)
qed

lemma sub_entry_parse_len: "sub_entry_parse bs = Ok (e, n) \<Longrightarrow> n = length (sub_entry_to_continuous_buffer e)"
  by (auto simp: sub_entry_parse_def sub_entry_to_continuous_buffer_def res_bind_eq_Ok split: if_splits dest!: ms_decode_OkD)

text \<open>The loops over the entries of SUBSCRIBE and UNSUBSCRIBE.\<close>

function sub_entries_loop :: "bytes \<Rightarrow> nat \<Rightarrow> sub_entry list \<Rightarrow> (sub_entry list \<times> nat, mqtt_error) result" where
  "sub_entries_loop data cursor entries =
     (if cursor < length data then
        res_bind (sub_entry_parse (drop cursor data)) (\<lambda>(entry, consumed).
          sub_entries_loop data (cursor + consumed) (entries @ [entry]))
      else Ok (entries, cursor))"
  by pat_completeness auto
termination
  by (relation "measure (\<lambda>(d, c, _). length d - c)") (auto dest!: sub_entry.dec_bounds)

declare sub_entries_loop.simps [simp del]

function string_entries_loop :: "bytes \<Rightarrow> nat \<Rightarrow> mqtt_string list \<Rightarrow> (mqtt_string list \<times> nat, mqtt_error) result" where
  "string_entries_loop data cursor entries =
     (if cursor < length data then
        res_bind (ms_decode (drop cursor data)) (\<lambda>(entry, consumed).
          string_entries_loop data (cursor + consumed) (entries @ [entry]))
      else Ok (entries, cursor))"
  by pat_completeness auto
termination
  by (relation "measure (\<lambda>(d, c, _). length d - c)") (auto dest!: ms_codec.dec_bounds)

declare string_entries_loop.simps [simp del]

text \<open>The loops with their slices.\<close>

function rs_sub_entries_loop :: "bytes \<Rightarrow> nat \<Rightarrow> sub_entry list \<Rightarrow> (sub_entry list \<times> nat, mqtt_error) result rust" where
  "rs_sub_entries_loop data cursor entries =
     (if cursor < length data then
        rbind (slice_from data cursor) (\<lambda>rest. tbind (rs_sub_entry_parse rest) (\<lambda>(entry, consumed).
          rs_sub_entries_loop data (cursor + consumed) (entries @ [entry])))
      else Ret (Ok (entries, cursor)))"
  by pat_completeness auto
termination
  by (relation "measure (\<lambda>(d, c, _). length d - c)")
    (auto simp: rs_sub_entry_parse slice_from_eq_Ret dest!: sub_entry.dec_bounds)

function rs_string_entries_loop :: "bytes \<Rightarrow> nat \<Rightarrow> mqtt_string list \<Rightarrow> (mqtt_string list \<times> nat, mqtt_error) result rust" where
  "rs_string_entries_loop data cursor entries =
     (if cursor < length data then
        rbind (slice_from data cursor) (\<lambda>rest. tbind (rs_ms_decode rest) (\<lambda>(entry, consumed).
          rs_string_entries_loop data (cursor + consumed) (entries @ [entry])))
      else Ret (Ok (entries, cursor)))"
  by pat_completeness auto
termination
  by (relation "measure (\<lambda>(d, c, _). length d - c)")
    (auto simp: rs_ms_decode slice_from_eq_Ret dest!: ms_codec.dec_bounds)

declare rs_sub_entries_loop.simps [simp del] rs_string_entries_loop.simps [simp del]

lemma rs_sub_entries_loop: "rs_sub_entries_loop data cursor entries = Ret (sub_entries_loop data cursor entries)"
proof (induction data cursor entries rule: sub_entries_loop.induct)
  case (1 data cursor entries)
  show ?case
    by (subst rs_sub_entries_loop.simps, subst sub_entries_loop.simps, cases "sub_entry_parse (drop cursor data)")
      (auto simp: rs_sub_entry_parse 1)
qed

lemma rs_string_entries_loop: "rs_string_entries_loop data cursor entries = Ret (string_entries_loop data cursor entries)"
proof (induction data cursor entries rule: string_entries_loop.induct)
  case (1 data cursor entries)
  show ?case
    by (subst rs_string_entries_loop.simps, subst string_entries_loop.simps, cases "ms_decode (drop cursor data)")
      (auto simp: rs_ms_decode 1)
qed

interpretation sub_entries: strict_codec_loop sub_entry_inv sub_entry_to_continuous_buffer sub_entry_parse sub_entries_loop
  by unfold_locales (rule sub_entries_loop.simps, rule sub_entry_parse_len)

interpretation string_entries: strict_codec_loop ms_inv ms_to_continuous_buffer ms_decode string_entries_loop
  by unfold_locales (rule string_entries_loop.simps)

section \<open>SUBSCRIBE, SUBACK, UNSUBSCRIBE\<close>

text \<open>A packet identifier followed by a list of entries.\<close>

record ('t, 'e) v3_entries_packet =
  v3s_fixed_header :: u8
  v3s_remaining_length :: variable_byte_integer
  v3s_packet_id_buf :: 't
  v3s_entries :: "'e list"

definition v3_subscribe_parse :: "('p::len word, sub_entry) v3_entries_packet parser" where
  "v3_subscribe_parse flags data =
     (let buffer_size = pid_size TYPE('p) in
      if length data < buffer_size then Ret (Err MalformedPacket)
      else rbind (subslice data 0 buffer_size) (\<lambda>buf. let packet_id = from_buffer buf in
        tbind (rs_sub_entries_loop data buffer_size []) (\<lambda>(entries, cursor).
        if entries = [] then Ret (Err ProtocolError)
        else rbind (vbi_of (buffer_size + sum_list (map sub_entry_size entries))) (\<lambda>rl.
          Ret (Ok (\<lparr>v3s_fixed_header = fixed_header_as_u8 FH_Subscribe, v3s_remaining_length = rl,
                    v3s_packet_id_buf = packet_id, v3s_entries = entries\<rparr>, cursor))))))"

definition v3_unsubscribe_parse :: "('p::len word, mqtt_string) v3_entries_packet parser" where
  "v3_unsubscribe_parse flags data =
     (let buffer_size = pid_size TYPE('p) in
      if length data < buffer_size then Ret (Err MalformedPacket)
      else rbind (subslice data 0 buffer_size) (\<lambda>buf. let packet_id = from_buffer buf in
        tbind (rs_string_entries_loop data buffer_size []) (\<lambda>(entries, cursor).
        if entries = [] then Ret (Err ProtocolError)
        else rbind (vbi_of (buffer_size + sum_list (map ms_size entries))) (\<lambda>rl.
          Ret (Ok (\<lparr>v3s_fixed_header = fixed_header_as_u8 FH_Unsubscribe, v3s_remaining_length = rl,
                    v3s_packet_id_buf = packet_id, v3s_entries = entries\<rparr>, cursor))))))"

text \<open>The return codes are checked one by one; the loop keeps the bytes.\<close>

function return_codes_loop :: "bytes \<Rightarrow> nat \<Rightarrow> u8 list \<Rightarrow> (u8 list \<times> nat, mqtt_error) result" where
  "return_codes_loop data cursor codes =
     (if cursor < length data then
        res_bind (ok_or (suback_return_code_try_from (data ! cursor)) MalformedPacket) (\<lambda>_.
          return_codes_loop data (cursor + 1) (codes @ [data ! cursor]))
      else Ok (codes, cursor))"
  by pat_completeness auto
termination
  by (relation "measure (\<lambda>(d, c, _). length d - c)") auto

declare return_codes_loop.simps [simp del]

function rs_return_codes_loop :: "bytes \<Rightarrow> nat \<Rightarrow> u8 list \<Rightarrow> (u8 list \<times> nat, mqtt_error) result rust" where
  "rs_return_codes_loop data cursor codes =
     (if cursor < length data then
        rbind (idx data cursor) (\<lambda>b. tbind (Ret (ok_or (suback_return_code_try_from b) MalformedPacket)) (\<lambda>_.
        rbind (idx data cursor) (\<lambda>code. rs_return_codes_loop data (cursor + 1) (codes @ [code]))))
      else Ret (Ok (codes, cursor)))"
  by pat_completeness auto
termination
  by (relation "measure (\<lambda>(d, c, _). length d - c)") auto

declare rs_return_codes_loop.simps [simp del]

lemma rs_return_codes_loop: "rs_return_codes_loop data cursor codes = Ret (return_codes_loop data cursor codes)"
proof (induction data cursor codes rule: return_codes_loop.induct)
  case (1 data cursor codes)
  show ?case
  proof (cases "cursor < length data \<and> suback_return_code_try_from (data ! cursor) \<noteq> None")
    case True
    then show ?thesis using 1
      by (subst rs_return_codes_loop.simps, subst return_codes_loop.simps) auto
  next
    case False
    then show ?thesis by (subst rs_return_codes_loop.simps, subst return_codes_loop.simps) auto
  qed
qed

definition v3_suback_parse :: "('p::len word, u8) v3_entries_packet parser" where
  "v3_suback_parse flags data =
     (let buffer_size = pid_size TYPE('p) in
      if length data < buffer_size then Ret (Err MalformedPacket)
      else rbind (subslice data 0 buffer_size) (\<lambda>buf. let packet_id = from_buffer buf in
        tbind (rs_return_codes_loop data buffer_size []) (\<lambda>(codes, cursor).
        if codes = [] then Ret (Err ProtocolError)
        else rbind (vbi_of (buffer_size + length codes)) (\<lambda>rl.
          Ret (Ok (\<lparr>v3s_fixed_header = fixed_header_as_u8 FH_Suback, v3s_remaining_length = rl,
                    v3s_packet_id_buf = packet_id, v3s_entries = codes\<rparr>, cursor))))))"

definition v3_suback_return_codes :: "('p::len word, u8) v3_entries_packet \<Rightarrow> suback_return_code list" where
  "v3_suback_return_codes k =
     map (\<lambda>b. case suback_return_code_try_from b of Some c \<Rightarrow> c | None \<Rightarrow> SubRet_Failure) (v3s_entries k)"

definition v3_entries_size :: "('t, 'e) v3_entries_packet \<Rightarrow> nat" where
  "v3_entries_size k = packet_size_of (v3s_remaining_length k)"

definition v3_entries_to_continuous_buffer :: "('e \<Rightarrow> bytes) \<Rightarrow> ('p::len word, 'e) v3_entries_packet \<Rightarrow> bytes" where
  "v3_entries_to_continuous_buffer enc k =
     v3s_fixed_header k # encoded (v3s_remaining_length k) @ to_buffer (v3s_packet_id_buf k) @ concat (map enc (v3s_entries k))"

definition v3_subscribe_to_continuous_buffer :: "('p::len word, sub_entry) v3_entries_packet \<Rightarrow> bytes" where
  "v3_subscribe_to_continuous_buffer = v3_entries_to_continuous_buffer sub_entry_to_continuous_buffer"

definition v3_unsubscribe_to_continuous_buffer :: "('p::len word, mqtt_string) v3_entries_packet \<Rightarrow> bytes" where
  "v3_unsubscribe_to_continuous_buffer = v3_entries_to_continuous_buffer ms_to_continuous_buffer"

definition v3_suback_to_continuous_buffer :: "('p::len word, u8) v3_entries_packet \<Rightarrow> bytes" where
  "v3_suback_to_continuous_buffer = v3_entries_to_continuous_buffer (\<lambda>b. [b])"

text \<open>The builders; \<open>None\<close> is a field that was not set.\<close>

definition v3_entries_validate :: "'p::len word option \<Rightarrow> 'e list option \<Rightarrow> (unit, mqtt_error) result" where
  "v3_entries_validate packet_id_buf entries =
     (case packet_id_buf of
        None \<Rightarrow> Err MalformedPacket
      | Some pid \<Rightarrow>
          if list_all (\<lambda>x. x = 0) (to_buffer pid) then Err MalformedPacket
          else (case entries of
              None \<Rightarrow> Err ProtocolError
            | Some es \<Rightarrow> if es = [] then Err ProtocolError else Ok ()))"

definition v3_entries_build ::
  "fixed_header \<Rightarrow> ('e \<Rightarrow> nat) \<Rightarrow> 'p::len word option \<Rightarrow> 'e list option
   \<Rightarrow> (('p word, 'e) v3_entries_packet, mqtt_error) result rust" where
  "v3_entries_build fh sz packet_id_buf entries =
     tbind (Ret (v3_entries_validate packet_id_buf entries)) (\<lambda>_.
     rbind (unwrap packet_id_buf) (\<lambda>pid.
     let es = (case entries of None \<Rightarrow> [] | Some es \<Rightarrow> es);
         remaining = pid_size TYPE('p) + sum_list (map sz es) in
     rbind (vbi_of remaining) (\<lambda>rl.
       Ret (Ok \<lparr>v3s_fixed_header = fixed_header_as_u8 fh, v3s_remaining_length = rl,
                v3s_packet_id_buf = pid, v3s_entries = es\<rparr>))))"

definition v3_subscribe_build ::
  "'p::len word option \<Rightarrow> sub_entry list option \<Rightarrow> (('p word, sub_entry) v3_entries_packet, mqtt_error) result rust" where
  "v3_subscribe_build = v3_entries_build FH_Subscribe sub_entry_size"

definition v3_unsubscribe_build ::
  "'p::len word option \<Rightarrow> mqtt_string list option \<Rightarrow> (('p word, mqtt_string) v3_entries_packet, mqtt_error) result rust" where
  "v3_unsubscribe_build = v3_entries_build FH_Unsubscribe ms_size"

definition v3_suback_build ::
  "'p::len word option \<Rightarrow> u8 list option \<Rightarrow> (('p word, u8) v3_entries_packet, mqtt_error) result rust" where
  "v3_suback_build = v3_entries_build FH_Suback (\<lambda>_. 1)"

definition v3_entries_body :: "('e \<Rightarrow> bytes) \<Rightarrow> ('p::len word, 'e) v3_entries_packet \<Rightarrow> bytes" where
  "v3_entries_body enc k = to_buffer (v3s_packet_id_buf k) @ concat (map enc (v3s_entries k))"

definition v3_entries_inv ::
  "fixed_header \<Rightarrow> ('e \<Rightarrow> bool) \<Rightarrow> ('e \<Rightarrow> bytes) \<Rightarrow> ('p::len word, 'e) v3_entries_packet \<Rightarrow> bool" where
  "v3_entries_inv fh ok enc k \<longleftrightarrow> v3s_fixed_header k = fixed_header_as_u8 fh \<and> v3s_entries k \<noteq> []
     \<and> list_all ok (v3s_entries k) \<and> length (v3_entries_body enc k) < 268435456
     \<and> v3s_remaining_length k = \<lparr>encoded = vbi_enc (length (v3_entries_body enc k))\<rparr>"

text \<open>One proof for the three packets: only the loop and the size of an entry differ.\<close>

definition v3_entries_parse ::
  "fixed_header \<Rightarrow> (bytes \<Rightarrow> nat \<Rightarrow> 'e list \<Rightarrow> ('e list \<times> nat, mqtt_error) result) \<Rightarrow> ('e \<Rightarrow> nat)
   \<Rightarrow> ('p::len word, 'e) v3_entries_packet parser" where
  "v3_entries_parse fh loop sz flags data =
     (let buffer_size = pid_size TYPE('p) in
      if length data < buffer_size then Ret (Err MalformedPacket)
      else let packet_id = from_buffer (take buffer_size data) in
        tbind (Ret (loop data buffer_size [])) (\<lambda>(entries, cursor).
        if entries = [] then Ret (Err ProtocolError)
        else rbind (vbi_of (buffer_size + sum_list (map sz entries))) (\<lambda>rl.
          Ret (Ok (\<lparr>v3s_fixed_header = fixed_header_as_u8 fh, v3s_remaining_length = rl,
                    v3s_packet_id_buf = packet_id, v3s_entries = entries\<rparr>, cursor)))))"

lemma v3_entries_codec:
  fixes loop :: "bytes \<Rightarrow> nat \<Rightarrow> 'e list \<Rightarrow> ('e list \<times> nat, mqtt_error) result"
  assumes w: "packet_id_width TYPE('p::len)"
    and enc: "\<And>xs c data. list_all ok xs \<Longrightarrow> c \<le> length data \<Longrightarrow> drop c data = concat (map enc xs) \<Longrightarrow>
        loop data c [] = Ok (xs, length data)"
    and snd: "\<And>data c xs n. loop data c [] = Ok (xs, n) \<Longrightarrow> c \<le> length data \<Longrightarrow>
        list_all ok xs \<and> n = length data \<and> length (concat (map enc xs)) \<le> length data - c"
    and sz: "\<And>e. sz e = length (enc e)"
  shows "packet_codec (v3_entries_inv fh ok enc) v3s_fixed_header (v3_entries_body enc)
    (v3_entries_to_continuous_buffer enc) v3_entries_size
    (v3_entries_parse fh loop sz :: ('p word, 'e) v3_entries_packet parser)"
proof (unfold_locales, goal_cases)
  case (1 k)
  then show ?case by (simp add: v3_entries_inv_def v3_entries_to_continuous_buffer_def v3_entries_body_def)
next
  case (2 k)
  then show ?case by (simp add: v3_entries_inv_def)
next
  case (3 k)
  then show ?case
    by (simp add: v3_entries_inv_def v3_entries_to_continuous_buffer_def v3_entries_size_def packet_size_of_enc)
      (simp add: v3_entries_body_def)
next
  case (4 k)
  have sum: "sum_list (map sz xs) = length (concat (map enc xs))" for xs
    by (induction xs) (simp_all add: sz)
  have "loop (v3_entries_body enc k) (pid_size TYPE('p)) [] = Ok (v3s_entries k, length (v3_entries_body enc k))"
    using 4 by (intro enc) (simp_all add: v3_entries_inv_def v3_entries_body_def)
  then show ?case
    using 4 from_to_buffer [OF w, of "v3s_packet_id_buf k" "[]"]
    by (cases k) (simp add: v3_entries_parse_def v3_entries_inv_def Let_def sum, simp add: v3_entries_body_def vbi_of_Ret)
next
  case (6 bs flags k n)
  have sum: "sum_list (map sz xs) = length (concat (map enc xs))" for xs
    by (induction xs) (simp_all add: sz)
  show ?case
    using 6 snd [of bs "pid_size TYPE('p)"]
    by (cases "loop bs (pid_size TYPE('p)) []")
      (auto simp: v3_entries_parse_def v3_entries_inv_def v3_entries_body_def Let_def vbi_of_Ret sum split: if_splits)
next
  case (5 bs flags)
  have sum: "sum_list (map sz xs) = length (concat (map enc xs))" for xs
    by (induction xs) (simp_all add: sz)
  show ?case
    using 5 snd [of bs "pid_size TYPE('p)"]
    by (cases "loop bs (pid_size TYPE('p)) []") (auto simp: v3_entries_parse_def Let_def vbi_of_Ret sum)
qed

text \<open>What a builder gives meets the invariant, unless the body is too long to be encoded.\<close>

lemma v3_entries_build_inv:
  assumes "packet_id_width TYPE('p::len)" and "(pid :: 'p word) \<noteq> 0" and "es \<noteq> []" and "list_all ok es"
    and sz: "\<And>e. sz e = length (enc e)" and len: "pid_size TYPE('p) + length (concat (map enc es)) < 268435456"
  shows "\<exists>k. v3_entries_build fh sz (Some pid) (Some es) = Ret (Ok k) \<and> v3_entries_inv fh ok enc k
     \<and> v3s_packet_id_buf k = pid \<and> v3s_entries k = es"
proof -
  have sum: "sum_list (map sz xs) = length (concat (map enc xs))" for xs
    by (induction xs) (simp_all add: sz)
  show ?thesis
    using assms to_buffer_zeros [of pid]
    by (simp add: v3_entries_build_def v3_entries_validate_def sum v3_entries_inv_def v3_entries_body_def vbi_of_Ret
        del: length_concat)
qed

text \<open>The three parsers are instances, so they meet the contract.\<close>

lemma sub_entry_size_eq: "sub_entry_size e = length (sub_entry_to_continuous_buffer e)"
  by (simp add: sub_entry_size_def sub_entry_to_continuous_buffer_def)

lemma v3_subscribe_parse_eq: "v3_subscribe_parse = v3_entries_parse FH_Subscribe sub_entries_loop sub_entry_size"
  by (rule ext)+ (simp add: v3_subscribe_parse_def v3_entries_parse_def rs_sub_entries_loop Let_def)

lemma v3_unsubscribe_parse_eq: "v3_unsubscribe_parse = v3_entries_parse FH_Unsubscribe string_entries_loop ms_size"
  by (rule ext)+ (simp add: v3_unsubscribe_parse_def v3_entries_parse_def rs_string_entries_loop Let_def)

lemma sum_list_Suc_0: "(\<Sum>_\<leftarrow>xs. Suc 0) = length xs"
  by (induction xs) simp_all

lemma v3_suback_parse_eq: "v3_suback_parse = v3_entries_parse FH_Suback return_codes_loop (\<lambda>_. 1)"
  by (rule ext)+ (simp add: v3_suback_parse_def v3_entries_parse_def rs_return_codes_loop sum_list_Suc_0 Let_def cong: if_cong)

text \<open>A return code is a one-byte codec, and its loop is the shared one.\<close>

definition return_code_ok :: "u8 \<Rightarrow> bool" where
  "return_code_ok b \<longleftrightarrow> suback_return_code_try_from b \<noteq> None"

definition return_code_decode :: "u8 decoder" where
  "return_code_decode bs =
     (case bs of [] \<Rightarrow> Err MalformedPacket
      | b # _ \<Rightarrow> if return_code_ok b then Ok (b, 1) else Err MalformedPacket)"

interpretation return_code: codec return_code_ok "\<lambda>b. [b]" return_code_decode
  by unfold_locales (auto simp: return_code_decode_def split: list.splits if_splits)

interpretation return_codes: strict_codec_loop return_code_ok "\<lambda>b. [b]" return_code_decode return_codes_loop
proof (unfold_locales, goal_cases)
  case (1 data cursor xs)
  show ?case
    by (subst return_codes_loop.simps)
      (auto simp: return_code_decode_def return_code_ok_def Cons_nth_drop_Suc [symmetric] ok_or_def split: option.splits)
next
  case (2 bs x n)
  then show ?case by (simp add: return_code_decode_def split: list.splits if_splits)
qed

lemma v3_subscribe_codec:
  assumes "packet_id_width TYPE('p::len)"
  shows "packet_codec (v3_entries_inv FH_Subscribe sub_entry_inv sub_entry_to_continuous_buffer) v3s_fixed_header
    (v3_entries_body sub_entry_to_continuous_buffer) v3_subscribe_to_continuous_buffer v3_entries_size
    (v3_subscribe_parse :: ('p word, sub_entry) v3_entries_packet parser)"
  unfolding v3_subscribe_to_continuous_buffer_def v3_subscribe_parse_eq
  by (rule v3_entries_codec [OF assms])
    (auto simp: sub_entries.loop_enc sub_entry_size_eq dest: sub_entries.loop_sound simp del: length_concat simp: sub_entries.loop_len)

lemma v3_unsubscribe_codec:
  assumes "packet_id_width TYPE('p::len)"
  shows "packet_codec (v3_entries_inv FH_Unsubscribe ms_inv ms_to_continuous_buffer) v3s_fixed_header
    (v3_entries_body ms_to_continuous_buffer) v3_unsubscribe_to_continuous_buffer v3_entries_size
    (v3_unsubscribe_parse :: ('p word, mqtt_string) v3_entries_packet parser)"
  unfolding v3_unsubscribe_to_continuous_buffer_def v3_unsubscribe_parse_eq
  by (rule v3_entries_codec [OF assms])
    (auto simp: string_entries.loop_enc dest: string_entries.loop_sound simp del: length_concat simp: string_entries.loop_len)

lemma v3_suback_codec:
  assumes "packet_id_width TYPE('p::len)"
  shows "packet_codec (v3_entries_inv FH_Suback return_code_ok (\<lambda>b. [b])) v3s_fixed_header
    (v3_entries_body (\<lambda>b. [b])) v3_suback_to_continuous_buffer v3_entries_size
    (v3_suback_parse :: ('p word, u8) v3_entries_packet parser)"
  unfolding v3_suback_to_continuous_buffer_def v3_suback_parse_eq
  by (rule v3_entries_codec [OF assms])
    (auto simp: return_codes.loop_enc dest: return_codes.loop_sound return_codes.loop_len)

section \<open>Properties\<close>

text \<open>
  A PUBLISH packet of MQTT v3.1.1 survives the wire: its encoding, fed to a fresh packet
  builder ahead of any other bytes, completes exactly one raw packet, and the parser reads
  from it the same packet and consumes its whole body.
\<close>

theorem v3_publish_wire_roundtrip:
  fixes k :: "'p::len word v3_publish"
  assumes "packet_id_width TYPE('p)" and "v3_publish_inv k" and "length (v3_publish_body k) < 2097152"
  shows "\<exists>raw. feed pb_new (cursor_new (v3_publish_to_continuous_buffer k @ rest)) =
      Ret (Complete raw, pb_new, \<lparr>inner = v3_publish_to_continuous_buffer k @ rest, pos = v3_publish_size k\<rparr>)
    \<and> rp_fixed_header raw = v3p_fixed_header k
    \<and> v3_publish_parse (rp_flags raw) (data_as_slice (rp_data raw)) = Ret (Ok (k, length (v3_publish_body k)))"
  using packet_wire.wire_roundtrip [OF packet_codec.axioms(1) [OF v3_publish_codec [OF assms(1)]] assms(2,3)]
    packet_wire.size_eq [OF packet_codec.axioms(1) [OF v3_publish_codec [OF assms(1)]] assms(2)]
  by auto

theorem v3_publish_wire_roundtrip_witness:
  "\<exists>raw. feed pb_new (cursor_new ([0x32, 6, 0, 1, 0x61, 0, 7, 0x62] @ [0xC0, 0])) =
      Ret (Complete raw, pb_new, \<lparr>inner = [0x32, 6, 0, 1, 0x61, 0, 7, 0x62, 0xC0, 0], pos = 8\<rparr>)
    \<and> rp_fixed_header raw = 0x32
    \<and> v3_publish_parse (rp_flags raw) (data_as_slice (rp_data raw)) =
        Ret (Ok (\<lparr>v3p_fixed_header = 0x32, v3p_remaining_length = \<lparr>encoded = [6]\<rparr>,
                 v3p_topic_name_buf = \<lparr>ms_encoded = [0, 1, 0x61]\<rparr>, v3p_packet_id_buf = Some (7 :: 16 word),
                 v3p_payload_buf = [0x62]\<rparr>, length [0 :: u8, 1, 0x61, 0, 7, 0x62]))"
proof -
  let ?k = "\<lparr>v3p_fixed_header = 0x32, v3p_remaining_length = \<lparr>encoded = [6]\<rparr>,
     v3p_topic_name_buf = \<lparr>ms_encoded = [0, 1, 0x61]\<rparr>, v3p_packet_id_buf = Some (7 :: 16 word), v3p_payload_buf = [0x62]\<rparr>"
  have b: "to_buffer (7 :: 16 word) = [0, 7]" by code_simp
  have e: "vbi_enc (Suc (Suc (Suc (Suc (Suc (Suc 0)))))) = [6]" by (simp add: vbi_enc.simps)
  have u: "utf8_valid [0x61]" by (simp add: utf8_valid_ascii)
  have body: "v3_publish_body ?k = [0, 1, 0x61, 0, 7, 0x62]" "v3_publish_to_continuous_buffer ?k = [0x32, 6, 0, 1, 0x61, 0, 7, 0x62]"
    by (simp_all add: v3_publish_body_def v3_publish_to_continuous_buffer_def pid_bytes_def b ms_to_continuous_buffer_def ms_as_bytes_def)
  have inv: "v3_publish_inv ?k"
    by (simp add: v3_publish_inv_def body e u ms_inv_def len_prefix_def qos_bits_def)
  have size: "v3_publish_size ?k = 8"
    using packet_wire.size_eq [OF packet_codec.axioms(1) [OF v3_publish_codec] inv] by (simp add: packet_id_width_def body)
  show ?thesis
    using v3_publish_wire_roundtrip [OF _ inv, of "[0xC0, 0]"] unfolding body size by (simp add: packet_id_width_def)
qed

text \<open>
  A SUBSCRIBE packet of MQTT v3.1.1 survives the wire: the raw packet the builder makes
  of its encoding parses to the same identifier and the same list of topic filters and
  options, for any number of entries.
\<close>

theorem v3_subscribe_wire_roundtrip:
  fixes k :: "('p::len word, sub_entry) v3_entries_packet"
  assumes "packet_id_width TYPE('p)"
    and "v3_entries_inv FH_Subscribe sub_entry_inv sub_entry_to_continuous_buffer k"
    and "length (v3_entries_body sub_entry_to_continuous_buffer k) < 2097152"
  shows "\<exists>raw. feed pb_new (cursor_new (v3_subscribe_to_continuous_buffer k @ rest)) =
      Ret (Complete raw, pb_new, \<lparr>inner = v3_subscribe_to_continuous_buffer k @ rest, pos = v3_entries_size k\<rparr>)
    \<and> v3_subscribe_parse (rp_flags raw) (data_as_slice (rp_data raw)) =
        Ret (Ok (k, length (v3_entries_body sub_entry_to_continuous_buffer k)))"
  using packet_wire.wire_roundtrip [OF packet_codec.axioms(1) [OF v3_subscribe_codec [OF assms(1)]] assms(2,3)]
    packet_wire.size_eq [OF packet_codec.axioms(1) [OF v3_subscribe_codec [OF assms(1)]] assms(2)]
  by auto

theorem v3_subscribe_wire_roundtrip_witness:
  "\<exists>raw. feed pb_new (cursor_new ([0x82, 6, 0, 9, 0, 1, 0x61, 1] @ [])) =
      Ret (Complete raw, pb_new, \<lparr>inner = [0x82, 6, 0, 9, 0, 1, 0x61, 1], pos = 8\<rparr>)
    \<and> v3_subscribe_parse (rp_flags raw) (data_as_slice (rp_data raw)) =
        Ret (Ok (\<lparr>v3s_fixed_header = 0x82, v3s_remaining_length = \<lparr>encoded = [6]\<rparr>, v3s_packet_id_buf = (9 :: 16 word),
                 v3s_entries = [\<lparr>se_topic_filter = \<lparr>ms_encoded = [0, 1, 0x61]\<rparr>, se_sub_opts = 1\<rparr>]\<rparr>, length [0 :: u8, 9, 0, 1, 0x61, 1]))"
proof -
  let ?k = "\<lparr>v3s_fixed_header = 0x82, v3s_remaining_length = \<lparr>encoded = [6]\<rparr>, v3s_packet_id_buf = (9 :: 16 word),
     v3s_entries = [\<lparr>se_topic_filter = \<lparr>ms_encoded = [0, 1, 0x61]\<rparr>, se_sub_opts = 1\<rparr>]\<rparr>"
  have b: "to_buffer (9 :: 16 word) = [0, 9]" by code_simp
  have e: "vbi_enc (Suc (Suc (Suc (Suc (Suc (Suc 0)))))) = [6]" by (simp add: vbi_enc.simps)
  have u: "utf8_valid [0x61]" by (simp add: utf8_valid_ascii)
  have body: "v3_entries_body sub_entry_to_continuous_buffer ?k = [0, 9, 0, 1, 0x61, 1]"
    "v3_subscribe_to_continuous_buffer ?k = [0x82, 6, 0, 9, 0, 1, 0x61, 1]"
    by (simp_all add: v3_entries_body_def v3_subscribe_to_continuous_buffer_def v3_entries_to_continuous_buffer_def b
        sub_entry_to_continuous_buffer_def ms_to_continuous_buffer_def ms_as_bytes_def)
  have inv: "v3_entries_inv FH_Subscribe sub_entry_inv sub_entry_to_continuous_buffer ?k"
    by (simp add: v3_entries_inv_def body e u ms_inv_def len_prefix_def sub_entry_inv_def sub_opts_from_u8_def)
  have size: "v3_entries_size ?k = 8"
    using packet_wire.size_eq [OF packet_codec.axioms(1) [OF v3_subscribe_codec] inv] by (simp add: packet_id_width_def body)
  show ?thesis
    using v3_subscribe_wire_roundtrip [OF _ inv, of "[]"] unfolding body size by (simp add: packet_id_width_def)
qed

text \<open>
  C38: The builder of UNSUBACK writes the remaining length 2 for every width of packet
  identifier.  With 16-bit identifiers the packet it builds meets the packet's contract;
  with 32-bit identifiers it never does, and the wire length it declares is two bytes
  short of the body it writes.
\<close>

theorem v3_unsuback_build_length:
  fixes pid16 :: "16 word" and pid32 :: "32 word"
  shows "(pid16 \<noteq> 0 \<longrightarrow> (\<exists>k. v3_unsuback_build (Some pid16) = Ret (Ok k) \<and> v3_unsuback_inv k))
    \<and> (pid32 \<noteq> 0 \<longrightarrow> (\<exists>k. v3_unsuback_build (Some pid32) = Ret (Ok k) \<and> \<not> v3_unsuback_inv k
         \<and> length (v3_unsuback_to_continuous_buffer k) = v3_unsuback_size k + 2))"
proof -
  have e: "vbi_enc 2 = [2]" "vbi_enc 4 = [4]" by (simp_all add: vbi_enc.simps)
  have z16: "list_all (\<lambda>b. b = 0) (to_buffer pid16) \<longleftrightarrow> pid16 = 0"
    by (rule to_buffer_zeros) (simp add: packet_id_width_def)
  have z32: "list_all (\<lambda>b. b = 0) (to_buffer pid32) \<longleftrightarrow> pid32 = 0"
    by (rule to_buffer_zeros) (simp add: packet_id_width_def)
  have s: "packet_size_of \<lparr>encoded = [2]\<rparr> = 4" using packet_size_of_enc [of 2] by (simp add: e)
  show ?thesis
    by (simp add: v3_unsuback_build_def v3_unsuback_validate_def z16 z32 vbi_of_Ret v3_unsuback_inv_def pid_size_def e
        v3_unsuback_to_continuous_buffer_def v3_unsuback_size_def s)
qed

theorem v3_unsuback_build_length_witness:
  "\<exists>k. v3_unsuback_build (Some (5 :: 32 word)) = Ret (Ok k) \<and> \<not> v3_unsuback_inv k
     \<and> length (v3_unsuback_to_continuous_buffer k) = v3_unsuback_size k + 2"
  using v3_unsuback_build_length [of 5 5] by simp

end
