(* ===== verification/Connect_V311.thy ===== *)
theory Connect_V311
  imports Packets_V311
begin

text \<open>
  \<^verbatim>\<open>src/mqtt/packet/v3_1_1/connect.rs\<close>: the CONNECT packet of MQTT v3.1.1, its parser, its
  encoding and its builder.  The optional fields are present when their bit of the connect
  flags is set.
\<close>

section \<open>The packet\<close>

record v3_connect =
  v3c_fixed_header :: u8
  v3c_remaining_length :: variable_byte_integer
  v3c_protocol_name :: bytes
  v3c_protocol_version_buf :: u8
  v3c_connect_flags_buf :: u8
  v3c_keep_alive_buf :: bytes
  v3c_client_id_buf :: mqtt_string
  v3c_will_topic_buf :: mqtt_string
  v3c_will_payload_buf :: mqtt_binary
  v3c_user_name_buf :: mqtt_string
  v3c_password_buf :: mqtt_binary

text \<open>\<open>MqttString::default()\<close> and \<open>MqttBinary::default()\<close>: the encodings of the empty string.\<close>

definition ms_default :: mqtt_string where
  "ms_default = \<lparr>ms_encoded = len_prefix 0\<rparr>"

definition mb_default :: mqtt_binary where
  "mb_default = \<lparr>mb_encoded = len_prefix 0\<rparr>"

lemma ms_default_new: "ms_new [] = Ok ms_default" "ms_inv ms_default"
  by (simp_all add: ms_new_def ms_default_def ms_inv_def len_prefix_def)

lemma mb_default_new: "mb_new [] = Ok mb_default" "mb_inv mb_default"
  by (simp_all add: mb_new_def mb_default_def mb_inv_def len_prefix_def)

text \<open>The bits of the connect flags, as the accessors, the parser and the builder test them.\<close>

definition cf_will :: "u8 \<Rightarrow> bool" where "cf_will f \<longleftrightarrow> f AND 0x04 \<noteq> 0"
definition cf_password :: "u8 \<Rightarrow> bool" where "cf_password f \<longleftrightarrow> f AND 0x40 \<noteq> 0"
definition cf_user_name :: "u8 \<Rightarrow> bool" where "cf_user_name f \<longleftrightarrow> f AND 0x80 \<noteq> 0"

definition v3_clean_session :: "v3_connect \<Rightarrow> bool" where
  "v3_clean_session k \<longleftrightarrow> v3c_connect_flags_buf k AND 0x02 \<noteq> 0"

definition v3_will_flag :: "v3_connect \<Rightarrow> bool" where
  "v3_will_flag k \<longleftrightarrow> cf_will (v3c_connect_flags_buf k)"

definition v3_will_qos :: "v3_connect \<Rightarrow> qos" where
  "v3_will_qos k = (case qos_try_from (drop_bit 3 (v3c_connect_flags_buf k) AND 0x03) of
     Some q \<Rightarrow> q | None \<Rightarrow> AtMostOnce)"

definition v3_will_retain :: "v3_connect \<Rightarrow> bool" where
  "v3_will_retain k \<longleftrightarrow> v3c_connect_flags_buf k AND 0x20 \<noteq> 0"

definition v3_password_flag :: "v3_connect \<Rightarrow> bool" where
  "v3_password_flag k \<longleftrightarrow> cf_password (v3c_connect_flags_buf k)"

definition v3_user_name_flag :: "v3_connect \<Rightarrow> bool" where
  "v3_user_name_flag k \<longleftrightarrow> cf_user_name (v3c_connect_flags_buf k)"

definition v3_keep_alive :: "v3_connect \<Rightarrow> u16" where
  "v3_keep_alive k = from_be_bytes (v3c_keep_alive_buf k)"

definition v3_client_id :: "v3_connect \<Rightarrow> str" where
  "v3_client_id k = ms_as_str (v3c_client_id_buf k)"

definition v3_will_topic :: "v3_connect \<Rightarrow> str option" where
  "v3_will_topic k = (if v3_will_flag k then Some (ms_as_str (v3c_will_topic_buf k)) else None)"

definition v3_will_payload :: "v3_connect \<Rightarrow> bytes option" where
  "v3_will_payload k = (if v3_will_flag k then Some (mb_as_slice (v3c_will_payload_buf k)) else None)"

definition v3_user_name :: "v3_connect \<Rightarrow> str option" where
  "v3_user_name k = (if v3_user_name_flag k then Some (ms_as_str (v3c_user_name_buf k)) else None)"

definition v3_password :: "v3_connect \<Rightarrow> bytes option" where
  "v3_password k = (if v3_password_flag k then Some (mb_as_slice (v3c_password_buf k)) else None)"

definition v3_connect_size :: "v3_connect \<Rightarrow> nat" where
  "v3_connect_size k = packet_size_of (v3c_remaining_length k)"

definition v3_connect_to_continuous_buffer :: "v3_connect \<Rightarrow> bytes" where
  "v3_connect_to_continuous_buffer k =
     v3c_fixed_header k # encoded (v3c_remaining_length k) @ v3c_protocol_name k
       @ v3c_protocol_version_buf k # v3c_connect_flags_buf k # v3c_keep_alive_buf k
       @ ms_to_continuous_buffer (v3c_client_id_buf k)
       @ (if v3_will_flag k then ms_to_continuous_buffer (v3c_will_topic_buf k)
            @ mb_to_continuous_buffer (v3c_will_payload_buf k) else [])
       @ (if v3_user_name_flag k then ms_to_continuous_buffer (v3c_user_name_buf k) else [])
       @ (if v3_password_flag k then mb_to_continuous_buffer (v3c_password_buf k) else [])"

section \<open>The parser\<close>

text \<open>\<open>decode(..).map_err(|_| e)\<close>.\<close>

definition or_err :: "'a decoder \<Rightarrow> mqtt_error \<Rightarrow> 'a decoder" where
  "or_err dec e bs = (case dec bs of Ok r \<Rightarrow> Ok r | Err _ \<Rightarrow> Err e)"

definition rs_or_err :: "'a decoder_run \<Rightarrow> mqtt_error \<Rightarrow> 'a decoder_run" where
  "rs_or_err dec e bs = map_err (\<lambda>_. e) (dec bs)"

lemma rs_or_err: "rs_or_err (\<lambda>bs. Ret (dec bs)) e = (\<lambda>bs. Ret (or_err dec e bs))"
  by (rule ext) (simp add: rs_or_err_def or_err_def map_err_def split: result.split)

definition mqtt_protocol_name :: bytes where
  "mqtt_protocol_name = [0x00, 0x04, 0x4D, 0x51, 0x54, 0x54]"

definition v3_connect_parse :: "v3_connect parser" where
  "v3_connect_parse flags data =
     (if length data < 6 then Ret (Err MalformedPacket)
      else rbind (idx_all data [0, 1, 2, 3, 4, 5]) (\<lambda>protocol_name.
      if protocol_name \<noteq> mqtt_protocol_name then Ret (Err ProtocolError)
      else if length data < 7 then Ret (Err MalformedPacket)
      else rbind (idx data 6) (\<lambda>protocol_version.
      if protocol_version \<noteq> 0x04 then Ret (Err UnsupportedProtocolVersion)
      else if length data < 8 then Ret (Err MalformedPacket)
      else rbind (idx data 7) (\<lambda>connect_flags.
      if length data < 10 then Ret (Err MalformedPacket)
      else rbind (idx_all data [8, 9]) (\<lambda>keep_alive_buf. let
        will_flag = cf_will connect_flags;
        user_name_flag = cf_user_name connect_flags;
        password_flag = cf_password connect_flags in
      tbind (rs_field_if True (rs_or_err rs_ms_decode ClientIdentifierNotValid) ms_default data 10) (\<lambda>(client_id, cursor).
      tbind (rs_field_if will_flag rs_ms_decode ms_default data cursor) (\<lambda>(will_topic, cursor).
      tbind (rs_field_if will_flag rs_mb_decode mb_default data cursor) (\<lambda>(will_payload, cursor).
      tbind (rs_field_if user_name_flag (rs_or_err rs_ms_decode BadUserNameOrPassword) ms_default data cursor) (\<lambda>(user_name, cursor).
      tbind (rs_field_if password_flag (rs_or_err rs_mb_decode BadUserNameOrPassword) mb_default data cursor) (\<lambda>(password, cursor).
      if password_flag \<and> \<not> user_name_flag then Ret (Err ProtocolError)
      else rbind (vbi_of cursor) (\<lambda>rl.
        Ret (Ok (\<lparr>v3c_fixed_header = fixed_header_as_u8 FH_Connect, v3c_remaining_length = rl,
                  v3c_protocol_name = protocol_name, v3c_protocol_version_buf = protocol_version,
                  v3c_connect_flags_buf = connect_flags, v3c_keep_alive_buf = keep_alive_buf,
                  v3c_client_id_buf = client_id, v3c_will_topic_buf = will_topic,
                  v3c_will_payload_buf = will_payload, v3c_user_name_buf = user_name,
                  v3c_password_buf = password\<rparr>, cursor)))))))))))))"

section \<open>The builder\<close>

record v3_connect_builder =
  v3cb_connect_flags_buf :: "u8 option"
  v3cb_keep_alive_buf :: "bytes option"
  v3cb_client_id_buf :: "mqtt_string option"
  v3cb_will_topic_buf :: "mqtt_string option"
  v3cb_will_payload_buf :: "mqtt_binary option"
  v3cb_user_name_buf :: "mqtt_string option"
  v3cb_password_buf :: "mqtt_binary option"

definition unwrap_or :: "'a option \<Rightarrow> 'a \<Rightarrow> 'a" where
  "unwrap_or x d = (case x of Some y \<Rightarrow> y | None \<Rightarrow> d)"

lemma unwrap_or_simps [simp]: "unwrap_or None d = d" "unwrap_or (Some y) d = y"
  by (simp_all add: unwrap_or_def)

definition v3_connect_builder :: v3_connect_builder where
  "v3_connect_builder = \<lparr>v3cb_connect_flags_buf = None, v3cb_keep_alive_buf = None, v3cb_client_id_buf = None,
     v3cb_will_topic_buf = None, v3cb_will_payload_buf = None, v3cb_user_name_buf = None, v3cb_password_buf = None\<rparr>"

definition v3cb_client_id :: "str \<Rightarrow> 'a v3_connect_builder_scheme \<Rightarrow> ('a v3_connect_builder_scheme, mqtt_error) result" where
  "v3cb_client_id cid b = res_bind (ms_new cid) (\<lambda>ms. Ok (b\<lparr>v3cb_client_id_buf := Some ms\<rparr>))"

definition v3cb_clean_session :: "bool \<Rightarrow> 'a v3_connect_builder_scheme \<Rightarrow> 'a v3_connect_builder_scheme" where
  "v3cb_clean_session clean b = (let flags = unwrap_or (v3cb_connect_flags_buf b) 0 in
     b\<lparr>v3cb_connect_flags_buf := Some (if clean then flags OR 0x02 else flags AND NOT 0x02)\<rparr>)"

definition v3cb_will_message ::
  "str \<Rightarrow> bytes \<Rightarrow> qos \<Rightarrow> bool \<Rightarrow> 'a v3_connect_builder_scheme \<Rightarrow> ('a v3_connect_builder_scheme, mqtt_error) result" where
  "v3cb_will_message topic payload qos retain b =
     res_bind (ms_new topic) (\<lambda>will_topic.
     res_bind (mb_new payload) (\<lambda>will_payload.
       let flags = unwrap_or (v3cb_connect_flags_buf b) 0x02;
           flags = flags OR 0x04;
           flags = flags OR push_bit 3 (qos_u8 qos);
           flags = (if retain then flags OR 0x20 else flags) in
       Ok (b\<lparr>v3cb_will_topic_buf := Some will_topic, v3cb_will_payload_buf := Some will_payload,
             v3cb_connect_flags_buf := Some flags\<rparr>)))"

definition v3cb_user_name :: "str \<Rightarrow> 'a v3_connect_builder_scheme \<Rightarrow> ('a v3_connect_builder_scheme, mqtt_error) result" where
  "v3cb_user_name name b =
     res_bind (ms_new name) (\<lambda>ms.
       Ok (b\<lparr>v3cb_user_name_buf := Some ms,
             v3cb_connect_flags_buf := Some (unwrap_or (v3cb_connect_flags_buf b) 0x02 OR 0x80)\<rparr>))"

definition v3cb_password :: "bytes \<Rightarrow> 'a v3_connect_builder_scheme \<Rightarrow> ('a v3_connect_builder_scheme, mqtt_error) result" where
  "v3cb_password pwd b =
     res_bind (mb_new pwd) (\<lambda>mb.
       Ok (b\<lparr>v3cb_password_buf := Some mb,
             v3cb_connect_flags_buf := Some (unwrap_or (v3cb_connect_flags_buf b) 0x02 OR 0x40)\<rparr>))"

definition v3cb_keep_alive :: "u16 \<Rightarrow> 'a v3_connect_builder_scheme \<Rightarrow> 'a v3_connect_builder_scheme" where
  "v3cb_keep_alive seconds b = b\<lparr>v3cb_keep_alive_buf := Some (to_be_bytes seconds)\<rparr>"

definition v3_connect_validate :: "v3_connect_builder \<Rightarrow> (unit, mqtt_error) result" where
  "v3_connect_validate b =
     (let flags = unwrap_or (v3cb_connect_flags_buf b) 0x02 in
      if cf_password flags \<and> \<not> cf_user_name flags then Err ProtocolError
      else if cf_will flags \<and> (v3cb_will_topic_buf b = None \<or> v3cb_will_payload_buf b = None)
      then Err MalformedPacket
      else Ok ())"

definition v3_connect_build :: "v3_connect_builder \<Rightarrow> (v3_connect, mqtt_error) result rust" where
  "v3_connect_build b =
     tbind (Ret (v3_connect_validate b)) (\<lambda>_.
     let connect_flags = unwrap_or (v3cb_connect_flags_buf b) 0x02;
         keep_alive_buf = unwrap_or (v3cb_keep_alive_buf b) [0, 0];
         client_id = unwrap_or (v3cb_client_id_buf b) ms_default;
         will_topic = unwrap_or (v3cb_will_topic_buf b) ms_default;
         will_payload = unwrap_or (v3cb_will_payload_buf b) mb_default;
         user_name = unwrap_or (v3cb_user_name_buf b) ms_default;
         password = unwrap_or (v3cb_password_buf b) mb_default;
         remaining = 6 + 1 + 1 + 2 + ms_size client_id
           + (if cf_will connect_flags then ms_size will_topic + mb_size will_payload else 0)
           + (if cf_user_name connect_flags then ms_size user_name else 0)
           + (if cf_password connect_flags then mb_size password else 0) in
     rbind (vbi_of remaining) (\<lambda>rl.
       Ret (Ok \<lparr>v3c_fixed_header = fixed_header_as_u8 FH_Connect, v3c_remaining_length = rl,
                v3c_protocol_name = mqtt_protocol_name, v3c_protocol_version_buf = 0x04,
                v3c_connect_flags_buf = connect_flags, v3c_keep_alive_buf = keep_alive_buf,
                v3c_client_id_buf = client_id, v3c_will_topic_buf = will_topic,
                v3c_will_payload_buf = will_payload, v3c_user_name_buf = user_name,
                v3c_password_buf = password\<rparr>)))"

section \<open>The packet meets its contract\<close>

definition v3_connect_fields :: "v3_connect \<Rightarrow> bytes" where
  "v3_connect_fields k =
     (if True then ms_to_continuous_buffer (v3c_client_id_buf k) else [])
     @ (if v3_will_flag k then ms_to_continuous_buffer (v3c_will_topic_buf k) else [])
     @ (if v3_will_flag k then mb_to_continuous_buffer (v3c_will_payload_buf k) else [])
     @ (if v3_user_name_flag k then ms_to_continuous_buffer (v3c_user_name_buf k) else [])
     @ (if v3_password_flag k then mb_to_continuous_buffer (v3c_password_buf k) else [])"

definition v3_connect_body :: "v3_connect \<Rightarrow> bytes" where
  "v3_connect_body k = v3c_protocol_name k @ v3c_protocol_version_buf k # v3c_connect_flags_buf k
     # v3c_keep_alive_buf k @ v3_connect_fields k"

definition v3_connect_inv :: "v3_connect \<Rightarrow> bool" where
  "v3_connect_inv k \<longleftrightarrow> v3c_fixed_header k = fixed_header_as_u8 FH_Connect
     \<and> v3c_protocol_name k = mqtt_protocol_name \<and> v3c_protocol_version_buf k = 0x04
     \<and> length (v3c_keep_alive_buf k) = 2 \<and> ms_inv (v3c_client_id_buf k)
     \<and> (v3_will_flag k \<longrightarrow> ms_inv (v3c_will_topic_buf k)) \<and> (\<not> v3_will_flag k \<longrightarrow> v3c_will_topic_buf k = ms_default)
     \<and> (v3_will_flag k \<longrightarrow> mb_inv (v3c_will_payload_buf k)) \<and> (\<not> v3_will_flag k \<longrightarrow> v3c_will_payload_buf k = mb_default)
     \<and> (v3_user_name_flag k \<longrightarrow> ms_inv (v3c_user_name_buf k)) \<and> (\<not> v3_user_name_flag k \<longrightarrow> v3c_user_name_buf k = ms_default)
     \<and> (v3_password_flag k \<longrightarrow> mb_inv (v3c_password_buf k)) \<and> (\<not> v3_password_flag k \<longrightarrow> v3c_password_buf k = mb_default)
     \<and> (v3_password_flag k \<longrightarrow> v3_user_name_flag k)
     \<and> v3c_remaining_length k = \<lparr>encoded = vbi_enc (length (v3_connect_body k))\<rparr>"

lemmas v3_flag_defs = v3_will_flag_def v3_user_name_flag_def v3_password_flag_def

lemma mb_buffer_length [simp]: "length (mb_to_continuous_buffer s) = mb_size s"
  by (simp add: mb_to_continuous_buffer_def mb_as_bytes_def mb_size_def)

lemma mqtt_protocol_name_length [simp]: "length mqtt_protocol_name = 6"
  by (simp add: mqtt_protocol_name_def)

lemma v3_connect_body_bound: "v3_connect_inv k \<Longrightarrow> length (v3_connect_body k) \<le> 10 + 5 * 65537"
  by (auto simp: v3_connect_inv_def v3_connect_body_def v3_connect_fields_def dest!: ms_size_bound mb_size_bound)

lemma or_err_Ok: "or_err dec e bs = Ok r \<longleftrightarrow> dec bs = Ok r"
  by (simp add: or_err_def split: result.splits)

interpretation ms_or_err: strict_codec ms_inv ms_to_continuous_buffer "or_err ms_decode err" for err
  by unfold_locales (auto simp: or_err_Ok ms_codec.dec_enc dest: ms_codec.dec_bounds ms_strict.dec_len)

interpretation mb_or_err: strict_codec mb_inv mb_to_continuous_buffer "or_err mb_decode err" for err
  by unfold_locales (auto simp: or_err_Ok mb_codec.dec_enc dest: mb_codec.dec_bounds mb_strict.dec_len)

text \<open>The fixed part of a CONNECT: its bytes are read within the data.\<close>

lemma connect_head:
  assumes "\<And>name version connect_flags keep_alive. 10 \<le> length data \<Longrightarrow>
      body name version connect_flags keep_alive = body' name version connect_flags keep_alive"
  shows "(if length data < 6 then Ret (Err MalformedPacket)
      else rbind (idx_all data [0, 1, 2, 3, 4, 5]) (\<lambda>protocol_name.
      if protocol_name \<noteq> mqtt_protocol_name then Ret (Err ProtocolError)
      else if length data < 7 then Ret (Err MalformedPacket)
      else rbind (idx data 6) (\<lambda>protocol_version.
      if protocol_version \<noteq> v then Ret (Err UnsupportedProtocolVersion)
      else if length data < 8 then Ret (Err MalformedPacket)
      else rbind (idx data 7) (\<lambda>connect_flags.
      if length data < 10 then Ret (Err MalformedPacket)
      else rbind (idx_all data [8, 9]) (\<lambda>keep_alive_buf.
        body protocol_name protocol_version connect_flags keep_alive_buf)))))
    = (if length data < 6 then Ret (Err MalformedPacket)
      else let protocol_name = take 6 data in
      if protocol_name \<noteq> mqtt_protocol_name then Ret (Err ProtocolError)
      else if length data < 7 then Ret (Err MalformedPacket)
      else let protocol_version = data ! 6 in
      if protocol_version \<noteq> v then Ret (Err UnsupportedProtocolVersion)
      else if length data < 8 then Ret (Err MalformedPacket)
      else let connect_flags = data ! 7 in
      if length data < 10 then Ret (Err MalformedPacket)
      else let keep_alive_buf = take 2 (drop 8 data) in
        body' protocol_name protocol_version connect_flags keep_alive_buf)"
proof -
  have e: "[0..<6] = [0, 1, 2, 3, 4, 5 :: nat]" "[8..<10] = [8, 9 :: nat]" by code_simp+
  have "6 \<le> length data \<Longrightarrow> idx_all data [0, 1, 2, 3, 4, 5] = Ret (take 6 data)"
    using idx_all_upt [of 0 6 data] by (simp add: e del: idx_all.simps upt_rec_numeral)
  moreover have "10 \<le> length data \<Longrightarrow> idx_all data [8, 9] = Ret (take 2 (drop 8 data))"
    using idx_all_upt [of 8 2 data] by (simp add: e del: idx_all.simps upt_rec_numeral)
  ultimately show ?thesis using assms by (simp add: Let_def del: idx_all.simps)
qed

lemma v3_connect_parse_eq:
  "v3_connect_parse flags data =
     (if length data < 6 then Ret (Err MalformedPacket)
      else let protocol_name = take 6 data in
      if protocol_name \<noteq> mqtt_protocol_name then Ret (Err ProtocolError)
      else if length data < 7 then Ret (Err MalformedPacket)
      else let protocol_version = data ! 6 in
      if protocol_version \<noteq> 0x04 then Ret (Err UnsupportedProtocolVersion)
      else if length data < 8 then Ret (Err MalformedPacket)
      else let connect_flags = data ! 7 in
      if length data < 10 then Ret (Err MalformedPacket)
      else let keep_alive_buf = take 2 (drop 8 data);
        will_flag = cf_will connect_flags;
        user_name_flag = cf_user_name connect_flags;
        password_flag = cf_password connect_flags in
      tbind (Ret (field_if True (or_err ms_decode ClientIdentifierNotValid) ms_default data 10)) (\<lambda>(client_id, cursor).
      tbind (Ret (field_if will_flag ms_decode ms_default data cursor)) (\<lambda>(will_topic, cursor).
      tbind (Ret (field_if will_flag mb_decode mb_default data cursor)) (\<lambda>(will_payload, cursor).
      tbind (Ret (field_if user_name_flag (or_err ms_decode BadUserNameOrPassword) ms_default data cursor)) (\<lambda>(user_name, cursor).
      tbind (Ret (field_if password_flag (or_err mb_decode BadUserNameOrPassword) mb_default data cursor)) (\<lambda>(password, cursor).
      if password_flag \<and> \<not> user_name_flag then Ret (Err ProtocolError)
      else rbind (vbi_of cursor) (\<lambda>rl.
        Ret (Ok (\<lparr>v3c_fixed_header = fixed_header_as_u8 FH_Connect, v3c_remaining_length = rl,
                  v3c_protocol_name = protocol_name, v3c_protocol_version_buf = protocol_version,
                  v3c_connect_flags_buf = connect_flags, v3c_keep_alive_buf = keep_alive_buf,
                  v3c_client_id_buf = client_id, v3c_will_topic_buf = will_topic,
                  v3c_will_payload_buf = will_payload, v3c_user_name_buf = user_name,
                  v3c_password_buf = password\<rparr>, cursor)))))))))"
proof -
  note steps = ms_or_err.field_step mb_or_err.field_step ms_codec.field_step mb_codec.field_step
  show ?thesis
    unfolding v3_connect_parse_def rs_ms_decode rs_mb_decode rs_or_err
    by (rule connect_head) (simp only: Let_def, (intro steps; simp)+)
qed

lemma v3_connect_body_head:
  assumes "v3_connect_inv k"
  shows "take 6 (v3_connect_body k) = mqtt_protocol_name" "v3_connect_body k ! 6 = 0x04"
    "v3_connect_body k ! 7 = v3c_connect_flags_buf k" "take 2 (drop 8 (v3_connect_body k)) = v3c_keep_alive_buf k"
    "drop 10 (v3_connect_body k) = v3_connect_fields k" "10 \<le> length (v3_connect_body k)"
  using assms by (simp_all add: v3_connect_inv_def v3_connect_body_def nth_append numeral_eq_Suc)

lemma v3_connect_parse_steps:
  assumes head: "take 6 data = mqtt_protocol_name" "data ! 6 = 0x04" "10 \<le> length data"
    and f1: "field_if True (or_err ms_decode ClientIdentifierNotValid) ms_default data 10 = Ok (cid, c1)"
    and f2: "field_if (cf_will (data ! 7)) ms_decode ms_default data c1 = Ok (wt, c2)"
    and f3: "field_if (cf_will (data ! 7)) mb_decode mb_default data c2 = Ok (wp, c3)"
    and f4: "field_if (cf_user_name (data ! 7)) (or_err ms_decode BadUserNameOrPassword) ms_default data c3 = Ok (un, c4)"
    and f5: "field_if (cf_password (data ! 7)) (or_err mb_decode BadUserNameOrPassword) mb_default data c4 = Ok (pw, c5)"
    and fl: "cf_password (data ! 7) \<longrightarrow> cf_user_name (data ! 7)" and c5: "c5 < 268435456"
  shows "v3_connect_parse flags data = Ret (Ok (\<lparr>v3c_fixed_header = fixed_header_as_u8 FH_Connect,
    v3c_remaining_length = \<lparr>encoded = vbi_enc c5\<rparr>, v3c_protocol_name = mqtt_protocol_name,
    v3c_protocol_version_buf = 0x04, v3c_connect_flags_buf = data ! 7, v3c_keep_alive_buf = take 2 (drop 8 data),
    v3c_client_id_buf = cid, v3c_will_topic_buf = wt, v3c_will_payload_buf = wp, v3c_user_name_buf = un,
    v3c_password_buf = pw\<rparr>, c5))"
  using head(3) fl by (simp add: v3_connect_parse_eq Let_def head(1,2) f1 f2 f3 f4 f5 vbi_of_Ret [OF c5])

lemma v3_connect_parse_body:
  assumes inv: "v3_connect_inv k"
  shows "v3_connect_parse flags (v3_connect_body k) = Ret (Ok (k, length (v3_connect_body k)))"
proof -
  let ?D = "v3_connect_body k"
  note h = v3_connect_body_head [OF inv]
  have d0: "drop 10 ?D = (if True then ms_to_continuous_buffer (v3c_client_id_buf k) else []) @
    (if v3_will_flag k then ms_to_continuous_buffer (v3c_will_topic_buf k) else [])
     @ (if v3_will_flag k then mb_to_continuous_buffer (v3c_will_payload_buf k) else [])
     @ (if v3_user_name_flag k then ms_to_continuous_buffer (v3c_user_name_buf k) else [])
     @ (if v3_password_flag k then mb_to_continuous_buffer (v3c_password_buf k) else []) @ []"
    using h(5) by (simp add: v3_connect_fields_def)
  note i = inv [unfolded v3_connect_inv_def]
  let ?c1 = "10 + length (if True then ms_to_continuous_buffer (v3c_client_id_buf k) else [])"
  let ?c2 = "?c1 + length (if v3_will_flag k then ms_to_continuous_buffer (v3c_will_topic_buf k) else [])"
  let ?c3 = "?c2 + length (if v3_will_flag k then mb_to_continuous_buffer (v3c_will_payload_buf k) else [])"
  let ?c4 = "?c3 + length (if v3_user_name_flag k then ms_to_continuous_buffer (v3c_user_name_buf k) else [])"
  let ?c5 = "?c4 + length (if v3_password_flag k then mb_to_continuous_buffer (v3c_password_buf k) else [])"
  have f1: "field_if True (or_err ms_decode ClientIdentifierNotValid) ms_default ?D 10 = Ok (v3c_client_id_buf k, ?c1)"
    using i by (intro ms_or_err.field_enc(1) [OF _ _ d0]) simp_all
  note d1 = ms_codec.field_enc(2) [OF _ refl d0]
  have f2: "field_if (v3_will_flag k) ms_decode ms_default ?D ?c1 = Ok (v3c_will_topic_buf k, ?c2)"
    using i by (intro ms_codec.field_enc(1) [OF _ _ d1]) simp_all
  note d2 = ms_codec.field_enc(2) [OF _ refl d1]
  have f3: "field_if (v3_will_flag k) mb_decode mb_default ?D ?c2 = Ok (v3c_will_payload_buf k, ?c3)"
    using i by (intro mb_codec.field_enc(1) [OF _ _ d2]) simp_all
  note d3 = mb_codec.field_enc(2) [OF _ refl d2]
  have f4: "field_if (v3_user_name_flag k) (or_err ms_decode BadUserNameOrPassword) ms_default ?D ?c3 = Ok (v3c_user_name_buf k, ?c4)"
    using i by (intro ms_or_err.field_enc(1) [OF _ _ d3]) simp_all
  note d4 = ms_codec.field_enc(2) [OF _ refl d3]
  have f5: "field_if (v3_password_flag k) (or_err mb_decode BadUserNameOrPassword) mb_default ?D ?c4 = Ok (v3c_password_buf k, ?c5)"
    using i by (intro mb_or_err.field_enc(1) [OF _ _ d4]) simp_all
  have "?c5 = length ?D"
    using arg_cong [OF h(5), of length] h(6) by (simp add: v3_connect_fields_def)
  with f5 have f5': "field_if (v3_password_flag k) (or_err mb_decode BadUserNameOrPassword) mb_default ?D ?c4 = Ok (v3c_password_buf k, length ?D)"
    by simp
  have lt: "length ?D < 268435456" using v3_connect_body_bound [OF inv] by simp
  have pw: "cf_password (v3c_connect_flags_buf k) \<longrightarrow> cf_user_name (v3c_connect_flags_buf k)" using i by (simp add: v3_flag_defs)
  note st = v3_connect_parse_steps [OF h(1,2,6) f1, unfolded h(3), OF f2 [unfolded v3_flag_defs]
    f3 [unfolded v3_flag_defs] f4 [unfolded v3_flag_defs] f5' [unfolded v3_flag_defs] pw lt, where flags = flags]
  show ?thesis unfolding st by (simp, rule v3_connect.equality) (use i h(4) in simp_all)
qed

text \<open>What the five field reads give, in one place: the values and the final cursor.\<close>

definition v3_fields_read :: "bytes \<Rightarrow> mqtt_string \<Rightarrow> mqtt_string \<Rightarrow> mqtt_binary \<Rightarrow> mqtt_string \<Rightarrow> mqtt_binary \<Rightarrow> nat \<Rightarrow> bool" where
  "v3_fields_read data cid wt wp un pw n \<longleftrightarrow> (\<exists>c1 c2 c3 c4.
     field_if True (or_err ms_decode ClientIdentifierNotValid) ms_default data 10 = Ok (cid, c1)
     \<and> field_if (cf_will (data ! 7)) ms_decode ms_default data c1 = Ok (wt, c2)
     \<and> field_if (cf_will (data ! 7)) mb_decode mb_default data c2 = Ok (wp, c3)
     \<and> field_if (cf_user_name (data ! 7)) (or_err ms_decode BadUserNameOrPassword) ms_default data c3 = Ok (un, c4)
     \<and> field_if (cf_password (data ! 7)) (or_err mb_decode BadUserNameOrPassword) mb_default data c4 = Ok (pw, n)
     \<and> (cf_password (data ! 7) \<longrightarrow> cf_user_name (data ! 7)))"

lemma v3_connect_parse_OkD:
  assumes "v3_connect_parse flags data = Ret (Ok (k, n))"
  obtains cid wt wp un pw where "v3_fields_read data cid wt wp un pw n"
    "take 6 data = mqtt_protocol_name" "data ! 6 = 0x04" "10 \<le> length data"
  using assms by (auto simp: v3_connect_parse_eq v3_fields_read_def Let_def tbind_eq_Ok rbind_eq_Ret split: if_splits)

lemma v3_connect_parse_PanicD:
  assumes "v3_connect_parse flags data = Panic x"
  obtains cid wt wp un pw n where "v3_fields_read data cid wt wp un pw n" "10 \<le> length data" "vbi_of n = Panic x"
  using assms by (auto simp: v3_connect_parse_eq v3_fields_read_def Let_def tbind_eq_Panic rbind_eq_Panic split: if_splits)

lemma v3_fields_read_bounds:
  assumes "v3_fields_read data cid wt wp un pw n" and h: "10 \<le> length data"
  shows "n \<le> length data \<and> ms_inv cid
     \<and> (cf_will (data ! 7) \<longrightarrow> ms_inv wt) \<and> (\<not> cf_will (data ! 7) \<longrightarrow> wt = ms_default)
     \<and> (cf_will (data ! 7) \<longrightarrow> mb_inv wp) \<and> (\<not> cf_will (data ! 7) \<longrightarrow> wp = mb_default)
     \<and> (cf_user_name (data ! 7) \<longrightarrow> ms_inv un) \<and> (\<not> cf_user_name (data ! 7) \<longrightarrow> un = ms_default)
     \<and> (cf_password (data ! 7) \<longrightarrow> mb_inv pw) \<and> (\<not> cf_password (data ! 7) \<longrightarrow> pw = mb_default)
     \<and> (cf_password (data ! 7) \<longrightarrow> cf_user_name (data ! 7))
     \<and> n = 10 + (ms_size cid + ((if cf_will (data ! 7) then ms_size wt else 0) + ((if cf_will (data ! 7) then mb_size wp else 0)
       + ((if cf_user_name (data ! 7) then ms_size un else 0) + (if cf_password (data ! 7) then mb_size pw else 0)))))"
proof -
  from assms(1) obtain c1 c2 c3 c4 where
    f: "field_if True (or_err ms_decode ClientIdentifierNotValid) ms_default data 10 = Ok (cid, c1)"
    "field_if (cf_will (data ! 7)) ms_decode ms_default data c1 = Ok (wt, c2)"
    "field_if (cf_will (data ! 7)) mb_decode mb_default data c2 = Ok (wp, c3)"
    "field_if (cf_user_name (data ! 7)) (or_err ms_decode BadUserNameOrPassword) ms_default data c3 = Ok (un, c4)"
    "field_if (cf_password (data ! 7)) (or_err mb_decode BadUserNameOrPassword) mb_default data c4 = Ok (pw, n)"
    "cf_password (data ! 7) \<longrightarrow> cf_user_name (data ! 7)"
    by (auto simp: v3_fields_read_def)
  have l: "length (if b then x else []) = (if b then length x else 0)" for b and x :: bytes by simp
  note o1 = ms_or_err.field_OkD [OF f(1) h, unfolded l ms_buffer_length]
  note o2 = ms_strict.field_OkD [OF f(2) o1 [THEN conjunct2, THEN conjunct2, THEN conjunct2], unfolded l ms_buffer_length]
  note o3 = mb_strict.field_OkD [OF f(3) o2 [THEN conjunct2, THEN conjunct2, THEN conjunct2], unfolded l mb_buffer_length]
  note o4 = ms_or_err.field_OkD [OF f(4) o3 [THEN conjunct2, THEN conjunct2, THEN conjunct2], unfolded l ms_buffer_length]
  note o5 = mb_or_err.field_OkD [OF f(5) o4 [THEN conjunct2, THEN conjunct2, THEN conjunct2], unfolded l mb_buffer_length]
  have "n = 10 + (ms_size cid + ((if cf_will (data ! 7) then ms_size wt else 0) + ((if cf_will (data ! 7) then mb_size wp else 0)
       + ((if cf_user_name (data ! 7) then ms_size un else 0) + (if cf_password (data ! 7) then mb_size pw else 0)))))"
    using o1 o2 o3 o4 o5 by (elim conjE) (simp only: if_True add.assoc)
  with o1 o2 o3 o4 o5 f(6) show ?thesis by blast
qed

lemma v3_connect_parse_inv:
  assumes len: "length data < 268435456" and p: "v3_connect_parse flags data = Ret (Ok (k, n))"
  shows "v3_connect_inv k \<and> n \<le> length data"
proof -
  from p obtain cid wt wp un pw where
    f: "v3_fields_read data cid wt wp un pw n" and h: "take 6 data = mqtt_protocol_name" "data ! 6 = 0x04" "10 \<le> length data"
    by (rule v3_connect_parse_OkD)
  note o = v3_fields_read_bounds [OF f h(3)]
  have n: "n < 268435456" using o len by simp
  have k: "k = \<lparr>v3c_fixed_header = fixed_header_as_u8 FH_Connect,
    v3c_remaining_length = \<lparr>encoded = vbi_enc n\<rparr>, v3c_protocol_name = mqtt_protocol_name,
    v3c_protocol_version_buf = 0x04, v3c_connect_flags_buf = data ! 7, v3c_keep_alive_buf = take 2 (drop 8 data),
    v3c_client_id_buf = cid, v3c_will_topic_buf = wt, v3c_will_payload_buf = wp, v3c_user_name_buf = un,
    v3c_password_buf = pw\<rparr>"
    using f p v3_connect_parse_steps [OF h _ _ _ _ _ _ n, where flags = flags] unfolding v3_fields_read_def by fastforce
  have ka: "length (take 2 (drop 8 data)) = 2" using h(3) by simp
  have "length (v3_connect_body k) = n" using o ka by (simp add: k v3_connect_body_def v3_connect_fields_def v3_flag_defs)
  then show ?thesis using o ka unfolding v3_connect_inv_def by (simp add: k v3_flag_defs)
qed

lemma v3_connect_buf:
  "v3_connect_inv k \<Longrightarrow> v3_connect_to_continuous_buffer k =
     v3c_fixed_header k # vbi_enc (length (v3_connect_body k)) @ v3_connect_body k"
  by (simp add: v3_connect_inv_def v3_connect_to_continuous_buffer_def v3_connect_body_def v3_connect_fields_def)

interpretation v3_connect: packet_codec v3_connect_inv v3c_fixed_header v3_connect_body
    v3_connect_to_continuous_buffer v3_connect_size v3_connect_parse
proof (unfold_locales, goal_cases)
  case (1 k)
  then show ?case by (rule v3_connect_buf)
next
  case (2 k)
  then show ?case using v3_connect_body_bound by fastforce
next
  case (3 k)
  have "length (v3_connect_body k) < 268435456" using v3_connect_body_bound [OF 3] by simp
  then show ?case
    using 3 by (simp add: v3_connect_buf v3_connect_size_def packet_size_of_enc v3_connect_inv_def)
next
  case (4 k)
  then show ?case by (rule v3_connect_parse_body)
next
  case (6 bs flags k n)
  then show ?case by (rule v3_connect_parse_inv)
next
  case (5 bs flags)
  show ?case
  proof (cases "v3_connect_parse flags bs")
    case (Panic x)
    then obtain cid wt wp un pw n where n: "v3_fields_read bs cid wt wp un pw n" "10 \<le> length bs" "vbi_of n = Panic x"
      by (rule v3_connect_parse_PanicD)
    have "n < 268435456" using v3_fields_read_bounds [OF n(1,2)] 5 by simp
    then show ?thesis using n(3) by (simp add: vbi_of_Ret)
  qed simp
qed

section \<open>The builder\<close>

text \<open>
  A builder is consistent when a field is set exactly if its flag is, which every setter
  keeps; what it builds then meets the invariant of the packet.
\<close>

definition v3cb_inv :: "'a v3_connect_builder_scheme \<Rightarrow> bool" where
  "v3cb_inv b \<longleftrightarrow>
     pred_option (\<lambda>ka. length ka = 2) (v3cb_keep_alive_buf b) \<and> pred_option ms_inv (v3cb_client_id_buf b)
     \<and> pred_option ms_inv (v3cb_will_topic_buf b) \<and> pred_option mb_inv (v3cb_will_payload_buf b)
     \<and> pred_option ms_inv (v3cb_user_name_buf b) \<and> pred_option mb_inv (v3cb_password_buf b)
     \<and> (v3cb_will_topic_buf b \<noteq> None \<longleftrightarrow> cf_will (unwrap_or (v3cb_connect_flags_buf b) 0x02))
     \<and> (v3cb_will_payload_buf b \<noteq> None \<longleftrightarrow> cf_will (unwrap_or (v3cb_connect_flags_buf b) 0x02))
     \<and> (v3cb_user_name_buf b \<noteq> None \<longleftrightarrow> cf_user_name (unwrap_or (v3cb_connect_flags_buf b) 0x02))
     \<and> (v3cb_password_buf b \<noteq> None \<longleftrightarrow> cf_password (unwrap_or (v3cb_connect_flags_buf b) 0x02))"

text \<open>Setting a bit leaves the other bits as they are.\<close>

lemma and_exp_eq_0: "w AND 2 ^ n = 0 \<longleftrightarrow> \<not> bit w n" for w :: "'a::len word"
  by (metis and_exp_eq_0_iff_not_bit)

lemma cf_bit: "cf_will f \<longleftrightarrow> bit f 2" "cf_password f \<longleftrightarrow> bit f 6" "cf_user_name f \<longleftrightarrow> bit f 7"
  using and_exp_eq_0 [of f 2] and_exp_eq_0 [of f 6] and_exp_eq_0 [of f 7]
  by (simp_all add: cf_will_def cf_password_def cf_user_name_def)

lemma cf_set [simp]:
  "cf_will (f OR 0x80) = cf_will f" "cf_will (f OR 0x40) = cf_will f" "cf_will (f OR 0x04)"
  "cf_user_name (f OR 0x80)" "cf_user_name (f OR 0x40) = cf_user_name f"
  "cf_password (f OR 0x80) = cf_password f" "cf_password (f OR 0x40)"
  by (simp_all add: cf_bit bit_or_iff)

lemma cf_will_bits [simp]:
  "cf_will ((f OR 0x04) OR push_bit 3 (qos_u8 q))" "cf_will (((f OR 0x04) OR push_bit 3 (qos_u8 q)) OR 0x20)"
  "cf_user_name ((f OR 0x04) OR push_bit 3 (qos_u8 q)) = cf_user_name f"
  "cf_user_name (((f OR 0x04) OR push_bit 3 (qos_u8 q)) OR 0x20) = cf_user_name f"
  "cf_password ((f OR 0x04) OR push_bit 3 (qos_u8 q)) = cf_password f"
  "cf_password (((f OR 0x04) OR push_bit 3 (qos_u8 q)) OR 0x20) = cf_password f"
  by (cases q; simp add: cf_bit bit_or_iff)+

lemma cf_clean [simp]:
  "cf_will (f OR 0x02) = cf_will f" "cf_user_name (f OR 0x02) = cf_user_name f" "cf_password (f OR 0x02) = cf_password f"
  "cf_will (f AND - 3) = cf_will f" "cf_user_name (f AND - 3) = cf_user_name f" "cf_password (f AND - 3) = cf_password f"
  by (simp_all add: cf_bit bit_or_iff bit_and_iff)

lemma cf_default: "cf_will (unwrap_or x 0) = cf_will (unwrap_or x 0x02)"
    "cf_user_name (unwrap_or x 0) = cf_user_name (unwrap_or x 0x02)"
    "cf_password (unwrap_or x 0) = cf_password (unwrap_or x 0x02)"
  by (cases x; simp add: cf_bit)+

lemma ms_new_inv: "ms_new s = Ok m \<Longrightarrow> utf8_valid s \<Longrightarrow> ms_inv m"
  by (auto simp: ms_new_def ms_inv_def Let_def split: if_splits)

lemma mb_new_inv: "mb_new s = Ok m \<Longrightarrow> mb_inv m"
  by (auto simp: mb_new_def mb_inv_def Let_def split: if_splits)

lemma v3_connect_builder_inv: "v3cb_inv v3_connect_builder"
  by (simp add: v3_connect_builder_def v3cb_inv_def cf_will_def cf_password_def cf_user_name_def)

lemma v3cb_client_id_inv:
  "v3cb_client_id s b = Ok b' \<Longrightarrow> utf8_valid s \<Longrightarrow> v3cb_inv b \<Longrightarrow> v3cb_inv b'"
  by (auto simp: v3cb_client_id_def v3cb_inv_def Let_def res_bind_eq_Ok dest: ms_new_inv)

lemma v3cb_keep_alive_inv: "v3cb_inv b \<Longrightarrow> v3cb_inv (v3cb_keep_alive s b)"
  by (simp add: v3cb_keep_alive_def v3cb_inv_def)

lemma v3cb_user_name_inv:
  "v3cb_user_name s b = Ok b' \<Longrightarrow> utf8_valid s \<Longrightarrow> v3cb_inv b \<Longrightarrow> v3cb_inv b'"
  by (auto simp: v3cb_user_name_def v3cb_inv_def Let_def res_bind_eq_Ok cf_bit bit_simps dest: ms_new_inv)

lemma v3cb_password_inv:
  "v3cb_password s b = Ok b' \<Longrightarrow> v3cb_inv b \<Longrightarrow> v3cb_inv b'"
  by (auto simp: v3cb_password_def v3cb_inv_def Let_def res_bind_eq_Ok cf_bit bit_simps dest: mb_new_inv)

lemma v3cb_will_message_inv:
  assumes "v3cb_will_message t p q r b = Ok b'" and t: "utf8_valid t" and b: "v3cb_inv b"
  shows "v3cb_inv b'"
proof -
  define f where "f = unwrap_or (v3cb_connect_flags_buf b) 0x02"
  define g where "g = (let g = (f OR 0x04) OR push_bit 3 (qos_u8 q) in if r then g OR 0x20 else g)"
  have g: "cf_will g" "cf_user_name g = cf_user_name f" "cf_password g = cf_password f"
    by (simp_all only: g_def Let_def cf_will_bits split: if_split) simp_all
  obtain wt wp where "ms_new t = Ok wt" "mb_new p = Ok wp"
    and b': "b' = b\<lparr>v3cb_will_topic_buf := Some wt, v3cb_will_payload_buf := Some wp, v3cb_connect_flags_buf := Some g\<rparr>"
    using assms(1) by (auto simp only: v3cb_will_message_def res_bind_eq_Ok Let_def g_def f_def result.inject)
  then show ?thesis
    using b ms_new_inv [OF _ t] mb_new_inv by (simp add: v3cb_inv_def b' g) (simp add: f_def)
qed

lemma v3cb_clean_session_inv: "v3cb_inv b \<Longrightarrow> v3cb_inv (v3cb_clean_session c b)"
  by (simp add: v3cb_clean_session_def v3cb_inv_def Let_def cf_default)

lemma unwrap_or_pred: "pred_option P x \<Longrightarrow> P d \<Longrightarrow> P (unwrap_or x d)"
  by (cases x) simp_all

lemma unwrap_or_None: "x = None \<Longrightarrow> unwrap_or x d = d"
  by simp

lemma v3_connect_build_outcome:
  assumes b: "v3cb_inv b"
  shows "(\<exists>k. v3_connect_build b = Ret (Ok k) \<and> v3_connect_inv k) \<or>
    v3_connect_build b = Ret (Err ProtocolError) \<and> v3cb_password_buf b \<noteq> None \<and> v3cb_user_name_buf b = None"
proof (cases "v3_connect_validate b")
  case (Err e)
  then show ?thesis
    using b by (auto simp: v3_connect_validate_def v3_connect_build_def v3cb_inv_def Let_def split: if_splits)
next
  case (Ok u)
  let ?f = "unwrap_or (v3cb_connect_flags_buf b) 0x02"
  have pw: "cf_password ?f \<longrightarrow> cf_user_name ?f"
    using Ok by (simp add: v3_connect_validate_def Let_def split: if_splits)
  have inv: "length (unwrap_or (v3cb_keep_alive_buf b) [0, 0]) = 2" "ms_inv (unwrap_or (v3cb_client_id_buf b) ms_default)"
    "ms_inv (unwrap_or (v3cb_will_topic_buf b) ms_default)" "mb_inv (unwrap_or (v3cb_will_payload_buf b) mb_default)"
    "ms_inv (unwrap_or (v3cb_user_name_buf b) ms_default)" "mb_inv (unwrap_or (v3cb_password_buf b) mb_default)"
    using b by (auto simp: v3cb_inv_def ms_default_new mb_default_new intro: unwrap_or_pred)
  have none: "\<not> cf_will ?f \<longrightarrow> v3cb_will_topic_buf b = None \<and> v3cb_will_payload_buf b = None"
    "\<not> cf_user_name ?f \<longrightarrow> v3cb_user_name_buf b = None" "\<not> cf_password ?f \<longrightarrow> v3cb_password_buf b = None"
    using b by (auto simp: v3cb_inv_def)
  define k where "k = \<lparr>v3c_fixed_header = fixed_header_as_u8 FH_Connect, v3c_remaining_length = \<lparr>encoded = []\<rparr>,
    v3c_protocol_name = mqtt_protocol_name, v3c_protocol_version_buf = 0x04, v3c_connect_flags_buf = ?f,
    v3c_keep_alive_buf = unwrap_or (v3cb_keep_alive_buf b) [0, 0], v3c_client_id_buf = unwrap_or (v3cb_client_id_buf b) ms_default,
    v3c_will_topic_buf = unwrap_or (v3cb_will_topic_buf b) ms_default,
    v3c_will_payload_buf = unwrap_or (v3cb_will_payload_buf b) mb_default,
    v3c_user_name_buf = unwrap_or (v3cb_user_name_buf b) ms_default,
    v3c_password_buf = unwrap_or (v3cb_password_buf b) mb_default\<rparr>"
  have len: "6 + 1 + 1 + 2 + ms_size (unwrap_or (v3cb_client_id_buf b) ms_default)
      + (if cf_will ?f then ms_size (unwrap_or (v3cb_will_topic_buf b) ms_default) + mb_size (unwrap_or (v3cb_will_payload_buf b) mb_default) else 0)
      + (if cf_user_name ?f then ms_size (unwrap_or (v3cb_user_name_buf b) ms_default) else 0)
      + (if cf_password ?f then mb_size (unwrap_or (v3cb_password_buf b) mb_default) else 0) = length (v3_connect_body k)"
    using inv(1) by (simp add: k_def v3_connect_body_def v3_connect_fields_def v3_flag_defs)
  have k: "v3_connect_build b = rbind (vbi_of (length (v3_connect_body k))) (\<lambda>rl. Ret (Ok (k\<lparr>v3c_remaining_length := rl\<rparr>)))"
    unfolding len [symmetric] by (simp add: v3_connect_build_def Ok Let_def k_def)
  have k': "v3_connect_inv (k\<lparr>v3c_remaining_length := \<lparr>encoded = vbi_enc (length (v3_connect_body k))\<rparr>\<rparr>)"
    using inv none pw by (simp add: k_def v3_connect_inv_def v3_flag_defs v3_connect_body_def v3_connect_fields_def)
  have body: "v3_connect_body (k\<lparr>v3c_remaining_length := rl\<rparr>) = v3_connect_body k" for rl
    by (simp add: v3_connect_body_def v3_connect_fields_def v3_flag_defs)
  have "length (v3_connect_body k) < 268435456"
    using v3_connect_body_bound [OF k'] by (simp add: body)
  then show ?thesis using k k' by (simp add: vbi_of_Ret)
qed

section \<open>Properties\<close>

text \<open>
  A CONNECT packet built by a builder whose setters were used consistently survives the
  wire: building either fails because a password was given without a user name, or gives a
  packet whose encoding, fed to a fresh packet builder, yields one raw packet that parses
  back to the built packet.
\<close>

theorem v3_connect_build_wire:
  assumes "v3cb_inv b"
  shows "(v3_connect_build b = Ret (Err ProtocolError) \<and> v3cb_password_buf b \<noteq> None \<and> v3cb_user_name_buf b = None)
    \<or> (\<exists>k raw. v3_connect_build b = Ret (Ok k)
       \<and> feed pb_new (cursor_new (v3_connect_to_continuous_buffer k @ rest)) = Ret (Complete raw, pb_new,
           \<lparr>inner = v3_connect_to_continuous_buffer k @ rest, pos = v3_connect_size k\<rparr>)
       \<and> v3_connect_parse (rp_flags raw) (data_as_slice (rp_data raw)) = Ret (Ok (k, length (data_as_slice (rp_data raw)))))"
proof -
  consider "v3_connect_build b = Ret (Err ProtocolError) \<and> v3cb_password_buf b \<noteq> None \<and> v3cb_user_name_buf b = None"
    | k where "v3_connect_build b = Ret (Ok k)" "v3_connect_inv k"
    using v3_connect_build_outcome [OF assms] by blast
  then show ?thesis
  proof cases
    case (2 k)
    have "length (v3_connect_body k) < 2097152" using v3_connect_body_bound [OF 2(2)] by simp
    from v3_connect.wire_roundtrip [OF 2(2) this, of rest] 2(1) v3_connect.size_eq [OF 2(2)] show ?thesis by (elim exE conjE) auto
  qed simp
qed

theorem v3_connect_build_wire_witness:
  "\<exists>k raw. v3_connect_build v3_connect_builder = Ret (Ok k)
       \<and> feed pb_new (cursor_new (v3_connect_to_continuous_buffer k @ [])) = Ret (Complete raw, pb_new,
           \<lparr>inner = v3_connect_to_continuous_buffer k @ [], pos = v3_connect_size k\<rparr>)
       \<and> v3_connect_parse (rp_flags raw) (data_as_slice (rp_data raw)) = Ret (Ok (k, length (data_as_slice (rp_data raw))))"
  using v3_connect_build_wire [OF v3_connect_builder_inv, of "[]"] by (simp add: v3_connect_builder_def)

end
