(* ===== verification/Property.thy ===== *)
theory Property
  imports Mqtt_String Variable_Byte_Integer
begin

text \<open>
  \<^verbatim>\<open>src/mqtt/packet/property.rs\<close>: the 27 properties of MQTT v5.0.  The seven declaration macros
  of the source become seven parsers, encoders and size functions with the property's
  validator as argument; \<open>property_parse\<close> dispatches on the identifier byte.  A property value
  kept as big-endian bytes in the source is kept as the integer it denotes.  The property
  codec and the property-list codec meet the contract of \<open>codec\<close>.
\<close>

section \<open>Identifiers\<close>

datatype property_id =
    PI_PayloadFormatIndicator
  | PI_MessageExpiryInterval
  | PI_ContentType
  | PI_ResponseTopic
  | PI_CorrelationData
  | PI_SubscriptionIdentifier
  | PI_SessionExpiryInterval
  | PI_AssignedClientIdentifier
  | PI_ServerKeepAlive
  | PI_AuthenticationMethod
  | PI_AuthenticationData
  | PI_RequestProblemInformation
  | PI_WillDelayInterval
  | PI_RequestResponseInformation
  | PI_ResponseInformation
  | PI_ServerReference
  | PI_ReasonString
  | PI_ReceiveMaximum
  | PI_TopicAliasMaximum
  | PI_TopicAlias
  | PI_MaximumQos
  | PI_RetainAvailable
  | PI_UserProperty
  | PI_MaximumPacketSize
  | PI_WildcardSubscriptionAvailable
  | PI_SubscriptionIdentifierAvailable
  | PI_SharedSubscriptionAvailable

primrec property_id_u8 :: "property_id \<Rightarrow> u8" where
  "property_id_u8 PI_PayloadFormatIndicator = 1"
| "property_id_u8 PI_MessageExpiryInterval = 2"
| "property_id_u8 PI_ContentType = 3"
| "property_id_u8 PI_ResponseTopic = 8"
| "property_id_u8 PI_CorrelationData = 9"
| "property_id_u8 PI_SubscriptionIdentifier = 11"
| "property_id_u8 PI_SessionExpiryInterval = 17"
| "property_id_u8 PI_AssignedClientIdentifier = 18"
| "property_id_u8 PI_ServerKeepAlive = 19"
| "property_id_u8 PI_AuthenticationMethod = 21"
| "property_id_u8 PI_AuthenticationData = 22"
| "property_id_u8 PI_RequestProblemInformation = 23"
| "property_id_u8 PI_WillDelayInterval = 24"
| "property_id_u8 PI_RequestResponseInformation = 25"
| "property_id_u8 PI_ResponseInformation = 26"
| "property_id_u8 PI_ServerReference = 28"
| "property_id_u8 PI_ReasonString = 31"
| "property_id_u8 PI_ReceiveMaximum = 33"
| "property_id_u8 PI_TopicAliasMaximum = 34"
| "property_id_u8 PI_TopicAlias = 35"
| "property_id_u8 PI_MaximumQos = 36"
| "property_id_u8 PI_RetainAvailable = 37"
| "property_id_u8 PI_UserProperty = 38"
| "property_id_u8 PI_MaximumPacketSize = 39"
| "property_id_u8 PI_WildcardSubscriptionAvailable = 40"
| "property_id_u8 PI_SubscriptionIdentifierAvailable = 41"
| "property_id_u8 PI_SharedSubscriptionAvailable = 42"

definition property_id_all :: "property_id list" where
  "property_id_all = [PI_PayloadFormatIndicator, PI_MessageExpiryInterval, PI_ContentType, PI_ResponseTopic, PI_CorrelationData, PI_SubscriptionIdentifier, PI_SessionExpiryInterval, PI_AssignedClientIdentifier, PI_ServerKeepAlive, PI_AuthenticationMethod, PI_AuthenticationData, PI_RequestProblemInformation, PI_WillDelayInterval, PI_RequestResponseInformation, PI_ResponseInformation, PI_ServerReference, PI_ReasonString, PI_ReceiveMaximum, PI_TopicAliasMaximum, PI_TopicAlias, PI_MaximumQos, PI_RetainAvailable, PI_UserProperty, PI_MaximumPacketSize, PI_WildcardSubscriptionAvailable, PI_SubscriptionIdentifierAvailable, PI_SharedSubscriptionAvailable]"

definition property_id_try_from :: "u8 \<Rightarrow> property_id option" where
  "property_id_try_from = enum_try_from property_id_all property_id_u8"

interpretation property_id: wire_enum property_id_all property_id_u8
proof
  show "e \<in> set property_id_all" for e by (cases e) (simp_all add: property_id_all_def)
qed (simp add: property_id_all_def)

section \<open>The property type\<close>

datatype property =
    P_PayloadFormatIndicator u8
  | P_MessageExpiryInterval u32
  | P_ContentType mqtt_string
  | P_ResponseTopic mqtt_string
  | P_CorrelationData mqtt_binary
  | P_SubscriptionIdentifier variable_byte_integer
  | P_SessionExpiryInterval u32
  | P_AssignedClientIdentifier mqtt_string
  | P_ServerKeepAlive u16
  | P_AuthenticationMethod mqtt_string
  | P_AuthenticationData mqtt_binary
  | P_RequestProblemInformation u8
  | P_WillDelayInterval u32
  | P_RequestResponseInformation u8
  | P_ResponseInformation mqtt_string
  | P_ServerReference mqtt_string
  | P_ReasonString mqtt_string
  | P_ReceiveMaximum u16
  | P_TopicAliasMaximum u16
  | P_TopicAlias u16
  | P_MaximumQos u8
  | P_RetainAvailable u8
  | P_UserProperty "mqtt_string \<times> mqtt_string"
  | P_MaximumPacketSize u32
  | P_WildcardSubscriptionAvailable u8
  | P_SubscriptionIdentifierAvailable u8
  | P_SharedSubscriptionAvailable u8

type_synonym properties = "property list"

primrec property_id_of :: "property \<Rightarrow> property_id" where
  "property_id_of (P_PayloadFormatIndicator v) = PI_PayloadFormatIndicator"
| "property_id_of (P_MessageExpiryInterval v) = PI_MessageExpiryInterval"
| "property_id_of (P_ContentType v) = PI_ContentType"
| "property_id_of (P_ResponseTopic v) = PI_ResponseTopic"
| "property_id_of (P_CorrelationData v) = PI_CorrelationData"
| "property_id_of (P_SubscriptionIdentifier v) = PI_SubscriptionIdentifier"
| "property_id_of (P_SessionExpiryInterval v) = PI_SessionExpiryInterval"
| "property_id_of (P_AssignedClientIdentifier v) = PI_AssignedClientIdentifier"
| "property_id_of (P_ServerKeepAlive v) = PI_ServerKeepAlive"
| "property_id_of (P_AuthenticationMethod v) = PI_AuthenticationMethod"
| "property_id_of (P_AuthenticationData v) = PI_AuthenticationData"
| "property_id_of (P_RequestProblemInformation v) = PI_RequestProblemInformation"
| "property_id_of (P_WillDelayInterval v) = PI_WillDelayInterval"
| "property_id_of (P_RequestResponseInformation v) = PI_RequestResponseInformation"
| "property_id_of (P_ResponseInformation v) = PI_ResponseInformation"
| "property_id_of (P_ServerReference v) = PI_ServerReference"
| "property_id_of (P_ReasonString v) = PI_ReasonString"
| "property_id_of (P_ReceiveMaximum v) = PI_ReceiveMaximum"
| "property_id_of (P_TopicAliasMaximum v) = PI_TopicAliasMaximum"
| "property_id_of (P_TopicAlias v) = PI_TopicAlias"
| "property_id_of (P_MaximumQos v) = PI_MaximumQos"
| "property_id_of (P_RetainAvailable v) = PI_RetainAvailable"
| "property_id_of (P_UserProperty v) = PI_UserProperty"
| "property_id_of (P_MaximumPacketSize v) = PI_MaximumPacketSize"
| "property_id_of (P_WildcardSubscriptionAvailable v) = PI_WildcardSubscriptionAvailable"
| "property_id_of (P_SubscriptionIdentifierAvailable v) = PI_SubscriptionIdentifierAvailable"
| "property_id_of (P_SharedSubscriptionAvailable v) = PI_SharedSubscriptionAvailable"

section \<open>Validators and the parsers of the macros\<close>

definition check_none :: "'a::len word \<Rightarrow> (unit, mqtt_error) result" where
  "check_none v = Ok ()"

definition check_flag :: "'a::len word \<Rightarrow> (unit, mqtt_error) result" where
  "check_flag v = (if v > 1 then Err ProtocolError else Ok ())"

definition check_nonzero :: "'a::len word \<Rightarrow> (unit, mqtt_error) result" where
  "check_nonzero v = (if v = 0 then Err ProtocolError else Ok ())"

definition parse_u8 :: "(u8 \<Rightarrow> (unit, mqtt_error) result) \<Rightarrow> (u8 \<Rightarrow> property) \<Rightarrow> property decoder" where
  "parse_u8 validator mk bs =
     (if length bs < 1 then Err MalformedPacket
      else res_bind (validator (bs ! 0)) (\<lambda>_. Ok (mk (bs ! 0), 1)))"

definition parse_u16 :: "(u16 \<Rightarrow> (unit, mqtt_error) result) \<Rightarrow> (u16 \<Rightarrow> property) \<Rightarrow> property decoder" where
  "parse_u16 validator mk bs =
     (if length bs < 2 then Err MalformedPacket
      else let v = from_be_bytes (take 2 bs) in res_bind (validator v) (\<lambda>_. Ok (mk v, 2)))"

definition parse_u32 :: "(u32 \<Rightarrow> (unit, mqtt_error) result) \<Rightarrow> (u32 \<Rightarrow> property) \<Rightarrow> property decoder" where
  "parse_u32 validator mk bs =
     (if length bs < 4 then Err MalformedPacket
      else let v = from_be_bytes (take 4 bs) in res_bind (validator v) (\<lambda>_. Ok (mk v, 4)))"

definition parse_string :: "(mqtt_string \<Rightarrow> property) \<Rightarrow> property decoder" where
  "parse_string mk bs = res_bind (ms_decode bs) (\<lambda>(s, consumed). Ok (mk s, consumed))"

definition parse_binary :: "(mqtt_binary \<Rightarrow> property) \<Rightarrow> property decoder" where
  "parse_binary mk bs = res_bind (mb_decode bs) (\<lambda>(s, consumed). Ok (mk s, consumed))"

definition parse_string_pair :: "(mqtt_string \<times> mqtt_string \<Rightarrow> property) \<Rightarrow> property decoder" where
  "parse_string_pair mk bs =
     res_bind (ms_decode bs) (\<lambda>(key, key_consumed).
     res_bind (ms_decode (drop key_consumed bs)) (\<lambda>(val, val_consumed).
       Ok (mk (key, val), key_consumed + val_consumed)))"

definition parse_variable_integer ::
  "(u32 \<Rightarrow> (unit, mqtt_error) result) \<Rightarrow> (variable_byte_integer \<Rightarrow> property) \<Rightarrow> property decoder" where
  "parse_variable_integer validator mk bs =
     (case decode_stream bs of
        DecodeOk vbi len \<Rightarrow> res_bind (validator (to_u32 vbi)) (\<lambda>_. Ok (mk vbi, len))
      | DecodeIncomplete \<Rightarrow> Err InsufficientBytes
      | DecodeErr _ \<Rightarrow> Err InsufficientBytes)"

section \<open>Constructors, size, encoding, parsing\<close>

text \<open>The \<open>new\<close> functions of the macros.\<close>

definition new_checked :: "('v \<Rightarrow> (unit, mqtt_error) result) \<Rightarrow> ('v \<Rightarrow> property) \<Rightarrow> 'v \<Rightarrow> (property, mqtt_error) result" where
  "new_checked validator mk v = res_bind (validator v) (\<lambda>_. Ok (mk v))"

definition new_string :: "(mqtt_string \<Rightarrow> property) \<Rightarrow> str \<Rightarrow> (property, mqtt_error) result" where
  "new_string mk s = res_bind (ms_new s) (\<lambda>v. Ok (mk v))"

definition new_variable_integer ::
  "(u32 \<Rightarrow> (unit, mqtt_error) result) \<Rightarrow> (variable_byte_integer \<Rightarrow> property) \<Rightarrow> u32 \<Rightarrow> (property, mqtt_error) result" where
  "new_variable_integer validator mk v =
     res_bind (ok_or (from_u32 v) ValueOutOfRange) (\<lambda>vbi. res_bind (validator v) (\<lambda>_. Ok (mk vbi)))"

primrec property_size :: "property \<Rightarrow> nat" where
  "property_size (P_PayloadFormatIndicator v) = 1 + 1"
| "property_size (P_MessageExpiryInterval v) = 1 + 4"
| "property_size (P_ContentType v) = 1 + ms_size v"
| "property_size (P_ResponseTopic v) = 1 + ms_size v"
| "property_size (P_CorrelationData v) = 1 + mb_size v"
| "property_size (P_SubscriptionIdentifier v) = 1 + vbi_size v"
| "property_size (P_SessionExpiryInterval v) = 1 + 4"
| "property_size (P_AssignedClientIdentifier v) = 1 + ms_size v"
| "property_size (P_ServerKeepAlive v) = 1 + 2"
| "property_size (P_AuthenticationMethod v) = 1 + ms_size v"
| "property_size (P_AuthenticationData v) = 1 + mb_size v"
| "property_size (P_RequestProblemInformation v) = 1 + 1"
| "property_size (P_WillDelayInterval v) = 1 + 4"
| "property_size (P_RequestResponseInformation v) = 1 + 1"
| "property_size (P_ResponseInformation v) = 1 + ms_size v"
| "property_size (P_ServerReference v) = 1 + ms_size v"
| "property_size (P_ReasonString v) = 1 + ms_size v"
| "property_size (P_ReceiveMaximum v) = 1 + 2"
| "property_size (P_TopicAliasMaximum v) = 1 + 2"
| "property_size (P_TopicAlias v) = 1 + 2"
| "property_size (P_MaximumQos v) = 1 + 1"
| "property_size (P_RetainAvailable v) = 1 + 1"
| "property_size (P_UserProperty v) = 1 + ms_size (fst v) + ms_size (snd v)"
| "property_size (P_MaximumPacketSize v) = 1 + 4"
| "property_size (P_WildcardSubscriptionAvailable v) = 1 + 1"
| "property_size (P_SubscriptionIdentifierAvailable v) = 1 + 1"
| "property_size (P_SharedSubscriptionAvailable v) = 1 + 1"

primrec property_value :: "property \<Rightarrow> bytes" where
  "property_value (P_PayloadFormatIndicator v) = [v]"
| "property_value (P_MessageExpiryInterval v) = to_be_bytes v"
| "property_value (P_ContentType v) = ms_to_continuous_buffer v"
| "property_value (P_ResponseTopic v) = ms_to_continuous_buffer v"
| "property_value (P_CorrelationData v) = mb_to_continuous_buffer v"
| "property_value (P_SubscriptionIdentifier v) = vbi_to_continuous_buffer v"
| "property_value (P_SessionExpiryInterval v) = to_be_bytes v"
| "property_value (P_AssignedClientIdentifier v) = ms_to_continuous_buffer v"
| "property_value (P_ServerKeepAlive v) = to_be_bytes v"
| "property_value (P_AuthenticationMethod v) = ms_to_continuous_buffer v"
| "property_value (P_AuthenticationData v) = mb_to_continuous_buffer v"
| "property_value (P_RequestProblemInformation v) = [v]"
| "property_value (P_WillDelayInterval v) = to_be_bytes v"
| "property_value (P_RequestResponseInformation v) = [v]"
| "property_value (P_ResponseInformation v) = ms_to_continuous_buffer v"
| "property_value (P_ServerReference v) = ms_to_continuous_buffer v"
| "property_value (P_ReasonString v) = ms_to_continuous_buffer v"
| "property_value (P_ReceiveMaximum v) = to_be_bytes v"
| "property_value (P_TopicAliasMaximum v) = to_be_bytes v"
| "property_value (P_TopicAlias v) = to_be_bytes v"
| "property_value (P_MaximumQos v) = [v]"
| "property_value (P_RetainAvailable v) = [v]"
| "property_value (P_UserProperty v) = ms_to_continuous_buffer (fst v) @ ms_to_continuous_buffer (snd v)"
| "property_value (P_MaximumPacketSize v) = to_be_bytes v"
| "property_value (P_WildcardSubscriptionAvailable v) = [v]"
| "property_value (P_SubscriptionIdentifierAvailable v) = [v]"
| "property_value (P_SharedSubscriptionAvailable v) = [v]"

definition property_to_continuous_buffer :: "property \<Rightarrow> bytes" where
  "property_to_continuous_buffer p = property_id_u8 (property_id_of p) # property_value p"

primrec property_parse_value :: "property_id \<Rightarrow> property decoder" where
  "property_parse_value PI_PayloadFormatIndicator = parse_u8 check_flag P_PayloadFormatIndicator"
| "property_parse_value PI_MessageExpiryInterval = parse_u32 check_none P_MessageExpiryInterval"
| "property_parse_value PI_ContentType = parse_string P_ContentType"
| "property_parse_value PI_ResponseTopic = parse_string P_ResponseTopic"
| "property_parse_value PI_CorrelationData = parse_binary P_CorrelationData"
| "property_parse_value PI_SubscriptionIdentifier = parse_variable_integer check_nonzero P_SubscriptionIdentifier"
| "property_parse_value PI_SessionExpiryInterval = parse_u32 check_none P_SessionExpiryInterval"
| "property_parse_value PI_AssignedClientIdentifier = parse_string P_AssignedClientIdentifier"
| "property_parse_value PI_ServerKeepAlive = parse_u16 check_none P_ServerKeepAlive"
| "property_parse_value PI_AuthenticationMethod = parse_string P_AuthenticationMethod"
| "property_parse_value PI_AuthenticationData = parse_binary P_AuthenticationData"
| "property_parse_value PI_RequestProblemInformation = parse_u8 check_flag P_RequestProblemInformation"
| "property_parse_value PI_WillDelayInterval = parse_u32 check_none P_WillDelayInterval"
| "property_parse_value PI_RequestResponseInformation = parse_u8 check_flag P_RequestResponseInformation"
| "property_parse_value PI_ResponseInformation = parse_string P_ResponseInformation"
| "property_parse_value PI_ServerReference = parse_string P_ServerReference"
| "property_parse_value PI_ReasonString = parse_string P_ReasonString"
| "property_parse_value PI_ReceiveMaximum = parse_u16 check_nonzero P_ReceiveMaximum"
| "property_parse_value PI_TopicAliasMaximum = parse_u16 check_none P_TopicAliasMaximum"
| "property_parse_value PI_TopicAlias = parse_u16 check_nonzero P_TopicAlias"
| "property_parse_value PI_MaximumQos = parse_u8 check_flag P_MaximumQos"
| "property_parse_value PI_RetainAvailable = parse_u8 check_flag P_RetainAvailable"
| "property_parse_value PI_UserProperty = parse_string_pair P_UserProperty"
| "property_parse_value PI_MaximumPacketSize = parse_u32 check_nonzero P_MaximumPacketSize"
| "property_parse_value PI_WildcardSubscriptionAvailable = parse_u8 check_flag P_WildcardSubscriptionAvailable"
| "property_parse_value PI_SubscriptionIdentifierAvailable = parse_u8 check_flag P_SubscriptionIdentifierAvailable"
| "property_parse_value PI_SharedSubscriptionAvailable = parse_u8 check_flag P_SharedSubscriptionAvailable"

definition property_parse :: "property decoder" where
  "property_parse bs =
     (if bs = [] then Err MalformedPacket
      else res_bind (ok_or (property_id_try_from (bs ! 0)) MalformedPacket) (\<lambda>id.
        res_bind (property_parse_value id (drop 1 bs)) (\<lambda>(p, l). Ok (p, l + 1))))"

subsection \<open>The parsers with their panics\<close>

text \<open>
  The \<open>parse\<close> functions as the macros write them, with every index and slice.  Each returns the value of the function above.
\<close>

definition rs_parse_u8 :: "(u8 \<Rightarrow> (unit, mqtt_error) result) \<Rightarrow> (u8 \<Rightarrow> property) \<Rightarrow> property decoder_run" where
  "rs_parse_u8 validator mk bs =
     (if length bs < 1 then Ret (Err MalformedPacket)
      else rbind (idx bs 0) (\<lambda>b. tbind (Ret (validator b)) (\<lambda>_. Ret (Ok (mk b, 1)))))"

definition rs_parse_u16 :: "(u16 \<Rightarrow> (unit, mqtt_error) result) \<Rightarrow> (u16 \<Rightarrow> property) \<Rightarrow> property decoder_run" where
  "rs_parse_u16 validator mk bs =
     (if length bs < 2 then Ret (Err MalformedPacket)
      else rbind (idx bs 0) (\<lambda>b0. rbind (idx bs 1) (\<lambda>b1.
        tbind (Ret (validator (from_be_bytes [b0, b1]))) (\<lambda>_.
        rbind (subslice bs 0 2) (\<lambda>v. Ret (Ok (mk (from_be_bytes v), 2)))))))"

definition rs_parse_u32 :: "(u32 \<Rightarrow> (unit, mqtt_error) result) \<Rightarrow> (u32 \<Rightarrow> property) \<Rightarrow> property decoder_run" where
  "rs_parse_u32 validator mk bs =
     (if length bs < 4 then Ret (Err MalformedPacket)
      else rbind (idx bs 0) (\<lambda>b0. rbind (idx bs 1) (\<lambda>b1. rbind (idx bs 2) (\<lambda>b2. rbind (idx bs 3) (\<lambda>b3.
        tbind (Ret (validator (from_be_bytes [b0, b1, b2, b3]))) (\<lambda>_.
        rbind (subslice bs 0 4) (\<lambda>v. Ret (Ok (mk (from_be_bytes v), 4)))))))))"

definition rs_parse_string :: "(mqtt_string \<Rightarrow> property) \<Rightarrow> property decoder_run" where
  "rs_parse_string mk bs = tbind (rs_ms_decode bs) (\<lambda>(s, consumed). Ret (Ok (mk s, consumed)))"

definition rs_parse_binary :: "(mqtt_binary \<Rightarrow> property) \<Rightarrow> property decoder_run" where
  "rs_parse_binary mk bs = tbind (rs_mb_decode bs) (\<lambda>(s, consumed). Ret (Ok (mk s, consumed)))"

definition rs_parse_string_pair :: "(mqtt_string \<times> mqtt_string \<Rightarrow> property) \<Rightarrow> property decoder_run" where
  "rs_parse_string_pair mk bs =
     tbind (rs_ms_decode bs) (\<lambda>(key, key_consumed).
     rbind (slice_from bs key_consumed) (\<lambda>rest.
     tbind (rs_ms_decode rest) (\<lambda>(val, val_consumed).
       Ret (Ok (mk (key, val), key_consumed + val_consumed)))))"

definition rs_parse_variable_integer ::
  "(u32 \<Rightarrow> (unit, mqtt_error) result) \<Rightarrow> (variable_byte_integer \<Rightarrow> property) \<Rightarrow> property decoder_run" where
  "rs_parse_variable_integer validator mk bs = Ret (parse_variable_integer validator mk bs)"

primrec rs_property_parse_value :: "property_id \<Rightarrow> property decoder_run" where
  "rs_property_parse_value PI_PayloadFormatIndicator = rs_parse_u8 check_flag P_PayloadFormatIndicator"
| "rs_property_parse_value PI_MessageExpiryInterval = rs_parse_u32 check_none P_MessageExpiryInterval"
| "rs_property_parse_value PI_ContentType = rs_parse_string P_ContentType"
| "rs_property_parse_value PI_ResponseTopic = rs_parse_string P_ResponseTopic"
| "rs_property_parse_value PI_CorrelationData = rs_parse_binary P_CorrelationData"
| "rs_property_parse_value PI_SubscriptionIdentifier = rs_parse_variable_integer check_nonzero P_SubscriptionIdentifier"
| "rs_property_parse_value PI_SessionExpiryInterval = rs_parse_u32 check_none P_SessionExpiryInterval"
| "rs_property_parse_value PI_AssignedClientIdentifier = rs_parse_string P_AssignedClientIdentifier"
| "rs_property_parse_value PI_ServerKeepAlive = rs_parse_u16 check_none P_ServerKeepAlive"
| "rs_property_parse_value PI_AuthenticationMethod = rs_parse_string P_AuthenticationMethod"
| "rs_property_parse_value PI_AuthenticationData = rs_parse_binary P_AuthenticationData"
| "rs_property_parse_value PI_RequestProblemInformation = rs_parse_u8 check_flag P_RequestProblemInformation"
| "rs_property_parse_value PI_WillDelayInterval = rs_parse_u32 check_none P_WillDelayInterval"
| "rs_property_parse_value PI_RequestResponseInformation = rs_parse_u8 check_flag P_RequestResponseInformation"
| "rs_property_parse_value PI_ResponseInformation = rs_parse_string P_ResponseInformation"
| "rs_property_parse_value PI_ServerReference = rs_parse_string P_ServerReference"
| "rs_property_parse_value PI_ReasonString = rs_parse_string P_ReasonString"
| "rs_property_parse_value PI_ReceiveMaximum = rs_parse_u16 check_nonzero P_ReceiveMaximum"
| "rs_property_parse_value PI_TopicAliasMaximum = rs_parse_u16 check_none P_TopicAliasMaximum"
| "rs_property_parse_value PI_TopicAlias = rs_parse_u16 check_nonzero P_TopicAlias"
| "rs_property_parse_value PI_MaximumQos = rs_parse_u8 check_flag P_MaximumQos"
| "rs_property_parse_value PI_RetainAvailable = rs_parse_u8 check_flag P_RetainAvailable"
| "rs_property_parse_value PI_UserProperty = rs_parse_string_pair P_UserProperty"
| "rs_property_parse_value PI_MaximumPacketSize = rs_parse_u32 check_nonzero P_MaximumPacketSize"
| "rs_property_parse_value PI_WildcardSubscriptionAvailable = rs_parse_u8 check_flag P_WildcardSubscriptionAvailable"
| "rs_property_parse_value PI_SubscriptionIdentifierAvailable = rs_parse_u8 check_flag P_SubscriptionIdentifierAvailable"
| "rs_property_parse_value PI_SharedSubscriptionAvailable = rs_parse_u8 check_flag P_SharedSubscriptionAvailable"

definition rs_property_parse :: "property decoder_run" where
  "rs_property_parse bs =
     (if bs = [] then Ret (Err MalformedPacket)
      else rbind (idx bs 0) (\<lambda>b. tbind (Ret (ok_or (property_id_try_from b) MalformedPacket)) (\<lambda>id.
        rbind (slice_from bs 1) (\<lambda>rest.
        tbind (rs_property_parse_value id rest) (\<lambda>(p, l). Ret (Ok (p, l + 1)))))))"

lemma take_bytes:
  "2 \<le> length bs \<Longrightarrow> take 2 bs = [bs ! 0, bs ! 1]"
  "4 \<le> length bs \<Longrightarrow> take 4 bs = [bs ! 0, bs ! 1, bs ! 2, bs ! 3]"
  by (rule nth_equalityI; auto simp: less_Suc_eq numeral_eq_Suc)+

lemma rs_parse:
  "rs_parse_u8 validator mk bs = Ret (parse_u8 validator mk bs)"
  "rs_parse_u16 validator16 mk16 bs = Ret (parse_u16 validator16 mk16 bs)"
  "rs_parse_u32 validator32 mk32 bs = Ret (parse_u32 validator32 mk32 bs)"
  "rs_parse_string mks bs = Ret (parse_string mks bs)"
  "rs_parse_binary mkb bs = Ret (parse_binary mkb bs)"
  by (simp_all add: rs_parse_u8_def parse_u8_def rs_parse_u16_def parse_u16_def rs_parse_u32_def parse_u32_def
      rs_parse_string_def parse_string_def rs_parse_binary_def parse_binary_def rs_ms_decode rs_mb_decode
      tbind_Ret_res tbind_Ret take_bytes Let_def)

lemma rs_parse_string_pair: "rs_parse_string_pair mk bs = Ret (parse_string_pair mk bs)"
proof (cases "ms_decode bs")
  case (Ok p)
  then show ?thesis using ms_codec.dec_bounds [of bs "fst p" "snd p"]
    by (cases p) (simp add: rs_parse_string_pair_def parse_string_pair_def rs_ms_decode tbind_Ret Ok)
qed (simp add: rs_parse_string_pair_def parse_string_pair_def rs_ms_decode)

lemma rs_property_parse_value: "rs_property_parse_value i bs = Ret (property_parse_value i bs)"
  by (cases i) (simp_all add: rs_parse rs_parse_string_pair rs_parse_variable_integer_def)

lemma rs_property_parse: "rs_property_parse = (\<lambda>bs. Ret (property_parse bs))"
proof
  fix bs
  show "rs_property_parse bs = Ret (property_parse bs)"
  proof (cases bs)
    case (Cons b rest)
    then show ?thesis
      by (cases "property_id_try_from b")
        (simp_all add: rs_property_parse_def property_parse_def rs_property_parse_value tbind_Ret)
  qed (simp add: rs_property_parse_def property_parse_def)
qed

section \<open>The invariant of parsed and constructed properties\<close>

definition vbi_inv :: "variable_byte_integer \<Rightarrow> bool" where
  "vbi_inv v \<longleftrightarrow> unat (to_u32 v) < 268435456 \<and> encoded v = vbi_enc (unat (to_u32 v))"

primrec property_inv :: "property \<Rightarrow> bool" where
  "property_inv (P_PayloadFormatIndicator v) = (v \<le> 1)"
| "property_inv (P_MessageExpiryInterval v) = (True)"
| "property_inv (P_ContentType v) = (ms_inv v)"
| "property_inv (P_ResponseTopic v) = (ms_inv v)"
| "property_inv (P_CorrelationData v) = (mb_inv v)"
| "property_inv (P_SubscriptionIdentifier v) = (vbi_inv v \<and> to_u32 v \<noteq> 0)"
| "property_inv (P_SessionExpiryInterval v) = (True)"
| "property_inv (P_AssignedClientIdentifier v) = (ms_inv v)"
| "property_inv (P_ServerKeepAlive v) = (True)"
| "property_inv (P_AuthenticationMethod v) = (ms_inv v)"
| "property_inv (P_AuthenticationData v) = (mb_inv v)"
| "property_inv (P_RequestProblemInformation v) = (v \<le> 1)"
| "property_inv (P_WillDelayInterval v) = (True)"
| "property_inv (P_RequestResponseInformation v) = (v \<le> 1)"
| "property_inv (P_ResponseInformation v) = (ms_inv v)"
| "property_inv (P_ServerReference v) = (ms_inv v)"
| "property_inv (P_ReasonString v) = (ms_inv v)"
| "property_inv (P_ReceiveMaximum v) = (v \<noteq> 0)"
| "property_inv (P_TopicAliasMaximum v) = (True)"
| "property_inv (P_TopicAlias v) = (v \<noteq> 0)"
| "property_inv (P_MaximumQos v) = (v \<le> 1)"
| "property_inv (P_RetainAvailable v) = (v \<le> 1)"
| "property_inv (P_UserProperty v) = (ms_inv (fst v) \<and> ms_inv (snd v))"
| "property_inv (P_MaximumPacketSize v) = (v \<noteq> 0)"
| "property_inv (P_WildcardSubscriptionAvailable v) = (v \<le> 1)"
| "property_inv (P_SubscriptionIdentifierAvailable v) = (v \<le> 1)"
| "property_inv (P_SharedSubscriptionAvailable v) = (v \<le> 1)"

lemmas check_defs = check_none_def check_flag_def check_nonzero_def

lemmas buffer_defs =
  ms_to_continuous_buffer_def ms_as_bytes_def ms_size_def mb_to_continuous_buffer_def mb_as_bytes_def
  mb_size_def vbi_to_continuous_buffer_def vbi_size_def

lemma from_be_u16 [simp]: "from_be_bytes (to_be_bytes v) = (v :: u16)"
  by (rule from_to_be_bytes) simp

lemma from_be_u32 [simp]: "from_be_bytes (to_be_bytes v) = (v :: u32)"
  by (rule from_to_be_bytes) simp

lemma length_buffers [simp]:
  "length (ms_to_continuous_buffer s) = ms_size s"
  "length (mb_to_continuous_buffer b) = mb_size b"
  "length (vbi_to_continuous_buffer v) = vbi_size v"
  by (simp_all add: buffer_defs)

text \<open>The parsers of the macros on an encoded value.\<close>

lemma parse_u8_enc: "validator v = Ok () \<Longrightarrow> parse_u8 validator mk (v # rest) = Ok (mk v, 1)"
  by (simp add: parse_u8_def)

lemma parse_u16_enc: "validator v = Ok () \<Longrightarrow> parse_u16 validator mk (to_be_bytes v @ rest) = Ok (mk v, 2)"
  by (simp add: parse_u16_def)

lemma parse_u32_enc: "validator v = Ok () \<Longrightarrow> parse_u32 validator mk (to_be_bytes v @ rest) = Ok (mk v, 4)"
  by (simp add: parse_u32_def)

lemma parse_string_enc:
  "ms_inv v \<Longrightarrow> parse_string mk (ms_to_continuous_buffer v @ rest) = Ok (mk v, ms_size v)"
  using ms_codec.dec_enc [of v rest] by (simp add: parse_string_def buffer_defs)

lemma parse_binary_enc:
  "mb_inv v \<Longrightarrow> parse_binary mk (mb_to_continuous_buffer v @ rest) = Ok (mk v, mb_size v)"
  using mb_codec.dec_enc [of v rest] by (simp add: parse_binary_def buffer_defs)

lemma parse_string_pair_enc:
  "ms_inv k \<Longrightarrow> ms_inv v \<Longrightarrow>
   parse_string_pair mk (ms_to_continuous_buffer k @ ms_to_continuous_buffer v @ rest) = Ok (mk (k, v), ms_size k + ms_size v)"
  using ms_codec.dec_enc [of k "ms_to_continuous_buffer v @ rest"] ms_codec.dec_enc [of v rest]
  by (simp add: parse_string_pair_def buffer_defs)

lemma parse_variable_integer_enc:
  "vbi_inv v \<Longrightarrow> validator (to_u32 v) = Ok () \<Longrightarrow>
   parse_variable_integer validator mk (vbi_to_continuous_buffer v @ rest) = Ok (mk v, vbi_size v)"
  using decode_stream_enc [of "unat (to_u32 v)" rest]
  by (cases v) (auto simp: parse_variable_integer_def buffer_defs vbi_inv_def)

lemmas parse_encs = parse_u8_enc parse_u16_enc parse_u32_enc parse_string_enc parse_binary_enc
  parse_string_pair_enc parse_variable_integer_enc

lemma property_parse_value_enc:
  "property_inv p \<Longrightarrow>
   property_parse_value (property_id_of p) (property_value p @ rest) = Ok (p, length (property_value p))"
  by (cases p) (simp_all add: parse_encs [simplified] check_defs not_less)

lemma length_property_buffer: "length (property_to_continuous_buffer p) = property_size p"
  by (cases p) (simp_all add: property_to_continuous_buffer_def buffer_defs)

text \<open>What the parsers of the macros accept.\<close>

lemma vbi_enc_length_le: "n < 128 ^ Suc k \<Longrightarrow> length (vbi_enc n) \<le> Suc k"
proof (induction k arbitrary: n)
  case (Suc k)
  then have "n div 128 < 128 ^ Suc k" by (simp add: div_less_iff_less_mult mult.commute)
  with Suc.IH show ?case by (subst length_vbi_enc) auto
qed (simp add: length_vbi_enc)

lemma vbi_inv_decode:
  assumes "decode_stream bs = DecodeOk vbi n"
  shows "vbi_inv vbi \<and> 0 < n \<and> n \<le> length bs \<and> vbi_size vbi \<le> n"
proof -
  note d = decode_stream_OkD [OF assms]
  have "vbi_val (take n bs) < 128 ^ Suc (n - 1)"
    using vbi_val_bound [of "take n bs"] d(1,3) by simp
  from vbi_enc_length_le [OF this] d show ?thesis
    by (simp add: vbi_inv_def to_u32_enc vbi_size_def)
qed

lemma parse_OkD:
  "parse_u8 validator mk bs = Ok (p, n) \<Longrightarrow> \<exists>v. p = mk v \<and> validator v = Ok () \<and> n = 1 \<and> n \<le> length bs"
  "parse_u16 validator16 mk16 bs = Ok (p, n) \<Longrightarrow> \<exists>v. p = mk16 v \<and> validator16 v = Ok () \<and> n = 2 \<and> n \<le> length bs"
  "parse_u32 validator32 mk32 bs = Ok (p, n) \<Longrightarrow> \<exists>v. p = mk32 v \<and> validator32 v = Ok () \<and> n = 4 \<and> n \<le> length bs"
  "parse_string mks bs = Ok (p, n) \<Longrightarrow> \<exists>v. p = mks v \<and> ms_inv v \<and> n = ms_size v \<and> 0 < n \<and> n \<le> length bs"
  "parse_binary mkb bs = Ok (p, n) \<Longrightarrow> \<exists>v. p = mkb v \<and> mb_inv v \<and> n = mb_size v \<and> 0 < n \<and> n \<le> length bs"
  by (auto simp: parse_u8_def parse_u16_def parse_u32_def parse_string_def parse_binary_def res_bind_eq_Ok Let_def
      Suc_le_eq split: if_splits dest: ms_decode_OkD mb_decode_OkD)

lemma parse_string_pair_OkD:
  "parse_string_pair mk bs = Ok (p, n) \<Longrightarrow>
   \<exists>k v. p = mk (k, v) \<and> ms_inv k \<and> ms_inv v \<and> n = ms_size k + ms_size v \<and> 0 < n \<and> n \<le> length bs"
  by (force simp: parse_string_pair_def res_bind_eq_Ok dest!: ms_decode_OkD)

lemma parse_variable_integer_OkD:
  "parse_variable_integer validator mk bs = Ok (p, n) \<Longrightarrow>
   \<exists>v. p = mk v \<and> vbi_inv v \<and> validator (to_u32 v) = Ok () \<and> vbi_size v \<le> n \<and> 0 < n \<and> n \<le> length bs"
  by (auto simp: parse_variable_integer_def res_bind_eq_Ok split: decode_result.splits dest: vbi_inv_decode)

lemmas parse_OkDs = parse_OkD parse_string_pair_OkD parse_variable_integer_OkD

lemma property_parse_value_OkD:
  "property_parse_value i bs = Ok (p, n) \<Longrightarrow>
   property_inv p \<and> property_id_of p = i \<and> property_size p \<le> n + 1 \<and> 0 < n \<and> n \<le> length bs"
  by (cases i) (auto dest!: parse_OkDs simp: check_defs not_less split: if_splits)

lemma property_parse_OkD:
  "property_parse bs = Ok (p, n) \<Longrightarrow> property_inv p \<and> property_size p \<le> n \<and> 0 < n \<and> n \<le> length bs"
  by (auto simp: property_parse_def res_bind_eq_Ok ok_or_eq_Ok split: if_splits dest!: property_parse_value_OkD)

lemma property_size_pos: "0 < property_size p"
  by (cases p) simp_all

interpretation property_codec: codec property_inv property_to_continuous_buffer property_parse
proof (unfold_locales, goal_cases)
  case (1 p rest)
  then show ?case
    using property_parse_value_enc [OF 1, of rest]
    by (simp add: property_parse_def property_to_continuous_buffer_def property_id_try_from_def)
next
  case (2 bs p n)
  then show ?case
    by (auto dest: property_parse_OkD)
qed

section \<open>Property lists\<close>

definition properties_to_continuous_buffer :: "properties \<Rightarrow> bytes" where
  "properties_to_continuous_buffer props = concat (map property_to_continuous_buffer props)"

definition properties_size :: "properties \<Rightarrow> nat" where
  "properties_size props = sum_list (map property_size props)"

text \<open>
  The loop of \<open>PropertiesParse::parse\<close> over \<open>data[cursor..props_end]\<close>; every round consumes at
  least one byte.
\<close>

function properties_loop :: "bytes \<Rightarrow> nat \<Rightarrow> nat \<Rightarrow> properties \<Rightarrow> (properties \<times> nat, mqtt_error) result" where
  "properties_loop data props_end cursor props =
     (if cursor < props_end then
        res_bind (property_parse (take (props_end - cursor) (drop cursor data))) (\<lambda>(p, c).
          properties_loop data props_end (cursor + c) (props @ [p]))
      else Ok (props, cursor))"
  by pat_completeness auto
termination
  by (relation "measure (\<lambda>(_, e, c, _). e - c)") (auto dest!: property_codec.dec_bounds)

declare properties_loop.simps [simp del]

definition properties_parse :: "properties decoder" where
  "properties_parse data =
     (if data = [] then Err MalformedPacket
      else case decode_stream data of
        DecodeOk prop_len consumed \<Rightarrow>
          if to_u32 prop_len = 0 then Ok ([], consumed)
          else let props_end = consumed + unat (to_u32 prop_len) in
            if props_end > length data then Err MalformedPacket
            else properties_loop data props_end consumed []
      | _ \<Rightarrow> Err MalformedPacket)"

text \<open>The loop and the parser with their slices.\<close>

function rs_properties_loop :: "bytes \<Rightarrow> nat \<Rightarrow> nat \<Rightarrow> properties \<Rightarrow> (properties \<times> nat, mqtt_error) result rust" where
  "rs_properties_loop data props_end cursor props =
     (if cursor < props_end then
        rbind (subslice data cursor props_end) (\<lambda>bs.
        tbind (rs_property_parse bs) (\<lambda>(p, c).
          rs_properties_loop data props_end (cursor + c) (props @ [p])))
      else Ret (Ok (props, cursor)))"
  by pat_completeness auto
termination
  by (relation "measure (\<lambda>(_, e, c, _). e - c)") (auto simp: rs_property_parse dest!: property_codec.dec_bounds)

declare rs_properties_loop.simps [simp del]

definition rs_properties_parse :: "properties decoder_run" where
  "rs_properties_parse data =
     (if data = [] then Ret (Err MalformedPacket)
      else case decode_stream data of
        DecodeOk prop_len consumed \<Rightarrow>
          if to_u32 prop_len = 0 then Ret (Ok ([], consumed))
          else let props_end = consumed + unat (to_u32 prop_len) in
            if props_end > length data then Ret (Err MalformedPacket)
            else rs_properties_loop data props_end consumed []
      | _ \<Rightarrow> Ret (Err MalformedPacket))"

lemma rs_properties_loop:
  "props_end \<le> length data \<Longrightarrow>
   rs_properties_loop data props_end cursor props = Ret (properties_loop data props_end cursor props)"
proof (induction data props_end cursor props rule: properties_loop.induct)
  case (1 data props_end cursor props)
  show ?case
  proof (cases "cursor < props_end")
    case True
    then show ?thesis using 1
      by (subst rs_properties_loop.simps, subst properties_loop.simps)
        (cases "property_parse (take (props_end - cursor) (drop cursor data))"; auto simp: rs_property_parse)
  next
    case False
    then show ?thesis by (subst rs_properties_loop.simps, subst properties_loop.simps) simp
  qed
qed

lemma rs_properties_parse: "rs_properties_parse = (\<lambda>data. Ret (properties_parse data))"
  by (rule ext) (simp add: rs_properties_parse_def properties_parse_def rs_properties_loop Let_def split: decode_result.split)

text \<open>What a property list looks like on the wire: its length, then the properties.\<close>

definition properties_wire :: "properties \<Rightarrow> bytes" where
  "properties_wire props = vbi_enc (properties_size props) @ properties_to_continuous_buffer props"

definition properties_inv :: "properties \<Rightarrow> bool" where
  "properties_inv props \<longleftrightarrow> list_all property_inv props \<and> properties_size props < 268435456"

lemma length_properties_buffer [simp]:
  "length (properties_to_continuous_buffer props) = properties_size props"
  by (induction props) (simp_all add: properties_to_continuous_buffer_def properties_size_def length_property_buffer)

lemma properties_loop_enc:
  "list_all property_inv ps \<Longrightarrow> props_end = cursor + properties_size ps \<Longrightarrow>
   take (props_end - cursor) (drop cursor data) = properties_to_continuous_buffer ps \<Longrightarrow>
   properties_loop data props_end cursor props = Ok (props @ ps, props_end)"
proof (induction ps arbitrary: cursor props)
  case Nil
  then show ?case by (simp add: properties_loop.simps properties_size_def)
next
  case (Cons p ps)
  let ?n = "property_size p"
  have n: "0 < ?n" by (rule property_size_pos)
  have wire: "take (props_end - cursor) (drop cursor data)
      = property_to_continuous_buffer p @ properties_to_continuous_buffer ps"
    using Cons.prems(3) by (simp add: properties_to_continuous_buffer_def)
  then have "property_parse (take (props_end - cursor) (drop cursor data)) = Ok (p, ?n)"
    using property_codec.dec_enc [of p] Cons.prems(1) by (simp add: length_property_buffer)
  moreover have "properties_loop data props_end (cursor + ?n) (props @ [p]) = Ok ((props @ [p]) @ ps, props_end)"
  proof (rule Cons.IH)
    show "props_end = cursor + ?n + properties_size ps" using Cons.prems(2) by (simp add: properties_size_def)
    have "drop ?n (take (props_end - cursor) (drop cursor data)) = properties_to_continuous_buffer ps"
      using wire by (simp add: length_property_buffer [symmetric])
    then show "take (props_end - (cursor + ?n)) (drop (cursor + ?n) data) = properties_to_continuous_buffer ps"
      by (simp add: drop_take add.commute)
  qed (use Cons.prems in simp)
  moreover have "cursor < props_end" using Cons.prems(2) n by (simp add: properties_size_def)
  ultimately show ?case by (simp add: properties_loop.simps [of data props_end cursor])
qed

lemma properties_loop_sound:
  "properties_loop data props_end cursor props = Ok (ps, c) \<Longrightarrow> cursor \<le> props_end \<Longrightarrow> props_end \<le> length data \<Longrightarrow>
   list_all property_inv props \<Longrightarrow>
   list_all property_inv ps \<and> c = props_end \<and> properties_size ps \<le> properties_size props + (props_end - cursor)"
proof (induction data props_end cursor props rule: properties_loop.induct)
  case (1 data props_end cursor props)
  show ?case
  proof (cases "cursor < props_end")
    case False
    then show ?thesis using "1.prems" by (simp add: properties_loop.simps)
  next
    case True
    with "1.prems"(1) obtain p n where
      p: "property_parse (take (props_end - cursor) (drop cursor data)) = Ok (p, n)"
      and l: "properties_loop data props_end (cursor + n) (props @ [p]) = Ok (ps, c)"
      by (subst (asm) properties_loop.simps) (auto simp: res_bind_eq_Ok)
    note n = property_parse_OkD [OF p]
    have "list_all property_inv ps \<and> c = props_end
      \<and> properties_size ps \<le> properties_size (props @ [p]) + (props_end - (cursor + n))"
      by (rule "1.IH" [OF True p refl l]) (use n "1.prems" True in auto)
    then show ?thesis using n "1.prems"(2,3) True by (auto simp: properties_size_def)
  qed
qed

interpretation properties_codec: codec properties_inv properties_wire properties_parse
proof (unfold_locales, goal_cases)
  case (1 ps rest)
  let ?n = "properties_size ps"
  let ?data = "properties_wire ps @ rest"
  have n: "?n < 268435456" and inv: "list_all property_inv ps" using 1 by (simp_all add: properties_inv_def)
  have dec: "decode_stream ?data = DecodeOk \<lparr>encoded = vbi_enc ?n\<rparr> (length (vbi_enc ?n))"
    using decode_stream_enc [OF n] by (simp add: properties_wire_def)
  have val: "unat (to_u32 \<lparr>encoded = vbi_enc ?n\<rparr>) = ?n" by (rule to_u32_enc [OF n])
  have ne: "?data \<noteq> []" using vbi_enc_pos [of ?n] by (auto simp: properties_wire_def)
  show ?case
  proof (cases "?n = 0")
    case True
    then have "ps = []"
      using property_size_pos [of "hd ps"] by (cases ps) (auto simp: properties_size_def)
    then show ?thesis
      using dec val ne True
      by (simp add: properties_parse_def properties_wire_def unat_eq_0 properties_to_continuous_buffer_def)
  next
    case False
    then have "to_u32 \<lparr>encoded = vbi_enc ?n\<rparr> \<noteq> 0" using val by auto
    moreover have "properties_loop ?data (length (vbi_enc ?n) + ?n) (length (vbi_enc ?n)) [] = Ok ([] @ ps, length (vbi_enc ?n) + ?n)"
      by (rule properties_loop_enc) (use inv in \<open>simp_all add: properties_wire_def\<close>)
    ultimately show ?thesis
      using dec val ne by (simp add: properties_parse_def Let_def) (simp add: properties_wire_def)
  qed
next
  case (2 bs ps n)
  then obtain vbi k where d: "decode_stream bs = DecodeOk vbi k"
    by (auto simp: properties_parse_def split: decode_result.splits if_splits)
  note k = vbi_inv_decode [OF d]
  show ?case
  proof (cases "to_u32 vbi = 0")
    case True
    then show ?thesis using 2 d k by (simp add: properties_parse_def properties_inv_def properties_size_def split: if_splits)
  next
    case False
    then have l: "properties_loop bs (k + unat (to_u32 vbi)) k [] = Ok (ps, n)" and le: "k + unat (to_u32 vbi) \<le> length bs"
      using 2 d by (auto simp: properties_parse_def Let_def split: if_splits)
    from properties_loop_sound [OF l _ le] have "list_all property_inv ps" "n = k + unat (to_u32 vbi)"
      "properties_size ps \<le> unat (to_u32 vbi)" by (auto simp: properties_size_def)
    then show ?thesis using k le by (auto simp: properties_inv_def vbi_inv_def)
  qed
qed

lemma vbi_enc_length_mono: "m \<le> n \<Longrightarrow> length (vbi_enc m) \<le> length (vbi_enc n)"
proof (induction n arbitrary: m rule: less_induct)
  case (less n)
  show ?case
  proof (cases "m < 128")
    case True
    then show ?thesis using vbi_enc_pos [of n] by (simp add: length_vbi_enc_bounds(2) Suc_le_eq)
  next
    case False
    then show ?thesis using less by (simp add: length_vbi_enc [of m] length_vbi_enc [of n] div_le_mono)
  qed
qed

text \<open>Writing a parsed list again needs no more bytes than were read.\<close>

lemma properties_parse_OkD:
  assumes "properties_parse bs = Ok (ps, n)"
  shows "properties_inv ps \<and> 0 < n \<and> n \<le> length bs \<and> length (properties_wire ps) \<le> n"
proof -
  from assms obtain vbi k where d: "decode_stream bs = DecodeOk vbi k"
    by (auto simp: properties_parse_def split: decode_result.splits if_splits)
  note k = vbi_inv_decode [OF d]
  have "length (properties_wire ps) \<le> n"
  proof (cases "to_u32 vbi = 0")
    case True
    then have "ps = []" "n = k" using assms d by (simp_all add: properties_parse_def split: if_splits)
    then show ?thesis
      using k by (simp add: properties_wire_def properties_size_def length_vbi_enc_bounds(2))
  next
    case False
    then have l: "properties_loop bs (k + unat (to_u32 vbi)) k [] = Ok (ps, n)" and le: "k + unat (to_u32 vbi) \<le> length bs"
      using assms d by (auto simp: properties_parse_def Let_def split: if_splits)
    from properties_loop_sound [OF l _ le] have n: "n = k + unat (to_u32 vbi)"
      and s: "properties_size ps \<le> unat (to_u32 vbi)" by (auto simp: properties_size_def)
    have "length (vbi_enc (properties_size ps)) \<le> k"
      using vbi_enc_length_mono [OF s] k by (auto simp: vbi_inv_def vbi_size_def)
    then show ?thesis using n s by (simp add: properties_wire_def)
  qed
  then show ?thesis using properties_codec.dec_bounds [OF assms] by simp
qed

section \<open>Properties\<close>

text \<open>
  C36: a property list survives the wire: written as its length followed by its properties and
  anything after that, it is parsed back to the same list, consuming exactly the bytes written.
\<close>

theorem properties_roundtrip:
  assumes "list_all property_inv ps" and "properties_size ps < 268435456"
    and "from_u32 (of_nat (properties_size ps)) = Some len"
  shows "properties_parse (vbi_to_continuous_buffer len @ properties_to_continuous_buffer ps @ rest)
    = Ok (ps, vbi_size len + properties_size ps)"
proof -
  have "len = \<lparr>encoded = vbi_enc (properties_size ps)\<rparr>" using assms(2,3) from_u32_of_nat by simp
  then show ?thesis
    using properties_codec.dec_enc [of ps rest] assms(1,2)
    by (simp add: properties_inv_def properties_wire_def buffer_defs)
qed

theorem properties_roundtrip_witness:
  "properties_parse (vbi_to_continuous_buffer \<lparr>encoded = vbi_enc 5\<rparr>
      @ properties_to_continuous_buffer [P_TopicAlias 7, P_PayloadFormatIndicator 1] @ [9])
    = Ok ([P_TopicAlias 7, P_PayloadFormatIndicator 1], vbi_size \<lparr>encoded = vbi_enc 5\<rparr> + 5)"
  using properties_roundtrip [of "[P_TopicAlias 7, P_PayloadFormatIndicator 1]" "\<lparr>encoded = vbi_enc 5\<rparr>" "[9]"]
    from_u32_of_nat [of 5]
  by (simp add: properties_size_def)

text \<open>
  Whatever bytes arrive, the property parser terminates without panic; what it accepts lies
  within the received bytes and consists of well-formed properties only: flags are 0 or 1,
  receive maximum, topic alias, maximum packet size and subscription identifier are nonzero,
  texts are well-formed UTF-8.  A topic alias maximum of zero is accepted.
\<close>

theorem properties_parse_sound:
  assumes "properties_parse data = Ok (ps, n)"
  shows "0 < n \<and> n \<le> length data \<and> list_all property_inv ps"
  using properties_codec.dec_bounds [OF assms] by (simp add: properties_inv_def)

theorem properties_parse_sound_witness:
  "properties_parse [3, 34, 0, 0] = Ok ([P_TopicAliasMaximum 0], 4) \<and> list_all property_inv [P_TopicAliasMaximum 0]"
proof -
  have "properties_wire [P_TopicAliasMaximum 0] = [3, 34, 0, 0]"
    by (simp add: properties_wire_def properties_size_def vbi_enc.simps properties_to_continuous_buffer_def
        property_to_continuous_buffer_def to_be_bytes_def numeral_2_eq_2)
  then have "properties_parse [3, 34, 0, 0] = Ok ([P_TopicAliasMaximum 0], 4)"
    using properties_codec.dec_enc_Nil [of "[P_TopicAliasMaximum 0]"]
    by (simp add: properties_inv_def properties_size_def)
  from this properties_parse_sound [OF this] show ?thesis by simp
qed

end
