(* ===== verification/Packets_V50.thy ===== *)
theory Packets_V50
  imports Packets_V311 Property
begin

text \<open>
  \<^verbatim>\<open>src/mqtt/packet/v5_0/*.rs\<close> without CONNECT: the packets of MQTT v5.0, the validation of
  their properties, their parsers and their encodings.  A parser recomputes the property
  length from the parsed properties, so it writes the shortest form whatever form it read.
\<close>

section \<open>Validation of properties\<close>

text \<open>
  The \<open>validate_*_properties\<close> functions reject a property of a kind that is not listed and a
  second property of a kind that is listed as unique.
\<close>

definition count_id :: "property_id \<Rightarrow> properties \<Rightarrow> nat" where
  "count_id i props = length (filter (\<lambda>p. property_id_of p = i) props)"

definition validate_properties ::
  "property_id list \<Rightarrow> property_id list \<Rightarrow> properties \<Rightarrow> (unit, mqtt_error) result" where
  "validate_properties unique repeatable props =
     (if \<not> list_all (\<lambda>p. property_id_of p \<in> set unique \<or> property_id_of p \<in> set repeatable) props then Err ProtocolError
      else if \<not> list_all (\<lambda>i. count_id i props \<le> 1) unique then Err ProtocolError
      else Ok ())"

definition validate_puback_properties :: "properties \<Rightarrow> (unit, mqtt_error) result" where
  "validate_puback_properties = validate_properties [PI_ReasonString] [PI_UserProperty]"

definition validate_pubrec_properties :: "properties \<Rightarrow> (unit, mqtt_error) result" where
  "validate_pubrec_properties = validate_properties [PI_ReasonString] [PI_UserProperty]"

definition validate_pubrel_properties :: "properties \<Rightarrow> (unit, mqtt_error) result" where
  "validate_pubrel_properties = validate_properties [PI_ReasonString] [PI_UserProperty]"

definition validate_pubcomp_properties :: "properties \<Rightarrow> (unit, mqtt_error) result" where
  "validate_pubcomp_properties = validate_properties [PI_ReasonString] [PI_UserProperty]"

definition validate_subscribe_properties :: "properties \<Rightarrow> (unit, mqtt_error) result" where
  "validate_subscribe_properties = validate_properties [] [PI_SubscriptionIdentifier, PI_UserProperty]"

definition validate_suback_properties :: "properties \<Rightarrow> (unit, mqtt_error) result" where
  "validate_suback_properties = validate_properties [PI_ReasonString] [PI_UserProperty]"

definition validate_unsubscribe_properties :: "properties \<Rightarrow> (unit, mqtt_error) result" where
  "validate_unsubscribe_properties = validate_properties [] [PI_UserProperty]"

definition validate_unsuback_properties :: "properties \<Rightarrow> (unit, mqtt_error) result" where
  "validate_unsuback_properties = validate_properties [PI_ReasonString] [PI_UserProperty]"

definition validate_disconnect_properties :: "properties \<Rightarrow> (unit, mqtt_error) result" where
  "validate_disconnect_properties =
     validate_properties [PI_SessionExpiryInterval, PI_ReasonString, PI_ServerReference] [PI_UserProperty]"

definition validate_connack_properties :: "properties \<Rightarrow> (unit, mqtt_error) result" where
  "validate_connack_properties =
     validate_properties [PI_SessionExpiryInterval, PI_ReceiveMaximum, PI_MaximumQos, PI_RetainAvailable,
       PI_MaximumPacketSize, PI_AssignedClientIdentifier, PI_TopicAliasMaximum, PI_ReasonString,
       PI_WildcardSubscriptionAvailable, PI_SubscriptionIdentifierAvailable, PI_SharedSubscriptionAvailable,
       PI_ServerKeepAlive, PI_ResponseInformation, PI_ServerReference, PI_AuthenticationMethod,
       PI_AuthenticationData] [PI_UserProperty]"

datatype property_validation = ValidWithTopicAlias | ValidWithoutTopicAlias

definition validate_publish_properties :: "properties \<Rightarrow> (property_validation, mqtt_error) result" where
  "validate_publish_properties props =
     res_bind (validate_properties [PI_PayloadFormatIndicator, PI_MessageExpiryInterval, PI_TopicAlias, PI_ResponseTopic,
         PI_CorrelationData, PI_ContentType] [PI_SubscriptionIdentifier, PI_UserProperty] props) (\<lambda>_.
       Ok (if count_id PI_TopicAlias props > 0 then ValidWithTopicAlias else ValidWithoutTopicAlias))"

definition validate_auth_packet :: "auth_reason_code option \<Rightarrow> properties option \<Rightarrow> (unit, mqtt_error) result" where
  "validate_auth_packet reason_code props =
     (case props of
        Some ps \<Rightarrow>
          res_bind (validate_properties [PI_AuthenticationMethod, PI_AuthenticationData, PI_ReasonString] [PI_UserProperty] ps) (\<lambda>_.
            if count_id PI_AuthenticationData ps > 0 \<and> count_id PI_AuthenticationMethod ps = 0 then Err ProtocolError
            else if reason_code \<noteq> None \<and> reason_code \<noteq> Some Auth_Success \<and> count_id PI_AuthenticationMethod ps = 0
            then Err ProtocolError
            else Ok ())
      | None \<Rightarrow> if reason_code \<noteq> None \<and> reason_code \<noteq> Some Auth_Success then Err ProtocolError else Ok ())"

section \<open>A reason code and properties\<close>

text \<open>
  The end of the acknowledgements, of DISCONNECT and of AUTH: an optional reason code and,
  after it, optional properties.
\<close>

definition v5_reason_parse ::
  "(u8 \<Rightarrow> bool) \<Rightarrow> (properties \<Rightarrow> (unit, mqtt_error) result) \<Rightarrow> bytes \<Rightarrow> nat
   \<Rightarrow> (u8 option \<times> variable_byte_integer option \<times> properties option \<times> nat, mqtt_error) result rust" where
  "v5_reason_parse reason_ok validate data cursor =
     tbind (if cursor < length data then rbind (idx data cursor) (\<lambda>rc.
              if reason_ok rc then Ret (Ok (Some rc, cursor + 1)) else Ret (Err MalformedPacket))
            else Ret (Ok (None, cursor))) (\<lambda>(reason_code_buf, cursor).
     if reason_code_buf \<noteq> None \<and> cursor < length data then
       rbind (slice_from data cursor) (\<lambda>rest.
       tbind (rs_properties_parse rest) (\<lambda>(props, consumed).
       tbind (Ret (validate props)) (\<lambda>_.
       rbind (vbi_of (properties_size props)) (\<lambda>prop_len.
         Ret (Ok (reason_code_buf, Some prop_len, Some props, cursor + consumed))))))
     else Ret (Ok (reason_code_buf, None, None, cursor)))"

lemma v5_reason_parse_eq:
  "v5_reason_parse reason_ok validate data cursor =
     tbind (if cursor < length data then
              let rc = data ! cursor in
              if reason_ok rc then Ret (Ok (Some rc, cursor + 1)) else Ret (Err MalformedPacket)
            else Ret (Ok (None, cursor))) (\<lambda>(reason_code_buf, cursor).
     if reason_code_buf \<noteq> None \<and> cursor < length data then
       tbind (Ret (properties_parse (drop cursor data))) (\<lambda>(props, consumed).
       tbind (Ret (validate props)) (\<lambda>_.
       rbind (vbi_of (properties_size props)) (\<lambda>prop_len.
         Ret (Ok (reason_code_buf, Some prop_len, Some props, cursor + consumed)))))
     else Ret (Ok (reason_code_buf, None, None, cursor)))"
  by (simp add: v5_reason_parse_def rs_properties_parse Let_def cong: if_cong)

definition v5_reason_size :: "u8 option \<Rightarrow> variable_byte_integer option \<Rightarrow> properties option \<Rightarrow> nat" where
  "v5_reason_size reason_code_buf property_length props =
     (case reason_code_buf of None \<Rightarrow> 0 | Some _ \<Rightarrow> 1) + (case property_length of None \<Rightarrow> 0 | Some pl \<Rightarrow> vbi_size pl)
     + (case props of None \<Rightarrow> 0 | Some ps \<Rightarrow> properties_size ps)"

definition v5_reason_buffer :: "u8 option \<Rightarrow> variable_byte_integer option \<Rightarrow> properties option \<Rightarrow> bytes" where
  "v5_reason_buffer reason_code_buf property_length props =
     (case reason_code_buf of None \<Rightarrow> [] | Some rc \<Rightarrow> [rc]) @ (case property_length of None \<Rightarrow> [] | Some pl \<Rightarrow> encoded pl)
     @ (case props of None \<Rightarrow> [] | Some ps \<Rightarrow> properties_to_continuous_buffer ps)"

definition v5_reason_inv ::
  "(u8 \<Rightarrow> bool) \<Rightarrow> (properties \<Rightarrow> (unit, mqtt_error) result) \<Rightarrow> u8 option \<Rightarrow> variable_byte_integer option \<Rightarrow> properties option \<Rightarrow> bool" where
  "v5_reason_inv reason_ok validate rc pl props \<longleftrightarrow> pred_option reason_ok rc \<and>
     (case props of None \<Rightarrow> pl = None
      | Some ps \<Rightarrow> rc \<noteq> None \<and> properties_inv ps \<and> validate ps = Ok () \<and> pl = Some \<lparr>encoded = vbi_enc (properties_size ps)\<rparr>)"

lemma properties_wire_eq: "vbi_enc (properties_size ps) @ properties_to_continuous_buffer ps = properties_wire ps"
  by (simp add: properties_wire_def)

lemma length_properties_wire: "length (properties_wire ps) = length (vbi_enc (properties_size ps)) + properties_size ps"
  by (simp add: properties_wire_def)

lemma length_reason_buffer [simp]: "length (v5_reason_buffer rc pl props) = v5_reason_size rc pl props"
  by (simp add: v5_reason_buffer_def v5_reason_size_def vbi_size_def split: option.splits)

lemma v5_reason_parse_buffer:
  assumes inv: "v5_reason_inv ok val rc pl props"
    and d: "drop c data = v5_reason_buffer rc pl props" and le: "c \<le> length data"
  shows "v5_reason_parse ok val data c = Ret (Ok (rc, pl, props, length data))"
proof (cases rc)
  case None
  then have "drop c data = []" "pl = None" "props = None"
    using inv d by (auto simp: v5_reason_inv_def v5_reason_buffer_def split: option.splits)
  then show ?thesis using None le by (simp add: v5_reason_parse_eq)
next
  case (Some r)
  then obtain tl where tl: "drop c data = r # tl" "tl = v5_reason_buffer None pl props"
    using d by (auto simp: v5_reason_buffer_def)
  have c: "c < length data" "data ! c = r" "drop (Suc c) data = tl"
    using tl(1) by (metis drop_all list.simps(3) not_le, metis nth_via_drop, metis drop_Suc list.sel(3) tl_drop)
  have ok: "ok r" using inv Some by (simp add: v5_reason_inv_def)
  show ?thesis
  proof (cases props)
    case None
    then have "tl = []" "pl = None" using inv tl(2) by (auto simp: v5_reason_inv_def v5_reason_buffer_def)
    moreover from this have "length data = Suc c" using c by (metis Suc_leI drop_eq_Nil le_antisym)
    ultimately show ?thesis using c ok Some None by (simp add: v5_reason_parse_eq)
  next
    case (Some ps)
    then have ps: "properties_inv ps" "val ps = Ok ()" "pl = Some \<lparr>encoded = vbi_enc (properties_size ps)\<rparr>"
      using inv by (auto simp: v5_reason_inv_def)
    then have w: "tl = properties_wire ps" using tl(2) Some by (simp add: v5_reason_buffer_def properties_wire_def)
    have lt: "Suc c < length data" using c(3) w properties_codec.enc_nonempty [OF ps(1)] by (metis drop_all not_le)
    have "length data - Suc c = length (properties_wire ps)"
      using arg_cong [OF c(3), of length] w by (simp only: length_drop)
    then have "length data = Suc c + length (properties_wire ps)" using lt by simp
    then show ?thesis
      using c ok ps lt \<open>rc = Some r\<close> Some w properties_codec.dec_enc_Nil [OF ps(1)]
      by (simp add: v5_reason_parse_eq vbi_of_Ret properties_inv_def)
  qed
qed

lemma v5_reason_parse_OkD:
  assumes p: "v5_reason_parse ok val data c = Ret (Ok (rc, pl, props, c'))" and le: "c \<le> length data" "length data < 268435456"
  shows "v5_reason_inv ok val rc pl props \<and> c' \<le> length data \<and> c + v5_reason_size rc pl props \<le> c'"
proof (cases "rc \<noteq> None \<and> Suc c < length data")
  case True
  then obtain r ps n where *: "rc = Some r" "ok r" "properties_parse (drop (Suc c) data) = Ok (ps, n)" "val ps = Ok ()"
    "props = Some ps" "c' = Suc c + n" "vbi_of (properties_size ps) = Ret (the pl)" "pl \<noteq> None"
    using p le by (auto simp: v5_reason_parse_eq tbind_eq_Ok rbind_eq_Ret Let_def split: if_splits)
  note d = properties_parse_OkD [OF *(3)]
  then have "pl = Some \<lparr>encoded = vbi_enc (properties_size ps)\<rparr>"
    using *(7,8) by (auto simp: vbi_of_Ret properties_inv_def)
  then show ?thesis
    using * d True by (auto simp: v5_reason_inv_def v5_reason_size_def vbi_size_def properties_wire_def)
next
  case False
  then show ?thesis
    using p le by (auto simp: v5_reason_parse_eq v5_reason_inv_def v5_reason_size_def tbind_eq_Ok rbind_eq_Ret Let_def
        split: if_splits)
qed

lemma v5_reason_parse_returns: "\<exists>r. v5_reason_parse ok val data c = Ret r"
proof (cases "v5_reason_parse ok val data c")
  case (Panic x)
  then obtain ps n c2 where "properties_parse (drop c2 data) = Ok (ps, n)" "vbi_of (properties_size ps) = Panic x"
    by (auto simp: v5_reason_parse_eq tbind_eq_Panic rbind_eq_Panic Let_def split: if_splits)
  then show ?thesis using properties_parse_OkD [of "drop c2 data" ps n] by (simp add: properties_inv_def vbi_of_Ret)
qed simp

section \<open>PUBACK, PUBREC, PUBREL, PUBCOMP\<close>

text \<open>
  \<open>Puback\<close> keeps a property length of zero where the others keep \<open>None\<close>; nothing reads it, and
  the model has \<open>None\<close> for all four.
\<close>

record 't v5_ack =
  v5a_fixed_header :: u8
  v5a_remaining_length :: variable_byte_integer
  v5a_packet_id_buf :: 't
  v5a_reason_code_buf :: "u8 option"
  v5a_property_length :: "variable_byte_integer option"
  v5a_props :: "properties option"

definition v5_ack_parse ::
  "fixed_header \<Rightarrow> (u8 \<Rightarrow> bool) \<Rightarrow> (properties \<Rightarrow> (unit, mqtt_error) result) \<Rightarrow> 'p::len word v5_ack parser" where
  "v5_ack_parse fh reason_ok validate flags data =
     (let buffer_size = pid_size TYPE('p) in
      if length data < buffer_size then Ret (Err MalformedPacket)
      else rbind (subslice data 0 buffer_size) (\<lambda>id_bytes.
        if list_all (\<lambda>b. b = 0) id_bytes then Ret (Err MalformedPacket)
        else rbind (subslice data 0 buffer_size) (\<lambda>buf. let packet_id_buf = from_buffer buf in
        tbind (v5_reason_parse reason_ok validate data buffer_size) (\<lambda>(reason_code_buf, property_length, props, cursor).
        rbind (vbi_of (buffer_size + v5_reason_size reason_code_buf property_length props)) (\<lambda>rl.
          Ret (Ok (\<lparr>v5a_fixed_header = fixed_header_as_u8 fh, v5a_remaining_length = rl,
                    v5a_packet_id_buf = packet_id_buf, v5a_reason_code_buf = reason_code_buf,
                    v5a_property_length = property_length, v5a_props = props\<rparr>, cursor)))))))"

lemma v5_ack_parse_eq:
  "(v5_ack_parse fh reason_ok validate flags data :: ('p::len word v5_ack \<times> nat, mqtt_error) result rust) =
     (let buffer_size = pid_size TYPE('p) in
      if length data < buffer_size then Ret (Err MalformedPacket)
      else if list_all (\<lambda>b. b = 0) (take buffer_size data) then Ret (Err MalformedPacket)
      else let packet_id_buf = from_buffer (take buffer_size data) in
        tbind (v5_reason_parse reason_ok validate data buffer_size) (\<lambda>(reason_code_buf, property_length, props, cursor).
        rbind (vbi_of (buffer_size + v5_reason_size reason_code_buf property_length props)) (\<lambda>rl.
          Ret (Ok (\<lparr>v5a_fixed_header = fixed_header_as_u8 fh, v5a_remaining_length = rl,
                    v5a_packet_id_buf = packet_id_buf, v5a_reason_code_buf = reason_code_buf,
                    v5a_property_length = property_length, v5a_props = props\<rparr>, cursor)))))"
  by (simp add: v5_ack_parse_def Let_def cong: if_cong)

definition v5_puback_parse :: "'p::len word v5_ack parser" where
  "v5_puback_parse = v5_ack_parse FH_Puback (\<lambda>b. puback_reason_code_try_from b \<noteq> None) validate_puback_properties"

definition v5_pubrec_parse :: "'p::len word v5_ack parser" where
  "v5_pubrec_parse = v5_ack_parse FH_Pubrec (\<lambda>b. pubrec_reason_code_try_from b \<noteq> None) validate_pubrec_properties"

definition v5_pubrel_parse :: "'p::len word v5_ack parser" where
  "v5_pubrel_parse = v5_ack_parse FH_Pubrel (\<lambda>b. pubrel_reason_code_try_from b \<noteq> None) validate_pubrel_properties"

definition v5_pubcomp_parse :: "'p::len word v5_ack parser" where
  "v5_pubcomp_parse = v5_ack_parse FH_Pubcomp (\<lambda>b. pubcomp_reason_code_try_from b \<noteq> None) validate_pubcomp_properties"

text \<open>\<open>reason_code()\<close> of PUBREC, which decides what the connection does next.\<close>

definition v5_pubrec_reason_code :: "'p::len word v5_ack \<Rightarrow> pubrec_reason_code option" where
  "v5_pubrec_reason_code k = (case v5a_reason_code_buf k of None \<Rightarrow> None | Some b \<Rightarrow> pubrec_reason_code_try_from b)"

definition v5_ack_size :: "'p::len word v5_ack \<Rightarrow> nat" where
  "v5_ack_size k = packet_size_of (v5a_remaining_length k)"

definition v5_ack_to_continuous_buffer :: "'p::len word v5_ack \<Rightarrow> bytes" where
  "v5_ack_to_continuous_buffer k =
     v5a_fixed_header k # encoded (v5a_remaining_length k) @ to_buffer (v5a_packet_id_buf k)
       @ v5_reason_buffer (v5a_reason_code_buf k) (v5a_property_length k) (v5a_props k)"

text \<open>The builders; the outer option of a field is whether it was set.\<close>

record 't v5_ack_builder =
  v5ab_packet_id_buf :: "'t option"
  v5ab_reason_code_buf :: "u8 option option"
  v5ab_props :: "properties option option"

definition flatten :: "'a option option \<Rightarrow> 'a option" where
  "flatten x = (case x of None \<Rightarrow> None | Some y \<Rightarrow> y)"

text \<open>The checks of reason code and properties: properties need a reason code before them.\<close>

definition v5_reason_validate ::
  "(properties \<Rightarrow> (unit, mqtt_error) result) \<Rightarrow> u8 option option \<Rightarrow> properties option option \<Rightarrow> (unit, mqtt_error) result rust" where
  "v5_reason_validate validate reason_code_buf props =
     (if reason_code_buf = None \<and> props \<noteq> None then Ret (Err MalformedPacket)
      else case props of
          None \<Rightarrow> Ret (Ok ())
        | Some inner_option \<Rightarrow> rbind (unwrap inner_option) (\<lambda>ps. Ret (validate ps)))"

definition v5_ack_validate ::
  "(properties \<Rightarrow> (unit, mqtt_error) result) \<Rightarrow> 'p::len word v5_ack_builder \<Rightarrow> (unit, mqtt_error) result rust" where
  "v5_ack_validate validate b =
     (case v5ab_packet_id_buf b of
        None \<Rightarrow> Ret (Err MalformedPacket)
      | Some pid \<Rightarrow>
          if list_all (\<lambda>x. x = 0) (to_buffer pid) then Ret (Err MalformedPacket)
          else v5_reason_validate validate (v5ab_reason_code_buf b) (v5ab_props b))"

definition v5_property_length :: "properties option \<Rightarrow> variable_byte_integer option rust" where
  "v5_property_length props = (case props of None \<Rightarrow> Ret None
     | Some ps \<Rightarrow> rbind (vbi_of (properties_size ps)) (\<lambda>pl. Ret (Some pl)))"

definition v5_ack_build ::
  "fixed_header \<Rightarrow> (properties \<Rightarrow> (unit, mqtt_error) result) \<Rightarrow> 'p::len word v5_ack_builder
   \<Rightarrow> ('p word v5_ack, mqtt_error) result rust" where
  "v5_ack_build fh validate b =
     tbind (v5_ack_validate validate b) (\<lambda>_.
     rbind (unwrap (v5ab_packet_id_buf b)) (\<lambda>pid.
     let reason_code_buf = flatten (v5ab_reason_code_buf b); props = flatten (v5ab_props b) in
     rbind (v5_property_length props) (\<lambda>property_length.
     rbind (vbi_of (pid_size TYPE('p) + v5_reason_size reason_code_buf property_length props)) (\<lambda>rl.
       Ret (Ok \<lparr>v5a_fixed_header = fixed_header_as_u8 fh, v5a_remaining_length = rl, v5a_packet_id_buf = pid,
                v5a_reason_code_buf = reason_code_buf, v5a_property_length = property_length, v5a_props = props\<rparr>)))))"

definition v5_puback_build :: "'p::len word v5_ack_builder \<Rightarrow> ('p word v5_ack, mqtt_error) result rust" where
  "v5_puback_build = v5_ack_build FH_Puback validate_puback_properties"

definition v5_pubrec_build :: "'p::len word v5_ack_builder \<Rightarrow> ('p word v5_ack, mqtt_error) result rust" where
  "v5_pubrec_build = v5_ack_build FH_Pubrec validate_pubrec_properties"

definition v5_pubrel_build :: "'p::len word v5_ack_builder \<Rightarrow> ('p word v5_ack, mqtt_error) result rust" where
  "v5_pubrel_build = v5_ack_build FH_Pubrel validate_pubrel_properties"

definition v5_pubcomp_build :: "'p::len word v5_ack_builder \<Rightarrow> ('p word v5_ack, mqtt_error) result rust" where
  "v5_pubcomp_build = v5_ack_build FH_Pubcomp validate_pubcomp_properties"

text \<open>\<open>builder().packet_id(id).build().unwrap()\<close> and the same with a reason code, as the connection uses them.\<close>

definition v5_ack_for :: "fixed_header \<Rightarrow> u8 option \<Rightarrow> 'p::len word \<Rightarrow> 'p word v5_ack rust" where
  "v5_ack_for fh rc pid =
     rbind (v5_ack_build fh (\<lambda>_. Ok ()) \<lparr>v5ab_packet_id_buf = Some pid,
       v5ab_reason_code_buf = (case rc of None \<Rightarrow> None | Some b \<Rightarrow> Some (Some b)), v5ab_props = None\<rparr>) unwrap_res"

definition v5_ack_body :: "'p::len word v5_ack \<Rightarrow> bytes" where
  "v5_ack_body k = to_buffer (v5a_packet_id_buf k)
     @ v5_reason_buffer (v5a_reason_code_buf k) (v5a_property_length k) (v5a_props k)"

definition v5_ack_inv ::
  "fixed_header \<Rightarrow> (u8 \<Rightarrow> bool) \<Rightarrow> (properties \<Rightarrow> (unit, mqtt_error) result) \<Rightarrow> 'p::len word v5_ack \<Rightarrow> bool" where
  "v5_ack_inv fh reason_ok validate k \<longleftrightarrow> v5a_fixed_header k = fixed_header_as_u8 fh \<and> v5a_packet_id_buf k \<noteq> 0
     \<and> v5_reason_inv reason_ok validate (v5a_reason_code_buf k) (v5a_property_length k) (v5a_props k)
     \<and> length (v5_ack_body k) < 268435456
     \<and> v5a_remaining_length k = \<lparr>encoded = vbi_enc (length (v5_ack_body k))\<rparr>"

lemma v5_ack_codec:
  assumes w: "packet_id_width TYPE('p::len)"
  shows "packet_codec (v5_ack_inv fh ok val) v5a_fixed_header v5_ack_body v5_ack_to_continuous_buffer v5_ack_size
    (v5_ack_parse fh ok val :: 'p word v5_ack parser)"
proof (unfold_locales, goal_cases)
  case (1 k)
  then show ?case by (simp add: v5_ack_inv_def v5_ack_to_continuous_buffer_def v5_ack_body_def)
next
  case (2 k)
  then show ?case by (simp add: v5_ack_inv_def)
next
  case (3 k)
  then show ?case
    by (simp add: v5_ack_inv_def v5_ack_to_continuous_buffer_def v5_ack_size_def packet_size_of_enc) (simp add: v5_ack_body_def)
next
  case (4 k)
  have "\<not> list_all (\<lambda>b. b = 0) (to_buffer (v5a_packet_id_buf k))"
    using 4 to_buffer_zeros [OF w] by (simp add: v5_ack_inv_def)
  moreover have "from_buffer (to_buffer (v5a_packet_id_buf k)) = v5a_packet_id_buf k"
    using from_to_buffer [OF w, of _ "[]"] by simp
  moreover have "v5_reason_parse ok val (v5_ack_body k) (pid_size TYPE('p)) =
    Ret (Ok (v5a_reason_code_buf k, v5a_property_length k, v5a_props k, length (v5_ack_body k)))"
    using 4 by (intro v5_reason_parse_buffer) (simp_all add: v5_ack_inv_def v5_ack_body_def)
  moreover have "length (v5_ack_body k) = pid_size TYPE('p) + v5_reason_size (v5a_reason_code_buf k) (v5a_property_length k) (v5a_props k)"
    by (simp add: v5_ack_body_def)
  moreover have "take (pid_size TYPE('p)) (v5_ack_body k) = to_buffer (v5a_packet_id_buf k)"
    by (simp add: v5_ack_body_def)
  ultimately show ?case
    using 4 by (cases k) (simp add: v5_ack_parse_eq v5_ack_inv_def vbi_of_Ret Let_def)
next
  case (6 bs flags k n)
  have len: "pid_size TYPE('p) \<le> length bs"
    using 6(2) by (auto simp: v5_ack_parse_eq Let_def split: if_splits)
  then have "length (take (pid_size TYPE('p)) bs) = pid_size TYPE('p)" by simp
  note z = from_buffer_zeros [OF w this]
  from 6(2) obtain rc pl props where
    r: "v5_reason_parse ok val bs (pid_size TYPE('p)) = Ret (Ok (rc, pl, props, n))"
    and k: "rbind (vbi_of (pid_size TYPE('p) + v5_reason_size rc pl props)) (\<lambda>rl. Ret \<lparr>v5a_fixed_header = fixed_header_as_u8 fh,
        v5a_remaining_length = rl, v5a_packet_id_buf = from_buffer (take (pid_size TYPE('p)) bs),
        v5a_reason_code_buf = rc, v5a_property_length = pl, v5a_props = props\<rparr>) = Ret k"
    and nz: "\<not> list_all (\<lambda>b. b = 0) (take (pid_size TYPE('p)) bs)"
    by (auto simp: v5_ack_parse_eq Let_def tbind_eq_Ok rbind_eq_Ret split: if_splits)
  note o = v5_reason_parse_OkD [OF r len 6(1)]
  have lt: "pid_size TYPE('p) + v5_reason_size rc pl props < 268435456" using o 6(1) by simp
  show ?case
    using k o nz z lt by (auto simp: vbi_of_Ret [OF lt] v5_ack_inv_def v5_ack_body_def)
next
  case (5 bs flags)
  show ?case
  proof (cases "v5_ack_parse fh ok val flags bs :: ('p word v5_ack \<times> nat, mqtt_error) result rust")
    case (Panic x)
    obtain r where "v5_reason_parse ok val bs (pid_size TYPE('p)) = Ret r" using v5_reason_parse_returns by blast
    with Panic obtain rc pl props n where
      r: "v5_reason_parse ok val bs (pid_size TYPE('p)) = Ret (Ok (rc, pl, props, n))" "pid_size TYPE('p) \<le> length bs"
      "vbi_of (pid_size TYPE('p) + v5_reason_size rc pl props) = Panic x"
      by (auto simp: v5_ack_parse_eq Let_def tbind_eq_Panic rbind_eq_Panic split: if_splits)
    then show ?thesis using v5_reason_parse_OkD [OF r(1,2) 5] 5 by (simp add: vbi_of_Ret)
  qed simp
qed

lemma v5_ack_for_ok:
  assumes "packet_id_width TYPE('p::len)" and "(pid :: 'p word) \<noteq> 0"
  shows "\<exists>rl. v5_ack_for fh rc pid = Ret \<lparr>v5a_fixed_header = fixed_header_as_u8 fh, v5a_remaining_length = rl,
     v5a_packet_id_buf = pid, v5a_reason_code_buf = rc, v5a_property_length = None, v5a_props = None\<rparr>"
  using to_buffer_zeros [OF assms(1), of pid] assms(2) pid_size_le [OF assms(1)]
  by (cases rc) (simp_all add: v5_ack_for_def v5_ack_build_def v5_ack_validate_def v5_reason_validate_def vbi_of_Ret
      flatten_def v5_property_length_def v5_reason_size_def)

lemma v5_ack_for_zero:
  "packet_id_width TYPE('p::len) \<Longrightarrow> v5_ack_for fh rc (0 :: 'p word) = Panic Unwrap_Failed"
  using to_buffer_zeros [of "0 :: 'p word"]
  by (simp add: v5_ack_for_def v5_ack_build_def v5_ack_validate_def)

section \<open>DISCONNECT and AUTH\<close>

record v5_reason_packet =
  v5r_fixed_header :: u8
  v5r_remaining_length :: variable_byte_integer
  v5r_reason_code_buf :: "u8 option"
  v5r_property_length :: "variable_byte_integer option"
  v5r_props :: "properties option"

definition v5_disconnect_parse :: "v5_reason_packet parser" where
  "v5_disconnect_parse flags data =
     tbind (v5_reason_parse (\<lambda>b. disconnect_reason_code_try_from b \<noteq> None) validate_disconnect_properties data 0)
       (\<lambda>(reason_code_buf, property_length, props, cursor).
     rbind (vbi_of (v5_reason_size reason_code_buf property_length props)) (\<lambda>rl.
       Ret (Ok (\<lparr>v5r_fixed_header = fixed_header_as_u8 FH_Disconnect, v5r_remaining_length = rl,
                 v5r_reason_code_buf = reason_code_buf, v5r_property_length = property_length, v5r_props = props\<rparr>, cursor))))"

definition auth_reason_of :: "u8 option \<Rightarrow> auth_reason_code option" where
  "auth_reason_of rc = (case rc of None \<Rightarrow> None | Some b \<Rightarrow> auth_reason_code_try_from b)"

definition v5_auth_parse :: "v5_reason_packet parser" where
  "v5_auth_parse flags data =
     tbind (v5_reason_parse (\<lambda>b. auth_reason_code_try_from b \<noteq> None) (\<lambda>_. Ok ()) data 0)
       (\<lambda>(reason_code_buf, property_length, props, cursor).
     tbind (Ret (validate_auth_packet (auth_reason_of reason_code_buf) props)) (\<lambda>_.
     rbind (vbi_of (v5_reason_size reason_code_buf property_length props)) (\<lambda>rl.
       Ret (Ok (\<lparr>v5r_fixed_header = fixed_header_as_u8 FH_Auth, v5r_remaining_length = rl,
                 v5r_reason_code_buf = reason_code_buf, v5r_property_length = property_length, v5r_props = props\<rparr>, cursor)))))"

definition v5_reason_packet_size :: "v5_reason_packet \<Rightarrow> nat" where
  "v5_reason_packet_size k = packet_size_of (v5r_remaining_length k)"

definition v5_reason_packet_to_continuous_buffer :: "v5_reason_packet \<Rightarrow> bytes" where
  "v5_reason_packet_to_continuous_buffer k =
     v5r_fixed_header k # encoded (v5r_remaining_length k)
       @ v5_reason_buffer (v5r_reason_code_buf k) (v5r_property_length k) (v5r_props k)"

definition v5_reason_packet_build ::
  "fixed_header \<Rightarrow> (unit, mqtt_error) result rust \<Rightarrow> u8 option option \<Rightarrow> properties option option
   \<Rightarrow> (v5_reason_packet, mqtt_error) result rust" where
  "v5_reason_packet_build fh validated reason_code props =
     tbind validated (\<lambda>_.
     let reason_code_buf = flatten reason_code; props = flatten props in
     rbind (v5_property_length props) (\<lambda>property_length.
     rbind (vbi_of (v5_reason_size reason_code_buf property_length props)) (\<lambda>rl.
       Ret (Ok \<lparr>v5r_fixed_header = fixed_header_as_u8 fh, v5r_remaining_length = rl,
                v5r_reason_code_buf = reason_code_buf, v5r_property_length = property_length, v5r_props = props\<rparr>))))"

definition v5_disconnect_build ::
  "u8 option option \<Rightarrow> properties option option \<Rightarrow> (v5_reason_packet, mqtt_error) result rust" where
  "v5_disconnect_build reason_code props =
     v5_reason_packet_build FH_Disconnect (v5_reason_validate validate_disconnect_properties reason_code props) reason_code props"

definition v5_auth_validate :: "u8 option option \<Rightarrow> properties option option \<Rightarrow> (unit, mqtt_error) result" where
  "v5_auth_validate reason_code props =
     (if reason_code = None \<and> props \<noteq> None then Err MalformedPacket
      else validate_auth_packet (auth_reason_of (flatten reason_code)) (flatten props))"

text \<open>Setting the reason code of an AUTH builder sets empty properties when none were set.\<close>

definition v5_auth_set_reason_code ::
  "auth_reason_code \<Rightarrow> u8 option option \<times> properties option option \<Rightarrow> u8 option option \<times> properties option option" where
  "v5_auth_set_reason_code rc b =
     (Some (Some (auth_reason_code_u8 rc)), (if snd b = None then Some (Some []) else snd b))"

definition v5_auth_build ::
  "u8 option option \<Rightarrow> properties option option \<Rightarrow> (v5_reason_packet, mqtt_error) result rust" where
  "v5_auth_build reason_code props =
     v5_reason_packet_build FH_Auth (Ret (v5_auth_validate reason_code props)) reason_code props"

text \<open>\<open>builder().reason_code(rc).build().unwrap()\<close> of DISCONNECT, as the connection uses it.\<close>

definition v5_disconnect_for :: "disconnect_reason_code \<Rightarrow> v5_reason_packet" where
  "v5_disconnect_for rc = \<lparr>v5r_fixed_header = fixed_header_as_u8 FH_Disconnect, v5r_remaining_length = \<lparr>encoded = vbi_enc 1\<rparr>,
     v5r_reason_code_buf = Some (disconnect_reason_code_u8 rc), v5r_property_length = None, v5r_props = None\<rparr>"

lemma v5_disconnect_for_build:
  "rbind (v5_disconnect_build (Some (Some (disconnect_reason_code_u8 rc))) None) unwrap_res = Ret (v5_disconnect_for rc)"
  by (simp add: v5_disconnect_build_def v5_reason_packet_build_def v5_reason_validate_def flatten_def v5_property_length_def
      v5_reason_size_def vbi_of_Ret v5_disconnect_for_def)

definition v5_reason_packet_body :: "v5_reason_packet \<Rightarrow> bytes" where
  "v5_reason_packet_body k = v5_reason_buffer (v5r_reason_code_buf k) (v5r_property_length k) (v5r_props k)"

definition v5_reason_packet_inv ::
  "fixed_header \<Rightarrow> (u8 \<Rightarrow> bool) \<Rightarrow> (properties \<Rightarrow> (unit, mqtt_error) result) \<Rightarrow> v5_reason_packet \<Rightarrow> bool" where
  "v5_reason_packet_inv fh reason_ok validate k \<longleftrightarrow> v5r_fixed_header k = fixed_header_as_u8 fh
     \<and> v5_reason_inv reason_ok validate (v5r_reason_code_buf k) (v5r_property_length k) (v5r_props k)
     \<and> length (v5_reason_packet_body k) < 268435456
     \<and> v5r_remaining_length k = \<lparr>encoded = vbi_enc (length (v5_reason_packet_body k))\<rparr>"

definition v5_auth_inv :: "v5_reason_packet \<Rightarrow> bool" where
  "v5_auth_inv k \<longleftrightarrow> v5_reason_packet_inv FH_Auth (\<lambda>b. auth_reason_code_try_from b \<noteq> None) (\<lambda>_. Ok ()) k
     \<and> validate_auth_packet (auth_reason_of (v5r_reason_code_buf k)) (v5r_props k) = Ok ()"

abbreviation v5_disconnect_inv :: "v5_reason_packet \<Rightarrow> bool" where
  "v5_disconnect_inv \<equiv> v5_reason_packet_inv FH_Disconnect (\<lambda>b. disconnect_reason_code_try_from b \<noteq> None) validate_disconnect_properties"

lemmas v5_reason_packet_defs = v5_reason_packet_inv_def v5_reason_packet_body_def
  v5_reason_packet_to_continuous_buffer_def v5_reason_packet_size_def

lemma v5_reason_packet_parse_body:
  assumes "v5_reason_packet_inv fh ok val k"
  shows "v5_reason_parse ok val (v5_reason_packet_body k) 0 =
    Ret (Ok (v5r_reason_code_buf k, v5r_property_length k, v5r_props k, length (v5_reason_packet_body k)))"
  using assms by (intro v5_reason_parse_buffer) (simp_all add: v5_reason_packet_defs)

interpretation v5_disconnect: packet_codec v5_disconnect_inv v5r_fixed_header v5_reason_packet_body
    v5_reason_packet_to_continuous_buffer v5_reason_packet_size v5_disconnect_parse
proof (unfold_locales, goal_cases)
  case (4 k)
  then show ?case
    using v5_reason_packet_parse_body [OF 4]
    by (cases k) (simp add: v5_disconnect_parse_def v5_reason_packet_defs vbi_of_Ret)
next
  case (5 bs flags)
  obtain r where r: "v5_reason_parse (\<lambda>b. disconnect_reason_code_try_from b \<noteq> None) validate_disconnect_properties bs 0 = Ret r"
    using v5_reason_parse_returns by blast
  show ?case
    using r v5_reason_parse_OkD [of _ _ bs 0] 5
    by (cases r) (auto simp: v5_disconnect_parse_def vbi_of_Ret dest!: v5_reason_parse_OkD [of _ _ bs 0])
next
  case (6 bs flags k n)
  then obtain rc pl props where
    r: "v5_reason_parse (\<lambda>b. disconnect_reason_code_try_from b \<noteq> None) validate_disconnect_properties bs 0 = Ret (Ok (rc, pl, props, n))"
    by (auto simp: v5_disconnect_parse_def tbind_eq_Ok rbind_eq_Ret)
  note o = v5_reason_parse_OkD [OF r _ 6(1)]
  have lt: "v5_reason_size rc pl props < 268435456" using o 6(1) by simp
  show ?case using 6 r o lt by (simp add: v5_disconnect_parse_def v5_reason_packet_defs vbi_of_Ret [OF lt]) auto
qed (simp_all add: v5_reason_packet_defs packet_size_of_enc)

interpretation v5_auth: packet_codec v5_auth_inv v5r_fixed_header v5_reason_packet_body
    v5_reason_packet_to_continuous_buffer v5_reason_packet_size v5_auth_parse
proof (unfold_locales, goal_cases)
  case (4 k)
  then have inv: "v5_reason_packet_inv FH_Auth (\<lambda>b. auth_reason_code_try_from b \<noteq> None) (\<lambda>_. Ok ()) k"
    and v: "validate_auth_packet (auth_reason_of (v5r_reason_code_buf k)) (v5r_props k) = Ok ()" by (simp_all add: v5_auth_inv_def)
  show ?case
    using v5_reason_packet_parse_body [OF inv] inv v
    by (cases k) (simp add: v5_auth_parse_def v5_reason_packet_defs vbi_of_Ret)
next
  case (5 bs flags)
  obtain r where r: "v5_reason_parse (\<lambda>b. auth_reason_code_try_from b \<noteq> None) (\<lambda>_. Ok ()) bs 0 = Ret r"
    using v5_reason_parse_returns by blast
  show ?case
  proof (cases r)
    case (Ok x)
    then obtain rc pl props c where x: "r = Ok (rc, pl, props, c)" by (cases x) auto
    then have "v5_reason_size rc pl props < 268435456"
      using v5_reason_parse_OkD [of _ _ bs 0 rc pl props c] r 5 by fastforce
    then show ?thesis
      using r x by (cases "validate_auth_packet (auth_reason_of rc) props") (simp_all add: v5_auth_parse_def vbi_of_Ret)
  next
    case (Err e)
    then show ?thesis using r by (simp add: v5_auth_parse_def)
  qed
next
  case (6 bs flags k n)
  then obtain rc pl props where
    r: "v5_reason_parse (\<lambda>b. auth_reason_code_try_from b \<noteq> None) (\<lambda>_. Ok ()) bs 0 = Ret (Ok (rc, pl, props, n))"
    and v: "validate_auth_packet (auth_reason_of rc) props = Ok ()"
    by (auto simp: v5_auth_parse_def tbind_eq_Ok rbind_eq_Ret)
  note o = v5_reason_parse_OkD [OF r _ 6(1)]
  have lt: "v5_reason_size rc pl props < 268435456" using o 6(1) by simp
  show ?case using 6 r o lt v by (simp add: v5_auth_parse_def v5_auth_inv_def v5_reason_packet_defs vbi_of_Ret [OF lt]) auto
qed (simp_all add: v5_auth_inv_def v5_reason_packet_defs packet_size_of_enc)

section \<open>PINGREQ and PINGRESP\<close>

text \<open>The same code as in v3.1.1.\<close>

definition v5_pingreq_new :: "v3_empty rust" where "v5_pingreq_new = v3_empty_new FH_Pingreq"
definition v5_pingresp_new :: "v3_empty rust" where "v5_pingresp_new = v3_empty_new FH_Pingresp"
definition v5_pingreq_parse :: "v3_empty parser" where "v5_pingreq_parse = v3_empty_parse FH_Pingreq"
definition v5_pingresp_parse :: "v3_empty parser" where "v5_pingresp_parse = v3_empty_parse FH_Pingresp"

section \<open>CONNACK\<close>

record v5_connack =
  v5ca_fixed_header :: u8
  v5ca_remaining_length :: variable_byte_integer
  v5ca_ack_flags :: u8
  v5ca_reason_code_buf :: u8
  v5ca_property_length :: variable_byte_integer
  v5ca_props :: properties

definition v5_connack_session_present :: "v5_connack \<Rightarrow> bool" where
  "v5_connack_session_present k \<longleftrightarrow> v5ca_ack_flags k AND 0x01 \<noteq> 0"

definition v5_connack_reason_code :: "v5_connack \<Rightarrow> connect_reason_code rust" where
  "v5_connack_reason_code k = unwrap (connect_reason_code_try_from (v5ca_reason_code_buf k))"

definition v5_connack_size :: "v5_connack \<Rightarrow> nat" where
  "v5_connack_size k = packet_size_of (v5ca_remaining_length k)"

definition v5_connack_to_continuous_buffer :: "v5_connack \<Rightarrow> bytes" where
  "v5_connack_to_continuous_buffer k =
     v5ca_fixed_header k # encoded (v5ca_remaining_length k) @ v5ca_ack_flags k # v5ca_reason_code_buf k
       # encoded (v5ca_property_length k) @ properties_to_continuous_buffer (v5ca_props k)"

text \<open>The remaining length is the number of bytes read, not the number that would be written.\<close>

definition v5_connack_parse :: "v5_connack parser" where
  "v5_connack_parse flags data =
     (if length data < 3 then Ret (Err MalformedPacket)
      else
        rbind (idx data 0) (\<lambda>ack_flags. rbind (idx data 1) (\<lambda>code.
        tbind (Ret (ok_or (connect_reason_code_try_from code) MalformedPacket)) (\<lambda>_.
        rbind (slice_from data 2) (\<lambda>rest. tbind (rs_properties_parse rest) (\<lambda>(props, consumed).
        let cursor = 2 + consumed in
        tbind (Ret (validate_connack_properties props)) (\<lambda>_.
        rbind (vbi_of (properties_size props)) (\<lambda>prop_len.
        rbind (vbi_of cursor) (\<lambda>rl.
          Ret (Ok (\<lparr>v5ca_fixed_header = fixed_header_as_u8 FH_Connack, v5ca_remaining_length = rl,
                    v5ca_ack_flags = ack_flags, v5ca_reason_code_buf = code,
                    v5ca_property_length = prop_len, v5ca_props = props\<rparr>, cursor)))))))))))"

lemma v5_connack_parse_eq:
  "v5_connack_parse flags data =
     (if length data < 3 then Ret (Err MalformedPacket)
      else
        let ack_flags = data ! 0; code = data ! 1 in
        tbind (Ret (ok_or (connect_reason_code_try_from code) MalformedPacket)) (\<lambda>_.
        tbind (Ret (properties_parse (drop 2 data))) (\<lambda>(props, consumed).
        let cursor = 2 + consumed in
        tbind (Ret (validate_connack_properties props)) (\<lambda>_.
        rbind (vbi_of (properties_size props)) (\<lambda>prop_len.
        rbind (vbi_of cursor) (\<lambda>rl.
          Ret (Ok (\<lparr>v5ca_fixed_header = fixed_header_as_u8 FH_Connack, v5ca_remaining_length = rl,
                    v5ca_ack_flags = ack_flags, v5ca_reason_code_buf = code,
                    v5ca_property_length = prop_len, v5ca_props = props\<rparr>, cursor))))))))"
  by (simp add: v5_connack_parse_def rs_properties_parse Let_def)

definition v5_connack_build ::
  "u8 option \<Rightarrow> u8 option \<Rightarrow> properties option \<Rightarrow> (v5_connack, mqtt_error) result rust" where
  "v5_connack_build ack_flags reason_code_buf props =
     tbind (Ret (if ack_flags = None then Err MalformedPacket
                 else if reason_code_buf = None then Err MalformedPacket
                 else case props of Some ps \<Rightarrow> validate_connack_properties ps | None \<Rightarrow> Ok ())) (\<lambda>_.
     let ack_flags = (case ack_flags of Some f \<Rightarrow> f | None \<Rightarrow> 0);
         reason_code_buf = (case reason_code_buf of Some c \<Rightarrow> c | None \<Rightarrow> 0);
         props = (case props of Some ps \<Rightarrow> ps | None \<Rightarrow> []) in
     rbind (vbi_of (properties_size props)) (\<lambda>property_length.
     rbind (vbi_of (1 + 1 + vbi_size property_length + properties_size props)) (\<lambda>rl.
       Ret (Ok \<lparr>v5ca_fixed_header = fixed_header_as_u8 FH_Connack, v5ca_remaining_length = rl,
                v5ca_ack_flags = ack_flags, v5ca_reason_code_buf = reason_code_buf,
                v5ca_property_length = property_length, v5ca_props = props\<rparr>))))"

definition v5_connack_body :: "v5_connack \<Rightarrow> bytes" where
  "v5_connack_body k = v5ca_ack_flags k # v5ca_reason_code_buf k # properties_wire (v5ca_props k)"

definition v5_connack_inv :: "v5_connack \<Rightarrow> bool" where
  "v5_connack_inv k \<longleftrightarrow> v5ca_fixed_header k = fixed_header_as_u8 FH_Connack
     \<and> connect_reason_code_try_from (v5ca_reason_code_buf k) \<noteq> None
     \<and> properties_inv (v5ca_props k) \<and> validate_connack_properties (v5ca_props k) = Ok ()
     \<and> v5ca_property_length k = \<lparr>encoded = vbi_enc (properties_size (v5ca_props k))\<rparr>
     \<and> length (v5_connack_body k) < 268435456
     \<and> v5ca_remaining_length k = \<lparr>encoded = vbi_enc (length (v5_connack_body k))\<rparr>"

interpretation v5_connack: packet_wire v5_connack_inv v5ca_fixed_header v5_connack_body
    v5_connack_to_continuous_buffer v5_connack_size v5_connack_parse
proof (unfold_locales, goal_cases)
  case (1 k)
  then show ?case by (simp add: v5_connack_inv_def v5_connack_to_continuous_buffer_def v5_connack_body_def properties_wire_def)
next
  case (2 k)
  then show ?case by (simp add: v5_connack_inv_def)
next
  case (3 k)
  then show ?case
    by (simp add: v5_connack_inv_def v5_connack_to_continuous_buffer_def v5_connack_size_def packet_size_of_enc)
      (simp add: v5_connack_body_def properties_wire_def)
next
  case (4 k)
  have "0 < length (properties_wire (v5ca_props k))" using 4 properties_codec.enc_nonempty by (simp add: v5_connack_inv_def)
  then show ?case
    using 4 properties_codec.dec_enc_Nil [of "v5ca_props k"]
    by (cases k) (auto simp: v5_connack_inv_def v5_connack_parse_eq v5_connack_body_def vbi_of_Ret properties_inv_def
        Let_def numeral_2_eq_2 numeral_3_eq_3)
next
  case (5 bs flags)
  show ?case
  proof (cases "v5_connack_parse flags bs")
    case (Panic x)
    then obtain ps n where p: "properties_parse (drop 2 bs) = Ok (ps, n)" "3 \<le> length bs"
      "vbi_of (properties_size ps) = Panic x \<or> vbi_of (2 + n) = Panic x"
      by (auto simp: v5_connack_parse_eq Let_def tbind_eq_Panic rbind_eq_Panic split: if_splits)
    then show ?thesis using properties_parse_OkD [OF p(1)] 5 by (auto simp: vbi_of_Ret properties_inv_def)
  qed simp
qed

end
