(* ===== verification/Connect_V50.thy ===== *)
theory Connect_V50
  imports Connect_V311 Packets_V50
begin

text \<open>
  \<^verbatim>\<open>src/mqtt/packet/v5_0/connect.rs\<close>: the CONNECT packet of MQTT v5.0.  It has the fields of
  v3.1.1, the properties of the connection and, with a will, the properties of the will.
\<close>

section \<open>The packet\<close>

record v5_connect =
  v5c_fixed_header :: u8
  v5c_remaining_length :: variable_byte_integer
  v5c_protocol_name :: bytes
  v5c_protocol_version_buf :: u8
  v5c_connect_flags_buf :: u8
  v5c_keep_alive_buf :: bytes
  v5c_property_length :: variable_byte_integer
  v5c_props :: properties
  v5c_client_id_buf :: mqtt_string
  v5c_will_property_length :: variable_byte_integer
  v5c_will_props :: properties
  v5c_will_topic_buf :: mqtt_string
  v5c_will_payload_buf :: mqtt_binary
  v5c_user_name_buf :: mqtt_string
  v5c_password_buf :: mqtt_binary

definition v5_clean_start :: "v5_connect \<Rightarrow> bool" where
  "v5_clean_start k \<longleftrightarrow> v5c_connect_flags_buf k AND 0x02 \<noteq> 0"

definition v5_will_flag :: "v5_connect \<Rightarrow> bool" where
  "v5_will_flag k \<longleftrightarrow> cf_will (v5c_connect_flags_buf k)"

definition v5_will_qos :: "v5_connect \<Rightarrow> qos" where
  "v5_will_qos k = (case qos_try_from (drop_bit 3 (v5c_connect_flags_buf k) AND 0x03) of
     Some q \<Rightarrow> q | None \<Rightarrow> AtMostOnce)"

definition v5_will_retain :: "v5_connect \<Rightarrow> bool" where
  "v5_will_retain k \<longleftrightarrow> v5c_connect_flags_buf k AND 0x20 \<noteq> 0"

definition v5_password_flag :: "v5_connect \<Rightarrow> bool" where
  "v5_password_flag k \<longleftrightarrow> cf_password (v5c_connect_flags_buf k)"

definition v5_user_name_flag :: "v5_connect \<Rightarrow> bool" where
  "v5_user_name_flag k \<longleftrightarrow> cf_user_name (v5c_connect_flags_buf k)"

definition v5_keep_alive :: "v5_connect \<Rightarrow> u16" where
  "v5_keep_alive k = from_be_bytes (v5c_keep_alive_buf k)"

definition v5_client_id :: "v5_connect \<Rightarrow> str" where
  "v5_client_id k = ms_as_str (v5c_client_id_buf k)"

definition v5_will_topic :: "v5_connect \<Rightarrow> str option" where
  "v5_will_topic k = (if v5_will_flag k then Some (ms_as_str (v5c_will_topic_buf k)) else None)"

definition v5_will_payload :: "v5_connect \<Rightarrow> bytes option" where
  "v5_will_payload k = (if v5_will_flag k then Some (mb_as_slice (v5c_will_payload_buf k)) else None)"

definition v5_user_name :: "v5_connect \<Rightarrow> str option" where
  "v5_user_name k = (if v5_user_name_flag k then Some (ms_as_str (v5c_user_name_buf k)) else None)"

definition v5_password :: "v5_connect \<Rightarrow> bytes option" where
  "v5_password k = (if v5_password_flag k then Some (mb_as_slice (v5c_password_buf k)) else None)"

definition v5_connect_size :: "v5_connect \<Rightarrow> nat" where
  "v5_connect_size k = packet_size_of (v5c_remaining_length k)"

definition v5_connect_to_continuous_buffer :: "v5_connect \<Rightarrow> bytes" where
  "v5_connect_to_continuous_buffer k =
     v5c_fixed_header k # encoded (v5c_remaining_length k) @ v5c_protocol_name k
       @ v5c_protocol_version_buf k # v5c_connect_flags_buf k # v5c_keep_alive_buf k
       @ encoded (v5c_property_length k) @ properties_to_continuous_buffer (v5c_props k)
       @ ms_to_continuous_buffer (v5c_client_id_buf k)
       @ (if v5_will_flag k then encoded (v5c_will_property_length k)
            @ properties_to_continuous_buffer (v5c_will_props k)
            @ ms_to_continuous_buffer (v5c_will_topic_buf k) @ mb_to_continuous_buffer (v5c_will_payload_buf k) else [])
       @ (if v5_user_name_flag k then ms_to_continuous_buffer (v5c_user_name_buf k) else [])
       @ (if v5_password_flag k then mb_to_continuous_buffer (v5c_password_buf k) else [])"

section \<open>The parser\<close>

definition validate_connect_properties :: "properties \<Rightarrow> (unit, mqtt_error) result" where
  "validate_connect_properties =
     validate_properties [PI_SessionExpiryInterval, PI_ReceiveMaximum, PI_MaximumPacketSize, PI_TopicAliasMaximum,
       PI_RequestResponseInformation, PI_RequestProblemInformation, PI_AuthenticationMethod,
       PI_AuthenticationData] [PI_UserProperty]"

definition validate_will_properties :: "properties \<Rightarrow> (unit, mqtt_error) result" where
  "validate_will_properties =
     validate_properties [PI_WillDelayInterval, PI_PayloadFormatIndicator, PI_MessageExpiryInterval, PI_ContentType,
       PI_ResponseTopic, PI_CorrelationData] [PI_UserProperty]"

text \<open>\<open>Properties::parse\<close> and the validation of what it gives.\<close>

definition props_validated :: "(properties \<Rightarrow> (unit, mqtt_error) result) \<Rightarrow> properties decoder" where
  "props_validated validate bs =
     res_bind (properties_parse bs) (\<lambda>(props, consumed). res_bind (validate props) (\<lambda>_. Ok (props, consumed)))"

definition rs_props_validated :: "(properties \<Rightarrow> (unit, mqtt_error) result) \<Rightarrow> properties decoder_run" where
  "rs_props_validated validate bs =
     tbind (rs_properties_parse bs) (\<lambda>(props, consumed). tbind (Ret (validate props)) (\<lambda>_. Ret (Ok (props, consumed))))"

lemma rs_props_validated: "rs_props_validated validate = (\<lambda>bs. Ret (props_validated validate bs))"
proof
  fix bs
  show "rs_props_validated validate bs = Ret (props_validated validate bs)"
    by (cases "properties_parse bs")
      (auto simp: rs_props_validated_def props_validated_def rs_properties_parse tbind_Ret_res)
qed

definition v5_connect_parse :: "v5_connect parser" where
  "v5_connect_parse flags data =
     (if length data < 6 then Ret (Err MalformedPacket)
      else rbind (idx_all data [0, 1, 2, 3, 4, 5]) (\<lambda>protocol_name.
      if protocol_name \<noteq> mqtt_protocol_name then Ret (Err ProtocolError)
      else if length data < 7 then Ret (Err MalformedPacket)
      else rbind (idx data 6) (\<lambda>protocol_version.
      if protocol_version \<noteq> 0x05 then Ret (Err UnsupportedProtocolVersion)
      else if length data < 8 then Ret (Err MalformedPacket)
      else rbind (idx data 7) (\<lambda>connect_flags.
      if length data < 10 then Ret (Err MalformedPacket)
      else rbind (idx_all data [8, 9]) (\<lambda>keep_alive_buf. let
        will_flag = cf_will connect_flags;
        user_name_flag = cf_user_name connect_flags;
        password_flag = cf_password connect_flags in
      tbind (rs_field_if True (rs_props_validated validate_connect_properties) [] data 10) (\<lambda>(props, cursor).
      rbind (vbi_of (properties_size props)) (\<lambda>property_length.
      tbind (rs_field_if True (rs_or_err rs_ms_decode ClientIdentifierNotValid) ms_default data cursor) (\<lambda>(client_id, cursor).
      tbind (rs_field_if will_flag (rs_props_validated validate_will_properties) [] data cursor) (\<lambda>(will_props, cursor).
      rbind (vbi_of (properties_size will_props)) (\<lambda>will_property_length.
      tbind (rs_field_if will_flag rs_ms_decode ms_default data cursor) (\<lambda>(will_topic, cursor).
      tbind (rs_field_if will_flag rs_mb_decode mb_default data cursor) (\<lambda>(will_payload, cursor).
      tbind (rs_field_if user_name_flag (rs_or_err rs_ms_decode BadUserNameOrPassword) ms_default data cursor) (\<lambda>(user_name, cursor).
      tbind (rs_field_if password_flag (rs_or_err rs_mb_decode BadUserNameOrPassword) mb_default data cursor) (\<lambda>(password, cursor).
      if password_flag \<and> \<not> user_name_flag then Ret (Err ProtocolError)
      else rbind (vbi_of cursor) (\<lambda>rl.
        Ret (Ok (\<lparr>v5c_fixed_header = fixed_header_as_u8 FH_Connect, v5c_remaining_length = rl,
                  v5c_protocol_name = protocol_name, v5c_protocol_version_buf = protocol_version,
                  v5c_connect_flags_buf = connect_flags, v5c_keep_alive_buf = keep_alive_buf,
                  v5c_property_length = property_length, v5c_props = props,
                  v5c_client_id_buf = client_id, v5c_will_property_length = will_property_length,
                  v5c_will_props = will_props, v5c_will_topic_buf = will_topic,
                  v5c_will_payload_buf = will_payload, v5c_user_name_buf = user_name,
                  v5c_password_buf = password\<rparr>, cursor)))))))))))))))))"

section \<open>The builder\<close>

text \<open>The fields shared with v3.1.1 and the two property lists.\<close>

record v5_connect_builder = v3_connect_builder +
  v5cb_props :: "properties option"
  v5cb_will_props :: "properties option"

text \<open>The setters of v3.1.1; \<open>clean_session\<close> is called \<open>clean_start\<close>.\<close>

definition v5_connect_builder :: v5_connect_builder where
  "v5_connect_builder = \<lparr>v3cb_connect_flags_buf = None, v3cb_keep_alive_buf = None, v3cb_client_id_buf = None,
     v3cb_will_topic_buf = None, v3cb_will_payload_buf = None, v3cb_user_name_buf = None, v3cb_password_buf = None,
     v5cb_props = None, v5cb_will_props = None\<rparr>"

definition v5cb_client_id :: "str \<Rightarrow> v5_connect_builder \<Rightarrow> (v5_connect_builder, mqtt_error) result" where
  "v5cb_client_id = v3cb_client_id"

definition v5cb_clean_start :: "bool \<Rightarrow> v5_connect_builder \<Rightarrow> v5_connect_builder" where
  "v5cb_clean_start = v3cb_clean_session"

definition v5cb_will_message ::
  "str \<Rightarrow> bytes \<Rightarrow> qos \<Rightarrow> bool \<Rightarrow> v5_connect_builder \<Rightarrow> (v5_connect_builder, mqtt_error) result" where
  "v5cb_will_message = v3cb_will_message"

definition v5cb_user_name :: "str \<Rightarrow> v5_connect_builder \<Rightarrow> (v5_connect_builder, mqtt_error) result" where
  "v5cb_user_name = v3cb_user_name"

definition v5cb_password :: "bytes \<Rightarrow> v5_connect_builder \<Rightarrow> (v5_connect_builder, mqtt_error) result" where
  "v5cb_password = v3cb_password"

definition v5cb_keep_alive :: "u16 \<Rightarrow> v5_connect_builder \<Rightarrow> v5_connect_builder" where
  "v5cb_keep_alive = v3cb_keep_alive"

definition v5_connect_validate :: "v5_connect_builder \<Rightarrow> (unit, mqtt_error) result" where
  "v5_connect_validate b =
     (let flags = unwrap_or (v3cb_connect_flags_buf b) 0x02 in
      if cf_password flags \<and> \<not> cf_user_name flags then Err ProtocolError
      else if cf_will flags \<and> (v3cb_will_topic_buf b = None \<or> v3cb_will_payload_buf b = None)
      then Err MalformedPacket
      else res_bind (case v5cb_props b of Some props \<Rightarrow> validate_connect_properties props | None \<Rightarrow> Ok ()) (\<lambda>_.
        case v5cb_will_props b of Some will_props \<Rightarrow> validate_will_properties will_props | None \<Rightarrow> Ok ()))"

definition v5_connect_build :: "v5_connect_builder \<Rightarrow> (v5_connect, mqtt_error) result rust" where
  "v5_connect_build b =
     tbind (Ret (v5_connect_validate b)) (\<lambda>_.
     let connect_flags = unwrap_or (v3cb_connect_flags_buf b) 0x02;
         keep_alive_buf = unwrap_or (v3cb_keep_alive_buf b) [0, 0];
         props = unwrap_or (v5cb_props b) [] in
     rbind (vbi_of (properties_size props)) (\<lambda>property_length.
     let client_id = unwrap_or (v3cb_client_id_buf b) ms_default;
         will_props = unwrap_or (v5cb_will_props b) [] in
     rbind (vbi_of (properties_size will_props)) (\<lambda>will_property_length.
     let will_topic = unwrap_or (v3cb_will_topic_buf b) ms_default;
         will_payload = unwrap_or (v3cb_will_payload_buf b) mb_default;
         user_name = unwrap_or (v3cb_user_name_buf b) ms_default;
         password = unwrap_or (v3cb_password_buf b) mb_default;
         remaining = 6 + 1 + 1 + 2 + (vbi_size property_length + properties_size props) + ms_size client_id
           + (if cf_will connect_flags then vbi_size will_property_length + properties_size will_props
                + ms_size will_topic + mb_size will_payload else 0)
           + (if cf_user_name connect_flags then ms_size user_name else 0)
           + (if cf_password connect_flags then mb_size password else 0) in
     rbind (vbi_of remaining) (\<lambda>rl.
       Ret (Ok \<lparr>v5c_fixed_header = fixed_header_as_u8 FH_Connect, v5c_remaining_length = rl,
                v5c_protocol_name = mqtt_protocol_name, v5c_protocol_version_buf = 0x05,
                v5c_connect_flags_buf = connect_flags, v5c_keep_alive_buf = keep_alive_buf,
                v5c_property_length = property_length, v5c_props = props,
                v5c_client_id_buf = client_id, v5c_will_property_length = will_property_length,
                v5c_will_props = will_props, v5c_will_topic_buf = will_topic,
                v5c_will_payload_buf = will_payload, v5c_user_name_buf = user_name,
                v5c_password_buf = password\<rparr>)))))"

section \<open>The wire contract\<close>

definition v5_connect_fields :: "v5_connect \<Rightarrow> bytes" where
  "v5_connect_fields k =
     (if True then properties_wire (v5c_props k) else [])
     @ (if True then ms_to_continuous_buffer (v5c_client_id_buf k) else [])
     @ (if v5_will_flag k then properties_wire (v5c_will_props k) else [])
     @ (if v5_will_flag k then ms_to_continuous_buffer (v5c_will_topic_buf k) else [])
     @ (if v5_will_flag k then mb_to_continuous_buffer (v5c_will_payload_buf k) else [])
     @ (if v5_user_name_flag k then ms_to_continuous_buffer (v5c_user_name_buf k) else [])
     @ (if v5_password_flag k then mb_to_continuous_buffer (v5c_password_buf k) else [])"

definition v5_connect_body :: "v5_connect \<Rightarrow> bytes" where
  "v5_connect_body k = v5c_protocol_name k @ v5c_protocol_version_buf k # v5c_connect_flags_buf k
     # v5c_keep_alive_buf k @ v5_connect_fields k"

definition v5_connect_inv :: "v5_connect \<Rightarrow> bool" where
  "v5_connect_inv k \<longleftrightarrow> v5c_fixed_header k = fixed_header_as_u8 FH_Connect
     \<and> v5c_protocol_name k = mqtt_protocol_name \<and> v5c_protocol_version_buf k = 0x05
     \<and> length (v5c_keep_alive_buf k) = 2 \<and> ms_inv (v5c_client_id_buf k)
     \<and> properties_inv (v5c_props k) \<and> validate_connect_properties (v5c_props k) = Ok ()
     \<and> v5c_property_length k = \<lparr>encoded = vbi_enc (properties_size (v5c_props k))\<rparr>
     \<and> properties_inv (v5c_will_props k) \<and> validate_will_properties (v5c_will_props k) = Ok ()
     \<and> v5c_will_property_length k = \<lparr>encoded = vbi_enc (properties_size (v5c_will_props k))\<rparr>
     \<and> (\<not> v5_will_flag k \<longrightarrow> v5c_will_props k = [])
     \<and> (v5_will_flag k \<longrightarrow> ms_inv (v5c_will_topic_buf k)) \<and> (\<not> v5_will_flag k \<longrightarrow> v5c_will_topic_buf k = ms_default)
     \<and> (v5_will_flag k \<longrightarrow> mb_inv (v5c_will_payload_buf k)) \<and> (\<not> v5_will_flag k \<longrightarrow> v5c_will_payload_buf k = mb_default)
     \<and> (v5_user_name_flag k \<longrightarrow> ms_inv (v5c_user_name_buf k)) \<and> (\<not> v5_user_name_flag k \<longrightarrow> v5c_user_name_buf k = ms_default)
     \<and> (v5_password_flag k \<longrightarrow> mb_inv (v5c_password_buf k)) \<and> (\<not> v5_password_flag k \<longrightarrow> v5c_password_buf k = mb_default)
     \<and> (v5_password_flag k \<longrightarrow> v5_user_name_flag k)
     \<and> length (v5_connect_body k) < 268435456
     \<and> v5c_remaining_length k = \<lparr>encoded = vbi_enc (length (v5_connect_body k))\<rparr>"

lemmas v5_flag_defs = v5_will_flag_def v5_user_name_flag_def v5_password_flag_def

interpretation props_validated: codec "\<lambda>ps. properties_inv ps \<and> validate ps = Ok ()" properties_wire
    "props_validated validate" for validate
  by unfold_locales
    (auto simp: props_validated_def properties_codec.dec_enc res_bind_eq_Ok dest: properties_codec.dec_bounds)

lemma v5_connect_parse_eq:
  "v5_connect_parse flags data =
     (if length data < 6 then Ret (Err MalformedPacket)
      else let protocol_name = take 6 data in
      if protocol_name \<noteq> mqtt_protocol_name then Ret (Err ProtocolError)
      else if length data < 7 then Ret (Err MalformedPacket)
      else let protocol_version = data ! 6 in
      if protocol_version \<noteq> 0x05 then Ret (Err UnsupportedProtocolVersion)
      else if length data < 8 then Ret (Err MalformedPacket)
      else let connect_flags = data ! 7 in
      if length data < 10 then Ret (Err MalformedPacket)
      else let keep_alive_buf = take 2 (drop 8 data);
        will_flag = cf_will connect_flags;
        user_name_flag = cf_user_name connect_flags;
        password_flag = cf_password connect_flags in
      tbind (Ret (field_if True (props_validated validate_connect_properties) [] data 10)) (\<lambda>(props, cursor).
      rbind (vbi_of (properties_size props)) (\<lambda>property_length.
      tbind (Ret (field_if True (or_err ms_decode ClientIdentifierNotValid) ms_default data cursor)) (\<lambda>(client_id, cursor).
      tbind (Ret (field_if will_flag (props_validated validate_will_properties) [] data cursor)) (\<lambda>(will_props, cursor).
      rbind (vbi_of (properties_size will_props)) (\<lambda>will_property_length.
      tbind (Ret (field_if will_flag ms_decode ms_default data cursor)) (\<lambda>(will_topic, cursor).
      tbind (Ret (field_if will_flag mb_decode mb_default data cursor)) (\<lambda>(will_payload, cursor).
      tbind (Ret (field_if user_name_flag (or_err ms_decode BadUserNameOrPassword) ms_default data cursor)) (\<lambda>(user_name, cursor).
      tbind (Ret (field_if password_flag (or_err mb_decode BadUserNameOrPassword) mb_default data cursor)) (\<lambda>(password, cursor).
      if password_flag \<and> \<not> user_name_flag then Ret (Err ProtocolError)
      else rbind (vbi_of cursor) (\<lambda>rl.
        Ret (Ok (\<lparr>v5c_fixed_header = fixed_header_as_u8 FH_Connect, v5c_remaining_length = rl,
                  v5c_protocol_name = protocol_name, v5c_protocol_version_buf = protocol_version,
                  v5c_connect_flags_buf = connect_flags, v5c_keep_alive_buf = keep_alive_buf,
                  v5c_property_length = property_length, v5c_props = props,
                  v5c_client_id_buf = client_id, v5c_will_property_length = will_property_length,
                  v5c_will_props = will_props, v5c_will_topic_buf = will_topic,
                  v5c_will_payload_buf = will_payload, v5c_user_name_buf = user_name,
                  v5c_password_buf = password\<rparr>, cursor)))))))))))))"
proof -
  note steps = ms_or_err.field_step mb_or_err.field_step ms_codec.field_step mb_codec.field_step props_validated.field_step
  show ?thesis
    unfolding v5_connect_parse_def rs_ms_decode rs_mb_decode rs_or_err rs_props_validated
    by (rule connect_head) (simp only: Let_def, (intro steps rbind_cong refl; simp)+)
qed

lemma v5_connect_parse_steps:
  assumes head: "take 6 data = mqtt_protocol_name" "data ! 6 = 0x05" "10 \<le> length data"
    and fp: "field_if True (props_validated validate_connect_properties) [] data 10 = Ok (ps, c0)"
    and f1: "field_if True (or_err ms_decode ClientIdentifierNotValid) ms_default data c0 = Ok (cid, c1)"
    and fw: "field_if (cf_will (data ! 7)) (props_validated validate_will_properties) [] data c1 = Ok (wps, cw)"
    and f2: "field_if (cf_will (data ! 7)) ms_decode ms_default data cw = Ok (wt, c2)"
    and f3: "field_if (cf_will (data ! 7)) mb_decode mb_default data c2 = Ok (wp, c3)"
    and f4: "field_if (cf_user_name (data ! 7)) (or_err ms_decode BadUserNameOrPassword) ms_default data c3 = Ok (un, c4)"
    and f5: "field_if (cf_password (data ! 7)) (or_err mb_decode BadUserNameOrPassword) mb_default data c4 = Ok (pw, c5)"
    and fl: "cf_password (data ! 7) \<longrightarrow> cf_user_name (data ! 7)" and c5: "c5 < 268435456"
    and pl: "properties_size ps < 268435456" "properties_size wps < 268435456"
  shows "v5_connect_parse flags data = Ret (Ok (\<lparr>v5c_fixed_header = fixed_header_as_u8 FH_Connect,
    v5c_remaining_length = \<lparr>encoded = vbi_enc c5\<rparr>, v5c_protocol_name = mqtt_protocol_name,
    v5c_protocol_version_buf = 0x05, v5c_connect_flags_buf = data ! 7, v5c_keep_alive_buf = take 2 (drop 8 data),
    v5c_property_length = \<lparr>encoded = vbi_enc (properties_size ps)\<rparr>, v5c_props = ps,
    v5c_client_id_buf = cid, v5c_will_property_length = \<lparr>encoded = vbi_enc (properties_size wps)\<rparr>,
    v5c_will_props = wps, v5c_will_topic_buf = wt, v5c_will_payload_buf = wp, v5c_user_name_buf = un,
    v5c_password_buf = pw\<rparr>, c5))"
  using head(3) fl
  by (simp add: v5_connect_parse_eq Let_def head(1,2) fp f1 fw f2 f3 f4 f5 vbi_of_Ret [OF c5] vbi_of_Ret [OF pl(1)]
      vbi_of_Ret [OF pl(2)])

lemma v5_connect_body_head:
  assumes "v5_connect_inv k"
  shows "take 6 (v5_connect_body k) = mqtt_protocol_name" "v5_connect_body k ! 6 = 0x05"
    "v5_connect_body k ! 7 = v5c_connect_flags_buf k" "take 2 (drop 8 (v5_connect_body k)) = v5c_keep_alive_buf k"
    "drop 10 (v5_connect_body k) = v5_connect_fields k" "10 \<le> length (v5_connect_body k)"
proof -
  have "v5c_protocol_name k = mqtt_protocol_name" "v5c_protocol_version_buf k = 0x05" "length (v5c_keep_alive_buf k) = 2"
    using assms by (simp_all add: v5_connect_inv_def)
  then show "take 6 (v5_connect_body k) = mqtt_protocol_name" "v5_connect_body k ! 6 = 0x05"
    "v5_connect_body k ! 7 = v5c_connect_flags_buf k" "take 2 (drop 8 (v5_connect_body k)) = v5c_keep_alive_buf k"
    "drop 10 (v5_connect_body k) = v5_connect_fields k" "10 \<le> length (v5_connect_body k)"
    by (simp_all add: v5_connect_body_def nth_append numeral_eq_Suc)
qed

lemma v5_connect_parse_body:
  assumes inv: "v5_connect_inv k"
  shows "v5_connect_parse flags (v5_connect_body k) = Ret (Ok (k, length (v5_connect_body k)))"
proof -
  let ?D = "v5_connect_body k"
  note h = v5_connect_body_head [OF inv]
  note i = inv [unfolded v5_connect_inv_def]
  let ?c0 = "10 + length (if True then properties_wire (v5c_props k) else [])"
  let ?c1 = "?c0 + length (if True then ms_to_continuous_buffer (v5c_client_id_buf k) else [])"
  let ?cw = "?c1 + length (if v5_will_flag k then properties_wire (v5c_will_props k) else [])"
  let ?c2 = "?cw + length (if v5_will_flag k then ms_to_continuous_buffer (v5c_will_topic_buf k) else [])"
  let ?c3 = "?c2 + length (if v5_will_flag k then mb_to_continuous_buffer (v5c_will_payload_buf k) else [])"
  let ?c4 = "?c3 + length (if v5_user_name_flag k then ms_to_continuous_buffer (v5c_user_name_buf k) else [])"
  let ?c5 = "?c4 + length (if v5_password_flag k then mb_to_continuous_buffer (v5c_password_buf k) else [])"
  note d0 = trans [OF h(5) v5_connect_fields_def]
  have fp: "field_if True (props_validated validate_connect_properties) [] ?D 10 = Ok (v5c_props k, ?c0)"
    using i by (intro props_validated.field_enc(1) [OF _ _ d0]) simp_all
  note d1 = properties_codec.field_enc(2) [OF _ refl d0]
  have f1: "field_if True (or_err ms_decode ClientIdentifierNotValid) ms_default ?D ?c0 = Ok (v5c_client_id_buf k, ?c1)"
    using i d1 by (intro ms_or_err.field_enc(1)) simp_all
  note dw = ms_codec.field_enc(2) [OF _ refl d1]
  have fw: "field_if (v5_will_flag k) (props_validated validate_will_properties) [] ?D ?c1 = Ok (v5c_will_props k, ?cw)"
    using i dw by (intro props_validated.field_enc(1)) simp_all
  note d2 = properties_codec.field_enc(2) [OF _ refl dw]
  have f2: "field_if (v5_will_flag k) ms_decode ms_default ?D ?cw = Ok (v5c_will_topic_buf k, ?c2)"
    using i d2 by (intro ms_codec.field_enc(1)) simp_all
  note d3 = ms_codec.field_enc(2) [OF _ refl d2]
  have f3: "field_if (v5_will_flag k) mb_decode mb_default ?D ?c2 = Ok (v5c_will_payload_buf k, ?c3)"
    using i d3 by (intro mb_codec.field_enc(1)) simp_all
  note d4 = mb_codec.field_enc(2) [OF _ refl d3]
  have f4: "field_if (v5_user_name_flag k) (or_err ms_decode BadUserNameOrPassword) ms_default ?D ?c3 = Ok (v5c_user_name_buf k, ?c4)"
    using i d4 by (intro ms_or_err.field_enc(1)) simp_all
  note d5 = ms_codec.field_enc(2) [OF _ refl d4]
  have f5: "field_if (v5_password_flag k) (or_err mb_decode BadUserNameOrPassword) mb_default ?D ?c4 = Ok (v5c_password_buf k, ?c5)"
    using i d5 by (intro mb_or_err.field_enc(1) [where rest = "[]"]) simp_all
  have c5: "?c5 = length ?D"
    using arg_cong [OF h(5), of length] h(6) by (simp add: v5_connect_fields_def)
  have pw: "cf_password (v5c_connect_flags_buf k) \<longrightarrow> cf_user_name (v5c_connect_flags_buf k)" using i by (simp add: v5_flag_defs)
  have lt: "length ?D < 268435456" "properties_size (v5c_props k) < 268435456" "properties_size (v5c_will_props k) < 268435456"
    using i by (simp_all add: properties_inv_def)
  note st = v5_connect_parse_steps [OF h(1,2,6) fp f1, unfolded h(3), OF fw [unfolded v5_flag_defs] f2 [unfolded v5_flag_defs]
    f3 [unfolded v5_flag_defs] f4 [unfolded v5_flag_defs] f5 [unfolded c5, unfolded v5_flag_defs] pw lt, where flags = flags]
  show ?thesis unfolding st by (simp, rule v5_connect.equality) (use i h(4) in simp_all)
qed

text \<open>What was read never makes the conversions of the lengths panic.\<close>

lemma props_validated_size:
  "field_if f (props_validated val) [] data c = Ok (ps, c') \<Longrightarrow> c \<le> length data \<Longrightarrow> properties_size ps < 268435456"
  using props_validated.field_le [of f val "[]" data c ps c']
  by (cases f) (auto simp: properties_inv_def properties_size_def)

lemma v5_connect_parse_returns:
  assumes len: "length data < 268435456"
  shows "\<exists>r. v5_connect_parse flags data = Ret r"
proof (cases "v5_connect_parse flags data")
  case (Panic x)
  then obtain ps c0 where h: "10 \<le> length data"
    and fp: "field_if True (props_validated validate_connect_properties) [] data 10 = Ok (ps, c0)"
    and r: "vbi_of (properties_size ps) = Panic x \<or> (\<exists>cid c1 wps cw.
      field_if True (or_err ms_decode ClientIdentifierNotValid) ms_default data c0 = Ok (cid, c1)
      \<and> field_if (cf_will (data ! 7)) (props_validated validate_will_properties) [] data c1 = Ok (wps, cw)
      \<and> (vbi_of (properties_size wps) = Panic x \<or> (\<exists>wt c2 wp c3 un c4 pw c5.
        field_if (cf_will (data ! 7)) ms_decode ms_default data cw = Ok (wt, c2)
        \<and> field_if (cf_will (data ! 7)) mb_decode mb_default data c2 = Ok (wp, c3)
        \<and> field_if (cf_user_name (data ! 7)) (or_err ms_decode BadUserNameOrPassword) ms_default data c3 = Ok (un, c4)
        \<and> field_if (cf_password (data ! 7)) (or_err mb_decode BadUserNameOrPassword) mb_default data c4 = Ok (pw, c5)
        \<and> vbi_of c5 = Panic x)))"
    by (simp add: v5_connect_parse_eq Let_def tbind_eq_Panic rbind_eq_Panic split: if_splits) blast+
  note o0 = props_validated.field_le [OF fp h]
  have "properties_size ps < 268435456" by (rule props_validated_size [OF fp h])
  with r obtain cid c1 wps cw where
    f1: "field_if True (or_err ms_decode ClientIdentifierNotValid) ms_default data c0 = Ok (cid, c1)"
    and fw: "field_if (cf_will (data ! 7)) (props_validated validate_will_properties) [] data c1 = Ok (wps, cw)"
    and r: "vbi_of (properties_size wps) = Panic x \<or> (\<exists>wt c2 wp c3 un c4 pw c5.
        field_if (cf_will (data ! 7)) ms_decode ms_default data cw = Ok (wt, c2)
        \<and> field_if (cf_will (data ! 7)) mb_decode mb_default data c2 = Ok (wp, c3)
        \<and> field_if (cf_user_name (data ! 7)) (or_err ms_decode BadUserNameOrPassword) ms_default data c3 = Ok (un, c4)
        \<and> field_if (cf_password (data ! 7)) (or_err mb_decode BadUserNameOrPassword) mb_default data c4 = Ok (pw, c5)
        \<and> vbi_of c5 = Panic x)"
    by (auto simp: vbi_of_Ret)
  have c1: "c1 \<le> length data" using ms_or_err.field_le [OF f1] o0 by simp
  have cw: "cw \<le> length data" using props_validated.field_le [OF fw c1] by simp
  have "properties_size wps < 268435456" by (rule props_validated_size [OF fw c1])
  with r obtain wt c2 wp c3 un c4 pw c5 where
    f2: "field_if (cf_will (data ! 7)) ms_decode ms_default data cw = Ok (wt, c2)"
    and f3: "field_if (cf_will (data ! 7)) mb_decode mb_default data c2 = Ok (wp, c3)"
    and f4: "field_if (cf_user_name (data ! 7)) (or_err ms_decode BadUserNameOrPassword) ms_default data c3 = Ok (un, c4)"
    and f5: "field_if (cf_password (data ! 7)) (or_err mb_decode BadUserNameOrPassword) mb_default data c4 = Ok (pw, c5)"
    and p: "vbi_of c5 = Panic x"
    by (auto simp: vbi_of_Ret)
  have "c2 \<le> length data" using ms_codec.field_le [OF f2 cw] by simp
  then have "c3 \<le> length data" using mb_codec.field_le [OF f3] by simp
  then have "c4 \<le> length data" using ms_or_err.field_le [OF f4] by simp
  then have "c5 \<le> length data" using mb_or_err.field_le [OF f5] by simp
  then show ?thesis using p len by (simp add: vbi_of_Ret)
qed simp

lemma v5_connect_buf:
  "v5_connect_inv k \<Longrightarrow> v5_connect_to_continuous_buffer k =
     v5c_fixed_header k # vbi_enc (length (v5_connect_body k)) @ v5_connect_body k"
  by (simp add: v5_connect_inv_def v5_connect_to_continuous_buffer_def v5_connect_body_def v5_connect_fields_def
      properties_wire_def)

interpretation v5_connect: packet_wire v5_connect_inv v5c_fixed_header v5_connect_body
    v5_connect_to_continuous_buffer v5_connect_size v5_connect_parse
proof (unfold_locales, goal_cases)
  case (1 k)
  then show ?case by (rule v5_connect_buf)
next
  case (2 k)
  then show ?case by (simp add: v5_connect_inv_def)
next
  case (3 k)
  then show ?case
    by (simp add: v5_connect_buf v5_connect_size_def packet_size_of_enc) (simp add: v5_connect_inv_def packet_size_of_enc)
next
  case (4 k)
  then show ?case by (rule v5_connect_parse_body)
next
  case (5 bs flags)
  then show ?case by (rule v5_connect_parse_returns)
qed

section \<open>What the builder gives\<close>

text \<open>
  A consistent builder of v3.1.1, with property lists that pass their validation and no will
  properties without a will.
\<close>

definition v5cb_inv :: "v5_connect_builder \<Rightarrow> bool" where
  "v5cb_inv b \<longleftrightarrow> v3cb_inv b
     \<and> pred_option (\<lambda>ps. properties_inv ps \<and> validate_connect_properties ps = Ok ()) (v5cb_props b)
     \<and> pred_option (\<lambda>ps. properties_inv ps \<and> validate_will_properties ps = Ok ()) (v5cb_will_props b)
     \<and> (v5cb_will_props b \<noteq> None \<longrightarrow> v3cb_will_topic_buf b \<noteq> None)"

definition v5_builder_props_size :: "v5_connect_builder \<Rightarrow> nat" where
  "v5_builder_props_size b = properties_size (unwrap_or (v5cb_props b) []) + properties_size (unwrap_or (v5cb_will_props b) [])"

lemma validate_Nil: "properties_inv []" "validate_connect_properties [] = Ok ()" "validate_will_properties [] = Ok ()"
  by (simp_all add: properties_inv_def properties_size_def validate_connect_properties_def validate_will_properties_def
      validate_properties_def count_id_def)

definition v5_connect_assembled :: "v5_connect_builder \<Rightarrow> v5_connect" where
  "v5_connect_assembled b = \<lparr>v5c_fixed_header = fixed_header_as_u8 FH_Connect, v5c_remaining_length = \<lparr>encoded = []\<rparr>,
    v5c_protocol_name = mqtt_protocol_name, v5c_protocol_version_buf = 0x05,
    v5c_connect_flags_buf = unwrap_or (v3cb_connect_flags_buf b) 0x02,
    v5c_keep_alive_buf = unwrap_or (v3cb_keep_alive_buf b) [0, 0],
    v5c_property_length = \<lparr>encoded = vbi_enc (properties_size (unwrap_or (v5cb_props b) []))\<rparr>,
    v5c_props = unwrap_or (v5cb_props b) [], v5c_client_id_buf = unwrap_or (v3cb_client_id_buf b) ms_default,
    v5c_will_property_length = \<lparr>encoded = vbi_enc (properties_size (unwrap_or (v5cb_will_props b) []))\<rparr>,
    v5c_will_props = unwrap_or (v5cb_will_props b) [],
    v5c_will_topic_buf = unwrap_or (v3cb_will_topic_buf b) ms_default,
    v5c_will_payload_buf = unwrap_or (v3cb_will_payload_buf b) mb_default,
    v5c_user_name_buf = unwrap_or (v3cb_user_name_buf b) ms_default,
    v5c_password_buf = unwrap_or (v3cb_password_buf b) mb_default\<rparr>"

lemma v5cb_props_ok:
  assumes "v5cb_inv b"
  shows "properties_inv (unwrap_or (v5cb_props b) []) \<and> validate_connect_properties (unwrap_or (v5cb_props b) []) = Ok ()"
    "properties_inv (unwrap_or (v5cb_will_props b) []) \<and> validate_will_properties (unwrap_or (v5cb_will_props b) []) = Ok ()"
  using assms by (cases "v5cb_props b"; simp add: v5cb_inv_def validate_Nil)
    (use assms in \<open>cases "v5cb_will_props b"; simp add: v5cb_inv_def validate_Nil\<close>)

lemma v5_connect_body_rl: "v5_connect_body (k\<lparr>v5c_remaining_length := rl\<rparr>) = v5_connect_body k"
  by (simp add: v5_connect_body_def v5_connect_fields_def v5_flag_defs)

lemma v5_connect_build_eq:
  assumes b: "v5cb_inv b" and ok: "v5_connect_validate b = Ok ()"
  shows "v5_connect_build b = rbind (vbi_of (length (v5_connect_body (v5_connect_assembled b))))
    (\<lambda>rl. Ret (Ok (v5_connect_assembled b\<lparr>v5c_remaining_length := rl\<rparr>)))"
proof -
  let ?f = "unwrap_or (v3cb_connect_flags_buf b) 0x02" and ?k = "v5_connect_assembled b"
  let ?ps = "unwrap_or (v5cb_props b) []" and ?ws = "unwrap_or (v5cb_will_props b) []"
  have ps: "properties_size ?ps < 268435456" "properties_size ?ws < 268435456"
    using v5cb_props_ok [OF b] by (simp_all add: properties_inv_def)
  have ka: "length (unwrap_or (v3cb_keep_alive_buf b) [0, 0]) = 2"
    using b by (auto simp: v5cb_inv_def v3cb_inv_def intro: unwrap_or_pred)
  have len: "6 + 1 + 1 + 2 + (length (vbi_enc (properties_size ?ps)) + properties_size ?ps)
      + ms_size (unwrap_or (v3cb_client_id_buf b) ms_default)
      + (if cf_will ?f then length (vbi_enc (properties_size ?ws)) + properties_size ?ws
           + ms_size (unwrap_or (v3cb_will_topic_buf b) ms_default) + mb_size (unwrap_or (v3cb_will_payload_buf b) mb_default) else 0)
      + (if cf_user_name ?f then ms_size (unwrap_or (v3cb_user_name_buf b) ms_default) else 0)
      + (if cf_password ?f then mb_size (unwrap_or (v3cb_password_buf b) mb_default) else 0) = length (v5_connect_body ?k)"
    using ka by (simp add: v5_connect_assembled_def v5_connect_body_def v5_connect_fields_def v5_flag_defs properties_wire_def)
  show ?thesis
    unfolding len [symmetric]
    by (simp add: v5_connect_build_def ok Let_def vbi_of_Ret [OF ps(1)] vbi_of_Ret [OF ps(2)] v5_connect_assembled_def vbi_size_def)
qed

lemma v5_connect_assembled_inv:
  assumes b: "v5cb_inv b" and ok: "v5_connect_validate b = Ok ()" and lt: "length (v5_connect_body (v5_connect_assembled b)) < 268435456"
  shows "v5_connect_inv (v5_connect_assembled b\<lparr>v5c_remaining_length := \<lparr>encoded = vbi_enc (length (v5_connect_body (v5_connect_assembled b)))\<rparr>\<rparr>)"
proof -
  let ?f = "unwrap_or (v3cb_connect_flags_buf b) 0x02" and ?k = "v5_connect_assembled b"
  have pw: "cf_password ?f \<longrightarrow> cf_user_name ?f" using ok by (simp add: v5_connect_validate_def Let_def split: if_splits)
  have v3: "v3cb_inv b" using b by (simp add: v5cb_inv_def)
  then have inv: "length (unwrap_or (v3cb_keep_alive_buf b) [0, 0]) = 2" "ms_inv (unwrap_or (v3cb_client_id_buf b) ms_default)"
    "ms_inv (unwrap_or (v3cb_will_topic_buf b) ms_default)" "mb_inv (unwrap_or (v3cb_will_payload_buf b) mb_default)"
    "ms_inv (unwrap_or (v3cb_user_name_buf b) ms_default)" "mb_inv (unwrap_or (v3cb_password_buf b) mb_default)"
    by (auto simp: v3cb_inv_def ms_default_new mb_default_new intro: unwrap_or_pred)
  have none: "\<not> cf_will ?f \<longrightarrow> v3cb_will_topic_buf b = None \<and> v3cb_will_payload_buf b = None"
    "\<not> cf_user_name ?f \<longrightarrow> v3cb_user_name_buf b = None" "\<not> cf_password ?f \<longrightarrow> v3cb_password_buf b = None"
    using v3 by (auto simp: v3cb_inv_def)
  have nw: "\<not> cf_will ?f \<longrightarrow> v5cb_will_props b = None" using none(1) b by (auto simp: v5cb_inv_def)
  show ?thesis
    using inv none nw pw v5cb_props_ok [OF b] lt unfolding v5_connect_inv_def v5_connect_body_rl
    by (simp add: v5_flag_defs) (simp add: v5_connect_assembled_def)
qed

lemma v5_connect_validate_outcome:
  assumes b: "v5cb_inv b"
  shows "v5_connect_validate b = Ok () \<or>
    v5_connect_validate b = Err ProtocolError \<and> v3cb_password_buf b \<noteq> None \<and> v3cb_user_name_buf b = None"
proof -
  let ?f = "unwrap_or (v3cb_connect_flags_buf b) 0x02"
  have p: "(case v5cb_props b of Some props \<Rightarrow> validate_connect_properties props | None \<Rightarrow> Ok ()) = Ok ()"
    "(case v5cb_will_props b of Some will_props \<Rightarrow> validate_will_properties will_props | None \<Rightarrow> Ok ()) = Ok ()"
    using b by (auto simp: v5cb_inv_def pred_option_def split: option.splits)
  have f: "cf_will ?f \<longleftrightarrow> v3cb_will_topic_buf b \<noteq> None" "cf_will ?f \<longleftrightarrow> v3cb_will_payload_buf b \<noteq> None"
    "cf_user_name ?f \<longleftrightarrow> v3cb_user_name_buf b \<noteq> None" "cf_password ?f \<longleftrightarrow> v3cb_password_buf b \<noteq> None"
    using b by (simp_all only: v5cb_inv_def v3cb_inv_def simp_thms)
  have "v5_connect_validate b = (if cf_password ?f \<and> \<not> cf_user_name ?f then Err ProtocolError else Ok ())"
    using f(1,2) unfolding v5_connect_validate_def Let_def p res_bind.simps by (auto simp del: not_None_eq)
  then show ?thesis using f(3,4) by simp
qed

section \<open>Properties\<close>

text \<open>
  C20: A CONNECT packet of MQTT v5.0 built by a consistently used builder whose body stays below the
  2097152 bytes that the receiving packet builder can take survives the wire: building
  either fails because a password was given without a user name, or gives a packet whose
  encoding, fed to a fresh packet builder ahead of any other bytes, yields one raw packet
  that parses back to the built packet, with its properties and the properties of its will.
\<close>

theorem v5_connect_build_wire:
  assumes "v5cb_inv b" and "length (v5_connect_body (v5_connect_assembled b)) < 2097152"
  shows "(v5_connect_build b = Ret (Err ProtocolError) \<and> v3cb_password_buf b \<noteq> None \<and> v3cb_user_name_buf b = None)
    \<or> (\<exists>k raw. v5_connect_build b = Ret (Ok k)
       \<and> v5c_props k = unwrap_or (v5cb_props b) [] \<and> v5c_will_props k = unwrap_or (v5cb_will_props b) []
       \<and> feed pb_new (cursor_new (v5_connect_to_continuous_buffer k @ rest)) = Ret (Complete raw, pb_new,
           \<lparr>inner = v5_connect_to_continuous_buffer k @ rest, pos = v5_connect_size k\<rparr>)
       \<and> v5_connect_parse (rp_flags raw) (data_as_slice (rp_data raw)) = Ret (Ok (k, length (data_as_slice (rp_data raw)))))"
proof (cases "v5_connect_validate b = Ok ()")
  case False
  then have "v5_connect_validate b = Err ProtocolError \<and> v3cb_password_buf b \<noteq> None \<and> v3cb_user_name_buf b = None"
    using v5_connect_validate_outcome [OF assms(1)] by simp
  then show ?thesis by (simp add: v5_connect_build_def)
next
  case True
  let ?n = "length (v5_connect_body (v5_connect_assembled b))"
  let ?k = "v5_connect_assembled b\<lparr>v5c_remaining_length := \<lparr>encoded = vbi_enc ?n\<rparr>\<rparr>"
  have lt: "?n < 268435456" using assms(2) by simp
  have inv: "v5_connect_inv ?k" by (rule v5_connect_assembled_inv [OF assms(1) True lt])
  have build: "v5_connect_build b = Ret (Ok ?k)" using v5_connect_build_eq [OF assms(1) True] by (simp add: vbi_of_Ret [OF lt])
  have props: "v5c_props ?k = unwrap_or (v5cb_props b) []" "v5c_will_props ?k = unwrap_or (v5cb_will_props b) []"
    by (simp_all add: v5_connect_assembled_def)
  have "length (v5_connect_body ?k) < 2097152" using assms(2) by (simp only: v5_connect_body_rl)
  from v5_connect.wire_roundtrip [OF inv this, of rest] build props v5_connect.size_eq [OF inv]
  show ?thesis by (elim exE conjE) auto
qed

definition sample_will_builder :: v5_connect_builder where
  "sample_will_builder = v5_connect_builder\<lparr>v3cb_connect_flags_buf := Some 0x06, v3cb_will_topic_buf := Some \<lparr>ms_encoded = [0, 1, 0x77]\<rparr>,
     v3cb_will_payload_buf := Some \<lparr>mb_encoded = [0, 0]\<rparr>, v5cb_props := Some [P_ReceiveMaximum 10],
     v5cb_will_props := Some [P_WillDelayInterval 60]\<rparr>"

lemma sample_will_builder_inv: "v5cb_inv sample_will_builder"
  by (simp add: sample_will_builder_def v5_connect_builder_def v5cb_inv_def v3cb_inv_def ms_inv_def mb_inv_def len_prefix_def
      cf_will_def cf_user_name_def cf_password_def properties_inv_def properties_size_def validate_connect_properties_def
      validate_will_properties_def validate_properties_def count_id_def Let_def utf8_valid_ascii)

lemma sample_will_builder_len: "length (v5_connect_body (v5_connect_assembled sample_will_builder)) = 27"
proof -
  have "length (properties_wire [P_ReceiveMaximum 10]) = 4" "length (properties_wire [P_WillDelayInterval 60]) = 6"
    by (simp_all add: length_properties_wire properties_size_def length_vbi_enc_bounds(2))
  then show ?thesis
    by (simp add: sample_will_builder_def v5_connect_builder_def v5_connect_assembled_def v5_connect_body_def
        v5_connect_fields_def v5_flag_defs cf_will_def cf_user_name_def cf_password_def ms_size_def mb_size_def ms_default_def
        len_prefix_def)
qed

theorem v5_connect_build_wire_witness:
  "\<exists>k raw. v5_connect_build sample_will_builder = Ret (Ok k)
     \<and> v5c_props k = [P_ReceiveMaximum 10] \<and> v5c_will_props k = [P_WillDelayInterval 60]
     \<and> feed pb_new (cursor_new (v5_connect_to_continuous_buffer k @ [])) = Ret (Complete raw, pb_new,
         \<lparr>inner = v5_connect_to_continuous_buffer k @ [], pos = v5_connect_size k\<rparr>)
     \<and> v5_connect_parse (rp_flags raw) (data_as_slice (rp_data raw)) = Ret (Ok (k, length (data_as_slice (rp_data raw))))"
  using v5_connect_build_wire [OF sample_will_builder_inv, of "[]"]
  by (simp add: sample_will_builder_len) (simp add: sample_will_builder_def v5_connect_builder_def)

end
