(* ===== verification/Subscription_V50.thy ===== *)
theory Subscription_V50
  imports Packets_V50
begin

text \<open>
  \<^verbatim>\<open>src/mqtt/packet/v5_0/subscribe.rs\<close>, \<^verbatim>\<open>suback.rs\<close>, \<^verbatim>\<open>unsubscribe.rs\<close> and \<^verbatim>\<open>unsuback.rs\<close>:
  an identifier, properties and a list of entries.
\<close>

record ('t, 'e) v5_entries_packet =
  v5s_fixed_header :: u8
  v5s_remaining_length :: variable_byte_integer
  v5s_packet_id_buf :: 't
  v5s_property_length :: variable_byte_integer
  v5s_props :: properties
  v5s_entries :: "'e list"

text \<open>The loop over reason codes; \<open>code_ok\<close> is the enumeration's \<open>try_from\<close>.\<close>

function reason_codes_loop :: "(u8 \<Rightarrow> bool) \<Rightarrow> bytes \<Rightarrow> nat \<Rightarrow> u8 list \<Rightarrow> (u8 list \<times> nat, mqtt_error) result" where
  "reason_codes_loop code_ok data cursor codes =
     (if cursor < length data then
        if code_ok (data ! cursor) then reason_codes_loop code_ok data (cursor + 1) (codes @ [data ! cursor])
        else Err MalformedPacket
      else Ok (codes, cursor))"
  by pat_completeness auto
termination
  by (relation "measure (\<lambda>(_, d, c, _). length d - c)") auto

declare reason_codes_loop.simps [simp del]

function rs_reason_codes_loop :: "(u8 \<Rightarrow> bool) \<Rightarrow> bytes \<Rightarrow> nat \<Rightarrow> u8 list \<Rightarrow> (u8 list \<times> nat, mqtt_error) result rust" where
  "rs_reason_codes_loop code_ok data cursor codes =
     (if cursor < length data then
        rbind (idx data cursor) (\<lambda>b. if code_ok b
          then rbind (idx data cursor) (\<lambda>code. rs_reason_codes_loop code_ok data (cursor + 1) (codes @ [code]))
          else Ret (Err MalformedPacket))
      else Ret (Ok (codes, cursor)))"
  by pat_completeness auto
termination
  by (relation "measure (\<lambda>(_, d, c, _). length d - c)") auto

declare rs_reason_codes_loop.simps [simp del]

lemma rs_reason_codes_loop: "rs_reason_codes_loop code_ok data cursor codes = Ret (reason_codes_loop code_ok data cursor codes)"
proof (induction code_ok data cursor codes rule: reason_codes_loop.induct)
  case (1 code_ok data cursor codes)
  then show ?case by (subst rs_reason_codes_loop.simps, subst reason_codes_loop.simps) auto
qed

text \<open>A loop that does not panic.\<close>

definition returning :: "(bytes \<Rightarrow> nat \<Rightarrow> 'e list \<Rightarrow> 'r) \<Rightarrow> bytes \<Rightarrow> nat \<Rightarrow> 'e list \<Rightarrow> 'r rust" where
  "returning loop data cursor entries = Ret (loop data cursor entries)"

text \<open>
  The parsers have the same code up to the fixed header, the validation of the properties,
  the loop over the entries and the size of an entry.  The remaining length counts the
  property length as it was read.
\<close>

definition v5_entries_parse ::
  "fixed_header \<Rightarrow> (properties \<Rightarrow> (unit, mqtt_error) result)
   \<Rightarrow> (bytes \<Rightarrow> nat \<Rightarrow> 'e list \<Rightarrow> ('e list \<times> nat, mqtt_error) result rust) \<Rightarrow> ('e \<Rightarrow> nat)
   \<Rightarrow> ('p::len word, 'e) v5_entries_packet parser" where
  "v5_entries_parse fh validate loop sz flags data =
     (let buffer_size = pid_size TYPE('p) in
      if length data < buffer_size then Ret (Err MalformedPacket)
      else rbind (subslice data 0 buffer_size) (\<lambda>buf. let packet_id = from_buffer buf in
        rbind (slice_from data buffer_size) (\<lambda>rest. tbind (rs_properties_parse rest) (\<lambda>(props, property_length).
        let cursor = buffer_size + property_length in
        tbind (Ret (validate props)) (\<lambda>_.
        rbind (vbi_of (properties_size props)) (\<lambda>prop_len.
        tbind (loop data cursor []) (\<lambda>(entries, cursor).
        if entries = [] then Ret (Err ProtocolError)
        else rbind (vbi_of (buffer_size + property_length + sum_list (map sz entries))) (\<lambda>rl.
          Ret (Ok (\<lparr>v5s_fixed_header = fixed_header_as_u8 fh, v5s_remaining_length = rl,
                    v5s_packet_id_buf = packet_id, v5s_property_length = prop_len, v5s_props = props,
                    v5s_entries = entries\<rparr>, cursor))))))))))"

lemma v5_entries_parse_eq:
  "(v5_entries_parse fh validate (returning loop) sz flags data :: (('p::len word, 'e) v5_entries_packet \<times> nat, mqtt_error) result rust) =
     (let buffer_size = pid_size TYPE('p) in
      if length data < buffer_size then Ret (Err MalformedPacket)
      else let packet_id = from_buffer (take buffer_size data) in
        tbind (Ret (properties_parse (drop buffer_size data))) (\<lambda>(props, property_length).
        let cursor = buffer_size + property_length in
        tbind (Ret (validate props)) (\<lambda>_.
        rbind (vbi_of (properties_size props)) (\<lambda>prop_len.
        tbind (Ret (loop data cursor [])) (\<lambda>(entries, cursor).
        if entries = [] then Ret (Err ProtocolError)
        else rbind (vbi_of (buffer_size + property_length + sum_list (map sz entries))) (\<lambda>rl.
          Ret (Ok (\<lparr>v5s_fixed_header = fixed_header_as_u8 fh, v5s_remaining_length = rl,
                    v5s_packet_id_buf = packet_id, v5s_property_length = prop_len, v5s_props = props,
                    v5s_entries = entries\<rparr>, cursor))))))))"
  by (simp add: v5_entries_parse_def returning_def rs_properties_parse Let_def)

definition v5_subscribe_parse :: "('p::len word, sub_entry) v5_entries_packet parser" where
  "v5_subscribe_parse = v5_entries_parse FH_Subscribe validate_subscribe_properties rs_sub_entries_loop sub_entry_size"

definition v5_unsubscribe_parse :: "('p::len word, mqtt_string) v5_entries_packet parser" where
  "v5_unsubscribe_parse = v5_entries_parse FH_Unsubscribe validate_unsubscribe_properties rs_string_entries_loop ms_size"

definition v5_suback_parse :: "('p::len word, u8) v5_entries_packet parser" where
  "v5_suback_parse = v5_entries_parse FH_Suback validate_suback_properties
     (rs_reason_codes_loop (\<lambda>b. suback_reason_code_try_from b \<noteq> None)) (\<lambda>_. 1)"

definition v5_unsuback_parse :: "('p::len word, u8) v5_entries_packet parser" where
  "v5_unsuback_parse = v5_entries_parse FH_Unsuback validate_unsuback_properties
     (rs_reason_codes_loop (\<lambda>b. unsuback_reason_code_try_from b \<noteq> None)) (\<lambda>_. 1)"

lemma v5_subscribe_parse_eq:
  "v5_subscribe_parse = v5_entries_parse FH_Subscribe validate_subscribe_properties (returning sub_entries_loop) sub_entry_size"
  by (simp add: v5_subscribe_parse_def returning_def [abs_def] rs_sub_entries_loop [abs_def])

lemma v5_unsubscribe_parse_eq:
  "v5_unsubscribe_parse = v5_entries_parse FH_Unsubscribe validate_unsubscribe_properties (returning string_entries_loop) ms_size"
  by (simp add: v5_unsubscribe_parse_def returning_def [abs_def] rs_string_entries_loop [abs_def])

lemma v5_suback_parse_eq:
  "v5_suback_parse = v5_entries_parse FH_Suback validate_suback_properties
     (returning (reason_codes_loop (\<lambda>b. suback_reason_code_try_from b \<noteq> None))) (\<lambda>_. 1)"
  by (simp add: v5_suback_parse_def returning_def [abs_def] rs_reason_codes_loop [abs_def])

lemma v5_unsuback_parse_eq:
  "v5_unsuback_parse = v5_entries_parse FH_Unsuback validate_unsuback_properties
     (returning (reason_codes_loop (\<lambda>b. unsuback_reason_code_try_from b \<noteq> None))) (\<lambda>_. 1)"
  by (simp add: v5_unsuback_parse_def returning_def [abs_def] rs_reason_codes_loop [abs_def])

definition v5_entries_size :: "('t, 'e) v5_entries_packet \<Rightarrow> nat" where
  "v5_entries_size k = packet_size_of (v5s_remaining_length k)"

definition v5_entries_to_continuous_buffer :: "('e \<Rightarrow> bytes) \<Rightarrow> ('p::len word, 'e) v5_entries_packet \<Rightarrow> bytes" where
  "v5_entries_to_continuous_buffer enc k =
     v5s_fixed_header k # encoded (v5s_remaining_length k) @ to_buffer (v5s_packet_id_buf k)
       @ encoded (v5s_property_length k) @ properties_to_continuous_buffer (v5s_props k)
       @ concat (map enc (v5s_entries k))"

definition v5_entries_validate ::
  "(properties \<Rightarrow> (unit, mqtt_error) result) \<Rightarrow> 'p::len word option \<Rightarrow> 'e list option \<Rightarrow> properties option
   \<Rightarrow> (unit, mqtt_error) result" where
  "v5_entries_validate validate packet_id_buf entries props =
     res_bind (v3_entries_validate packet_id_buf entries) (\<lambda>_.
       case props of None \<Rightarrow> Ok () | Some ps \<Rightarrow> validate ps)"

definition v5_entries_build ::
  "fixed_header \<Rightarrow> (properties \<Rightarrow> (unit, mqtt_error) result) \<Rightarrow> ('e \<Rightarrow> nat) \<Rightarrow> 'p::len word option \<Rightarrow> 'e list option
   \<Rightarrow> properties option \<Rightarrow> (('p word, 'e) v5_entries_packet, mqtt_error) result rust" where
  "v5_entries_build fh validate sz packet_id_buf entries props =
     tbind (Ret (v5_entries_validate validate packet_id_buf entries props)) (\<lambda>_.
     rbind (unwrap packet_id_buf) (\<lambda>pid.
     let es = (case entries of None \<Rightarrow> [] | Some es \<Rightarrow> es); ps = (case props of None \<Rightarrow> [] | Some ps \<Rightarrow> ps) in
     rbind (vbi_of (properties_size ps)) (\<lambda>property_length.
     let remaining = pid_size TYPE('p) + vbi_size property_length + properties_size ps + sum_list (map sz es) in
     rbind (vbi_of remaining) (\<lambda>rl.
       Ret (Ok \<lparr>v5s_fixed_header = fixed_header_as_u8 fh, v5s_remaining_length = rl, v5s_packet_id_buf = pid,
                v5s_property_length = property_length, v5s_props = ps, v5s_entries = es\<rparr>)))))"

definition v5_subscribe_build ::
  "'p::len word option \<Rightarrow> sub_entry list option \<Rightarrow> properties option
   \<Rightarrow> (('p word, sub_entry) v5_entries_packet, mqtt_error) result rust" where
  "v5_subscribe_build = v5_entries_build FH_Subscribe validate_subscribe_properties sub_entry_size"

definition v5_unsubscribe_build ::
  "'p::len word option \<Rightarrow> mqtt_string list option \<Rightarrow> properties option
   \<Rightarrow> (('p word, mqtt_string) v5_entries_packet, mqtt_error) result rust" where
  "v5_unsubscribe_build = v5_entries_build FH_Unsubscribe validate_unsubscribe_properties ms_size"

definition v5_suback_build ::
  "'p::len word option \<Rightarrow> u8 list option \<Rightarrow> properties option
   \<Rightarrow> (('p word, u8) v5_entries_packet, mqtt_error) result rust" where
  "v5_suback_build = v5_entries_build FH_Suback validate_suback_properties (\<lambda>_. 1)"

definition v5_unsuback_build ::
  "'p::len word option \<Rightarrow> u8 list option \<Rightarrow> properties option
   \<Rightarrow> (('p word, u8) v5_entries_packet, mqtt_error) result rust" where
  "v5_unsuback_build = v5_entries_build FH_Unsuback validate_unsuback_properties (\<lambda>_. 1)"

text \<open>An unknown code is read as an unspecified error.\<close>

definition v5_suback_reason_codes :: "('p::len word, u8) v5_entries_packet \<Rightarrow> suback_reason_code list" where
  "v5_suback_reason_codes k =
     map (\<lambda>b. case suback_reason_code_try_from b of Some c \<Rightarrow> c | None \<Rightarrow> Suback_UnspecifiedError) (v5s_entries k)"

definition v5_unsuback_reason_codes :: "('p::len word, u8) v5_entries_packet \<Rightarrow> unsuback_reason_code list" where
  "v5_unsuback_reason_codes k =
     map (\<lambda>b. case unsuback_reason_code_try_from b of Some c \<Rightarrow> c | None \<Rightarrow> Unsuback_UnspecifiedError) (v5s_entries k)"

section \<open>The wire contract\<close>

definition v5_entries_body :: "('e \<Rightarrow> bytes) \<Rightarrow> ('p::len word, 'e) v5_entries_packet \<Rightarrow> bytes" where
  "v5_entries_body enc k = to_buffer (v5s_packet_id_buf k) @ properties_wire (v5s_props k) @ concat (map enc (v5s_entries k))"

definition v5_entries_inv ::
  "fixed_header \<Rightarrow> (properties \<Rightarrow> (unit, mqtt_error) result) \<Rightarrow> ('e \<Rightarrow> bool) \<Rightarrow> ('e \<Rightarrow> bytes)
   \<Rightarrow> ('p::len word, 'e) v5_entries_packet \<Rightarrow> bool" where
  "v5_entries_inv fh validate ok enc k \<longleftrightarrow> v5s_fixed_header k = fixed_header_as_u8 fh \<and> v5s_entries k \<noteq> []
     \<and> properties_inv (v5s_props k) \<and> validate (v5s_props k) = Ok ()
     \<and> v5s_property_length k = \<lparr>encoded = vbi_enc (properties_size (v5s_props k))\<rparr>
     \<and> list_all ok (v5s_entries k) \<and> length (v5_entries_body enc k) < 268435456
     \<and> v5s_remaining_length k = \<lparr>encoded = vbi_enc (length (v5_entries_body enc k))\<rparr>"

definition code_decode :: "(u8 \<Rightarrow> bool) \<Rightarrow> u8 decoder" where
  "code_decode code_ok bs =
     (case bs of [] \<Rightarrow> Err MalformedPacket | b # _ \<Rightarrow> if code_ok b then Ok (b, 1) else Err MalformedPacket)"

interpretation reason_codes: strict_codec_loop code_ok "\<lambda>b. [b]" "code_decode code_ok" "reason_codes_loop code_ok" for code_ok
proof (unfold_locales, goal_cases)
  case (3 data cursor xs)
  show ?case
    by (subst reason_codes_loop.simps)
      (auto simp: code_decode_def Cons_nth_drop_Suc [symmetric])
qed (auto simp: code_decode_def split: list.splits if_splits)

lemma sum_enc_size: "(\<And>e. sz e = length (enc e)) \<Longrightarrow> sum_list (map sz xs) = length (concat (map enc xs))"
  by (induction xs) simp_all

lemma v5_entries_wire:
  fixes loop :: "bytes \<Rightarrow> nat \<Rightarrow> 'e list \<Rightarrow> ('e list \<times> nat, mqtt_error) result"
  assumes w: "packet_id_width TYPE('p::len)"
    and enc: "\<And>xs c data. list_all ok xs \<Longrightarrow> c \<le> length data \<Longrightarrow> drop c data = concat (map enc xs) \<Longrightarrow>
        loop data c [] = Ok (xs, length data)"
    and snd: "\<And>data c xs n. loop data c [] = Ok (xs, n) \<Longrightarrow> c \<le> length data \<Longrightarrow>
        list_all ok xs \<and> n = length data \<and> length (concat (map enc xs)) \<le> length data - c"
    and sz: "\<And>e. sz e = length (enc e)"
  shows "packet_wire (v5_entries_inv fh val ok enc) v5s_fixed_header (v5_entries_body enc)
    (v5_entries_to_continuous_buffer enc) v5_entries_size
    (v5_entries_parse fh val (returning loop) sz :: ('p word, 'e) v5_entries_packet parser)"
proof (unfold_locales, goal_cases)
  case (1 k)
  then show ?case
    by (simp add: v5_entries_inv_def v5_entries_to_continuous_buffer_def v5_entries_body_def properties_wire_def)
next
  case (2 k)
  then show ?case by (simp add: v5_entries_inv_def)
next
  case (3 k)
  then show ?case
    by (simp add: v5_entries_inv_def v5_entries_to_continuous_buffer_def v5_entries_size_def packet_size_of_enc)
      (simp add: v5_entries_body_def properties_wire_def)
next
  case (4 k)
  let ?b = "pid_size TYPE('p)" and ?D = "v5_entries_body enc k"
  have props: "properties_parse (drop ?b ?D) = Ok (v5s_props k, length (properties_wire (v5s_props k)))"
    using 4 properties_codec.dec_enc by (simp add: v5_entries_inv_def v5_entries_body_def)
  have loop: "loop ?D (?b + length (properties_wire (v5s_props k))) [] = Ok (v5s_entries k, length ?D)"
    using 4 by (intro enc) (simp_all add: v5_entries_inv_def v5_entries_body_def)
  have len: "?b + length (properties_wire (v5s_props k)) + sum_list (map sz (v5s_entries k)) = length ?D"
    by (simp add: v5_entries_body_def sum_enc_size [OF sz])
  have tk: "take ?b ?D = to_buffer (v5s_packet_id_buf k)" "\<not> length ?D < ?b" by (simp_all add: v5_entries_body_def)
  show ?case
    using 4 from_to_buffer [OF w, of "v5s_packet_id_buf k" "[]"] props loop len tk
    by (cases k) (simp add: v5_entries_parse_eq v5_entries_inv_def properties_inv_def Let_def vbi_of_Ret)
next
  case (5 bs flags)
  show ?case
  proof (cases "v5_entries_parse fh val (returning loop) sz flags bs :: (('p word, 'e) v5_entries_packet \<times> nat, mqtt_error) result rust")
    case (Panic x)
    then obtain ps n es c where p: "properties_parse (drop (pid_size TYPE('p)) bs) = Ok (ps, n)" "pid_size TYPE('p) \<le> length bs"
      and x: "vbi_of (properties_size ps) = Panic x \<or> loop bs (pid_size TYPE('p) + n) [] = Ok (es, c)
         \<and> vbi_of (pid_size TYPE('p) + n + sum_list (map sz es)) = Panic x"
      by (auto simp: v5_entries_parse_eq Let_def tbind_eq_Panic rbind_eq_Panic split: if_splits)
    note o = properties_parse_OkD [OF p(1)]
    have le: "pid_size TYPE('p) + n \<le> length bs" using o p(2) by auto
    from x o have l: "loop bs (pid_size TYPE('p) + n) [] = Ok (es, c)"
      and v: "vbi_of (pid_size TYPE('p) + n + sum_list (map sz es)) = Panic x" by (auto simp: vbi_of_Ret properties_inv_def)
    have "pid_size TYPE('p) + n + sum_list (map sz es) < 268435456"
      using snd [OF l le] le 5 unfolding sum_enc_size [OF sz] by linarith
    with v show ?thesis by (simp add: vbi_of_Ret)
  qed simp
qed

end
