(* ===== verification/Publish_V50.thy ===== *)
theory Publish_V50
  imports Packets_V50
begin

text \<open>
  \<^verbatim>\<open>src/mqtt/packet/v5_0/publish.rs\<close>: the PUBLISH packet of MQTT v5.0, its parser, encoding
  and builder, and the four operations that swap a topic name and a topic alias.
\<close>

section \<open>The packet\<close>

record 't v5_publish =
  v5p_fixed_header :: u8
  v5p_remaining_length :: variable_byte_integer
  v5p_topic_name_buf :: mqtt_string
  v5p_packet_id_buf :: "'t option"
  v5p_property_length :: variable_byte_integer
  v5p_props :: properties
  v5p_payload_buf :: bytes
  v5p_topic_name_extracted :: bool

definition v5_publish_qos :: "'p::len word v5_publish \<Rightarrow> qos rust" where
  "v5_publish_qos k = qos_of_bits (qos_bits (v5p_fixed_header k))"

definition v5_publish_dup :: "'p::len word v5_publish \<Rightarrow> bool" where
  "v5_publish_dup k \<longleftrightarrow> v5p_fixed_header k AND 0x08 \<noteq> 0"

definition v5_publish_retain :: "'p::len word v5_publish \<Rightarrow> bool" where
  "v5_publish_retain k \<longleftrightarrow> v5p_fixed_header k AND 0x01 \<noteq> 0"

definition v5_publish_set_dup :: "'p::len word v5_publish \<Rightarrow> bool \<Rightarrow> 'p word v5_publish" where
  "v5_publish_set_dup k dup =
     (if dup then k\<lparr>v5p_fixed_header := v5p_fixed_header k OR 0x08\<rparr>
      else k\<lparr>v5p_fixed_header := v5p_fixed_header k AND NOT 0x08\<rparr>)"

definition v5_publish_topic_name :: "'p::len word v5_publish \<Rightarrow> str" where
  "v5_publish_topic_name k = ms_as_str (v5p_topic_name_buf k)"

definition v5_publish_size :: "'p::len word v5_publish \<Rightarrow> nat" where
  "v5_publish_size k = packet_size_of (v5p_remaining_length k)"

definition v5_publish_to_continuous_buffer :: "'p::len word v5_publish \<Rightarrow> bytes" where
  "v5_publish_to_continuous_buffer k =
     v5p_fixed_header k # encoded (v5p_remaining_length k) @ ms_to_continuous_buffer (v5p_topic_name_buf k)
       @ pid_bytes (v5p_packet_id_buf k) @ encoded (v5p_property_length k)
       @ properties_to_continuous_buffer (v5p_props k) @ v5p_payload_buf k"

section \<open>Topic names and aliases\<close>

text \<open>\<open>topic.contains('#') || topic.contains('+')\<close>.\<close>

definition has_wildcard :: "str \<Rightarrow> bool" where
  "has_wildcard topic \<longleftrightarrow> 0x23 \<in> set topic \<or> 0x2B \<in> set topic"

definition without_topic_alias :: "properties \<Rightarrow> properties" where
  "without_topic_alias props = filter (\<lambda>p. property_id_of p \<noteq> PI_TopicAlias) props"

definition v5_recalculate_lengths :: "'p::len word v5_publish \<Rightarrow> 'p word v5_publish rust" where
  "v5_recalculate_lengths k =
     (let props_size = properties_size (v5p_props k) in
      rbind (vbi_of props_size) (\<lambda>property_length.
      rbind (v5_publish_qos k) (\<lambda>qos.
      let remaining_size = ms_size (v5p_topic_name_buf k)
            + (if qos \<noteq> AtMostOnce then (case v5p_packet_id_buf k of None \<Rightarrow> 0 | Some _ \<Rightarrow> pid_size TYPE('p)) else 0)
            + vbi_size property_length + props_size + length (v5p_payload_buf k) in
      rbind (vbi_of remaining_size) (\<lambda>rl.
        Ret (k\<lparr>v5p_property_length := property_length, v5p_remaining_length := rl\<rparr>)))))"

definition v5_remove_topic_alias_add_topic ::
  "'p::len word v5_publish \<Rightarrow> str \<Rightarrow> ('p word v5_publish, mqtt_error) result rust" where
  "v5_remove_topic_alias_add_topic k topic =
     (if v5_publish_topic_name k \<noteq> [] then Ret (Err TopicNameInvalid)
      else if has_wildcard topic then Ret (Err MalformedPacket)
      else tbind (Ret (ms_new topic)) (\<lambda>topic_name.
        rbind (v5_recalculate_lengths (k\<lparr>v5p_topic_name_buf := topic_name, v5p_props := without_topic_alias (v5p_props k)\<rparr>)) (\<lambda>k.
          Ret (Ok k))))"

definition v5_remove_topic_alias :: "'p::len word v5_publish \<Rightarrow> 'p word v5_publish rust" where
  "v5_remove_topic_alias k = v5_recalculate_lengths (k\<lparr>v5p_props := without_topic_alias (v5p_props k)\<rparr>)"

definition v5_add_extracted_topic_name ::
  "'p::len word v5_publish \<Rightarrow> str \<Rightarrow> ('p word v5_publish, mqtt_error) result rust" where
  "v5_add_extracted_topic_name k topic =
     (if v5_publish_topic_name k \<noteq> [] then Ret (Err TopicNameInvalid)
      else if has_wildcard topic then Ret (Err MalformedPacket)
      else tbind (Ret (ms_new topic)) (\<lambda>topic_name.
        rbind (v5_recalculate_lengths (k\<lparr>v5p_topic_name_buf := topic_name, v5p_topic_name_extracted := True\<rparr>)) (\<lambda>k.
          Ret (Ok k))))"

text \<open>\<open>TopicAlias::new(0)\<close> is an error, so the alias zero panics.\<close>

definition v5_remove_topic_add_topic_alias :: "'p::len word v5_publish \<Rightarrow> u16 \<Rightarrow> 'p word v5_publish rust" where
  "v5_remove_topic_add_topic_alias k topic_alias =
     rbind (unwrap_res (ms_new [])) (\<lambda>topic_name.
     rbind (unwrap_res (new_checked check_nonzero P_TopicAlias topic_alias)) (\<lambda>prop.
       v5_recalculate_lengths (k\<lparr>v5p_topic_name_buf := topic_name,
         v5p_props := without_topic_alias (v5p_props k) @ [prop]\<rparr>)))"

section \<open>The parser\<close>

definition publish_read_packet_id :: "qos \<Rightarrow> bytes \<Rightarrow> nat \<Rightarrow> ('p::len word option \<times> nat, mqtt_error) result" where
  "publish_read_packet_id qos data cursor =
     (if qos \<noteq> AtMostOnce then
        let buffer_size = pid_size TYPE('p) in
        if length data < cursor + buffer_size then Err MalformedPacket
        else Ok (Some (from_buffer (take buffer_size (drop cursor data))), cursor + buffer_size)
      else Ok (None, cursor))"

definition rs_publish_read_packet_id :: "qos \<Rightarrow> bytes \<Rightarrow> nat \<Rightarrow> ('p::len word option \<times> nat, mqtt_error) result rust" where
  "rs_publish_read_packet_id qos data cursor =
     (if qos \<noteq> AtMostOnce then
        let buffer_size = pid_size TYPE('p) in
        if length data < cursor + buffer_size then Ret (Err MalformedPacket)
        else rbind (subslice data cursor (cursor + buffer_size)) (\<lambda>buf.
          Ret (Ok (Some (from_buffer buf), cursor + buffer_size)))
      else Ret (Ok (None, cursor)))"

lemma rs_publish_read_packet_id: "rs_publish_read_packet_id qos data cursor = Ret (publish_read_packet_id qos data cursor)"
  by (simp add: rs_publish_read_packet_id_def publish_read_packet_id_def Let_def)

definition publish_read_props :: "bytes \<Rightarrow> nat \<Rightarrow> (variable_byte_integer \<times> properties \<times> nat, mqtt_error) result rust" where
  "publish_read_props data cursor =
     (if cursor < length data then
        rbind (slice_from data cursor) (\<lambda>rest.
        tbind (rs_properties_parse rest) (\<lambda>(props, consumed).
        tbind (Ret (validate_publish_properties props)) (\<lambda>_.
        rbind (vbi_of (properties_size props)) (\<lambda>prop_len.
          Ret (Ok (prop_len, props, cursor + consumed))))))
      else rbind (vbi_of 0) (\<lambda>prop_len. Ret (Ok (prop_len, [], cursor))))"

lemma publish_read_props_eq:
  "publish_read_props data cursor =
     (if cursor < length data then
        tbind (Ret (properties_parse (drop cursor data))) (\<lambda>(props, consumed).
        tbind (Ret (validate_publish_properties props)) (\<lambda>_.
        rbind (vbi_of (properties_size props)) (\<lambda>prop_len.
          Ret (Ok (prop_len, props, cursor + consumed)))))
      else rbind (vbi_of 0) (\<lambda>prop_len. Ret (Ok (prop_len, [], cursor))))"
  by (simp add: publish_read_props_def rs_properties_parse)

definition v5_publish_parse :: "'p::len word v5_publish parser" where
  "v5_publish_parse flags data =
     (let fixed_header_byte = fixed_header_as_u8 FH_Publish OR (flags AND 0x0F);
          qos_value = qos_bits flags in
      if qos_value = 3 then Ret (Err MalformedPacket)
      else rbind (slice_from data 0) (\<lambda>rest. tbind (rs_ms_decode rest) (\<lambda>(topic_name, cursor).
        rbind (qos_of_bits qos_value) (\<lambda>qos.
        tbind (rs_publish_read_packet_id qos data cursor) (\<lambda>(packet_id_buf, cursor).
        tbind (publish_read_props data cursor) (\<lambda>(property_length, props, cursor).
        rbind (usize_sub (length data) cursor) (\<lambda>payload_len.
        rbind (if payload_len > 0 then subslice data cursor (cursor + payload_len) else Ret []) (\<lambda>payload.
        let remaining_size = ms_size topic_name + (case packet_id_buf of None \<Rightarrow> 0 | Some _ \<Rightarrow> pid_size TYPE('p))
              + vbi_size property_length + properties_size props + payload_len in
        rbind (vbi_of remaining_size) (\<lambda>rl.
          Ret (Ok (\<lparr>v5p_fixed_header = fixed_header_byte, v5p_remaining_length = rl,
                    v5p_topic_name_buf = topic_name, v5p_packet_id_buf = packet_id_buf,
                    v5p_property_length = property_length, v5p_props = props,
                    v5p_payload_buf = payload, v5p_topic_name_extracted = False\<rparr>, length data)))))))))))"

section \<open>The builder\<close>

record 't v5_publish_builder =
  v5pb_fixed_header :: "u8 option"
  v5pb_topic_name_buf :: "mqtt_string option"
  v5pb_packet_id_buf :: "'t option option"
  v5pb_props :: "properties option"
  v5pb_payload_buf :: "bytes option"

definition v5_publish_builder :: "'p::len word v5_publish_builder" where
  "v5_publish_builder = \<lparr>v5pb_fixed_header = None, v5pb_topic_name_buf = None, v5pb_packet_id_buf = None,
     v5pb_props = None, v5pb_payload_buf = None\<rparr>"

definition v5pb_topic_name :: "str \<Rightarrow> 'p::len word v5_publish_builder \<Rightarrow> ('p word v5_publish_builder, mqtt_error) result" where
  "v5pb_topic_name topic b =
     res_bind (ms_new topic) (\<lambda>ms.
       if has_wildcard (ms_as_str ms) then Err MalformedPacket else Ok (b\<lparr>v5pb_topic_name_buf := Some ms\<rparr>))"

definition v5pb_header :: "'p::len word v5_publish_builder \<Rightarrow> u8" where
  "v5pb_header b = (case v5pb_fixed_header b of Some h \<Rightarrow> h | None \<Rightarrow> fixed_header_as_u8 FH_Publish)"

definition v5pb_qos :: "qos \<Rightarrow> 'p::len word v5_publish_builder \<Rightarrow> 'p word v5_publish_builder" where
  "v5pb_qos q b = b\<lparr>v5pb_fixed_header := Some ((v5pb_header b AND NOT 0x06) OR push_bit 1 (qos_u8 q))\<rparr>"

definition v5pb_dup :: "bool \<Rightarrow> 'p::len word v5_publish_builder \<Rightarrow> 'p word v5_publish_builder" where
  "v5pb_dup dup b = b\<lparr>v5pb_fixed_header := Some (if dup then v5pb_header b OR 0x08 else v5pb_header b AND NOT 0x08)\<rparr>"

definition v5pb_retain :: "bool \<Rightarrow> 'p::len word v5_publish_builder \<Rightarrow> 'p word v5_publish_builder" where
  "v5pb_retain retain b = b\<lparr>v5pb_fixed_header := Some (if retain then v5pb_header b OR 0x01 else v5pb_header b AND NOT 0x01)\<rparr>"

definition v5pb_packet_id :: "'p::len word \<Rightarrow> 'p word v5_publish_builder \<Rightarrow> 'p word v5_publish_builder" where
  "v5pb_packet_id pid b = b\<lparr>v5pb_packet_id_buf := Some (Some pid)\<rparr>"

definition v5pb_payload :: "bytes \<Rightarrow> 'p::len word v5_publish_builder \<Rightarrow> 'p word v5_publish_builder" where
  "v5pb_payload p b = b\<lparr>v5pb_payload_buf := Some p\<rparr>"

definition v5_publish_validate :: "'p::len word v5_publish_builder \<Rightarrow> (unit, mqtt_error) result" where
  "v5_publish_validate b =
     res_bind (case v5pb_props b of Some props \<Rightarrow> validate_publish_properties props | None \<Rightarrow> Ok ValidWithoutTopicAlias)
       (\<lambda>property_validation.
     let has_topic_alias = (property_validation = ValidWithTopicAlias); pid = flatten (v5pb_packet_id_buf b) in
     if (case v5pb_topic_name_buf b of None \<Rightarrow> \<not> has_topic_alias | Some t \<Rightarrow> ms_as_str t = [] \<and> \<not> has_topic_alias)
     then Err MalformedPacket
     else res_bind (case v5pb_fixed_header b of
            Some header \<Rightarrow>
              if qos_bits header = 0 then (if pid \<noteq> None then Err MalformedPacket else Ok ())
              else if qos_bits header \<in> {1, 2} then
                (case pid of None \<Rightarrow> Err MalformedPacket
                 | Some p \<Rightarrow> if p = 0 then Err MalformedPacket else Ok ())
              else Err MalformedPacket
          | None \<Rightarrow> if pid \<noteq> None then Err MalformedPacket else Ok ()) (\<lambda>_.
        case v5pb_payload_buf b of
          Some payload \<Rightarrow> if length payload > 268435455 then Err MalformedPacket else Ok ()
        | None \<Rightarrow> Ok ()))"

definition v5_publish_build :: "'p::len word v5_publish_builder \<Rightarrow> ('p word v5_publish, mqtt_error) result rust" where
  "v5_publish_build b =
     tbind (Ret (v5_publish_validate b)) (\<lambda>_.
     rbind (unwrap_res (ms_new [])) (\<lambda>empty.
     let topic_name_buf = (case v5pb_topic_name_buf b of Some t \<Rightarrow> t | None \<Rightarrow> empty);
         fixed_header = v5pb_header b;
         packet_id_buf = flatten (v5pb_packet_id_buf b);
         props = (case v5pb_props b of Some ps \<Rightarrow> ps | None \<Rightarrow> []);
         payload = (case v5pb_payload_buf b of None \<Rightarrow> [] | Some p \<Rightarrow> p) in
     rbind (vbi_of (properties_size props)) (\<lambda>property_length.
     let remaining = ms_size topic_name_buf
           + (if qos_bits fixed_header \<noteq> 0 \<and> packet_id_buf \<noteq> None then pid_size TYPE('p) else 0)
           + vbi_size property_length + properties_size props + length payload in
     rbind (vbi_of remaining) (\<lambda>rl.
       Ret (Ok \<lparr>v5p_fixed_header = fixed_header, v5p_remaining_length = rl, v5p_topic_name_buf = topic_name_buf,
                v5p_packet_id_buf = packet_id_buf, v5p_property_length = property_length, v5p_props = props,
                v5p_payload_buf = payload, v5p_topic_name_extracted = False\<rparr>)))))"

section \<open>The wire contract\<close>

definition v5_publish_body :: "'p::len word v5_publish \<Rightarrow> bytes" where
  "v5_publish_body k = ms_to_continuous_buffer (v5p_topic_name_buf k) @ pid_bytes (v5p_packet_id_buf k)
     @ properties_wire (v5p_props k) @ v5p_payload_buf k"

text \<open>A well-formed packet; the extraction flag is a local note that is not sent.\<close>

definition v5_publish_wf :: "'p::len word v5_publish \<Rightarrow> bool" where
  "v5_publish_wf k \<longleftrightarrow> v5p_fixed_header k = 0x30 OR (v5p_fixed_header k AND 0x0F)
     \<and> qos_bits (v5p_fixed_header k) \<noteq> 3 \<and> (v5p_packet_id_buf k = None \<longleftrightarrow> qos_bits (v5p_fixed_header k) = 0)
     \<and> ms_inv (v5p_topic_name_buf k)
     \<and> properties_inv (v5p_props k) \<and> (\<exists>v. validate_publish_properties (v5p_props k) = Ok v)
     \<and> v5p_property_length k = \<lparr>encoded = vbi_enc (properties_size (v5p_props k))\<rparr>
     \<and> length (v5_publish_body k) < 268435456
     \<and> v5p_remaining_length k = \<lparr>encoded = vbi_enc (length (v5_publish_body k))\<rparr>"

definition v5_publish_inv :: "'p::len word v5_publish \<Rightarrow> bool" where
  "v5_publish_inv k \<longleftrightarrow> v5_publish_wf k \<and> \<not> v5p_topic_name_extracted k"

text \<open>Reading back the identifier and the properties.\<close>

lemma length_pid_bytes: "length (pid_bytes (p :: 'p::len word option)) = (case p of None \<Rightarrow> 0 | Some _ \<Rightarrow> pid_size TYPE('p))"
  by (simp add: pid_bytes_def split: option.splits)

lemma drop_append_eq: "drop c data = x @ rest \<Longrightarrow> drop (c + length x) data = rest"
  by (metis append_eq_conv_conj add.commute drop_drop)

lemma publish_read_packet_id_enc:
  assumes w: "packet_id_width TYPE('p::len)" and q: "p = None \<longleftrightarrow> q = AtMostOnce"
    and d: "drop c data = pid_bytes (p :: 'p word option) @ rest"
  shows "publish_read_packet_id q data c = Ok (p, c + length (pid_bytes p))"
proof (cases p)
  case None
  then show ?thesis using q by (simp add: publish_read_packet_id_def pid_bytes_def)
next
  case (Some pid)
  have "length (drop c data) = pid_size TYPE('p) + length rest" using d Some by (simp add: pid_bytes_def)
  moreover have "0 < pid_size TYPE('p)" using w by (auto simp: packet_id_width_def pid_size_def)
  ultimately have "c + pid_size TYPE('p) \<le> length data" by simp
  then show ?thesis
    using q d Some from_to_buffer [OF w, of pid "[]"] by (simp add: publish_read_packet_id_def pid_bytes_def Let_def)
qed

lemma publish_read_packet_id_OkD:
  "publish_read_packet_id q data c = Ok (p :: 'p::len word option, c') \<Longrightarrow> c \<le> length data \<Longrightarrow>
   (p = None \<longleftrightarrow> q = AtMostOnce) \<and> c' = c + length (pid_bytes p) \<and> c' \<le> length data"
  by (auto simp: publish_read_packet_id_def pid_bytes_def Let_def split: if_splits)

lemma publish_read_props_enc:
  assumes "properties_inv ps" and "validate_publish_properties ps = Ok v" and d: "drop c data = properties_wire ps @ rest"
  shows "publish_read_props data c = Ret (Ok (\<lparr>encoded = vbi_enc (properties_size ps)\<rparr>, ps, c + length (properties_wire ps)))"
proof -
  have "drop c data \<noteq> []" using d properties_codec.enc_nonempty [OF assms(1)] by simp
  then have "c < length data" by (simp add: not_le [symmetric])
  then show ?thesis
    using assms properties_codec.dec_enc [OF assms(1)] by (simp add: publish_read_props_eq vbi_of_Ret properties_inv_def)
qed

lemma publish_read_props_OkD:
  assumes "publish_read_props data c = Ret (Ok (pl, ps, c'))" and "c \<le> length data"
  shows "properties_inv ps \<and> (\<exists>v. validate_publish_properties ps = Ok v) \<and> pl = \<lparr>encoded = vbi_enc (properties_size ps)\<rparr>
    \<and> c' \<le> length data \<and> (c + length (properties_wire ps) \<le> c' \<or> c = length data \<and> c' = c \<and> ps = [])"
proof (cases "c < length data")
  case True
  then obtain n v where p: "properties_parse (drop c data) = Ok (ps, n)" "validate_publish_properties ps = Ok v" "c' = c + n"
    "vbi_of (properties_size ps) = Ret pl"
    using assms(1) by (auto simp: publish_read_props_eq tbind_eq_Ok rbind_eq_Ret)
  note o = properties_parse_OkD [OF p(1)]
  then have "pl = \<lparr>encoded = vbi_enc (properties_size ps)\<rparr>" using p(4) by (auto simp: vbi_of_Ret properties_inv_def)
  then show ?thesis using o p True by auto
next
  case False
  then show ?thesis
    using assms by (auto simp: publish_read_props_eq vbi_of_Ret properties_inv_def properties_size_def validate_publish_properties_def
        validate_properties_def count_id_def)
qed

lemma publish_read_props_returns: "\<exists>r. publish_read_props data c = Ret r"
proof (cases "publish_read_props data c")
  case (Panic x)
  then obtain ps n where "properties_parse (drop c data) = Ok (ps, n)" "vbi_of (properties_size ps) = Panic x"
    by (auto simp: publish_read_props_eq tbind_eq_Panic rbind_eq_Panic vbi_of_Ret split: if_splits)
  then show ?thesis using properties_parse_OkD [of "drop c data" ps n] by (simp add: properties_inv_def vbi_of_Ret)
qed simp

lemma properties_wire_Nil: "length (properties_wire []) = 1"
  by (simp add: properties_wire_def properties_size_def length_vbi_enc_bounds(2) properties_to_continuous_buffer_def)

lemma length_v5_publish_body:
  "length (v5_publish_body k) = ms_size (v5p_topic_name_buf k) + length (pid_bytes (v5p_packet_id_buf k))
     + length (properties_wire (v5p_props k)) + length (v5p_payload_buf k)"
  by (simp add: v5_publish_body_def)

lemma v5_publish_parse_eq:
  "(v5_publish_parse flags data :: ('p::len word v5_publish \<times> nat, mqtt_error) result rust) =
     (let fixed_header_byte = fixed_header_as_u8 FH_Publish OR (flags AND 0x0F);
          qos_value = qos_bits flags in
      if qos_value = 3 then Ret (Err MalformedPacket)
      else tbind (Ret (ms_decode data)) (\<lambda>(topic_name, cursor).
        rbind (qos_of_bits qos_value) (\<lambda>qos.
        tbind (Ret (publish_read_packet_id qos data cursor)) (\<lambda>(packet_id_buf, cursor).
        tbind (publish_read_props data cursor) (\<lambda>(property_length, props, cursor).
        let payload_len = length data - cursor;
            payload = (if payload_len > 0 then drop cursor data else []);
            remaining_size = ms_size topic_name + (case packet_id_buf of None \<Rightarrow> 0 | Some _ \<Rightarrow> pid_size TYPE('p))
              + vbi_size property_length + properties_size props + payload_len in
        rbind (vbi_of remaining_size) (\<lambda>rl.
          Ret (Ok (\<lparr>v5p_fixed_header = fixed_header_byte, v5p_remaining_length = rl,
                    v5p_topic_name_buf = topic_name, v5p_packet_id_buf = packet_id_buf,
                    v5p_property_length = property_length, v5p_props = props,
                    v5p_payload_buf = payload, v5p_topic_name_extracted = False\<rparr>, length data))))))))"
proof (cases "ms_decode data")
  case (Ok p)
  obtain topic c where p: "p = (topic, c)" by force
  have c: "c \<le> length data" using ms_codec.dec_bounds [of data topic c] Ok p by simp
  note d = v5_publish_parse_def rs_ms_decode rs_publish_read_packet_id Ok p Let_def
  show ?thesis
  proof (cases "qos_of_bits (qos_bits flags)")
    case (Ret q)
    show ?thesis
    proof (cases "publish_read_packet_id q data c :: ('p word option \<times> nat, mqtt_error) result")
      case Ok': (Ok r)
      obtain pid c1 where r: "r = (pid, c1)" by force
      have c1: "c1 \<le> length data" using Ok' r c by (auto simp: publish_read_packet_id_def Let_def split: if_splits)
      show ?thesis
      proof (cases "publish_read_props data c1")
        case Ret': (Ret x)
        show ?thesis
        proof (cases x)
          case Ok'': (Ok y)
          obtain pl ps c2 where y: "y = (pl, ps, c2)" by (metis prod_cases3)
          have "c2 \<le> length data" using publish_read_props_OkD [of data c1 pl ps c2] Ret' Ok'' y c1 by simp
          then show ?thesis by (simp add: d Ret Ok' r Ret' Ok'' y)
        qed (simp add: d Ret Ok' r Ret')
      qed (simp add: d Ret Ok' r)
    qed (simp add: d Ret)
  qed (simp add: d)
qed (simp add: v5_publish_parse_def rs_ms_decode Let_def)

text \<open>A parse fails, or reads the four parts and computes the remaining length.\<close>

lemma v5_publish_parse_cases:
  obtains (err) e where "(v5_publish_parse flags data :: ('p::len word v5_publish \<times> nat, mqtt_error) result rust) = Ret (Err e)"
  | (reads) q t c pid c1 pl ps c2 where "qos_bits flags \<noteq> 3 \<and> qos_of_bits (qos_bits flags) = Ret q" "ms_decode data = Ok (t, c)"
      "publish_read_packet_id q data c = Ok (pid :: 'p word option, c1)" "publish_read_props data c1 = Ret (Ok (pl, ps, c2))"
      "v5_publish_parse flags data = rbind (vbi_of (ms_size t + length (pid_bytes pid) + (vbi_size pl + properties_size ps)
          + (length data - c2))) (\<lambda>rl. Ret (Ok (\<lparr>v5p_fixed_header = fixed_header_as_u8 FH_Publish OR (flags AND 0x0F),
          v5p_remaining_length = rl, v5p_topic_name_buf = t, v5p_packet_id_buf = pid, v5p_property_length = pl, v5p_props = ps,
          v5p_payload_buf = drop c2 data, v5p_topic_name_extracted = False\<rparr>, length data)))"
proof (cases "qos_bits flags = 3")
  case True
  then show ?thesis using err [of MalformedPacket] by (simp add: v5_publish_parse_eq)
next
  case q3: False
  obtain q where q: "qos_of_bits (qos_bits flags) = Ret q" using qos_of_bits_Ret [OF q3] by blast
  have payload: "(if 0 < length data - m then drop m data else []) = drop m data" for m by simp
  show ?thesis
  proof (cases "ms_decode data")
    case (Err e)
    then show ?thesis using q3 err [of e] by (simp add: v5_publish_parse_eq)
  next
    case (Ok tc)
    obtain t c where t: "ms_decode data = Ok (t, c)" using Ok by (cases tc) simp
    show ?thesis
    proof (cases "publish_read_packet_id q data c :: ('p word option \<times> nat, mqtt_error) result")
      case (Err e)
      then show ?thesis using q3 q t err [of e] by (simp add: v5_publish_parse_eq)
    next
      case (Ok pc)
      obtain pid c1 where p: "publish_read_packet_id q data c = Ok (pid :: 'p word option, c1)" using Ok by (cases pc) simp
      obtain r where r: "publish_read_props data c1 = Ret r" using publish_read_props_returns by blast
      show ?thesis
      proof (cases r)
        case (Err e)
        then show ?thesis using q3 q t p r err [of e] by (simp add: v5_publish_parse_eq)
      next
        case (Ok x)
        obtain pl ps c2 where x: "publish_read_props data c1 = Ret (Ok (pl, ps, c2))" using r Ok by (cases x) simp
        show ?thesis
          by (rule reads [OF _ t p x]) (use q3 q t p x in \<open>simp_all add: v5_publish_parse_eq Let_def payload length_pid_bytes add.assoc\<close>)
      qed
    qed
  qed
qed

lemma v5_publish_read_bound:
  assumes "qos_bits flags \<noteq> 3 \<and> qos_of_bits (qos_bits flags) = Ret q" and t: "ms_decode data = Ok (t, c)"
    and p: "publish_read_packet_id q data c = Ok (pid :: 'p::len word option, c1)"
    and x: "publish_read_props data c1 = Ret (Ok (pl, ps, c2))" and len: "length data < 268435456" and w: "packet_id_width TYPE('p)"
  shows "qos_bits flags \<noteq> 3 \<and> (pid = None \<longleftrightarrow> qos_bits flags = 0) \<and> ms_inv t \<and> properties_inv ps
    \<and> (\<exists>v. validate_publish_properties ps = Ok v) \<and> pl = \<lparr>encoded = vbi_enc (properties_size ps)\<rparr>
    \<and> vbi_size pl + properties_size ps = length (properties_wire ps)
    \<and> ms_size t + length (pid_bytes pid) + length (properties_wire ps) + (length data - c2) < 268435456"
proof -
  have q: "pid = None \<longleftrightarrow> qos_bits flags = 0"
    using assms(1) publish_read_packet_id_OkD [OF p] ms_decode_OkD [OF t] qos_of_bits_Ret [of flags] by auto
  have c: "c = ms_size t" "ms_inv t" "c1 = ms_size t + length (pid_bytes pid)" "c1 \<le> length data"
    using ms_decode_OkD [OF t] publish_read_packet_id_OkD [OF p] by simp_all
  note o = publish_read_props_OkD [OF x c(4)]
  have "length (pid_bytes pid) \<le> 4" using pid_size_le [OF w] by (simp add: length_pid_bytes split: option.splits)
  then have "ms_size t + length (pid_bytes pid) + length (properties_wire ps) + (length data - c2) < 268435456"
    using o c len ms_size_bound [OF c(2)] by (auto simp: properties_wire_Nil)
  then show ?thesis using assms(1) q c(2) o by (simp add: vbi_size_def length_properties_wire)
qed

lemma v5_publish_codec:
  assumes w: "packet_id_width TYPE('p::len)"
  shows "packet_codec v5_publish_inv v5p_fixed_header v5_publish_body v5_publish_to_continuous_buffer v5_publish_size
    (v5_publish_parse :: 'p word v5_publish parser)"
proof (unfold_locales, goal_cases)
  case (1 k)
  then show ?case
    by (simp add: v5_publish_inv_def v5_publish_wf_def v5_publish_to_continuous_buffer_def v5_publish_body_def properties_wire_def)
next
  case (2 k)
  then show ?case by (simp add: v5_publish_inv_def v5_publish_wf_def)
next
  case (3 k)
  then show ?case
    by (simp add: v5_publish_inv_def v5_publish_wf_def v5_publish_to_continuous_buffer_def v5_publish_size_def packet_size_of_enc)
      (simp add: v5_publish_body_def properties_wire_def)
next
  case (4 k)
  note inv = 4 [unfolded v5_publish_inv_def v5_publish_wf_def]
  let ?D = "v5_publish_body k" and ?t = "ms_size (v5p_topic_name_buf k)" and ?p = "length (pid_bytes (v5p_packet_id_buf k))"
    and ?w = "length (properties_wire (v5p_props k))"
  obtain q where q: "qos_of_bits (qos_bits (v5p_fixed_header k)) = Ret q" "q = AtMostOnce \<longleftrightarrow> qos_bits (v5p_fixed_header k) = 0"
    using qos_of_bits_Ret inv by blast
  obtain v where v: "validate_publish_properties (v5p_props k) = Ok v" using inv by blast
  have dec: "ms_decode ?D = Ok (v5p_topic_name_buf k, ?t)"
    using ms_codec.dec_enc inv by (simp add: v5_publish_body_def)
  have d1: "drop ?t ?D = pid_bytes (v5p_packet_id_buf k) @ properties_wire (v5p_props k) @ v5p_payload_buf k"
    by (simp add: v5_publish_body_def)
  have r1: "publish_read_packet_id q ?D ?t = Ok (v5p_packet_id_buf k, ?t + ?p)"
    using inv q by (intro publish_read_packet_id_enc [OF w _ d1]) simp
  note d2 = drop_append_eq [OF d1]
  have r2: "publish_read_props ?D (?t + ?p) = Ret (Ok (v5p_property_length k, v5p_props k, ?t + ?p + ?w))"
    using inv publish_read_props_enc [OF _ v d2] by simp
  note d3 = drop_append_eq [OF d2]
  have pl: "(if 0 < length ?D - (?t + ?p + ?w) then v5p_payload_buf k else []) = v5p_payload_buf k"
    by (simp add: length_v5_publish_body)
  have rem: "?t + (case v5p_packet_id_buf k of None \<Rightarrow> 0 | Some _ \<Rightarrow> pid_size TYPE('p)) + vbi_size (v5p_property_length k)
      + properties_size (v5p_props k) + (length ?D - (?t + ?p + ?w)) = length ?D"
    using inv by (simp add: length_v5_publish_body length_pid_bytes length_properties_wire vbi_size_def)
  have lt: "length ?D < 268435456" using inv by simp
  have fh: "fixed_header_as_u8 FH_Publish OR (v5p_fixed_header k AND 0x0F AND 0x0F) = v5p_fixed_header k"
    using inv by (simp add: and.assoc)
  show ?case
    unfolding v5_publish_parse_eq qos_bits_low Let_def q dec r1 r2 d3 pl rem vbi_of_Ret [OF lt] tbind_simps
      rbind.simps prod.case fh
    using inv by simp
next
  case (5 bs flags)
  show ?case
  proof (cases rule: v5_publish_parse_cases [of flags bs, where 'p = 'p])
    case (reads q t c pid c1 pl ps c2)
    note b = v5_publish_read_bound [OF reads(1-4) 5 w]
    then have e: "vbi_size pl + properties_size ps = length (properties_wire ps)"
      and lt: "ms_size t + length (pid_bytes pid) + length (properties_wire ps) + (length bs - c2) < 268435456" by blast+
    show ?thesis by (simp only: reads(5) e vbi_of_Ret [OF lt] rbind.simps rust.inject) blast
  qed simp
next
  case (6 bs flags k n)
  show ?case
  proof (cases rule: v5_publish_parse_cases [of flags bs, where 'p = 'p])
    case (reads q t c pid c1 pl ps c2)
    note b = v5_publish_read_bound [OF reads(1-4) 6(1) w]
    then have e: "vbi_size pl + properties_size ps = length (properties_wire ps)"
      and lt: "ms_size t + length (pid_bytes pid) + length (properties_wire ps) + (length bs - c2) < 268435456" by blast+
    have k: "n = length bs" "k = \<lparr>v5p_fixed_header = fixed_header_as_u8 FH_Publish OR (flags AND 0x0F),
        v5p_remaining_length = \<lparr>encoded = vbi_enc (ms_size t + length (pid_bytes pid) + length (properties_wire ps) + (length bs - c2))\<rparr>,
        v5p_topic_name_buf = t, v5p_packet_id_buf = pid, v5p_property_length = pl, v5p_props = ps,
        v5p_payload_buf = drop c2 bs, v5p_topic_name_extracted = False\<rparr>"
      using 6(2) [unfolded reads(5) e vbi_of_Ret [OF lt]] by auto
    have hdr: "qos_bits (0x30 OR flags AND 0x0F) = qos_bits flags"
      using qos_bits_low [of "0x30 OR flags AND 0x0F"] qos_bits_low [of flags] publish_header_low(1) [of flags] by metis
    show ?thesis
      using b hdr publish_header_low(1) [of flags]
      by (simp add: k v5_publish_inv_def v5_publish_wf_def length_v5_publish_body)
  qed (use 6 in simp)
qed

section \<open>Swapping topic name and topic alias\<close>

lemma without_topic_alias_size: "properties_size (without_topic_alias ps) \<le> properties_size ps"
  by (induction ps) (simp_all add: without_topic_alias_def properties_size_def)

lemma list_all_filter: "list_all P xs \<Longrightarrow> list_all P (filter Q xs)"
  by (induction xs) simp_all

lemma without_topic_alias_inv: "properties_inv ps \<Longrightarrow> properties_inv (without_topic_alias ps)"
  using without_topic_alias_size [of ps]
  by (simp add: properties_inv_def) (simp add: without_topic_alias_def list_all_filter)

lemma without_topic_alias_wire: "length (properties_wire (without_topic_alias ps)) \<le> length (properties_wire ps)"
  using without_topic_alias_size [of ps] vbi_enc_length_mono [OF without_topic_alias_size [of ps]]
  by (simp add: length_properties_wire)

lemma count_id_filter: "count_id i (filter P ps) \<le> count_id i ps"
  by (induction ps) (simp_all add: count_id_def)

lemma count_id_without [simp]: "count_id PI_TopicAlias (without_topic_alias ps) = 0"
  by (induction ps) (simp_all add: count_id_def without_topic_alias_def)

lemma validate_properties_filter:
  assumes "validate_properties u r ps = Ok ()"
  shows "validate_properties u r (filter P ps) = Ok ()"
proof -
  have "list_all (\<lambda>i. count_id i ps \<le> 1) u"
    and m: "list_all (\<lambda>p. property_id_of p \<in> set u \<or> property_id_of p \<in> set r) ps"
    using assms by (simp_all add: validate_properties_def split: if_splits)
  then have "list_all (\<lambda>i. count_id i (filter P ps) \<le> 1) u"
    using count_id_filter by (fastforce simp: list_all_iff intro: le_trans)
  then show ?thesis using list_all_filter [OF m] by (simp add: validate_properties_def)
qed

lemma validate_publish_without:
  "validate_publish_properties ps = Ok v \<Longrightarrow>
   validate_publish_properties (without_topic_alias ps) = Ok ValidWithoutTopicAlias"
  by (auto simp: validate_publish_properties_def res_bind_eq_Ok validate_properties_filter
      simp flip: without_topic_alias_def)
    (simp_all add: without_topic_alias_def validate_properties_filter)

text \<open>The recomputed lengths fit the new body.\<close>

lemma v5_recalculate_wf:
  fixes k :: "'p::len word v5_publish"
  assumes "v5p_fixed_header k = 0x30 OR (v5p_fixed_header k AND 0x0F)" and "qos_bits (v5p_fixed_header k) \<noteq> 3"
    and "v5p_packet_id_buf k = None \<longleftrightarrow> qos_bits (v5p_fixed_header k) = 0" and "ms_inv (v5p_topic_name_buf k)"
    and "properties_inv (v5p_props k)" and "\<exists>v. validate_publish_properties (v5p_props k) = Ok v"
    and len: "length (v5_publish_body k) < 268435456"
  shows "\<exists>k'. v5_recalculate_lengths k = Ret k' \<and> v5_publish_wf k'
    \<and> k' = k\<lparr>v5p_property_length := v5p_property_length k', v5p_remaining_length := v5p_remaining_length k'\<rparr>"
proof -
  let ?pl = "\<lparr>encoded = vbi_enc (properties_size (v5p_props k))\<rparr>"
  obtain q where q: "qos_of_bits (qos_bits (v5p_fixed_header k)) = Ret q" "q = AtMostOnce \<longleftrightarrow> qos_bits (v5p_fixed_header k) = 0"
    using qos_of_bits_Ret assms(2) by blast
  have pl: "vbi_of (properties_size (v5p_props k)) = Ret ?pl" using assms(5) by (simp add: properties_inv_def vbi_of_Ret)
  have rem: "ms_size (v5p_topic_name_buf k)
            + (if q \<noteq> AtMostOnce then (case v5p_packet_id_buf k of None \<Rightarrow> 0 | Some _ \<Rightarrow> pid_size TYPE('p)) else 0)
            + vbi_size ?pl + properties_size (v5p_props k) + length (v5p_payload_buf k) = length (v5_publish_body k)"
    using q assms(3) by (auto simp: length_v5_publish_body length_pid_bytes length_properties_wire vbi_size_def)
  let ?k = "k\<lparr>v5p_property_length := ?pl, v5p_remaining_length := \<lparr>encoded = vbi_enc (length (v5_publish_body k))\<rparr>\<rparr>"
  have r: "v5_recalculate_lengths k = Ret ?k"
    unfolding v5_recalculate_lengths_def v5_publish_qos_def Let_def pl q(1) rbind.simps rem vbi_of_Ret [OF len] by (rule refl)
  have body: "v5_publish_body ?k = v5_publish_body k" by (simp add: v5_publish_body_def)
  have "v5_publish_wf ?k" using assms by (simp add: v5_publish_wf_def body)
  then show ?thesis using r by auto
qed

lemma ms_size_inv: "ms_inv s \<Longrightarrow> ms_size s = length (ms_as_str s) + 2"
proof -
  assume "ms_inv s"
  then have "ms_encoded s = len_prefix (length (drop 2 (ms_encoded s))) @ drop 2 (ms_encoded s)"
    by (simp only: ms_inv_def Let_def)
  from arg_cong [OF this, of length] show ?thesis
    by (simp only: length_append length_len_prefix ms_size_def ms_as_str_def)
qed

text \<open>Removing the alias property of a well-formed packet.\<close>

lemma v5_remove_topic_alias_ok:
  assumes "v5_publish_wf k"
  shows "\<exists>k'. v5_remove_topic_alias k = Ret k' \<and> v5_publish_wf k' \<and> v5p_topic_name_buf k' = v5p_topic_name_buf k
    \<and> v5p_props k' = without_topic_alias (v5p_props k) \<and> v5p_packet_id_buf k' = v5p_packet_id_buf k
    \<and> v5p_fixed_header k' = v5p_fixed_header k \<and> v5p_payload_buf k' = v5p_payload_buf k"
proof -
  let ?k = "k\<lparr>v5p_props := without_topic_alias (v5p_props k)\<rparr>"
  have "length (v5_publish_body ?k) \<le> length (v5_publish_body k)"
    using without_topic_alias_wire [of "v5p_props k"] by (simp add: length_v5_publish_body)
  then obtain k' where k': "v5_recalculate_lengths ?k = Ret k'" "v5_publish_wf k'"
     "k' = ?k\<lparr>v5p_property_length := v5p_property_length k', v5p_remaining_length := v5p_remaining_length k'\<rparr>"
    using v5_recalculate_wf [of ?k] assms validate_publish_without without_topic_alias_inv
    by (auto simp: v5_publish_wf_def)
  have "v5p_topic_name_buf k' = v5p_topic_name_buf k" "v5p_props k' = without_topic_alias (v5p_props k)"
    "v5p_packet_id_buf k' = v5p_packet_id_buf k" "v5p_fixed_header k' = v5p_fixed_header k" "v5p_payload_buf k' = v5p_payload_buf k"
    by (subst k'(3), simp)+
  then show ?thesis using k'(1,2) by (simp add: v5_remove_topic_alias_def)
qed

section \<open>Properties\<close>

text \<open>
  Before a PUBLISH is stored, its topic alias is replaced by the topic name the alias stands
  for.  For a well-formed packet with an empty topic name, and a topic that is well-formed
  UTF-8 of at most 65535 bytes without wildcards, the operation gives a well-formed packet
  with that topic name, the other properties in their order, no alias, and the same flags,
  identifier and payload, unless the longer body exceeds what MQTT can encode.
\<close>

theorem v5_remove_topic_alias_add_topic_ok:
  assumes "v5_publish_wf k" and "v5_publish_topic_name k = []" and "utf8_valid topic" and "length topic \<le> 65535"
    and "\<not> has_wildcard topic" and "length (v5_publish_body k) + length topic < 268435456"
  shows "\<exists>k'. v5_remove_topic_alias_add_topic k topic = Ret (Ok k') \<and> v5_publish_wf k' \<and> v5_publish_topic_name k' = topic
    \<and> v5p_props k' = without_topic_alias (v5p_props k) \<and> count_id PI_TopicAlias (v5p_props k') = 0
    \<and> v5p_fixed_header k' = v5p_fixed_header k \<and> v5p_packet_id_buf k' = v5p_packet_id_buf k
    \<and> v5p_payload_buf k' = v5p_payload_buf k"
proof -
  obtain t where t: "ms_new topic = Ok t" "ms_inv t" "ms_as_str t = topic" using ms_new_ok [OF assms(4,3)] by auto
  let ?k = "k\<lparr>v5p_topic_name_buf := t, v5p_props := without_topic_alias (v5p_props k)\<rparr>"
  have size: "ms_size t = length topic + 2" "ms_size (v5p_topic_name_buf k) \<ge> 2"
    using t assms(1) by (simp_all add: ms_size_inv v5_publish_wf_def)
  then have "length (v5_publish_body ?k) < 268435456"
    using assms(6) without_topic_alias_wire [of "v5p_props k"] by (simp add: length_v5_publish_body)
  then obtain k' where k': "v5_recalculate_lengths ?k = Ret k'" "v5_publish_wf k'"
     "k' = ?k\<lparr>v5p_property_length := v5p_property_length k', v5p_remaining_length := v5p_remaining_length k'\<rparr>"
    using v5_recalculate_wf [of ?k] assms(1) t(2) validate_publish_without without_topic_alias_inv
    by (auto simp: v5_publish_wf_def)
  have "v5p_topic_name_buf k' = t" "v5p_props k' = without_topic_alias (v5p_props k)"
    "v5p_packet_id_buf k' = v5p_packet_id_buf k" "v5p_fixed_header k' = v5p_fixed_header k" "v5p_payload_buf k' = v5p_payload_buf k"
    by (subst k'(3), simp)+
  then show ?thesis
    using k'(1,2) t assms(2,5) by (simp add: v5_remove_topic_alias_add_topic_def v5_publish_topic_name_def)
qed

definition sample_alias_publish :: "16 word v5_publish" where
  "sample_alias_publish = \<lparr>v5p_fixed_header = 0x30, v5p_remaining_length = \<lparr>encoded = vbi_enc 6\<rparr>,
     v5p_topic_name_buf = \<lparr>ms_encoded = [0, 0]\<rparr>, v5p_packet_id_buf = None, v5p_property_length = \<lparr>encoded = vbi_enc (properties_size [P_TopicAlias 7])\<rparr>,
     v5p_props = [P_TopicAlias 7], v5p_payload_buf = [], v5p_topic_name_extracted = False\<rparr>"

lemma sample_alias_publish_wf: "v5_publish_wf sample_alias_publish" "v5_publish_topic_name sample_alias_publish = []"
    "length (v5_publish_body sample_alias_publish) = 6"
proof -
  have w: "length (properties_wire [P_TopicAlias 7]) = 4"
    by (simp add: length_properties_wire properties_size_def length_vbi_enc_bounds(2))
  show l: "length (v5_publish_body sample_alias_publish) = 6"
    by (simp add: length_v5_publish_body sample_alias_publish_def ms_size_def pid_bytes_def w)
  show "v5_publish_wf sample_alias_publish"
    unfolding v5_publish_wf_def l
    by (simp add: sample_alias_publish_def qos_bits_def ms_inv_def len_prefix_def properties_inv_def properties_size_def
        validate_publish_properties_def validate_properties_def count_id_def)
  show "v5_publish_topic_name sample_alias_publish = []"
    by (simp add: sample_alias_publish_def v5_publish_topic_name_def ms_as_str_def)
qed

theorem v5_remove_topic_alias_add_topic_ok_witness:
  "\<exists>k'. v5_remove_topic_alias_add_topic sample_alias_publish [0x61, 0x2F] = Ret (Ok k') \<and> v5_publish_wf k'
    \<and> v5_publish_topic_name k' = [0x61, 0x2F] \<and> v5p_props k' = []"
proof -
  have "utf8_valid [0x61, 0x2F]" by (simp add: utf8_valid_ascii)
  then show ?thesis
    using v5_remove_topic_alias_add_topic_ok [OF sample_alias_publish_wf(1,2), of "[0x61, 0x2F]"]
    by (auto simp: has_wildcard_def sample_alias_publish_wf(3)) (auto simp: sample_alias_publish_def without_topic_alias_def)
qed

text \<open>
  C19: A PUBLISH packet of MQTT v5.0 survives the wire: its encoding, fed to a fresh packet builder
  ahead of any other bytes, completes exactly one raw packet, and the parser reads from it
  the same topic, identifier, properties and payload.
\<close>

theorem v5_publish_wire_roundtrip:
  fixes k :: "'p::len word v5_publish"
  assumes "packet_id_width TYPE('p)" and "v5_publish_inv k" and "length (v5_publish_body k) < 2097152"
  shows "\<exists>raw. feed pb_new (cursor_new (v5_publish_to_continuous_buffer k @ rest)) =
      Ret (Complete raw, pb_new, \<lparr>inner = v5_publish_to_continuous_buffer k @ rest, pos = v5_publish_size k\<rparr>)
    \<and> v5_publish_parse (rp_flags raw) (data_as_slice (rp_data raw)) = Ret (Ok (k, length (v5_publish_body k)))"
  using packet_wire.wire_roundtrip [OF packet_codec.axioms(1) [OF v5_publish_codec [OF assms(1)]] assms(2,3)]
    packet_wire.size_eq [OF packet_codec.axioms(1) [OF v5_publish_codec [OF assms(1)]] assms(2)]
  by auto

theorem v5_publish_wire_roundtrip_witness:
  "\<exists>raw. feed pb_new (cursor_new (v5_publish_to_continuous_buffer sample_alias_publish @ [1])) =
      Ret (Complete raw, pb_new, \<lparr>inner = v5_publish_to_continuous_buffer sample_alias_publish @ [1],
        pos = v5_publish_size sample_alias_publish\<rparr>)
    \<and> v5_publish_parse (rp_flags raw) (data_as_slice (rp_data raw)) = Ret (Ok (sample_alias_publish, 6))"
proof -
  have "v5_publish_inv sample_alias_publish"
    using sample_alias_publish_wf(1) by (simp add: v5_publish_inv_def sample_alias_publish_def)
  then show ?thesis
    using v5_publish_wire_roundtrip [of sample_alias_publish "[1]"] sample_alias_publish_wf(3)
    by (simp add: packet_id_width_def)
qed

end
