(* ===== verification/Store.thy ===== *)
theory Store
  imports Connect_V50 Subscription_V50 Publish_V50
begin

text \<open>
  \<^verbatim>\<open>src/mqtt/packet/enum_packet.rs\<close>, \<^verbatim>\<open>enum_store_packet.rs\<close> and \<^verbatim>\<open>src/mqtt/connection/store.rs\<close>:
  the sum of all packets, the packets kept for retransmission, and the store that keeps them
  in the order of their insertion (an \<open>IndexMap\<close>, here an association list).
\<close>

section \<open>The sum of all packets\<close>

text \<open>The PINGREQ and PINGRESP of both versions and the DISCONNECT of v3.1.1 have no body.\<close>

datatype 't packet =
    V3_Connect v3_connect
  | V3_Connack v3_connack
  | V3_Subscribe "('t, sub_entry) v3_entries_packet"
  | V3_Suback "('t, u8) v3_entries_packet"
  | V3_Unsubscribe "('t, mqtt_string) v3_entries_packet"
  | V3_Unsuback "'t v3_unsuback"
  | V3_Publish "'t v3_publish"
  | V3_Puback "'t v3_ack"
  | V3_Pubrec "'t v3_ack"
  | V3_Pubrel "'t v3_ack"
  | V3_Pubcomp "'t v3_ack"
  | V3_Disconnect v3_empty
  | V3_Pingreq v3_empty
  | V3_Pingresp v3_empty
  | V5_Connect v5_connect
  | V5_Connack v5_connack
  | V5_Subscribe "('t, sub_entry) v5_entries_packet"
  | V5_Suback "('t, u8) v5_entries_packet"
  | V5_Unsubscribe "('t, mqtt_string) v5_entries_packet"
  | V5_Unsuback "('t, u8) v5_entries_packet"
  | V5_Publish "'t v5_publish"
  | V5_Puback "'t v5_ack"
  | V5_Pubrec "'t v5_ack"
  | V5_Pubrel "'t v5_ack"
  | V5_Pubcomp "'t v5_ack"
  | V5_Disconnect v5_reason_packet
  | V5_Pingreq v3_empty
  | V5_Pingresp v3_empty
  | V5_Auth v5_reason_packet

primrec gp_packet_type :: "'t packet \<Rightarrow> packet_type" where
  "gp_packet_type (V3_Connect p) = PT_Connect"
| "gp_packet_type (V3_Connack p) = PT_Connack"
| "gp_packet_type (V3_Subscribe p) = PT_Subscribe"
| "gp_packet_type (V3_Suback p) = PT_Suback"
| "gp_packet_type (V3_Unsubscribe p) = PT_Unsubscribe"
| "gp_packet_type (V3_Unsuback p) = PT_Unsuback"
| "gp_packet_type (V3_Publish p) = PT_Publish"
| "gp_packet_type (V3_Puback p) = PT_Puback"
| "gp_packet_type (V3_Pubrec p) = PT_Pubrec"
| "gp_packet_type (V3_Pubrel p) = PT_Pubrel"
| "gp_packet_type (V3_Pubcomp p) = PT_Pubcomp"
| "gp_packet_type (V3_Disconnect p) = PT_Disconnect"
| "gp_packet_type (V3_Pingreq p) = PT_Pingreq"
| "gp_packet_type (V3_Pingresp p) = PT_Pingresp"
| "gp_packet_type (V5_Connect p) = PT_Connect"
| "gp_packet_type (V5_Connack p) = PT_Connack"
| "gp_packet_type (V5_Subscribe p) = PT_Subscribe"
| "gp_packet_type (V5_Suback p) = PT_Suback"
| "gp_packet_type (V5_Unsubscribe p) = PT_Unsubscribe"
| "gp_packet_type (V5_Unsuback p) = PT_Unsuback"
| "gp_packet_type (V5_Publish p) = PT_Publish"
| "gp_packet_type (V5_Puback p) = PT_Puback"
| "gp_packet_type (V5_Pubrec p) = PT_Pubrec"
| "gp_packet_type (V5_Pubrel p) = PT_Pubrel"
| "gp_packet_type (V5_Pubcomp p) = PT_Pubcomp"
| "gp_packet_type (V5_Disconnect p) = PT_Disconnect"
| "gp_packet_type (V5_Pingreq p) = PT_Pingreq"
| "gp_packet_type (V5_Pingresp p) = PT_Pingresp"
| "gp_packet_type (V5_Auth p) = PT_Auth"

primrec gp_protocol_version :: "'t packet \<Rightarrow> version" where
  "gp_protocol_version (V3_Connect p) = V3_1_1"
| "gp_protocol_version (V3_Connack p) = V3_1_1"
| "gp_protocol_version (V3_Subscribe p) = V3_1_1"
| "gp_protocol_version (V3_Suback p) = V3_1_1"
| "gp_protocol_version (V3_Unsubscribe p) = V3_1_1"
| "gp_protocol_version (V3_Unsuback p) = V3_1_1"
| "gp_protocol_version (V3_Publish p) = V3_1_1"
| "gp_protocol_version (V3_Puback p) = V3_1_1"
| "gp_protocol_version (V3_Pubrec p) = V3_1_1"
| "gp_protocol_version (V3_Pubrel p) = V3_1_1"
| "gp_protocol_version (V3_Pubcomp p) = V3_1_1"
| "gp_protocol_version (V3_Disconnect p) = V3_1_1"
| "gp_protocol_version (V3_Pingreq p) = V3_1_1"
| "gp_protocol_version (V3_Pingresp p) = V3_1_1"
| "gp_protocol_version (V5_Connect p) = V5_0"
| "gp_protocol_version (V5_Connack p) = V5_0"
| "gp_protocol_version (V5_Subscribe p) = V5_0"
| "gp_protocol_version (V5_Suback p) = V5_0"
| "gp_protocol_version (V5_Unsubscribe p) = V5_0"
| "gp_protocol_version (V5_Unsuback p) = V5_0"
| "gp_protocol_version (V5_Publish p) = V5_0"
| "gp_protocol_version (V5_Puback p) = V5_0"
| "gp_protocol_version (V5_Pubrec p) = V5_0"
| "gp_protocol_version (V5_Pubrel p) = V5_0"
| "gp_protocol_version (V5_Pubcomp p) = V5_0"
| "gp_protocol_version (V5_Disconnect p) = V5_0"
| "gp_protocol_version (V5_Pingreq p) = V5_0"
| "gp_protocol_version (V5_Pingresp p) = V5_0"
| "gp_protocol_version (V5_Auth p) = V5_0"

text \<open>The dispatch of \<open>GenericPacketTrait\<close>.\<close>

primrec gp_size :: "'p::len word packet \<Rightarrow> nat" where
  "gp_size (V3_Connect p) = v3_connect_size p"
| "gp_size (V3_Connack p) = v3_connack_size p"
| "gp_size (V3_Subscribe p) = v3_entries_size p"
| "gp_size (V3_Suback p) = v3_entries_size p"
| "gp_size (V3_Unsubscribe p) = v3_entries_size p"
| "gp_size (V3_Unsuback p) = v3_unsuback_size p"
| "gp_size (V3_Publish p) = v3_publish_size p"
| "gp_size (V3_Puback p) = v3_ack_size p"
| "gp_size (V3_Pubrec p) = v3_ack_size p"
| "gp_size (V3_Pubrel p) = v3_ack_size p"
| "gp_size (V3_Pubcomp p) = v3_ack_size p"
| "gp_size (V3_Disconnect p) = v3_empty_size p"
| "gp_size (V3_Pingreq p) = v3_empty_size p"
| "gp_size (V3_Pingresp p) = v3_empty_size p"
| "gp_size (V5_Connect p) = v5_connect_size p"
| "gp_size (V5_Connack p) = v5_connack_size p"
| "gp_size (V5_Subscribe p) = v5_entries_size p"
| "gp_size (V5_Suback p) = v5_entries_size p"
| "gp_size (V5_Unsubscribe p) = v5_entries_size p"
| "gp_size (V5_Unsuback p) = v5_entries_size p"
| "gp_size (V5_Publish p) = v5_publish_size p"
| "gp_size (V5_Puback p) = v5_ack_size p"
| "gp_size (V5_Pubrec p) = v5_ack_size p"
| "gp_size (V5_Pubrel p) = v5_ack_size p"
| "gp_size (V5_Pubcomp p) = v5_ack_size p"
| "gp_size (V5_Disconnect p) = v5_reason_packet_size p"
| "gp_size (V5_Pingreq p) = v3_empty_size p"
| "gp_size (V5_Pingresp p) = v3_empty_size p"
| "gp_size (V5_Auth p) = v5_reason_packet_size p"

primrec gp_to_continuous_buffer :: "'p::len word packet \<Rightarrow> bytes" where
  "gp_to_continuous_buffer (V3_Connect p) = v3_connect_to_continuous_buffer p"
| "gp_to_continuous_buffer (V3_Connack p) = v3_connack_to_continuous_buffer p"
| "gp_to_continuous_buffer (V3_Subscribe p) = v3_subscribe_to_continuous_buffer p"
| "gp_to_continuous_buffer (V3_Suback p) = v3_suback_to_continuous_buffer p"
| "gp_to_continuous_buffer (V3_Unsubscribe p) = v3_unsubscribe_to_continuous_buffer p"
| "gp_to_continuous_buffer (V3_Unsuback p) = v3_unsuback_to_continuous_buffer p"
| "gp_to_continuous_buffer (V3_Publish p) = v3_publish_to_continuous_buffer p"
| "gp_to_continuous_buffer (V3_Puback p) = v3_ack_to_continuous_buffer p"
| "gp_to_continuous_buffer (V3_Pubrec p) = v3_ack_to_continuous_buffer p"
| "gp_to_continuous_buffer (V3_Pubrel p) = v3_ack_to_continuous_buffer p"
| "gp_to_continuous_buffer (V3_Pubcomp p) = v3_ack_to_continuous_buffer p"
| "gp_to_continuous_buffer (V3_Disconnect p) = v3_empty_to_continuous_buffer p"
| "gp_to_continuous_buffer (V3_Pingreq p) = v3_empty_to_continuous_buffer p"
| "gp_to_continuous_buffer (V3_Pingresp p) = v3_empty_to_continuous_buffer p"
| "gp_to_continuous_buffer (V5_Connect p) = v5_connect_to_continuous_buffer p"
| "gp_to_continuous_buffer (V5_Connack p) = v5_connack_to_continuous_buffer p"
| "gp_to_continuous_buffer (V5_Subscribe p) = v5_entries_to_continuous_buffer sub_entry_to_continuous_buffer p"
| "gp_to_continuous_buffer (V5_Suback p) = v5_entries_to_continuous_buffer (\<lambda>b. [b]) p"
| "gp_to_continuous_buffer (V5_Unsubscribe p) = v5_entries_to_continuous_buffer ms_to_continuous_buffer p"
| "gp_to_continuous_buffer (V5_Unsuback p) = v5_entries_to_continuous_buffer (\<lambda>b. [b]) p"
| "gp_to_continuous_buffer (V5_Publish p) = v5_publish_to_continuous_buffer p"
| "gp_to_continuous_buffer (V5_Puback p) = v5_ack_to_continuous_buffer p"
| "gp_to_continuous_buffer (V5_Pubrec p) = v5_ack_to_continuous_buffer p"
| "gp_to_continuous_buffer (V5_Pubrel p) = v5_ack_to_continuous_buffer p"
| "gp_to_continuous_buffer (V5_Pubcomp p) = v5_ack_to_continuous_buffer p"
| "gp_to_continuous_buffer (V5_Disconnect p) = v5_reason_packet_to_continuous_buffer p"
| "gp_to_continuous_buffer (V5_Pingreq p) = v3_empty_to_continuous_buffer p"
| "gp_to_continuous_buffer (V5_Pingresp p) = v3_empty_to_continuous_buffer p"
| "gp_to_continuous_buffer (V5_Auth p) = v5_reason_packet_to_continuous_buffer p"

section \<open>Packets kept for retransmission\<close>

datatype response_packet =
    R_V3_Puback | R_V3_Pubrec | R_V3_Pubcomp | R_V5_Puback | R_V5_Pubrec | R_V5_Pubcomp

datatype 't store_packet =
    S_V3_Publish "'t v3_publish"
  | S_V3_Pubrel "'t v3_ack"
  | S_V5_Publish "'t v5_publish"
  | S_V5_Pubrel "'t v5_ack"

primrec sp_size :: "'p::len word store_packet \<Rightarrow> nat" where
  "sp_size (S_V3_Publish p) = v3_publish_size p"
| "sp_size (S_V3_Pubrel p) = v3_ack_size p"
| "sp_size (S_V5_Publish p) = v5_publish_size p"
| "sp_size (S_V5_Pubrel p) = v5_ack_size p"

primrec sp_to_continuous_buffer :: "'p::len word store_packet \<Rightarrow> bytes" where
  "sp_to_continuous_buffer (S_V3_Publish p) = v3_publish_to_continuous_buffer p"
| "sp_to_continuous_buffer (S_V3_Pubrel p) = v3_ack_to_continuous_buffer p"
| "sp_to_continuous_buffer (S_V5_Publish p) = v5_publish_to_continuous_buffer p"
| "sp_to_continuous_buffer (S_V5_Pubrel p) = v5_ack_to_continuous_buffer p"

primrec sp_packet_type :: "'t store_packet \<Rightarrow> packet_type" where
  "sp_packet_type (S_V3_Publish p) = PT_Publish"
| "sp_packet_type (S_V3_Pubrel p) = PT_Pubrel"
| "sp_packet_type (S_V5_Publish p) = PT_Publish"
| "sp_packet_type (S_V5_Pubrel p) = PT_Pubrel"

primrec sp_packet_id :: "'t store_packet \<Rightarrow> 't rust" where
  "sp_packet_id (S_V3_Publish p) = unwrap (v3p_packet_id_buf p)"
| "sp_packet_id (S_V3_Pubrel p) = Ret (v3a_packet_id_buf p)"
| "sp_packet_id (S_V5_Publish p) = unwrap (v5p_packet_id_buf p)"
| "sp_packet_id (S_V5_Pubrel p) = Ret (v5a_packet_id_buf p)"

primrec sp_response_packet :: "'p::len word store_packet \<Rightarrow> response_packet rust" where
  "sp_response_packet (S_V3_Publish p) = rbind (v3_publish_qos p) (\<lambda>q. case q of
     AtLeastOnce \<Rightarrow> Ret R_V3_Puback | ExactlyOnce \<Rightarrow> Ret R_V3_Pubrec | AtMostOnce \<Rightarrow> Panic Explicit_Panic)"
| "sp_response_packet (S_V3_Pubrel p) = Ret R_V3_Pubcomp"
| "sp_response_packet (S_V5_Publish p) = rbind (v5_publish_qos p) (\<lambda>q. case q of
     AtLeastOnce \<Rightarrow> Ret R_V5_Puback | ExactlyOnce \<Rightarrow> Ret R_V5_Pubrec | AtMostOnce \<Rightarrow> Panic Explicit_Panic)"
| "sp_response_packet (S_V5_Pubrel p) = Ret R_V5_Pubcomp"

definition sp_of_v3_publish :: "'p::len word v3_publish \<Rightarrow> ('p word store_packet, mqtt_error) result rust" where
  "sp_of_v3_publish p = rbind (v3_publish_qos p) (\<lambda>q.
     Ret (if q = AtMostOnce then Err InvalidQos else Ok (S_V3_Publish p)))"

definition sp_of_v5_publish :: "'p::len word v5_publish \<Rightarrow> ('p word store_packet, mqtt_error) result rust" where
  "sp_of_v5_publish p = rbind (v5_publish_qos p) (\<lambda>q.
     Ret (if q = AtMostOnce then Err InvalidQos else Ok (S_V5_Publish p)))"

primrec packet_of_stored :: "'t store_packet \<Rightarrow> 't packet" where
  "packet_of_stored (S_V3_Publish p) = V3_Publish p"
| "packet_of_stored (S_V3_Pubrel p) = V3_Pubrel p"
| "packet_of_stored (S_V5_Publish p) = V5_Publish p"
| "packet_of_stored (S_V5_Pubrel p) = V5_Pubrel p"

section \<open>The store\<close>

record 't store =
  st_map :: "('t \<times> 't store_packet) list"

definition store_new :: "'t store" where
  "store_new = \<lparr>st_map = []\<rparr>"

definition store_add :: "'t store_packet \<Rightarrow> 't store \<Rightarrow> ((unit, mqtt_error) result \<times> 't store) rust" where
  "store_add packet s =
     rbind (sp_packet_id packet) (\<lambda>i.
       if map_of (st_map s) i \<noteq> None then Ret (Err PacketIdentifierConflict, s)
       else Ret (Ok (), s\<lparr>st_map := st_map s @ [(i, packet)]\<rparr>))"

definition store_erase :: "response_packet \<Rightarrow> 'p::len word \<Rightarrow> 'p word store \<Rightarrow> (bool \<times> 'p word store) rust" where
  "store_erase response packet_id s =
     (case map_of (st_map s) packet_id of
        None \<Rightarrow> Ret (False, s)
      | Some pkt \<Rightarrow> rbind (sp_response_packet pkt) (\<lambda>r.
          if r = response then Ret (True, s\<lparr>st_map := AList.delete packet_id (st_map s)\<rparr>)
          else Ret (False, s)))"

definition store_erase_publish :: "'p::len word \<Rightarrow> 'p word store \<Rightarrow> (bool \<times> 'p word store) rust" where
  "store_erase_publish packet_id s =
     (case map_of (st_map s) packet_id of
        None \<Rightarrow> Ret (False, s)
      | Some pkt \<Rightarrow> rbind (sp_response_packet pkt) (\<lambda>r.
          if r \<in> {R_V3_Puback, R_V3_Pubrec, R_V5_Puback, R_V5_Pubrec}
          then Ret (True, s\<lparr>st_map := AList.delete packet_id (st_map s)\<rparr>)
          else Ret (False, s)))"

definition store_clear :: "'t store \<Rightarrow> 't store" where
  "store_clear s = s\<lparr>st_map := []\<rparr>"

text \<open>The closure of \<open>for_each\<close> changes a state of its own and says which packets are kept.\<close>

fun store_visit ::
  "('t store_packet \<Rightarrow> 's \<Rightarrow> (bool \<times> 's) rust) \<Rightarrow> ('t \<times> 't store_packet) list \<Rightarrow> 't list \<Rightarrow> 's \<Rightarrow> ('t list \<times> 's) rust" where
  "store_visit func [] to_remove s = Ret (to_remove, s)"
| "store_visit func ((i, pkt) # rest) to_remove s =
     rbind (func pkt s) (\<lambda>(keep, s').
       store_visit func rest (if keep then to_remove else to_remove @ [i]) s')"

definition store_for_each ::
  "('t store_packet \<Rightarrow> 's \<Rightarrow> (bool \<times> 's) rust) \<Rightarrow> 't store \<Rightarrow> 's \<Rightarrow> ('t store \<times> 's) rust" where
  "store_for_each func st s =
     rbind (store_visit func (st_map st) [] s) (\<lambda>(to_remove, s').
       Ret (st\<lparr>st_map := fold AList.delete to_remove (st_map st)\<rparr>, s'))"

definition get_stored :: "'t store \<Rightarrow> 't store_packet list" where
  "get_stored s = map snd (st_map s)"

section \<open>The invariant of the store\<close>

text \<open>
  The keys are distinct, every packet is filed under its own identifier,
  and every packet has a response, so it is not a QoS 0 publish.
\<close>

definition storable :: "'p::len word \<Rightarrow> 'p word store_packet \<Rightarrow> bool" where
  "storable i p \<longleftrightarrow> sp_packet_id p = Ret i \<and> (\<exists>r. sp_response_packet p = Ret r)"

definition store_inv :: "'p::len word store \<Rightarrow> bool" where
  "store_inv s \<longleftrightarrow> distinct (map fst (st_map s)) \<and> (\<forall>(i, p) \<in> set (st_map s). storable i p)"

definition store_lookup :: "'t store \<Rightarrow> 't \<Rightarrow> 't store_packet option" where
  "store_lookup s = map_of (st_map s)"

lemma store_inv_new [simp]: "store_inv store_new"
  by (simp add: store_inv_def store_new_def)

lemma store_inv_clear [simp]: "store_inv (store_clear s)" "store_lookup (store_clear s) = Map.empty"
  by (simp_all add: store_inv_def store_clear_def store_lookup_def)

lemma store_inv_lookup: "store_inv s \<Longrightarrow> store_lookup s i = Some p \<Longrightarrow> storable i p"
  by (auto simp: store_inv_def store_lookup_def dest: map_of_SomeD)

lemma store_add_eq:
  assumes "storable i p"
  shows "store_add p s = Ret (if store_lookup s i \<noteq> None then (Err PacketIdentifierConflict, s)
    else (Ok (), s\<lparr>st_map := st_map s @ [(i, p)]\<rparr>))"
  using assms by (simp add: store_add_def storable_def store_lookup_def)

lemma store_inv_add:
  assumes "store_inv s" and "storable i p" and "store_lookup s i = None"
  shows "store_inv (s\<lparr>st_map := st_map s @ [(i, p)]\<rparr>)"
    and "store_lookup (s\<lparr>st_map := st_map s @ [(i, p)]\<rparr>) = (store_lookup s)(i \<mapsto> p)"
proof -
  have "i \<notin> fst ` set (st_map s)" using assms(3) by (simp add: store_lookup_def map_of_eq_None_iff)
  then show "store_inv (s\<lparr>st_map := st_map s @ [(i, p)]\<rparr>)" using assms(1,2) by (auto simp: store_inv_def)
  show "store_lookup (s\<lparr>st_map := st_map s @ [(i, p)]\<rparr>) = (store_lookup s)(i \<mapsto> p)"
    using assms(3) by (auto simp: store_lookup_def map_add_def fun_eq_iff split: option.splits)
qed

lemma store_inv_delete:
  assumes "store_inv s"
  shows "store_inv (s\<lparr>st_map := AList.delete i (st_map s)\<rparr>)"
    and "store_lookup (s\<lparr>st_map := AList.delete i (st_map s)\<rparr>) = (store_lookup s)(i := None)"
  using assms by (auto simp: store_inv_def store_lookup_def AList.delete_conv' AList.distinct_delete) (auto simp: AList.delete_eq)

lemma store_erase_ok:
  assumes "store_inv s"
  shows "\<exists>s'. store_erase r i s = Ret (s' \<noteq> s, s') \<and> store_inv s'
    \<and> (if \<exists>p. store_lookup s i = Some p \<and> sp_response_packet p = Ret r
       then store_lookup s' = (store_lookup s)(i := None) \<and> s' \<noteq> s else s' = s)"
proof (cases "store_lookup s i")
  case None
  then show ?thesis using assms by (simp add: store_erase_def store_lookup_def)
next
  case (Some p)
  then obtain r' where r': "sp_response_packet p = Ret r'" using store_inv_lookup [OF assms] by (auto simp: storable_def)
  let ?s = "s\<lparr>st_map := AList.delete i (st_map s)\<rparr>"
  note d = store_inv_delete [OF assms, of i]
  have "store_lookup ?s i \<noteq> store_lookup s i" unfolding d(2) using Some by simp
  then have "?s \<noteq> s" by metis
  then show ?thesis using Some r' d assms by (auto simp: store_erase_def store_lookup_def)
qed

text \<open>Visiting: a closure that keeps or drops by a test and folds its own state.\<close>

lemma store_visit_filter:
  assumes "\<And>i p s. (i, p) \<in> set xs \<Longrightarrow> I s \<Longrightarrow> \<exists>s'. func p s = Ret (keep p, s') \<and> s' = step p s \<and> I s'" and "I s"
  shows "store_visit func xs rm s =
    Ret (rm @ map fst (filter (\<lambda>(i, p). \<not> keep p) xs), fold step (map snd xs) s) \<and> I (fold step (map snd xs) s)"
  using assms
proof (induction xs arbitrary: rm s)
  case (Cons x xs)
  obtain i p where x: "x = (i, p)" by force
  obtain s' where s': "func p s = Ret (keep p, s')" "s' = step p s" "I s'" using Cons.prems(1) [of i p s] Cons.prems(2) x by auto
  have "store_visit func xs rm' s' =
    Ret (rm' @ map fst (filter (\<lambda>(i, p). \<not> keep p) xs), fold step (map snd xs) s') \<and> I (fold step (map snd xs) s')" for rm'
    by (rule Cons.IH) (use Cons.prems(1) s'(3) in auto)
  then show ?case using s' by (simp add: x)
qed simp

lemma fold_delete: "fold AList.delete ks al = filter (\<lambda>(k, v). k \<notin> set ks) al"
  by (induction ks arbitrary: al) (auto simp: AList.delete_eq intro!: filter_cong)

lemma fold_delete_keys:
  assumes "distinct (map fst al)"
  shows "fold AList.delete (map fst (filter (\<lambda>(k, v). \<not> keep v) al)) al = filter (\<lambda>(k, v). keep v) al"
  unfolding fold_delete using assms
  by (intro filter_cong) (auto simp: image_iff dest: map_of_is_SomeI [symmetric] split: prod.splits, metis map_of_is_SomeI option.inject)

section \<open>The contract of the store\<close>

text \<open>
  What the connection relies on: a stored packet is found under its identifier until it is
  erased by the response it waits for, and the packets are listed in the order they came.
\<close>

locale packet_store =
  fixes inv :: "'s \<Rightarrow> bool" and ok :: "'k \<Rightarrow> 'v \<Rightarrow> bool" and response :: "'v \<Rightarrow> 'r rust"
    and lookup :: "'s \<Rightarrow> 'k \<Rightarrow> 'v option" and listing :: "'s \<Rightarrow> 'v list"
    and add :: "'v \<Rightarrow> 's \<Rightarrow> ((unit, mqtt_error) result \<times> 's) rust"
    and erase :: "'r \<Rightarrow> 'k \<Rightarrow> 's \<Rightarrow> (bool \<times> 's) rust"
  assumes add_new: "inv s \<Longrightarrow> ok i p \<Longrightarrow> lookup s i = None \<Longrightarrow>
      \<exists>s'. add p s = Ret (Ok (), s') \<and> inv s' \<and> lookup s' = (lookup s)(i \<mapsto> p) \<and> listing s' = listing s @ [p]"
    and add_conflict: "inv s \<Longrightarrow> ok i p \<Longrightarrow> lookup s i \<noteq> None \<Longrightarrow> add p s = Ret (Err PacketIdentifierConflict, s)"
    and erase_waiting: "inv s \<Longrightarrow> lookup s i = Some p \<Longrightarrow> response p = Ret r \<Longrightarrow>
      \<exists>s'. erase r i s = Ret (True, s') \<and> inv s' \<and> lookup s' = (lookup s)(i := None)"
    and erase_other: "inv s \<Longrightarrow> \<not> (\<exists>p. lookup s i = Some p \<and> response p = Ret r) \<Longrightarrow> erase r i s = Ret (False, s)"
begin

text \<open>A packet that was added is erased by its response, and by no other.\<close>

lemma add_then_erase:
  assumes "inv s" and "ok i p" and "lookup s i = None" and "response p = Ret r"
  shows "\<exists>s1 s2. add p s = Ret (Ok (), s1) \<and> erase r i s1 = Ret (True, s2) \<and> inv s2 \<and> lookup s2 = lookup s"
proof -
  obtain s1 where s1: "add p s = Ret (Ok (), s1)" "inv s1" "lookup s1 = (lookup s)(i \<mapsto> p)"
    using add_new [OF assms(1-3)] by blast
  have l: "lookup s1 i = Some p" using s1(3) by simp
  obtain s2 where "erase r i s1 = Ret (True, s2)" "inv s2" "lookup s2 = (lookup s1)(i := None)"
    using erase_waiting [OF s1(2) l assms(4)] by blast
  then show ?thesis using s1 assms(3) by (intro exI [of _ s1] exI [of _ s2]) (auto simp: fun_eq_iff)
qed

lemma add_survives_other:
  assumes "inv s" and "ok i p" and "lookup s i = None" and "response p = Ret r" and "j \<noteq> i \<or> r' \<noteq> r"
  shows "\<exists>s1 s2 b. add p s = Ret (Ok (), s1) \<and> erase r' j s1 = Ret (b, s2) \<and> inv s2 \<and> lookup s2 i = Some p"
proof -
  obtain s1 where s1: "add p s = Ret (Ok (), s1)" "inv s1" "lookup s1 = (lookup s)(i \<mapsto> p)"
    using add_new [OF assms(1-3)] by blast
  show ?thesis
  proof (cases "\<exists>q. lookup s1 j = Some q \<and> response q = Ret r'")
    case True
    then have "j \<noteq> i" using assms(4,5) s1(3) by auto
    then show ?thesis using True erase_waiting [OF s1(2), of j] s1 by fastforce
  next
    case False
    then show ?thesis using erase_other [OF s1(2) False] s1 by auto
  qed
qed

end

interpretation store: packet_store store_inv storable sp_response_packet store_lookup get_stored store_add store_erase
proof (unfold_locales, goal_cases)
  case (1 s i p)
  then show ?case using store_inv_add [OF 1] by (simp add: store_add_eq get_stored_def)
next
  case (2 s i p)
  then show ?case by (simp add: store_add_eq)
next
  case (3 s i p r)
  then show ?case using store_erase_ok [OF 3(1), of r i] by auto
next
  case (4 s i r)
  then show ?case using store_erase_ok [OF 4(1), of r i] by auto
qed

section \<open>Properties\<close>

text \<open>
  C22: A packet kept for retransmission stays in the store until the response it waits for.  When
  a packet is added under an identifier that is free in the store, the erasure by exactly
  that response and identifier takes it out and leaves the other packets; every other
  erasure keeps it; and a second packet with the identifier is refused.
\<close>

theorem store_keeps_until_response:
  assumes "store_inv s" and "storable i p" and "store_lookup s i = None" and "sp_response_packet p = Ret r"
  shows "\<exists>s1. store_add p s = Ret (Ok (), s1) \<and> get_stored s1 = get_stored s @ [p]
    \<and> (\<forall>q. sp_packet_id q = Ret i \<longrightarrow> store_add q s1 = Ret (Err PacketIdentifierConflict, s1))
    \<and> (\<exists>s2. store_erase r i s1 = Ret (True, s2) \<and> store_inv s2 \<and> store_lookup s2 = store_lookup s)
    \<and> (\<forall>r' j. j \<noteq> i \<or> r' \<noteq> r \<longrightarrow> (\<exists>s2 b. store_erase r' j s1 = Ret (b, s2) \<and> store_inv s2 \<and> store_lookup s2 i = Some p))"
proof -
  obtain s1 where s1: "store_add p s = Ret (Ok (), s1)" "store_lookup s1 = (store_lookup s)(i \<mapsto> p)"
    "get_stored s1 = get_stored s @ [p]"
    using store.add_new [OF assms(1-3)] by auto
  have "store_add q s1 = Ret (Err PacketIdentifierConflict, s1)" if "sp_packet_id q = Ret i" for q
    using that s1(2) by (simp add: store_add_def store_lookup_def)
  moreover have "\<exists>s2. store_erase r i s1 = Ret (True, s2) \<and> store_inv s2 \<and> store_lookup s2 = store_lookup s"
    using store.add_then_erase [OF assms] s1(1) by auto
  moreover have "\<exists>s2 b. store_erase r' j s1 = Ret (b, s2) \<and> store_inv s2 \<and> store_lookup s2 i = Some p"
    if "j \<noteq> i \<or> r' \<noteq> r" for r' j
    using store.add_survives_other [OF assms that] s1(1) by auto
  ultimately show ?thesis using s1 by blast
qed

definition sample_pubrel :: "16 word v3_ack" where
  "sample_pubrel = \<lparr>v3a_fixed_header = 0x62, v3a_remaining_length = \<lparr>encoded = [2]\<rparr>, v3a_packet_id_buf = 7,
     v3a_reason_code_buf = None\<rparr>"

theorem store_keeps_until_response_witness:
  "\<exists>s1 s2. store_add (S_V3_Pubrel sample_pubrel) store_new = Ret (Ok (), s1) \<and> get_stored s1 = [S_V3_Pubrel sample_pubrel]
    \<and> store_erase R_V3_Pubcomp 7 s1 = Ret (True, s2) \<and> store_lookup s2 = store_lookup store_new"
proof -
  have "storable 7 (S_V3_Pubrel sample_pubrel)" "store_lookup store_new (7 :: 16 word) = None"
    "sp_response_packet (S_V3_Pubrel sample_pubrel) = Ret R_V3_Pubcomp"
    by (simp_all add: storable_def sample_pubrel_def store_lookup_def store_new_def)
  from store_keeps_until_response [OF store_inv_new this]
  show ?thesis by (auto simp: get_stored_def store_new_def)
qed

end
