(* ===== verification/Topic_Alias.thy ===== *)
theory Topic_Alias
  imports Value_Allocator
begin

text \<open>
  \<^verbatim>\<open>src/mqtt/packet/topic_alias_recv.rs\<close> and \<^verbatim>\<open>topic_alias_send.rs\<close>: the two ends of the topic
  alias mechanism of MQTT v5.0.  The sender keeps the aliases in least-recently-used order
  (an insertion-ordered map), the aliases of every topic, and the vacant aliases in a
  \<open>ValueAllocator\<close>; the receiver keeps a plain map.  The invariant of the sender says that its
  three tables describe the same mapping.  The locale \<open>alias_table\<close> is the contract both
  ends meet, from which follows that two tables that saw the same registrations agree.
\<close>

section \<open>The receiving side\<close>

record topic_alias_recv =
  tar_max_alias :: u16
  tar_aliases :: "u16 \<rightharpoonup> str"

definition tar_new :: "u16 \<Rightarrow> topic_alias_recv" where
  "tar_new max_alias = \<lparr>tar_max_alias = max_alias, tar_aliases = Map.empty\<rparr>"

definition tar_insert_or_update :: "topic_alias_recv \<Rightarrow> str \<Rightarrow> u16 \<Rightarrow> topic_alias_recv rust" where
  "tar_insert_or_update ta topic alias =
     rbind (rassert (topic \<noteq> [] \<and> alias \<ge> 1 \<and> alias \<le> tar_max_alias ta)) (\<lambda>_.
       Ret (ta\<lparr>tar_aliases := (tar_aliases ta)(alias \<mapsto> topic)\<rparr>))"

definition tar_get :: "topic_alias_recv \<Rightarrow> u16 \<Rightarrow> str option" where
  "tar_get ta alias = (if alias \<ge> 1 \<and> alias \<le> tar_max_alias ta then tar_aliases ta alias else None)"

definition tar_peek :: "topic_alias_recv \<Rightarrow> u16 \<Rightarrow> str option" where
  "tar_peek = tar_get"

definition tar_clear :: "topic_alias_recv \<Rightarrow> topic_alias_recv" where
  "tar_clear ta = ta\<lparr>tar_aliases := Map.empty\<rparr>"

definition tar_max :: "topic_alias_recv \<Rightarrow> u16" where
  "tar_max ta = tar_max_alias ta"

section \<open>The sending side\<close>

record topic_alias_send =
  tas_max_alias :: u16
  alias_to_topic :: "(u16 \<times> str) list"
  topic_to_aliases :: "str \<rightharpoonup> u16 list"
  tas_allocator :: "u16 value_allocator"

definition tas_new :: "u16 \<Rightarrow> topic_alias_send rust" where
  "tas_new max_alias =
     rbind (va_new 1 max_alias) (\<lambda>va.
       Ret \<lparr>tas_max_alias = max_alias, alias_to_topic = [], topic_to_aliases = Map.empty, tas_allocator = va\<rparr>)"

text \<open>The removal of an alias that is in use already from its old topic.\<close>

definition tas_unlink :: "topic_alias_send \<Rightarrow> u16 \<Rightarrow> topic_alias_send" where
  "tas_unlink ta alias =
     (case map_of (alias_to_topic ta) alias of
        None \<Rightarrow> ta
      | Some old_topic \<Rightarrow>
          let ta1 = ta\<lparr>alias_to_topic := AList.delete alias (alias_to_topic ta)\<rparr> in
          (case topic_to_aliases ta1 old_topic of
             None \<Rightarrow> ta1
           | Some aliases \<Rightarrow>
               let aliases' = filter (\<lambda>a. a \<noteq> alias) aliases in
               if aliases' = [] then ta1\<lparr>topic_to_aliases := (topic_to_aliases ta1)(old_topic := None)\<rparr>
               else ta1\<lparr>topic_to_aliases := (topic_to_aliases ta1)(old_topic \<mapsto> aliases')\<rparr>))"

definition tas_link :: "topic_alias_send \<Rightarrow> str \<Rightarrow> u16 \<Rightarrow> topic_alias_send" where
  "tas_link ta topic alias =
     ta\<lparr>alias_to_topic := AList.update alias topic (alias_to_topic ta),
        topic_to_aliases := (topic_to_aliases ta)(topic \<mapsto>
          (case topic_to_aliases ta topic of None \<Rightarrow> [] | Some l \<Rightarrow> l) @ [alias])\<rparr>"

definition tas_insert_or_update :: "topic_alias_send \<Rightarrow> str \<Rightarrow> u16 \<Rightarrow> topic_alias_send rust" where
  "tas_insert_or_update ta topic alias =
     rbind (rassert (topic \<noteq> [] \<and> alias \<ge> 1 \<and> alias \<le> tas_max_alias ta)) (\<lambda>_.
     rbind (use_value (tas_allocator ta) alias) (\<lambda>(is_new_alias, va).
       let ta1 = ta\<lparr>tas_allocator := va\<rparr>;
           ta2 = (if \<not> is_new_alias then tas_unlink ta1 alias else ta1)
       in Ret (tas_link ta2 topic alias)))"

definition tas_get :: "topic_alias_send \<Rightarrow> u16 \<Rightarrow> str option \<times> topic_alias_send" where
  "tas_get ta alias =
     (if alias \<ge> 1 \<and> alias \<le> tas_max_alias ta then
        (case map_of (alias_to_topic ta) alias of
           Some topic \<Rightarrow>
             let a2t = AList.update alias topic (AList.delete alias (alias_to_topic ta))
             in (map_of a2t alias, ta\<lparr>alias_to_topic := a2t\<rparr>)
         | None \<Rightarrow> (None, ta))
      else (None, ta))"

definition tas_peek :: "topic_alias_send \<Rightarrow> u16 \<Rightarrow> str option" where
  "tas_peek ta alias =
     (if alias \<ge> 1 \<and> alias \<le> tas_max_alias ta then map_of (alias_to_topic ta) alias else None)"

definition find_by_topic :: "topic_alias_send \<Rightarrow> str \<Rightarrow> u16 option" where
  "find_by_topic ta topic =
     (case topic_to_aliases ta topic of
        None \<Rightarrow> None | Some aliases \<Rightarrow> (case aliases of [] \<Rightarrow> None | a # _ \<Rightarrow> Some a))"

definition tas_clear :: "topic_alias_send \<Rightarrow> topic_alias_send" where
  "tas_clear ta = ta\<lparr>alias_to_topic := [], topic_to_aliases := Map.empty,
                     tas_allocator := va_clear (tas_allocator ta)\<rparr>"

definition get_lru_alias :: "topic_alias_send \<Rightarrow> u16 rust" where
  "get_lru_alias ta =
     rbind (rassert (tas_max_alias ta > 0)) (\<lambda>_.
       Ret (case first_vacant (tas_allocator ta) of
              Some alias \<Rightarrow> alias
            | None \<Rightarrow> (case alias_to_topic ta of [] \<Rightarrow> 1 | (a, _) # _ \<Rightarrow> a)))"

definition tas_max :: "topic_alias_send \<Rightarrow> u16" where
  "tas_max ta = tas_max_alias ta"

section \<open>The invariant of the sender\<close>

text \<open>
  The keys of the alias map are distinct and are exactly the aliases taken from the pool; the
  reverse map lists, for every topic, exactly the aliases that lead to it.
\<close>

definition aliases_of :: "topic_alias_send \<Rightarrow> str \<Rightarrow> u16 list" where
  "aliases_of ta topic = (case topic_to_aliases ta topic of None \<Rightarrow> [] | Some l \<Rightarrow> l)"

definition tas_pool_inv :: "topic_alias_send \<Rightarrow> bool" where
  "tas_pool_inv ta \<longleftrightarrow> va_inv (tas_allocator ta) \<and> lowest (tas_allocator ta) = 1
     \<and> highest (tas_allocator ta) = tas_max_alias ta \<and> distinct (map fst (alias_to_topic ta))
     \<and> fst ` set (alias_to_topic ta) = {1 .. tas_max_alias ta} - vacant (tas_allocator ta)"

definition tas_rev_inv :: "topic_alias_send \<Rightarrow> bool" where
  "tas_rev_inv ta \<longleftrightarrow> (\<forall>t a. a \<in> set (aliases_of ta t) \<longleftrightarrow> map_of (alias_to_topic ta) a = Some t)
     \<and> (\<forall>t. distinct (aliases_of ta t)) \<and> (\<forall>t. topic_to_aliases ta t \<noteq> Some [])
     \<and> (\<forall>a t. map_of (alias_to_topic ta) a = Some t \<longrightarrow> t \<noteq> [])"

definition tas_inv :: "topic_alias_send \<Rightarrow> bool" where
  "tas_inv ta \<longleftrightarrow> tas_pool_inv ta \<and> tas_rev_inv ta"

lemma aliases_of_update [simp]:
  "aliases_of (ta\<lparr>topic_to_aliases := m\<rparr>) t = (case m t of None \<Rightarrow> [] | Some l \<Rightarrow> l)"
  "aliases_of (ta\<lparr>alias_to_topic := al\<rparr>) t = aliases_of ta t"
  "aliases_of (ta\<lparr>tas_allocator := va\<rparr>) t = aliases_of ta t"
  by (simp_all add: aliases_of_def)

lemma tas_new_ok:
  "1 \<le> mx \<Longrightarrow> \<exists>ta. tas_new mx = Ret ta \<and> tas_inv ta \<and> tas_max_alias ta = mx \<and> alias_to_topic ta = []"
  using va_new_ok [of 1 mx]
  by (auto simp: tas_new_def tas_inv_def tas_pool_inv_def tas_rev_inv_def aliases_of_def)

lemma tas_new_zero_panics: "tas_new 0 = Panic Assert_Failed"
  by (simp add: tas_new_def va_new_def)

text \<open>Removing an alias from both maps.\<close>

lemma tas_unlink_rev:
  assumes "tas_rev_inv ta"
  shows "tas_rev_inv (tas_unlink ta alias)"
    and "map_of (alias_to_topic (tas_unlink ta alias)) = (map_of (alias_to_topic ta))(alias := None)"
    and "alias_to_topic (tas_unlink ta alias) = AList.delete alias (alias_to_topic ta)"
proof -
  have "map_of (alias_to_topic ta) alias = None \<Longrightarrow> AList.delete alias (alias_to_topic ta) = alias_to_topic ta"
    by (simp add: delete_id map_of_eq_None_iff)
  then show a2t: "alias_to_topic (tas_unlink ta alias) = AList.delete alias (alias_to_topic ta)"
    by (auto simp: tas_unlink_def Let_def split: option.splits)
  then show m: "map_of (alias_to_topic (tas_unlink ta alias)) = (map_of (alias_to_topic ta))(alias := None)"
    by (simp add: delete_conv')
  have l: "aliases_of (tas_unlink ta alias) t = filter (\<lambda>a. a \<noteq> alias) (aliases_of ta t)" for t
  proof (cases "map_of (alias_to_topic ta) alias = Some t")
    case False
    then have "alias \<notin> set (aliases_of ta t)" using assms by (auto simp: tas_rev_inv_def)
    then have "filter (\<lambda>a. a \<noteq> alias) (aliases_of ta t) = aliases_of ta t" by (auto simp: filter_id_conv)
    then show ?thesis
      using False by (auto simp: tas_unlink_def Let_def aliases_of_def split: option.splits)
  next
    case True
    then show ?thesis
      by (auto simp: tas_unlink_def Let_def aliases_of_def split: option.splits)
  qed
  have "topic_to_aliases (tas_unlink ta alias) t \<noteq> Some []" for t
    using assms by (auto simp: tas_rev_inv_def tas_unlink_def Let_def split: option.splits if_splits)
  then show "tas_rev_inv (tas_unlink ta alias)"
    using assms unfolding tas_rev_inv_def l m by (auto split: if_splits)
qed

lemma tas_link_rev:
  assumes "tas_rev_inv ta" and "map_of (alias_to_topic ta) alias = None" and "topic \<noteq> []"
  shows "tas_rev_inv (tas_link ta topic alias)"
    and "map_of (alias_to_topic (tas_link ta topic alias)) = (map_of (alias_to_topic ta))(alias \<mapsto> topic)"
proof -
  show m: "map_of (alias_to_topic (tas_link ta topic alias)) = (map_of (alias_to_topic ta))(alias \<mapsto> topic)"
    by (simp add: tas_link_def update_conv')
  have l: "aliases_of (tas_link ta topic alias) t = aliases_of ta t @ (if t = topic then [alias] else [])" for t
    by (simp add: tas_link_def aliases_of_def)
  have "alias \<notin> set (aliases_of ta t)" for t
    using assms(1,2) by (simp add: tas_rev_inv_def)
  moreover have "topic_to_aliases (tas_link ta topic alias) t \<noteq> Some []" for t
    using assms(1) by (simp add: tas_link_def tas_rev_inv_def)
  ultimately show "tas_rev_inv (tas_link ta topic alias)"
    using assms unfolding tas_rev_inv_def l m by (auto split: if_splits)
qed

lemma tas_frames [simp]:
  "tas_max_alias (tas_unlink ta a) = tas_max_alias ta" "tas_allocator (tas_unlink ta a) = tas_allocator ta"
  "tas_max_alias (tas_link ta t a) = tas_max_alias ta" "tas_allocator (tas_link ta t a) = tas_allocator ta"
  by (auto simp: tas_unlink_def tas_link_def Let_def split: option.splits)

lemma tas_insert_ok:
  assumes inv: "tas_inv ta" and t: "topic \<noteq> []" and a: "1 \<le> alias" "alias \<le> tas_max_alias ta"
  shows "\<exists>ta'. tas_insert_or_update ta topic alias = Ret ta' \<and> tas_inv ta'
    \<and> tas_max_alias ta' = tas_max_alias ta
    \<and> alias_to_topic ta' = AList.delete alias (alias_to_topic ta) @ [(alias, topic)]"
proof -
  have pool: "va_inv (tas_allocator ta)" "lowest (tas_allocator ta) = 1"
    "highest (tas_allocator ta) = tas_max_alias ta" "distinct (map fst (alias_to_topic ta))"
    "fst ` set (alias_to_topic ta) = {1 .. tas_max_alias ta} - vacant (tas_allocator ta)"
    and rev: "tas_rev_inv ta"
    using inv by (simp_all add: tas_inv_def tas_pool_inv_def)
  obtain va where u: "use_value (tas_allocator ta) alias = Ret (alias \<in> vacant (tas_allocator ta), va)"
    and va: "va_inv va" "vacant va = vacant (tas_allocator ta) - {alias}"
      "lowest va = 1" "highest va = tas_max_alias ta"
    using use_value_ok [OF pool(1), of "alias"] pool(2,3) by auto
  define ta2 where "ta2 = tas_unlink (ta\<lparr>tas_allocator := va\<rparr>) alias"
  have rev1: "tas_rev_inv (ta\<lparr>tas_allocator := va\<rparr>)" using rev by (simp add: tas_rev_inv_def)
  note un = tas_unlink_rev [OF rev1, of "alias", folded ta2_def]
  have new: "ta\<lparr>tas_allocator := va\<rparr> = ta2" if "alias \<in> vacant (tas_allocator ta)"
  proof -
    have "alias \<notin> fst ` set (alias_to_topic ta)" using pool(5) that by simp
    then have "map_of (alias_to_topic ta) alias = None" by (simp add: map_of_eq_None_iff)
    then show ?thesis by (simp add: ta2_def tas_unlink_def)
  qed
  let ?ta' = "tas_link ta2 topic alias"
  have res: "tas_insert_or_update ta topic alias = Ret ?ta'"
    using t a u new by (auto simp: tas_insert_or_update_def Let_def ta2_def)
  have none: "map_of (alias_to_topic ta2) alias = None" using un(2) by simp
  have del: "alias_to_topic ta2 = AList.delete alias (alias_to_topic ta)" using un(3) by simp
  have a2t: "alias_to_topic ?ta' = AList.delete alias (alias_to_topic ta) @ [(alias, topic)]"
    by (simp add: tas_link_def del alist_update_new alist_delete_dom)
  have fr: "tas_max_alias ta2 = tas_max_alias ta" "tas_allocator ta2 = va"
    by (simp_all add: ta2_def)
  have "distinct (map fst (alias_to_topic ?ta'))"
    unfolding a2t by (rule alist_to_end(1) [OF pool(4)])
  moreover have "fst ` set (alias_to_topic ?ta') = {1 .. tas_max_alias ta} - vacant va"
    unfolding a2t using alist_to_end(2) [OF pool(4)] pool(5) va(2) a by auto
  ultimately have "tas_pool_inv ?ta'"
    using va by (simp add: tas_pool_inv_def fr)
  then show ?thesis
    using res a2t tas_link_rev(1) [OF un(1) none t] by (auto simp: tas_inv_def ta2_def)
qed

lemma tas_clear_ok: "tas_inv ta \<Longrightarrow> tas_inv (tas_clear ta)"
  using va_clear_ok [of "tas_allocator ta"]
  by (simp add: tas_inv_def tas_pool_inv_def tas_rev_inv_def tas_clear_def aliases_of_def)

text \<open>A lookup with \<open>get\<close> moves the alias to the end of the order and changes nothing else.\<close>

lemma tas_get_ok:
  assumes "tas_inv ta" and "tas_get ta alias = (r, ta')"
  shows "tas_inv ta'" and "tas_peek ta' = tas_peek ta" and "r = tas_peek ta alias"
    and "r \<noteq> None \<Longrightarrow> alias_to_topic ta' = AList.delete alias (alias_to_topic ta) @ [(alias, the r)]"
proof -
  have upd: "AList.update alias t (AList.delete alias (alias_to_topic ta))
      = AList.delete alias (alias_to_topic ta) @ [(alias, t)]" for t
    by (simp add: alist_update_new alist_delete_dom)
  show r: "r = tas_peek ta alias"
    using assms(2) by (auto simp: tas_get_def tas_peek_def Let_def update_conv' split: option.splits if_splits)
  show "r \<noteq> None \<Longrightarrow> alias_to_topic ta' = AList.delete alias (alias_to_topic ta) @ [(alias, the r)]"
    using assms(2) by (auto simp: tas_get_def Let_def upd delete_conv' split: option.splits if_splits)
  have map: "map_of (alias_to_topic ta') = map_of (alias_to_topic ta)"
    using assms(2) by (auto simp: tas_get_def Let_def update_conv' delete_conv' split: option.splits if_splits)
  have keys: "distinct (map fst (alias_to_topic ta')) \<and> fst ` set (alias_to_topic ta') = fst ` set (alias_to_topic ta)"
  proof -
    have d: "distinct (map fst (alias_to_topic ta))"
      using assms(1) by (simp add: tas_inv_def tas_pool_inv_def)
    have "\<exists>t. map_of (alias_to_topic ta) alias = Some t
        \<and> alias_to_topic ta' = AList.delete alias (alias_to_topic ta) @ [(alias, t)]
      \<or> alias_to_topic ta' = alias_to_topic ta"
      using assms(2) by (auto simp: tas_get_def Let_def upd split: option.splits if_splits)
    then show ?thesis
      using d alist_to_end [OF d, of "alias"] by (metis insert_absorb map_of_eq_None_iff option.distinct(1))
  qed
  have same: "tas_max_alias ta' = tas_max_alias ta" "tas_allocator ta' = tas_allocator ta"
    "topic_to_aliases ta' = topic_to_aliases ta"
    using assms(2) by (auto simp: tas_get_def Let_def split: option.splits if_splits)
  show "tas_peek ta' = tas_peek ta" by (simp add: tas_peek_def fun_eq_iff map same)
  show "tas_inv ta'"
    using assms(1) keys
    by (simp add: tas_inv_def tas_pool_inv_def tas_rev_inv_def aliases_of_def same map)
qed

section \<open>The contract of an alias table\<close>

primrec table_inserts :: "('t \<Rightarrow> str \<Rightarrow> u16 \<Rightarrow> 't rust) \<Rightarrow> (u16 \<times> str) list \<Rightarrow> 't \<Rightarrow> 't rust" where
  "table_inserts ins [] s = Ret s"
| "table_inserts ins (p # ps) s = rbind (ins s (snd p) (fst p)) (table_inserts ins ps)"

locale alias_table =
  fixes inv :: "'t \<Rightarrow> bool"
    and limit :: "'t \<Rightarrow> u16"
    and insert_alias :: "'t \<Rightarrow> str \<Rightarrow> u16 \<Rightarrow> 't rust"
    and look :: "'t \<Rightarrow> u16 \<Rightarrow> str option"
  assumes insert_spec: "inv s \<Longrightarrow> t \<noteq> [] \<Longrightarrow> 1 \<le> a \<Longrightarrow> a \<le> limit s \<Longrightarrow>
      \<exists>s'. insert_alias s t a = Ret s' \<and> inv s' \<and> limit s' = limit s \<and> look s' = (look s)(a \<mapsto> t)"
begin

lemma inserts_look:
  assumes "inv s" and "\<forall>(a, t)\<in>set ps. t \<noteq> [] \<and> 1 \<le> a \<and> a \<le> limit s"
  shows "\<exists>s'. table_inserts insert_alias ps s = Ret s' \<and> inv s' \<and> limit s' = limit s
    \<and> look s' = look s ++ map_of (rev ps)"
  using assms
proof (induction ps arbitrary: s)
  case (Cons p ps)
  obtain a t where p: "p = (a, t)" by (cases p)
  then obtain s1 where s1: "insert_alias s t a = Ret s1" "inv s1" "limit s1 = limit s"
    "look s1 = (look s)(a \<mapsto> t)"
    using insert_spec [OF Cons.prems(1), of t a] Cons.prems(2) by auto
  have "\<forall>(a, t)\<in>set ps. t \<noteq> [] \<and> 1 \<le> a \<and> a \<le> limit s1" using Cons.prems(2) s1(3) by auto
  from Cons.IH [OF s1(2) this] obtain s' where
    "table_inserts insert_alias ps s1 = Ret s'" "inv s'" "limit s' = limit s1"
    "look s' = look s1 ++ map_of (rev ps)" by blast
  moreover have "look s ++ map_of (rev (p # ps)) = look s1 ++ map_of (rev ps)"
    by (simp add: p s1(4) fun_eq_iff map_add_def split: option.splits)
  ultimately show ?case using s1 p by simp
qed simp

end

interpretation recv_table: alias_table "\<lambda>_. True" tar_max_alias tar_insert_or_update tar_get
  by unfold_locales (auto simp: tar_insert_or_update_def tar_get_def fun_eq_iff)

interpretation send_table: alias_table tas_inv tas_max_alias tas_insert_or_update tas_peek
proof (unfold_locales, goal_cases)
  case (1 s t a)
  obtain s' where s': "tas_insert_or_update s t a = Ret s'" "tas_inv s'" "tas_max_alias s' = tas_max_alias s"
    "alias_to_topic s' = AList.delete a (alias_to_topic s) @ [(a, t)]"
    using tas_insert_ok [OF 1] by blast
  then have "map_of (alias_to_topic s') = (map_of (alias_to_topic s))(a \<mapsto> t)"
    by (auto simp: delete_conv' fun_eq_iff map_add_def split: option.splits)
  with s' 1(3,4) have "tas_peek s' = (tas_peek s)(a \<mapsto> t)"
    by (auto simp: tas_peek_def fun_eq_iff)
  with s' show ?case by blast
qed

section \<open>Properties\<close>

lemma find_by_topic_iff:
  assumes "tas_inv ta"
  shows "find_by_topic ta topic = Some a \<Longrightarrow> map_of (alias_to_topic ta) a = Some topic"
    and "find_by_topic ta topic = None \<Longrightarrow> topic \<notin> ran (map_of (alias_to_topic ta))"
proof -
  have rev: "a \<in> set (aliases_of ta topic) \<longleftrightarrow> map_of (alias_to_topic ta) a = Some topic" for a
    using assms by (simp add: tas_inv_def tas_rev_inv_def)
  show "find_by_topic ta topic = Some a \<Longrightarrow> map_of (alias_to_topic ta) a = Some topic"
    using rev [of a] by (auto simp: find_by_topic_def aliases_of_def split: option.splits list.splits)
  show "find_by_topic ta topic = None \<Longrightarrow> topic \<notin> ran (map_of (alias_to_topic ta))"
    using rev by (auto simp: find_by_topic_def aliases_of_def ran_def split: option.splits list.splits)
qed

text \<open>
  Registering a topic under an alias in range never panics and keeps the three tables of
  the sender consistent.  Afterwards the alias leads to the topic, every other alias leads
  where it did, the alias is the most recently used one, and whatever alias \<open>find_by_topic\<close>
  returns for any topic leads back to that topic.
\<close>

theorem tas_insert_consistent:
  assumes "tas_inv ta" and "topic \<noteq> []" and "1 \<le> a" and "a \<le> tas_max_alias ta"
  shows "\<exists>ta'. tas_insert_or_update ta topic a = Ret ta' \<and> tas_inv ta'
    \<and> tas_peek ta' = (tas_peek ta)(a \<mapsto> topic)
    \<and> last (alias_to_topic ta') = (a, topic)
    \<and> (\<exists>b. find_by_topic ta' topic = Some b)
    \<and> (\<forall>t b. find_by_topic ta' t = Some b \<longrightarrow> tas_peek ta' b = Some t)"
proof -
  obtain ta' where r: "tas_insert_or_update ta topic a = Ret ta'" and inv: "tas_inv ta'"
    and al: "alias_to_topic ta' = AList.delete a (alias_to_topic ta) @ [(a, topic)]"
    using tas_insert_ok [OF assms] by blast
  have look: "tas_peek ta' = (tas_peek ta)(a \<mapsto> topic)"
    using send_table.insert_spec [OF assms] r by auto
  have "map_of (alias_to_topic ta') a = Some topic"
    using look assms by (auto simp: tas_peek_def fun_eq_iff split: if_splits)
  then have "\<exists>b. find_by_topic ta' topic = Some b"
    using find_by_topic_iff(2) [OF inv, of topic] by (cases "find_by_topic ta' topic") (auto intro: ranI)
  moreover have "tas_peek ta' b = Some t" if "find_by_topic ta' t = Some b" for t b
  proof -
    have m: "map_of (alias_to_topic ta') b = Some t" by (rule find_by_topic_iff(1) [OF inv that])
    then have "b \<in> fst ` set (alias_to_topic ta')" by (force dest: map_of_SomeD)
    then show ?thesis using m inv by (auto simp: tas_peek_def tas_inv_def tas_pool_inv_def)
  qed
  ultimately show ?thesis using r inv look al by auto
qed

theorem tas_insert_consistent_witness:
  "\<exists>ta ta'. tas_new 2 = Ret ta \<and> tas_insert_or_update ta [0x61] 1 = Ret ta'
     \<and> tas_peek ta' = (tas_peek ta)(1 \<mapsto> [0x61]) \<and> (\<exists>b. find_by_topic ta' [0x61] = Some b)"
proof -
  obtain ta where ta: "tas_new 2 = Ret ta" "tas_inv ta" "tas_max_alias ta = 2"
    using tas_new_ok [of 2] by auto
  then show ?thesis using tas_insert_consistent [of ta "[0x61]" 1] by auto
qed

text \<open>
  C31: the two ends agree.  Starting from empty tables of the same size, any sequence of valid
  registrations is accepted by the sender's and by the receiver's table without panic, and
  afterwards every alias is resolved to the same topic by both.
\<close>

theorem topic_alias_ends_agree:
  assumes "1 \<le> mx" and "\<forall>(a, t)\<in>set ps. t \<noteq> [] \<and> 1 \<le> a \<and> a \<le> mx"
  shows "\<exists>s0 s r. tas_new mx = Ret s0 \<and> table_inserts tas_insert_or_update ps s0 = Ret s
    \<and> table_inserts tar_insert_or_update ps (tar_new mx) = Ret r \<and> tas_peek s = tar_get r
    \<and> tas_peek s = map_of (rev ps)"
proof -
  obtain s0 where s0: "tas_new mx = Ret s0" "tas_inv s0" "tas_max_alias s0 = mx" "alias_to_topic s0 = []"
    using tas_new_ok [OF assms(1)] by blast
  have "\<exists>s. table_inserts tas_insert_or_update ps s0 = Ret s \<and> tas_peek s = tas_peek s0 ++ map_of (rev ps)"
    using send_table.inserts_look [OF s0(2), of ps] assms(2) s0(3) by auto
  moreover have "\<exists>r. table_inserts tar_insert_or_update ps (tar_new mx) = Ret r
      \<and> tar_get r = tar_get (tar_new mx) ++ map_of (rev ps)"
    using recv_table.inserts_look [of ps "tar_new mx"] assms(2) by (auto simp: tar_new_def)
  moreover have "tas_peek s0 = Map.empty" "tar_get (tar_new mx) = Map.empty"
    using s0 by (auto simp: tas_peek_def tar_get_def tar_new_def fun_eq_iff)
  ultimately show ?thesis using s0 by auto
qed

theorem topic_alias_ends_agree_witness:
  "\<exists>s0 s r. tas_new 2 = Ret s0 \<and> table_inserts tas_insert_or_update [(1, [0x61]), (2, [0x62]), (1, [0x62])] s0 = Ret s
    \<and> table_inserts tar_insert_or_update [(1, [0x61]), (2, [0x62]), (1, [0x62])] (tar_new 2) = Ret r
    \<and> tas_peek s = tar_get r \<and> tas_peek s 1 = Some [0x62]"
proof -
  let ?ps = "[(1, [0x61]), (2, [0x62]), (1, [0x62])] :: (u16 \<times> str) list"
  have "\<forall>(a, t)\<in>set ?ps. t \<noteq> [] \<and> 1 \<le> a \<and> a \<le> 2" by simp
  from topic_alias_ends_agree [OF _ this] obtain s0 s r where
    "tas_new 2 = Ret s0" "table_inserts tas_insert_or_update ?ps s0 = Ret s"
    "table_inserts tar_insert_or_update ?ps (tar_new 2) = Ret r" "tas_peek s = tar_get r"
    "tas_peek s = map_of (rev ?ps)"
    by auto
  moreover have "map_of (rev ?ps) 1 = Some [0x62]" by simp
  ultimately show ?thesis by metis
qed

text \<open>
  The alias chosen for automatic mapping is always usable: it lies in range; it is not in
  use as long as any alias is vacant (the smallest such alias), and the least recently used
  one otherwise.
\<close>

theorem get_lru_alias_spec:
  assumes "tas_inv ta"
  shows "\<exists>a. get_lru_alias ta = Ret a \<and> 1 \<le> a \<and> a \<le> tas_max_alias ta
    \<and> (if (\<exists>b. 1 \<le> b \<and> b \<le> tas_max_alias ta \<and> tas_peek ta b = None)
       then tas_peek ta a = None \<and> (\<forall>b. 1 \<le> b \<and> b < a \<longrightarrow> tas_peek ta b \<noteq> None)
       else alias_to_topic ta \<noteq> [] \<and> a = fst (hd (alias_to_topic ta)))"
proof -
  have pool: "va_inv (tas_allocator ta)" "lowest (tas_allocator ta) = 1" "highest (tas_allocator ta) = tas_max_alias ta"
    and keys: "fst ` set (alias_to_topic ta) = {1 .. tas_max_alias ta} - vacant (tas_allocator ta)"
    using assms by (simp_all add: tas_inv_def tas_pool_inv_def)
  have mx: "1 \<le> tas_max_alias ta" and vac: "vacant (tas_allocator ta) \<subseteq> {1 .. tas_max_alias ta}"
    using pool by (auto simp: va_inv_def)
  have peek: "tas_peek ta b = None \<longleftrightarrow> b \<in> vacant (tas_allocator ta)" if "1 \<le> b" "b \<le> tas_max_alias ta" for b
    using that keys by (auto simp: tas_peek_def map_of_eq_None_iff)
  have pos: "0 < tas_max_alias ta" using mx by (simp add: word_le_nat_alt word_less_nat_alt)
  show ?thesis
  proof (cases "first_vacant (tas_allocator ta)")
    case None
    then have "vacant (tas_allocator ta) = {}" using first_vacant_ok [OF pool(1)] by simp
    moreover from this have "alias_to_topic ta \<noteq> []" using keys mx by auto
    moreover from this have "fst (hd (alias_to_topic ta)) \<in> {1 .. tas_max_alias ta}"
      using keys calculation(1) by (metis Diff_empty hd_in_set image_eqI)
    moreover have "\<not> (\<exists>b. 1 \<le> b \<and> b \<le> tas_max_alias ta \<and> tas_peek ta b = None)"
      using calculation(1) peek by auto
    ultimately show ?thesis
      using None pos by (cases "alias_to_topic ta") (auto simp: get_lru_alias_def)
  next
    case (Some a)
    then have a: "a \<in> vacant (tas_allocator ta)" "\<forall>w\<in>vacant (tas_allocator ta). a \<le> w"
      using first_vacant_ok [OF pool(1)] by auto
    then have "1 \<le> a" "a \<le> tas_max_alias ta" using vac by auto
    moreover have "tas_peek ta b \<noteq> None" if "1 \<le> b" "b < a" for b
      using that a peek [of b] \<open>a \<le> tas_max_alias ta\<close> by fastforce
    moreover have "tas_peek ta a = None" using a peek calculation by blast
    ultimately show ?thesis using Some pos by (auto simp: get_lru_alias_def)
  qed
qed

theorem get_lru_alias_spec_witness:
  "\<exists>ta a. tas_new 2 = Ret ta \<and> get_lru_alias ta = Ret a \<and> 1 \<le> a \<and> a \<le> tas_max_alias ta"
proof -
  obtain ta where "tas_new 2 = Ret ta" "tas_inv ta" using tas_new_ok [of 2] by auto
  then show ?thesis using get_lru_alias_spec [of ta] by blast
qed

end
