(* ===== verification/Connection_State.thy ===== *)
theory Connection_State
  imports Store Packet_Id Topic_Alias
begin

text \<open>
  \<^verbatim>\<open>src/mqtt/connection/core.rs\<close> and \<^verbatim>\<open>event.rs\<close>, first part: the events a connection returns,
  its state, and the operations that the handlers of packets share.  A method that returns a
  vector of events is a handler: it takes the state and gives the events and the new state,
  or panics.  Handlers are put together by \<open>steps\<close>, which runs them in order and appends
  their events.
\<close>

section \<open>Events and states\<close>

datatype timer_kind = PingreqSend | PingreqRecv | PingrespRecv

datatype 't event =
    NotifyPacketReceived "'t packet"
  | RequestSendPacket "'t packet" "'t option"
  | NotifyPacketIdReleased 't
  | RequestTimerReset timer_kind u64
  | RequestTimerCancel timer_kind
  | NotifyError mqtt_error
  | RequestClose

datatype connection_status = Disconnected | Connecting | Connected

text \<open>The role is a type parameter of \<open>GenericConnection\<close>; here it is a field that no operation changes.\<close>

record 't connection =
  cn_role :: role
  cn_protocol_version :: version
  cn_pid_man :: "'t packet_id_manager"
  cn_pid_suback :: "'t set"
  cn_pid_unsuback :: "'t set"
  cn_pid_puback :: "'t set"
  cn_pid_pubrec :: "'t set"
  cn_pid_pubcomp :: "'t set"
  cn_need_store :: bool
  cn_store :: "'t store"
  cn_offline_publish :: bool
  cn_auto_pub_response :: bool
  cn_auto_ping_response :: bool
  cn_auto_map_topic_alias_send :: bool
  cn_auto_replace_topic_alias_send :: bool
  cn_topic_alias_recv :: "topic_alias_recv option"
  cn_topic_alias_send :: "topic_alias_send option"
  cn_publish_send_max :: "u16 option"
  cn_publish_recv_max :: "u16 option"
  cn_publish_send_count :: u16
  cn_publish_recv :: "'t set"
  cn_maximum_packet_size_send :: u32
  cn_maximum_packet_size_recv :: u32
  cn_status :: connection_status
  cn_pingreq_user_send_interval_ms :: "u64 option"
  cn_pingreq_keep_alive_ms :: u64
  cn_pingreq_server_keep_alive_ms :: "u64 option"
  cn_pingreq_recv_timeout_ms :: u64
  cn_pingresp_recv_timeout_ms :: u64
  cn_qos2_publish_handled :: "'t set"
  cn_pingreq_send_set :: bool
  cn_pingreq_recv_set :: bool
  cn_pingresp_recv_set :: bool
  cn_packet_builder :: packet_builder
  cn_is_client :: bool

text \<open>\<open>1 + 4 + 128 * 128 * 128 * 128\<close>.\<close>

definition packet_size_no_limit :: u32 where
  "packet_size_no_limit = 268435461"

definition remaining_length_to_total_size :: "u32 \<Rightarrow> u32 rust" where
  "remaining_length_to_total_size remaining_length =
     (let remaining_length_bytes = (if remaining_length < 128 then 1 else if remaining_length < 16384 then 2
            else if remaining_length < 2097152 then 3 else 4) in
      uadd (1 + remaining_length_bytes) remaining_length)"

definition conn_new :: "role \<Rightarrow> version \<Rightarrow> 'p::len word connection rust" where
  "conn_new role version =
     rbind pim_new (\<lambda>m. Ret \<lparr>cn_role = role, cn_protocol_version = version, cn_pid_man = m,
       cn_pid_suback = {}, cn_pid_unsuback = {}, cn_pid_puback = {}, cn_pid_pubrec = {}, cn_pid_pubcomp = {},
       cn_need_store = False, cn_store = store_new, cn_offline_publish = False, cn_auto_pub_response = False,
       cn_auto_ping_response = False, cn_auto_map_topic_alias_send = False, cn_auto_replace_topic_alias_send = False,
       cn_topic_alias_recv = None, cn_topic_alias_send = None, cn_publish_send_max = None, cn_publish_recv_max = None,
       cn_publish_send_count = 0, cn_publish_recv = {}, cn_maximum_packet_size_send = packet_size_no_limit,
       cn_maximum_packet_size_recv = packet_size_no_limit, cn_status = Disconnected,
       cn_pingreq_user_send_interval_ms = None, cn_pingreq_keep_alive_ms = 0, cn_pingreq_server_keep_alive_ms = None,
       cn_pingreq_recv_timeout_ms = 0, cn_pingresp_recv_timeout_ms = 0, cn_qos2_publish_handled = {},
       cn_pingreq_send_set = False, cn_pingreq_recv_set = False, cn_pingresp_recv_set = False,
       cn_packet_builder = pb_new, cn_is_client = False\<rparr>)"

section \<open>Handlers\<close>

type_synonym 't handler = "'t connection \<Rightarrow> ('t event list \<times> 't connection) rust"

definition emit :: "'t event list \<Rightarrow> 't handler" where
  "emit es c = Ret (es, c)"

definition upd :: "('t connection \<Rightarrow> 't connection) \<Rightarrow> 't handler" where
  "upd f c = Ret ([], f c)"

definition seq :: "'t handler \<Rightarrow> 't handler \<Rightarrow> 't handler" where
  "seq h k c = rbind (h c) (\<lambda>(es, c'). rbind (k c') (\<lambda>(es', c''). Ret (es @ es', c'')))"

primrec steps :: "'t handler list \<Rightarrow> 't handler" where
  "steps [] = emit []"
| "steps (h # hs) = seq h (steps hs)"

definition branch :: "('t connection \<Rightarrow> bool) \<Rightarrow> 't handler \<Rightarrow> 't handler \<Rightarrow> 't handler" where
  "branch P h k c = (if P c then h c else k c)"

definition reads :: "('t connection \<Rightarrow> 'a) \<Rightarrow> ('a \<Rightarrow> 't handler) \<Rightarrow> 't handler" where
  "reads f h c = h (f c) c"

text \<open>A value that the code computes with a possible panic.\<close>

definition calls :: "'a rust \<Rightarrow> ('a \<Rightarrow> 't handler) \<Rightarrow> 't handler" where
  "calls m h c = rbind m (\<lambda>x. h x c)"

lemmas handler_defs = emit_def upd_def seq_def branch_def reads_def calls_def

section \<open>Identifiers, store and timers\<close>

definition acquire_packet_id :: "'p::len word connection \<Rightarrow> (('p word, mqtt_error) result \<times> 'p word connection) rust" where
  "acquire_packet_id c = rbind (acquire_unique_id (cn_pid_man c)) (\<lambda>(r, m). Ret (r, c\<lparr>cn_pid_man := m\<rparr>))"

definition register_packet_id :: "'p::len word \<Rightarrow> 'p word connection \<Rightarrow> ((unit, mqtt_error) result \<times> 'p word connection) rust" where
  "register_packet_id pid c = rbind (register_id (cn_pid_man c) pid) (\<lambda>(r, m). Ret (r, c\<lparr>cn_pid_man := m\<rparr>))"

text \<open>\<open>release_packet_id\<close> has the body that the handlers repeat: release and notify when in use.\<close>

definition release_packet_id :: "'p::len word \<Rightarrow> 'p word handler" where
  "release_packet_id pid c =
     (if is_used_id (cn_pid_man c) pid
      then rbind (release_id (cn_pid_man c) pid) (\<lambda>m. Ret ([NotifyPacketIdReleased pid], c\<lparr>cn_pid_man := m\<rparr>))
      else Ret ([], c))"

definition initialize :: "bool \<Rightarrow> 't connection \<Rightarrow> 't connection" where
  "initialize is_client c = c\<lparr>cn_publish_send_max := None, cn_publish_recv_max := None, cn_publish_send_count := 0,
     cn_topic_alias_send := None, cn_topic_alias_recv := None, cn_publish_recv := {}, cn_need_store := False,
     cn_pid_suback := {}, cn_pid_unsuback := {}, cn_is_client := is_client, cn_pingreq_keep_alive_ms := 0,
     cn_pingreq_server_keep_alive_ms := None\<rparr>"

definition clear_store_related :: "'p::len word connection \<Rightarrow> 'p word connection" where
  "clear_store_related c = c\<lparr>cn_pid_man := pim_clear (cn_pid_man c), cn_pid_puback := {}, cn_pid_pubrec := {},
     cn_pid_pubcomp := {}, cn_store := store_clear (cn_store c)\<rparr>"

text \<open>The closure of \<open>send_stored\<close> works on the identifier manager and the events.\<close>

definition send_stored_visit ::
  "u32 \<Rightarrow> 'p::len word store_packet \<Rightarrow> 'p word packet_id_manager \<times> 'p word event list
   \<Rightarrow> (bool \<times> 'p word packet_id_manager \<times> 'p word event list) rust" where
  "send_stored_visit limit packet s =
     (case s of (m, events) \<Rightarrow>
      if sp_size packet > unat limit then
        rbind (sp_packet_id packet) (\<lambda>pid.
        rbind (release_id m pid) (\<lambda>m.
          Ret (False, m, events @ [NotifyPacketIdReleased pid])))
      else Ret (True, m, events @ [RequestSendPacket (packet_of_stored packet) None]))"

definition send_stored :: "'p::len word handler" where
  "send_stored c =
     rbind (store_for_each (send_stored_visit (cn_maximum_packet_size_send c)) (cn_store c) (cn_pid_man c, []))
       (\<lambda>(st, m, events). Ret (events, c\<lparr>cn_store := st, cn_pid_man := m\<rparr>))"

text \<open>
  A timer is armed by setting its flag and requesting a reset, and stopped, when its flag is
  set, by clearing the flag and requesting a cancel.
\<close>

primrec timer_flag :: "timer_kind \<Rightarrow> 't connection \<Rightarrow> bool" where
  "timer_flag PingreqSend c = cn_pingreq_send_set c"
| "timer_flag PingreqRecv c = cn_pingreq_recv_set c"
| "timer_flag PingrespRecv c = cn_pingresp_recv_set c"

primrec set_timer :: "timer_kind \<Rightarrow> bool \<Rightarrow> 't connection \<Rightarrow> 't connection" where
  "set_timer PingreqSend b c = c\<lparr>cn_pingreq_send_set := b\<rparr>"
| "set_timer PingreqRecv b c = c\<lparr>cn_pingreq_recv_set := b\<rparr>"
| "set_timer PingrespRecv b c = c\<lparr>cn_pingresp_recv_set := b\<rparr>"

definition arm_timer :: "timer_kind \<Rightarrow> u64 \<Rightarrow> 't handler" where
  "arm_timer k ms = steps [upd (set_timer k True), emit [RequestTimerReset k ms]]"

definition stop_timer :: "timer_kind \<Rightarrow> 't handler" where
  "stop_timer k =
     branch (timer_flag k) (steps [upd (set_timer k False), emit [RequestTimerCancel k]]) (emit [])"

definition cancel_timers :: "'t handler" where
  "cancel_timers = steps [
     stop_timer PingreqSend,
     stop_timer PingreqRecv,
     stop_timer PingrespRecv]"

definition refresh_pingreq_recv :: "'t handler" where
  "refresh_pingreq_recv =
     branch (\<lambda>c. cn_pingreq_recv_timeout_ms c \<noteq> 0)
       (reads cn_pingreq_recv_timeout_ms (arm_timer PingreqRecv))
       (emit [])"

text \<open>The interval of the application is preferred to that of the server and to the keep alive.\<close>

definition pingreq_interval_ms :: "'t connection \<Rightarrow> u64" where
  "pingreq_interval_ms c = (case cn_pingreq_user_send_interval_ms c of
      Some timeout_ms \<Rightarrow> timeout_ms
    | None \<Rightarrow> (case cn_pingreq_server_keep_alive_ms c of
          Some timeout_ms \<Rightarrow> timeout_ms | None \<Rightarrow> cn_pingreq_keep_alive_ms c))"

definition send_post_process :: "'t handler" where
  "send_post_process =
     branch cn_is_client
       (reads pingreq_interval_ms (\<lambda>ms.
          if ms > 0 then arm_timer PingreqSend ms
          else emit []))
       (emit [])"

definition set_pingreq_send_interval :: "u64 option \<Rightarrow> 't handler" where
  "set_pingreq_send_interval duration_ms =
     steps [upd (\<lambda>c. c\<lparr>cn_pingreq_user_send_interval_ms := duration_ms\<rparr>),
       (case duration_ms of
          None \<Rightarrow> emit []
        | Some ms \<Rightarrow>
            if ms = 0 then
              stop_timer PingreqSend
            else branch (\<lambda>c. cn_status c = Connected)
                (arm_timer PingreqSend ms) (emit []))]"

section \<open>Settings and queries\<close>

definition get_receive_maximum_vacancy_for_send :: "'t connection \<Rightarrow> u16 option" where
  "get_receive_maximum_vacancy_for_send c =
     map_option (\<lambda>m. usaturating_sub m (cn_publish_send_count c)) (cn_publish_send_max c)"

definition set_offline_publish :: "bool \<Rightarrow> 't connection \<Rightarrow> 't connection" where
  "set_offline_publish enable c =
     (let c = c\<lparr>cn_offline_publish := enable\<rparr> in
      if cn_offline_publish c then c\<lparr>cn_need_store := True\<rparr> else c)"

definition set_auto_pub_response :: "bool \<Rightarrow> 't connection \<Rightarrow> 't connection" where
  "set_auto_pub_response enable c = c\<lparr>cn_auto_pub_response := enable\<rparr>"

definition set_auto_ping_response :: "bool \<Rightarrow> 't connection \<Rightarrow> 't connection" where
  "set_auto_ping_response enable c = c\<lparr>cn_auto_ping_response := enable\<rparr>"

definition set_auto_map_topic_alias_send :: "bool \<Rightarrow> 't connection \<Rightarrow> 't connection" where
  "set_auto_map_topic_alias_send enable c = c\<lparr>cn_auto_map_topic_alias_send := enable\<rparr>"

definition set_auto_replace_topic_alias_send :: "bool \<Rightarrow> 't connection \<Rightarrow> 't connection" where
  "set_auto_replace_topic_alias_send enable c = c\<lparr>cn_auto_replace_topic_alias_send := enable\<rparr>"

definition set_pingresp_recv_timeout :: "u64 \<Rightarrow> 't connection \<Rightarrow> 't connection" where
  "set_pingresp_recv_timeout timeout_ms c = c\<lparr>cn_pingresp_recv_timeout_ms := timeout_ms\<rparr>"

definition get_qos2_publish_handled :: "'t connection \<Rightarrow> 't set" where
  "get_qos2_publish_handled c = cn_qos2_publish_handled c"

definition restore_qos2_publish_handled :: "'t set \<Rightarrow> 't connection \<Rightarrow> 't connection" where
  "restore_qos2_publish_handled pids c = c\<lparr>cn_qos2_publish_handled := pids\<rparr>"

definition get_stored_packets :: "'t connection \<Rightarrow> 't store_packet list" where
  "get_stored_packets c = get_stored (cn_store c)"

definition get_protocol_version :: "'t connection \<Rightarrow> version" where
  "get_protocol_version c = cn_protocol_version c"

section \<open>Restoring a session\<close>

text \<open>Registering the identifier and storing the packet; both failures are only logged.\<close>

definition restore_registered :: "'p::len word \<Rightarrow> 'p word store_packet \<Rightarrow> 'p word connection \<Rightarrow> 'p word connection rust" where
  "restore_registered pid packet c =
     rbind (register_id (cn_pid_man c) pid) (\<lambda>(r, m).
     let c = c\<lparr>cn_pid_man := m\<rparr> in
     case r of
       Err _ \<Rightarrow> Ret c
     | Ok _ \<Rightarrow> rbind (store_add packet (cn_store c)) (\<lambda>(_, st). Ret (c\<lparr>cn_store := st\<rparr>)))"

definition restore_publish :: "qos rust \<Rightarrow> 'p::len word option \<Rightarrow> 'p word store_packet \<Rightarrow> 'p word connection \<Rightarrow> 'p word connection rust" where
  "restore_publish q pid_opt packet c =
     rbind q (\<lambda>qos. case qos of
       AtMostOnce \<Rightarrow> Ret c
     | AtLeastOnce \<Rightarrow> rbind (unwrap pid_opt) (\<lambda>pid.
         restore_registered pid packet (c\<lparr>cn_pid_puback := insert pid (cn_pid_puback c)\<rparr>))
     | ExactlyOnce \<Rightarrow> rbind (unwrap pid_opt) (\<lambda>pid.
         restore_registered pid packet (c\<lparr>cn_pid_pubrec := insert pid (cn_pid_pubrec c)\<rparr>)))"

definition restore_packet :: "'p::len word store_packet \<Rightarrow> 'p word connection \<Rightarrow> 'p word connection rust" where
  "restore_packet packet c = (case packet of
     S_V3_Publish p \<Rightarrow> restore_publish (v3_publish_qos p) (v3p_packet_id_buf p) packet c
   | S_V5_Publish p \<Rightarrow> restore_publish (v5_publish_qos p) (v5p_packet_id_buf p) packet c
   | S_V3_Pubrel p \<Rightarrow> restore_registered (v3a_packet_id_buf p) packet
       (c\<lparr>cn_pid_pubcomp := insert (v3a_packet_id_buf p) (cn_pid_pubcomp c)\<rparr>)
   | S_V5_Pubrel p \<Rightarrow> restore_registered (v5a_packet_id_buf p) packet
       (c\<lparr>cn_pid_pubcomp := insert (v5a_packet_id_buf p) (cn_pid_pubcomp c)\<rparr>))"

primrec restore_packets :: "'p::len word store_packet list \<Rightarrow> 'p word connection \<Rightarrow> 'p word connection rust" where
  "restore_packets [] c = Ret c"
| "restore_packets (packet # rest) c = rbind (restore_packet packet c) (restore_packets rest)"

section \<open>Topic aliases and sizes\<close>

text \<open>\<open>get_topic_alias_from_props\<close>: the first alias property.\<close>

fun get_topic_alias_from_props :: "properties \<Rightarrow> u16 option" where
  "get_topic_alias_from_props [] = None"
| "get_topic_alias_from_props (P_TopicAlias ta # _) = Some ta"
| "get_topic_alias_from_props (_ # props) = get_topic_alias_from_props props"

definition validate_topic_alias_range :: "u16 \<Rightarrow> 't connection \<Rightarrow> bool" where
  "validate_topic_alias_range topic_alias c =
     (case cn_topic_alias_send c of
        None \<Rightarrow> False
      | Some tas \<Rightarrow> \<not> (topic_alias = 0 \<or> topic_alias > tas_max tas))"

text \<open>\<open>get\<close> moves the alias to the end of the sender's order.\<close>

definition validate_topic_alias :: "u16 option \<Rightarrow> 't connection \<Rightarrow> str option \<times> 't connection" where
  "validate_topic_alias topic_alias_opt c =
     (case topic_alias_opt of
        None \<Rightarrow> (None, c)
      | Some topic_alias \<Rightarrow>
          if \<not> validate_topic_alias_range topic_alias c then (None, c)
          else (case cn_topic_alias_send c of
              None \<Rightarrow> (None, c)
            | Some tas \<Rightarrow> (case tas_get tas topic_alias of (topic, tas) \<Rightarrow>
                (topic, c\<lparr>cn_topic_alias_send := Some tas\<rparr>))))"

definition regulate_for_store ::
  "'p::len word v5_publish \<Rightarrow> 'p word connection \<Rightarrow> ('p word v5_publish, mqtt_error) result rust" where
  "regulate_for_store packet c =
     (if v5_publish_topic_name packet = [] then
        (case get_topic_alias_from_props (v5p_props packet) of
           None \<Rightarrow> Ret (Err PacketNotRegulated)
         | Some topic_alias \<Rightarrow>
             (case cn_topic_alias_send c of
                None \<Rightarrow> Ret (Err PacketNotRegulated)
              | Some tas \<Rightarrow>
                  (case tas_peek tas topic_alias of
                     None \<Rightarrow> Ret (Err PacketNotRegulated)
                   | Some topic \<Rightarrow> v5_remove_topic_alias_add_topic packet topic)))
      else rbind (v5_remove_topic_alias packet) (\<lambda>k. Ret (Ok k)))"

definition validate_maximum_packet_size_send :: "nat \<Rightarrow> 't connection \<Rightarrow> bool" where
  "validate_maximum_packet_size_send n c = (\<not> n > unat (cn_maximum_packet_size_send c))"

end
