(* ===== verification/Connection_Send.thy ===== *)
theory Connection_Send
  imports Connection_State
begin

text \<open>
  \<^verbatim>\<open>src/mqtt/connection/core.rs\<close>, the sending side: one handler per packet that the application
  sends, and \<open>send\<close>, which checks the version and the role.  Handlers with the same code for
  several packets are one definition with the packet as its argument.
\<close>

section \<open>Shared steps\<close>

text \<open>\<open>return vec![NotifyError(e)]\<close> in front of a handler.\<close>

definition unless :: "('t connection \<Rightarrow> bool) \<Rightarrow> mqtt_error \<Rightarrow> 't handler \<Rightarrow> 't handler" where
  "unless refused e h = branch refused (emit [NotifyError e]) h"

abbreviation too_large :: "nat \<Rightarrow> 't connection \<Rightarrow> bool" where
  "too_large n \<equiv> \<lambda>c. \<not> validate_maximum_packet_size_send n c"

abbreviation not_connected :: "'t connection \<Rightarrow> bool" where
  "not_connected \<equiv> \<lambda>c. cn_status c \<noteq> Connected"

definition request_send :: "'t packet \<Rightarrow> 't option \<Rightarrow> 't handler" where
  "request_send packet release_packet_id_if_send_error =
     steps [emit [RequestSendPacket packet release_packet_id_if_send_error], send_post_process]"

text \<open>An error, and the release of the identifier when there is one and it is in use.\<close>

definition reject_with_release :: "mqtt_error \<Rightarrow> 'p::len word option \<Rightarrow> 'p word handler" where
  "reject_with_release e pid =
     steps [emit [NotifyError e], (case pid of None \<Rightarrow> emit [] | Some pid \<Rightarrow> release_packet_id pid)]"

text \<open>\<open>self.store.add(packet).unwrap()\<close>.\<close>

definition store_or_panic :: "'t store_packet \<Rightarrow> 't handler" where
  "store_or_panic packet c =
     rbind (store_add packet (cn_store c)) (\<lambda>(r, st). rbind (unwrap_res r) (\<lambda>_. Ret ([], c\<lparr>cn_store := st\<rparr>)))"

section \<open>CONNECT and CONNACK\<close>

definition process_send_v3_connect :: "v3_connect \<Rightarrow> 'p::len word handler" where
  "process_send_v3_connect packet =
     unless (\<lambda>c. cn_status c \<noteq> Disconnected) PacketNotAllowedToSend (steps [
       upd (initialize True),
       upd (\<lambda>c. c\<lparr>cn_status := Connecting\<rparr>),
       upd (\<lambda>c. c\<lparr>cn_pingreq_keep_alive_ms := ucast (v3_keep_alive packet) * 1000\<rparr>),
       (if v3_clean_session packet then upd clear_store_related else upd (\<lambda>c. c\<lparr>cn_need_store := True\<rparr>)),
       upd (\<lambda>c. c\<lparr>cn_topic_alias_send := None\<rparr>),
       request_send (V3_Connect packet) None])"

text \<open>The properties of a CONNECT that is sent: what the peer may send from now on.\<close>

primrec send_connect_props :: "properties \<Rightarrow> 't handler" where
  "send_connect_props [] = emit []"
| "send_connect_props (prop # props) = seq (case prop of
       P_TopicAliasMaximum v \<Rightarrow>
         if v \<noteq> 0 then upd (\<lambda>c. c\<lparr>cn_topic_alias_recv := Some (tar_new v)\<rparr>) else emit []
     | P_ReceiveMaximum v \<Rightarrow> calls (rassert (v \<noteq> 0)) (\<lambda>_. upd (\<lambda>c. c\<lparr>cn_publish_recv_max := Some v\<rparr>))
     | P_MaximumPacketSize v \<Rightarrow> calls (rassert (v \<noteq> 0)) (\<lambda>_. upd (\<lambda>c. c\<lparr>cn_maximum_packet_size_recv := v\<rparr>))
     | P_SessionExpiryInterval v \<Rightarrow> if v \<noteq> 0 then upd (\<lambda>c. c\<lparr>cn_need_store := True\<rparr>) else emit []
     | _ \<Rightarrow> emit []) (send_connect_props props)"

definition process_send_v5_connect :: "v5_connect \<Rightarrow> 'p::len word handler" where
  "process_send_v5_connect packet =
     unless (too_large (v5_connect_size packet)) PacketTooLarge
     (unless (\<lambda>c. cn_status c \<noteq> Disconnected) PacketNotAllowedToSend (steps [
       upd (initialize True),
       upd (\<lambda>c. c\<lparr>cn_status := Connecting\<rparr>),
       upd (\<lambda>c. c\<lparr>cn_pingreq_keep_alive_ms := ucast (v5_keep_alive packet) * 1000\<rparr>),
       (if v5_clean_start packet then upd clear_store_related else emit []),
       send_connect_props (v5c_props packet),
       request_send (V5_Connect packet) None]))"

text \<open>A refused connection is closed.\<close>

definition close_refused :: "'t handler" where
  "close_refused = steps [upd (\<lambda>c. c\<lparr>cn_status := Disconnected\<rparr>), cancel_timers, emit [RequestClose]]"

definition process_send_v3_connack :: "v3_connack \<Rightarrow> 'p::len word handler" where
  "process_send_v3_connack packet =
     unless (\<lambda>c. cn_status c \<noteq> Connecting) PacketNotAllowedToSend
     (calls (v3_connack_return_code packet) (\<lambda>rc. steps [
        emit [RequestSendPacket (V3_Connack packet) None],
        (if rc \<noteq> ConnRet_Accepted then close_refused
         else steps [upd (\<lambda>c. c\<lparr>cn_status := Connected\<rparr>), send_stored, send_post_process])]))"

primrec send_connack_props :: "properties \<Rightarrow> 't handler" where
  "send_connack_props [] = emit []"
| "send_connack_props (prop # props) = seq (case prop of
       P_TopicAliasMaximum v \<Rightarrow>
         if v \<noteq> 0 then upd (\<lambda>c. c\<lparr>cn_topic_alias_recv := Some (tar_new v)\<rparr>) else emit []
     | P_ReceiveMaximum v \<Rightarrow> calls (rassert (v \<noteq> 0)) (\<lambda>_. upd (\<lambda>c. c\<lparr>cn_publish_recv_max := Some v\<rparr>))
     | P_MaximumPacketSize v \<Rightarrow> calls (rassert (v \<noteq> 0)) (\<lambda>_. upd (\<lambda>c. c\<lparr>cn_maximum_packet_size_recv := v\<rparr>))
     | P_ServerKeepAlive v \<Rightarrow>
         if v = 0 then steps [
           stop_timer PingreqRecv,
           upd (\<lambda>c. c\<lparr>cn_pingreq_recv_timeout_ms := 0\<rparr>)]
         else steps [
           upd (\<lambda>c. c\<lparr>cn_pingreq_recv_timeout_ms := ucast v * 1000 * 3 div 2\<rparr>),
           reads cn_pingreq_recv_timeout_ms (arm_timer PingreqRecv)]
     | _ \<Rightarrow> emit []) (send_connack_props props)"

definition process_send_v5_connack :: "v5_connack \<Rightarrow> 'p::len word handler" where
  "process_send_v5_connack packet =
     unless (too_large (v5_connack_size packet)) PacketTooLarge
     (unless (\<lambda>c. cn_status c \<noteq> Connecting) PacketNotAllowedToSend
     (calls (v5_connack_reason_code packet) (\<lambda>rc. steps [
        (if rc = Connect_Success then send_connack_props (v5ca_props packet) else emit []),
        emit [RequestSendPacket (V5_Connack packet) None],
        (if rc \<noteq> Connect_Success then close_refused
         else steps [upd (\<lambda>c. c\<lparr>cn_status := Connected\<rparr>), send_stored, send_post_process])])))"

section \<open>PUBLISH of v3.1.1\<close>

text \<open>A publish is stored when the session is kept and the connection is up, or when offline publishing is on.\<close>

definition stores_publish :: "'t connection \<Rightarrow> bool" where
  "stores_publish c \<longleftrightarrow> cn_need_store c \<and> (cn_status c \<noteq> Disconnected \<or> cn_offline_publish c)"

definition cannot_publish :: "'t connection \<Rightarrow> bool" where
  "cannot_publish c \<longleftrightarrow> cn_status c \<noteq> Connected \<and> \<not> cn_need_store c \<and> \<not> cn_offline_publish c"

definition await_response :: "qos \<Rightarrow> 'p::len word \<Rightarrow> 'p word handler" where
  "await_response q pid =
     (if q = ExactlyOnce then upd (\<lambda>c. c\<lparr>cn_pid_pubrec := insert pid (cn_pid_pubrec c)\<rparr>)
      else upd (\<lambda>c. c\<lparr>cn_pid_puback := insert pid (cn_pid_puback c)\<rparr>))"

definition send_if_connected :: "'t packet \<Rightarrow> 't option \<Rightarrow> 't handler" where
  "send_if_connected packet release =
     branch (\<lambda>c. cn_status c = Connected) (request_send packet release) (emit [])"

definition process_send_v3_publish :: "'p::len word v3_publish \<Rightarrow> 'p word handler" where
  "process_send_v3_publish packet =
     calls (v3_publish_qos packet) (\<lambda>q.
       if q \<noteq> AtMostOnce then
         calls (unwrap (v3p_packet_id_buf packet)) (\<lambda>pid.
           branch cannot_publish (reject_with_release PacketNotAllowedToSend (Some pid))
           (unless (\<lambda>c. \<not> is_used_id (cn_pid_man c) pid) PacketIdentifierInvalid
             (reads stores_publish (\<lambda>storing. steps [
                (if storing then
                   calls (rbind (sp_of_v3_publish (v3_publish_set_dup packet True)) unwrap_res) store_or_panic
                 else emit []),
                await_response q pid,
                send_if_connected (V3_Publish packet) (if storing then None else Some pid)]))))
       else unless not_connected PacketNotAllowedToSend (send_if_connected (V3_Publish packet) None))"

section \<open>PUBLISH of v5.0\<close>

text \<open>
  Storing: the stored packet carries its topic name and no alias.  The continuation \<open>k\<close> is
  told whether the alias was looked up and what to release on a send error.
\<close>

definition v5_publish_store ::
  "'p::len word v5_publish \<Rightarrow> 'p word \<Rightarrow> qos \<Rightarrow> (bool \<Rightarrow> 'p word option \<Rightarrow> 'p word handler) \<Rightarrow> 'p word handler" where
  "v5_publish_store packet pid q k =
     branch stores_publish
       (if v5_publish_topic_name packet = [] then
          (\<lambda>c. case validate_topic_alias (get_topic_alias_from_props (v5p_props packet)) c of
             (None, c) \<Rightarrow> reject_with_release PacketNotAllowedToSend (Some pid) c
           | (Some topic, c) \<Rightarrow> steps [
               calls (rbind (rbind (v5_remove_topic_alias_add_topic packet topic) unwrap_res) (\<lambda>p.
                      rbind (sp_of_v5_publish (v5_publish_set_dup p True)) unwrap_res)) store_or_panic,
               await_response q pid,
               k True None] c)
        else steps [
          calls (rbind (v5_remove_topic_alias packet) (\<lambda>p.
                 rbind (sp_of_v5_publish (v5_publish_set_dup p True)) unwrap_res)) store_or_panic,
          await_response q pid,
          k False None])
       (steps [await_response q pid, k False (Some pid)])"

text \<open>\<open>topic_alias_send.insert_or_update\<close> when there is a table.\<close>

definition tas_register :: "str \<Rightarrow> u16 \<Rightarrow> 't handler" where
  "tas_register topic ta =
     reads cn_topic_alias_send (\<lambda>tas_opt. case tas_opt of
         None \<Rightarrow> emit []
       | Some tas \<Rightarrow> calls (tas_insert_or_update tas topic ta) (\<lambda>tas. upd (\<lambda>c. c\<lparr>cn_topic_alias_send := Some tas\<rparr>)))"

text \<open>
  The alias of the packet is checked or registered; without one, a connected sender may map
  the topic to an alias (\<open>auto_map\<close>) or reuse an alias it has (\<open>auto_replace\<close>).
\<close>

definition v5_publish_auto_alias ::
  "'p::len word v5_publish \<Rightarrow> ('p word v5_publish \<Rightarrow> 'p word handler) \<Rightarrow> 'p word handler" where
  "v5_publish_auto_alias packet k =
     (let topic = v5_publish_topic_name packet in
      reads cn_topic_alias_send (\<lambda>tas_opt.
        branch cn_auto_map_topic_alias_send
          (case tas_opt of
             None \<Rightarrow> k packet
           | Some tas \<Rightarrow> (case find_by_topic tas topic of
                 Some found_ta \<Rightarrow> calls (v5_remove_topic_add_topic_alias packet found_ta) k
               | None \<Rightarrow> calls (get_lru_alias tas) (\<lambda>lru_ta.
                   seq (tas_register topic lru_ta) (calls (v5_remove_topic_add_topic_alias packet lru_ta) k))))
          (branch cn_auto_replace_topic_alias_send
             (case tas_opt of
                None \<Rightarrow> k packet
              | Some tas \<Rightarrow> (case find_by_topic tas topic of
                    Some found_ta \<Rightarrow> calls (v5_remove_topic_add_topic_alias packet found_ta) k
                  | None \<Rightarrow> k packet))
             (k packet))))"

definition v5_publish_alias ::
  "'p::len word v5_publish \<Rightarrow> bool \<Rightarrow> ('p word v5_publish \<Rightarrow> 'p word handler) \<Rightarrow> 'p word handler" where
  "v5_publish_alias packet topic_alias_validated k =
     (let ta_opt = get_topic_alias_from_props (v5p_props packet); pid_opt = v5p_packet_id_buf packet in
      if v5_publish_topic_name packet = [] then
        (if topic_alias_validated then k packet
         else (\<lambda>c. case validate_topic_alias ta_opt c of
              (None, c) \<Rightarrow> reject_with_release PacketNotAllowedToSend pid_opt c
            | (Some _, c) \<Rightarrow> k packet c))
      else case ta_opt of
          Some ta \<Rightarrow>
            branch (validate_topic_alias_range ta)
              (seq (tas_register (v5_publish_topic_name packet) ta) (k packet))
              (reject_with_release PacketNotAllowedToSend pid_opt)
        | None \<Rightarrow> branch (\<lambda>c. cn_status c = Connected) (v5_publish_auto_alias packet k) (k packet))"

text \<open>The receive maximum of the peer bounds the publishes in flight.\<close>

definition v5_publish_count :: "'p::len word v5_publish \<Rightarrow> 'p word option \<Rightarrow> 'p word handler \<Rightarrow> 'p word handler" where
  "v5_publish_count packet pid_opt k =
     calls (v5_publish_qos packet) (\<lambda>q.
       if q \<noteq> AtMostOnce then
         reads cn_publish_send_max (\<lambda>max_opt. case max_opt of
             None \<Rightarrow> k
           | Some m \<Rightarrow>
               branch (\<lambda>c. cn_publish_send_count c = m)
                 (reject_with_release ReceiveMaximumExceeded pid_opt)
                 (reads cn_publish_send_count (\<lambda>n. calls (uadd n 1) (\<lambda>n'.
                    seq (upd (\<lambda>c. c\<lparr>cn_publish_send_count := n'\<rparr>)) k))))
       else k)"

definition process_send_v5_publish :: "'p::len word v5_publish \<Rightarrow> 'p word handler" where
  "process_send_v5_publish packet =
     unless (too_large (v5_publish_size packet)) PacketTooLarge
     (let finish = (\<lambda>topic_alias_validated release.
            v5_publish_alias packet topic_alias_validated (\<lambda>packet'.
            v5_publish_count packet' (v5p_packet_id_buf packet)
              (send_if_connected (V5_Publish packet') release))) in
      calls (v5_publish_qos packet) (\<lambda>q.
        if q \<noteq> AtMostOnce then
          calls (unwrap (v5p_packet_id_buf packet)) (\<lambda>pid.
            branch cannot_publish (reject_with_release PacketNotAllowedToSend (Some pid))
            (unless (\<lambda>c. \<not> is_used_id (cn_pid_man c) pid) PacketIdentifierInvalid
              (v5_publish_store packet pid q finish)))
        else unless not_connected PacketNotAllowedToSend (finish False None)))"

section \<open>The acknowledgements\<close>

text \<open>A packet that is sent when the connection is up: PUBACK, PUBREC, PUBCOMP, SUBACK, UNSUBACK, PINGRESP of v3.1.1.\<close>

definition send_when_connected :: "'t packet \<Rightarrow> 't handler" where
  "send_when_connected packet = unless not_connected PacketNotAllowedToSend (request_send packet None)"

definition process_send_v3_puback :: "'p::len word v3_ack \<Rightarrow> 'p word handler" where
  "process_send_v3_puback packet = send_when_connected (V3_Puback packet)"

definition process_send_v3_pubrec :: "'p::len word v3_ack \<Rightarrow> 'p word handler" where
  "process_send_v3_pubrec packet = send_when_connected (V3_Pubrec packet)"

definition process_send_v3_pubcomp :: "'p::len word v3_ack \<Rightarrow> 'p word handler" where
  "process_send_v3_pubcomp packet = send_when_connected (V3_Pubcomp packet)"

definition process_send_v5_puback :: "'p::len word v5_ack \<Rightarrow> 'p word handler" where
  "process_send_v5_puback packet =
     unless (too_large (v5_ack_size packet)) PacketTooLarge
     (unless not_connected PacketNotAllowedToSend (steps [
       upd (\<lambda>c. c\<lparr>cn_publish_recv := cn_publish_recv c - {v5a_packet_id_buf packet}\<rparr>),
       request_send (V5_Puback packet) None]))"

text \<open>\<open>is_failure\<close> is the negation of \<open>is_success\<close>.\<close>

definition process_send_v5_pubrec :: "'p::len word v5_ack \<Rightarrow> 'p word handler" where
  "process_send_v5_pubrec packet =
     unless (too_large (v5_ack_size packet)) PacketTooLarge
     (unless not_connected PacketNotAllowedToSend (steps [
       (case v5_pubrec_reason_code packet of
          None \<Rightarrow> emit []
        | Some rc \<Rightarrow>
            if \<not> pubrec_reason_code_is_success rc then
              upd (\<lambda>c. c\<lparr>cn_publish_recv := cn_publish_recv c - {v5a_packet_id_buf packet},
                         cn_qos2_publish_handled := cn_qos2_publish_handled c - {v5a_packet_id_buf packet}\<rparr>)
            else emit []),
       request_send (V5_Pubrec packet) None]))"

definition process_send_v5_pubcomp :: "'p::len word v5_ack \<Rightarrow> 'p word handler" where
  "process_send_v5_pubcomp packet =
     unless (too_large (v5_ack_size packet)) PacketTooLarge
     (unless not_connected PacketNotAllowedToSend (steps [
       upd (\<lambda>c. c\<lparr>cn_publish_recv := cn_publish_recv c - {v5a_packet_id_buf packet}\<rparr>),
       request_send (V5_Pubcomp packet) None]))"

text \<open>PUBREL of both versions after the size check: stored when the session is kept, sent when connected.\<close>

definition send_pubrel :: "'p::len word \<Rightarrow> 'p word store_packet \<Rightarrow> 'p word packet \<Rightarrow> 'p word handler" where
  "send_pubrel pid stored packet =
     unless (\<lambda>c. cn_status c \<noteq> Connected \<and> \<not> cn_need_store c) PacketNotAllowedToSend
     (unless (\<lambda>c. \<not> is_used_id (cn_pid_man c) pid) PacketIdentifierInvalid (steps [
       branch cn_need_store (store_or_panic stored) (emit []),
       branch (\<lambda>c. cn_status c = Connected)
         (steps [upd (\<lambda>c. c\<lparr>cn_pid_pubcomp := insert pid (cn_pid_pubcomp c)\<rparr>), emit [RequestSendPacket packet None]])
         (emit []),
       send_post_process]))"

definition process_send_v3_pubrel :: "'p::len word v3_ack \<Rightarrow> 'p word handler" where
  "process_send_v3_pubrel packet = send_pubrel (v3a_packet_id_buf packet) (S_V3_Pubrel packet) (V3_Pubrel packet)"

definition process_send_v5_pubrel :: "'p::len word v5_ack \<Rightarrow> 'p word handler" where
  "process_send_v5_pubrel packet =
     unless (too_large (v5_ack_size packet)) PacketTooLarge
       (send_pubrel (v5a_packet_id_buf packet) (S_V5_Pubrel packet) (V5_Pubrel packet))"

section \<open>SUBSCRIBE, UNSUBSCRIBE and their answers\<close>

text \<open>A request with an identifier: the answer to it is awaited in one of two sets.\<close>

definition send_identified ::
  "'p::len word \<Rightarrow> ('p word connection \<Rightarrow> 'p word connection) \<Rightarrow> 'p word packet \<Rightarrow> 'p word handler" where
  "send_identified pid await packet =
     branch not_connected (reject_with_release PacketNotAllowedToSend (Some pid))
     (unless (\<lambda>c. \<not> is_used_id (cn_pid_man c) pid) PacketIdentifierInvalid (steps [
       upd await,
       request_send packet (Some pid)]))"

abbreviation await_suback :: "'t \<Rightarrow> 't connection \<Rightarrow> 't connection" where
  "await_suback pid c \<equiv> c\<lparr>cn_pid_suback := insert pid (cn_pid_suback c)\<rparr>"

abbreviation await_unsuback :: "'t \<Rightarrow> 't connection \<Rightarrow> 't connection" where
  "await_unsuback pid c \<equiv> c\<lparr>cn_pid_unsuback := insert pid (cn_pid_unsuback c)\<rparr>"

definition process_send_v3_subscribe :: "('p::len word, sub_entry) v3_entries_packet \<Rightarrow> 'p word handler" where
  "process_send_v3_subscribe packet =
     send_identified (v3s_packet_id_buf packet) (await_suback (v3s_packet_id_buf packet)) (V3_Subscribe packet)"

definition process_send_v5_subscribe :: "('p::len word, sub_entry) v5_entries_packet \<Rightarrow> 'p word handler" where
  "process_send_v5_subscribe packet =
     unless (too_large (v5_entries_size packet)) PacketTooLarge
       (send_identified (v5s_packet_id_buf packet) (await_suback (v5s_packet_id_buf packet)) (V5_Subscribe packet))"

definition process_send_v3_unsubscribe :: "('p::len word, mqtt_string) v3_entries_packet \<Rightarrow> 'p word handler" where
  "process_send_v3_unsubscribe packet =
     send_identified (v3s_packet_id_buf packet) (await_unsuback (v3s_packet_id_buf packet)) (V3_Unsubscribe packet)"

definition process_send_v5_unsubscribe :: "('p::len word, mqtt_string) v5_entries_packet \<Rightarrow> 'p word handler" where
  "process_send_v5_unsubscribe packet =
     unless (too_large (v5_entries_size packet)) PacketTooLarge
       (send_identified (v5s_packet_id_buf packet) (await_unsuback (v5s_packet_id_buf packet)) (V5_Unsubscribe packet))"

definition process_send_v3_suback :: "('p::len word, u8) v3_entries_packet \<Rightarrow> 'p word handler" where
  "process_send_v3_suback packet = send_when_connected (V3_Suback packet)"

definition process_send_v5_suback :: "('p::len word, u8) v5_entries_packet \<Rightarrow> 'p word handler" where
  "process_send_v5_suback packet =
     unless (too_large (v5_entries_size packet)) PacketTooLarge (send_when_connected (V5_Suback packet))"

definition process_send_v3_unsuback :: "'p::len word v3_unsuback \<Rightarrow> 'p word handler" where
  "process_send_v3_unsuback packet = send_when_connected (V3_Unsuback packet)"

definition process_send_v5_unsuback :: "('p::len word, u8) v5_entries_packet \<Rightarrow> 'p word handler" where
  "process_send_v5_unsuback packet =
     unless (too_large (v5_entries_size packet)) PacketTooLarge (send_when_connected (V5_Unsuback packet))"

section \<open>PINGREQ, PINGRESP, DISCONNECT, AUTH\<close>

definition send_pingreq :: "'t packet \<Rightarrow> 't handler" where
  "send_pingreq packet =
     unless not_connected PacketNotAllowedToSend (steps [
       emit [RequestSendPacket packet None],
       branch (\<lambda>c. cn_pingresp_recv_timeout_ms c \<noteq> 0)
         (reads cn_pingresp_recv_timeout_ms (arm_timer PingrespRecv))
         (emit []),
       send_post_process])"

definition process_send_v3_pingreq :: "v3_empty \<Rightarrow> 'p::len word handler" where
  "process_send_v3_pingreq packet = send_pingreq (V3_Pingreq packet)"

definition process_send_v5_pingreq :: "v3_empty \<Rightarrow> 'p::len word handler" where
  "process_send_v5_pingreq packet =
     unless (too_large (v3_empty_size packet)) PacketTooLarge (send_pingreq (V5_Pingreq packet))"

definition process_send_v3_pingresp :: "v3_empty \<Rightarrow> 'p::len word handler" where
  "process_send_v3_pingresp packet = send_when_connected (V3_Pingresp packet)"

definition process_send_v5_pingresp :: "v3_empty \<Rightarrow> 'p::len word handler" where
  "process_send_v5_pingresp packet =
     unless (too_large (v3_empty_size packet)) PacketTooLarge (send_when_connected (V5_Pingresp packet))"

definition send_disconnect :: "'t packet \<Rightarrow> 't handler" where
  "send_disconnect packet =
     unless not_connected PacketNotAllowedToSend (steps [
       upd (\<lambda>c. c\<lparr>cn_status := Disconnected\<rparr>),
       cancel_timers,
       emit [RequestSendPacket packet None],
       emit [RequestClose]])"

definition process_send_v3_disconnect :: "v3_empty \<Rightarrow> 'p::len word handler" where
  "process_send_v3_disconnect packet = send_disconnect (V3_Disconnect packet)"

definition process_send_v5_disconnect :: "v5_reason_packet \<Rightarrow> 'p::len word handler" where
  "process_send_v5_disconnect packet =
     unless (too_large (v5_reason_packet_size packet)) PacketTooLarge (send_disconnect (V5_Disconnect packet))"

definition process_send_v5_auth :: "v5_reason_packet \<Rightarrow> 'p::len word handler" where
  "process_send_v5_auth packet =
     unless (too_large (v5_reason_packet_size packet)) PacketTooLarge
     (unless (\<lambda>c. cn_status c = Disconnected) PacketNotAllowedToSend (request_send (V5_Auth packet) None))"

section \<open>The entry point\<close>

text \<open>The roles that may send a packet: the comparison of type identifiers in \<open>send\<close>.\<close>

definition for_role :: "(role \<Rightarrow> bool) \<Rightarrow> 't handler \<Rightarrow> 't handler" where
  "for_role allowed h = unless (\<lambda>c. \<not> allowed (cn_role c)) PacketNotAllowedToSend h"

abbreviation client_or_any :: "role \<Rightarrow> bool" where "client_or_any r \<equiv> r = Client \<or> r = Any"
abbreviation server_or_any :: "role \<Rightarrow> bool" where "server_or_any r \<equiv> r = Server \<or> r = Any"

definition send_dispatch :: "'p::len word packet \<Rightarrow> 'p word handler" where
  "send_dispatch packet = (case packet of
       V3_Connect p \<Rightarrow> for_role client_or_any (process_send_v3_connect p)
     | V5_Connect p \<Rightarrow> for_role client_or_any (process_send_v5_connect p)
     | V3_Connack p \<Rightarrow> for_role server_or_any (process_send_v3_connack p)
     | V5_Connack p \<Rightarrow> for_role server_or_any (process_send_v5_connack p)
     | V3_Publish p \<Rightarrow> process_send_v3_publish p
     | V5_Publish p \<Rightarrow> process_send_v5_publish p
     | V3_Puback p \<Rightarrow> process_send_v3_puback p
     | V5_Puback p \<Rightarrow> process_send_v5_puback p
     | V3_Pubrec p \<Rightarrow> process_send_v3_pubrec p
     | V5_Pubrec p \<Rightarrow> process_send_v5_pubrec p
     | V3_Pubrel p \<Rightarrow> process_send_v3_pubrel p
     | V5_Pubrel p \<Rightarrow> process_send_v5_pubrel p
     | V3_Pubcomp p \<Rightarrow> process_send_v3_pubcomp p
     | V5_Pubcomp p \<Rightarrow> process_send_v5_pubcomp p
     | V3_Subscribe p \<Rightarrow> for_role client_or_any (process_send_v3_subscribe p)
     | V5_Subscribe p \<Rightarrow> for_role client_or_any (process_send_v5_subscribe p)
     | V3_Unsubscribe p \<Rightarrow> for_role client_or_any (process_send_v3_unsubscribe p)
     | V5_Unsubscribe p \<Rightarrow> for_role client_or_any (process_send_v5_unsubscribe p)
     | V3_Suback p \<Rightarrow> for_role server_or_any (process_send_v3_suback p)
     | V5_Suback p \<Rightarrow> for_role server_or_any (process_send_v5_suback p)
     | V3_Unsuback p \<Rightarrow> for_role server_or_any (process_send_v3_unsuback p)
     | V5_Unsuback p \<Rightarrow> for_role server_or_any (process_send_v5_unsuback p)
     | V3_Pingreq p \<Rightarrow> for_role client_or_any (process_send_v3_pingreq p)
     | V5_Pingreq p \<Rightarrow> for_role client_or_any (process_send_v5_pingreq p)
     | V3_Pingresp p \<Rightarrow> for_role server_or_any (process_send_v3_pingresp p)
     | V5_Pingresp p \<Rightarrow> for_role server_or_any (process_send_v5_pingresp p)
     | V3_Disconnect p \<Rightarrow> for_role client_or_any (process_send_v3_disconnect p)
     | V5_Disconnect p \<Rightarrow> process_send_v5_disconnect p
     | V5_Auth p \<Rightarrow> process_send_v5_auth p)"

definition send :: "'p::len word packet \<Rightarrow> 'p word handler" where
  "send packet =
     unless (\<lambda>c. cn_protocol_version c \<noteq> gp_protocol_version packet) VersionMismatch (send_dispatch packet)"

end
