(* ===== verification/Connection_Recv.thy ===== *)
theory Connection_Recv
  imports Connection_Send Packet_Builder
begin

text \<open>
  \<^verbatim>\<open>src/mqtt/connection/core.rs\<close>, the receiving side: one handler per packet that may arrive,
  the check of size, role and version before them, \<open>recv\<close>, the timers and the end of a
  connection.
\<close>

section \<open>Shared steps\<close>

text \<open>\<open>match X::parse(..) { Ok((packet, _)) => .., Err(e) => .. }\<close>.\<close>

definition on_parse ::
  "('k \<times> nat, mqtt_error) result rust \<Rightarrow> ('k \<Rightarrow> 't handler) \<Rightarrow> (mqtt_error \<Rightarrow> 't handler) \<Rightarrow> 't handler" where
  "on_parse m h err = calls m (\<lambda>r. case r of Ok (packet, _) \<Rightarrow> h packet | Err e \<Rightarrow> err e)"

definition handle_v3_error :: "mqtt_error \<Rightarrow> 't handler" where
  "handle_v3_error e = emit [RequestClose, NotifyError e]"

definition disconnect_with :: "disconnect_reason_code \<Rightarrow> v5_reason_packet rust" where
  "disconnect_with rc = rbind (v5_disconnect_build (Some (Some (disconnect_reason_code_u8 rc))) None) unwrap_res"

definition handle_v5_error :: "mqtt_error \<Rightarrow> 'p::len word handler" where
  "handle_v5_error e = calls (disconnect_with (disconnect_of_mqtt_error e)) (\<lambda>disconnect.
     steps [process_send_v5_disconnect disconnect, emit [NotifyError e]])"

definition notify_received :: "'t packet \<Rightarrow> 't handler" where
  "notify_received packet = steps [refresh_pingreq_recv, emit [NotifyPacketReceived packet]]"

definition erase_stored :: "response_packet \<Rightarrow> 'p::len word \<Rightarrow> 'p word handler" where
  "erase_stored r pid c = rbind (store_erase r pid (cn_store c)) (\<lambda>(_, st). Ret ([], c\<lparr>cn_store := st\<rparr>))"

text \<open>\<open>if self.publish_send_max.is_some() { self.publish_send_count -= 1 }\<close>.\<close>

definition publish_done :: "'t handler" where
  "publish_done = branch (\<lambda>c. cn_publish_send_max c \<noteq> None)
     (reads cn_publish_send_count (\<lambda>n. calls (usub n 1) (\<lambda>n'. upd (\<lambda>c. c\<lparr>cn_publish_send_count := n'\<rparr>))))
     (emit [])"

section \<open>CONNECT\<close>

definition process_recv_v3_connect :: "raw_packet \<Rightarrow> 'p::len word handler" where
  "process_recv_v3_connect raw =
     branch (\<lambda>c. cn_status c \<noteq> Disconnected) (handle_v3_error ProtocolError) (steps [
       upd (\<lambda>c. c\<lparr>cn_status := Connecting\<rparr>),
       on_parse (v3_connect_parse (rp_flags raw) (data_as_slice (rp_data raw)))
         (\<lambda>packet. steps [
            upd (initialize False),
            (if v3_keep_alive packet > 0
             then upd (\<lambda>c. c\<lparr>cn_pingreq_recv_timeout_ms := ucast (v3_keep_alive packet) * 1000 * 3 div 2\<rparr>) else emit []),
            (if v3_clean_session packet then upd clear_store_related else upd (\<lambda>c. c\<lparr>cn_need_store := True\<rparr>)),
            notify_received (V3_Connect packet)])
         (\<lambda>e. calls (rbind (v3_connack_build \<lparr>v3cab_ack_flags = Some 0,
                v3cab_return_code_buf = Some (connect_return_code_u8 (case e of
                    ClientIdentifierNotValid \<Rightarrow> ConnRet_IdentifierRejected
                  | BadUserNameOrPassword \<Rightarrow> ConnRet_BadUserNameOrPassword
                  | UnsupportedProtocolVersion \<Rightarrow> ConnRet_UnacceptableProtocolVersion
                  | _ \<Rightarrow> ConnRet_NotAuthorized))\<rparr>) unwrap_res)
              (\<lambda>connack. steps [process_send_v3_connack connack, emit [NotifyError e]]))])"

text \<open>The properties of a received CONNECT: what may be sent to this client.\<close>

primrec recv_connect_props :: "properties \<Rightarrow> 't handler" where
  "recv_connect_props [] = emit []"
| "recv_connect_props (prop # props) = seq (case prop of
       P_TopicAliasMaximum v \<Rightarrow> calls (tas_new v) (\<lambda>tas. upd (\<lambda>c. c\<lparr>cn_topic_alias_send := Some tas\<rparr>))
     | P_ReceiveMaximum v \<Rightarrow> upd (\<lambda>c. c\<lparr>cn_publish_send_max := Some v\<rparr>)
     | P_MaximumPacketSize v \<Rightarrow> upd (\<lambda>c. c\<lparr>cn_maximum_packet_size_send := v\<rparr>)
     | P_SessionExpiryInterval v \<Rightarrow> if v \<noteq> 0 then upd (\<lambda>c. c\<lparr>cn_need_store := True\<rparr>) else emit []
     | _ \<Rightarrow> emit []) (recv_connect_props props)"

definition process_recv_v5_connect :: "raw_packet \<Rightarrow> 'p::len word handler" where
  "process_recv_v5_connect raw =
     branch (\<lambda>c. cn_status c \<noteq> Disconnected) (handle_v5_error ProtocolError) (steps [
       upd (\<lambda>c. c\<lparr>cn_status := Connecting\<rparr>),
       on_parse (v5_connect_parse (rp_flags raw) (data_as_slice (rp_data raw)))
         (\<lambda>packet. steps [
            upd (initialize False),
            (if v5_keep_alive packet > 0
             then upd (\<lambda>c. c\<lparr>cn_pingreq_recv_timeout_ms := ucast (v5_keep_alive packet) * 1000 * 3 div 2\<rparr>) else emit []),
            (if v5_clean_start packet then upd clear_store_related else emit []),
            recv_connect_props (v5c_props packet),
            notify_received (V5_Connect packet)])
         (\<lambda>e. calls (rbind (v5_connack_build (Some 0) (Some (connect_reason_code_u8 (case e of
                    ClientIdentifierNotValid \<Rightarrow> Connect_ClientIdentifierNotValid
                  | BadUserNameOrPassword \<Rightarrow> Connect_BadUserNameOrPassword
                  | UnsupportedProtocolVersion \<Rightarrow> Connect_UnsupportedProtocolVersion
                  | _ \<Rightarrow> Connect_UnspecifiedError))) None) unwrap_res)
              (\<lambda>connack. steps [process_send_v5_connack connack, emit [NotifyError e]]))])"

section \<open>CONNACK\<close>

definition resume_or_clear :: "bool \<Rightarrow> 'p::len word handler" where
  "resume_or_clear session_present = (if session_present then send_stored else upd clear_store_related)"

definition process_recv_v3_connack :: "raw_packet \<Rightarrow> 'p::len word handler" where
  "process_recv_v3_connack raw =
     on_parse (v3_connack_parse (rp_flags raw) (data_as_slice (rp_data raw)))
       (\<lambda>packet. calls (v3_connack_return_code packet) (\<lambda>rc. steps [
          (if rc = ConnRet_Accepted
           then steps [upd (\<lambda>c. c\<lparr>cn_status := Connected\<rparr>), resume_or_clear (v3_connack_session_present packet)]
           else emit []),
          emit [NotifyPacketReceived (V3_Connack packet)]]))
       handle_v3_error"

primrec recv_connack_props :: "properties \<Rightarrow> 't handler" where
  "recv_connack_props [] = emit []"
| "recv_connack_props (prop # props) = seq (case prop of
       P_TopicAliasMaximum v \<Rightarrow>
         if v > 0 then calls (tas_new v) (\<lambda>tas. upd (\<lambda>c. c\<lparr>cn_topic_alias_send := Some tas\<rparr>)) else emit []
     | P_ReceiveMaximum v \<Rightarrow> calls (rassert (v \<noteq> 0)) (\<lambda>_. upd (\<lambda>c. c\<lparr>cn_publish_send_max := Some v\<rparr>))
     | P_MaximumPacketSize v \<Rightarrow> calls (rassert (v \<noteq> 0)) (\<lambda>_. upd (\<lambda>c. c\<lparr>cn_maximum_packet_size_send := v\<rparr>))
     | P_ServerKeepAlive v \<Rightarrow>
         let ms = ucast v * 1000 in steps [
           upd (\<lambda>c. c\<lparr>cn_pingreq_server_keep_alive_ms := Some ms\<rparr>),
           branch (\<lambda>c. cn_pingreq_user_send_interval_ms c = None)
             (if ms = 0 then steps [
                stop_timer PingreqSend,
                upd (\<lambda>c. c\<lparr>cn_pingreq_user_send_interval_ms := None\<rparr>)]
              else arm_timer PingreqSend ms)
             (emit [])]
     | _ \<Rightarrow> emit []) (recv_connack_props props)"

text \<open>An error is answered with DISCONNECT only on a connection that is up.\<close>

definition v5_error_when_connected :: "mqtt_error \<Rightarrow> 'p::len word handler" where
  "v5_error_when_connected e = branch (\<lambda>c. cn_status c = Connected) (handle_v5_error e) (emit [NotifyError e])"

definition process_recv_v5_connack :: "raw_packet \<Rightarrow> 'p::len word handler" where
  "process_recv_v5_connack raw =
     on_parse (v5_connack_parse (rp_flags raw) (data_as_slice (rp_data raw)))
       (\<lambda>packet. calls (v5_connack_reason_code packet) (\<lambda>rc. steps [
          (if rc = Connect_Success
           then steps [upd (\<lambda>c. c\<lparr>cn_status := Connected\<rparr>), recv_connack_props (v5ca_props packet),
             resume_or_clear (v5_connack_session_present packet)]
           else emit []),
          emit [NotifyPacketReceived (V5_Connack packet)]]))
       v5_error_when_connected"

section \<open>PUBLISH\<close>

text \<open>A PUBLISH is always carried by the shared variant of the packet data.\<close>

definition publish_data :: "raw_packet \<Rightarrow> bytes rust" where
  "publish_data raw = (case rp_data raw of Publish_Arc a \<Rightarrow> Ret a | Normal _ \<Rightarrow> Panic Unreachable_Code)"

definition v3_publish_received :: "'p::len word v3_publish \<Rightarrow> 'p word handler" where
  "v3_publish_received packet =
     calls (v3_publish_qos packet) (\<lambda>q. case q of
       AtMostOnce \<Rightarrow> notify_received (V3_Publish packet)
     | AtLeastOnce \<Rightarrow> calls (unwrap (v3p_packet_id_buf packet)) (\<lambda>pid. steps [
         branch (\<lambda>c. cn_status c = Connected \<and> cn_auto_pub_response c)
           (calls (v3_ack_for FH_Puback pid) process_send_v3_puback) (emit []),
         notify_received (V3_Publish packet)])
     | ExactlyOnce \<Rightarrow> calls (unwrap (v3p_packet_id_buf packet)) (\<lambda>pid.
         reads (\<lambda>c. pid \<in> cn_qos2_publish_handled c) (\<lambda>already_handled. steps [
           upd (\<lambda>c. c\<lparr>cn_qos2_publish_handled := insert pid (cn_qos2_publish_handled c)\<rparr>),
           branch (\<lambda>c. cn_status c = Connected \<and> (cn_auto_pub_response c \<or> already_handled))
             (calls (v3_ack_for FH_Pubrec pid) process_send_v3_pubrec) (emit []),
           refresh_pingreq_recv,
           (if \<not> already_handled then emit [NotifyPacketReceived (V3_Publish packet)] else emit [])])))"

definition process_recv_v3_publish :: "raw_packet \<Rightarrow> 'p::len word handler" where
  "process_recv_v3_publish raw =
     calls (publish_data raw) (\<lambda>data. on_parse (v3_publish_parse (rp_flags raw) data) v3_publish_received handle_v3_error)"

text \<open>
  The receive maximum is compared with the number of identifiers not yet answered.  The
  continuation is told whether the packet was handled before and which answer is sent.
\<close>

definition check_receive_maximum :: "'p::len word handler \<Rightarrow> 'p word handler" where
  "check_receive_maximum k =
     branch (\<lambda>c. case cn_publish_recv_max c of None \<Rightarrow> False | Some m \<Rightarrow> card (cn_publish_recv c) \<ge> unat m)
       (handle_v5_error ReceiveMaximumExceeded) k"

definition v5_recv_qos ::
  "'p::len word v5_publish \<Rightarrow> (bool \<Rightarrow> bool \<Rightarrow> bool \<Rightarrow> 'p word handler) \<Rightarrow> 'p word handler" where
  "v5_recv_qos packet k =
     calls (v5_publish_qos packet) (\<lambda>q. case q of
       AtMostOnce \<Rightarrow> k False False False
     | AtLeastOnce \<Rightarrow> calls (unwrap (v5p_packet_id_buf packet)) (\<lambda>pid.
         check_receive_maximum (seq
           (upd (\<lambda>c. c\<lparr>cn_publish_recv := insert pid (cn_publish_recv c)\<rparr>))
           (reads (\<lambda>c. cn_auto_pub_response c \<and> cn_status c = Connected) (\<lambda>puback_send. k False puback_send False))))
     | ExactlyOnce \<Rightarrow> calls (unwrap (v5p_packet_id_buf packet)) (\<lambda>pid.
         check_receive_maximum (seq
           (upd (\<lambda>c. c\<lparr>cn_publish_recv := insert pid (cn_publish_recv c)\<rparr>))
           (reads (\<lambda>c. pid \<in> cn_qos2_publish_handled c) (\<lambda>already_handled. seq
             (upd (\<lambda>c. c\<lparr>cn_qos2_publish_handled := insert pid (cn_qos2_publish_handled c)\<rparr>))
             (reads (\<lambda>c. cn_status c = Connected \<and> (cn_auto_pub_response c \<or> already_handled)) (\<lambda>pubrec_send.
                k already_handled False pubrec_send)))))))"

text \<open>The topic behind an alias, or the registration of the alias of a topic.\<close>

definition v5_recv_alias ::
  "'p::len word v5_publish \<Rightarrow> ('p word v5_publish \<Rightarrow> 'p word handler) \<Rightarrow> 'p word handler" where
  "v5_recv_alias packet k =
     (let invalid = handle_v5_error TopicAliasInvalid; ta_opt = get_topic_alias_from_props (v5p_props packet) in
      if v5_publish_topic_name packet = [] then
        (case ta_opt of
           None \<Rightarrow> invalid
         | Some ta \<Rightarrow> reads cn_topic_alias_recv (\<lambda>tar_opt. case tar_opt of
               None \<Rightarrow> invalid
             | Some tar \<Rightarrow>
                 if ta = 0 \<or> ta > tar_max tar then invalid
                 else (case tar_get tar ta of
                     None \<Rightarrow> invalid
                   | Some topic_name \<Rightarrow> calls (v5_add_extracted_topic_name packet topic_name) (\<lambda>r. case r of
                         Ok extracted \<Rightarrow> k extracted | Err _ \<Rightarrow> invalid))))
      else
        (case ta_opt of
           None \<Rightarrow> k packet
         | Some ta \<Rightarrow> reads cn_topic_alias_recv (\<lambda>tar_opt. case tar_opt of
               None \<Rightarrow> invalid
             | Some tar \<Rightarrow>
                 if ta = 0 \<or> ta > tar_max tar then invalid
                 else calls (tar_insert_or_update tar (v5_publish_topic_name packet) ta) (\<lambda>tar. seq
                   (upd (\<lambda>c. c\<lparr>cn_topic_alias_recv := Some tar\<rparr>)) (k packet)))))"

definition v5_publish_received :: "'p::len word v5_publish \<Rightarrow> 'p word handler" where
  "v5_publish_received packet =
     v5_recv_qos packet (\<lambda>already_handled puback_send pubrec_send.
     v5_recv_alias packet (\<lambda>packet. steps [
       (if puback_send then calls (unwrap (v5p_packet_id_buf packet)) (\<lambda>pid.
          calls (v5_ack_for FH_Puback None pid) process_send_v5_puback) else emit []),
       (if pubrec_send then calls (unwrap (v5p_packet_id_buf packet)) (\<lambda>pid.
          calls (v5_ack_for FH_Pubrec None pid) process_send_v5_pubrec) else emit []),
       refresh_pingreq_recv,
       (if \<not> already_handled then emit [NotifyPacketReceived (V5_Publish packet)] else emit [])]))"

definition process_recv_v5_publish :: "raw_packet \<Rightarrow> 'p::len word handler" where
  "process_recv_v5_publish raw =
     calls (publish_data raw) (\<lambda>data. on_parse (v5_publish_parse (rp_flags raw) data) v5_publish_received v5_error_when_connected)"

section \<open>The acknowledgements\<close>

text \<open>PUBACK and PUBCOMP end the life of an identifier: after its removal from the awaited set.\<close>

definition v3_ack_received :: "response_packet \<Rightarrow> 'p::len word \<Rightarrow> 'p word packet \<Rightarrow> 'p word handler" where
  "v3_ack_received r pid packet = steps [erase_stored r pid, release_packet_id pid, notify_received packet]"

definition v5_ack_received :: "response_packet \<Rightarrow> 'p::len word \<Rightarrow> 'p word packet \<Rightarrow> 'p word handler" where
  "v5_ack_received r pid packet =
     steps [erase_stored r pid, release_packet_id pid, publish_done, notify_received packet]"

definition process_recv_v3_puback :: "raw_packet \<Rightarrow> 'p::len word handler" where
  "process_recv_v3_puback raw =
     on_parse (v3_puback_parse (rp_flags raw) (data_as_slice (rp_data raw)))
       (\<lambda>packet. let pid = v3a_packet_id_buf packet in
          branch (\<lambda>c. pid \<in> cn_pid_puback c)
            (seq (upd (\<lambda>c. c\<lparr>cn_pid_puback := cn_pid_puback c - {pid}\<rparr>)) (v3_ack_received R_V3_Puback pid (V3_Puback packet)))
            (handle_v3_error ProtocolError))
       handle_v3_error"

definition process_recv_v5_puback :: "raw_packet \<Rightarrow> 'p::len word handler" where
  "process_recv_v5_puback raw =
     on_parse (v5_puback_parse (rp_flags raw) (data_as_slice (rp_data raw)))
       (\<lambda>packet. let pid = v5a_packet_id_buf packet in
          branch (\<lambda>c. pid \<in> cn_pid_puback c)
            (seq (upd (\<lambda>c. c\<lparr>cn_pid_puback := cn_pid_puback c - {pid}\<rparr>)) (v5_ack_received R_V5_Puback pid (V5_Puback packet)))
            (handle_v5_error ProtocolError))
       handle_v5_error"

definition process_recv_v3_pubrec :: "raw_packet \<Rightarrow> 'p::len word handler" where
  "process_recv_v3_pubrec raw =
     on_parse (v3_pubrec_parse (rp_flags raw) (data_as_slice (rp_data raw)))
       (\<lambda>packet. let pid = v3a_packet_id_buf packet in
          branch (\<lambda>c. pid \<in> cn_pid_pubrec c)
            (steps [upd (\<lambda>c. c\<lparr>cn_pid_pubrec := cn_pid_pubrec c - {pid}\<rparr>),
               erase_stored R_V3_Pubrec pid,
               branch (\<lambda>c. cn_auto_pub_response c \<and> cn_status c = Connected)
                 (calls (v3_ack_for FH_Pubrel pid) process_send_v3_pubrel) (emit []),
               notify_received (V3_Pubrec packet)])
            (handle_v3_error ProtocolError))
       handle_v3_error"

definition process_recv_v5_pubrec :: "raw_packet \<Rightarrow> 'p::len word handler" where
  "process_recv_v5_pubrec raw =
     on_parse (v5_pubrec_parse (rp_flags raw) (data_as_slice (rp_data raw)))
       (\<lambda>packet. let pid = v5a_packet_id_buf packet; reason_code = v5_pubrec_reason_code packet in
          branch (\<lambda>c. pid \<in> cn_pid_pubrec c)
            (steps [upd (\<lambda>c. c\<lparr>cn_pid_pubrec := cn_pid_pubrec c - {pid}\<rparr>),
               erase_stored R_V5_Pubrec pid,
               (if reason_code = None \<or> reason_code = Some Pubrec_Success then
                  branch (\<lambda>c. cn_auto_pub_response c \<and> cn_status c = Connected)
                    (calls (v5_ack_for FH_Pubrel None pid) process_send_v5_pubrel) (emit [])
                else steps [release_packet_id pid, publish_done]),
               notify_received (V5_Pubrec packet)])
            (handle_v5_error ProtocolError))
       handle_v5_error"

definition process_recv_v3_pubrel :: "raw_packet \<Rightarrow> 'p::len word handler" where
  "process_recv_v3_pubrel raw =
     on_parse (v3_pubrel_parse (rp_flags raw) (data_as_slice (rp_data raw)))
       (\<lambda>packet. let pid = v3a_packet_id_buf packet in steps [
          upd (\<lambda>c. c\<lparr>cn_qos2_publish_handled := cn_qos2_publish_handled c - {pid}\<rparr>),
          branch (\<lambda>c. cn_auto_pub_response c \<and> cn_status c = Connected)
            (calls (v3_ack_for FH_Pubcomp pid) process_send_v3_pubcomp) (emit []),
          notify_received (V3_Pubrel packet)])
       handle_v3_error"

definition process_recv_v5_pubrel :: "raw_packet \<Rightarrow> 'p::len word handler" where
  "process_recv_v5_pubrel raw =
     on_parse (v5_pubrel_parse (rp_flags raw) (data_as_slice (rp_data raw)))
       (\<lambda>packet. let pid = v5a_packet_id_buf packet in
          reads (\<lambda>c. pid \<in> cn_qos2_publish_handled c) (\<lambda>removed. steps [
            upd (\<lambda>c. c\<lparr>cn_qos2_publish_handled := cn_qos2_publish_handled c - {pid}\<rparr>),
            branch (\<lambda>c. cn_auto_pub_response c \<and> cn_status c = Connected)
              (if removed then calls (v5_ack_for FH_Pubcomp None pid) process_send_v5_pubcomp
               else calls (v5_ack_for FH_Pubcomp (Some (pubcomp_reason_code_u8 Pubcomp_PacketIdentifierNotFound)) pid)
                 process_send_v5_pubcomp)
              (emit []),
            notify_received (V5_Pubrel packet)]))
       handle_v5_error"

definition process_recv_v3_pubcomp :: "raw_packet \<Rightarrow> 'p::len word handler" where
  "process_recv_v3_pubcomp raw =
     on_parse (v3_pubcomp_parse (rp_flags raw) (data_as_slice (rp_data raw)))
       (\<lambda>packet. let pid = v3a_packet_id_buf packet in
          branch (\<lambda>c. pid \<in> cn_pid_pubcomp c)
            (seq (upd (\<lambda>c. c\<lparr>cn_pid_pubcomp := cn_pid_pubcomp c - {pid}\<rparr>)) (v3_ack_received R_V3_Pubcomp pid (V3_Pubcomp packet)))
            (handle_v3_error ProtocolError))
       handle_v3_error"

definition process_recv_v5_pubcomp :: "raw_packet \<Rightarrow> 'p::len word handler" where
  "process_recv_v5_pubcomp raw =
     on_parse (v5_pubcomp_parse (rp_flags raw) (data_as_slice (rp_data raw)))
       (\<lambda>packet. let pid = v5a_packet_id_buf packet in
          branch (\<lambda>c. pid \<in> cn_pid_pubcomp c)
            (seq (upd (\<lambda>c. c\<lparr>cn_pid_pubcomp := cn_pid_pubcomp c - {pid}\<rparr>)) (v5_ack_received R_V5_Pubcomp pid (V5_Pubcomp packet)))
            (handle_v5_error ProtocolError))
       handle_v5_error"

section \<open>SUBSCRIBE, UNSUBSCRIBE and their answers\<close>

definition process_recv_v3_subscribe :: "raw_packet \<Rightarrow> 'p::len word handler" where
  "process_recv_v3_subscribe raw =
     on_parse (v3_subscribe_parse (rp_flags raw) (data_as_slice (rp_data raw)))
       (\<lambda>packet. notify_received (V3_Subscribe packet)) handle_v3_error"

definition process_recv_v5_subscribe :: "raw_packet \<Rightarrow> 'p::len word handler" where
  "process_recv_v5_subscribe raw =
     on_parse (v5_subscribe_parse (rp_flags raw) (data_as_slice (rp_data raw)))
       (\<lambda>packet. notify_received (V5_Subscribe packet)) handle_v5_error"

definition process_recv_v3_unsubscribe :: "raw_packet \<Rightarrow> 'p::len word handler" where
  "process_recv_v3_unsubscribe raw =
     on_parse (v3_unsubscribe_parse (rp_flags raw) (data_as_slice (rp_data raw)))
       (\<lambda>packet. notify_received (V3_Unsubscribe packet)) handle_v3_error"

definition process_recv_v5_unsubscribe :: "raw_packet \<Rightarrow> 'p::len word handler" where
  "process_recv_v5_unsubscribe raw =
     on_parse (v5_unsubscribe_parse (rp_flags raw) (data_as_slice (rp_data raw)))
       (\<lambda>packet. notify_received (V5_Unsubscribe packet)) handle_v5_error"

definition suback_received :: "'p::len word \<Rightarrow> 'p word packet \<Rightarrow> (mqtt_error \<Rightarrow> 'p word handler) \<Rightarrow> 'p word handler" where
  "suback_received pid packet err =
     branch (\<lambda>c. pid \<in> cn_pid_suback c)
       (steps [upd (\<lambda>c. c\<lparr>cn_pid_suback := cn_pid_suback c - {pid}\<rparr>), release_packet_id pid, notify_received packet])
       (err ProtocolError)"

definition unsuback_received :: "'p::len word \<Rightarrow> 'p word packet \<Rightarrow> (mqtt_error \<Rightarrow> 'p word handler) \<Rightarrow> 'p word handler" where
  "unsuback_received pid packet err =
     branch (\<lambda>c. pid \<in> cn_pid_unsuback c)
       (steps [upd (\<lambda>c. c\<lparr>cn_pid_unsuback := cn_pid_unsuback c - {pid}\<rparr>), release_packet_id pid, notify_received packet])
       (err ProtocolError)"

definition process_recv_v3_suback :: "raw_packet \<Rightarrow> 'p::len word handler" where
  "process_recv_v3_suback raw =
     on_parse (v3_suback_parse (rp_flags raw) (data_as_slice (rp_data raw)))
       (\<lambda>packet. suback_received (v3s_packet_id_buf packet) (V3_Suback packet) handle_v3_error) handle_v3_error"

definition process_recv_v5_suback :: "raw_packet \<Rightarrow> 'p::len word handler" where
  "process_recv_v5_suback raw =
     on_parse (v5_suback_parse (rp_flags raw) (data_as_slice (rp_data raw)))
       (\<lambda>packet. suback_received (v5s_packet_id_buf packet) (V5_Suback packet) handle_v5_error) handle_v5_error"

definition process_recv_v3_unsuback :: "raw_packet \<Rightarrow> 'p::len word handler" where
  "process_recv_v3_unsuback raw =
     on_parse (v3_unsuback_parse (rp_flags raw) (data_as_slice (rp_data raw)))
       (\<lambda>packet. unsuback_received (v3ua_packet_id_buf packet) (V3_Unsuback packet) handle_v3_error) handle_v3_error"

definition process_recv_v5_unsuback :: "raw_packet \<Rightarrow> 'p::len word handler" where
  "process_recv_v5_unsuback raw =
     on_parse (v5_unsuback_parse (rp_flags raw) (data_as_slice (rp_data raw)))
       (\<lambda>packet. unsuback_received (v5s_packet_id_buf packet) (V5_Unsuback packet) handle_v5_error) handle_v5_error"

section \<open>PINGREQ, PINGRESP, DISCONNECT, AUTH\<close>

text \<open>\<open>(Role::IS_SERVER || Role::IS_ANY) && !self.is_client && ..\<close>.\<close>

definition answers_ping :: "'t connection \<Rightarrow> bool" where
  "answers_ping c \<longleftrightarrow> (cn_role c = Server \<or> cn_role c = Any) \<and> \<not> cn_is_client c \<and> cn_auto_ping_response c
     \<and> cn_status c = Connected"

definition process_recv_v3_pingreq :: "raw_packet \<Rightarrow> 'p::len word handler" where
  "process_recv_v3_pingreq raw =
     on_parse (v3_pingreq_parse (rp_flags raw) (data_as_slice (rp_data raw)))
       (\<lambda>packet. steps [
          branch answers_ping (calls v3_pingresp_new process_send_v3_pingresp) (emit []),
          notify_received (V3_Pingreq packet)])
       handle_v3_error"

definition process_recv_v5_pingreq :: "raw_packet \<Rightarrow> 'p::len word handler" where
  "process_recv_v5_pingreq raw =
     on_parse (v5_pingreq_parse (rp_flags raw) (data_as_slice (rp_data raw)))
       (\<lambda>packet. steps [
          branch answers_ping (calls v5_pingresp_new process_send_v5_pingresp) (emit []),
          notify_received (V5_Pingreq packet)])
       handle_v5_error"

text \<open>A PINGRESP stops the timer that waits for it; the receive timer is not refreshed.\<close>

definition pingresp_received :: "'t packet \<Rightarrow> 't handler" where
  "pingresp_received packet = steps [
     stop_timer PingrespRecv,
     emit [NotifyPacketReceived packet]]"

definition process_recv_v3_pingresp :: "raw_packet \<Rightarrow> 'p::len word handler" where
  "process_recv_v3_pingresp raw =
     on_parse (v3_pingresp_parse (rp_flags raw) (data_as_slice (rp_data raw)))
       (\<lambda>packet. pingresp_received (V3_Pingresp packet)) handle_v3_error"

definition process_recv_v5_pingresp :: "raw_packet \<Rightarrow> 'p::len word handler" where
  "process_recv_v5_pingresp raw =
     on_parse (v5_pingresp_parse (rp_flags raw) (data_as_slice (rp_data raw)))
       (\<lambda>packet. pingresp_received (V5_Pingresp packet)) handle_v5_error"

definition process_recv_v3_disconnect :: "raw_packet \<Rightarrow> 'p::len word handler" where
  "process_recv_v3_disconnect raw =
     on_parse (v3_disconnect_parse (rp_flags raw) (data_as_slice (rp_data raw)))
       (\<lambda>packet. steps [cancel_timers, emit [NotifyPacketReceived (V3_Disconnect packet)]]) handle_v3_error"

definition process_recv_v5_disconnect :: "raw_packet \<Rightarrow> 'p::len word handler" where
  "process_recv_v5_disconnect raw =
     on_parse (v5_disconnect_parse (rp_flags raw) (data_as_slice (rp_data raw)))
       (\<lambda>packet. steps [cancel_timers, emit [NotifyPacketReceived (V5_Disconnect packet)]]) handle_v5_error"

definition process_recv_v5_auth :: "raw_packet \<Rightarrow> 'p::len word handler" where
  "process_recv_v5_auth raw =
     on_parse (v5_auth_parse (rp_flags raw) (data_as_slice (rp_data raw)))
       (\<lambda>packet. notify_received (V5_Auth packet)) handle_v5_error"

section \<open>The dispatch on a received packet\<close>

definition can_receive :: "u8 \<Rightarrow> 't connection \<Rightarrow> bool" where
  "can_receive packet_type c \<longleftrightarrow>
     \<not> ((cn_role c = Client \<and>
          (packet_type = 1 \<or> packet_type = 8 \<or> packet_type = 10 \<or> packet_type = 12
           \<or> (packet_type = 14 \<and> cn_protocol_version c = V3_1_1)
           \<or> (packet_type = 15 \<and> cn_protocol_version c = V3_1_1)))
      \<or> (cn_role c = Server \<and>
          (packet_type = 2 \<or> packet_type = 9 \<or> packet_type = 11 \<or> packet_type = 13
           \<or> (packet_type = 15 \<and> cn_protocol_version c = V3_1_1))))"

definition dispatch_v3 :: "u8 \<Rightarrow> raw_packet \<Rightarrow> 'p::len word handler" where
  "dispatch_v3 packet_type raw =
     (if packet_type = 1 then process_recv_v3_connect raw
      else if packet_type = 2 then process_recv_v3_connack raw
      else if packet_type = 3 then process_recv_v3_publish raw
      else if packet_type = 4 then process_recv_v3_puback raw
      else if packet_type = 5 then process_recv_v3_pubrec raw
      else if packet_type = 6 then process_recv_v3_pubrel raw
      else if packet_type = 7 then process_recv_v3_pubcomp raw
      else if packet_type = 8 then process_recv_v3_subscribe raw
      else if packet_type = 9 then process_recv_v3_suback raw
      else if packet_type = 10 then process_recv_v3_unsubscribe raw
      else if packet_type = 11 then process_recv_v3_unsuback raw
      else if packet_type = 12 then process_recv_v3_pingreq raw
      else if packet_type = 13 then process_recv_v3_pingresp raw
      else if packet_type = 14 then process_recv_v3_disconnect raw
      else emit [NotifyError MalformedPacket])"

definition dispatch_v5 :: "u8 \<Rightarrow> raw_packet \<Rightarrow> 'p::len word handler" where
  "dispatch_v5 packet_type raw =
     (if packet_type = 1 then process_recv_v5_connect raw
      else if packet_type = 2 then process_recv_v5_connack raw
      else if packet_type = 3 then process_recv_v5_publish raw
      else if packet_type = 4 then process_recv_v5_puback raw
      else if packet_type = 5 then process_recv_v5_pubrec raw
      else if packet_type = 6 then process_recv_v5_pubrel raw
      else if packet_type = 7 then process_recv_v5_pubcomp raw
      else if packet_type = 8 then process_recv_v5_subscribe raw
      else if packet_type = 9 then process_recv_v5_suback raw
      else if packet_type = 10 then process_recv_v5_unsubscribe raw
      else if packet_type = 11 then process_recv_v5_unsuback raw
      else if packet_type = 12 then process_recv_v5_pingreq raw
      else if packet_type = 13 then process_recv_v5_pingresp raw
      else if packet_type = 14 then process_recv_v5_disconnect raw
      else if packet_type = 15 then process_recv_v5_auth raw
      else emit [NotifyError MalformedPacket])"

text \<open>The version of a connection that does not have one is taken from the CONNECT.\<close>

definition dispatch_undetermined :: "u8 \<Rightarrow> raw_packet \<Rightarrow> 'p::len word handler" where
  "dispatch_undetermined packet_type raw =
     (if packet_type = 1 then
        calls (rp_remaining_length raw) (\<lambda>n.
          if n < 7 then emit [NotifyError MalformedPacket]
          else let v = data_as_slice (rp_data raw) ! 6 in
            if v = 4 then seq (upd (\<lambda>c. c\<lparr>cn_protocol_version := V3_1_1\<rparr>)) (process_recv_v3_connect raw)
            else if v = 5 then seq (upd (\<lambda>c. c\<lparr>cn_protocol_version := V5_0\<rparr>)) (process_recv_v5_connect raw)
            else emit [NotifyError UnsupportedProtocolVersion])
      else emit [NotifyError MalformedPacket])"

definition process_recv_packet :: "raw_packet \<Rightarrow> 'p::len word handler" where
  "process_recv_packet raw =
     calls (rbind (rp_remaining_length raw) remaining_length_to_total_size) (\<lambda>total_size.
     branch (\<lambda>c. total_size > cn_maximum_packet_size_recv c)
       (calls (disconnect_with Disconnect_PacketTooLarge) (\<lambda>disconnect_packet.
          steps [process_send_v5_disconnect disconnect_packet, emit [NotifyError PacketTooLarge]]))
     (let packet_type = rp_packet_type raw in
      branch (\<lambda>c. \<not> can_receive packet_type c) (emit [NotifyError ProtocolError])
      (reads cn_protocol_version (\<lambda>version. case version of
           V3_1_1 \<Rightarrow> dispatch_v3 packet_type raw
         | V5_0 \<Rightarrow> dispatch_v5 packet_type raw
         | Undetermined \<Rightarrow> dispatch_undetermined packet_type raw))))"

section \<open>Receiving bytes\<close>

definition recv :: "cursor \<Rightarrow> 'p::len word connection \<Rightarrow> ('p word event list \<times> 'p word connection \<times> cursor) rust" where
  "recv data c =
     rbind (feed (cn_packet_builder c) data) (\<lambda>(res, pb, data').
     rbind ((case res of
          Complete raw_packet \<Rightarrow> process_recv_packet raw_packet
        | Incomplete \<Rightarrow> emit []
        | Build_Error e \<Rightarrow> steps [cancel_timers, emit [RequestClose, NotifyError e]]) (c\<lparr>cn_packet_builder := pb\<rparr>))
       (\<lambda>(events, c'). Ret (events, c', data')))"

section \<open>Timers\<close>

definition keep_alive_timeout :: "'p::len word handler" where
  "keep_alive_timeout = reads cn_protocol_version (\<lambda>version. case version of
       V3_1_1 \<Rightarrow> emit [RequestClose]
     | V5_0 \<Rightarrow> branch (\<lambda>c. cn_status c = Connected)
         (calls (v5_disconnect_build (Some (Some (disconnect_reason_code_u8 Disconnect_KeepAliveTimeout))) None) (\<lambda>r. case r of
            Ok disconnect \<Rightarrow> process_send_v5_disconnect disconnect | Err _ \<Rightarrow> emit []))
         (emit [])
     | Undetermined \<Rightarrow> (\<lambda>_. Panic Unreachable_Code))"

definition notify_timer_fired :: "timer_kind \<Rightarrow> 'p::len word handler" where
  "notify_timer_fired kind = (case kind of
       PingreqSend \<Rightarrow> steps [
         upd (\<lambda>c. c\<lparr>cn_pingreq_send_set := False\<rparr>),
         branch (\<lambda>c. cn_status c = Connected)
           (reads cn_protocol_version (\<lambda>version. case version of
                V3_1_1 \<Rightarrow> calls v3_pingreq_new process_send_v3_pingreq
              | V5_0 \<Rightarrow> calls v5_pingreq_new process_send_v5_pingreq
              | Undetermined \<Rightarrow> (\<lambda>_. Panic Unreachable_Code)))
           (emit [])]
     | PingreqRecv \<Rightarrow> steps [upd (\<lambda>c. c\<lparr>cn_pingreq_recv_set := False\<rparr>), keep_alive_timeout]
     | PingrespRecv \<Rightarrow> steps [upd (\<lambda>c. c\<lparr>cn_pingresp_recv_set := False\<rparr>), keep_alive_timeout])"

section \<open>The end of a connection\<close>

text \<open>
  \<open>HashSet::drain\<close> visits the elements in an order of its own: \<open>order\<close> lists a set.
\<close>

definition drain_ids ::
  "('p::len word set \<Rightarrow> 'p word list) \<Rightarrow> ('p word connection \<Rightarrow> 'p word set) \<Rightarrow> ('p word connection \<Rightarrow> 'p word connection)
   \<Rightarrow> 'p word handler" where
  "drain_ids order sel reset =
     reads sel (\<lambda>ids. seq (upd reset) (steps (map release_packet_id (order ids))))"

definition notify_closed :: "('p::len word set \<Rightarrow> 'p word list) \<Rightarrow> 'p word handler" where
  "notify_closed order = steps [
     upd (\<lambda>c. c\<lparr>cn_maximum_packet_size_send := packet_size_no_limit,
                cn_maximum_packet_size_recv := packet_size_no_limit\<rparr>),
     upd (\<lambda>c. c\<lparr>cn_status := Disconnected\<rparr>),
     upd (\<lambda>c. c\<lparr>cn_topic_alias_send := None, cn_topic_alias_recv := None\<rparr>),
     drain_ids order cn_pid_suback (\<lambda>c. c\<lparr>cn_pid_suback := {}\<rparr>),
     drain_ids order cn_pid_unsuback (\<lambda>c. c\<lparr>cn_pid_unsuback := {}\<rparr>),
     branch cn_need_store (emit []) (steps [
       upd (\<lambda>c. c\<lparr>cn_qos2_publish_handled := {}\<rparr>),
       drain_ids order cn_pid_puback (\<lambda>c. c\<lparr>cn_pid_puback := {}\<rparr>),
       drain_ids order cn_pid_pubrec (\<lambda>c. c\<lparr>cn_pid_pubrec := {}\<rparr>),
       drain_ids order cn_pid_pubcomp (\<lambda>c. c\<lparr>cn_pid_pubcomp := {}\<rparr>)]),
     cancel_timers]"

end
