(* ===== verification/Connection_Events.thy ===== *)
theory Connection_Events
  imports Connection_Recv
begin

text \<open>
  What the events of a connection say about its state.  A relation between the state before a
  handler, the events it returns and the state after it is proved for every handler at once,
  in the locale \<open>handler_relation\<close>, from what it says of the few steps that matter: the events
  and updates that concern nothing that is tracked, arming and disarming a timer, and
  releasing an identifier.  CONNECT and CONNACK also clear or resend the stored session;
  they are in the extended locale \<open>session_relation\<close>.
\<close>

section \<open>Relations that handlers obey\<close>

definition obeys :: "('t connection \<Rightarrow> 't event list \<Rightarrow> 't connection \<Rightarrow> bool) \<Rightarrow> 't handler \<Rightarrow> bool" where
  "obeys R h \<longleftrightarrow> (\<forall>c es c'. h c = Ret (es, c') \<longrightarrow> R c es c')"

lemma obeysD: "obeys R h \<Longrightarrow> h c = Ret (es, c') \<Longrightarrow> R c es c'"
  by (simp add: obeys_def)

named_theorems obeys_intros

lemma obeys_branch [obeys_intros]: "obeys R h \<Longrightarrow> obeys R k \<Longrightarrow> obeys R (branch P h k)"
  by (auto simp: obeys_def branch_def)

lemma obeys_reads [obeys_intros]: "(\<And>x. obeys R (h x)) \<Longrightarrow> obeys R (reads f h)"
  by (auto simp: obeys_def reads_def)

lemma obeys_calls [obeys_intros]: "(\<And>x. obeys R (h x)) \<Longrightarrow> obeys R (calls m h)"
  by (auto simp: obeys_def calls_def rbind_eq_Ret)

lemma obeys_calls_Ret: "(\<And>x. m = Ret x \<Longrightarrow> obeys R (h x)) \<Longrightarrow> obeys R (calls m h)"
  by (auto simp: obeys_def calls_def rbind_eq_Ret)

lemma obeys_if [obeys_intros]: "obeys R h \<Longrightarrow> obeys R k \<Longrightarrow> obeys R (if b then h else k)"
  by simp

lemma obeys_Let [obeys_intros]: "(\<And>x. obeys R (h x)) \<Longrightarrow> obeys R (Let x h)"
  by simp

lemma obeys_option [obeys_intros]: "obeys R h \<Longrightarrow> (\<And>x. obeys R (k x)) \<Longrightarrow> obeys R (case x of None \<Rightarrow> h | Some y \<Rightarrow> k y)"
  by (cases x) simp_all

lemma obeys_result [obeys_intros]:
  "(\<And>x. obeys R (h x)) \<Longrightarrow> (\<And>e. obeys R (k e)) \<Longrightarrow> obeys R (case r of Ok x \<Rightarrow> h x | Err e \<Rightarrow> k e)"
  by (cases r) simp_all

lemma obeys_prod [obeys_intros]: "(\<And>x y. obeys R (h x y)) \<Longrightarrow> obeys R (case p of (x, y) \<Rightarrow> h x y)"
  by (cases p) simp

lemma obeys_qos [obeys_intros]:
  "obeys R h0 \<Longrightarrow> obeys R h1 \<Longrightarrow> obeys R h2 \<Longrightarrow>
   obeys R (case q of AtMostOnce \<Rightarrow> h0 | AtLeastOnce \<Rightarrow> h1 | ExactlyOnce \<Rightarrow> h2)"
  by (cases q) simp_all

lemma obeys_version [obeys_intros]:
  "obeys R h0 \<Longrightarrow> obeys R h1 \<Longrightarrow> obeys R h2 \<Longrightarrow>
   obeys R (case v of Undetermined \<Rightarrow> h0 | V3_1_1 \<Rightarrow> h1 | V5_0 \<Rightarrow> h2)"
  by (cases v) simp_all

lemma obeys_panic [obeys_intros]: "obeys R (\<lambda>_. Panic x)"
  by (simp add: obeys_def)

lemma obeys_upd: "(\<And>c. R c [] (f c)) \<Longrightarrow> obeys R (upd f)"
  by (simp add: obeys_def upd_def)

lemma obeys_emit: "(\<And>c. R c es c) \<Longrightarrow> obeys R (emit es)"
  by (simp add: obeys_def emit_def)

text \<open>
  The events that concern neither timers nor identifiers, and the updates that leave the role,
  the timers and the identifiers alone and keep the tables of the session well-formed.
\<close>

primrec neutral_event :: "'t event \<Rightarrow> bool" where
  "neutral_event (NotifyPacketReceived p) = True"
| "neutral_event (RequestSendPacket p r) = True"
| "neutral_event (NotifyPacketIdReleased i) = False"
| "neutral_event (RequestTimerReset k ms) = False"
| "neutral_event (RequestTimerCancel k) = False"
| "neutral_event (NotifyError e) = True"
| "neutral_event RequestClose = True"

definition tar_inv :: "topic_alias_recv \<Rightarrow> bool" where
  "tar_inv t \<longleftrightarrow> (\<forall>a topic. tar_aliases t a = Some topic \<longrightarrow> topic \<noteq> [] \<and> 1 \<le> a \<and> a \<le> tar_max_alias t)"

text \<open>A packet builder holds the bytes of an unfinished packet.\<close>

definition builder_ok :: "packet_builder \<Rightarrow> bool" where
  "builder_ok pb \<longleftrightarrow> (\<exists>p. frame p = Frame_Pending \<and> pb = pb_after p)"

lemma builder_ok_new [simp]: "builder_ok pb_new"
  unfolding builder_ok_def by (rule exI [of _ "[]"]) simp

lemma feed_from_ok:
  assumes "builder_ok pb" and "pos d \<le> length (inner d)"
  shows "\<exists>res pb' d'. feed pb d = Ret (res, pb', d') \<and> builder_ok pb' \<and> inner d' = inner d \<and> pos d' \<le> length (inner d)
    \<and> (pos d < length (inner d) \<longrightarrow> pos d < pos d') \<and> (res = Incomplete \<longrightarrow> pos d' = length (inner d))"
proof -
  obtain p where p: "frame p = Frame_Pending" "pb = pb_after p" using assms(1) by (auto simp: builder_ok_def)
  note f = feed_outcome_correct [OF p(1) assms(2), folded p(2)]
  show ?thesis
  proof (cases "frame (p @ unread d) = Frame_Pending")
    case True
    then show ?thesis using f assms(2) by (auto simp: feed_outcome_def builder_ok_def)
  next
    case False
    note g = frame_used_gt [OF p(1) False]
    show ?thesis using f g assms(2) False by (cases "frame (p @ unread d)") (auto simp: feed_outcome_def)
  qed
qed

lemma feed_keeps_ok: "builder_ok pb \<Longrightarrow> feed pb d = Ret (res, pb', d') \<Longrightarrow> builder_ok pb'"
  using feed_from_ok [of pb d] by (cases "pos d \<le> length (inner d)") (auto simp: feed_def)

definition tables_inv :: "'p::len word connection \<Rightarrow> bool" where
  "tables_inv c \<longleftrightarrow> builder_ok (cn_packet_builder c) \<and> store_inv (cn_store c) \<and> pred_option tas_inv (cn_topic_alias_send c)
     \<and> pred_option tar_inv (cn_topic_alias_recv c)"

definition neutral_update :: "'p::len word connection \<Rightarrow> 'p word connection \<Rightarrow> bool" where
  "neutral_update c c' \<longleftrightarrow> cn_role c' = cn_role c \<and> cn_packet_builder c' = cn_packet_builder c \<and> cn_pid_man c' = cn_pid_man c \<and> (\<forall>k. timer_flag k c' = timer_flag k c)
     \<and> (cn_protocol_version c = Undetermined \<or> cn_protocol_version c' = cn_protocol_version c)
     \<and> (tables_inv c \<longrightarrow> tables_inv c')"

lemma timer_kind_all: "(\<forall>k. P k) \<longleftrightarrow> P PingreqSend \<and> P PingreqRecv \<and> P PingrespRecv"
  by (metis timer_kind.exhaust)

lemma tar_new_inv [simp]: "tar_inv (tar_new m)"
  by (simp add: tar_inv_def tar_new_def)

lemma tar_insert_inv: "tar_insert_or_update t topic a = Ret t' \<Longrightarrow> tar_inv t \<Longrightarrow> tar_inv t'"
  by (fastforce simp: tar_insert_or_update_def tar_inv_def rassert_def split: if_splits)

lemma tas_new_inv: "tas_new m = Ret t \<Longrightarrow> tas_inv t"
  using tas_new_zero_panics tas_new_ok [of m] by (cases "m = 0") (auto simp: one_le_word)

lemma tas_insert_inv:
  assumes "tas_insert_or_update t topic a = Ret t'" and "tas_inv t"
  shows "tas_inv t'"
proof -
  have "topic \<noteq> [] \<and> 1 \<le> a \<and> a \<le> tas_max_alias t"
    using assms(1) by (auto simp: tas_insert_or_update_def rassert_def split: if_splits)
  then show ?thesis using assms tas_insert_ok [of t topic a] by auto
qed

lemma store_add_inv:
  assumes "store_add p s = Ret (Ok u, s')" and "sp_response_packet p = Ret r" and "store_inv s"
  shows "store_inv s'"
  using assms store_inv_add(1) [of s _ p]
  by (auto simp: store_add_def rbind_eq_Ret storable_def store_lookup_def split: if_splits)

lemma unwrap_res_eq_Ret: "unwrap_res r = Ret x \<longleftrightarrow> r = Ok x"
  by (cases r) simp_all

named_theorems neutral_simps
lemmas [neutral_simps] = neutral_update_def tables_inv_def timer_kind_all

section \<open>The handlers of a relation\<close>

locale handler_relation =
  fixes R :: "'p::len word connection \<Rightarrow> 'p word event list \<Rightarrow> 'p word connection \<Rightarrow> bool"
  assumes R_append: "R c es c' \<Longrightarrow> R c' es' c'' \<Longrightarrow> R c (es @ es') c''"
    and R_events: "list_all neutral_event es \<Longrightarrow> R c es c"
    and R_update: "neutral_update c c' \<Longrightarrow> R c [] c'"
    and R_arm: "R c [RequestTimerReset k ms] (set_timer k True c)"
    and R_disarm: "timer_flag k c \<Longrightarrow> R c [RequestTimerCancel k] (set_timer k False c)"
    and R_release: "obeys R (release_packet_id pid)"
begin

lemma seq [obeys_intros]:
  assumes "obeys R h" and "obeys R k"
  shows "obeys R (seq h k)"
  unfolding obeys_def
proof (intro allI impI)
  fix c es c''
  assume "seq h k c = Ret (es, c'')"
  then obtain es1 c' es2 where "h c = Ret (es1, c')" "k c' = Ret (es2, c'')" "es = es1 @ es2"
    by (auto simp: seq_def rbind_eq_Ret)
  then show "R c es c''" using R_append obeysD [OF assms(1)] obeysD [OF assms(2)] by blast
qed

lemma emit_neutral: "list_all neutral_event es \<Longrightarrow> obeys R (emit es)"
  by (simp add: obeys_emit R_events)

lemma emit_one [obeys_intros]: "neutral_event e \<Longrightarrow> obeys R (emit [e])"
  by (simp add: emit_neutral)

lemma emit_none [obeys_intros]: "obeys R (emit [])"
  by (simp add: emit_neutral)

lemma emit_two [obeys_intros]: "neutral_event e \<Longrightarrow> neutral_event e' \<Longrightarrow> obeys R (emit [e, e'])"
  by (simp add: emit_neutral)

lemma steps_Nil [obeys_intros]: "obeys R (steps [])"
  by (simp add: obeys_def emit_def R_events)

lemma steps_Cons [obeys_intros]: "obeys R h \<Longrightarrow> obeys R (steps hs) \<Longrightarrow> obeys R (steps (h # hs))"
  by (simp add: seq)

lemma steps_map [obeys_intros]: "(\<And>x. obeys R (f x)) \<Longrightarrow> obeys R (steps (map f xs))"
  by (induction xs) (auto intro: obeys_intros seq steps_Nil steps_Cons)

lemma upd_neutral [obeys_intros]: "(\<And>c. neutral_update c (f c)) \<Longrightarrow> obeys R (upd f)"
  by (simp add: obeys_upd R_update)

lemma arm [obeys_intros]: "obeys R (arm_timer k ms)"
  by (simp add: obeys_def arm_timer_def handler_defs R_arm)

lemma stop [obeys_intros]: "obeys R (stop_timer k)"
  by (auto simp: obeys_def stop_timer_def handler_defs R_disarm R_events)

lemmas [obeys_intros] = R_release

lemma neutral_handler:
  assumes "\<And>c es c'. h c = Ret (es, c') \<Longrightarrow> es = [] \<and> neutral_update c c'"
  shows "obeys R h"
  using assms R_update by (fastforce simp: obeys_def)

lemma seq_at:
  assumes "neutral_update c (f c)" and "obeys R h" and "seq (upd f) h c = Ret (es, c')"
  shows "R c es c'"
proof -
  have "h (f c) = Ret (es, c')" using assms(3) by (auto simp: seq_def upd_def rbind_eq_Ret)
  then show ?thesis using R_append [OF R_update [OF assms(1)]] obeysD [OF assms(2)] by fastforce
qed

text \<open>The shared steps.\<close>

lemma shared [obeys_intros]:
  "obeys R cancel_timers" "obeys R refresh_pingreq_recv" "obeys R send_post_process"
  "obeys R (set_pingreq_send_interval i)" "neutral_event (RequestSendPacket p r) \<Longrightarrow> obeys R (request_send p r)"
  "obeys R (reject_with_release e q)" "obeys R publish_done"
  unfolding cancel_timers_def refresh_pingreq_recv_def send_post_process_def set_pingreq_send_interval_def
    request_send_def reject_with_release_def publish_done_def
  by (intro obeys_intros; simp add: neutral_simps)+

text \<open>Steps that touch the tables.\<close>

lemma store_or_panic [obeys_intros]:
  assumes "\<exists>r. sp_response_packet p = Ret r"
  shows "obeys R (store_or_panic p)"
proof (rule neutral_handler)
  fix c es c'
  assume "store_or_panic p c = Ret (es, c')"
  then obtain u st where "store_add p (cn_store c) = Ret (Ok u, st)" "es = []" "c' = c\<lparr>cn_store := st\<rparr>"
    by (auto simp: store_or_panic_def rbind_eq_Ret unwrap_res_eq_Ret)
  then show "es = [] \<and> neutral_update c c'"
    using store_add_inv assms by (auto simp: neutral_simps)
qed

lemma store_v3 [obeys_intros]: "obeys R (calls (rbind (sp_of_v3_publish p) unwrap_res) store_or_panic)"
  by (rule obeys_calls_Ret, rule store_or_panic)
     (auto simp: rbind_eq_Ret unwrap_res_eq_Ret sp_of_v3_publish_def split: if_splits qos.splits)

lemma store_v5 [obeys_intros]:
  "obeys R (calls (rbind m (\<lambda>p. rbind (sp_of_v5_publish (v5_publish_set_dup p True)) unwrap_res)) store_or_panic)"
  by (rule obeys_calls_Ret, rule store_or_panic)
     (auto simp: rbind_eq_Ret unwrap_res_eq_Ret sp_of_v5_publish_def split: if_splits qos.splits)

lemma erase_stored [obeys_intros]: "obeys R (erase_stored r pid)"
proof (rule neutral_handler)
  fix c es c'
  assume "erase_stored r pid c = Ret (es, c')"
  then obtain b st where "store_erase r pid (cn_store c) = Ret (b, st)" "es = []" "c' = c\<lparr>cn_store := st\<rparr>"
    by (auto simp: erase_stored_def rbind_eq_Ret)
  then show "es = [] \<and> neutral_update c c'"
    using store_erase_ok [of "cn_store c" r pid] by (auto simp: neutral_simps)
qed

lemma tas_register [obeys_intros]: "obeys R (tas_register topic ta)"
proof (rule neutral_handler)
  fix c es c'
  assume "tas_register topic ta (c :: 'p word connection) = Ret (es, c')"
  then show "es = [] \<and> neutral_update c c'"
    by (auto simp: tas_register_def handler_defs rbind_eq_Ret neutral_simps split: option.splits dest: tas_insert_inv)
qed

lemma validated [obeys_intros]:
  assumes "obeys R h" and "\<And>t. obeys R (k t)"
  shows "obeys R (\<lambda>c. case validate_topic_alias ta c of (None, c) \<Rightarrow> h c | (Some t, c) \<Rightarrow> k t c)"
  unfolding obeys_def
proof (intro allI impI)
  fix c es c''
  assume run: "(case validate_topic_alias ta c of (None, c) \<Rightarrow> h c | (Some t, c) \<Rightarrow> k t c) = Ret (es, c'')"
  obtain r c' where v: "validate_topic_alias ta c = (r, c')" by force
  then have "neutral_update c c'"
    by (auto simp: validate_topic_alias_def neutral_simps split: option.splits if_splits prod.splits dest: tas_get_ok(1))
  then have "R c [] c'" by (rule R_update)
  moreover have "R c' es c''"
    using run v obeysD [OF assms(1)] obeysD [OF assms(2)] by (cases r) auto
  ultimately show "R c es c''" using R_append [of c "[]" c' es c''] by simp
qed

section \<open>Sending\<close>

lemma await_response [obeys_intros]: "obeys R (await_response q pid)"
  unfolding await_response_def by (intro obeys_intros; simp add: neutral_simps)

lemma send_if_connected [obeys_intros]: "obeys R (send_if_connected p r)"
  unfolding send_if_connected_def by (intro obeys_intros) simp

lemma unless [obeys_intros]: "obeys R h \<Longrightarrow> obeys R (unless P e h)"
  unfolding unless_def by (intro obeys_intros) simp_all

lemma send_when_connected [obeys_intros]: "obeys R (send_when_connected p)"
  unfolding send_when_connected_def by (intro obeys_intros) simp

lemma send_pubrel [obeys_intros]:
  "\<exists>r. sp_response_packet st = Ret r \<Longrightarrow> obeys R (send_pubrel pid st p)"
  unfolding send_pubrel_def by (intro obeys_intros; simp add: neutral_simps)

lemma v5_publish_parts [obeys_intros]:
  "(\<And>b r. obeys R (k1 b r)) \<Longrightarrow> obeys R (v5_publish_store p pid q k1)"
  "(\<And>p. obeys R (k2 p)) \<Longrightarrow> obeys R (v5_publish_auto_alias p k2)"
  "obeys R k3 \<Longrightarrow> obeys R (v5_publish_count p pid_opt k3)"
  unfolding v5_publish_store_def v5_publish_auto_alias_def v5_publish_count_def
  by (intro obeys_intros; simp add: neutral_simps)+

lemma v5_publish_alias [obeys_intros]:
  "(\<And>p. obeys R (k p)) \<Longrightarrow> obeys R (v5_publish_alias p b k)"
  unfolding v5_publish_alias_def by (intro obeys_intros) 

lemma send_identified [obeys_intros]:
  "(\<And>c. neutral_update c (f c)) \<Longrightarrow> obeys R (send_identified pid f p)"
  unfolding send_identified_def by (intro obeys_intros; simp)

lemma send_pingreq [obeys_intros]: "obeys R (send_pingreq p)"
  unfolding send_pingreq_def by (intro obeys_intros) simp

lemma send_disconnect [obeys_intros]: "obeys R (send_disconnect p)"
  unfolding send_disconnect_def by (intro obeys_intros; simp add: neutral_simps)

lemma close_refused [obeys_intros]: "obeys R close_refused"
  unfolding close_refused_def by (intro obeys_intros; simp add: neutral_simps)

lemma send_v3 [obeys_intros]:
  "obeys R (process_send_v3_publish p1)" "obeys R (process_send_v3_puback p2)" "obeys R (process_send_v3_pubrec p3)"
  "obeys R (process_send_v3_pubrel p4)" "obeys R (process_send_v3_pubcomp p5)" "obeys R (process_send_v3_subscribe p6)"
  "obeys R (process_send_v3_unsubscribe p7)" "obeys R (process_send_v3_suback p8)" "obeys R (process_send_v3_unsuback p9)"
  "obeys R (process_send_v3_pingreq p10)" "obeys R (process_send_v3_pingresp p11)" "obeys R (process_send_v3_disconnect p12)"
  unfolding process_send_v3_publish_def process_send_v3_puback_def process_send_v3_pubrec_def process_send_v3_pubrel_def
    process_send_v3_pubcomp_def process_send_v3_subscribe_def process_send_v3_unsubscribe_def process_send_v3_suback_def
    process_send_v3_unsuback_def process_send_v3_pingreq_def process_send_v3_pingresp_def process_send_v3_disconnect_def
  by (intro obeys_intros; simp add: neutral_simps)+

lemma send_v5 [obeys_intros]:
  "obeys R (process_send_v5_publish p1)" "obeys R (process_send_v5_puback p2)" "obeys R (process_send_v5_pubrec p3)"
  "obeys R (process_send_v5_pubrel p4)" "obeys R (process_send_v5_pubcomp p5)" "obeys R (process_send_v5_subscribe p6)"
  "obeys R (process_send_v5_unsubscribe p7)" "obeys R (process_send_v5_suback p8)" "obeys R (process_send_v5_unsuback p9)"
  "obeys R (process_send_v5_pingreq p10)" "obeys R (process_send_v5_pingresp p11)" "obeys R (process_send_v5_disconnect p12)"
  "obeys R (process_send_v5_auth p13)"
  unfolding process_send_v5_publish_def process_send_v5_puback_def process_send_v5_pubrec_def process_send_v5_pubrel_def
    process_send_v5_pubcomp_def process_send_v5_subscribe_def process_send_v5_unsubscribe_def process_send_v5_suback_def
    process_send_v5_unsuback_def process_send_v5_pingreq_def process_send_v5_pingresp_def process_send_v5_disconnect_def
    process_send_v5_auth_def Let_def
  by (intro obeys_intros; simp add: neutral_simps)+

section \<open>Receiving\<close>

lemma on_parse [obeys_intros]: "(\<And>k. obeys R (h k)) \<Longrightarrow> (\<And>e. obeys R (err e)) \<Longrightarrow> obeys R (on_parse m h err)"
  unfolding on_parse_def by (intro obeys_intros)

lemma errors [obeys_intros]:
  "obeys R (handle_v3_error e)" "obeys R (handle_v5_error e)" "obeys R (v5_error_when_connected e)"
  unfolding v5_error_when_connected_def handle_v3_error_def handle_v5_error_def
  by (intro obeys_intros; simp)+

lemma notify_received [obeys_intros]: "obeys R (notify_received p)"
  unfolding notify_received_def by (intro obeys_intros) simp

lemma received [obeys_intros]:
  "obeys R (v3_ack_received r pid p)" "obeys R (v5_ack_received r pid p)"
  "(\<And>e. obeys R (err e)) \<Longrightarrow> obeys R (suback_received pid p err)"
  "(\<And>e. obeys R (err e)) \<Longrightarrow> obeys R (unsuback_received pid p err)"
  "obeys R (pingresp_received p)"
  unfolding v3_ack_received_def v5_ack_received_def suback_received_def unsuback_received_def pingresp_received_def
  by (intro obeys_intros; simp add: neutral_simps)+

lemma v3_publish_received [obeys_intros]: "obeys R (v3_publish_received p)"
  unfolding v3_publish_received_def by (intro obeys_intros; simp add: neutral_simps)

lemma v5_recv_qos [obeys_intros]:
  "(\<And>a b d. obeys R (k a b d)) \<Longrightarrow> obeys R (v5_recv_qos p k)"
  unfolding v5_recv_qos_def check_receive_maximum_def by (intro obeys_intros; simp add: neutral_simps)

lemma tar_register [obeys_intros]:
  assumes "obeys R h" and "obeys R k"
  shows "obeys R (reads cn_topic_alias_recv (\<lambda>tar_opt. case tar_opt of
       None \<Rightarrow> h
     | Some tar \<Rightarrow> if a = 0 \<or> a > tar_max tar then h
         else calls (tar_insert_or_update tar topic a) (\<lambda>tar. seq (upd (\<lambda>c. c\<lparr>cn_topic_alias_recv := Some tar\<rparr>)) k)))"
    (is "obeys R ?reg")
  unfolding obeys_def
proof (intro allI impI)
  fix c es c''
  assume run: "?reg c = Ret (es, c'')"
  show "R c es c''"
  proof (cases "h c = Ret (es, c'')")
    case True
    then show ?thesis by (rule obeysD [OF assms(1)])
  next
    case False
    then obtain t t' where t: "cn_topic_alias_recv c = Some t" "tar_insert_or_update t topic a = Ret t'"
      "seq (upd (\<lambda>c. c\<lparr>cn_topic_alias_recv := Some t'\<rparr>)) k c = Ret (es, c'')"
      using run by (auto simp: reads_def calls_def rbind_eq_Ret split: option.splits if_splits)
    then have "neutral_update c (c\<lparr>cn_topic_alias_recv := Some t'\<rparr>)"
      by (auto simp: neutral_simps dest: tar_insert_inv)
    then show ?thesis using seq_at [OF _ assms(2) t(3)] by simp
  qed
qed

lemma v5_recv_alias [obeys_intros]: "(\<And>p. obeys R (k p)) \<Longrightarrow> obeys R (v5_recv_alias p k)"
  unfolding v5_recv_alias_def Let_def by (intro tar_register obeys_intros)

lemma v5_publish_received [obeys_intros]: "obeys R (v5_publish_received p)"
  unfolding v5_publish_received_def by (intro obeys_intros; simp add: neutral_simps)

lemma recv_v3 [obeys_intros]:
  "obeys R (process_recv_v3_publish raw)" "obeys R (process_recv_v3_puback raw)" "obeys R (process_recv_v3_pubrec raw)"
  "obeys R (process_recv_v3_pubrel raw)" "obeys R (process_recv_v3_pubcomp raw)" "obeys R (process_recv_v3_subscribe raw)"
  "obeys R (process_recv_v3_suback raw)" "obeys R (process_recv_v3_unsubscribe raw)" "obeys R (process_recv_v3_unsuback raw)"
  "obeys R (process_recv_v3_pingreq raw)" "obeys R (process_recv_v3_pingresp raw)" "obeys R (process_recv_v3_disconnect raw)"
  unfolding process_recv_v3_publish_def process_recv_v3_puback_def process_recv_v3_pubrec_def process_recv_v3_pubrel_def
    process_recv_v3_pubcomp_def process_recv_v3_subscribe_def process_recv_v3_suback_def process_recv_v3_unsubscribe_def
    process_recv_v3_unsuback_def process_recv_v3_pingreq_def process_recv_v3_pingresp_def process_recv_v3_disconnect_def
  by (intro obeys_intros; simp add: neutral_simps)+

lemma recv_v5 [obeys_intros]:
  "obeys R (process_recv_v5_publish raw)" "obeys R (process_recv_v5_puback raw)" "obeys R (process_recv_v5_pubrec raw)"
  "obeys R (process_recv_v5_pubrel raw)" "obeys R (process_recv_v5_pubcomp raw)" "obeys R (process_recv_v5_subscribe raw)"
  "obeys R (process_recv_v5_suback raw)" "obeys R (process_recv_v5_unsubscribe raw)" "obeys R (process_recv_v5_unsuback raw)"
  "obeys R (process_recv_v5_pingreq raw)" "obeys R (process_recv_v5_pingresp raw)" "obeys R (process_recv_v5_disconnect raw)"
  "obeys R (process_recv_v5_auth raw)"
  unfolding process_recv_v5_publish_def process_recv_v5_puback_def process_recv_v5_pubrec_def process_recv_v5_pubrel_def
    process_recv_v5_pubcomp_def process_recv_v5_subscribe_def process_recv_v5_suback_def process_recv_v5_unsubscribe_def
    process_recv_v5_unsuback_def process_recv_v5_pingreq_def process_recv_v5_pingresp_def process_recv_v5_disconnect_def
    process_recv_v5_auth_def
  by (intro obeys_intros; simp add: neutral_simps)+

lemma timeout [obeys_intros]: "obeys R keep_alive_timeout"
  unfolding keep_alive_timeout_def by (intro obeys_intros) simp

lemma ping_now [obeys_intros]:
  "obeys R (branch (\<lambda>c. cn_status c = Connected)
     (reads cn_protocol_version (\<lambda>version. case version of
          V3_1_1 \<Rightarrow> calls v3_pingreq_new process_send_v3_pingreq
        | V5_0 \<Rightarrow> calls v5_pingreq_new process_send_v5_pingreq
        | Undetermined \<Rightarrow> (\<lambda>_. Panic Unreachable_Code)))
     (emit []))"
  by (intro obeys_intros)

text \<open>A timer that fired is not armed any more; the rest of the handler obeys the relation.\<close>

lemma timer_fired:
  assumes "notify_timer_fired k c = Ret (es, c')"
  shows "R (set_timer k False c) es c'"
proof -
  have flags: "set_timer PingreqSend False = (\<lambda>c. c\<lparr>cn_pingreq_send_set := False\<rparr>)"
    "set_timer PingreqRecv False = (\<lambda>c. c\<lparr>cn_pingreq_recv_set := False\<rparr>)"
    "set_timer PingrespRecv False = (\<lambda>c. c\<lparr>cn_pingresp_recv_set := False\<rparr>)"
    by (simp_all add: fun_eq_iff)
  obtain h where h: "notify_timer_fired k = seq (upd (set_timer k False)) (steps [h])" and o: "obeys R h"
    using ping_now timeout
    by (cases k; simp only: notify_timer_fired_def timer_kind.case flags steps.simps(2); blast)
  have "steps [h] (set_timer k False c) = Ret (es, c')"
    using assms unfolding h by (auto simp: seq_def upd_def rbind_eq_Ret simp del: steps.simps)
  then show ?thesis using obeysD [OF steps_Cons [OF o steps_Nil]] by blast
qed

lemma drain [obeys_intros]: "(\<And>c. neutral_update c (f c)) \<Longrightarrow> obeys R (drain_ids order sel f)"
  unfolding drain_ids_def by (intro obeys_intros; simp)

lemma closed [obeys_intros]: "obeys R (notify_closed order)"
  unfolding notify_closed_def by (intro obeys_intros; simp add: neutral_simps)

lemma for_role [obeys_intros]: "obeys R h \<Longrightarrow> obeys R (for_role P h)"
  unfolding for_role_def by (intro obeys_intros)

text \<open>The entry points on every packet but CONNECT and CONNACK.\<close>

lemma send_in_session:
  assumes "packet_type_u8 (gp_packet_type packet) \<noteq> 1" and "packet_type_u8 (gp_packet_type packet) \<noteq> 2"
  shows "obeys R (send packet)"
  using assms unfolding send_def send_dispatch_def by (cases packet; simp; intro obeys_intros)

lemma dispatch_in_session [obeys_intros]:
  assumes "t \<noteq> 1" and "t \<noteq> 2"
  shows "obeys R (dispatch_v3 t raw)" "obeys R (dispatch_v5 t raw)" "obeys R (dispatch_undetermined t raw)"
  unfolding dispatch_v3_def dispatch_v5_def dispatch_undetermined_def if_not_P [OF assms(1)] if_not_P [OF assms(2)]
  by (intro obeys_intros; simp)+

lemma recv_in_session:
  assumes "rp_packet_type raw \<noteq> 1" and "rp_packet_type raw \<noteq> 2"
  shows "obeys R (process_recv_packet raw)"
  unfolding process_recv_packet_def Let_def by (intro obeys_intros assms) simp_all

end

section \<open>CONNECT and CONNACK\<close>

locale session_relation = handler_relation R
  for R :: "'p::len word connection \<Rightarrow> 'p word event list \<Rightarrow> 'p word connection \<Rightarrow> bool" +
  assumes R_clear: "R c [] (clear_store_related c)"
    and R_resend: "obeys R send_stored"
begin

lemma clear [obeys_intros]: "obeys R (upd clear_store_related)"
  by (simp add: obeys_upd R_clear)

lemmas [obeys_intros] = R_resend

lemma tas_created [obeys_intros]: "obeys R (calls (tas_new v) (\<lambda>tas. upd (\<lambda>c. c\<lparr>cn_topic_alias_send := Some tas\<rparr>)))"
  by (rule obeys_calls_Ret, rule upd_neutral) (auto simp: neutral_simps dest: tas_new_inv)

lemma send_connect_props [obeys_intros]: "obeys R (send_connect_props props)"
proof (induction props)
  case (Cons p props)
  show ?case by (cases p; simp split del: if_split; intro Cons.IH obeys_intros; simp add: neutral_simps)
qed (simp add: emit_none)

lemma send_connack_props [obeys_intros]: "obeys R (send_connack_props props)"
proof (induction props)
  case (Cons p props)
  show ?case by (cases p; simp split del: if_split; intro Cons.IH obeys_intros; simp add: neutral_simps)
qed (simp add: emit_none)

lemma recv_connect_props [obeys_intros]: "obeys R (recv_connect_props props)"
proof (induction props)
  case (Cons p props)
  show ?case by (cases p; simp split del: if_split; intro Cons.IH obeys_intros; simp add: neutral_simps)
qed (simp add: emit_none)

lemma recv_connack_props [obeys_intros]: "obeys R (recv_connack_props props)"
proof (induction props)
  case (Cons p props)
  show ?case by (cases p; simp add: Let_def split del: if_split; intro Cons.IH obeys_intros; simp add: neutral_simps)
qed (simp add: emit_none)

lemma send_session [obeys_intros]:
  "obeys R (process_send_v3_connect p1)" "obeys R (process_send_v5_connect p2)"
  "obeys R (process_send_v3_connack p3)" "obeys R (process_send_v5_connack p4)"
  unfolding process_send_v3_connect_def process_send_v5_connect_def process_send_v3_connack_def process_send_v5_connack_def
  by (intro obeys_intros; simp add: neutral_simps initialize_def)+

lemma recv_session [obeys_intros]:
  "obeys R (process_recv_v3_connect raw)" "obeys R (process_recv_v5_connect raw)"
  "obeys R (process_recv_v3_connack raw)" "obeys R (process_recv_v5_connack raw)"
  unfolding process_recv_v3_connect_def process_recv_v5_connect_def process_recv_v3_connack_def process_recv_v5_connack_def
    resume_or_clear_def
  by (intro obeys_intros; simp add: neutral_simps initialize_def)+

lemma send: "obeys R (send packet)"
  unfolding send_def send_dispatch_def by (cases packet; simp; intro obeys_intros)

lemma dispatch_determined [obeys_intros]: "obeys R (dispatch_v3 t raw)" "obeys R (dispatch_v5 t raw)"
  unfolding dispatch_v3_def dispatch_v5_def by (intro obeys_intros; simp)+

lemma dispatch_undetermined:
  assumes "cn_protocol_version c = Undetermined" and "dispatch_undetermined t raw c = Ret (es, c')"
  shows "R c es c'"
proof -
  have n: "neutral_update c (c\<lparr>cn_protocol_version := v\<rparr>)" for v
    using assms(1) by (simp add: neutral_simps)
  have e: "obeys R (emit [NotifyError x])" for x by (intro obeys_intros) simp
  show ?thesis
    using assms(2) obeysD [OF e] seq_at [where f = "\<lambda>c. c\<lparr>cn_protocol_version := V3_1_1\<rparr>", OF n recv_session(1)]
      seq_at [where f = "\<lambda>c. c\<lparr>cn_protocol_version := V5_0\<rparr>", OF n recv_session(2)]
    by (auto simp: dispatch_undetermined_def calls_def Let_def rbind_eq_Ret split: if_splits)
qed

lemma dispatch [obeys_intros]:
  "obeys R (reads cn_protocol_version (\<lambda>version. case version of
       V3_1_1 \<Rightarrow> dispatch_v3 t raw | V5_0 \<Rightarrow> dispatch_v5 t raw | Undetermined \<Rightarrow> dispatch_undetermined t raw))"
  using dispatch_undetermined obeysD [OF dispatch_determined(1)] obeysD [OF dispatch_determined(2)]
  by (auto simp: obeys_def reads_def split: version.splits)

lemma process_recv_packet [obeys_intros]: "obeys R (process_recv_packet raw)"
  unfolding process_recv_packet_def Let_def by (intro obeys_intros) simp_all

end

section \<open>Receiving bytes\<close>

text \<open>The packet builder changes between two packets only, before the handler of a packet runs.\<close>

locale byte_relation = session_relation R
  for R :: "'p::len word connection \<Rightarrow> 'p word event list \<Rightarrow> 'p word connection \<Rightarrow> bool" +
  assumes R_feed: "(builder_ok (cn_packet_builder c) \<Longrightarrow> builder_ok pb) \<Longrightarrow> R c [] (c\<lparr>cn_packet_builder := pb\<rparr>)"
begin

lemma recv:
  assumes "recv data c = Ret (es, c', data')"
  shows "R c es c'"
proof -
  obtain res pb where f: "feed (cn_packet_builder c) data = Ret (res, pb, data')"
    and h: "(case res of Complete raw_packet \<Rightarrow> process_recv_packet raw_packet | Incomplete \<Rightarrow> emit []
      | Build_Error e \<Rightarrow> steps [cancel_timers, emit [RequestClose, NotifyError e]]) (c\<lparr>cn_packet_builder := pb\<rparr>) = Ret (es, c')"
      (is "?h (c\<lparr>cn_packet_builder := pb\<rparr>) = _")
    using assms by (auto simp: recv_def rbind_eq_Ret)
  have "obeys R ?h" by (cases res; simp del: steps.simps; intro obeys_intros; simp)
  moreover have "R c [] (c\<lparr>cn_packet_builder := pb\<rparr>)" using R_feed feed_keeps_ok [OF _ f] by blast
  ultimately show ?thesis using R_append obeysD h by fastforce
qed

end

section \<open>The builder is left alone\<close>

definition keeps_builder :: "'p::len word connection \<Rightarrow> 'p word event list \<Rightarrow> 'p word connection \<Rightarrow> bool" where
  "keeps_builder c es c' \<longleftrightarrow> cn_packet_builder c' = cn_packet_builder c"

lemma keeps_builder_timer [simp]: "cn_packet_builder (set_timer k b c) = cn_packet_builder c"
  by (cases k) simp_all

interpretation builder: session_relation keeps_builder
  by unfold_locales
     (auto simp: keeps_builder_def neutral_update_def obeys_def release_packet_id_def clear_store_related_def
        send_stored_def rbind_eq_Ret split: if_splits)

end
