(* ===== verification/Connection_Invariants.thy ===== *)
theory Connection_Invariants
  imports Connection_Events
begin

text \<open>
  The public operations of a connection as a step relation, the states that an application can
  reach with them, and what holds in all of these: the tables are well-formed, the
  timers and the packet identifiers are those that the events tell.
\<close>

section \<open>Steps of an application\<close>

datatype 't call =
    Call_Send "'t packet"
  | Call_Recv cursor
  | Call_Timer timer_kind
  | Call_Closed
  | Call_Interval "u64 option"
  | Call_Setting
  | Call_Acquire
  | Call_Register 't
  | Call_Release 't
  | Call_Restore "'t store_packet list"

inductive setting :: "'t connection \<Rightarrow> 't connection \<Rightarrow> bool" where
  "setting c (set_offline_publish b c)"
| "setting c (set_auto_pub_response b c)"
| "setting c (set_auto_ping_response b c)"
| "setting c (set_auto_map_topic_alias_send b c)"
| "setting c (set_auto_replace_topic_alias_send b c)"
| "setting c (set_pingresp_recv_timeout ms c)"
| "setting c (restore_qos2_publish_handled pids c)"

inductive api_step ::
  "'p::len word connection \<Rightarrow> 'p word call \<Rightarrow> 'p word event list \<Rightarrow> 'p word connection \<Rightarrow> bool" where
  "send packet c = Ret (es, c') \<Longrightarrow> api_step c (Call_Send packet) es c'"
| "recv data c = Ret (es, c', data') \<Longrightarrow> api_step c (Call_Recv data) es c'"
| "notify_timer_fired k c = Ret (es, c') \<Longrightarrow> api_step c (Call_Timer k) es c'"
| "notify_closed order c = Ret (es, c') \<Longrightarrow> api_step c Call_Closed es c'"
| "set_pingreq_send_interval ms c = Ret (es, c') \<Longrightarrow> api_step c (Call_Interval ms) es c'"
| "setting c c' \<Longrightarrow> api_step c Call_Setting [] c'"
| "acquire_packet_id c = Ret (r, c') \<Longrightarrow> api_step c Call_Acquire [] c'"
| "register_packet_id pid c = Ret (u, c') \<Longrightarrow> api_step c (Call_Register pid) [] c'"
| "release_packet_id pid c = Ret (es, c') \<Longrightarrow> api_step c (Call_Release pid) es c'"
| "restore_packets ps c = Ret c' \<Longrightarrow> api_step c (Call_Restore ps) [] c'"

text \<open>The states that are reached from a new connection, with the calls made and their events.\<close>

inductive reachable ::
  "role \<Rightarrow> version \<Rightarrow> ('p::len word call \<times> 'p word event list) list \<Rightarrow> 'p word connection \<Rightarrow> bool"
  for role version where
  reachable_new: "conn_new role version = Ret c \<Longrightarrow> reachable role version [] c"
| reachable_step: "reachable role version trace c \<Longrightarrow> api_step c call es c' \<Longrightarrow>
    reachable role version (trace @ [(call, es)]) c'"

inductive_cases setting_cases: "setting c c'"
inductive_cases api_step_cases: "api_step c call es c'"

section \<open>What the shared operations do to identifiers and store\<close>

lemma release_id_inv:
  assumes "pim_inv m" and "release_id m pid = Ret m'"
  shows "pim_inv m'" and "used_ids m' = used_ids m - {pid}"
proof -
  have "pim_inv m' \<and> used_ids m' = used_ids m - {pid}"
  proof (cases "pid \<in> used_ids m")
    case True
    then show ?thesis using release_ok [OF assms(1) True] assms(2) by auto
  next
    case False
    then show ?thesis
      using release_zero_panics [OF assms(1)] release_free_id [OF assms(1) False] assms
      by (cases "pid = 0") (auto split: if_splits)
  qed
  then show "pim_inv m'" and "used_ids m' = used_ids m - {pid}" by blast+
qed

primrec resend_event :: "'t event \<Rightarrow> bool" where
  "resend_event (NotifyPacketReceived p) = False"
| "resend_event (RequestSendPacket p r) = True"
| "resend_event (NotifyPacketIdReleased i) = True"
| "resend_event (RequestTimerReset k ms) = False"
| "resend_event (RequestTimerCancel k) = False"
| "resend_event (NotifyError e) = False"
| "resend_event RequestClose = False"

lemma send_stored_visits:
  "store_visit (send_stored_visit limit) xs rm (m, es0) = Ret (rm', m', es) \<Longrightarrow>
   \<exists>new. es = es0 @ new \<and> list_all resend_event new \<and> (pim_inv m \<longrightarrow> pim_inv m')"
proof (induction xs arbitrary: rm m es0)
  case (Cons x xs)
  obtain i p where x: "x = (i, p)" by force
  from Cons.prems obtain keep m1 es1 where v: "send_stored_visit limit p (m, es0) = Ret (keep, m1, es1)"
    and rest: "store_visit (send_stored_visit limit) xs (if keep then rm else rm @ [i]) (m1, es1) = Ret (rm', m', es)"
    by (auto simp: x rbind_eq_Ret)
  from v have "\<exists>new. es1 = es0 @ new \<and> list_all resend_event new \<and> (pim_inv m \<longrightarrow> pim_inv m1)"
    by (auto simp: send_stored_visit_def rbind_eq_Ret release_id_inv split: if_splits)
  then show ?case using Cons.IH [OF rest] by fastforce
qed simp

lemma send_stored_shape:
  assumes "send_stored c = Ret (es, c')"
  shows "list_all resend_event es" and "pim_inv (cn_pid_man c) \<Longrightarrow> pim_inv (cn_pid_man c')"
    and "\<exists>st m. c' = c\<lparr>cn_store := st, cn_pid_man := m\<rparr> \<and> (store_inv (cn_store c) \<longrightarrow> store_inv st)"
proof -
  obtain rm m where v: "store_visit (send_stored_visit (cn_maximum_packet_size_send c)) (st_map (cn_store c)) [] (cn_pid_man c, [])
      = Ret (rm, m, es)"
    and c': "c' = c\<lparr>cn_store := cn_store c\<lparr>st_map := fold AList.delete rm (st_map (cn_store c))\<rparr>, cn_pid_man := m\<rparr>"
    using assms by (auto simp: send_stored_def store_for_each_def rbind_eq_Ret)
  show "list_all resend_event es" and "pim_inv (cn_pid_man c) \<Longrightarrow> pim_inv (cn_pid_man c')"
    using send_stored_visits [OF v] c' by auto
  have "store_inv (s\<lparr>st_map := fold AList.delete ks (st_map s)\<rparr>)" if "store_inv s" for s :: "'a word store" and ks
    using that by (auto simp: store_inv_def fold_delete distinct_map_filter)
  then show "\<exists>st m. c' = c\<lparr>cn_store := st, cn_pid_man := m\<rparr> \<and> (store_inv (cn_store c) \<longrightarrow> store_inv st)"
    unfolding c' by blast
qed

section \<open>The state invariant\<close>

definition conn_inv :: "role \<Rightarrow> version \<Rightarrow> 'p::len word connection \<Rightarrow> bool" where
  "conn_inv role version c \<longleftrightarrow> cn_role c = role
     \<and> (version = Undetermined \<or> cn_protocol_version c = version)
     \<and> pim_inv (cn_pid_man c) \<and> tables_inv c"

definition keeps_inv :: "'p::len word connection \<Rightarrow> 'p word event list \<Rightarrow> 'p word connection \<Rightarrow> bool" where
  "keeps_inv c es c' \<longleftrightarrow> (\<forall>role version. conn_inv role version c \<longrightarrow> conn_inv role version c')"

lemma set_timer_frame [simp]:
  "cn_role (set_timer k b c) = cn_role c" "cn_protocol_version (set_timer k b c) = cn_protocol_version c"
  "cn_pid_man (set_timer k b c) = cn_pid_man c" "cn_status (set_timer k b c) = cn_status c"
  "cn_store (set_timer k b c) = cn_store c" "cn_topic_alias_send (set_timer k b c) = cn_topic_alias_send c"
  "cn_topic_alias_recv (set_timer k b c) = cn_topic_alias_recv c"
  "cn_packet_builder (set_timer k b c) = cn_packet_builder c"
  by (cases k; simp)+

lemma tables_inv_set_timer [simp]: "tables_inv (set_timer k b c) = tables_inv c"
  by (simp add: tables_inv_def)

lemma timer_flag_set [simp]: "timer_flag j (set_timer k b c) = (if j = k then b else timer_flag j c)"
  by (cases j; cases k; simp)

lemma release_packet_id_shape:
  assumes "release_packet_id pid c = Ret (es, c')"
  shows "(es = [] \<and> c' = c) \<or> (es = [NotifyPacketIdReleased pid] \<and> is_used_id (cn_pid_man c) pid
    \<and> (\<exists>m. release_id (cn_pid_man c) pid = Ret m \<and> c' = c\<lparr>cn_pid_man := m\<rparr>))"
  using assms by (auto simp: release_packet_id_def rbind_eq_Ret split: if_splits)

lemma tables_inv_pid_man [simp]: "tables_inv (c\<lparr>cn_pid_man := m\<rparr>) = tables_inv c"
  by (simp add: tables_inv_def)

interpretation inv: byte_relation keeps_inv
proof (unfold_locales, goal_cases)
  case (1 c es c' es' c'')
  then show ?case by (simp add: keeps_inv_def)
next
  case (2 es c)
  show ?case by (simp add: keeps_inv_def)
next
  case (3 c c')
  then show ?case by (auto simp: keeps_inv_def conn_inv_def neutral_update_def)
next
  case (4 c k ms)
  show ?case by (simp add: keeps_inv_def conn_inv_def)
next
  case (5 k c)
  show ?case by (simp add: keeps_inv_def conn_inv_def)
next
  case (6 pid)
  show ?case
    using release_id_inv(1) by (auto simp: obeys_def keeps_inv_def conn_inv_def dest!: release_packet_id_shape)
next
  case (7 c)
  show ?case
    by (auto simp: keeps_inv_def conn_inv_def tables_inv_def clear_store_related_def pim_clear_ok)
next
  case 8
  show ?case
    using send_stored_shape(2,3) by (fastforce simp: obeys_def keeps_inv_def conn_inv_def tables_inv_def)
next
  case (9 c pb)
  then show ?case by (simp add: keeps_inv_def conn_inv_def tables_inv_def)
qed

section \<open>The timers\<close>

text \<open>The armed timers after a list of events; there are none when a timer is cancelled that is not armed.\<close>

fun timers_after :: "'t event list \<Rightarrow> timer_kind set \<Rightarrow> timer_kind set option" where
  "timers_after [] T = Some T"
| "timers_after (RequestTimerReset k ms # es) T = timers_after es (insert k T)"
| "timers_after (RequestTimerCancel k # es) T = (if k \<in> T then timers_after es (T - {k}) else None)"
| "timers_after (_ # es) T = timers_after es T"

definition armed :: "'t connection \<Rightarrow> timer_kind set" where
  "armed c = {k. timer_flag k c}"

definition mirrors_timers :: "'p::len word connection \<Rightarrow> 'p word event list \<Rightarrow> 'p word connection \<Rightarrow> bool" where
  "mirrors_timers c es c' \<longleftrightarrow> timers_after es (armed c) = Some (armed c')"

lemma timers_after_append: "timers_after (es @ es') T = Option.bind (timers_after es T) (timers_after es')"
  by (induction es T rule: timers_after.induct) auto

lemma timers_after_neutral: "list_all (\<lambda>e. neutral_event e \<or> resend_event e) es \<Longrightarrow> timers_after es T = Some T"
  by (induction es T rule: timers_after.induct) auto

lemma armed_set_timer [simp]: "armed (set_timer k b c) = (if b then insert k (armed c) else armed c - {k})"
  by (auto simp: armed_def)

lemma armed_frame [simp]: "armed (c\<lparr>cn_pid_man := m\<rparr>) = armed c" "armed (c\<lparr>cn_store := st\<rparr>) = armed c"
  by (simp_all add: armed_def timer_kind_all set_eq_iff)

interpretation timers: byte_relation mirrors_timers
proof (unfold_locales, goal_cases)
  case (1 c es c' es' c'')
  then show ?case by (simp add: mirrors_timers_def timers_after_append)
next
  case (2 es c)
  then show ?case by (simp add: mirrors_timers_def timers_after_neutral list_all_iff)
next
  case (3 c c')
  then show ?case by (simp add: mirrors_timers_def neutral_update_def armed_def)
next
  case (4 c k ms)
  show ?case by (simp add: mirrors_timers_def)
next
  case (5 k c)
  then show ?case by (auto simp: mirrors_timers_def armed_def)
next
  case (6 pid)
  show ?case by (auto simp: obeys_def mirrors_timers_def dest!: release_packet_id_shape)
next
  case (7 c)
  have "armed (clear_store_related c) = armed c"
    by (simp add: armed_def clear_store_related_def timer_kind_all set_eq_iff)
  then show ?case by (simp add: mirrors_timers_def)
next
  case 8
  show ?case
    using send_stored_shape(1,3) by (fastforce simp: obeys_def mirrors_timers_def list_all_iff intro!: timers_after_neutral)
next
  case (9 c pb)
  show ?case by (simp add: mirrors_timers_def armed_def timer_kind_all set_eq_iff)
qed

section \<open>The packet identifiers\<close>

text \<open>
  The identifiers in use after a list of events that release some; there are none when an
  identifier is released that is not in use.
\<close>

fun ids_after :: "'t event list \<Rightarrow> 't set \<Rightarrow> 't set option" where
  "ids_after [] U = Some U"
| "ids_after (NotifyPacketIdReleased i # es) U = (if i \<in> U then ids_after es (U - {i}) else None)"
| "ids_after (_ # es) U = ids_after es U"

definition accounts_ids :: "'p::len word connection \<Rightarrow> 'p word event list \<Rightarrow> 'p word connection \<Rightarrow> bool" where
  "accounts_ids c es c' \<longleftrightarrow> (pim_inv (cn_pid_man c) \<longrightarrow> pim_inv (cn_pid_man c')
     \<and> ids_after es (used_ids (cn_pid_man c)) = Some (used_ids (cn_pid_man c')))"

lemma ids_after_append: "ids_after (es @ es') U = Option.bind (ids_after es U) (ids_after es')"
  by (induction es U rule: ids_after.induct) auto

lemma ids_after_neutral: "list_all neutral_event es \<Longrightarrow> ids_after es U = Some U"
  by (induction es U rule: ids_after.induct) auto

lemma used_id_released:
  assumes "pim_inv m" and "is_used_id m pid" and "release_id m pid = Ret m'"
  shows "pid \<in> used_ids m"
  using assms release_zero_panics [of m] by (auto simp: is_used_id_iff)

interpretation ids: handler_relation accounts_ids
proof (unfold_locales, goal_cases)
  case (1 c es c' es' c'')
  then show ?case by (simp add: accounts_ids_def ids_after_append)
next
  case (2 es c)
  then show ?case by (simp add: accounts_ids_def ids_after_neutral)
next
  case (3 c c')
  then show ?case by (simp add: accounts_ids_def neutral_update_def)
next
  case (4 c k ms)
  show ?case by (simp add: accounts_ids_def)
next
  case (5 k c)
  show ?case by (simp add: accounts_ids_def)
next
  case (6 pid)
  show ?case
    using release_id_inv used_id_released
    by (fastforce simp: obeys_def accounts_ids_def dest!: release_packet_id_shape)
qed

section \<open>The remaining operations\<close>

lemma setting_neutral: "setting c c' \<Longrightarrow> neutral_update c c'"
  by (elim setting_cases)
     (simp_all add: neutral_simps set_offline_publish_def Let_def set_auto_pub_response_def set_auto_ping_response_def
        set_auto_map_topic_alias_send_def set_auto_replace_topic_alias_send_def set_pingresp_recv_timeout_def
        restore_qos2_publish_handled_def)

text \<open>Operations that only take identifiers and store packets.\<close>

definition takes_ids_only :: "'p::len word connection \<Rightarrow> 'p word connection \<Rightarrow> bool" where
  "takes_ids_only c c' \<longleftrightarrow> cn_role c' = cn_role c \<and> cn_protocol_version c' = cn_protocol_version c \<and> armed c' = armed c
     \<and> (pim_inv (cn_pid_man c) \<longrightarrow> pim_inv (cn_pid_man c') \<and> used_ids (cn_pid_man c) \<subseteq> used_ids (cn_pid_man c'))
     \<and> (tables_inv c \<longrightarrow> tables_inv c')"

lemma takes_ids_only_refl [simp]: "takes_ids_only c c"
  by (simp add: takes_ids_only_def)

lemma takes_ids_only_trans: "takes_ids_only c c' \<Longrightarrow> takes_ids_only c' c'' \<Longrightarrow> takes_ids_only c c''"
  by (auto simp: takes_ids_only_def)

lemma neutral_takes_none:
  "neutral_update c c' \<Longrightarrow> cn_protocol_version c' = cn_protocol_version c \<Longrightarrow> takes_ids_only c c'"
  by (auto simp: neutral_update_def takes_ids_only_def armed_def)

lemma acquire_takes: "acquire_packet_id c = Ret (r, c') \<Longrightarrow> takes_ids_only c c'"
  using acquire_ok [of "cn_pid_man c"]
  by (fastforce simp: acquire_packet_id_def rbind_eq_Ret takes_ids_only_def split: result.splits)

lemma register_takes:
  assumes "register_id (cn_pid_man c) pid = Ret (r, m)"
  shows "takes_ids_only c (c\<lparr>cn_pid_man := m\<rparr>)"
  using assms register_ok [of "cn_pid_man c" pid] by (auto simp: takes_ids_only_def split: if_splits)

lemma store_add_takes:
  assumes "store_add packet (cn_store c) = Ret (b, st)" and "\<exists>r. sp_response_packet packet = Ret r"
  shows "takes_ids_only c (c\<lparr>cn_store := st\<rparr>)"
proof -
  have "b = Ok () \<or> st = cn_store c" using assms(1) by (auto simp: store_add_def rbind_eq_Ret split: if_splits)
  then have "store_inv (cn_store c) \<longrightarrow> store_inv st" using assms store_add_inv by metis
  then show ?thesis by (intro neutral_takes_none) (simp_all add: neutral_simps)
qed

lemma restore_registered_takes:
  assumes "restore_registered pid packet c = Ret c'" and "\<exists>r. sp_response_packet packet = Ret r"
  shows "takes_ids_only c c'"
proof -
  obtain u m where m: "register_id (cn_pid_man c) pid = Ret (u, m)"
    using assms(1) by (auto simp: restore_registered_def rbind_eq_Ret)
  show ?thesis
  proof (cases u)
    case (Ok x)
    then obtain b st where st: "store_add packet (cn_store (c\<lparr>cn_pid_man := m\<rparr>)) = Ret (b, st)"
      and c': "c' = c\<lparr>cn_pid_man := m, cn_store := st\<rparr>"
      using assms(1) m by (auto simp: restore_registered_def Let_def rbind_eq_Ret)
    show ?thesis using takes_ids_only_trans [OF register_takes [OF m] store_add_takes [OF st assms(2)]] c' by simp
  next
    case (Err e)
    then show ?thesis using assms(1) m register_takes [OF m] by (simp add: restore_registered_def Let_def)
  qed
qed

lemma restore_publish_takes:
  assumes "restore_publish q pid_opt packet c = Ret c'"
    and "\<And>x. q = Ret x \<Longrightarrow> x \<noteq> AtMostOnce \<Longrightarrow> \<exists>r. sp_response_packet packet = Ret r"
  shows "takes_ids_only c c'"
proof -
  have a: "takes_ids_only c (c\<lparr>cn_pid_puback := A\<rparr>)" "takes_ids_only c (c\<lparr>cn_pid_pubrec := A\<rparr>)" for A
    by (rule neutral_takes_none; simp add: neutral_simps)+
  obtain x where q: "q = Ret x" using assms(1) by (auto simp: restore_publish_def rbind_eq_Ret)
  show ?thesis
  proof (cases x)
    case AtMostOnce
    then show ?thesis using assms(1) q by (simp add: restore_publish_def)
  next
    case AtLeastOnce
    then obtain pid where "restore_registered pid packet (c\<lparr>cn_pid_puback := insert pid (cn_pid_puback c)\<rparr>) = Ret c'"
      using assms(1) q by (auto simp: restore_publish_def rbind_eq_Ret)
    then show ?thesis using restore_registered_takes assms(2) [OF q] AtLeastOnce takes_ids_only_trans [OF a(1)] by blast
  next
    case ExactlyOnce
    then obtain pid where "restore_registered pid packet (c\<lparr>cn_pid_pubrec := insert pid (cn_pid_pubrec c)\<rparr>) = Ret c'"
      using assms(1) q by (auto simp: restore_publish_def rbind_eq_Ret)
    then show ?thesis using restore_registered_takes assms(2) [OF q] ExactlyOnce takes_ids_only_trans [OF a(2)] by blast
  qed
qed

lemma restore_packet_takes: "restore_packet packet c = Ret c' \<Longrightarrow> takes_ids_only c c'"
proof (cases packet)
  case (S_V3_Publish p)
  then show "restore_packet packet c = Ret c' \<Longrightarrow> ?thesis"
    by (auto simp: restore_packet_def elim!: restore_publish_takes split: qos.splits)
next
  case (S_V5_Publish p)
  then show "restore_packet packet c = Ret c' \<Longrightarrow> ?thesis"
    by (auto simp: restore_packet_def elim!: restore_publish_takes split: qos.splits)
next
  case (S_V3_Pubrel p)
  have "takes_ids_only c (c\<lparr>cn_pid_pubcomp := A\<rparr>)" for A by (rule neutral_takes_none; simp add: neutral_simps)
  then show "restore_packet packet c = Ret c' \<Longrightarrow> ?thesis"
    using S_V3_Pubrel restore_registered_takes takes_ids_only_trans by (fastforce simp: restore_packet_def)
next
  case (S_V5_Pubrel p)
  have "takes_ids_only c (c\<lparr>cn_pid_pubcomp := A\<rparr>)" for A by (rule neutral_takes_none; simp add: neutral_simps)
  then show "restore_packet packet c = Ret c' \<Longrightarrow> ?thesis"
    using S_V5_Pubrel restore_registered_takes takes_ids_only_trans by (fastforce simp: restore_packet_def)
qed

lemma restore_packets_takes: "restore_packets ps c = Ret c' \<Longrightarrow> takes_ids_only c c'"
proof (induction ps arbitrary: c)
  case (Cons p ps)
  then show ?case using restore_packet_takes takes_ids_only_trans by (fastforce simp: rbind_eq_Ret)
qed simp

lemma conn_new_state:
  fixes c :: "'p::len word connection"
  assumes "conn_new role version = Ret c"
  shows "conn_inv role version c" and "armed c = {}"
proof -
  obtain m :: "'p word packet_id_manager" where m: "pim_new = Ret m" "pim_inv m" using pim_new_ok by blast
  show "conn_inv role version c"
    using assms by (simp add: conn_new_def m conn_inv_def tables_inv_def) (auto simp: m)
  show "armed c = {}"
    using assms by (simp add: conn_new_def m armed_def timer_kind_all set_eq_iff) auto
qed

section \<open>Every operation\<close>

text \<open>Each call of an application keeps the invariant; its events mirror the timers.\<close>

lemma takes_keeps_inv: "takes_ids_only c c' \<Longrightarrow> keeps_inv c es c'"
  by (auto simp: takes_ids_only_def keeps_inv_def conn_inv_def)

lemma api_step_keeps_inv: "api_step c call es c' \<Longrightarrow> keeps_inv c es c'"
proof (induction rule: api_step.induct)
  case (3 k c es c')
  have "keeps_inv c es (set_timer k False c)" by (simp add: keeps_inv_def conn_inv_def)
  then show ?case using inv.timer_fired [OF 3] by (simp add: keeps_inv_def)
qed (auto intro: obeysD [OF inv.send] inv.recv obeysD [OF inv.closed] obeysD [OF inv.shared(4)] obeysD [OF inv.R_release]
      inv.R_update [OF setting_neutral] takes_keeps_inv dest: acquire_takes restore_packets_takes
      simp: register_packet_id_def rbind_eq_Ret register_takes)

definition timers_before :: "'t call \<Rightarrow> timer_kind set \<Rightarrow> timer_kind set" where
  "timers_before call T = (case call of Call_Timer k \<Rightarrow> T - {k} | _ \<Rightarrow> T)"

lemma takes_no_timers: "takes_ids_only c c' \<Longrightarrow> mirrors_timers c [] c'"
  by (simp add: takes_ids_only_def mirrors_timers_def)

lemma api_step_mirrors_timers:
  "api_step c call es c' \<Longrightarrow> timers_after es (timers_before call (armed c)) = Some (armed c')"
proof (induction rule: api_step.induct)
  case (3 k c es c')
  then show ?case using timers.timer_fired [OF 3] by (simp add: mirrors_timers_def timers_before_def)
qed (auto simp: timers_before_def mirrors_timers_def [symmetric] register_packet_id_def rbind_eq_Ret register_takes
      intro: obeysD [OF timers.send] timers.recv obeysD [OF timers.closed] obeysD [OF timers.shared(4)] obeysD [OF timers.R_release]
        timers.R_update [OF setting_neutral] takes_no_timers acquire_takes restore_packets_takes simp del: timers_after.simps)

text \<open>The calls that stay within a session: neither CONNECT nor CONNACK is sent or received.\<close>

definition in_session :: "'t connection \<Rightarrow> 't call \<Rightarrow> bool" where
  "in_session c call = (case call of
       Call_Send packet \<Rightarrow> gp_packet_type packet \<noteq> PT_Connect \<and> gp_packet_type packet \<noteq> PT_Connack
     | Call_Recv data \<Rightarrow> (case feed (cn_packet_builder c) data of
           Ret (Complete raw, _) \<Rightarrow> rp_packet_type raw \<noteq> 1 \<and> rp_packet_type raw \<noteq> 2
         | _ \<Rightarrow> True)
     | _ \<Rightarrow> True)"

definition takes_ids :: "'t call \<Rightarrow> bool" where
  "takes_ids call = (case call of Call_Acquire \<Rightarrow> True | Call_Register pid \<Rightarrow> True | Call_Restore ps \<Rightarrow> True | _ \<Rightarrow> False)"

lemma packet_type_u8_session [simp]:
  "packet_type_u8 t = 1 \<longleftrightarrow> t = PT_Connect" "packet_type_u8 t = 2 \<longleftrightarrow> t = PT_Connack"
  by (cases t; simp)+

lemma recv_accounts_ids:
  assumes "recv data c = Ret (es, c', data')" and "in_session c (Call_Recv data)"
  shows "accounts_ids c es c'"
proof -
  obtain res pb where f: "feed (cn_packet_builder c) data = Ret (res, pb, data')"
    and h: "(case res of Complete raw_packet \<Rightarrow> process_recv_packet raw_packet | Incomplete \<Rightarrow> emit []
      | Build_Error e \<Rightarrow> steps [cancel_timers, emit [RequestClose, NotifyError e]]) (c\<lparr>cn_packet_builder := pb\<rparr>) = Ret (es, c')"
      (is "?h (c\<lparr>cn_packet_builder := pb\<rparr>) = _")
    using assms(1) by (auto simp: recv_def rbind_eq_Ret)
  have "obeys accounts_ids ?h"
  proof (cases res)
    case (Complete raw)
    then show ?thesis using assms(2) f ids.recv_in_session [of raw] by (simp add: in_session_def)
  qed (simp_all del: steps.simps, (intro obeys_intros ids.seq ids.steps_Cons ids.steps_Nil ids.shared ids.emit_two ids.emit_none; simp)+)
  moreover have "accounts_ids c [] (c\<lparr>cn_packet_builder := pb\<rparr>)" by (simp add: accounts_ids_def)
  ultimately show ?thesis using ids.R_append obeysD h by fastforce
qed

lemma api_step_accounts_ids:
  assumes "api_step c call es c'" and "in_session c call" and "\<not> takes_ids call"
  shows "accounts_ids c es c'"
  using assms
proof (induction rule: api_step.induct)
  case (1 packet c es c')
  then have "obeys accounts_ids (send packet)" using ids.send_in_session [of packet] by (simp add: in_session_def)
  then show ?case using 1(1) by (rule obeysD)
next
  case (3 k c es c')
  then show ?case using ids.timer_fired [OF 3(1)] by (simp add: accounts_ids_def)
qed (auto simp: takes_ids_def intro: recv_accounts_ids obeysD [OF ids.closed] obeysD [OF ids.shared(4)] obeysD [OF ids.R_release]
        ids.R_update [OF setting_neutral])

lemma api_step_takes_ids: "api_step c call es c' \<Longrightarrow> takes_ids call \<Longrightarrow> es = [] \<and> takes_ids_only c c'"
  by (induction rule: api_step.induct)
     (auto simp: takes_ids_def register_packet_id_def rbind_eq_Ret register_takes acquire_takes restore_packets_takes)

section \<open>Properties\<close>

fun timers_told :: "('t call \<times> 't event list) list \<Rightarrow> timer_kind set \<Rightarrow> timer_kind set option" where
  "timers_told [] T = Some T"
| "timers_told ((call, es) # trace) T = Option.bind (timers_after es (timers_before call T)) (timers_told trace)"

lemma timers_told_append: "timers_told (tr @ tr') T = Option.bind (timers_told tr T) (timers_told tr')"
  by (induction tr T rule: timers_told.induct) (auto split: bind_splits)

lemma reachable_conn_inv: "reachable role version trace c \<Longrightarrow> conn_inv role version c"
proof (induction rule: reachable.induct)
  case (reachable_new c)
  then show ?case by (rule conn_new_state)
next
  case (reachable_step trace c call es c')
  then show ?case using api_step_keeps_inv [of c call es c'] by (auto simp: keeps_inv_def)
qed

text \<open>
  C1: in every state that an application can reach with the public operations of a connection,
  in any order and with any arguments, the pool of packet identifiers, the store and the
  tables of topic aliases in both directions are well-formed, the role is the one the connection
  was made with, and so is the protocol version unless it was left undetermined.
\<close>

theorem reachable_inv:
  assumes "reachable role version trace c"
  shows "conn_inv role version c"
  using assms by (rule reachable_conn_inv)

text \<open>A client that sets the interval of its pings and connects: the ping timer is armed.\<close>

definition sample_connect :: v3_connect where
  "sample_connect = \<lparr>v3c_fixed_header = 0x10, v3c_remaining_length = \<lparr>encoded = [12]\<rparr>,
     v3c_protocol_name = [0, 4, 0x4D, 0x51, 0x54, 0x54], v3c_protocol_version_buf = 4, v3c_connect_flags_buf = 2,
     v3c_keep_alive_buf = [0, 0], v3c_client_id_buf = \<lparr>ms_encoded = [0, 0]\<rparr>, v3c_will_topic_buf = \<lparr>ms_encoded = [0, 0]\<rparr>,
     v3c_will_payload_buf = \<lparr>mb_encoded = [0, 0]\<rparr>, v3c_user_name_buf = \<lparr>ms_encoded = [0, 0]\<rparr>,
     v3c_password_buf = \<lparr>mb_encoded = [0, 0]\<rparr>\<rparr>"

definition sample_trace :: "(16 word call \<times> 16 word event list) list" where
  "sample_trace = [(Call_Interval (Some 5000), []),
     (Call_Send (V3_Connect sample_connect), [RequestSendPacket (V3_Connect sample_connect) None, RequestTimerReset PingreqSend 5000])]"

lemma sample_connect_sent:
  assumes "cn_role c = Client" and "cn_protocol_version c = V3_1_1" and "cn_status c = Disconnected"
    and "cn_pingreq_user_send_interval_ms c = Some 5000"
  shows "\<exists>c'. send (V3_Connect sample_connect) c =
    Ret ([RequestSendPacket (V3_Connect sample_connect) None, RequestTimerReset PingreqSend 5000], c') \<and> cn_status c' = Connecting"
proof -
  have "v3_clean_session sample_connect" by (simp add: v3_clean_session_def sample_connect_def)
  then show ?thesis
    using assms by (simp add: send_def send_dispatch_def for_role_def unless_def process_send_v3_connect_def handler_defs
        initialize_def clear_store_related_def request_send_def send_post_process_def pingreq_interval_ms_def arm_timer_def)
qed

lemma sample_new:
  "\<exists>c :: 16 word connection. conn_new Client V3_1_1 = Ret c \<and> cn_role c = Client \<and> cn_protocol_version c = V3_1_1
    \<and> cn_status c = Disconnected \<and> pim_new = Ret (cn_pid_man c)"
proof -
  obtain m :: "16 word packet_id_manager" where m: "pim_new = Ret m" using pim_new_ok by blast
  show ?thesis by (simp add: conn_new_def m)
qed

lemma sample_run:
  "\<exists>c c'. reachable Client V3_1_1 [(Call_Interval (Some 5000), [])] c
    \<and> send (V3_Connect sample_connect) c =
      Ret ([RequestSendPacket (V3_Connect sample_connect) None, RequestTimerReset PingreqSend 5000], c')
    \<and> cn_status c = Disconnected \<and> cn_status c' = Connecting \<and> reachable Client V3_1_1 sample_trace c'"
proof -
  obtain c0 :: "16 word connection" where c0: "conn_new Client V3_1_1 = Ret c0"
    and f: "cn_role c0 = Client" "cn_protocol_version c0 = V3_1_1" "cn_status c0 = Disconnected"
    using sample_new by blast
  define c1 where "c1 = c0\<lparr>cn_pingreq_user_send_interval_ms := Some 5000\<rparr>"
  have c1: "set_pingreq_send_interval (Some 5000) c0 = Ret ([], c1)"
    using f by (simp add: set_pingreq_send_interval_def handler_defs c1_def)
  have r1: "reachable Client V3_1_1 [(Call_Interval (Some 5000), [])] c1"
    using reachable_step [OF reachable_new [OF c0] api_step.intros(5) [OF c1]] by simp
  obtain c2 where c2: "send (V3_Connect sample_connect) c1 =
      Ret ([RequestSendPacket (V3_Connect sample_connect) None, RequestTimerReset PingreqSend 5000], c2)" "cn_status c2 = Connecting"
    using sample_connect_sent [of c1] f by (auto simp: c1_def)
  have "reachable Client V3_1_1 sample_trace c2"
    using reachable_step [OF r1 api_step.intros(1) [OF c2(1)]] by (simp add: sample_trace_def)
  moreover have "cn_status c1 = Disconnected" using f by (simp add: c1_def)
  ultimately show ?thesis using r1 c2 by blast
qed

theorem reachable_inv_witness:
  "\<exists>c. reachable Client V3_1_1 sample_trace c \<and> cn_role c = Client \<and> cn_protocol_version c = V3_1_1 \<and> tables_inv c"
proof -
  obtain c where "reachable Client V3_1_1 sample_trace c" using sample_run by blast
  then show ?thesis using reachable_inv [of Client V3_1_1 sample_trace c] by (auto simp: conn_inv_def)
qed

text \<open>
  C2: the events tell the truth about the timers.  An application that keeps a timer running
  after each \<open>RequestTimerReset\<close>, stops it at \<open>RequestTimerCancel\<close> and reports it when it fires
  has exactly those timers running that the connection has marked as set; it is never asked to
  cancel a timer that is not running.
\<close>

theorem events_mirror_timers:
  assumes "reachable role version trace c"
  shows "timers_told trace {} = Some (armed c)"
  using assms
proof induction
  case (reachable_new c)
  then show ?case by (simp add: conn_new_state(2) [OF reachable_new])
next
  case (reachable_step trace c call es c')
  then show ?case by (simp add: timers_told_append api_step_mirrors_timers)
qed

theorem events_mirror_timers_witness:
  "\<exists>c. reachable Client V3_1_1 sample_trace c \<and> armed c = {PingreqSend}"
proof -
  obtain c where "reachable Client V3_1_1 sample_trace c" using sample_run by blast
  then show ?thesis using events_mirror_timers [of Client V3_1_1 sample_trace c]
    by (auto simp: sample_trace_def timers_before_def)
qed

text \<open>
  C3: a packet identifier in use leaves the pool only with notice.  In every reachable state, each
  operation but the sending or receiving of CONNECT and CONNACK releases exactly the
  identifiers that its events name, each of them in use at that point and none twice;
  and only the operations that ask for identifiers take new ones.
\<close>

theorem ids_leave_with_notice:
  assumes "reachable role version trace c" and "api_step c call es c'" and "in_session c call"
  shows "\<exists>kept. ids_after es (used_ids (cn_pid_man c)) = Some kept \<and> kept \<subseteq> used_ids (cn_pid_man c')
    \<and> (takes_ids call \<or> used_ids (cn_pid_man c') = kept)"
proof -
  have "conn_inv role version c"
    using assms(1) by induction (auto intro: conn_new_state dest!: api_step_keeps_inv simp: keeps_inv_def)
  then have p: "pim_inv (cn_pid_man c)" by (simp add: conn_inv_def)
  show ?thesis
  proof (cases "takes_ids call")
    case True
    then show ?thesis using api_step_takes_ids [OF assms(2)] p by (simp add: takes_ids_only_def)
  next
    case False
    then show ?thesis using api_step_accounts_ids [OF assms(2,3)] p by (simp add: accounts_ids_def)
  qed
qed

definition sample_subscribe :: "(16 word, sub_entry) v3_entries_packet" where
  "sample_subscribe = \<lparr>v3s_fixed_header = 0x82, v3s_remaining_length = \<lparr>encoded = [2]\<rparr>, v3s_packet_id_buf = 7,
     v3s_entries = []\<rparr>"

theorem ids_leave_with_notice_witness:
  "\<exists>c es c'. reachable Client V3_1_1 [(Call_Register (7 :: 16 word), [])] c \<and> 7 \<in> used_ids (cn_pid_man c)
    \<and> api_step c (Call_Send (V3_Subscribe sample_subscribe)) es c' \<and> NotifyPacketIdReleased 7 \<in> set es
    \<and> used_ids (cn_pid_man c') = used_ids (cn_pid_man c) - {7}"
proof -
  obtain c0 :: "16 word connection" where c0: "conn_new Client V3_1_1 = Ret c0"
    and f: "cn_role c0 = Client" "cn_protocol_version c0 = V3_1_1" "cn_status c0 = Disconnected" "pim_new = Ret (cn_pid_man c0)"
    using sample_new by blast
  define m where "m = cn_pid_man c0"
  obtain m' :: "16 word packet_id_manager" where m': "pim_new = Ret m'" "pim_inv m'" using pim_new_ok by blast
  have m: "pim_inv m" using trans [OF f(4) [symmetric] m'(1)] m'(2) by (simp add: m_def)
  obtain u m1 where r: "register_id m 7 = Ret (u, m1)" "pim_inv m1" "used_ids m1 = insert 7 (used_ids m)"
    using register_ok [OF m, of 7] by auto
  define c1 where "c1 = c0\<lparr>cn_pid_man := m1\<rparr>"
  have "register_packet_id 7 c0 = Ret (u, c1)" by (simp add: register_packet_id_def m_def [symmetric] r c1_def)
  from reachable_step [OF reachable_new [OF c0] api_step.intros(8) [OF this]]
  have reach: "reachable Client V3_1_1 [(Call_Register 7, [])] c1" by simp
  obtain m2 where "release_id m1 7 = Ret m2" using release_ok [OF r(2), of 7] r(3) by auto
  then obtain c2 where c2: "send (V3_Subscribe sample_subscribe) c1 = Ret ([NotifyError PacketNotAllowedToSend, NotifyPacketIdReleased 7], c2)"
    using f r by (simp add: c1_def send_def send_dispatch_def for_role_def unless_def process_send_v3_subscribe_def
        send_identified_def reject_with_release_def release_packet_id_def is_used_id_iff sample_subscribe_def handler_defs)
  note step = api_step.intros(1) [OF c2]
  have "used_ids (cn_pid_man c2) = used_ids (cn_pid_man c1) - {7}"
    using ids_leave_with_notice [OF reach step] r(3) by (auto simp: in_session_def takes_ids_def c1_def)
  then show ?thesis using reach step r(3) by (intro exI [of _ c1] exI conjI) (auto simp: c1_def)
qed

end
