(* ===== verification/Connection_Behaviour.thy ===== *)
theory Connection_Behaviour
  imports Connection_Invariants
begin

text \<open>
  What the operations of a connection do: which packets may be sent in which status, what is
  sent again when a session resumes, what the handler of a QoS 2 publish delivers, what remains
  when the connection is closed, and the inputs on which an operation panics.
\<close>

section \<open>Sending and the status of the connection\<close>

definition requests :: "'t event list \<Rightarrow> 't packet list" where
  "requests es = concat (map (\<lambda>e. case e of RequestSendPacket p _ \<Rightarrow> [p] | _ \<Rightarrow> []) es)"

lemma requests_simps [simp]:
  "requests [] = []" "requests (es @ es') = requests es @ requests es'"
  "requests (NotifyPacketReceived p # es) = requests es" "requests (RequestSendPacket q r # es) = q # requests es"
  "requests (NotifyPacketIdReleased i # es) = requests es" "requests (RequestTimerReset k ms # es) = requests es"
  "requests (RequestTimerCancel k # es) = requests es" "requests (NotifyError e # es) = requests es"
  "requests (RequestClose # es) = requests es"
  by (simp_all add: requests_def)

text \<open>A step that leaves the status alone and requests nothing unless the connection is up.\<close>

definition steady :: "'t connection \<Rightarrow> 't event list \<Rightarrow> 't connection \<Rightarrow> bool" where
  "steady c es c' \<longleftrightarrow> cn_status c' = cn_status c \<and> (cn_status c \<noteq> Connected \<longrightarrow> requests es = [])"

lemma steady_seq: "obeys steady h \<Longrightarrow> obeys steady k \<Longrightarrow> obeys steady (seq h k)"
  by (fastforce simp: obeys_def seq_def rbind_eq_Ret steady_def)

lemma steady_steps: "obeys steady (steps [])" "obeys steady h \<Longrightarrow> obeys steady (steps hs) \<Longrightarrow> obeys steady (steps (h # hs))"
  by (simp_all add: steady_seq) (simp add: obeys_def emit_def steady_def)

lemma steady_emit: "requests es = [] \<Longrightarrow> obeys steady (emit es)"
  by (simp add: obeys_def emit_def steady_def)

lemma steady_upd: "(\<And>c. cn_status (f c) = cn_status c) \<Longrightarrow> obeys steady (upd f)"
  by (simp add: obeys_def upd_def steady_def)


lemma steady_state_fun:
  assumes "\<And>c es c'. h c = Ret (es, c') \<Longrightarrow> es = [] \<and> cn_status c' = cn_status c"
  shows "obeys steady h"
  using assms by (fastforce simp: obeys_def steady_def)

lemma steady_timers: "obeys steady (arm_timer k ms)" "obeys steady (stop_timer k)"
  by (auto simp: arm_timer_def stop_timer_def obeys_def handler_defs steady_def)

lemma steady_release: "obeys steady (release_packet_id pid)"
  by (auto simp: obeys_def steady_def dest!: release_packet_id_shape)

text \<open>Handlers that keep the status, whatever they request.\<close>

definition keeps_status :: "'t connection \<Rightarrow> 't event list \<Rightarrow> 't connection \<Rightarrow> bool" where
  "keeps_status c es c' \<longleftrightarrow> cn_status c' = cn_status c"

named_theorems steady_intros
lemmas [steady_intros] = steady_seq steady_steps steady_emit steady_upd steady_timers steady_release

lemma keeps_status_intros [steady_intros]:
  "obeys keeps_status h1 \<Longrightarrow> obeys keeps_status k1 \<Longrightarrow> obeys keeps_status (seq h1 k1)"
  "obeys keeps_status (steps [])"
  "obeys keeps_status h2 \<Longrightarrow> obeys keeps_status (steps hs) \<Longrightarrow> obeys keeps_status (steps (h2 # hs))"
  "obeys keeps_status (emit es)"
  "(\<And>c. cn_status (f c) = cn_status c) \<Longrightarrow> obeys keeps_status (upd f)"
  "obeys keeps_status (arm_timer t ms)"
  by (fastforce simp: obeys_def handler_defs arm_timer_def rbind_eq_Ret keeps_status_def)+

lemma steady_connected [steady_intros]:
  "obeys keeps_status h \<Longrightarrow> obeys steady k \<Longrightarrow> obeys steady (branch (\<lambda>c. cn_status c = Connected) h k)"
  "obeys keeps_status h \<Longrightarrow> obeys steady (unless not_connected e h)"
  "obeys keeps_status h \<Longrightarrow> obeys steady k \<Longrightarrow> obeys steady (branch not_connected k h)"
  by (auto simp: obeys_def branch_def unless_def emit_def steady_def keeps_status_def)

lemma steady_unless [steady_intros]: "obeys steady h \<Longrightarrow> obeys steady (unless P e h)"
  by (auto simp: obeys_def branch_def unless_def emit_def steady_def)

lemma keeps_status_unless [steady_intros]: "obeys keeps_status h \<Longrightarrow> obeys keeps_status (unless P e h)"
  by (auto simp: obeys_def branch_def unless_def emit_def keeps_status_def)

lemma steady_stores [steady_intros]:
  "obeys steady (store_or_panic p)" "obeys steady (tas_register t a)" "obeys steady (await_response q pid)"
  "obeys steady (reject_with_release e pid_opt)"
  unfolding store_or_panic_def tas_register_def await_response_def reject_with_release_def
  by (rule steady_state_fun, auto simp: rbind_eq_Ret) (intro steady_intros obeys_intros; simp)+

lemma keeps_status_send [steady_intros]:
  "obeys keeps_status send_post_process" "obeys keeps_status (request_send p r)"
  unfolding request_send_def send_post_process_def by (intro steady_intros obeys_intros; simp)+

lemma steady_post_process [steady_intros]: "obeys steady send_post_process"
  unfolding send_post_process_def by (intro steady_intros obeys_intros; simp)

lemma steady_if_connected [steady_intros]: "obeys steady (send_if_connected p r)" "obeys steady (send_when_connected p)"
  unfolding send_if_connected_def send_when_connected_def by (intro steady_intros obeys_intros; simp)+

lemma steady_validated [steady_intros]:
  assumes "obeys steady h" and "\<And>t. obeys steady (k t)"
  shows "obeys steady (\<lambda>c. case validate_topic_alias ta c of (None, c) \<Rightarrow> h c | (Some t, c) \<Rightarrow> k t c)"
  unfolding obeys_def
proof (intro allI impI)
  fix c es c''
  assume run: "(case validate_topic_alias ta c of (None, c) \<Rightarrow> h c | (Some t, c) \<Rightarrow> k t c) = Ret (es, c'')"
  obtain r c' where v: "validate_topic_alias ta c = (r, c')" by force
  then have "cn_status c' = cn_status c"
    by (auto simp: validate_topic_alias_def split: option.splits if_splits prod.splits)
  then show "steady c es c''"
    using run v obeysD [OF assms(1)] obeysD [OF assms(2)] by (cases r) (auto simp: steady_def)
qed

lemma steady_send_pubrel [steady_intros]: "obeys steady (send_pubrel pid st p)"
  unfolding send_pubrel_def by (intro steady_intros obeys_intros; simp)

lemma steady_v5_publish [steady_intros]:
  "(\<And>b r. obeys steady (k1 b r)) \<Longrightarrow> obeys steady (v5_publish_store p pid q k1)"
  "(\<And>p. obeys steady (k2 p)) \<Longrightarrow> obeys steady (v5_publish_auto_alias p k2)"
  "obeys steady k3 \<Longrightarrow> obeys steady (v5_publish_count p pid_opt k3)"
  "(\<And>p. obeys steady (k4 p)) \<Longrightarrow> obeys steady (v5_publish_alias p b k4)"
  unfolding v5_publish_store_def v5_publish_auto_alias_def v5_publish_count_def v5_publish_alias_def Let_def
  by (intro steady_intros obeys_intros; simp)+

lemma steady_send_identified [steady_intros]:
  "(\<And>c. cn_status (f c) = cn_status c) \<Longrightarrow> obeys steady (send_identified pid f p)"
  unfolding send_identified_def by (intro steady_intros obeys_intros; simp)

lemma steady_send_pingreq [steady_intros]: "obeys steady (send_pingreq p)"
  unfolding send_pingreq_def by (intro steady_intros obeys_intros; simp)

definition session_packet :: "packet_type \<Rightarrow> bool" where
  "session_packet t \<longleftrightarrow> t \<notin> {PT_Connect, PT_Connack, PT_Disconnect, PT_Auth}"

lemma steady_for_role [steady_intros]: "obeys steady h \<Longrightarrow> obeys steady (for_role P h)"
  unfolding for_role_def by (intro steady_intros)

lemma steady_send:
  assumes "session_packet (gp_packet_type packet)"
  shows "obeys steady (send packet)"
  using assms unfolding send_def send_dispatch_def session_packet_def
  by (cases packet; simp split del: if_split;
      (unfold process_send_v3_publish_def process_send_v3_puback_def process_send_v3_pubrec_def process_send_v3_pubrel_def
        process_send_v3_pubcomp_def process_send_v3_subscribe_def process_send_v3_unsubscribe_def process_send_v3_suback_def
        process_send_v3_unsuback_def process_send_v3_pingreq_def process_send_v3_pingresp_def
        process_send_v5_publish_def process_send_v5_puback_def process_send_v5_pubrec_def process_send_v5_pubrel_def
        process_send_v5_pubcomp_def process_send_v5_subscribe_def process_send_v5_unsubscribe_def process_send_v5_suback_def
        process_send_v5_unsuback_def process_send_v5_pingreq_def process_send_v5_pingresp_def Let_def)?;
      intro steady_intros obeys_intros; simp)

text \<open>Which packets may be requested to be sent in a status.\<close>

primrec sends_in :: "connection_status \<Rightarrow> packet_type \<Rightarrow> bool" where
  "sends_in Disconnected t = (t = PT_Connect)"
| "sends_in Connecting t = (t = PT_Connack \<or> t = PT_Auth)"
| "sends_in Connected t = (t \<noteq> PT_Connect \<and> t \<noteq> PT_Connack)"

text \<open>The changes of status by a packet that is sent.\<close>

inductive status_step :: "connection_status \<Rightarrow> packet_type \<Rightarrow> connection_status \<Rightarrow> bool" where
  "status_step s t s"
| "status_step Disconnected PT_Connect Connecting"
| "status_step Connecting PT_Connack Connected"
| "status_step Connecting PT_Connack Disconnected"
| "status_step Connected PT_Disconnect Disconnected"

lemma unless_Ret:
  assumes "unless P e h c = Ret (es, c')"
  shows "(es = [NotifyError e] \<and> c' = c) \<or> (\<not> P c \<and> h c = Ret (es, c'))"
  using assms by (auto simp: unless_def branch_def emit_def split: if_splits)

lemma keeps_status_more [steady_intros]:
  "obeys keeps_status (stop_timer t)" "obeys keeps_status (upd clear_store_related)" "obeys keeps_status cancel_timers"
  "obeys keeps_status (send_connect_props props)"
proof -
  show st: "obeys keeps_status (stop_timer t)" for t
    by (auto simp: stop_timer_def obeys_def handler_defs keeps_status_def)
  show "obeys keeps_status (upd clear_store_related)" by (simp add: obeys_def upd_def keeps_status_def clear_store_related_def)
  show "obeys keeps_status cancel_timers" unfolding cancel_timers_def by (intro steady_intros st)
  show "obeys keeps_status (send_connect_props props)"
  proof (induction props)
    case (Cons p props)
    show ?case by (cases p; simp split del: if_split; intro Cons.IH steady_intros obeys_intros; simp)
  qed (simp add: steady_intros)
qed

text \<open>What a handler may do to the status when it sends a packet of a type.\<close>

definition follows_status :: "packet_type \<Rightarrow> 't connection \<Rightarrow> 't event list \<Rightarrow> 't connection \<Rightarrow> bool" where
  "follows_status t c es c' \<longleftrightarrow> (requests es \<noteq> [] \<longrightarrow> sends_in (cn_status c) t)
     \<and> status_step (cn_status c) t (cn_status c')"

lemma follows_unless: "obeys (follows_status t) h \<Longrightarrow> obeys (follows_status t) (unless P e h)"
  unfolding unless_def
  by (intro obeys_branch obeys_emit) (simp_all add: follows_status_def status_step.intros(1))

lemma follows_guard:
  assumes "\<And>c es c'. \<not> P c \<Longrightarrow> h c = Ret (es, c') \<Longrightarrow> follows_status t c es c'"
  shows "obeys (follows_status t) (unless P e h)"
  using assms by (auto simp: obeys_def follows_status_def status_step.intros(1) dest!: unless_Ret)

lemma follows_connect:
  assumes "obeys keeps_status h"
  shows "obeys (follows_status PT_Connect) (unless (\<lambda>c. cn_status c \<noteq> Disconnected) e
    (seq (upd (initialize True)) (seq (upd (\<lambda>c. c\<lparr>cn_status := Connecting\<rparr>)) h)))"
proof (rule follows_guard)
  fix c es c'
  assume d: "\<not> cn_status c \<noteq> Disconnected"
    and "seq (upd (initialize True)) (seq (upd (\<lambda>c. c\<lparr>cn_status := Connecting\<rparr>)) h) c = Ret (es, c')"
  then have "h (initialize True c\<lparr>cn_status := Connecting\<rparr>) = Ret (es, c')"
    by (auto simp: seq_def upd_def rbind_eq_Ret)
  from obeysD [OF assms this] show "follows_status PT_Connect c es c'"
    using d by (simp add: keeps_status_def follows_status_def status_step.intros)
qed

lemma follows_connack: "obeys (follows_status PT_Connack) (unless (\<lambda>c. cn_status c \<noteq> Connecting) e h)"
proof (rule follows_guard)
  fix c es c'
  assume "\<not> cn_status c \<noteq> Connecting" and "h c = Ret (es, c')"
  then show "follows_status PT_Connack c es c'"
    by (cases "cn_status c'") (simp_all add: follows_status_def status_step.intros)
qed

lemma follows_disconnect: "obeys (follows_status PT_Disconnect) (send_disconnect p)"
  unfolding send_disconnect_def steps.simps(2)
proof (rule follows_guard)
  fix c es c'
  assume d: "\<not> cn_status c \<noteq> Connected"
    and "seq (upd (\<lambda>c. c\<lparr>cn_status := Disconnected\<rparr>)) (seq cancel_timers (seq (emit [RequestSendPacket p None])
      (seq (emit [RequestClose]) (steps [])))) c = Ret (es, c')"
  then have h: "seq cancel_timers (seq (emit [RequestSendPacket p None]) (seq (emit [RequestClose]) (steps [])))
      (c\<lparr>cn_status := Disconnected\<rparr>) = Ret (es, c')"
    by (auto simp: seq_def upd_def rbind_eq_Ret)
  have "obeys keeps_status (seq cancel_timers (seq (emit [RequestSendPacket p None]) (seq (emit [RequestClose]) (steps []))))"
    by (intro steady_intros)
  from obeysD [OF this h] show "follows_status PT_Disconnect c es c'"
    using d by (simp add: keeps_status_def follows_status_def status_step.intros)
qed

lemma follows_auth:
  "obeys (follows_status PT_Auth) (unless (\<lambda>c. cn_status c = Disconnected) e (request_send p r))"
proof (rule follows_guard)
  fix c es c'
  assume "\<not> cn_status c = Disconnected" and "request_send p r c = Ret (es, c')"
  then show "follows_status PT_Auth c es c'"
    using obeysD [OF keeps_status_send(2)]
    by (cases "cn_status c") (fastforce simp: keeps_status_def follows_status_def intro: status_step.intros)+
qed

lemma follows_steady: "session_packet t \<Longrightarrow> obeys steady h \<Longrightarrow> obeys (follows_status t) h"
  by (auto simp: obeys_def steady_def follows_status_def session_packet_def status_step.intros(1))
     (metis connection_status.exhaust sends_in.simps(3))

lemma send_follows_status: "obeys (follows_status (gp_packet_type packet)) (send packet)"
proof (cases "session_packet (gp_packet_type packet)")
  case True
  then show ?thesis by (intro follows_steady steady_send)
next
  case False
  then show ?thesis
    unfolding send_def send_dispatch_def for_role_def session_packet_def
    by (cases packet; simp del: steps.simps;
        intro follows_unless;
        (unfold process_send_v3_connect_def process_send_v5_connect_def process_send_v3_connack_def process_send_v5_connack_def
          process_send_v3_disconnect_def process_send_v5_disconnect_def process_send_v5_auth_def steps.simps(2))?;
        (intro follows_connack follows_disconnect follows_auth follows_connect follows_unless)?;
        (intro steady_intros obeys_intros; simp)?)
qed

section \<open>Properties\<close>

text \<open>
  C7: what is sent fits the status.  Sending a packet leads to a request to the transport only
  in a status that allows its type: in Disconnected only for CONNECT, in Connecting only for CONNACK and AUTH, and in
  Connected only for packets other than CONNECT and CONNACK, AUTH among them.  The status changes only by sending
  CONNECT (Disconnected to Connecting), CONNACK (Connecting to Connected or back to Disconnected) and DISCONNECT
  (Connected to Disconnected).
\<close>

theorem send_respects_status:
  assumes "send packet c = Ret (es, c')"
  shows "(requests es \<noteq> [] \<longrightarrow> sends_in (cn_status c) (gp_packet_type packet))
    \<and> status_step (cn_status c) (gp_packet_type packet) (cn_status c')"
  using obeysD [OF send_follows_status assms] by (simp add: follows_status_def)

theorem send_respects_status_witness:
  "\<exists>c c'. cn_status c = Disconnected
    \<and> send (V3_Connect sample_connect :: 16 word packet) c =
      Ret ([RequestSendPacket (V3_Connect sample_connect) None, RequestTimerReset PingreqSend 5000], c')
    \<and> sends_in (cn_status c) PT_Connect \<and> status_step Disconnected PT_Connect (cn_status c')"
  using sample_run send_respects_status by fastforce

section \<open>Delivery of QoS 2 publishes\<close>

definition deliveries :: "'t event list \<Rightarrow> 't packet list" where
  "deliveries es = concat (map (\<lambda>e. case e of NotifyPacketReceived p \<Rightarrow> [p] | _ \<Rightarrow> []) es)"

lemma deliveries_simps [simp]:
  "deliveries [] = []" "deliveries (es @ es') = deliveries es @ deliveries es'"
  "deliveries (NotifyPacketReceived p # es) = p # deliveries es" "deliveries (RequestSendPacket q r # es) = deliveries es"
  "deliveries (NotifyPacketIdReleased i # es) = deliveries es" "deliveries (RequestTimerReset k ms # es) = deliveries es"
  "deliveries (RequestTimerCancel k # es) = deliveries es" "deliveries (NotifyError e # es) = deliveries es"
  "deliveries (RequestClose # es) = deliveries es"
  by (simp_all add: deliveries_def)

text \<open>A handler that answers: it delivers nothing and leaves the record of handled publishes alone.\<close>

definition answers :: "'t connection \<Rightarrow> 't event list \<Rightarrow> 't connection \<Rightarrow> bool" where
  "answers c es c' \<longleftrightarrow> deliveries es = [] \<and> cn_qos2_publish_handled c' = cn_qos2_publish_handled c"

lemma answers_send: "obeys answers (send_when_connected p)" "obeys answers refresh_pingreq_recv"
  unfolding send_when_connected_def refresh_pingreq_recv_def request_send_def send_post_process_def
  by (auto simp: obeys_def handler_defs unless_def arm_timer_def answers_def split: if_splits)

lemma v3_publish_received_twice:
  assumes "v3_publish_qos p = Ret ExactlyOnce" and "v3p_packet_id_buf p = Some i"
    and "v3_publish_received p c = Ret (es, c')"
  shows "deliveries es = (if i \<in> cn_qos2_publish_handled c then [] else [V3_Publish p])"
    and "cn_qos2_publish_handled c' = insert i (cn_qos2_publish_handled c)"
proof -
  let ?c = "c\<lparr>cn_qos2_publish_handled := insert i (cn_qos2_publish_handled c)\<rparr>"
  let ?dup = "i \<in> cn_qos2_publish_handled c"
  obtain es1 c1 es2 where
    a: "branch (\<lambda>c. cn_status c = Connected \<and> (cn_auto_pub_response c \<or> ?dup))
          (calls (v3_ack_for FH_Pubrec i) process_send_v3_pubrec) (emit []) ?c = Ret (es1, c1)"
    and b: "refresh_pingreq_recv c1 = Ret (es2, c')"
    and es: "es = es1 @ es2 @ (if ?dup then [] else [NotifyPacketReceived (V3_Publish p)])"
    using assms by (fastforce simp: v3_publish_received_def calls_def reads_def seq_def upd_def emit_def rbind_eq_Ret split: if_splits)
  have "obeys answers (branch P (calls (v3_ack_for FH_Pubrec i) process_send_v3_pubrec) (emit []))" for P
    unfolding process_send_v3_pubrec_def
    by (intro obeys_branch obeys_calls answers_send) (simp add: obeys_def emit_def answers_def)
  from obeysD [OF this a] obeysD [OF answers_send(2) b]
  show "deliveries es = (if ?dup then [] else [V3_Publish p])"
    and "cn_qos2_publish_handled c' = insert i (cn_qos2_publish_handled c)"
    by (simp_all add: es answers_def)
qed

section \<open>Resuming a session\<close>

text \<open>The identifier of a stored packet, and the event with which a session resumes it.\<close>

primrec stored_id :: "'p::len word store_packet \<Rightarrow> 'p word" where
  "stored_id (S_V3_Publish p) = the (v3p_packet_id_buf p)"
| "stored_id (S_V3_Pubrel p) = v3a_packet_id_buf p"
| "stored_id (S_V5_Publish p) = the (v5p_packet_id_buf p)"
| "stored_id (S_V5_Pubrel p) = v5a_packet_id_buf p"

definition fits :: "u32 \<Rightarrow> 'p::len word store_packet \<Rightarrow> bool" where
  "fits limit p \<longleftrightarrow> sp_size p \<le> unat limit"

definition resume_event :: "u32 \<Rightarrow> 'p::len word store_packet \<Rightarrow> 'p word event" where
  "resume_event limit p =
     (if fits limit p then RequestSendPacket (packet_of_stored p) None else NotifyPacketIdReleased (stored_id p))"

lemma storable_id: "storable i p \<Longrightarrow> sp_packet_id p = Ret i \<and> stored_id p = i"
  by (cases p) (auto simp: storable_def unwrap_eq_Ret)

lemma send_stored_run:
  assumes "distinct (map fst xs)" and "\<forall>(i, p) \<in> set xs. storable i p \<and> (fits limit p \<or> i \<in> used_ids m)" and "pim_inv m"
  shows "\<exists>m'. store_visit (send_stored_visit limit) xs rm (m, es) =
      Ret (rm @ map fst (filter (\<lambda>(i, p). \<not> fits limit p) xs), m', es @ map (resume_event limit) (map snd xs))
    \<and> pim_inv m' \<and> used_ids m' = used_ids m - {i. \<exists>p. (i, p) \<in> set xs \<and> \<not> fits limit p}"
  using assms
proof (induction xs arbitrary: rm m es)
  case (Cons x xs)
  obtain i p where x: "x = (i, p)" by force
  have st: "storable i p" and rest: "\<forall>(j, q) \<in> set xs. storable j q \<and> (fits limit q \<or> j \<in> used_ids m)"
    using Cons.prems(2) by (auto simp: x)
  note id = storable_id [OF st]
  have d: "distinct (map fst xs)" and new: "\<forall>(j, q) \<in> set xs. j \<noteq> i" using Cons.prems(1) by (force simp: x)+
  show ?case
  proof (cases "fits limit p")
    case True
    then have "send_stored_visit limit p (m, es) = Ret (True, m, es @ [resume_event limit p])"
      by (simp add: send_stored_visit_def resume_event_def fits_def)
    moreover obtain m' where "store_visit (send_stored_visit limit) xs rm (m, es @ [resume_event limit p]) =
        Ret (rm @ map fst (filter (\<lambda>(i, p). \<not> fits limit p) xs), m', (es @ [resume_event limit p]) @ map (resume_event limit) (map snd xs))"
      "pim_inv m'" "used_ids m' = used_ids m - {i. \<exists>p. (i, p) \<in> set xs \<and> \<not> fits limit p}"
      using Cons.IH [OF d rest Cons.prems(3), of rm "es @ [resume_event limit p]"] by blast
    moreover have "{j. \<exists>q. (j, q) \<in> set (x # xs) \<and> \<not> fits limit q} = {j. \<exists>q. (j, q) \<in> set xs \<and> \<not> fits limit q}"
      using True by (auto simp: x)
    ultimately show ?thesis using True by (intro exI [of _ m']) (simp add: x)
  next
    case False
    then have "i \<in> used_ids m" using Cons.prems(2) by (auto simp: x)
    then obtain m1 where m1: "release_id m i = Ret m1" "pim_inv m1" "used_ids m1 = used_ids m - {i}"
      using release_ok [OF Cons.prems(3)] by blast
    have v: "send_stored_visit limit p (m, es) = Ret (False, m1, es @ [resume_event limit p])"
      using False m1 id by (simp add: send_stored_visit_def resume_event_def fits_def)
    have rest1: "\<forall>(j, q) \<in> set xs. storable j q \<and> (fits limit q \<or> j \<in> used_ids m1)"
      using rest new m1(3) by auto
    obtain m' where "store_visit (send_stored_visit limit) xs (rm @ [i]) (m1, es @ [resume_event limit p]) =
        Ret ((rm @ [i]) @ map fst (filter (\<lambda>(i, p). \<not> fits limit p) xs), m', (es @ [resume_event limit p]) @ map (resume_event limit) (map snd xs))"
      "pim_inv m'" "used_ids m' = used_ids m1 - {i. \<exists>p. (i, p) \<in> set xs \<and> \<not> fits limit p}"
      using Cons.IH [OF d rest1 m1(2), of "rm @ [i]" "es @ [resume_event limit p]"] by blast
    moreover have "{j. \<exists>q. (j, q) \<in> set (x # xs) \<and> \<not> fits limit q} = insert i {j. \<exists>q. (j, q) \<in> set xs \<and> \<not> fits limit q}"
      using False by (auto simp: x)
    moreover have "used_ids m - {i} - S = used_ids m - insert i S" for S by auto
    ultimately show ?thesis using False v m1(3) by (intro exI [of _ m']) (simp add: x)
  qed
qed simp

text \<open>
  C15: resuming a session.  The stored packets are taken in the order in which they were stored: one
  that the peer can take is requested to be sent, marked to keep its identifier; one that is
  larger than the peer's maximum is dropped from the store and its identifier is released and
  notified.
\<close>

theorem send_stored_spec:
  assumes "store_inv (cn_store c)" and "pim_inv (cn_pid_man c)"
    and "\<forall>i p. store_lookup (cn_store c) i = Some p \<longrightarrow> i \<in> used_ids (cn_pid_man c)"
  shows "\<exists>c'. send_stored c = Ret (map (resume_event (cn_maximum_packet_size_send c)) (get_stored (cn_store c)), c')
    \<and> get_stored (cn_store c') = filter (fits (cn_maximum_packet_size_send c)) (get_stored (cn_store c))
    \<and> store_inv (cn_store c') \<and> pim_inv (cn_pid_man c')
    \<and> (\<forall>i. i \<in> used_ids (cn_pid_man c') \<longleftrightarrow> i \<in> used_ids (cn_pid_man c)
        \<and> (case store_lookup (cn_store c) i of None \<Rightarrow> True | Some p \<Rightarrow> fits (cn_maximum_packet_size_send c) p))"
proof -
  let ?limit = "cn_maximum_packet_size_send c" and ?xs = "st_map (cn_store c)"
  have d: "distinct (map fst ?xs)" using assms(1) by (simp add: store_inv_def)
  have in_xs: "(i, p) \<in> set ?xs \<longleftrightarrow> store_lookup (cn_store c) i = Some p" for i p
    using d by (simp add: store_lookup_def)
  have ok: "\<forall>(i, p) \<in> set ?xs. storable i p \<and> (fits ?limit p \<or> i \<in> used_ids (cn_pid_man c))"
    using assms(1,3) in_xs by (auto simp: store_inv_def)
  obtain m where m: "store_visit (send_stored_visit ?limit) ?xs [] (cn_pid_man c, []) =
      Ret (map fst (filter (\<lambda>(i, p). \<not> fits ?limit p) ?xs), m, map (resume_event ?limit) (map snd ?xs))"
    and inv: "pim_inv m" and used: "used_ids m = used_ids (cn_pid_man c) - {i. \<exists>p. (i, p) \<in> set ?xs \<and> \<not> fits ?limit p}"
    using send_stored_run [OF d ok assms(2), of "[]" "[]"] by auto
  let ?xs' = "filter (\<lambda>(i, p). fits ?limit p) ?xs"
  have "send_stored c = Ret (map (resume_event ?limit) (get_stored (cn_store c)),
      c\<lparr>cn_store := cn_store c\<lparr>st_map := ?xs'\<rparr>, cn_pid_man := m\<rparr>)"
    using m fold_delete_keys [OF d, of "fits ?limit"] by (simp add: send_stored_def store_for_each_def get_stored_def)
  moreover have "map snd ?xs' = filter (fits ?limit) (map snd ?xs)"
    by (simp add: filter_map comp_def case_prod_unfold)
  moreover have "store_inv (cn_store c\<lparr>st_map := ?xs'\<rparr>)"
    using assms(1) by (auto simp: store_inv_def distinct_map_filter)
  ultimately show ?thesis
    using inv used in_xs by (auto simp: get_stored_def split: option.splits)
qed

lemma sample_pubrel_size: "sp_size (S_V3_Pubrel sample_pubrel) = 4"
  using packet_size_of_enc [of 2] by (simp add: vbi_enc_small sample_pubrel_def v3_ack_size_def)

theorem send_stored_spec_witness:
  "\<exists>c c' :: 16 word connection. store_lookup (cn_store c) 7 = Some (S_V3_Pubrel sample_pubrel) \<and> cn_maximum_packet_size_send c = 3
    \<and> send_stored c = Ret ([NotifyPacketIdReleased 7], c') \<and> get_stored (cn_store c') = []"
proof -
  obtain m :: "16 word packet_id_manager" where m: "pim_new = Ret m" "pim_inv m" using pim_new_ok by blast
  obtain u m1 where r: "register_id m 7 = Ret (u, m1)" "pim_inv m1" "7 \<in> used_ids m1"
    using register_ok [OF m(2), of 7] by auto
  obtain c0 :: "16 word connection" where c0: "conn_new Client V3_1_1 = Ret c0" by (simp add: conn_new_def m)
  define c where "c = c0\<lparr>cn_pid_man := m1, cn_store := \<lparr>st_map = [(7, S_V3_Pubrel sample_pubrel)]\<rparr>, cn_maximum_packet_size_send := 3\<rparr>"
  have inv: "store_inv (cn_store c)" by (simp add: c_def store_inv_def storable_def sample_pubrel_def)
  have p: "pim_inv (cn_pid_man c)" "\<forall>i q. store_lookup (cn_store c) i = Some q \<longrightarrow> i \<in> used_ids (cn_pid_man c)"
    using r by (simp_all add: c_def store_lookup_def)
  have gs: "get_stored (cn_store c) = [S_V3_Pubrel sample_pubrel]" and mx: "cn_maximum_packet_size_send c = 3"
    and l: "store_lookup (cn_store c) 7 = Some (S_V3_Pubrel sample_pubrel)"
    by (simp_all add: c_def get_stored_def store_lookup_def)
  have id: "stored_id (S_V3_Pubrel sample_pubrel) = 7" by (simp add: sample_pubrel_def)
  have big: "\<not> fits 3 (S_V3_Pubrel sample_pubrel)" using sample_pubrel_size by (simp only: fits_def) simp
  have ev: "resume_event 3 (S_V3_Pubrel sample_pubrel) = NotifyPacketIdReleased 7"
    unfolding resume_event_def if_not_P [OF big] id by (rule refl)
  obtain c' where "send_stored c = Ret (map (resume_event 3) [S_V3_Pubrel sample_pubrel], c')"
    "get_stored (cn_store c') = filter (fits 3) [S_V3_Pubrel sample_pubrel]"
    using send_stored_spec [OF inv p] unfolding gs mx by blast
  then show ?thesis using l mx ev big by (intro exI [of _ c] exI [of _ c']) simp
qed

section \<open>Closing\<close>

lemma release_one:
  assumes "pim_inv (cn_pid_man c)" and "i \<noteq> 0"
  shows "\<exists>m. release_packet_id i c = Ret (if i \<in> used_ids (cn_pid_man c) then [NotifyPacketIdReleased i] else [], c\<lparr>cn_pid_man := m\<rparr>)
    \<and> pim_inv m \<and> used_ids m = used_ids (cn_pid_man c) - {i}"
proof (cases "i \<in> used_ids (cn_pid_man c)")
  case True
  then show ?thesis using release_ok [OF assms(1) True] assms by (auto simp: release_packet_id_def is_used_id_iff)
next
  case False
  then show ?thesis
    using assms by (intro exI [of _ "cn_pid_man c"]) (simp add: release_packet_id_def is_used_id_iff)
qed

lemma release_all:
  assumes "pim_inv (cn_pid_man c)" and "0 \<notin> set xs" and "distinct xs"
  shows "\<exists>m. steps (map release_packet_id xs) c =
      Ret (map NotifyPacketIdReleased (filter (\<lambda>i. i \<in> used_ids (cn_pid_man c)) xs), c\<lparr>cn_pid_man := m\<rparr>)
    \<and> pim_inv m \<and> used_ids m = used_ids (cn_pid_man c) - set xs"
  using assms
proof (induction xs arbitrary: c)
  case Nil
  then show ?case by (intro exI [of _ "cn_pid_man c"]) (simp add: emit_def)
next
  case (Cons i xs)
  have i: "i \<noteq> 0" and xs: "0 \<notin> set xs" "distinct xs" "i \<notin> set xs" using Cons.prems by auto
  obtain m where m: "release_packet_id i c = Ret (if i \<in> used_ids (cn_pid_man c) then [NotifyPacketIdReleased i] else [], c\<lparr>cn_pid_man := m\<rparr>)"
    "pim_inv m" "used_ids m = used_ids (cn_pid_man c) - {i}"
    using release_one [OF Cons.prems(1) i] by blast
  obtain m' where m': "steps (map release_packet_id xs) (c\<lparr>cn_pid_man := m\<rparr>) =
      Ret (map NotifyPacketIdReleased (filter (\<lambda>j. j \<in> used_ids m) xs), c\<lparr>cn_pid_man := m'\<rparr>)"
    "pim_inv m'" "used_ids m' = used_ids m - set xs"
    using Cons.IH [of "c\<lparr>cn_pid_man := m\<rparr>"] m(2) xs by auto
  have "filter (\<lambda>j. j \<in> used_ids m) xs = filter (\<lambda>j. j \<in> used_ids (cn_pid_man c)) xs"
    using xs(3) m(3) by (intro filter_cong) auto
  moreover have "used_ids m - set xs = used_ids (cn_pid_man c) - set (i # xs)" using m(3) by auto
  ultimately show ?case using m(1) m' by (intro exI [of _ m']) (simp add: seq_def)
qed

lemma drain_run:
  assumes "pim_inv (cn_pid_man c)" and "cn_pid_man (reset c) = cn_pid_man c" and "0 \<notin> sel c"
    and "set (order (sel c)) = sel c" and "distinct (order (sel c))"
  shows "\<exists>es m. drain_ids order sel reset c = Ret (es, reset c\<lparr>cn_pid_man := m\<rparr>)
    \<and> pim_inv m \<and> used_ids m = used_ids (cn_pid_man c) - sel c"
  using release_all [of "reset c" "order (sel c)"] assms
  by (auto simp: drain_ids_def reads_def seq_def upd_def)

lemma cancel_run: "\<exists>es c'. cancel_timers c = Ret (es, c') \<and> armed c' = {}
    \<and> c' = c\<lparr>cn_pingreq_send_set := False, cn_pingreq_recv_set := False, cn_pingresp_recv_set := False\<rparr>"
  by (simp add: cancel_timers_def stop_timer_def handler_defs armed_def timer_kind_all set_eq_iff)

text \<open>
  C18: the end of a connection.  Closing never panics while the identifiers that are awaited are not
  zero, in whatever order the sets are drained.  It leaves the connection disconnected, with no timer armed
  and no topic aliases; the identifiers of open subscriptions are
  freed, and those of open publishes too unless the session is kept, in which case the
  store, the awaited answers and the handled QoS 2 publishes survive.
\<close>

theorem notify_closed_spec:
  fixes c :: "'p::len word connection"
  assumes "pim_inv (cn_pid_man c)" and "\<forall>A :: 'p word set. set (order A) = A \<and> distinct (order A)"
    and "0 \<notin> cn_pid_suback c \<union> cn_pid_unsuback c \<union> cn_pid_puback c \<union> cn_pid_pubrec c \<union> cn_pid_pubcomp c"
  shows "\<exists>es c'. notify_closed order c = Ret (es, c') \<and> cn_status c' = Disconnected \<and> armed c' = {}
    \<and> cn_topic_alias_send c' = None \<and> cn_topic_alias_recv c' = None
    \<and> cn_pid_suback c' = {} \<and> cn_pid_unsuback c' = {} \<and> cn_store c' = cn_store c \<and> pim_inv (cn_pid_man c')
    \<and> (if cn_need_store c then
         used_ids (cn_pid_man c') = used_ids (cn_pid_man c) - cn_pid_suback c - cn_pid_unsuback c
         \<and> cn_pid_puback c' = cn_pid_puback c \<and> cn_pid_pubrec c' = cn_pid_pubrec c \<and> cn_pid_pubcomp c' = cn_pid_pubcomp c
         \<and> cn_qos2_publish_handled c' = cn_qos2_publish_handled c
       else
         used_ids (cn_pid_man c') = used_ids (cn_pid_man c) - cn_pid_suback c - cn_pid_unsuback c
           - cn_pid_puback c - cn_pid_pubrec c - cn_pid_pubcomp c
         \<and> cn_pid_puback c' = {} \<and> cn_pid_pubrec c' = {} \<and> cn_pid_pubcomp c' = {} \<and> cn_qos2_publish_handled c' = {})"
proof -
  define c0 where "c0 = c\<lparr>cn_maximum_packet_size_send := packet_size_no_limit, cn_maximum_packet_size_recv := packet_size_no_limit,
    cn_status := Disconnected, cn_topic_alias_send := None, cn_topic_alias_recv := None\<rparr>"
  obtain es1 m1 where d1: "drain_ids order cn_pid_suback (\<lambda>c. c\<lparr>cn_pid_suback := {}\<rparr>) c0 = Ret (es1, c0\<lparr>cn_pid_suback := {}, cn_pid_man := m1\<rparr>)"
    "pim_inv m1" "used_ids m1 = used_ids (cn_pid_man c) - cn_pid_suback c"
    using drain_run [of c0 "\<lambda>c. c\<lparr>cn_pid_suback := {}\<rparr>" cn_pid_suback order] assms by (auto simp: c0_def)
  define c1 where "c1 = c0\<lparr>cn_pid_suback := {}, cn_pid_man := m1\<rparr>"
  obtain es2 m2 where d2: "drain_ids order cn_pid_unsuback (\<lambda>c. c\<lparr>cn_pid_unsuback := {}\<rparr>) c1 = Ret (es2, c1\<lparr>cn_pid_unsuback := {}, cn_pid_man := m2\<rparr>)"
    "pim_inv m2" "used_ids m2 = used_ids m1 - cn_pid_unsuback c"
    using drain_run [of c1 "\<lambda>c. c\<lparr>cn_pid_unsuback := {}\<rparr>" cn_pid_unsuback order] assms d1 by (auto simp: c1_def c0_def)
  define c2 where "c2 = c1\<lparr>cn_pid_unsuback := {}, cn_pid_man := m2\<rparr>"
  note cs = c2_def c1_def c0_def
  note run = notify_closed_def steps.simps seq_def upd_def emit_def branch_def
  show ?thesis
  proof (cases "cn_need_store c")
    case True
    obtain es' where "cancel_timers c2 = Ret (es', c2\<lparr>cn_pingreq_send_set := False, cn_pingreq_recv_set := False, cn_pingresp_recv_set := False\<rparr>)"
      "armed (c2\<lparr>cn_pingreq_send_set := False, cn_pingreq_recv_set := False, cn_pingresp_recv_set := False\<rparr>) = {}"
      using cancel_run [of c2] by blast
    then show ?thesis using True d1 d2 by (simp add: run cs)
  next
    case False
    define c3 where "c3 = c2\<lparr>cn_qos2_publish_handled := {}\<rparr>"
    obtain es4 m4 where d4: "drain_ids order cn_pid_puback (\<lambda>c. c\<lparr>cn_pid_puback := {}\<rparr>) c3 = Ret (es4, c3\<lparr>cn_pid_puback := {}, cn_pid_man := m4\<rparr>)"
      "pim_inv m4" "used_ids m4 = used_ids m2 - cn_pid_puback c"
      using drain_run [of c3 "\<lambda>c. c\<lparr>cn_pid_puback := {}\<rparr>" cn_pid_puback order] assms d2 by (auto simp: c3_def cs)
    define c4 where "c4 = c3\<lparr>cn_pid_puback := {}, cn_pid_man := m4\<rparr>"
    obtain es5 m5 where d5: "drain_ids order cn_pid_pubrec (\<lambda>c. c\<lparr>cn_pid_pubrec := {}\<rparr>) c4 = Ret (es5, c4\<lparr>cn_pid_pubrec := {}, cn_pid_man := m5\<rparr>)"
      "pim_inv m5" "used_ids m5 = used_ids m4 - cn_pid_pubrec c"
      using drain_run [of c4 "\<lambda>c. c\<lparr>cn_pid_pubrec := {}\<rparr>" cn_pid_pubrec order] assms d4 by (auto simp: c4_def c3_def cs)
    define c5 where "c5 = c4\<lparr>cn_pid_pubrec := {}, cn_pid_man := m5\<rparr>"
    obtain es6 m6 where d6: "drain_ids order cn_pid_pubcomp (\<lambda>c. c\<lparr>cn_pid_pubcomp := {}\<rparr>) c5 = Ret (es6, c5\<lparr>cn_pid_pubcomp := {}, cn_pid_man := m6\<rparr>)"
      "pim_inv m6" "used_ids m6 = used_ids m5 - cn_pid_pubcomp c"
      using drain_run [of c5 "\<lambda>c. c\<lparr>cn_pid_pubcomp := {}\<rparr>" cn_pid_pubcomp order] assms d5 by (auto simp: c5_def c4_def c3_def cs)
    define c6 where "c6 = c5\<lparr>cn_pid_pubcomp := {}, cn_pid_man := m6\<rparr>"
    obtain es' where "cancel_timers c6 = Ret (es', c6\<lparr>cn_pingreq_send_set := False, cn_pingreq_recv_set := False, cn_pingresp_recv_set := False\<rparr>)"
      "armed (c6\<lparr>cn_pingreq_send_set := False, cn_pingreq_recv_set := False, cn_pingresp_recv_set := False\<rparr>) = {}"
      using cancel_run [of c6] by blast
    then show ?thesis using False d1 d2 d4 d5 d6 by (simp add: run c6_def c5_def c4_def c3_def cs)
  qed
qed

theorem notify_closed_spec_witness:
  "\<exists>(c :: 16 word connection) es c'. cn_pid_suback c = {7} \<and> 7 \<in> used_ids (cn_pid_man c)
    \<and> notify_closed sorted_list_of_set c = Ret (es, c') \<and> cn_status c' = Disconnected \<and> 7 \<notin> used_ids (cn_pid_man c')"
proof -
  obtain c0 :: "16 word connection" where c0: "conn_new Client V3_1_1 = Ret c0" using sample_new by blast
  have "pim_inv (cn_pid_man c0)" using conn_new_state(1) [OF c0] by (simp add: conn_inv_def)
  then obtain m :: "16 word packet_id_manager" where m: "pim_inv m" "7 \<in> used_ids m" using register_ok [of "cn_pid_man c0" 7] by auto
  define c where "c = c0\<lparr>cn_pid_man := m, cn_pid_suback := {7}, cn_pid_unsuback := {}, cn_pid_puback := {},
    cn_pid_pubrec := {}, cn_pid_pubcomp := {}\<rparr>"
  have "pim_inv (cn_pid_man c)" "\<forall>A :: 16 word set. set (sorted_list_of_set A) = A \<and> distinct (sorted_list_of_set A)"
    "0 \<notin> cn_pid_suback c \<union> cn_pid_unsuback c \<union> cn_pid_puback c \<union> cn_pid_pubrec c \<union> cn_pid_pubcomp c"
    using m by (simp_all add: c_def)
  from notify_closed_spec [OF this] obtain es c' where "notify_closed sorted_list_of_set c = Ret (es, c')"
    "cn_status c' = Disconnected" "7 \<notin> used_ids (cn_pid_man c')"
    by (auto simp: c_def split: if_splits)
  then show ?thesis using m by (intro exI [of _ c]) (auto simp: c_def)
qed

end
