(* ===== verification/Connection_Wire.thy ===== *)
theory Connection_Wire
  imports Connection_Behaviour
begin

text \<open>
  The receiving side from bytes to events: what a connection does with the encoding of a packet
  that arrives ahead of any other bytes.
\<close>

section \<open>From bytes to the handler of a packet\<close>

lemma total_size_framed:
  assumes "n < 2097152"
  shows "remaining_length_to_total_size (of_nat n) = Ret (of_nat (1 + length (vbi_enc n) + n))"
proof -
  have u: "unat (of_nat n :: u32) = n" using assms by (simp add: unat_of_nat take_bit_nat_eq_self)
  have less: "(of_nat n :: u32) < 128 \<longleftrightarrow> n < 128" "(of_nat n :: u32) < 16384 \<longleftrightarrow> n < 16384"
    "(of_nat n :: u32) < 2097152 \<longleftrightarrow> n < 2097152"
    by (simp_all add: word_less_nat_alt u)
  show ?thesis
    using assms length_vbi_enc_bounds [of n]
    by (cases "n < 128"; cases "n < 16384")
       (simp_all add: remaining_length_to_total_size_def less uadd_def u)
qed

definition dispatch :: "u8 \<Rightarrow> raw_packet \<Rightarrow> 'p::len word handler" where
  "dispatch t raw = reads cn_protocol_version (\<lambda>version. case version of
     V3_1_1 \<Rightarrow> dispatch_v3 t raw | V5_0 \<Rightarrow> dispatch_v5 t raw | Undetermined \<Rightarrow> dispatch_undetermined t raw)"

lemma recv_wire:
  fixes c :: "'p::len word connection"
  assumes wire: "packet_wire good hdr body buf sz parse" and k: "good k" and len: "length (body k) < 2097152"
    and idle: "cn_packet_builder c = pb_new" and room: "length (buf k) \<le> unat (cn_maximum_packet_size_recv c)"
    and role: "can_receive (drop_bit 4 (hdr k)) c"
  shows "recv (cursor_new (buf k @ rest)) c =
    rbind (dispatch (drop_bit 4 (hdr k)) (mk_raw (hdr k) (body k)) c)
      (\<lambda>(es, c'). Ret (es, c', \<lparr>inner = buf k @ rest, pos = length (buf k)\<rparr>))"
proof -
  have idle': "c\<lparr>cn_packet_builder := pb_new\<rparr> = c" by (simp add: idle [symmetric])
  have l: "length (buf k) = 1 + length (vbi_enc (length (body k))) + length (body k)"
    using packet_wire.buf_eq [OF wire k] by simp
  have small: "length (buf k) < 2097156" using l len length_vbi_enc_bounds [of "length (body k)"]
    by (cases "length (body k) < 128"; cases "length (body k) < 16384") simp_all
  have "unat (of_nat (length (buf k)) :: u32) = length (buf k)" using small by (simp add: unat_of_nat take_bit_nat_eq_self)
  then have fits: "\<not> (of_nat (length (buf k)) :: u32) > cn_maximum_packet_size_recv c"
    using room by (simp add: word_less_nat_alt)
  have size: "rbind (rp_remaining_length (mk_raw (hdr k) (body k))) remaining_length_to_total_size = Ret (of_nat (length (buf k)))"
    using len total_size_framed [OF len] by (simp add: rp_remaining_length_def Let_def l)
  have "process_recv_packet (mk_raw (hdr k) (body k)) c = dispatch (drop_bit 4 (hdr k)) (mk_raw (hdr k) (body k)) c"
    unfolding process_recv_packet_def size using fits role
    by (simp add: calls_def branch_def Let_def dispatch_def)
  then show ?thesis
    using packet_wire.wire_framed(1) [OF wire k len] by (simp add: recv_def idle idle')
qed

section \<open>PUBLISH of v3.1.1\<close>

lemma publish_header:
  assumes "(h :: u8) = 0x30 OR (h AND 0x0F)"
  shows "drop_bit 4 h = 3" and "h AND 0xF0 = 0x30"
proof -
  have "drop_bit 4 h = drop_bit 4 (0x30 OR (h AND 0x0F))" by (rule arg_cong [OF assms])
  then show "drop_bit 4 h = 3" by (simp add: drop_bit_or drop_bit_and)
  have "h AND 0xF0 = (0x30 OR (h AND 0x0F)) AND 0xF0" by (rule arg_cong [OF assms])
  then show "h AND 0xF0 = 0x30" by (simp add: bit.conj_disj_distrib2 and.assoc)
qed

lemma can_receive_session [simp]: "can_receive 3 c" "can_receive 4 c"
  by (simp_all add: can_receive_def)

text \<open>A handler that cannot fail, with what it requests and delivers.\<close>

definition yields :: "'t packet list \<Rightarrow> 't packet list \<Rightarrow> ('t event list \<times> 't connection) rust \<Rightarrow> bool" where
  "yields qs ds r \<longleftrightarrow> (\<exists>es c'. r = Ret (es, c') \<and> requests es = qs \<and> deliveries es = ds)"

lemma yields_seq:
  assumes "h c = Ret (es, c1)" and "yields qs ds (k c1)"
  shows "yields (requests es @ qs) (deliveries es @ ds) (seq h k c)"
  using assms by (fastforce simp: yields_def seq_def)

lemma refresh_yields: "\<exists>es c'. refresh_pingreq_recv c = Ret (es, c') \<and> requests es = [] \<and> deliveries es = []"
  by (simp add: refresh_pingreq_recv_def arm_timer_def handler_defs)

lemma send_up:
  assumes "cn_status c = Connected"
  shows "\<exists>es c'. send_when_connected p c = Ret (es, c') \<and> requests es = [p] \<and> deliveries es = []"
  using assms by (simp add: send_when_connected_def unless_def request_send_def send_post_process_def arm_timer_def handler_defs)

text \<open>The answer that a publish asks for: its constructor and fixed header.\<close>

definition answer_to ::
  "'p::len word v3_publish \<Rightarrow> 'p word connection \<Rightarrow> (('p word v3_ack \<Rightarrow> 'p word packet) \<times> fixed_header) option" where
  "answer_to k c =
     (if v3_publish_qos k = Ret AtLeastOnce \<and> cn_auto_pub_response c then Some (V3_Puback, FH_Puback)
      else if v3_publish_qos k = Ret ExactlyOnce
        \<and> (cn_auto_pub_response c \<or> the (v3p_packet_id_buf k) \<in> cn_qos2_publish_handled c) then Some (V3_Pubrec, FH_Pubrec)
      else None)"

definition delivered :: "'p::len word v3_publish \<Rightarrow> 'p word connection \<Rightarrow> 'p word packet list" where
  "delivered k c =
     (if v3_publish_qos k = Ret ExactlyOnce \<and> the (v3p_packet_id_buf k) \<in> cn_qos2_publish_handled c then [] else [V3_Publish k])"

lemma notify_yields: "yields [] [p] (notify_received p c)"
  using refresh_yields [of c] by (auto simp: notify_received_def seq_def emit_def yields_def)

lemma v3_publish_received_quiet:
  fixes c :: "'p::len word connection"
  assumes "v3_publish_qos k = Ret q" and "q = AtMostOnce \<longleftrightarrow> v3p_packet_id_buf k = None"
    and "cn_status c = Connected" and "answer_to k c = None"
  shows "yields [] (delivered k c) (v3_publish_received k c)"
proof (cases q)
  case ExactlyOnce
  then obtain i where i: "v3p_packet_id_buf k = Some i" using assms(2) by (cases "v3p_packet_id_buf k") auto
  obtain es c' where "refresh_pingreq_recv (c\<lparr>cn_qos2_publish_handled := insert i (cn_qos2_publish_handled c)\<rparr>) = Ret (es, c')"
    "requests es = []" "deliveries es = []" using refresh_yields by blast
  then show ?thesis using assms i ExactlyOnce
    by (simp add: v3_publish_received_def answer_to_def delivered_def yields_def calls_def reads_def seq_def upd_def branch_def emit_def
        split: if_splits)
next
  case AtLeastOnce
  then obtain i where i: "v3p_packet_id_buf k = Some i" using assms(2) by (cases "v3p_packet_id_buf k") auto
  have "v3_publish_received k c = seq (emit []) (steps [notify_received (V3_Publish k)]) c"
    using assms i AtLeastOnce by (simp add: v3_publish_received_def answer_to_def calls_def branch_def seq_def emit_def split: if_splits)
  then show ?thesis using notify_yields [of "V3_Publish k" c] AtLeastOnce assms(1)
    by (auto simp: delivered_def yields_def seq_def emit_def)
next
  case AtMostOnce
  then show ?thesis using assms(1) notify_yields [of "V3_Publish k" c]
    by (simp add: v3_publish_received_def calls_def delivered_def)
qed

lemma v3_publish_received_answered:
  fixes c :: "'p::len word connection"
  assumes w: "packet_id_width TYPE('p)" and i: "v3p_packet_id_buf k = Some i"
    and up: "cn_status c = Connected" and a: "answer_to k c = Some (mk, fh)"
  shows "if i = 0 then v3_publish_received k c = Panic Unwrap_Failed
    else \<exists>a. v3a_packet_id_buf a = i \<and> yields [mk a] (delivered k c) (v3_publish_received k c)"
proof -
  consider (once) "v3_publish_qos k = Ret AtLeastOnce" "cn_auto_pub_response c" "mk = V3_Puback" "fh = FH_Puback"
    | (exactly) "v3_publish_qos k = Ret ExactlyOnce" "cn_auto_pub_response c \<or> i \<in> cn_qos2_publish_handled c"
        "mk = V3_Pubrec" "fh = FH_Pubrec"
    using a i by (auto simp: answer_to_def split: if_splits)
  then show ?thesis
  proof cases
    case once
    show ?thesis
    proof (cases "i = 0")
      case True
      then show ?thesis using once i up v3_ack_for_zero [OF w] by (simp add: v3_publish_received_def calls_def branch_def seq_def)
    next
      case False
      obtain ack where ack: "v3_ack_for FH_Puback i = Ret ack" "v3a_packet_id_buf ack = i" using v3_ack_for_ok [OF w False] by simp
      obtain es c1 where s: "send_when_connected (V3_Puback ack) c = Ret (es, c1)" "requests es = [V3_Puback ack]" "deliveries es = []"
        using send_up [OF up] by blast
      have "v3_publish_received k c = seq (send_when_connected (V3_Puback ack)) (steps [notify_received (V3_Publish k)]) c"
        using once i up ack by (simp add: v3_publish_received_def calls_def branch_def process_send_v3_puback_def seq_def)
      moreover have "yields [] [V3_Publish k] (steps [notify_received (V3_Publish k)] c1)"
        using notify_yields [of "V3_Publish k" c1] by (auto simp: yields_def seq_def emit_def)
      ultimately show ?thesis
        using yields_seq [of "send_when_connected (V3_Puback ack)" c es c1] s False ack(2) once by (auto simp: delivered_def intro!: exI [of _ ack])
    qed
  next
    case exactly
    let ?c = "c\<lparr>cn_qos2_publish_handled := insert i (cn_qos2_publish_handled c)\<rparr>"
    show ?thesis
    proof (cases "i = 0")
      case True
      then show ?thesis using exactly i up v3_ack_for_zero [OF w]
        by (auto simp: v3_publish_received_def calls_def reads_def upd_def branch_def seq_def)
    next
      case False
      obtain ack where ack: "v3_ack_for FH_Pubrec i = Ret ack" "v3a_packet_id_buf ack = i" using v3_ack_for_ok [OF w False] by simp
      have "cn_status ?c = Connected" using up by simp
      then obtain es c1 where s: "send_when_connected (V3_Pubrec ack) ?c = Ret (es, c1)" "requests es = [V3_Pubrec ack]" "deliveries es = []"
        using send_up by blast
      obtain es2 c2 where r: "refresh_pingreq_recv c1 = Ret (es2, c2)" "requests es2 = []" "deliveries es2 = []"
        using refresh_yields by blast
      have "v3_publish_received k c = Ret (es @ es2 @ (if i \<in> cn_qos2_publish_handled c then [] else [NotifyPacketReceived (V3_Publish k)]), c2)"
        using exactly i up ack s r
        by (auto simp: v3_publish_received_def calls_def reads_def upd_def branch_def process_send_v3_pubrec_def seq_def emit_def)
      then show ?thesis using False ack(2) s r exactly i by (auto simp: delivered_def yields_def intro!: exI [of _ ack])
    qed
  qed
qed

section \<open>Properties\<close>

text \<open>
  C5: a PUBLISH of v3.1.1 from bytes to events.  When a connection that is up receives the encoding of a
  well-formed PUBLISH, ahead of any other bytes, it consumes exactly this encoding and
  delivers exactly this packet, or nothing for a QoS 2 publish it has handled before;
  it sends exactly the acknowledgement that the quality of service asks for when it answers by itself, and nothing
  otherwise.  If the identifier is 0, which the parser lets through, the automatic answer panics.
\<close>

theorem recv_v3_publish:
  fixes c :: "'p::len word connection" and rest :: bytes
  assumes w: "packet_id_width TYPE('p)" and k: "v3_publish_inv k" and len: "length (v3_publish_body k) < 2097152"
    and idle: "cn_packet_builder c = pb_new"
    and room: "length (v3_publish_to_continuous_buffer k) \<le> unat (cn_maximum_packet_size_recv c)"
    and version: "cn_protocol_version c = V3_1_1" and up: "cn_status c = Connected"
  defines "r \<equiv> recv (cursor_new (v3_publish_to_continuous_buffer k @ rest)) c"
  defines "end \<equiv> \<lparr>inner = v3_publish_to_continuous_buffer k @ rest, pos = length (v3_publish_to_continuous_buffer k)\<rparr>"
  shows "case answer_to k c of
      None \<Rightarrow> \<exists>es c'. r = Ret (es, c', end) \<and> deliveries es = delivered k c \<and> requests es = []
    | Some (mk, fh) \<Rightarrow>
        if v3p_packet_id_buf k = Some 0 then r = Panic Unwrap_Failed
        else \<exists>es c' a. r = Ret (es, c', end) \<and> deliveries es = delivered k c \<and> requests es = [mk a]
          \<and> v3p_packet_id_buf k = Some (v3a_packet_id_buf a)"
proof -
  have wire: "packet_wire v3_publish_inv v3p_fixed_header v3_publish_body v3_publish_to_continuous_buffer v3_publish_size
      (v3_publish_parse :: 'p word v3_publish parser)"
    by (rule packet_codec.axioms(1) [OF v3_publish_codec [OF w]])
  have h: "v3p_fixed_header k = 0x30 OR (v3p_fixed_header k AND 0x0F)" using k by (simp add: v3_publish_inv_def)
  note t = publish_header [OF h]
  obtain q where q: "v3_publish_qos k = Ret q" "q = AtMostOnce \<longleftrightarrow> v3p_packet_id_buf k = None"
    using qos_of_bits_Ret [of "v3p_fixed_header k"] k by (auto simp: v3_publish_inv_def v3_publish_qos_def)
  have "dispatch 3 (mk_raw (v3p_fixed_header k) (v3_publish_body k)) c = v3_publish_received k c"
    using packet_wire.wire_framed(2) [OF wire k len] t(2)
    by (simp add: dispatch_def reads_def version dispatch_v3_def process_recv_v3_publish_def publish_data_def calls_def
        on_parse_def mk_raw_def rp_flags_def)
  then have r: "r = rbind (v3_publish_received k c) (\<lambda>(es, c'). Ret (es, c', end))"
    using recv_wire [OF wire k len idle room] by (simp add: r_def end_def t(1))
  show ?thesis
  proof (cases "answer_to k c")
    case None
    then show ?thesis using v3_publish_received_quiet [OF q up] by (auto simp: r yields_def)
  next
    case (Some p)
    obtain mk fh where p: "p = (mk, fh)" by force
    have "q \<noteq> AtMostOnce" using Some q(1) by (auto simp: answer_to_def split: if_splits)
    then obtain i where i: "v3p_packet_id_buf k = Some i" using q(2) by (cases "v3p_packet_id_buf k") auto
    show ?thesis
      using v3_publish_received_answered [OF w i up] Some by (auto simp: p r i yields_def split: if_splits)
  qed
qed

definition sample_publish :: "16 word \<Rightarrow> 16 word v3_publish" where
  "sample_publish i = \<lparr>v3p_fixed_header = 0x32, v3p_remaining_length = \<lparr>encoded = [5]\<rparr>,
     v3p_topic_name_buf = \<lparr>ms_encoded = [0, 1, 0x61]\<rparr>, v3p_packet_id_buf = Some i, v3p_payload_buf = []\<rparr>"

lemma sample_publish_facts:
  "v3_publish_body (sample_publish i) = [0, 1, 0x61] @ to_buffer i"
  "v3_publish_to_continuous_buffer (sample_publish i) = [0x32, 5, 0, 1, 0x61] @ to_buffer i"
  "v3_publish_qos (sample_publish i) = Ret AtLeastOnce" "v3_publish_inv (sample_publish i)"
proof -
  show b: "v3_publish_body (sample_publish i) = [0, 1, 0x61] @ to_buffer i"
    and "v3_publish_to_continuous_buffer (sample_publish i) = [0x32, 5, 0, 1, 0x61] @ to_buffer i"
    by (simp_all add: sample_publish_def v3_publish_body_def v3_publish_to_continuous_buffer_def pid_bytes_def
          ms_to_continuous_buffer_def ms_as_bytes_def)
  have "length (to_buffer i) = 2" by (simp add: pid_size_def)
  moreover have "utf8_valid [0x61]" by (simp add: utf8_valid_ascii)
  ultimately show "v3_publish_inv (sample_publish i)"
    unfolding v3_publish_inv_def b by (simp add: sample_publish_def vbi_enc_small ms_inv_def len_prefix_def qos_bits_def)
  show "v3_publish_qos (sample_publish i) = Ret AtLeastOnce"
    by (simp add: sample_publish_def v3_publish_qos_def) code_simp
qed

lemma sample_up:
  "\<exists>c :: 16 word connection. conn_inv Client v c \<and> cn_packet_builder c = pb_new \<and> cn_protocol_version c = v
    \<and> cn_status c = Connected \<and> cn_auto_pub_response c \<and> unat (cn_maximum_packet_size_recv c) = 268435461"
proof -
  obtain m :: "16 word packet_id_manager" where m: "pim_new = Ret m" using pim_new_ok by blast
  obtain c0 :: "16 word connection" where c0: "conn_new Client v = Ret c0" "cn_protocol_version c0 = v" "cn_packet_builder c0 = pb_new"
    "cn_maximum_packet_size_recv c0 = packet_size_no_limit"
    by (simp add: conn_new_def m)
  let ?c = "c0\<lparr>cn_status := Connected, cn_auto_pub_response := True\<rparr>"
  have "conn_inv Client v ?c" using conn_new_state(1) [OF c0(1)] by (simp add: conn_inv_def tables_inv_def)
  then show ?thesis using c0 by (intro exI [of _ ?c]) (simp add: packet_size_no_limit_def)
qed

text \<open>The identifier 7 is acknowledged, the identifier 0 panics.\<close>

theorem recv_v3_publish_witness:
  "\<exists>c es c' a. recv (cursor_new [0x32, 5, 0, 1, 0x61, 0, 7]) c = Ret (es, c', \<lparr>inner = [0x32, 5, 0, 1, 0x61, 0, 7], pos = 7\<rparr>)
    \<and> deliveries es = [V3_Publish (sample_publish 7)] \<and> requests es = [V3_Puback a] \<and> v3a_packet_id_buf a = 7
    \<and> recv (cursor_new [0x32, 5, 0, 1, 0x61, 0, 0]) c = Panic Unwrap_Failed"
proof -
  obtain c :: "16 word connection" where c: "cn_packet_builder c = pb_new" "cn_protocol_version c = V3_1_1"
    "cn_status c = Connected" "cn_auto_pub_response c" "unat (cn_maximum_packet_size_recv c) = 268435461"
    using sample_up [of V3_1_1] by blast
  have b: "to_buffer (7 :: 16 word) = [0, 7]" "to_buffer (0 :: 16 word) = [0, 0]" by code_simp+
  have w: "packet_id_width TYPE(16)" by (simp add: packet_id_width_def)
  have a: "answer_to (sample_publish i) c = Some (V3_Puback, FH_Puback)" "delivered (sample_publish i) c = [V3_Publish (sample_publish i)]" for i
    using c by (simp_all add: answer_to_def delivered_def sample_publish_facts)
  have id: "v3p_packet_id_buf (sample_publish i) = Some i" for i by (simp add: sample_publish_def)
  have seven: "(7 :: nat) = Suc (Suc (Suc (Suc (Suc (Suc (Suc 0))))))" by simp
  note run = recv_v3_publish [OF w sample_publish_facts(4) _ c(1) _ c(2,3), where rest = "[]"]
  have "recv (cursor_new [0x32, 5, 0, 1, 0x61, 0, 0]) c = Panic Unwrap_Failed"
    using run [of 0] by (simp add: a id sample_publish_facts(1,2) b c(5))
  moreover have "\<exists>es c' a. recv (cursor_new [0x32, 5, 0, 1, 0x61, 0, 7]) c = Ret (es, c', \<lparr>inner = [0x32, 5, 0, 1, 0x61, 0, 7], pos = 7\<rparr>)
      \<and> deliveries es = [V3_Publish (sample_publish 7)] \<and> requests es = [V3_Puback a] \<and> v3a_packet_id_buf a = 7"
    using run [of 7] by (simp add: a id sample_publish_facts(1,2) b c(5) seven)
  ultimately show ?thesis by blast
qed

section \<open>PUBACK of v5.0\<close>

lemma rbind_Ret_right [simp]: "rbind m Ret = m"
  by (cases m) simp_all

lemma erase_run:
  assumes "store_inv (cn_store c)"
  shows "\<exists>st. erase_stored r i c = Ret ([], c\<lparr>cn_store := st\<rparr>) \<and> store_inv st
    \<and> store_lookup st = (if \<exists>p. store_lookup (cn_store c) i = Some p \<and> sp_response_packet p = Ret r
        then (store_lookup (cn_store c))(i := None) else store_lookup (cn_store c))"
proof -
  obtain st where "store_erase r i (cn_store c) = Ret (st \<noteq> cn_store c, st)" "store_inv st"
    "if \<exists>p. store_lookup (cn_store c) i = Some p \<and> sp_response_packet p = Ret r
     then store_lookup st = (store_lookup (cn_store c))(i := None) \<and> st \<noteq> cn_store c else st = cn_store c"
    using store_erase_ok [OF assms, of r i] by blast
  then show ?thesis by (intro exI [of _ st]) (simp add: erase_stored_def split: if_splits)
qed

lemma publish_done_run:
  "publish_done c = (if cn_publish_send_max c \<noteq> None \<and> cn_publish_send_count c = 0 then Panic Arith_Overflow
    else Ret ([], if cn_publish_send_max c = None then c else c\<lparr>cn_publish_send_count := cn_publish_send_count c - 1\<rparr>))"
  using word_gt_0 [of "cn_publish_send_count c"]
  by (auto simp: publish_done_def branch_def reads_def calls_def upd_def emit_def usub_def word_le_nat_alt unat_gt_0 Suc_le_eq)

lemma refresh_frame:
  "\<exists>es b. refresh_pingreq_recv c = Ret (es, c\<lparr>cn_pingreq_recv_set := b\<rparr>) \<and> requests es = [] \<and> deliveries es = []"
proof (cases "cn_pingreq_recv_timeout_ms c = 0")
  case True
  then show ?thesis
    by (intro exI [of _ "[]"] exI [of _ "cn_pingreq_recv_set c"]) (simp add: refresh_pingreq_recv_def handler_defs)
next
  case False
  then show ?thesis
    by (intro exI [of _ "[RequestTimerReset PingreqRecv (cn_pingreq_recv_timeout_ms c)]"] exI [of _ True])
       (simp add: refresh_pingreq_recv_def arm_timer_def handler_defs)
qed

text \<open>
  C9: a PUBACK of v5.0 from bytes to events.  The acknowledgement of an awaited publish takes
  its packet out of the store, frees its identifier with notice, gives back one place in the
  receive maximum of the peer and is delivered.  When no place is taken, which
  happens after a session is resumed because \<open>send_stored\<close> does not count what it sends again, the
  subtraction overflows.
\<close>

theorem recv_v5_puback:
  fixes c :: "'p::len word connection" and rest :: bytes
  assumes w: "packet_id_width TYPE('p)"
    and k: "v5_ack_inv FH_Puback (\<lambda>b. puback_reason_code_try_from b \<noteq> None) validate_puback_properties k"
    and len: "length (v5_ack_body k) < 2097152" and idle: "cn_packet_builder c = pb_new"
    and room: "length (v5_ack_to_continuous_buffer k) \<le> unat (cn_maximum_packet_size_recv c)"
    and version: "cn_protocol_version c = V5_0" and awaited: "v5a_packet_id_buf k \<in> cn_pid_puback c"
    and inv: "tables_inv c" "pim_inv (cn_pid_man c)"
  defines "r \<equiv> recv (cursor_new (v5_ack_to_continuous_buffer k @ rest)) c" and "i \<equiv> v5a_packet_id_buf k"
  shows "if cn_publish_send_max c \<noteq> None \<and> cn_publish_send_count c = 0 then r = Panic Arith_Overflow
    else \<exists>es c'. r = Ret (es, c', \<lparr>inner = v5_ack_to_continuous_buffer k @ rest, pos = length (v5_ack_to_continuous_buffer k)\<rparr>)
      \<and> deliveries es = [V5_Puback k] \<and> requests es = []
      \<and> ids_after es (used_ids (cn_pid_man c)) = Some (used_ids (cn_pid_man c'))
      \<and> used_ids (cn_pid_man c') = used_ids (cn_pid_man c) - {i} \<and> cn_pid_puback c' = cn_pid_puback c - {i}
      \<and> store_lookup (cn_store c') = (if \<exists>p. store_lookup (cn_store c) i = Some p \<and> sp_response_packet p = Ret R_V5_Puback
          then (store_lookup (cn_store c))(i := None) else store_lookup (cn_store c))
      \<and> cn_publish_send_count c' = (if cn_publish_send_max c = None then cn_publish_send_count c else cn_publish_send_count c - 1)"
proof -
  have h: "drop_bit 4 (v5a_fixed_header k) = 4" and i0: "i \<noteq> 0" using k by (simp_all add: v5_ack_inv_def i_def)
  note wire = packet_codec.axioms(1) [OF v5_ack_codec [OF w]]
  define c1 where "c1 = c\<lparr>cn_pid_puback := cn_pid_puback c - {i}\<rparr>"
  have "dispatch 4 (mk_raw (v5a_fixed_header k) (v5_ack_body k)) c = v5_ack_received R_V5_Puback i (V5_Puback k) c1"
    using packet_wire.wire_framed(2) [OF wire k len] awaited
    by (simp add: dispatch_def reads_def version dispatch_v5_def process_recv_v5_puback_def on_parse_def calls_def
        v5_puback_parse_def Let_def branch_def seq_def upd_def c1_def i_def)
  then have r: "r = rbind (v5_ack_received R_V5_Puback i (V5_Puback k) c1)
      (\<lambda>(es, c'). Ret (es, c', \<lparr>inner = v5_ack_to_continuous_buffer k @ rest, pos = length (v5_ack_to_continuous_buffer k)\<rparr>))"
    using recv_wire [OF wire k len idle room] by (simp add: r_def h)
  have same: "cn_store c1 = cn_store c" by (simp add: c1_def)
  have "store_inv (cn_store c1)" using inv(1) by (simp add: tables_inv_def same)
  then obtain st where st: "erase_stored R_V5_Puback i c1 = Ret ([], c1\<lparr>cn_store := st\<rparr>)"
    "store_lookup st = (if \<exists>p. store_lookup (cn_store c) i = Some p \<and> sp_response_packet p = Ret R_V5_Puback
        then (store_lookup (cn_store c))(i := None) else store_lookup (cn_store c))"
    using erase_run [of c1 R_V5_Puback i] unfolding same by blast
  define c2 where "c2 = c1\<lparr>cn_store := st\<rparr>"
  obtain m where m: "release_packet_id i c2 = Ret (if i \<in> used_ids (cn_pid_man c) then [NotifyPacketIdReleased i] else [], c2\<lparr>cn_pid_man := m\<rparr>)"
    "used_ids m = used_ids (cn_pid_man c) - {i}"
    using release_one [of c2 i] inv(2) i0 by (auto simp: c2_def c1_def)
  define c3 where "c3 = c2\<lparr>cn_pid_man := m\<rparr>"
  note cs = c3_def c2_def c1_def
  show ?thesis
  proof (cases "cn_publish_send_max c \<noteq> None \<and> cn_publish_send_count c = 0")
    case True
    then have "publish_done c3 = Panic Arith_Overflow" by (simp add: publish_done_run cs)
    then show ?thesis using True st(1) m(1) by (simp add: r v5_ack_received_def seq_def c2_def [symmetric] c3_def [symmetric])
  next
    case False
    define c4 where "c4 = (if cn_publish_send_max c = None then c3 else c3\<lparr>cn_publish_send_count := cn_publish_send_count c - 1\<rparr>)"
    have d: "publish_done c3 = Ret ([], c4)" using False by (auto simp: publish_done_run cs c4_def)
    obtain es b where f: "refresh_pingreq_recv c4 = Ret (es, c4\<lparr>cn_pingreq_recv_set := b\<rparr>)" "requests es = []" "deliveries es = []"
      using refresh_frame by blast
    let ?es = "(if i \<in> used_ids (cn_pid_man c) then [NotifyPacketIdReleased i] else []) @ es @ [NotifyPacketReceived (V5_Puback k)]"
    have run: "v5_ack_received R_V5_Puback i (V5_Puback k) c1 = Ret (?es, c4\<lparr>cn_pingreq_recv_set := b\<rparr>)"
      using st(1) m(1) d f(1)
      by (simp add: v5_ack_received_def notify_received_def seq_def emit_def c2_def [symmetric] c3_def [symmetric])
    have "accounts_ids c1 ?es (c4\<lparr>cn_pingreq_recv_set := b\<rparr>)" by (rule obeysD [OF ids.received(2) run])
    then have "ids_after ?es (used_ids (cn_pid_man c)) = Some (used_ids m)"
      using inv(2) by (auto simp: accounts_ids_def c4_def cs)
    then show ?thesis
      using False run f(2,3) st(2) m(2) by (auto simp: r c4_def cs)
  qed
qed

definition sample_puback :: "16 word v5_ack" where
  "sample_puback = \<lparr>v5a_fixed_header = 0x40, v5a_remaining_length = \<lparr>encoded = [2]\<rparr>, v5a_packet_id_buf = 7,
     v5a_reason_code_buf = None, v5a_property_length = None, v5a_props = None\<rparr>"

text \<open>A PUBACK after a session was resumed, with a receive maximum and no counted publish: the subtraction panics.\<close>

theorem recv_v5_puback_witness:
  "\<exists>c :: 16 word connection. conn_inv Client V5_0 c \<and> cn_status c = Connected \<and> 7 \<in> cn_pid_puback c
    \<and> cn_publish_send_max c = Some 10 \<and> recv (cursor_new [0x40, 2, 0, 7]) c = Panic Arith_Overflow"
proof -
  obtain c :: "16 word connection" where c: "conn_inv Client V5_0 c" "cn_packet_builder c = pb_new" "cn_protocol_version c = V5_0"
    "cn_status c = Connected" "unat (cn_maximum_packet_size_recv c) = 268435461"
    using sample_up [of V5_0] by blast
  let ?c = "c\<lparr>cn_pid_puback := {7}, cn_publish_send_max := Some 10, cn_publish_send_count := 0\<rparr>"
  have w: "packet_id_width TYPE(16)" by (simp add: packet_id_width_def)
  have b: "to_buffer (7 :: 16 word) = [0, 7]" by code_simp
  have body: "v5_ack_body sample_puback = [0, 7]" "v5_ack_to_continuous_buffer sample_puback = [0x40, 2, 0, 7]"
    by (simp_all add: v5_ack_body_def v5_ack_to_continuous_buffer_def v5_reason_buffer_def sample_puback_def b)
  have k: "v5_ack_inv FH_Puback (\<lambda>b. puback_reason_code_try_from b \<noteq> None) validate_puback_properties sample_puback"
    unfolding v5_ack_inv_def body by (simp add: sample_puback_def v5_reason_inv_def vbi_enc_small)
  have inv: "tables_inv ?c" "pim_inv (cn_pid_man ?c)" "conn_inv Client V5_0 ?c"
    using c(1) by (simp_all add: conn_inv_def tables_inv_def)
  have "recv (cursor_new [0x40, 2, 0, 7]) ?c = Panic Arith_Overflow"
    using recv_v5_puback [OF w k, of ?c "[]"] inv(1,2) c by (simp add: body) (simp add: sample_puback_def)
  then show ?thesis using inv(3) c(4) by (intro exI [of _ ?c]) simp
qed

section \<open>Progress\<close>

text \<open>
  C11: an application that hands over its bytes again and again comes to their end.  In every
  reachable state, a call of \<open>recv\<close> on a buffer with unread bytes takes at least one of them and stays within
  the buffer; a call that does not complete a packet or find an error takes all of them.
\<close>

theorem recv_progress:
  assumes "reachable role version trace c" and "pos data < length (inner data)"
  shows "\<exists>res pb data'. feed (cn_packet_builder c) data = Ret (res, pb, data')
    \<and> inner data' = inner data \<and> pos data < pos data' \<and> pos data' \<le> length (inner data)
    \<and> (res = Incomplete \<longrightarrow> pos data' = length (inner data))
    \<and> (\<forall>es c' d. recv data c = Ret (es, c', d) \<longrightarrow> d = data')"
proof -
  have "builder_ok (cn_packet_builder c)"
    using reachable_conn_inv [OF assms(1)] by (simp add: conn_inv_def tables_inv_def)
  from feed_from_ok [OF this, of data] assms(2) show ?thesis
    by (fastforce simp: recv_def rbind_eq_Ret)
qed

theorem recv_progress_witness:
  "\<exists>c res pb data'. conn_new Client V3_1_1 = Ret (c :: 16 word connection)
    \<and> feed (cn_packet_builder c) (cursor_new [0x20, 2, 0]) = Ret (res, pb, data') \<and> 0 < pos data' \<and> pos data' \<le> 3"
proof -
  obtain c :: "16 word connection" where c: "conn_new Client V3_1_1 = Ret c" using sample_new by blast
  show ?thesis
    using recv_progress [OF reachable_new [OF c], of "cursor_new [0x20, 2, 0]"] c by (auto simp: cursor_new_def)
qed

end
