(* ===== verification/Connection_Limits.thy ===== *)
theory Connection_Limits
  imports Connection_Wire
begin

text \<open>
  What limits a sender: the maximum packet size of the peer, what a topic alias that is put in by the connection does to it,
  and the packets that a role and a protocol version may send.
\<close>

section \<open>The maximum packet size\<close>

text \<open>A handler that requests only one packet, or packets within the peer's maximum.\<close>

definition within :: "'p::len word packet \<Rightarrow> 'p word connection \<Rightarrow> 'p word event list \<Rightarrow> 'p word connection \<Rightarrow> bool" where
  "within q0 c es c' \<longleftrightarrow> cn_maximum_packet_size_send c' = cn_maximum_packet_size_send c
     \<and> (\<forall>q \<in> set (requests es). q = q0 \<or> gp_size q \<le> unat (cn_maximum_packet_size_send c))"

named_theorems within_intros

lemma within_basic [within_intros]:
  "obeys (within q) h1 \<Longrightarrow> obeys (within q) k1 \<Longrightarrow> obeys (within q) (seq h1 k1)"
  "obeys (within q) (steps [])"
  "obeys (within q) h2 \<Longrightarrow> obeys (within q) (steps hs) \<Longrightarrow> obeys (within q) (steps (h2 # hs))"
  "(\<And>c. cn_maximum_packet_size_send (f c) = cn_maximum_packet_size_send c) \<Longrightarrow> obeys (within q) (upd f)"
  by (fastforce simp: obeys_def handler_defs rbind_eq_Ret within_def)+

lemma within_emit [within_intros]: "set (requests es) \<subseteq> {q} \<Longrightarrow> obeys (within q) (emit es)"
  by (auto simp: obeys_def emit_def within_def)

lemma set_timer_max [simp]: "cn_maximum_packet_size_send (set_timer k b c) = cn_maximum_packet_size_send c"
  by (cases k) simp_all

lemma within_shared [within_intros]:
  "obeys (within q) (arm_timer k ms)" "obeys (within q) (stop_timer k)" "obeys (within q) (release_packet_id pid)"
  by (auto simp: arm_timer_def stop_timer_def obeys_def handler_defs within_def dest!: release_packet_id_shape)

lemma within_steps [within_intros]:
  "obeys (within q) cancel_timers" "obeys (within q) send_post_process" "obeys (within q) (request_send q r)"
  "obeys (within q) close_refused" "obeys (within q) (upd clear_store_related)"
  unfolding cancel_timers_def request_send_def send_post_process_def close_refused_def
  by (intro within_intros obeys_intros; simp add: clear_store_related_def)+

lemma within_unless [within_intros]: "obeys (within q) h \<Longrightarrow> obeys (within q) (unless P e h)"
  unfolding unless_def by (intro within_intros obeys_branch) simp_all

lemma send_stored_within [within_intros]: "obeys (within q) send_stored"
proof -
  have visits: "store_visit (send_stored_visit limit) xs rm (m, es0) = Ret (rm', m', es) \<Longrightarrow>
      \<forall>q \<in> set (requests es0). gp_size q \<le> unat limit \<Longrightarrow> \<forall>q \<in> set (requests es). gp_size q \<le> unat limit"
    for limit and xs :: "('a word \<times> 'a word store_packet) list" and rm m es0 rm' m' es
  proof (induction xs arbitrary: rm m es0)
    case (Cons x xs)
    obtain i p where x: "x = (i, p)" by force
    from Cons.prems(1) obtain keep m1 es1 where v: "send_stored_visit limit p (m, es0) = Ret (keep, m1, es1)"
      and rest: "store_visit (send_stored_visit limit) xs (if keep then rm else rm @ [i]) (m1, es1) = Ret (rm', m', es)"
      by (auto simp: x rbind_eq_Ret)
    have "sp_size p = gp_size (packet_of_stored p)" by (cases p) simp_all
    then have "\<forall>q \<in> set (requests es1). gp_size q \<le> unat limit"
      using v Cons.prems(2) by (auto simp: send_stored_visit_def rbind_eq_Ret split: if_splits)
    then show ?case using Cons.IH [OF rest] by blast
  qed simp
  show ?thesis
    using visits by (fastforce simp: obeys_def send_stored_def store_for_each_def rbind_eq_Ret within_def)
qed

lemma within_props [within_intros]:
  "obeys (within q) (send_connect_props props)" "obeys (within q) (send_connack_props props)"
proof (induction props)
  case (Cons p props)
  show "obeys (within q) (send_connect_props (p # props))" "obeys (within q) (send_connack_props (p # props))"
    by (cases p; simp split del: if_split; intro Cons.IH within_intros obeys_intros; simp)+
qed (simp_all add: within_intros)

lemma within_parts [within_intros]:
  "obeys (within q) (store_or_panic st)" "obeys (within q) (reject_with_release e pid_opt)"
  "obeys (within q) (send_when_connected q)" "obeys (within q) (send_pubrel pid st q)"
  "(\<And>c. cn_maximum_packet_size_send (f c) = cn_maximum_packet_size_send c) \<Longrightarrow> obeys (within q) (send_identified pid f q)"
  "obeys (within q) (send_pingreq q)" "obeys (within q) (send_disconnect q)"
proof -
  show st: "obeys (within q) (store_or_panic st)"
    by (auto simp: obeys_def store_or_panic_def rbind_eq_Ret within_def)
  show rj: "obeys (within q) (reject_with_release e pid_opt)" for e pid_opt
    unfolding reject_with_release_def by (intro within_intros obeys_intros; simp)
  show "obeys (within q) (send_when_connected q)" "obeys (within q) (send_pingreq q)" "obeys (within q) (send_disconnect q)"
    unfolding send_when_connected_def send_pingreq_def send_disconnect_def by (intro within_intros obeys_intros; simp)+
  show "obeys (within q) (send_pubrel pid st q)"
    unfolding send_pubrel_def by (intro st within_intros obeys_intros; simp)
  show "(\<And>c. cn_maximum_packet_size_send (f c) = cn_maximum_packet_size_send c) \<Longrightarrow> obeys (within q) (send_identified pid f q)"
    unfolding send_identified_def by (intro rj within_intros obeys_intros; simp)
qed

lemmas v5_send_defs = process_send_v5_connect_def process_send_v5_connack_def process_send_v5_puback_def
  process_send_v5_pubrec_def process_send_v5_pubrel_def process_send_v5_pubcomp_def process_send_v5_subscribe_def
  process_send_v5_unsubscribe_def process_send_v5_suback_def process_send_v5_unsuback_def process_send_v5_pingreq_def
  process_send_v5_pingresp_def process_send_v5_disconnect_def process_send_v5_auth_def

lemma within_send:
  assumes "gp_protocol_version packet = V5_0" and "gp_packet_type packet \<noteq> PT_Publish"
  shows "obeys (within packet) (send packet)"
  using assms unfolding send_def send_dispatch_def for_role_def
  by (cases packet; simp split del: if_split; (unfold v5_send_defs)?; intro within_intros obeys_intros;
      simp add: initialize_def)

lemma unless_refused: "P c \<Longrightarrow> unless P e h c = Ret ([NotifyError e], c)"
  by (simp add: unless_def branch_def emit_def)

lemma too_large_refused:
  assumes "gp_protocol_version packet = V5_0" and "gp_packet_type packet \<noteq> PT_Publish"
    and "\<not> gp_size packet \<le> unat (cn_maximum_packet_size_send c)"
  shows "\<exists>e. send packet c = Ret ([NotifyError e], c)"
proof -
  have big: "too_large (gp_size packet) c" using assms(3) by (simp add: validate_maximum_packet_size_send_def)
  have "\<exists>e. send_dispatch packet c = Ret ([NotifyError e], c)"
    using assms(1,2) big unfolding send_dispatch_def for_role_def
    by (cases packet; simp; (unfold v5_send_defs)?) (auto simp: unless_def branch_def emit_def)
  then show ?thesis by (auto simp: send_def unless_def branch_def emit_def)
qed

section \<open>Properties\<close>

text \<open>
  C16: what is sent fits the maximum packet size of the peer.  Sending a packet of v5.0
  other than PUBLISH requests nothing that is larger than the maximum the peer has announced, the packets that are
  sent again after a CONNACK included; a packet that is too large is refused and
  changes nothing.
\<close>

theorem send_within_maximum:
  assumes "gp_protocol_version packet = V5_0" and "gp_packet_type packet \<noteq> PT_Publish"
    and "send packet c = Ret (es, c')"
  shows "(\<forall>q \<in> set (requests es). gp_size q \<le> unat (cn_maximum_packet_size_send c))
    \<and> (unat (cn_maximum_packet_size_send c) < gp_size packet \<longrightarrow> c' = c \<and> (\<exists>e. es = [NotifyError e]))"
proof (cases "gp_size packet \<le> unat (cn_maximum_packet_size_send c)")
  case True
  then show ?thesis using obeysD [OF within_send [OF assms(1,2)] assms(3)] by (auto simp: within_def)
next
  case False
  then show ?thesis using too_large_refused [OF assms(1,2) False] assms(3) by auto
qed

theorem send_within_maximum_witness:
  "\<exists>c c' :: 16 word connection. \<exists>es e. conn_inv Client V5_0 c \<and> cn_status c = Connected \<and> cn_maximum_packet_size_send c = 3
    \<and> send (V5_Puback sample_puback) c = Ret (es, c') \<and> es = [NotifyError e] \<and> c' = c"
proof -
  obtain c0 :: "16 word connection" where c0: "conn_inv Client V5_0 c0" "cn_status c0 = Connected" "cn_protocol_version c0 = V5_0"
    using sample_up [of V5_0] by blast
  define c where "c = c0\<lparr>cn_maximum_packet_size_send := 3\<rparr>"
  have size: "gp_size (V5_Puback sample_puback) = 4"
    using packet_size_of_enc [of 2] by (simp add: vbi_enc_small sample_puback_def v5_ack_size_def)
  have "\<exists>es c'. send (V5_Puback sample_puback) c = Ret (es, c')"
    using size c0 by (simp add: c_def send_def send_dispatch_def process_send_v5_puback_def unless_def branch_def emit_def
        validate_maximum_packet_size_send_def)
  then obtain es c' where s: "send (V5_Puback sample_puback) c = Ret (es, c')" by blast
  have "conn_inv Client V5_0 c" using c0 by (simp add: c_def conn_inv_def tables_inv_def)
  then show ?thesis using send_within_maximum [OF _ _ s] s size c0(2) by (intro exI [of _ c]) (auto simp: c_def)
qed

section \<open>Topic aliases and the maximum\<close>

text \<open>What an alias that is put in does to the size: a topic makes room for three bytes and what the lengths grow by.\<close>

lemma vbi_of_eq_Ret: "n < 2 ^ 32 \<Longrightarrow> vbi_of n = Ret v \<longleftrightarrow> n < 268435456 \<and> v = \<lparr>encoded = vbi_enc n\<rparr>"
  by (auto simp: vbi_of_def from_u32_eq unat_of_nat take_bit_nat_eq_self)

lemma vbi_enc_grows: "d < 128 \<Longrightarrow> length (vbi_enc (n + d)) \<le> length (vbi_enc n) + 1"
proof (induction n arbitrary: d rule: less_induct)
  case (less n)
  show ?case
  proof (cases "n < 128")
    case True
    then have "n + d < 16384" using less.prems by simp
    then show ?thesis
      using vbi_enc_pos [of n] length_vbi_enc_bounds(2,3) [of "n + d"] by (cases "n + d < 128") linarith+
  next
    case False
    have "(n mod 128 + d) div 128 < 128" using less.prems by simp
    moreover have "(n + d) div 128 = n div 128 + (n mod 128 + d) div 128"
      using div_mult_self1 [of 128 "n mod 128 + d" "n div 128"] by (simp add: add.assoc [symmetric] add.commute)
    ultimately show ?thesis
      using less.IH [of "n div 128" "(n mod 128 + d) div 128"] False by (simp add: length_vbi_enc [of n] length_vbi_enc [of "n + d"])
  qed
qed

lemma no_alias_property: "get_topic_alias_from_props props = None \<Longrightarrow> without_topic_alias props = props"
  by (induction props rule: get_topic_alias_from_props.induct) (simp_all add: without_topic_alias_def)

definition takes_place_of_topic :: "nat \<Rightarrow> nat \<Rightarrow> nat \<Rightarrow> bool" where
  "takes_place_of_topic t n n' \<longleftrightarrow> n' + t \<le> n + 5 \<and> (4 \<le> t \<longrightarrow> n' \<le> n) \<and> (t < 4 \<longrightarrow> n + 3 \<le> n' + t)"

lemma aliased_size:
  fixes k :: "'p::len word v5_publish"
  assumes wf: "v5_publish_wf k" and none: "get_topic_alias_from_props (v5p_props k) = None"
    and run: "v5_remove_topic_add_topic_alias k a = Ret k'"
  shows "takes_place_of_topic (length (v5_publish_topic_name k)) (v5_publish_size k) (v5_publish_size k')"
proof -
  let ?n = "properties_size (v5p_props k)"
  let ?body = "length (v5_publish_body k)" and ?t = "length (v5_publish_topic_name k)"
  define body' where "body' = 2 + length (pid_bytes (v5p_packet_id_buf k)) + length (vbi_enc (?n + 3)) + (?n + 3) + length (v5p_payload_buf k)"
  have props: "without_topic_alias (v5p_props k) = v5p_props k" by (rule no_alias_property [OF none])
  have n: "?n < 268435456" using wf by (simp add: v5_publish_wf_def properties_inv_def)
  obtain q where q: "qos_of_bits (qos_bits (v5p_fixed_header k)) = Ret q" "q = AtMostOnce \<longleftrightarrow> qos_bits (v5p_fixed_header k) = 0"
    using qos_of_bits_Ret wf by (auto simp: v5_publish_wf_def)
  have pid: "(if q \<noteq> AtMostOnce then (case v5p_packet_id_buf k of None \<Rightarrow> 0 | Some _ \<Rightarrow> pid_size TYPE('p)) else 0)
      = length (pid_bytes (v5p_packet_id_buf k))"
    using q(2) wf by (auto simp: v5_publish_wf_def length_pid_bytes)
  have t: "ms_size (v5p_topic_name_buf k) = ?t + 2" using wf by (simp add: v5_publish_wf_def ms_size_inv v5_publish_topic_name_def)
  have body: "?body + 3 + (length (vbi_enc (?n + 3)) - length (vbi_enc ?n)) = body' + ?t"
    using vbi_enc_length_mono [of ?n "?n + 3"] by (simp add: body'_def length_v5_publish_body length_properties_wire t)
  have small: "?body < 268435456" using wf by (simp add: v5_publish_wf_def)
  have grow: "length (vbi_enc (?n + 3)) \<le> length (vbi_enc ?n) + 1" by (rule vbi_enc_grows) simp
  have fits: "body' < 2 ^ 32" using body small grow by simp
  have pr: "properties_size (v5p_props k @ [P_TopicAlias a]) = ?n + 3" by (simp add: properties_size_def)
  have r: "v5_recalculate_lengths (k\<lparr>v5p_topic_name_buf := \<lparr>ms_encoded = [0, 0]\<rparr>, v5p_props := v5p_props k @ [P_TopicAlias a]\<rparr>) = Ret k'"
    using run by (auto simp: v5_remove_topic_add_topic_alias_def rbind_eq_Ret props ms_new_def len_prefix_def new_checked_def
        res_bind_eq_Ok unwrap_res_eq_Ret)
  obtain pl rl where pl: "vbi_of (?n + 3) = Ret pl"
    and rest: "vbi_of (2 + (if q \<noteq> AtMostOnce then (case v5p_packet_id_buf k of None \<Rightarrow> 0 | Some _ \<Rightarrow> pid_size TYPE('p)) else 0)
        + vbi_size pl + (?n + 3) + length (v5p_payload_buf k)) = Ret rl"
    and k': "v5p_remaining_length k' = rl"
    using r by (auto simp: v5_recalculate_lengths_def rbind_eq_Ret v5_publish_qos_def Let_def q(1) pr ms_size_def add.assoc
        cong: if_cong option.case_cong)
  have "vbi_size pl = length (vbi_enc (?n + 3))" using pl n by (simp add: vbi_of_eq_Ret vbi_size_def)
  then have "vbi_of body' = Ret rl" using rest unfolding pid by (simp add: body'_def)
  then have rl: "body' < 268435456" "v5p_remaining_length k' = \<lparr>encoded = vbi_enc body'\<rparr>"
    using fits k' by (simp_all add: vbi_of_eq_Ret)
  have size: "v5_publish_size k = 1 + length (vbi_enc ?body) + ?body" "v5_publish_size k' = 1 + length (vbi_enc body') + body'"
    using wf small rl by (simp_all add: v5_publish_size_def packet_size_of_enc v5_publish_wf_def)
  show ?thesis
  proof (cases "body' \<le> ?body")
    case True
    then show ?thesis
      using vbi_enc_length_mono [OF True] body grow unfolding takes_place_of_topic_def size by (cases "body' = ?body") auto
  next
    case False
    then have le: "?body \<le> body'" by simp
    have "length (vbi_enc body') \<le> length (vbi_enc ?body) + 1" using vbi_enc_grows [of "body' - ?body" ?body] False body grow by simp
    then show ?thesis
      using vbi_enc_length_mono [OF le] False body grow unfolding takes_place_of_topic_def size by auto
  qed
qed

text \<open>The packets that sending a PUBLISH may request: itself, or the one with an alias in the place of its topic.\<close>

definition sent_as :: "'p::len word v5_publish \<Rightarrow> 'p word packet \<Rightarrow> bool" where
  "sent_as p q \<longleftrightarrow> q = V5_Publish p
     \<or> v5_publish_topic_name p \<noteq> [] \<and> get_topic_alias_from_props (v5p_props p) = None
       \<and> (\<exists>a k. v5_remove_topic_add_topic_alias p a = Ret k \<and> q = V5_Publish k)"

definition publishes :: "'p::len word v5_publish \<Rightarrow> 'p word connection \<Rightarrow> 'p word event list \<Rightarrow> 'p word connection \<Rightarrow> bool" where
  "publishes p c es c' \<longleftrightarrow> (\<forall>q \<in> set (requests es). sent_as p q)"

named_theorems publishes_intros

lemma publishes_basic [publishes_intros]:
  "obeys (publishes p) h1 \<Longrightarrow> obeys (publishes p) k1 \<Longrightarrow> obeys (publishes p) (seq h1 k1)"
  "obeys (publishes p) (steps [])" "obeys (publishes p) (upd f)"
  "obeys (publishes p) h2 \<Longrightarrow> obeys (publishes p) (steps hs) \<Longrightarrow> obeys (publishes p) (steps (h2 # hs))"
  "\<forall>q \<in> set (requests es). sent_as p q \<Longrightarrow> obeys (publishes p) (emit es)"
  "obeys (publishes p) h3 \<Longrightarrow> obeys (publishes p) (unless P e h3)"
  by (fastforce simp: obeys_def handler_defs unless_def rbind_eq_Ret publishes_def split: if_splits)+

lemma publishes_parts [publishes_intros]:
  "obeys (publishes p) (release_packet_id pid)" "obeys (publishes p) (store_or_panic st)" "obeys (publishes p) (tas_register topic ta)"
  by (auto simp: obeys_def store_or_panic_def tas_register_def handler_defs rbind_eq_Ret publishes_def split: option.splits
      dest!: release_packet_id_shape)

lemma publishes_steps [publishes_intros]:
  "obeys (publishes p) send_post_process" "sent_as p q \<Longrightarrow> obeys (publishes p) (request_send q r)"
  "obeys (publishes p) (reject_with_release e pid_opt)" "obeys (publishes p) (await_response qos pid)"
  unfolding send_post_process_def request_send_def reject_with_release_def await_response_def arm_timer_def
  by (intro publishes_intros obeys_intros; simp)+

lemma publishes_validated [publishes_intros]:
  assumes "obeys (publishes p) h" and "\<And>t. obeys (publishes p) (k t)"
  shows "obeys (publishes p) (\<lambda>c. case validate_topic_alias ta c of (None, c) \<Rightarrow> h c | (Some t, c) \<Rightarrow> k t c)"
  using assms by (auto simp: obeys_def publishes_def split: prod.splits option.splits)

lemma publishes_aliased:
  assumes "\<And>x. sent_as p (V5_Publish x) \<Longrightarrow> obeys (publishes p) (k x)"
  shows "obeys (publishes p) (v5_publish_alias p validated k)"
proof -
  have plain: "obeys (publishes p) (k p)" by (rule assms) (simp add: sent_as_def)
  have aliased: "obeys (publishes p) (calls (v5_remove_topic_add_topic_alias p a) k)"
    if "v5_publish_topic_name p \<noteq> []" and "get_topic_alias_from_props (v5p_props p) = None" for a
    using that by (intro obeys_calls_Ret assms) (auto simp: sent_as_def)
  have auto: "obeys (publishes p) (v5_publish_auto_alias p k)"
    if "v5_publish_topic_name p \<noteq> []" and "get_topic_alias_from_props (v5p_props p) = None"
    unfolding v5_publish_auto_alias_def Let_def by (intro aliased [OF that] plain publishes_intros obeys_intros)
  show ?thesis
    unfolding v5_publish_alias_def Let_def
    by (cases "v5_publish_topic_name p = []"; cases "get_topic_alias_from_props (v5p_props p)"; simp split del: if_split)
       (intro conjI impI auto plain publishes_intros obeys_intros; simp)+
qed

lemma publishes_send: "obeys (publishes p) (process_send_v5_publish p)"
proof -
  have finish: "obeys (publishes p) (v5_publish_alias p validated (\<lambda>packet'.
      v5_publish_count packet' (v5p_packet_id_buf p) (send_if_connected (V5_Publish packet') release)))" for validated release
    unfolding v5_publish_count_def send_if_connected_def
    by (intro publishes_aliased publishes_intros obeys_intros; simp)
  show ?thesis
    unfolding process_send_v5_publish_def v5_publish_store_def Let_def
    by (intro finish publishes_intros obeys_intros; simp)
qed

text \<open>A connected sender that maps topics by itself puts an alias into a PUBLISH of QoS 0 that has none.\<close>

definition maps_topic :: "'p::len word v5_publish \<Rightarrow> 'p word connection \<Rightarrow> bool" where
  "maps_topic p c \<longleftrightarrow> cn_protocol_version c = V5_0 \<and> cn_status c = Connected \<and> cn_auto_map_topic_alias_send c
     \<and> cn_topic_alias_send c \<noteq> None \<and> v5_publish_qos p = Ret AtMostOnce
     \<and> v5_publish_topic_name p \<noteq> [] \<and> get_topic_alias_from_props (v5p_props p) = None"

lemma aliased_qos: "v5_remove_topic_add_topic_alias p a = Ret k \<Longrightarrow> v5_publish_qos k = v5_publish_qos p"
  by (auto simp: v5_remove_topic_add_topic_alias_def v5_recalculate_lengths_def Let_def rbind_eq_Ret v5_publish_qos_def)

lemma connected_request:
  "cn_status c = Connected \<Longrightarrow> send_if_connected q r c = Ret (es, c') \<Longrightarrow> requests es = [q]"
  by (auto simp: send_if_connected_def request_send_def send_post_process_def arm_timer_def handler_defs split: if_splits)

lemma maps_topic_sends:
  assumes m: "maps_topic p c" and size: "v5_publish_size p \<le> unat (cn_maximum_packet_size_send c)"
    and run: "send (V5_Publish p) c = Ret (es, c')"
  shows "\<exists>a k. v5_remove_topic_add_topic_alias p a = Ret k \<and> requests es = [V5_Publish k]"
proof -
  obtain tas where tas: "cn_topic_alias_send c = Some tas" using m by (auto simp: maps_topic_def)
  define last where "last = (\<lambda>k. v5_publish_count k (v5p_packet_id_buf p) (send_if_connected (V5_Publish k) None))"
  have "v5_publish_auto_alias p last c = Ret (es, c')"
    using run m size
    by (simp add: maps_topic_def send_def send_dispatch_def process_send_v5_publish_def unless_def branch_def calls_def Let_def
        v5_publish_alias_def validate_maximum_packet_size_send_def last_def)
  moreover have "requests es' = [V5_Publish k]"
    if "v5_remove_topic_add_topic_alias p a = Ret k" and "last k d = Ret (es', d')" and "cn_status d = Connected" for a k d es' d'
    using that m connected_request [of d "V5_Publish k" None es' d']
    by (simp add: last_def v5_publish_count_def calls_def aliased_qos maps_topic_def)
  ultimately show ?thesis
    using m tas by (fastforce simp: v5_publish_auto_alias_def Let_def reads_def branch_def calls_def maps_topic_def rbind_eq_Ret
        tas_register_def seq_def upd_def split: option.splits)
qed

text \<open>
  C39: the maximum packet size of the peer and PUBLISH of v5.0, which C16 leaves out.  A PUBLISH that is larger than the maximum
  is refused and changes nothing.  Otherwise what is requested is the packet itself, within the maximum, or the packet that
  has a topic alias in the place of its topic name.  The size is checked before the alias is put in, so the latter may
  exceed the maximum, by at most four bytes, and only if the topic has less than four bytes.  And it does: a connection that
  maps topics by itself sends every PUBLISH of QoS 0 with a topic of one or two bytes and no alias as a packet that is larger than the one it was
  given, so that one of exactly the maximum is sent larger than the peer accepts.
\<close>

theorem publish_and_maximum:
  fixes p :: "'p::len word v5_publish"
  assumes wf: "v5_publish_wf p" and run: "send (V5_Publish p) c = Ret (es, c')"
  shows "(unat (cn_maximum_packet_size_send c) < gp_size (V5_Publish p) \<longrightarrow> c' = c \<and> (\<exists>e. es = [NotifyError e]))
    \<and> (\<forall>q \<in> set (requests es). sent_as p q \<and> (gp_size q \<le> unat (cn_maximum_packet_size_send c)
         \<or> q \<noteq> V5_Publish p \<and> length (v5_publish_topic_name p) < 4
           \<and> gp_size q + length (v5_publish_topic_name p) \<le> unat (cn_maximum_packet_size_send c) + 5))
    \<and> (maps_topic p c \<longrightarrow> length (v5_publish_topic_name p) < 3 \<longrightarrow> gp_size (V5_Publish p) \<le> unat (cn_maximum_packet_size_send c) \<longrightarrow>
         (\<exists>q. requests es = [q] \<and> gp_size (V5_Publish p) < gp_size q))"
proof (cases "v5_publish_size p \<le> unat (cn_maximum_packet_size_send c)")
  case False
  then have "c' = c \<and> (\<exists>e. es = [NotifyError e])"
    using run by (auto simp: send_def send_dispatch_def process_send_v5_publish_def unless_def branch_def emit_def
        validate_maximum_packet_size_send_def split: if_splits)
  then show ?thesis using False by auto
next
  case True
  have one: "obeys (publishes p) (send (V5_Publish p))"
    unfolding send_def send_dispatch_def by (simp, intro publishes_send publishes_intros)
  have "sent_as p q \<and> (gp_size q \<le> unat (cn_maximum_packet_size_send c)
         \<or> q \<noteq> V5_Publish p \<and> length (v5_publish_topic_name p) < 4
           \<and> gp_size q + length (v5_publish_topic_name p) \<le> unat (cn_maximum_packet_size_send c) + 5)"
    if "q \<in> set (requests es)" for q
    using that obeysD [OF one run] True aliased_size [OF wf]
    by (fastforce simp: publishes_def sent_as_def takes_place_of_topic_def)
  moreover have "\<exists>q. requests es = [q] \<and> v5_publish_size p < gp_size q"
    if "maps_topic p c" and "length (v5_publish_topic_name p) < 3"
    using maps_topic_sends [OF that(1) True run] that aliased_size [OF wf]
    by (fastforce simp: maps_topic_def takes_place_of_topic_def)
  ultimately show ?thesis using True by auto
qed

text \<open>A topic of one byte: a packet of six bytes, which is the maximum, is sent as one of eight bytes.\<close>

definition sample_short :: "16 word v5_publish" where
  "sample_short = \<lparr>v5p_fixed_header = 0x30, v5p_remaining_length = \<lparr>encoded = [4]\<rparr>, v5p_topic_name_buf = \<lparr>ms_encoded = [0, 1, 0x61]\<rparr>,
     v5p_packet_id_buf = None, v5p_property_length = \<lparr>encoded = [0]\<rparr>, v5p_props = [], v5p_payload_buf = [],
     v5p_topic_name_extracted = False\<rparr>"

lemma sample_short_facts:
  "v5_publish_size sample_short = 6" "v5_publish_wf sample_short" "v5_publish_topic_name sample_short = [0x61]"
proof -
  show "v5_publish_size sample_short = 6"
    using packet_size_of_enc [of 4] by (simp add: vbi_enc_small sample_short_def v5_publish_size_def)
  have w: "properties_wire [] = [0]"
    by (simp add: properties_wire_def properties_size_def vbi_enc_small properties_to_continuous_buffer_def)
  have l: "length (v5_publish_body sample_short) = 4"
    by (simp add: length_v5_publish_body sample_short_def ms_size_def pid_bytes_def w)
  show "v5_publish_wf sample_short"
    unfolding v5_publish_wf_def l
    by (simp add: sample_short_def qos_bits_def ms_inv_def len_prefix_def properties_inv_def properties_size_def utf8_valid_ascii vbi_enc_small
        validate_publish_properties_def validate_properties_def count_id_def)
  show "v5_publish_topic_name sample_short = [0x61]" by (simp add: sample_short_def v5_publish_topic_name_def ms_as_str_def)
qed

lemma sample_lru: "\<exists>tas. tas_new 10 = Ret tas \<and> find_by_topic tas [0x61] = None \<and> get_lru_alias tas = Ret 1
    \<and> tas_inv tas \<and> tas_max_alias tas = 10"
proof -
  obtain tas where t: "tas_new 10 = Ret tas" "tas_inv tas" "tas_max_alias tas = 10" using tas_new_ok [of 10] by auto
  then have "find_by_topic tas [0x61] = None" by (auto simp: tas_new_def rbind_eq_Ret find_by_topic_def)
  moreover have "rbind (tas_new 10) get_lru_alias = Ret 1" by code_simp
  ultimately show ?thesis using t by simp
qed

lemma sample_short_aliased:
  "\<exists>k. v5_remove_topic_add_topic_alias sample_short 1 = Ret k \<and> v5_publish_qos k = Ret AtMostOnce"
  by (simp add: v5_remove_topic_add_topic_alias_def sample_short_def ms_new_def new_checked_def check_nonzero_def
      v5_recalculate_lengths_def properties_size_def vbi_of_Ret vbi_enc_small v5_publish_qos_def qos_bits_def qos_of_bits_def
      Let_def without_topic_alias_def ms_size_def vbi_size_def len_prefix_def)

theorem publish_and_maximum_witness:
  "\<exists>(c :: 16 word connection) es c' q. conn_inv Client V5_0 c \<and> maps_topic sample_short c
    \<and> cn_maximum_packet_size_send c = 6 \<and> send (V5_Publish sample_short) c = Ret (es, c')
    \<and> requests es = [q] \<and> 6 < gp_size q \<and> gp_size q \<le> 10"
proof -
  obtain c0 :: "16 word connection" where c0: "conn_inv Client V5_0 c0" "cn_status c0 = Connected" "cn_protocol_version c0 = V5_0"
    using sample_up [of V5_0] by blast
  obtain tas where tas: "find_by_topic tas [0x61] = None" "get_lru_alias tas = Ret 1" "tas_inv tas" "tas_max_alias tas = 10"
    using sample_lru by blast
  obtain tas' where tas': "tas_insert_or_update tas [0x61] 1 = Ret tas'" using tas_insert_ok [OF tas(3), of "[0x61]" 1] tas(4) by auto
  obtain k where k: "v5_remove_topic_add_topic_alias sample_short 1 = Ret k" "v5_publish_qos k = Ret AtMostOnce"
    using sample_short_aliased by blast
  define c where "c = c0\<lparr>cn_topic_alias_send := Some tas, cn_auto_map_topic_alias_send := True, cn_maximum_packet_size_send := 6\<rparr>"
  have qos: "v5_publish_qos sample_short = Ret AtMostOnce" "get_topic_alias_from_props (v5p_props sample_short) = None"
    "v5p_packet_id_buf sample_short = None"
    by (simp_all add: sample_short_def v5_publish_qos_def qos_bits_def qos_of_bits_def)
  have m: "maps_topic sample_short c" using c0 qos by (simp add: maps_topic_def c_def sample_short_facts)
  have inv: "conn_inv Client V5_0 c" using c0 tas(3) by (simp add: c_def conn_inv_def tables_inv_def)
  have "\<exists>es c'. send_if_connected (V5_Publish k) None (c\<lparr>cn_topic_alias_send := Some tas'\<rparr>) = Ret (es, c')"
    using c0 by (simp add: c_def send_if_connected_def request_send_def send_post_process_def arm_timer_def handler_defs)
  then have "\<exists>es c'. send (V5_Publish sample_short) c = Ret (es, c')"
    using c0 tas(1,2) tas' k qos
    by (simp add: send_def send_dispatch_def process_send_v5_publish_def unless_def branch_def calls_def reads_def Let_def
        v5_publish_alias_def v5_publish_auto_alias_def tas_register_def seq_def upd_def v5_publish_count_def
        validate_maximum_packet_size_send_def sample_short_facts c_def)
  then obtain es c' where s: "send (V5_Publish sample_short) c = Ret (es, c')" by blast
  have six: "cn_maximum_packet_size_send c = 6" by (simp add: c_def)
  from publish_and_maximum [OF sample_short_facts(2) s] obtain q where "requests es = [q]" "6 < gp_size q" "gp_size q \<le> 10"
    using m by (fastforce simp: sample_short_facts six)
  then show ?thesis using inv m six s by blast
qed

section \<open>Roles and versions\<close>

text \<open>
  C40: the roles agree.  A packet of another protocol version is refused; a client and a server
  of the packet's version refuse to send whatever their peer could not
  receive.  A refusal is notified and changes nothing.
\<close>

theorem send_refuses_what_peer_rejects:
  fixes sender peer :: "'p::len word connection"
  assumes "cn_protocol_version peer = gp_protocol_version packet"
    and "cn_role sender = Server \<and> cn_role peer = Client \<or> cn_role sender = Client \<and> cn_role peer = Server"
  shows "(cn_protocol_version sender \<noteq> gp_protocol_version packet
      \<longrightarrow> send packet sender = Ret ([NotifyError VersionMismatch], sender))
    \<and> (cn_protocol_version sender = gp_protocol_version packet
       \<longrightarrow> \<not> can_receive (packet_type_u8 (gp_packet_type packet)) peer
       \<longrightarrow> send packet sender = Ret ([NotifyError PacketNotAllowedToSend], sender))"
  using assms
  by (cases packet) (auto simp: send_def send_dispatch_def for_role_def unless_def branch_def emit_def can_receive_def)

theorem send_refuses_what_peer_rejects_witness:
  "\<exists>(s :: 16 word connection) (c :: 16 word connection). conn_new Server V3_1_1 = Ret s \<and> conn_new Client V3_1_1 = Ret c
    \<and> send (V3_Connect sample_connect) s = Ret ([NotifyError PacketNotAllowedToSend], s)"
proof -
  obtain m :: "16 word packet_id_manager" where m: "pim_new = Ret m" using pim_new_ok by blast
  obtain s :: "16 word connection" where s: "conn_new Server V3_1_1 = Ret s" "cn_role s = Server" "cn_protocol_version s = V3_1_1"
    by (simp add: conn_new_def m)
  obtain c :: "16 word connection" where c: "conn_new Client V3_1_1 = Ret c" "cn_role c = Client" "cn_protocol_version c = V3_1_1"
    by (simp add: conn_new_def m)
  have "send (V3_Connect sample_connect) s = Ret ([NotifyError PacketNotAllowedToSend], s)"
    using send_refuses_what_peer_rejects [of c "V3_Connect sample_connect" s] s(2,3) c(2,3) by (simp add: can_receive_def)
  then show ?thesis using s(1) c(1) by blast
qed

end
