(* ===== verification/Connection_Checked.thy ===== *)
theory Connection_Checked
  imports Connection_Limits
begin

text \<open>
  \<^verbatim>\<open>checked_send\<close> of \<^verbatim>\<open>src/mqtt/connection/core.rs\<close> and the traits it dispatches through: the
  constants of \<^verbatim>\<open>packet/kind.rs\<close>, the role table of \<^verbatim>\<open>sendable_role.rs\<close>, the version checks of
  \<^verbatim>\<open>sendable_version.rs\<close>, the helper methods and their default bodies of \<^verbatim>\<open>sendable.rs\<close>, and the
  table of \<^verbatim>\<open>sendable_helper.rs\<close> that overrides one method per role and packet type.  A packet
  type is a constructor of \<open>packet\<close>; a trait that a type implements is a predicate on packets, so
  what the compiler accepts is \<open>sendable\<close>.
\<close>

section \<open>\<open>PacketKind\<close>\<close>

record packet_kind =
  is_connect :: bool
  is_connack :: bool
  is_publish :: bool
  is_puback :: bool
  is_pubrec :: bool
  is_pubrel :: bool
  is_pubcomp :: bool
  is_subscribe :: bool
  is_suback :: bool
  is_unsubscribe :: bool
  is_unsuback :: bool
  is_pingreq :: bool
  is_pingresp :: bool
  is_disconnect :: bool
  is_auth :: bool
  is_v3_1_1 :: bool
  is_v5_0 :: bool

text \<open>The default constants of the trait.\<close>

definition no_kind :: packet_kind where
  "no_kind = \<lparr>is_connect = False, is_connack = False, is_publish = False, is_puback = False, is_pubrec = False,
    is_pubrel = False, is_pubcomp = False, is_subscribe = False, is_suback = False, is_unsubscribe = False,
    is_unsuback = False, is_pingreq = False, is_pingresp = False, is_disconnect = False, is_auth = False,
    is_v3_1_1 = False, is_v5_0 = False\<rparr>"

text \<open>What the implementation of each packet type overrides.\<close>

primrec kind_of :: "'t packet \<Rightarrow> packet_kind" where
  "kind_of (V3_Connect p) = no_kind\<lparr>is_connect := True, is_v3_1_1 := True\<rparr>"
| "kind_of (V3_Connack p) = no_kind\<lparr>is_connack := True, is_v3_1_1 := True\<rparr>"
| "kind_of (V3_Subscribe p) = no_kind\<lparr>is_subscribe := True, is_v3_1_1 := True\<rparr>"
| "kind_of (V3_Suback p) = no_kind\<lparr>is_suback := True, is_v3_1_1 := True\<rparr>"
| "kind_of (V3_Unsubscribe p) = no_kind\<lparr>is_unsubscribe := True, is_v3_1_1 := True\<rparr>"
| "kind_of (V3_Unsuback p) = no_kind\<lparr>is_unsuback := True, is_v3_1_1 := True\<rparr>"
| "kind_of (V3_Publish p) = no_kind\<lparr>is_publish := True, is_v3_1_1 := True\<rparr>"
| "kind_of (V3_Puback p) = no_kind\<lparr>is_puback := True, is_v3_1_1 := True\<rparr>"
| "kind_of (V3_Pubrec p) = no_kind\<lparr>is_pubrec := True, is_v3_1_1 := True\<rparr>"
| "kind_of (V3_Pubrel p) = no_kind\<lparr>is_pubrel := True, is_v3_1_1 := True\<rparr>"
| "kind_of (V3_Pubcomp p) = no_kind\<lparr>is_pubcomp := True, is_v3_1_1 := True\<rparr>"
| "kind_of (V3_Disconnect p) = no_kind\<lparr>is_disconnect := True, is_v3_1_1 := True\<rparr>"
| "kind_of (V3_Pingreq p) = no_kind\<lparr>is_pingreq := True, is_v3_1_1 := True\<rparr>"
| "kind_of (V3_Pingresp p) = no_kind\<lparr>is_pingresp := True, is_v3_1_1 := True\<rparr>"
| "kind_of (V5_Connect p) = no_kind\<lparr>is_connect := True, is_v5_0 := True\<rparr>"
| "kind_of (V5_Connack p) = no_kind\<lparr>is_connack := True, is_v5_0 := True\<rparr>"
| "kind_of (V5_Subscribe p) = no_kind\<lparr>is_subscribe := True, is_v5_0 := True\<rparr>"
| "kind_of (V5_Suback p) = no_kind\<lparr>is_suback := True, is_v5_0 := True\<rparr>"
| "kind_of (V5_Unsubscribe p) = no_kind\<lparr>is_unsubscribe := True, is_v5_0 := True\<rparr>"
| "kind_of (V5_Unsuback p) = no_kind\<lparr>is_unsuback := True, is_v5_0 := True\<rparr>"
| "kind_of (V5_Publish p) = no_kind\<lparr>is_publish := True, is_v5_0 := True\<rparr>"
| "kind_of (V5_Puback p) = no_kind\<lparr>is_puback := True, is_v5_0 := True\<rparr>"
| "kind_of (V5_Pubrec p) = no_kind\<lparr>is_pubrec := True, is_v5_0 := True\<rparr>"
| "kind_of (V5_Pubrel p) = no_kind\<lparr>is_pubrel := True, is_v5_0 := True\<rparr>"
| "kind_of (V5_Pubcomp p) = no_kind\<lparr>is_pubcomp := True, is_v5_0 := True\<rparr>"
| "kind_of (V5_Disconnect p) = no_kind\<lparr>is_disconnect := True, is_v5_0 := True\<rparr>"
| "kind_of (V5_Pingreq p) = no_kind\<lparr>is_pingreq := True, is_v5_0 := True\<rparr>"
| "kind_of (V5_Pingresp p) = no_kind\<lparr>is_pingresp := True, is_v5_0 := True\<rparr>"
| "kind_of (V5_Auth p) = no_kind\<lparr>is_auth := True, is_v5_0 := True\<rparr>"

section \<open>\<open>SendableRole\<close> and \<open>SendableVersion\<close>\<close>

text \<open>The roles that implement \<open>SendableRole\<close> for the packet type.\<close>

primrec sendable_role :: "'t packet \<Rightarrow> role list" where
  "sendable_role (V3_Connect p) = [Client, Any]"
| "sendable_role (V3_Connack p) = [Server, Any]"
| "sendable_role (V3_Subscribe p) = [Client, Any]"
| "sendable_role (V3_Suback p) = [Server, Any]"
| "sendable_role (V3_Unsubscribe p) = [Client, Any]"
| "sendable_role (V3_Unsuback p) = [Server, Any]"
| "sendable_role (V3_Publish p) = [Client, Server, Any]"
| "sendable_role (V3_Puback p) = [Client, Server, Any]"
| "sendable_role (V3_Pubrec p) = [Client, Server, Any]"
| "sendable_role (V3_Pubrel p) = [Client, Server, Any]"
| "sendable_role (V3_Pubcomp p) = [Client, Server, Any]"
| "sendable_role (V3_Disconnect p) = [Client, Any]"
| "sendable_role (V3_Pingreq p) = [Client, Any]"
| "sendable_role (V3_Pingresp p) = [Server, Any]"
| "sendable_role (V5_Connect p) = [Client, Any]"
| "sendable_role (V5_Connack p) = [Server, Any]"
| "sendable_role (V5_Subscribe p) = [Client, Any]"
| "sendable_role (V5_Suback p) = [Server, Any]"
| "sendable_role (V5_Unsubscribe p) = [Client, Any]"
| "sendable_role (V5_Unsuback p) = [Server, Any]"
| "sendable_role (V5_Publish p) = [Client, Server, Any]"
| "sendable_role (V5_Puback p) = [Client, Server, Any]"
| "sendable_role (V5_Pubrec p) = [Client, Server, Any]"
| "sendable_role (V5_Pubrel p) = [Client, Server, Any]"
| "sendable_role (V5_Pubcomp p) = [Client, Server, Any]"
| "sendable_role (V5_Disconnect p) = [Client, Server, Any]"
| "sendable_role (V5_Pingreq p) = [Client, Any]"
| "sendable_role (V5_Pingresp p) = [Server, Any]"
| "sendable_role (V5_Auth p) = [Client, Server, Any]"

text \<open>\<open>check\<close>: the version of the connection against that of the packet type.\<close>

primrec version_check :: "'t packet \<Rightarrow> version \<Rightarrow> bool" where
  "version_check (V3_Connect p) v \<longleftrightarrow> v = V3_1_1"
| "version_check (V3_Connack p) v \<longleftrightarrow> v = V3_1_1"
| "version_check (V3_Subscribe p) v \<longleftrightarrow> v = V3_1_1"
| "version_check (V3_Suback p) v \<longleftrightarrow> v = V3_1_1"
| "version_check (V3_Unsubscribe p) v \<longleftrightarrow> v = V3_1_1"
| "version_check (V3_Unsuback p) v \<longleftrightarrow> v = V3_1_1"
| "version_check (V3_Publish p) v \<longleftrightarrow> v = V3_1_1"
| "version_check (V3_Puback p) v \<longleftrightarrow> v = V3_1_1"
| "version_check (V3_Pubrec p) v \<longleftrightarrow> v = V3_1_1"
| "version_check (V3_Pubrel p) v \<longleftrightarrow> v = V3_1_1"
| "version_check (V3_Pubcomp p) v \<longleftrightarrow> v = V3_1_1"
| "version_check (V3_Disconnect p) v \<longleftrightarrow> v = V3_1_1"
| "version_check (V3_Pingreq p) v \<longleftrightarrow> v = V3_1_1"
| "version_check (V3_Pingresp p) v \<longleftrightarrow> v = V3_1_1"
| "version_check (V5_Connect p) v \<longleftrightarrow> v = V5_0"
| "version_check (V5_Connack p) v \<longleftrightarrow> v = V5_0"
| "version_check (V5_Subscribe p) v \<longleftrightarrow> v = V5_0"
| "version_check (V5_Suback p) v \<longleftrightarrow> v = V5_0"
| "version_check (V5_Unsubscribe p) v \<longleftrightarrow> v = V5_0"
| "version_check (V5_Unsuback p) v \<longleftrightarrow> v = V5_0"
| "version_check (V5_Publish p) v \<longleftrightarrow> v = V5_0"
| "version_check (V5_Puback p) v \<longleftrightarrow> v = V5_0"
| "version_check (V5_Pubrec p) v \<longleftrightarrow> v = V5_0"
| "version_check (V5_Pubrel p) v \<longleftrightarrow> v = V5_0"
| "version_check (V5_Pubcomp p) v \<longleftrightarrow> v = V5_0"
| "version_check (V5_Disconnect p) v \<longleftrightarrow> v = V5_0"
| "version_check (V5_Pingreq p) v \<longleftrightarrow> v = V5_0"
| "version_check (V5_Pingresp p) v \<longleftrightarrow> v = V5_0"
| "version_check (V5_Auth p) v \<longleftrightarrow> v = V5_0"

section \<open>\<open>SendableHelper\<close>\<close>

text \<open>The methods of the trait.\<close>

datatype send_method =
    Send_Connect_v3_1_1 | Send_Connack_v3_1_1 | Send_Publish_v3_1_1 | Send_Puback_v3_1_1
  | Send_Pubrec_v3_1_1 | Send_Pubrel_v3_1_1 | Send_Pubcomp_v3_1_1 | Send_Subscribe_v3_1_1
  | Send_Suback_v3_1_1 | Send_Unsubscribe_v3_1_1 | Send_Unsuback_v3_1_1 | Send_Pingreq_v3_1_1
  | Send_Pingresp_v3_1_1 | Send_Disconnect_v3_1_1 | Send_Connect_v5_0 | Send_Connack_v5_0
  | Send_Publish_v5_0 | Send_Puback_v5_0 | Send_Pubrec_v5_0 | Send_Pubrel_v5_0
  | Send_Pubcomp_v5_0 | Send_Subscribe_v5_0 | Send_Suback_v5_0 | Send_Unsubscribe_v5_0
  | Send_Unsuback_v5_0 | Send_Pingreq_v5_0 | Send_Pingresp_v5_0 | Send_Disconnect_v5_0
  | Send_Auth_v5_0

text \<open>The rows of the table: the roles with an implementation, the method it overrides and its body.\<close>

primrec helper_row :: "'p::len word packet \<Rightarrow> role list \<times> send_method \<times> 'p word handler" where
  "helper_row (V3_Connect p) = ([Client, Any], Send_Connect_v3_1_1, process_send_v3_connect p)"
| "helper_row (V3_Connack p) = ([Server, Any], Send_Connack_v3_1_1, process_send_v3_connack p)"
| "helper_row (V3_Subscribe p) = ([Client, Any], Send_Subscribe_v3_1_1, process_send_v3_subscribe p)"
| "helper_row (V3_Suback p) = ([Server, Any], Send_Suback_v3_1_1, process_send_v3_suback p)"
| "helper_row (V3_Unsubscribe p) = ([Client, Any], Send_Unsubscribe_v3_1_1, process_send_v3_unsubscribe p)"
| "helper_row (V3_Unsuback p) = ([Server, Any], Send_Unsuback_v3_1_1, process_send_v3_unsuback p)"
| "helper_row (V3_Publish p) = ([Client, Server, Any], Send_Publish_v3_1_1, process_send_v3_publish p)"
| "helper_row (V3_Puback p) = ([Client, Server, Any], Send_Puback_v3_1_1, process_send_v3_puback p)"
| "helper_row (V3_Pubrec p) = ([Client, Server, Any], Send_Pubrec_v3_1_1, process_send_v3_pubrec p)"
| "helper_row (V3_Pubrel p) = ([Client, Server, Any], Send_Pubrel_v3_1_1, process_send_v3_pubrel p)"
| "helper_row (V3_Pubcomp p) = ([Client, Server, Any], Send_Pubcomp_v3_1_1, process_send_v3_pubcomp p)"
| "helper_row (V3_Disconnect p) = ([Client, Server, Any], Send_Disconnect_v3_1_1, process_send_v3_disconnect p)"
| "helper_row (V3_Pingreq p) = ([Client, Any], Send_Pingreq_v3_1_1, process_send_v3_pingreq p)"
| "helper_row (V3_Pingresp p) = ([Server, Any], Send_Pingresp_v3_1_1, process_send_v3_pingresp p)"
| "helper_row (V5_Connect p) = ([Client, Any], Send_Connect_v5_0, process_send_v5_connect p)"
| "helper_row (V5_Connack p) = ([Server, Any], Send_Connack_v5_0, process_send_v5_connack p)"
| "helper_row (V5_Subscribe p) = ([Client, Any], Send_Subscribe_v5_0, process_send_v5_subscribe p)"
| "helper_row (V5_Suback p) = ([Server, Any], Send_Suback_v5_0, process_send_v5_suback p)"
| "helper_row (V5_Unsubscribe p) = ([Client, Any], Send_Unsubscribe_v5_0, process_send_v5_unsubscribe p)"
| "helper_row (V5_Unsuback p) = ([Server, Any], Send_Unsuback_v5_0, process_send_v5_unsuback p)"
| "helper_row (V5_Publish p) = ([Client, Server, Any], Send_Publish_v5_0, process_send_v5_publish p)"
| "helper_row (V5_Puback p) = ([Client, Server, Any], Send_Puback_v5_0, process_send_v5_puback p)"
| "helper_row (V5_Pubrec p) = ([Client, Server, Any], Send_Pubrec_v5_0, process_send_v5_pubrec p)"
| "helper_row (V5_Pubrel p) = ([Client, Server, Any], Send_Pubrel_v5_0, process_send_v5_pubrel p)"
| "helper_row (V5_Pubcomp p) = ([Client, Server, Any], Send_Pubcomp_v5_0, process_send_v5_pubcomp p)"
| "helper_row (V5_Disconnect p) = ([Client, Server, Any], Send_Disconnect_v5_0, process_send_v5_disconnect p)"
| "helper_row (V5_Pingreq p) = ([Client, Any], Send_Pingreq_v5_0, process_send_v5_pingreq p)"
| "helper_row (V5_Pingresp p) = ([Server, Any], Send_Pingresp_v5_0, process_send_v5_pingresp p)"
| "helper_row (V5_Auth p) = ([Client, Server, Any], Send_Auth_v5_0, process_send_v5_auth p)"

text \<open>A method that no row overrides keeps its default body, \<open>unreachable!\<close>.\<close>

definition helper_call :: "send_method \<Rightarrow> 'p::len word packet \<Rightarrow> 'p word handler" where
  "helper_call m packet c =
     (case helper_row packet of (roles, method, body) \<Rightarrow>
        if cn_role c \<in> set roles \<and> m = method then body c else Panic Unreachable_Code)"

text \<open>The chain of tests of \<open>dispatch_send\<close>: by packet type, then by version.\<close>

definition by_version :: "packet_kind \<Rightarrow> send_method \<Rightarrow> send_method \<Rightarrow> send_method rust" where
  "by_version k m3 m5 =
     (if is_v3_1_1 k then Ret m3 else if is_v5_0 k then Ret m5 else Panic Unreachable_Code)"

definition dispatch_method :: "packet_kind \<Rightarrow> send_method rust" where
  "dispatch_method k =
     (if is_connect k then by_version k Send_Connect_v3_1_1 Send_Connect_v5_0
      else if is_connack k then by_version k Send_Connack_v3_1_1 Send_Connack_v5_0
      else if is_publish k then by_version k Send_Publish_v3_1_1 Send_Publish_v5_0
      else if is_puback k then by_version k Send_Puback_v3_1_1 Send_Puback_v5_0
      else if is_pubrec k then by_version k Send_Pubrec_v3_1_1 Send_Pubrec_v5_0
      else if is_pubrel k then by_version k Send_Pubrel_v3_1_1 Send_Pubrel_v5_0
      else if is_pubcomp k then by_version k Send_Pubcomp_v3_1_1 Send_Pubcomp_v5_0
      else if is_subscribe k then by_version k Send_Subscribe_v3_1_1 Send_Subscribe_v5_0
      else if is_suback k then by_version k Send_Suback_v3_1_1 Send_Suback_v5_0
      else if is_unsubscribe k then by_version k Send_Unsubscribe_v3_1_1 Send_Unsubscribe_v5_0
      else if is_unsuback k then by_version k Send_Unsuback_v3_1_1 Send_Unsuback_v5_0
      else if is_pingreq k then by_version k Send_Pingreq_v3_1_1 Send_Pingreq_v5_0
      else if is_pingresp k then by_version k Send_Pingresp_v3_1_1 Send_Pingresp_v5_0
      else if is_disconnect k then by_version k Send_Disconnect_v3_1_1 Send_Disconnect_v5_0
      else if is_auth k then (if is_v5_0 k then Ret Send_Auth_v5_0 else Panic Unreachable_Code)
      else Panic Unreachable_Code)"

definition dispatch_send :: "'p::len word packet \<Rightarrow> 'p word handler" where
  "dispatch_send packet =
     unless (\<lambda>c. \<not> version_check packet (cn_protocol_version c)) VersionMismatch
       (calls (dispatch_method (kind_of packet)) (\<lambda>m. helper_call m packet))"

text \<open>
  What is passed to \<open>checked_send\<close>: a concrete packet, or the sum type \<open>GenericPacket\<close>, whose
  implementation of \<open>Sendable\<close> calls \<open>send\<close>.
\<close>

datatype 't sendable_packet = Concrete "'t packet" | Generic "'t packet"

definition checked_send :: "'p::len word sendable_packet \<Rightarrow> 'p word handler" where
  "checked_send packet = (case packet of Concrete p \<Rightarrow> dispatch_send p | Generic p \<Rightarrow> send p)"

text \<open>
  The bounds on the concrete type: \<open>SendableRole\<close> and \<open>SendableHelper\<close> for the role of the
  connection (the version check and the kind are implemented by every packet type).
\<close>

definition sendable :: "role \<Rightarrow> 'p::len word packet \<Rightarrow> bool" where
  "sendable r packet \<longleftrightarrow> r \<in> set (sendable_role packet) \<and> r \<in> set (fst (helper_row packet))"

section \<open>What the dispatch does\<close>

lemma dispatch_reaches_row: "dispatch_method (kind_of packet) = Ret (fst (snd (helper_row packet)))"
  by (cases packet) (simp_all add: dispatch_method_def by_version_def no_kind_def)

lemma version_check_eq: "version_check packet v \<longleftrightarrow> v = gp_protocol_version packet"
  by (cases packet) simp_all

lemma helper_call_row:
  "cn_role c \<in> set (fst (helper_row packet)) \<Longrightarrow> helper_call (fst (snd (helper_row packet))) packet c = snd (snd (helper_row packet)) c"
  by (simp add: helper_call_def split_beta)

lemma send_dispatch_row:
  "cn_role c \<in> set (sendable_role packet) \<Longrightarrow> send_dispatch packet c = snd (snd (helper_row packet)) c"
  by (cases packet) (auto simp: send_dispatch_def for_role_def unless_def branch_def)

lemma refused_by_role:
  "cn_role c \<notin> set (sendable_role packet) \<Longrightarrow> send_dispatch packet c = Ret ([NotifyError PacketNotAllowedToSend], c)"
  by (cases "cn_role c"; cases packet) (simp_all add: send_dispatch_def for_role_def unless_def branch_def emit_def)

lemma sendable_iff_role: "sendable r packet \<longleftrightarrow> r \<in> set (sendable_role packet)"
  by (cases packet) (auto simp: sendable_def)

text \<open>
  C17: where the compiler accepts a packet for the role of a connection, \<open>checked_send\<close> (the static
  dispatch through the packet kind and the helper methods) never reaches an \<open>unreachable!\<close> of the
  dispatch and does exactly what \<open>send\<close> does, on the concrete packet and on the sum type; and the
  packets the compiler rejects are exactly those that \<open>send\<close> refuses because of the role, so the
  static tables and the run-time checks agree.
\<close>

theorem checked_send_is_send:
  fixes c :: "'p::len word connection"
  shows "(sendable (cn_role c) packet \<longrightarrow> checked_send (Concrete packet) c = send packet c)
    \<and> checked_send (Generic packet) c = send packet c
    \<and> (\<not> sendable (cn_role c) packet \<longrightarrow> cn_protocol_version c = gp_protocol_version packet
        \<longrightarrow> send packet c = Ret ([NotifyError PacketNotAllowedToSend], c))"
proof (intro conjI impI)
  assume "sendable (cn_role c) packet"
  then have "cn_role c \<in> set (sendable_role packet)" "cn_role c \<in> set (fst (helper_row packet))"
    by (simp_all add: sendable_def)
  then show "checked_send (Concrete packet) c = send packet c"
    by (simp add: checked_send_def dispatch_send_def send_def unless_def branch_def version_check_eq
        dispatch_reaches_row calls_def helper_call_row send_dispatch_row)
next
  assume "\<not> sendable (cn_role c) packet" and "cn_protocol_version c = gp_protocol_version packet"
  then show "send packet c = Ret ([NotifyError PacketNotAllowedToSend], c)"
    by (simp add: sendable_iff_role refused_by_role send_def unless_def branch_def)
qed (simp add: checked_send_def)

theorem checked_send_is_send_witness:
  "\<exists>(s :: 16 word connection). conn_new Client V3_1_1 = Ret s
    \<and> checked_send (Concrete (V3_Connect sample_connect)) s = send (V3_Connect sample_connect) s"
proof -
  obtain m :: "16 word packet_id_manager" where m: "pim_new = Ret m" using pim_new_ok by blast
  obtain s :: "16 word connection" where s: "conn_new Client V3_1_1 = Ret s" "cn_role s = Client"
    by (simp add: conn_new_def m)
  have "sendable (cn_role s) (V3_Connect sample_connect)" using s(2) by (simp add: sendable_def)
  then show ?thesis using checked_send_is_send [of s "V3_Connect sample_connect"] s(1) by blast
qed

end
