(* ===== verification/Connection_Stream.thy ===== *)
theory Connection_Stream
  imports Connection_Wire
begin

text \<open>
  Receiving a byte stream.  An application hands each piece it reads from the network to \<open>recv\<close>
  until the cursor is at its end; every call processes at most one packet
  (\<^verbatim>\<open>recv\<close> of \<^verbatim>\<open>src/mqtt/connection/core.rs\<close>).  The loop is a partial function; it always returns,
  and what it does depends on the bytes only, not on the pieces they come in.
\<close>

section \<open>The loop of an application\<close>

definition after_events :: "'t event list \<Rightarrow> ('t event list \<times> 'a) rust \<Rightarrow> ('t event list \<times> 'a) rust" where
  "after_events es r = rbind r (\<lambda>(es', x). Ret (es @ es', x))"

partial_function (option) recv_all ::
  "cursor \<Rightarrow> 'p::len word connection \<Rightarrow> ('p word event list \<times> 'p word connection \<times> cursor) rust option" where
  "recv_all data c =
     (if pos data < length (inner data) then
        (case recv data c of
           Panic x \<Rightarrow> Some (Panic x)
         | Ret (es, c', data') \<Rightarrow> Option.bind (recv_all data' c') (\<lambda>r. Some (after_events es r)))
      else Some (Ret ([], c, data)))"

text \<open>The pieces of a stream, one after the other.\<close>

primrec recv_pieces :: "bytes list \<Rightarrow> 'p::len word connection \<Rightarrow> ('p word event list \<times> 'p word connection) rust option" where
  "recv_pieces [] c = Some (Ret ([], c))"
| "recv_pieces (bs # bss) c = Option.bind (recv_all (cursor_new bs) c) (\<lambda>r. case r of
       Panic x \<Rightarrow> Some (Panic x)
     | Ret (es, c', _) \<Rightarrow> Option.bind (recv_pieces bss c') (\<lambda>r. Some (after_events es r)))"

section \<open>What a connection does with a string of bytes\<close>

text \<open>The handler of what the builder finds.\<close>

definition on_frame :: "frame_result \<Rightarrow> 'p::len word handler" where
  "on_frame f = (case f of
       Frame raw n \<Rightarrow> process_recv_packet raw
     | Frame_Malformed n \<Rightarrow> steps [cancel_timers, emit [RequestClose, NotifyError MalformedPacket]]
     | Frame_Pending \<Rightarrow> emit [])"

abbreviation with_builder :: "packet_builder \<Rightarrow> 't connection \<Rightarrow> 't connection" where
  "with_builder pb c \<equiv> c\<lparr>cn_packet_builder := pb\<rparr>"

lemma frame_used_pos:
  assumes "frame bs \<noteq> Frame_Pending"
  shows "0 < frame_used (frame bs)" and "frame_used (frame bs) \<le> length bs"
  using frame_used_gt [of "[]" bs] assms by simp_all

text \<open>The packets of the bytes, handled in order; the rest stays in the builder.\<close>

function absorb :: "bytes \<Rightarrow> 'p::len word connection \<Rightarrow> ('p word event list \<times> 'p word connection) rust" where
  "absorb bs c =
     (if frame bs = Frame_Pending then Ret ([], with_builder (pb_after bs) c)
      else rbind (on_frame (frame bs) (with_builder pb_new c)) (\<lambda>(es, c').
        after_events es (absorb (drop (frame_used (frame bs)) bs) c')))"
  by pat_completeness auto
termination
proof (relation "measure (\<lambda>(bs, _). length bs)")
  fix bs :: bytes and c :: "'p word connection" and x es c'
  assume "frame bs \<noteq> Frame_Pending"
  then show "((drop (frame_used (frame bs)) bs, c'), bs, c) \<in> measure (\<lambda>(bs, _). length bs)"
    using frame_used_pos [of bs] by simp
qed simp

declare absorb.simps [simp del]

lemma absorb_pending: "frame bs = Frame_Pending \<Longrightarrow> absorb bs c = Ret ([], with_builder (pb_after bs) c)"
  by (subst absorb.simps) simp

lemma absorb_frame:
  "frame bs \<noteq> Frame_Pending \<Longrightarrow> absorb bs c =
     rbind (on_frame (frame bs) (with_builder pb_new c)) (\<lambda>(es, c').
       after_events es (absorb (drop (frame_used (frame bs)) bs) c'))"
  by (subst absorb.simps) simp

lemma on_frame_keeps_builder: "on_frame f c = Ret (es, c') \<Longrightarrow> cn_packet_builder c' = cn_packet_builder c"
proof -
  have "obeys keeps_builder (on_frame f)"
    unfolding on_frame_def
    by (cases f; simp del: steps.simps; intro builder.process_recv_packet builder.steps_Cons builder.steps_Nil
        builder.shared builder.emit_two builder.emit_none; simp)
  then show "on_frame f c = Ret (es, c') \<Longrightarrow> ?thesis"
    using obeysD by (fastforce simp: keeps_builder_def)
qed

text \<open>One call of \<open>recv\<close>, after the bytes \<open>p\<close> of an unfinished packet.\<close>

lemma recv_frame:
  fixes c :: "'p::len word connection"
  assumes p: "frame p = Frame_Pending" "cn_packet_builder c = pb_after p" and d: "pos data \<le> length (inner data)"
  shows "recv data c = (let bs = p @ unread data in
    if frame bs = Frame_Pending then Ret ([], with_builder (pb_after bs) c, advance data (length (unread data)))
    else rbind (on_frame (frame bs) (with_builder pb_new c)) (\<lambda>(es, c'). Ret (es, c', advance data (frame_used (frame bs) - length p))))"
  using feed_refines_frame [OF p(1) d] p(2)
  by (cases "frame (p @ unread data)") (auto simp: recv_def on_frame_def emit_def Let_def)

lemma after_events_simps [simp]:
  "after_events es (Panic x) = Panic x" "after_events es (Ret (es', y)) = Ret (es @ es', y)"
  by (simp_all add: after_events_def)

lemma after_events_append: "after_events es (after_events es' r) = after_events (es @ es') r"
  by (cases r) auto

lemma after_events_nil [simp]: "after_events [] r = r"
  by (cases r) auto

lemma with_builder_same [simp]: "with_builder (cn_packet_builder c) c = c"
  by simp

lemma absorb_builder [simp]: "absorb bs (with_builder pb c) = absorb bs c"
  by (simp add: absorb.simps [of bs])

text \<open>The loop does what the bytes say.\<close>

lemma recv_all_absorb:
  fixes c :: "'p::len word connection"
  assumes "frame p = Frame_Pending" and "cn_packet_builder c = pb_after p" and "pos data \<le> length (inner data)"
  shows "recv_all data c =
    Some (rbind (absorb (p @ unread data) c) (\<lambda>(es, c'). Ret (es, c', data\<lparr>pos := length (inner data)\<rparr>)))"
  using assms
proof (induction "length (unread data)" arbitrary: p c data rule: less_induct)
  case less
  have end_of: "recv_all d (c' :: 'p word connection) = Some (Ret ([], c', d))" if "pos d = length (inner d)" for d c'
    using that by (simp add: recv_all.simps)
  have same: "with_builder (pb_after p) c = c" using less.prems(2) with_builder_same [of c] by simp
  show ?case
  proof (cases "pos data < length (inner data)")
    case False
    then have "pos data = length (inner data)" "unread data = []" using less.prems(3) by simp_all
    moreover from this have "data\<lparr>pos := length (inner data)\<rparr> = data" by (cases data) simp
    ultimately show ?thesis using less.prems(1) by (simp add: end_of absorb_pending same)
  next
    case True
    note r = recv_frame [OF less.prems]
    let ?bs = "p @ unread data"
    show ?thesis
    proof (cases "frame ?bs = Frame_Pending")
      case pending: True
      then show ?thesis using r True by (simp add: recv_all.simps [of data] end_of absorb_pending)
    next
      case False
      let ?n = "frame_used (frame ?bs)"
      have n: "length p < ?n" "?n \<le> length p + length (unread data)"
        using frame_used_gt [OF less.prems(1) False] by simp_all
      show ?thesis
      proof (cases "on_frame (frame ?bs) (with_builder pb_new c)")
        case (Panic x)
        then show ?thesis using r True False by (simp add: recv_all.simps [of data] absorb_frame)
      next
        case (Ret res)
        obtain es c' where res: "res = (es, c')" by force
        let ?data = "advance data (?n - length p)"
        have b: "cn_packet_builder c' = pb_after []" using on_frame_keeps_builder Ret res by fastforce
        have u: "unread ?data = drop ?n ?bs" using n by (simp add: add.commute)
        have "recv_all ?data c' = Some (rbind (absorb (drop ?n ?bs) c') (\<lambda>(es, c''). Ret (es, c'', data\<lparr>pos := length (inner data)\<rparr>)))"
          using less.hyps [of ?data "[]" c'] b u n less.prems(3) True by simp
        then show ?thesis
          using r True False Ret res
          by (cases "absorb (drop ?n ?bs) c'") (auto simp: recv_all.simps [of data] absorb_frame)
      qed
    qed
  qed
qed

text \<open>Bytes that come later continue where the earlier ones ended.\<close>

lemma absorb_append:
  "(\<exists>x. absorb bs c = Panic x \<and> absorb (bs @ ys) c = Panic x)
   \<or> (\<exists>es c' q. absorb bs c = Ret (es, c') \<and> frame q = Frame_Pending \<and> cn_packet_builder c' = pb_after q
        \<and> absorb (bs @ ys) c = after_events es (absorb (q @ ys) c'))"
proof (induction bs c rule: absorb.induct)
  case (1 bs c)
  show ?case
  proof (cases "frame bs = Frame_Pending")
    case True
    then show ?thesis by (intro disjI2 exI [of _ "[]"] exI [of _ bs] exI [of _ "with_builder (pb_after bs) c"]) (simp add: absorb_pending)
  next
    case False
    let ?n = "frame_used (frame bs)"
    have a: "absorb (bs @ ys) c = rbind (on_frame (frame bs) (with_builder pb_new c)) (\<lambda>(es, c').
       after_events es (absorb (drop ?n bs @ ys) c'))"
      using frame_append [OF False, of ys] frame_used_pos(2) [OF False] False by (simp add: absorb_frame)
    show ?thesis
    proof (cases "on_frame (frame bs) (with_builder pb_new c)")
      case (Panic x)
      then show ?thesis using a False by (simp add: absorb_frame)
    next
      case (Ret res)
      obtain es c' where res: "res = (es, c')" by force
      let ?rest = "drop ?n bs"
      have e: "absorb bs c = after_events es (absorb ?rest c')" "absorb (bs @ ys) c = after_events es (absorb (?rest @ ys) c')"
        using a False Ret res by (simp_all add: absorb_frame)
      consider x where "absorb ?rest c' = Panic x" "absorb (?rest @ ys) c' = Panic x"
        | es' c'' q where "absorb ?rest c' = Ret (es', c'')" "frame q = Frame_Pending" "cn_packet_builder c'' = pb_after q"
            "absorb (?rest @ ys) c' = after_events es' (absorb (q @ ys) c'')"
        using "1" [OF False Ret res [symmetric]] by blast
      then show ?thesis unfolding e by cases (auto simp: after_events_append)
    qed
  qed
qed

lemma recv_pieces_absorb:
  "frame p = Frame_Pending \<Longrightarrow> cn_packet_builder c = pb_after p \<Longrightarrow> recv_pieces bss c = Some (absorb (p @ concat bss) c)"
proof (induction bss arbitrary: p c)
  case Nil
  then show ?case using with_builder_same [of c] by (simp add: absorb_pending del: with_builder_same)
next
  case (Cons bs bss)
  have r: "recv_all (cursor_new bs) c = Some (rbind (absorb (p @ bs) c) (\<lambda>(es, c'). Ret (es, c', \<lparr>inner = bs, pos = length bs\<rparr>)))"
    using recv_all_absorb [OF Cons.prems, of "cursor_new bs"] by (simp add: cursor_new_def)
  consider x where "absorb (p @ bs) c = Panic x" "absorb (p @ bs @ concat bss) c = Panic x"
    | es c' q where "absorb (p @ bs) c = Ret (es, c')" "frame q = Frame_Pending" "cn_packet_builder c' = pb_after q"
        "absorb (p @ bs @ concat bss) c = after_events es (absorb (q @ concat bss) c')"
    using absorb_append [of "p @ bs" c "concat bss"] by auto
  then show ?case
  proof cases
    case 1
    then show ?thesis by (simp add: r)
  next
    case 2
    then show ?thesis using Cons.IH [OF 2(2,3)] by (simp add: r)
  qed
qed

lemma reachable_pending:
  assumes "reachable role version trace c"
  obtains p where "frame p = Frame_Pending" and "cn_packet_builder c = pb_after p"
  using reachable_conn_inv [OF assms] that by (auto simp: conn_inv_def tables_inv_def builder_ok_def)

text \<open>The loop is a sequence of calls, at most one per byte.\<close>

lemma recv_all_calls:
  fixes c :: "'p::len word connection"
  assumes "reachable role version trace c" and "recv_all data c = Some (Ret (es, c', data'))" and "pos data \<le> length (inner data)"
  shows "\<exists>calls. reachable role version (trace @ calls) c' \<and> es = concat (map snd calls)
    \<and> length calls \<le> length (unread data) \<and> (\<forall>(call, _) \<in> set calls. \<exists>d. call = Call_Recv d \<and> inner d = inner data)"
  using assms
proof (induction "length (unread data)" arbitrary: trace c data es rule: less_induct)
  case less
  show ?case
  proof (cases "pos data < length (inner data)")
    case False
    then have "es = []" "c' = c" using less.prems(2) by (simp_all add: recv_all.simps [of data])
    then show ?thesis using less.prems(1) by (intro exI [of _ "[]"]) simp
  next
    case True
    then obtain es1 c1 d1 es2 where r: "recv data c = Ret (es1, c1, d1)" and rest: "recv_all d1 c1 = Some (Ret (es2, c', data'))"
      and es: "es = es1 @ es2"
      using less.prems(2) by (auto simp: recv_all.simps [of data] after_events_def rbind_eq_Ret bind_eq_Some_conv split: rust.splits)
    have p: "inner d1 = inner data" "pos data < pos d1" "pos d1 \<le> length (inner data)"
      using recv_progress [OF less.prems(1) True] r by auto
    have reach: "reachable role version (trace @ [(Call_Recv data, es1)]) c1"
      using reachable_step [OF less.prems(1) api_step.intros(2) [OF r]] .
    have short: "length (unread d1) < length (unread data)" using p True by simp
    obtain calls where calls: "reachable role version ((trace @ [(Call_Recv data, es1)]) @ calls) c'" "es2 = concat (map snd calls)"
      "length calls \<le> length (unread d1)" "\<forall>(call, _) \<in> set calls. \<exists>d. call = Call_Recv d \<and> inner d = inner d1"
      using less.hyps [OF short reach rest] p by auto
    show ?thesis
      using calls short es p(1) by (intro exI [of _ "(Call_Recv data, es1) # calls"]) auto
  qed
qed

section \<open>Properties\<close>

text \<open>
  C13: the receive loop ends.  In every reachable state, handing over a buffer again and again returns;
  unless a handler panics, the cursor is then at the end of the buffer, and the loop made at most one
  call per unread byte, whose events, in order, are the events of the loop.
\<close>

theorem recv_all_returns:
  assumes "reachable role version trace c" and "pos data \<le> length (inner data)"
  shows "\<exists>r. recv_all data c = Some r
    \<and> (\<forall>es c' d. r = Ret (es, c', d) \<longrightarrow> d = data\<lparr>pos := length (inner data)\<rparr>
         \<and> (\<exists>calls. reachable role version (trace @ calls) c' \<and> es = concat (map snd calls)
              \<and> length calls \<le> length (unread data) \<and> (\<forall>(call, _) \<in> set calls. \<exists>d. call = Call_Recv d \<and> inner d = inner data)))"
proof -
  obtain p where p: "frame p = Frame_Pending" "cn_packet_builder c = pb_after p" by (rule reachable_pending [OF assms(1)])
  then show ?thesis
    using recv_all_absorb [OF p assms(2)] recv_all_calls [OF assms(1) _ assms(2)] by (auto simp: rbind_eq_Ret)
qed

theorem recv_all_returns_witness:
  "\<exists>(c :: 16 word connection) r. conn_new Client V3_1_1 = Ret c \<and> recv_all (cursor_new [0xD0, 0, 0xD0, 0]) c = Some r"
proof -
  obtain c :: "16 word connection" where c: "conn_new Client V3_1_1 = Ret c" using sample_new by blast
  show ?thesis
    using recv_all_returns [OF reachable_new [OF c], of "cursor_new [0xD0, 0, 0xD0, 0]"] c by (auto simp: cursor_new_def)
qed

text \<open>
  C12: a connection does not see how the network cuts a stream.  In every reachable state, two ways to
  cut the same bytes into pieces (empty pieces, pieces in the middle of a length field or of a
  payload, several packets in a piece) give the same events in the same order and the same connection,
  or the same panic; and the loop over the pieces returns in both cases.
\<close>

theorem recv_ignores_fragmentation:
  assumes "reachable role version trace c" and "concat bss = concat bss'"
  shows "\<exists>r. recv_pieces bss c = Some r \<and> recv_pieces bss' c = Some r"
proof -
  obtain p where p: "frame p = Frame_Pending" "cn_packet_builder c = pb_after p" by (rule reachable_pending [OF assms(1)])
  then show ?thesis using recv_pieces_absorb [OF p] assms(2) by simp
qed

theorem recv_ignores_fragmentation_witness:
  "\<exists>(c :: 16 word connection) r. conn_new Client V3_1_1 = Ret c
    \<and> recv_pieces [[0xD0], [], [0, 0xD0], [0]] c = Some r \<and> recv_pieces [[0xD0, 0, 0xD0, 0]] c = Some r"
proof -
  obtain c :: "16 word connection" where c: "conn_new Client V3_1_1 = Ret c" using sample_new by blast
  show ?thesis
    using recv_ignores_fragmentation [OF reachable_new [OF c], of "[[0xD0], [], [0, 0xD0], [0]]" "[[0xD0, 0, 0xD0, 0]]"] c
    by simp
qed

end
