(* ===== verification/Connection_Safety.thy ===== *)
theory Connection_Safety
  imports Connection_Wire
begin

text \<open>
  When receiving panics.  A connection takes whatever bytes a peer sends; this theory finds the states
  and packets for which a handler of \<^verbatim>\<open>src/mqtt/connection/core.rs\<close> panics instead of returning events.
\<close>

section \<open>Handlers that return\<close>

definition returns :: "'t handler \<Rightarrow> 't connection \<Rightarrow> bool" where
  "returns h c \<longleftrightarrow> (\<exists>r. h c = Ret r)"

definition never_panics :: "'t handler \<Rightarrow> bool" where
  "never_panics h \<longleftrightarrow> (\<forall>c. returns h c)"

named_theorems total_intros

lemma returnsI: "h c = Ret r \<Longrightarrow> returns h c"
  by (simp add: returns_def)

lemma totalD: "never_panics h \<Longrightarrow> returns h c"
  by (simp add: never_panics_def)

lemma returns_seq: "h c = Ret (es, c') \<Longrightarrow> returns k c' \<Longrightarrow> returns (seq h k) c"
  by (auto simp: returns_def seq_def)

lemma returns_seq_total:
  assumes "returns h c" and "never_panics k"
  shows "returns (seq h k) c"
proof -
  obtain es c1 where "h c = Ret (es, c1)" using assms(1) by (auto simp: returns_def)
  moreover obtain r where "k c1 = Ret r" using totalD [OF assms(2), of c1] unfolding returns_def by blast
  ultimately show ?thesis by (cases r) (simp add: returns_def seq_def)
qed

lemma returns_branch: "(P c \<Longrightarrow> returns h c) \<Longrightarrow> (\<not> P c \<Longrightarrow> returns k c) \<Longrightarrow> returns (branch P h k) c"
  by (simp add: returns_def branch_def)

lemma returns_upd: "returns k (f c) \<Longrightarrow> returns (seq (upd f) k) c"
  by (rule returns_seq [of _ _ "[]" "f c"]) (simp_all add: upd_def)

lemma total_emit [total_intros]: "never_panics (emit es)"
  by (simp add: never_panics_def returns_def emit_def)

lemma total_upd [total_intros]: "never_panics (upd f)"
  by (simp add: never_panics_def returns_def upd_def)

lemma total_seq [total_intros]: "never_panics h \<Longrightarrow> never_panics k \<Longrightarrow> never_panics (seq h k)"
  by (simp add: never_panics_def returns_seq_total)

lemma total_steps [total_intros]: "never_panics (steps [])" "never_panics h \<Longrightarrow> never_panics (steps hs) \<Longrightarrow> never_panics (steps (h # hs))"
  by (simp_all add: total_emit total_seq)

lemma returns_steps:
  "returns h c \<Longrightarrow> never_panics (steps hs) \<Longrightarrow> returns (steps (h # hs)) c"
  "returns (steps hs) (f c) \<Longrightarrow> returns (steps (upd f # hs)) c"
  by (simp_all add: returns_seq_total returns_upd)

lemma total_branch [total_intros]: "never_panics h \<Longrightarrow> never_panics k \<Longrightarrow> never_panics (branch P h k)"
  by (simp add: never_panics_def returns_branch)

lemma total_unless [total_intros]: "never_panics h \<Longrightarrow> never_panics (unless P e h)"
  by (simp add: unless_def total_branch total_emit)

lemma total_reads [total_intros]: "(\<And>x. never_panics (h x)) \<Longrightarrow> never_panics (reads f h)"
  by (simp add: never_panics_def returns_def reads_def)

lemma total_if [total_intros]: "never_panics h \<Longrightarrow> never_panics k \<Longrightarrow> never_panics (if b then h else k)"
  by simp

lemma total_calls: "m = Ret x \<Longrightarrow> never_panics (h x) \<Longrightarrow> never_panics (calls m h)"
  by (simp add: never_panics_def returns_def calls_def)

lemma returns_calls: "m = Ret x \<Longrightarrow> returns (h x) c \<Longrightarrow> returns (calls m h) c"
  by (simp add: returns_def calls_def)

lemma total_shared [total_intros]:
  "never_panics (arm_timer t ms)" "never_panics (stop_timer t)" "never_panics cancel_timers" "never_panics refresh_pingreq_recv"
  "never_panics send_post_process" "never_panics (request_send p rel)" "never_panics (send_when_connected p)" "never_panics (notify_received p)"
  "never_panics (handle_v3_error e)" "never_panics close_refused" "never_panics (pingresp_received p)"
  "never_panics (process_send_v5_disconnect d)"
  unfolding arm_timer_def stop_timer_def cancel_timers_def refresh_pingreq_recv_def send_post_process_def
    request_send_def send_when_connected_def notify_received_def handle_v3_error_def close_refused_def
    pingresp_received_def process_send_v5_disconnect_def send_disconnect_def
  by (intro total_intros)+

lemma returns_parse:
  assumes "packet_codec good hdr body buf sz parse" and "length bs < 268435456"
    and "\<And>k. good k \<Longrightarrow> returns (h k) c" and "\<And>e. returns (err e) c"
  shows "returns (on_parse (parse flags bs) h err) c"
proof -
  obtain r where r: "parse flags bs = Ret r"
    using packet_wire.parse_returns [OF packet_codec.axioms(1) [OF assms(1)] assms(2)] by blast
  show ?thesis
  proof (cases r)
    case (Ok x)
    then obtain k n where x: "r = Ok (k, n)" by (cases x) simp
    have "good k" using packet_codec.parse_inv [OF assms(1,2)] r x by blast
    then show ?thesis using assms(3) r x by (simp add: on_parse_def calls_def returns_def)
  next
    case (Err e)
    then show ?thesis using assms(4) r by (simp add: on_parse_def calls_def returns_def)
  qed
qed

section \<open>The awaited answers of a sound v3.1.1 connection\<close>

text \<open>
  What an application that keeps to the interface guarantees: no identifier 0 is awaited, what is
  stored has an identifier in use, and under an identifier that waits for a PUBREC only a QoS 2
  publish is stored.
\<close>

definition awaits_soundly :: "'p::len word connection \<Rightarrow> bool" where
  "awaits_soundly c \<longleftrightarrow>
     0 \<notin> cn_pid_puback c \<union> cn_pid_pubrec c \<union> cn_pid_pubcomp c \<union> cn_pid_suback c \<union> cn_pid_unsuback c
     \<and> (\<forall>i p. store_lookup (cn_store c) i = Some p \<longrightarrow> i \<in> used_ids (cn_pid_man c))
     \<and> (\<forall>i \<in> cn_pid_pubrec c. \<forall>p. store_lookup (cn_store c) i = Some p \<longrightarrow> sp_response_packet p = Ret R_V3_Pubrec)"

lemma returns_send_stored:
  assumes "store_inv (cn_store c)" and "pim_inv (cn_pid_man c)"
    and "\<forall>i p. store_lookup (cn_store c) i = Some p \<longrightarrow> i \<in> used_ids (cn_pid_man c)"
  shows "returns send_stored c"
proof -
  have d: "distinct (map fst (st_map (cn_store c)))" using assms(1) by (simp add: store_inv_def)
  have "\<forall>(i, p) \<in> set (st_map (cn_store c)). storable i p \<and> (fits (cn_maximum_packet_size_send c) p \<or> i \<in> used_ids (cn_pid_man c))"
    using assms(1,3) d by (auto simp: store_inv_def store_lookup_def)
  from send_stored_run [OF d this assms(2), of "[]" "[]"] show ?thesis
    by (auto simp: returns_def send_stored_def store_for_each_def)
qed

lemma returns_release: "pim_inv (cn_pid_man c) \<Longrightarrow> i \<noteq> 0 \<Longrightarrow> returns (release_packet_id i) c"
  using release_one [of c i] by (auto simp: returns_def)

lemma returns_ack_received:
  assumes "store_inv (cn_store c)" and "pim_inv (cn_pid_man c)" and "i \<noteq> 0"
  shows "returns (v3_ack_received r i p) c"
proof -
  obtain st where "erase_stored r i c = Ret ([], c\<lparr>cn_store := st\<rparr>)" using erase_run [OF assms(1)] by blast
  moreover have "returns (seq (release_packet_id i) (steps [notify_received p])) (c\<lparr>cn_store := st\<rparr>)"
    by (intro returns_seq_total returns_release total_intros) (simp_all add: assms)
  ultimately show ?thesis unfolding v3_ack_received_def steps.simps by (rule returns_seq)
qed

lemma returns_send_pubrel:
  assumes "store_inv (cn_store c)" and "storable i p" and "store_lookup (cn_store c) i = None"
  shows "returns (send_pubrel i p q) c"
proof -
  have "store_or_panic p c = Ret ([], c\<lparr>cn_store := cn_store c\<lparr>st_map := st_map (cn_store c) @ [(i, p)]\<rparr>\<rparr>)"
    using assms(3) by (simp add: store_or_panic_def store_add_eq [OF assms(2)])
  then show ?thesis
    unfolding send_pubrel_def unless_def steps.simps
    by (intro returns_branch returns_seq_total totalD returnsI total_intros)
qed

lemma returns_pubrec_received:
  fixes c :: "'p::len word connection"
  assumes w: "packet_id_width TYPE('p)" and inv: "store_inv (cn_store c)" "awaits_soundly c" and i: "i \<in> cn_pid_pubrec c"
  shows "returns (steps [upd (\<lambda>c. c\<lparr>cn_pid_pubrec := cn_pid_pubrec c - {i}\<rparr>), erase_stored R_V3_Pubrec i,
      branch P (calls (v3_ack_for FH_Pubrel i) process_send_v3_pubrel) (emit []), notify_received p]) c"
proof -
  let ?c = "c\<lparr>cn_pid_pubrec := cn_pid_pubrec c - {i}\<rparr>"
  have i0: "i \<noteq> 0" using inv(2) i by (auto simp: awaits_soundly_def)
  obtain ack where ack: "v3_ack_for FH_Pubrel i = Ret ack" "v3a_packet_id_buf ack = i" using v3_ack_for_ok [OF w i0] by simp
  have "store_inv (cn_store ?c)" using inv(1) by simp
  then obtain st where st: "erase_stored R_V3_Pubrec i ?c = Ret ([], ?c\<lparr>cn_store := st\<rparr>)" "store_inv st"
    and l: "store_lookup st = (if \<exists>p. store_lookup (cn_store ?c) i = Some p \<and> sp_response_packet p = Ret R_V3_Pubrec
        then (store_lookup (cn_store ?c))(i := None) else store_lookup (cn_store ?c))"
    using erase_run [of ?c R_V3_Pubrec i] by blast
  have free: "store_lookup st i = None"
    using inv(2) i unfolding l by (cases "store_lookup (cn_store c) i") (auto simp: awaits_soundly_def)
  have "returns (process_send_v3_pubrel ack) (?c\<lparr>cn_store := st\<rparr>)"
    unfolding process_send_v3_pubrel_def ack(2)
    using st(2) free ack(2) by (intro returns_send_pubrel) (simp_all add: storable_def)
  then have go: "returns (seq (branch P (calls (v3_ack_for FH_Pubrel i) process_send_v3_pubrel) (emit [])) (steps [notify_received p]))
      (?c\<lparr>cn_store := st\<rparr>)"
    by (intro returns_seq_total returns_branch returns_calls [OF ack(1)] total_intros totalD [OF total_emit])
  show ?thesis unfolding steps.simps by (rule returns_upd, rule returns_seq, rule st(1), rule go [unfolded steps.simps])
qed

section \<open>The handlers of v3.1.1\<close>

lemma publish_type:
  assumes "drop_bit 4 (h :: u8) = 3"
  shows "h AND 0xF0 = 0x30"
proof -
  have "push_bit 4 (drop_bit 4 h) + take_bit 4 h = h" by (rule bits_ident)
  then have split: "h = 0x30 + (h AND 0x0F)" using assms by (simp add: take_bit_eq_mask mask_eq_exp_minus_1)
  have "0x30 AND (h AND 0x0F) = 0" by (simp add: and.left_commute [of "0x30" h])
  then have "0x30 + (h AND 0x0F) = 0x30 OR (h AND 0x0F)" using word_plus_and_or [of "0x30" "h AND 0x0F"] by simp
  then show ?thesis using publish_header(2) split by simp
qed

lemma returns_v3_connect:
  fixes c :: "'p::len word connection"
  assumes "length b < 268435456"
  shows "returns (process_recv_v3_connect (mk_raw h b)) c"
proof -
  have refused: "returns (calls (rbind (v3_connack_build \<lparr>v3cab_ack_flags = Some 0,
      v3cab_return_code_buf = Some (connect_return_code_u8 rc)\<rparr>) unwrap_res)
      (\<lambda>connack. steps [process_send_v3_connack connack, emit [NotifyError e]])) c'"
    if "rc \<noteq> ConnRet_Accepted" for rc e and c' :: "'p word connection"
  proof -
    let ?k = "\<lparr>v3ca_fixed_header = fixed_header_as_u8 FH_Connack, v3ca_remaining_length = \<lparr>encoded = vbi_enc 2\<rparr>,
      v3ca_ack_flags = 0, v3ca_return_code_buf = connect_return_code_u8 rc\<rparr>"
    have k: "rbind (v3_connack_build \<lparr>v3cab_ack_flags = Some 0,
      v3cab_return_code_buf = Some (connect_return_code_u8 rc)\<rparr>) unwrap_res = Ret ?k"
      by (simp add: v3_connack_build_def vbi_of_Ret)
    have "v3_connack_return_code ?k = Ret rc" 
      by (simp add: v3_connack_return_code_def connect_return_code_try_from_def connect_return_code.try_from_iff)
    then have "never_panics (process_send_v3_connack ?k :: 'p word handler)"
      using that unfolding process_send_v3_connack_def by (intro total_intros) (simp add: total_calls total_intros)
    then show ?thesis by (intro returns_calls [OF k] totalD total_intros)
  qed
  have "returns (on_parse (v3_connect_parse (h AND 0x0F) b)
      (\<lambda>packet. steps [
            upd (initialize False),
            (if v3_keep_alive packet > 0
             then upd (\<lambda>c. c\<lparr>cn_pingreq_recv_timeout_ms := ucast (v3_keep_alive packet) * 1000 * 3 div 2\<rparr>) else emit []),
            (if v3_clean_session packet then upd clear_store_related else upd (\<lambda>c. c\<lparr>cn_need_store := True\<rparr>)),
            notify_received (V3_Connect packet)])
      (\<lambda>e. calls (rbind (v3_connack_build \<lparr>v3cab_ack_flags = Some 0,
                v3cab_return_code_buf = Some (connect_return_code_u8 (case e of
                    ClientIdentifierNotValid \<Rightarrow> ConnRet_IdentifierRejected
                  | BadUserNameOrPassword \<Rightarrow> ConnRet_BadUserNameOrPassword
                  | UnsupportedProtocolVersion \<Rightarrow> ConnRet_UnacceptableProtocolVersion
                  | _ \<Rightarrow> ConnRet_NotAuthorized))\<rparr>) unwrap_res)
              (\<lambda>connack. steps [process_send_v3_connack connack, emit [NotifyError e]]))) c'" for c' :: "'p word connection"
    by (rule returns_parse [OF v3_connect.packet_codec_axioms assms], (intro totalD total_intros)[1], rule refused)
      (simp split: mqtt_error.split)
  then show ?thesis
    unfolding process_recv_v3_connect_def mk_raw_simps
    by (intro returns_branch totalD [OF total_shared(9)] returns_steps total_intros)
qed

lemma returns_v3_connack:
  fixes c :: "'p::len word connection"
  assumes "length b < 268435456" and "store_inv (cn_store c)" "pim_inv (cn_pid_man c)" "awaits_soundly c"
  shows "returns (process_recv_v3_connack (mk_raw h b)) c"
  unfolding process_recv_v3_connack_def mk_raw_simps
proof (rule returns_parse [OF v3_connack.packet_codec_axioms assms(1)], goal_cases)
  case (1 k)
  then obtain rc where rc: "v3_connack_return_code k = Ret rc"
    by (auto simp: v3_connack_inv_def v3_connack_return_code_def)
  have "returns send_stored (c\<lparr>cn_status := Connected\<rparr>)"
    using assms(2-4) by (intro returns_send_stored) (simp_all add: awaits_soundly_def)
  then have "returns (if rc = ConnRet_Accepted
           then steps [upd (\<lambda>c. c\<lparr>cn_status := Connected\<rparr>), resume_or_clear (v3_connack_session_present k)]
           else emit []) c"
    by (cases "v3_connack_session_present k")
       (simp_all add: resume_or_clear_def returns_steps total_intros totalD del: steps.simps)
  then show ?case by (intro returns_calls [OF rc] returns_steps total_intros)
qed (rule totalD [OF total_shared(9)])

text \<open>A PUBLISH panics exactly when it asks for an answer under the identifier 0.\<close>

definition unanswerable :: "'p::len word v3_publish \<Rightarrow> 'p word connection \<Rightarrow> bool" where
  "unanswerable k c \<longleftrightarrow> v3p_packet_id_buf k = Some 0 \<and> cn_status c = Connected
     \<and> (cn_auto_pub_response c \<or> v3_publish_qos k = Ret ExactlyOnce \<and> 0 \<in> cn_qos2_publish_handled c)"

lemma returns_iff:
  "returns (calls m v) c \<longleftrightarrow> (\<exists>x. m = Ret x \<and> returns (v x) c)"
  "returns (branch P h k) c \<longleftrightarrow> (if P c then returns h c else returns k c)"
  "returns (reads f g) c \<longleftrightarrow> returns (g (f c)) c"
  "returns (steps (upd u # hs)) c \<longleftrightarrow> returns (steps hs) (u c)"
  "never_panics (steps hs) \<Longrightarrow> returns (steps (h # hs)) c \<longleftrightarrow> returns h c"
proof -
  show "returns (calls m v) c \<longleftrightarrow> (\<exists>x. m = Ret x \<and> returns (v x) c)" by (cases m) (simp_all add: returns_def calls_def)
  show "never_panics (steps hs) \<Longrightarrow> returns (steps (h # hs)) c \<longleftrightarrow> returns h c"
    using returns_steps(1) [of h c hs] by (auto simp: returns_def seq_def rbind_eq_Ret)
qed (simp_all add: returns_def branch_def reads_def seq_def upd_def rbind_eq_Ret)

lemma v3_ack_for_returns_iff:
  assumes "packet_id_width TYPE('p::len)"
  shows "(\<exists>a. v3_ack_for fh (i :: 'p word) = Ret a) \<longleftrightarrow> i \<noteq> 0"
  using v3_ack_for_ok [OF assms, of i fh] v3_ack_for_zero [OF assms, of fh] by (cases "i = 0") auto

lemma v3_publish_returns_iff:
  fixes c :: "'p::len word connection"
  assumes w: "packet_id_width TYPE('p)" and k: "v3_publish_inv k"
  shows "returns (v3_publish_received k) c \<longleftrightarrow> \<not> unanswerable k c"
proof -
  obtain q where q: "v3_publish_qos k = Ret q" "q = AtMostOnce \<longleftrightarrow> v3p_packet_id_buf k = None"
    using qos_of_bits_Ret [of "v3p_fixed_header k"] k by (auto simp: v3_publish_inv_def v3_publish_qos_def)
  note facts = v3_publish_received_def unanswerable_def returns_iff totalD total_intros v3_ack_for_returns_iff [OF w] process_send_v3_puback_def process_send_v3_pubrec_def
  show ?thesis
  proof (cases "v3p_packet_id_buf k")
    case None
    then show ?thesis using q by (simp add: facts del: steps.simps)
  next
    case (Some i)
    then show ?thesis using q by (cases q) (auto simp: facts simp del: steps.simps)
  qed
qed

lemma publish_dispatch_returns_iff:
  fixes c :: "'p::len word connection"
  assumes w: "packet_id_width TYPE('p)" and len: "length b < 268435456" and h: "drop_bit 4 h = 3"
  shows "returns (process_recv_v3_publish (mk_raw h b)) c \<longleftrightarrow>
    \<not> (\<exists>k n. v3_publish_parse (h AND 0x0F) b = Ret (Ok (k, n)) \<and> unanswerable k c)"
proof -
  have raw: "publish_data (mk_raw h b) = Ret b" using publish_type [OF h] by (simp add: publish_data_def mk_raw_def)
  obtain r where r: "v3_publish_parse (h AND 0x0F) b = Ret (r :: ('p word v3_publish \<times> nat, _) result)"
    using packet_wire.parse_returns [OF packet_codec.axioms(1) [OF v3_publish_codec [OF w]] len] by blast
  show ?thesis
  proof (cases r)
    case (Ok x)
    then obtain k n where x: "x = (k, n)" by (cases x)
    then have "v3_publish_inv k" using packet_codec.parse_inv [OF v3_publish_codec [OF w] len] r Ok by blast
    from v3_publish_returns_iff [OF w this] show ?thesis
      using r Ok x by (simp add: process_recv_v3_publish_def on_parse_def returns_iff raw)
  next
    case (Err e)
    then show ?thesis using r by (simp add: process_recv_v3_publish_def on_parse_def returns_iff raw totalD total_intros)
  qed
qed

text \<open>Every other packet is answered with events.\<close>

lemma dispatch_v3_returns:
  fixes c :: "'p::len word connection"
  assumes w: "packet_id_width TYPE('p)" and len: "length b < 268435456"
    and inv: "store_inv (cn_store c)" "pim_inv (cn_pid_man c)" "awaits_soundly c" and t: "t \<noteq> 3"
  shows "returns (dispatch_v3 t (mk_raw h b)) c"
proof -
  have awaited: "i \<noteq> 0" if "i \<in> cn_pid_puback c \<or> i \<in> cn_pid_pubcomp c \<or> i \<in> cn_pid_suback c \<or> i \<in> cn_pid_unsuback c" for i
    using inv(3) that by (auto simp: awaits_soundly_def)
  note quiet = total_intros totalD [OF total_shared(9)]
  note ack = returns_parse [OF v3_ack_codec [OF w] len]
  have puback: "returns (process_recv_v3_puback (mk_raw h b)) c"
    unfolding process_recv_v3_puback_def v3_puback_parse_def mk_raw_simps Let_def
    by (intro ack returns_branch returns_upd returns_ack_received quiet) (simp_all add: inv awaited)
  have pubcomp: "returns (process_recv_v3_pubcomp (mk_raw h b)) c"
    unfolding process_recv_v3_pubcomp_def v3_pubcomp_parse_def mk_raw_simps Let_def
    by (intro ack returns_branch returns_upd returns_ack_received quiet) (simp_all add: inv awaited)
  have pubrec: "returns (process_recv_v3_pubrec (mk_raw h b)) c"
    unfolding process_recv_v3_pubrec_def v3_pubrec_parse_def mk_raw_simps Let_def
    by (intro ack returns_branch returns_pubrec_received [OF w inv(1,3)] quiet) assumption
  have suback: "returns (process_recv_v3_suback (mk_raw h b)) c"
    unfolding process_recv_v3_suback_def suback_received_def mk_raw_simps
    by (intro returns_parse [OF v3_suback_codec [OF w] len] returns_branch returns_steps returns_release quiet) (simp_all add: inv awaited)
  have unsuback: "returns (process_recv_v3_unsuback (mk_raw h b)) c"
    unfolding process_recv_v3_unsuback_def unsuback_received_def mk_raw_simps
    by (intro returns_parse [OF v3_unsuback_codec [OF w] len] returns_branch returns_steps returns_release quiet) (simp_all add: inv awaited)
  have pubrel: "returns (process_recv_v3_pubrel (mk_raw h b)) c"
    unfolding process_recv_v3_pubrel_def v3_pubrel_parse_def mk_raw_simps Let_def
  proof (rule ack, goal_cases)
    case (1 k)
    then have "v3a_packet_id_buf k \<noteq> 0" by (simp add: v3_ack_inv_def)
    then obtain a where a: "v3_ack_for FH_Pubcomp (v3a_packet_id_buf k) = Ret a" using v3_ack_for_returns_iff [OF w] by blast
    show ?case unfolding process_send_v3_pubcomp_def
      by (intro returns_steps total_intros total_calls [OF a] totalD)
  qed (rule totalD [OF total_shared(9)])
  have subscribe: "returns (process_recv_v3_subscribe (mk_raw h b)) c" "returns (process_recv_v3_unsubscribe (mk_raw h b)) c"
    unfolding process_recv_v3_subscribe_def process_recv_v3_unsubscribe_def mk_raw_simps
    by (intro returns_parse [OF v3_subscribe_codec [OF w] len] returns_parse [OF v3_unsubscribe_codec [OF w] len] totalD total_intros)+
  have pingresp: "v3_pingresp_new = Ret \<lparr>v3e_fixed_header = fixed_header_as_u8 FH_Pingresp, v3e_remaining_length = \<lparr>encoded = vbi_enc 0\<rparr>\<rparr>"
    by (simp add: v3_pingresp_new_def v3_empty_new_def vbi_of_Ret)
  have empty: "returns (process_recv_v3_pingreq (mk_raw h b)) c" "returns (process_recv_v3_pingresp (mk_raw h b)) c"
    "returns (process_recv_v3_disconnect (mk_raw h b)) c"
    unfolding process_recv_v3_pingreq_def process_recv_v3_pingresp_def process_recv_v3_disconnect_def process_send_v3_pingresp_def mk_raw_simps
    by (intro returns_parse [OF v3_pingreq.packet_codec_axioms len] returns_parse [OF v3_pingresp.packet_codec_axioms len]
        returns_parse [OF v3_disconnect.packet_codec_axioms len] totalD total_intros total_calls [OF pingresp])+
  show ?thesis
    using t by (simp add: dispatch_v3_def returns_v3_connect [OF len] returns_v3_connack [OF len inv] puback pubrec pubrel pubcomp
        subscribe suback unsuback empty totalD total_intros)
qed

section \<open>Properties\<close>

lemma frame_raw:
  assumes "frame q = Frame raw n"
  obtains h b where "raw = mk_raw h b" and "length b < 2097152"
proof -
  obtain h t where q: "q = h # t" using assms by (cases q) simp_all
  obtain k where k: "vbi_scan (take 3 t) = Some k" using assms q by (auto simp: frame_def split: option.splits if_splits)
  have raw: "raw = mk_raw h (take (vbi_val (take k t)) (drop k t))"
    using assms frame_Some [OF k, of h] by (simp add: q split: if_splits)
  have "length (take k t) \<le> 3" using vbi_scan_le [OF k] by simp
  then have "(128 :: nat) ^ length (take k t) \<le> 128 ^ 3" by (intro power_increasing) simp_all
  then have "vbi_val (take k t) < 2097152" using vbi_val_bound [of "take k t"] by simp
  then have "length (take (vbi_val (take k t)) (drop k t)) < 2097152" by simp
  with raw show thesis by (rule that)
qed

lemma feed_raw:
  assumes "builder_ok pb" and "pos d \<le> length (inner d)" and "feed pb d = Ret (Complete raw, pb', d')"
  obtains h b where "raw = mk_raw h b" and "length b < 2097152"
proof -
  obtain p where p: "frame p = Frame_Pending" "pb = pb_after p" using assms(1) by (auto simp: builder_ok_def)
  from assms(3) have "\<exists>n. frame (p @ unread d) = Frame raw n"
    using feed_outcome_correct [OF p(1) assms(2)] p(2) by (auto simp: feed_outcome_def split: frame_result.splits)
  then show thesis using that by (auto elim: frame_raw)
qed

lemma disconnect_with_ok: "disconnect_with rc = Ret (v5_disconnect_for rc)"
  unfolding disconnect_with_def by (rule v5_disconnect_for_build)

definition within_maximum :: "bytes \<Rightarrow> 't connection \<Rightarrow> bool" where
  "within_maximum b c \<longleftrightarrow> 1 + length (vbi_enc (length b)) + length b \<le> unat (cn_maximum_packet_size_recv c)"

lemma process_recv_packet_returns:
  assumes "length b < 2097152"
  shows "returns (process_recv_packet (mk_raw h b)) c \<longleftrightarrow>
    \<not> within_maximum b c \<or> \<not> can_receive (drop_bit 4 h) c \<or> returns (dispatch (drop_bit 4 h) (mk_raw h b)) c"
proof -
  let ?n = "1 + length (vbi_enc (length b)) + length b"
  have "?n < 2097156" using assms length_vbi_enc_bounds [of "length b"]
    by (cases "length b < 128"; cases "length b < 16384") simp_all
  then have u: "unat (of_nat ?n :: u32) = ?n" by (simp only: unat_of_nat) (simp add: take_bit_nat_eq_self)
  have size: "rbind (rp_remaining_length (mk_raw h b)) remaining_length_to_total_size = Ret (of_nat ?n)"
    using assms total_size_framed [OF assms] by (simp add: rp_remaining_length_def Let_def)
  have "(of_nat ?n > cn_maximum_packet_size_recv c) = (\<not> within_maximum b c)"
    unfolding within_maximum_def word_less_nat_alt u by (simp add: not_le)
  then show ?thesis
    unfolding process_recv_packet_def size returns_iff(1) rust.inject
    by (simp add: returns_iff dispatch_def Let_def disconnect_with_ok totalD total_intros del: steps.simps of_nat_add of_nat_Suc)
qed

lemma mk_raw_inj: "mk_raw h b = mk_raw h' b' \<longleftrightarrow> h = h' \<and> b = b'"
  by (auto simp: mk_raw_def)

lemma frame_safety [simp]:
  "within_maximum b (c\<lparr>cn_packet_builder := pb\<rparr>) = within_maximum b c"
  "unanswerable k (c\<lparr>cn_packet_builder := pb\<rparr>) = unanswerable k c"
  "awaits_soundly (c\<lparr>cn_packet_builder := pb\<rparr>) = awaits_soundly c"
  by (simp_all add: within_maximum_def unanswerable_def awaits_soundly_def)

lemma recv_panics_iff:
  assumes "feed (cn_packet_builder c) data = Ret (res, pb, d)"
  shows "(\<exists>x. recv data c = Panic x) \<longleftrightarrow> (\<exists>raw. res = Complete raw \<and> \<not> returns (process_recv_packet raw) (c\<lparr>cn_packet_builder := pb\<rparr>))"
proof -
  let ?c = "c\<lparr>cn_packet_builder := pb\<rparr>"
  have panics: "(\<exists>x. rbind (h ?c) (\<lambda>(es, c'). Ret (es, c', d)) = Panic x) \<longleftrightarrow> \<not> returns h ?c" for h
    by (cases "h ?c") (auto simp: returns_def split: prod.split)
  show ?thesis
  proof (cases res)
    case (Complete raw)
    then show ?thesis using assms panics [of "process_recv_packet raw"] by (simp add: recv_def)
  next
    case Incomplete
    then show ?thesis using assms by (simp add: recv_def emit_def)
  next
    case (Build_Error e)
    have "returns (steps [cancel_timers, emit [RequestClose, NotifyError e]]) ?c" by (intro totalD total_intros)
    then show ?thesis
      using assms panics [of "steps [cancel_timers, emit [RequestClose, NotifyError e]]"] Build_Error
      by (simp add: recv_def del: steps.simps)
  qed
qed

text \<open>
  C6: when bytes from a peer make a v3.1.1 connection panic.  In a state that satisfies the invariant of
  reachable states and whose awaited answers are sound, whatever bytes arrive, \<open>recv\<close> panics exactly
  when they complete a PUBLISH within the maximum packet size that carries the identifier 0 and asks
  for an answer: under automatic answers, or as a QoS 2 publish after an earlier one with the
  identifier 0.  No other input, malformed or not, makes it panic.
\<close>

theorem recv_v3_panics_iff:
  fixes c :: "'p::len word connection"
  assumes "packet_id_width TYPE('p)" and "conn_inv role V3_1_1 c" and "awaits_soundly c"
    and "pos data \<le> length (inner data)"
  shows "(\<exists>x. recv data c = Panic x) \<longleftrightarrow>
    (\<exists>h b pb d k n. feed (cn_packet_builder c) data = Ret (Complete (mk_raw h b), pb, d) \<and> within_maximum b c
      \<and> drop_bit 4 h = 3 \<and> v3_publish_parse (h AND 0x0F) b = Ret (Ok (k, n)) \<and> unanswerable k c)"
proof -
  have inv: "builder_ok (cn_packet_builder c)" "store_inv (cn_store c)" "pim_inv (cn_pid_man c)" "cn_protocol_version c = V3_1_1"
    using assms(2) by (simp_all add: conn_inv_def tables_inv_def)
  obtain res pb d where f: "feed (cn_packet_builder c) data = Ret (res, pb, d)" using feed_from_ok [OF inv(1) assms(4)] by blast
  let ?c = "c\<lparr>cn_packet_builder := pb\<rparr>"
  show ?thesis
  proof (cases res)
    case (Complete raw)
    obtain h b where raw: "raw = mk_raw h b" and len: "length b < 2097152"
      using f feed_raw [OF inv(1) assms(4)] unfolding Complete by blast
    then have long: "length b < 268435456" by simp
    have "dispatch (drop_bit 4 h) (mk_raw h b) ?c = dispatch_v3 (drop_bit 4 h) (mk_raw h b) ?c"
      using inv(4) by (simp add: dispatch_def reads_def)
    then have d: "returns (dispatch (drop_bit 4 h) (mk_raw h b)) ?c = returns (dispatch_v3 (drop_bit 4 h) (mk_raw h b)) ?c"
      by (simp only: returns_def)
    have "returns (dispatch_v3 (drop_bit 4 h) (mk_raw h b)) ?c \<longleftrightarrow>
        \<not> (drop_bit 4 h = 3 \<and> (\<exists>k n. v3_publish_parse (h AND 0x0F) b = Ret (Ok (k, n)) \<and> unanswerable k c))"
    proof (cases "drop_bit 4 h = 3")
      case True
      then show ?thesis
        using publish_dispatch_returns_iff [OF assms(1) long True, of ?c] by (simp add: dispatch_v3_def [of 3])
    next
      case False
      then show ?thesis using dispatch_v3_returns [OF assms(1) long _ _ _ False, of ?c h] inv assms(3) by simp
    qed
    then have "(\<exists>x. recv data c = Panic x) \<longleftrightarrow> within_maximum b c \<and> drop_bit 4 h = 3
        \<and> (\<exists>k n. v3_publish_parse (h AND 0x0F) b = Ret (Ok (k, n)) \<and> unanswerable k c)"
      using recv_panics_iff [OF f] process_recv_packet_returns [OF len, of h ?c] unfolding d Complete raw by auto
    then show ?thesis unfolding f Complete raw by (auto simp: mk_raw_inj)
  qed (use recv_panics_iff [OF f] f in auto)
qed

theorem recv_v3_panics_iff_witness:
  "\<exists>(c :: 16 word connection) x. conn_inv Client V3_1_1 c \<and> recv (cursor_new [0x32, 5, 0, 1, 0x61, 0, 0]) c = Panic x
     \<and> (\<forall>x. recv (cursor_new [0x32, 5, 0, 1, 0x61]) c \<noteq> Panic x)"
proof -
  obtain c0 :: "16 word connection" where c0: "conn_inv Client V3_1_1 c0" "cn_packet_builder c0 = pb_new"
    "cn_status c0 = Connected" "cn_auto_pub_response c0" "unat (cn_maximum_packet_size_recv c0) = 268435461"
    using sample_up [of V3_1_1] by blast
  define c where "c = c0\<lparr>cn_pid_suback := {}, cn_pid_unsuback := {}, cn_pid_puback := {}, cn_pid_pubrec := {},
    cn_pid_pubcomp := {}, cn_store := store_new\<rparr>"
  have "store_lookup (store_new :: 16 word store) = Map.empty" by (simp add: store_lookup_def store_new_def)
  then have c: "conn_inv Client V3_1_1 c" "awaits_soundly c" "cn_packet_builder c = pb_new"
    using c0 by (simp_all add: c_def conn_inv_def tables_inv_def awaits_soundly_def)
  have w: "packet_id_width TYPE(16)" by (simp add: packet_id_width_def)
  note iff = recv_v3_panics_iff [OF w c(1,2)]
  have bytes: "to_buffer (0 :: 16 word) = [0, 0]" by code_simp
  have at_start: "pos (cursor_new bs) \<le> length (inner (cursor_new bs))" for bs by (simp add: cursor_new_def)
  have hdr: "v3p_fixed_header (sample_publish 0) AND 0x0F = 2" by (simp add: sample_publish_def)
  have wire: "v3_publish_parse 2 [0, 1, 0x61, 0, 0] = Ret (Ok (sample_publish 0, 5))"
    using packet_wire.parse_body [OF packet_codec.axioms(1) [OF v3_publish_codec [OF w]] sample_publish_facts(4), of 0]
    unfolding sample_publish_facts(1) bytes by (simp add: hdr)
  have "frame [0x32, 5, 0, 1, 0x61, 0, 0] = Frame (mk_raw 0x32 [0, 1, 0x61, 0, 0]) 7"
    by (simp add: frame_def)
  then have whole: "feed pb_new (cursor_new [0x32, 5, 0, 1, 0x61, 0, 0]) =
      Ret (Complete (mk_raw 0x32 [0, 1, 0x61, 0, 0]), pb_new, \<lparr>inner = [0x32, 5, 0, 1, 0x61, 0, 0], pos = 7\<rparr>)"
    using feed_outcome_correct [of "[]" "cursor_new [0x32, 5, 0, 1, 0x61, 0, 0]"] by (simp add: cursor_new_def feed_outcome_def)
  have "frame [0x32, 5, 0, 1, 0x61] = Frame_Pending" by (simp add: frame_def)
  then have cut: "feed pb_new (cursor_new [0x32, 5, 0, 1, 0x61]) = Ret (Incomplete, pb_after [0x32, 5, 0, 1, 0x61],
      \<lparr>inner = [0x32, 5, 0, 1, 0x61], pos = 5\<rparr>)"
    using feed_outcome_correct [of "[]" "cursor_new [0x32, 5, 0, 1, 0x61]"] by (simp add: cursor_new_def feed_outcome_def)
  have "unanswerable (sample_publish 0) c" "within_maximum [0, 1, 0x61, 0, 0] c"
    using c0 by (simp_all add: unanswerable_def sample_publish_def c_def within_maximum_def vbi_enc_small)
  then have "feed (cn_packet_builder c) (cursor_new [0x32, 5, 0, 1, 0x61, 0, 0]) = Ret (Complete (mk_raw 0x32 [0, 1, 0x61, 0, 0]),
        pb_new, \<lparr>inner = [0x32, 5, 0, 1, 0x61, 0, 0], pos = 7\<rparr>)
      \<and> within_maximum [0, 1, 0x61, 0, 0] c \<and> drop_bit 4 (0x32 :: u8) = 3
      \<and> v3_publish_parse (0x32 AND 0x0F) [0, 1, 0x61, 0, 0] = Ret (Ok (sample_publish 0, 5)) \<and> unanswerable (sample_publish 0) c"
    by (simp add: c(3) whole wire)
  then have "\<exists>x. recv (cursor_new [0x32, 5, 0, 1, 0x61, 0, 0]) c = Panic x"
    using iff [of "cursor_new [0x32, 5, 0, 1, 0x61, 0, 0]"] at_start by blast
  moreover have "\<nexists>x. recv (cursor_new [0x32, 5, 0, 1, 0x61]) c = Panic x"
    using iff [of "cursor_new [0x32, 5, 0, 1, 0x61]"] at_start by (simp add: c(3) cut)
  ultimately show ?thesis using c(1) by blast
qed

section \<open>A CONNECT of v5.0\<close>

text \<open>What a CONNECT says about the limits of its client: the last property of each kind counts.\<close>

definition told_receive_maximum :: "properties \<Rightarrow> u16 option \<Rightarrow> u16 option" where
  "told_receive_maximum = fold (\<lambda>p m. case p of P_ReceiveMaximum v \<Rightarrow> Some v | _ \<Rightarrow> m)"

definition told_maximum_packet_size :: "properties \<Rightarrow> u32 \<Rightarrow> u32" where
  "told_maximum_packet_size = fold (\<lambda>p m. case p of P_MaximumPacketSize v \<Rightarrow> v | _ \<Rightarrow> m)"

definition told_alias_maximum :: "properties \<Rightarrow> u16 option \<Rightarrow> u16 option" where
  "told_alias_maximum = fold (\<lambda>p m. case p of P_TopicAliasMaximum v \<Rightarrow> Some v | _ \<Rightarrow> m)"

definition told_session_kept :: "properties \<Rightarrow> bool" where
  "told_session_kept ps \<longleftrightarrow> (\<exists>p \<in> set ps. case p of P_SessionExpiryInterval v \<Rightarrow> v \<noteq> 0 | _ \<Rightarrow> False)"

lemmas told_defs = told_receive_maximum_def told_maximum_packet_size_def told_alias_maximum_def told_session_kept_def

definition told_by :: "properties \<Rightarrow> 'p::len word connection \<Rightarrow> 'p word connection \<Rightarrow> bool" where
  "told_by ps c c' \<longleftrightarrow>
     cn_publish_send_max c' = told_receive_maximum ps (cn_publish_send_max c)
     \<and> cn_maximum_packet_size_send c' = told_maximum_packet_size ps (cn_maximum_packet_size_send c)
     \<and> map_option tas_max_alias (cn_topic_alias_send c') = told_alias_maximum ps (map_option tas_max_alias (cn_topic_alias_send c))
     \<and> (cn_need_store c' \<longleftrightarrow> cn_need_store c \<or> told_session_kept ps)
     \<and> cn_status c' = cn_status c \<and> cn_store c' = cn_store c \<and> cn_pid_man c' = cn_pid_man c
     \<and> cn_pingreq_recv_timeout_ms c' = cn_pingreq_recv_timeout_ms c"

lemma told_by_append: "told_by [p] c c1 \<Longrightarrow> told_by ps c1 c2 \<Longrightarrow> told_by (p # ps) c c2"
  by (simp add: told_by_def told_defs)

lemma recv_connect_prop:
  assumes "p \<noteq> P_TopicAliasMaximum 0"
  shows "\<exists>c'. recv_connect_props [p] c = Ret ([], c') \<and> told_by [p] c c'"
proof (cases p)
  case (P_TopicAliasMaximum v)
  then have "1 \<le> v" using assms by (simp add: one_le_word)
  then obtain ta where "tas_new v = Ret ta" "tas_max_alias ta = v" using tas_new_ok by blast
  then show ?thesis using P_TopicAliasMaximum by (simp add: handler_defs told_by_def told_defs)
qed (simp_all add: handler_defs told_by_def told_defs)

lemma recv_connect_props_spec:
  "if P_TopicAliasMaximum 0 \<in> set ps then recv_connect_props ps c = Panic Assert_Failed
   else \<exists>c'. recv_connect_props ps c = Ret ([], c') \<and> told_by ps c c'"
proof (induction ps arbitrary: c)
  case Nil
  then show ?case by (simp add: emit_def told_by_def told_defs)
next
  case (Cons p ps)
  have split: "recv_connect_props (p # ps) c = seq (recv_connect_props [p]) (recv_connect_props ps) c"
    unfolding recv_connect_props.simps
    by (cases "(case p of
       P_TopicAliasMaximum v \<Rightarrow> calls (tas_new v) (\<lambda>tas. upd (\<lambda>c. c\<lparr>cn_topic_alias_send := Some tas\<rparr>))
     | P_ReceiveMaximum v \<Rightarrow> upd (\<lambda>c. c\<lparr>cn_publish_send_max := Some v\<rparr>)
     | P_MaximumPacketSize v \<Rightarrow> upd (\<lambda>c. c\<lparr>cn_maximum_packet_size_send := v\<rparr>)
     | P_SessionExpiryInterval v \<Rightarrow> if v \<noteq> 0 then upd (\<lambda>c. c\<lparr>cn_need_store := True\<rparr>) else emit []
     | _ \<Rightarrow> emit []) c") (simp_all add: seq_def emit_def split: prod.split)
  show ?case
  proof (cases "p = P_TopicAliasMaximum 0")
    case True
    then show ?thesis by (simp add: seq_def calls_def tas_new_zero_panics)
  next
    case False
    obtain c1 where c1: "recv_connect_props [p] c = Ret ([], c1)" "told_by [p] c c1" using recv_connect_prop [OF False] by blast
    show ?thesis
      using Cons.IH [of c1] False c1(1) told_by_append [OF c1(2), of ps] unfolding split
      by (auto simp: seq_def split: if_splits)
  qed
qed

lemma notify_received_shape:
  "\<exists>es c'. notify_received p c = Ret (es, c') \<and> deliveries es = [p] \<and> requests es = [] \<and> c' = c\<lparr>cn_pingreq_recv_set := cn_pingreq_recv_set c'\<rparr>"
  by (cases "cn_pingreq_recv_timeout_ms c = 0") (auto simp: notify_received_def refresh_pingreq_recv_def arm_timer_def handler_defs)

text \<open>
  C10: a CONNECT of v5.0 from bytes to events.  A server that is disconnected consumes exactly the
  encoding of a well-formed CONNECT, delivers it and takes over what it says: the receive maximum, the
  maximum packet size and the alias maximum of the client, whether the session is kept, and the keep
  alive, where 0 leaves the timeout of the connection before.  A clean start forgets the session.  But a Topic
  Alias Maximum of 0, which MQTT allows, panics in the assertion of the alias table.
\<close>

theorem recv_v5_connect:
  fixes c :: "'p::len word connection" and rest :: bytes
  assumes k: "v5_connect_inv k" and len: "length (v5_connect_body k) < 2097152" and idle: "cn_packet_builder c = pb_new"
    and room: "length (v5_connect_to_continuous_buffer k) \<le> unat (cn_maximum_packet_size_recv c)"
    and version: "cn_protocol_version c = V5_0" and role: "cn_role c \<noteq> Client" and down: "cn_status c = Disconnected"
  defines "r \<equiv> recv (cursor_new (v5_connect_to_continuous_buffer k @ rest)) c" and "ps \<equiv> v5c_props k"
  shows "if P_TopicAliasMaximum 0 \<in> set ps then r = Panic Assert_Failed
    else \<exists>es c'. r = Ret (es, c', \<lparr>inner = v5_connect_to_continuous_buffer k @ rest, pos = length (v5_connect_to_continuous_buffer k)\<rparr>)
      \<and> deliveries es = [V5_Connect k] \<and> requests es = [] \<and> cn_status c' = Connecting
      \<and> cn_publish_send_max c' = told_receive_maximum ps None
      \<and> cn_maximum_packet_size_send c' = told_maximum_packet_size ps (cn_maximum_packet_size_send c)
      \<and> map_option tas_max_alias (cn_topic_alias_send c') = told_alias_maximum ps None
      \<and> (cn_need_store c' \<longleftrightarrow> told_session_kept ps)
      \<and> cn_pingreq_recv_timeout_ms c' = (if v5_keep_alive k = 0 then cn_pingreq_recv_timeout_ms c else ucast (v5_keep_alive k) * 1000 * 3 div 2)
      \<and> cn_store c' = (if v5_clean_start k then store_clear (cn_store c) else cn_store c)
      \<and> cn_pid_man c' = (if v5_clean_start k then pim_clear (cn_pid_man c) else cn_pid_man c)"
proof -
  have h: "v5c_fixed_header k = 0x10" using k by (simp add: v5_connect_inv_def)
  define c0 where "c0 = initialize False (c\<lparr>cn_status := Connecting\<rparr>)"
  define c1 where "c1 = (if v5_keep_alive k > 0 then c0\<lparr>cn_pingreq_recv_timeout_ms := ucast (v5_keep_alive k) * 1000 * 3 div 2\<rparr> else c0)"
  define c2 where "c2 = (if v5_clean_start k then clear_store_related c1 else c1)"
  have "dispatch 1 (mk_raw (v5c_fixed_header k) (v5_connect_body k)) c =
      seq (recv_connect_props ps) (steps [notify_received (V5_Connect k)]) c2"
    using packet_wire.wire_framed(2) [OF v5_connect.packet_wire_axioms k len] version down
    by (simp add: dispatch_def reads_def dispatch_v5_def process_recv_v5_connect_def branch_def on_parse_def calls_def
        seq_def upd_def emit_def ps_def c0_def c1_def c2_def)
  then have r: "r = rbind (seq (recv_connect_props ps) (steps [notify_received (V5_Connect k)]) c2)
      (\<lambda>(es, c'). Ret (es, c', \<lparr>inner = v5_connect_to_continuous_buffer k @ rest, pos = length (v5_connect_to_continuous_buffer k)\<rparr>))"
    using recv_wire [OF v5_connect.packet_wire_axioms k len idle room] role by (simp add: r_def h can_receive_def)
  show ?thesis
  proof (cases "P_TopicAliasMaximum 0 \<in> set ps")
    case True
    then show ?thesis using recv_connect_props_spec [of ps c2] by (simp add: r seq_def)
  next
    case False
    then obtain c3 where c3: "recv_connect_props ps c2 = Ret ([], c3)" "told_by ps c2 c3"
      using recv_connect_props_spec [of ps c2] by auto
    obtain es c' where n: "notify_received (V5_Connect k) c3 = Ret (es, c')" "deliveries es = [V5_Connect k]" "requests es = []"
      and c': "c' = c3\<lparr>cn_pingreq_recv_set := cn_pingreq_recv_set c'\<rparr>" using notify_received_shape by blast
    have fields: "cn_status c' = cn_status c3" "cn_publish_send_max c' = cn_publish_send_max c3"
      "cn_maximum_packet_size_send c' = cn_maximum_packet_size_send c3" "cn_topic_alias_send c' = cn_topic_alias_send c3"
      "cn_need_store c' = cn_need_store c3" "cn_pingreq_recv_timeout_ms c' = cn_pingreq_recv_timeout_ms c3"
      "cn_store c' = cn_store c3" "cn_pid_man c' = cn_pid_man c3" by (subst c', simp)+
    have "r = Ret (es, c', \<lparr>inner = v5_connect_to_continuous_buffer k @ rest, pos = length (v5_connect_to_continuous_buffer k)\<rparr>)"
      using c3(1) n(1) by (simp add: r seq_def emit_def)
    then show ?thesis
      using False n(2,3) c3(2) by (simp add: fields told_by_def c2_def c1_def c0_def clear_store_related_def initialize_def word_neq_0_conv)
  qed
qed

definition sample_v5_connect :: "property \<Rightarrow> v5_connect" where
  "sample_v5_connect p = \<lparr>v5c_fixed_header = 0x10, v5c_remaining_length = \<lparr>encoded = vbi_enc (14 + property_size p)\<rparr>,
     v5c_protocol_name = mqtt_protocol_name, v5c_protocol_version_buf = 0x05, v5c_connect_flags_buf = 0x02,
     v5c_keep_alive_buf = [0, 60], v5c_property_length = \<lparr>encoded = vbi_enc (property_size p)\<rparr>, v5c_props = [p],
     v5c_client_id_buf = \<lparr>ms_encoded = [0, 1, 0x61]\<rparr>, v5c_will_property_length = \<lparr>encoded = vbi_enc 0\<rparr>, v5c_will_props = [],
     v5c_will_topic_buf = ms_default, v5c_will_payload_buf = mb_default, v5c_user_name_buf = ms_default,
     v5c_password_buf = mb_default\<rparr>"

lemma sample_v5_connect_inv:
  assumes "property_inv p" and "validate_connect_properties [p] = Ok ()" and "property_size p < 128"
  shows "v5_connect_inv (sample_v5_connect p)" and "length (v5_connect_body (sample_v5_connect p)) = 14 + property_size p"
proof -
  have "length (properties_wire [p]) = 1 + property_size p"
    using assms(3) by (simp add: length_properties_wire properties_size_def vbi_enc_small)
  then show len: "length (v5_connect_body (sample_v5_connect p)) = 14 + property_size p"
    by (simp add: sample_v5_connect_def v5_connect_body_def v5_connect_fields_def v5_flag_defs cf_will_def cf_user_name_def
        cf_password_def mqtt_protocol_name_def ms_to_continuous_buffer_def ms_as_bytes_def)
  show "v5_connect_inv (sample_v5_connect p)"
    unfolding v5_connect_inv_def len using assms
    by (simp add: sample_v5_connect_def v5_flag_defs cf_will_def cf_user_name_def cf_password_def ms_inv_def len_prefix_def
        properties_inv_def properties_size_def validate_will_properties_def validate_properties_def count_id_def utf8_valid_ascii)
qed

theorem recv_v5_connect_witness:
  "\<exists>(c :: 16 word connection) es c'.
     recv (cursor_new (v5_connect_to_continuous_buffer (sample_v5_connect (P_TopicAliasMaximum 0)) @ [])) c = Panic Assert_Failed
     \<and> recv (cursor_new (v5_connect_to_continuous_buffer (sample_v5_connect (P_ReceiveMaximum 10)) @ [])) c = Ret (es, c',
         \<lparr>inner = v5_connect_to_continuous_buffer (sample_v5_connect (P_ReceiveMaximum 10)) @ [],
          pos = length (v5_connect_to_continuous_buffer (sample_v5_connect (P_ReceiveMaximum 10)))\<rparr>)
     \<and> cn_publish_send_max c' = Some 10"
proof -
  obtain m :: "16 word packet_id_manager" where m: "pim_new = Ret m" using pim_new_ok by blast
  obtain c :: "16 word connection" where c: "cn_packet_builder c = pb_new" "unat (cn_maximum_packet_size_recv c) = 268435461"
    "cn_protocol_version c = V5_0" "cn_role c \<noteq> Client" "cn_status c = Disconnected"
  proof -
    obtain c :: "16 word connection" where "conn_new Server V5_0 = Ret c" by (simp add: conn_new_def m)
    then show thesis by (intro that [of c]) (auto simp: conn_new_def m packet_size_no_limit_def)
  qed
  have valid: "property_inv (P_TopicAliasMaximum 0)" "validate_connect_properties [P_TopicAliasMaximum 0] = Ok ()"
    "property_inv (P_ReceiveMaximum 10)" "validate_connect_properties [P_ReceiveMaximum 10] = Ok ()"
    by (simp_all add: validate_connect_properties_def validate_properties_def count_id_def Let_def)
  have size: "property_size (P_TopicAliasMaximum 0) = 3" "property_size (P_ReceiveMaximum 10) = 3" by simp_all
  have room: "length (v5_connect_to_continuous_buffer (sample_v5_connect p)) \<le> unat (cn_maximum_packet_size_recv c)"
    if "property_inv p" "validate_connect_properties [p] = Ok ()" "property_size p = 3" for p
    using packet_wire.buf_eq [OF v5_connect.packet_wire_axioms sample_v5_connect_inv(1) [OF that(1,2)]]
      sample_v5_connect_inv(2) [OF that(1,2)] that(3) c(2) by (simp add: vbi_enc_small)
  have run: "length (v5_connect_body (sample_v5_connect p)) < 2097152"
    if "property_inv p" "validate_connect_properties [p] = Ok ()" "property_size p = 3" for p
    using sample_v5_connect_inv(2) [OF that(1,2)] that(3) by simp
  have props: "v5c_props (sample_v5_connect p) = [p]" for p by (simp add: sample_v5_connect_def)
  have "recv (cursor_new (v5_connect_to_continuous_buffer (sample_v5_connect (P_TopicAliasMaximum 0)) @ [])) c = Panic Assert_Failed"
    using recv_v5_connect [OF sample_v5_connect_inv(1) [OF valid(1,2)] run [OF valid(1,2)] c(1) room [OF valid(1,2)] c(3-5), of "[]"] size
    by (simp add: props)
  moreover obtain es c' where "recv (cursor_new (v5_connect_to_continuous_buffer (sample_v5_connect (P_ReceiveMaximum 10)) @ [])) c = Ret (es, c',
         \<lparr>inner = v5_connect_to_continuous_buffer (sample_v5_connect (P_ReceiveMaximum 10)) @ [],
          pos = length (v5_connect_to_continuous_buffer (sample_v5_connect (P_ReceiveMaximum 10)))\<rparr>)"
      "cn_publish_send_max c' = told_receive_maximum [P_ReceiveMaximum 10] None"
    using recv_v5_connect [OF sample_v5_connect_inv(1) [OF valid(3,4)] run [OF valid(3,4)] c(1) room [OF valid(3,4)] c(3-5), of "[]"] size
    by (auto simp: props)
  ultimately show ?thesis by (intro exI conjI) (assumption | simp add: told_receive_maximum_def)+
qed

end
