(* ===== verification/Connection_Exchange.thy ===== *)
theory Connection_Exchange
  imports Connection_Safety
begin

text \<open>
  Two connections that talk to each other over a link that delivers the packets one of them requests,
  as their bytes and in order, to the other: the QoS 2 exchange of v3.1.1 from the send of a publish to
  the release of its identifier.
\<close>

section \<open>The link\<close>

text \<open>The bytes of the packets that one side requests arrive at the other, packet by packet.\<close>

primrec receive_all :: "'p::len word packet list \<Rightarrow> 'p word handler" where
  "receive_all [] = emit []"
| "receive_all (p # ps) = seq
     (\<lambda>c. rbind (recv (cursor_new (gp_to_continuous_buffer p)) c) (\<lambda>(es, c', _). Ret (es, c'))) (receive_all ps)"

text \<open>
  At most \<open>n\<close> turns: \<open>b\<close> receives the packets on the link, and what it requests goes to \<open>a\<close>.  The result
  says what is on the link at the end and what each side told its application.
\<close>

primrec exchange ::
  "nat \<Rightarrow> 'p::len word packet list \<Rightarrow> 'p word connection \<times> 'p word connection
   \<Rightarrow> ('p word packet list \<times> ('p word event list \<times> 'p word connection) \<times> ('p word event list \<times> 'p word connection)) rust" where
  "exchange 0 ps ab = Ret (ps, ([], fst ab), ([], snd ab))"
| "exchange (Suc n) ps ab =
     (if ps = [] then Ret ([], ([], fst ab), ([], snd ab))
      else rbind (receive_all ps (snd ab)) (\<lambda>(es, b).
           rbind (exchange n (requests es) (b, fst ab)) (\<lambda>(qs, (es_b, b'), (es_a, a')).
             Ret (qs, (es_a, a'), (es @ es_b, b')))))"

section \<open>The turns of a QoS 2 exchange\<close>

text \<open>An established connection of v3.1.1 that answers by itself.\<close>

definition established :: "'p::len word connection \<Rightarrow> bool" where
  "established c \<longleftrightarrow> cn_protocol_version c = V3_1_1 \<and> cn_status c = Connected \<and> cn_auto_pub_response c
     \<and> cn_packet_builder c = pb_new \<and> 8 \<le> unat (cn_maximum_packet_size_recv c)
     \<and> store_inv (cn_store c) \<and> pim_inv (cn_pid_man c)"

text \<open>The acknowledgement that the builder gives for an identifier.\<close>

definition plain_ack :: "fixed_header \<Rightarrow> 'p::len word \<Rightarrow> 'p word v3_ack" where
  "plain_ack fh i = \<lparr>v3a_fixed_header = fixed_header_as_u8 fh,
     v3a_remaining_length = \<lparr>encoded = vbi_enc (pid_size TYPE('p))\<rparr>, v3a_packet_id_buf = i, v3a_reason_code_buf = None\<rparr>"

lemma plain_ack_simps [simp]: "v3a_packet_id_buf (plain_ack fh i) = i" "v3a_fixed_header (plain_ack fh i) = fixed_header_as_u8 fh"
  by (simp_all add: plain_ack_def)

lemma send_post_frame:
  "\<exists>es b. send_post_process c = Ret (es, c\<lparr>cn_pingreq_send_set := b\<rparr>) \<and> requests es = [] \<and> deliveries es = []"
proof (cases "cn_is_client c \<and> pingreq_interval_ms c > 0")
  case True
  then show ?thesis
    by (intro exI [of _ "[RequestTimerReset PingreqSend (pingreq_interval_ms c)]"] exI [of _ True])
       (simp add: send_post_process_def arm_timer_def handler_defs)
next
  case False
  then show ?thesis
    by (intro exI [of _ "[]"] exI [of _ "cn_pingreq_send_set c"]) (auto simp: send_post_process_def handler_defs)
qed

lemma send_when_connected_frame:
  assumes "cn_status c = Connected"
  shows "\<exists>es b. send_when_connected p c = Ret (es, c\<lparr>cn_pingreq_send_set := b\<rparr>) \<and> requests es = [p] \<and> deliveries es = []"
proof -
  obtain es b where "send_post_process c = Ret (es, c\<lparr>cn_pingreq_send_set := b\<rparr>)" "requests es = []" "deliveries es = []"
    using send_post_frame by blast
  then show ?thesis using assms
    by (intro exI [of _ "RequestSendPacket p None # es"] exI [of _ b])
       (simp add: send_when_connected_def unless_def branch_def request_send_def seq_def emit_def)
qed

lemma notify_frame:
  "\<exists>es b. notify_received p c = Ret (es, c\<lparr>cn_pingreq_recv_set := b\<rparr>) \<and> requests es = [] \<and> deliveries es = [p]"
proof -
  obtain es b where "refresh_pingreq_recv c = Ret (es, c\<lparr>cn_pingreq_recv_set := b\<rparr>)" "requests es = []" "deliveries es = []"
    using refresh_frame by blast
  then show ?thesis
    by (intro exI [of _ "es @ [NotifyPacketReceived p]"] exI [of _ b]) (simp add: notify_received_def seq_def emit_def)
qed

text \<open>The handler of an acknowledgement that arrives.\<close>

lemma recv_plain_ack:
  fixes c :: "'p::len word connection" and i :: "'p word"
  assumes w: "packet_id_width TYPE('p)" and i: "i \<noteq> 0" and c: "established c"
    and t: "drop_bit 4 (fixed_header_as_u8 fh) = t" "t \<in> {4, 5, 6, 7}"
  shows "rbind (recv (cursor_new (v3_ack_to_continuous_buffer (plain_ack fh i))) c) (\<lambda>(es, c', _). Ret (es, c')) =
      dispatch_v3 t (mk_raw (fixed_header_as_u8 fh) (to_buffer i)) c"
    and "v3_ack_parse fh ok (fixed_header_as_u8 fh AND 0x0F) (to_buffer i) = Ret (Ok (plain_ack fh i, pid_size TYPE('p)))"
proof -
  have len: "length (to_buffer i) = pid_size TYPE('p)" by (simp add: pid_size_def)
  have body: "v3_ack_body (plain_ack fh i) = to_buffer i" by (simp add: v3_ack_body_def plain_ack_def)
  have inv: "v3_ack_inv fh ok (plain_ack fh i)" for ok
    unfolding v3_ack_inv_def body len using i by (simp add: plain_ack_def)
  note wire = packet_codec.axioms(1) [OF v3_ack_codec [OF w, of fh ok]]
  have small: "length (v3_ack_body (plain_ack fh i)) \<le> 4" using pid_size_le [OF w] by (simp add: body len)
  have room: "length (v3_ack_to_continuous_buffer (plain_ack fh i)) \<le> unat (cn_maximum_packet_size_recv c)"
    using packet_wire.buf_eq [OF wire inv] small c by (simp add: established_def vbi_enc_small)
  have "can_receive t c" using t(2) by (auto simp: can_receive_def)
  then have "recv (cursor_new (v3_ack_to_continuous_buffer (plain_ack fh i) @ [])) c =
      rbind (dispatch t (mk_raw (fixed_header_as_u8 fh) (to_buffer i)) c)
        (\<lambda>(es, c'). Ret (es, c', \<lparr>inner = v3_ack_to_continuous_buffer (plain_ack fh i) @ [],
          pos = length (v3_ack_to_continuous_buffer (plain_ack fh i))\<rparr>))"
    using recv_wire [OF wire inv _ _ room, of "[]"] small c t(1) by (simp add: body established_def)
  moreover have "dispatch t raw c = dispatch_v3 t raw c" for raw using c by (simp add: dispatch_def reads_def established_def)
  ultimately show "rbind (recv (cursor_new (v3_ack_to_continuous_buffer (plain_ack fh i))) c) (\<lambda>(es, c', _). Ret (es, c')) =
      dispatch_v3 t (mk_raw (fixed_header_as_u8 fh) (to_buffer i)) c"
    by (cases "dispatch_v3 t (mk_raw (fixed_header_as_u8 fh) (to_buffer i)) c") auto
  show "v3_ack_parse fh ok (fixed_header_as_u8 fh AND 0x0F) (to_buffer i) = Ret (Ok (plain_ack fh i, pid_size TYPE('p)))"
    using packet_wire.parse_body [OF wire inv] by (simp add: body len)
qed

lemma established_update:
  "established c \<Longrightarrow> established (c\<lparr>cn_pingreq_send_set := b, cn_pingreq_recv_set := b'\<rparr>)"
  "established (c\<lparr>cn_pingreq_recv_set := b\<rparr>) = established c"
  by (simp_all add: established_def)

text \<open>The receiver of the publish: PUBLISH is answered with PUBREC, and PUBREL with PUBCOMP.\<close>

lemma pubrel_turn:
  fixes c :: "'p::len word connection" and i :: "'p word"
  assumes w: "packet_id_width TYPE('p)" and i: "i \<noteq> 0" and c: "established c"
  shows "\<exists>es b b'. rbind (recv (cursor_new (v3_ack_to_continuous_buffer (plain_ack FH_Pubrel i))) c) (\<lambda>(es, c', _). Ret (es, c')) =
      Ret (es, c\<lparr>cn_qos2_publish_handled := cn_qos2_publish_handled c - {i}, cn_pingreq_send_set := b, cn_pingreq_recv_set := b'\<rparr>)
    \<and> requests es = [V3_Pubcomp (plain_ack FH_Pubcomp i)] \<and> deliveries es = [V3_Pubrel (plain_ack FH_Pubrel i)]"
proof -
  define c1 where "c1 = c\<lparr>cn_qos2_publish_handled := cn_qos2_publish_handled c - {i}\<rparr>"
  have ack: "v3_ack_for FH_Pubcomp i = Ret (plain_ack FH_Pubcomp i)" by (simp add: v3_ack_for_ok [OF w i] plain_ack_def)
  have up: "cn_status c1 = Connected" "cn_auto_pub_response c1" using c by (simp_all add: c1_def established_def)
  obtain es b where s: "send_when_connected (V3_Pubcomp (plain_ack FH_Pubcomp i)) c1 = Ret (es, c1\<lparr>cn_pingreq_send_set := b\<rparr>)"
    "requests es = [V3_Pubcomp (plain_ack FH_Pubcomp i)]" "deliveries es = []" using send_when_connected_frame [OF up(1)] by blast
  obtain es' b' where n: "notify_received (V3_Pubrel (plain_ack FH_Pubrel i)) (c1\<lparr>cn_pingreq_send_set := b\<rparr>) =
      Ret (es', c1\<lparr>cn_pingreq_send_set := b, cn_pingreq_recv_set := b'\<rparr>)"
    "requests es' = []" "deliveries es' = [V3_Pubrel (plain_ack FH_Pubrel i)]" using notify_frame by blast
  have "dispatch_v3 6 (mk_raw (fixed_header_as_u8 FH_Pubrel) (to_buffer i)) c = Ret (es @ es', c1\<lparr>cn_pingreq_send_set := b, cn_pingreq_recv_set := b'\<rparr>)"
    using s(1) n(1) up ack recv_plain_ack(2) [OF w i c, of FH_Pubrel 6 "\<lambda>b. pubrel_reason_code_try_from b \<noteq> None"]
    by (simp add: dispatch_v3_def process_recv_v3_pubrel_def v3_pubrel_parse_def on_parse_def calls_def seq_def upd_def emit_def branch_def
        process_send_v3_pubcomp_def c1_def [symmetric])
  then show ?thesis
    using s(2,3) n(2,3) recv_plain_ack(1) [OF w i c, of FH_Pubrel 6] by (auto simp: c1_def)
qed

lemma publish_turn:
  fixes c :: "'p::len word connection" and i :: "'p word"
  assumes w: "packet_id_width TYPE('p)" and k: "v3_publish_inv k" "v3_publish_qos k = Ret ExactlyOnce" "v3p_packet_id_buf k = Some i"
    and len: "length (v3_publish_body k) < 2097152" and room: "length (v3_publish_to_continuous_buffer k) \<le> unat (cn_maximum_packet_size_recv c)"
    and i: "i \<noteq> 0" and c: "established c" and new: "i \<notin> cn_qos2_publish_handled c"
  shows "\<exists>es b b'. rbind (recv (cursor_new (v3_publish_to_continuous_buffer k)) c) (\<lambda>(es, c', _). Ret (es, c')) =
      Ret (es, c\<lparr>cn_qos2_publish_handled := insert i (cn_qos2_publish_handled c), cn_pingreq_send_set := b, cn_pingreq_recv_set := b'\<rparr>)
    \<and> requests es = [V3_Pubrec (plain_ack FH_Pubrec i)] \<and> deliveries es = [V3_Publish k]"
proof -
  define c1 where "c1 = c\<lparr>cn_qos2_publish_handled := insert i (cn_qos2_publish_handled c)\<rparr>"
  note wire = packet_codec.axioms(1) [OF v3_publish_codec [OF w]]
  have h: "v3p_fixed_header k = 0x30 OR (v3p_fixed_header k AND 0x0F)" using k(1) by (simp add: v3_publish_inv_def)
  note t = publish_header [OF h]
  have ack: "v3_ack_for FH_Pubrec i = Ret (plain_ack FH_Pubrec i)" by (simp add: v3_ack_for_ok [OF w i] plain_ack_def)
  have up: "cn_status c1 = Connected" "cn_auto_pub_response c1" using c by (simp_all add: c1_def established_def)
  obtain es b where s: "send_when_connected (V3_Pubrec (plain_ack FH_Pubrec i)) c1 = Ret (es, c1\<lparr>cn_pingreq_send_set := b\<rparr>)"
    "requests es = [V3_Pubrec (plain_ack FH_Pubrec i)]" "deliveries es = []" using send_when_connected_frame [OF up(1)] by blast
  obtain es' b' where n: "refresh_pingreq_recv (c1\<lparr>cn_pingreq_send_set := b\<rparr>) =
      Ret (es', c1\<lparr>cn_pingreq_send_set := b, cn_pingreq_recv_set := b'\<rparr>)" "requests es' = []" "deliveries es' = []"
    using refresh_frame by blast
  have "v3_publish_received k c = Ret (es @ es' @ [NotifyPacketReceived (V3_Publish k)], c1\<lparr>cn_pingreq_send_set := b, cn_pingreq_recv_set := b'\<rparr>)"
    using s(1) n(1) c ack new k(2,3) unfolding established_def
    by (simp add: v3_publish_received_def calls_def reads_def seq_def upd_def emit_def branch_def process_send_v3_pubrec_def c1_def [symmetric])
  moreover have "dispatch 3 (mk_raw (v3p_fixed_header k) (v3_publish_body k)) c = v3_publish_received k c"
    using packet_wire.wire_framed(2) [OF wire k(1) len] t(2) c
    by (simp add: dispatch_def reads_def established_def dispatch_v3_def process_recv_v3_publish_def publish_data_def calls_def
        on_parse_def mk_raw_def rp_flags_def)
  ultimately have "recv (cursor_new (v3_publish_to_continuous_buffer k @ [])) c =
      Ret (es @ es' @ [NotifyPacketReceived (V3_Publish k)], c1\<lparr>cn_pingreq_send_set := b, cn_pingreq_recv_set := b'\<rparr>,
        \<lparr>inner = v3_publish_to_continuous_buffer k @ [], pos = length (v3_publish_to_continuous_buffer k)\<rparr>)"
    using recv_wire [OF wire k(1) len _ room, of "[]"] c by (simp add: t(1) established_def)
  then show ?thesis using s(2,3) n(2,3) by (auto simp: c1_def)
qed

text \<open>The sender of the publish: PUBREC is answered with PUBREL, and PUBCOMP releases the identifier.\<close>

lemma pubrec_turn:
  fixes c :: "'p::len word connection" and i :: "'p word"
  assumes w: "packet_id_width TYPE('p)" and i: "i \<noteq> 0" and c: "established c" and awaited: "i \<in> cn_pid_pubrec c"
    and used: "i \<in> used_ids (cn_pid_man c)"
    and stored: "\<And>p. store_lookup (cn_store c) i = Some p \<Longrightarrow> sp_response_packet p = Ret R_V3_Pubrec"
  shows "\<exists>es st b b'. rbind (recv (cursor_new (v3_ack_to_continuous_buffer (plain_ack FH_Pubrec i))) c) (\<lambda>(es, c', _). Ret (es, c')) =
      Ret (es, c\<lparr>cn_pid_pubrec := cn_pid_pubrec c - {i}, cn_store := st, cn_pid_pubcomp := insert i (cn_pid_pubcomp c),
        cn_pingreq_send_set := b, cn_pingreq_recv_set := b'\<rparr>)
    \<and> requests es = [V3_Pubrel (plain_ack FH_Pubrel i)] \<and> deliveries es = [V3_Pubrec (plain_ack FH_Pubrec i)]
    \<and> store_inv st
    \<and> store_lookup st = (store_lookup (cn_store c))(i := if cn_need_store c then Some (S_V3_Pubrel (plain_ack FH_Pubrel i)) else None)"
proof -
  define c1 where "c1 = c\<lparr>cn_pid_pubrec := cn_pid_pubrec c - {i}\<rparr>"
  have same: "cn_store c1 = cn_store c" by (simp add: c1_def)
  have "store_inv (cn_store c1)" using c by (simp add: same established_def)
  then obtain st where st: "erase_stored R_V3_Pubrec i c1 = Ret ([], c1\<lparr>cn_store := st\<rparr>)" "store_inv st"
    and l: "store_lookup st = (if \<exists>p. store_lookup (cn_store c) i = Some p \<and> sp_response_packet p = Ret R_V3_Pubrec
        then (store_lookup (cn_store c))(i := None) else store_lookup (cn_store c))"
    using erase_run [of c1 R_V3_Pubrec i] unfolding same by blast
  have l': "store_lookup st = (store_lookup (cn_store c))(i := None)"
    using stored unfolding l by (cases "store_lookup (cn_store c) i") (auto simp: fun_eq_iff)
  let ?rel = "plain_ack FH_Pubrel i"
  have ack: "v3_ack_for FH_Pubrel i = Ret ?rel" by (simp add: v3_ack_for_ok [OF w i] plain_ack_def)
  have storable: "storable i (S_V3_Pubrel ?rel)" by (simp add: storable_def)
  define st' where "st' = (if cn_need_store c then st\<lparr>st_map := st_map st @ [(i, S_V3_Pubrel ?rel)]\<rparr> else st)"
  have st': "store_inv st'" "store_lookup st' = (store_lookup (cn_store c))(i := if cn_need_store c then Some (S_V3_Pubrel ?rel) else None)"
    using store_inv_add [OF st(2) storable] st(2) by (simp_all add: st'_def l')
  define c2 where "c2 = c1\<lparr>cn_store := st', cn_pid_pubcomp := insert i (cn_pid_pubcomp c)\<rparr>"
  obtain es b where p: "send_post_process c2 = Ret (es, c2\<lparr>cn_pingreq_send_set := b\<rparr>)" "requests es = []" "deliveries es = []"
    using send_post_frame by blast
  obtain es' b' where n: "notify_received (V3_Pubrec (plain_ack FH_Pubrec i)) (c2\<lparr>cn_pingreq_send_set := b\<rparr>) =
      Ret (es', c2\<lparr>cn_pingreq_send_set := b, cn_pingreq_recv_set := b'\<rparr>)"
    "requests es' = []" "deliveries es' = [V3_Pubrec (plain_ack FH_Pubrec i)]" using notify_frame by blast
  have facts: "cn_status c1 = Connected" "cn_auto_pub_response c1" "is_used_id (cn_pid_man c1) i" "cn_pid_pubcomp c1 = cn_pid_pubcomp c"
    "cn_need_store c1 = cn_need_store c"
    using c used by (simp_all add: c1_def established_def is_used_id_iff)
  have stores: "cn_need_store c \<Longrightarrow> store_or_panic (S_V3_Pubrel ?rel) (c1\<lparr>cn_store := st\<rparr>) = Ret ([], c1\<lparr>cn_store := st'\<rparr>)"
    by (simp add: store_or_panic_def store_add_eq [OF storable] l' st'_def)
  have "send_pubrel i (S_V3_Pubrel ?rel) (V3_Pubrel ?rel) (c1\<lparr>cn_store := st\<rparr>) =
      Ret (RequestSendPacket (V3_Pubrel ?rel) None # es, c2\<lparr>cn_pingreq_send_set := b\<rparr>)"
    using facts stores p(1)
    by (cases "cn_need_store c") (simp_all add: send_pubrel_def unless_def branch_def seq_def emit_def upd_def c2_def st'_def)
  then have "dispatch_v3 5 (mk_raw (fixed_header_as_u8 FH_Pubrec) (to_buffer i)) c =
      Ret (RequestSendPacket (V3_Pubrel ?rel) None # es @ es', c2\<lparr>cn_pingreq_send_set := b, cn_pingreq_recv_set := b'\<rparr>)"
    using n(1) facts st(1) ack awaited recv_plain_ack(2) [OF w i c, of FH_Pubrec 5 "\<lambda>b. pubrec_reason_code_try_from b \<noteq> None"]
    by (simp add: dispatch_v3_def process_recv_v3_pubrec_def v3_pubrec_parse_def on_parse_def calls_def seq_def upd_def emit_def branch_def
        process_send_v3_pubrel_def Let_def c1_def [symmetric])
  then show ?thesis
    using p(2,3) n(2,3) st' recv_plain_ack(1) [OF w i c, of FH_Pubrec 5]
    by (intro exI [of _ "RequestSendPacket (V3_Pubrel ?rel) None # es @ es'"] exI [of _ st'] exI [of _ b] exI [of _ b'])
       (simp add: c2_def c1_def)
qed

lemma pubcomp_turn:
  fixes c :: "'p::len word connection" and i :: "'p word"
  assumes w: "packet_id_width TYPE('p)" and i: "i \<noteq> 0" and c: "established c" and awaited: "i \<in> cn_pid_pubcomp c"
    and used: "i \<in> used_ids (cn_pid_man c)"
    and stored: "\<And>p. store_lookup (cn_store c) i = Some p \<Longrightarrow> sp_response_packet p = Ret R_V3_Pubcomp"
  shows "\<exists>es st m b. rbind (recv (cursor_new (v3_ack_to_continuous_buffer (plain_ack FH_Pubcomp i))) c) (\<lambda>(es, c', _). Ret (es, c')) =
      Ret (es, c\<lparr>cn_pid_pubcomp := cn_pid_pubcomp c - {i}, cn_store := st, cn_pid_man := m, cn_pingreq_recv_set := b\<rparr>)
    \<and> requests es = [] \<and> deliveries es = [V3_Pubcomp (plain_ack FH_Pubcomp i)] \<and> NotifyPacketIdReleased i \<in> set es
    \<and> store_inv st \<and> store_lookup st = (store_lookup (cn_store c))(i := None)
    \<and> pim_inv m \<and> used_ids m = used_ids (cn_pid_man c) - {i}"
proof -
  define c1 where "c1 = c\<lparr>cn_pid_pubcomp := cn_pid_pubcomp c - {i}\<rparr>"
  have same: "cn_store c1 = cn_store c" by (simp add: c1_def)
  have "store_inv (cn_store c1)" using c by (simp add: same established_def)
  then obtain st where st: "erase_stored R_V3_Pubcomp i c1 = Ret ([], c1\<lparr>cn_store := st\<rparr>)" "store_inv st"
    and l: "store_lookup st = (if \<exists>p. store_lookup (cn_store c) i = Some p \<and> sp_response_packet p = Ret R_V3_Pubcomp
        then (store_lookup (cn_store c))(i := None) else store_lookup (cn_store c))"
    using erase_run [of c1 R_V3_Pubcomp i] unfolding same by blast
  have l': "store_lookup st = (store_lookup (cn_store c))(i := None)"
    using stored unfolding l by (cases "store_lookup (cn_store c) i") (auto simp: fun_eq_iff)
  have pim: "pim_inv (cn_pid_man (c1\<lparr>cn_store := st\<rparr>))" using c by (simp add: c1_def established_def)
  obtain m where m: "release_packet_id i (c1\<lparr>cn_store := st\<rparr>) = Ret ([NotifyPacketIdReleased i], c1\<lparr>cn_store := st, cn_pid_man := m\<rparr>)"
    "pim_inv m" "used_ids m = used_ids (cn_pid_man c) - {i}"
    using release_one [OF pim i] used by (auto simp: c1_def)
  obtain es b where n: "notify_received (V3_Pubcomp (plain_ack FH_Pubcomp i)) (c1\<lparr>cn_store := st, cn_pid_man := m\<rparr>) =
      Ret (es, c1\<lparr>cn_store := st, cn_pid_man := m, cn_pingreq_recv_set := b\<rparr>)"
    "requests es = []" "deliveries es = [V3_Pubcomp (plain_ack FH_Pubcomp i)]" using notify_frame by blast
  have "dispatch_v3 7 (mk_raw (fixed_header_as_u8 FH_Pubcomp) (to_buffer i)) c =
      Ret (NotifyPacketIdReleased i # es, c1\<lparr>cn_store := st, cn_pid_man := m, cn_pingreq_recv_set := b\<rparr>)"
    using n(1) st(1) m(1) awaited recv_plain_ack(2) [OF w i c, of FH_Pubcomp 7 "\<lambda>b. pubcomp_reason_code_try_from b \<noteq> None"]
    by (simp add: dispatch_v3_def process_recv_v3_pubcomp_def v3_pubcomp_parse_def on_parse_def calls_def seq_def upd_def emit_def branch_def
        v3_ack_received_def Let_def c1_def [symmetric])
  then show ?thesis
    using n(2,3) st(2) m(2,3) l' recv_plain_ack(1) [OF w i c, of FH_Pubcomp 7]
    by (intro exI [of _ "NotifyPacketIdReleased i # es"] exI [of _ st] exI [of _ m] exI [of _ b]) (simp add: c1_def)
qed

text \<open>The send of a publish.\<close>

lemma stored_publish:
  assumes "v3_publish_qos k = Ret ExactlyOnce" and "v3p_packet_id_buf k = Some i"
  shows "v3_publish_qos (v3_publish_set_dup k True) = Ret ExactlyOnce" "storable i (S_V3_Publish (v3_publish_set_dup k True))"
proof -
  have "qos_bits (v3p_fixed_header k OR 0x08) = qos_bits (v3p_fixed_header k)"
    unfolding qos_bits_def by (simp add: drop_bit_or bit.conj_disj_distrib2)
  then show q: "v3_publish_qos (v3_publish_set_dup k True) = Ret ExactlyOnce"
    using assms(1) by (simp add: v3_publish_qos_def v3_publish_set_dup_def)
  show "storable i (S_V3_Publish (v3_publish_set_dup k True))"
    using q assms(2) by (simp add: storable_def) (simp add: v3_publish_set_dup_def)
qed

lemma send_turn:
  fixes c :: "'p::len word connection" and i :: "'p word"
  assumes k: "v3_publish_qos k = Ret ExactlyOnce" "v3p_packet_id_buf k = Some i"
    and c: "established c" and used: "i \<in> used_ids (cn_pid_man c)" and free: "store_lookup (cn_store c) i = None"
  shows "\<exists>es st b. send (V3_Publish k) c =
      Ret (es, c\<lparr>cn_store := st, cn_pid_pubrec := insert i (cn_pid_pubrec c), cn_pingreq_send_set := b\<rparr>)
    \<and> requests es = [V3_Publish k] \<and> deliveries es = [] \<and> store_inv st
    \<and> store_lookup st = (store_lookup (cn_store c))(i := if cn_need_store c then Some (S_V3_Publish (v3_publish_set_dup k True)) else None)"
proof -
  let ?p = "S_V3_Publish (v3_publish_set_dup k True)"
  note stored = stored_publish [OF k]
  define st where "st = (if cn_need_store c then cn_store c\<lparr>st_map := st_map (cn_store c) @ [(i, ?p)]\<rparr> else cn_store c)"
  have st: "store_inv st" "store_lookup st = (store_lookup (cn_store c))(i := if cn_need_store c then Some ?p else None)"
    using store_inv_add [OF _ stored(2) free] c free by (auto simp: st_def established_def fun_eq_iff)
  define c1 where "c1 = c\<lparr>cn_store := st, cn_pid_pubrec := insert i (cn_pid_pubrec c)\<rparr>"
  obtain es b where p: "send_post_process c1 = Ret (es, c1\<lparr>cn_pingreq_send_set := b\<rparr>)" "requests es = []" "deliveries es = []"
    using send_post_frame by blast
  have facts: "cn_protocol_version c = V3_1_1" "cn_status c = Connected" "is_used_id (cn_pid_man c) i"
    using c used by (simp_all add: established_def is_used_id_iff)
  have store: "rbind (sp_of_v3_publish (v3_publish_set_dup k True)) unwrap_res = Ret ?p"
    by (simp add: sp_of_v3_publish_def stored(1))
  have storing: "cn_need_store c \<Longrightarrow> store_or_panic ?p c = Ret ([], c\<lparr>cn_store := st\<rparr>)"
    by (simp add: store_or_panic_def store_add_eq [OF stored(2)] free st_def)
  have "send (V3_Publish k) c =
      Ret (RequestSendPacket (V3_Publish k) (if cn_need_store c then None else Some i) # es, c1\<lparr>cn_pingreq_send_set := b\<rparr>)"
    using facts k p(1) store storing
    by (cases "cn_need_store c")
       (simp_all add: send_def unless_def branch_def send_dispatch_def process_send_v3_publish_def calls_def cannot_publish_def reads_def
        stores_publish_def await_response_def send_if_connected_def request_send_def seq_def emit_def upd_def c1_def st_def)
  then show ?thesis
    using p(2,3) st
    by (intro exI [of _ "RequestSendPacket (V3_Publish k) (if cn_need_store c then None else Some i) # es"] exI [of _ st] exI [of _ b])
       (simp add: c1_def)
qed

section \<open>The exchange\<close>

lemma receive_one: "receive_all [p] c = rbind (rbind (recv (cursor_new (gp_to_continuous_buffer p)) c) (\<lambda>(es, c', _). Ret (es, c')))
    (\<lambda>(es, c'). Ret (es, c'))"
  by (simp add: seq_def emit_def)

lemma exchange_turn:
  assumes "rbind (recv (cursor_new (gp_to_continuous_buffer p)) b) (\<lambda>(es, c', _). Ret (es, c')) = Ret (es, b')"
  shows "exchange (Suc n) [p] (a, b) = rbind (exchange n (requests es) (b', a)) (\<lambda>(qs, (es_b, b'), (es_a, a')).
      Ret (qs, (es_a, a'), (es @ es_b, b')))"
  using assms by (simp add: receive_one del: receive_all.simps)

text \<open>The four turns, from any state in which the publish is in flight.\<close>

lemma handshake:
  fixes a b :: "'p::len word connection" and i :: "'p word"
  assumes w: "packet_id_width TYPE('p)" and a: "established a" and b: "established b"
    and k: "v3_publish_inv k" "v3_publish_qos k = Ret ExactlyOnce" "v3p_packet_id_buf k = Some i"
    and len: "length (v3_publish_body k) < 2097152" and room: "length (v3_publish_to_continuous_buffer k) \<le> unat (cn_maximum_packet_size_recv b)"
    and i: "i \<noteq> 0" "i \<in> used_ids (cn_pid_man a)" "i \<in> cn_pid_pubrec a" "i \<notin> cn_qos2_publish_handled b"
    and stored: "\<forall>p. store_lookup (cn_store a) i = Some p \<longrightarrow> sp_response_packet p = Ret R_V3_Pubrec"
  shows "\<exists>es_a a' es_b b'. exchange 4 [V3_Publish k] (a, b) = Ret ([], (es_a, a'), (es_b, b'))
    \<and> deliveries es_b = [V3_Publish k, V3_Pubrel (plain_ack FH_Pubrel i)]
    \<and> deliveries es_a = [V3_Pubrec (plain_ack FH_Pubrec i), V3_Pubcomp (plain_ack FH_Pubcomp i)]
    \<and> NotifyPacketIdReleased i \<in> set es_a \<and> used_ids (cn_pid_man a') = used_ids (cn_pid_man a) - {i}
    \<and> store_lookup (cn_store a') = (store_lookup (cn_store a))(i := None)
    \<and> cn_pid_pubrec a' = cn_pid_pubrec a - {i} \<and> cn_pid_pubcomp a' = cn_pid_pubcomp a - {i}
    \<and> cn_qos2_publish_handled b' = cn_qos2_publish_handled b \<and> established a' \<and> established b'"
proof -
  obtain es1 b1 t1 t1' where s1: "rbind (recv (cursor_new (v3_publish_to_continuous_buffer k)) b) (\<lambda>(es, c', _). Ret (es, c')) = Ret (es1, b1)"
    and b1: "b1 = b\<lparr>cn_qos2_publish_handled := insert i (cn_qos2_publish_handled b), cn_pingreq_send_set := t1, cn_pingreq_recv_set := t1'\<rparr>"
    and r1: "requests es1 = [V3_Pubrec (plain_ack FH_Pubrec i)]" "deliveries es1 = [V3_Publish k]"
    using publish_turn [OF w k len room i(1) b i(4)] by blast
  have e1: "established b1" using b by (simp add: b1 established_def)
  obtain es2 a2 st2 t2 t2' where
    s2: "rbind (recv (cursor_new (v3_ack_to_continuous_buffer (plain_ack FH_Pubrec i))) a) (\<lambda>(es, c', _). Ret (es, c')) = Ret (es2, a2)"
    and a2: "a2 = a\<lparr>cn_pid_pubrec := cn_pid_pubrec a - {i}, cn_store := st2, cn_pid_pubcomp := insert i (cn_pid_pubcomp a),
        cn_pingreq_send_set := t2, cn_pingreq_recv_set := t2'\<rparr>"
    and r2: "requests es2 = [V3_Pubrel (plain_ack FH_Pubrel i)]" "deliveries es2 = [V3_Pubrec (plain_ack FH_Pubrec i)]"
    and st2: "store_inv st2" "store_lookup st2 = (store_lookup (cn_store a))(i := if cn_need_store a then Some (S_V3_Pubrel (plain_ack FH_Pubrel i)) else None)"
    using pubrec_turn [OF w i(1) a i(3,2) stored [rule_format]] by blast
  have e2: "established a2" using a st2(1) by (simp add: a2 established_def)
  obtain es3 b3 t3 t3' where
    s3: "rbind (recv (cursor_new (v3_ack_to_continuous_buffer (plain_ack FH_Pubrel i))) b1) (\<lambda>(es, c', _). Ret (es, c')) = Ret (es3, b3)"
    and b3: "b3 = b1\<lparr>cn_qos2_publish_handled := cn_qos2_publish_handled b1 - {i}, cn_pingreq_send_set := t3, cn_pingreq_recv_set := t3'\<rparr>"
    and r3: "requests es3 = [V3_Pubcomp (plain_ack FH_Pubcomp i)]" "deliveries es3 = [V3_Pubrel (plain_ack FH_Pubrel i)]"
    using pubrel_turn [OF w i(1) e1] by blast
  have "i \<in> cn_pid_pubcomp a2" "i \<in> used_ids (cn_pid_man a2)" using i(2) by (simp_all add: a2)
  moreover have "\<And>p. store_lookup (cn_store a2) i = Some p \<Longrightarrow> sp_response_packet p = Ret R_V3_Pubcomp"
    by (auto simp: a2 st2(2) split: if_splits)
  ultimately obtain es4 a4 st4 m t4 where
    s4: "rbind (recv (cursor_new (v3_ack_to_continuous_buffer (plain_ack FH_Pubcomp i))) a2) (\<lambda>(es, c', _). Ret (es, c')) = Ret (es4, a4)"
    and a4: "a4 = a2\<lparr>cn_pid_pubcomp := cn_pid_pubcomp a2 - {i}, cn_store := st4, cn_pid_man := m, cn_pingreq_recv_set := t4\<rparr>"
    and r4: "requests es4 = []" "deliveries es4 = [V3_Pubcomp (plain_ack FH_Pubcomp i)]" "NotifyPacketIdReleased i \<in> set es4"
    and st4: "store_inv st4" "store_lookup st4 = (store_lookup (cn_store a2))(i := None)"
    and m: "pim_inv m" "used_ids m = used_ids (cn_pid_man a2) - {i}"
    using pubcomp_turn [OF w i(1) e2] by blast
  have "exchange (Suc (Suc (Suc (Suc 0)))) [V3_Publish k] (a, b) = Ret ([], (es2 @ es4, a4), (es1 @ es3, b3))"
    by (simp add: exchange_turn s1 r1 s2 r2 s3 r3 s4 r4 del: exchange.simps(2))
  then have "exchange 4 [V3_Publish k] (a, b) = Ret ([], (es2 @ es4, a4), (es1 @ es3, b3))" by (simp add: numeral_eq_Suc)
  moreover have "store_lookup (cn_store a4) = (store_lookup (cn_store a))(i := None)"
    by (simp add: a4 st4(2) a2 st2(2))
  moreover have "cn_pid_pubrec a4 = cn_pid_pubrec a - {i}" "cn_pid_pubcomp a4 = cn_pid_pubcomp a - {i}"
    "used_ids (cn_pid_man a4) = used_ids (cn_pid_man a) - {i}"
    by (auto simp: a4 a2 m(2))
  moreover have "cn_qos2_publish_handled b3 = cn_qos2_publish_handled b" using i(4) by (simp add: b3 b1)
  moreover have "established a4" "established b3" using e2 e1 st4(1) m(1) by (simp_all add: a4 b3 established_def)
  ultimately show ?thesis using r1 r2 r3 r4
    by (intro exI [of _ "es2 @ es4"] exI [of _ a4] exI [of _ "es1 @ es3"] exI [of _ b3]) simp
qed

text \<open>
  C4: a QoS 2 exchange of v3.1.1 completes, and delivers exactly once.  Two established connections that
  answer by themselves are joined by a link that carries bytes both ways.  When one sends a QoS 2 publish
  under an identifier it acquired, four turns of the link empty it: the other application got the
  publish once, the sender was told that its identifier is free again, nothing of the exchange
  is left in the store or the awaited sets of the sender or among the handled identifiers of the receiver.
\<close>

theorem qos2_exchange:
  fixes a b :: "'p::len word connection" and i :: "'p word"
  assumes w: "packet_id_width TYPE('p)" and a: "established a" and b: "established b"
    and k: "v3_publish_inv k" "v3_publish_qos k = Ret ExactlyOnce" "v3p_packet_id_buf k = Some i"
    and len: "length (v3_publish_body k) < 2097152" and room: "length (v3_publish_to_continuous_buffer k) \<le> unat (cn_maximum_packet_size_recv b)"
    and i: "i \<noteq> 0" "i \<in> used_ids (cn_pid_man a)" "store_lookup (cn_store a) i = None" "i \<notin> cn_qos2_publish_handled b"
  shows "\<exists>es a0 es_a a' es_b b'. send (V3_Publish k) a = Ret (es, a0) \<and> exchange 4 (requests es) (a0, b) = Ret ([], (es_a, a'), (es_b, b'))
    \<and> deliveries es_b = [V3_Publish k, V3_Pubrel (plain_ack FH_Pubrel i)]
    \<and> deliveries es_a = [V3_Pubrec (plain_ack FH_Pubrec i), V3_Pubcomp (plain_ack FH_Pubcomp i)]
    \<and> NotifyPacketIdReleased i \<in> set es_a \<and> used_ids (cn_pid_man a') = used_ids (cn_pid_man a) - {i}
    \<and> store_lookup (cn_store a') = store_lookup (cn_store a)
    \<and> cn_pid_pubrec a' = cn_pid_pubrec a - {i} \<and> cn_pid_pubcomp a' = cn_pid_pubcomp a - {i}
    \<and> cn_qos2_publish_handled b' = cn_qos2_publish_handled b \<and> established a' \<and> established b'"
proof -
  obtain es0 st0 t0 where s0: "send (V3_Publish k) a = Ret (es0, a\<lparr>cn_store := st0, cn_pid_pubrec := insert i (cn_pid_pubrec a), cn_pingreq_send_set := t0\<rparr>)"
    and r0: "requests es0 = [V3_Publish k]" and st0: "store_inv st0"
      "store_lookup st0 = (store_lookup (cn_store a))(i := if cn_need_store a then Some (S_V3_Publish (v3_publish_set_dup k True)) else None)"
    using send_turn [OF k(2,3) a i(2,3)] by blast
  define a0 where "a0 = a\<lparr>cn_store := st0, cn_pid_pubrec := insert i (cn_pid_pubrec a), cn_pingreq_send_set := t0\<rparr>"
  have a0: "established a0" using a st0(1) by (simp add: a0_def established_def)
  have i0: "i \<in> used_ids (cn_pid_man a0)" "i \<in> cn_pid_pubrec a0" using i(2) by (simp_all add: a0_def)
  have stored: "\<forall>p. store_lookup (cn_store a0) i = Some p \<longrightarrow> sp_response_packet p = Ret R_V3_Pubrec"
    using stored_publish(1) [OF k(2,3)] by (auto simp: a0_def st0(2) split: if_splits)
  have clean: "(store_lookup (cn_store a0))(i := None) = store_lookup (cn_store a)"
    using i(3) by (auto simp: a0_def st0(2))
  have ids: "used_ids (cn_pid_man a0) = used_ids (cn_pid_man a)" "cn_pid_pubrec a0 - {i} = cn_pid_pubrec a - {i}"
    "cn_pid_pubcomp a0 = cn_pid_pubcomp a" by (auto simp: a0_def)
  obtain es_a a' es_b b' where h: "exchange 4 (requests es0) (a0, b) = Ret ([], (es_a, a'), (es_b, b'))"
    and rest: "deliveries es_b = [V3_Publish k, V3_Pubrel (plain_ack FH_Pubrel i)]"
      "deliveries es_a = [V3_Pubrec (plain_ack FH_Pubrec i), V3_Pubcomp (plain_ack FH_Pubcomp i)]"
      "NotifyPacketIdReleased i \<in> set es_a" "used_ids (cn_pid_man a') = used_ids (cn_pid_man a) - {i}"
      "store_lookup (cn_store a') = store_lookup (cn_store a)"
      "cn_pid_pubrec a' = cn_pid_pubrec a - {i}" "cn_pid_pubcomp a' = cn_pid_pubcomp a - {i}"
      "cn_qos2_publish_handled b' = cn_qos2_publish_handled b" "established a'" "established b'"
    using handshake [OF w a0 b k len room i(1) i0 i(4) stored, unfolded clean ids, folded r0]
    by (elim exE conjE) (rule that; assumption)
  have "send (V3_Publish k) a = Ret (es0, a0)" using s0 by (simp only: a0_def)
  then show ?thesis
    using h rest by (intro exI [of _ es0] exI [of _ a0] exI [of _ es_a] exI [of _ a'] exI [of _ es_b] exI [of _ b']) simp
qed

text \<open>One byte of topic, no payload, QoS 2, the identifier 7.\<close>

definition sample_qos2 :: "16 word v3_publish" where
  "sample_qos2 = (sample_publish 7)\<lparr>v3p_fixed_header := 0x34\<rparr>"

lemma sample_qos2_facts:
  "v3_publish_inv sample_qos2" "v3_publish_qos sample_qos2 = Ret ExactlyOnce" "v3p_packet_id_buf sample_qos2 = Some 7"
  "length (v3_publish_body sample_qos2) = 5" "length (v3_publish_to_continuous_buffer sample_qos2) = 7"
proof -
  have body: "v3_publish_body sample_qos2 = v3_publish_body (sample_publish 7)" by (simp add: sample_qos2_def v3_publish_body_def)
  have len: "pid_size TYPE(16) = 2" by (simp add: pid_size_def)
  show n: "length (v3_publish_body sample_qos2) = 5" by (simp add: body sample_publish_facts(1) len)
  show "v3_publish_inv sample_qos2"
    using sample_publish_facts(4) [of 7] by (simp add: v3_publish_inv_def n [unfolded body] body) (simp add: sample_qos2_def qos_bits_def sample_publish_def)
  show "v3_publish_qos sample_qos2 = Ret ExactlyOnce" by (simp add: sample_qos2_def v3_publish_qos_def) code_simp
  show "v3p_packet_id_buf sample_qos2 = Some 7" by (simp add: sample_qos2_def sample_publish_def)
  show "length (v3_publish_to_continuous_buffer sample_qos2) = 7"
    using sample_publish_facts(2) [of 7] len by (simp add: sample_qos2_def v3_publish_to_continuous_buffer_def pid_bytes_def sample_publish_def
        ms_to_continuous_buffer_def ms_as_bytes_def)
qed

theorem qos2_exchange_witness:
  "\<exists>(a :: 16 word connection) b es a0 es_a a' es_b b'. used_ids (cn_pid_man a) = {7}
    \<and> send (V3_Publish sample_qos2) a = Ret (es, a0) \<and> exchange 4 (requests es) (a0, b) = Ret ([], (es_a, a'), (es_b, b'))
    \<and> deliveries es_b = [V3_Publish sample_qos2, V3_Pubrel (plain_ack FH_Pubrel 7)]
    \<and> NotifyPacketIdReleased 7 \<in> set es_a \<and> used_ids (cn_pid_man a') = {}"
proof -
  obtain m0 m :: "16 word packet_id_manager" where m: "pim_new = Ret m0" "register_id m0 7 = Ret (Ok (), m)" "pim_inv m" "used_ids m = {7}"
  proof -
    obtain m0 :: "16 word packet_id_manager" where m0: "pim_new = Ret m0" "pim_inv m0" "used_ids m0 = {}" using pim_new_ok by blast
    show thesis using that [OF m0(1)] register_ok [OF m0(2), of 7] m0 by (auto simp: is_used_id_iff)
  qed
  obtain c :: "16 word connection" where c: "conn_inv Client V3_1_1 c" "cn_packet_builder c = pb_new" "cn_protocol_version c = V3_1_1"
    "cn_status c = Connected" "cn_auto_pub_response c" "unat (cn_maximum_packet_size_recv c) = 268435461"
    using sample_up [of V3_1_1] by blast
  define a where "a = c\<lparr>cn_pid_man := m, cn_store := store_new\<rparr>"
  define b where "b = c\<lparr>cn_role := Server, cn_qos2_publish_handled := {}\<rparr>"
  have w: "packet_id_width TYPE(16)" by (simp add: packet_id_width_def)
  have ab: "established a" "established b"
    using c m(3) by (simp_all add: established_def a_def b_def conn_inv_def tables_inv_def)
  have i: "(7 :: 16 word) \<noteq> 0" "7 \<in> used_ids (cn_pid_man a)" "store_lookup (cn_store a) 7 = None" "7 \<notin> cn_qos2_publish_handled b"
    by (simp_all add: a_def b_def m(4) store_lookup_def store_new_def)
  have "length (v3_publish_body sample_qos2) < 2097152" 
    "length (v3_publish_to_continuous_buffer sample_qos2) \<le> unat (cn_maximum_packet_size_recv b)"
    using c(6) by (simp_all add: sample_qos2_facts b_def)
  from qos2_exchange [OF w ab sample_qos2_facts(1-3) this i]
  obtain es a0 es_a a' es_b b' where "send (V3_Publish sample_qos2) a = Ret (es, a0)"
    "exchange 4 (requests es) (a0, b) = Ret ([], (es_a, a'), (es_b, b'))"
    "deliveries es_b = [V3_Publish sample_qos2, V3_Pubrel (plain_ack FH_Pubrel 7)]" "NotifyPacketIdReleased 7 \<in> set es_a"
    "used_ids (cn_pid_man a') = used_ids (cn_pid_man a) - {7}"
    by (elim exE conjE) (rule that; assumption)
  moreover have "used_ids (cn_pid_man a) = {7}" by (simp add: a_def m(4))
  ultimately show ?thesis
    by (intro exI [of _ a] exI [of _ b] exI [of _ es] exI [of _ a0] exI [of _ es_a] exI [of _ a'] exI [of _ es_b] exI [of _ b']) simp
qed

end
