(* ===== verification/Connection_Delivery.thy ===== *)
theory Connection_Delivery
  imports Connection_Exchange
begin

text \<open>
  Delivery of QoS 2 publishes of MQTT v3.1.1 over any run of a connection: the packets that are handed to
  the application tell, at every moment, which packet identifiers are marked as handled.
\<close>

section \<open>The handled identifiers as the application sees them\<close>

definition qos2_id :: "'p::len word packet \<Rightarrow> 'p word option" where
  "qos2_id p = (case p of V3_Publish k \<Rightarrow> if v3_publish_qos k = Ret ExactlyOnce then v3p_packet_id_buf k else None | _ \<Rightarrow> None)"

definition pubrel_id :: "'p::len word packet \<Rightarrow> 'p word option" where
  "pubrel_id p = (case p of V3_Pubrel k \<Rightarrow> Some (v3a_packet_id_buf k) | _ \<Rightarrow> None)"

text \<open>
  The identifiers that are handled after some deliveries: a QoS 2 publish adds its identifier, which must not be in the set, and
  a PUBREL takes it out.  No value: a publish was delivered twice.
\<close>

primrec handled_after :: "'p::len word packet list \<Rightarrow> 'p word set \<Rightarrow> 'p word set option" where
  "handled_after [] H = Some H"
| "handled_after (p # ps) H =
     (case qos2_id p of
        Some i \<Rightarrow> if i \<in> H then None else handled_after ps (insert i H)
      | None \<Rightarrow> (case pubrel_id p of Some i \<Rightarrow> handled_after ps (H - {i}) | None \<Rightarrow> handled_after ps H))"

lemma handled_after_append: "handled_after (ps @ qs) H = Option.bind (handled_after ps H) (handled_after qs)"
  by (induction ps arbitrary: H) (auto split: option.split)

text \<open>Without a PUBREL the identifiers stay, and one that is there is not delivered again.\<close>

lemma handled_after_keeps:
  "handled_after ps H = Some H' \<Longrightarrow> i \<in> H \<Longrightarrow> \<forall>p \<in> set ps. pubrel_id p \<noteq> Some i \<Longrightarrow>
   i \<in> H' \<and> (\<forall>p \<in> set ps. qos2_id p \<noteq> Some i)"
  by (induction ps arbitrary: H) (auto split: option.splits if_splits)

definition plain :: "'p::len word packet \<Rightarrow> bool" where
  "plain p \<longleftrightarrow> qos2_id p = None \<and> pubrel_id p = None"

lemma handled_after_plain: "\<forall>p \<in> set ps. plain p \<Longrightarrow> handled_after ps H = Some H"
  by (induction ps) (auto simp: plain_def)

lemma plain_simps [simp]:
  "plain (V3_Connect a)" "plain (V3_Connack b)" "plain (V3_Puback d)" "plain (V3_Pubrec d)" "plain (V3_Pubcomp d)"
  "plain (V3_Subscribe e)" "plain (V3_Suback f)" "plain (V3_Unsubscribe g)" "plain (V3_Unsuback h)"
  "plain (V3_Pingreq i)" "plain (V3_Pingresp i)" "plain (V3_Disconnect i)"
  by (simp_all add: plain_def qos2_id_def pubrel_id_def)

section \<open>The handlers\<close>

definition mirrors_qos2 :: "'p::len word connection \<Rightarrow> 'p word event list \<Rightarrow> 'p word connection \<Rightarrow> bool" where
  "mirrors_qos2 c es c' \<longleftrightarrow>
     handled_after (deliveries es) (cn_qos2_publish_handled c) = Some (cn_qos2_publish_handled c')"

named_theorems qos2_intros

lemma mirrors_append: "mirrors_qos2 c es c' \<Longrightarrow> mirrors_qos2 c' es' c'' \<Longrightarrow> mirrors_qos2 c (es @ es') c''"
  by (simp add: mirrors_qos2_def handled_after_append)

lemma qos2_seq [qos2_intros]: "obeys mirrors_qos2 h \<Longrightarrow> obeys mirrors_qos2 k \<Longrightarrow> obeys mirrors_qos2 (seq h k)"
  by (fastforce simp: obeys_def seq_def rbind_eq_Ret intro: mirrors_append)

lemma qos2_steps [qos2_intros]:
  "obeys mirrors_qos2 (steps [])" "obeys mirrors_qos2 h \<Longrightarrow> obeys mirrors_qos2 (steps hs) \<Longrightarrow> obeys mirrors_qos2 (steps (h # hs))"
  by (simp_all add: qos2_seq) (simp add: obeys_def emit_def mirrors_qos2_def)

lemma qos2_upd [qos2_intros]:
  "(\<And>c. cn_qos2_publish_handled (f c) = cn_qos2_publish_handled c) \<Longrightarrow>
   obeys mirrors_qos2 (upd f)"
  by (simp add: obeys_def upd_def mirrors_qos2_def)

lemma qos2_emit [qos2_intros]: "\<forall>p \<in> set (deliveries es). plain p \<Longrightarrow> obeys mirrors_qos2 (emit es)"
  by (simp add: obeys_def emit_def mirrors_qos2_def handled_after_plain)

lemma set_timer_qos2 [simp]: "cn_qos2_publish_handled (set_timer k b c) = cn_qos2_publish_handled c"
  by (cases k) simp_all

lemma qos2_timers [qos2_intros]:
  "obeys mirrors_qos2 (arm_timer k ms)" "obeys mirrors_qos2 (stop_timer k)" "obeys mirrors_qos2 (release_packet_id pid)"
  by (auto simp: arm_timer_def stop_timer_def obeys_def handler_defs mirrors_qos2_def dest!: release_packet_id_shape)

lemma qos2_unless [qos2_intros]: "obeys mirrors_qos2 h \<Longrightarrow> obeys mirrors_qos2 (unless P e h)"
  unfolding unless_def by (intro qos2_intros obeys_branch) simp_all

lemma qos2_shared [qos2_intros]:
  "obeys mirrors_qos2 cancel_timers" "obeys mirrors_qos2 refresh_pingreq_recv" "obeys mirrors_qos2 send_post_process"
  "obeys mirrors_qos2 (request_send p r)" "obeys mirrors_qos2 (reject_with_release e q)"
  "obeys mirrors_qos2 (await_response q2 pid)" "obeys mirrors_qos2 close_refused" "obeys mirrors_qos2 (upd clear_store_related)"
  unfolding cancel_timers_def refresh_pingreq_recv_def send_post_process_def request_send_def reject_with_release_def
    await_response_def close_refused_def
  by (intro qos2_intros obeys_intros; simp add: clear_store_related_def)+

lemma qos2_stores [qos2_intros]:
  "obeys mirrors_qos2 (store_or_panic p)" "obeys mirrors_qos2 (erase_stored r pid)"
  by (auto simp: store_or_panic_def erase_stored_def obeys_def rbind_eq_Ret mirrors_qos2_def)

lemma deliveries_resent: "list_all resend_event es \<Longrightarrow> deliveries es = []"
  by (induction es) (auto simp: deliveries_def split: event.splits)

lemma qos2_send_stored [qos2_intros]: "obeys mirrors_qos2 send_stored"
  using deliveries_resent send_stored_visits
  by (fastforce simp: obeys_def send_stored_def store_for_each_def rbind_eq_Ret mirrors_qos2_def)

lemma qos2_send_parts [qos2_intros]:
  "obeys mirrors_qos2 (send_if_connected p r)" "obeys mirrors_qos2 (send_when_connected p)" "obeys mirrors_qos2 (send_pubrel pid st p)"
  "(\<And>c. cn_qos2_publish_handled (f c) = cn_qos2_publish_handled c) \<Longrightarrow>
    obeys mirrors_qos2 (send_identified pid f p)"
  "obeys mirrors_qos2 (send_pingreq p)" "obeys mirrors_qos2 (send_disconnect p)" "obeys mirrors_qos2 (process_send_v5_disconnect d)"
  unfolding send_if_connected_def send_when_connected_def send_pubrel_def send_identified_def send_pingreq_def send_disconnect_def
    process_send_v5_disconnect_def
  by (intro qos2_intros obeys_intros; simp)+

lemma qos2_for_role [qos2_intros]: "obeys mirrors_qos2 h \<Longrightarrow> obeys mirrors_qos2 (for_role P h)"
  unfolding for_role_def by (intro qos2_intros)

lemmas v3_send_defs = process_send_v3_connect_def process_send_v3_connack_def process_send_v3_publish_def
  process_send_v3_puback_def process_send_v3_pubrec_def process_send_v3_pubrel_def process_send_v3_pubcomp_def
  process_send_v3_subscribe_def process_send_v3_unsubscribe_def process_send_v3_suback_def process_send_v3_unsuback_def
  process_send_v3_pingreq_def process_send_v3_pingresp_def process_send_v3_disconnect_def

lemma qos2_send_v3 [qos2_intros]:
  "obeys mirrors_qos2 (process_send_v3_connect a)" "obeys mirrors_qos2 (process_send_v3_connack b)"
  "obeys mirrors_qos2 (process_send_v3_publish d)" "obeys mirrors_qos2 (process_send_v3_puback e)"
  "obeys mirrors_qos2 (process_send_v3_pubrec e)" "obeys mirrors_qos2 (process_send_v3_pubrel e)"
  "obeys mirrors_qos2 (process_send_v3_pubcomp e)" "obeys mirrors_qos2 (process_send_v3_subscribe f)"
  "obeys mirrors_qos2 (process_send_v3_unsubscribe g)" "obeys mirrors_qos2 (process_send_v3_suback h)"
  "obeys mirrors_qos2 (process_send_v3_unsuback i)" "obeys mirrors_qos2 (process_send_v3_pingreq j)"
  "obeys mirrors_qos2 (process_send_v3_pingresp j)" "obeys mirrors_qos2 (process_send_v3_disconnect j)"
  unfolding v3_send_defs by (intro qos2_intros obeys_intros; simp add: initialize_def)+

lemma qos2_send:
  assumes "send packet c = Ret (es, c')" and "cn_protocol_version c = V3_1_1"
  shows "mirrors_qos2 c es c'"
proof (cases "gp_protocol_version packet = V3_1_1")
  case True
  have "obeys mirrors_qos2 (send packet)"
    using True unfolding send_def send_dispatch_def by (cases packet; simp; intro qos2_intros obeys_intros)
  from obeysD [OF this assms(1)] show ?thesis .
next
  case False
  then have "es = [NotifyError VersionMismatch]" "c' = c"
    using assms by (auto simp: send_def unless_def branch_def emit_def)
  then show ?thesis by (simp add: mirrors_qos2_def)
qed

section \<open>Receiving\<close>

lemma qos2_received [qos2_intros]:
  "(\<And>k. obeys mirrors_qos2 (h k)) \<Longrightarrow> (\<And>e. obeys mirrors_qos2 (err e)) \<Longrightarrow> obeys mirrors_qos2 (on_parse m h err)"
  "obeys mirrors_qos2 (handle_v3_error e)" "plain p \<Longrightarrow> obeys mirrors_qos2 (notify_received p)"
  unfolding on_parse_def handle_v3_error_def notify_received_def
  by (intro qos2_intros obeys_intros; simp)+

lemma qos2_answered [qos2_intros]:
  "plain p \<Longrightarrow> obeys mirrors_qos2 (v3_ack_received r pid p)"
  "plain p \<Longrightarrow> (\<And>e. obeys mirrors_qos2 (err e)) \<Longrightarrow> obeys mirrors_qos2 (suback_received pid p err)"
  "plain p \<Longrightarrow> (\<And>e. obeys mirrors_qos2 (err e)) \<Longrightarrow> obeys mirrors_qos2 (unsuback_received pid p err)"
  "plain p \<Longrightarrow> obeys mirrors_qos2 (pingresp_received p)"
  unfolding v3_ack_received_def suback_received_def unsuback_received_def pingresp_received_def
  by (intro qos2_intros obeys_intros; simp)+

text \<open>The two handlers that change the set.\<close>

lemma qos2_publish_received [qos2_intros]: "obeys mirrors_qos2 (v3_publish_received p)"
  unfolding obeys_def
proof (intro allI impI)
  fix c es c'
  assume run: "v3_publish_received p c = Ret (es, c')"
  then obtain q where q: "v3_publish_qos p = Ret q" by (auto simp: v3_publish_received_def calls_def rbind_eq_Ret)
  show "mirrors_qos2 c es c'"
  proof (cases "q = ExactlyOnce")
    case True
    obtain i where i: "v3p_packet_id_buf p = Some i"
      using run q True by (auto simp: v3_publish_received_def calls_def rbind_eq_Ret)
    have n: "qos2_id (V3_Publish p) = Some i" using q True i by (simp add: qos2_id_def)
    note d = v3_publish_received_twice [OF q [unfolded True] i run]
    then show ?thesis using d n by (auto simp: mirrors_qos2_def)
  next
    case False
    then have "plain (V3_Publish p)" using q by (simp add: plain_def qos2_id_def pubrel_id_def)
    have "obeys mirrors_qos2 (v3_publish_received p)"
      unfolding v3_publish_received_def
    proof (rule obeys_calls_Ret)
      fix x
      assume "v3_publish_qos p = Ret x"
      then have "x = AtMostOnce \<or> x = AtLeastOnce" using q False by (cases x) simp_all
      then show "obeys mirrors_qos2 (case x of
         AtMostOnce \<Rightarrow> notify_received (V3_Publish p)
       | AtLeastOnce \<Rightarrow> calls (unwrap (v3p_packet_id_buf p)) (\<lambda>pid. steps [
           branch (\<lambda>c. cn_status c = Connected \<and> cn_auto_pub_response c)
             (calls (v3_ack_for FH_Puback pid) process_send_v3_puback) (emit []),
           notify_received (V3_Publish p)])
       | ExactlyOnce \<Rightarrow> calls (unwrap (v3p_packet_id_buf p)) (\<lambda>pid.
           reads (\<lambda>c. pid \<in> cn_qos2_publish_handled c) (\<lambda>already_handled. steps [
             upd (\<lambda>c. c\<lparr>cn_qos2_publish_handled := insert pid (cn_qos2_publish_handled c)\<rparr>),
             branch (\<lambda>c. cn_status c = Connected \<and> (cn_auto_pub_response c \<or> already_handled))
               (calls (v3_ack_for FH_Pubrec pid) process_send_v3_pubrec) (emit []),
             refresh_pingreq_recv,
             (if \<not> already_handled then emit [NotifyPacketReceived (V3_Publish p)] else emit [])])))"
        using \<open>plain (V3_Publish p)\<close>
        by (elim disjE; simp del: steps.simps; intro qos2_intros obeys_intros; simp)
    qed
    from obeysD [OF this run] show ?thesis .
  qed
qed

lemma qos2_pubrel: "obeys mirrors_qos2 (process_recv_v3_pubrel raw)"
proof -
  have st: "obeys mirrors_qos2 (steps [upd (\<lambda>c. c\<lparr>cn_qos2_publish_handled := cn_qos2_publish_handled c - {v3a_packet_id_buf k}\<rparr>),
        branch (\<lambda>c. cn_auto_pub_response c \<and> cn_status c = Connected)
          (calls (v3_ack_for FH_Pubcomp (v3a_packet_id_buf k)) process_send_v3_pubcomp) (emit []),
        notify_received (V3_Pubrel k)])" (is "obeys _ (steps [?u, ?b, ?n])") for k :: "'a word v3_ack"
    unfolding obeys_def
  proof (intro allI impI)
    fix c :: "'a word connection" and es c'
    let ?c = "c\<lparr>cn_qos2_publish_handled := cn_qos2_publish_handled c - {v3a_packet_id_buf k}\<rparr>"
    assume "steps [?u, ?b, ?n] c = Ret (es, c')"
    then obtain es1 c1 es2 where a: "?b ?c = Ret (es1, c1)"
      and b: "refresh_pingreq_recv c1 = Ret (es2, c')" and es: "es = es1 @ es2 @ [NotifyPacketReceived (V3_Pubrel k)]"
      by (auto simp: notify_received_def seq_def upd_def emit_def rbind_eq_Ret)
    have "obeys answers ?b"
      unfolding process_send_v3_pubcomp_def
      by (intro obeys_branch obeys_calls answers_send) (simp add: obeys_def emit_def answers_def)
    from obeysD [OF this a] obeysD [OF answers_send(2) b] show "mirrors_qos2 c es c'"
      by (simp add: mirrors_qos2_def es answers_def qos2_id_def pubrel_id_def)
  qed
  show ?thesis
    unfolding process_recv_v3_pubrel_def Let_def by (intro qos2_received(1,2) st)
qed

lemmas [qos2_intros] = qos2_pubrel

lemma qos2_recv_v3 [qos2_intros]:
  "obeys mirrors_qos2 (process_recv_v3_connect raw)" "obeys mirrors_qos2 (process_recv_v3_connack raw)"
  "obeys mirrors_qos2 (process_recv_v3_publish raw)" "obeys mirrors_qos2 (process_recv_v3_puback raw)"
  "obeys mirrors_qos2 (process_recv_v3_pubrec raw)" "obeys mirrors_qos2 (process_recv_v3_pubcomp raw)"
  "obeys mirrors_qos2 (process_recv_v3_subscribe raw)" "obeys mirrors_qos2 (process_recv_v3_suback raw)"
  "obeys mirrors_qos2 (process_recv_v3_unsubscribe raw)" "obeys mirrors_qos2 (process_recv_v3_unsuback raw)"
  "obeys mirrors_qos2 (process_recv_v3_pingreq raw)" "obeys mirrors_qos2 (process_recv_v3_pingresp raw)"
  "obeys mirrors_qos2 (process_recv_v3_disconnect raw)"
  unfolding process_recv_v3_connect_def process_recv_v3_connack_def process_recv_v3_publish_def process_recv_v3_puback_def
    process_recv_v3_pubrec_def process_recv_v3_pubcomp_def process_recv_v3_subscribe_def process_recv_v3_suback_def
    process_recv_v3_unsubscribe_def process_recv_v3_unsuback_def process_recv_v3_pingreq_def process_recv_v3_pingresp_def
    process_recv_v3_disconnect_def resume_or_clear_def Let_def
  by (intro qos2_intros obeys_intros; simp add: initialize_def)+

lemma qos2_process:
  assumes "process_recv_packet raw c = Ret (es, c')" and "cn_protocol_version c = V3_1_1"
  shows "mirrors_qos2 c es c'"
proof -
  have d: "obeys mirrors_qos2 (dispatch_v3 t raw)" for t :: u8 and raw
    unfolding dispatch_v3_def by (intro qos2_intros obeys_intros; simp)
  have o: "obeys mirrors_qos2 (calls (rbind (rp_remaining_length raw) remaining_length_to_total_size) (\<lambda>total_size.
      branch (\<lambda>c. total_size > cn_maximum_packet_size_recv c)
       (calls (disconnect_with Disconnect_PacketTooLarge) (\<lambda>disconnect_packet.
          steps [process_send_v5_disconnect disconnect_packet, emit [NotifyError PacketTooLarge]]))
     (branch (\<lambda>c. \<not> can_receive (rp_packet_type raw) c) (emit [NotifyError ProtocolError])
      (dispatch_v3 (rp_packet_type raw) raw))))" (is "obeys _ ?h")
    by (intro d qos2_intros obeys_intros; simp)
  have "process_recv_packet raw c = ?h c"
    using assms(2) by (simp add: process_recv_packet_def calls_def branch_def reads_def Let_def cong: if_cong)
  then have "?h c = Ret (es, c')" using assms(1) by simp
  from obeysD [OF o this] show ?thesis .
qed

lemma qos2_recv:
  assumes "recv data c = Ret (es, c', data')" and "cn_protocol_version c = V3_1_1"
  shows "mirrors_qos2 c es c'"
proof -
  obtain res pb where h: "(case res of Complete raw_packet \<Rightarrow> process_recv_packet raw_packet | Incomplete \<Rightarrow> emit []
      | Build_Error e \<Rightarrow> steps [cancel_timers, emit [RequestClose, NotifyError e]]) (c\<lparr>cn_packet_builder := pb\<rparr>) = Ret (es, c')"
    using assms(1) by (auto simp: recv_def rbind_eq_Ret)
  have e: "obeys mirrors_qos2 (steps [cancel_timers, emit [RequestClose, NotifyError e]])" "obeys mirrors_qos2 (emit [])" for e
    by (intro qos2_intros; simp)+
  have "mirrors_qos2 (c\<lparr>cn_packet_builder := pb\<rparr>) es c'"
    using h qos2_process assms(2) obeysD [OF e(1)] obeysD [OF e(2)] by (cases res) fastforce+
  then show ?thesis by (simp add: mirrors_qos2_def)
qed

lemma qos2_timer_fired:
  assumes "notify_timer_fired k c = Ret (es, c')" and "cn_protocol_version c = V3_1_1"
  shows "mirrors_qos2 c es c'"
proof -
  let ?h = "steps (case k of
      PingreqSend \<Rightarrow> [upd (set_timer k False), branch (\<lambda>c. cn_status c = Connected) (calls v3_pingreq_new process_send_v3_pingreq) (emit [])]
    | _ \<Rightarrow> [upd (set_timer k False), emit [RequestClose]]) :: 'a word handler"
  have "notify_timer_fired k c = ?h c"
    using assms(2) by (cases k)
      (simp_all add: notify_timer_fired_def keep_alive_timeout_def reads_def seq_def upd_def branch_def cong: if_cong)
  moreover have "obeys mirrors_qos2 ?h" by (cases k; simp del: steps.simps; intro qos2_intros obeys_intros; simp)
  ultimately show ?thesis using assms(1) obeysD by metis
qed

text \<open>The version of a connection does not change any more.\<close>

definition keeps_version :: "'p::len word connection \<Rightarrow> 'p word event list \<Rightarrow> 'p word connection \<Rightarrow> bool" where
  "keeps_version c es c' \<longleftrightarrow> cn_protocol_version c = Undetermined \<or> cn_protocol_version c' = cn_protocol_version c"

interpretation version: byte_relation keeps_version
  by unfold_locales
     (auto simp: keeps_version_def neutral_update_def obeys_def release_packet_id_def clear_store_related_def
        send_stored_def rbind_eq_Ret split: if_splits)

section \<open>Runs\<close>

text \<open>
  What an application does while a session lasts: any call but \<open>notify_closed\<close> and the setter that restores the
  handled identifiers.
\<close>

definition in_session :: "'p::len word call \<Rightarrow> 'p word connection \<Rightarrow> 'p word connection \<Rightarrow> bool" where
  "in_session call c c' \<longleftrightarrow> call \<noteq> Call_Closed
     \<and> (call = Call_Setting \<longrightarrow> cn_qos2_publish_handled c' = cn_qos2_publish_handled c)"

inductive session_run :: "'p::len word connection \<Rightarrow> 'p word event list \<Rightarrow> 'p word connection \<Rightarrow> bool" where
  session_run_refl: "session_run c [] c"
| session_run_step: "session_run c es c' \<Longrightarrow> api_step c' call es' c'' \<Longrightarrow> in_session call c' c'' \<Longrightarrow>
    session_run c (es @ es') c''"

lemma restore_registered_qos2:
  assumes "restore_registered pid packet c = Ret c'"
  shows "cn_qos2_publish_handled c' = cn_qos2_publish_handled c \<and> cn_protocol_version c' = cn_protocol_version c"
proof -
  obtain u m where "register_id (cn_pid_man c) pid = Ret (u, m)" using assms by (auto simp: restore_registered_def rbind_eq_Ret)
  then show ?thesis using assms by (cases u) (auto simp: restore_registered_def Let_def rbind_eq_Ret)
qed

lemma restore_publish_qos2:
  assumes "restore_publish q pid packet c = Ret c'"
  shows "cn_qos2_publish_handled c' = cn_qos2_publish_handled c \<and> cn_protocol_version c' = cn_protocol_version c"
proof -
  obtain x where q: "q = Ret x" using assms by (auto simp: restore_publish_def rbind_eq_Ret)
  have "cn_qos2_publish_handled c' = cn_qos2_publish_handled c \<and> cn_protocol_version c' = cn_protocol_version c"
    if "restore_registered i packet (c\<lparr>cn_pid_puback := A\<rparr>) = Ret c' \<or> restore_registered i packet (c\<lparr>cn_pid_pubrec := A\<rparr>) = Ret c'" for i A
    using that restore_registered_qos2 by fastforce
  then show ?thesis using assms q by (cases x) (auto simp: restore_publish_def rbind_eq_Ret)
qed

lemma restore_packet_qos2:
  assumes "restore_packet packet c = Ret c'"
  shows "cn_qos2_publish_handled c' = cn_qos2_publish_handled c \<and> cn_protocol_version c' = cn_protocol_version c"
  using assms restore_publish_qos2 restore_registered_qos2 [of _ _ "c\<lparr>cn_pid_pubcomp := _\<rparr>"]
  by (cases packet) (simp_all add: restore_packet_def, (blast | fastforce)+)

lemma restore_packets_qos2:
  "restore_packets ps c = Ret c' \<Longrightarrow>
   cn_qos2_publish_handled c' = cn_qos2_publish_handled c \<and> cn_protocol_version c' = cn_protocol_version c"
proof (induction ps arbitrary: c)
  case (Cons p ps)
  then show ?case using restore_packet_qos2 [of p c] by (fastforce simp: rbind_eq_Ret)
qed simp

lemma qos2_step:
  assumes "api_step c call es c'" and "in_session call c c'" and v: "cn_protocol_version c = V3_1_1"
  shows "mirrors_qos2 c es c' \<and> cn_protocol_version c' = V3_1_1"
  using assms(1)
proof (cases rule: api_step.cases)
  case 1
  then show ?thesis using qos2_send [OF _ v] obeysD [OF version.send] v by (fastforce simp: keeps_version_def)
next
  case 2
  then show ?thesis using qos2_recv [OF _ v] version.recv v by (fastforce simp: keeps_version_def)
next
  case 3
  then show ?thesis using qos2_timer_fired [OF _ v] version.timer_fired v by (fastforce simp: keeps_version_def)
next
  case 4
  then show ?thesis using assms(2) by (simp add: in_session_def)
next
  case 5
  have "obeys mirrors_qos2 (set_pingreq_send_interval k)" for k
    unfolding set_pingreq_send_interval_def by (intro qos2_intros obeys_intros; simp)
  from obeysD [OF this] obeysD [OF version.shared(4)] show ?thesis
    using 5 v by (fastforce simp: keeps_version_def)
next
  case 6
  then show ?thesis using assms(2) v by (auto simp: in_session_def mirrors_qos2_def dest!: setting_neutral simp: neutral_update_def)
next
  case 7
  then show ?thesis using v by (auto simp: acquire_packet_id_def mirrors_qos2_def rbind_eq_Ret)
next
  case 8
  then show ?thesis using v by (auto simp: register_packet_id_def mirrors_qos2_def rbind_eq_Ret)
next
  case 9
  then show ?thesis using v qos2_timers(3) by (fastforce simp: mirrors_qos2_def dest: obeysD release_packet_id_shape)
next
  case 10
  then show ?thesis using v restore_packets_qos2 by (fastforce simp: mirrors_qos2_def)
qed

lemma session_run_mirrors:
  "session_run c es c' \<Longrightarrow> cn_protocol_version c = V3_1_1 \<Longrightarrow> mirrors_qos2 c es c' \<and> cn_protocol_version c' = V3_1_1"
proof (induction rule: session_run.induct)
  case (session_run_step c es c' call es' c'')
  then show ?case using qos2_step mirrors_append by blast
qed (simp add: mirrors_qos2_def)

section \<open>Deliveries\<close>

text \<open>
  C14: in a session of MQTT v3.1.1 a QoS 2 publish is delivered once for every PUBREL of its packet identifier.  For
  any run of the connection, which may send, receive, let timers fire, and take, release or restore identifiers and packets, but
  not close the connection or restore the handled identifiers: the identifiers marked as handled are those that the packets notified to the
  application tell, a QoS 2 PUBLISH marking its own, which was not marked, and a PUBREL unmarking it.  So between two QoS 2 publishes of one
  identifier that are delivered a PUBREL of it is delivered, and before one whose identifier was marked at the start as well.  The next
  QoS 2 publish that is handled is delivered exactly if its identifier is not marked.
\<close>

theorem v3_qos2_delivered_once:
  fixes c c' :: "'p::len word connection" and i :: "'p word"
  assumes run: "session_run c es c'" and version: "cn_protocol_version c = V3_1_1"
  shows "handled_after (deliveries es) (cn_qos2_publish_handled c) = Some (cn_qos2_publish_handled c')
    \<and> (\<forall>ps p qs p' rs. deliveries es = ps @ p # qs @ p' # rs \<longrightarrow> qos2_id p = Some i \<longrightarrow> qos2_id p' = Some i \<longrightarrow>
         (\<exists>q \<in> set qs. pubrel_id q = Some i))
    \<and> (\<forall>ps p rs. deliveries es = ps @ p # rs \<longrightarrow> qos2_id p = Some i \<longrightarrow> i \<in> cn_qos2_publish_handled c \<longrightarrow>
         (\<exists>q \<in> set ps. pubrel_id q = Some i))
    \<and> (\<forall>p es' c''. v3_publish_received p c' = Ret (es', c'') \<longrightarrow> qos2_id (V3_Publish p) = Some i \<longrightarrow>
         deliveries es' = (if i \<in> cn_qos2_publish_handled c' then [] else [V3_Publish p]))"
proof -
  have m: "handled_after (deliveries es) (cn_qos2_publish_handled c) = Some (cn_qos2_publish_handled c')"
    using session_run_mirrors [OF run version] by (simp add: mirrors_qos2_def)
  have twice: "\<exists>q \<in> set qs. pubrel_id q = Some i"
    if "handled_after (qs @ p' # rs) H = Some H'" and "i \<in> H" and "qos2_id p' = Some i" for qs p' rs H H'
    using that handled_after_keeps [of qs H _ i] by (auto simp: handled_after_append bind_eq_Some_conv split: if_splits)
  have "\<exists>q \<in> set qs. pubrel_id q = Some i"
    if "deliveries es = ps @ p # qs @ p' # rs" and "qos2_id p = Some i" and "qos2_id p' = Some i" for ps p qs p' rs
    using m that by (auto simp: handled_after_append [of ps] bind_eq_Some_conv split: if_splits dest!: twice)
  moreover have "\<exists>q \<in> set ps. pubrel_id q = Some i"
    if "deliveries es = ps @ p # rs" and "qos2_id p = Some i" and "i \<in> cn_qos2_publish_handled c" for ps p rs
    using m that twice by simp
  moreover have "deliveries es' = (if i \<in> cn_qos2_publish_handled c' then [] else [V3_Publish p])"
    if "v3_publish_received p c' = Ret (es', c'')" and "qos2_id (V3_Publish p) = Some i" for p es' c''
    using that v3_publish_received_twice(1) [of p i] by (auto simp: qos2_id_def split: if_splits)
  ultimately show ?thesis using m by blast
qed

text \<open>A publish is received, released and received again: it is delivered twice.\<close>

lemma session_run_recv:
  assumes "session_run c es c'"
    and "rbind (recv data c') (\<lambda>(es, c', _). Ret (es, c')) = Ret (es', c'')"
  shows "session_run c (es @ es') c''"
  using assms by (auto simp: rbind_eq_Ret in_session_def intro!: session_run_step api_step.intros(2))

theorem v3_qos2_delivered_once_witness:
  "\<exists>(c :: 16 word connection) es c' rel. session_run c es c' \<and> cn_protocol_version c = V3_1_1
    \<and> deliveries es = [V3_Publish sample_qos2, V3_Pubrel rel, V3_Publish sample_qos2]
    \<and> pubrel_id (V3_Pubrel rel) = Some 7 \<and> qos2_id (V3_Publish sample_qos2) = Some 7 \<and> cn_qos2_publish_handled c' = {7}"
proof -
  obtain c0 :: "16 word connection" where c0: "conn_inv Client V3_1_1 c0" "cn_packet_builder c0 = pb_new" "cn_protocol_version c0 = V3_1_1"
    "cn_status c0 = Connected" "cn_auto_pub_response c0" "unat (cn_maximum_packet_size_recv c0) = 268435461"
    using sample_up [of V3_1_1] by blast
  define c where "c = c0\<lparr>cn_qos2_publish_handled := {}\<rparr>"
  have w: "packet_id_width TYPE(16)" by (simp add: packet_id_width_def)
  have e: "established c" using c0 by (simp add: established_def c_def conn_inv_def tables_inv_def)
  have i: "(7 :: 16 word) \<noteq> 0" by simp
  have len: "length (v3_publish_body sample_qos2) < 2097152" by (simp add: sample_qos2_facts)
  have room: "length (v3_publish_to_continuous_buffer sample_qos2) \<le> 268435461" by (simp add: sample_qos2_facts)
  note turn = publish_turn [OF w sample_qos2_facts(1-3) len _ i]
  obtain es1 t1 t1' where s1: "rbind (recv (cursor_new (v3_publish_to_continuous_buffer sample_qos2)) c) (\<lambda>(es, c', _). Ret (es, c')) =
      Ret (es1, c\<lparr>cn_qos2_publish_handled := {7}, cn_pingreq_send_set := t1, cn_pingreq_recv_set := t1'\<rparr>)" (is "_ = Ret (es1, ?c1)")
    and d1: "deliveries es1 = [V3_Publish sample_qos2]"
    using turn [OF _ e] room c0(6) by (auto simp: c_def)
  have e1: "established ?c1" using e by (simp add: established_def)
  obtain es2 t2 t2' where s2: "rbind (recv (cursor_new (v3_ack_to_continuous_buffer (plain_ack FH_Pubrel 7 :: 16 word v3_ack))) ?c1) (\<lambda>(es, c', _). Ret (es, c')) =
      Ret (es2, ?c1\<lparr>cn_qos2_publish_handled := {}, cn_pingreq_send_set := t2, cn_pingreq_recv_set := t2'\<rparr>)" (is "_ = Ret (es2, ?c2)")
    and d2: "deliveries es2 = [V3_Pubrel (plain_ack FH_Pubrel 7)]"
    using pubrel_turn [OF w i e1] by auto
  have e2: "established ?c2" using e by (simp add: established_def)
  obtain es3 c3 where s3: "rbind (recv (cursor_new (v3_publish_to_continuous_buffer sample_qos2)) ?c2) (\<lambda>(es, c', _). Ret (es, c')) = Ret (es3, c3)"
    and d3: "deliveries es3 = [V3_Publish sample_qos2]"
    using turn [OF _ e2] room c0(6) by (auto simp: c_def)
  have run: "session_run c (es1 @ es2 @ es3) c3"
    using session_run_recv [OF session_run_recv [OF session_run_recv [OF session_run_refl s1] s2] s3] by simp
  have v: "cn_protocol_version c = V3_1_1" using e by (simp add: established_def)
  have q: "qos2_id (V3_Publish sample_qos2) = Some 7" using sample_qos2_facts(2,3) by (simp add: qos2_id_def)
  have r: "pubrel_id (V3_Pubrel (plain_ack FH_Pubrel 7 :: 16 word v3_ack)) = Some 7"
    "qos2_id (V3_Pubrel (plain_ack FH_Pubrel 7 :: 16 word v3_ack)) = None"
    by (simp_all add: pubrel_id_def plain_ack_def qos2_id_def)
  have "cn_qos2_publish_handled c3 = {7}"
    using conjunct1 [OF v3_qos2_delivered_once [OF run v, of 7]] q r by (simp add: d1 d2 d3 c_def)
  then show ?thesis using run v q r
    by (intro exI [of _ c] exI [of _ "es1 @ es2 @ es3"] exI [of _ c3] exI [of _ "plain_ack FH_Pubrel 7"]) (simp add: d1 d2 d3)
qed

end
