(* ===== verification/Parsers_V50.thy ===== *)
theory Parsers_V50
  imports Subscription_V50 Publish_V50 Connect_V50
begin

text \<open>
  The parsers of MQTT v5.0 together: the contracts of SUBSCRIBE, UNSUBSCRIBE and their answers
  as instances of the shared one, and the absence of panics of all the parsers, of both versions, on arbitrary bytes.
\<close>

lemma v5_subscribe_wire:
  assumes "packet_id_width TYPE('p::len)"
  shows "packet_wire (v5_entries_inv FH_Subscribe validate_subscribe_properties sub_entry_inv sub_entry_to_continuous_buffer)
    v5s_fixed_header (v5_entries_body sub_entry_to_continuous_buffer)
    (v5_entries_to_continuous_buffer sub_entry_to_continuous_buffer) v5_entries_size
    (v5_subscribe_parse :: ('p word, sub_entry) v5_entries_packet parser)"
  unfolding v5_subscribe_parse_eq
  by (rule v5_entries_wire [OF assms])
    (auto simp: sub_entries.loop_enc sub_entry_size_eq dest: sub_entries.loop_sound simp del: length_concat simp: sub_entries.loop_len)

lemma v5_unsubscribe_wire:
  assumes "packet_id_width TYPE('p::len)"
  shows "packet_wire (v5_entries_inv FH_Unsubscribe validate_unsubscribe_properties ms_inv ms_to_continuous_buffer)
    v5s_fixed_header (v5_entries_body ms_to_continuous_buffer)
    (v5_entries_to_continuous_buffer ms_to_continuous_buffer) v5_entries_size
    (v5_unsubscribe_parse :: ('p word, mqtt_string) v5_entries_packet parser)"
  unfolding v5_unsubscribe_parse_eq
  by (rule v5_entries_wire [OF assms])
    (auto simp: string_entries.loop_enc dest: string_entries.loop_sound simp del: length_concat simp: string_entries.loop_len)

lemma v5_suback_wire:
  assumes "packet_id_width TYPE('p::len)"
  shows "packet_wire (v5_entries_inv FH_Suback validate_suback_properties (\<lambda>b. suback_reason_code_try_from b \<noteq> None) (\<lambda>b. [b]))
    v5s_fixed_header (v5_entries_body (\<lambda>b. [b])) (v5_entries_to_continuous_buffer (\<lambda>b. [b])) v5_entries_size
    (v5_suback_parse :: ('p word, u8) v5_entries_packet parser)"
  unfolding v5_suback_parse_eq
  by (rule v5_entries_wire [OF assms])
    (auto simp: reason_codes.loop_enc dest: reason_codes.loop_sound reason_codes.loop_len)

lemma v5_unsuback_wire:
  assumes "packet_id_width TYPE('p::len)"
  shows "packet_wire (v5_entries_inv FH_Unsuback validate_unsuback_properties (\<lambda>b. unsuback_reason_code_try_from b \<noteq> None) (\<lambda>b. [b]))
    v5s_fixed_header (v5_entries_body (\<lambda>b. [b])) (v5_entries_to_continuous_buffer (\<lambda>b. [b])) v5_entries_size
    (v5_unsuback_parse :: ('p word, u8) v5_entries_packet parser)"
  unfolding v5_unsuback_parse_eq
  by (rule v5_entries_wire [OF assms])
    (auto simp: reason_codes.loop_enc dest: reason_codes.loop_sound reason_codes.loop_len)

section \<open>Consumed bytes\<close>

text \<open>The six types whose parser keeps the number of bytes it read: that number is within the body as well.\<close>

lemma v5_connack_consumed: "v5_connack_parse flags bs = Ret (Ok (k, n)) \<Longrightarrow> n \<le> length bs"
  by (auto simp: v5_connack_parse_eq Let_def tbind_eq_Ok rbind_eq_Ret split: if_splits dest!: properties_parse_OkD)

lemma v5_entries_consumed:
  fixes loop :: "bytes \<Rightarrow> nat \<Rightarrow> 'e list \<Rightarrow> ('e list \<times> nat, mqtt_error) result"
  assumes "v5_entries_parse fh val (returning loop) sz flags bs = Ret (Ok (k :: ('p::len word, 'e) v5_entries_packet, n))"
    and snd: "\<And>data c xs n. loop data c [] = Ok (xs, n) \<Longrightarrow> c \<le> length data \<Longrightarrow> n = length data"
  shows "n \<le> length bs"
proof -
  from assms(1) obtain ps c es where len: "\<not> length bs < pid_size TYPE('p)"
    and p: "properties_parse (drop (pid_size TYPE('p)) bs) = Ok (ps, c)" and l: "loop bs (pid_size TYPE('p) + c) [] = Ok (es, n)"
    by (auto simp: v5_entries_parse_eq Let_def tbind_eq_Ok rbind_eq_Ret split: if_splits)
  have "pid_size TYPE('p) + c \<le> length bs" using properties_parse_OkD [OF p] len by auto
  then show ?thesis using snd [OF l] by simp
qed

lemma v5_subscription_consumed:
  "v5_subscribe_parse flags bs = Ret (Ok (s, n)) \<Longrightarrow> n \<le> length bs"
  "v5_unsubscribe_parse flags bs = Ret (Ok (u, n)) \<Longrightarrow> n \<le> length bs"
  "v5_suback_parse flags bs = Ret (Ok (a, n)) \<Longrightarrow> n \<le> length bs"
  "v5_unsuback_parse flags bs = Ret (Ok (b, n)) \<Longrightarrow> n \<le> length bs"
  unfolding v5_subscribe_parse_eq v5_unsubscribe_parse_eq v5_suback_parse_eq v5_unsuback_parse_eq
  by (auto elim!: v5_entries_consumed dest: sub_entries.loop_sound string_entries.loop_sound reason_codes.loop_sound)

lemma props_validated_consumed:
  "field_if f (props_validated val) d data c = Ok (ps, c') \<Longrightarrow> c \<le> length data \<Longrightarrow> c' \<le> length data"
  by (auto simp: field_if_def props_validated_def res_bind_eq_Ok split: if_splits dest!: properties_parse_OkD)

lemma v5_connect_consumed:
  assumes "v5_connect_parse flags bs = Ret (Ok (k, n))"
  shows "n \<le> length bs"
proof -
  let ?w = "cf_will (bs ! 7)" and ?u = "cf_user_name (bs ! 7)" and ?p = "cf_password (bs ! 7)"
  from assms obtain ps c0 cid c1 wps cw wt c2 wp c3 un c4 pw where "10 \<le> length bs"
    and fp: "field_if True (props_validated validate_connect_properties) [] bs 10 = Ok (ps, c0)"
    and f1: "field_if True (or_err ms_decode ClientIdentifierNotValid) ms_default bs c0 = Ok (cid, c1)"
    and fw: "field_if ?w (props_validated validate_will_properties) [] bs c1 = Ok (wps, cw)"
    and f2: "field_if ?w ms_decode ms_default bs cw = Ok (wt, c2)"
    and f3: "field_if ?w mb_decode mb_default bs c2 = Ok (wp, c3)"
    and f4: "field_if ?u (or_err ms_decode BadUserNameOrPassword) ms_default bs c3 = Ok (un, c4)"
    and f5: "field_if ?p (or_err mb_decode BadUserNameOrPassword) mb_default bs c4 = Ok (pw, n)"
    by (simp add: v5_connect_parse_eq Let_def tbind_eq_Ok rbind_eq_Ret not_less split: if_splits) blast
  then have "c0 \<le> length bs" using props_validated_consumed by blast
  then have "c1 \<le> length bs" using ms_or_err.field_OkD [OF f1] by blast
  then have "cw \<le> length bs" using props_validated_consumed [OF fw] by blast
  then have "c2 \<le> length bs" using ms_strict.field_OkD [OF f2] by blast
  then have "c3 \<le> length bs" using mb_strict.field_OkD [OF f3] by blast
  then have "c4 \<le> length bs" using ms_or_err.field_OkD [OF f4] by blast
  then show ?thesis using mb_or_err.field_OkD [OF f5] by blast
qed

lemma wire_safe:
  assumes "packet_wire ok hdr body buf sz parse" and "length bs < 268435456" and "\<And>k n. parse flags bs = Ret (Ok (k, n)) \<Longrightarrow> n \<le> length bs"
  shows "parses_safely parse (\<lambda>_. True) flags bs"
  using packet_wire.parse_returns [OF assms(1,2), of flags] assms(3) by (fastforce simp: parses_safely_def)

lemma v5_pings: "v5_pingreq_parse = v3_pingreq_parse" "v5_pingresp_parse = v3_pingresp_parse"
  by (simp_all add: v5_pingreq_parse_def v5_pingresp_parse_def v3_pingreq_parse_def v3_pingresp_parse_def)

section \<open>Properties\<close>

text \<open>
  C37: no bytes make a parser of MQTT v3.1.1 panic.  Every index into the received bytes, every slice of them and every subtraction
  of a cursor is a panic of the model when it is out of range, so are the unwraps of a remaining length.  For every flags nibble and
  every body that a packet can carry (shorter than \<open>2^28\<close> bytes) each of the fourteen parsers returns an error, or a packet that is well
  formed together with a count of bytes that is within the body.
\<close>

theorem v3_parsers_never_panic:
  assumes "packet_id_width TYPE('p::len)" and "length bs < 268435456"
  shows "parses_safely v3_connect_parse v3_connect_inv flags bs
    \<and> parses_safely v3_connack_parse v3_connack_inv flags bs
    \<and> parses_safely (v3_publish_parse :: 'p word v3_publish parser) v3_publish_inv flags bs
    \<and> parses_safely (v3_puback_parse :: 'p word v3_ack parser) (v3_ack_inv FH_Puback (\<lambda>b. puback_reason_code_try_from b \<noteq> None)) flags bs
    \<and> parses_safely (v3_pubrec_parse :: 'p word v3_ack parser) (v3_ack_inv FH_Pubrec (\<lambda>b. pubrec_reason_code_try_from b \<noteq> None)) flags bs
    \<and> parses_safely (v3_pubrel_parse :: 'p word v3_ack parser) (v3_ack_inv FH_Pubrel (\<lambda>b. pubrel_reason_code_try_from b \<noteq> None)) flags bs
    \<and> parses_safely (v3_pubcomp_parse :: 'p word v3_ack parser) (v3_ack_inv FH_Pubcomp (\<lambda>b. pubcomp_reason_code_try_from b \<noteq> None)) flags bs
    \<and> parses_safely (v3_subscribe_parse :: ('p word, sub_entry) v3_entries_packet parser)
        (v3_entries_inv FH_Subscribe sub_entry_inv sub_entry_to_continuous_buffer) flags bs
    \<and> parses_safely (v3_suback_parse :: ('p word, u8) v3_entries_packet parser) (v3_entries_inv FH_Suback return_code_ok (\<lambda>b. [b])) flags bs
    \<and> parses_safely (v3_unsubscribe_parse :: ('p word, mqtt_string) v3_entries_packet parser)
        (v3_entries_inv FH_Unsubscribe ms_inv ms_to_continuous_buffer) flags bs
    \<and> parses_safely (v3_unsuback_parse :: 'p word v3_unsuback parser) v3_unsuback_inv flags bs
    \<and> parses_safely v3_pingreq_parse (v3_empty_inv FH_Pingreq) flags bs
    \<and> parses_safely v3_pingresp_parse (v3_empty_inv FH_Pingresp) flags bs
    \<and> parses_safely v3_disconnect_parse (v3_empty_inv FH_Disconnect) flags bs"
  unfolding v3_puback_parse_def v3_pubrec_parse_def v3_pubrel_parse_def v3_pubcomp_parse_def
  using assms
  by (intro conjI v3_connect.parse_safe v3_connack.parse_safe v3_pingreq.parse_safe v3_pingresp.parse_safe v3_disconnect.parse_safe
      packet_codec.parse_safe [OF v3_publish_codec] packet_codec.parse_safe [OF v3_ack_codec] packet_codec.parse_safe [OF v3_subscribe_codec]
      packet_codec.parse_safe [OF v3_suback_codec] packet_codec.parse_safe [OF v3_unsubscribe_codec]
      packet_codec.parse_safe [OF v3_unsuback_codec])

theorem v3_parsers_never_panic_witness:
  "parses_safely (v3_publish_parse :: 32 word v3_publish parser) v3_publish_inv 6 [0, 1]
   \<and> parses_safely v3_connack_parse v3_connack_inv 0 [1]"
  using v3_parsers_never_panic [where 'p = 32, of "[0, 1]" 6] v3_parsers_never_panic [where 'p = 32, of "[1]" 0]
  by (simp add: packet_id_width_def)

text \<open>
  C21: no bytes make a parser of MQTT v5.0 panic, with the same panics: an index or a slice out of the received bytes, a
  subtraction of a cursor below zero, the unwrap of a length too large.  For every flags nibble and every body shorter than
  \<open>2^28\<close> bytes each of the fifteen parsers returns an error, or a packet with a count of bytes that is within the body; for PUBLISH,
  its four acknowledgements, PINGREQ, PINGRESP, DISCONNECT and AUTH the packet is well formed.
\<close>

theorem v5_parsers_never_panic:
  assumes "packet_id_width TYPE('p::len)" and "length bs < 268435456"
  shows "parses_safely v5_connect_parse (\<lambda>_. True) flags bs
    \<and> parses_safely v5_connack_parse (\<lambda>_. True) flags bs
    \<and> parses_safely (v5_publish_parse :: 'p word v5_publish parser) v5_publish_inv flags bs
    \<and> parses_safely (v5_puback_parse :: 'p word v5_ack parser)
        (v5_ack_inv FH_Puback (\<lambda>b. puback_reason_code_try_from b \<noteq> None) validate_puback_properties) flags bs
    \<and> parses_safely (v5_pubrec_parse :: 'p word v5_ack parser)
        (v5_ack_inv FH_Pubrec (\<lambda>b. pubrec_reason_code_try_from b \<noteq> None) validate_pubrec_properties) flags bs
    \<and> parses_safely (v5_pubrel_parse :: 'p word v5_ack parser)
        (v5_ack_inv FH_Pubrel (\<lambda>b. pubrel_reason_code_try_from b \<noteq> None) validate_pubrel_properties) flags bs
    \<and> parses_safely (v5_pubcomp_parse :: 'p word v5_ack parser)
        (v5_ack_inv FH_Pubcomp (\<lambda>b. pubcomp_reason_code_try_from b \<noteq> None) validate_pubcomp_properties) flags bs
    \<and> parses_safely (v5_subscribe_parse :: ('p word, sub_entry) v5_entries_packet parser) (\<lambda>_. True) flags bs
    \<and> parses_safely (v5_suback_parse :: ('p word, u8) v5_entries_packet parser) (\<lambda>_. True) flags bs
    \<and> parses_safely (v5_unsubscribe_parse :: ('p word, mqtt_string) v5_entries_packet parser) (\<lambda>_. True) flags bs
    \<and> parses_safely (v5_unsuback_parse :: ('p word, u8) v5_entries_packet parser) (\<lambda>_. True) flags bs
    \<and> parses_safely v5_pingreq_parse (v3_empty_inv FH_Pingreq) flags bs
    \<and> parses_safely v5_pingresp_parse (v3_empty_inv FH_Pingresp) flags bs
    \<and> parses_safely v5_disconnect_parse v5_disconnect_inv flags bs
    \<and> parses_safely v5_auth_parse v5_auth_inv flags bs"
  unfolding v5_puback_parse_def v5_pubrec_parse_def v5_pubrel_parse_def v5_pubcomp_parse_def v5_pings
  using assms
  by (intro conjI wire_safe [OF v5_connect.packet_wire_axioms] wire_safe [OF v5_connack.packet_wire_axioms]
      packet_codec.parse_safe [OF v5_publish_codec] packet_codec.parse_safe [OF v5_ack_codec]
      wire_safe [OF v5_subscribe_wire] wire_safe [OF v5_suback_wire] wire_safe [OF v5_unsubscribe_wire] wire_safe [OF v5_unsuback_wire]
      v3_pingreq.parse_safe v3_pingresp.parse_safe v5_disconnect.parse_safe v5_auth.parse_safe
      v5_connect_consumed v5_connack_consumed v5_subscription_consumed)

theorem v5_parsers_never_panic_witness:
  "parses_safely v5_connect_parse (\<lambda>_. True) 0 [0, 4, 0x4D, 0x51, 0xFF]
   \<and> parses_safely (v5_publish_parse :: 16 word v5_publish parser) v5_publish_inv 6 [0xFF, 0xFF, 0x80]"
  using v5_parsers_never_panic [where 'p = 16, of "[0, 4, 0x4D, 0x51, 0xFF]" 0] v5_parsers_never_panic [where 'p = 16, of "[0xFF, 0xFF, 0x80]" 6]
  by (simp add: packet_id_width_def)

end
