(* ===== verification/Arc_Payload.thy ===== *)
theory Arc_Payload
  imports Mqtt_String
begin

text \<open>
  \<^verbatim>\<open>src/mqtt/common/arc_payload.rs\<close>: the payload of a publish, either a range of a shared buffer
  (\<open>Arc<[u8]>\<close>) or, with one of the small-buffer features, an inline array.  The packets of this
  development hold the bytes of a payload; the theorem of this theory says why that is enough: every
  constructor, for every feature, denotes those bytes.
\<close>

section \<open>The representation\<close>

text \<open>The features that select the inline buffer.\<close>

record sso_features =
  sso_min_32bit :: bool
  sso_min_64bit :: bool
  sso_lv10 :: bool
  sso_lv20 :: bool

definition sso_enabled :: "sso_features \<Rightarrow> bool" where
  "sso_enabled f \<longleftrightarrow> sso_min_32bit f \<or> sso_min_64bit f \<or> sso_lv10 f \<or> sso_lv20 f"

definition sso_buffer_size :: "sso_features \<Rightarrow> nat" where
  "sso_buffer_size f =
     (if sso_lv20 f then 255
      else if sso_lv10 f then 127
      else if sso_min_64bit f then 31
      else if sso_min_32bit f then 15
      else 0)"

datatype arc_payload = Ap_Small (ap_buffer: bytes) (ap_actual_length: u8)
  | Ap_Large (ap_data: bytes) (ap_start: nat) (ap_length: nat)

text \<open>An inline array that starts with the given bytes (\<open>copy_from_slice\<close> into \<open>[0u8; N]\<close>).\<close>

definition inline :: "sso_features \<Rightarrow> bytes \<Rightarrow> arc_payload" where
  "inline f bs =
     Ap_Small (bs @ drop (length bs) (replicate (sso_buffer_size f) 0)) (of_nat (length bs))"

text \<open>A range of a slice, which panics out of bounds.\<close>

definition slice_range :: "bytes \<Rightarrow> nat \<Rightarrow> nat \<Rightarrow> bytes rust" where
  "slice_range bs start len =
     (if start + len \<le> length bs then Ret (take len (drop start bs)) else Panic Explicit_Panic)"

text \<open>The bounds are asserted in a debug build; without it only the inline copy looks at them.\<close>

definition ap_new :: "bool \<Rightarrow> sso_features \<Rightarrow> bytes \<Rightarrow> nat \<Rightarrow> nat \<Rightarrow> arc_payload rust" where
  "ap_new debug f data start len =
     rbind (rassert (debug \<longrightarrow> start + len \<le> length data)) (\<lambda>_.
       if sso_enabled f \<and> len \<le> sso_buffer_size f
       then rbind (slice_range data start len) (\<lambda>bs. Ret (inline f bs))
       else Ret (Ap_Large data start len))"

primrec ap_as_slice :: "arc_payload \<Rightarrow> bytes rust" where
  "ap_as_slice (Ap_Large data start len) = slice_range data start len"
| "ap_as_slice (Ap_Small buffer len) = slice_range buffer 0 (unat len)"

primrec ap_len :: "arc_payload \<Rightarrow> nat" where
  "ap_len (Ap_Large data start len) = len"
| "ap_len (Ap_Small buffer len) = unat len"

definition ap_is_empty :: "arc_payload \<Rightarrow> bool" where
  "ap_is_empty p \<longleftrightarrow> ap_len p = 0"

primrec ap_arc_data :: "arc_payload \<Rightarrow> bytes option" where
  "ap_arc_data (Ap_Large data start len) = Some data"
| "ap_arc_data (Ap_Small buffer len) = None"

definition ap_eq :: "arc_payload \<Rightarrow> arc_payload \<Rightarrow> bool rust" where
  "ap_eq p q = rbind (ap_as_slice p) (\<lambda>a. rbind (ap_as_slice q) (\<lambda>b. Ret (a = b)))"

definition ap_default :: "sso_features \<Rightarrow> arc_payload" where
  "ap_default f =
     (if sso_enabled f then Ap_Small (replicate (sso_buffer_size f) 0) 0 else Ap_Large [] 0 0)"

section \<open>\<open>IntoPayload\<close>\<close>

text \<open>The types that can be passed as a payload, with their bytes.\<close>

datatype payload_source =
    From_Str str
  | From_String str
  | From_Slice bytes
  | From_Vec bytes
  | From_Vec_Ref bytes
  | From_Array bytes
  | From_Arc bytes
  | From_Unit
  | From_Payload arc_payload

definition small_or_shared :: "sso_features \<Rightarrow> bytes \<Rightarrow> arc_payload" where
  "small_or_shared f bs =
     (if sso_enabled f \<and> length bs \<le> sso_buffer_size f then inline f bs else Ap_Large bs 0 (length bs))"

primrec into_payload :: "sso_features \<Rightarrow> payload_source \<Rightarrow> arc_payload" where
  "into_payload f (From_Str s) = small_or_shared f s"
| "into_payload f (From_String s) = small_or_shared f s"
| "into_payload f (From_Slice bs) = small_or_shared f bs"
| "into_payload f (From_Vec bs) = small_or_shared f bs"
| "into_payload f (From_Vec_Ref bs) = small_or_shared f bs"
| "into_payload f (From_Array bs) = small_or_shared f bs"
| "into_payload f (From_Arc bs) = small_or_shared f bs"
| "into_payload f From_Unit = ap_default f"
| "into_payload f (From_Payload p) = p"

section \<open>What a payload denotes\<close>

text \<open>The bytes of a payload: reading it does not panic, and its length is theirs.\<close>

definition denotes :: "arc_payload \<Rightarrow> bytes \<Rightarrow> bool" where
  "denotes p bs \<longleftrightarrow> ap_as_slice p = Ret bs \<and> ap_len p = length bs"

primrec source_bytes :: "payload_source \<Rightarrow> bytes option" where
  "source_bytes (From_Str s) = Some s"
| "source_bytes (From_String s) = Some s"
| "source_bytes (From_Slice bs) = Some bs"
| "source_bytes (From_Vec bs) = Some bs"
| "source_bytes (From_Vec_Ref bs) = Some bs"
| "source_bytes (From_Array bs) = Some bs"
| "source_bytes (From_Arc bs) = Some bs"
| "source_bytes From_Unit = Some []"
| "source_bytes (From_Payload p) = (case ap_as_slice p of Ret bs \<Rightarrow> Some bs | Panic _ \<Rightarrow> None)"

lemma sso_buffer_size_bound: "sso_buffer_size f \<le> 255"
  by (simp add: sso_buffer_size_def)

lemma inline_denotes: "length bs \<le> sso_buffer_size f \<Longrightarrow> denotes (inline f bs) bs"
  using sso_buffer_size_bound [of f]
  by (simp add: inline_def denotes_def slice_range_def unsigned_of_nat take_bit_eq_mod)

lemma shared_denotes: "start + len \<le> length bs \<Longrightarrow> denotes (Ap_Large bs start len) (take len (drop start bs))"
  by (simp add: denotes_def slice_range_def)

lemma small_or_shared_denotes: "denotes (small_or_shared f bs) bs"
  using shared_denotes [of 0 "length bs" bs] by (simp add: small_or_shared_def inline_denotes)

lemma ap_default_denotes: "denotes (ap_default f) []"
  by (simp add: ap_default_def denotes_def slice_range_def)

lemma ap_new_denotes:
  assumes "start + len \<le> length data"
  shows "\<exists>p. ap_new debug f data start len = Ret p \<and> denotes p (take len (drop start data))"
proof (cases "sso_enabled f \<and> len \<le> sso_buffer_size f")
  case True
  moreover have "denotes (inline f (take len (drop start data))) (take len (drop start data))"
    using True by (intro inline_denotes) auto
  ultimately show ?thesis using assms by (simp add: ap_new_def slice_range_def)
next
  case False
  then show ?thesis using assms shared_denotes [OF assms] by (auto simp: ap_new_def)
qed

lemma ap_new_arc_data:
  "ap_new debug f data start len = Ret p \<Longrightarrow> ap_arc_data p = None \<longleftrightarrow> sso_enabled f \<and> len \<le> sso_buffer_size f"
  by (auto simp: ap_new_def slice_range_def inline_def rbind_eq_Ret split: if_splits)

lemma denotes_is_empty: "denotes p bs \<Longrightarrow> ap_is_empty p \<longleftrightarrow> bs = []"
  by (simp add: denotes_def ap_is_empty_def)

lemma into_payload_denotes:
  assumes "source_bytes s = Some bs" and "\<And>p. s = From_Payload p \<Longrightarrow> denotes p bs"
  shows "denotes (into_payload f s) bs"
  using assms by (cases s) (auto simp: small_or_shared_denotes ap_default_denotes)

lemma denotes_eq: "denotes p bs \<Longrightarrow> denotes q cs \<Longrightarrow> ap_eq p q = Ret (bs = cs)"
  by (simp add: denotes_def ap_eq_def)

text \<open>
  C30: a payload is its bytes, whatever the build.  For two feature sets, a payload made from any of the
  accepted types, or cut out of a shared buffer by a parser, is read back without a panic as exactly the
  bytes it was made from, has their length, and compares equal to another one exactly when the bytes do;
  only an inline payload has no shared buffer behind it.
\<close>

theorem payload_denotes_bytes:
  assumes "source_bytes s = Some bs" and "\<And>p. s = From_Payload p \<Longrightarrow> denotes p bs"
    and "start + len \<le> length data"
  shows "denotes (into_payload f s) bs
    \<and> (\<exists>p. ap_new debug g data start len = Ret p \<and> denotes p (take len (drop start data))
          \<and> (ap_arc_data p = None \<longleftrightarrow> sso_enabled g \<and> len \<le> sso_buffer_size g)
          \<and> ap_eq (into_payload f s) p = Ret (bs = take len (drop start data))
          \<and> (ap_is_empty p \<longleftrightarrow> len = 0))"
proof -
  obtain p where p: "ap_new debug g data start len = Ret p" "denotes p (take len (drop start data))"
    using ap_new_denotes [OF assms(3)] by blast
  moreover have "ap_is_empty p \<longleftrightarrow> len = 0"
    using denotes_is_empty [OF p(2)] assms(3) by auto
  ultimately show ?thesis
    using into_payload_denotes [OF assms(1,2), of f] denotes_eq [OF _ p(2), of "into_payload f s" bs]
      ap_new_arc_data [OF p(1)] by auto
qed

theorem payload_denotes_bytes_witness:
  "denotes (into_payload \<lparr>sso_min_32bit = True, sso_min_64bit = False, sso_lv10 = False, sso_lv20 = False\<rparr>
      (From_Slice [1, 2])) [1, 2]"
proof -
  let ?f = "\<lparr>sso_min_32bit = True, sso_min_64bit = False, sso_lv10 = False, sso_lv20 = False\<rparr>"
  show ?thesis
    using payload_denotes_bytes [of "From_Slice [1, 2]" "[1, 2]" 1 1 "[0, 1]" ?f True ?f] by simp
qed

end
