(* ===== verification/Property_Access.thy ===== *)
theory Property_Access
  imports Property
begin

text \<open>
  \<^verbatim>\<open>src/mqtt/packet/property.rs\<close>, the interface of a single property: the constructors \<open>new\<close> that
  the declaration macros generate, the accessors of \<open>PropertyValueAccess\<close>, the names of the
  identifiers and the sizes of \<open>PropertySize\<close>.
\<close>

section \<open>Constructors\<close>

datatype payload_format = PF_Binary | PF_String

primrec payload_format_u8 :: "payload_format \<Rightarrow> u8" where
  "payload_format_u8 PF_Binary = 0"
| "payload_format_u8 PF_String = 1"

definition new_payload_format :: "payload_format \<Rightarrow> (property, mqtt_error) result" where
  "new_payload_format v = Ok (P_PayloadFormatIndicator (payload_format_u8 v))"

text \<open>\<open>new\<close> of the macros that keep an integer as its big-endian bytes.\<close>

definition new_u16 :: "(u16 \<Rightarrow> (unit, mqtt_error) result) \<Rightarrow> (u16 \<Rightarrow> property) \<Rightarrow> u16 \<Rightarrow> (property, mqtt_error) result" where
  "new_u16 validator mk v = res_bind (validator v) (\<lambda>_. Ok (mk v))"

definition new_u32 :: "(u32 \<Rightarrow> (unit, mqtt_error) result) \<Rightarrow> (u32 \<Rightarrow> property) \<Rightarrow> u32 \<Rightarrow> (property, mqtt_error) result" where
  "new_u32 validator mk v = res_bind (validator v) (\<lambda>_. Ok (mk v))"

definition new_binary :: "(mqtt_binary \<Rightarrow> property) \<Rightarrow> bytes \<Rightarrow> (property, mqtt_error) result" where
  "new_binary mk v = res_bind (mb_new v) (\<lambda>binary. Ok (mk binary))"

definition new_string_pair ::
  "(mqtt_string \<times> mqtt_string \<Rightarrow> property) \<Rightarrow> str \<Rightarrow> str \<Rightarrow> (property, mqtt_error) result" where
  "new_string_pair mk key val =
     res_bind (ms_new key) (\<lambda>key_mqtt. res_bind (ms_new val) (\<lambda>val_mqtt. Ok (mk (key_mqtt, val_mqtt))))"

text \<open>
  The argument of a constructor, and the constructor of each identifier; \<open>None\<close> where the argument
  has another type than the constructor, which the Rust compiler rejects.
\<close>

datatype property_arg =
    Arg_Format payload_format
  | Arg_U8 u8
  | Arg_U16 u16
  | Arg_U32 u32
  | Arg_Str str
  | Arg_Bytes bytes
  | Arg_Pair str str

primrec property_new :: "property_id \<Rightarrow> property_arg \<Rightarrow> (property, mqtt_error) result option" where
  "property_new PI_PayloadFormatIndicator a = (case a of Arg_Format v \<Rightarrow> Some (new_payload_format v) | _ \<Rightarrow> None)"
| "property_new PI_MessageExpiryInterval a = (case a of Arg_U32 v \<Rightarrow> Some (new_u32 check_none P_MessageExpiryInterval v) | _ \<Rightarrow> None)"
| "property_new PI_ContentType a = (case a of Arg_Str v \<Rightarrow> Some (new_string P_ContentType v) | _ \<Rightarrow> None)"
| "property_new PI_ResponseTopic a = (case a of Arg_Str v \<Rightarrow> Some (new_string P_ResponseTopic v) | _ \<Rightarrow> None)"
| "property_new PI_CorrelationData a = (case a of Arg_Bytes v \<Rightarrow> Some (new_binary P_CorrelationData v) | _ \<Rightarrow> None)"
| "property_new PI_SubscriptionIdentifier a = (case a of Arg_U32 v \<Rightarrow> Some (new_variable_integer check_nonzero P_SubscriptionIdentifier v) | _ \<Rightarrow> None)"
| "property_new PI_SessionExpiryInterval a = (case a of Arg_U32 v \<Rightarrow> Some (new_u32 check_none P_SessionExpiryInterval v) | _ \<Rightarrow> None)"
| "property_new PI_AssignedClientIdentifier a = (case a of Arg_Str v \<Rightarrow> Some (new_string P_AssignedClientIdentifier v) | _ \<Rightarrow> None)"
| "property_new PI_ServerKeepAlive a = (case a of Arg_U16 v \<Rightarrow> Some (new_u16 check_none P_ServerKeepAlive v) | _ \<Rightarrow> None)"
| "property_new PI_AuthenticationMethod a = (case a of Arg_Str v \<Rightarrow> Some (new_string P_AuthenticationMethod v) | _ \<Rightarrow> None)"
| "property_new PI_AuthenticationData a = (case a of Arg_Bytes v \<Rightarrow> Some (new_binary P_AuthenticationData v) | _ \<Rightarrow> None)"
| "property_new PI_RequestProblemInformation a = (case a of Arg_U8 v \<Rightarrow> Some (new_checked check_flag P_RequestProblemInformation v) | _ \<Rightarrow> None)"
| "property_new PI_WillDelayInterval a = (case a of Arg_U32 v \<Rightarrow> Some (new_u32 check_none P_WillDelayInterval v) | _ \<Rightarrow> None)"
| "property_new PI_RequestResponseInformation a = (case a of Arg_U8 v \<Rightarrow> Some (new_checked check_flag P_RequestResponseInformation v) | _ \<Rightarrow> None)"
| "property_new PI_ResponseInformation a = (case a of Arg_Str v \<Rightarrow> Some (new_string P_ResponseInformation v) | _ \<Rightarrow> None)"
| "property_new PI_ServerReference a = (case a of Arg_Str v \<Rightarrow> Some (new_string P_ServerReference v) | _ \<Rightarrow> None)"
| "property_new PI_ReasonString a = (case a of Arg_Str v \<Rightarrow> Some (new_string P_ReasonString v) | _ \<Rightarrow> None)"
| "property_new PI_ReceiveMaximum a = (case a of Arg_U16 v \<Rightarrow> Some (new_u16 check_nonzero P_ReceiveMaximum v) | _ \<Rightarrow> None)"
| "property_new PI_TopicAliasMaximum a = (case a of Arg_U16 v \<Rightarrow> Some (new_u16 check_none P_TopicAliasMaximum v) | _ \<Rightarrow> None)"
| "property_new PI_TopicAlias a = (case a of Arg_U16 v \<Rightarrow> Some (new_u16 check_nonzero P_TopicAlias v) | _ \<Rightarrow> None)"
| "property_new PI_MaximumQos a = (case a of Arg_U8 v \<Rightarrow> Some (new_checked check_flag P_MaximumQos v) | _ \<Rightarrow> None)"
| "property_new PI_RetainAvailable a = (case a of Arg_U8 v \<Rightarrow> Some (new_checked check_flag P_RetainAvailable v) | _ \<Rightarrow> None)"
| "property_new PI_UserProperty a = (case a of Arg_Pair k v \<Rightarrow> Some (new_string_pair P_UserProperty k v) | _ \<Rightarrow> None)"
| "property_new PI_MaximumPacketSize a = (case a of Arg_U32 v \<Rightarrow> Some (new_u32 check_nonzero P_MaximumPacketSize v) | _ \<Rightarrow> None)"
| "property_new PI_WildcardSubscriptionAvailable a = (case a of Arg_U8 v \<Rightarrow> Some (new_checked check_flag P_WildcardSubscriptionAvailable v) | _ \<Rightarrow> None)"
| "property_new PI_SubscriptionIdentifierAvailable a = (case a of Arg_U8 v \<Rightarrow> Some (new_checked check_flag P_SubscriptionIdentifierAvailable v) | _ \<Rightarrow> None)"
| "property_new PI_SharedSubscriptionAvailable a = (case a of Arg_U8 v \<Rightarrow> Some (new_checked check_flag P_SharedSubscriptionAvailable v) | _ \<Rightarrow> None)"

section \<open>Accessors\<close>

definition prop_as_u8 :: "property \<Rightarrow> u8 option" where
  "prop_as_u8 p = (case p of
       P_PayloadFormatIndicator v \<Rightarrow> Some (v)
     | P_RequestProblemInformation v \<Rightarrow> Some (v)
     | P_RequestResponseInformation v \<Rightarrow> Some (v)
     | P_MaximumQos v \<Rightarrow> Some (v)
     | P_RetainAvailable v \<Rightarrow> Some (v)
     | P_WildcardSubscriptionAvailable v \<Rightarrow> Some (v)
     | P_SubscriptionIdentifierAvailable v \<Rightarrow> Some (v)
     | P_SharedSubscriptionAvailable v \<Rightarrow> Some (v)
     | _ \<Rightarrow> None)"

definition prop_as_u16 :: "property \<Rightarrow> u16 option" where
  "prop_as_u16 p = (case p of
       P_ServerKeepAlive v \<Rightarrow> Some (v)
     | P_ReceiveMaximum v \<Rightarrow> Some (v)
     | P_TopicAliasMaximum v \<Rightarrow> Some (v)
     | P_TopicAlias v \<Rightarrow> Some (v)
     | _ \<Rightarrow> None)"

definition prop_as_u32 :: "property \<Rightarrow> u32 option" where
  "prop_as_u32 p = (case p of
       P_MessageExpiryInterval v \<Rightarrow> Some (v)
     | P_SubscriptionIdentifier v \<Rightarrow> Some (to_u32 v)
     | P_SessionExpiryInterval v \<Rightarrow> Some (v)
     | P_WillDelayInterval v \<Rightarrow> Some (v)
     | P_MaximumPacketSize v \<Rightarrow> Some (v)
     | _ \<Rightarrow> None)"

definition prop_as_str :: "property \<Rightarrow> str option" where
  "prop_as_str p = (case p of
       P_ContentType v \<Rightarrow> Some (ms_as_str v)
     | P_ResponseTopic v \<Rightarrow> Some (ms_as_str v)
     | P_AssignedClientIdentifier v \<Rightarrow> Some (ms_as_str v)
     | P_AuthenticationMethod v \<Rightarrow> Some (ms_as_str v)
     | P_ResponseInformation v \<Rightarrow> Some (ms_as_str v)
     | P_ServerReference v \<Rightarrow> Some (ms_as_str v)
     | P_ReasonString v \<Rightarrow> Some (ms_as_str v)
     | _ \<Rightarrow> None)"

definition prop_as_bytes :: "property \<Rightarrow> bytes option" where
  "prop_as_bytes p = (case p of
       P_CorrelationData v \<Rightarrow> Some (mb_as_slice v)
     | P_AuthenticationData v \<Rightarrow> Some (mb_as_slice v)
     | _ \<Rightarrow> None)"

definition prop_as_key_value :: "property \<Rightarrow> (str \<times> str) option" where
  "prop_as_key_value p = (case p of
       P_UserProperty v \<Rightarrow> Some (ms_as_str (fst v), ms_as_str (snd v))
     | _ \<Rightarrow> None)"

text \<open>The name of an identifier.\<close>

primrec property_id_as_str :: "property_id \<Rightarrow> string" where
  "property_id_as_str PI_PayloadFormatIndicator = ''payload_format_indicator''"
| "property_id_as_str PI_MessageExpiryInterval = ''message_expiry_interval''"
| "property_id_as_str PI_ContentType = ''content_type''"
| "property_id_as_str PI_ResponseTopic = ''response_topic''"
| "property_id_as_str PI_CorrelationData = ''correlation_data''"
| "property_id_as_str PI_SubscriptionIdentifier = ''subscription_identifier''"
| "property_id_as_str PI_SessionExpiryInterval = ''session_expiry_interval''"
| "property_id_as_str PI_AssignedClientIdentifier = ''assigned_client_identifier''"
| "property_id_as_str PI_ServerKeepAlive = ''server_keep_alive''"
| "property_id_as_str PI_AuthenticationMethod = ''authentication_method''"
| "property_id_as_str PI_AuthenticationData = ''authentication_data''"
| "property_id_as_str PI_RequestProblemInformation = ''request_problem_information''"
| "property_id_as_str PI_WillDelayInterval = ''will_delay_interval''"
| "property_id_as_str PI_RequestResponseInformation = ''request_response_information''"
| "property_id_as_str PI_ResponseInformation = ''response_information''"
| "property_id_as_str PI_ServerReference = ''server_reference''"
| "property_id_as_str PI_ReasonString = ''reason_string''"
| "property_id_as_str PI_ReceiveMaximum = ''receive_maximum''"
| "property_id_as_str PI_TopicAliasMaximum = ''topic_alias_maximum''"
| "property_id_as_str PI_TopicAlias = ''topic_alias''"
| "property_id_as_str PI_MaximumQos = ''maximum_qos''"
| "property_id_as_str PI_RetainAvailable = ''retain_available''"
| "property_id_as_str PI_UserProperty = ''user_property''"
| "property_id_as_str PI_MaximumPacketSize = ''maximum_packet_size''"
| "property_id_as_str PI_WildcardSubscriptionAvailable = ''wildcard_subscription_available''"
| "property_id_as_str PI_SubscriptionIdentifierAvailable = ''subscription_identifier_available''"
| "property_id_as_str PI_SharedSubscriptionAvailable = ''shared_subscription_available''"

text \<open>The size a variable byte integer is said to have, by the ranges of its value.\<close>

definition vbi_value_size :: "variable_byte_integer \<Rightarrow> nat" where
  "vbi_value_size v = (let n = to_u32 v in
     if n \<le> 0x7F then 1 else if n \<le> 0x3FFF then 2 else if n \<le> 0x1FFFFF then 3 else 4)"

section \<open>Constructors, accessors and the parser agree\<close>

text \<open>The argument that the accessors of a property give back.\<close>

definition read_back :: "property \<Rightarrow> property_arg" where
  "read_back p =
     (case p of P_PayloadFormatIndicator v \<Rightarrow> Arg_Format (if v = 0 then PF_Binary else PF_String)
      | _ \<Rightarrow> (case prop_as_u8 p of Some v \<Rightarrow> Arg_U8 v
      | None \<Rightarrow> (case prop_as_u16 p of Some v \<Rightarrow> Arg_U16 v
      | None \<Rightarrow> (case prop_as_u32 p of Some v \<Rightarrow> Arg_U32 v
      | None \<Rightarrow> (case prop_as_str p of Some s \<Rightarrow> Arg_Str s
      | None \<Rightarrow> (case prop_as_bytes p of Some b \<Rightarrow> Arg_Bytes b
      | None \<Rightarrow> (case prop_as_key_value p of Some (k, v) \<Rightarrow> Arg_Pair k v | None \<Rightarrow> undefined)))))))"

text \<open>A Rust \<open>str\<close> is valid UTF-8.\<close>

primrec arg_valid :: "property_arg \<Rightarrow> bool" where
  "arg_valid (Arg_Format f) = True"
| "arg_valid (Arg_U8 v) = True"
| "arg_valid (Arg_U16 v) = True"
| "arg_valid (Arg_U32 v) = True"
| "arg_valid (Arg_Str s) = utf8_valid s"
| "arg_valid (Arg_Bytes b) = True"
| "arg_valid (Arg_Pair k v) = (utf8_valid k \<and> utf8_valid v)"

lemmas accessor_defs = prop_as_u8_def prop_as_u16_def prop_as_u32_def prop_as_str_def prop_as_bytes_def
  prop_as_key_value_def read_back_def

lemmas new_defs = new_payload_format_def new_u16_def new_u32_def new_binary_def new_string_pair_def
  new_checked_def new_string_def new_variable_integer_def

lemma ms_new_OkD: "ms_new s = Ok m \<Longrightarrow> utf8_valid s \<Longrightarrow> ms_inv m \<and> ms_as_str m = s"
  by (auto simp: ms_new_def ms_inv_def ms_as_str_def Let_def split: if_splits)

lemma mb_new_OkD: "mb_new s = Ok m \<Longrightarrow> mb_inv m \<and> mb_as_slice m = s"
  by (auto simp: mb_new_def mb_inv_def mb_as_slice_def Let_def split: if_splits)

lemma ms_new_inv_str: "ms_inv m \<Longrightarrow> ms_new (ms_as_str m) = Ok m \<and> utf8_valid (ms_as_str m)"
  by (cases m) (auto simp: ms_new_def ms_inv_def ms_as_str_def Let_def)

lemma mb_new_inv_slice: "mb_inv m \<Longrightarrow> mb_new (mb_as_slice m) = Ok m"
  by (cases m) (auto simp: mb_new_def mb_inv_def mb_as_slice_def Let_def)

lemma from_u32_inv: "vbi_inv v \<Longrightarrow> from_u32 (to_u32 v) = Some v"
  by (cases v) (simp add: vbi_inv_def from_u32_eq)

lemma from_u32_OkD: "from_u32 n = Some v \<Longrightarrow> vbi_inv v \<and> to_u32 v = n"
  using to_u32_enc [of "unat n"]
  by (auto simp: from_u32_eq vbi_inv_def VBI_MAX_unat word_unat_eq_iff split: if_splits)

lemma flag_cases: "v \<le> 1 \<Longrightarrow> (v :: u8) = 0 \<or> v = 1"
  by (auto simp: word_le_nat_alt word_unat_eq_iff)

lemma payload_format_u8_facts [simp]:
  "payload_format_u8 f \<le> 1" "payload_format_u8 f = 0 \<longleftrightarrow> f = PF_Binary"
  by (cases f; simp)+

lemma not_binary [simp]: "f \<noteq> PF_Binary \<longleftrightarrow> f = PF_String"
  by (cases f) simp_all

lemma new_OkD:
  assumes "property_new i a = Some (Ok p)" and "arg_valid a"
  shows "property_inv p \<and> property_id_of p = i \<and> read_back p = a"
  using assms
  by (cases i; cases a) (auto simp: new_defs accessor_defs check_defs res_bind_eq_Ok ok_or_eq_Ok not_less
      split: if_splits dest!: ms_new_OkD mb_new_OkD from_u32_OkD)

lemma inv_new:
  assumes "property_inv p"
  shows "property_new (property_id_of p) (read_back p) = Some (Ok p) \<and> arg_valid (read_back p)"
  using assms
  by (cases p) (auto simp: new_defs accessor_defs check_defs ms_new_inv_str mb_new_inv_slice from_u32_inv
      dest: flag_cases)

lemma length_vbi_enc_ranges:
  assumes "n < 268435456"
  shows "length (vbi_enc n) = (if n < 128 then 1 else if n < 16384 then 2 else if n < 2097152 then 3 else 4)"
proof -
  have d: "m div 128 < k \<longleftrightarrow> m < k * 128" for m k :: nat by (simp add: div_less_iff_less_mult)
  have "length (vbi_enc (n div 128 div 128)) = (if n < 2097152 then 1 else 2)" if "\<not> n < 16384"
    using that assms length_vbi_enc [of "n div 128 div 128"] length_vbi_enc [of "n div 128 div 128 div 128"]
    by (simp add: d del: div_mult2_eq)
  then have "length (vbi_enc (n div 128)) = (if n < 16384 then 1 else if n < 2097152 then 2 else 3)"
    using length_vbi_enc [of "n div 128"] by (simp add: d)
  then show ?thesis using length_vbi_enc [of n] by simp
qed

lemma vbi_value_size_eq: "vbi_inv v \<Longrightarrow> vbi_value_size v = vbi_size v"
  by (simp add: vbi_value_size_def vbi_inv_def vbi_size_def length_vbi_enc_ranges Let_def word_le_nat_alt)

text \<open>
  The constructors, the accessors and the parser of properties describe the same values.  A
  property that a constructor returns has the identifier and, through the accessors, the argument it
  was made from, and its bytes parse back to it; and every property the parser returns is one that the
  constructor of its identifier returns for what the accessors read from it, so parsing never yields a
  property that could not have been built.
\<close>

theorem property_constructors_match_parser:
  assumes "property_new i a = Some (Ok p)" and "arg_valid a"
    and "property_parse bs = Ok (q, n)"
  shows "property_id_of p = i \<and> read_back p = a
    \<and> property_parse (property_to_continuous_buffer p @ rest) = Ok (p, property_size p)
    \<and> property_new (property_id_of q) (read_back q) = Some (Ok q)"
  using new_OkD [OF assms(1,2)] property_codec.dec_enc [of p rest] inv_new [of q] property_parse_OkD [OF assms(3)]
  by (simp add: length_property_buffer)

theorem property_constructors_match_parser_witness:
  "property_id_of (P_TopicAlias 7) = PI_TopicAlias
    \<and> property_new PI_MaximumQos (read_back (P_MaximumQos 1)) = Some (Ok (P_MaximumQos 1))"
proof -
  have q: "property_parse (property_to_continuous_buffer (P_MaximumQos 1)) = Ok (P_MaximumQos 1, 2)"
    using property_codec.dec_enc [of "P_MaximumQos 1" "[]"] by (simp add: length_property_buffer)
  have p: "property_new PI_TopicAlias (Arg_U16 7) = Some (Ok (P_TopicAlias 7))"
    by (simp add: new_u16_def check_nonzero_def)
  show ?thesis using property_constructors_match_parser [OF p _ q] by simp
qed

end
