(* ===== verification/Packet_Setters.thy ===== *)
theory Packet_Setters
  imports Publish_V50
begin

text \<open>
  The fluent interfaces: the setters of \<^verbatim>\<open>GenericPublishBuilder\<close> of
  \<^verbatim>\<open>src/mqtt/packet/v3_1_1/publish.rs\<close> (those of v5.0 stand in \<^verbatim>\<open>Publish_V50\<close>), and
  \<^verbatim>\<open>SubOpts\<close> and \<^verbatim>\<open>SubEntry\<close> of \<^verbatim>\<open>src/mqtt/packet/sub_entry.rs\<close>.  A chain of setters is a list
  of calls; its specification is a message whose fields the last call of each kind determines.
\<close>

unbundle bit_operations_syntax

section \<open>The publish builder of v3.1.1\<close>

definition v3_publish_builder_new :: "'p::len word v3_publish_builder" where
  "v3_publish_builder_new = \<lparr>v3pb_fixed_header = None, v3pb_topic_name_buf = None, v3pb_packet_id_buf = None,
     v3pb_payload_buf = None\<rparr>"

definition v3pb_topic_name :: "str \<Rightarrow> 'p::len word v3_publish_builder \<Rightarrow> ('p word v3_publish_builder, mqtt_error) result" where
  "v3pb_topic_name topic b =
     res_bind (ms_new topic) (\<lambda>ms.
       if has_wildcard (ms_as_str ms) then Err MalformedPacket else Ok (b\<lparr>v3pb_topic_name_buf := Some ms\<rparr>))"

definition v3pb_header :: "'p::len word v3_publish_builder \<Rightarrow> u8" where
  "v3pb_header b = (case v3pb_fixed_header b of Some h \<Rightarrow> h | None \<Rightarrow> fixed_header_as_u8 FH_Publish)"

definition v3pb_qos :: "qos \<Rightarrow> 'p::len word v3_publish_builder \<Rightarrow> 'p word v3_publish_builder" where
  "v3pb_qos q b = b\<lparr>v3pb_fixed_header := Some ((v3pb_header b AND NOT 0x06) OR push_bit 1 (qos_u8 q))\<rparr>"

definition v3pb_dup :: "bool \<Rightarrow> 'p::len word v3_publish_builder \<Rightarrow> 'p word v3_publish_builder" where
  "v3pb_dup dup b = b\<lparr>v3pb_fixed_header := Some (if dup then v3pb_header b OR 0x08 else v3pb_header b AND NOT 0x08)\<rparr>"

definition v3pb_retain :: "bool \<Rightarrow> 'p::len word v3_publish_builder \<Rightarrow> 'p word v3_publish_builder" where
  "v3pb_retain retain b = b\<lparr>v3pb_fixed_header := Some (if retain then v3pb_header b OR 0x01 else v3pb_header b AND NOT 0x01)\<rparr>"

definition v3pb_packet_id :: "'p::len word \<Rightarrow> 'p word v3_publish_builder \<Rightarrow> 'p word v3_publish_builder" where
  "v3pb_packet_id pid b = b\<lparr>v3pb_packet_id_buf := Some (Some pid)\<rparr>"

definition v3pb_payload :: "bytes \<Rightarrow> 'p::len word v3_publish_builder \<Rightarrow> 'p word v3_publish_builder" where
  "v3pb_payload p b = b\<lparr>v3pb_payload_buf := Some p\<rparr>"

text \<open>A chain of setters, with \<open>?\<close> after the one that can fail.\<close>

datatype 't publish_setter =
    Set_Topic str
  | Set_Qos qos
  | Set_Dup bool
  | Set_Retain bool
  | Set_Packet_Id 't
  | Set_Payload bytes

primrec v3pb_call :: "'p::len word publish_setter \<Rightarrow> 'p word v3_publish_builder \<Rightarrow> ('p word v3_publish_builder, mqtt_error) result" where
  "v3pb_call (Set_Topic t) b = v3pb_topic_name t b"
| "v3pb_call (Set_Qos q) b = Ok (v3pb_qos q b)"
| "v3pb_call (Set_Dup d) b = Ok (v3pb_dup d b)"
| "v3pb_call (Set_Retain r) b = Ok (v3pb_retain r b)"
| "v3pb_call (Set_Packet_Id i) b = Ok (v3pb_packet_id i b)"
| "v3pb_call (Set_Payload p) b = Ok (v3pb_payload p b)"

primrec v3pb_calls :: "'p::len word publish_setter list \<Rightarrow> 'p word v3_publish_builder \<Rightarrow> ('p word v3_publish_builder, mqtt_error) result" where
  "v3pb_calls [] b = Ok b"
| "v3pb_calls (s # ss) b = res_bind (v3pb_call s b) (v3pb_calls ss)"

section \<open>What a chain describes\<close>

record 't message =
  m_topic :: "str option"
  m_qos :: qos
  m_dup :: bool
  m_retain :: bool
  m_pid :: "'t option"
  m_payload :: bytes

definition message_new :: "'t message" where
  "message_new = \<lparr>m_topic = None, m_qos = AtMostOnce, m_dup = False, m_retain = False, m_pid = None, m_payload = []\<rparr>"

primrec describe :: "'t publish_setter \<Rightarrow> 't message \<Rightarrow> 't message" where
  "describe (Set_Topic t) m = m\<lparr>m_topic := Some t\<rparr>"
| "describe (Set_Qos q) m = m\<lparr>m_qos := q\<rparr>"
| "describe (Set_Dup d) m = m\<lparr>m_dup := d\<rparr>"
| "describe (Set_Retain r) m = m\<lparr>m_retain := r\<rparr>"
| "describe (Set_Packet_Id i) m = m\<lparr>m_pid := Some i\<rparr>"
| "describe (Set_Payload p) m = m\<lparr>m_payload := p\<rparr>"

definition topic_settable :: "str \<Rightarrow> bool" where
  "topic_settable t \<longleftrightarrow> length t \<le> 65535 \<and> \<not> has_wildcard t"

text \<open>The messages that MQTT allows.\<close>

definition message_legal :: "'p::len word message \<Rightarrow> bool" where
  "message_legal m \<longleftrightarrow> m_topic m \<noteq> None \<and> m_topic m \<noteq> Some [] \<and> (m_pid m = None \<longleftrightarrow> m_qos m = AtMostOnce)
     \<and> m_pid m \<noteq> Some 0 \<and> length (m_payload m) \<le> 268435455"

text \<open>The bytes after the fixed header.\<close>

definition message_body :: "'p::len word message \<Rightarrow> nat" where
  "message_body m = 2 + length (the (m_topic m)) + (if m_pid m = None then 0 else pid_size TYPE('p)) + length (m_payload m)"

definition header_of :: "'t message \<Rightarrow> u8" where
  "header_of m = 0x30 OR (if m_dup m then 8 else 0) OR push_bit 1 (qos_u8 (m_qos m)) OR (if m_retain m then 1 else 0)"

text \<open>The builder holds the message.\<close>

definition holds :: "'p::len word v3_publish_builder \<Rightarrow> 'p word message \<Rightarrow> bool" where
  "holds b m \<longleftrightarrow> v3pb_header b = header_of m
     \<and> v3pb_topic_name_buf b = map_option (\<lambda>t. \<lparr>ms_encoded = len_prefix (length t) @ t\<rparr>) (m_topic m)
     \<and> (case m_topic m of None \<Rightarrow> True | Some t \<Rightarrow> topic_settable t)
     \<and> flatten (v3pb_packet_id_buf b) = m_pid m
     \<and> (case v3pb_payload_buf b of None \<Rightarrow> [] | Some p \<Rightarrow> p) = m_payload m"

lemma header_of_bits:
  "qos_bits (header_of m) = qos_u8 (m_qos m)"
  "qos_of_bits (qos_bits (header_of m)) = Ret (m_qos m)"
  "(header_of m AND 0x08 \<noteq> 0) \<longleftrightarrow> m_dup m"
  "(header_of m AND 0x01 \<noteq> 0) \<longleftrightarrow> m_retain m"
  by (cases "m_qos m"; simp add: header_of_def qos_bits_def qos_of_bits_def)+

lemma qos_of_bits_u8 [simp]: "qos_of_bits (qos_u8 q) = Ret q"
  by (cases q) (simp_all add: qos_of_bits_def)

lemma header_of_set:
  "(header_of m AND NOT 0x06) OR push_bit 1 (qos_u8 q) = header_of (m\<lparr>m_qos := q\<rparr>)"
  "(if d then header_of m OR 0x08 else header_of m AND NOT 0x08) = header_of (m\<lparr>m_dup := d\<rparr>)"
  "(if r then header_of m OR 0x01 else header_of m AND NOT 0x01) = header_of (m\<lparr>m_retain := r\<rparr>)"
  by (cases "m_qos m"; cases q; simp add: header_of_def)+

lemma holds_new: "holds v3_publish_builder_new message_new"
  by (simp add: holds_def v3_publish_builder_new_def message_new_def v3pb_header_def header_of_def flatten_def)

lemma v3pb_call_holds:
  assumes "holds b m"
  shows "v3pb_call s b = Ok b' \<Longrightarrow> holds b' (describe s m)"
    and "(\<exists>b'. v3pb_call s b = Ok b') \<longleftrightarrow> (case s of Set_Topic t \<Rightarrow> topic_settable t | _ \<Rightarrow> True)"
proof -
  have h: "v3pb_header b = header_of m" using assms by (simp add: holds_def)
  show "(\<exists>b'. v3pb_call s b = Ok b') \<longleftrightarrow> (case s of Set_Topic t \<Rightarrow> topic_settable t | _ \<Rightarrow> True)"
    by (cases s) (auto simp: v3pb_topic_name_def ms_new_def ms_as_str_def topic_settable_def Let_def)
  show "holds b' (describe s m)" if "v3pb_call s b = Ok b'"
    using that assms
  proof (cases s)
    case (Set_Topic t)
    then show ?thesis
      using that assms by (auto simp: v3pb_topic_name_def ms_new_def ms_as_str_def topic_settable_def Let_def holds_def
          v3pb_header_def header_of_def split: if_splits)
  next
    case (Set_Qos q)
    then show ?thesis
      using that assms header_of_set(1) [of m q] by (auto simp: holds_def v3pb_qos_def h v3pb_header_def)
  next
    case (Set_Dup d)
    then show ?thesis
      using that assms header_of_set(2) [of d m] by (auto simp: holds_def v3pb_dup_def h v3pb_header_def)
  next
    case (Set_Retain r)
    then show ?thesis
      using that assms header_of_set(3) [of r m] by (auto simp: holds_def v3pb_retain_def h v3pb_header_def)
  qed (auto simp: holds_def v3pb_packet_id_def v3pb_payload_def v3pb_header_def header_of_def flatten_def)
qed

lemma v3pb_calls_holds:
  "holds b m \<Longrightarrow> v3pb_calls ss b = Ok b' \<Longrightarrow> holds b' (fold describe ss m)"
  by (induction ss arbitrary: b m) (auto simp: res_bind_eq_Ok dest: v3pb_call_holds(1))

lemma header_default: "v3pb_fixed_header b = None \<Longrightarrow> v3pb_header b = header_of m \<Longrightarrow> m_qos m = AtMostOnce"
  using header_of_bits(1) [of m] by (cases "m_qos m") (simp_all add: v3pb_header_def qos_bits_def)

lemma validate_holds:
  assumes "holds b m"
  shows "v3_publish_validate b = (if message_legal m then Ok () else Err MalformedPacket)"
proof -
  have topic: "(case v3pb_topic_name_buf b of None \<Rightarrow> True | Some t \<Rightarrow> ms_as_str t = []) \<longleftrightarrow> m_topic m = None \<or> m_topic m = Some []"
    using assms by (auto simp: holds_def ms_as_str_def split: option.splits)
  have payload: "(case v3pb_payload_buf b of Some payload \<Rightarrow> if length payload > 268435455 then Err MalformedPacket else Ok ()
      | None \<Rightarrow> Ok ()) = (if length (m_payload m) \<le> 268435455 then Ok () else Err MalformedPacket)"
    using assms by (cases "v3pb_payload_buf b") (auto simp: holds_def)
  have pid: "(case v3pb_packet_id_buf b of None \<Rightarrow> None | Some x \<Rightarrow> x) = m_pid m"
    using assms by (simp add: holds_def flatten_def)
  have header: "v3pb_fixed_header b = Some h \<Longrightarrow> h = header_of m" for h
    using assms by (simp add: holds_def v3pb_header_def)
  show ?thesis
  proof (cases "v3pb_fixed_header b")
    case None
    then have "m_qos m = AtMostOnce" using header_default assms by (auto simp: holds_def)
    then show ?thesis
      unfolding v3_publish_validate_def topic payload pid None by (auto simp: message_legal_def Let_def)
  next
    case (Some h)
    show ?thesis
      unfolding v3_publish_validate_def topic payload pid Some
      by (cases "m_qos m"; cases "m_pid m")
        (auto simp: header [OF Some] header_of_bits(1) message_legal_def Let_def)
  qed
qed

lemma vbi_of_Panic: "268435455 < n \<Longrightarrow> n < 2 ^ 32 \<Longrightarrow> vbi_of n = Panic Unwrap_Failed"
  by (simp add: vbi_of_def from_u32_eq unsigned_of_nat take_bit_eq_mod)

lemma build_holds:
  fixes m :: "'p::len word message"
  assumes h: "holds b m" and w: "packet_id_width TYPE('p)"
  shows "v3_publish_build b =
    (if \<not> message_legal m then Ret (Err MalformedPacket)
     else if message_body m > 268435455 then Panic Unwrap_Failed
     else Ret (Ok \<lparr>v3p_fixed_header = header_of m, v3p_remaining_length = \<lparr>encoded = vbi_enc (message_body m)\<rparr>,
       v3p_topic_name_buf = \<lparr>ms_encoded = len_prefix (length (the (m_topic m))) @ the (m_topic m)\<rparr>,
       v3p_packet_id_buf = m_pid m, v3p_payload_buf = m_payload m\<rparr>))"
proof (cases "message_legal m")
  case False
  then show ?thesis by (simp add: v3_publish_build_def validate_holds [OF h])
next
  case True
  then obtain t where t: "m_topic m = Some t" "topic_settable t"
    using h by (auto simp: message_legal_def holds_def split: option.splits)
  have hdr: "(case v3pb_fixed_header b of Some h \<Rightarrow> h | None \<Rightarrow> fixed_header_as_u8 FH_Publish) = header_of m"
    and pid: "(case v3pb_packet_id_buf b of None \<Rightarrow> None | Some x \<Rightarrow> x) = m_pid m"
    and pay: "(case v3pb_payload_buf b of None \<Rightarrow> [] | Some p \<Rightarrow> p) = m_payload m"
    and top: "v3pb_topic_name_buf b = Some \<lparr>ms_encoded = len_prefix (length t) @ t\<rparr>"
    using h t by (simp_all add: holds_def v3pb_header_def flatten_def)
  have q: "qos_bits (header_of m) \<noteq> 0 \<and> m_pid m \<noteq> None \<longleftrightarrow> m_pid m \<noteq> None"
    using True by (cases "m_qos m") (auto simp: header_of_bits(1) message_legal_def)
  have rem: "ms_size \<lparr>ms_encoded = len_prefix (length t) @ t\<rparr>
      + (if qos_bits (header_of m) \<noteq> 0 \<and> m_pid m \<noteq> None then pid_size TYPE('p) else 0) + length (m_payload m) = message_body m"
    unfolding q by (simp add: message_body_def t ms_size_def)
  have "message_body m < 2 ^ 32"
    using True t w by (auto simp: message_body_def message_legal_def topic_settable_def packet_id_width_def pid_size_def)
  then have vbi: "vbi_of (message_body m) =
      (if message_body m > 268435455 then Panic Unwrap_Failed else Ret \<lparr>encoded = vbi_enc (message_body m)\<rparr>)"
    by (simp add: vbi_of_Panic vbi_of_Ret)
  show ?thesis
    unfolding v3_publish_build_def validate_holds [OF h] hdr pid pay top
    using True by (simp add: Let_def rem [simplified] vbi t(1))
qed

lemma v3pb_calls_Ok:
  "holds b m \<Longrightarrow> (\<exists>b'. v3pb_calls ss b = Ok b') \<longleftrightarrow> (\<forall>t. Set_Topic t \<in> set ss \<longrightarrow> topic_settable t)"
proof (induction ss arbitrary: b m)
  case (Cons s ss)
  show ?case
  proof (cases "v3pb_call s b")
    case (Ok b')
    then have "holds b' (describe s m)" and "case s of Set_Topic t \<Rightarrow> topic_settable t | _ \<Rightarrow> True"
      using v3pb_call_holds [OF Cons.prems] by blast+
    then show ?thesis using Cons.IH Ok by (cases s) auto
  next
    case (Err e)
    then show ?thesis using v3pb_call_holds(2) [OF Cons.prems, of s] by (cases s) auto
  qed
qed simp

lemma built_inv:
  assumes "message_legal m" and "message_body m \<le> 268435455" and "m_topic m = Some t" and "utf8_valid t" and "length t \<le> 65535"
  shows "v3_publish_inv \<lparr>v3p_fixed_header = header_of m, v3p_remaining_length = \<lparr>encoded = vbi_enc (message_body m)\<rparr>,
       v3p_topic_name_buf = \<lparr>ms_encoded = len_prefix (length t) @ t\<rparr>,
       v3p_packet_id_buf = m_pid m, v3p_payload_buf = m_payload m\<rparr>"
proof -
  have "header_of m = 0x30 OR (header_of m AND 0x0F)" and "qos_bits (header_of m) \<noteq> 3"
    and "qos_bits (header_of m) = 0 \<longleftrightarrow> m_qos m = AtMostOnce"
    by (cases "m_qos m"; simp add: header_of_def qos_bits_def)+
  moreover have "length (pid_bytes (m_pid m)) = (if m_pid m = None then 0 else pid_size TYPE('a))"
    by (simp add: length_pid_bytes split: option.splits)
  ultimately show ?thesis
    using assms by (auto simp: v3_publish_inv_def v3_publish_body_def message_legal_def message_body_def ms_inv_def
        ms_to_continuous_buffer_def ms_as_bytes_def add.assoc)
qed

text \<open>
  C23: the fluent builder of a PUBLISH of MQTT v3.1.1.  A chain of setters, in any order and with any repetitions,
  fails exactly when it sets a topic that is longer than 65535 bytes or has a wildcard.  Otherwise the
  builder holds the message that the last setter of each kind describes, and \<open>build\<close> refuses it with
  MalformedPacket exactly when MQTT does not allow the message, panics exactly when an allowed message
  is too long for a remaining length (the payload alone is checked, not the sum with topic and
  identifier), and else gives a packet whose accessors read back that message, well formed when the
  topic is UTF-8.
\<close>

theorem fluent_publish:
  fixes ss :: "'p::len word publish_setter list"
  assumes "packet_id_width TYPE('p)" and "m = fold describe ss message_new"
  shows "((\<exists>b. v3pb_calls ss v3_publish_builder_new = Ok b) \<longleftrightarrow> (\<forall>t. Set_Topic t \<in> set ss \<longrightarrow> topic_settable t))
    \<and> (\<forall>b. v3pb_calls ss v3_publish_builder_new = Ok b \<longrightarrow>
         (if \<not> message_legal m then v3_publish_build b = Ret (Err MalformedPacket)
          else if message_body m > 268435455 then v3_publish_build b = Panic Unwrap_Failed
          else \<exists>k. v3_publish_build b = Ret (Ok k) \<and> Some (v3_publish_topic_name k) = m_topic m
            \<and> v3_publish_qos k = Ret (m_qos m) \<and> v3_publish_dup k = m_dup m \<and> v3_publish_retain k = m_retain m
            \<and> v3p_packet_id_buf k = m_pid m \<and> v3p_payload_buf k = m_payload m
            \<and> (utf8_valid (v3_publish_topic_name k) \<longrightarrow> v3_publish_inv k)))"
proof (intro conjI allI impI)
  show "(\<exists>b. v3pb_calls ss v3_publish_builder_new = Ok b) \<longleftrightarrow> (\<forall>t. Set_Topic t \<in> set ss \<longrightarrow> topic_settable t)"
    by (rule v3pb_calls_Ok [OF holds_new])
next
  fix b assume "v3pb_calls ss v3_publish_builder_new = Ok b"
  then have h: "holds b m" using v3pb_calls_holds [OF holds_new] assms(2) by blast
  show "if \<not> message_legal m then v3_publish_build b = Ret (Err MalformedPacket)
      else if message_body m > 268435455 then v3_publish_build b = Panic Unwrap_Failed
      else \<exists>k. v3_publish_build b = Ret (Ok k) \<and> Some (v3_publish_topic_name k) = m_topic m
        \<and> v3_publish_qos k = Ret (m_qos m) \<and> v3_publish_dup k = m_dup m \<and> v3_publish_retain k = m_retain m
        \<and> v3p_packet_id_buf k = m_pid m \<and> v3p_payload_buf k = m_payload m
        \<and> (utf8_valid (v3_publish_topic_name k) \<longrightarrow> v3_publish_inv k)"
  proof (cases "message_legal m \<and> message_body m \<le> 268435455")
    case True
    then obtain t where t: "m_topic m = Some t" "length t \<le> 65535"
      using h by (auto simp: message_legal_def holds_def topic_settable_def split: option.splits)
    then show ?thesis
      using True built_inv [of m t] build_holds [OF h assms(1)]
      by (simp add: v3_publish_topic_name_def ms_as_str_def v3_publish_qos_def v3_publish_dup_def
          v3_publish_retain_def header_of_bits)
  qed (auto simp: build_holds [OF h assms(1)])
qed

theorem fluent_publish_witness:
  "\<exists>(b :: 16 word v3_publish_builder) k.
     v3pb_calls [Set_Qos ExactlyOnce, Set_Topic [0x61], Set_Packet_Id 7, Set_Qos AtLeastOnce] v3_publish_builder_new = Ok b
     \<and> v3_publish_build b = Ret (Ok k) \<and> v3_publish_qos k = Ret AtLeastOnce \<and> v3p_packet_id_buf k = Some 7"
proof -
  let ?ss = "[Set_Qos ExactlyOnce, Set_Topic [0x61], Set_Packet_Id 7, Set_Qos AtLeastOnce] :: 16 word publish_setter list"
  let ?m = "fold describe ?ss message_new"
  have m: "message_legal ?m" "message_body ?m \<le> 268435455" "m_qos ?m = AtLeastOnce" "m_pid ?m = Some 7"
    by (simp_all add: message_legal_def message_body_def message_new_def pid_size_def)
  have w: "packet_id_width TYPE(16)" by (simp add: packet_id_width_def)
  have "\<forall>t. Set_Topic t \<in> set ?ss \<longrightarrow> topic_settable t" by (simp add: topic_settable_def has_wildcard_def)
  then obtain b where b: "v3pb_calls ?ss v3_publish_builder_new = Ok b"
    using fluent_publish [OF w refl, of ?ss] by blast
  then show ?thesis using fluent_publish [OF w refl, of ?ss] m by (metis linorder_not_less)
qed

section \<open>Subscription options\<close>

definition sub_opts_new :: u8 where
  "sub_opts_new = 0"

definition sub_opts_set_qos :: "qos \<Rightarrow> u8 \<Rightarrow> u8" where
  "sub_opts_set_qos q b = (b AND 0xFC) OR qos_u8 q"

definition sub_opts_set_nl :: "bool \<Rightarrow> u8 \<Rightarrow> u8" where
  "sub_opts_set_nl nl b = (if nl then b OR 0x04 else b AND NOT 0x04)"

definition sub_opts_set_rap :: "bool \<Rightarrow> u8 \<Rightarrow> u8" where
  "sub_opts_set_rap rap b = (if rap then b OR 0x08 else b AND NOT 0x08)"

definition sub_opts_set_rh :: "retain_handling \<Rightarrow> u8 \<Rightarrow> u8" where
  "sub_opts_set_rh rh b = (b AND 0xCF) OR push_bit 4 (retain_handling_u8 rh)"

definition sub_entry_new :: "str \<Rightarrow> u8 \<Rightarrow> (sub_entry, mqtt_error) result" where
  "sub_entry_new topic_filter sub_opts =
     res_bind (ms_new topic_filter) (\<lambda>ms. Ok \<lparr>se_topic_filter = ms, se_sub_opts = sub_opts\<rparr>)"

definition sub_entry_set_topic_filter :: "str \<Rightarrow> sub_entry \<Rightarrow> (sub_entry, mqtt_error) result" where
  "sub_entry_set_topic_filter topic_filter e = res_bind (ms_new topic_filter) (\<lambda>ms. Ok (e\<lparr>se_topic_filter := ms\<rparr>))"

definition sub_entry_set_sub_opts :: "u8 \<Rightarrow> sub_entry \<Rightarrow> sub_entry" where
  "sub_entry_set_sub_opts sub_opts e = e\<lparr>se_sub_opts := sub_opts\<rparr>"

text \<open>The options byte of four option values.\<close>

definition sub_opts_of :: "qos \<Rightarrow> bool \<Rightarrow> bool \<Rightarrow> retain_handling \<Rightarrow> u8" where
  "sub_opts_of q nl rap rh = sub_opts_set_rh rh (sub_opts_set_rap rap (sub_opts_set_nl nl (sub_opts_set_qos q sub_opts_new)))"

lemmas sub_opts_setters = sub_opts_new_def sub_opts_set_qos_def sub_opts_set_nl_def sub_opts_set_rap_def sub_opts_set_rh_def

lemma sub_opts_of_read:
  "sub_opts_qos (sub_opts_of q nl rap rh) = Ret q \<and> sub_opts_nl (sub_opts_of q nl rap rh) = nl
   \<and> sub_opts_rap (sub_opts_of q nl rap rh) = rap \<and> sub_opts_rh (sub_opts_of q nl rap rh) = Ret rh
   \<and> sub_opts_from_u8 (sub_opts_of q nl rap rh) = Ok (sub_opts_of q nl rap rh)"
  by (cases q; cases rh; cases nl; cases rap)
    (simp_all add: sub_opts_of_def sub_opts_setters sub_opts_qos_def qos_of_bits_def sub_opts_nl_def sub_opts_rap_def
      sub_opts_rh_def sub_opts_from_u8_def)

text \<open>Each setter changes its own option only.\<close>

lemma sub_opts_of_set_qos: "sub_opts_set_qos q' (sub_opts_of q nl rap rh) = sub_opts_of q' nl rap rh"
  by (cases q; cases q'; cases rh; cases nl; cases rap; simp add: sub_opts_of_def sub_opts_setters)

lemma sub_opts_of_set_nl: "sub_opts_set_nl nl' (sub_opts_of q nl rap rh) = sub_opts_of q nl' rap rh"
  by (cases q; cases rh; cases nl; cases nl'; cases rap; simp add: sub_opts_of_def sub_opts_setters)

lemma sub_opts_of_set_rap: "sub_opts_set_rap rap' (sub_opts_of q nl rap rh) = sub_opts_of q nl rap' rh"
  by (cases q; cases rh; cases nl; cases rap; cases rap'; simp add: sub_opts_of_def sub_opts_setters)

lemma sub_opts_of_set_rh: "sub_opts_set_rh rh' (sub_opts_of q nl rap rh) = sub_opts_of q nl rap rh'"
  by (cases q; cases rh; cases rh'; cases nl; cases rap; simp add: sub_opts_of_def sub_opts_setters)

lemmas sub_opts_of_set = sub_opts_of_set_qos sub_opts_of_set_nl sub_opts_of_set_rap sub_opts_of_set_rh

text \<open>A byte that the parser accepts is made of four option values.\<close>

lemma shifted_field: "push_bit n (drop_bit n v AND w) = v AND push_bit n (w :: 'a::len word)"
  by (rule bit_word_eqI) (auto simp: bit_simps)

lemma and_one_cases: "(v :: u8) AND 1 = 0 \<or> v AND 1 = 1"
  by (simp add: and_one_eq mod2_eq_if)

lemma and_single: "(v :: u8) AND 4 = 0 \<or> v AND 4 = 4" "v AND 8 = 0 \<or> v AND 8 = 8"
  using and_one_cases [of "drop_bit 2 v"] and_one_cases [of "drop_bit 3 v"] shifted_field [of 2 v 1] shifted_field [of 3 v 1]
  by (auto simp: push_bit_eq_mult)

lemma sub_opts_split:
  "(v :: u8) = (v AND 3) OR (v AND 4) OR (v AND 8) OR push_bit 4 (drop_bit 4 v AND 3) OR (v AND 0xC0)"
proof -
  have "(v AND 3) OR (v AND 4) OR (v AND 8) OR (v AND 0x30) OR (v AND 0xC0) = v AND 0xFF"
    by (simp flip: bit.conj_disj_distrib)
  moreover have "(0xFF :: u8) = - 1" by simp
  ultimately show ?thesis using shifted_field [of 4 v 3] by (simp add: push_bit_eq_mult)
qed

lemma sub_opts_of_fields:
  "sub_opts_of q nl rap rh = qos_u8 q OR (if nl then 4 else 0) OR (if rap then 8 else 0) OR push_bit 4 (retain_handling_u8 rh)"
  by (cases q; cases rh; cases nl; cases rap) (simp_all add: sub_opts_of_def sub_opts_setters)

lemma sub_opts_accepted:
  assumes "sub_opts_from_u8 v = Ok w"
  shows "\<exists>q nl rap rh. v = sub_opts_of q nl rap rh"
proof -
  have c: "v AND 0xC0 = 0" "\<not> v AND 3 > 2" "\<not> drop_bit 4 (v AND 0x30) > 2"
    using assms by (simp_all add: sub_opts_from_u8_def split: if_splits)
  have f: "drop_bit 4 (v AND 0x30) = drop_bit 4 v AND 3" by simp
  obtain q where q: "v AND 3 = qos_u8 q"
  proof -
    have "v AND 3 = 0 \<or> v AND 3 = 1 \<or> v AND 3 = 2" using and_3_cases [of v] c(2) by auto
    then show ?thesis using that [of AtMostOnce] that [of AtLeastOnce] that [of ExactlyOnce] by auto
  qed
  obtain rh where rh: "drop_bit 4 v AND 3 = retain_handling_u8 rh"
  proof -
    have "drop_bit 4 v AND 3 = 0 \<or> drop_bit 4 v AND 3 = 1 \<or> drop_bit 4 v AND 3 = 2"
      using and_3_cases [of "drop_bit 4 v"] c(3) f by auto
    then show ?thesis
      using that [of SendRetained] that [of SendRetainedIfNotExists] that [of DoNotSendRetained] by auto
  qed
  have "v = qos_u8 q OR (if v AND 4 \<noteq> 0 then 4 else 0) OR (if v AND 8 \<noteq> 0 then 8 else 0) OR push_bit 4 (retain_handling_u8 rh)"
    using sub_opts_split [of v] and_single [of v] c(1) q rh by auto
  then show ?thesis using sub_opts_of_fields by metis
qed

text \<open>
  Subscription options.  The setters and getters of \<open>SubOpts\<close> are a record with four fields:
  a byte made by setting the four options reads them back and is accepted by the parser, and setting
  one option again changes that option only; and every byte the parser accepts, from the network or
  from the application, is such a byte, so its getters never reach their \<open>unreachable!\<close> arms.
\<close>

theorem sub_opts_is_record:
  "(let v = sub_opts_of q nl rap rh in
      sub_opts_qos v = Ret q \<and> sub_opts_nl v = nl \<and> sub_opts_rap v = rap \<and> sub_opts_rh v = Ret rh
      \<and> sub_opts_from_u8 v = Ok v
      \<and> sub_opts_set_qos q' v = sub_opts_of q' nl rap rh \<and> sub_opts_set_nl nl' v = sub_opts_of q nl' rap rh
      \<and> sub_opts_set_rap rap' v = sub_opts_of q nl rap' rh \<and> sub_opts_set_rh rh' v = sub_opts_of q nl rap rh')
   \<and> (case sub_opts_from_u8 b of
        Ok w \<Rightarrow> w = b \<and> (\<exists>q nl rap rh. b = sub_opts_of q nl rap rh \<and> sub_opts_qos b = Ret q \<and> sub_opts_rh b = Ret rh)
      | Err e \<Rightarrow> e = MalformedPacket)"
proof (rule conjI)
  show "let v = sub_opts_of q nl rap rh in
      sub_opts_qos v = Ret q \<and> sub_opts_nl v = nl \<and> sub_opts_rap v = rap \<and> sub_opts_rh v = Ret rh
      \<and> sub_opts_from_u8 v = Ok v
      \<and> sub_opts_set_qos q' v = sub_opts_of q' nl rap rh \<and> sub_opts_set_nl nl' v = sub_opts_of q nl' rap rh
      \<and> sub_opts_set_rap rap' v = sub_opts_of q nl rap' rh \<and> sub_opts_set_rh rh' v = sub_opts_of q nl rap rh'"
    using sub_opts_of_read by (simp add: Let_def sub_opts_of_set)
next
  show "case sub_opts_from_u8 b of
      Ok w \<Rightarrow> w = b \<and> (\<exists>q nl rap rh. b = sub_opts_of q nl rap rh \<and> sub_opts_qos b = Ret q \<and> sub_opts_rh b = Ret rh)
    | Err e \<Rightarrow> e = MalformedPacket"
  proof (cases "sub_opts_from_u8 b")
    case (Ok w)
    obtain q nl rap rh where "b = sub_opts_of q nl rap rh" using sub_opts_accepted [OF Ok] by blast
    moreover from this have "sub_opts_qos b = Ret q" "sub_opts_rh b = Ret rh" using sub_opts_of_read by simp_all
    ultimately show ?thesis using Ok sub_opts_from_u8_Ok [OF Ok] by auto
  qed (simp add: sub_opts_from_u8_def split: if_splits)
qed

end
