(* ===== verification/Io_Buffers.thy ===== *)
theory Io_Buffers
  imports Store
begin

text \<open>
  \<^verbatim>\<open>to_buffers\<close> of every packet and of the parts they are made of (\<^verbatim>\<open>src/mqtt/packet/\<close>): the
  slices that vectored I/O sends one after the other, as a list of byte lists.  The other rendering of
  a packet, \<^verbatim>\<open>to_continuous_buffer\<close>, stands beside each packet; the theorem of this theory relates
  the two.
\<close>

type_synonym slices = "bytes list"

section \<open>Parts of packets\<close>

definition vbi_to_buffers :: "variable_byte_integer \<Rightarrow> slices" where
  "vbi_to_buffers vbi = [encoded vbi]"

definition ms_to_buffers :: "mqtt_string \<Rightarrow> slices" where
  "ms_to_buffers ms = [ms_as_bytes ms]"

definition mb_to_buffers :: "mqtt_binary \<Rightarrow> slices" where
  "mb_to_buffers mb = [mb_as_bytes mb]"

definition sub_entry_to_buffers :: "sub_entry \<Rightarrow> slices" where
  "sub_entry_to_buffers e = ms_to_buffers (se_topic_filter e) @ [[se_sub_opts e]]"

text \<open>The property types: the identifier, then the value as one slice or as those of its strings.\<close>

definition binary_property_buffers :: "property_id \<Rightarrow> mqtt_binary \<Rightarrow> slices" where
  "binary_property_buffers pid v = [property_id_u8 pid] # mb_to_buffers v"

definition string_property_buffers :: "property_id \<Rightarrow> mqtt_string \<Rightarrow> slices" where
  "string_property_buffers pid v = [property_id_u8 pid] # ms_to_buffers v"

definition string_pair_property_buffers :: "property_id \<Rightarrow> mqtt_string \<times> mqtt_string \<Rightarrow> slices" where
  "string_pair_property_buffers pid v = [property_id_u8 pid] # ms_to_buffers (fst v) @ ms_to_buffers (snd v)"

definition u8_property_buffers :: "property_id \<Rightarrow> u8 \<Rightarrow> slices" where
  "u8_property_buffers pid v = [[property_id_u8 pid], [v]]"

definition u16_property_buffers :: "property_id \<Rightarrow> u16 \<Rightarrow> slices" where
  "u16_property_buffers pid v = [[property_id_u8 pid], to_be_bytes v]"

definition u32_property_buffers :: "property_id \<Rightarrow> u32 \<Rightarrow> slices" where
  "u32_property_buffers pid v = [[property_id_u8 pid], to_be_bytes v]"

definition variable_integer_property_buffers :: "property_id \<Rightarrow> variable_byte_integer \<Rightarrow> slices" where
  "variable_integer_property_buffers pid v = [[property_id_u8 pid], encoded v]"

primrec property_to_buffers :: "property \<Rightarrow> slices" where
   "property_to_buffers (P_PayloadFormatIndicator v) = u8_property_buffers PI_PayloadFormatIndicator v"
| "property_to_buffers (P_MessageExpiryInterval v) = u32_property_buffers PI_MessageExpiryInterval v"
| "property_to_buffers (P_ContentType v) = string_property_buffers PI_ContentType v"
| "property_to_buffers (P_ResponseTopic v) = string_property_buffers PI_ResponseTopic v"
| "property_to_buffers (P_CorrelationData v) = binary_property_buffers PI_CorrelationData v"
| "property_to_buffers (P_SubscriptionIdentifier v) = variable_integer_property_buffers PI_SubscriptionIdentifier v"
| "property_to_buffers (P_SessionExpiryInterval v) = u32_property_buffers PI_SessionExpiryInterval v"
| "property_to_buffers (P_AssignedClientIdentifier v) = string_property_buffers PI_AssignedClientIdentifier v"
| "property_to_buffers (P_ServerKeepAlive v) = u16_property_buffers PI_ServerKeepAlive v"
| "property_to_buffers (P_AuthenticationMethod v) = string_property_buffers PI_AuthenticationMethod v"
| "property_to_buffers (P_AuthenticationData v) = binary_property_buffers PI_AuthenticationData v"
| "property_to_buffers (P_RequestProblemInformation v) = u8_property_buffers PI_RequestProblemInformation v"
| "property_to_buffers (P_WillDelayInterval v) = u32_property_buffers PI_WillDelayInterval v"
| "property_to_buffers (P_RequestResponseInformation v) = u8_property_buffers PI_RequestResponseInformation v"
| "property_to_buffers (P_ResponseInformation v) = string_property_buffers PI_ResponseInformation v"
| "property_to_buffers (P_ServerReference v) = string_property_buffers PI_ServerReference v"
| "property_to_buffers (P_ReasonString v) = string_property_buffers PI_ReasonString v"
| "property_to_buffers (P_ReceiveMaximum v) = u16_property_buffers PI_ReceiveMaximum v"
| "property_to_buffers (P_TopicAliasMaximum v) = u16_property_buffers PI_TopicAliasMaximum v"
| "property_to_buffers (P_TopicAlias v) = u16_property_buffers PI_TopicAlias v"
| "property_to_buffers (P_MaximumQos v) = u8_property_buffers PI_MaximumQos v"
| "property_to_buffers (P_RetainAvailable v) = u8_property_buffers PI_RetainAvailable v"
| "property_to_buffers (P_UserProperty v) = string_pair_property_buffers PI_UserProperty v"
| "property_to_buffers (P_MaximumPacketSize v) = u32_property_buffers PI_MaximumPacketSize v"
| "property_to_buffers (P_WildcardSubscriptionAvailable v) = u8_property_buffers PI_WildcardSubscriptionAvailable v"
| "property_to_buffers (P_SubscriptionIdentifierAvailable v) = u8_property_buffers PI_SubscriptionIdentifierAvailable v"
| "property_to_buffers (P_SharedSubscriptionAvailable v) = u8_property_buffers PI_SharedSubscriptionAvailable v"

lemmas property_type_buffers = binary_property_buffers_def string_property_buffers_def
  string_pair_property_buffers_def u8_property_buffers_def u16_property_buffers_def
  u32_property_buffers_def variable_integer_property_buffers_def

definition properties_to_buffers :: "properties \<Rightarrow> slices" where
  "properties_to_buffers props = concat (map property_to_buffers props)"

text \<open>A slice that is left out when it is empty or absent.\<close>

definition nonempty_slice :: "bytes \<Rightarrow> slices" where
  "nonempty_slice bs = (if bs \<noteq> [] then [bs] else [])"

definition pid_buffers :: "'p::len word option \<Rightarrow> slices" where
  "pid_buffers pid = (case pid of None \<Rightarrow> [] | Some i \<Rightarrow> [to_buffer i])"

definition code_buffers :: "u8 option \<Rightarrow> slices" where
  "code_buffers code = (case code of None \<Rightarrow> [] | Some b \<Rightarrow> [[b]])"

section \<open>Packets of v3.1.1\<close>

definition v3_empty_to_buffers :: "v3_empty \<Rightarrow> slices" where
  "v3_empty_to_buffers k = [[v3e_fixed_header k], encoded (v3e_remaining_length k)]"

definition v3_connack_to_buffers :: "v3_connack \<Rightarrow> slices" where
  "v3_connack_to_buffers k =
     [[v3ca_fixed_header k], encoded (v3ca_remaining_length k), [v3ca_ack_flags k], [v3ca_return_code_buf k]]"

definition v3_connect_to_buffers :: "v3_connect \<Rightarrow> slices" where
  "v3_connect_to_buffers k =
     [[v3c_fixed_header k], encoded (v3c_remaining_length k), v3c_protocol_name k, [v3c_protocol_version_buf k],
      [v3c_connect_flags_buf k], v3c_keep_alive_buf k]
       @ ms_to_buffers (v3c_client_id_buf k)
       @ (if v3_will_flag k then ms_to_buffers (v3c_will_topic_buf k) @ mb_to_buffers (v3c_will_payload_buf k) else [])
       @ (if v3_user_name_flag k then ms_to_buffers (v3c_user_name_buf k) else [])
       @ (if v3_password_flag k then mb_to_buffers (v3c_password_buf k) else [])"

definition v3_publish_to_buffers :: "'p::len word v3_publish \<Rightarrow> slices" where
  "v3_publish_to_buffers k =
     [[v3p_fixed_header k], encoded (v3p_remaining_length k)] @ ms_to_buffers (v3p_topic_name_buf k)
       @ pid_buffers (v3p_packet_id_buf k) @ nonempty_slice (v3p_payload_buf k)"

definition v3_ack_to_buffers :: "'p::len word v3_ack \<Rightarrow> slices" where
  "v3_ack_to_buffers k =
     [[v3a_fixed_header k], encoded (v3a_remaining_length k), to_buffer (v3a_packet_id_buf k)]
       @ code_buffers (v3a_reason_code_buf k)"

definition v3_unsuback_to_buffers :: "'p::len word v3_unsuback \<Rightarrow> slices" where
  "v3_unsuback_to_buffers k =
     [[v3ua_fixed_header k], encoded (v3ua_remaining_length k), to_buffer (v3ua_packet_id_buf k)]"

definition v3_entries_head_buffers :: "('p::len word, 'e) v3_entries_packet \<Rightarrow> slices" where
  "v3_entries_head_buffers k =
     [[v3s_fixed_header k], encoded (v3s_remaining_length k), to_buffer (v3s_packet_id_buf k)]"

definition v3_subscribe_to_buffers :: "('p::len word, sub_entry) v3_entries_packet \<Rightarrow> slices" where
  "v3_subscribe_to_buffers k = v3_entries_head_buffers k @ concat (map sub_entry_to_buffers (v3s_entries k))"

definition v3_unsubscribe_to_buffers :: "('p::len word, mqtt_string) v3_entries_packet \<Rightarrow> slices" where
  "v3_unsubscribe_to_buffers k = v3_entries_head_buffers k @ concat (map ms_to_buffers (v3s_entries k))"

definition v3_suback_to_buffers :: "('p::len word, u8) v3_entries_packet \<Rightarrow> slices" where
  "v3_suback_to_buffers k = v3_entries_head_buffers k @ nonempty_slice (v3s_entries k)"

section \<open>Packets of v5.0\<close>

text \<open>The end of an acknowledgement: reason code, property length and properties, as far as they are there.\<close>

definition v5_reason_buffers :: "u8 option \<Rightarrow> variable_byte_integer option \<Rightarrow> properties option \<Rightarrow> slices" where
  "v5_reason_buffers code pl props =
     code_buffers code @ (case pl of None \<Rightarrow> [] | Some n \<Rightarrow> [encoded n])
       @ (case props of None \<Rightarrow> [] | Some ps \<Rightarrow> properties_to_buffers ps)"

definition v5_ack_to_buffers :: "'p::len word v5_ack \<Rightarrow> slices" where
  "v5_ack_to_buffers k =
     [[v5a_fixed_header k], encoded (v5a_remaining_length k), to_buffer (v5a_packet_id_buf k)]
       @ v5_reason_buffers (v5a_reason_code_buf k) (v5a_property_length k) (v5a_props k)"

definition v5_reason_packet_to_buffers :: "v5_reason_packet \<Rightarrow> slices" where
  "v5_reason_packet_to_buffers k =
     [[v5r_fixed_header k], encoded (v5r_remaining_length k)]
       @ v5_reason_buffers (v5r_reason_code_buf k) (v5r_property_length k) (v5r_props k)"

definition v5_connack_to_buffers :: "v5_connack \<Rightarrow> slices" where
  "v5_connack_to_buffers k =
     [[v5ca_fixed_header k], encoded (v5ca_remaining_length k), [v5ca_ack_flags k], [v5ca_reason_code_buf k],
      encoded (v5ca_property_length k)] @ properties_to_buffers (v5ca_props k)"

definition v5_connect_to_buffers :: "v5_connect \<Rightarrow> slices" where
  "v5_connect_to_buffers k =
     [[v5c_fixed_header k], encoded (v5c_remaining_length k), v5c_protocol_name k, [v5c_protocol_version_buf k],
      [v5c_connect_flags_buf k], v5c_keep_alive_buf k, encoded (v5c_property_length k)]
       @ properties_to_buffers (v5c_props k) @ ms_to_buffers (v5c_client_id_buf k)
       @ (if v5_will_flag k then [encoded (v5c_will_property_length k)] @ properties_to_buffers (v5c_will_props k)
            @ ms_to_buffers (v5c_will_topic_buf k) @ mb_to_buffers (v5c_will_payload_buf k) else [])
       @ (if v5_user_name_flag k then ms_to_buffers (v5c_user_name_buf k) else [])
       @ (if v5_password_flag k then mb_to_buffers (v5c_password_buf k) else [])"

definition v5_publish_to_buffers :: "'p::len word v5_publish \<Rightarrow> slices" where
  "v5_publish_to_buffers k =
     [[v5p_fixed_header k], encoded (v5p_remaining_length k)] @ ms_to_buffers (v5p_topic_name_buf k)
       @ pid_buffers (v5p_packet_id_buf k) @ [encoded (v5p_property_length k)]
       @ properties_to_buffers (v5p_props k) @ nonempty_slice (v5p_payload_buf k)"

definition v5_entries_head_buffers :: "('p::len word, 'e) v5_entries_packet \<Rightarrow> slices" where
  "v5_entries_head_buffers k =
     [[v5s_fixed_header k], encoded (v5s_remaining_length k), to_buffer (v5s_packet_id_buf k),
      encoded (v5s_property_length k)] @ properties_to_buffers (v5s_props k)"

definition v5_subscribe_to_buffers :: "('p::len word, sub_entry) v5_entries_packet \<Rightarrow> slices" where
  "v5_subscribe_to_buffers k = v5_entries_head_buffers k @ concat (map sub_entry_to_buffers (v5s_entries k))"

definition v5_unsubscribe_to_buffers :: "('p::len word, mqtt_string) v5_entries_packet \<Rightarrow> slices" where
  "v5_unsubscribe_to_buffers k = v5_entries_head_buffers k @ concat (map ms_to_buffers (v5s_entries k))"

text \<open>SUBACK and UNSUBACK: the reason codes are one slice.\<close>

definition v5_suback_to_buffers :: "('p::len word, u8) v5_entries_packet \<Rightarrow> slices" where
  "v5_suback_to_buffers k = v5_entries_head_buffers k @ nonempty_slice (v5s_entries k)"

definition v5_unsuback_to_buffers :: "('p::len word, u8) v5_entries_packet \<Rightarrow> slices" where
  "v5_unsuback_to_buffers k = v5_entries_head_buffers k @ nonempty_slice (v5s_entries k)"

section \<open>The sum types\<close>

primrec gp_to_buffers :: "'p::len word packet \<Rightarrow> slices" where
   "gp_to_buffers (V3_Connect p) = v3_connect_to_buffers p"
| "gp_to_buffers (V3_Connack p) = v3_connack_to_buffers p"
| "gp_to_buffers (V3_Subscribe p) = v3_subscribe_to_buffers p"
| "gp_to_buffers (V3_Suback p) = v3_suback_to_buffers p"
| "gp_to_buffers (V3_Unsubscribe p) = v3_unsubscribe_to_buffers p"
| "gp_to_buffers (V3_Unsuback p) = v3_unsuback_to_buffers p"
| "gp_to_buffers (V3_Publish p) = v3_publish_to_buffers p"
| "gp_to_buffers (V3_Puback p) = v3_ack_to_buffers p"
| "gp_to_buffers (V3_Pubrec p) = v3_ack_to_buffers p"
| "gp_to_buffers (V3_Pubrel p) = v3_ack_to_buffers p"
| "gp_to_buffers (V3_Pubcomp p) = v3_ack_to_buffers p"
| "gp_to_buffers (V3_Disconnect p) = v3_empty_to_buffers p"
| "gp_to_buffers (V3_Pingreq p) = v3_empty_to_buffers p"
| "gp_to_buffers (V3_Pingresp p) = v3_empty_to_buffers p"
| "gp_to_buffers (V5_Connect p) = v5_connect_to_buffers p"
| "gp_to_buffers (V5_Connack p) = v5_connack_to_buffers p"
| "gp_to_buffers (V5_Subscribe p) = v5_subscribe_to_buffers p"
| "gp_to_buffers (V5_Suback p) = v5_suback_to_buffers p"
| "gp_to_buffers (V5_Unsubscribe p) = v5_unsubscribe_to_buffers p"
| "gp_to_buffers (V5_Unsuback p) = v5_unsuback_to_buffers p"
| "gp_to_buffers (V5_Publish p) = v5_publish_to_buffers p"
| "gp_to_buffers (V5_Puback p) = v5_ack_to_buffers p"
| "gp_to_buffers (V5_Pubrec p) = v5_ack_to_buffers p"
| "gp_to_buffers (V5_Pubrel p) = v5_ack_to_buffers p"
| "gp_to_buffers (V5_Pubcomp p) = v5_ack_to_buffers p"
| "gp_to_buffers (V5_Disconnect p) = v5_reason_packet_to_buffers p"
| "gp_to_buffers (V5_Pingreq p) = v3_empty_to_buffers p"
| "gp_to_buffers (V5_Pingresp p) = v3_empty_to_buffers p"
| "gp_to_buffers (V5_Auth p) = v5_reason_packet_to_buffers p"

primrec sp_to_buffers :: "'p::len word store_packet \<Rightarrow> slices" where
  "sp_to_buffers (S_V3_Publish p) = v3_publish_to_buffers p"
| "sp_to_buffers (S_V3_Pubrel p) = v3_ack_to_buffers p"
| "sp_to_buffers (S_V5_Publish p) = v5_publish_to_buffers p"
| "sp_to_buffers (S_V5_Pubrel p) = v5_ack_to_buffers p"

section \<open>The slices are the packet\<close>

text \<open>Each part that is written slice by slice is, put together, the part that is copied into one buffer.\<close>

named_theorems gathers

lemma concat_vbi [gathers]: "concat (vbi_to_buffers n) = vbi_to_continuous_buffer n"
  by (simp add: vbi_to_buffers_def vbi_to_continuous_buffer_def)

lemma concat_ms [gathers]: "concat (ms_to_buffers s) = ms_to_continuous_buffer s"
  by (simp add: ms_to_buffers_def ms_to_continuous_buffer_def)

lemma concat_mb [gathers]: "concat (mb_to_buffers b) = mb_to_continuous_buffer b"
  by (simp add: mb_to_buffers_def mb_to_continuous_buffer_def)

lemma concat_sub_entry [gathers]: "concat (sub_entry_to_buffers e) = sub_entry_to_continuous_buffer e"
  by (simp add: sub_entry_to_buffers_def sub_entry_to_continuous_buffer_def gathers)

lemma concat_property [gathers]: "concat (property_to_buffers p) = property_to_continuous_buffer p"
  by (cases p) (simp_all add: property_type_buffers property_to_continuous_buffer_def vbi_to_continuous_buffer_def gathers)

lemma concat_each:
  assumes "\<And>x. concat (f x) = g x"
  shows "concat (concat (map f xs)) = concat (map g xs)"
  by (induction xs) (simp_all add: assms)

lemmas concat_entries [gathers] =
  concat_each [OF concat_sub_entry] concat_each [OF concat_ms]

lemma concat_properties [gathers]: "concat (properties_to_buffers ps) = properties_to_continuous_buffer ps"
  by (simp add: properties_to_buffers_def properties_to_continuous_buffer_def concat_each [OF concat_property])

lemma concat_nonempty [gathers]: "concat (nonempty_slice bs) = bs"
  by (simp add: nonempty_slice_def)

lemma concat_singletons [gathers]: "concat (map (\<lambda>b. [b]) bs) = bs"
  by (induction bs) simp_all

lemma concat_pid [gathers]: "concat (pid_buffers i) = pid_bytes i"
  by (cases i) (simp_all add: pid_buffers_def pid_bytes_def)

lemma concat_code [gathers]: "concat (code_buffers c) = (case c of None \<Rightarrow> [] | Some b \<Rightarrow> [b])"
  by (cases c) (simp_all add: code_buffers_def)

lemma concat_reason [gathers]: "concat (v5_reason_buffers c pl ps) = v5_reason_buffer c pl ps"
  by (cases pl; cases ps) (simp_all add: v5_reason_buffers_def v5_reason_buffer_def gathers)

lemmas v3_buffers = v3_empty_to_buffers_def v3_connack_to_buffers_def v3_connect_to_buffers_def
  v3_publish_to_buffers_def v3_ack_to_buffers_def v3_unsuback_to_buffers_def v3_entries_head_buffers_def
  v3_subscribe_to_buffers_def v3_unsubscribe_to_buffers_def v3_suback_to_buffers_def
  v3_empty_to_continuous_buffer_def v3_connack_to_continuous_buffer_def v3_connect_to_continuous_buffer_def
  v3_publish_to_continuous_buffer_def v3_ack_to_continuous_buffer_def v3_unsuback_to_continuous_buffer_def
  v3_entries_to_continuous_buffer_def v3_subscribe_to_continuous_buffer_def
  v3_unsubscribe_to_continuous_buffer_def v3_suback_to_continuous_buffer_def

lemmas v5_buffers = v5_ack_to_buffers_def v5_reason_packet_to_buffers_def v5_connack_to_buffers_def
  v5_connect_to_buffers_def v5_publish_to_buffers_def v5_entries_head_buffers_def v5_subscribe_to_buffers_def
  v5_unsubscribe_to_buffers_def v5_suback_to_buffers_def v5_unsuback_to_buffers_def
  v5_ack_to_continuous_buffer_def v5_reason_packet_to_continuous_buffer_def v5_connack_to_continuous_buffer_def
  v5_connect_to_continuous_buffer_def v5_publish_to_continuous_buffer_def v5_entries_to_continuous_buffer_def

text \<open>
  C29: vectored and plain writing of a packet put the same bytes on the wire.  For every packet of both
  versions, and every packet kept for retransmission, the slices of \<open>to_buffers\<close>, one after the other,
  are the bytes of \<open>to_continuous_buffer\<close>.
\<close>

theorem buffers_are_continuous:
  "concat (gp_to_buffers packet) = gp_to_continuous_buffer packet
   \<and> concat (sp_to_buffers stored) = sp_to_continuous_buffer stored"
proof (rule conjI)
  show "concat (gp_to_buffers packet) = gp_to_continuous_buffer packet"
    by (cases packet) (simp_all add: v3_buffers v5_buffers gathers)
  show "concat (sp_to_buffers stored) = sp_to_continuous_buffer stored"
    by (cases stored) (simp_all add: v3_buffers v5_buffers gathers)
qed

end
