(* ===== verification/Value_Interface.thy ===== *)
theory Value_Interface
  imports Packet_Setters Io_Buffers
begin

text \<open>
  The small methods of the values that packets are made of: the conversions between result codes and
  errors (\<^verbatim>\<open>result_code.rs\<close>), the comparisons and searches of strings and binary data
  (\<^verbatim>\<open>packet/mqtt_string.rs\<close>, \<^verbatim>\<open>mqtt_binary.rs\<close>), the accessors of subscription entries
  (\<^verbatim>\<open>sub_entry.rs\<close>), the methods of the kinds of properties (\<^verbatim>\<open>property.rs\<close>), and what
  applications use of the cursor and of raw packets (\<^verbatim>\<open>common/cursor.rs\<close>,
  \<^verbatim>\<open>connection/packet_builder.rs\<close>).
\<close>

section \<open>Result codes\<close>

definition mqtt_error_of_uninitialized_field :: "mqtt_error" where
  "mqtt_error_of_uninitialized_field = MalformedPacket"

text \<open>The errors of the reason codes: the error with the same byte, or ProtocolError.\<close>

definition mqtt_error_of_connect :: "connect_reason_code \<Rightarrow> mqtt_error" where
  "mqtt_error_of_connect code = (case mqtt_error_try_from (connect_reason_code_u8 code) of Some e \<Rightarrow> e | None \<Rightarrow> ProtocolError)"

definition mqtt_error_of_disconnect :: "disconnect_reason_code \<Rightarrow> mqtt_error" where
  "mqtt_error_of_disconnect code = (case mqtt_error_try_from (disconnect_reason_code_u8 code) of Some e \<Rightarrow> e | None \<Rightarrow> ProtocolError)"

definition mqtt_error_of_suback :: "suback_reason_code \<Rightarrow> mqtt_error" where
  "mqtt_error_of_suback code = (case mqtt_error_try_from (suback_reason_code_u8 code) of Some e \<Rightarrow> e | None \<Rightarrow> ProtocolError)"

definition mqtt_error_of_unsuback :: "unsuback_reason_code \<Rightarrow> mqtt_error" where
  "mqtt_error_of_unsuback code = (case mqtt_error_try_from (unsuback_reason_code_u8 code) of Some e \<Rightarrow> e | None \<Rightarrow> ProtocolError)"

definition mqtt_error_of_puback :: "puback_reason_code \<Rightarrow> mqtt_error" where
  "mqtt_error_of_puback code = (case mqtt_error_try_from (puback_reason_code_u8 code) of Some e \<Rightarrow> e | None \<Rightarrow> ProtocolError)"

definition mqtt_error_of_pubrec :: "pubrec_reason_code \<Rightarrow> mqtt_error" where
  "mqtt_error_of_pubrec code = (case mqtt_error_try_from (pubrec_reason_code_u8 code) of Some e \<Rightarrow> e | None \<Rightarrow> ProtocolError)"

definition mqtt_error_of_pubrel :: "pubrel_reason_code \<Rightarrow> mqtt_error" where
  "mqtt_error_of_pubrel code = (case mqtt_error_try_from (pubrel_reason_code_u8 code) of Some e \<Rightarrow> e | None \<Rightarrow> ProtocolError)"

definition mqtt_error_of_pubcomp :: "pubcomp_reason_code \<Rightarrow> mqtt_error" where
  "mqtt_error_of_pubcomp code = (case mqtt_error_try_from (pubcomp_reason_code_u8 code) of Some e \<Rightarrow> e | None \<Rightarrow> ProtocolError)"

definition mqtt_error_of_auth :: "auth_reason_code \<Rightarrow> mqtt_error" where
  "mqtt_error_of_auth code = (case mqtt_error_try_from (auth_reason_code_u8 code) of Some e \<Rightarrow> e | None \<Rightarrow> ProtocolError)"

definition connect_return_code_is_failure :: "connect_return_code \<Rightarrow> bool" where
  "connect_return_code_is_failure c \<longleftrightarrow> \<not> connect_return_code_is_success c"

definition suback_return_code_is_failure :: "suback_return_code \<Rightarrow> bool" where
  "suback_return_code_is_failure c \<longleftrightarrow> \<not> suback_return_code_is_success c"

definition suback_reason_code_is_failure :: "suback_reason_code \<Rightarrow> bool" where
  "suback_reason_code_is_failure c \<longleftrightarrow> \<not> suback_reason_code_is_success c"

definition unsuback_reason_code_is_failure :: "unsuback_reason_code \<Rightarrow> bool" where
  "unsuback_reason_code_is_failure c \<longleftrightarrow> \<not> unsuback_reason_code_is_success c"

definition puback_reason_code_is_failure :: "puback_reason_code \<Rightarrow> bool" where
  "puback_reason_code_is_failure c \<longleftrightarrow> \<not> puback_reason_code_is_success c"

definition pubrec_reason_code_is_failure :: "pubrec_reason_code \<Rightarrow> bool" where
  "pubrec_reason_code_is_failure c \<longleftrightarrow> \<not> pubrec_reason_code_is_success c"

definition pubrel_reason_code_is_failure :: "pubrel_reason_code \<Rightarrow> bool" where
  "pubrel_reason_code_is_failure c \<longleftrightarrow> \<not> pubrel_reason_code_is_success c"

definition pubcomp_reason_code_is_failure :: "pubcomp_reason_code \<Rightarrow> bool" where
  "pubcomp_reason_code_is_failure c \<longleftrightarrow> \<not> pubcomp_reason_code_is_success c"

definition auth_reason_code_is_failure :: "auth_reason_code \<Rightarrow> bool" where
  "auth_reason_code_is_failure c \<longleftrightarrow> \<not> auth_reason_code_is_success c"

lemmas error_of_reason_defs = mqtt_error_of_connect_def mqtt_error_of_disconnect_def mqtt_error_of_suback_def mqtt_error_of_unsuback_def mqtt_error_of_puback_def mqtt_error_of_pubrec_def mqtt_error_of_pubrel_def mqtt_error_of_pubcomp_def mqtt_error_of_auth_def

text \<open>
  Codes of failure keep their byte as an error but for three that no error has; these and the codes
  of success become ProtocolError.
\<close>

lemma error_of_reason:
  "mqtt_error_of_connect c0 = mqtt_error_of_u8 (connect_reason_code_u8 c0)"
  "mqtt_error_of_disconnect c1 = mqtt_error_of_u8 (disconnect_reason_code_u8 c1)"
  "mqtt_error_of_suback c2 = mqtt_error_of_u8 (suback_reason_code_u8 c2)"
  "mqtt_error_of_unsuback c3 = mqtt_error_of_u8 (unsuback_reason_code_u8 c3)"
  "mqtt_error_of_puback c4 = mqtt_error_of_u8 (puback_reason_code_u8 c4)"
  "mqtt_error_of_pubrec c5 = mqtt_error_of_u8 (pubrec_reason_code_u8 c5)"
  "mqtt_error_of_pubrel c6 = mqtt_error_of_u8 (pubrel_reason_code_u8 c6)"
  "mqtt_error_of_pubcomp c7 = mqtt_error_of_u8 (pubcomp_reason_code_u8 c7)"
  "mqtt_error_of_auth c8 = mqtt_error_of_u8 (auth_reason_code_u8 c8)"
  by (simp_all add: error_of_reason_defs mqtt_error_of_u8_def)

lemma error_keeps_code:
  "mqtt_error_try_from b = Some e \<Longrightarrow> mqtt_error_code (mqtt_error_of_u8 b) = ucast b"
  by (auto simp: mqtt_error_try_from_def mqtt_error_of_u8_def split: if_splits)

text \<open>A reason for a disconnection that is a failure comes back from the error it is made into.\<close>

lemma disconnect_error_roundtrip:
  "0x80 \<le> disconnect_reason_code_u8 c \<Longrightarrow> disconnect_of_mqtt_error (mqtt_error_of_disconnect c) = c"
  by (cases c) (simp_all add: mqtt_error_of_disconnect_def mqtt_error_try_from_def disconnect_of_mqtt_error_def)

section \<open>Strings and binary data\<close>

text \<open>The character is given by its UTF-8 bytes; UTF-8 is self-synchronizing, so a search of bytes is a search of characters.\<close>

definition ms_contains :: "mqtt_string \<Rightarrow> str \<Rightarrow> bool" where
  "ms_contains ms c \<longleftrightarrow> (\<exists>n \<le> length (ms_as_str ms). take (length c) (drop n (ms_as_str ms)) = c)"

definition ms_starts_with :: "mqtt_string \<Rightarrow> str \<Rightarrow> bool" where
  "ms_starts_with ms p \<longleftrightarrow> take (length p) (ms_as_str ms) = p"

definition ms_ends_with :: "mqtt_string \<Rightarrow> str \<Rightarrow> bool" where
  "ms_ends_with ms s \<longleftrightarrow> length s \<le> length (ms_as_str ms) \<and> drop (length (ms_as_str ms) - length s) (ms_as_str ms) = s"

definition ms_as_ref :: "mqtt_string \<Rightarrow> str" where
  "ms_as_ref ms = ms_as_str ms"

definition ms_deref :: "mqtt_string \<Rightarrow> str" where
  "ms_deref ms = ms_as_str ms"

definition ms_eq_str :: "mqtt_string \<Rightarrow> str \<Rightarrow> bool" where
  "ms_eq_str ms s \<longleftrightarrow> ms_as_str ms = s"

definition ms_eq_str_ref :: "mqtt_string \<Rightarrow> str \<Rightarrow> bool" where
  "ms_eq_str_ref ms s \<longleftrightarrow> ms_as_str ms = s"

definition ms_eq_string :: "mqtt_string \<Rightarrow> str \<Rightarrow> bool" where
  "ms_eq_string ms s \<longleftrightarrow> ms_as_str ms = s"

text \<open>\<open>hash_str\<close> is the hash of \<open>str\<close> in the standard library.\<close>

definition ms_hash :: "(str \<Rightarrow> 'h \<Rightarrow> 'h) \<Rightarrow> mqtt_string \<Rightarrow> 'h \<Rightarrow> 'h" where
  "ms_hash hash_str ms state = hash_str (ms_as_str ms) state"

definition ms_try_from_str :: "str \<Rightarrow> (mqtt_string, mqtt_error) result" where
  "ms_try_from_str s = ms_new s"

definition ms_try_from_string :: "str \<Rightarrow> (mqtt_string, mqtt_error) result" where
  "ms_try_from_string s = ms_new s"

definition mb_is_empty :: "mqtt_binary \<Rightarrow> bool" where
  "mb_is_empty b \<longleftrightarrow> mb_len b = 0"

definition mb_as_ref :: "mqtt_binary \<Rightarrow> bytes" where
  "mb_as_ref b = mb_as_slice b"

definition mb_deref :: "mqtt_binary \<Rightarrow> bytes" where
  "mb_deref b = mb_as_slice b"

definition mb_try_from_str :: "str \<Rightarrow> (mqtt_binary, mqtt_error) result" where
  "mb_try_from_str s = mb_new s"

lemma ms_starts_with_prefix: "ms_starts_with ms p \<longleftrightarrow> (\<exists>t. ms_as_str ms = p @ t)"
  by (metis ms_starts_with_def append_eq_conv_conj)

lemma ms_ends_with_suffix: "ms_ends_with ms s \<longleftrightarrow> (\<exists>t. ms_as_str ms = t @ s)"
proof
  assume "ms_ends_with ms s"
  then show "\<exists>t. ms_as_str ms = t @ s"
    by (metis append_take_drop_id ms_ends_with_def)
qed (auto simp: ms_ends_with_def)

lemma ms_contains_infix: "ms_contains ms c \<longleftrightarrow> (\<exists>a b. ms_as_str ms = a @ c @ b)"
proof
  assume "ms_contains ms c"
  then obtain n where "take (length c) (drop n (ms_as_str ms)) = c" by (auto simp: ms_contains_def)
  then show "\<exists>a b. ms_as_str ms = a @ c @ b" by (metis append_take_drop_id)
next
  assume "\<exists>a b. ms_as_str ms = a @ c @ b"
  then obtain a b where "ms_as_str ms = a @ c @ b" by blast
  then show "ms_contains ms c" unfolding ms_contains_def by (intro exI [of _ "length a"]) simp
qed

section \<open>Subscription entries\<close>

definition sub_opts_to_buffer :: "u8 \<Rightarrow> bytes" where
  "sub_opts_to_buffer opts = [opts]"

definition sub_opts_default :: "u8" where
  "sub_opts_default = sub_opts_new"

definition se_topic_filter_str :: "sub_entry \<Rightarrow> str" where
  "se_topic_filter_str e = ms_as_str (se_topic_filter e)"

definition se_options :: "sub_entry \<Rightarrow> u8" where
  "se_options e = se_sub_opts e"

definition sub_entry_default :: "sub_entry rust" where
  "sub_entry_default = (case ms_new [] of Ok t \<Rightarrow> Ret \<lparr>se_topic_filter = t, se_sub_opts = sub_opts_default\<rparr> | Err _ \<Rightarrow> Panic Unwrap_Failed)"

lemma sub_entry_default_empty:
  "\<exists>e. sub_entry_default = Ret e \<and> se_topic_filter_str e = [] \<and> se_options e = 0"
  by (simp add: sub_entry_default_def ms_new_def se_topic_filter_str_def ms_as_str_def len_prefix_def se_options_def
      sub_opts_default_def sub_opts_new_def Let_def)

section \<open>The kinds of properties\<close>

text \<open>The methods that the macros give to each kind; \<open>pid\<close> is the identifier of the property type.\<close>

definition binary_property_to_continuous_buffer :: "property_id \<Rightarrow> mqtt_binary \<Rightarrow> bytes" where
  "binary_property_to_continuous_buffer pid v = property_id_u8 pid # mb_to_continuous_buffer v"

definition binary_property_size :: "mqtt_binary \<Rightarrow> nat" where
  "binary_property_size v = 1 + mb_size v"

definition binary_property_val :: "mqtt_binary \<Rightarrow> bytes" where
  "binary_property_val v = mb_as_slice v"

definition string_property_to_continuous_buffer :: "property_id \<Rightarrow> mqtt_string \<Rightarrow> bytes" where
  "string_property_to_continuous_buffer pid v = property_id_u8 pid # ms_to_continuous_buffer v"

definition string_property_size :: "mqtt_string \<Rightarrow> nat" where
  "string_property_size v = 1 + ms_size v"

definition string_property_val :: "mqtt_string \<Rightarrow> str" where
  "string_property_val v = ms_as_str v"

definition string_pair_property_to_continuous_buffer :: "property_id \<Rightarrow> (mqtt_string \<times> mqtt_string) \<Rightarrow> bytes" where
  "string_pair_property_to_continuous_buffer pid v = property_id_u8 pid # ms_to_continuous_buffer (fst v) @ ms_to_continuous_buffer (snd v)"

definition string_pair_property_size :: "(mqtt_string \<times> mqtt_string) \<Rightarrow> nat" where
  "string_pair_property_size v = 1 + ms_size (fst v) + ms_size (snd v)"

definition string_pair_property_key :: "(mqtt_string \<times> mqtt_string) \<Rightarrow> str" where
  "string_pair_property_key v = ms_as_str (fst v)"

definition string_pair_property_val :: "(mqtt_string \<times> mqtt_string) \<Rightarrow> str" where
  "string_pair_property_val v = ms_as_str (snd v)"

definition u8_property_to_continuous_buffer :: "property_id \<Rightarrow> u8 \<Rightarrow> bytes" where
  "u8_property_to_continuous_buffer pid v = property_id_u8 pid # [v]"

definition u8_property_size :: "u8 \<Rightarrow> nat" where
  "u8_property_size v = 1 + length [v]"

definition u8_property_val :: "u8 \<Rightarrow> u8" where
  "u8_property_val v = v"

definition u16_property_to_continuous_buffer :: "property_id \<Rightarrow> u16 \<Rightarrow> bytes" where
  "u16_property_to_continuous_buffer pid v = property_id_u8 pid # to_be_bytes v"

definition u16_property_size :: "u16 \<Rightarrow> nat" where
  "u16_property_size v = 1 + length (to_be_bytes v)"

definition u16_property_val :: "u16 \<Rightarrow> u16" where
  "u16_property_val v = v"

definition u32_property_to_continuous_buffer :: "property_id \<Rightarrow> u32 \<Rightarrow> bytes" where
  "u32_property_to_continuous_buffer pid v = property_id_u8 pid # to_be_bytes v"

definition u32_property_size :: "u32 \<Rightarrow> nat" where
  "u32_property_size v = 1 + length (to_be_bytes v)"

definition u32_property_val :: "u32 \<Rightarrow> u32" where
  "u32_property_val v = v"

definition variable_integer_property_to_continuous_buffer :: "property_id \<Rightarrow> variable_byte_integer \<Rightarrow> bytes" where
  "variable_integer_property_to_continuous_buffer pid v = property_id_u8 pid # vbi_to_continuous_buffer v"

definition variable_integer_property_size :: "variable_byte_integer \<Rightarrow> nat" where
  "variable_integer_property_size v = 1 + vbi_size v"

definition variable_integer_property_val :: "variable_byte_integer \<Rightarrow> u32" where
  "variable_integer_property_val v = to_u32 v"

definition property_kind_id :: "property_id \<Rightarrow> property_id" where
  "property_kind_id pid = pid"

lemmas property_kind_defs = binary_property_to_continuous_buffer_def binary_property_size_def string_property_to_continuous_buffer_def string_property_size_def string_pair_property_to_continuous_buffer_def string_pair_property_size_def u8_property_to_continuous_buffer_def u8_property_size_def u16_property_to_continuous_buffer_def u16_property_size_def u32_property_to_continuous_buffer_def u32_property_size_def variable_integer_property_to_continuous_buffer_def variable_integer_property_size_def

text \<open>A property is encoded, and measured, by its kind.\<close>

lemma property_kinds_encode:
  "property_to_continuous_buffer (P_PayloadFormatIndicator v0) = u8_property_to_continuous_buffer PI_PayloadFormatIndicator v0"
  "property_to_continuous_buffer (P_MessageExpiryInterval v1) = u32_property_to_continuous_buffer PI_MessageExpiryInterval v1"
  "property_to_continuous_buffer (P_ContentType v2) = string_property_to_continuous_buffer PI_ContentType v2"
  "property_to_continuous_buffer (P_ResponseTopic v3) = string_property_to_continuous_buffer PI_ResponseTopic v3"
  "property_to_continuous_buffer (P_CorrelationData v4) = binary_property_to_continuous_buffer PI_CorrelationData v4"
  "property_to_continuous_buffer (P_SubscriptionIdentifier v5) = variable_integer_property_to_continuous_buffer PI_SubscriptionIdentifier v5"
  "property_to_continuous_buffer (P_SessionExpiryInterval v6) = u32_property_to_continuous_buffer PI_SessionExpiryInterval v6"
  "property_to_continuous_buffer (P_AssignedClientIdentifier v7) = string_property_to_continuous_buffer PI_AssignedClientIdentifier v7"
  "property_to_continuous_buffer (P_ServerKeepAlive v8) = u16_property_to_continuous_buffer PI_ServerKeepAlive v8"
  "property_to_continuous_buffer (P_AuthenticationMethod v9) = string_property_to_continuous_buffer PI_AuthenticationMethod v9"
  "property_to_continuous_buffer (P_AuthenticationData v10) = binary_property_to_continuous_buffer PI_AuthenticationData v10"
  "property_to_continuous_buffer (P_RequestProblemInformation v11) = u8_property_to_continuous_buffer PI_RequestProblemInformation v11"
  "property_to_continuous_buffer (P_WillDelayInterval v12) = u32_property_to_continuous_buffer PI_WillDelayInterval v12"
  "property_to_continuous_buffer (P_RequestResponseInformation v13) = u8_property_to_continuous_buffer PI_RequestResponseInformation v13"
  "property_to_continuous_buffer (P_ResponseInformation v14) = string_property_to_continuous_buffer PI_ResponseInformation v14"
  "property_to_continuous_buffer (P_ServerReference v15) = string_property_to_continuous_buffer PI_ServerReference v15"
  "property_to_continuous_buffer (P_ReasonString v16) = string_property_to_continuous_buffer PI_ReasonString v16"
  "property_to_continuous_buffer (P_ReceiveMaximum v17) = u16_property_to_continuous_buffer PI_ReceiveMaximum v17"
  "property_to_continuous_buffer (P_TopicAliasMaximum v18) = u16_property_to_continuous_buffer PI_TopicAliasMaximum v18"
  "property_to_continuous_buffer (P_TopicAlias v19) = u16_property_to_continuous_buffer PI_TopicAlias v19"
  "property_to_continuous_buffer (P_MaximumQos v20) = u8_property_to_continuous_buffer PI_MaximumQos v20"
  "property_to_continuous_buffer (P_RetainAvailable v21) = u8_property_to_continuous_buffer PI_RetainAvailable v21"
  "property_to_continuous_buffer (P_UserProperty v22) = string_pair_property_to_continuous_buffer PI_UserProperty v22"
  "property_to_continuous_buffer (P_MaximumPacketSize v23) = u32_property_to_continuous_buffer PI_MaximumPacketSize v23"
  "property_to_continuous_buffer (P_WildcardSubscriptionAvailable v24) = u8_property_to_continuous_buffer PI_WildcardSubscriptionAvailable v24"
  "property_to_continuous_buffer (P_SubscriptionIdentifierAvailable v25) = u8_property_to_continuous_buffer PI_SubscriptionIdentifierAvailable v25"
  "property_to_continuous_buffer (P_SharedSubscriptionAvailable v26) = u8_property_to_continuous_buffer PI_SharedSubscriptionAvailable v26"
  by (simp_all add: property_kind_defs property_to_continuous_buffer_def split: prod.split)

lemma property_kinds_measure:
  "property_size (P_PayloadFormatIndicator v0) = u8_property_size v0"
  "property_size (P_MessageExpiryInterval v1) = u32_property_size v1"
  "property_size (P_ContentType v2) = string_property_size v2"
  "property_size (P_ResponseTopic v3) = string_property_size v3"
  "property_size (P_CorrelationData v4) = binary_property_size v4"
  "property_size (P_SubscriptionIdentifier v5) = variable_integer_property_size v5"
  "property_size (P_SessionExpiryInterval v6) = u32_property_size v6"
  "property_size (P_AssignedClientIdentifier v7) = string_property_size v7"
  "property_size (P_ServerKeepAlive v8) = u16_property_size v8"
  "property_size (P_AuthenticationMethod v9) = string_property_size v9"
  "property_size (P_AuthenticationData v10) = binary_property_size v10"
  "property_size (P_RequestProblemInformation v11) = u8_property_size v11"
  "property_size (P_WillDelayInterval v12) = u32_property_size v12"
  "property_size (P_RequestResponseInformation v13) = u8_property_size v13"
  "property_size (P_ResponseInformation v14) = string_property_size v14"
  "property_size (P_ServerReference v15) = string_property_size v15"
  "property_size (P_ReasonString v16) = string_property_size v16"
  "property_size (P_ReceiveMaximum v17) = u16_property_size v17"
  "property_size (P_TopicAliasMaximum v18) = u16_property_size v18"
  "property_size (P_TopicAlias v19) = u16_property_size v19"
  "property_size (P_MaximumQos v20) = u8_property_size v20"
  "property_size (P_RetainAvailable v21) = u8_property_size v21"
  "property_size (P_UserProperty v22) = string_pair_property_size v22"
  "property_size (P_MaximumPacketSize v23) = u32_property_size v23"
  "property_size (P_WildcardSubscriptionAvailable v24) = u8_property_size v24"
  "property_size (P_SubscriptionIdentifierAvailable v25) = u8_property_size v25"
  "property_size (P_SharedSubscriptionAvailable v26) = u8_property_size v26"
  by (simp_all add: property_kind_defs split: prod.split)

section \<open>The cursor and raw packets\<close>

definition cursor_position :: "cursor \<Rightarrow> nat" where
  "cursor_position c = pos c"

definition cursor_set_position :: "nat \<Rightarrow> cursor \<Rightarrow> cursor" where
  "cursor_set_position p c = c\<lparr>pos := p\<rparr>"

definition cursor_get_ref :: "cursor \<Rightarrow> bytes" where
  "cursor_get_ref c = inner c"

text \<open>The sum saturates in the source, at a value that no slice has as its length.\<close>

definition cursor_read_bytes :: "cursor \<Rightarrow> nat \<Rightarrow> bytes option \<times> cursor" where
  "cursor_read_bytes c count =
     (if pos c + count \<le> length (inner c)
      then (Some (take count (drop (pos c) (inner c))), c\<lparr>pos := pos c + count\<rparr>) else (None, c))"

definition cursor_read_u8 :: "cursor \<Rightarrow> u8 option \<times> cursor" where
  "cursor_read_u8 c =
     (if pos c < length (inner c) then (Some (inner c ! pos c), c\<lparr>pos := pos c + 1\<rparr>) else (None, c))"

definition data_len :: "packet_data \<Rightarrow> u32 rust" where
  "data_len d = (let n = length (data_as_slice d) in if n < 2 ^ 32 then Ret (of_nat n) else Panic Unwrap_Failed)"

definition data_is_empty :: "packet_data \<Rightarrow> bool rust" where
  "data_is_empty d = rbind (data_len d) (\<lambda>n. Ret (n = 0))"

text \<open>
  The three ways to take bytes agree: \<open>read_bytes\<close> is \<open>read_exact\<close> into a buffer of its own, \<open>read_u8\<close>
  takes one byte, and what is left is \<open>remaining_slice\<close>.
\<close>

lemma cursor_reads_agree:
  assumes "pos c \<le> length (inner c)"
  shows "cursor_read_bytes c n = (case cursor_read_exact c n of Some (bs, c') \<Rightarrow> (Some bs, c') | None \<Rightarrow> (None, c))"
    and "cursor_read_u8 c = (case cursor_read_bytes c 1 of (Some bs, c') \<Rightarrow> (Some (hd bs), c') | (None, c') \<Rightarrow> (None, c'))"
    and "cursor_read_bytes c n = (Some bs, c') \<Longrightarrow> bs @ remaining_slice c' = remaining_slice c"
  using assms
  by (auto simp: cursor_read_bytes_def cursor_read_exact_def cursor_read_u8_def remaining_slice_def Let_def
      hd_drop_conv_nth take_Suc_conv_app_nth add.commute split: if_splits simp flip: drop_drop)

end
