(* ===== verification/Rendering_Base.thy ===== *)
theory Rendering_Base
  imports Packets_V311 Property_Access
begin

text \<open>
  How values are shown: the \<^verbatim>\<open>Serialize\<close> and \<^verbatim>\<open>Display\<close> implementations of the result codes
  (\<^verbatim>\<open>src/mqtt/result_code.rs\<close>), the small enumerations, the strings, the properties and the
  subscription entries.  A \<^verbatim>\<open>Serialize\<close> implementation is the value it announces to the
  serializer, in the data model of serde; \<^verbatim>\<open>serde_json::to_string\<close>, which is not part of this
  repository, is the parameter \<open>js\<close> of what is displayed.
\<close>

section \<open>The data model of serde\<close>

text \<open>
  The calls that the implementations make on a serializer, as data.  An integer of any width is a
  \<open>S_UInt\<close>.  A structure has its name, the number of fields announced in \<open>serialize_struct\<close>, and the
  fields in the order of the \<open>serialize_field\<close> calls.
\<close>

datatype ser =
    S_Bool bool
  | S_UInt nat
  | S_Str str
  | S_Bytes bytes
  | S_None
  | S_Some ser
  | S_Seq "ser list"
  | S_Unit_Variant string string
  | S_Newtype_Variant string string ser
  | S_Struct string nat "(string \<times> ser) list"

text \<open>An ASCII literal of the source, as the bytes of a \<open>str\<close>.\<close>

definition lit :: "string \<Rightarrow> str" where
  "lit = map of_char"

definition quoted :: "str \<Rightarrow> str" where
  "quoted s = lit [CHR 0x22] @ s @ lit [CHR 0x22]"

fun decimal :: "nat \<Rightarrow> str" where
  "decimal n = (if n < 10 then [of_nat (48 + n)] else decimal (n div 10) @ [of_nat (48 + n mod 10)])"

declare decimal.simps [simp del]

text \<open>Fields whose values are computed by code that may panic, in order.\<close>

primrec write_fields :: "(string \<times> ser rust) list \<Rightarrow> (string \<times> ser) list rust" where
  "write_fields [] = Ret []"
| "write_fields (f # fs) = rbind (snd f) (\<lambda>v. rbind (write_fields fs) (\<lambda>vs. Ret ((fst f, v) # vs)))"

definition serialize_struct :: "string \<Rightarrow> nat \<Rightarrow> (string \<times> ser rust) list list \<Rightarrow> ser rust" where
  "serialize_struct name field_count fss = rbind (write_fields (concat fss)) (\<lambda>fs. Ret (S_Struct name field_count fs))"

definition serialize_option :: "('a \<Rightarrow> ser) \<Rightarrow> 'a option \<Rightarrow> ser" where
  "serialize_option f x = (case x of None \<Rightarrow> S_None | Some v \<Rightarrow> S_Some (f v))"

definition escape_binary_json_string :: "bytes \<Rightarrow> str option" where
  "escape_binary_json_string bs = (if utf8_valid bs then Some bs else None)"

text \<open>A byte slice as serde shows it, and a payload: as text where it is UTF-8, else as a list of bytes.\<close>

definition bytes_serialize :: "bytes \<Rightarrow> ser" where
  "bytes_serialize bs = S_Seq (map (\<lambda>b. S_UInt (unat b)) bs)"

definition payload_serialize :: "bytes \<Rightarrow> ser" where
  "payload_serialize bs = (case escape_binary_json_string bs of Some escaped \<Rightarrow> S_Str escaped | None \<Rightarrow> bytes_serialize bs)"

text \<open>
  \<open>serde_json::to_string\<close>: the text of a value, or an error with its message.  \<open>Display\<close> of every type
  that renders as JSON is the text or, on an error, the message in an object of its own.
\<close>

type_synonym to_json = "ser \<Rightarrow> (str, str) result"

definition json_display :: "to_json \<Rightarrow> ser \<Rightarrow> str" where
  "json_display js v =
     (case js v of
        Ok json \<Rightarrow> json
      | Err e \<Rightarrow> lit ''{'' @ quoted (lit ''error'') @ lit '': '' @ quoted e @ lit ''}'')"

section \<open>The names of the result codes\<close>

primrec mqtt_error_name :: "mqtt_error \<Rightarrow> string" where
  "mqtt_error_name UnspecifiedError = ''UnspecifiedError''"
| "mqtt_error_name MalformedPacket = ''MalformedPacket''"
| "mqtt_error_name ProtocolError = ''ProtocolError''"
| "mqtt_error_name ImplementationSpecificError = ''ImplementationSpecificError''"
| "mqtt_error_name UnsupportedProtocolVersion = ''UnsupportedProtocolVersion''"
| "mqtt_error_name ClientIdentifierNotValid = ''ClientIdentifierNotValid''"
| "mqtt_error_name BadUserNameOrPassword = ''BadUserNameOrPassword''"
| "mqtt_error_name NotAuthorized = ''NotAuthorized''"
| "mqtt_error_name ServerUnavailable = ''ServerUnavailable''"
| "mqtt_error_name ServerBusy = ''ServerBusy''"
| "mqtt_error_name Banned = ''Banned''"
| "mqtt_error_name ServerShuttingDown = ''ServerShuttingDown''"
| "mqtt_error_name BadAuthenticationMethod = ''BadAuthenticationMethod''"
| "mqtt_error_name KeepAliveTimeout = ''KeepAliveTimeout''"
| "mqtt_error_name SessionTakenOver = ''SessionTakenOver''"
| "mqtt_error_name TopicFilterInvalid = ''TopicFilterInvalid''"
| "mqtt_error_name TopicNameInvalid = ''TopicNameInvalid''"
| "mqtt_error_name ReceiveMaximumExceeded = ''ReceiveMaximumExceeded''"
| "mqtt_error_name TopicAliasInvalid = ''TopicAliasInvalid''"
| "mqtt_error_name PacketTooLarge = ''PacketTooLarge''"
| "mqtt_error_name MessageRateTooHigh = ''MessageRateTooHigh''"
| "mqtt_error_name QuotaExceeded = ''QuotaExceeded''"
| "mqtt_error_name AdministrativeAction = ''AdministrativeAction''"
| "mqtt_error_name PayloadFormatInvalid = ''PayloadFormatInvalid''"
| "mqtt_error_name RetainNotSupported = ''RetainNotSupported''"
| "mqtt_error_name QosNotSupported = ''QosNotSupported''"
| "mqtt_error_name UseAnotherServer = ''UseAnotherServer''"
| "mqtt_error_name ServerMoved = ''ServerMoved''"
| "mqtt_error_name SharedSubscriptionsNotSupported = ''SharedSubscriptionsNotSupported''"
| "mqtt_error_name ConnectionRateExceeded = ''ConnectionRateExceeded''"
| "mqtt_error_name MaximumConnectTime = ''MaximumConnectTime''"
| "mqtt_error_name SubscriptionIdentifiersNotSupported = ''SubscriptionIdentifiersNotSupported''"
| "mqtt_error_name WildcardSubscriptionsNotSupported = ''WildcardSubscriptionsNotSupported''"
| "mqtt_error_name PartialErrorDetected = ''PartialErrorDetected''"
| "mqtt_error_name PacketEnqueued = ''PacketEnqueued''"
| "mqtt_error_name AllErrorDetected = ''AllErrorDetected''"
| "mqtt_error_name PacketIdentifierFullyUsed = ''PacketIdentifierFullyUsed''"
| "mqtt_error_name PacketIdentifierConflict = ''PacketIdentifierConflict''"
| "mqtt_error_name PacketIdentifierInvalid = ''PacketIdentifierInvalid''"
| "mqtt_error_name PacketNotAllowedToSend = ''PacketNotAllowedToSend''"
| "mqtt_error_name PacketNotAllowedToStore = ''PacketNotAllowedToStore''"
| "mqtt_error_name PacketNotRegulated = ''PacketNotRegulated''"
| "mqtt_error_name InsufficientBytes = ''InsufficientBytes''"
| "mqtt_error_name InvalidPacketForRole = ''InvalidPacketForRole''"
| "mqtt_error_name VersionMismatch = ''VersionMismatch''"
| "mqtt_error_name PacketConversionFailed = ''PacketConversionFailed''"
| "mqtt_error_name PacketProcessFailed = ''PacketProcessFailed''"
| "mqtt_error_name ValueOutOfRange = ''ValueOutOfRange''"
| "mqtt_error_name InvalidQos = ''InvalidQos''"

primrec connect_return_code_name :: "connect_return_code \<Rightarrow> string" where
  "connect_return_code_name ConnRet_Accepted = ''Accepted''"
| "connect_return_code_name ConnRet_UnacceptableProtocolVersion = ''UnacceptableProtocolVersion''"
| "connect_return_code_name ConnRet_IdentifierRejected = ''IdentifierRejected''"
| "connect_return_code_name ConnRet_ServerUnavailable = ''ServerUnavailable''"
| "connect_return_code_name ConnRet_BadUserNameOrPassword = ''BadUserNameOrPassword''"
| "connect_return_code_name ConnRet_NotAuthorized = ''NotAuthorized''"

primrec suback_return_code_name :: "suback_return_code \<Rightarrow> string" where
  "suback_return_code_name SubRet_SuccessMaximumQos0 = ''SuccessMaximumQos0''"
| "suback_return_code_name SubRet_SuccessMaximumQos1 = ''SuccessMaximumQos1''"
| "suback_return_code_name SubRet_SuccessMaximumQos2 = ''SuccessMaximumQos2''"
| "suback_return_code_name SubRet_Failure = ''Failure''"

primrec connect_reason_code_name :: "connect_reason_code \<Rightarrow> string" where
  "connect_reason_code_name Connect_Success = ''Success''"
| "connect_reason_code_name Connect_UnspecifiedError = ''UnspecifiedError''"
| "connect_reason_code_name Connect_MalformedPacket = ''MalformedPacket''"
| "connect_reason_code_name Connect_ProtocolError = ''ProtocolError''"
| "connect_reason_code_name Connect_ImplementationSpecificError = ''ImplementationSpecificError''"
| "connect_reason_code_name Connect_UnsupportedProtocolVersion = ''UnsupportedProtocolVersion''"
| "connect_reason_code_name Connect_ClientIdentifierNotValid = ''ClientIdentifierNotValid''"
| "connect_reason_code_name Connect_BadUserNameOrPassword = ''BadUserNameOrPassword''"
| "connect_reason_code_name Connect_NotAuthorized = ''NotAuthorized''"
| "connect_reason_code_name Connect_ServerUnavailable = ''ServerUnavailable''"
| "connect_reason_code_name Connect_ServerBusy = ''ServerBusy''"
| "connect_reason_code_name Connect_Banned = ''Banned''"
| "connect_reason_code_name Connect_BadAuthenticationMethod = ''BadAuthenticationMethod''"
| "connect_reason_code_name Connect_TopicNameInvalid = ''TopicNameInvalid''"
| "connect_reason_code_name Connect_PacketTooLarge = ''PacketTooLarge''"
| "connect_reason_code_name Connect_QuotaExceeded = ''QuotaExceeded''"
| "connect_reason_code_name Connect_PayloadFormatInvalid = ''PayloadFormatInvalid''"
| "connect_reason_code_name Connect_RetainNotSupported = ''RetainNotSupported''"
| "connect_reason_code_name Connect_QosNotSupported = ''QosNotSupported''"
| "connect_reason_code_name Connect_UseAnotherServer = ''UseAnotherServer''"
| "connect_reason_code_name Connect_ServerMoved = ''ServerMoved''"
| "connect_reason_code_name Connect_ConnectionRateExceeded = ''ConnectionRateExceeded''"

primrec disconnect_reason_code_name :: "disconnect_reason_code \<Rightarrow> string" where
  "disconnect_reason_code_name Disconnect_NormalDisconnection = ''NormalDisconnection''"
| "disconnect_reason_code_name Disconnect_DisconnectWithWillMessage = ''DisconnectWithWillMessage''"
| "disconnect_reason_code_name Disconnect_UnspecifiedError = ''UnspecifiedError''"
| "disconnect_reason_code_name Disconnect_MalformedPacket = ''MalformedPacket''"
| "disconnect_reason_code_name Disconnect_ProtocolError = ''ProtocolError''"
| "disconnect_reason_code_name Disconnect_ImplementationSpecificError = ''ImplementationSpecificError''"
| "disconnect_reason_code_name Disconnect_NotAuthorized = ''NotAuthorized''"
| "disconnect_reason_code_name Disconnect_ServerBusy = ''ServerBusy''"
| "disconnect_reason_code_name Disconnect_ServerShuttingDown = ''ServerShuttingDown''"
| "disconnect_reason_code_name Disconnect_KeepAliveTimeout = ''KeepAliveTimeout''"
| "disconnect_reason_code_name Disconnect_SessionTakenOver = ''SessionTakenOver''"
| "disconnect_reason_code_name Disconnect_TopicFilterInvalid = ''TopicFilterInvalid''"
| "disconnect_reason_code_name Disconnect_TopicNameInvalid = ''TopicNameInvalid''"
| "disconnect_reason_code_name Disconnect_ReceiveMaximumExceeded = ''ReceiveMaximumExceeded''"
| "disconnect_reason_code_name Disconnect_TopicAliasInvalid = ''TopicAliasInvalid''"
| "disconnect_reason_code_name Disconnect_PacketTooLarge = ''PacketTooLarge''"
| "disconnect_reason_code_name Disconnect_MessageRateTooHigh = ''MessageRateTooHigh''"
| "disconnect_reason_code_name Disconnect_QuotaExceeded = ''QuotaExceeded''"
| "disconnect_reason_code_name Disconnect_AdministrativeAction = ''AdministrativeAction''"
| "disconnect_reason_code_name Disconnect_PayloadFormatInvalid = ''PayloadFormatInvalid''"
| "disconnect_reason_code_name Disconnect_RetainNotSupported = ''RetainNotSupported''"
| "disconnect_reason_code_name Disconnect_QosNotSupported = ''QosNotSupported''"
| "disconnect_reason_code_name Disconnect_UseAnotherServer = ''UseAnotherServer''"
| "disconnect_reason_code_name Disconnect_ServerMoved = ''ServerMoved''"
| "disconnect_reason_code_name Disconnect_SharedSubscriptionsNotSupported = ''SharedSubscriptionsNotSupported''"
| "disconnect_reason_code_name Disconnect_ConnectionRateExceeded = ''ConnectionRateExceeded''"
| "disconnect_reason_code_name Disconnect_MaximumConnectTime = ''MaximumConnectTime''"
| "disconnect_reason_code_name Disconnect_SubscriptionIdentifiersNotSupported = ''SubscriptionIdentifiersNotSupported''"
| "disconnect_reason_code_name Disconnect_WildcardSubscriptionsNotSupported = ''WildcardSubscriptionsNotSupported''"

primrec suback_reason_code_name :: "suback_reason_code \<Rightarrow> string" where
  "suback_reason_code_name Suback_GrantedQos0 = ''GrantedQos0''"
| "suback_reason_code_name Suback_GrantedQos1 = ''GrantedQos1''"
| "suback_reason_code_name Suback_GrantedQos2 = ''GrantedQos2''"
| "suback_reason_code_name Suback_UnspecifiedError = ''UnspecifiedError''"
| "suback_reason_code_name Suback_ImplementationSpecificError = ''ImplementationSpecificError''"
| "suback_reason_code_name Suback_NotAuthorized = ''NotAuthorized''"
| "suback_reason_code_name Suback_TopicFilterInvalid = ''TopicFilterInvalid''"
| "suback_reason_code_name Suback_PacketIdentifierInUse = ''PacketIdentifierInUse''"
| "suback_reason_code_name Suback_QuotaExceeded = ''QuotaExceeded''"
| "suback_reason_code_name Suback_SharedSubscriptionsNotSupported = ''SharedSubscriptionsNotSupported''"
| "suback_reason_code_name Suback_SubscriptionIdentifiersNotSupported = ''SubscriptionIdentifiersNotSupported''"
| "suback_reason_code_name Suback_WildcardSubscriptionsNotSupported = ''WildcardSubscriptionsNotSupported''"

primrec unsuback_reason_code_name :: "unsuback_reason_code \<Rightarrow> string" where
  "unsuback_reason_code_name Unsuback_Success = ''Success''"
| "unsuback_reason_code_name Unsuback_NoSubscriptionExisted = ''NoSubscriptionExisted''"
| "unsuback_reason_code_name Unsuback_UnspecifiedError = ''UnspecifiedError''"
| "unsuback_reason_code_name Unsuback_ImplementationSpecificError = ''ImplementationSpecificError''"
| "unsuback_reason_code_name Unsuback_NotAuthorized = ''NotAuthorized''"
| "unsuback_reason_code_name Unsuback_TopicFilterInvalid = ''TopicFilterInvalid''"
| "unsuback_reason_code_name Unsuback_PacketIdentifierInUse = ''PacketIdentifierInUse''"

primrec puback_reason_code_name :: "puback_reason_code \<Rightarrow> string" where
  "puback_reason_code_name Puback_Success = ''Success''"
| "puback_reason_code_name Puback_NoMatchingSubscribers = ''NoMatchingSubscribers''"
| "puback_reason_code_name Puback_UnspecifiedError = ''UnspecifiedError''"
| "puback_reason_code_name Puback_ImplementationSpecificError = ''ImplementationSpecificError''"
| "puback_reason_code_name Puback_NotAuthorized = ''NotAuthorized''"
| "puback_reason_code_name Puback_TopicNameInvalid = ''TopicNameInvalid''"
| "puback_reason_code_name Puback_PacketIdentifierInUse = ''PacketIdentifierInUse''"
| "puback_reason_code_name Puback_QuotaExceeded = ''QuotaExceeded''"
| "puback_reason_code_name Puback_PayloadFormatInvalid = ''PayloadFormatInvalid''"

primrec pubrec_reason_code_name :: "pubrec_reason_code \<Rightarrow> string" where
  "pubrec_reason_code_name Pubrec_Success = ''Success''"
| "pubrec_reason_code_name Pubrec_NoMatchingSubscribers = ''NoMatchingSubscribers''"
| "pubrec_reason_code_name Pubrec_UnspecifiedError = ''UnspecifiedError''"
| "pubrec_reason_code_name Pubrec_ImplementationSpecificError = ''ImplementationSpecificError''"
| "pubrec_reason_code_name Pubrec_NotAuthorized = ''NotAuthorized''"
| "pubrec_reason_code_name Pubrec_TopicNameInvalid = ''TopicNameInvalid''"
| "pubrec_reason_code_name Pubrec_PacketIdentifierInUse = ''PacketIdentifierInUse''"
| "pubrec_reason_code_name Pubrec_QuotaExceeded = ''QuotaExceeded''"
| "pubrec_reason_code_name Pubrec_PayloadFormatInvalid = ''PayloadFormatInvalid''"

primrec pubrel_reason_code_name :: "pubrel_reason_code \<Rightarrow> string" where
  "pubrel_reason_code_name Pubrel_Success = ''Success''"
| "pubrel_reason_code_name Pubrel_PacketIdentifierNotFound = ''PacketIdentifierNotFound''"

primrec pubcomp_reason_code_name :: "pubcomp_reason_code \<Rightarrow> string" where
  "pubcomp_reason_code_name Pubcomp_Success = ''Success''"
| "pubcomp_reason_code_name Pubcomp_PacketIdentifierNotFound = ''PacketIdentifierNotFound''"

primrec auth_reason_code_name :: "auth_reason_code \<Rightarrow> string" where
  "auth_reason_code_name Auth_Success = ''Success''"
| "auth_reason_code_name Auth_ContinueAuthentication = ''ContinueAuthentication''"
| "auth_reason_code_name Auth_ReAuthenticate = ''ReAuthenticate''"

text \<open>A result code is shown by its name.\<close>

definition mqtt_error_serialize :: "mqtt_error \<Rightarrow> ser" where
  "mqtt_error_serialize v = S_Str (lit (mqtt_error_name v))"

definition connect_return_code_serialize :: "connect_return_code \<Rightarrow> ser" where
  "connect_return_code_serialize v = S_Str (lit (connect_return_code_name v))"

definition suback_return_code_serialize :: "suback_return_code \<Rightarrow> ser" where
  "suback_return_code_serialize v = S_Str (lit (suback_return_code_name v))"

definition connect_reason_code_serialize :: "connect_reason_code \<Rightarrow> ser" where
  "connect_reason_code_serialize v = S_Str (lit (connect_reason_code_name v))"

definition disconnect_reason_code_serialize :: "disconnect_reason_code \<Rightarrow> ser" where
  "disconnect_reason_code_serialize v = S_Str (lit (disconnect_reason_code_name v))"

definition suback_reason_code_serialize :: "suback_reason_code \<Rightarrow> ser" where
  "suback_reason_code_serialize v = S_Str (lit (suback_reason_code_name v))"

definition unsuback_reason_code_serialize :: "unsuback_reason_code \<Rightarrow> ser" where
  "unsuback_reason_code_serialize v = S_Str (lit (unsuback_reason_code_name v))"

definition puback_reason_code_serialize :: "puback_reason_code \<Rightarrow> ser" where
  "puback_reason_code_serialize v = S_Str (lit (puback_reason_code_name v))"

definition pubrec_reason_code_serialize :: "pubrec_reason_code \<Rightarrow> ser" where
  "pubrec_reason_code_serialize v = S_Str (lit (pubrec_reason_code_name v))"

definition pubrel_reason_code_serialize :: "pubrel_reason_code \<Rightarrow> ser" where
  "pubrel_reason_code_serialize v = S_Str (lit (pubrel_reason_code_name v))"

definition pubcomp_reason_code_serialize :: "pubcomp_reason_code \<Rightarrow> ser" where
  "pubcomp_reason_code_serialize v = S_Str (lit (pubcomp_reason_code_name v))"

definition auth_reason_code_serialize :: "auth_reason_code \<Rightarrow> ser" where
  "auth_reason_code_serialize v = S_Str (lit (auth_reason_code_name v))"

section \<open>The small enumerations\<close>

primrec qos_name :: "qos \<Rightarrow> string" where
  "qos_name AtMostOnce = ''AtMostOnce''"
| "qos_name AtLeastOnce = ''AtLeastOnce''"
| "qos_name ExactlyOnce = ''ExactlyOnce''"

primrec retain_handling_name :: "retain_handling \<Rightarrow> string" where
  "retain_handling_name SendRetained = ''SendRetained''"
| "retain_handling_name SendRetainedIfNotExists = ''SendRetainedIfNotExists''"
| "retain_handling_name DoNotSendRetained = ''DoNotSendRetained''"

text \<open>Their derived \<open>Serialize\<close>.\<close>

definition qos_serialize :: "qos \<Rightarrow> ser" where
  "qos_serialize q = S_Unit_Variant ''Qos'' (qos_name q)"

primrec packet_type_as_str :: "packet_type \<Rightarrow> string" where
  "packet_type_as_str PT_Connect = ''connect''"
| "packet_type_as_str PT_Connack = ''connack''"
| "packet_type_as_str PT_Publish = ''publish''"
| "packet_type_as_str PT_Puback = ''puback''"
| "packet_type_as_str PT_Pubrec = ''pubrec''"
| "packet_type_as_str PT_Pubrel = ''pubrel''"
| "packet_type_as_str PT_Pubcomp = ''pubcomp''"
| "packet_type_as_str PT_Subscribe = ''subscribe''"
| "packet_type_as_str PT_Suback = ''suback''"
| "packet_type_as_str PT_Unsubscribe = ''unsubscribe''"
| "packet_type_as_str PT_Unsuback = ''unsuback''"
| "packet_type_as_str PT_Pingreq = ''pingreq''"
| "packet_type_as_str PT_Pingresp = ''pingresp''"
| "packet_type_as_str PT_Disconnect = ''disconnect''"
| "packet_type_as_str PT_Auth = ''auth''"

definition packet_type_serialize :: "packet_type \<Rightarrow> ser" where
  "packet_type_serialize t = S_Str (lit (packet_type_as_str t))"

definition packet_type_display :: "to_json \<Rightarrow> packet_type \<Rightarrow> str" where
  "packet_type_display js t = json_display js (packet_type_serialize t)"

definition packet_type_debug :: "to_json \<Rightarrow> packet_type \<Rightarrow> str" where
  "packet_type_debug = packet_type_display"

definition fixed_header_as_str :: "fixed_header \<Rightarrow> string" where
  "fixed_header_as_str fh = packet_type_as_str (fixed_header_packet_type fh)"

definition fixed_header_serialize :: "fixed_header \<Rightarrow> ser" where
  "fixed_header_serialize fh = S_Str (lit (fixed_header_as_str fh))"

definition fixed_header_display :: "to_json \<Rightarrow> fixed_header \<Rightarrow> str" where
  "fixed_header_display js fh = json_display js (fixed_header_serialize fh)"

definition fixed_header_debug :: "to_json \<Rightarrow> fixed_header \<Rightarrow> str" where
  "fixed_header_debug = fixed_header_display"

section \<open>Numbers, strings and binary data\<close>

definition vbi_serialize :: "variable_byte_integer \<Rightarrow> ser" where
  "vbi_serialize v = S_UInt (unat (to_u32 v))"

definition vbi_display :: "variable_byte_integer \<Rightarrow> str" where
  "vbi_display v = decimal (unat (to_u32 v))"

definition ms_serialize :: "mqtt_string \<Rightarrow> ser" where
  "ms_serialize s = S_Str (ms_as_str s)"

definition ms_display :: "mqtt_string \<Rightarrow> str" where
  "ms_display s = ms_as_str s"

definition mb_serialize :: "mqtt_binary \<Rightarrow> ser" where
  "mb_serialize b = S_Bytes (mb_as_slice b)"

section \<open>Properties\<close>

definition property_id_serialize :: "property_id \<Rightarrow> ser" where
  "property_id_serialize i = S_Str (lit (property_id_as_str i))"

definition property_id_display :: "to_json \<Rightarrow> property_id \<Rightarrow> str" where
  "property_id_display js i = json_display js (property_id_serialize i)"

definition property_id_debug :: "to_json \<Rightarrow> property_id \<Rightarrow> str" where
  "property_id_debug = property_id_display"

primrec payload_format_name :: "payload_format \<Rightarrow> string" where
  "payload_format_name PF_Binary = ''binary''"
| "payload_format_name PF_String = ''string''"

text \<open>
  The declaration macros, one for each type of value; the arguments are the name and the identifier
  of the property.  A binary value that is not UTF-8 is serialized as \<open>None\<close>, and the field of a 32-bit
  value is named \<open>value\<close> where that of the others is \<open>val\<close>.
\<close>

definition id_val :: "string \<Rightarrow> property_id \<Rightarrow> ser \<Rightarrow> ser" where
  "id_val name pid v = S_Struct name 2 [(''id'', S_UInt (unat (property_id_u8 pid))), (''val'', v)]"

definition binary_property_serialize :: "string \<Rightarrow> property_id \<Rightarrow> mqtt_binary \<Rightarrow> ser" where
  "binary_property_serialize name pid v = id_val name pid (serialize_option S_Str (escape_binary_json_string (mb_as_slice v)))"

definition string_property_serialize :: "string \<Rightarrow> property_id \<Rightarrow> mqtt_string \<Rightarrow> ser" where
  "string_property_serialize name pid v = id_val name pid (S_Str (ms_as_str v))"

definition string_pair_property_serialize :: "string \<Rightarrow> property_id \<Rightarrow> mqtt_string \<times> mqtt_string \<Rightarrow> ser" where
  "string_pair_property_serialize name pid v =
     S_Struct name 3 [(''id'', S_UInt (unat (property_id_u8 pid))), (''key'', S_Str (ms_as_str (fst v))),
       (''val'', S_Str (ms_as_str (snd v)))]"

definition u8_property_serialize :: "string \<Rightarrow> property_id \<Rightarrow> u8 \<Rightarrow> ser" where
  "u8_property_serialize name pid v = id_val name pid (S_UInt (unat v))"

definition u16_property_serialize :: "string \<Rightarrow> property_id \<Rightarrow> u16 \<Rightarrow> ser" where
  "u16_property_serialize name pid v = id_val name pid (S_UInt (unat v))"

definition u32_property_serialize :: "string \<Rightarrow> property_id \<Rightarrow> u32 \<Rightarrow> ser" where
  "u32_property_serialize name pid v =
     S_Struct name 2 [(''id'', S_UInt (unat (property_id_u8 pid))), (''value'', S_UInt (unat v))]"

definition variable_integer_property_serialize :: "string \<Rightarrow> property_id \<Rightarrow> variable_byte_integer \<Rightarrow> ser" where
  "variable_integer_property_serialize name pid v = id_val name pid (S_UInt (unat (to_u32 v)))"

primrec property_serialize :: "property \<Rightarrow> ser" where
   "property_serialize (P_PayloadFormatIndicator v) = S_Newtype_Variant ''Property'' ''PayloadFormatIndicator'' (u8_property_serialize ''PayloadFormatIndicator'' PI_PayloadFormatIndicator v)"
| "property_serialize (P_MessageExpiryInterval v) = S_Newtype_Variant ''Property'' ''MessageExpiryInterval'' (u32_property_serialize ''MessageExpiryInterval'' PI_MessageExpiryInterval v)"
| "property_serialize (P_ContentType v) = S_Newtype_Variant ''Property'' ''ContentType'' (string_property_serialize ''ContentType'' PI_ContentType v)"
| "property_serialize (P_ResponseTopic v) = S_Newtype_Variant ''Property'' ''ResponseTopic'' (string_property_serialize ''ResponseTopic'' PI_ResponseTopic v)"
| "property_serialize (P_CorrelationData v) = S_Newtype_Variant ''Property'' ''CorrelationData'' (binary_property_serialize ''CorrelationData'' PI_CorrelationData v)"
| "property_serialize (P_SubscriptionIdentifier v) = S_Newtype_Variant ''Property'' ''SubscriptionIdentifier'' (variable_integer_property_serialize ''SubscriptionIdentifier'' PI_SubscriptionIdentifier v)"
| "property_serialize (P_SessionExpiryInterval v) = S_Newtype_Variant ''Property'' ''SessionExpiryInterval'' (u32_property_serialize ''SessionExpiryInterval'' PI_SessionExpiryInterval v)"
| "property_serialize (P_AssignedClientIdentifier v) = S_Newtype_Variant ''Property'' ''AssignedClientIdentifier'' (string_property_serialize ''AssignedClientIdentifier'' PI_AssignedClientIdentifier v)"
| "property_serialize (P_ServerKeepAlive v) = S_Newtype_Variant ''Property'' ''ServerKeepAlive'' (u16_property_serialize ''ServerKeepAlive'' PI_ServerKeepAlive v)"
| "property_serialize (P_AuthenticationMethod v) = S_Newtype_Variant ''Property'' ''AuthenticationMethod'' (string_property_serialize ''AuthenticationMethod'' PI_AuthenticationMethod v)"
| "property_serialize (P_AuthenticationData v) = S_Newtype_Variant ''Property'' ''AuthenticationData'' (binary_property_serialize ''AuthenticationData'' PI_AuthenticationData v)"
| "property_serialize (P_RequestProblemInformation v) = S_Newtype_Variant ''Property'' ''RequestProblemInformation'' (u8_property_serialize ''RequestProblemInformation'' PI_RequestProblemInformation v)"
| "property_serialize (P_WillDelayInterval v) = S_Newtype_Variant ''Property'' ''WillDelayInterval'' (u32_property_serialize ''WillDelayInterval'' PI_WillDelayInterval v)"
| "property_serialize (P_RequestResponseInformation v) = S_Newtype_Variant ''Property'' ''RequestResponseInformation'' (u8_property_serialize ''RequestResponseInformation'' PI_RequestResponseInformation v)"
| "property_serialize (P_ResponseInformation v) = S_Newtype_Variant ''Property'' ''ResponseInformation'' (string_property_serialize ''ResponseInformation'' PI_ResponseInformation v)"
| "property_serialize (P_ServerReference v) = S_Newtype_Variant ''Property'' ''ServerReference'' (string_property_serialize ''ServerReference'' PI_ServerReference v)"
| "property_serialize (P_ReasonString v) = S_Newtype_Variant ''Property'' ''ReasonString'' (string_property_serialize ''ReasonString'' PI_ReasonString v)"
| "property_serialize (P_ReceiveMaximum v) = S_Newtype_Variant ''Property'' ''ReceiveMaximum'' (u16_property_serialize ''ReceiveMaximum'' PI_ReceiveMaximum v)"
| "property_serialize (P_TopicAliasMaximum v) = S_Newtype_Variant ''Property'' ''TopicAliasMaximum'' (u16_property_serialize ''TopicAliasMaximum'' PI_TopicAliasMaximum v)"
| "property_serialize (P_TopicAlias v) = S_Newtype_Variant ''Property'' ''TopicAlias'' (u16_property_serialize ''TopicAlias'' PI_TopicAlias v)"
| "property_serialize (P_MaximumQos v) = S_Newtype_Variant ''Property'' ''MaximumQos'' (u8_property_serialize ''MaximumQos'' PI_MaximumQos v)"
| "property_serialize (P_RetainAvailable v) = S_Newtype_Variant ''Property'' ''RetainAvailable'' (u8_property_serialize ''RetainAvailable'' PI_RetainAvailable v)"
| "property_serialize (P_UserProperty v) = S_Newtype_Variant ''Property'' ''UserProperty'' (string_pair_property_serialize ''UserProperty'' PI_UserProperty v)"
| "property_serialize (P_MaximumPacketSize v) = S_Newtype_Variant ''Property'' ''MaximumPacketSize'' (u32_property_serialize ''MaximumPacketSize'' PI_MaximumPacketSize v)"
| "property_serialize (P_WildcardSubscriptionAvailable v) = S_Newtype_Variant ''Property'' ''WildcardSubscriptionAvailable'' (u8_property_serialize ''WildcardSubscriptionAvailable'' PI_WildcardSubscriptionAvailable v)"
| "property_serialize (P_SubscriptionIdentifierAvailable v) = S_Newtype_Variant ''Property'' ''SubscriptionIdentifierAvailable'' (u8_property_serialize ''SubscriptionIdentifierAvailable'' PI_SubscriptionIdentifierAvailable v)"
| "property_serialize (P_SharedSubscriptionAvailable v) = S_Newtype_Variant ''Property'' ''SharedSubscriptionAvailable'' (u8_property_serialize ''SharedSubscriptionAvailable'' PI_SharedSubscriptionAvailable v)"

text \<open>
  \<open>Display\<close> of a property writes the object itself: the identifier is written between quotes and is, as
  \<open>Display\<close> of \<open>PropertyId\<close>, a JSON text already; strings are written as they are.
\<close>

definition display_member :: "string \<Rightarrow> str \<Rightarrow> str" where
  "display_member name v = quoted (lit name) @ lit '': '' @ v"

definition display_object :: "to_json \<Rightarrow> property_id \<Rightarrow> str \<Rightarrow> str" where
  "display_object js pid members =
     lit ''{'' @ display_member ''id'' (quoted (property_id_display js pid)) @ lit '', '' @ members @ lit ''}''"

text \<open>\<open>{:?}\<close> of a byte slice: the numbers in brackets.\<close>

fun debug_numbers :: "bytes \<Rightarrow> str" where
  "debug_numbers [] = []"
| "debug_numbers [b] = decimal (unat b)"
| "debug_numbers (b # bs) = decimal (unat b) @ lit '', '' @ debug_numbers bs"

definition debug_bytes :: "bytes \<Rightarrow> str" where
  "debug_bytes bs = lit ''['' @ debug_numbers bs @ lit '']''"

definition binary_property_display :: "to_json \<Rightarrow> property_id \<Rightarrow> mqtt_binary \<Rightarrow> str" where
  "binary_property_display js pid v =
     (case escape_binary_json_string (mb_as_slice v) of
        Some escaped \<Rightarrow> display_object js pid (display_member ''value'' (quoted escaped))
      | None \<Rightarrow> display_object js pid (display_member ''value'' (quoted (debug_bytes (mb_as_slice v)))))"

definition string_property_display :: "to_json \<Rightarrow> property_id \<Rightarrow> mqtt_string \<Rightarrow> str" where
  "string_property_display js pid v = display_object js pid (display_member ''value'' (quoted (ms_as_str v)))"

definition string_pair_property_display :: "to_json \<Rightarrow> property_id \<Rightarrow> mqtt_string \<times> mqtt_string \<Rightarrow> str" where
  "string_pair_property_display js pid v =
     display_object js pid (display_member ''key'' (quoted (ms_as_str (fst v))) @ lit '', ''
       @ display_member ''val'' (quoted (ms_as_str (snd v))))"

definition u8_property_display :: "to_json \<Rightarrow> property_id \<Rightarrow> u8 \<Rightarrow> str" where
  "u8_property_display js pid v = display_object js pid (display_member ''value'' (decimal (unat v)))"

definition u16_property_display :: "to_json \<Rightarrow> property_id \<Rightarrow> u16 \<Rightarrow> str" where
  "u16_property_display js pid v = display_object js pid (display_member ''value'' (decimal (unat v)))"

definition u32_property_display :: "to_json \<Rightarrow> property_id \<Rightarrow> u32 \<Rightarrow> str" where
  "u32_property_display js pid v = display_object js pid (display_member ''value'' (decimal (unat v)))"

definition variable_integer_property_display :: "to_json \<Rightarrow> property_id \<Rightarrow> variable_byte_integer \<Rightarrow> str" where
  "variable_integer_property_display js pid v =
     display_object js pid (display_member ''value'' (decimal (unat (to_u32 v))))"

primrec property_display :: "to_json \<Rightarrow> property \<Rightarrow> str" where
   "property_display js (P_PayloadFormatIndicator v) = u8_property_display js PI_PayloadFormatIndicator v"
| "property_display js (P_MessageExpiryInterval v) = u32_property_display js PI_MessageExpiryInterval v"
| "property_display js (P_ContentType v) = string_property_display js PI_ContentType v"
| "property_display js (P_ResponseTopic v) = string_property_display js PI_ResponseTopic v"
| "property_display js (P_CorrelationData v) = binary_property_display js PI_CorrelationData v"
| "property_display js (P_SubscriptionIdentifier v) = variable_integer_property_display js PI_SubscriptionIdentifier v"
| "property_display js (P_SessionExpiryInterval v) = u32_property_display js PI_SessionExpiryInterval v"
| "property_display js (P_AssignedClientIdentifier v) = string_property_display js PI_AssignedClientIdentifier v"
| "property_display js (P_ServerKeepAlive v) = u16_property_display js PI_ServerKeepAlive v"
| "property_display js (P_AuthenticationMethod v) = string_property_display js PI_AuthenticationMethod v"
| "property_display js (P_AuthenticationData v) = binary_property_display js PI_AuthenticationData v"
| "property_display js (P_RequestProblemInformation v) = u8_property_display js PI_RequestProblemInformation v"
| "property_display js (P_WillDelayInterval v) = u32_property_display js PI_WillDelayInterval v"
| "property_display js (P_RequestResponseInformation v) = u8_property_display js PI_RequestResponseInformation v"
| "property_display js (P_ResponseInformation v) = string_property_display js PI_ResponseInformation v"
| "property_display js (P_ServerReference v) = string_property_display js PI_ServerReference v"
| "property_display js (P_ReasonString v) = string_property_display js PI_ReasonString v"
| "property_display js (P_ReceiveMaximum v) = u16_property_display js PI_ReceiveMaximum v"
| "property_display js (P_TopicAliasMaximum v) = u16_property_display js PI_TopicAliasMaximum v"
| "property_display js (P_TopicAlias v) = u16_property_display js PI_TopicAlias v"
| "property_display js (P_MaximumQos v) = u8_property_display js PI_MaximumQos v"
| "property_display js (P_RetainAvailable v) = u8_property_display js PI_RetainAvailable v"
| "property_display js (P_UserProperty v) = string_pair_property_display js PI_UserProperty v"
| "property_display js (P_MaximumPacketSize v) = u32_property_display js PI_MaximumPacketSize v"
| "property_display js (P_WildcardSubscriptionAvailable v) = u8_property_display js PI_WildcardSubscriptionAvailable v"
| "property_display js (P_SubscriptionIdentifierAvailable v) = u8_property_display js PI_SubscriptionIdentifierAvailable v"
| "property_display js (P_SharedSubscriptionAvailable v) = u8_property_display js PI_SharedSubscriptionAvailable v"

definition properties_serialize :: "properties \<Rightarrow> ser" where
  "properties_serialize ps = S_Seq (map property_serialize ps)"

section \<open>Subscription entries\<close>

text \<open>\<open>qos()\<close> and \<open>rh()\<close> of the options panic on values that the parser does not let through.\<close>

definition sub_opts_serialize :: "u8 \<Rightarrow> ser rust" where
  "sub_opts_serialize opts =
     serialize_struct ''SubOpts'' 4
       [[(''qos'', rbind (sub_opts_qos opts) (\<lambda>q. Ret (S_Str (lit (qos_name q))))),
         (''nl'', Ret (S_Bool (sub_opts_nl opts))),
         (''rap'', Ret (S_Bool (sub_opts_rap opts))),
         (''rh'', rbind (sub_opts_rh opts) (\<lambda>r. Ret (S_Str (lit (retain_handling_name r)))))]]"

definition sub_opts_display :: "to_json \<Rightarrow> u8 \<Rightarrow> str rust" where
  "sub_opts_display js opts = rbind (sub_opts_serialize opts) (\<lambda>v. Ret (json_display js v))"

definition sub_entry_serialize :: "sub_entry \<Rightarrow> ser rust" where
  "sub_entry_serialize e =
     serialize_struct ''SubEntry'' 2
       [[(''topic_filter'', Ret (S_Str (ms_as_str (se_topic_filter e)))),
         (''options'', sub_opts_serialize (se_sub_opts e))]]"

definition sub_entry_display :: "to_json \<Rightarrow> sub_entry \<Rightarrow> str rust" where
  "sub_entry_display js e = rbind (sub_entry_serialize e) (\<lambda>v. Ret (json_display js v))"

end
