(* ===== verification/Fluent_Builder.thy ===== *)
theory Fluent_Builder
  imports Packet_Setters
begin

text \<open>
  The contract of a fluent builder: \<^verbatim>\<open>T::builder()\<close>, a chain of setters in any order and with any
  repetitions, and \<^verbatim>\<open>build()\<close>.  A client of the contract knows a chain by the description that
  its setters add up to.  The packet builders of both versions meet it.
\<close>

text \<open>A chain of setters, with \<open>?\<close> after those that can fail, and the whole expression.\<close>

primrec call_chain :: "('s \<Rightarrow> 'b \<Rightarrow> ('b, 'e) result) \<Rightarrow> 's list \<Rightarrow> 'b \<Rightarrow> ('b, 'e) result" where
  "call_chain call [] b = Ok b"
| "call_chain call (s # ss) b = res_bind (call s b) (call_chain call ss)"

definition build_chain ::
  "'b \<Rightarrow> ('s \<Rightarrow> 'b \<Rightarrow> ('b, 'e) result) \<Rightarrow> ('b \<Rightarrow> ('k, 'e) result rust) \<Rightarrow> 's list \<Rightarrow> ('k, 'e) result rust" where
  "build_chain new call build ss = tbind (Ret (call_chain call ss new)) build"

text \<open>The first setter that is refused decides the error of the chain.\<close>

primrec first_refusal :: "('s \<Rightarrow> 'e option) \<Rightarrow> 's list \<Rightarrow> 'e option" where
  "first_refusal refusal [] = None"
| "first_refusal refusal (s # ss) = (case refusal s of Some e \<Rightarrow> Some e | None \<Rightarrow> first_refusal refusal ss)"

lemma first_refusal_None [simp]: "first_refusal (\<lambda>_. None) ss = None"
  by (induction ss) simp_all

locale fluent_builder =
  fixes new :: 'b and call :: "'s \<Rightarrow> 'b \<Rightarrow> ('b, 'e) result" and build :: "'b \<Rightarrow> ('k, 'e) result rust"
    and blank :: 'm and describe :: "'s \<Rightarrow> 'm \<Rightarrow> 'm" and refusal :: "'s \<Rightarrow> 'e option"
    and represents :: "'b \<Rightarrow> 'm \<Rightarrow> bool" and outcome :: "'m \<Rightarrow> ('k, 'e) result rust"
  assumes represents_new: "represents new blank"
    and call_refused: "represents b m \<Longrightarrow> refusal s = Some e \<Longrightarrow> call s b = Err e"
    and call_taken: "represents b m \<Longrightarrow> refusal s = None \<Longrightarrow> \<exists>b'. call s b = Ok b' \<and> represents b' (describe s m)"
    and build_outcome: "represents b m \<Longrightarrow> build b = outcome m"
begin

lemma chain_represents:
  "represents b m \<Longrightarrow>
   (case first_refusal refusal ss of
      Some e \<Rightarrow> call_chain call ss b = Err e
    | None \<Rightarrow> \<exists>b'. call_chain call ss b = Ok b' \<and> represents b' (fold describe ss m))"
proof (induction ss arbitrary: b m)
  case (Cons s ss)
  show ?case
  proof (cases "refusal s")
    case None
    with call_taken [OF Cons.prems] obtain b' where "call s b = Ok b'" "represents b' (describe s m)" by blast
    then show ?thesis using Cons.IH [of b' "describe s m"] None by (auto split: option.splits)
  qed (simp add: call_refused [OF Cons.prems])
qed simp

lemma chain_outcome:
  "build_chain new call build ss =
   (case first_refusal refusal ss of Some e \<Rightarrow> Ret (Err e) | None \<Rightarrow> outcome (fold describe ss blank))"
  using chain_represents [OF represents_new, of ss] build_outcome
  by (auto simp: build_chain_def split: option.splits)

text \<open>Chains that describe the same thing build the same packet.\<close>

lemma chain_order:
  assumes "first_refusal refusal ss = None" and "first_refusal refusal ss' = None"
    and "fold describe ss blank = fold describe ss' blank"
  shows "build_chain new call build ss = build_chain new call build ss'"
  using assms by (simp add: chain_outcome)

end

text \<open>The PUBLISH builder of v3.1.1.\<close>

definition publish_refusal :: "'t publish_setter \<Rightarrow> mqtt_error option" where
  "publish_refusal s = (case s of Set_Topic t \<Rightarrow> if topic_settable t then None else Some MalformedPacket | _ \<Rightarrow> None)"

definition publish_outcome :: "'p::len word message \<Rightarrow> ('p word v3_publish, mqtt_error) result rust" where
  "publish_outcome m =
    (if \<not> message_legal m then Ret (Err MalformedPacket)
     else if message_body m > 268435455 then Panic Unwrap_Failed
     else Ret (Ok \<lparr>v3p_fixed_header = header_of m, v3p_remaining_length = \<lparr>encoded = vbi_enc (message_body m)\<rparr>,
       v3p_topic_name_buf = \<lparr>ms_encoded = len_prefix (length (the (m_topic m))) @ the (m_topic m)\<rparr>,
       v3p_packet_id_buf = m_pid m, v3p_payload_buf = m_payload m\<rparr>))"

lemma v3pb_call_refused:
  "publish_refusal s = Some e \<Longrightarrow> v3pb_call s b = Err e"
  by (auto simp: publish_refusal_def v3pb_topic_name_def ms_new_def ms_as_str_def topic_settable_def Let_def
      split: publish_setter.splits if_splits)

lemma v3_publish_fluent:
  assumes "packet_id_width TYPE('p::len)"
  shows "fluent_builder (v3_publish_builder_new :: 'p word v3_publish_builder) v3pb_call v3_publish_build message_new describe
    publish_refusal holds publish_outcome"
proof (unfold_locales, goal_cases)
  case (2 b m s e)
  then show ?case by (simp add: v3pb_call_refused)
next
  case (3 b m s)
  then show ?case
    using v3pb_call_holds [OF 3(1), of s] by (auto simp: publish_refusal_def split: publish_setter.splits if_splits)
next
  case (4 b m)
  then show ?case by (simp add: build_holds [OF _ assms] publish_outcome_def)
qed (rule holds_new)

interpretation publish16: fluent_builder "v3_publish_builder_new :: 16 word v3_publish_builder" v3pb_call v3_publish_build
    message_new describe publish_refusal holds publish_outcome
  by (rule v3_publish_fluent) (simp add: packet_id_width_def)

end
