(* ===== verification/Ack_Interface.thy ===== *)
theory Ack_Interface
  imports Fluent_Builder Io_Buffers
begin

text \<open>
  The interfaces of PUBACK, PUBREC, PUBREL and PUBCOMP of both versions
  (\<^verbatim>\<open>src/mqtt/packet/v3_1_1/puback.rs\<close>, \<^verbatim>\<open>pubrec.rs\<close>, \<^verbatim>\<open>pubrel.rs\<close>, \<^verbatim>\<open>pubcomp.rs\<close> and the same of
  \<^verbatim>\<open>v5_0\<close>): accessors, setters, and what a chain of setters builds.  The eight types repeat the
  same code with their own reason codes; parser, builder and encoding stand in \<open>Packets_V311\<close> and
  \<open>Packets_V50\<close>.  An identifier buffer is kept as the identifier it holds.
\<close>

section \<open>The acknowledgements of v3.1.1\<close>

text \<open>\<^verbatim>\<open>src/mqtt/packet/v3_1_1/puback.rs\<close>\<close>

type_synonym 't v3_puback = "'t v3_ack"

definition v3_puback_builder :: "'p::len word v3_ack_builder" where
  "v3_puback_builder = \<lparr>v3ab_packet_id_buf = None, v3ab_reason_code_buf = None\<rparr>"

definition v3_puback_packet_type :: "packet_type" where
  "v3_puback_packet_type = PT_Puback"

definition v3_puback_packet_id :: "'p::len word v3_ack \<Rightarrow> 'p word" where
  "v3_puback_packet_id k = v3a_packet_id_buf k"

definition v3_puback_reason_code :: "'p::len word v3_ack \<Rightarrow> puback_reason_code option" where
  "v3_puback_reason_code k = (case v3a_reason_code_buf k of None \<Rightarrow> None | Some b \<Rightarrow> puback_reason_code_try_from b)"

definition v3_puback_size :: "'p::len word v3_ack \<Rightarrow> nat" where
  "v3_puback_size = v3_ack_size"

definition v3_puback_to_buffers :: "'p::len word v3_ack \<Rightarrow> slices" where
  "v3_puback_to_buffers = v3_ack_to_buffers"

definition v3_puback_to_continuous_buffer :: "'p::len word v3_ack \<Rightarrow> bytes" where
  "v3_puback_to_continuous_buffer = v3_ack_to_continuous_buffer"

definition v3_puback_set_packet_id :: "'p::len word \<Rightarrow> 'p word v3_ack_builder \<Rightarrow> 'p word v3_ack_builder" where
  "v3_puback_set_packet_id i b = b\<lparr>v3ab_packet_id_buf := Some i\<rparr>"

definition v3_puback_set_reason_code :: "puback_reason_code \<Rightarrow> 'p::len word v3_ack_builder \<Rightarrow> 'p word v3_ack_builder" where
  "v3_puback_set_reason_code rc b = b\<lparr>v3ab_reason_code_buf := Some (Some (puback_reason_code_u8 rc))\<rparr>"

definition v3_puback_validate :: "'p::len word v3_ack_builder \<Rightarrow> (unit, mqtt_error) result" where
  "v3_puback_validate = v3_ack_validate"

text \<open>\<^verbatim>\<open>src/mqtt/packet/v3_1_1/pubrec.rs\<close>\<close>

type_synonym 't v3_pubrec = "'t v3_ack"

definition v3_pubrec_builder :: "'p::len word v3_ack_builder" where
  "v3_pubrec_builder = \<lparr>v3ab_packet_id_buf = None, v3ab_reason_code_buf = None\<rparr>"

definition v3_pubrec_packet_type :: "packet_type" where
  "v3_pubrec_packet_type = PT_Pubrec"

definition v3_pubrec_packet_id :: "'p::len word v3_ack \<Rightarrow> 'p word" where
  "v3_pubrec_packet_id k = v3a_packet_id_buf k"

definition v3_pubrec_reason_code :: "'p::len word v3_ack \<Rightarrow> pubrec_reason_code option" where
  "v3_pubrec_reason_code k = (case v3a_reason_code_buf k of None \<Rightarrow> None | Some b \<Rightarrow> pubrec_reason_code_try_from b)"

definition v3_pubrec_size :: "'p::len word v3_ack \<Rightarrow> nat" where
  "v3_pubrec_size = v3_ack_size"

definition v3_pubrec_to_buffers :: "'p::len word v3_ack \<Rightarrow> slices" where
  "v3_pubrec_to_buffers = v3_ack_to_buffers"

definition v3_pubrec_to_continuous_buffer :: "'p::len word v3_ack \<Rightarrow> bytes" where
  "v3_pubrec_to_continuous_buffer = v3_ack_to_continuous_buffer"

definition v3_pubrec_set_packet_id :: "'p::len word \<Rightarrow> 'p word v3_ack_builder \<Rightarrow> 'p word v3_ack_builder" where
  "v3_pubrec_set_packet_id i b = b\<lparr>v3ab_packet_id_buf := Some i\<rparr>"

definition v3_pubrec_set_reason_code :: "pubrec_reason_code \<Rightarrow> 'p::len word v3_ack_builder \<Rightarrow> 'p word v3_ack_builder" where
  "v3_pubrec_set_reason_code rc b = b\<lparr>v3ab_reason_code_buf := Some (Some (pubrec_reason_code_u8 rc))\<rparr>"

definition v3_pubrec_validate :: "'p::len word v3_ack_builder \<Rightarrow> (unit, mqtt_error) result" where
  "v3_pubrec_validate = v3_ack_validate"

text \<open>\<^verbatim>\<open>src/mqtt/packet/v3_1_1/pubrel.rs\<close>\<close>

type_synonym 't v3_pubrel = "'t v3_ack"

definition v3_pubrel_builder :: "'p::len word v3_ack_builder" where
  "v3_pubrel_builder = \<lparr>v3ab_packet_id_buf = None, v3ab_reason_code_buf = None\<rparr>"

definition v3_pubrel_packet_type :: "packet_type" where
  "v3_pubrel_packet_type = PT_Pubrel"

definition v3_pubrel_packet_id :: "'p::len word v3_ack \<Rightarrow> 'p word" where
  "v3_pubrel_packet_id k = v3a_packet_id_buf k"

definition v3_pubrel_reason_code :: "'p::len word v3_ack \<Rightarrow> pubrel_reason_code option" where
  "v3_pubrel_reason_code k = (case v3a_reason_code_buf k of None \<Rightarrow> None | Some b \<Rightarrow> pubrel_reason_code_try_from b)"

definition v3_pubrel_size :: "'p::len word v3_ack \<Rightarrow> nat" where
  "v3_pubrel_size = v3_ack_size"

definition v3_pubrel_to_buffers :: "'p::len word v3_ack \<Rightarrow> slices" where
  "v3_pubrel_to_buffers = v3_ack_to_buffers"

definition v3_pubrel_to_continuous_buffer :: "'p::len word v3_ack \<Rightarrow> bytes" where
  "v3_pubrel_to_continuous_buffer = v3_ack_to_continuous_buffer"

definition v3_pubrel_set_packet_id :: "'p::len word \<Rightarrow> 'p word v3_ack_builder \<Rightarrow> 'p word v3_ack_builder" where
  "v3_pubrel_set_packet_id i b = b\<lparr>v3ab_packet_id_buf := Some i\<rparr>"

definition v3_pubrel_set_reason_code :: "pubrel_reason_code \<Rightarrow> 'p::len word v3_ack_builder \<Rightarrow> 'p word v3_ack_builder" where
  "v3_pubrel_set_reason_code rc b = b\<lparr>v3ab_reason_code_buf := Some (Some (pubrel_reason_code_u8 rc))\<rparr>"

definition v3_pubrel_validate :: "'p::len word v3_ack_builder \<Rightarrow> (unit, mqtt_error) result" where
  "v3_pubrel_validate = v3_ack_validate"

text \<open>\<^verbatim>\<open>src/mqtt/packet/v3_1_1/pubcomp.rs\<close>\<close>

type_synonym 't v3_pubcomp = "'t v3_ack"

definition v3_pubcomp_builder :: "'p::len word v3_ack_builder" where
  "v3_pubcomp_builder = \<lparr>v3ab_packet_id_buf = None, v3ab_reason_code_buf = None\<rparr>"

definition v3_pubcomp_packet_type :: "packet_type" where
  "v3_pubcomp_packet_type = PT_Pubcomp"

definition v3_pubcomp_packet_id :: "'p::len word v3_ack \<Rightarrow> 'p word" where
  "v3_pubcomp_packet_id k = v3a_packet_id_buf k"

definition v3_pubcomp_reason_code :: "'p::len word v3_ack \<Rightarrow> pubcomp_reason_code option" where
  "v3_pubcomp_reason_code k = (case v3a_reason_code_buf k of None \<Rightarrow> None | Some b \<Rightarrow> pubcomp_reason_code_try_from b)"

definition v3_pubcomp_size :: "'p::len word v3_ack \<Rightarrow> nat" where
  "v3_pubcomp_size = v3_ack_size"

definition v3_pubcomp_to_buffers :: "'p::len word v3_ack \<Rightarrow> slices" where
  "v3_pubcomp_to_buffers = v3_ack_to_buffers"

definition v3_pubcomp_to_continuous_buffer :: "'p::len word v3_ack \<Rightarrow> bytes" where
  "v3_pubcomp_to_continuous_buffer = v3_ack_to_continuous_buffer"

definition v3_pubcomp_set_packet_id :: "'p::len word \<Rightarrow> 'p word v3_ack_builder \<Rightarrow> 'p word v3_ack_builder" where
  "v3_pubcomp_set_packet_id i b = b\<lparr>v3ab_packet_id_buf := Some i\<rparr>"

definition v3_pubcomp_set_reason_code :: "pubcomp_reason_code \<Rightarrow> 'p::len word v3_ack_builder \<Rightarrow> 'p word v3_ack_builder" where
  "v3_pubcomp_set_reason_code rc b = b\<lparr>v3ab_reason_code_buf := Some (Some (pubcomp_reason_code_u8 rc))\<rparr>"

definition v3_pubcomp_validate :: "'p::len word v3_ack_builder \<Rightarrow> (unit, mqtt_error) result" where
  "v3_pubcomp_validate = v3_ack_validate"

section \<open>The acknowledgements of v5.0\<close>

text \<open>\<^verbatim>\<open>src/mqtt/packet/v5_0/puback.rs\<close>\<close>

type_synonym 't v5_puback = "'t v5_ack"

definition v5_puback_builder :: "'p::len word v5_ack_builder" where
  "v5_puback_builder = \<lparr>v5ab_packet_id_buf = None, v5ab_reason_code_buf = None, v5ab_props = None\<rparr>"

definition v5_puback_packet_type :: "packet_type" where
  "v5_puback_packet_type = PT_Puback"

definition v5_puback_packet_id :: "'p::len word v5_ack \<Rightarrow> 'p word" where
  "v5_puback_packet_id k = v5a_packet_id_buf k"

definition v5_puback_reason_code :: "'p::len word v5_ack \<Rightarrow> puback_reason_code option" where
  "v5_puback_reason_code k = (case v5a_reason_code_buf k of None \<Rightarrow> None | Some b \<Rightarrow> puback_reason_code_try_from b)"

definition v5_puback_size :: "'p::len word v5_ack \<Rightarrow> nat" where
  "v5_puback_size = v5_ack_size"

definition v5_puback_to_buffers :: "'p::len word v5_ack \<Rightarrow> slices" where
  "v5_puback_to_buffers = v5_ack_to_buffers"

definition v5_puback_to_continuous_buffer :: "'p::len word v5_ack \<Rightarrow> bytes" where
  "v5_puback_to_continuous_buffer = v5_ack_to_continuous_buffer"

definition v5_puback_set_packet_id :: "'p::len word \<Rightarrow> 'p word v5_ack_builder \<Rightarrow> 'p word v5_ack_builder" where
  "v5_puback_set_packet_id i b = b\<lparr>v5ab_packet_id_buf := Some i\<rparr>"

definition v5_puback_set_reason_code :: "puback_reason_code \<Rightarrow> 'p::len word v5_ack_builder \<Rightarrow> 'p word v5_ack_builder" where
  "v5_puback_set_reason_code rc b = b\<lparr>v5ab_reason_code_buf := Some (Some (puback_reason_code_u8 rc))\<rparr>"

definition v5_puback_validate :: "'p::len word v5_ack_builder \<Rightarrow> (unit, mqtt_error) result rust" where
  "v5_puback_validate = v5_ack_validate validate_puback_properties"

text \<open>\<^verbatim>\<open>src/mqtt/packet/v5_0/pubrec.rs\<close>\<close>

type_synonym 't v5_pubrec = "'t v5_ack"

definition v5_pubrec_builder :: "'p::len word v5_ack_builder" where
  "v5_pubrec_builder = \<lparr>v5ab_packet_id_buf = None, v5ab_reason_code_buf = None, v5ab_props = None\<rparr>"

definition v5_pubrec_packet_type :: "packet_type" where
  "v5_pubrec_packet_type = PT_Pubrec"

definition v5_pubrec_packet_id :: "'p::len word v5_ack \<Rightarrow> 'p word" where
  "v5_pubrec_packet_id k = v5a_packet_id_buf k"

definition v5_pubrec_size :: "'p::len word v5_ack \<Rightarrow> nat" where
  "v5_pubrec_size = v5_ack_size"

definition v5_pubrec_to_buffers :: "'p::len word v5_ack \<Rightarrow> slices" where
  "v5_pubrec_to_buffers = v5_ack_to_buffers"

definition v5_pubrec_to_continuous_buffer :: "'p::len word v5_ack \<Rightarrow> bytes" where
  "v5_pubrec_to_continuous_buffer = v5_ack_to_continuous_buffer"

definition v5_pubrec_set_packet_id :: "'p::len word \<Rightarrow> 'p word v5_ack_builder \<Rightarrow> 'p word v5_ack_builder" where
  "v5_pubrec_set_packet_id i b = b\<lparr>v5ab_packet_id_buf := Some i\<rparr>"

definition v5_pubrec_set_reason_code :: "pubrec_reason_code \<Rightarrow> 'p::len word v5_ack_builder \<Rightarrow> 'p word v5_ack_builder" where
  "v5_pubrec_set_reason_code rc b = b\<lparr>v5ab_reason_code_buf := Some (Some (pubrec_reason_code_u8 rc))\<rparr>"

definition v5_pubrec_validate :: "'p::len word v5_ack_builder \<Rightarrow> (unit, mqtt_error) result rust" where
  "v5_pubrec_validate = v5_ack_validate validate_pubrec_properties"

text \<open>\<^verbatim>\<open>src/mqtt/packet/v5_0/pubrel.rs\<close>\<close>

type_synonym 't v5_pubrel = "'t v5_ack"

definition v5_pubrel_builder :: "'p::len word v5_ack_builder" where
  "v5_pubrel_builder = \<lparr>v5ab_packet_id_buf = None, v5ab_reason_code_buf = None, v5ab_props = None\<rparr>"

definition v5_pubrel_packet_type :: "packet_type" where
  "v5_pubrel_packet_type = PT_Pubrel"

definition v5_pubrel_packet_id :: "'p::len word v5_ack \<Rightarrow> 'p word" where
  "v5_pubrel_packet_id k = v5a_packet_id_buf k"

definition v5_pubrel_reason_code :: "'p::len word v5_ack \<Rightarrow> pubrel_reason_code option" where
  "v5_pubrel_reason_code k = (case v5a_reason_code_buf k of None \<Rightarrow> None | Some b \<Rightarrow> pubrel_reason_code_try_from b)"

definition v5_pubrel_size :: "'p::len word v5_ack \<Rightarrow> nat" where
  "v5_pubrel_size = v5_ack_size"

definition v5_pubrel_to_buffers :: "'p::len word v5_ack \<Rightarrow> slices" where
  "v5_pubrel_to_buffers = v5_ack_to_buffers"

definition v5_pubrel_to_continuous_buffer :: "'p::len word v5_ack \<Rightarrow> bytes" where
  "v5_pubrel_to_continuous_buffer = v5_ack_to_continuous_buffer"

definition v5_pubrel_set_packet_id :: "'p::len word \<Rightarrow> 'p word v5_ack_builder \<Rightarrow> 'p word v5_ack_builder" where
  "v5_pubrel_set_packet_id i b = b\<lparr>v5ab_packet_id_buf := Some i\<rparr>"

definition v5_pubrel_set_reason_code :: "pubrel_reason_code \<Rightarrow> 'p::len word v5_ack_builder \<Rightarrow> 'p word v5_ack_builder" where
  "v5_pubrel_set_reason_code rc b = b\<lparr>v5ab_reason_code_buf := Some (Some (pubrel_reason_code_u8 rc))\<rparr>"

definition v5_pubrel_validate :: "'p::len word v5_ack_builder \<Rightarrow> (unit, mqtt_error) result rust" where
  "v5_pubrel_validate = v5_ack_validate validate_pubrel_properties"

text \<open>\<^verbatim>\<open>src/mqtt/packet/v5_0/pubcomp.rs\<close>\<close>

type_synonym 't v5_pubcomp = "'t v5_ack"

definition v5_pubcomp_builder :: "'p::len word v5_ack_builder" where
  "v5_pubcomp_builder = \<lparr>v5ab_packet_id_buf = None, v5ab_reason_code_buf = None, v5ab_props = None\<rparr>"

definition v5_pubcomp_packet_type :: "packet_type" where
  "v5_pubcomp_packet_type = PT_Pubcomp"

definition v5_pubcomp_packet_id :: "'p::len word v5_ack \<Rightarrow> 'p word" where
  "v5_pubcomp_packet_id k = v5a_packet_id_buf k"

definition v5_pubcomp_reason_code :: "'p::len word v5_ack \<Rightarrow> pubcomp_reason_code option" where
  "v5_pubcomp_reason_code k = (case v5a_reason_code_buf k of None \<Rightarrow> None | Some b \<Rightarrow> pubcomp_reason_code_try_from b)"

definition v5_pubcomp_size :: "'p::len word v5_ack \<Rightarrow> nat" where
  "v5_pubcomp_size = v5_ack_size"

definition v5_pubcomp_to_buffers :: "'p::len word v5_ack \<Rightarrow> slices" where
  "v5_pubcomp_to_buffers = v5_ack_to_buffers"

definition v5_pubcomp_to_continuous_buffer :: "'p::len word v5_ack \<Rightarrow> bytes" where
  "v5_pubcomp_to_continuous_buffer = v5_ack_to_continuous_buffer"

definition v5_pubcomp_set_packet_id :: "'p::len word \<Rightarrow> 'p word v5_ack_builder \<Rightarrow> 'p word v5_ack_builder" where
  "v5_pubcomp_set_packet_id i b = b\<lparr>v5ab_packet_id_buf := Some i\<rparr>"

definition v5_pubcomp_set_reason_code :: "pubcomp_reason_code \<Rightarrow> 'p::len word v5_ack_builder \<Rightarrow> 'p word v5_ack_builder" where
  "v5_pubcomp_set_reason_code rc b = b\<lparr>v5ab_reason_code_buf := Some (Some (pubcomp_reason_code_u8 rc))\<rparr>"

definition v5_pubcomp_validate :: "'p::len word v5_ack_builder \<Rightarrow> (unit, mqtt_error) result rust" where
  "v5_pubcomp_validate = v5_ack_validate validate_pubcomp_properties"

text \<open>\<open>props\<close>, the derived setter of the four builders.\<close>

definition v5ab_set_props :: "properties \<Rightarrow> 'p::len word v5_ack_builder \<Rightarrow> 'p word v5_ack_builder" where
  "v5ab_set_props ps b = b\<lparr>v5ab_props := Some (Some ps)\<rparr>"
section \<open>What a chain of setters builds\<close>

datatype ('t, 'r) v3_ack_setter = V3_Id 't | V3_Reason 'r

datatype ('t, 'r) v5_ack_setter = V5_Id 't | V5_Reason 'r | V5_Props properties

text \<open>The acknowledgement that a chain describes: the last setter of each kind counts.\<close>

record ('t, 'r) ack_message =
  am_packet_id :: "'t option"
  am_reason_code :: "'r option"
  am_props :: "properties option"

definition ack_message_new :: "('t, 'r) ack_message" where
  "ack_message_new = \<lparr>am_packet_id = None, am_reason_code = None, am_props = None\<rparr>"

primrec v3_ack_describe :: "('t, 'r) v3_ack_setter \<Rightarrow> ('t, 'r) ack_message \<Rightarrow> ('t, 'r) ack_message" where
  "v3_ack_describe (V3_Id i) m = m\<lparr>am_packet_id := Some i\<rparr>"
| "v3_ack_describe (V3_Reason r) m = m\<lparr>am_reason_code := Some r\<rparr>"

primrec v5_ack_describe :: "('t, 'r) v5_ack_setter \<Rightarrow> ('t, 'r) ack_message \<Rightarrow> ('t, 'r) ack_message" where
  "v5_ack_describe (V5_Id i) m = m\<lparr>am_packet_id := Some i\<rparr>"
| "v5_ack_describe (V5_Reason r) m = m\<lparr>am_reason_code := Some r\<rparr>"
| "v5_ack_describe (V5_Props ps) m = m\<lparr>am_props := Some ps\<rparr>"

text \<open>The error of a description that MQTT does not allow, and the length of the packet's body.\<close>

definition ack_refused :: "(properties \<Rightarrow> (unit, mqtt_error) result) \<Rightarrow> ('p::len word, 'r) ack_message \<Rightarrow> mqtt_error option" where
  "ack_refused validate m =
     (if am_packet_id m = None \<or> am_packet_id m = Some 0 then Some MalformedPacket
      else if am_reason_code m = None \<and> am_props m \<noteq> None then Some MalformedPacket
      else case am_props m of
          None \<Rightarrow> None
        | Some ps \<Rightarrow> (case validate ps of Ok _ \<Rightarrow> None | Err e \<Rightarrow> Some e))"

definition ack_length :: "('p::len word, 'r) ack_message \<Rightarrow> nat" where
  "ack_length m = pid_size TYPE('p) + (if am_reason_code m = None then 0 else 1)
     + (case am_props m of None \<Rightarrow> 0 | Some ps \<Rightarrow> length (properties_wire ps))"

text \<open>
  What every packet \<open>k\<close> with a body of \<open>n\<close> bytes keeps: its slices and its continuous buffer are the same
  bytes, as many as \<open>size\<close> says, and the packet builder and the parser make \<open>k\<close> of them again.
\<close>

definition sends_as ::
  "fixed_header \<Rightarrow> nat \<Rightarrow> ('k \<Rightarrow> nat) \<Rightarrow> ('k \<Rightarrow> slices) \<Rightarrow> ('k \<Rightarrow> bytes) \<Rightarrow> 'k parser \<Rightarrow> 'k \<Rightarrow> bool" where
  "sends_as fh n sz to_buffers to_continuous_buffer parse k \<longleftrightarrow>
     concat (to_buffers k) = to_continuous_buffer k \<and> sz k = length (to_continuous_buffer k)
     \<and> (n < 2097152 \<longrightarrow>
         (\<exists>raw. feed pb_new (cursor_new (to_continuous_buffer k)) =
             Ret (Complete raw, pb_new, \<lparr>inner = to_continuous_buffer k, pos = sz k\<rparr>)
           \<and> rp_fixed_header raw = fixed_header_as_u8 fh
           \<and> parse (rp_flags raw) (data_as_slice (rp_data raw)) = Ret (Ok (k, n))))"

lemma sends_asI:
  assumes wire: "packet_wire ok hdr body bytes sz parse" and good: "ok k" and hdr: "hdr k = fixed_header_as_u8 fh"
    and len: "length (body k) = n" and bufs: "concat (bufs k) = bytes k"
  shows "sends_as fh n sz bufs bytes parse k"
  using packet_wire.wire_roundtrip [OF wire good, of "[]"] packet_wire.size_eq [OF wire good] hdr len bufs
  by (auto simp: sends_as_def)

text \<open>
  What the interface of an acknowledgement promises of the result of a chain: the error, a panic of a
  packet that is too long to be encoded, or a packet from which the accessors read the description back.
\<close>

definition ack_promise ::
  "('p::len word, 'r) ack_message \<Rightarrow> mqtt_error option \<Rightarrow> fixed_header \<Rightarrow> ('k \<Rightarrow> 'p word) \<Rightarrow> ('k \<Rightarrow> 'r option)
   \<Rightarrow> ('k \<Rightarrow> properties option) \<Rightarrow> ('k \<Rightarrow> nat) \<Rightarrow> ('k \<Rightarrow> slices) \<Rightarrow> ('k \<Rightarrow> bytes) \<Rightarrow> 'k parser
   \<Rightarrow> ('k, mqtt_error) result rust \<Rightarrow> bool" where
  "ack_promise m refused fh packet_id reason_code props sz to_buffers to_continuous_buffer parse built \<longleftrightarrow>
     (case refused of
        Some e \<Rightarrow> built = Ret (Err e)
      | None \<Rightarrow>
          if ack_length m > 268435455 then built = Panic Unwrap_Failed
          else \<exists>k. built = Ret (Ok k)
            \<and> Some (packet_id k) = am_packet_id m \<and> reason_code k = am_reason_code m \<and> props k = am_props m
            \<and> sends_as fh (ack_length m) sz to_buffers to_continuous_buffer parse k)"


definition v3_ack_represents :: "('r \<Rightarrow> u8) \<Rightarrow> 'p::len word v3_ack_builder \<Rightarrow> ('p word, 'r) ack_message \<Rightarrow> bool" where
  "v3_ack_represents code b m \<longleftrightarrow> am_props m = None
     \<and> b = \<lparr>v3ab_packet_id_buf = am_packet_id m, v3ab_reason_code_buf = map_option (\<lambda>r. Some (code r)) (am_reason_code m)\<rparr>"

definition v5_ack_represents :: "('r \<Rightarrow> u8) \<Rightarrow> 'p::len word v5_ack_builder \<Rightarrow> ('p word, 'r) ack_message \<Rightarrow> bool" where
  "v5_ack_represents code b m \<longleftrightarrow>
     b = \<lparr>v5ab_packet_id_buf = am_packet_id m, v5ab_reason_code_buf = map_option (\<lambda>r. Some (code r)) (am_reason_code m),
       v5ab_props = map_option Some (am_props m)\<rparr>"

definition v3_ack_outcome ::
  "fixed_header \<Rightarrow> ('r \<Rightarrow> u8) \<Rightarrow> ('p::len word, 'r) ack_message \<Rightarrow> ('p word v3_ack, mqtt_error) result rust" where
  "v3_ack_outcome fh code m =
     (case ack_refused (\<lambda>_. Ok ()) m of
        Some e \<Rightarrow> Ret (Err e)
      | None \<Rightarrow> Ret (Ok \<lparr>v3a_fixed_header = fixed_header_as_u8 fh, v3a_remaining_length = \<lparr>encoded = vbi_enc (ack_length m)\<rparr>,
          v3a_packet_id_buf = the (am_packet_id m), v3a_reason_code_buf = map_option code (am_reason_code m)\<rparr>))"

definition v5_ack_outcome ::
  "fixed_header \<Rightarrow> (properties \<Rightarrow> (unit, mqtt_error) result) \<Rightarrow> ('r \<Rightarrow> u8) \<Rightarrow> ('p::len word, 'r) ack_message
   \<Rightarrow> ('p word v5_ack, mqtt_error) result rust" where
  "v5_ack_outcome fh validate code m =
     (case ack_refused validate m of
        Some e \<Rightarrow> Ret (Err e)
      | None \<Rightarrow>
          rbind (v5_property_length (am_props m)) (\<lambda>pl.
          rbind (vbi_of (pid_size TYPE('p) + v5_reason_size (map_option code (am_reason_code m)) pl (am_props m))) (\<lambda>rl.
            Ret (Ok \<lparr>v5a_fixed_header = fixed_header_as_u8 fh, v5a_remaining_length = rl,
              v5a_packet_id_buf = the (am_packet_id m), v5a_reason_code_buf = map_option code (am_reason_code m),
              v5a_property_length = pl, v5a_props = am_props m\<rparr>))))"

lemma flatten_map_Some [simp]: "flatten (map_option (\<lambda>r. Some (f r)) x) = map_option f x" "flatten (map_option Some x) = x"
  by (cases x; simp add: flatten_def)+

lemma v3_ack_build_outcome:
  assumes w: "packet_id_width TYPE('p::len)" and r: "v3_ack_represents code (b :: 'p word v3_ack_builder) m"
  shows "v3_ack_build fh b = v3_ack_outcome fh code m"
proof (cases "am_packet_id m")
  case (Some i)
  then show ?thesis
    using r to_buffer_zeros [OF w, of i] pid_size_le [OF w]
    by (cases "am_reason_code m")
      (simp_all add: v3_ack_represents_def v3_ack_build_def v3_ack_validate_def v3_ack_outcome_def ack_refused_def ack_length_def vbi_of_Ret)
qed (use r in \<open>simp add: v3_ack_represents_def v3_ack_build_def v3_ack_validate_def v3_ack_outcome_def ack_refused_def\<close>)

lemma v5_ack_build_outcome:
  assumes w: "packet_id_width TYPE('p::len)" and r: "v5_ack_represents code (b :: 'p word v5_ack_builder) m"
  shows "v5_ack_build fh validate b = v5_ack_outcome fh validate code m"
proof (cases "am_packet_id m")
  case (Some i)
  then show ?thesis
    using r to_buffer_zeros [OF w, of i]
    by (cases "am_reason_code m"; cases "am_props m"; cases "validate (the (am_props m))")
      (simp_all add: v5_ack_represents_def v5_ack_build_def v5_ack_validate_def v5_reason_validate_def v5_ack_outcome_def
        ack_refused_def flatten_def Let_def)
qed (use r in \<open>simp add: v5_ack_represents_def v5_ack_build_def v5_ack_validate_def v5_ack_outcome_def ack_refused_def\<close>)

lemma concat_v3_ack: "concat (v3_ack_to_buffers k) = v3_ack_to_continuous_buffer k"
  by (simp add: v3_ack_to_buffers_def v3_ack_to_continuous_buffer_def gathers)

lemma concat_v5_ack: "concat (v5_ack_to_buffers k) = v5_ack_to_continuous_buffer k"
  by (simp add: v5_ack_to_buffers_def v5_ack_to_continuous_buffer_def gathers)

lemma ack_promiseI:
  assumes wire: "packet_wire ok hdr body bytes sz parse" and good: "ok k" and hdr: "hdr k = fixed_header_as_u8 fh"
    and len: "length (body k) = ack_length m" and built: "built = Ret (Ok k)"
    and read: "Some (packet_id k) = am_packet_id m" "reason_code k = am_reason_code m" "props k = am_props m"
    and bufs: "concat (bufs k) = bytes k"
  shows "ack_promise m None fh packet_id reason_code props sz bufs bytes parse built"
proof -
  have "sends_as fh (ack_length m) sz bufs bytes parse k" by (rule sends_asI) (fact wire good hdr len bufs)+
  then show ?thesis
    using packet_wire.body_len [OF wire good] len built read by (auto simp: ack_promise_def)
qed

lemma v3_ack_outcome_promise:
  assumes w: "packet_id_width TYPE('p::len)" and code: "\<And>r. try (code r) = Some r" and none: "am_props m = None"
  shows "ack_promise m (ack_refused (\<lambda>_. Ok ()) m) fh v3a_packet_id_buf
    (\<lambda>k. case v3a_reason_code_buf k of None \<Rightarrow> None | Some b \<Rightarrow> try b) (\<lambda>_. None)
    v3_ack_size v3_ack_to_buffers v3_ack_to_continuous_buffer
    (v3_ack_parse fh (\<lambda>b. try b \<noteq> None) :: 'p word v3_ack parser) (v3_ack_outcome fh code m)"
proof (cases "ack_refused (\<lambda>_. Ok ()) m")
  case None
  let ?k = "\<lparr>v3a_fixed_header = fixed_header_as_u8 fh, v3a_remaining_length = \<lparr>encoded = vbi_enc (ack_length m)\<rparr>,
    v3a_packet_id_buf = the (am_packet_id m), v3a_reason_code_buf = map_option code (am_reason_code m)\<rparr>"
  obtain i where i: "am_packet_id m = Some i" "i \<noteq> 0" using None by (auto simp: ack_refused_def split: if_splits)
  have len: "length (v3_ack_body ?k) = ack_length m" "ack_length m \<le> 5"
    using none pid_size_le [OF w] by (cases "am_reason_code m"; simp add: v3_ack_body_def ack_length_def)+
  have inv: "v3_ack_inv fh (\<lambda>b. try b \<noteq> None) ?k"
    using i none by (cases "am_reason_code m") (simp_all add: v3_ack_inv_def v3_ack_body_def ack_length_def code)
  have built: "v3_ack_outcome fh code m = Ret (Ok ?k)" using None by (simp add: v3_ack_outcome_def)
  show ?thesis
    unfolding None
    by (rule ack_promiseI [OF packet_codec.axioms(1) [OF v3_ack_codec [OF w]] inv _ len(1) built])
      (simp_all add: i none code concat_v3_ack split: option.split)
qed (simp add: ack_promise_def v3_ack_outcome_def)

lemma length_wire_bound: "properties_inv ps \<Longrightarrow> length (properties_wire ps) \<le> 4 + properties_size ps"
  using vbi_enc_le_4 [of "properties_size ps"] by (simp add: length_properties_wire properties_inv_def)

lemma v5_ack_outcome_promise:
  assumes w: "packet_id_width TYPE('p::len)" and code: "\<And>r. try (code r) = Some r"
    and inv: "pred_option properties_inv (am_props m)"
  shows "ack_promise m (ack_refused validate m) fh v5a_packet_id_buf
    (\<lambda>k. case v5a_reason_code_buf k of None \<Rightarrow> None | Some b \<Rightarrow> try b) v5a_props
    v5_ack_size v5_ack_to_buffers v5_ack_to_continuous_buffer
    (v5_ack_parse fh (\<lambda>b. try b \<noteq> None) validate :: 'p word v5_ack parser) (v5_ack_outcome fh validate code m)"
proof (cases "ack_refused validate m")
  case None
  let ?pl = "map_option (\<lambda>ps. \<lparr>encoded = vbi_enc (properties_size ps)\<rparr>) (am_props m)"
  let ?k = "\<lparr>v5a_fixed_header = fixed_header_as_u8 fh, v5a_remaining_length = \<lparr>encoded = vbi_enc (ack_length m)\<rparr>,
    v5a_packet_id_buf = the (am_packet_id m), v5a_reason_code_buf = map_option code (am_reason_code m),
    v5a_property_length = ?pl, v5a_props = am_props m\<rparr>"
  obtain i where i: "am_packet_id m = Some i" "i \<noteq> 0" using None by (auto simp: ack_refused_def split: if_splits)
  have pl: "v5_property_length (am_props m) = Ret ?pl"
    using inv by (cases "am_props m") (simp_all add: v5_property_length_def properties_inv_def vbi_of_Ret)
  have size: "pid_size TYPE('p) + v5_reason_size (map_option code (am_reason_code m)) ?pl (am_props m) = ack_length m"
    by (cases "am_reason_code m"; cases "am_props m")
      (simp_all add: v5_reason_size_def ack_length_def vbi_size_def length_properties_wire)
  have len: "length (v5_ack_body ?k) = ack_length m"
    by (simp add: v5_ack_body_def size)
  have lt: "ack_length m < 2 ^ 32"
    using inv pid_size_le [OF w] length_wire_bound
    by (cases "am_props m") (fastforce simp: ack_length_def properties_inv_def)+
  show ?thesis
  proof (cases "ack_length m > 268435455")
    case True
    then show ?thesis
      unfolding ack_promise_def None v5_ack_outcome_def pl using lt
      by (simp add: size vbi_of_Panic)
  next
    case False
    have built: "v5_ack_outcome fh validate code m = Ret (Ok ?k)"
      unfolding None v5_ack_outcome_def pl using False by (simp add: size vbi_of_Ret)
    have inv': "v5_ack_inv fh (\<lambda>b. try b \<noteq> None) validate ?k"
      using None i inv False len
      by (cases "am_reason_code m"; cases "am_props m")
        (auto simp: v5_ack_inv_def v5_reason_inv_def code ack_refused_def split: result.splits if_splits)
    show ?thesis
      unfolding None
      by (rule ack_promiseI [OF packet_codec.axioms(1) [OF v5_ack_codec [OF w]] inv' _ len built])
        (simp_all add: i code concat_v5_ack split: option.split)
  qed
qed (simp add: ack_promise_def v5_ack_outcome_def)

section \<open>The eight types\<close>

text \<open>The setters of a type, as calls.\<close>

primrec v3_puback_call ::
  "('p::len word, puback_reason_code) v3_ack_setter \<Rightarrow> 'p word v3_ack_builder \<Rightarrow> ('p word v3_ack_builder, mqtt_error) result" where
  "v3_puback_call (V3_Id i) b = Ok (v3_puback_set_packet_id i b)"
| "v3_puback_call (V3_Reason rc) b = Ok (v3_puback_set_reason_code rc b)"

primrec v3_pubrec_call ::
  "('p::len word, pubrec_reason_code) v3_ack_setter \<Rightarrow> 'p word v3_ack_builder \<Rightarrow> ('p word v3_ack_builder, mqtt_error) result" where
  "v3_pubrec_call (V3_Id i) b = Ok (v3_pubrec_set_packet_id i b)"
| "v3_pubrec_call (V3_Reason rc) b = Ok (v3_pubrec_set_reason_code rc b)"

primrec v3_pubrel_call ::
  "('p::len word, pubrel_reason_code) v3_ack_setter \<Rightarrow> 'p word v3_ack_builder \<Rightarrow> ('p word v3_ack_builder, mqtt_error) result" where
  "v3_pubrel_call (V3_Id i) b = Ok (v3_pubrel_set_packet_id i b)"
| "v3_pubrel_call (V3_Reason rc) b = Ok (v3_pubrel_set_reason_code rc b)"

primrec v3_pubcomp_call ::
  "('p::len word, pubcomp_reason_code) v3_ack_setter \<Rightarrow> 'p word v3_ack_builder \<Rightarrow> ('p word v3_ack_builder, mqtt_error) result" where
  "v3_pubcomp_call (V3_Id i) b = Ok (v3_pubcomp_set_packet_id i b)"
| "v3_pubcomp_call (V3_Reason rc) b = Ok (v3_pubcomp_set_reason_code rc b)"

primrec v5_puback_call ::
  "('p::len word, puback_reason_code) v5_ack_setter \<Rightarrow> 'p word v5_ack_builder \<Rightarrow> ('p word v5_ack_builder, mqtt_error) result" where
  "v5_puback_call (V5_Id i) b = Ok (v5_puback_set_packet_id i b)"
| "v5_puback_call (V5_Reason rc) b = Ok (v5_puback_set_reason_code rc b)"
| "v5_puback_call (V5_Props ps) b = Ok (v5ab_set_props ps b)"

primrec v5_pubrec_call ::
  "('p::len word, pubrec_reason_code) v5_ack_setter \<Rightarrow> 'p word v5_ack_builder \<Rightarrow> ('p word v5_ack_builder, mqtt_error) result" where
  "v5_pubrec_call (V5_Id i) b = Ok (v5_pubrec_set_packet_id i b)"
| "v5_pubrec_call (V5_Reason rc) b = Ok (v5_pubrec_set_reason_code rc b)"
| "v5_pubrec_call (V5_Props ps) b = Ok (v5ab_set_props ps b)"

primrec v5_pubrel_call ::
  "('p::len word, pubrel_reason_code) v5_ack_setter \<Rightarrow> 'p word v5_ack_builder \<Rightarrow> ('p word v5_ack_builder, mqtt_error) result" where
  "v5_pubrel_call (V5_Id i) b = Ok (v5_pubrel_set_packet_id i b)"
| "v5_pubrel_call (V5_Reason rc) b = Ok (v5_pubrel_set_reason_code rc b)"
| "v5_pubrel_call (V5_Props ps) b = Ok (v5ab_set_props ps b)"

primrec v5_pubcomp_call ::
  "('p::len word, pubcomp_reason_code) v5_ack_setter \<Rightarrow> 'p word v5_ack_builder \<Rightarrow> ('p word v5_ack_builder, mqtt_error) result" where
  "v5_pubcomp_call (V5_Id i) b = Ok (v5_pubcomp_set_packet_id i b)"
| "v5_pubcomp_call (V5_Reason rc) b = Ok (v5_pubcomp_set_reason_code rc b)"
| "v5_pubcomp_call (V5_Props ps) b = Ok (v5ab_set_props ps b)"

lemmas ack_reason_codes = puback_reason_code_try_from_def pubrec_reason_code_try_from_def
  pubrel_reason_code_try_from_def pubcomp_reason_code_try_from_def puback_reason_code.try_from_code
  pubrec_reason_code.try_from_code pubrel_reason_code.try_from_code pubcomp_reason_code.try_from_code

lemmas v3_ack_interface =
  v3_puback_builder_def v3_puback_set_packet_id_def v3_puback_set_reason_code_def v3_puback_build_def v3_puback_size_def v3_puback_to_buffers_def v3_puback_to_continuous_buffer_def v3_puback_parse_def
  v3_pubrec_builder_def v3_pubrec_set_packet_id_def v3_pubrec_set_reason_code_def v3_pubrec_build_def v3_pubrec_size_def v3_pubrec_to_buffers_def v3_pubrec_to_continuous_buffer_def v3_pubrec_parse_def
  v3_pubrel_builder_def v3_pubrel_set_packet_id_def v3_pubrel_set_reason_code_def v3_pubrel_build_def v3_pubrel_size_def v3_pubrel_to_buffers_def v3_pubrel_to_continuous_buffer_def v3_pubrel_parse_def
  v3_pubcomp_builder_def v3_pubcomp_set_packet_id_def v3_pubcomp_set_reason_code_def v3_pubcomp_build_def v3_pubcomp_size_def v3_pubcomp_to_buffers_def v3_pubcomp_to_continuous_buffer_def v3_pubcomp_parse_def

lemmas v5_ack_interface =
  v5_puback_builder_def v5_puback_set_packet_id_def v5_puback_set_reason_code_def v5_puback_build_def v5_puback_size_def v5_puback_to_buffers_def v5_puback_to_continuous_buffer_def v5_puback_parse_def
  v5_pubrec_builder_def v5_pubrec_set_packet_id_def v5_pubrec_set_reason_code_def v5_pubrec_build_def v5_pubrec_size_def v5_pubrec_to_buffers_def v5_pubrec_to_continuous_buffer_def v5_pubrec_parse_def
  v5_pubrel_builder_def v5_pubrel_set_packet_id_def v5_pubrel_set_reason_code_def v5_pubrel_build_def v5_pubrel_size_def v5_pubrel_to_buffers_def v5_pubrel_to_continuous_buffer_def v5_pubrel_parse_def
  v5_pubcomp_builder_def v5_pubcomp_set_packet_id_def v5_pubcomp_set_reason_code_def v5_pubcomp_build_def v5_pubcomp_size_def v5_pubcomp_to_buffers_def v5_pubcomp_to_continuous_buffer_def v5_pubcomp_parse_def
  v5ab_set_props_def

lemma v3_puback_fluent:
  assumes "packet_id_width TYPE('p::len)"
  shows "fluent_builder (v3_puback_builder :: 'p word v3_ack_builder) v3_puback_call v3_puback_build ack_message_new v3_ack_describe (\<lambda>_. None)
    (v3_ack_represents puback_reason_code_u8) (v3_ack_outcome FH_Puback puback_reason_code_u8)"
proof (unfold_locales, goal_cases)
  case (3 b m s)
  then show ?case by (cases s) (simp_all add: v3_ack_represents_def v3_ack_interface)
qed (simp_all add: v3_ack_represents_def ack_message_new_def v3_ack_interface v3_ack_build_outcome [OF assms])

interpretation v3_puback16: fluent_builder "v3_puback_builder :: 16 word v3_ack_builder" v3_puback_call v3_puback_build ack_message_new v3_ack_describe
    "\<lambda>_. None" "v3_ack_represents puback_reason_code_u8" "v3_ack_outcome FH_Puback puback_reason_code_u8"
  by (rule v3_puback_fluent) (simp add: packet_id_width_def)

lemma v3_pubrec_fluent:
  assumes "packet_id_width TYPE('p::len)"
  shows "fluent_builder (v3_pubrec_builder :: 'p word v3_ack_builder) v3_pubrec_call v3_pubrec_build ack_message_new v3_ack_describe (\<lambda>_. None)
    (v3_ack_represents pubrec_reason_code_u8) (v3_ack_outcome FH_Pubrec pubrec_reason_code_u8)"
proof (unfold_locales, goal_cases)
  case (3 b m s)
  then show ?case by (cases s) (simp_all add: v3_ack_represents_def v3_ack_interface)
qed (simp_all add: v3_ack_represents_def ack_message_new_def v3_ack_interface v3_ack_build_outcome [OF assms])

interpretation v3_pubrec16: fluent_builder "v3_pubrec_builder :: 16 word v3_ack_builder" v3_pubrec_call v3_pubrec_build ack_message_new v3_ack_describe
    "\<lambda>_. None" "v3_ack_represents pubrec_reason_code_u8" "v3_ack_outcome FH_Pubrec pubrec_reason_code_u8"
  by (rule v3_pubrec_fluent) (simp add: packet_id_width_def)

lemma v3_pubrel_fluent:
  assumes "packet_id_width TYPE('p::len)"
  shows "fluent_builder (v3_pubrel_builder :: 'p word v3_ack_builder) v3_pubrel_call v3_pubrel_build ack_message_new v3_ack_describe (\<lambda>_. None)
    (v3_ack_represents pubrel_reason_code_u8) (v3_ack_outcome FH_Pubrel pubrel_reason_code_u8)"
proof (unfold_locales, goal_cases)
  case (3 b m s)
  then show ?case by (cases s) (simp_all add: v3_ack_represents_def v3_ack_interface)
qed (simp_all add: v3_ack_represents_def ack_message_new_def v3_ack_interface v3_ack_build_outcome [OF assms])

interpretation v3_pubrel16: fluent_builder "v3_pubrel_builder :: 16 word v3_ack_builder" v3_pubrel_call v3_pubrel_build ack_message_new v3_ack_describe
    "\<lambda>_. None" "v3_ack_represents pubrel_reason_code_u8" "v3_ack_outcome FH_Pubrel pubrel_reason_code_u8"
  by (rule v3_pubrel_fluent) (simp add: packet_id_width_def)

lemma v3_pubcomp_fluent:
  assumes "packet_id_width TYPE('p::len)"
  shows "fluent_builder (v3_pubcomp_builder :: 'p word v3_ack_builder) v3_pubcomp_call v3_pubcomp_build ack_message_new v3_ack_describe (\<lambda>_. None)
    (v3_ack_represents pubcomp_reason_code_u8) (v3_ack_outcome FH_Pubcomp pubcomp_reason_code_u8)"
proof (unfold_locales, goal_cases)
  case (3 b m s)
  then show ?case by (cases s) (simp_all add: v3_ack_represents_def v3_ack_interface)
qed (simp_all add: v3_ack_represents_def ack_message_new_def v3_ack_interface v3_ack_build_outcome [OF assms])

interpretation v3_pubcomp16: fluent_builder "v3_pubcomp_builder :: 16 word v3_ack_builder" v3_pubcomp_call v3_pubcomp_build ack_message_new v3_ack_describe
    "\<lambda>_. None" "v3_ack_represents pubcomp_reason_code_u8" "v3_ack_outcome FH_Pubcomp pubcomp_reason_code_u8"
  by (rule v3_pubcomp_fluent) (simp add: packet_id_width_def)

lemma v5_puback_fluent:
  assumes "packet_id_width TYPE('p::len)"
  shows "fluent_builder (v5_puback_builder :: 'p word v5_ack_builder) v5_puback_call v5_puback_build ack_message_new v5_ack_describe (\<lambda>_. None)
    (v5_ack_represents puback_reason_code_u8) (v5_ack_outcome FH_Puback validate_puback_properties puback_reason_code_u8)"
proof (unfold_locales, goal_cases)
  case (3 b m s)
  then show ?case by (cases s) (simp_all add: v5_ack_represents_def v5_ack_interface)
qed (simp_all add: v5_ack_represents_def ack_message_new_def v5_ack_interface v5_ack_build_outcome [OF assms])

interpretation v5_puback16: fluent_builder "v5_puback_builder :: 16 word v5_ack_builder" v5_puback_call v5_puback_build ack_message_new v5_ack_describe
    "\<lambda>_. None" "v5_ack_represents puback_reason_code_u8" "v5_ack_outcome FH_Puback validate_puback_properties puback_reason_code_u8"
  by (rule v5_puback_fluent) (simp add: packet_id_width_def)

lemma v5_pubrec_fluent:
  assumes "packet_id_width TYPE('p::len)"
  shows "fluent_builder (v5_pubrec_builder :: 'p word v5_ack_builder) v5_pubrec_call v5_pubrec_build ack_message_new v5_ack_describe (\<lambda>_. None)
    (v5_ack_represents pubrec_reason_code_u8) (v5_ack_outcome FH_Pubrec validate_pubrec_properties pubrec_reason_code_u8)"
proof (unfold_locales, goal_cases)
  case (3 b m s)
  then show ?case by (cases s) (simp_all add: v5_ack_represents_def v5_ack_interface)
qed (simp_all add: v5_ack_represents_def ack_message_new_def v5_ack_interface v5_ack_build_outcome [OF assms])

interpretation v5_pubrec16: fluent_builder "v5_pubrec_builder :: 16 word v5_ack_builder" v5_pubrec_call v5_pubrec_build ack_message_new v5_ack_describe
    "\<lambda>_. None" "v5_ack_represents pubrec_reason_code_u8" "v5_ack_outcome FH_Pubrec validate_pubrec_properties pubrec_reason_code_u8"
  by (rule v5_pubrec_fluent) (simp add: packet_id_width_def)

lemma v5_pubrel_fluent:
  assumes "packet_id_width TYPE('p::len)"
  shows "fluent_builder (v5_pubrel_builder :: 'p word v5_ack_builder) v5_pubrel_call v5_pubrel_build ack_message_new v5_ack_describe (\<lambda>_. None)
    (v5_ack_represents pubrel_reason_code_u8) (v5_ack_outcome FH_Pubrel validate_pubrel_properties pubrel_reason_code_u8)"
proof (unfold_locales, goal_cases)
  case (3 b m s)
  then show ?case by (cases s) (simp_all add: v5_ack_represents_def v5_ack_interface)
qed (simp_all add: v5_ack_represents_def ack_message_new_def v5_ack_interface v5_ack_build_outcome [OF assms])

interpretation v5_pubrel16: fluent_builder "v5_pubrel_builder :: 16 word v5_ack_builder" v5_pubrel_call v5_pubrel_build ack_message_new v5_ack_describe
    "\<lambda>_. None" "v5_ack_represents pubrel_reason_code_u8" "v5_ack_outcome FH_Pubrel validate_pubrel_properties pubrel_reason_code_u8"
  by (rule v5_pubrel_fluent) (simp add: packet_id_width_def)

lemma v5_pubcomp_fluent:
  assumes "packet_id_width TYPE('p::len)"
  shows "fluent_builder (v5_pubcomp_builder :: 'p word v5_ack_builder) v5_pubcomp_call v5_pubcomp_build ack_message_new v5_ack_describe (\<lambda>_. None)
    (v5_ack_represents pubcomp_reason_code_u8) (v5_ack_outcome FH_Pubcomp validate_pubcomp_properties pubcomp_reason_code_u8)"
proof (unfold_locales, goal_cases)
  case (3 b m s)
  then show ?case by (cases s) (simp_all add: v5_ack_represents_def v5_ack_interface)
qed (simp_all add: v5_ack_represents_def ack_message_new_def v5_ack_interface v5_ack_build_outcome [OF assms])

interpretation v5_pubcomp16: fluent_builder "v5_pubcomp_builder :: 16 word v5_ack_builder" v5_pubcomp_call v5_pubcomp_build ack_message_new v5_ack_describe
    "\<lambda>_. None" "v5_ack_represents pubcomp_reason_code_u8" "v5_ack_outcome FH_Pubcomp validate_pubcomp_properties pubcomp_reason_code_u8"
  by (rule v5_pubcomp_fluent) (simp add: packet_id_width_def)

lemma v3_ack_described: "am_props (fold v3_ack_describe ss m) = am_props m"
proof (induction ss arbitrary: m)
  case (Cons s ss)
  then show ?case by (cases s) simp_all
qed simp

lemma v5_ack_described:
  "pred_option ok (am_props m) \<Longrightarrow> (\<And>ps. V5_Props ps \<in> set ss \<Longrightarrow> ok ps) \<Longrightarrow> pred_option ok (am_props (fold v5_ack_describe ss m))"
proof (induction ss arbitrary: m)
  case (Cons s ss)
  then show ?case by (cases s) simp_all
qed simp

lemmas v3_ack_access = v3_puback_packet_id_def v3_pubrec_packet_id_def v3_pubrel_packet_id_def v3_pubcomp_packet_id_def
  v3_puback_reason_code_def v3_pubrec_reason_code_def v3_pubrel_reason_code_def v3_pubcomp_reason_code_def

lemmas v5_ack_access = v5_puback_packet_id_def v5_pubrec_packet_id_def v5_pubrel_packet_id_def v5_pubcomp_packet_id_def
  v5_puback_reason_code_def v5_pubrec_reason_code_def v5_pubrel_reason_code_def v5_pubcomp_reason_code_def

lemma v3_ack_chain:
  assumes w: "packet_id_width TYPE('p::len)" and code: "\<And>r. try (code r) = Some r"
    and f: "fluent_builder (new :: 'p word v3_ack_builder) call build ack_message_new v3_ack_describe (\<lambda>_. None)
      (v3_ack_represents code) (v3_ack_outcome fh code)"
  shows "let m = fold v3_ack_describe ss ack_message_new in
    ack_promise m (ack_refused (\<lambda>_. Ok ()) m) fh v3a_packet_id_buf
      (\<lambda>k. case v3a_reason_code_buf k of None \<Rightarrow> None | Some b \<Rightarrow> try b) (\<lambda>_. None)
      v3_ack_size v3_ack_to_buffers v3_ack_to_continuous_buffer (v3_ack_parse fh (\<lambda>b. try b \<noteq> None))
      (build_chain new call build ss)"
  unfolding Let_def fluent_builder.chain_outcome [OF f] first_refusal_None option.case
  by (rule v3_ack_outcome_promise [OF w code]) (simp add: v3_ack_described ack_message_new_def)

lemma v5_ack_chain:
  assumes w: "packet_id_width TYPE('p::len)" and code: "\<And>r. try (code r) = Some r"
    and f: "fluent_builder (new :: 'p word v5_ack_builder) call build ack_message_new v5_ack_describe (\<lambda>_. None)
      (v5_ack_represents code) (v5_ack_outcome fh validate code)"
    and ps: "\<And>ps. V5_Props ps \<in> set ss \<Longrightarrow> properties_inv ps"
  shows "let m = fold v5_ack_describe ss ack_message_new in
    ack_promise m (ack_refused validate m) fh v5a_packet_id_buf
      (\<lambda>k. case v5a_reason_code_buf k of None \<Rightarrow> None | Some b \<Rightarrow> try b) v5a_props
      v5_ack_size v5_ack_to_buffers v5_ack_to_continuous_buffer (v5_ack_parse fh (\<lambda>b. try b \<noteq> None) validate)
      (build_chain new call build ss)"
  unfolding Let_def fluent_builder.chain_outcome [OF f] first_refusal_None option.case
  by (rule v5_ack_outcome_promise [OF w code]) (rule v5_ack_described, simp_all add: ack_message_new_def ps)

text \<open>
  The fluent interface of the acknowledgements of v3.1.1.  For each of the four types and every
  chain of setters, \<open>build\<close> refuses with MalformedPacket exactly when no identifier or the identifier 0
  was set last; otherwise it gives a packet from which \<open>packet_id\<close> and \<open>reason_code\<close> read back what was
  set last, whose slices and continuous buffer are the same \<open>size\<close> bytes, and which the packet builder
  and the parser of its type make again of these bytes.
\<close>

theorem fluent_v3_acks:
  fixes ss_1 :: "('p::len word, puback_reason_code) v3_ack_setter list"
    and ss_2 :: "('p word, pubrec_reason_code) v3_ack_setter list"
    and ss_3 :: "('p word, pubrel_reason_code) v3_ack_setter list"
    and ss_4 :: "('p word, pubcomp_reason_code) v3_ack_setter list"
  assumes "packet_id_width TYPE('p)"
  shows "(let m = fold v3_ack_describe ss_1 ack_message_new in
      ack_promise m (ack_refused (\<lambda>_. Ok ()) m) FH_Puback v3_puback_packet_id v3_puback_reason_code (\<lambda>_. None) v3_puback_size
        v3_puback_to_buffers v3_puback_to_continuous_buffer v3_puback_parse (build_chain v3_puback_builder v3_puback_call v3_puback_build ss_1))
   \<and> (let m = fold v3_ack_describe ss_2 ack_message_new in
      ack_promise m (ack_refused (\<lambda>_. Ok ()) m) FH_Pubrec v3_pubrec_packet_id v3_pubrec_reason_code (\<lambda>_. None) v3_pubrec_size
        v3_pubrec_to_buffers v3_pubrec_to_continuous_buffer v3_pubrec_parse (build_chain v3_pubrec_builder v3_pubrec_call v3_pubrec_build ss_2))
   \<and> (let m = fold v3_ack_describe ss_3 ack_message_new in
      ack_promise m (ack_refused (\<lambda>_. Ok ()) m) FH_Pubrel v3_pubrel_packet_id v3_pubrel_reason_code (\<lambda>_. None) v3_pubrel_size
        v3_pubrel_to_buffers v3_pubrel_to_continuous_buffer v3_pubrel_parse (build_chain v3_pubrel_builder v3_pubrel_call v3_pubrel_build ss_3))
   \<and> (let m = fold v3_ack_describe ss_4 ack_message_new in
      ack_promise m (ack_refused (\<lambda>_. Ok ()) m) FH_Pubcomp v3_pubcomp_packet_id v3_pubcomp_reason_code (\<lambda>_. None) v3_pubcomp_size
        v3_pubcomp_to_buffers v3_pubcomp_to_continuous_buffer v3_pubcomp_parse (build_chain v3_pubcomp_builder v3_pubcomp_call v3_pubcomp_build ss_4))"
proof (intro conjI)
  show "(let m = fold v3_ack_describe ss_1 ack_message_new in
      ack_promise m (ack_refused (\<lambda>_. Ok ()) m) FH_Puback v3_puback_packet_id v3_puback_reason_code (\<lambda>_. None) v3_puback_size
        v3_puback_to_buffers v3_puback_to_continuous_buffer v3_puback_parse (build_chain v3_puback_builder v3_puback_call v3_puback_build ss_1))"
    using v3_ack_chain [OF assms(1) puback_reason_code.try_from_code v3_puback_fluent [OF assms(1)], of ss_1]
    unfolding v3_ack_interface v3_ack_access puback_reason_code_try_from_def by blast
  show "(let m = fold v3_ack_describe ss_2 ack_message_new in
      ack_promise m (ack_refused (\<lambda>_. Ok ()) m) FH_Pubrec v3_pubrec_packet_id v3_pubrec_reason_code (\<lambda>_. None) v3_pubrec_size
        v3_pubrec_to_buffers v3_pubrec_to_continuous_buffer v3_pubrec_parse (build_chain v3_pubrec_builder v3_pubrec_call v3_pubrec_build ss_2))"
    using v3_ack_chain [OF assms(1) pubrec_reason_code.try_from_code v3_pubrec_fluent [OF assms(1)], of ss_2]
    unfolding v3_ack_interface v3_ack_access pubrec_reason_code_try_from_def by blast
  show "(let m = fold v3_ack_describe ss_3 ack_message_new in
      ack_promise m (ack_refused (\<lambda>_. Ok ()) m) FH_Pubrel v3_pubrel_packet_id v3_pubrel_reason_code (\<lambda>_. None) v3_pubrel_size
        v3_pubrel_to_buffers v3_pubrel_to_continuous_buffer v3_pubrel_parse (build_chain v3_pubrel_builder v3_pubrel_call v3_pubrel_build ss_3))"
    using v3_ack_chain [OF assms(1) pubrel_reason_code.try_from_code v3_pubrel_fluent [OF assms(1)], of ss_3]
    unfolding v3_ack_interface v3_ack_access pubrel_reason_code_try_from_def by blast
  show "(let m = fold v3_ack_describe ss_4 ack_message_new in
      ack_promise m (ack_refused (\<lambda>_. Ok ()) m) FH_Pubcomp v3_pubcomp_packet_id v3_pubcomp_reason_code (\<lambda>_. None) v3_pubcomp_size
        v3_pubcomp_to_buffers v3_pubcomp_to_continuous_buffer v3_pubcomp_parse (build_chain v3_pubcomp_builder v3_pubcomp_call v3_pubcomp_build ss_4))"
    using v3_ack_chain [OF assms(1) pubcomp_reason_code.try_from_code v3_pubcomp_fluent [OF assms(1)], of ss_4]
    unfolding v3_ack_interface v3_ack_access pubcomp_reason_code_try_from_def by blast
qed

theorem fluent_v3_acks_witness:
  "\<exists>k :: 16 word v3_ack. build_chain v3_pubrec_builder v3_pubrec_call v3_pubrec_build
       [V3_Id 0, V3_Reason Pubrec_Success, V3_Id 7, V3_Reason Pubrec_QuotaExceeded] = Ret (Ok k)
     \<and> v3_pubrec_packet_id k = 7 \<and> v3_pubrec_reason_code k = Some Pubrec_QuotaExceeded"
proof -
  have w: "packet_id_width TYPE(16)" by (simp add: packet_id_width_def)
  show ?thesis
    using fluent_v3_acks [OF w, of "[]" "[V3_Id 0, V3_Reason Pubrec_Success, V3_Id 7, V3_Reason Pubrec_QuotaExceeded]" "[]" "[]"]
    by (auto simp: ack_promise_def ack_refused_def ack_length_def ack_message_new_def pid_size_def Let_def)
qed

text \<open>
  C25: the fluent interface of the acknowledgements of v5.0.  As for v3.1.1, with properties: \<open>build\<close>
  also refuses properties without a reason code, and gives the error of the validation of properties
  that the type does not allow; it panics exactly when the packet would be longer than a remaining
  length can say; and the packet's properties are those that were set last.
\<close>

theorem fluent_v5_acks:
  fixes ss_1 :: "('p::len word, puback_reason_code) v5_ack_setter list"
    and ss_2 :: "('p word, pubrec_reason_code) v5_ack_setter list"
    and ss_3 :: "('p word, pubrel_reason_code) v5_ack_setter list"
    and ss_4 :: "('p word, pubcomp_reason_code) v5_ack_setter list"
  assumes "packet_id_width TYPE('p)"
    and "\<forall>ps. V5_Props ps \<in> set ss_1 \<or> V5_Props ps \<in> set ss_2 \<or> V5_Props ps \<in> set ss_3 \<or> V5_Props ps \<in> set ss_4
      \<longrightarrow> properties_inv ps"
  shows "(let m = fold v5_ack_describe ss_1 ack_message_new in
      ack_promise m (ack_refused validate_puback_properties m) FH_Puback v5_puback_packet_id v5_puback_reason_code v5a_props v5_puback_size
        v5_puback_to_buffers v5_puback_to_continuous_buffer v5_puback_parse (build_chain v5_puback_builder v5_puback_call v5_puback_build ss_1))
   \<and> (let m = fold v5_ack_describe ss_2 ack_message_new in
      ack_promise m (ack_refused validate_pubrec_properties m) FH_Pubrec v5_pubrec_packet_id v5_pubrec_reason_code v5a_props v5_pubrec_size
        v5_pubrec_to_buffers v5_pubrec_to_continuous_buffer v5_pubrec_parse (build_chain v5_pubrec_builder v5_pubrec_call v5_pubrec_build ss_2))
   \<and> (let m = fold v5_ack_describe ss_3 ack_message_new in
      ack_promise m (ack_refused validate_pubrel_properties m) FH_Pubrel v5_pubrel_packet_id v5_pubrel_reason_code v5a_props v5_pubrel_size
        v5_pubrel_to_buffers v5_pubrel_to_continuous_buffer v5_pubrel_parse (build_chain v5_pubrel_builder v5_pubrel_call v5_pubrel_build ss_3))
   \<and> (let m = fold v5_ack_describe ss_4 ack_message_new in
      ack_promise m (ack_refused validate_pubcomp_properties m) FH_Pubcomp v5_pubcomp_packet_id v5_pubcomp_reason_code v5a_props v5_pubcomp_size
        v5_pubcomp_to_buffers v5_pubcomp_to_continuous_buffer v5_pubcomp_parse (build_chain v5_pubcomp_builder v5_pubcomp_call v5_pubcomp_build ss_4))"
proof (intro conjI)
  show "(let m = fold v5_ack_describe ss_1 ack_message_new in
      ack_promise m (ack_refused validate_puback_properties m) FH_Puback v5_puback_packet_id v5_puback_reason_code v5a_props v5_puback_size
        v5_puback_to_buffers v5_puback_to_continuous_buffer v5_puback_parse (build_chain v5_puback_builder v5_puback_call v5_puback_build ss_1))"
    using v5_ack_chain [OF assms(1) puback_reason_code.try_from_code v5_puback_fluent [OF assms(1)], of ss_1] assms(2)
    unfolding v5_ack_interface v5_ack_access puback_reason_code_try_from_def by blast
  show "(let m = fold v5_ack_describe ss_2 ack_message_new in
      ack_promise m (ack_refused validate_pubrec_properties m) FH_Pubrec v5_pubrec_packet_id v5_pubrec_reason_code v5a_props v5_pubrec_size
        v5_pubrec_to_buffers v5_pubrec_to_continuous_buffer v5_pubrec_parse (build_chain v5_pubrec_builder v5_pubrec_call v5_pubrec_build ss_2))"
    using v5_ack_chain [OF assms(1) pubrec_reason_code.try_from_code v5_pubrec_fluent [OF assms(1)], of ss_2] assms(2)
    unfolding v5_ack_interface v5_ack_access pubrec_reason_code_try_from_def by blast
  show "(let m = fold v5_ack_describe ss_3 ack_message_new in
      ack_promise m (ack_refused validate_pubrel_properties m) FH_Pubrel v5_pubrel_packet_id v5_pubrel_reason_code v5a_props v5_pubrel_size
        v5_pubrel_to_buffers v5_pubrel_to_continuous_buffer v5_pubrel_parse (build_chain v5_pubrel_builder v5_pubrel_call v5_pubrel_build ss_3))"
    using v5_ack_chain [OF assms(1) pubrel_reason_code.try_from_code v5_pubrel_fluent [OF assms(1)], of ss_3] assms(2)
    unfolding v5_ack_interface v5_ack_access pubrel_reason_code_try_from_def by blast
  show "(let m = fold v5_ack_describe ss_4 ack_message_new in
      ack_promise m (ack_refused validate_pubcomp_properties m) FH_Pubcomp v5_pubcomp_packet_id v5_pubcomp_reason_code v5a_props v5_pubcomp_size
        v5_pubcomp_to_buffers v5_pubcomp_to_continuous_buffer v5_pubcomp_parse (build_chain v5_pubcomp_builder v5_pubcomp_call v5_pubcomp_build ss_4))"
    using v5_ack_chain [OF assms(1) pubcomp_reason_code.try_from_code v5_pubcomp_fluent [OF assms(1)], of ss_4] assms(2)
    unfolding v5_ack_interface v5_ack_access pubcomp_reason_code_try_from_def by blast
qed

theorem fluent_v5_acks_witness:
  "\<exists>k :: 16 word v5_ack. build_chain v5_pubrel_builder v5_pubrel_call v5_pubrel_build
       [V5_Props [], V5_Reason Pubrel_Success, V5_Id 7, V5_Props [P_ReasonString \<lparr>ms_encoded = [0, 1, 0x61]\<rparr>]] = Ret (Ok k)
     \<and> v5_pubrel_packet_id k = 7 \<and> v5_pubrel_reason_code k = Some Pubrel_Success
     \<and> v5a_props k = Some [P_ReasonString \<lparr>ms_encoded = [0, 1, 0x61]\<rparr>]"
proof -
  let ?ps = "[P_ReasonString \<lparr>ms_encoded = [0, 1, 0x61]\<rparr>]"
  let ?ss = "[V5_Props [], V5_Reason Pubrel_Success, V5_Id 7, V5_Props ?ps] :: (16 word, pubrel_reason_code) v5_ack_setter list"
  have w: "packet_id_width TYPE(16)" by (simp add: packet_id_width_def)
  have inv: "properties_inv ?ps" "properties_inv []"
    by (simp_all add: properties_inv_def ms_inv_def len_prefix_def utf8_valid_ascii properties_size_def property_size_def ms_size_def)
  have val: "validate_pubrel_properties ?ps = Ok ()"
    by (simp add: validate_pubrel_properties_def validate_properties_def count_id_def)
  have len: "length (properties_wire ?ps) < 2097152"
    by (simp add: length_properties_wire properties_size_def property_size_def ms_size_def vbi_enc.simps)
  show ?thesis
    using fluent_v5_acks [OF w, of "[]" "[]" ?ss "[]"] inv val len
    by (auto simp: ack_promise_def ack_refused_def ack_length_def ack_message_new_def pid_size_def Let_def)
qed

end
