(* ===== verification/Entries_Interface.thy ===== *)
theory Entries_Interface
  imports Ack_Interface Parsers_V50
begin

text \<open>
  The interfaces of SUBSCRIBE, SUBACK, UNSUBSCRIBE and UNSUBACK of both versions
  (\<^verbatim>\<open>src/mqtt/packet/v3_1_1/\<close> and \<^verbatim>\<open>v5_0/\<close>): accessors, setters, and what a chain of setters
  builds.  Each of these packets is an identifier and a list of entries, which the setters take as
  the application has them (subscription entries, strings, typed codes) and the packet keeps encoded.
\<close>

section \<open>Builders\<close>

record ('t, 'w) v3_entries_builder =
  v3eb_packet_id_buf :: "'t option"
  v3eb_entries :: "'w list option"

record ('t, 'w) v5_entries_builder =
  v5eb_packet_id_buf :: "'t option"
  v5eb_entries :: "'w list option"
  v5eb_props :: "properties option"

text \<open>\<open>collect::<Result<Vec<_>, _>>()\<close>: the first error, or all values.\<close>

primrec collect_results :: "('a \<Rightarrow> ('b, 'e) result) \<Rightarrow> 'a list \<Rightarrow> ('b list, 'e) result" where
  "collect_results f [] = Ok []"
| "collect_results f (x # xs) = res_bind (f x) (\<lambda>y. res_bind (collect_results f xs) (\<lambda>ys. Ok (y # ys)))"

definition encode_strings :: "str list \<Rightarrow> (mqtt_string list, mqtt_error) result" where
  "encode_strings ts = collect_results ms_new ts"

section \<open>The packets of v3.1.1\<close>

text \<open>\<^verbatim>\<open>src/mqtt/packet/v3_1_1/subscribe.rs\<close>\<close>

type_synonym 't v3_subscribe = "('t, sub_entry) v3_entries_packet"

definition v3_subscribe_builder :: "('p::len word, sub_entry) v3_entries_builder" where
  "v3_subscribe_builder = \<lparr>v3eb_packet_id_buf = None, v3eb_entries = None\<rparr>"

definition v3_subscribe_packet_type :: "packet_type" where
  "v3_subscribe_packet_type = PT_Subscribe"

definition v3_subscribe_packet_id :: "('p::len word, sub_entry) v3_entries_packet \<Rightarrow> 'p word" where
  "v3_subscribe_packet_id k = v3s_packet_id_buf k"

definition v3_subscribe_size :: "('p::len word, sub_entry) v3_entries_packet \<Rightarrow> nat" where
  "v3_subscribe_size = v3_entries_size"

definition v3_subscribe_set_packet_id :: "'p::len word \<Rightarrow> ('p word, sub_entry) v3_entries_builder \<Rightarrow> ('p word, sub_entry) v3_entries_builder" where
  "v3_subscribe_set_packet_id i b = b\<lparr>v3eb_packet_id_buf := Some i\<rparr>"

definition v3_subscribe_set_entries :: "sub_entry list \<Rightarrow> ('p::len word, sub_entry) v3_entries_builder \<Rightarrow> ('p word, sub_entry) v3_entries_builder" where
  "v3_subscribe_set_entries es b = b\<lparr>v3eb_entries := Some es\<rparr>"

definition v3_subscribe_validate :: "('p::len word, sub_entry) v3_entries_builder \<Rightarrow> (unit, mqtt_error) result" where
  "v3_subscribe_validate b = v3_entries_validate (v3eb_packet_id_buf b) (v3eb_entries b)"

text \<open>\<^verbatim>\<open>src/mqtt/packet/v3_1_1/suback.rs\<close>\<close>

type_synonym 't v3_suback = "('t, u8) v3_entries_packet"

definition v3_suback_builder :: "('p::len word, u8) v3_entries_builder" where
  "v3_suback_builder = \<lparr>v3eb_packet_id_buf = None, v3eb_entries = None\<rparr>"

definition v3_suback_packet_type :: "packet_type" where
  "v3_suback_packet_type = PT_Suback"

definition v3_suback_packet_id :: "('p::len word, u8) v3_entries_packet \<Rightarrow> 'p word" where
  "v3_suback_packet_id k = v3s_packet_id_buf k"

definition v3_suback_size :: "('p::len word, u8) v3_entries_packet \<Rightarrow> nat" where
  "v3_suback_size = v3_entries_size"

definition v3_suback_set_packet_id :: "'p::len word \<Rightarrow> ('p word, u8) v3_entries_builder \<Rightarrow> ('p word, u8) v3_entries_builder" where
  "v3_suback_set_packet_id i b = b\<lparr>v3eb_packet_id_buf := Some i\<rparr>"

definition v3_suback_set_return_codes :: "suback_return_code list \<Rightarrow> ('p::len word, u8) v3_entries_builder \<Rightarrow> ('p word, u8) v3_entries_builder" where
  "v3_suback_set_return_codes codes b = b\<lparr>v3eb_entries := Some (map suback_return_code_u8 codes)\<rparr>"

definition v3_suback_validate :: "('p::len word, u8) v3_entries_builder \<Rightarrow> (unit, mqtt_error) result" where
  "v3_suback_validate b = v3_entries_validate (v3eb_packet_id_buf b) (v3eb_entries b)"

text \<open>\<^verbatim>\<open>src/mqtt/packet/v3_1_1/unsubscribe.rs\<close>\<close>

type_synonym 't v3_unsubscribe = "('t, mqtt_string) v3_entries_packet"

definition v3_unsubscribe_builder :: "('p::len word, mqtt_string) v3_entries_builder" where
  "v3_unsubscribe_builder = \<lparr>v3eb_packet_id_buf = None, v3eb_entries = None\<rparr>"

definition v3_unsubscribe_packet_type :: "packet_type" where
  "v3_unsubscribe_packet_type = PT_Unsubscribe"

definition v3_unsubscribe_packet_id :: "('p::len word, mqtt_string) v3_entries_packet \<Rightarrow> 'p word" where
  "v3_unsubscribe_packet_id k = v3s_packet_id_buf k"

definition v3_unsubscribe_entries :: "('p::len word, mqtt_string) v3_entries_packet \<Rightarrow> mqtt_string list" where
  "v3_unsubscribe_entries k = v3s_entries k"

definition v3_unsubscribe_size :: "('p::len word, mqtt_string) v3_entries_packet \<Rightarrow> nat" where
  "v3_unsubscribe_size = v3_entries_size"

definition v3_unsubscribe_set_packet_id :: "'p::len word \<Rightarrow> ('p word, mqtt_string) v3_entries_builder \<Rightarrow> ('p word, mqtt_string) v3_entries_builder" where
  "v3_unsubscribe_set_packet_id i b = b\<lparr>v3eb_packet_id_buf := Some i\<rparr>"

definition v3_unsubscribe_set_entries :: "str list \<Rightarrow> ('p::len word, mqtt_string) v3_entries_builder \<Rightarrow> (('p word, mqtt_string) v3_entries_builder, mqtt_error) result" where
  "v3_unsubscribe_set_entries ts b = res_bind (encode_strings ts) (\<lambda>es. Ok (b\<lparr>v3eb_entries := Some es\<rparr>))"

definition v3_unsubscribe_validate :: "('p::len word, mqtt_string) v3_entries_builder \<Rightarrow> (unit, mqtt_error) result" where
  "v3_unsubscribe_validate b = v3_entries_validate (v3eb_packet_id_buf b) (v3eb_entries b)"

text \<open>\<^verbatim>\<open>src/mqtt/packet/v3_1_1/unsuback.rs\<close>\<close>

definition v3_unsuback_builder :: "'p::len word option" where
  "v3_unsuback_builder = None"

definition v3_unsuback_packet_type :: "packet_type" where
  "v3_unsuback_packet_type = PT_Unsuback"

definition v3_unsuback_packet_id :: "'p::len word v3_unsuback \<Rightarrow> 'p word" where
  "v3_unsuback_packet_id k = v3ua_packet_id_buf k"

definition v3_unsuback_set_packet_id :: "'p::len word \<Rightarrow> 'p word option \<Rightarrow> 'p word option" where
  "v3_unsuback_set_packet_id i b = Some i"

section \<open>The packets of v5.0\<close>

text \<open>\<^verbatim>\<open>src/mqtt/packet/v5_0/subscribe.rs\<close>\<close>

type_synonym 't v5_subscribe = "('t, sub_entry) v5_entries_packet"

definition v5_subscribe_builder :: "('p::len word, sub_entry) v5_entries_builder" where
  "v5_subscribe_builder = \<lparr>v5eb_packet_id_buf = None, v5eb_entries = None, v5eb_props = None\<rparr>"

definition v5_subscribe_packet_type :: "packet_type" where
  "v5_subscribe_packet_type = PT_Subscribe"

definition v5_subscribe_packet_id :: "('p::len word, sub_entry) v5_entries_packet \<Rightarrow> 'p word" where
  "v5_subscribe_packet_id k = v5s_packet_id_buf k"

definition v5_subscribe_size :: "('p::len word, sub_entry) v5_entries_packet \<Rightarrow> nat" where
  "v5_subscribe_size = v5_entries_size"

definition v5_subscribe_to_continuous_buffer :: "('p::len word, sub_entry) v5_entries_packet \<Rightarrow> bytes" where
  "v5_subscribe_to_continuous_buffer = v5_entries_to_continuous_buffer sub_entry_to_continuous_buffer"

definition v5_subscribe_set_packet_id :: "'p::len word \<Rightarrow> ('p word, sub_entry) v5_entries_builder \<Rightarrow> ('p word, sub_entry) v5_entries_builder" where
  "v5_subscribe_set_packet_id i b = b\<lparr>v5eb_packet_id_buf := Some i\<rparr>"

definition v5_subscribe_set_entries :: "sub_entry list \<Rightarrow> ('p::len word, sub_entry) v5_entries_builder \<Rightarrow> ('p word, sub_entry) v5_entries_builder" where
  "v5_subscribe_set_entries es b = b\<lparr>v5eb_entries := Some es\<rparr>"

definition v5_subscribe_set_props :: "properties \<Rightarrow> ('p::len word, sub_entry) v5_entries_builder \<Rightarrow> ('p word, sub_entry) v5_entries_builder" where
  "v5_subscribe_set_props ps b = b\<lparr>v5eb_props := Some ps\<rparr>"

definition v5_subscribe_validate :: "('p::len word, sub_entry) v5_entries_builder \<Rightarrow> (unit, mqtt_error) result" where
  "v5_subscribe_validate b = v5_entries_validate validate_subscribe_properties (v5eb_packet_id_buf b) (v5eb_entries b) (v5eb_props b)"

text \<open>\<^verbatim>\<open>src/mqtt/packet/v5_0/suback.rs\<close>\<close>

type_synonym 't v5_suback = "('t, u8) v5_entries_packet"

definition v5_suback_builder :: "('p::len word, u8) v5_entries_builder" where
  "v5_suback_builder = \<lparr>v5eb_packet_id_buf = None, v5eb_entries = None, v5eb_props = None\<rparr>"

definition v5_suback_packet_type :: "packet_type" where
  "v5_suback_packet_type = PT_Suback"

definition v5_suback_packet_id :: "('p::len word, u8) v5_entries_packet \<Rightarrow> 'p word" where
  "v5_suback_packet_id k = v5s_packet_id_buf k"

definition v5_suback_size :: "('p::len word, u8) v5_entries_packet \<Rightarrow> nat" where
  "v5_suback_size = v5_entries_size"

definition v5_suback_to_continuous_buffer :: "('p::len word, u8) v5_entries_packet \<Rightarrow> bytes" where
  "v5_suback_to_continuous_buffer = v5_entries_to_continuous_buffer (\<lambda>b. [b])"

definition v5_suback_set_packet_id :: "'p::len word \<Rightarrow> ('p word, u8) v5_entries_builder \<Rightarrow> ('p word, u8) v5_entries_builder" where
  "v5_suback_set_packet_id i b = b\<lparr>v5eb_packet_id_buf := Some i\<rparr>"

definition v5_suback_set_reason_codes :: "suback_reason_code list \<Rightarrow> ('p::len word, u8) v5_entries_builder \<Rightarrow> ('p word, u8) v5_entries_builder" where
  "v5_suback_set_reason_codes codes b = b\<lparr>v5eb_entries := Some (map suback_reason_code_u8 codes)\<rparr>"

definition v5_suback_set_props :: "properties \<Rightarrow> ('p::len word, u8) v5_entries_builder \<Rightarrow> ('p word, u8) v5_entries_builder" where
  "v5_suback_set_props ps b = b\<lparr>v5eb_props := Some ps\<rparr>"

definition v5_suback_validate :: "('p::len word, u8) v5_entries_builder \<Rightarrow> (unit, mqtt_error) result" where
  "v5_suback_validate b = v5_entries_validate validate_suback_properties (v5eb_packet_id_buf b) (v5eb_entries b) (v5eb_props b)"

text \<open>\<^verbatim>\<open>src/mqtt/packet/v5_0/unsubscribe.rs\<close>\<close>

type_synonym 't v5_unsubscribe = "('t, mqtt_string) v5_entries_packet"

definition v5_unsubscribe_builder :: "('p::len word, mqtt_string) v5_entries_builder" where
  "v5_unsubscribe_builder = \<lparr>v5eb_packet_id_buf = None, v5eb_entries = None, v5eb_props = None\<rparr>"

definition v5_unsubscribe_packet_type :: "packet_type" where
  "v5_unsubscribe_packet_type = PT_Unsubscribe"

definition v5_unsubscribe_packet_id :: "('p::len word, mqtt_string) v5_entries_packet \<Rightarrow> 'p word" where
  "v5_unsubscribe_packet_id k = v5s_packet_id_buf k"

definition v5_unsubscribe_entries :: "('p::len word, mqtt_string) v5_entries_packet \<Rightarrow> mqtt_string list" where
  "v5_unsubscribe_entries k = v5s_entries k"

definition v5_unsubscribe_size :: "('p::len word, mqtt_string) v5_entries_packet \<Rightarrow> nat" where
  "v5_unsubscribe_size = v5_entries_size"

definition v5_unsubscribe_to_continuous_buffer :: "('p::len word, mqtt_string) v5_entries_packet \<Rightarrow> bytes" where
  "v5_unsubscribe_to_continuous_buffer = v5_entries_to_continuous_buffer ms_to_continuous_buffer"

definition v5_unsubscribe_set_packet_id :: "'p::len word \<Rightarrow> ('p word, mqtt_string) v5_entries_builder \<Rightarrow> ('p word, mqtt_string) v5_entries_builder" where
  "v5_unsubscribe_set_packet_id i b = b\<lparr>v5eb_packet_id_buf := Some i\<rparr>"

definition v5_unsubscribe_set_entries :: "str list \<Rightarrow> ('p::len word, mqtt_string) v5_entries_builder \<Rightarrow> (('p word, mqtt_string) v5_entries_builder, mqtt_error) result" where
  "v5_unsubscribe_set_entries ts b = res_bind (encode_strings ts) (\<lambda>es. Ok (b\<lparr>v5eb_entries := Some es\<rparr>))"

definition v5_unsubscribe_set_props :: "properties \<Rightarrow> ('p::len word, mqtt_string) v5_entries_builder \<Rightarrow> ('p word, mqtt_string) v5_entries_builder" where
  "v5_unsubscribe_set_props ps b = b\<lparr>v5eb_props := Some ps\<rparr>"

definition v5_unsubscribe_validate :: "('p::len word, mqtt_string) v5_entries_builder \<Rightarrow> (unit, mqtt_error) result" where
  "v5_unsubscribe_validate b = v5_entries_validate validate_unsubscribe_properties (v5eb_packet_id_buf b) (v5eb_entries b) (v5eb_props b)"

text \<open>\<^verbatim>\<open>src/mqtt/packet/v5_0/unsuback.rs\<close>\<close>

type_synonym 't v5_unsuback = "('t, u8) v5_entries_packet"

definition v5_unsuback_builder :: "('p::len word, u8) v5_entries_builder" where
  "v5_unsuback_builder = \<lparr>v5eb_packet_id_buf = None, v5eb_entries = None, v5eb_props = None\<rparr>"

definition v5_unsuback_packet_type :: "packet_type" where
  "v5_unsuback_packet_type = PT_Unsuback"

definition v5_unsuback_packet_id :: "('p::len word, u8) v5_entries_packet \<Rightarrow> 'p word" where
  "v5_unsuback_packet_id k = v5s_packet_id_buf k"

definition v5_unsuback_size :: "('p::len word, u8) v5_entries_packet \<Rightarrow> nat" where
  "v5_unsuback_size = v5_entries_size"

definition v5_unsuback_to_continuous_buffer :: "('p::len word, u8) v5_entries_packet \<Rightarrow> bytes" where
  "v5_unsuback_to_continuous_buffer = v5_entries_to_continuous_buffer (\<lambda>b. [b])"

definition v5_unsuback_set_packet_id :: "'p::len word \<Rightarrow> ('p word, u8) v5_entries_builder \<Rightarrow> ('p word, u8) v5_entries_builder" where
  "v5_unsuback_set_packet_id i b = b\<lparr>v5eb_packet_id_buf := Some i\<rparr>"

definition v5_unsuback_set_reason_codes :: "unsuback_reason_code list \<Rightarrow> ('p::len word, u8) v5_entries_builder \<Rightarrow> ('p word, u8) v5_entries_builder" where
  "v5_unsuback_set_reason_codes codes b = b\<lparr>v5eb_entries := Some (map unsuback_reason_code_u8 codes)\<rparr>"

definition v5_unsuback_set_props :: "properties \<Rightarrow> ('p::len word, u8) v5_entries_builder \<Rightarrow> ('p word, u8) v5_entries_builder" where
  "v5_unsuback_set_props ps b = b\<lparr>v5eb_props := Some ps\<rparr>"

definition v5_unsuback_validate :: "('p::len word, u8) v5_entries_builder \<Rightarrow> (unit, mqtt_error) result" where
  "v5_unsuback_validate b = v5_entries_validate validate_unsuback_properties (v5eb_packet_id_buf b) (v5eb_entries b) (v5eb_props b)"

section \<open>What a chain of setters builds\<close>

datatype ('t, 'e) v3_entries_setter = E3_Id 't | E3_Entries "'e list"

datatype ('t, 'e) v5_entries_setter = E5_Id 't | E5_Entries "'e list" | E5_Props properties

record ('t, 'e) entries_message =
  em_packet_id :: "'t option"
  em_entries :: "'e list option"
  em_props :: "properties option"

definition entries_message_new :: "('t, 'e) entries_message" where
  "entries_message_new = \<lparr>em_packet_id = None, em_entries = None, em_props = None\<rparr>"

primrec v3_entries_describe :: "('t, 'e) v3_entries_setter \<Rightarrow> ('t, 'e) entries_message \<Rightarrow> ('t, 'e) entries_message" where
  "v3_entries_describe (E3_Id i) m = m\<lparr>em_packet_id := Some i\<rparr>"
| "v3_entries_describe (E3_Entries es) m = m\<lparr>em_entries := Some es\<rparr>"

primrec v5_entries_describe :: "('t, 'e) v5_entries_setter \<Rightarrow> ('t, 'e) entries_message \<Rightarrow> ('t, 'e) entries_message" where
  "v5_entries_describe (E5_Id i) m = m\<lparr>em_packet_id := Some i\<rparr>"
| "v5_entries_describe (E5_Entries es) m = m\<lparr>em_entries := Some es\<rparr>"
| "v5_entries_describe (E5_Props ps) m = m\<lparr>em_props := Some ps\<rparr>"

text \<open>The setter of entries refuses them when \<open>refuse\<close> does; the other setters always succeed.\<close>

definition v3_entries_refusal :: "('e list \<Rightarrow> mqtt_error option) \<Rightarrow> ('t, 'e) v3_entries_setter \<Rightarrow> mqtt_error option" where
  "v3_entries_refusal refuse s = (case s of E3_Id i \<Rightarrow> None | E3_Entries es \<Rightarrow> refuse es)"

definition v5_entries_refusal :: "('e list \<Rightarrow> mqtt_error option) \<Rightarrow> ('t, 'e) v5_entries_setter \<Rightarrow> mqtt_error option" where
  "v5_entries_refusal refuse s = (case s of E5_Entries es \<Rightarrow> refuse es | _ \<Rightarrow> None)"

definition refuse_long :: "str list \<Rightarrow> mqtt_error option" where
  "refuse_long ts = (if list_all (\<lambda>t. length t \<le> 65535) ts then None else Some MalformedPacket)"

definition string_entry :: "str \<Rightarrow> mqtt_string" where
  "string_entry t = \<lparr>ms_encoded = len_prefix (length t) @ t\<rparr>"

text \<open>The error of a description that MQTT does not allow.\<close>

definition entries_refused ::
  "(properties \<Rightarrow> (unit, mqtt_error) result) \<Rightarrow> ('p::len word, 'e) entries_message \<Rightarrow> mqtt_error option" where
  "entries_refused validate m =
     (if em_packet_id m = None \<or> em_packet_id m = Some 0 then Some MalformedPacket
      else if em_entries m = None \<or> em_entries m = Some [] then Some ProtocolError
      else case em_props m of
          None \<Rightarrow> None
        | Some ps \<Rightarrow> (case validate ps of Ok _ \<Rightarrow> None | Err e \<Rightarrow> Some e))"

definition v3_entries_length :: "('e \<Rightarrow> bytes) \<Rightarrow> ('p::len word, 'e) entries_message \<Rightarrow> nat" where
  "v3_entries_length enc m = pid_size TYPE('p) + length (concat (map enc (unwrap_or (em_entries m) [])))"

definition v5_entries_length :: "('e \<Rightarrow> bytes) \<Rightarrow> ('p::len word, 'e) entries_message \<Rightarrow> nat" where
  "v5_entries_length enc m = v3_entries_length enc m + length (properties_wire (unwrap_or (em_props m) []))"

text \<open>
  What the interface promises of the result of a chain: the error of a setter, the error of \<open>build\<close>, a
  panic of a packet that is too long to be encoded, or a packet from which the accessors read the
  description back.  Nothing is promised of four gigabytes or more, where the length is truncated.
\<close>

definition entries_promise ::
  "('p::len word, 'e) entries_message \<Rightarrow> mqtt_error option \<Rightarrow> mqtt_error option \<Rightarrow> nat \<Rightarrow> fixed_header \<Rightarrow> ('k \<Rightarrow> 'p word)
   \<Rightarrow> ('k \<Rightarrow> 'e list) \<Rightarrow> ('k \<Rightarrow> properties) \<Rightarrow> ('k \<Rightarrow> nat) \<Rightarrow> ('k \<Rightarrow> slices) \<Rightarrow> ('k \<Rightarrow> bytes) \<Rightarrow> 'k parser
   \<Rightarrow> ('k, mqtt_error) result rust \<Rightarrow> bool" where
  "entries_promise m setter_refused refused n fh packet_id entries props sz to_buffers to_continuous_buffer parse built \<longleftrightarrow>
     (case setter_refused of
        Some e \<Rightarrow> built = Ret (Err e)
      | None \<Rightarrow>
        (case refused of
           Some e \<Rightarrow> built = Ret (Err e)
         | None \<Rightarrow> n < 2 ^ 32 \<longrightarrow>
             (if n > 268435455 then built = Panic Unwrap_Failed
              else \<exists>k. built = Ret (Ok k)
                \<and> Some (packet_id k) = em_packet_id m \<and> Some (entries k) = em_entries m \<and> props k = unwrap_or (em_props m) []
                \<and> sends_as fh n sz to_buffers to_continuous_buffer parse k)))"

lemma collect_strings:
  "encode_strings ts = (case refuse_long ts of None \<Rightarrow> Ok (map string_entry ts) | Some e \<Rightarrow> Err e)"
  unfolding encode_strings_def
  by (induction ts) (auto simp: refuse_long_def ms_new_def string_entry_def Let_def)

lemma string_entry_ok: "utf8_valid t \<Longrightarrow> length t \<le> 65535 \<Longrightarrow> ms_inv (string_entry t) \<and> ms_as_str (string_entry t) = t"
  by (auto simp: string_entry_def ms_inv_def ms_as_str_def)

lemma first_refusal_mem: "first_refusal r ss = None \<Longrightarrow> s \<in> set ss \<Longrightarrow> r s = None"
  by (induction ss) (auto split: option.splits)

lemma v3_entries_described:
  "em_entries (fold v3_entries_describe ss m) = Some es \<Longrightarrow> E3_Entries es \<in> set ss \<or> em_entries m = Some es"
proof (induction ss arbitrary: m)
  case (Cons s ss)
  then show ?case by (cases s) (fastforce dest: Cons.IH)+
qed simp

lemma v3_entries_no_props: "em_props (fold v3_entries_describe ss m) = em_props m"
proof (induction ss arbitrary: m)
  case (Cons s ss)
  then show ?case by (cases s) simp_all
qed simp

lemma v5_entries_described:
  "em_entries (fold v5_entries_describe ss m) = Some es \<Longrightarrow> E5_Entries es \<in> set ss \<or> em_entries m = Some es"
  "em_props (fold v5_entries_describe ss m) = Some ps \<Longrightarrow> E5_Props ps \<in> set ss \<or> em_props m = Some ps"
proof (induction ss arbitrary: m)
  case (Cons s ss)
  { case 1 then show ?case by (cases s) (fastforce dest: Cons.IH)+ }
  { case 2 then show ?case by (cases s) (fastforce dest: Cons.IH)+ }
qed simp_all

text \<open>The builder of a description, and what it gives.\<close>

definition v3_entries_represents :: "('e \<Rightarrow> 'w) \<Rightarrow> ('t, 'w) v3_entries_builder \<Rightarrow> ('t, 'e) entries_message \<Rightarrow> bool" where
  "v3_entries_represents conv b m \<longleftrightarrow>
     b = \<lparr>v3eb_packet_id_buf = em_packet_id m, v3eb_entries = map_option (map conv) (em_entries m)\<rparr>"

definition v5_entries_represents :: "('e \<Rightarrow> 'w) \<Rightarrow> ('t, 'w) v5_entries_builder \<Rightarrow> ('t, 'e) entries_message \<Rightarrow> bool" where
  "v5_entries_represents conv b m \<longleftrightarrow>
     b = \<lparr>v5eb_packet_id_buf = em_packet_id m, v5eb_entries = map_option (map conv) (em_entries m), v5eb_props = em_props m\<rparr>"

lemma v3_entries_build_refused:
  assumes w: "packet_id_width TYPE('p::len)" and none: "em_props m = None" and r: "entries_refused (\<lambda>_. Ok ()) m = Some e"
  shows "v3_entries_build fh sz (em_packet_id m :: 'p word option) (map_option (map conv) (em_entries m)) = Ret (Err e)"
proof -
  have "v3_entries_validate (em_packet_id m) (map_option (map conv) (em_entries m)) = Err e"
    using r none to_buffer_zeros [OF w, of "the (em_packet_id m)"]
    by (cases "em_packet_id m"; cases "em_entries m") (auto simp: entries_refused_def v3_entries_validate_def split: if_splits)
  then show ?thesis by (simp add: v3_entries_build_def)
qed

lemma v5_entries_build_refused:
  assumes w: "packet_id_width TYPE('p::len)" and r: "entries_refused validate m = Some e"
  shows "v5_entries_build fh validate sz (em_packet_id m :: 'p word option) (map_option (map conv) (em_entries m)) (em_props m)
    = Ret (Err e)"
proof -
  have "v5_entries_validate validate (em_packet_id m) (map_option (map conv) (em_entries m)) (em_props m) = Err e"
    using r to_buffer_zeros [OF w, of "the (em_packet_id m)"]
    by (cases "em_packet_id m"; cases "em_entries m"; cases "em_props m")
      (auto simp: entries_refused_def v5_entries_validate_def v3_entries_validate_def split: if_splits result.splits)
  then show ?thesis by (simp add: v5_entries_build_def)
qed

lemma v3_body_length:
  fixes k :: "('p::len word, 'w) v3_entries_packet"
  assumes "\<And>e. sz e = length (enc e)"
  shows "length (v3_entries_body enc k) = pid_size TYPE('p) + sum_list (map sz (v3s_entries k))"
  by (simp add: v3_entries_body_def sum_enc_size [OF assms] del: length_concat)

lemma v5_body_length:
  fixes k :: "('p::len word, 'w) v5_entries_packet"
  assumes "\<And>e. sz e = length (enc e)"
  shows "length (v5_entries_body enc k) = pid_size TYPE('p) + (length (vbi_enc (properties_size (v5s_props k)))
    + (properties_size (v5s_props k) + sum_list (map sz (v5s_entries k))))"
  by (simp add: v5_entries_body_def sum_enc_size [OF assms] length_properties_wire del: length_concat)

lemma v3_entries_promise:
  assumes w: "packet_id_width TYPE('p::len)" and none: "em_props m = None"
    and wire: "packet_wire (v3_entries_inv fh ok enc) v3s_fixed_header (v3_entries_body enc) bytes v3_entries_size
      (parse :: ('p word, 'w) v3_entries_packet parser)"
    and conv: "\<And>es. em_entries m = Some es \<Longrightarrow> list_all ok (map conv es) \<and> map rd (map conv es) = es"
    and sz: "\<And>e. sz e = length (enc e)" and bufs: "\<And>k. concat (bufs k) = bytes k"
  shows "entries_promise m None (entries_refused (\<lambda>_. Ok ()) m) (v3_entries_length (enc \<circ> conv) m) fh v3s_packet_id_buf
    (\<lambda>k. map rd (v3s_entries k)) (\<lambda>_. []) v3_entries_size bufs bytes parse
    (v3_entries_build fh sz (em_packet_id m) (map_option (map conv) (em_entries m)))"
proof (cases "entries_refused (\<lambda>_. Ok ()) m")
  case None
  then obtain i es where i: "em_packet_id m = Some i" "i \<noteq> 0" and es: "em_entries m = Some es" "es \<noteq> []"
    by (auto simp: entries_refused_def split: if_splits)
  let ?n = "v3_entries_length (enc \<circ> conv) m"
  have n: "pid_size TYPE('p) + sum_list (map sz (map conv es)) = ?n"
    by (simp add: v3_entries_length_def es unwrap_or_def sum_enc_size [OF sz] comp_def del: length_concat map_map)
      (simp add: comp_def)
  have val: "v3_entries_validate (Some i) (Some (map conv es)) = Ok ()"
    using i es to_buffer_zeros [OF w, of i] by (simp add: v3_entries_validate_def)
  have build: "v3_entries_build fh sz (em_packet_id m) (map_option (map conv) (em_entries m)) =
      rbind (vbi_of ?n) (\<lambda>rl. Ret (Ok \<lparr>v3s_fixed_header = fixed_header_as_u8 fh, v3s_remaining_length = rl,
        v3s_packet_id_buf = i, v3s_entries = map conv es\<rparr>))"
    using n by (simp add: v3_entries_build_def i es val del: map_map)
  show ?thesis
  proof (cases "?n > 268435455")
    case True
    then show ?thesis
      unfolding entries_promise_def None build by (simp add: vbi_of_Panic)
  next
    case False
    let ?k = "\<lparr>v3s_fixed_header = fixed_header_as_u8 fh, v3s_remaining_length = \<lparr>encoded = vbi_enc ?n\<rparr>,
      v3s_packet_id_buf = i, v3s_entries = map conv es\<rparr>"
    have len: "length (v3_entries_body enc ?k) = ?n"
      by (simp only: v3_body_length [OF sz] n v3_entries_packet.select_convs)
    have "v3_entries_inv fh ok enc ?k"
      unfolding v3_entries_inv_def len using False es conv [OF es(1)] by simp
    then have "sends_as fh ?n v3_entries_size bufs bytes parse ?k"
      by (rule sends_asI [OF wire]) (simp_all only: len bufs v3_entries_packet.select_convs)
    then show ?thesis
      unfolding entries_promise_def None build using False conv [OF es(1)]
      by (simp add: vbi_of_Ret i es none unwrap_or_def)
  qed
qed (simp add: entries_promise_def v3_entries_build_refused [OF w none])

lemma v5_entries_promise:
  assumes w: "packet_id_width TYPE('p::len)" and props: "pred_option properties_inv (em_props m)"
    and wire: "packet_wire (v5_entries_inv fh validate ok enc) v5s_fixed_header (v5_entries_body enc) bytes v5_entries_size
      (parse :: ('p word, 'w) v5_entries_packet parser)"
    and conv: "\<And>es. em_entries m = Some es \<Longrightarrow> list_all ok (map conv es) \<and> map rd (map conv es) = es"
    and sz: "\<And>e. sz e = length (enc e)" and bufs: "\<And>k. concat (bufs k) = bytes k"
    and empty: "validate [] = Ok ()"
  shows "entries_promise m None (entries_refused validate m) (v5_entries_length (enc \<circ> conv) m) fh v5s_packet_id_buf
    (\<lambda>k. map rd (v5s_entries k)) v5s_props v5_entries_size bufs bytes parse
    (v5_entries_build fh validate sz (em_packet_id m) (map_option (map conv) (em_entries m)) (em_props m))"
proof (cases "entries_refused validate m")
  case None
  then obtain i es where i: "em_packet_id m = Some i" "i \<noteq> 0" and es: "em_entries m = Some es" "es \<noteq> []"
    by (auto simp: entries_refused_def split: if_splits)
  let ?n = "v5_entries_length (enc \<circ> conv) m" and ?ps = "unwrap_or (em_props m) []"
  have ps: "properties_inv ?ps" "validate ?ps = Ok ()"
    using props None empty i es
    by (cases "em_props m"; auto simp: entries_refused_def properties_inv_def unwrap_or_def properties_size_def split: result.splits)+
  then have pl: "vbi_of (properties_size ?ps) = Ret \<lparr>encoded = vbi_enc (properties_size ?ps)\<rparr>"
    by (simp add: properties_inv_def vbi_of_Ret)
  have n: "pid_size TYPE('p) + (length (vbi_enc (properties_size ?ps)) + (properties_size ?ps + sum_list (map sz (map conv es)))) = ?n"
    by (simp add: v5_entries_length_def v3_entries_length_def es unwrap_or_def sum_enc_size [OF sz] length_properties_wire
        comp_def del: length_concat map_map) (simp add: comp_def)
  have val: "v5_entries_validate validate (Some i) (Some (map conv es)) (em_props m) = Ok ()"
    using i es to_buffer_zeros [OF w, of i] ps(2)
    by (cases "em_props m") (simp_all add: v5_entries_validate_def v3_entries_validate_def unwrap_or_def)
  have build: "v5_entries_build fh validate sz (em_packet_id m) (map_option (map conv) (em_entries m)) (em_props m) =
      rbind (vbi_of ?n) (\<lambda>rl. Ret (Ok \<lparr>v5s_fixed_header = fixed_header_as_u8 fh, v5s_remaining_length = rl,
        v5s_packet_id_buf = i, v5s_property_length = \<lparr>encoded = vbi_enc (properties_size ?ps)\<rparr>, v5s_props = ?ps,
        v5s_entries = map conv es\<rparr>))"
    using n pl val by (simp add: v5_entries_build_def i es Let_def unwrap_or_def vbi_size_def add.assoc del: map_map)
  show ?thesis
  proof (cases "?n > 268435455")
    case True
    then show ?thesis unfolding entries_promise_def None build by (simp add: vbi_of_Panic)
  next
    case False
    let ?k = "\<lparr>v5s_fixed_header = fixed_header_as_u8 fh, v5s_remaining_length = \<lparr>encoded = vbi_enc ?n\<rparr>,
      v5s_packet_id_buf = i, v5s_property_length = \<lparr>encoded = vbi_enc (properties_size ?ps)\<rparr>, v5s_props = ?ps,
      v5s_entries = map conv es\<rparr>"
    have len: "length (v5_entries_body enc ?k) = ?n"
      by (simp only: v5_body_length [OF sz] n v5_entries_packet.select_convs)
    have "v5_entries_inv fh validate ok enc ?k"
      unfolding v5_entries_inv_def len using False es ps conv [OF es(1)] by simp
    then have "sends_as fh ?n v5_entries_size bufs bytes parse ?k"
      by (rule sends_asI [OF wire]) (simp_all only: len bufs v5_entries_packet.select_convs)
    then show ?thesis
      unfolding entries_promise_def None build using False conv [OF es(1)]
      by (simp add: vbi_of_Ret i es)
  qed
qed (simp add: entries_promise_def v5_entries_build_refused [OF w])

lemma v3_entries_chain:
  assumes w: "packet_id_width TYPE('p::len)"
    and f: "fluent_builder (new :: ('p word, 'w) v3_entries_builder) call build entries_message_new v3_entries_describe
      (v3_entries_refusal refuse) (v3_entries_represents conv)
      (\<lambda>m. v3_entries_build fh sz (em_packet_id m) (map_option (map conv) (em_entries m)))"
    and wire: "packet_wire (v3_entries_inv fh ok enc) v3s_fixed_header (v3_entries_body enc) bytes v3_entries_size
      (parse :: ('p word, 'w) v3_entries_packet parser)"
    and sz: "\<And>e. sz e = length (enc e)" and bufs: "\<And>k. concat (bufs k) = bytes k"
    and conv: "\<And>es. E3_Entries es \<in> set ss \<Longrightarrow> refuse es = None \<Longrightarrow> list_all ok (map conv es) \<and> map rd (map conv es) = es"
  shows "let m = fold v3_entries_describe ss entries_message_new in
    entries_promise m (first_refusal (v3_entries_refusal refuse) ss) (entries_refused (\<lambda>_. Ok ()) m)
      (v3_entries_length (enc \<circ> conv) m) fh v3s_packet_id_buf (\<lambda>k. map rd (v3s_entries k)) (\<lambda>_. []) v3_entries_size
      bufs bytes parse (build_chain new call build ss)"
proof (cases "first_refusal (v3_entries_refusal refuse) ss")
  case None
  let ?m = "fold v3_entries_describe ss entries_message_new"
  have "list_all ok (map conv es) \<and> map rd (map conv es) = es" if "em_entries ?m = Some es" for es
    using that v3_entries_described [of ss entries_message_new es] first_refusal_mem [OF None] conv
    by (force simp: entries_message_new_def v3_entries_refusal_def)
  note p = v3_entries_promise [OF w _ wire this sz bufs]
  show ?thesis
    unfolding Let_def fluent_builder.chain_outcome [OF f] None option.case
    by (rule p) (simp_all add: v3_entries_no_props entries_message_new_def)
qed (simp add: entries_promise_def fluent_builder.chain_outcome [OF f])

lemma v5_entries_chain:
  assumes w: "packet_id_width TYPE('p::len)"
    and f: "fluent_builder (new :: ('p word, 'w) v5_entries_builder) call build entries_message_new v5_entries_describe
      (v5_entries_refusal refuse) (v5_entries_represents conv)
      (\<lambda>m. v5_entries_build fh validate sz (em_packet_id m) (map_option (map conv) (em_entries m)) (em_props m))"
    and wire: "packet_wire (v5_entries_inv fh validate ok enc) v5s_fixed_header (v5_entries_body enc) bytes v5_entries_size
      (parse :: ('p word, 'w) v5_entries_packet parser)"
    and sz: "\<And>e. sz e = length (enc e)" and bufs: "\<And>k. concat (bufs k) = bytes k" and empty: "validate [] = Ok ()"
    and conv: "\<And>es. E5_Entries es \<in> set ss \<Longrightarrow> refuse es = None \<Longrightarrow> list_all ok (map conv es) \<and> map rd (map conv es) = es"
    and props: "\<And>ps. E5_Props ps \<in> set ss \<Longrightarrow> properties_inv ps"
  shows "let m = fold v5_entries_describe ss entries_message_new in
    entries_promise m (first_refusal (v5_entries_refusal refuse) ss) (entries_refused validate m)
      (v5_entries_length (enc \<circ> conv) m) fh v5s_packet_id_buf (\<lambda>k. map rd (v5s_entries k)) v5s_props v5_entries_size
      bufs bytes parse (build_chain new call build ss)"
proof (cases "first_refusal (v5_entries_refusal refuse) ss")
  case None
  let ?m = "fold v5_entries_describe ss entries_message_new"
  have conv': "list_all ok (map conv es) \<and> map rd (map conv es) = es" if "em_entries ?m = Some es" for es
    using that v5_entries_described(1) [of ss entries_message_new es] first_refusal_mem [OF None] conv
    by (force simp: entries_message_new_def v5_entries_refusal_def)
  have props': "pred_option properties_inv (em_props ?m)"
    using v5_entries_described(2) [of ss entries_message_new] props
    by (cases "em_props ?m") (auto simp: entries_message_new_def)
  show ?thesis
    unfolding Let_def fluent_builder.chain_outcome [OF f] None option.case
    by (rule v5_entries_promise [OF w props' wire conv' sz bufs empty])
qed (simp add: entries_promise_def fluent_builder.chain_outcome [OF f])

section \<open>The seven types\<close>

primrec v3_subscribe_call ::
  "('p::len word, sub_entry) v3_entries_setter \<Rightarrow> ('p word, sub_entry) v3_entries_builder \<Rightarrow> (('p word, sub_entry) v3_entries_builder, mqtt_error) result" where
  "v3_subscribe_call (E3_Id i) b = Ok (v3_subscribe_set_packet_id i b)"
| "v3_subscribe_call (E3_Entries es) b = Ok (v3_subscribe_set_entries es b)"

primrec v3_unsubscribe_call ::
  "('p::len word, str) v3_entries_setter \<Rightarrow> ('p word, mqtt_string) v3_entries_builder \<Rightarrow> (('p word, mqtt_string) v3_entries_builder, mqtt_error) result" where
  "v3_unsubscribe_call (E3_Id i) b = Ok (v3_unsubscribe_set_packet_id i b)"
| "v3_unsubscribe_call (E3_Entries es) b = v3_unsubscribe_set_entries es b"

primrec v3_suback_call ::
  "('p::len word, suback_return_code) v3_entries_setter \<Rightarrow> ('p word, u8) v3_entries_builder \<Rightarrow> (('p word, u8) v3_entries_builder, mqtt_error) result" where
  "v3_suback_call (E3_Id i) b = Ok (v3_suback_set_packet_id i b)"
| "v3_suback_call (E3_Entries es) b = Ok (v3_suback_set_return_codes es b)"

primrec v5_subscribe_call ::
  "('p::len word, sub_entry) v5_entries_setter \<Rightarrow> ('p word, sub_entry) v5_entries_builder \<Rightarrow> (('p word, sub_entry) v5_entries_builder, mqtt_error) result" where
  "v5_subscribe_call (E5_Id i) b = Ok (v5_subscribe_set_packet_id i b)"
| "v5_subscribe_call (E5_Entries es) b = Ok (v5_subscribe_set_entries es b)"
| "v5_subscribe_call (E5_Props ps) b = Ok (v5_subscribe_set_props ps b)"

primrec v5_unsubscribe_call ::
  "('p::len word, str) v5_entries_setter \<Rightarrow> ('p word, mqtt_string) v5_entries_builder \<Rightarrow> (('p word, mqtt_string) v5_entries_builder, mqtt_error) result" where
  "v5_unsubscribe_call (E5_Id i) b = Ok (v5_unsubscribe_set_packet_id i b)"
| "v5_unsubscribe_call (E5_Entries es) b = v5_unsubscribe_set_entries es b"
| "v5_unsubscribe_call (E5_Props ps) b = Ok (v5_unsubscribe_set_props ps b)"

primrec v5_suback_call ::
  "('p::len word, suback_reason_code) v5_entries_setter \<Rightarrow> ('p word, u8) v5_entries_builder \<Rightarrow> (('p word, u8) v5_entries_builder, mqtt_error) result" where
  "v5_suback_call (E5_Id i) b = Ok (v5_suback_set_packet_id i b)"
| "v5_suback_call (E5_Entries es) b = Ok (v5_suback_set_reason_codes es b)"
| "v5_suback_call (E5_Props ps) b = Ok (v5_suback_set_props ps b)"

primrec v5_unsuback_call ::
  "('p::len word, unsuback_reason_code) v5_entries_setter \<Rightarrow> ('p word, u8) v5_entries_builder \<Rightarrow> (('p word, u8) v5_entries_builder, mqtt_error) result" where
  "v5_unsuback_call (E5_Id i) b = Ok (v5_unsuback_set_packet_id i b)"
| "v5_unsuback_call (E5_Entries es) b = Ok (v5_unsuback_set_reason_codes es b)"
| "v5_unsuback_call (E5_Props ps) b = Ok (v5_unsuback_set_props ps b)"

lemmas v3_entries_interface =
  v3_subscribe_builder_def v3_subscribe_set_packet_id_def v3_subscribe_set_entries_def v3_subscribe_build_def
  v3_unsubscribe_builder_def v3_unsubscribe_set_packet_id_def v3_unsubscribe_set_entries_def v3_unsubscribe_build_def
  v3_suback_builder_def v3_suback_set_packet_id_def v3_suback_set_return_codes_def v3_suback_build_def

lemmas v5_entries_interface =
  v5_subscribe_builder_def v5_subscribe_set_packet_id_def v5_subscribe_set_entries_def v5_subscribe_build_def v5_subscribe_set_props_def
  v5_unsubscribe_builder_def v5_unsubscribe_set_packet_id_def v5_unsubscribe_set_entries_def v5_unsubscribe_build_def v5_unsubscribe_set_props_def
  v5_suback_builder_def v5_suback_set_packet_id_def v5_suback_set_reason_codes_def v5_suback_build_def v5_suback_set_props_def
  v5_unsuback_builder_def v5_unsuback_set_packet_id_def v5_unsuback_set_reason_codes_def v5_unsuback_build_def v5_unsuback_set_props_def

interpretation v3_subscribe: fluent_builder v3_subscribe_builder v3_subscribe_call
    "(\<lambda>b. v3_subscribe_build (v3eb_packet_id_buf b) (v3eb_entries b))" entries_message_new v3_entries_describe
    "v3_entries_refusal (\<lambda>_. None)" "v3_entries_represents (\<lambda>e. e)"
    "\<lambda>m. v3_entries_build FH_Subscribe sub_entry_size (em_packet_id m) (map_option (map (\<lambda>e. e)) (em_entries m))"
proof (unfold_locales, goal_cases)
  case (2 b m s e)
  then show ?case
    by (cases s) (simp_all add: v3_entries_refusal_def v3_entries_interface collect_strings)
next
  case (3 b m s)
  then show ?case
    by (cases s) (simp_all add: v3_entries_refusal_def v3_entries_represents_def v3_entries_interface collect_strings)
qed (simp_all add: v3_entries_represents_def entries_message_new_def v3_entries_interface)

interpretation v3_unsubscribe: fluent_builder v3_unsubscribe_builder v3_unsubscribe_call
    "(\<lambda>b. v3_unsubscribe_build (v3eb_packet_id_buf b) (v3eb_entries b))" entries_message_new v3_entries_describe
    "v3_entries_refusal refuse_long" "v3_entries_represents string_entry"
    "\<lambda>m. v3_entries_build FH_Unsubscribe ms_size (em_packet_id m) (map_option (map string_entry) (em_entries m))"
proof (unfold_locales, goal_cases)
  case (2 b m s e)
  then show ?case
    by (cases s) (simp_all add: v3_entries_refusal_def v3_entries_interface collect_strings)
next
  case (3 b m s)
  then show ?case
    by (cases s) (simp_all add: v3_entries_refusal_def v3_entries_represents_def v3_entries_interface collect_strings)
qed (simp_all add: v3_entries_represents_def entries_message_new_def v3_entries_interface)

interpretation v3_suback: fluent_builder v3_suback_builder v3_suback_call
    "(\<lambda>b. v3_suback_build (v3eb_packet_id_buf b) (v3eb_entries b))" entries_message_new v3_entries_describe
    "v3_entries_refusal (\<lambda>_. None)" "v3_entries_represents suback_return_code_u8"
    "\<lambda>m. v3_entries_build FH_Suback (\<lambda>_. 1) (em_packet_id m) (map_option (map suback_return_code_u8) (em_entries m))"
proof (unfold_locales, goal_cases)
  case (2 b m s e)
  then show ?case
    by (cases s) (simp_all add: v3_entries_refusal_def v3_entries_interface collect_strings)
next
  case (3 b m s)
  then show ?case
    by (cases s) (simp_all add: v3_entries_refusal_def v3_entries_represents_def v3_entries_interface collect_strings)
qed (simp_all add: v3_entries_represents_def entries_message_new_def v3_entries_interface)

interpretation v5_subscribe: fluent_builder v5_subscribe_builder v5_subscribe_call
    "(\<lambda>b. v5_subscribe_build (v5eb_packet_id_buf b) (v5eb_entries b) (v5eb_props b))" entries_message_new v5_entries_describe
    "v5_entries_refusal (\<lambda>_. None)" "v5_entries_represents (\<lambda>e. e)"
    "\<lambda>m. v5_entries_build FH_Subscribe validate_subscribe_properties sub_entry_size (em_packet_id m) (map_option (map (\<lambda>e. e)) (em_entries m)) (em_props m)"
proof (unfold_locales, goal_cases)
  case (2 b m s e)
  then show ?case
    by (cases s) (simp_all add: v5_entries_refusal_def v5_entries_interface collect_strings)
next
  case (3 b m s)
  then show ?case
    by (cases s) (simp_all add: v5_entries_refusal_def v5_entries_represents_def v5_entries_interface collect_strings)
qed (simp_all add: v5_entries_represents_def entries_message_new_def v5_entries_interface)

interpretation v5_unsubscribe: fluent_builder v5_unsubscribe_builder v5_unsubscribe_call
    "(\<lambda>b. v5_unsubscribe_build (v5eb_packet_id_buf b) (v5eb_entries b) (v5eb_props b))" entries_message_new v5_entries_describe
    "v5_entries_refusal refuse_long" "v5_entries_represents string_entry"
    "\<lambda>m. v5_entries_build FH_Unsubscribe validate_unsubscribe_properties ms_size (em_packet_id m) (map_option (map string_entry) (em_entries m)) (em_props m)"
proof (unfold_locales, goal_cases)
  case (2 b m s e)
  then show ?case
    by (cases s) (simp_all add: v5_entries_refusal_def v5_entries_interface collect_strings)
next
  case (3 b m s)
  then show ?case
    by (cases s) (simp_all add: v5_entries_refusal_def v5_entries_represents_def v5_entries_interface collect_strings)
qed (simp_all add: v5_entries_represents_def entries_message_new_def v5_entries_interface)

interpretation v5_suback: fluent_builder v5_suback_builder v5_suback_call
    "(\<lambda>b. v5_suback_build (v5eb_packet_id_buf b) (v5eb_entries b) (v5eb_props b))" entries_message_new v5_entries_describe
    "v5_entries_refusal (\<lambda>_. None)" "v5_entries_represents suback_reason_code_u8"
    "\<lambda>m. v5_entries_build FH_Suback validate_suback_properties (\<lambda>_. 1) (em_packet_id m) (map_option (map suback_reason_code_u8) (em_entries m)) (em_props m)"
proof (unfold_locales, goal_cases)
  case (2 b m s e)
  then show ?case
    by (cases s) (simp_all add: v5_entries_refusal_def v5_entries_interface collect_strings)
next
  case (3 b m s)
  then show ?case
    by (cases s) (simp_all add: v5_entries_refusal_def v5_entries_represents_def v5_entries_interface collect_strings)
qed (simp_all add: v5_entries_represents_def entries_message_new_def v5_entries_interface)

interpretation v5_unsuback: fluent_builder v5_unsuback_builder v5_unsuback_call
    "(\<lambda>b. v5_unsuback_build (v5eb_packet_id_buf b) (v5eb_entries b) (v5eb_props b))" entries_message_new v5_entries_describe
    "v5_entries_refusal (\<lambda>_. None)" "v5_entries_represents unsuback_reason_code_u8"
    "\<lambda>m. v5_entries_build FH_Unsuback validate_unsuback_properties (\<lambda>_. 1) (em_packet_id m) (map_option (map unsuback_reason_code_u8) (em_entries m)) (em_props m)"
proof (unfold_locales, goal_cases)
  case (2 b m s e)
  then show ?case
    by (cases s) (simp_all add: v5_entries_refusal_def v5_entries_interface collect_strings)
next
  case (3 b m s)
  then show ?case
    by (cases s) (simp_all add: v5_entries_refusal_def v5_entries_represents_def v5_entries_interface collect_strings)
qed (simp_all add: v5_entries_represents_def entries_message_new_def v5_entries_interface)

lemma code_read:
  assumes "\<And>c. try (code c) = Some c"
  shows "list_all (\<lambda>b. try b \<noteq> None) (map code cs) \<and> map (\<lambda>b. case try b of Some c \<Rightarrow> c | None \<Rightarrow> d) (map code cs) = cs"
  by (induction cs) (simp_all add: assms)

lemma strings_read:
  assumes "list_all utf8_valid ts" and "refuse_long ts = None"
  shows "list_all ms_inv (map string_entry ts) \<and> map ms_as_str (map string_entry ts) = ts"
  using assms by (induction ts) (auto simp: refuse_long_def string_entry_ok split: if_splits)

lemma entries_valid_empty:
  "validate_subscribe_properties [] = Ok ()" "validate_unsubscribe_properties [] = Ok ()"
  "validate_suback_properties [] = Ok ()" "validate_unsuback_properties [] = Ok ()"
  by (simp_all add: validate_subscribe_properties_def validate_unsubscribe_properties_def validate_suback_properties_def
      validate_unsuback_properties_def validate_properties_def count_id_def)

lemmas v3_entries_access = v3_subscribe_packet_id_def v3_unsubscribe_packet_id_def v3_suback_packet_id_def
  v3_unsubscribe_entries_def v3_suback_return_codes_def v3_subscribe_size_def v3_unsubscribe_size_def v3_suback_size_def

lemmas v5_entries_access = v5_subscribe_packet_id_def v5_unsubscribe_packet_id_def v5_suback_packet_id_def
  v5_unsuback_packet_id_def v5_unsubscribe_entries_def v5_suback_reason_codes_def v5_unsuback_reason_codes_def
  v5_subscribe_size_def v5_unsubscribe_size_def v5_suback_size_def v5_unsuback_size_def
  v5_subscribe_to_continuous_buffer_def v5_unsubscribe_to_continuous_buffer_def
  v5_suback_to_continuous_buffer_def v5_unsuback_to_continuous_buffer_def

lemma v3_subscribe_chain:
  fixes ss :: "('p::len word, sub_entry) v3_entries_setter list"
  assumes w: "packet_id_width TYPE('p)"
    and valid: "\<And>es. E3_Entries es \<in> set ss \<Longrightarrow> list_all sub_entry_inv es"
  shows "(let m = fold v3_entries_describe ss entries_message_new in
      entries_promise m (first_refusal (v3_entries_refusal (\<lambda>_. None)) ss) (entries_refused (\<lambda>_. Ok ()) m)
        (v3_entries_length (sub_entry_to_continuous_buffer \<circ> (\<lambda>e. e)) m) FH_Subscribe v3_subscribe_packet_id v3s_entries (\<lambda>_. [])
        v3_subscribe_size v3_subscribe_to_buffers v3_subscribe_to_continuous_buffer v3_subscribe_parse
        (build_chain v3_subscribe_builder v3_subscribe_call (\<lambda>b. v3_subscribe_build (v3eb_packet_id_buf b) (v3eb_entries b)) ss))"
  unfolding v3_entries_access
proof (rule v3_entries_chain [OF w v3_subscribe.fluent_builder_axioms, where ok = "sub_entry_inv" and rd = "\<lambda>e. e", unfolded list.map_ident], goal_cases)
  case 1
  show ?case using packet_codec.axioms(1) [OF v3_subscribe_codec [OF w]] by (simp add: v3_entries_access)
next
  case 2
  show ?case by (simp add: sub_entry_size_eq)
next
  case 3
  show ?case by (simp add: v3_buffers gathers)
next
  case 4
  then show ?case using valid by simp
qed

lemma v3_unsubscribe_chain:
  fixes ss :: "('p::len word, str) v3_entries_setter list"
  assumes w: "packet_id_width TYPE('p)"
    and valid: "\<And>es. E3_Entries es \<in> set ss \<Longrightarrow> list_all utf8_valid es"
  shows "(let m = fold v3_entries_describe ss entries_message_new in
      entries_promise m (first_refusal (v3_entries_refusal refuse_long) ss) (entries_refused (\<lambda>_. Ok ()) m)
        (v3_entries_length (ms_to_continuous_buffer \<circ> string_entry) m) FH_Unsubscribe v3_unsubscribe_packet_id (\<lambda>k. map ms_as_str (v3_unsubscribe_entries k)) (\<lambda>_. [])
        v3_unsubscribe_size v3_unsubscribe_to_buffers v3_unsubscribe_to_continuous_buffer v3_unsubscribe_parse
        (build_chain v3_unsubscribe_builder v3_unsubscribe_call (\<lambda>b. v3_unsubscribe_build (v3eb_packet_id_buf b) (v3eb_entries b)) ss))"
  unfolding v3_entries_access
proof (rule v3_entries_chain [OF w v3_unsubscribe.fluent_builder_axioms, where ok = "ms_inv"], goal_cases)
  case 1
  show ?case using packet_codec.axioms(1) [OF v3_unsubscribe_codec [OF w]] by (simp add: v3_entries_access)
next
  case 2
  show ?case by simp
next
  case 3
  show ?case by (simp add: v3_buffers gathers)
next
  case 4
  then show ?case using strings_read valid by blast
qed

lemma v3_suback_chain:
  fixes ss :: "('p::len word, suback_return_code) v3_entries_setter list"
  assumes w: "packet_id_width TYPE('p)"
  shows "(let m = fold v3_entries_describe ss entries_message_new in
      entries_promise m (first_refusal (v3_entries_refusal (\<lambda>_. None)) ss) (entries_refused (\<lambda>_. Ok ()) m)
        (v3_entries_length ((\<lambda>b. [b]) \<circ> suback_return_code_u8) m) FH_Suback v3_suback_packet_id v3_suback_return_codes (\<lambda>_. [])
        v3_suback_size v3_suback_to_buffers v3_suback_to_continuous_buffer v3_suback_parse
        (build_chain v3_suback_builder v3_suback_call (\<lambda>b. v3_suback_build (v3eb_packet_id_buf b) (v3eb_entries b)) ss))"
  unfolding v3_entries_access
proof (rule v3_entries_chain [OF w v3_suback.fluent_builder_axioms, where ok = "return_code_ok"], goal_cases)
  case 1
  show ?case using packet_codec.axioms(1) [OF v3_suback_codec [OF w]] by (simp add: v3_entries_access)
next
  case 2
  show ?case by simp
next
  case 3
  show ?case by (simp add: v3_buffers gathers)
next
  case 4
  show ?case by (unfold return_code_ok_def, rule code_read) (simp add: suback_return_code_try_from_def)
qed

lemma v5_subscribe_chain:
  fixes ss :: "('p::len word, sub_entry) v5_entries_setter list"
  assumes w: "packet_id_width TYPE('p)"
    and valid: "\<And>es. E5_Entries es \<in> set ss \<Longrightarrow> list_all sub_entry_inv es"
    and props: "\<And>ps. E5_Props ps \<in> set ss \<Longrightarrow> properties_inv ps"
  shows "(let m = fold v5_entries_describe ss entries_message_new in
      entries_promise m (first_refusal (v5_entries_refusal (\<lambda>_. None)) ss) (entries_refused validate_subscribe_properties m)
        (v5_entries_length (sub_entry_to_continuous_buffer \<circ> (\<lambda>e. e)) m) FH_Subscribe v5_subscribe_packet_id v5s_entries v5s_props
        v5_subscribe_size v5_subscribe_to_buffers v5_subscribe_to_continuous_buffer v5_subscribe_parse
        (build_chain v5_subscribe_builder v5_subscribe_call (\<lambda>b. v5_subscribe_build (v5eb_packet_id_buf b) (v5eb_entries b) (v5eb_props b)) ss))"
  unfolding v5_entries_access
proof (rule v5_entries_chain [OF w v5_subscribe.fluent_builder_axioms, where ok = "sub_entry_inv" and rd = "\<lambda>e. e", unfolded list.map_ident], goal_cases)
  case 1
  show ?case using v5_subscribe_wire [OF w] by (simp add: v5_entries_access)
next
  case 2
  show ?case by (simp add: sub_entry_size_eq)
next
  case 3
  show ?case by (simp add: v5_buffers v5_entries_access gathers)
next
  case 4
  show ?case by (rule entries_valid_empty)
next
  case 5
  then show ?case using valid by simp
next
  case 6
  then show ?case by (rule props)
qed

lemma v5_unsubscribe_chain:
  fixes ss :: "('p::len word, str) v5_entries_setter list"
  assumes w: "packet_id_width TYPE('p)"
    and valid: "\<And>es. E5_Entries es \<in> set ss \<Longrightarrow> list_all utf8_valid es"
    and props: "\<And>ps. E5_Props ps \<in> set ss \<Longrightarrow> properties_inv ps"
  shows "(let m = fold v5_entries_describe ss entries_message_new in
      entries_promise m (first_refusal (v5_entries_refusal refuse_long) ss) (entries_refused validate_unsubscribe_properties m)
        (v5_entries_length (ms_to_continuous_buffer \<circ> string_entry) m) FH_Unsubscribe v5_unsubscribe_packet_id (\<lambda>k. map ms_as_str (v5_unsubscribe_entries k)) v5s_props
        v5_unsubscribe_size v5_unsubscribe_to_buffers v5_unsubscribe_to_continuous_buffer v5_unsubscribe_parse
        (build_chain v5_unsubscribe_builder v5_unsubscribe_call (\<lambda>b. v5_unsubscribe_build (v5eb_packet_id_buf b) (v5eb_entries b) (v5eb_props b)) ss))"
  unfolding v5_entries_access
proof (rule v5_entries_chain [OF w v5_unsubscribe.fluent_builder_axioms, where ok = "ms_inv"], goal_cases)
  case 1
  show ?case using v5_unsubscribe_wire [OF w] by (simp add: v5_entries_access)
next
  case 2
  show ?case by simp
next
  case 3
  show ?case by (simp add: v5_buffers v5_entries_access gathers)
next
  case 4
  show ?case by (rule entries_valid_empty)
next
  case 5
  then show ?case using strings_read valid by blast
next
  case 6
  then show ?case by (rule props)
qed

lemma v5_suback_chain:
  fixes ss :: "('p::len word, suback_reason_code) v5_entries_setter list"
  assumes w: "packet_id_width TYPE('p)"
    and props: "\<And>ps. E5_Props ps \<in> set ss \<Longrightarrow> properties_inv ps"
  shows "(let m = fold v5_entries_describe ss entries_message_new in
      entries_promise m (first_refusal (v5_entries_refusal (\<lambda>_. None)) ss) (entries_refused validate_suback_properties m)
        (v5_entries_length ((\<lambda>b. [b]) \<circ> suback_reason_code_u8) m) FH_Suback v5_suback_packet_id v5_suback_reason_codes v5s_props
        v5_suback_size v5_suback_to_buffers v5_suback_to_continuous_buffer v5_suback_parse
        (build_chain v5_suback_builder v5_suback_call (\<lambda>b. v5_suback_build (v5eb_packet_id_buf b) (v5eb_entries b) (v5eb_props b)) ss))"
  unfolding v5_entries_access
proof (rule v5_entries_chain [OF w v5_suback.fluent_builder_axioms, where ok = "(\<lambda>b. suback_reason_code_try_from b \<noteq> None)"], goal_cases)
  case 1
  show ?case using v5_suback_wire [OF w] by (simp add: v5_entries_access)
next
  case 2
  show ?case by simp
next
  case 3
  show ?case by (simp add: v5_buffers v5_entries_access gathers)
next
  case 4
  show ?case by (rule entries_valid_empty)
next
  case 5
  show ?case by (rule code_read) (simp add: suback_reason_code_try_from_def)
next
  case 6
  then show ?case by (rule props)
qed

lemma v5_unsuback_chain:
  fixes ss :: "('p::len word, unsuback_reason_code) v5_entries_setter list"
  assumes w: "packet_id_width TYPE('p)"
    and props: "\<And>ps. E5_Props ps \<in> set ss \<Longrightarrow> properties_inv ps"
  shows "(let m = fold v5_entries_describe ss entries_message_new in
      entries_promise m (first_refusal (v5_entries_refusal (\<lambda>_. None)) ss) (entries_refused validate_unsuback_properties m)
        (v5_entries_length ((\<lambda>b. [b]) \<circ> unsuback_reason_code_u8) m) FH_Unsuback v5_unsuback_packet_id v5_unsuback_reason_codes v5s_props
        v5_unsuback_size v5_unsuback_to_buffers v5_unsuback_to_continuous_buffer v5_unsuback_parse
        (build_chain v5_unsuback_builder v5_unsuback_call (\<lambda>b. v5_unsuback_build (v5eb_packet_id_buf b) (v5eb_entries b) (v5eb_props b)) ss))"
  unfolding v5_entries_access
proof (rule v5_entries_chain [OF w v5_unsuback.fluent_builder_axioms, where ok = "(\<lambda>b. unsuback_reason_code_try_from b \<noteq> None)"], goal_cases)
  case 1
  show ?case using v5_unsuback_wire [OF w] by (simp add: v5_entries_access)
next
  case 2
  show ?case by simp
next
  case 3
  show ?case by (simp add: v5_buffers v5_entries_access gathers)
next
  case 4
  show ?case by (rule entries_valid_empty)
next
  case 5
  show ?case by (rule code_read) (simp add: unsuback_reason_code_try_from_def)
next
  case 6
  then show ?case by (rule props)
qed

text \<open>
  The fluent interface of SUBSCRIBE, UNSUBSCRIBE and SUBACK of v3.1.1: the statement for v5.0 below,
  without properties and without UNSUBACK, which has no entries.
\<close>

theorem fluent_v3_entries:
  fixes ss_1 :: "('p::len word, sub_entry) v3_entries_setter list"
    and ss_2 :: "('p word, str) v3_entries_setter list"
    and ss_3 :: "('p word, suback_return_code) v3_entries_setter list"
  assumes "packet_id_width TYPE('p)"
    and "\<forall>es. E3_Entries es \<in> set ss_1 \<longrightarrow> list_all sub_entry_inv es"
    and "\<forall>ts. E3_Entries ts \<in> set ss_2 \<longrightarrow> list_all utf8_valid ts"
  shows "(let m = fold v3_entries_describe ss_1 entries_message_new in
      entries_promise m (first_refusal (v3_entries_refusal (\<lambda>_. None)) ss_1) (entries_refused (\<lambda>_. Ok ()) m)
        (v3_entries_length (sub_entry_to_continuous_buffer \<circ> (\<lambda>e. e)) m) FH_Subscribe v3_subscribe_packet_id v3s_entries (\<lambda>_. [])
        v3_subscribe_size v3_subscribe_to_buffers v3_subscribe_to_continuous_buffer v3_subscribe_parse
        (build_chain v3_subscribe_builder v3_subscribe_call (\<lambda>b. v3_subscribe_build (v3eb_packet_id_buf b) (v3eb_entries b)) ss_1))
   \<and> (let m = fold v3_entries_describe ss_2 entries_message_new in
      entries_promise m (first_refusal (v3_entries_refusal refuse_long) ss_2) (entries_refused (\<lambda>_. Ok ()) m)
        (v3_entries_length (ms_to_continuous_buffer \<circ> string_entry) m) FH_Unsubscribe v3_unsubscribe_packet_id (\<lambda>k. map ms_as_str (v3_unsubscribe_entries k)) (\<lambda>_. [])
        v3_unsubscribe_size v3_unsubscribe_to_buffers v3_unsubscribe_to_continuous_buffer v3_unsubscribe_parse
        (build_chain v3_unsubscribe_builder v3_unsubscribe_call (\<lambda>b. v3_unsubscribe_build (v3eb_packet_id_buf b) (v3eb_entries b)) ss_2))
   \<and> (let m = fold v3_entries_describe ss_3 entries_message_new in
      entries_promise m (first_refusal (v3_entries_refusal (\<lambda>_. None)) ss_3) (entries_refused (\<lambda>_. Ok ()) m)
        (v3_entries_length ((\<lambda>b. [b]) \<circ> suback_return_code_u8) m) FH_Suback v3_suback_packet_id v3_suback_return_codes (\<lambda>_. [])
        v3_suback_size v3_suback_to_buffers v3_suback_to_continuous_buffer v3_suback_parse
        (build_chain v3_suback_builder v3_suback_call (\<lambda>b. v3_suback_build (v3eb_packet_id_buf b) (v3eb_entries b)) ss_3))"
proof (intro conjI)
  show "(let m = fold v3_entries_describe ss_1 entries_message_new in
      entries_promise m (first_refusal (v3_entries_refusal (\<lambda>_. None)) ss_1) (entries_refused (\<lambda>_. Ok ()) m)
        (v3_entries_length (sub_entry_to_continuous_buffer \<circ> (\<lambda>e. e)) m) FH_Subscribe v3_subscribe_packet_id v3s_entries (\<lambda>_. [])
        v3_subscribe_size v3_subscribe_to_buffers v3_subscribe_to_continuous_buffer v3_subscribe_parse
        (build_chain v3_subscribe_builder v3_subscribe_call (\<lambda>b. v3_subscribe_build (v3eb_packet_id_buf b) (v3eb_entries b)) ss_1))"
    by (rule v3_subscribe_chain [OF assms(1)]) (use assms in blast)+
  show "(let m = fold v3_entries_describe ss_2 entries_message_new in
      entries_promise m (first_refusal (v3_entries_refusal refuse_long) ss_2) (entries_refused (\<lambda>_. Ok ()) m)
        (v3_entries_length (ms_to_continuous_buffer \<circ> string_entry) m) FH_Unsubscribe v3_unsubscribe_packet_id (\<lambda>k. map ms_as_str (v3_unsubscribe_entries k)) (\<lambda>_. [])
        v3_unsubscribe_size v3_unsubscribe_to_buffers v3_unsubscribe_to_continuous_buffer v3_unsubscribe_parse
        (build_chain v3_unsubscribe_builder v3_unsubscribe_call (\<lambda>b. v3_unsubscribe_build (v3eb_packet_id_buf b) (v3eb_entries b)) ss_2))"
    by (rule v3_unsubscribe_chain [OF assms(1)]) (use assms in blast)+
  show "(let m = fold v3_entries_describe ss_3 entries_message_new in
      entries_promise m (first_refusal (v3_entries_refusal (\<lambda>_. None)) ss_3) (entries_refused (\<lambda>_. Ok ()) m)
        (v3_entries_length ((\<lambda>b. [b]) \<circ> suback_return_code_u8) m) FH_Suback v3_suback_packet_id v3_suback_return_codes (\<lambda>_. [])
        v3_suback_size v3_suback_to_buffers v3_suback_to_continuous_buffer v3_suback_parse
        (build_chain v3_suback_builder v3_suback_call (\<lambda>b. v3_suback_build (v3eb_packet_id_buf b) (v3eb_entries b)) ss_3))"
    by (rule v3_suback_chain [OF assms(1)])
qed

text \<open>
  C24: the fluent interface of SUBSCRIBE, UNSUBSCRIBE, SUBACK and UNSUBACK of v5.0.  For each type and
  every chain of setters: the setter of topic filters refuses a filter longer than 65535 bytes; \<open>build\<close>
  refuses a missing identifier or 0 with MalformedPacket, missing or empty entries with ProtocolError, and
  properties that the type does not allow with the error of their validation, in this order; it panics
  exactly when the packet would be longer than a remaining length can say; and else the accessors read
  back the identifier, the entries as the application gave them (typed codes, strings, options) and the
  properties that were set last, and the packet builder and the parser of the type make the same packet
  again of the bytes sent.
\<close>

theorem fluent_v5_entries:
  fixes ss_1 :: "('p::len word, sub_entry) v5_entries_setter list"
    and ss_2 :: "('p word, str) v5_entries_setter list"
    and ss_3 :: "('p word, suback_reason_code) v5_entries_setter list"
    and ss_4 :: "('p word, unsuback_reason_code) v5_entries_setter list"
  assumes "packet_id_width TYPE('p)"
    and "\<forall>es. E5_Entries es \<in> set ss_1 \<longrightarrow> list_all sub_entry_inv es"
    and "\<forall>ts. E5_Entries ts \<in> set ss_2 \<longrightarrow> list_all utf8_valid ts"
    and "\<forall>ps. E5_Props ps \<in> set ss_1 \<or> E5_Props ps \<in> set ss_2 \<or> E5_Props ps \<in> set ss_3 \<or> E5_Props ps \<in> set ss_4
      \<longrightarrow> properties_inv ps"
  shows "(let m = fold v5_entries_describe ss_1 entries_message_new in
      entries_promise m (first_refusal (v5_entries_refusal (\<lambda>_. None)) ss_1) (entries_refused validate_subscribe_properties m)
        (v5_entries_length (sub_entry_to_continuous_buffer \<circ> (\<lambda>e. e)) m) FH_Subscribe v5_subscribe_packet_id v5s_entries v5s_props
        v5_subscribe_size v5_subscribe_to_buffers v5_subscribe_to_continuous_buffer v5_subscribe_parse
        (build_chain v5_subscribe_builder v5_subscribe_call (\<lambda>b. v5_subscribe_build (v5eb_packet_id_buf b) (v5eb_entries b) (v5eb_props b)) ss_1))
   \<and> (let m = fold v5_entries_describe ss_2 entries_message_new in
      entries_promise m (first_refusal (v5_entries_refusal refuse_long) ss_2) (entries_refused validate_unsubscribe_properties m)
        (v5_entries_length (ms_to_continuous_buffer \<circ> string_entry) m) FH_Unsubscribe v5_unsubscribe_packet_id (\<lambda>k. map ms_as_str (v5_unsubscribe_entries k)) v5s_props
        v5_unsubscribe_size v5_unsubscribe_to_buffers v5_unsubscribe_to_continuous_buffer v5_unsubscribe_parse
        (build_chain v5_unsubscribe_builder v5_unsubscribe_call (\<lambda>b. v5_unsubscribe_build (v5eb_packet_id_buf b) (v5eb_entries b) (v5eb_props b)) ss_2))
   \<and> (let m = fold v5_entries_describe ss_3 entries_message_new in
      entries_promise m (first_refusal (v5_entries_refusal (\<lambda>_. None)) ss_3) (entries_refused validate_suback_properties m)
        (v5_entries_length ((\<lambda>b. [b]) \<circ> suback_reason_code_u8) m) FH_Suback v5_suback_packet_id v5_suback_reason_codes v5s_props
        v5_suback_size v5_suback_to_buffers v5_suback_to_continuous_buffer v5_suback_parse
        (build_chain v5_suback_builder v5_suback_call (\<lambda>b. v5_suback_build (v5eb_packet_id_buf b) (v5eb_entries b) (v5eb_props b)) ss_3))
   \<and> (let m = fold v5_entries_describe ss_4 entries_message_new in
      entries_promise m (first_refusal (v5_entries_refusal (\<lambda>_. None)) ss_4) (entries_refused validate_unsuback_properties m)
        (v5_entries_length ((\<lambda>b. [b]) \<circ> unsuback_reason_code_u8) m) FH_Unsuback v5_unsuback_packet_id v5_unsuback_reason_codes v5s_props
        v5_unsuback_size v5_unsuback_to_buffers v5_unsuback_to_continuous_buffer v5_unsuback_parse
        (build_chain v5_unsuback_builder v5_unsuback_call (\<lambda>b. v5_unsuback_build (v5eb_packet_id_buf b) (v5eb_entries b) (v5eb_props b)) ss_4))"
proof (intro conjI)
  show "(let m = fold v5_entries_describe ss_1 entries_message_new in
      entries_promise m (first_refusal (v5_entries_refusal (\<lambda>_. None)) ss_1) (entries_refused validate_subscribe_properties m)
        (v5_entries_length (sub_entry_to_continuous_buffer \<circ> (\<lambda>e. e)) m) FH_Subscribe v5_subscribe_packet_id v5s_entries v5s_props
        v5_subscribe_size v5_subscribe_to_buffers v5_subscribe_to_continuous_buffer v5_subscribe_parse
        (build_chain v5_subscribe_builder v5_subscribe_call (\<lambda>b. v5_subscribe_build (v5eb_packet_id_buf b) (v5eb_entries b) (v5eb_props b)) ss_1))"
    by (rule v5_subscribe_chain [OF assms(1)]) (use assms in blast)+
  show "(let m = fold v5_entries_describe ss_2 entries_message_new in
      entries_promise m (first_refusal (v5_entries_refusal refuse_long) ss_2) (entries_refused validate_unsubscribe_properties m)
        (v5_entries_length (ms_to_continuous_buffer \<circ> string_entry) m) FH_Unsubscribe v5_unsubscribe_packet_id (\<lambda>k. map ms_as_str (v5_unsubscribe_entries k)) v5s_props
        v5_unsubscribe_size v5_unsubscribe_to_buffers v5_unsubscribe_to_continuous_buffer v5_unsubscribe_parse
        (build_chain v5_unsubscribe_builder v5_unsubscribe_call (\<lambda>b. v5_unsubscribe_build (v5eb_packet_id_buf b) (v5eb_entries b) (v5eb_props b)) ss_2))"
    by (rule v5_unsubscribe_chain [OF assms(1)]) (use assms in blast)+
  show "(let m = fold v5_entries_describe ss_3 entries_message_new in
      entries_promise m (first_refusal (v5_entries_refusal (\<lambda>_. None)) ss_3) (entries_refused validate_suback_properties m)
        (v5_entries_length ((\<lambda>b. [b]) \<circ> suback_reason_code_u8) m) FH_Suback v5_suback_packet_id v5_suback_reason_codes v5s_props
        v5_suback_size v5_suback_to_buffers v5_suback_to_continuous_buffer v5_suback_parse
        (build_chain v5_suback_builder v5_suback_call (\<lambda>b. v5_suback_build (v5eb_packet_id_buf b) (v5eb_entries b) (v5eb_props b)) ss_3))"
    by (rule v5_suback_chain [OF assms(1)]) (use assms in blast)+
  show "(let m = fold v5_entries_describe ss_4 entries_message_new in
      entries_promise m (first_refusal (v5_entries_refusal (\<lambda>_. None)) ss_4) (entries_refused validate_unsuback_properties m)
        (v5_entries_length ((\<lambda>b. [b]) \<circ> unsuback_reason_code_u8) m) FH_Unsuback v5_unsuback_packet_id v5_unsuback_reason_codes v5s_props
        v5_unsuback_size v5_unsuback_to_buffers v5_unsuback_to_continuous_buffer v5_unsuback_parse
        (build_chain v5_unsuback_builder v5_unsuback_call (\<lambda>b. v5_unsuback_build (v5eb_packet_id_buf b) (v5eb_entries b) (v5eb_props b)) ss_4))"
    by (rule v5_unsuback_chain [OF assms(1)]) (use assms in blast)+
qed

theorem fluent_v5_entries_witness:
  "\<exists>k :: (16 word, u8) v5_entries_packet. build_chain v5_suback_builder v5_suback_call
       (\<lambda>b. v5_suback_build (v5eb_packet_id_buf b) (v5eb_entries b) (v5eb_props b))
       [E5_Entries [], E5_Id 9, E5_Entries [Suback_GrantedQos1, Suback_NotAuthorized]] = Ret (Ok k)
     \<and> v5_suback_packet_id k = 9 \<and> v5_suback_reason_codes k = [Suback_GrantedQos1, Suback_NotAuthorized] \<and> v5s_props k = []"
proof -
  let ?ss = "[E5_Entries [], E5_Id 9, E5_Entries [Suback_GrantedQos1, Suback_NotAuthorized]] ::
    (16 word, suback_reason_code) v5_entries_setter list"
  have w: "packet_id_width TYPE(16)" by (simp add: packet_id_width_def)
  have len: "length (properties_wire []) = 1"
    by (simp add: length_properties_wire properties_size_def vbi_enc.simps)
  have "let m = fold v5_entries_describe ?ss entries_message_new in
      entries_promise m (first_refusal (v5_entries_refusal (\<lambda>_. None)) ?ss) (entries_refused validate_suback_properties m)
        (v5_entries_length ((\<lambda>b. [b]) \<circ> suback_reason_code_u8) m) FH_Suback v5_suback_packet_id v5_suback_reason_codes v5s_props
        v5_suback_size v5_suback_to_buffers v5_suback_to_continuous_buffer v5_suback_parse
        (build_chain v5_suback_builder v5_suback_call (\<lambda>b. v5_suback_build (v5eb_packet_id_buf b) (v5eb_entries b) (v5eb_props b)) ?ss)"
    using fluent_v5_entries [OF w, of "[]" "[]" ?ss "[]"] by simp
  then show ?thesis
    using len
    by (auto simp: entries_promise_def entries_refused_def v5_entries_length_def v3_entries_length_def entries_message_new_def
        v5_entries_refusal_def pid_size_def unwrap_or_def Let_def)
qed

end
