(* ===== verification/Rendering.thy ===== *)
theory Rendering
  imports Rendering_Base Entries_Interface Connection_State
begin

text \<open>
  How packets and events are shown: \<^verbatim>\<open>Serialize\<close>, \<^verbatim>\<open>Display\<close>, \<^verbatim>\<open>Debug\<close> and
  \<^verbatim>\<open>GenericPacketDisplay\<close> of every packet type (\<^verbatim>\<open>src/mqtt/packet/v3_1_1/\<close>,
  \<^verbatim>\<open>src/mqtt/packet/v5_0/\<close>), of the enumerations of packets (\<^verbatim>\<open>enum_packet.rs\<close>,
  \<^verbatim>\<open>enum_store_packet.rs\<close>) and of the events of a connection (\<^verbatim>\<open>connection/event.rs\<close>).  A rendering
  is the value that is announced to serde, or a panic of an accessor; the text of the value is made by
  the parameter \<open>js\<close>.  What holds of every rendering stands in \<open>Rendering_Laws\<close>.
\<close>

section \<open>Serialize\<close>

text \<open>The accessors of DISCONNECT and AUTH that are shown.\<close>

definition v5_disconnect_reason_code :: "v5_reason_packet \<Rightarrow> disconnect_reason_code option" where
  "v5_disconnect_reason_code k =
     (case v5r_reason_code_buf k of None \<Rightarrow> None | Some b \<Rightarrow> disconnect_reason_code_try_from b)"

definition v5_auth_reason_code :: "v5_reason_packet \<Rightarrow> auth_reason_code option" where
  "v5_auth_reason_code k = auth_reason_of (v5r_reason_code_buf k)"

text \<open>A vector of subscription entries, each shown in turn.\<close>

primrec sub_entries_serialize :: "sub_entry list \<Rightarrow> ser list rust" where
  "sub_entries_serialize [] = Ret []"
| "sub_entries_serialize (e # es) =
     rbind (sub_entry_serialize e) (\<lambda>v. rbind (sub_entries_serialize es) (\<lambda>vs. Ret (v # vs)))"

text \<open>
  One value per packet type: the name of the structure, the number of fields announced, the fields
  written.
\<close>

definition v3_connect_serialize :: "v3_connect \<Rightarrow> ser rust" where
  "v3_connect_serialize k =
    serialize_struct ''Connect'' (5 + (if v3_user_name_flag k then 1 else 0) + (if v3_password_flag k then 1 else 0)
        + (if v3_will_flag k then 4 else 0))
      [[(''type'', Ret (S_Str (lit ''connect''))),
        (''client_id'', Ret (S_Str (v3_client_id k))),
        (''clean_start'', Ret (S_Bool (v3_clean_session k))),
        (''keep_alive'', Ret (S_UInt (unat (v3_keep_alive k))))],
       (if v3_user_name_flag k then [(''user_name'', Ret (serialize_option S_Str (v3_user_name k)))] else []),
       (if v3_password_flag k then [(''password'', Ret (S_Str (lit ''*****'')))] else []),
       (if v3_will_flag k then [(''will_qos'', Ret (qos_serialize (v3_will_qos k))),
          (''will_retain'', Ret (S_Bool (v3_will_retain k))),
          (''will_topic'', Ret (serialize_option S_Str (v3_will_topic k)))] @
         (case v3_will_payload k of Some payload \<Rightarrow> [(''will_payload'', Ret (payload_serialize payload))] | None \<Rightarrow> []) else [])]"

definition v3_connack_serialize :: "v3_connack \<Rightarrow> ser rust" where
  "v3_connack_serialize k =
    serialize_struct ''connack'' 3
      [[(''type'', Ret (S_Str (lit (packet_type_as_str PT_Connack)))),
        (''session_present'', Ret (S_Bool (v3_connack_session_present k))),
        (''return_code'', rbind (v3_connack_return_code k) (\<lambda>c. Ret (connect_return_code_serialize c)))]]"

definition v3_subscribe_serialize :: "('p::len word, sub_entry) v3_entries_packet \<Rightarrow> ser rust" where
  "v3_subscribe_serialize k =
    serialize_struct ''Subscribe'' (2 + (if v3s_entries k \<noteq> [] then 1 else 0))
      [[(''type'', Ret (S_Str (lit ''subscribe''))),
        (''packet_id'', Ret (S_UInt (unat (v3_subscribe_packet_id k))))],
       (if v3s_entries k \<noteq> [] then [(''entries'', rbind (sub_entries_serialize (v3s_entries k)) (\<lambda>es. Ret (S_Seq es)))] else [])]"

definition v3_suback_serialize :: "('p::len word, u8) v3_entries_packet \<Rightarrow> ser rust" where
  "v3_suback_serialize k =
    serialize_struct ''Suback'' (2 + (if v3s_entries k \<noteq> [] then 1 else 0))
      [[(''type'', Ret (S_Str (lit ''suback''))),
        (''packet_id'', Ret (S_UInt (unat (v3_suback_packet_id k))))],
       (if v3s_entries k \<noteq> [] then [(''return_codes'', Ret (S_Seq (map suback_return_code_serialize (v3_suback_return_codes k))))] else [])]"

definition v3_unsubscribe_serialize :: "('p::len word, mqtt_string) v3_entries_packet \<Rightarrow> ser rust" where
  "v3_unsubscribe_serialize k =
    serialize_struct ''Unsubscribe'' (2 + (if v3s_entries k \<noteq> [] then 1 else 0))
      [[(''type'', Ret (S_Str (lit ''unsubscribe''))),
        (''packet_id'', Ret (S_UInt (unat (v3_unsubscribe_packet_id k))))],
       (if v3s_entries k \<noteq> [] then [(''entries'', Ret (S_Seq (map ms_serialize (v3s_entries k))))] else [])]"

definition v3_unsuback_serialize :: "'p::len word v3_unsuback \<Rightarrow> ser rust" where
  "v3_unsuback_serialize k =
    serialize_struct ''Unsuback'' 2
      [[(''type'', Ret (S_Str (lit ''unsuback''))),
        (''packet_id'', Ret (S_UInt (unat (v3ua_packet_id_buf k))))]]"

definition v3_publish_serialize :: "'p::len word v3_publish \<Rightarrow> ser rust" where
  "v3_publish_serialize k =
    serialize_struct ''publish'' (6 + 1)
      [[(''type'', Ret (S_Str (lit (packet_type_as_str PT_Publish)))),
        (''topic_name'', Ret (ms_serialize (v3p_topic_name_buf k))),
        (''qos'', rbind (v3_publish_qos k) (\<lambda>q. Ret (qos_serialize q))),
        (''retain'', Ret (S_Bool (v3_publish_retain k))),
        (''dup'', Ret (S_Bool (v3_publish_dup k))),
        (''packet_id'', Ret (serialize_option (\<lambda>i. S_UInt (unat i)) (v3p_packet_id_buf k))),
        (''payload'', Ret (payload_serialize (v3p_payload_buf k)))]]"

definition v3_puback_serialize :: "'p::len word v3_ack \<Rightarrow> ser rust" where
  "v3_puback_serialize k =
    serialize_struct ''puback'' (2 + (if v3a_reason_code_buf k \<noteq> None then 1 else 0))
      [[(''type'', Ret (S_Str (lit (packet_type_as_str PT_Puback)))),
        (''packet_id'', Ret (S_UInt (unat (v3_puback_packet_id k))))],
       (if v3a_reason_code_buf k \<noteq> None then [(''reason_code'', Ret (serialize_option puback_reason_code_serialize (v3_puback_reason_code k)))] else [])]"

definition v3_pubrec_serialize :: "'p::len word v3_ack \<Rightarrow> ser rust" where
  "v3_pubrec_serialize k =
    serialize_struct ''pubrec'' (2 + (if v3a_reason_code_buf k \<noteq> None then 1 else 0))
      [[(''type'', Ret (S_Str (lit (packet_type_as_str PT_Pubrec)))),
        (''packet_id'', Ret (S_UInt (unat (v3_pubrec_packet_id k))))],
       (if v3a_reason_code_buf k \<noteq> None then [(''reason_code'', Ret (serialize_option pubrec_reason_code_serialize (v3_pubrec_reason_code k)))] else [])]"

definition v3_pubrel_serialize :: "'p::len word v3_ack \<Rightarrow> ser rust" where
  "v3_pubrel_serialize k =
    serialize_struct ''pubrel'' (2 + (if v3a_reason_code_buf k \<noteq> None then 1 else 0))
      [[(''type'', Ret (S_Str (lit (packet_type_as_str PT_Pubrel)))),
        (''packet_id'', Ret (S_UInt (unat (v3_pubrel_packet_id k))))],
       (if v3a_reason_code_buf k \<noteq> None then [(''reason_code'', Ret (serialize_option pubrel_reason_code_serialize (v3_pubrel_reason_code k)))] else [])]"

definition v3_pubcomp_serialize :: "'p::len word v3_ack \<Rightarrow> ser rust" where
  "v3_pubcomp_serialize k =
    serialize_struct ''pubcomp'' (2 + (if v3a_reason_code_buf k \<noteq> None then 1 else 0))
      [[(''type'', Ret (S_Str (lit (packet_type_as_str PT_Pubcomp)))),
        (''packet_id'', Ret (S_UInt (unat (v3_pubcomp_packet_id k))))],
       (if v3a_reason_code_buf k \<noteq> None then [(''reason_code'', Ret (serialize_option pubcomp_reason_code_serialize (v3_pubcomp_reason_code k)))] else [])]"

definition v3_disconnect_serialize :: "v3_empty \<Rightarrow> ser rust" where
  "v3_disconnect_serialize k =
    serialize_struct ''disconnect'' 1
      [[(''type'', Ret (S_Str (lit (packet_type_as_str PT_Disconnect))))]]"

definition v3_pingreq_serialize :: "v3_empty \<Rightarrow> ser rust" where
  "v3_pingreq_serialize k =
    serialize_struct ''pingreq'' 1
      [[(''type'', Ret (S_Str (lit (packet_type_as_str PT_Pingreq))))]]"

definition v3_pingresp_serialize :: "v3_empty \<Rightarrow> ser rust" where
  "v3_pingresp_serialize k =
    serialize_struct ''pingresp'' 1
      [[(''type'', Ret (S_Str (lit (packet_type_as_str PT_Pingresp))))]]"

definition v5_connect_serialize :: "v5_connect \<Rightarrow> ser rust" where
  "v5_connect_serialize k =
    serialize_struct ''Connect'' (5 + (if v5_user_name_flag k then 1 else 0) + (if v5_password_flag k then 1 else 0)
        + (if v5_will_flag k then 4 + (if v5c_will_props k \<noteq> [] then 1 else 0) else 0))
      [[(''type'', Ret (S_Str (lit ''connect''))),
        (''client_id'', Ret (S_Str (v5_client_id k))),
        (''clean_start'', Ret (S_Bool (v5_clean_start k))),
        (''keep_alive'', Ret (S_UInt (unat (v5_keep_alive k))))],
       (if v5c_props k \<noteq> [] then [(''props'', Ret (properties_serialize (v5c_props k)))] else []),
       (if v5_user_name_flag k then [(''user_name'', Ret (serialize_option S_Str (v5_user_name k)))] else []),
       (if v5_password_flag k then [(''password'', Ret (S_Str (lit ''*****'')))] else []),
       (if v5_will_flag k then [(''will_qos'', Ret (qos_serialize (v5_will_qos k))),
          (''will_retain'', Ret (S_Bool (v5_will_retain k)))] @
         (if v5c_will_props k \<noteq> [] then [(''will_props'', Ret (properties_serialize (v5c_will_props k)))] else []) @
         [(''will_topic'', Ret (serialize_option S_Str (v5_will_topic k)))] @
         (case v5_will_payload k of Some payload \<Rightarrow> [(''will_payload'', Ret (payload_serialize payload))] | None \<Rightarrow> []) else [])]"

definition v5_connack_serialize :: "v5_connack \<Rightarrow> ser rust" where
  "v5_connack_serialize k =
    serialize_struct ''Connack'' (3 + (if v5ca_props k \<noteq> [] then 1 else 0))
      [[(''type'', Ret (S_Str (lit (packet_type_as_str PT_Connack)))),
        (''session_present'', Ret (S_Bool (v5_connack_session_present k))),
        (''reason_code'', rbind (v5_connack_reason_code k) (\<lambda>c. Ret (connect_reason_code_serialize c))),
        (''props'', Ret (properties_serialize (v5ca_props k)))]]"

definition v5_subscribe_serialize :: "('p::len word, sub_entry) v5_entries_packet \<Rightarrow> ser rust" where
  "v5_subscribe_serialize k =
    serialize_struct ''Subscribe'' (2 + (if v5s_props k \<noteq> [] then 1 else 0) + (if v5s_entries k \<noteq> [] then 1 else 0))
      [[(''type'', Ret (S_Str (lit ''subscribe''))),
        (''packet_id'', Ret (S_UInt (unat (v5_subscribe_packet_id k))))],
       (if v5s_props k \<noteq> [] then [(''props'', Ret (properties_serialize (v5s_props k)))] else []),
       (if v5s_entries k \<noteq> [] then [(''entries'', rbind (sub_entries_serialize (v5s_entries k)) (\<lambda>es. Ret (S_Seq es)))] else [])]"

definition v5_suback_serialize :: "('p::len word, u8) v5_entries_packet \<Rightarrow> ser rust" where
  "v5_suback_serialize k =
    serialize_struct ''Suback'' (2 + (if v5s_props k \<noteq> [] then 1 else 0) + (if v5s_entries k \<noteq> [] then 1 else 0))
      [[(''type'', Ret (S_Str (lit ''suback''))),
        (''packet_id'', Ret (S_UInt (unat (v5_suback_packet_id k))))],
       (if v5s_props k \<noteq> [] then [(''props'', Ret (properties_serialize (v5s_props k)))] else []),
       (if v5s_entries k \<noteq> [] then [(''reason_codes'', Ret (S_Seq (map suback_reason_code_serialize (v5_suback_reason_codes k))))] else [])]"

definition v5_unsubscribe_serialize :: "('p::len word, mqtt_string) v5_entries_packet \<Rightarrow> ser rust" where
  "v5_unsubscribe_serialize k =
    serialize_struct ''Unsubscribe'' (2 + (if v5s_props k \<noteq> [] then 1 else 0) + (if v5s_entries k \<noteq> [] then 1 else 0))
      [[(''type'', Ret (S_Str (lit ''unsubscribe''))),
        (''packet_id'', Ret (S_UInt (unat (v5_unsubscribe_packet_id k))))],
       (if v5s_props k \<noteq> [] then [(''props'', Ret (properties_serialize (v5s_props k)))] else []),
       (if v5s_entries k \<noteq> [] then [(''entries'', Ret (S_Seq (map ms_serialize (v5s_entries k))))] else [])]"

definition v5_unsuback_serialize :: "('p::len word, u8) v5_entries_packet \<Rightarrow> ser rust" where
  "v5_unsuback_serialize k =
    serialize_struct ''Unsuback'' (2 + (if v5s_props k \<noteq> [] then 1 else 0) + (if v5s_entries k \<noteq> [] then 1 else 0))
      [[(''type'', Ret (S_Str (lit ''unsuback''))),
        (''packet_id'', Ret (S_UInt (unat (v5_unsuback_packet_id k))))],
       (if v5s_props k \<noteq> [] then [(''props'', Ret (properties_serialize (v5s_props k)))] else []),
       (if v5s_entries k \<noteq> [] then [(''reason_codes'', Ret (S_Seq (map unsuback_reason_code_serialize (v5_unsuback_reason_codes k))))] else [])]"

definition v5_publish_serialize :: "'p::len word v5_publish \<Rightarrow> ser rust" where
  "v5_publish_serialize k =
    serialize_struct ''publish'' 9
      [[(''type'', Ret (S_Str (lit (packet_type_as_str PT_Publish)))),
        (''topic_name'', Ret (ms_serialize (v5p_topic_name_buf k))),
        (''qos'', rbind (v5_publish_qos k) (\<lambda>q. Ret (qos_serialize q))),
        (''retain'', Ret (S_Bool (v5_publish_retain k))),
        (''dup'', Ret (S_Bool (v5_publish_dup k))),
        (''extracted'', Ret (S_Bool (v5p_topic_name_extracted k))),
        (''packet_id'', Ret (serialize_option (\<lambda>i. S_UInt (unat i)) (v5p_packet_id_buf k))),
        (''props'', Ret (properties_serialize (v5p_props k))),
        (''payload'', Ret (payload_serialize (v5p_payload_buf k)))]]"

definition v5_puback_serialize :: "'p::len word v5_ack \<Rightarrow> ser rust" where
  "v5_puback_serialize k =
    serialize_struct ''puback'' (2 + (if v5a_reason_code_buf k \<noteq> None then 1 else 0) + (if v5a_props k \<noteq> None then 1 else 0))
      [[(''type'', Ret (S_Str (lit (packet_type_as_str PT_Puback)))),
        (''packet_id'', Ret (S_UInt (unat (v5_puback_packet_id k))))],
       (if v5a_reason_code_buf k \<noteq> None then [(''reason_code'', Ret (serialize_option puback_reason_code_serialize (v5_puback_reason_code k)))] else []),
       (case v5a_props k of Some props \<Rightarrow> [(''props'', Ret (properties_serialize props))] | None \<Rightarrow> [])]"

definition v5_pubrec_serialize :: "'p::len word v5_ack \<Rightarrow> ser rust" where
  "v5_pubrec_serialize k =
    serialize_struct ''pubrec'' (2 + (if v5a_reason_code_buf k \<noteq> None then 1 else 0) + (if v5a_props k \<noteq> None then 1 else 0))
      [[(''type'', Ret (S_Str (lit (packet_type_as_str PT_Pubrec)))),
        (''packet_id'', Ret (S_UInt (unat (v5_pubrec_packet_id k))))],
       (if v5a_reason_code_buf k \<noteq> None then [(''reason_code'', Ret (serialize_option pubrec_reason_code_serialize (v5_pubrec_reason_code k)))] else []),
       (case v5a_props k of Some props \<Rightarrow> [(''props'', Ret (properties_serialize props))] | None \<Rightarrow> [])]"

definition v5_pubrel_serialize :: "'p::len word v5_ack \<Rightarrow> ser rust" where
  "v5_pubrel_serialize k =
    serialize_struct ''pubrel'' (2 + (if v5a_reason_code_buf k \<noteq> None then 1 else 0) + (if v5a_props k \<noteq> None then 1 else 0))
      [[(''type'', Ret (S_Str (lit (packet_type_as_str PT_Pubrel)))),
        (''packet_id'', Ret (S_UInt (unat (v5_pubrel_packet_id k))))],
       (if v5a_reason_code_buf k \<noteq> None then [(''reason_code'', Ret (serialize_option pubrel_reason_code_serialize (v5_pubrel_reason_code k)))] else []),
       (case v5a_props k of Some props \<Rightarrow> [(''props'', Ret (properties_serialize props))] | None \<Rightarrow> [])]"

definition v5_pubcomp_serialize :: "'p::len word v5_ack \<Rightarrow> ser rust" where
  "v5_pubcomp_serialize k =
    serialize_struct ''pubcomp'' (2 + (if v5a_reason_code_buf k \<noteq> None then 1 else 0) + (if v5a_props k \<noteq> None then 1 else 0))
      [[(''type'', Ret (S_Str (lit (packet_type_as_str PT_Pubcomp)))),
        (''packet_id'', Ret (S_UInt (unat (v5_pubcomp_packet_id k))))],
       (if v5a_reason_code_buf k \<noteq> None then [(''reason_code'', Ret (serialize_option pubcomp_reason_code_serialize (v5_pubcomp_reason_code k)))] else []),
       (case v5a_props k of Some props \<Rightarrow> [(''props'', Ret (properties_serialize props))] | None \<Rightarrow> [])]"

definition v5_disconnect_serialize :: "v5_reason_packet \<Rightarrow> ser rust" where
  "v5_disconnect_serialize k =
    serialize_struct ''disconnect'' (1 + (if v5r_reason_code_buf k \<noteq> None then 1 else 0) + (if v5r_props k \<noteq> None then 1 else 0))
      [[(''type'', Ret (S_Str (lit (packet_type_as_str PT_Disconnect))))],
       (if v5r_reason_code_buf k \<noteq> None then [(''reason_code'', Ret (serialize_option disconnect_reason_code_serialize (v5_disconnect_reason_code k)))] else []),
       (case v5r_props k of Some props \<Rightarrow> [(''props'', Ret (properties_serialize props))] | None \<Rightarrow> [])]"

definition v5_pingreq_serialize :: "v3_empty \<Rightarrow> ser rust" where
  "v5_pingreq_serialize k =
    serialize_struct ''pingreq'' 1
      [[(''type'', Ret (S_Str (lit (packet_type_as_str PT_Pingreq))))]]"

definition v5_pingresp_serialize :: "v3_empty \<Rightarrow> ser rust" where
  "v5_pingresp_serialize k =
    serialize_struct ''pingresp'' 1
      [[(''type'', Ret (S_Str (lit (packet_type_as_str PT_Pingresp))))]]"

definition v5_auth_serialize :: "v5_reason_packet \<Rightarrow> ser rust" where
  "v5_auth_serialize k =
    serialize_struct ''auth'' (1 + (if v5r_reason_code_buf k \<noteq> None then 1 else 0) + (if v5r_props k \<noteq> None then 1 else 0))
      [[(''type'', Ret (S_Str (lit (packet_type_as_str PT_Auth))))],
       (if v5r_reason_code_buf k \<noteq> None then [(''reason_code'', Ret (serialize_option auth_reason_code_serialize (v5_auth_reason_code k)))] else []),
       (case v5r_props k of Some props \<Rightarrow> [(''props'', Ret (properties_serialize props))] | None \<Rightarrow> [])]"

section \<open>Display and Debug\<close>

text \<open>
  \<open>Display\<close> of a packet is its JSON text; \<open>Debug\<close> is \<open>Display\<close>, so a packet that is logged with either
  shows the same.
\<close>

definition v3_connect_display :: "to_json \<Rightarrow> v3_connect \<Rightarrow> str rust" where
  "v3_connect_display js k = rbind (v3_connect_serialize k) (\<lambda>v. Ret (json_display js v))"

definition v3_connect_debug :: "to_json \<Rightarrow> v3_connect \<Rightarrow> str rust" where
  "v3_connect_debug js k = v3_connect_display js k"

definition v3_connack_display :: "to_json \<Rightarrow> v3_connack \<Rightarrow> str rust" where
  "v3_connack_display js k = rbind (v3_connack_serialize k) (\<lambda>v. Ret (json_display js v))"

definition v3_connack_debug :: "to_json \<Rightarrow> v3_connack \<Rightarrow> str rust" where
  "v3_connack_debug js k = v3_connack_display js k"

definition v3_subscribe_display :: "to_json \<Rightarrow> ('p::len word, sub_entry) v3_entries_packet \<Rightarrow> str rust" where
  "v3_subscribe_display js k = rbind (v3_subscribe_serialize k) (\<lambda>v. Ret (json_display js v))"

definition v3_subscribe_debug :: "to_json \<Rightarrow> ('p::len word, sub_entry) v3_entries_packet \<Rightarrow> str rust" where
  "v3_subscribe_debug js k = v3_subscribe_display js k"

definition v3_suback_display :: "to_json \<Rightarrow> ('p::len word, u8) v3_entries_packet \<Rightarrow> str rust" where
  "v3_suback_display js k = rbind (v3_suback_serialize k) (\<lambda>v. Ret (json_display js v))"

definition v3_suback_debug :: "to_json \<Rightarrow> ('p::len word, u8) v3_entries_packet \<Rightarrow> str rust" where
  "v3_suback_debug js k = v3_suback_display js k"

definition v3_unsubscribe_display :: "to_json \<Rightarrow> ('p::len word, mqtt_string) v3_entries_packet \<Rightarrow> str rust" where
  "v3_unsubscribe_display js k = rbind (v3_unsubscribe_serialize k) (\<lambda>v. Ret (json_display js v))"

definition v3_unsubscribe_debug :: "to_json \<Rightarrow> ('p::len word, mqtt_string) v3_entries_packet \<Rightarrow> str rust" where
  "v3_unsubscribe_debug js k = v3_unsubscribe_display js k"

definition v3_unsuback_display :: "to_json \<Rightarrow> 'p::len word v3_unsuback \<Rightarrow> str rust" where
  "v3_unsuback_display js k = rbind (v3_unsuback_serialize k) (\<lambda>v. Ret (json_display js v))"

definition v3_unsuback_debug :: "to_json \<Rightarrow> 'p::len word v3_unsuback \<Rightarrow> str rust" where
  "v3_unsuback_debug js k = v3_unsuback_display js k"

definition v3_publish_display :: "to_json \<Rightarrow> 'p::len word v3_publish \<Rightarrow> str rust" where
  "v3_publish_display js k = rbind (v3_publish_serialize k) (\<lambda>v. Ret (json_display js v))"

definition v3_publish_debug :: "to_json \<Rightarrow> 'p::len word v3_publish \<Rightarrow> str rust" where
  "v3_publish_debug js k = v3_publish_display js k"

definition v3_puback_display :: "to_json \<Rightarrow> 'p::len word v3_ack \<Rightarrow> str rust" where
  "v3_puback_display js k = rbind (v3_puback_serialize k) (\<lambda>v. Ret (json_display js v))"

definition v3_puback_debug :: "to_json \<Rightarrow> 'p::len word v3_ack \<Rightarrow> str rust" where
  "v3_puback_debug js k = v3_puback_display js k"

definition v3_pubrec_display :: "to_json \<Rightarrow> 'p::len word v3_ack \<Rightarrow> str rust" where
  "v3_pubrec_display js k = rbind (v3_pubrec_serialize k) (\<lambda>v. Ret (json_display js v))"

definition v3_pubrec_debug :: "to_json \<Rightarrow> 'p::len word v3_ack \<Rightarrow> str rust" where
  "v3_pubrec_debug js k = v3_pubrec_display js k"

definition v3_pubrel_display :: "to_json \<Rightarrow> 'p::len word v3_ack \<Rightarrow> str rust" where
  "v3_pubrel_display js k = rbind (v3_pubrel_serialize k) (\<lambda>v. Ret (json_display js v))"

definition v3_pubrel_debug :: "to_json \<Rightarrow> 'p::len word v3_ack \<Rightarrow> str rust" where
  "v3_pubrel_debug js k = v3_pubrel_display js k"

definition v3_pubcomp_display :: "to_json \<Rightarrow> 'p::len word v3_ack \<Rightarrow> str rust" where
  "v3_pubcomp_display js k = rbind (v3_pubcomp_serialize k) (\<lambda>v. Ret (json_display js v))"

definition v3_pubcomp_debug :: "to_json \<Rightarrow> 'p::len word v3_ack \<Rightarrow> str rust" where
  "v3_pubcomp_debug js k = v3_pubcomp_display js k"

definition v3_disconnect_display :: "to_json \<Rightarrow> v3_empty \<Rightarrow> str rust" where
  "v3_disconnect_display js k = rbind (v3_disconnect_serialize k) (\<lambda>v. Ret (json_display js v))"

definition v3_disconnect_debug :: "to_json \<Rightarrow> v3_empty \<Rightarrow> str rust" where
  "v3_disconnect_debug js k = v3_disconnect_display js k"

definition v3_pingreq_display :: "to_json \<Rightarrow> v3_empty \<Rightarrow> str rust" where
  "v3_pingreq_display js k = rbind (v3_pingreq_serialize k) (\<lambda>v. Ret (json_display js v))"

definition v3_pingreq_debug :: "to_json \<Rightarrow> v3_empty \<Rightarrow> str rust" where
  "v3_pingreq_debug js k = v3_pingreq_display js k"

definition v3_pingresp_display :: "to_json \<Rightarrow> v3_empty \<Rightarrow> str rust" where
  "v3_pingresp_display js k = rbind (v3_pingresp_serialize k) (\<lambda>v. Ret (json_display js v))"

definition v3_pingresp_debug :: "to_json \<Rightarrow> v3_empty \<Rightarrow> str rust" where
  "v3_pingresp_debug js k = v3_pingresp_display js k"

definition v5_connect_display :: "to_json \<Rightarrow> v5_connect \<Rightarrow> str rust" where
  "v5_connect_display js k = rbind (v5_connect_serialize k) (\<lambda>v. Ret (json_display js v))"

definition v5_connect_debug :: "to_json \<Rightarrow> v5_connect \<Rightarrow> str rust" where
  "v5_connect_debug js k = v5_connect_display js k"

definition v5_connack_display :: "to_json \<Rightarrow> v5_connack \<Rightarrow> str rust" where
  "v5_connack_display js k = rbind (v5_connack_serialize k) (\<lambda>v. Ret (json_display js v))"

definition v5_connack_debug :: "to_json \<Rightarrow> v5_connack \<Rightarrow> str rust" where
  "v5_connack_debug js k = v5_connack_display js k"

definition v5_subscribe_display :: "to_json \<Rightarrow> ('p::len word, sub_entry) v5_entries_packet \<Rightarrow> str rust" where
  "v5_subscribe_display js k = rbind (v5_subscribe_serialize k) (\<lambda>v. Ret (json_display js v))"

definition v5_subscribe_debug :: "to_json \<Rightarrow> ('p::len word, sub_entry) v5_entries_packet \<Rightarrow> str rust" where
  "v5_subscribe_debug js k = v5_subscribe_display js k"

definition v5_suback_display :: "to_json \<Rightarrow> ('p::len word, u8) v5_entries_packet \<Rightarrow> str rust" where
  "v5_suback_display js k = rbind (v5_suback_serialize k) (\<lambda>v. Ret (json_display js v))"

definition v5_suback_debug :: "to_json \<Rightarrow> ('p::len word, u8) v5_entries_packet \<Rightarrow> str rust" where
  "v5_suback_debug js k = v5_suback_display js k"

definition v5_unsubscribe_display :: "to_json \<Rightarrow> ('p::len word, mqtt_string) v5_entries_packet \<Rightarrow> str rust" where
  "v5_unsubscribe_display js k = rbind (v5_unsubscribe_serialize k) (\<lambda>v. Ret (json_display js v))"

definition v5_unsubscribe_debug :: "to_json \<Rightarrow> ('p::len word, mqtt_string) v5_entries_packet \<Rightarrow> str rust" where
  "v5_unsubscribe_debug js k = v5_unsubscribe_display js k"

definition v5_unsuback_display :: "to_json \<Rightarrow> ('p::len word, u8) v5_entries_packet \<Rightarrow> str rust" where
  "v5_unsuback_display js k = rbind (v5_unsuback_serialize k) (\<lambda>v. Ret (json_display js v))"

definition v5_unsuback_debug :: "to_json \<Rightarrow> ('p::len word, u8) v5_entries_packet \<Rightarrow> str rust" where
  "v5_unsuback_debug js k = v5_unsuback_display js k"

definition v5_publish_display :: "to_json \<Rightarrow> 'p::len word v5_publish \<Rightarrow> str rust" where
  "v5_publish_display js k = rbind (v5_publish_serialize k) (\<lambda>v. Ret (json_display js v))"

definition v5_publish_debug :: "to_json \<Rightarrow> 'p::len word v5_publish \<Rightarrow> str rust" where
  "v5_publish_debug js k = v5_publish_display js k"

definition v5_puback_display :: "to_json \<Rightarrow> 'p::len word v5_ack \<Rightarrow> str rust" where
  "v5_puback_display js k = rbind (v5_puback_serialize k) (\<lambda>v. Ret (json_display js v))"

definition v5_puback_debug :: "to_json \<Rightarrow> 'p::len word v5_ack \<Rightarrow> str rust" where
  "v5_puback_debug js k = v5_puback_display js k"

definition v5_pubrec_display :: "to_json \<Rightarrow> 'p::len word v5_ack \<Rightarrow> str rust" where
  "v5_pubrec_display js k = rbind (v5_pubrec_serialize k) (\<lambda>v. Ret (json_display js v))"

definition v5_pubrec_debug :: "to_json \<Rightarrow> 'p::len word v5_ack \<Rightarrow> str rust" where
  "v5_pubrec_debug js k = v5_pubrec_display js k"

definition v5_pubrel_display :: "to_json \<Rightarrow> 'p::len word v5_ack \<Rightarrow> str rust" where
  "v5_pubrel_display js k = rbind (v5_pubrel_serialize k) (\<lambda>v. Ret (json_display js v))"

definition v5_pubrel_debug :: "to_json \<Rightarrow> 'p::len word v5_ack \<Rightarrow> str rust" where
  "v5_pubrel_debug js k = v5_pubrel_display js k"

definition v5_pubcomp_display :: "to_json \<Rightarrow> 'p::len word v5_ack \<Rightarrow> str rust" where
  "v5_pubcomp_display js k = rbind (v5_pubcomp_serialize k) (\<lambda>v. Ret (json_display js v))"

definition v5_pubcomp_debug :: "to_json \<Rightarrow> 'p::len word v5_ack \<Rightarrow> str rust" where
  "v5_pubcomp_debug js k = v5_pubcomp_display js k"

definition v5_disconnect_display :: "to_json \<Rightarrow> v5_reason_packet \<Rightarrow> str rust" where
  "v5_disconnect_display js k = rbind (v5_disconnect_serialize k) (\<lambda>v. Ret (json_display js v))"

definition v5_disconnect_debug :: "to_json \<Rightarrow> v5_reason_packet \<Rightarrow> str rust" where
  "v5_disconnect_debug js k = v5_disconnect_display js k"

definition v5_pingreq_display :: "to_json \<Rightarrow> v3_empty \<Rightarrow> str rust" where
  "v5_pingreq_display js k = rbind (v5_pingreq_serialize k) (\<lambda>v. Ret (json_display js v))"

definition v5_pingreq_debug :: "to_json \<Rightarrow> v3_empty \<Rightarrow> str rust" where
  "v5_pingreq_debug js k = v5_pingreq_display js k"

definition v5_pingresp_display :: "to_json \<Rightarrow> v3_empty \<Rightarrow> str rust" where
  "v5_pingresp_display js k = rbind (v5_pingresp_serialize k) (\<lambda>v. Ret (json_display js v))"

definition v5_pingresp_debug :: "to_json \<Rightarrow> v3_empty \<Rightarrow> str rust" where
  "v5_pingresp_debug js k = v5_pingresp_display js k"

definition v5_auth_display :: "to_json \<Rightarrow> v5_reason_packet \<Rightarrow> str rust" where
  "v5_auth_display js k = rbind (v5_auth_serialize k) (\<lambda>v. Ret (json_display js v))"

definition v5_auth_debug :: "to_json \<Rightarrow> v5_reason_packet \<Rightarrow> str rust" where
  "v5_auth_debug js k = v5_auth_display js k"

text \<open>\<open>GenericPacketDisplay\<close>, the trait over which the enumeration of all packets dispatches.\<close>

record 'k packet_display =
  fmt_debug :: "'k \<Rightarrow> str rust"
  fmt_display :: "'k \<Rightarrow> str rust"

definition v3_connect_packet_display :: "to_json \<Rightarrow> v3_connect packet_display" where
  "v3_connect_packet_display js = \<lparr>fmt_debug = v3_connect_debug js, fmt_display = v3_connect_display js\<rparr>"

definition v3_connack_packet_display :: "to_json \<Rightarrow> v3_connack packet_display" where
  "v3_connack_packet_display js = \<lparr>fmt_debug = v3_connack_debug js, fmt_display = v3_connack_display js\<rparr>"

definition v3_subscribe_packet_display :: "to_json \<Rightarrow> ('p::len word, sub_entry) v3_entries_packet packet_display" where
  "v3_subscribe_packet_display js = \<lparr>fmt_debug = v3_subscribe_debug js, fmt_display = v3_subscribe_display js\<rparr>"

definition v3_suback_packet_display :: "to_json \<Rightarrow> ('p::len word, u8) v3_entries_packet packet_display" where
  "v3_suback_packet_display js = \<lparr>fmt_debug = v3_suback_debug js, fmt_display = v3_suback_display js\<rparr>"

definition v3_unsubscribe_packet_display :: "to_json \<Rightarrow> ('p::len word, mqtt_string) v3_entries_packet packet_display" where
  "v3_unsubscribe_packet_display js = \<lparr>fmt_debug = v3_unsubscribe_debug js, fmt_display = v3_unsubscribe_display js\<rparr>"

definition v3_unsuback_packet_display :: "to_json \<Rightarrow> 'p::len word v3_unsuback packet_display" where
  "v3_unsuback_packet_display js = \<lparr>fmt_debug = v3_unsuback_debug js, fmt_display = v3_unsuback_display js\<rparr>"

definition v3_publish_packet_display :: "to_json \<Rightarrow> 'p::len word v3_publish packet_display" where
  "v3_publish_packet_display js = \<lparr>fmt_debug = v3_publish_debug js, fmt_display = v3_publish_display js\<rparr>"

definition v3_puback_packet_display :: "to_json \<Rightarrow> 'p::len word v3_ack packet_display" where
  "v3_puback_packet_display js = \<lparr>fmt_debug = v3_puback_debug js, fmt_display = v3_puback_display js\<rparr>"

definition v3_pubrec_packet_display :: "to_json \<Rightarrow> 'p::len word v3_ack packet_display" where
  "v3_pubrec_packet_display js = \<lparr>fmt_debug = v3_pubrec_debug js, fmt_display = v3_pubrec_display js\<rparr>"

definition v3_pubrel_packet_display :: "to_json \<Rightarrow> 'p::len word v3_ack packet_display" where
  "v3_pubrel_packet_display js = \<lparr>fmt_debug = v3_pubrel_debug js, fmt_display = v3_pubrel_display js\<rparr>"

definition v3_pubcomp_packet_display :: "to_json \<Rightarrow> 'p::len word v3_ack packet_display" where
  "v3_pubcomp_packet_display js = \<lparr>fmt_debug = v3_pubcomp_debug js, fmt_display = v3_pubcomp_display js\<rparr>"

definition v3_disconnect_packet_display :: "to_json \<Rightarrow> v3_empty packet_display" where
  "v3_disconnect_packet_display js = \<lparr>fmt_debug = v3_disconnect_debug js, fmt_display = v3_disconnect_display js\<rparr>"

definition v3_pingreq_packet_display :: "to_json \<Rightarrow> v3_empty packet_display" where
  "v3_pingreq_packet_display js = \<lparr>fmt_debug = v3_pingreq_debug js, fmt_display = v3_pingreq_display js\<rparr>"

definition v3_pingresp_packet_display :: "to_json \<Rightarrow> v3_empty packet_display" where
  "v3_pingresp_packet_display js = \<lparr>fmt_debug = v3_pingresp_debug js, fmt_display = v3_pingresp_display js\<rparr>"

definition v5_connect_packet_display :: "to_json \<Rightarrow> v5_connect packet_display" where
  "v5_connect_packet_display js = \<lparr>fmt_debug = v5_connect_debug js, fmt_display = v5_connect_display js\<rparr>"

definition v5_connack_packet_display :: "to_json \<Rightarrow> v5_connack packet_display" where
  "v5_connack_packet_display js = \<lparr>fmt_debug = v5_connack_debug js, fmt_display = v5_connack_display js\<rparr>"

definition v5_subscribe_packet_display :: "to_json \<Rightarrow> ('p::len word, sub_entry) v5_entries_packet packet_display" where
  "v5_subscribe_packet_display js = \<lparr>fmt_debug = v5_subscribe_debug js, fmt_display = v5_subscribe_display js\<rparr>"

definition v5_suback_packet_display :: "to_json \<Rightarrow> ('p::len word, u8) v5_entries_packet packet_display" where
  "v5_suback_packet_display js = \<lparr>fmt_debug = v5_suback_debug js, fmt_display = v5_suback_display js\<rparr>"

definition v5_unsubscribe_packet_display :: "to_json \<Rightarrow> ('p::len word, mqtt_string) v5_entries_packet packet_display" where
  "v5_unsubscribe_packet_display js = \<lparr>fmt_debug = v5_unsubscribe_debug js, fmt_display = v5_unsubscribe_display js\<rparr>"

definition v5_unsuback_packet_display :: "to_json \<Rightarrow> ('p::len word, u8) v5_entries_packet packet_display" where
  "v5_unsuback_packet_display js = \<lparr>fmt_debug = v5_unsuback_debug js, fmt_display = v5_unsuback_display js\<rparr>"

definition v5_publish_packet_display :: "to_json \<Rightarrow> 'p::len word v5_publish packet_display" where
  "v5_publish_packet_display js = \<lparr>fmt_debug = v5_publish_debug js, fmt_display = v5_publish_display js\<rparr>"

definition v5_puback_packet_display :: "to_json \<Rightarrow> 'p::len word v5_ack packet_display" where
  "v5_puback_packet_display js = \<lparr>fmt_debug = v5_puback_debug js, fmt_display = v5_puback_display js\<rparr>"

definition v5_pubrec_packet_display :: "to_json \<Rightarrow> 'p::len word v5_ack packet_display" where
  "v5_pubrec_packet_display js = \<lparr>fmt_debug = v5_pubrec_debug js, fmt_display = v5_pubrec_display js\<rparr>"

definition v5_pubrel_packet_display :: "to_json \<Rightarrow> 'p::len word v5_ack packet_display" where
  "v5_pubrel_packet_display js = \<lparr>fmt_debug = v5_pubrel_debug js, fmt_display = v5_pubrel_display js\<rparr>"

definition v5_pubcomp_packet_display :: "to_json \<Rightarrow> 'p::len word v5_ack packet_display" where
  "v5_pubcomp_packet_display js = \<lparr>fmt_debug = v5_pubcomp_debug js, fmt_display = v5_pubcomp_display js\<rparr>"

definition v5_disconnect_packet_display :: "to_json \<Rightarrow> v5_reason_packet packet_display" where
  "v5_disconnect_packet_display js = \<lparr>fmt_debug = v5_disconnect_debug js, fmt_display = v5_disconnect_display js\<rparr>"

definition v5_pingreq_packet_display :: "to_json \<Rightarrow> v3_empty packet_display" where
  "v5_pingreq_packet_display js = \<lparr>fmt_debug = v5_pingreq_debug js, fmt_display = v5_pingreq_display js\<rparr>"

definition v5_pingresp_packet_display :: "to_json \<Rightarrow> v3_empty packet_display" where
  "v5_pingresp_packet_display js = \<lparr>fmt_debug = v5_pingresp_debug js, fmt_display = v5_pingresp_display js\<rparr>"

definition v5_auth_packet_display :: "to_json \<Rightarrow> v5_reason_packet packet_display" where
  "v5_auth_packet_display js = \<lparr>fmt_debug = v5_auth_debug js, fmt_display = v5_auth_display js\<rparr>"

section \<open>The enumerations of packets\<close>

text \<open>The derived \<open>Serialize\<close>: the packet under the name of its variant.\<close>

primrec gp_serialize :: "'p::len word packet \<Rightarrow> ser rust" where
   "gp_serialize (V3_Connect p) = rbind (v3_connect_serialize p) (\<lambda>v. Ret (S_Newtype_Variant ''GenericPacket'' ''V3_1_1Connect'' v))"
| "gp_serialize (V3_Connack p) = rbind (v3_connack_serialize p) (\<lambda>v. Ret (S_Newtype_Variant ''GenericPacket'' ''V3_1_1Connack'' v))"
| "gp_serialize (V3_Subscribe p) = rbind (v3_subscribe_serialize p) (\<lambda>v. Ret (S_Newtype_Variant ''GenericPacket'' ''V3_1_1Subscribe'' v))"
| "gp_serialize (V3_Suback p) = rbind (v3_suback_serialize p) (\<lambda>v. Ret (S_Newtype_Variant ''GenericPacket'' ''V3_1_1Suback'' v))"
| "gp_serialize (V3_Unsubscribe p) = rbind (v3_unsubscribe_serialize p) (\<lambda>v. Ret (S_Newtype_Variant ''GenericPacket'' ''V3_1_1Unsubscribe'' v))"
| "gp_serialize (V3_Unsuback p) = rbind (v3_unsuback_serialize p) (\<lambda>v. Ret (S_Newtype_Variant ''GenericPacket'' ''V3_1_1Unsuback'' v))"
| "gp_serialize (V3_Publish p) = rbind (v3_publish_serialize p) (\<lambda>v. Ret (S_Newtype_Variant ''GenericPacket'' ''V3_1_1Publish'' v))"
| "gp_serialize (V3_Puback p) = rbind (v3_puback_serialize p) (\<lambda>v. Ret (S_Newtype_Variant ''GenericPacket'' ''V3_1_1Puback'' v))"
| "gp_serialize (V3_Pubrec p) = rbind (v3_pubrec_serialize p) (\<lambda>v. Ret (S_Newtype_Variant ''GenericPacket'' ''V3_1_1Pubrec'' v))"
| "gp_serialize (V3_Pubrel p) = rbind (v3_pubrel_serialize p) (\<lambda>v. Ret (S_Newtype_Variant ''GenericPacket'' ''V3_1_1Pubrel'' v))"
| "gp_serialize (V3_Pubcomp p) = rbind (v3_pubcomp_serialize p) (\<lambda>v. Ret (S_Newtype_Variant ''GenericPacket'' ''V3_1_1Pubcomp'' v))"
| "gp_serialize (V3_Disconnect p) = rbind (v3_disconnect_serialize p) (\<lambda>v. Ret (S_Newtype_Variant ''GenericPacket'' ''V3_1_1Disconnect'' v))"
| "gp_serialize (V3_Pingreq p) = rbind (v3_pingreq_serialize p) (\<lambda>v. Ret (S_Newtype_Variant ''GenericPacket'' ''V3_1_1Pingreq'' v))"
| "gp_serialize (V3_Pingresp p) = rbind (v3_pingresp_serialize p) (\<lambda>v. Ret (S_Newtype_Variant ''GenericPacket'' ''V3_1_1Pingresp'' v))"
| "gp_serialize (V5_Connect p) = rbind (v5_connect_serialize p) (\<lambda>v. Ret (S_Newtype_Variant ''GenericPacket'' ''V5_0Connect'' v))"
| "gp_serialize (V5_Connack p) = rbind (v5_connack_serialize p) (\<lambda>v. Ret (S_Newtype_Variant ''GenericPacket'' ''V5_0Connack'' v))"
| "gp_serialize (V5_Subscribe p) = rbind (v5_subscribe_serialize p) (\<lambda>v. Ret (S_Newtype_Variant ''GenericPacket'' ''V5_0Subscribe'' v))"
| "gp_serialize (V5_Suback p) = rbind (v5_suback_serialize p) (\<lambda>v. Ret (S_Newtype_Variant ''GenericPacket'' ''V5_0Suback'' v))"
| "gp_serialize (V5_Unsubscribe p) = rbind (v5_unsubscribe_serialize p) (\<lambda>v. Ret (S_Newtype_Variant ''GenericPacket'' ''V5_0Unsubscribe'' v))"
| "gp_serialize (V5_Unsuback p) = rbind (v5_unsuback_serialize p) (\<lambda>v. Ret (S_Newtype_Variant ''GenericPacket'' ''V5_0Unsuback'' v))"
| "gp_serialize (V5_Publish p) = rbind (v5_publish_serialize p) (\<lambda>v. Ret (S_Newtype_Variant ''GenericPacket'' ''V5_0Publish'' v))"
| "gp_serialize (V5_Puback p) = rbind (v5_puback_serialize p) (\<lambda>v. Ret (S_Newtype_Variant ''GenericPacket'' ''V5_0Puback'' v))"
| "gp_serialize (V5_Pubrec p) = rbind (v5_pubrec_serialize p) (\<lambda>v. Ret (S_Newtype_Variant ''GenericPacket'' ''V5_0Pubrec'' v))"
| "gp_serialize (V5_Pubrel p) = rbind (v5_pubrel_serialize p) (\<lambda>v. Ret (S_Newtype_Variant ''GenericPacket'' ''V5_0Pubrel'' v))"
| "gp_serialize (V5_Pubcomp p) = rbind (v5_pubcomp_serialize p) (\<lambda>v. Ret (S_Newtype_Variant ''GenericPacket'' ''V5_0Pubcomp'' v))"
| "gp_serialize (V5_Disconnect p) = rbind (v5_disconnect_serialize p) (\<lambda>v. Ret (S_Newtype_Variant ''GenericPacket'' ''V5_0Disconnect'' v))"
| "gp_serialize (V5_Pingreq p) = rbind (v5_pingreq_serialize p) (\<lambda>v. Ret (S_Newtype_Variant ''GenericPacket'' ''V5_0Pingreq'' v))"
| "gp_serialize (V5_Pingresp p) = rbind (v5_pingresp_serialize p) (\<lambda>v. Ret (S_Newtype_Variant ''GenericPacket'' ''V5_0Pingresp'' v))"
| "gp_serialize (V5_Auth p) = rbind (v5_auth_serialize p) (\<lambda>v. Ret (S_Newtype_Variant ''GenericPacket'' ''V5_0Auth'' v))"

primrec gp_fmt_debug :: "to_json \<Rightarrow> 'p::len word packet \<Rightarrow> str rust" where
   "gp_fmt_debug js (V3_Connect p) = fmt_debug (v3_connect_packet_display js) p"
| "gp_fmt_debug js (V3_Connack p) = fmt_debug (v3_connack_packet_display js) p"
| "gp_fmt_debug js (V3_Subscribe p) = fmt_debug (v3_subscribe_packet_display js) p"
| "gp_fmt_debug js (V3_Suback p) = fmt_debug (v3_suback_packet_display js) p"
| "gp_fmt_debug js (V3_Unsubscribe p) = fmt_debug (v3_unsubscribe_packet_display js) p"
| "gp_fmt_debug js (V3_Unsuback p) = fmt_debug (v3_unsuback_packet_display js) p"
| "gp_fmt_debug js (V3_Publish p) = fmt_debug (v3_publish_packet_display js) p"
| "gp_fmt_debug js (V3_Puback p) = fmt_debug (v3_puback_packet_display js) p"
| "gp_fmt_debug js (V3_Pubrec p) = fmt_debug (v3_pubrec_packet_display js) p"
| "gp_fmt_debug js (V3_Pubrel p) = fmt_debug (v3_pubrel_packet_display js) p"
| "gp_fmt_debug js (V3_Pubcomp p) = fmt_debug (v3_pubcomp_packet_display js) p"
| "gp_fmt_debug js (V3_Disconnect p) = fmt_debug (v3_disconnect_packet_display js) p"
| "gp_fmt_debug js (V3_Pingreq p) = fmt_debug (v3_pingreq_packet_display js) p"
| "gp_fmt_debug js (V3_Pingresp p) = fmt_debug (v3_pingresp_packet_display js) p"
| "gp_fmt_debug js (V5_Connect p) = fmt_debug (v5_connect_packet_display js) p"
| "gp_fmt_debug js (V5_Connack p) = fmt_debug (v5_connack_packet_display js) p"
| "gp_fmt_debug js (V5_Subscribe p) = fmt_debug (v5_subscribe_packet_display js) p"
| "gp_fmt_debug js (V5_Suback p) = fmt_debug (v5_suback_packet_display js) p"
| "gp_fmt_debug js (V5_Unsubscribe p) = fmt_debug (v5_unsubscribe_packet_display js) p"
| "gp_fmt_debug js (V5_Unsuback p) = fmt_debug (v5_unsuback_packet_display js) p"
| "gp_fmt_debug js (V5_Publish p) = fmt_debug (v5_publish_packet_display js) p"
| "gp_fmt_debug js (V5_Puback p) = fmt_debug (v5_puback_packet_display js) p"
| "gp_fmt_debug js (V5_Pubrec p) = fmt_debug (v5_pubrec_packet_display js) p"
| "gp_fmt_debug js (V5_Pubrel p) = fmt_debug (v5_pubrel_packet_display js) p"
| "gp_fmt_debug js (V5_Pubcomp p) = fmt_debug (v5_pubcomp_packet_display js) p"
| "gp_fmt_debug js (V5_Disconnect p) = fmt_debug (v5_disconnect_packet_display js) p"
| "gp_fmt_debug js (V5_Pingreq p) = fmt_debug (v5_pingreq_packet_display js) p"
| "gp_fmt_debug js (V5_Pingresp p) = fmt_debug (v5_pingresp_packet_display js) p"
| "gp_fmt_debug js (V5_Auth p) = fmt_debug (v5_auth_packet_display js) p"

primrec gp_fmt_display :: "to_json \<Rightarrow> 'p::len word packet \<Rightarrow> str rust" where
   "gp_fmt_display js (V3_Connect p) = fmt_display (v3_connect_packet_display js) p"
| "gp_fmt_display js (V3_Connack p) = fmt_display (v3_connack_packet_display js) p"
| "gp_fmt_display js (V3_Subscribe p) = fmt_display (v3_subscribe_packet_display js) p"
| "gp_fmt_display js (V3_Suback p) = fmt_display (v3_suback_packet_display js) p"
| "gp_fmt_display js (V3_Unsubscribe p) = fmt_display (v3_unsubscribe_packet_display js) p"
| "gp_fmt_display js (V3_Unsuback p) = fmt_display (v3_unsuback_packet_display js) p"
| "gp_fmt_display js (V3_Publish p) = fmt_display (v3_publish_packet_display js) p"
| "gp_fmt_display js (V3_Puback p) = fmt_display (v3_puback_packet_display js) p"
| "gp_fmt_display js (V3_Pubrec p) = fmt_display (v3_pubrec_packet_display js) p"
| "gp_fmt_display js (V3_Pubrel p) = fmt_display (v3_pubrel_packet_display js) p"
| "gp_fmt_display js (V3_Pubcomp p) = fmt_display (v3_pubcomp_packet_display js) p"
| "gp_fmt_display js (V3_Disconnect p) = fmt_display (v3_disconnect_packet_display js) p"
| "gp_fmt_display js (V3_Pingreq p) = fmt_display (v3_pingreq_packet_display js) p"
| "gp_fmt_display js (V3_Pingresp p) = fmt_display (v3_pingresp_packet_display js) p"
| "gp_fmt_display js (V5_Connect p) = fmt_display (v5_connect_packet_display js) p"
| "gp_fmt_display js (V5_Connack p) = fmt_display (v5_connack_packet_display js) p"
| "gp_fmt_display js (V5_Subscribe p) = fmt_display (v5_subscribe_packet_display js) p"
| "gp_fmt_display js (V5_Suback p) = fmt_display (v5_suback_packet_display js) p"
| "gp_fmt_display js (V5_Unsubscribe p) = fmt_display (v5_unsubscribe_packet_display js) p"
| "gp_fmt_display js (V5_Unsuback p) = fmt_display (v5_unsuback_packet_display js) p"
| "gp_fmt_display js (V5_Publish p) = fmt_display (v5_publish_packet_display js) p"
| "gp_fmt_display js (V5_Puback p) = fmt_display (v5_puback_packet_display js) p"
| "gp_fmt_display js (V5_Pubrec p) = fmt_display (v5_pubrec_packet_display js) p"
| "gp_fmt_display js (V5_Pubrel p) = fmt_display (v5_pubrel_packet_display js) p"
| "gp_fmt_display js (V5_Pubcomp p) = fmt_display (v5_pubcomp_packet_display js) p"
| "gp_fmt_display js (V5_Disconnect p) = fmt_display (v5_disconnect_packet_display js) p"
| "gp_fmt_display js (V5_Pingreq p) = fmt_display (v5_pingreq_packet_display js) p"
| "gp_fmt_display js (V5_Pingresp p) = fmt_display (v5_pingresp_packet_display js) p"
| "gp_fmt_display js (V5_Auth p) = fmt_display (v5_auth_packet_display js) p"

definition gp_debug :: "to_json \<Rightarrow> 'p::len word packet \<Rightarrow> str rust" where
  "gp_debug js k = gp_fmt_debug js k"

definition gp_display :: "to_json \<Rightarrow> 'p::len word packet \<Rightarrow> str rust" where
  "gp_display js k = gp_fmt_display js k"

primrec sp_serialize :: "'p::len word store_packet \<Rightarrow> ser rust" where
   "sp_serialize (S_V3_Publish p) = rbind (v3_publish_serialize p) (\<lambda>v. Ret (S_Newtype_Variant ''GenericStorePacket'' ''V3_1_1Publish'' v))"
| "sp_serialize (S_V3_Pubrel p) = rbind (v3_pubrel_serialize p) (\<lambda>v. Ret (S_Newtype_Variant ''GenericStorePacket'' ''V3_1_1Pubrel'' v))"
| "sp_serialize (S_V5_Publish p) = rbind (v5_publish_serialize p) (\<lambda>v. Ret (S_Newtype_Variant ''GenericStorePacket'' ''V5_0Publish'' v))"
| "sp_serialize (S_V5_Pubrel p) = rbind (v5_pubrel_serialize p) (\<lambda>v. Ret (S_Newtype_Variant ''GenericStorePacket'' ''V5_0Pubrel'' v))"

primrec sp_fmt_debug :: "to_json \<Rightarrow> 'p::len word store_packet \<Rightarrow> str rust" where
   "sp_fmt_debug js (S_V3_Publish p) = fmt_debug (v3_publish_packet_display js) p"
| "sp_fmt_debug js (S_V3_Pubrel p) = fmt_debug (v3_pubrel_packet_display js) p"
| "sp_fmt_debug js (S_V5_Publish p) = fmt_debug (v5_publish_packet_display js) p"
| "sp_fmt_debug js (S_V5_Pubrel p) = fmt_debug (v5_pubrel_packet_display js) p"

primrec sp_fmt_display :: "to_json \<Rightarrow> 'p::len word store_packet \<Rightarrow> str rust" where
   "sp_fmt_display js (S_V3_Publish p) = fmt_display (v3_publish_packet_display js) p"
| "sp_fmt_display js (S_V3_Pubrel p) = fmt_display (v3_pubrel_packet_display js) p"
| "sp_fmt_display js (S_V5_Publish p) = fmt_display (v5_publish_packet_display js) p"
| "sp_fmt_display js (S_V5_Pubrel p) = fmt_display (v5_pubrel_packet_display js) p"

definition sp_debug :: "to_json \<Rightarrow> 'p::len word store_packet \<Rightarrow> str rust" where
  "sp_debug js k = sp_fmt_debug js k"

definition sp_display :: "to_json \<Rightarrow> 'p::len word store_packet \<Rightarrow> str rust" where
  "sp_display js k = sp_fmt_display js k"

section \<open>Events\<close>

primrec timer_kind_serialize :: "timer_kind \<Rightarrow> ser" where
  "timer_kind_serialize PingreqSend = S_Unit_Variant ''TimerKind'' ''pingreq_send''"
| "timer_kind_serialize PingreqRecv = S_Unit_Variant ''TimerKind'' ''pingreq_recv''"
| "timer_kind_serialize PingrespRecv = S_Unit_Variant ''TimerKind'' ''pingresp_recv''"

primrec event_serialize :: "'p::len word event \<Rightarrow> ser rust" where
  "event_serialize (NotifyPacketReceived packet) =
     serialize_struct ''GenericEvent'' 2
       [[(''type'', Ret (S_Str (lit ''notify_packet_received''))),
         (''packet'', gp_serialize packet)]]"
| "event_serialize (RequestSendPacket packet release_packet_id_if_send_error) =
     serialize_struct ''GenericEvent'' 3
       [[(''type'', Ret (S_Str (lit ''request_send_packet''))),
         (''packet'', gp_serialize packet),
         (''release_packet_id_if_send_error'', Ret (serialize_option (\<lambda>i. S_UInt (unat i)) release_packet_id_if_send_error))]]"
| "event_serialize (NotifyPacketIdReleased packet_id) =
     serialize_struct ''GenericEvent'' 2
       [[(''type'', Ret (S_Str (lit ''notify_packet_id_released''))),
         (''packet_id'', Ret (S_UInt (unat packet_id)))]]"
| "event_serialize (RequestTimerReset kind duration_ms) =
     serialize_struct ''GenericEvent'' 3
       [[(''type'', Ret (S_Str (lit ''request_timer_reset''))),
         (''kind'', Ret (timer_kind_serialize kind)),
         (''duration_ms'', Ret (S_UInt (unat duration_ms)))]]"
| "event_serialize (RequestTimerCancel kind) =
     serialize_struct ''GenericEvent'' 2
       [[(''type'', Ret (S_Str (lit ''request_timer_cancel''))),
         (''kind'', Ret (timer_kind_serialize kind))]]"
| "event_serialize (NotifyError error) =
     serialize_struct ''GenericEvent'' 2
       [[(''type'', Ret (S_Str (lit ''notify_error''))),
         (''error'', Ret (S_Str (lit (mqtt_error_name error))))]]"
| "event_serialize RequestClose =
     serialize_struct ''GenericEvent'' 1
       [[(''type'', Ret (S_Str (lit ''request_close'')))]]"

definition event_display :: "to_json \<Rightarrow> 'p::len word event \<Rightarrow> str rust" where
  "event_display js e = rbind (event_serialize e) (\<lambda>v. Ret (json_display js v))"

definition event_debug :: "to_json \<Rightarrow> 'p::len word event \<Rightarrow> str rust" where
  "event_debug js e = event_display js e"

end
