(* ===== verification/Packet_Trait.thy ===== *)
theory Packet_Trait
  imports Entries_Interface
begin

text \<open>
  \<^verbatim>\<open>GenericPacketTrait\<close> (\<^verbatim>\<open>src/mqtt/packet/enum_packet.rs\<close>), its implementations by the packet types
  (\<^verbatim>\<open>src/mqtt/packet/v3_1_1/\<close>, \<^verbatim>\<open>src/mqtt/packet/v5_0/\<close>), and the interfaces of the packets that
  have neither an identifier nor entries: PINGREQ, PINGRESP, DISCONNECT, AUTH and CONNACK.  An
  implementation of the trait is a value of \<open>packet_trait\<close>; what all of them promise stands in \<open>Packet_Forward\<close>.
\<close>

section \<open>Packets without a body\<close>

text \<open>
  PINGREQ and PINGRESP of both versions and DISCONNECT of v3.1.1 are the same structure.  Their builders
  have no setter; \<open>build\<close> does what \<open>new\<close> does.
\<close>

record v3_empty_builder =
  eb_fixed_header :: "u8 option"
  eb_remaining_length :: "variable_byte_integer option"

text \<open>\<^verbatim>\<open>src/mqtt/packet/v3_1_1/pingreq.rs\<close>\<close>

definition v3_pingreq_builder :: v3_empty_builder where
  "v3_pingreq_builder = \<lparr>eb_fixed_header = None, eb_remaining_length = None\<rparr>"

definition v3_pingreq_packet_type :: packet_type where
  "v3_pingreq_packet_type = PT_Pingreq"

definition v3_pingreq_size :: "v3_empty \<Rightarrow> nat" where
  "v3_pingreq_size k = 1 + vbi_size (v3e_remaining_length k) + unat (to_u32 (v3e_remaining_length k))"

definition v3_pingreq_to_buffers :: "v3_empty \<Rightarrow> slices" where
  "v3_pingreq_to_buffers k = [[v3e_fixed_header k], encoded (v3e_remaining_length k)]"

definition v3_pingreq_to_continuous_buffer :: "v3_empty \<Rightarrow> bytes" where
  "v3_pingreq_to_continuous_buffer k = v3e_fixed_header k # encoded (v3e_remaining_length k)"

definition v3_pingreq_build :: "v3_empty_builder \<Rightarrow> (v3_empty, mqtt_error) result rust" where
  "v3_pingreq_build b = rbind (vbi_of 0) (\<lambda>rl.
     Ret (Ok \<lparr>v3e_fixed_header = fixed_header_as_u8 FH_Pingreq, v3e_remaining_length = rl\<rparr>))"

text \<open>\<^verbatim>\<open>src/mqtt/packet/v3_1_1/pingresp.rs\<close>\<close>

type_synonym v3_pingresp = v3_empty

definition v3_pingresp_builder :: v3_empty_builder where
  "v3_pingresp_builder = \<lparr>eb_fixed_header = None, eb_remaining_length = None\<rparr>"

definition v3_pingresp_packet_type :: packet_type where
  "v3_pingresp_packet_type = PT_Pingresp"

definition v3_pingresp_size :: "v3_empty \<Rightarrow> nat" where
  "v3_pingresp_size k = 1 + vbi_size (v3e_remaining_length k) + unat (to_u32 (v3e_remaining_length k))"

definition v3_pingresp_to_buffers :: "v3_empty \<Rightarrow> slices" where
  "v3_pingresp_to_buffers k = [[v3e_fixed_header k], encoded (v3e_remaining_length k)]"

definition v3_pingresp_to_continuous_buffer :: "v3_empty \<Rightarrow> bytes" where
  "v3_pingresp_to_continuous_buffer k = v3e_fixed_header k # encoded (v3e_remaining_length k)"

definition v3_pingresp_build :: "v3_empty_builder \<Rightarrow> (v3_empty, mqtt_error) result rust" where
  "v3_pingresp_build b = rbind (vbi_of 0) (\<lambda>rl.
     Ret (Ok \<lparr>v3e_fixed_header = fixed_header_as_u8 FH_Pingresp, v3e_remaining_length = rl\<rparr>))"

text \<open>\<^verbatim>\<open>src/mqtt/packet/v3_1_1/disconnect.rs\<close>\<close>

type_synonym v3_disconnect = v3_empty

definition v3_disconnect_builder :: v3_empty_builder where
  "v3_disconnect_builder = \<lparr>eb_fixed_header = None, eb_remaining_length = None\<rparr>"

definition v3_disconnect_packet_type :: packet_type where
  "v3_disconnect_packet_type = PT_Disconnect"

definition v3_disconnect_size :: "v3_empty \<Rightarrow> nat" where
  "v3_disconnect_size k = 1 + vbi_size (v3e_remaining_length k) + unat (to_u32 (v3e_remaining_length k))"

definition v3_disconnect_to_buffers :: "v3_empty \<Rightarrow> slices" where
  "v3_disconnect_to_buffers k = [[v3e_fixed_header k], encoded (v3e_remaining_length k)]"

definition v3_disconnect_to_continuous_buffer :: "v3_empty \<Rightarrow> bytes" where
  "v3_disconnect_to_continuous_buffer k = v3e_fixed_header k # encoded (v3e_remaining_length k)"

definition v3_disconnect_build :: "v3_empty_builder \<Rightarrow> (v3_empty, mqtt_error) result rust" where
  "v3_disconnect_build b = rbind (vbi_of 0) (\<lambda>rl.
     Ret (Ok \<lparr>v3e_fixed_header = fixed_header_as_u8 FH_Disconnect, v3e_remaining_length = rl\<rparr>))"

text \<open>\<^verbatim>\<open>src/mqtt/packet/v5_0/pingreq.rs\<close>\<close>

type_synonym v5_pingreq = v3_empty

definition v5_pingreq_builder :: v3_empty_builder where
  "v5_pingreq_builder = \<lparr>eb_fixed_header = None, eb_remaining_length = None\<rparr>"

definition v5_pingreq_packet_type :: packet_type where
  "v5_pingreq_packet_type = PT_Pingreq"

definition v5_pingreq_size :: "v3_empty \<Rightarrow> nat" where
  "v5_pingreq_size k = 1 + vbi_size (v3e_remaining_length k) + unat (to_u32 (v3e_remaining_length k))"

definition v5_pingreq_to_buffers :: "v3_empty \<Rightarrow> slices" where
  "v5_pingreq_to_buffers k = [[v3e_fixed_header k], encoded (v3e_remaining_length k)]"

definition v5_pingreq_to_continuous_buffer :: "v3_empty \<Rightarrow> bytes" where
  "v5_pingreq_to_continuous_buffer k = v3e_fixed_header k # encoded (v3e_remaining_length k)"

definition v5_pingreq_build :: "v3_empty_builder \<Rightarrow> (v3_empty, mqtt_error) result rust" where
  "v5_pingreq_build b = rbind (vbi_of 0) (\<lambda>rl.
     Ret (Ok \<lparr>v3e_fixed_header = fixed_header_as_u8 FH_Pingreq, v3e_remaining_length = rl\<rparr>))"

text \<open>\<^verbatim>\<open>src/mqtt/packet/v5_0/pingresp.rs\<close>\<close>

type_synonym v5_pingresp = v3_empty

definition v5_pingresp_builder :: v3_empty_builder where
  "v5_pingresp_builder = \<lparr>eb_fixed_header = None, eb_remaining_length = None\<rparr>"

definition v5_pingresp_packet_type :: packet_type where
  "v5_pingresp_packet_type = PT_Pingresp"

definition v5_pingresp_size :: "v3_empty \<Rightarrow> nat" where
  "v5_pingresp_size k = 1 + vbi_size (v3e_remaining_length k) + unat (to_u32 (v3e_remaining_length k))"

definition v5_pingresp_to_buffers :: "v3_empty \<Rightarrow> slices" where
  "v5_pingresp_to_buffers k = [[v3e_fixed_header k], encoded (v3e_remaining_length k)]"

definition v5_pingresp_to_continuous_buffer :: "v3_empty \<Rightarrow> bytes" where
  "v5_pingresp_to_continuous_buffer k = v3e_fixed_header k # encoded (v3e_remaining_length k)"

definition v5_pingresp_build :: "v3_empty_builder \<Rightarrow> (v3_empty, mqtt_error) result rust" where
  "v5_pingresp_build b = rbind (vbi_of 0) (\<lambda>rl.
     Ret (Ok \<lparr>v3e_fixed_header = fixed_header_as_u8 FH_Pingresp, v3e_remaining_length = rl\<rparr>))"

section \<open>DISCONNECT and AUTH of v5.0\<close>

record v5_reason_builder =
  rb_reason_code_buf :: "u8 option option"
  rb_props :: "properties option option"

definition v5_disconnect_builder :: v5_reason_builder where
  "v5_disconnect_builder = \<lparr>rb_reason_code_buf = None, rb_props = None\<rparr>"

definition v5_disconnect_packet_type :: packet_type where
  "v5_disconnect_packet_type = PT_Disconnect"

definition v5_disconnect_set_reason :: "disconnect_reason_code \<Rightarrow> v5_reason_builder \<Rightarrow> v5_reason_builder" where
  "v5_disconnect_set_reason rc b = b\<lparr>rb_reason_code_buf := Some (Some (disconnect_reason_code_u8 rc))\<rparr>"

type_synonym v5_auth = v5_reason_packet

definition v5_auth_builder :: v5_reason_builder where
  "v5_auth_builder = \<lparr>rb_reason_code_buf = None, rb_props = None\<rparr>"

definition v5_auth_packet_type :: packet_type where
  "v5_auth_packet_type = PT_Auth"

definition v5_auth_size :: "v5_reason_packet \<Rightarrow> nat" where
  "v5_auth_size k = 1 + vbi_size (v5r_remaining_length k) + unat (to_u32 (v5r_remaining_length k))"

definition v5_auth_to_buffers :: "v5_reason_packet \<Rightarrow> slices" where
  "v5_auth_to_buffers k = [[v5r_fixed_header k], encoded (v5r_remaining_length k)]
     @ (case v5r_reason_code_buf k of Some rc \<Rightarrow> [[rc]] | None \<Rightarrow> [])
     @ (case v5r_property_length k of Some pl \<Rightarrow> [encoded pl] | None \<Rightarrow> [])
     @ (case v5r_props k of Some props \<Rightarrow> properties_to_buffers props | None \<Rightarrow> [])"

definition v5_auth_to_continuous_buffer :: "v5_reason_packet \<Rightarrow> bytes" where
  "v5_auth_to_continuous_buffer k = v5r_fixed_header k # encoded (v5r_remaining_length k)
     @ (case v5r_reason_code_buf k of Some rc \<Rightarrow> [rc] | None \<Rightarrow> [])
     @ (case v5r_property_length k of Some pl \<Rightarrow> encoded pl | None \<Rightarrow> [])
     @ (case v5r_props k of Some props \<Rightarrow> properties_to_continuous_buffer props | None \<Rightarrow> [])"

text \<open>A reason code brings empty properties with it when none were set.\<close>

definition v5_auth_set_reason :: "auth_reason_code \<Rightarrow> v5_reason_builder \<Rightarrow> v5_reason_builder" where
  "v5_auth_set_reason rc b = b\<lparr>rb_reason_code_buf := Some (Some (auth_reason_code_u8 rc)),
     rb_props := (if rb_props b = None then Some (Some []) else rb_props b)\<rparr>"

section \<open>CONNACK\<close>

definition v3_connack_builder_new :: "v3_connack_builder" where
  "v3_connack_builder_new = \<lparr>v3cab_ack_flags = None, v3cab_return_code_buf = None\<rparr>"

definition v3_connack_packet_type :: "packet_type" where
  "v3_connack_packet_type = PT_Connack"

definition v3_connack_set_session_present :: "bool \<Rightarrow> v3_connack_builder \<Rightarrow> v3_connack_builder" where
  "v3_connack_set_session_present v b = b\<lparr>v3cab_ack_flags := Some (of_bool v)\<rparr>"

definition v3_connack_set_return_code :: "connect_return_code \<Rightarrow> v3_connack_builder \<Rightarrow> v3_connack_builder" where
  "v3_connack_set_return_code rc b = b\<lparr>v3cab_return_code_buf := Some (connect_return_code_u8 rc)\<rparr>"

record v5_connack_builder =
  cab_ack_flags :: "u8 option"
  cab_reason_code_buf :: "u8 option"
  cab_props :: "properties option"

definition v5_connack_builder_new :: "v5_connack_builder" where
  "v5_connack_builder_new = \<lparr>cab_ack_flags = None, cab_reason_code_buf = None, cab_props = None\<rparr>"

definition v5_connack_packet_type :: "packet_type" where
  "v5_connack_packet_type = PT_Connack"

definition v5_connack_set_session_present :: "bool \<Rightarrow> v5_connack_builder \<Rightarrow> v5_connack_builder" where
  "v5_connack_set_session_present v b = b\<lparr>cab_ack_flags := Some (of_bool v)\<rparr>"

definition v5_connack_set_reason_code :: "connect_reason_code \<Rightarrow> v5_connack_builder \<Rightarrow> v5_connack_builder" where
  "v5_connack_set_reason_code rc b = b\<lparr>cab_reason_code_buf := Some (connect_reason_code_u8 rc)\<rparr>"

section \<open>Accessors of PUBLISH and CONNECT\<close>

definition v3_publish_packet_type :: "packet_type" where
  "v3_publish_packet_type = PT_Publish"

definition v3_publish_packet_id :: "'p::len word v3_publish \<Rightarrow> 'p word option" where
  "v3_publish_packet_id k = v3p_packet_id_buf k"

definition v3_publish_payload :: "'p::len word v3_publish \<Rightarrow> bytes" where
  "v3_publish_payload k = v3p_payload_buf k"

definition v3_connect_packet_type :: "packet_type" where
  "v3_connect_packet_type = PT_Connect"

definition v3_protocol_name_str :: "v3_connect \<Rightarrow> str" where
  "v3_protocol_name_str k = [0x4D, 0x51, 0x54, 0x54]"

definition v3_protocol_version :: "v3_connect \<Rightarrow> u8" where
  "v3_protocol_version k = v3c_protocol_version_buf k"

definition v3_clean_start :: "v3_connect \<Rightarrow> bool" where
  "v3_clean_start k = v3_clean_session k"

definition v3cb_clean_start :: "bool \<Rightarrow> v3_connect_builder \<Rightarrow> v3_connect_builder" where
  "v3cb_clean_start c b = v3cb_clean_session c b"

definition v5_publish_packet_type :: "packet_type" where
  "v5_publish_packet_type = PT_Publish"

definition v5_publish_packet_id :: "'p::len word v5_publish \<Rightarrow> 'p word option" where
  "v5_publish_packet_id k = v5p_packet_id_buf k"

definition v5_publish_payload :: "'p::len word v5_publish \<Rightarrow> bytes" where
  "v5_publish_payload k = v5p_payload_buf k"

definition v5_connect_packet_type :: "packet_type" where
  "v5_connect_packet_type = PT_Connect"

definition v5_protocol_name_str :: "v5_connect \<Rightarrow> str" where
  "v5_protocol_name_str k = [0x4D, 0x51, 0x54, 0x54]"

definition v5_protocol_version :: "v5_connect \<Rightarrow> u8" where
  "v5_protocol_version k = v5c_protocol_version_buf k"

section \<open>The trait\<close>

record 'k packet_trait =
  tr_size :: "'k \<Rightarrow> nat"
  tr_to_buffers :: "'k \<Rightarrow> slices"
  tr_to_continuous_buffer :: "'k \<Rightarrow> bytes"

definition v3_connect_packet_trait :: "v3_connect packet_trait" where
  "v3_connect_packet_trait =
     \<lparr>tr_size = v3_connect_size, tr_to_buffers = v3_connect_to_buffers, tr_to_continuous_buffer = v3_connect_to_continuous_buffer\<rparr>"

definition v3_connack_packet_trait :: "v3_connack packet_trait" where
  "v3_connack_packet_trait =
     \<lparr>tr_size = v3_connack_size, tr_to_buffers = v3_connack_to_buffers, tr_to_continuous_buffer = v3_connack_to_continuous_buffer\<rparr>"

definition v3_subscribe_packet_trait :: "('p::len word, sub_entry) v3_entries_packet packet_trait" where
  "v3_subscribe_packet_trait =
     \<lparr>tr_size = v3_subscribe_size, tr_to_buffers = v3_subscribe_to_buffers, tr_to_continuous_buffer = v3_subscribe_to_continuous_buffer\<rparr>"

definition v3_suback_packet_trait :: "('p::len word, u8) v3_entries_packet packet_trait" where
  "v3_suback_packet_trait =
     \<lparr>tr_size = v3_suback_size, tr_to_buffers = v3_suback_to_buffers, tr_to_continuous_buffer = v3_suback_to_continuous_buffer\<rparr>"

definition v3_unsubscribe_packet_trait :: "('p::len word, mqtt_string) v3_entries_packet packet_trait" where
  "v3_unsubscribe_packet_trait =
     \<lparr>tr_size = v3_unsubscribe_size, tr_to_buffers = v3_unsubscribe_to_buffers, tr_to_continuous_buffer = v3_unsubscribe_to_continuous_buffer\<rparr>"

definition v3_unsuback_packet_trait :: "'p::len word v3_unsuback packet_trait" where
  "v3_unsuback_packet_trait =
     \<lparr>tr_size = v3_unsuback_size, tr_to_buffers = v3_unsuback_to_buffers, tr_to_continuous_buffer = v3_unsuback_to_continuous_buffer\<rparr>"

definition v3_publish_packet_trait :: "'p::len word v3_publish packet_trait" where
  "v3_publish_packet_trait =
     \<lparr>tr_size = v3_publish_size, tr_to_buffers = v3_publish_to_buffers, tr_to_continuous_buffer = v3_publish_to_continuous_buffer\<rparr>"

definition v3_puback_packet_trait :: "'p::len word v3_ack packet_trait" where
  "v3_puback_packet_trait =
     \<lparr>tr_size = v3_puback_size, tr_to_buffers = v3_puback_to_buffers, tr_to_continuous_buffer = v3_puback_to_continuous_buffer\<rparr>"

definition v3_pubrec_packet_trait :: "'p::len word v3_ack packet_trait" where
  "v3_pubrec_packet_trait =
     \<lparr>tr_size = v3_pubrec_size, tr_to_buffers = v3_pubrec_to_buffers, tr_to_continuous_buffer = v3_pubrec_to_continuous_buffer\<rparr>"

definition v3_pubrel_packet_trait :: "'p::len word v3_ack packet_trait" where
  "v3_pubrel_packet_trait =
     \<lparr>tr_size = v3_pubrel_size, tr_to_buffers = v3_pubrel_to_buffers, tr_to_continuous_buffer = v3_pubrel_to_continuous_buffer\<rparr>"

definition v3_pubcomp_packet_trait :: "'p::len word v3_ack packet_trait" where
  "v3_pubcomp_packet_trait =
     \<lparr>tr_size = v3_pubcomp_size, tr_to_buffers = v3_pubcomp_to_buffers, tr_to_continuous_buffer = v3_pubcomp_to_continuous_buffer\<rparr>"

definition v3_disconnect_packet_trait :: "v3_empty packet_trait" where
  "v3_disconnect_packet_trait =
     \<lparr>tr_size = v3_disconnect_size, tr_to_buffers = v3_disconnect_to_buffers, tr_to_continuous_buffer = v3_disconnect_to_continuous_buffer\<rparr>"

definition v3_pingreq_packet_trait :: "v3_empty packet_trait" where
  "v3_pingreq_packet_trait =
     \<lparr>tr_size = v3_pingreq_size, tr_to_buffers = v3_pingreq_to_buffers, tr_to_continuous_buffer = v3_pingreq_to_continuous_buffer\<rparr>"

definition v3_pingresp_packet_trait :: "v3_empty packet_trait" where
  "v3_pingresp_packet_trait =
     \<lparr>tr_size = v3_pingresp_size, tr_to_buffers = v3_pingresp_to_buffers, tr_to_continuous_buffer = v3_pingresp_to_continuous_buffer\<rparr>"

definition v5_connect_packet_trait :: "v5_connect packet_trait" where
  "v5_connect_packet_trait =
     \<lparr>tr_size = v5_connect_size, tr_to_buffers = v5_connect_to_buffers, tr_to_continuous_buffer = v5_connect_to_continuous_buffer\<rparr>"

definition v5_connack_packet_trait :: "v5_connack packet_trait" where
  "v5_connack_packet_trait =
     \<lparr>tr_size = v5_connack_size, tr_to_buffers = v5_connack_to_buffers, tr_to_continuous_buffer = v5_connack_to_continuous_buffer\<rparr>"

definition v5_subscribe_packet_trait :: "('p::len word, sub_entry) v5_entries_packet packet_trait" where
  "v5_subscribe_packet_trait =
     \<lparr>tr_size = v5_subscribe_size, tr_to_buffers = v5_subscribe_to_buffers, tr_to_continuous_buffer = v5_subscribe_to_continuous_buffer\<rparr>"

definition v5_suback_packet_trait :: "('p::len word, u8) v5_entries_packet packet_trait" where
  "v5_suback_packet_trait =
     \<lparr>tr_size = v5_suback_size, tr_to_buffers = v5_suback_to_buffers, tr_to_continuous_buffer = v5_suback_to_continuous_buffer\<rparr>"

definition v5_unsubscribe_packet_trait :: "('p::len word, mqtt_string) v5_entries_packet packet_trait" where
  "v5_unsubscribe_packet_trait =
     \<lparr>tr_size = v5_unsubscribe_size, tr_to_buffers = v5_unsubscribe_to_buffers, tr_to_continuous_buffer = v5_unsubscribe_to_continuous_buffer\<rparr>"

definition v5_unsuback_packet_trait :: "('p::len word, u8) v5_entries_packet packet_trait" where
  "v5_unsuback_packet_trait =
     \<lparr>tr_size = v5_unsuback_size, tr_to_buffers = v5_unsuback_to_buffers, tr_to_continuous_buffer = v5_unsuback_to_continuous_buffer\<rparr>"

definition v5_publish_packet_trait :: "'p::len word v5_publish packet_trait" where
  "v5_publish_packet_trait =
     \<lparr>tr_size = v5_publish_size, tr_to_buffers = v5_publish_to_buffers, tr_to_continuous_buffer = v5_publish_to_continuous_buffer\<rparr>"

definition v5_puback_packet_trait :: "'p::len word v5_ack packet_trait" where
  "v5_puback_packet_trait =
     \<lparr>tr_size = v5_puback_size, tr_to_buffers = v5_puback_to_buffers, tr_to_continuous_buffer = v5_puback_to_continuous_buffer\<rparr>"

definition v5_pubrec_packet_trait :: "'p::len word v5_ack packet_trait" where
  "v5_pubrec_packet_trait =
     \<lparr>tr_size = v5_pubrec_size, tr_to_buffers = v5_pubrec_to_buffers, tr_to_continuous_buffer = v5_pubrec_to_continuous_buffer\<rparr>"

definition v5_pubrel_packet_trait :: "'p::len word v5_ack packet_trait" where
  "v5_pubrel_packet_trait =
     \<lparr>tr_size = v5_pubrel_size, tr_to_buffers = v5_pubrel_to_buffers, tr_to_continuous_buffer = v5_pubrel_to_continuous_buffer\<rparr>"

definition v5_pubcomp_packet_trait :: "'p::len word v5_ack packet_trait" where
  "v5_pubcomp_packet_trait =
     \<lparr>tr_size = v5_pubcomp_size, tr_to_buffers = v5_pubcomp_to_buffers, tr_to_continuous_buffer = v5_pubcomp_to_continuous_buffer\<rparr>"

definition v5_disconnect_packet_trait :: "v5_reason_packet packet_trait" where
  "v5_disconnect_packet_trait =
     \<lparr>tr_size = v5_reason_packet_size, tr_to_buffers = v5_reason_packet_to_buffers, tr_to_continuous_buffer = v5_reason_packet_to_continuous_buffer\<rparr>"

definition v5_pingreq_packet_trait :: "v3_empty packet_trait" where
  "v5_pingreq_packet_trait =
     \<lparr>tr_size = v5_pingreq_size, tr_to_buffers = v5_pingreq_to_buffers, tr_to_continuous_buffer = v5_pingreq_to_continuous_buffer\<rparr>"

definition v5_pingresp_packet_trait :: "v3_empty packet_trait" where
  "v5_pingresp_packet_trait =
     \<lparr>tr_size = v5_pingresp_size, tr_to_buffers = v5_pingresp_to_buffers, tr_to_continuous_buffer = v5_pingresp_to_continuous_buffer\<rparr>"

definition v5_auth_packet_trait :: "v5_reason_packet packet_trait" where
  "v5_auth_packet_trait =
     \<lparr>tr_size = v5_auth_size, tr_to_buffers = v5_auth_to_buffers, tr_to_continuous_buffer = v5_auth_to_continuous_buffer\<rparr>"

end
