(* ===== verification/Packet_Forward.thy ===== *)
theory Packet_Forward
  imports Packet_Trait
begin

text \<open>
  Sending what was received.  Every packet type is the contract \<open>sendable_packet\<close> of
  \<^verbatim>\<open>GenericPacketTrait\<close>; the theorem says which packets that a parser accepted are sent again as a
  packet that is read as the same.
\<close>

section \<open>The contract of the trait\<close>

locale sendable_packet =
  fixes t :: "'k packet_trait" and ok :: "'k \<Rightarrow> bool" and hdr :: "'k \<Rightarrow> u8" and body :: "'k \<Rightarrow> bytes"
  assumes gathered: "concat (tr_to_buffers t k) = tr_to_continuous_buffer t k"
    and framed: "ok k \<Longrightarrow> tr_to_continuous_buffer t k = hdr k # vbi_enc (length (body k)) @ body k"
    and bounded: "ok k \<Longrightarrow> length (body k) < 268435456"
    and sized: "ok k \<Longrightarrow> tr_size t k = length (tr_to_continuous_buffer t k)"
begin

lemma gathered_size: "ok k \<Longrightarrow> sum_list (map length (tr_to_buffers t k)) = tr_size t k"
  using gathered [of k] sized [of k] by (metis length_concat)

text \<open>The slices, one after the other and ahead of any bytes, are one frame of the announced size.\<close>

lemma one_frame:
  assumes "ok k" and "length (body k) < 2097152"
  shows "frame (concat (tr_to_buffers t k) @ rest) = Frame (mk_raw (hdr k) (body k)) (tr_size t k)"
  using frame_enc [OF assms(2) refl, of "hdr k" rest] sized [OF assms(1)] framed [OF assms(1)] by (simp add: gathered)

end

lemma sendable_of_wire:
  assumes "packet_wire ok hdr body buf sz parse" and "\<And>k. concat (bufs k) = buf k"
  shows "sendable_packet \<lparr>tr_size = sz, tr_to_buffers = bufs, tr_to_continuous_buffer = buf\<rparr> ok hdr body"
  using packet_wire.buf_eq [OF assms(1)] packet_wire.body_len [OF assms(1)] packet_wire.size_eq [OF assms(1)] assms(2)
  by unfold_locales simp_all

section \<open>The implementations\<close>

lemma bare_access:
  "v3_pingreq_size = v3_empty_size" "v3_pingreq_to_buffers = v3_empty_to_buffers" "v3_pingreq_to_continuous_buffer = v3_empty_to_continuous_buffer"
  "v3_pingresp_size = v3_empty_size" "v3_pingresp_to_buffers = v3_empty_to_buffers" "v3_pingresp_to_continuous_buffer = v3_empty_to_continuous_buffer"
  "v3_disconnect_size = v3_empty_size" "v3_disconnect_to_buffers = v3_empty_to_buffers" "v3_disconnect_to_continuous_buffer = v3_empty_to_continuous_buffer"
  "v5_pingreq_size = v3_empty_size" "v5_pingreq_to_buffers = v3_empty_to_buffers" "v5_pingreq_to_continuous_buffer = v3_empty_to_continuous_buffer"
  "v5_pingresp_size = v3_empty_size" "v5_pingresp_to_buffers = v3_empty_to_buffers" "v5_pingresp_to_continuous_buffer = v3_empty_to_continuous_buffer"
  "v5_auth_size = v5_reason_packet_size" "v5_auth_to_buffers = v5_reason_packet_to_buffers"
  "v5_auth_to_continuous_buffer = v5_reason_packet_to_continuous_buffer"
  by (simp_all add: fun_eq_iff v3_empty_size_def v3_empty_to_buffers_def v3_empty_to_continuous_buffer_def packet_size_of_def
      v5_reason_packet_size_def v5_reason_packet_to_buffers_def v5_reason_packet_to_continuous_buffer_def v5_reason_buffers_def
      v5_reason_buffer_def code_buffers_def gathers
      v3_pingreq_size_def v3_pingreq_to_buffers_def v3_pingreq_to_continuous_buffer_def
      v3_pingresp_size_def v3_pingresp_to_buffers_def v3_pingresp_to_continuous_buffer_def
      v3_disconnect_size_def v3_disconnect_to_buffers_def v3_disconnect_to_continuous_buffer_def
      v5_pingreq_size_def v5_pingreq_to_buffers_def v5_pingreq_to_continuous_buffer_def
      v5_pingresp_size_def v5_pingresp_to_buffers_def v5_pingresp_to_continuous_buffer_def
      v5_auth_size_def v5_auth_to_buffers_def v5_auth_to_continuous_buffer_def
      split: option.split)

lemmas trait_access = bare_access v3_entries_access v5_entries_access
  v3_puback_size_def v3_puback_to_buffers_def v3_puback_to_continuous_buffer_def
  v3_pubrec_size_def v3_pubrec_to_buffers_def v3_pubrec_to_continuous_buffer_def
  v3_pubrel_size_def v3_pubrel_to_buffers_def v3_pubrel_to_continuous_buffer_def
  v3_pubcomp_size_def v3_pubcomp_to_buffers_def v3_pubcomp_to_continuous_buffer_def
  v5_puback_size_def v5_puback_to_buffers_def v5_puback_to_continuous_buffer_def
  v5_pubrec_size_def v5_pubrec_to_buffers_def v5_pubrec_to_continuous_buffer_def
  v5_pubrel_size_def v5_pubrel_to_buffers_def v5_pubrel_to_continuous_buffer_def
  v5_pubcomp_size_def v5_pubcomp_to_buffers_def v5_pubcomp_to_continuous_buffer_def

lemma v3_connect_sendable:
  "sendable_packet v3_connect_packet_trait v3_connect_inv v3c_fixed_header v3_connect_body"
  unfolding v3_connect_packet_trait_def trait_access
  by (rule sendable_of_wire, rule v3_connect.packet_wire_axioms)
    (simp_all add: v3_buffers gathers)

lemma v3_connack_sendable:
  "sendable_packet v3_connack_packet_trait v3_connack_inv v3ca_fixed_header (\<lambda>k. [v3ca_ack_flags k, v3ca_return_code_buf k])"
  unfolding v3_connack_packet_trait_def trait_access
  by (rule sendable_of_wire, rule v3_connack.packet_wire_axioms)
    (simp_all add: v3_buffers gathers)

lemma v3_subscribe_sendable:
  "packet_id_width TYPE('p::len) \<Longrightarrow> sendable_packet (v3_subscribe_packet_trait :: ('p word, sub_entry) v3_entries_packet packet_trait) (v3_entries_inv FH_Subscribe sub_entry_inv sub_entry_to_continuous_buffer) v3s_fixed_header (v3_entries_body sub_entry_to_continuous_buffer)"
  unfolding v3_subscribe_packet_trait_def trait_access
  by (rule sendable_of_wire, rule packet_codec.axioms(1) [OF v3_subscribe_codec ])
    (simp_all add: v3_buffers gathers)

lemma v3_suback_sendable:
  "packet_id_width TYPE('p::len) \<Longrightarrow> sendable_packet (v3_suback_packet_trait :: ('p word, u8) v3_entries_packet packet_trait) (v3_entries_inv FH_Suback return_code_ok (\<lambda>b. [b])) v3s_fixed_header (v3_entries_body (\<lambda>b. [b]))"
  unfolding v3_suback_packet_trait_def trait_access
  by (rule sendable_of_wire, rule packet_codec.axioms(1) [OF v3_suback_codec ])
    (simp_all add: v3_buffers gathers)

lemma v3_unsubscribe_sendable:
  "packet_id_width TYPE('p::len) \<Longrightarrow> sendable_packet (v3_unsubscribe_packet_trait :: ('p word, mqtt_string) v3_entries_packet packet_trait) (v3_entries_inv FH_Unsubscribe ms_inv ms_to_continuous_buffer) v3s_fixed_header (v3_entries_body ms_to_continuous_buffer)"
  unfolding v3_unsubscribe_packet_trait_def trait_access
  by (rule sendable_of_wire, rule packet_codec.axioms(1) [OF v3_unsubscribe_codec ])
    (simp_all add: v3_buffers gathers)

lemma v3_unsuback_sendable:
  "packet_id_width TYPE('p::len) \<Longrightarrow> sendable_packet (v3_unsuback_packet_trait :: 'p word v3_unsuback packet_trait) v3_unsuback_inv v3ua_fixed_header (\<lambda>k. to_buffer (v3ua_packet_id_buf k))"
  unfolding v3_unsuback_packet_trait_def trait_access
  by (rule sendable_of_wire, rule packet_codec.axioms(1) [OF v3_unsuback_codec ])
    (simp_all add: v3_buffers gathers)

lemma v3_publish_sendable:
  "packet_id_width TYPE('p::len) \<Longrightarrow> sendable_packet (v3_publish_packet_trait :: 'p word v3_publish packet_trait) v3_publish_inv v3p_fixed_header v3_publish_body"
  unfolding v3_publish_packet_trait_def trait_access
  by (rule sendable_of_wire, rule packet_codec.axioms(1) [OF v3_publish_codec ])
    (simp_all add: v3_buffers gathers)

lemma v3_puback_sendable:
  "packet_id_width TYPE('p::len) \<Longrightarrow> sendable_packet (v3_puback_packet_trait :: 'p word v3_ack packet_trait) (v3_ack_inv FH_Puback (\<lambda>b. puback_reason_code_try_from b \<noteq> None)) v3a_fixed_header v3_ack_body"
  unfolding v3_puback_packet_trait_def trait_access
  by (rule sendable_of_wire, rule packet_codec.axioms(1) [OF v3_ack_codec ])
    (simp_all add: v3_buffers gathers)

lemma v3_pubrec_sendable:
  "packet_id_width TYPE('p::len) \<Longrightarrow> sendable_packet (v3_pubrec_packet_trait :: 'p word v3_ack packet_trait) (v3_ack_inv FH_Pubrec (\<lambda>b. pubrec_reason_code_try_from b \<noteq> None)) v3a_fixed_header v3_ack_body"
  unfolding v3_pubrec_packet_trait_def trait_access
  by (rule sendable_of_wire, rule packet_codec.axioms(1) [OF v3_ack_codec ])
    (simp_all add: v3_buffers gathers)

lemma v3_pubrel_sendable:
  "packet_id_width TYPE('p::len) \<Longrightarrow> sendable_packet (v3_pubrel_packet_trait :: 'p word v3_ack packet_trait) (v3_ack_inv FH_Pubrel (\<lambda>b. pubrel_reason_code_try_from b \<noteq> None)) v3a_fixed_header v3_ack_body"
  unfolding v3_pubrel_packet_trait_def trait_access
  by (rule sendable_of_wire, rule packet_codec.axioms(1) [OF v3_ack_codec ])
    (simp_all add: v3_buffers gathers)

lemma v3_pubcomp_sendable:
  "packet_id_width TYPE('p::len) \<Longrightarrow> sendable_packet (v3_pubcomp_packet_trait :: 'p word v3_ack packet_trait) (v3_ack_inv FH_Pubcomp (\<lambda>b. pubcomp_reason_code_try_from b \<noteq> None)) v3a_fixed_header v3_ack_body"
  unfolding v3_pubcomp_packet_trait_def trait_access
  by (rule sendable_of_wire, rule packet_codec.axioms(1) [OF v3_ack_codec ])
    (simp_all add: v3_buffers gathers)

lemma v3_disconnect_sendable:
  "sendable_packet v3_disconnect_packet_trait (v3_empty_inv FH_Disconnect) v3e_fixed_header (\<lambda>_. [])"
  unfolding v3_disconnect_packet_trait_def trait_access
  by (rule sendable_of_wire, rule v3_disconnect.packet_wire_axioms)
    (simp_all add: v3_buffers gathers)

lemma v3_pingreq_sendable:
  "sendable_packet v3_pingreq_packet_trait (v3_empty_inv FH_Pingreq) v3e_fixed_header (\<lambda>_. [])"
  unfolding v3_pingreq_packet_trait_def trait_access
  by (rule sendable_of_wire, rule v3_pingreq.packet_wire_axioms)
    (simp_all add: v3_buffers gathers)

lemma v3_pingresp_sendable:
  "sendable_packet v3_pingresp_packet_trait (v3_empty_inv FH_Pingresp) v3e_fixed_header (\<lambda>_. [])"
  unfolding v3_pingresp_packet_trait_def trait_access
  by (rule sendable_of_wire, rule v3_pingresp.packet_wire_axioms)
    (simp_all add: v3_buffers gathers)

lemma v5_connect_sendable:
  "sendable_packet v5_connect_packet_trait v5_connect_inv v5c_fixed_header v5_connect_body"
  unfolding v5_connect_packet_trait_def trait_access
  by (rule sendable_of_wire, rule v5_connect.packet_wire_axioms)
    (simp_all add: v5_buffers v3_buffers gathers)

lemma v5_connack_sendable:
  "sendable_packet v5_connack_packet_trait v5_connack_inv v5ca_fixed_header v5_connack_body"
  unfolding v5_connack_packet_trait_def trait_access
  by (rule sendable_of_wire, rule v5_connack.packet_wire_axioms)
    (simp_all add: v5_buffers v3_buffers gathers)

lemma v5_subscribe_sendable:
  "packet_id_width TYPE('p::len) \<Longrightarrow> sendable_packet (v5_subscribe_packet_trait :: ('p word, sub_entry) v5_entries_packet packet_trait) (v5_entries_inv FH_Subscribe validate_subscribe_properties sub_entry_inv sub_entry_to_continuous_buffer) v5s_fixed_header (v5_entries_body sub_entry_to_continuous_buffer)"
  unfolding v5_subscribe_packet_trait_def trait_access
  by (rule sendable_of_wire, rule v5_subscribe_wire )
    (simp_all add: v5_buffers v3_buffers gathers)

lemma v5_suback_sendable:
  "packet_id_width TYPE('p::len) \<Longrightarrow> sendable_packet (v5_suback_packet_trait :: ('p word, u8) v5_entries_packet packet_trait) (v5_entries_inv FH_Suback validate_suback_properties (\<lambda>b. suback_reason_code_try_from b \<noteq> None) (\<lambda>b. [b])) v5s_fixed_header (v5_entries_body (\<lambda>b. [b]))"
  unfolding v5_suback_packet_trait_def trait_access
  by (rule sendable_of_wire, rule v5_suback_wire )
    (simp_all add: v5_buffers v3_buffers gathers)

lemma v5_unsubscribe_sendable:
  "packet_id_width TYPE('p::len) \<Longrightarrow> sendable_packet (v5_unsubscribe_packet_trait :: ('p word, mqtt_string) v5_entries_packet packet_trait) (v5_entries_inv FH_Unsubscribe validate_unsubscribe_properties ms_inv ms_to_continuous_buffer) v5s_fixed_header (v5_entries_body ms_to_continuous_buffer)"
  unfolding v5_unsubscribe_packet_trait_def trait_access
  by (rule sendable_of_wire, rule v5_unsubscribe_wire )
    (simp_all add: v5_buffers v3_buffers gathers)

lemma v5_unsuback_sendable:
  "packet_id_width TYPE('p::len) \<Longrightarrow> sendable_packet (v5_unsuback_packet_trait :: ('p word, u8) v5_entries_packet packet_trait) (v5_entries_inv FH_Unsuback validate_unsuback_properties (\<lambda>b. unsuback_reason_code_try_from b \<noteq> None) (\<lambda>b. [b])) v5s_fixed_header (v5_entries_body (\<lambda>b. [b]))"
  unfolding v5_unsuback_packet_trait_def trait_access
  by (rule sendable_of_wire, rule v5_unsuback_wire )
    (simp_all add: v5_buffers v3_buffers gathers)

lemma v5_publish_sendable:
  "packet_id_width TYPE('p::len) \<Longrightarrow> sendable_packet (v5_publish_packet_trait :: 'p word v5_publish packet_trait) v5_publish_inv v5p_fixed_header v5_publish_body"
  unfolding v5_publish_packet_trait_def trait_access
  by (rule sendable_of_wire, rule packet_codec.axioms(1) [OF v5_publish_codec ])
    (simp_all add: v5_buffers v3_buffers gathers)

lemma v5_puback_sendable:
  "packet_id_width TYPE('p::len) \<Longrightarrow> sendable_packet (v5_puback_packet_trait :: 'p word v5_ack packet_trait) (v5_ack_inv FH_Puback (\<lambda>b. puback_reason_code_try_from b \<noteq> None) validate_puback_properties) v5a_fixed_header v5_ack_body"
  unfolding v5_puback_packet_trait_def trait_access
  by (rule sendable_of_wire, rule packet_codec.axioms(1) [OF v5_ack_codec ])
    (simp_all add: v5_buffers v3_buffers gathers)

lemma v5_pubrec_sendable:
  "packet_id_width TYPE('p::len) \<Longrightarrow> sendable_packet (v5_pubrec_packet_trait :: 'p word v5_ack packet_trait) (v5_ack_inv FH_Pubrec (\<lambda>b. pubrec_reason_code_try_from b \<noteq> None) validate_pubrec_properties) v5a_fixed_header v5_ack_body"
  unfolding v5_pubrec_packet_trait_def trait_access
  by (rule sendable_of_wire, rule packet_codec.axioms(1) [OF v5_ack_codec ])
    (simp_all add: v5_buffers v3_buffers gathers)

lemma v5_pubrel_sendable:
  "packet_id_width TYPE('p::len) \<Longrightarrow> sendable_packet (v5_pubrel_packet_trait :: 'p word v5_ack packet_trait) (v5_ack_inv FH_Pubrel (\<lambda>b. pubrel_reason_code_try_from b \<noteq> None) validate_pubrel_properties) v5a_fixed_header v5_ack_body"
  unfolding v5_pubrel_packet_trait_def trait_access
  by (rule sendable_of_wire, rule packet_codec.axioms(1) [OF v5_ack_codec ])
    (simp_all add: v5_buffers v3_buffers gathers)

lemma v5_pubcomp_sendable:
  "packet_id_width TYPE('p::len) \<Longrightarrow> sendable_packet (v5_pubcomp_packet_trait :: 'p word v5_ack packet_trait) (v5_ack_inv FH_Pubcomp (\<lambda>b. pubcomp_reason_code_try_from b \<noteq> None) validate_pubcomp_properties) v5a_fixed_header v5_ack_body"
  unfolding v5_pubcomp_packet_trait_def trait_access
  by (rule sendable_of_wire, rule packet_codec.axioms(1) [OF v5_ack_codec ])
    (simp_all add: v5_buffers v3_buffers gathers)

lemma v5_disconnect_sendable:
  "sendable_packet v5_disconnect_packet_trait v5_disconnect_inv v5r_fixed_header v5_reason_packet_body"
  unfolding v5_disconnect_packet_trait_def trait_access
  by (rule sendable_of_wire, rule v5_disconnect.packet_wire_axioms)
    (simp_all add: v5_buffers v3_buffers gathers)

lemma v5_pingreq_sendable:
  "sendable_packet v5_pingreq_packet_trait (v3_empty_inv FH_Pingreq) v3e_fixed_header (\<lambda>_. [])"
  unfolding v5_pingreq_packet_trait_def trait_access
  by (rule sendable_of_wire, rule v3_pingreq.packet_wire_axioms)
    (simp_all add: v5_buffers v3_buffers gathers)

lemma v5_pingresp_sendable:
  "sendable_packet v5_pingresp_packet_trait (v3_empty_inv FH_Pingresp) v3e_fixed_header (\<lambda>_. [])"
  unfolding v5_pingresp_packet_trait_def trait_access
  by (rule sendable_of_wire, rule v3_pingresp.packet_wire_axioms)
    (simp_all add: v5_buffers v3_buffers gathers)

lemma v5_auth_sendable:
  "sendable_packet v5_auth_packet_trait v5_auth_inv v5r_fixed_header v5_reason_packet_body"
  unfolding v5_auth_packet_trait_def trait_access
  by (rule sendable_of_wire, rule v5_auth.packet_wire_axioms)
    (simp_all add: v5_buffers v3_buffers gathers)
section \<open>Interpretations\<close>

text \<open>The packets with an identifier are interpreted at 16 bits, the width of \<^verbatim>\<open>Packet\<close>.\<close>

lemma width_16: "packet_id_width TYPE(16)"
  by (simp add: packet_id_width_def)

interpretation v3_connect_sends: sendable_packet v3_connect_packet_trait "v3_connect_inv" v3c_fixed_header "v3_connect_body"
  by (rule v3_connect_sendable)

interpretation v3_connack_sends: sendable_packet v3_connack_packet_trait "v3_connack_inv" v3ca_fixed_header "(\<lambda>k. [v3ca_ack_flags k, v3ca_return_code_buf k])"
  by (rule v3_connack_sendable)

interpretation v3_subscribe_sends: sendable_packet "v3_subscribe_packet_trait :: (16 word, sub_entry) v3_entries_packet packet_trait" "(v3_entries_inv FH_Subscribe sub_entry_inv sub_entry_to_continuous_buffer)" v3s_fixed_header "(v3_entries_body sub_entry_to_continuous_buffer)"
  by (rule v3_subscribe_sendable [OF width_16])

interpretation v3_suback_sends: sendable_packet "v3_suback_packet_trait :: (16 word, u8) v3_entries_packet packet_trait" "(v3_entries_inv FH_Suback return_code_ok (\<lambda>b. [b]))" v3s_fixed_header "(v3_entries_body (\<lambda>b. [b]))"
  by (rule v3_suback_sendable [OF width_16])

interpretation v3_unsubscribe_sends: sendable_packet "v3_unsubscribe_packet_trait :: (16 word, mqtt_string) v3_entries_packet packet_trait" "(v3_entries_inv FH_Unsubscribe ms_inv ms_to_continuous_buffer)" v3s_fixed_header "(v3_entries_body ms_to_continuous_buffer)"
  by (rule v3_unsubscribe_sendable [OF width_16])

interpretation v3_unsuback_sends: sendable_packet "v3_unsuback_packet_trait :: 16 word v3_unsuback packet_trait" "v3_unsuback_inv" v3ua_fixed_header "(\<lambda>k. to_buffer (v3ua_packet_id_buf k))"
  by (rule v3_unsuback_sendable [OF width_16])

interpretation v3_publish_sends: sendable_packet "v3_publish_packet_trait :: 16 word v3_publish packet_trait" "v3_publish_inv" v3p_fixed_header "v3_publish_body"
  by (rule v3_publish_sendable [OF width_16])

interpretation v3_puback_sends: sendable_packet "v3_puback_packet_trait :: 16 word v3_ack packet_trait" "(v3_ack_inv FH_Puback (\<lambda>b. puback_reason_code_try_from b \<noteq> None))" v3a_fixed_header "v3_ack_body"
  by (rule v3_puback_sendable [OF width_16])

interpretation v3_pubrec_sends: sendable_packet "v3_pubrec_packet_trait :: 16 word v3_ack packet_trait" "(v3_ack_inv FH_Pubrec (\<lambda>b. pubrec_reason_code_try_from b \<noteq> None))" v3a_fixed_header "v3_ack_body"
  by (rule v3_pubrec_sendable [OF width_16])

interpretation v3_pubrel_sends: sendable_packet "v3_pubrel_packet_trait :: 16 word v3_ack packet_trait" "(v3_ack_inv FH_Pubrel (\<lambda>b. pubrel_reason_code_try_from b \<noteq> None))" v3a_fixed_header "v3_ack_body"
  by (rule v3_pubrel_sendable [OF width_16])

interpretation v3_pubcomp_sends: sendable_packet "v3_pubcomp_packet_trait :: 16 word v3_ack packet_trait" "(v3_ack_inv FH_Pubcomp (\<lambda>b. pubcomp_reason_code_try_from b \<noteq> None))" v3a_fixed_header "v3_ack_body"
  by (rule v3_pubcomp_sendable [OF width_16])

interpretation v3_disconnect_sends: sendable_packet v3_disconnect_packet_trait "(v3_empty_inv FH_Disconnect)" v3e_fixed_header "(\<lambda>_. [])"
  by (rule v3_disconnect_sendable)

interpretation v3_pingreq_sends: sendable_packet v3_pingreq_packet_trait "(v3_empty_inv FH_Pingreq)" v3e_fixed_header "(\<lambda>_. [])"
  by (rule v3_pingreq_sendable)

interpretation v3_pingresp_sends: sendable_packet v3_pingresp_packet_trait "(v3_empty_inv FH_Pingresp)" v3e_fixed_header "(\<lambda>_. [])"
  by (rule v3_pingresp_sendable)

interpretation v5_connect_sends: sendable_packet v5_connect_packet_trait "v5_connect_inv" v5c_fixed_header "v5_connect_body"
  by (rule v5_connect_sendable)

interpretation v5_connack_sends: sendable_packet v5_connack_packet_trait "v5_connack_inv" v5ca_fixed_header "v5_connack_body"
  by (rule v5_connack_sendable)

interpretation v5_subscribe_sends: sendable_packet "v5_subscribe_packet_trait :: (16 word, sub_entry) v5_entries_packet packet_trait" "(v5_entries_inv FH_Subscribe validate_subscribe_properties sub_entry_inv sub_entry_to_continuous_buffer)" v5s_fixed_header "(v5_entries_body sub_entry_to_continuous_buffer)"
  by (rule v5_subscribe_sendable [OF width_16])

interpretation v5_suback_sends: sendable_packet "v5_suback_packet_trait :: (16 word, u8) v5_entries_packet packet_trait" "(v5_entries_inv FH_Suback validate_suback_properties (\<lambda>b. suback_reason_code_try_from b \<noteq> None) (\<lambda>b. [b]))" v5s_fixed_header "(v5_entries_body (\<lambda>b. [b]))"
  by (rule v5_suback_sendable [OF width_16])

interpretation v5_unsubscribe_sends: sendable_packet "v5_unsubscribe_packet_trait :: (16 word, mqtt_string) v5_entries_packet packet_trait" "(v5_entries_inv FH_Unsubscribe validate_unsubscribe_properties ms_inv ms_to_continuous_buffer)" v5s_fixed_header "(v5_entries_body ms_to_continuous_buffer)"
  by (rule v5_unsubscribe_sendable [OF width_16])

interpretation v5_unsuback_sends: sendable_packet "v5_unsuback_packet_trait :: (16 word, u8) v5_entries_packet packet_trait" "(v5_entries_inv FH_Unsuback validate_unsuback_properties (\<lambda>b. unsuback_reason_code_try_from b \<noteq> None) (\<lambda>b. [b]))" v5s_fixed_header "(v5_entries_body (\<lambda>b. [b]))"
  by (rule v5_unsuback_sendable [OF width_16])

interpretation v5_publish_sends: sendable_packet "v5_publish_packet_trait :: 16 word v5_publish packet_trait" "v5_publish_inv" v5p_fixed_header "v5_publish_body"
  by (rule v5_publish_sendable [OF width_16])

interpretation v5_puback_sends: sendable_packet "v5_puback_packet_trait :: 16 word v5_ack packet_trait" "(v5_ack_inv FH_Puback (\<lambda>b. puback_reason_code_try_from b \<noteq> None) validate_puback_properties)" v5a_fixed_header "v5_ack_body"
  by (rule v5_puback_sendable [OF width_16])

interpretation v5_pubrec_sends: sendable_packet "v5_pubrec_packet_trait :: 16 word v5_ack packet_trait" "(v5_ack_inv FH_Pubrec (\<lambda>b. pubrec_reason_code_try_from b \<noteq> None) validate_pubrec_properties)" v5a_fixed_header "v5_ack_body"
  by (rule v5_pubrec_sendable [OF width_16])

interpretation v5_pubrel_sends: sendable_packet "v5_pubrel_packet_trait :: 16 word v5_ack packet_trait" "(v5_ack_inv FH_Pubrel (\<lambda>b. pubrel_reason_code_try_from b \<noteq> None) validate_pubrel_properties)" v5a_fixed_header "v5_ack_body"
  by (rule v5_pubrel_sendable [OF width_16])

interpretation v5_pubcomp_sends: sendable_packet "v5_pubcomp_packet_trait :: 16 word v5_ack packet_trait" "(v5_ack_inv FH_Pubcomp (\<lambda>b. pubcomp_reason_code_try_from b \<noteq> None) validate_pubcomp_properties)" v5a_fixed_header "v5_ack_body"
  by (rule v5_pubcomp_sendable [OF width_16])

interpretation v5_disconnect_sends: sendable_packet v5_disconnect_packet_trait "v5_disconnect_inv" v5r_fixed_header "v5_reason_packet_body"
  by (rule v5_disconnect_sendable)

interpretation v5_pingreq_sends: sendable_packet v5_pingreq_packet_trait "(v3_empty_inv FH_Pingreq)" v3e_fixed_header "(\<lambda>_. [])"
  by (rule v5_pingreq_sendable)

interpretation v5_pingresp_sends: sendable_packet v5_pingresp_packet_trait "(v3_empty_inv FH_Pingresp)" v3e_fixed_header "(\<lambda>_. [])"
  by (rule v5_pingresp_sendable)

interpretation v5_auth_sends: sendable_packet v5_auth_packet_trait "v5_auth_inv" v5r_fixed_header "v5_reason_packet_body"
  by (rule v5_auth_sendable)

section \<open>The enumeration\<close>

text \<open>The dispatch of the enumeration calls the implementation of its variant.\<close>

lemma gp_dispatch:
  "gp_size (V3_Connect k0) = tr_size v3_connect_packet_trait k0"
  "gp_to_buffers (V3_Connect k0) = tr_to_buffers v3_connect_packet_trait k0"
  "gp_to_continuous_buffer (V3_Connect k0) = tr_to_continuous_buffer v3_connect_packet_trait k0"
  "gp_size (V3_Connack k1) = tr_size v3_connack_packet_trait k1"
  "gp_to_buffers (V3_Connack k1) = tr_to_buffers v3_connack_packet_trait k1"
  "gp_to_continuous_buffer (V3_Connack k1) = tr_to_continuous_buffer v3_connack_packet_trait k1"
  "gp_size (V3_Subscribe k2) = tr_size v3_subscribe_packet_trait k2"
  "gp_to_buffers (V3_Subscribe k2) = tr_to_buffers v3_subscribe_packet_trait k2"
  "gp_to_continuous_buffer (V3_Subscribe k2) = tr_to_continuous_buffer v3_subscribe_packet_trait k2"
  "gp_size (V3_Suback k3) = tr_size v3_suback_packet_trait k3"
  "gp_to_buffers (V3_Suback k3) = tr_to_buffers v3_suback_packet_trait k3"
  "gp_to_continuous_buffer (V3_Suback k3) = tr_to_continuous_buffer v3_suback_packet_trait k3"
  "gp_size (V3_Unsubscribe k4) = tr_size v3_unsubscribe_packet_trait k4"
  "gp_to_buffers (V3_Unsubscribe k4) = tr_to_buffers v3_unsubscribe_packet_trait k4"
  "gp_to_continuous_buffer (V3_Unsubscribe k4) = tr_to_continuous_buffer v3_unsubscribe_packet_trait k4"
  "gp_size (V3_Unsuback k5) = tr_size v3_unsuback_packet_trait k5"
  "gp_to_buffers (V3_Unsuback k5) = tr_to_buffers v3_unsuback_packet_trait k5"
  "gp_to_continuous_buffer (V3_Unsuback k5) = tr_to_continuous_buffer v3_unsuback_packet_trait k5"
  "gp_size (V3_Publish k6) = tr_size v3_publish_packet_trait k6"
  "gp_to_buffers (V3_Publish k6) = tr_to_buffers v3_publish_packet_trait k6"
  "gp_to_continuous_buffer (V3_Publish k6) = tr_to_continuous_buffer v3_publish_packet_trait k6"
  "gp_size (V3_Puback k7) = tr_size v3_puback_packet_trait k7"
  "gp_to_buffers (V3_Puback k7) = tr_to_buffers v3_puback_packet_trait k7"
  "gp_to_continuous_buffer (V3_Puback k7) = tr_to_continuous_buffer v3_puback_packet_trait k7"
  "gp_size (V3_Pubrec k8) = tr_size v3_pubrec_packet_trait k8"
  "gp_to_buffers (V3_Pubrec k8) = tr_to_buffers v3_pubrec_packet_trait k8"
  "gp_to_continuous_buffer (V3_Pubrec k8) = tr_to_continuous_buffer v3_pubrec_packet_trait k8"
  "gp_size (V3_Pubrel k9) = tr_size v3_pubrel_packet_trait k9"
  "gp_to_buffers (V3_Pubrel k9) = tr_to_buffers v3_pubrel_packet_trait k9"
  "gp_to_continuous_buffer (V3_Pubrel k9) = tr_to_continuous_buffer v3_pubrel_packet_trait k9"
  "gp_size (V3_Pubcomp k10) = tr_size v3_pubcomp_packet_trait k10"
  "gp_to_buffers (V3_Pubcomp k10) = tr_to_buffers v3_pubcomp_packet_trait k10"
  "gp_to_continuous_buffer (V3_Pubcomp k10) = tr_to_continuous_buffer v3_pubcomp_packet_trait k10"
  "gp_size (V3_Disconnect k11) = tr_size v3_disconnect_packet_trait k11"
  "gp_to_buffers (V3_Disconnect k11) = tr_to_buffers v3_disconnect_packet_trait k11"
  "gp_to_continuous_buffer (V3_Disconnect k11) = tr_to_continuous_buffer v3_disconnect_packet_trait k11"
  "gp_size (V3_Pingreq k12) = tr_size v3_pingreq_packet_trait k12"
  "gp_to_buffers (V3_Pingreq k12) = tr_to_buffers v3_pingreq_packet_trait k12"
  "gp_to_continuous_buffer (V3_Pingreq k12) = tr_to_continuous_buffer v3_pingreq_packet_trait k12"
  "gp_size (V3_Pingresp k13) = tr_size v3_pingresp_packet_trait k13"
  "gp_to_buffers (V3_Pingresp k13) = tr_to_buffers v3_pingresp_packet_trait k13"
  "gp_to_continuous_buffer (V3_Pingresp k13) = tr_to_continuous_buffer v3_pingresp_packet_trait k13"
  "gp_size (V5_Connect k14) = tr_size v5_connect_packet_trait k14"
  "gp_to_buffers (V5_Connect k14) = tr_to_buffers v5_connect_packet_trait k14"
  "gp_to_continuous_buffer (V5_Connect k14) = tr_to_continuous_buffer v5_connect_packet_trait k14"
  "gp_size (V5_Connack k15) = tr_size v5_connack_packet_trait k15"
  "gp_to_buffers (V5_Connack k15) = tr_to_buffers v5_connack_packet_trait k15"
  "gp_to_continuous_buffer (V5_Connack k15) = tr_to_continuous_buffer v5_connack_packet_trait k15"
  "gp_size (V5_Subscribe k16) = tr_size v5_subscribe_packet_trait k16"
  "gp_to_buffers (V5_Subscribe k16) = tr_to_buffers v5_subscribe_packet_trait k16"
  "gp_to_continuous_buffer (V5_Subscribe k16) = tr_to_continuous_buffer v5_subscribe_packet_trait k16"
  "gp_size (V5_Suback k17) = tr_size v5_suback_packet_trait k17"
  "gp_to_buffers (V5_Suback k17) = tr_to_buffers v5_suback_packet_trait k17"
  "gp_to_continuous_buffer (V5_Suback k17) = tr_to_continuous_buffer v5_suback_packet_trait k17"
  "gp_size (V5_Unsubscribe k18) = tr_size v5_unsubscribe_packet_trait k18"
  "gp_to_buffers (V5_Unsubscribe k18) = tr_to_buffers v5_unsubscribe_packet_trait k18"
  "gp_to_continuous_buffer (V5_Unsubscribe k18) = tr_to_continuous_buffer v5_unsubscribe_packet_trait k18"
  "gp_size (V5_Unsuback k19) = tr_size v5_unsuback_packet_trait k19"
  "gp_to_buffers (V5_Unsuback k19) = tr_to_buffers v5_unsuback_packet_trait k19"
  "gp_to_continuous_buffer (V5_Unsuback k19) = tr_to_continuous_buffer v5_unsuback_packet_trait k19"
  "gp_size (V5_Publish k20) = tr_size v5_publish_packet_trait k20"
  "gp_to_buffers (V5_Publish k20) = tr_to_buffers v5_publish_packet_trait k20"
  "gp_to_continuous_buffer (V5_Publish k20) = tr_to_continuous_buffer v5_publish_packet_trait k20"
  "gp_size (V5_Puback k21) = tr_size v5_puback_packet_trait k21"
  "gp_to_buffers (V5_Puback k21) = tr_to_buffers v5_puback_packet_trait k21"
  "gp_to_continuous_buffer (V5_Puback k21) = tr_to_continuous_buffer v5_puback_packet_trait k21"
  "gp_size (V5_Pubrec k22) = tr_size v5_pubrec_packet_trait k22"
  "gp_to_buffers (V5_Pubrec k22) = tr_to_buffers v5_pubrec_packet_trait k22"
  "gp_to_continuous_buffer (V5_Pubrec k22) = tr_to_continuous_buffer v5_pubrec_packet_trait k22"
  "gp_size (V5_Pubrel k23) = tr_size v5_pubrel_packet_trait k23"
  "gp_to_buffers (V5_Pubrel k23) = tr_to_buffers v5_pubrel_packet_trait k23"
  "gp_to_continuous_buffer (V5_Pubrel k23) = tr_to_continuous_buffer v5_pubrel_packet_trait k23"
  "gp_size (V5_Pubcomp k24) = tr_size v5_pubcomp_packet_trait k24"
  "gp_to_buffers (V5_Pubcomp k24) = tr_to_buffers v5_pubcomp_packet_trait k24"
  "gp_to_continuous_buffer (V5_Pubcomp k24) = tr_to_continuous_buffer v5_pubcomp_packet_trait k24"
  "gp_size (V5_Disconnect k25) = tr_size v5_disconnect_packet_trait k25"
  "gp_to_buffers (V5_Disconnect k25) = tr_to_buffers v5_disconnect_packet_trait k25"
  "gp_to_continuous_buffer (V5_Disconnect k25) = tr_to_continuous_buffer v5_disconnect_packet_trait k25"
  "gp_size (V5_Pingreq k26) = tr_size v5_pingreq_packet_trait k26"
  "gp_to_buffers (V5_Pingreq k26) = tr_to_buffers v5_pingreq_packet_trait k26"
  "gp_to_continuous_buffer (V5_Pingreq k26) = tr_to_continuous_buffer v5_pingreq_packet_trait k26"
  "gp_size (V5_Pingresp k27) = tr_size v5_pingresp_packet_trait k27"
  "gp_to_buffers (V5_Pingresp k27) = tr_to_buffers v5_pingresp_packet_trait k27"
  "gp_to_continuous_buffer (V5_Pingresp k27) = tr_to_continuous_buffer v5_pingresp_packet_trait k27"
  "gp_size (V5_Auth k28) = tr_size v5_auth_packet_trait k28"
  "gp_to_buffers (V5_Auth k28) = tr_to_buffers v5_auth_packet_trait k28"
  "gp_to_continuous_buffer (V5_Auth k28) = tr_to_continuous_buffer v5_auth_packet_trait k28"
  by (simp_all add: trait_access v3_subscribe_size_def v3_unsubscribe_size_def v3_suback_size_def
      v3_connect_packet_trait_def v3_connack_packet_trait_def v3_subscribe_packet_trait_def v3_suback_packet_trait_def
      v3_unsubscribe_packet_trait_def v3_unsuback_packet_trait_def v3_publish_packet_trait_def v3_puback_packet_trait_def
      v3_pubrec_packet_trait_def v3_pubrel_packet_trait_def v3_pubcomp_packet_trait_def v3_disconnect_packet_trait_def
      v3_pingreq_packet_trait_def v3_pingresp_packet_trait_def v5_connect_packet_trait_def v5_connack_packet_trait_def
      v5_subscribe_packet_trait_def v5_suback_packet_trait_def v5_unsubscribe_packet_trait_def v5_unsuback_packet_trait_def
      v5_publish_packet_trait_def v5_puback_packet_trait_def v5_pubrec_packet_trait_def v5_pubrel_packet_trait_def
      v5_pubcomp_packet_trait_def v5_disconnect_packet_trait_def v5_pingreq_packet_trait_def v5_pingresp_packet_trait_def
      v5_auth_packet_trait_def)

text \<open>
  The invariant of every packet type, its first byte and its body; and which packet the parser of which
  type reads from a body, with the number of bytes it consumes.
\<close>

primrec packet_inv :: "'p::len word packet \<Rightarrow> bool" where
   "packet_inv (V3_Connect p) = v3_connect_inv p"
| "packet_inv (V3_Connack p) = v3_connack_inv p"
| "packet_inv (V3_Subscribe p) = (v3_entries_inv FH_Subscribe sub_entry_inv sub_entry_to_continuous_buffer) p"
| "packet_inv (V3_Suback p) = (v3_entries_inv FH_Suback return_code_ok (\<lambda>b. [b])) p"
| "packet_inv (V3_Unsubscribe p) = (v3_entries_inv FH_Unsubscribe ms_inv ms_to_continuous_buffer) p"
| "packet_inv (V3_Unsuback p) = v3_unsuback_inv p"
| "packet_inv (V3_Publish p) = v3_publish_inv p"
| "packet_inv (V3_Puback p) = (v3_ack_inv FH_Puback (\<lambda>b. puback_reason_code_try_from b \<noteq> None)) p"
| "packet_inv (V3_Pubrec p) = (v3_ack_inv FH_Pubrec (\<lambda>b. pubrec_reason_code_try_from b \<noteq> None)) p"
| "packet_inv (V3_Pubrel p) = (v3_ack_inv FH_Pubrel (\<lambda>b. pubrel_reason_code_try_from b \<noteq> None)) p"
| "packet_inv (V3_Pubcomp p) = (v3_ack_inv FH_Pubcomp (\<lambda>b. pubcomp_reason_code_try_from b \<noteq> None)) p"
| "packet_inv (V3_Disconnect p) = (v3_empty_inv FH_Disconnect) p"
| "packet_inv (V3_Pingreq p) = (v3_empty_inv FH_Pingreq) p"
| "packet_inv (V3_Pingresp p) = (v3_empty_inv FH_Pingresp) p"
| "packet_inv (V5_Connect p) = v5_connect_inv p"
| "packet_inv (V5_Connack p) = v5_connack_inv p"
| "packet_inv (V5_Subscribe p) = (v5_entries_inv FH_Subscribe validate_subscribe_properties sub_entry_inv sub_entry_to_continuous_buffer) p"
| "packet_inv (V5_Suback p) = (v5_entries_inv FH_Suback validate_suback_properties (\<lambda>b. suback_reason_code_try_from b \<noteq> None) (\<lambda>b. [b])) p"
| "packet_inv (V5_Unsubscribe p) = (v5_entries_inv FH_Unsubscribe validate_unsubscribe_properties ms_inv ms_to_continuous_buffer) p"
| "packet_inv (V5_Unsuback p) = (v5_entries_inv FH_Unsuback validate_unsuback_properties (\<lambda>b. unsuback_reason_code_try_from b \<noteq> None) (\<lambda>b. [b])) p"
| "packet_inv (V5_Publish p) = v5_publish_inv p"
| "packet_inv (V5_Puback p) = (v5_ack_inv FH_Puback (\<lambda>b. puback_reason_code_try_from b \<noteq> None) validate_puback_properties) p"
| "packet_inv (V5_Pubrec p) = (v5_ack_inv FH_Pubrec (\<lambda>b. pubrec_reason_code_try_from b \<noteq> None) validate_pubrec_properties) p"
| "packet_inv (V5_Pubrel p) = (v5_ack_inv FH_Pubrel (\<lambda>b. pubrel_reason_code_try_from b \<noteq> None) validate_pubrel_properties) p"
| "packet_inv (V5_Pubcomp p) = (v5_ack_inv FH_Pubcomp (\<lambda>b. pubcomp_reason_code_try_from b \<noteq> None) validate_pubcomp_properties) p"
| "packet_inv (V5_Disconnect p) = v5_disconnect_inv p"
| "packet_inv (V5_Pingreq p) = (v3_empty_inv FH_Pingreq) p"
| "packet_inv (V5_Pingresp p) = (v3_empty_inv FH_Pingresp) p"
| "packet_inv (V5_Auth p) = v5_auth_inv p"

primrec gp_header :: "'p::len word packet \<Rightarrow> u8" where
   "gp_header (V3_Connect p) = v3c_fixed_header p"
| "gp_header (V3_Connack p) = v3ca_fixed_header p"
| "gp_header (V3_Subscribe p) = v3s_fixed_header p"
| "gp_header (V3_Suback p) = v3s_fixed_header p"
| "gp_header (V3_Unsubscribe p) = v3s_fixed_header p"
| "gp_header (V3_Unsuback p) = v3ua_fixed_header p"
| "gp_header (V3_Publish p) = v3p_fixed_header p"
| "gp_header (V3_Puback p) = v3a_fixed_header p"
| "gp_header (V3_Pubrec p) = v3a_fixed_header p"
| "gp_header (V3_Pubrel p) = v3a_fixed_header p"
| "gp_header (V3_Pubcomp p) = v3a_fixed_header p"
| "gp_header (V3_Disconnect p) = v3e_fixed_header p"
| "gp_header (V3_Pingreq p) = v3e_fixed_header p"
| "gp_header (V3_Pingresp p) = v3e_fixed_header p"
| "gp_header (V5_Connect p) = v5c_fixed_header p"
| "gp_header (V5_Connack p) = v5ca_fixed_header p"
| "gp_header (V5_Subscribe p) = v5s_fixed_header p"
| "gp_header (V5_Suback p) = v5s_fixed_header p"
| "gp_header (V5_Unsubscribe p) = v5s_fixed_header p"
| "gp_header (V5_Unsuback p) = v5s_fixed_header p"
| "gp_header (V5_Publish p) = v5p_fixed_header p"
| "gp_header (V5_Puback p) = v5a_fixed_header p"
| "gp_header (V5_Pubrec p) = v5a_fixed_header p"
| "gp_header (V5_Pubrel p) = v5a_fixed_header p"
| "gp_header (V5_Pubcomp p) = v5a_fixed_header p"
| "gp_header (V5_Disconnect p) = v5r_fixed_header p"
| "gp_header (V5_Pingreq p) = v3e_fixed_header p"
| "gp_header (V5_Pingresp p) = v3e_fixed_header p"
| "gp_header (V5_Auth p) = v5r_fixed_header p"

primrec gp_body :: "'p::len word packet \<Rightarrow> bytes" where
   "gp_body (V3_Connect p) = v3_connect_body p"
| "gp_body (V3_Connack p) = (\<lambda>k. [v3ca_ack_flags k, v3ca_return_code_buf k]) p"
| "gp_body (V3_Subscribe p) = (v3_entries_body sub_entry_to_continuous_buffer) p"
| "gp_body (V3_Suback p) = (v3_entries_body (\<lambda>b. [b])) p"
| "gp_body (V3_Unsubscribe p) = (v3_entries_body ms_to_continuous_buffer) p"
| "gp_body (V3_Unsuback p) = (\<lambda>k. to_buffer (v3ua_packet_id_buf k)) p"
| "gp_body (V3_Publish p) = v3_publish_body p"
| "gp_body (V3_Puback p) = v3_ack_body p"
| "gp_body (V3_Pubrec p) = v3_ack_body p"
| "gp_body (V3_Pubrel p) = v3_ack_body p"
| "gp_body (V3_Pubcomp p) = v3_ack_body p"
| "gp_body (V3_Disconnect p) = (\<lambda>_. []) p"
| "gp_body (V3_Pingreq p) = (\<lambda>_. []) p"
| "gp_body (V3_Pingresp p) = (\<lambda>_. []) p"
| "gp_body (V5_Connect p) = v5_connect_body p"
| "gp_body (V5_Connack p) = v5_connack_body p"
| "gp_body (V5_Subscribe p) = (v5_entries_body sub_entry_to_continuous_buffer) p"
| "gp_body (V5_Suback p) = (v5_entries_body (\<lambda>b. [b])) p"
| "gp_body (V5_Unsubscribe p) = (v5_entries_body ms_to_continuous_buffer) p"
| "gp_body (V5_Unsuback p) = (v5_entries_body (\<lambda>b. [b])) p"
| "gp_body (V5_Publish p) = v5_publish_body p"
| "gp_body (V5_Puback p) = v5_ack_body p"
| "gp_body (V5_Pubrec p) = v5_ack_body p"
| "gp_body (V5_Pubrel p) = v5_ack_body p"
| "gp_body (V5_Pubcomp p) = v5_ack_body p"
| "gp_body (V5_Disconnect p) = v5_reason_packet_body p"
| "gp_body (V5_Pingreq p) = (\<lambda>_. []) p"
| "gp_body (V5_Pingresp p) = (\<lambda>_. []) p"
| "gp_body (V5_Auth p) = v5_reason_packet_body p"

inductive reads :: "u8 \<Rightarrow> bytes \<Rightarrow> 'p::len word packet \<Rightarrow> nat \<Rightarrow> bool" where
   "v3_connect_parse flags bs = Ret (Ok (k, n)) \<Longrightarrow> reads flags bs (V3_Connect k) n"
| "v3_connack_parse flags bs = Ret (Ok (k, n)) \<Longrightarrow> reads flags bs (V3_Connack k) n"
| "v3_subscribe_parse flags bs = Ret (Ok (k, n)) \<Longrightarrow> reads flags bs (V3_Subscribe k) n"
| "v3_suback_parse flags bs = Ret (Ok (k, n)) \<Longrightarrow> reads flags bs (V3_Suback k) n"
| "v3_unsubscribe_parse flags bs = Ret (Ok (k, n)) \<Longrightarrow> reads flags bs (V3_Unsubscribe k) n"
| "v3_unsuback_parse flags bs = Ret (Ok (k, n)) \<Longrightarrow> reads flags bs (V3_Unsuback k) n"
| "v3_publish_parse flags bs = Ret (Ok (k, n)) \<Longrightarrow> reads flags bs (V3_Publish k) n"
| "v3_puback_parse flags bs = Ret (Ok (k, n)) \<Longrightarrow> reads flags bs (V3_Puback k) n"
| "v3_pubrec_parse flags bs = Ret (Ok (k, n)) \<Longrightarrow> reads flags bs (V3_Pubrec k) n"
| "v3_pubrel_parse flags bs = Ret (Ok (k, n)) \<Longrightarrow> reads flags bs (V3_Pubrel k) n"
| "v3_pubcomp_parse flags bs = Ret (Ok (k, n)) \<Longrightarrow> reads flags bs (V3_Pubcomp k) n"
| "v3_disconnect_parse flags bs = Ret (Ok (k, n)) \<Longrightarrow> reads flags bs (V3_Disconnect k) n"
| "v3_pingreq_parse flags bs = Ret (Ok (k, n)) \<Longrightarrow> reads flags bs (V3_Pingreq k) n"
| "v3_pingresp_parse flags bs = Ret (Ok (k, n)) \<Longrightarrow> reads flags bs (V3_Pingresp k) n"
| "v5_connect_parse flags bs = Ret (Ok (k, n)) \<Longrightarrow> reads flags bs (V5_Connect k) n"
| "v5_connack_parse flags bs = Ret (Ok (k, n)) \<Longrightarrow> reads flags bs (V5_Connack k) n"
| "v5_subscribe_parse flags bs = Ret (Ok (k, n)) \<Longrightarrow> reads flags bs (V5_Subscribe k) n"
| "v5_suback_parse flags bs = Ret (Ok (k, n)) \<Longrightarrow> reads flags bs (V5_Suback k) n"
| "v5_unsubscribe_parse flags bs = Ret (Ok (k, n)) \<Longrightarrow> reads flags bs (V5_Unsubscribe k) n"
| "v5_unsuback_parse flags bs = Ret (Ok (k, n)) \<Longrightarrow> reads flags bs (V5_Unsuback k) n"
| "v5_publish_parse flags bs = Ret (Ok (k, n)) \<Longrightarrow> reads flags bs (V5_Publish k) n"
| "v5_puback_parse flags bs = Ret (Ok (k, n)) \<Longrightarrow> reads flags bs (V5_Puback k) n"
| "v5_pubrec_parse flags bs = Ret (Ok (k, n)) \<Longrightarrow> reads flags bs (V5_Pubrec k) n"
| "v5_pubrel_parse flags bs = Ret (Ok (k, n)) \<Longrightarrow> reads flags bs (V5_Pubrel k) n"
| "v5_pubcomp_parse flags bs = Ret (Ok (k, n)) \<Longrightarrow> reads flags bs (V5_Pubcomp k) n"
| "v5_disconnect_parse flags bs = Ret (Ok (k, n)) \<Longrightarrow> reads flags bs (V5_Disconnect k) n"
| "v5_pingreq_parse flags bs = Ret (Ok (k, n)) \<Longrightarrow> reads flags bs (V5_Pingreq k) n"
| "v5_pingresp_parse flags bs = Ret (Ok (k, n)) \<Longrightarrow> reads flags bs (V5_Pingresp k) n"
| "v5_auth_parse flags bs = Ret (Ok (k, n)) \<Longrightarrow> reads flags bs (V5_Auth k) n"

inductive_simps reads_simps:
  "reads flags bs (V3_Connect k) n"
  "reads flags bs (V3_Connack k) n"
  "reads flags bs (V3_Subscribe k) n"
  "reads flags bs (V3_Suback k) n"
  "reads flags bs (V3_Unsubscribe k) n"
  "reads flags bs (V3_Unsuback k) n"
  "reads flags bs (V3_Publish k) n"
  "reads flags bs (V3_Puback k) n"
  "reads flags bs (V3_Pubrec k) n"
  "reads flags bs (V3_Pubrel k) n"
  "reads flags bs (V3_Pubcomp k) n"
  "reads flags bs (V3_Disconnect k) n"
  "reads flags bs (V3_Pingreq k) n"
  "reads flags bs (V3_Pingresp k) n"
  "reads flags bs (V5_Connect k) n"
  "reads flags bs (V5_Connack k) n"
  "reads flags bs (V5_Subscribe k) n"
  "reads flags bs (V5_Suback k) n"
  "reads flags bs (V5_Unsubscribe k) n"
  "reads flags bs (V5_Unsuback k) n"
  "reads flags bs (V5_Publish k) n"
  "reads flags bs (V5_Puback k) n"
  "reads flags bs (V5_Pubrec k) n"
  "reads flags bs (V5_Pubrel k) n"
  "reads flags bs (V5_Pubcomp k) n"
  "reads flags bs (V5_Disconnect k) n"
  "reads flags bs (V5_Pingreq k) n"
  "reads flags bs (V5_Pingresp k) n"
  "reads flags bs (V5_Auth k) n"

lemma wire_facts:
  assumes "packet_wire ok hdr body buf sz parse" and "ok k"
  shows "buf k = hdr k # vbi_enc (length (body k)) @ body k \<and> length (body k) < 268435456 \<and> sz k = length (buf k)
    \<and> parse (hdr k AND 0x0F) (body k) = Ret (Ok (k, length (body k)))"
  using packet_wire.buf_eq [OF assms] packet_wire.body_len [OF assms] packet_wire.size_eq [OF assms] packet_wire.parse_body [OF assms]
  by simp

definition sends_back :: "'p::len word packet \<Rightarrow> bool" where
  "sends_back p \<longleftrightarrow> gp_to_continuous_buffer p = gp_header p # vbi_enc (length (gp_body p)) @ gp_body p
     \<and> length (gp_body p) < 268435456 \<and> gp_size p = length (gp_to_continuous_buffer p)
     \<and> reads (gp_header p AND 0x0F) (gp_body p) p (length (gp_body p))"

lemmas ack_parsers = v3_puback_parse_def v3_pubrec_parse_def v3_pubrel_parse_def v3_pubcomp_parse_def
  v5_puback_parse_def v5_pubrec_parse_def v5_pubrel_parse_def v5_pubcomp_parse_def

lemma inv_sends_back:
  assumes w: "packet_id_width TYPE('p::len)" and "packet_inv (p :: 'p word packet)"
  shows "sends_back p"

proof (cases p)
  case (V3_Connect k)
  then show ?thesis using assms(2) wire_facts [OF v3_connect.packet_wire_axioms, where k = k] by (simp add: sends_back_def reads_simps)
next
  case (V3_Connack k)
  then show ?thesis using assms(2) wire_facts [OF v3_connack.packet_wire_axioms, where k = k] by (simp add: sends_back_def reads_simps)
next
  case (V3_Subscribe k)
  then show ?thesis using assms(2) wire_facts [OF packet_codec.axioms(1) [OF v3_subscribe_codec [OF w]], where k = k] by (simp add: sends_back_def reads_simps)
next
  case (V3_Suback k)
  then show ?thesis using assms(2) wire_facts [OF packet_codec.axioms(1) [OF v3_suback_codec [OF w]], where k = k] by (simp add: sends_back_def reads_simps)
next
  case (V3_Unsubscribe k)
  then show ?thesis using assms(2) wire_facts [OF packet_codec.axioms(1) [OF v3_unsubscribe_codec [OF w]], where k = k] by (simp add: sends_back_def reads_simps)
next
  case (V3_Unsuback k)
  then show ?thesis using assms(2) wire_facts [OF packet_codec.axioms(1) [OF v3_unsuback_codec [OF w]], where k = k] by (simp add: sends_back_def reads_simps)
next
  case (V3_Publish k)
  then show ?thesis using assms(2) wire_facts [OF packet_codec.axioms(1) [OF v3_publish_codec [OF w]], where k = k] by (simp add: sends_back_def reads_simps)
next
  case (V3_Puback k)
  then show ?thesis using assms(2) wire_facts [OF packet_codec.axioms(1) [OF v3_ack_codec [OF w]], where k = k] by (simp add: sends_back_def reads_simps ack_parsers)
next
  case (V3_Pubrec k)
  then show ?thesis using assms(2) wire_facts [OF packet_codec.axioms(1) [OF v3_ack_codec [OF w]], where k = k] by (simp add: sends_back_def reads_simps ack_parsers)
next
  case (V3_Pubrel k)
  then show ?thesis using assms(2) wire_facts [OF packet_codec.axioms(1) [OF v3_ack_codec [OF w]], where k = k] by (simp add: sends_back_def reads_simps ack_parsers)
next
  case (V3_Pubcomp k)
  then show ?thesis using assms(2) wire_facts [OF packet_codec.axioms(1) [OF v3_ack_codec [OF w]], where k = k] by (simp add: sends_back_def reads_simps ack_parsers)
next
  case (V3_Disconnect k)
  then show ?thesis using assms(2) wire_facts [OF v3_disconnect.packet_wire_axioms, where k = k] by (simp add: sends_back_def reads_simps)
next
  case (V3_Pingreq k)
  then show ?thesis using assms(2) wire_facts [OF v3_pingreq.packet_wire_axioms, where k = k] by (simp add: sends_back_def reads_simps)
next
  case (V3_Pingresp k)
  then show ?thesis using assms(2) wire_facts [OF v3_pingresp.packet_wire_axioms, where k = k] by (simp add: sends_back_def reads_simps)
next
  case (V5_Connect k)
  then show ?thesis using assms(2) wire_facts [OF v5_connect.packet_wire_axioms, where k = k] by (simp add: sends_back_def reads_simps)
next
  case (V5_Connack k)
  then show ?thesis using assms(2) wire_facts [OF v5_connack.packet_wire_axioms, where k = k] by (simp add: sends_back_def reads_simps)
next
  case (V5_Subscribe k)
  then show ?thesis using assms(2) wire_facts [OF v5_subscribe_wire [OF w], where k = k] by (simp add: sends_back_def reads_simps)
next
  case (V5_Suback k)
  then show ?thesis using assms(2) wire_facts [OF v5_suback_wire [OF w], where k = k] by (simp add: sends_back_def reads_simps)
next
  case (V5_Unsubscribe k)
  then show ?thesis using assms(2) wire_facts [OF v5_unsubscribe_wire [OF w], where k = k] by (simp add: sends_back_def reads_simps)
next
  case (V5_Unsuback k)
  then show ?thesis using assms(2) wire_facts [OF v5_unsuback_wire [OF w], where k = k] by (simp add: sends_back_def reads_simps)
next
  case (V5_Publish k)
  then show ?thesis using assms(2) wire_facts [OF packet_codec.axioms(1) [OF v5_publish_codec [OF w]], where k = k] by (simp add: sends_back_def reads_simps)
next
  case (V5_Puback k)
  then show ?thesis using assms(2) wire_facts [OF packet_codec.axioms(1) [OF v5_ack_codec [OF w]], where k = k] by (simp add: sends_back_def reads_simps ack_parsers)
next
  case (V5_Pubrec k)
  then show ?thesis using assms(2) wire_facts [OF packet_codec.axioms(1) [OF v5_ack_codec [OF w]], where k = k] by (simp add: sends_back_def reads_simps ack_parsers)
next
  case (V5_Pubrel k)
  then show ?thesis using assms(2) wire_facts [OF packet_codec.axioms(1) [OF v5_ack_codec [OF w]], where k = k] by (simp add: sends_back_def reads_simps ack_parsers)
next
  case (V5_Pubcomp k)
  then show ?thesis using assms(2) wire_facts [OF packet_codec.axioms(1) [OF v5_ack_codec [OF w]], where k = k] by (simp add: sends_back_def reads_simps ack_parsers)
next
  case (V5_Disconnect k)
  then show ?thesis using assms(2) wire_facts [OF v5_disconnect.packet_wire_axioms, where k = k] by (simp add: sends_back_def reads_simps)
next
  case (V5_Pingreq k)
  then show ?thesis using assms(2) wire_facts [OF v3_pingreq.packet_wire_axioms, where k = k] by (simp add: sends_back_def reads_simps v5_pings)
next
  case (V5_Pingresp k)
  then show ?thesis using assms(2) wire_facts [OF v3_pingresp.packet_wire_axioms, where k = k] by (simp add: sends_back_def reads_simps v5_pings)
next
  case (V5_Auth k)
  then show ?thesis using assms(2) wire_facts [OF v5_auth.packet_wire_axioms, where k = k] by (simp add: sends_back_def reads_simps)
qed
section \<open>What is received\<close>

text \<open>The six types of v5.0 whose parser keeps the number of bytes it consumed as the remaining length.\<close>

primrec counts_bytes_read :: "'p::len word packet \<Rightarrow> bool" where
   "counts_bytes_read (V3_Connect p) = False"
| "counts_bytes_read (V3_Connack p) = False"
| "counts_bytes_read (V3_Subscribe p) = False"
| "counts_bytes_read (V3_Suback p) = False"
| "counts_bytes_read (V3_Unsubscribe p) = False"
| "counts_bytes_read (V3_Unsuback p) = False"
| "counts_bytes_read (V3_Publish p) = False"
| "counts_bytes_read (V3_Puback p) = False"
| "counts_bytes_read (V3_Pubrec p) = False"
| "counts_bytes_read (V3_Pubrel p) = False"
| "counts_bytes_read (V3_Pubcomp p) = False"
| "counts_bytes_read (V3_Disconnect p) = False"
| "counts_bytes_read (V3_Pingreq p) = False"
| "counts_bytes_read (V3_Pingresp p) = False"
| "counts_bytes_read (V5_Connect p) = True"
| "counts_bytes_read (V5_Connack p) = True"
| "counts_bytes_read (V5_Subscribe p) = True"
| "counts_bytes_read (V5_Suback p) = True"
| "counts_bytes_read (V5_Unsubscribe p) = True"
| "counts_bytes_read (V5_Unsuback p) = True"
| "counts_bytes_read (V5_Publish p) = False"
| "counts_bytes_read (V5_Puback p) = False"
| "counts_bytes_read (V5_Pubrec p) = False"
| "counts_bytes_read (V5_Pubrel p) = False"
| "counts_bytes_read (V5_Pubcomp p) = False"
| "counts_bytes_read (V5_Disconnect p) = False"
| "counts_bytes_read (V5_Pingreq p) = False"
| "counts_bytes_read (V5_Pingresp p) = False"
| "counts_bytes_read (V5_Auth p) = False"

lemma read_inv:
  assumes w: "packet_id_width TYPE('p::len)" and "reads flags bs (p :: 'p word packet) n" and "length bs < 268435456"
    and "\<not> counts_bytes_read p"
  shows "packet_inv p"
proof (cases p)
  case (V3_Connect k)
  then show ?thesis using assms(2) v3_connect.parse_inv [OF assms(3), where k = k] by (simp add: reads_simps)
next
  case (V3_Connack k)
  then show ?thesis using assms(2) v3_connack.parse_inv [OF assms(3), where k = k] by (simp add: reads_simps)
next
  case (V3_Subscribe k)
  then show ?thesis using assms(2) packet_codec.parse_inv [OF v3_subscribe_codec [OF w] assms(3), where k = k] by (simp add: reads_simps)
next
  case (V3_Suback k)
  then show ?thesis using assms(2) packet_codec.parse_inv [OF v3_suback_codec [OF w] assms(3), where k = k] by (simp add: reads_simps)
next
  case (V3_Unsubscribe k)
  then show ?thesis using assms(2) packet_codec.parse_inv [OF v3_unsubscribe_codec [OF w] assms(3), where k = k] by (simp add: reads_simps)
next
  case (V3_Unsuback k)
  then show ?thesis using assms(2) packet_codec.parse_inv [OF v3_unsuback_codec [OF w] assms(3), where k = k] by (simp add: reads_simps)
next
  case (V3_Publish k)
  then show ?thesis using assms(2) packet_codec.parse_inv [OF v3_publish_codec [OF w] assms(3), where k = k] by (simp add: reads_simps)
next
  case (V3_Puback k)
  then show ?thesis using assms(2) packet_codec.parse_inv [OF v3_ack_codec [OF w] assms(3), where k = k] by (simp add: reads_simps ack_parsers)
next
  case (V3_Pubrec k)
  then show ?thesis using assms(2) packet_codec.parse_inv [OF v3_ack_codec [OF w] assms(3), where k = k] by (simp add: reads_simps ack_parsers)
next
  case (V3_Pubrel k)
  then show ?thesis using assms(2) packet_codec.parse_inv [OF v3_ack_codec [OF w] assms(3), where k = k] by (simp add: reads_simps ack_parsers)
next
  case (V3_Pubcomp k)
  then show ?thesis using assms(2) packet_codec.parse_inv [OF v3_ack_codec [OF w] assms(3), where k = k] by (simp add: reads_simps ack_parsers)
next
  case (V3_Disconnect k)
  then show ?thesis using assms(2) v3_disconnect.parse_inv [OF assms(3), where k = k] by (simp add: reads_simps)
next
  case (V3_Pingreq k)
  then show ?thesis using assms(2) v3_pingreq.parse_inv [OF assms(3), where k = k] by (simp add: reads_simps)
next
  case (V3_Pingresp k)
  then show ?thesis using assms(2) v3_pingresp.parse_inv [OF assms(3), where k = k] by (simp add: reads_simps)
next
  case (V5_Connect k)
  then show ?thesis using assms(4) by simp
next
  case (V5_Connack k)
  then show ?thesis using assms(4) by simp
next
  case (V5_Subscribe k)
  then show ?thesis using assms(4) by simp
next
  case (V5_Suback k)
  then show ?thesis using assms(4) by simp
next
  case (V5_Unsubscribe k)
  then show ?thesis using assms(4) by simp
next
  case (V5_Unsuback k)
  then show ?thesis using assms(4) by simp
next
  case (V5_Publish k)
  then show ?thesis using assms(2) packet_codec.parse_inv [OF v5_publish_codec [OF w] assms(3), where k = k] by (simp add: reads_simps)
next
  case (V5_Puback k)
  then show ?thesis using assms(2) packet_codec.parse_inv [OF v5_ack_codec [OF w] assms(3), where k = k] by (simp add: reads_simps ack_parsers)
next
  case (V5_Pubrec k)
  then show ?thesis using assms(2) packet_codec.parse_inv [OF v5_ack_codec [OF w] assms(3), where k = k] by (simp add: reads_simps ack_parsers)
next
  case (V5_Pubrel k)
  then show ?thesis using assms(2) packet_codec.parse_inv [OF v5_ack_codec [OF w] assms(3), where k = k] by (simp add: reads_simps ack_parsers)
next
  case (V5_Pubcomp k)
  then show ?thesis using assms(2) packet_codec.parse_inv [OF v5_ack_codec [OF w] assms(3), where k = k] by (simp add: reads_simps ack_parsers)
next
  case (V5_Disconnect k)
  then show ?thesis using assms(2) v5_disconnect.parse_inv [OF assms(3), where k = k] by (simp add: reads_simps)
next
  case (V5_Pingreq k)
  then show ?thesis using assms(2) v3_pingreq.parse_inv [OF assms(3), where k = k] by (simp add: reads_simps v5_pings)
next
  case (V5_Pingresp k)
  then show ?thesis using assms(2) v3_pingresp.parse_inv [OF assms(3), where k = k] by (simp add: reads_simps v5_pings)
next
  case (V5_Auth k)
  then show ?thesis using assms(2) v5_auth.parse_inv [OF assms(3), where k = k] by (simp add: reads_simps)
qed

text \<open>A packet as such a parser makes it: \<open>m\<close> bytes were read, and the body written is not longer.\<close>

lemma size_tells:
  assumes "rl = \<lparr>encoded = vbi_enc m\<rparr>" and "m < 268435456" and "length body \<le> m"
  shows "length (h # encoded rl @ body) \<le> packet_size_of rl"
    and "packet_size_of rl = length (h # encoded rl @ body) \<longleftrightarrow> length body = m"
  using assms by (auto simp: packet_size_of_enc)

lemma connack_read:
  assumes "v5_connack_parse flags bs = Ret (Ok (k, n))" and "length bs < 268435456"
  shows "v5ca_remaining_length k = \<lparr>encoded = vbi_enc n\<rparr> \<and> n < 268435456 \<and> length (v5_connack_body k) \<le> n
    \<and> v5_connack_to_continuous_buffer k = v5ca_fixed_header k # encoded (v5ca_remaining_length k) @ v5_connack_body k
    \<and> (length (v5_connack_body k) = n \<longrightarrow> v5_connack_inv k)"
proof -
  from assms(1) obtain ps c rl pl where len: "\<not> length bs < 3" and code: "connect_reason_code_try_from (bs ! 1) \<noteq> None"
    and p: "properties_parse (drop 2 bs) = Ok (ps, c)" and v: "validate_connack_properties ps = Ok ()"
    and pl: "vbi_of (properties_size ps) = Ret pl" and rl: "vbi_of (2 + c) = Ret rl"
    and k: "k = \<lparr>v5ca_fixed_header = fixed_header_as_u8 FH_Connack, v5ca_remaining_length = rl, v5ca_ack_flags = bs ! 0,
      v5ca_reason_code_buf = bs ! 1, v5ca_property_length = pl, v5ca_props = ps\<rparr>" and n: "n = 2 + c"
    by (auto simp: v5_connack_parse_eq Let_def tbind_eq_Ok rbind_eq_Ret ok_or_def split: if_splits option.splits)
  note o = properties_parse_OkD [OF p]
  have "2 + c < 268435456" using o assms(2) len by auto
  moreover from this have "rl = \<lparr>encoded = vbi_enc n\<rparr>" using rl n by (simp add: vbi_of_Ret)
  moreover have "pl = \<lparr>encoded = vbi_enc (properties_size ps)\<rparr>" using pl o by (simp add: vbi_of_Ret properties_inv_def)
  ultimately show ?thesis
    using o v code k n
    by (auto simp: v5_connack_body_def v5_connack_to_continuous_buffer_def v5_connack_inv_def properties_wire_def)
qed

lemma entries_read:
  fixes loop :: "bytes \<Rightarrow> nat \<Rightarrow> 'e list \<Rightarrow> ('e list \<times> nat, mqtt_error) result"
  assumes "v5_entries_parse fh val (returning loop) sz flags bs = Ret (Ok (k :: ('p::len word, 'e) v5_entries_packet, n))"
    and "length bs < 268435456"
    and snd: "\<And>data c xs n. loop data c [] = Ok (xs, n) \<Longrightarrow> c \<le> length data \<Longrightarrow>
        list_all ok xs \<and> n = length data \<and> length (concat (map enc xs)) = length data - c"
    and sz: "\<And>e. sz e = length (enc e)"
  shows "v5s_remaining_length k = \<lparr>encoded = vbi_enc n\<rparr> \<and> n < 268435456 \<and> length (v5_entries_body enc k) \<le> n
    \<and> v5_entries_to_continuous_buffer enc k = v5s_fixed_header k # encoded (v5s_remaining_length k) @ v5_entries_body enc k
    \<and> (length (v5_entries_body enc k) = n \<longrightarrow> v5_entries_inv fh val ok enc k)"
proof -
  let ?b = "pid_size TYPE('p)"
  from assms(1) obtain ps c es rl pl where len: "\<not> length bs < ?b"
    and p: "properties_parse (drop ?b bs) = Ok (ps, c)" and v: "val ps = Ok ()" and e: "es \<noteq> []"
    and pl: "vbi_of (properties_size ps) = Ret pl" and l: "loop bs (?b + c) [] = Ok (es, n)"
    and rl: "vbi_of (?b + c + sum_list (map sz es)) = Ret rl"
    and k: "k = \<lparr>v5s_fixed_header = fixed_header_as_u8 fh, v5s_remaining_length = rl,
      v5s_packet_id_buf = from_buffer (take ?b bs), v5s_property_length = pl, v5s_props = ps, v5s_entries = es\<rparr>"
    by (auto simp: v5_entries_parse_eq Let_def tbind_eq_Ok rbind_eq_Ret split: if_splits)
  note o = properties_parse_OkD [OF p]
  have c: "?b + c \<le> length bs" using o len by auto
  note s = snd [OF l c]
  have n: "?b + c + sum_list (map sz es) = n" using s c by (simp add: sum_enc_size [of sz enc, OF sz])
  have "n < 268435456" using s assms(2) by simp
  moreover from this have "rl = \<lparr>encoded = vbi_enc n\<rparr>" using rl n by (simp add: vbi_of_Ret)
  moreover have "pl = \<lparr>encoded = vbi_enc (properties_size ps)\<rparr>" using pl o by (simp add: vbi_of_Ret properties_inv_def)
  moreover have "length (concat (map enc es)) = n - (?b + c)" using s by simp
  ultimately show ?thesis
    using o s v e k c
    by (auto simp: v5_entries_body_def v5_entries_to_continuous_buffer_def v5_entries_inv_def properties_wire_def
        simp del: length_concat)
qed

lemma props_read:
  assumes "field_if f (props_validated val) [] data c = Ok (ps, c')" and "c \<le> length data" and "val [] = Ok ()"
  shows "properties_inv ps \<and> val ps = Ok () \<and> (\<not> f \<longrightarrow> ps = []) \<and> c' \<le> length data
    \<and> c + length (if f then properties_wire ps else []) \<le> c'"
  using assms
  by (auto simp: field_if_def props_validated_def res_bind_eq_Ok properties_inv_def properties_size_def split: if_splits
      dest!: properties_parse_OkD)

lemma connect_read:
  assumes "v5_connect_parse flags bs = Ret (Ok (k, n))" and "length bs < 268435456"
  shows "v5c_remaining_length k = \<lparr>encoded = vbi_enc n\<rparr> \<and> n < 268435456 \<and> length (v5_connect_body k) \<le> n
    \<and> v5_connect_to_continuous_buffer k = v5c_fixed_header k # encoded (v5c_remaining_length k) @ v5_connect_body k
    \<and> (length (v5_connect_body k) = n \<longrightarrow> v5_connect_inv k)"
proof -
  let ?w = "cf_will (bs ! 7)" and ?u = "cf_user_name (bs ! 7)" and ?p = "cf_password (bs ! 7)"
  from assms(1) obtain ps c0 cid c1 wps cw wt c2 wp c3 un c4 pw rl pl wpl where len: "\<not> length bs < 10"
    and name: "take 6 bs = mqtt_protocol_name" and version: "bs ! 6 = 0x05"
    and fp: "field_if True (props_validated validate_connect_properties) [] bs 10 = Ok (ps, c0)"
    and f1: "field_if True (or_err ms_decode ClientIdentifierNotValid) ms_default bs c0 = Ok (cid, c1)"
    and fw: "field_if ?w (props_validated validate_will_properties) [] bs c1 = Ok (wps, cw)"
    and f2: "field_if ?w ms_decode ms_default bs cw = Ok (wt, c2)"
    and f3: "field_if ?w mb_decode mb_default bs c2 = Ok (wp, c3)"
    and f4: "field_if ?u (or_err ms_decode BadUserNameOrPassword) ms_default bs c3 = Ok (un, c4)"
    and f5: "field_if ?p (or_err mb_decode BadUserNameOrPassword) mb_default bs c4 = Ok (pw, n)"
    and fl: "\<not> (?p \<and> \<not> ?u)" and pl: "vbi_of (properties_size ps) = Ret pl" "vbi_of (properties_size wps) = Ret wpl"
    and rl: "vbi_of n = Ret rl"
    and k: "k = \<lparr>v5c_fixed_header = fixed_header_as_u8 FH_Connect, v5c_remaining_length = rl,
      v5c_protocol_name = take 6 bs, v5c_protocol_version_buf = bs ! 6, v5c_connect_flags_buf = bs ! 7,
      v5c_keep_alive_buf = take 2 (drop 8 bs), v5c_property_length = pl, v5c_props = ps, v5c_client_id_buf = cid,
      v5c_will_property_length = wpl, v5c_will_props = wps, v5c_will_topic_buf = wt, v5c_will_payload_buf = wp,
      v5c_user_name_buf = un, v5c_password_buf = pw\<rparr>"
    by (simp add: v5_connect_parse_eq Let_def tbind_eq_Ok rbind_eq_Ret split: if_splits) blast
  have empty: "validate_connect_properties [] = Ok ()" "validate_will_properties [] = Ok ()"
    by (simp_all add: validate_connect_properties_def validate_will_properties_def validate_properties_def count_id_def)
  have "10 \<le> length bs" using len by simp
  note o0 = props_read [OF fp this empty(1)]
  have "c0 \<le> length bs" using o0 by blast
  note o1 = ms_or_err.field_OkD [OF f1 this]
  have "c1 \<le> length bs" using o1 by blast
  note ow = props_read [OF fw this empty(2)]
  have "cw \<le> length bs" using ow by blast
  note o2 = ms_strict.field_OkD [OF f2 this]
  have "c2 \<le> length bs" using o2 by blast
  note o3 = mb_strict.field_OkD [OF f3 this]
  have "c3 \<le> length bs" using o3 by blast
  note o4 = ms_or_err.field_OkD [OF f4 this]
  have "c4 \<le> length bs" using o4 by blast
  note o5 = mb_or_err.field_OkD [OF f5 this]
  have n: "n < 268435456" using o5 assms(2) by linarith
  have enc: "rl = \<lparr>encoded = vbi_enc n\<rparr>" "pl = \<lparr>encoded = vbi_enc (properties_size ps)\<rparr>"
    "wpl = \<lparr>encoded = vbi_enc (properties_size wps)\<rparr>"
    using rl pl n o0 ow by (simp_all add: vbi_of_Ret properties_inv_def)
  have body: "length (v5_connect_body k) = 10 + length (properties_wire ps) + length (ms_to_continuous_buffer cid)
      + length (if ?w then properties_wire wps else []) + length (if ?w then ms_to_continuous_buffer wt else [])
      + length (if ?w then mb_to_continuous_buffer wp else []) + length (if ?u then ms_to_continuous_buffer un else [])
      + length (if ?p then mb_to_continuous_buffer pw else [])"
    using len by (simp add: k v5_connect_body_def v5_connect_fields_def v5_flag_defs)
  have le: "length (v5_connect_body k) \<le> n"
    using o0 o1 ow o2 o3 o4 o5 unfolding body by simp
  have buf: "v5_connect_to_continuous_buffer k = v5c_fixed_header k # encoded (v5c_remaining_length k) @ v5_connect_body k"
    by (simp add: k enc v5_connect_to_continuous_buffer_def v5_connect_body_def v5_connect_fields_def v5_flag_defs properties_wire_def)
  have keep: "min (length bs - 8) 2 = 2" using len by simp
  have "v5_connect_inv k" if "length (v5_connect_body k) = n"
    using that n enc o0 o1 ow o2 o3 o4 o5 fl name version keep
    by (simp add: v5_connect_inv_def k v5_flag_defs)
  then show ?thesis using n le buf by (simp add: k enc)
qed

lemmas v5_entries_parsers = v5_subscribe_parse_eq v5_unsubscribe_parse_eq v5_suback_parse_eq v5_unsuback_parse_eq

lemma subscription_read:
  "v5_subscribe_parse flags bs = Ret (Ok (s, n)) \<Longrightarrow> length bs < 268435456 \<Longrightarrow>
    v5s_remaining_length s = \<lparr>encoded = vbi_enc n\<rparr> \<and> n < 268435456 \<and> length (v5_entries_body sub_entry_to_continuous_buffer s) \<le> n
    \<and> v5_entries_to_continuous_buffer sub_entry_to_continuous_buffer s
        = v5s_fixed_header s # encoded (v5s_remaining_length s) @ v5_entries_body sub_entry_to_continuous_buffer s
    \<and> (length (v5_entries_body sub_entry_to_continuous_buffer s) = n \<longrightarrow>
        v5_entries_inv FH_Subscribe validate_subscribe_properties sub_entry_inv sub_entry_to_continuous_buffer s)"
  "v5_unsubscribe_parse flags bs = Ret (Ok (u, n)) \<Longrightarrow> length bs < 268435456 \<Longrightarrow>
    v5s_remaining_length u = \<lparr>encoded = vbi_enc n\<rparr> \<and> n < 268435456 \<and> length (v5_entries_body ms_to_continuous_buffer u) \<le> n
    \<and> v5_entries_to_continuous_buffer ms_to_continuous_buffer u
        = v5s_fixed_header u # encoded (v5s_remaining_length u) @ v5_entries_body ms_to_continuous_buffer u
    \<and> (length (v5_entries_body ms_to_continuous_buffer u) = n \<longrightarrow>
        v5_entries_inv FH_Unsubscribe validate_unsubscribe_properties ms_inv ms_to_continuous_buffer u)"
  unfolding v5_entries_parsers
  by (rule entries_read, assumption, assumption, use sub_entries.loop_sound sub_entries.loop_len in \<open>simp del: length_concat\<close>,
      simp add: sub_entry_size_eq)
    (rule entries_read, assumption, assumption, use string_entries.loop_sound string_entries.loop_len in \<open>simp del: length_concat\<close>, simp)

lemma subscription_ack_read:
  "v5_suback_parse flags bs = Ret (Ok (k, n)) \<Longrightarrow> length bs < 268435456 \<Longrightarrow>
    v5s_remaining_length k = \<lparr>encoded = vbi_enc n\<rparr> \<and> n < 268435456 \<and> length (v5_entries_body (\<lambda>b. [b]) k) \<le> n
    \<and> v5_entries_to_continuous_buffer (\<lambda>b. [b]) k
        = v5s_fixed_header k # encoded (v5s_remaining_length k) @ v5_entries_body (\<lambda>b. [b]) k
    \<and> (length (v5_entries_body (\<lambda>b. [b]) k) = n \<longrightarrow>
        v5_entries_inv FH_Suback validate_suback_properties (\<lambda>b. suback_reason_code_try_from b \<noteq> None) (\<lambda>b. [b]) k)"
  "v5_unsuback_parse flags bs = Ret (Ok (k, n)) \<Longrightarrow> length bs < 268435456 \<Longrightarrow>
    v5s_remaining_length k = \<lparr>encoded = vbi_enc n\<rparr> \<and> n < 268435456 \<and> length (v5_entries_body (\<lambda>b. [b]) k) \<le> n
    \<and> v5_entries_to_continuous_buffer (\<lambda>b. [b]) k
        = v5s_fixed_header k # encoded (v5s_remaining_length k) @ v5_entries_body (\<lambda>b. [b]) k
    \<and> (length (v5_entries_body (\<lambda>b. [b]) k) = n \<longrightarrow>
        v5_entries_inv FH_Unsuback validate_unsuback_properties (\<lambda>b. unsuback_reason_code_try_from b \<noteq> None) (\<lambda>b. [b]) k)"
  unfolding v5_entries_parsers
  by (rule entries_read, assumption, assumption, use reason_codes.loop_sound reason_codes.loop_len in \<open>simp del: length_concat\<close>, simp)+

lemma read_size:
  assumes w: "packet_id_width TYPE('p::len)" and r: "reads flags bs (p :: 'p word packet) n" and l: "length bs < 268435456"
  shows "length (gp_to_continuous_buffer p) \<le> gp_size p \<and> (gp_size p = length (gp_to_continuous_buffer p) \<longrightarrow> packet_inv p)"
proof (cases "counts_bytes_read p")
  case False
  have "packet_inv p" by (rule read_inv [OF w r l False])
  then show ?thesis using inv_sends_back [OF w] by (simp add: sends_back_def)
next
  case True
  then show ?thesis
  proof (cases p)
    case (V5_Connect k)
    then show ?thesis
      using connect_read [of flags bs k n] size_tells [of "v5c_remaining_length k" n "v5_connect_body k"] r l
      by (simp add: reads_simps v5_connect_size_def)
  next
    case (V5_Connack k)
    then show ?thesis
      using connack_read [of flags bs k n] size_tells [of "v5ca_remaining_length k" n "v5_connack_body k"] r l
      by (simp add: reads_simps v5_connack_size_def)
  next
    case (V5_Subscribe k)
    then show ?thesis
      using subscription_read(1) [of flags bs k n]
        size_tells [of "v5s_remaining_length k" n "v5_entries_body sub_entry_to_continuous_buffer k"] r l
      by (simp add: reads_simps v5_entries_size_def)
  next
    case (V5_Unsubscribe k)
    then show ?thesis
      using subscription_read(2) [of flags bs k n]
        size_tells [of "v5s_remaining_length k" n "v5_entries_body ms_to_continuous_buffer k"] r l
      by (simp add: reads_simps v5_entries_size_def)
  next
    case (V5_Suback k)
    then show ?thesis
      using subscription_ack_read(1) [of flags bs k n]
        size_tells [of "v5s_remaining_length k" n "v5_entries_body (\<lambda>b. [b]) k"] r l
      by (simp add: reads_simps v5_entries_size_def)
  next
    case (V5_Unsuback k)
    then show ?thesis
      using subscription_ack_read(2) [of flags bs k n]
        size_tells [of "v5s_remaining_length k" n "v5_entries_body (\<lambda>b. [b]) k"] r l
      by (simp add: reads_simps v5_entries_size_def)
  qed simp_all
qed
section \<open>Sending back\<close>

text \<open>A CONNACK whose empty list of properties has its length 0 in two bytes.\<close>

definition padded_connack :: v5_connack where
  "padded_connack = \<lparr>v5ca_fixed_header = 0x20, v5ca_remaining_length = \<lparr>encoded = [4]\<rparr>, v5ca_ack_flags = 0,
     v5ca_reason_code_buf = 0, v5ca_property_length = \<lparr>encoded = [0]\<rparr>, v5ca_props = []\<rparr>"

lemma small_lengths: "vbi_enc 0 = [0]" "vbi_enc 4 = [4]"
  by (subst vbi_enc.simps, simp)+
lemma padded_length: "decode_stream [0x80, 0] = DecodeOk \<lparr>encoded = [0]\<rparr> 2"
  using decode_stream_eq [of "[0x80, 0]"] small_lengths by simp
lemma to_u32_0: "to_u32 \<lparr>encoded = [0]\<rparr> = 0"
  by (simp add: to_u32_def)
lemma padded_connack_read: "v5_connack_parse 0 [0, 0, 0x80, 0] = Ret (Ok (padded_connack, 4))"
proof -
  have "connect_reason_code_try_from 0 = Some Connect_Success"
    by (simp add: connect_reason_code_try_from_def connect_reason_code_all_def enum_try_from_def)
  moreover have "properties_parse [0x80, 0] = Ok ([], 2)"
    by (simp add: properties_parse_def padded_length to_u32_0)
  moreover have "validate_connack_properties [] = Ok ()"
    by (simp add: validate_connack_properties_def validate_properties_def count_id_def)
  ultimately show ?thesis
    by (simp add: v5_connack_parse_eq padded_connack_def vbi_of_Ret properties_size_def ok_or_def small_lengths)
qed

lemma padded_connack_pending: "frame (v5_connack_to_continuous_buffer padded_connack) = Frame_Pending"
  by (simp add: frame_def v5_connack_to_continuous_buffer_def padded_connack_def properties_to_continuous_buffer_def Let_def)

lemma padded_connack_size: "v5_connack_size padded_connack = length (v5_connack_to_continuous_buffer padded_connack) + 1"
  by (simp add: padded_connack_def v5_connack_size_def packet_size_of_def vbi_size_def to_u32_def
      v5_connack_to_continuous_buffer_def properties_to_continuous_buffer_def)

lemma padded_connack_facts:
  "reads 0 [0, 0, 0x80, 0] (V5_Connack padded_connack) 4 \<and> counts_bytes_read (V5_Connack padded_connack)
    \<and> gp_size (V5_Connack padded_connack) = length (gp_to_continuous_buffer (V5_Connack padded_connack)) + 1
    \<and> frame (gp_to_continuous_buffer (V5_Connack padded_connack)) = Frame_Pending"
  using reads.intros(16) [OF padded_connack_read] padded_connack_size padded_connack_pending by simp

text \<open>
  C26: what is received can be sent on, but for one kind of packets.  A packet that a parser read is sent
  back when its encoding is its first byte, the length of its body and its body, as long as
  \<open>size\<close> says, and its parser reads from this body the same packet.  This holds of every packet of v3.1.1
  and of PUBLISH, the acknowledgements, PINGREQ, PINGRESP, DISCONNECT and AUTH of v5.0.  CONNECT,
  CONNACK, SUBSCRIBE, SUBACK, UNSUBSCRIBE and UNSUBACK of v5.0 keep as remaining length the number of
  bytes read, but write the length of their properties in its shortest form: they are sent back exactly when
  \<open>size\<close> is the length of the encoding, and are announced as longer than they are otherwise.  There are
  such packets: a CONNACK of four bytes is written as a frame that never ends.
\<close>

theorem received_can_be_sent:
  assumes "packet_id_width TYPE('p::len)" and "reads flags bs (p :: 'p word packet) n" and "length bs < 268435456"
  shows "(sends_back p \<longleftrightarrow> gp_size p = length (gp_to_continuous_buffer p))
    \<and> length (gp_to_continuous_buffer p) \<le> gp_size p
    \<and> (\<not> counts_bytes_read p \<longrightarrow> sends_back p)
    \<and> (\<exists>p' :: 'p word packet. reads 0 [0, 0, 0x80, 0] p' 4 \<and> counts_bytes_read p'
        \<and> gp_size p' = length (gp_to_continuous_buffer p') + 1 \<and> frame (gp_to_continuous_buffer p') = Frame_Pending)"
proof (intro conjI)
  show "sends_back p \<longleftrightarrow> gp_size p = length (gp_to_continuous_buffer p)"
    using read_size [OF assms] inv_sends_back [OF assms(1), of p] unfolding sends_back_def by blast
  show "length (gp_to_continuous_buffer p) \<le> gp_size p" using read_size [OF assms] by blast
  show "\<not> counts_bytes_read p \<longrightarrow> sends_back p"
    using read_inv [OF assms(1,2,3)] inv_sends_back [OF assms(1), of p] by blast
  show "\<exists>p' :: 'p word packet. reads 0 [0, 0, 0x80, 0] p' 4 \<and> counts_bytes_read p'
        \<and> gp_size p' = length (gp_to_continuous_buffer p') + 1 \<and> frame (gp_to_continuous_buffer p') = Frame_Pending"
    using padded_connack_facts by blast
qed

theorem received_can_be_sent_witness:
  "sends_back (V3_Puback \<lparr>v3a_fixed_header = 0x40, v3a_remaining_length = \<lparr>encoded = [2]\<rparr>, v3a_packet_id_buf = 7,
      v3a_reason_code_buf = None\<rparr> :: 16 word packet)"
proof -
  let ?k = "\<lparr>v3a_fixed_header = 0x40, v3a_remaining_length = \<lparr>encoded = [2]\<rparr>, v3a_packet_id_buf = 7,
      v3a_reason_code_buf = None\<rparr> :: 16 word v3_ack"
  have "v3_puback_parse 0 [0, 7] = Ret (Ok (?k, 2))"
    by code_simp
  then have "reads 0 [0, 7] (V3_Puback ?k) 2" by (rule reads.intros)
  moreover have "\<not> counts_bytes_read (V3_Puback ?k)" "length [0 :: u8, 7] < 268435456" by simp_all
  ultimately show ?thesis using received_can_be_sent [OF width_16, of 0 "[0, 7]" "V3_Puback ?k" 2] by blast
qed

end
