(* ===== verification/Rendering_Laws.thy ===== *)
theory Rendering_Laws
  imports Rendering Packet_Forward Packet_Setters
begin

text \<open>
  What holds of every rendering of a packet: what the parsers accept renders without a panic, alone and
  in an event; the number of fields announced to the serializer is the number written except for
  CONNECT and an empty CONNACK; and neither the password of a CONNECT nor its length reaches a rendering.
\<close>

section \<open>Structures\<close>

definition returns :: "'a rust \<Rightarrow> bool" where
  "returns m \<longleftrightarrow> (\<exists>v. m = Ret v)"

lemma returns_simps [simp]: "returns (Ret v)" "\<not> returns (Panic e)"
  by (simp_all add: returns_def)

lemma returns_rbind: "returns (rbind m f) \<longleftrightarrow> (\<exists>v. m = Ret v \<and> returns (f v))"
  by (cases m) simp_all

lemma returns_then [simp]: "returns (rbind m (\<lambda>v. Ret (f v))) \<longleftrightarrow> returns m"
  by (cases m) simp_all

lemma fields_return: "returns (write_fields fs) \<longleftrightarrow> list_all (returns \<circ> snd) fs"
  by (induction fs) (simp_all add: returns_rbind, auto simp: returns_def)

lemma struct_returns: "returns (serialize_struct name n fss) \<longleftrightarrow> list_all (list_all (returns \<circ> snd)) fss"
  by (simp add: serialize_struct_def fields_return list_all_iff)

lemma write_fields_length: "write_fields fs = Ret vs \<Longrightarrow> length vs = length fs"
  by (induction fs arbitrary: vs) (auto simp: rbind_eq_Ret)

lemma struct_written:
  "serialize_struct name n fss = Ret v \<longleftrightarrow> (\<exists>fs. write_fields (concat fss) = Ret fs \<and> v = S_Struct name n fs)"
  by (auto simp: serialize_struct_def rbind_eq_Ret)

lemmas packet_serialize_defs =
  v3_connect_serialize_def v3_connack_serialize_def v3_subscribe_serialize_def v3_suback_serialize_def
  v3_unsubscribe_serialize_def v3_unsuback_serialize_def v3_publish_serialize_def v3_puback_serialize_def
  v3_pubrec_serialize_def v3_pubrel_serialize_def v3_pubcomp_serialize_def v3_disconnect_serialize_def
  v3_pingreq_serialize_def v3_pingresp_serialize_def v5_connect_serialize_def v5_connack_serialize_def
  v5_subscribe_serialize_def v5_suback_serialize_def v5_unsubscribe_serialize_def v5_unsuback_serialize_def
  v5_publish_serialize_def v5_puback_serialize_def v5_pubrec_serialize_def v5_pubrel_serialize_def
  v5_pubcomp_serialize_def v5_disconnect_serialize_def v5_pingreq_serialize_def v5_pingresp_serialize_def
  v5_auth_serialize_def

lemmas packet_display_defs =
  v3_connect_packet_display_def v3_connect_display_def v3_connect_debug_def v3_connack_packet_display_def v3_connack_display_def v3_connack_debug_def
  v3_subscribe_packet_display_def v3_subscribe_display_def v3_subscribe_debug_def v3_suback_packet_display_def v3_suback_display_def v3_suback_debug_def
  v3_unsubscribe_packet_display_def v3_unsubscribe_display_def v3_unsubscribe_debug_def v3_unsuback_packet_display_def v3_unsuback_display_def v3_unsuback_debug_def
  v3_publish_packet_display_def v3_publish_display_def v3_publish_debug_def v3_puback_packet_display_def v3_puback_display_def v3_puback_debug_def
  v3_pubrec_packet_display_def v3_pubrec_display_def v3_pubrec_debug_def v3_pubrel_packet_display_def v3_pubrel_display_def v3_pubrel_debug_def
  v3_pubcomp_packet_display_def v3_pubcomp_display_def v3_pubcomp_debug_def v3_disconnect_packet_display_def v3_disconnect_display_def v3_disconnect_debug_def
  v3_pingreq_packet_display_def v3_pingreq_display_def v3_pingreq_debug_def v3_pingresp_packet_display_def v3_pingresp_display_def v3_pingresp_debug_def
  v5_connect_packet_display_def v5_connect_display_def v5_connect_debug_def v5_connack_packet_display_def v5_connack_display_def v5_connack_debug_def
  v5_subscribe_packet_display_def v5_subscribe_display_def v5_subscribe_debug_def v5_suback_packet_display_def v5_suback_display_def v5_suback_debug_def
  v5_unsubscribe_packet_display_def v5_unsubscribe_display_def v5_unsubscribe_debug_def v5_unsuback_packet_display_def v5_unsuback_display_def v5_unsuback_debug_def
  v5_publish_packet_display_def v5_publish_display_def v5_publish_debug_def v5_puback_packet_display_def v5_puback_display_def v5_puback_debug_def
  v5_pubrec_packet_display_def v5_pubrec_display_def v5_pubrec_debug_def v5_pubrel_packet_display_def v5_pubrel_display_def v5_pubrel_debug_def
  v5_pubcomp_packet_display_def v5_pubcomp_display_def v5_pubcomp_debug_def v5_disconnect_packet_display_def v5_disconnect_display_def v5_disconnect_debug_def
  v5_pingreq_packet_display_def v5_pingreq_display_def v5_pingreq_debug_def v5_pingresp_packet_display_def v5_pingresp_display_def v5_pingresp_debug_def
  v5_auth_packet_display_def v5_auth_display_def v5_auth_debug_def

section \<open>Which packets render\<close>

text \<open>
  The accessors that can panic: the QoS of a PUBLISH with both bits set, the code of a CONNACK that is
  not a code, the options of a subscription that are out of range.
\<close>

definition options_renderable :: "u8 \<Rightarrow> bool" where
  "options_renderable b \<longleftrightarrow> b AND 0x03 \<noteq> 3 \<and> drop_bit 4 (b AND 0x30) \<noteq> 3"

primrec renderable :: "'p::len word packet \<Rightarrow> bool" where
   "renderable (V3_Connect p) = True"
| "renderable (V3_Connack p) = (connect_return_code_try_from (v3ca_return_code_buf p) \<noteq> None)"
| "renderable (V3_Subscribe p) = list_all (options_renderable \<circ> se_sub_opts) (v3s_entries p)"
| "renderable (V3_Suback p) = True"
| "renderable (V3_Unsubscribe p) = True"
| "renderable (V3_Unsuback p) = True"
| "renderable (V3_Publish p) = (qos_bits (v3p_fixed_header p) \<noteq> 3)"
| "renderable (V3_Puback p) = True"
| "renderable (V3_Pubrec p) = True"
| "renderable (V3_Pubrel p) = True"
| "renderable (V3_Pubcomp p) = True"
| "renderable (V3_Disconnect p) = True"
| "renderable (V3_Pingreq p) = True"
| "renderable (V3_Pingresp p) = True"
| "renderable (V5_Connect p) = True"
| "renderable (V5_Connack p) = (connect_reason_code_try_from (v5ca_reason_code_buf p) \<noteq> None)"
| "renderable (V5_Subscribe p) = list_all (options_renderable \<circ> se_sub_opts) (v5s_entries p)"
| "renderable (V5_Suback p) = True"
| "renderable (V5_Unsubscribe p) = True"
| "renderable (V5_Unsuback p) = True"
| "renderable (V5_Publish p) = (qos_bits (v5p_fixed_header p) \<noteq> 3)"
| "renderable (V5_Puback p) = True"
| "renderable (V5_Pubrec p) = True"
| "renderable (V5_Pubrel p) = True"
| "renderable (V5_Pubcomp p) = True"
| "renderable (V5_Disconnect p) = True"
| "renderable (V5_Pingreq p) = True"
| "renderable (V5_Pingresp p) = True"
| "renderable (V5_Auth p) = True"

lemma qos_of_bits_returns: "returns (qos_of_bits (b AND 0x03)) \<longleftrightarrow> b AND 0x03 \<noteq> 3"
  using and_3_cases [of b] by (auto simp: qos_of_bits_def)

lemma rh_bits: "drop_bit 4 (b AND 0x30 :: u8) = drop_bit 4 b AND 0x03"
  by (simp add: drop_bit_and)

lemma sub_opts_rh_returns: "returns (sub_opts_rh b) \<longleftrightarrow> drop_bit 4 (b AND 0x30) \<noteq> 3"
  using and_3_cases [of "drop_bit 4 b"] by (auto simp: sub_opts_rh_def rh_bits Let_def)

lemma sub_entries_return:
  "returns (sub_entries_serialize es) \<longleftrightarrow> list_all (options_renderable \<circ> se_sub_opts) es"
proof (induction es)
  case (Cons e es)
  have "returns (sub_entry_serialize e) \<longleftrightarrow> options_renderable (se_sub_opts e)"
    by (simp add: sub_entry_serialize_def sub_opts_serialize_def struct_returns sub_opts_qos_def qos_of_bits_returns
        sub_opts_rh_returns options_renderable_def)
  then show ?case using Cons.IH by (auto simp: returns_rbind) (auto simp: returns_def)
qed simp

lemma qos_bits_returns: "returns (qos_of_bits (qos_bits h)) \<longleftrightarrow> qos_bits h \<noteq> 3"
  by (simp add: qos_bits_def qos_of_bits_returns)

lemma unwrap_returns: "returns (unwrap x) \<longleftrightarrow> x \<noteq> None"
  by (cases x) simp_all

lemma packet_returns: "returns (gp_serialize p) \<longleftrightarrow> renderable p"
  by (cases p)
    (simp_all add: packet_serialize_defs struct_returns v3_connack_return_code_def v5_connack_reason_code_def
      v3_publish_qos_def v5_publish_qos_def qos_bits_returns unwrap_returns sub_entries_return split: option.split)

section \<open>What the parsers make\<close>

definition parsed :: "'p::len word packet \<Rightarrow> bool" where
  "parsed p \<longleftrightarrow> (\<exists>flags bs n. reads flags bs p n \<and> length bs < 268435456)"

lemmas parsed_simps = parsed_def reads_simps

lemma v5_connack_parsed:
  "v5_connack_parse flags bs = Ret (Ok (k, n)) \<Longrightarrow> connect_reason_code_try_from (v5ca_reason_code_buf k) \<noteq> None"
  by (auto simp: v5_connack_parse_eq Let_def tbind_eq_Ok rbind_eq_Ret ok_or_def split: if_splits option.splits)

lemma options_parsed:
  assumes "sub_opts_from_u8 b = Ok b"
  shows "options_renderable b"
proof -
  have "\<not> b AND 0x03 > 2" "\<not> drop_bit 4 (b AND 0x30) > 2"
    using assms by (auto simp: sub_opts_from_u8_def split: if_splits)
  then show ?thesis by (auto simp: options_renderable_def)
qed

lemma entries_parsed: "list_all sub_entry_inv es \<Longrightarrow> list_all (options_renderable \<circ> se_sub_opts) es"
  by (auto simp: list_all_iff sub_entry_inv_def intro: options_parsed)

lemma v5_subscribe_parsed:
  assumes "v5_subscribe_parse flags bs = Ret (Ok (k, n))"
  shows "list_all sub_entry_inv (v5s_entries k)"
proof -
  from assms obtain ps m es c where p: "properties_parse (drop (pid_size TYPE('a)) bs) = Ok (ps, m)"
    and l: "sub_entries_loop bs (pid_size TYPE('a) + m) [] = Ok (es, c)" and k: "v5s_entries k = es"
    and len: "pid_size TYPE('a) \<le> length bs"
    by (auto simp: v5_subscribe_parse_eq v5_entries_parse_eq Let_def tbind_eq_Ok rbind_eq_Ret split: if_splits)
  have "pid_size TYPE('a) + m \<le> length bs"
    using properties_codec.dec_bounds [OF p] len by simp linarith
  then show ?thesis using sub_entries.loop_sound [OF l] k by simp
qed

lemma parsed_renderable:
  assumes w: "packet_id_width TYPE('p::len)" and "parsed (p :: 'p word packet)"
  shows "renderable p"
proof (cases "counts_bytes_read p")
  case False
  then have "packet_inv p" using read_inv [OF w] assms(2) by (auto simp: parsed_def)
  then show ?thesis
    by (cases p) (auto simp: v3_connack_inv_def v3_publish_inv_def v5_publish_inv_def v5_publish_wf_def v3_entries_inv_def
        v5_connack_inv_def v5_entries_inv_def
        intro: entries_parsed)
next
  case True
  then show ?thesis
    using assms(2) by (cases p) (auto simp: parsed_simps dest!: v5_connack_parsed v5_subscribe_parsed intro: entries_parsed)
qed

lemma gp_rendered:
  assumes "gp_serialize p = Ret v"
  shows "\<exists>name w. v = S_Newtype_Variant ''GenericPacket'' name w \<and> gp_display js p = Ret (json_display js w)
    \<and> gp_debug js p = Ret (json_display js w)"
  using assms by (cases p) (auto simp: rbind_eq_Ret gp_display_def gp_debug_def packet_display_defs)

lemma event_returns: "returns (event_serialize (NotifyPacketReceived p)) \<longleftrightarrow> returns (gp_serialize p)"
  "returns (event_serialize (RequestSendPacket p i)) \<longleftrightarrow> returns (gp_serialize p)"
  by (simp_all add: struct_returns)

text \<open>
  C27: when a packet can be logged.  Rendering a packet, alone or in an event, panics exactly when it is
  a PUBLISH with both QoS bits set, a CONNACK with a byte that is no code, or a SUBSCRIBE with the
  QoS or the retain handling of an entry out of range; no packet that a parser of either version
  accepts is of this kind, so what comes from the network can be logged: \<open>Serialize\<close> of the enumeration
  gives the value under the name of its variant, \<open>Display\<close> and \<open>Debug\<close> both show the value itself.
\<close>

theorem rendering_total:
  assumes "packet_id_width TYPE('p::len)"
  shows "(returns (gp_serialize p) \<longleftrightarrow> renderable p)
    \<and> (returns (event_serialize (NotifyPacketReceived p)) \<longleftrightarrow> renderable p)
    \<and> (returns (event_serialize (RequestSendPacket p i)) \<longleftrightarrow> renderable p)
    \<and> (parsed (p :: 'p word packet) \<longrightarrow>
        (\<exists>name w. gp_serialize p = Ret (S_Newtype_Variant ''GenericPacket'' name w)
          \<and> gp_display js p = Ret (json_display js w) \<and> gp_debug js p = Ret (json_display js w)))"
proof (intro conjI impI)
  assume "parsed p"
  then obtain v where v: "gp_serialize p = Ret v"
    using packet_returns [of p] parsed_renderable [OF assms] by (auto simp: returns_def)
  then show "\<exists>name w. gp_serialize p = Ret (S_Newtype_Variant ''GenericPacket'' name w)
      \<and> gp_display js p = Ret (json_display js w) \<and> gp_debug js p = Ret (json_display js w)"
    using gp_rendered [OF v] by auto
qed (simp_all only: event_returns packet_returns)

theorem rendering_total_witness:
  "\<exists>name w. gp_serialize (V3_Puback \<lparr>v3a_fixed_header = 0x40, v3a_remaining_length = \<lparr>encoded = [2]\<rparr>, v3a_packet_id_buf = 7,
      v3a_reason_code_buf = None\<rparr> :: 16 word packet) = Ret (S_Newtype_Variant ''GenericPacket'' name w)"
proof -
  let ?k = "\<lparr>v3a_fixed_header = 0x40, v3a_remaining_length = \<lparr>encoded = [2]\<rparr>, v3a_packet_id_buf = 7,
      v3a_reason_code_buf = None\<rparr> :: 16 word v3_ack"
  have w: "packet_id_width TYPE(16)" by (simp add: packet_id_width_def)
  have "v3_puback_parse 0 [0, 7] = Ret (Ok (?k, 2))"
    by code_simp
  then have "parsed (V3_Puback ?k)" by (auto simp: parsed_simps intro!: exI [of _ "[0, 7]"])
  then show ?thesis using rendering_total [OF w, of "V3_Puback ?k"] by blast
qed

section \<open>The number of fields\<close>

text \<open>By how much the number of fields announced exceeds the number written.\<close>

primrec field_excess :: "'p::len word packet \<Rightarrow> int" where
   "field_excess (V3_Connect p) = 1"
| "field_excess (V3_Connack p) = 0"
| "field_excess (V3_Subscribe p) = 0"
| "field_excess (V3_Suback p) = 0"
| "field_excess (V3_Unsubscribe p) = 0"
| "field_excess (V3_Unsuback p) = 0"
| "field_excess (V3_Publish p) = 0"
| "field_excess (V3_Puback p) = 0"
| "field_excess (V3_Pubrec p) = 0"
| "field_excess (V3_Pubrel p) = 0"
| "field_excess (V3_Pubcomp p) = 0"
| "field_excess (V3_Disconnect p) = 0"
| "field_excess (V3_Pingreq p) = 0"
| "field_excess (V3_Pingresp p) = 0"
| "field_excess (V5_Connect p) = (if v5c_props p = [] then 1 else 0)"
| "field_excess (V5_Connack p) = (if v5ca_props p = [] then - 1 else 0)"
| "field_excess (V5_Subscribe p) = 0"
| "field_excess (V5_Suback p) = 0"
| "field_excess (V5_Unsubscribe p) = 0"
| "field_excess (V5_Unsuback p) = 0"
| "field_excess (V5_Publish p) = 0"
| "field_excess (V5_Puback p) = 0"
| "field_excess (V5_Pubrec p) = 0"
| "field_excess (V5_Pubrel p) = 0"
| "field_excess (V5_Pubcomp p) = 0"
| "field_excess (V5_Disconnect p) = 0"
| "field_excess (V5_Pingreq p) = 0"
| "field_excess (V5_Pingresp p) = 0"
| "field_excess (V5_Auth p) = 0"

lemma struct_counts:
  "serialize_struct name n fss = Ret v \<Longrightarrow> v = S_Struct name' c fs \<Longrightarrow> c = n \<and> length fs = length (concat fss)"
  by (auto simp: struct_written dest: write_fields_length)

text \<open>
  The fields of a packet are counted before they are written.  The two numbers agree for all types but
  CONNECT, where one field too many is announced by v3.1.1 always and by v5.0 without
  properties, and CONNACK of v5.0, where one too few is announced without properties.
\<close>

theorem rendering_field_counts:
  assumes "gp_serialize p = Ret (S_Newtype_Variant e variant (S_Struct name c fs))"
  shows "int c = int (length fs) + field_excess p"
  using assms
  by (cases p)
    (auto simp: rbind_eq_Ret packet_serialize_defs v3_will_payload_def v5_will_payload_def dest!: struct_counts [OF _ refl]
      split: if_splits option.splits)

section \<open>Passwords\<close>

lemma v3_connect_renders_same:
  "v3_connect_serialize (k\<lparr>v3c_password_buf := pw, v3c_remaining_length := rl\<rparr>) = v3_connect_serialize k"
  by (simp add: v3_connect_serialize_def v3_client_id_def v3_clean_session_def v3_keep_alive_def v3_user_name_flag_def
      v3_user_name_def v3_password_flag_def v3_will_flag_def v3_will_qos_def v3_will_retain_def v3_will_topic_def
      v3_will_payload_def)

lemma v5_connect_renders_same:
  "v5_connect_serialize (k\<lparr>v5c_password_buf := pw, v5c_remaining_length := rl\<rparr>) = v5_connect_serialize k"
  by (simp add: v5_connect_serialize_def v5_client_id_def v5_clean_start_def v5_keep_alive_def v5_user_name_flag_def
      v5_user_name_def v5_password_flag_def v5_will_flag_def v5_will_qos_def v5_will_retain_def v5_will_topic_def
      v5_will_payload_def)

text \<open>
  C28: a password does not reach the log.  Of two CONNECT packets that differ in the password
  and in the remaining length, which would give its length away, every rendering is the same: the
  value, the text of \<open>Display\<close> and \<open>Debug\<close>, and the events in which the packet is sent or received.
\<close>

theorem password_hidden:
  "gp_serialize (V3_Connect (k\<lparr>v3c_password_buf := pw, v3c_remaining_length := rl\<rparr>)) = gp_serialize (V3_Connect k)
   \<and> gp_display js (V3_Connect (k\<lparr>v3c_password_buf := pw, v3c_remaining_length := rl\<rparr>)) = gp_display js (V3_Connect k)
   \<and> gp_debug js (V3_Connect (k\<lparr>v3c_password_buf := pw, v3c_remaining_length := rl\<rparr>)) = gp_debug js (V3_Connect k)
   \<and> event_debug js (RequestSendPacket (V3_Connect (k\<lparr>v3c_password_buf := pw, v3c_remaining_length := rl\<rparr>)) i)
       = event_debug js (RequestSendPacket (V3_Connect k) i)
   \<and> event_debug js (NotifyPacketReceived (V3_Connect (k\<lparr>v3c_password_buf := pw, v3c_remaining_length := rl\<rparr>)))
       = event_debug js (NotifyPacketReceived (V3_Connect k))
   \<and> gp_serialize (V5_Connect (k'\<lparr>v5c_password_buf := pw, v5c_remaining_length := rl\<rparr>)) = gp_serialize (V5_Connect k')
   \<and> gp_display js (V5_Connect (k'\<lparr>v5c_password_buf := pw, v5c_remaining_length := rl\<rparr>)) = gp_display js (V5_Connect k')
   \<and> gp_debug js (V5_Connect (k'\<lparr>v5c_password_buf := pw, v5c_remaining_length := rl\<rparr>)) = gp_debug js (V5_Connect k')
   \<and> event_debug js (RequestSendPacket (V5_Connect (k'\<lparr>v5c_password_buf := pw, v5c_remaining_length := rl\<rparr>)) i)
       = event_debug js (RequestSendPacket (V5_Connect k') i)
   \<and> event_debug js (NotifyPacketReceived (V5_Connect (k'\<lparr>v5c_password_buf := pw, v5c_remaining_length := rl\<rparr>)))
       = event_debug js (NotifyPacketReceived (V5_Connect k'))"
  by (simp add: v3_connect_renders_same v5_connect_renders_same gp_display_def gp_debug_def packet_display_defs
      event_debug_def event_display_def)

section \<open>Properties\<close>

lemma property_display_id:
  "\<exists>rest. property_display js p =
     lit ''{'' @ display_member ''id'' (quoted (property_id_display js (property_id_of p))) @ rest"
  by (cases p) (simp_all add: display_object_def binary_property_display_def string_property_display_def
      string_pair_property_display_def u8_property_display_def u16_property_display_def u32_property_display_def
      variable_integer_property_display_def split: option.split)

text \<open>
  \<open>Display\<close> of a property is not JSON.  With a serializer that writes a name between quotes the identifier
  stands between two pairs of quotes, since \<open>Display\<close> of \<open>PropertyId\<close> has already quoted it.
\<close>

theorem property_display_quotes_twice:
  assumes "js (S_Str (lit (property_id_as_str (property_id_of p)))) = Ok (quoted (lit (property_id_as_str (property_id_of p))))"
  shows "\<exists>rest. property_display js p =
     lit ''{'' @ display_member ''id'' (quoted (quoted (lit (property_id_as_str (property_id_of p))))) @ rest"
  using property_display_id [of js p] assms by (simp add: property_id_display_def property_id_serialize_def json_display_def)

end
