(* ===== verification/Spec2Isabelle.thy ===== *)
theory Spec2Isabelle
  imports Connection_Limits Connection_Checked Connection_Stream Connection_Delivery Parsers_V50 Arc_Payload
    Property_Access Value_Interface Rendering_Laws
begin

text \<open>
  A verification development for the Rust crate \<^verbatim>\<open>mqtt-protocol-core\<close> (\<^verbatim>\<open>src/src/\<close>), a sans-I/O
  implementation of MQTT v3.1.1 and v5.0: the application hands it bytes and packets, and it answers
  with events that say what to send, what was received and which timers to run.

  \<^bold>\<open>The program and its model.\<close>  A connection (\<^verbatim>\<open>connection/core.rs\<close>) owns a packet builder that cuts the
  byte stream into packets, a manager of packet identifiers over an interval allocator, a store of the packets
  to send again, and the two topic alias tables.  Received bytes go through the builder to the parser of the packet
  type and to the handler of the packet; packets to send go to a handler and come back as events.
  Each Rust struct is a record, each enum a datatype, an integer of \<open>w\<close> bits a \<open>w word\<close>, \<open>&mut self\<close> a
  state that is passed and returned.  A method that may panic returns \<open>Panic\<close> or \<open>Ret\<close>, one that may
  fail an \<open>Ok\<close> or \<open>Err\<close> value.  Overflow of \<open>+\<close> and \<open>-\<close>, \<open>unwrap\<close> and assertions are panics, as in a debug build.  In the parsers
  an index or a slice of the received bytes that is out of range is a panic as well (\<open>idx\<close>, \<open>slice_from\<close>, \<open>subslice\<close>, \<open>usize_sub\<close>).  Where a
  parser does not panic there are two definitions, \<open>rs_f\<close> with these panics, which is the source line by line and which the parsers of packets
  call, and \<open>f\<close>, the value it returns, with the lemma \<open>rs_f\<close> that says so; a packet parser \<open>f\<close> has an equation \<open>f_eq\<close> of that kind.

  \<^bold>\<open>The theories\<close>, in the order of their imports:

  \<^item> \<open>Rust_Prelude\<close>: panics, results, checked arithmetic, bytes in big-endian order, UTF-8.  \<open>Result_Code\<close>,
    \<open>Protocol_Types\<close>: \<^verbatim>\<open>mqtt/result_code.rs\<close> and the small enumerations (\<^verbatim>\<open>qos.rs\<close>, \<^verbatim>\<open>packet_type.rs\<close>,
    \<^verbatim>\<open>version.rs\<close>, \<^verbatim>\<open>role.rs\<close>, \<^verbatim>\<open>retain_handling.rs\<close>); the locale \<open>wire_enum\<close> is the contract between an
    enumeration and its codes.
  \<^item> \<open>Value_Allocator\<close>, \<open>Packet_Id\<close>, \<open>Topic_Alias\<close>: \<^verbatim>\<open>common/value_allocator.rs\<close>, \<^verbatim>\<open>packet/packet_id.rs\<close>,
    \<^verbatim>\<open>connection/packet_id_manager.rs\<close>, \<^verbatim>\<open>packet/topic_alias_recv.rs\<close> and \<^verbatim>\<open>topic_alias_send.rs\<close>.  The allocator
    refines a set of vacant values (locale \<open>id_pool\<close>), both alias tables a map from aliases to topics (\<open>alias_table\<close>).
  \<^item> \<open>Variable_Byte_Integer\<close>, \<open>Packet_Builder\<close>: \<^verbatim>\<open>packet/variable_byte_integer.rs\<close>,
    \<^verbatim>\<open>connection/packet_builder.rs\<close>, \<^verbatim>\<open>common/cursor.rs\<close>.  The builder refines \<open>frame\<close>, a function on byte strings
    that finds the first packet.
  \<^item> \<open>Mqtt_String\<close>, \<open>Arc_Payload\<close>, \<open>Property\<close>, \<open>Property_Access\<close>: \<^verbatim>\<open>packet/mqtt_string.rs\<close>, \<^verbatim>\<open>mqtt_binary.rs\<close>,
    \<^verbatim>\<open>common/arc_payload.rs\<close>, \<^verbatim>\<open>packet/property.rs\<close>, with and without the buffers for short values.  The locales \<open>codec\<close>,
    \<open>codec_loop\<close> and \<open>strict_codec\<close> are the contract of everything that is decoded.
  \<^item> \<open>Packets_V311\<close>, \<open>Connect_V311\<close>, \<open>Packet_Setters\<close>: \<^verbatim>\<open>packet/v3_1_1/\<close> and \<^verbatim>\<open>packet/sub_entry.rs\<close>;
    \<open>Packets_V50\<close>, \<open>Subscription_V50\<close>, \<open>Publish_V50\<close>, \<open>Connect_V50\<close>, \<open>Parsers_V50\<close>: \<^verbatim>\<open>packet/v5_0/\<close>.  The packets that the source
    writes out several times with the same code (the four acknowledgements, SUBSCRIBE with UNSUBSCRIBE and
    their answers, DISCONNECT with AUTH) are one definition with the fixed header, the reason codes and the validation
    as arguments.  The locales \<open>packet_wire\<close> and \<open>packet_codec\<close> are the contract of a packet type.
  \<^item> \<open>Fluent_Builder\<close>, \<open>Ack_Interface\<close>, \<open>Entries_Interface\<close>: the accessors, setters and builders of these packets,
    type by type as the files have them.  The locale \<open>fluent_builder\<close> is the contract of \<^verbatim>\<open>T::builder()\<close>, a
    chain of setters and \<^verbatim>\<open>build()\<close>: only the last value of each setter counts.
  \<^item> \<open>Packet_Trait\<close>, \<open>Packet_Forward\<close>: \<^verbatim>\<open>GenericPacketTrait\<close> of \<^verbatim>\<open>packet/enum_packet.rs\<close> as a record of its
    methods, the implementations of all 29 packet types, and the packets without entries.  The locale \<open>sendable_packet\<close>
    is the contract of the trait: the slices are the encoding, a frame as long as \<open>size\<close> says.
  \<^item> \<open>Value_Interface\<close>: what applications use of result codes, strings, binary data, subscription entries,
    kinds of properties and raw packets.
  \<^item> \<open>Rendering_Base\<close>, \<open>Rendering\<close>, \<open>Rendering_Laws\<close>: \<open>Serialize\<close>, \<open>Display\<close> and \<open>Debug\<close> of codes, properties, packets
    and events, and \<^verbatim>\<open>packet/json_bin_encode.rs\<close>.  A rendering is a value of the data model of serde (\<open>ser\<close>);
    \<^verbatim>\<open>serde_json::to_string\<close> is code of another crate and the parameter \<open>js\<close>.
  \<^item> \<open>Store\<close>, \<open>Io_Buffers\<close>: \<^verbatim>\<open>packet/enum_packet.rs\<close>, \<^verbatim>\<open>enum_store_packet.rs\<close>, \<^verbatim>\<open>connection/store.rs\<close> (locale
    \<open>packet_store\<close>), and \<open>to_buffers\<close> of every packet.
  \<^item> \<open>Connection_State\<close>, \<open>Connection_Send\<close>, \<open>Connection_Recv\<close>: \<^verbatim>\<open>connection/core.rs\<close> and \<^verbatim>\<open>event.rs\<close>.  A
    handler takes the state to events and a state; \<open>steps\<close>, \<open>branch\<close>, \<open>reads\<close> and \<open>calls\<close> put handlers together in the order of the
    source.  \<open>Connection_Checked\<close>: \<^verbatim>\<open>packet/kind.rs\<close> and \<^verbatim>\<open>connection/sendable*.rs\<close>, the sending that is checked at compile time.
  \<^item> \<open>Connection_Events\<close>, \<open>Connection_Invariants\<close>: the locales \<open>handler_relation\<close>, \<open>session_relation\<close> and
    \<open>byte_relation\<close> lift a relation between two states and the events between them from single steps to every public
    operation; their interpretations are the state invariant, the timers, the identifiers and the packet builder.
    \<open>reachable\<close> is the inductive relation of the states an application can bring a connection to.
  \<^item> \<open>Connection_Behaviour\<close>, \<open>Connection_Wire\<close>, \<open>Connection_Safety\<close>, \<open>Connection_Stream\<close>, \<open>Connection_Limits\<close>,
    \<open>Connection_Exchange\<close>, \<open>Connection_Delivery\<close>: what a connection does, in one call, in a receive loop, in an exchange with another
    connection, and in a whole session.

  \<^bold>\<open>What is shown.\<close>  Of the parts: encodings and parsers are inverse and no bytes make a parser panic, by an index or a slice either; builders give
    well-formed packets or the stated error; the builder of packets finds exactly the frames of the stream; the pool,
    the alias tables and the store behave as sets and maps; vectored and plain encodings agree, and so do the
  variants of strings and payloads for every feature set; a packet that was received can be sent on, but for those of v5.0 whose
  property length was not written in its shortest form; what was received renders without a panic, and no
  rendering depends on a password.  Of the connection: every reachable state is well-formed; the timer events tell the truth about the timers and the
    release events about the identifiers; nothing is sent in a status that forbids it, beyond the maximum packet size of the peer
    (but for an automatic topic alias in the place of a short topic, by at most four bytes) or by a role whose peer would refuse it; a session resumes with its
    stored packets in order; closing leaves exactly what a kept session needs; a QoS 2 publish of v3.1.1 is delivered once for each PUBREL of a session; cutting
    the byte stream differently changes nothing, and a receive loop ends.  Of two connections: a QoS 2 exchange
    runs to its end and releases its identifier.  The inputs on which the code panics are part of the statements.

  \<^bold>\<open>Bounds and fuel.\<close>  A body shorter than 2097152 bytes is what the builder accepts, because of its bound on the fourth byte
  of a remaining length; the format allows 268435455.  Identifiers have 16 or 32 bits (\<open>packet_id_width\<close>), the
  two instances of \<open>IsPacketId\<close>.  The receive loop is a \<open>partial_function\<close>; that it returns is
  a theorem.  \<open>exchange\<close> counts turns, and four are enough for QoS 2.  All other loops terminate by a measure or structurally.
  A length is a natural number: \<open>usize\<close> is not exhausted by buffers in memory.

  \<^bold>\<open>Not modelled.\<close>  Log and trace messages (\<^verbatim>\<open>common/tracing.rs\<close>) and the dump of the allocator print state
  and return nothing.  Of the text that \<open>js\<close> makes nothing is assumed; \<open>Hash\<close>, and the \<open>Debug\<close> that Rust derives,
  are code of the compiler.  The order in which a \<open>HashSet\<close> is drained is an
  argument (\<open>order\<close>).  Sharing of memory by \<open>Arc\<close> and the \<open>IoSlice\<close> type are modelled by the bytes they denote.
  Rows of traits that only name a type (the markers of roles and versions, conversions that cannot fail, from
  a packet into the enumeration) are the constructors of the datatypes.  Examples, tests and the module
  files hold no code of the library.
\<close>

end
